(* ===== verification/Go_Prelude.thy ===== *)
theory Go_Prelude
  imports Main "HOL-Library.Char_ord" "HOL-Library.List_Lexorder" "HOL-Library.Multiset"
    "HOL-Library.Code_Target_Nat"
begin

text \<open>
  What the policy core of tobari uses of the Go language and of its packages \<open>strings\<close>,
  \<open>strconv\<close>, \<open>unicode/utf8\<close> and \<open>sort\<close>, and the generic lemmas the components share.

  \<^item> A Go string is a byte sequence, here a \<^typ>\<open>string\<close> (a list of 8-bit characters), compared
    lexicographically by bytes (the order of \<open>Char_ord\<close> and \<open>List_Lexorder\<close>).
  \<^item> A Go \<open>error\<close> is \<open>nil\<close> or a message: \<open>check\<close>, where \<^term>\<open>None\<close> is \<open>nil\<close>. A function that
    returns a value and an error returns \<open>'a result\<close>.
  \<^item> A slice is a list; where the code tells \<open>nil\<close> from an empty slice it is a list option.
  \<^item> A map used as a set of keys already seen is the list of those keys.
\<close>

named_theorems check_simps
named_theorems sep_free

section \<open>Errors as values\<close>

type_synonym error = string
type_synonym check = "error option"
type_synonym 'a result = "error + 'a"

text \<open>A sequence of \<open>if err := ...; err != nil { return err }\<close> statements.\<close>

fun first_error :: "check list \<Rightarrow> check" where
  "first_error [] = None"
| "first_error (c # cs) = (case c of None \<Rightarrow> first_error cs | Some e \<Rightarrow> Some e)"

text \<open>\<open>if b { return fmt.Errorf(e) }\<close>\<close>

definition reject :: "bool \<Rightarrow> error \<Rightarrow> check" where
  "reject b e = (if b then Some e else None)"

text \<open>\<open>if err != nil { return fmt.Errorf("p: %w", err) }\<close> and the same with the cause dropped.\<close>

definition wrap :: "error \<Rightarrow> check \<Rightarrow> check" where
  "wrap p c = map_option (\<lambda>e. p @ '': '' @ e) c"

definition instead :: "error \<Rightarrow> check \<Rightarrow> check" where
  "instead p c = map_option (\<lambda>_. p) c"

text \<open>\<open>if err != nil { return T{}, err }; return x, nil\<close>\<close>

definition checked :: "check \<Rightarrow> 'a \<Rightarrow> 'a result" where
  "checked c x = (case c of None \<Rightarrow> Inr x | Some e \<Rightarrow> Inl e)"

definition and_then :: "'a result \<Rightarrow> ('a \<Rightarrow> 'b result) \<Rightarrow> 'b result" where
  "and_then r f = (case r of Inl e \<Rightarrow> Inl e | Inr x \<Rightarrow> f x)"

text \<open>A computation that runs only after its checks have passed.\<close>

definition guarded :: "check \<Rightarrow> 'a result \<Rightarrow> 'a result" where
  "guarded c r = (case c of None \<Rightarrow> r | Some e \<Rightarrow> Inl e)"

text \<open>A loop that stops at the first element whose check fails.\<close>

definition check_each :: "('a \<Rightarrow> check) \<Rightarrow> 'a list \<Rightarrow> check" where
  "check_each f xs = first_error (map f xs)"

text \<open>The loop \<open>for x { validate x; if seen[key x] { return e }; seen[key x] = true }\<close>.\<close>

fun check_items :: "('a \<Rightarrow> check) \<Rightarrow> ('a \<Rightarrow> 'k) \<Rightarrow> error \<Rightarrow> 'k list \<Rightarrow> 'a list \<Rightarrow> check" where
  "check_items v key e seen [] = None"
| "check_items v key e seen (x # xs) =
     first_error [v x, reject (key x \<in> set seen) e, check_items v key e (key x # seen) xs]"

text \<open>A loop that builds a slice with a fallible constructor.\<close>

fun map_result :: "('a \<Rightarrow> 'b result) \<Rightarrow> 'a list \<Rightarrow> 'b list result" where
  "map_result f [] = Inr []"
| "map_result f (x # xs) =
     (case f x of Inl e \<Rightarrow> Inl e
      | Inr y \<Rightarrow> (case map_result f xs of Inl e \<Rightarrow> Inl e | Inr ys \<Rightarrow> Inr (y # ys)))"

text \<open>The elements of a slice that may be \<open>nil\<close>.\<close>

definition elems :: "'a list option \<Rightarrow> 'a list" where
  "elems xs = (case xs of None \<Rightarrow> [] | Some ys \<Rightarrow> ys)"

lemma elems_simps [simp]: "elems None = []" "elems (Some xs) = xs"
  by (simp_all add: elems_def)

lemma first_error_None [check_simps]:
  "first_error (c # cs) = None \<longleftrightarrow> c = None \<and> first_error cs = None"
  by (cases c) auto

declare first_error.simps(2) [simp del]

lemma reject_None [check_simps]: "reject b e = None \<longleftrightarrow> \<not> b"
  by (simp add: reject_def)

lemma wrap_None [check_simps]: "wrap p c = None \<longleftrightarrow> c = None"
  by (simp add: wrap_def)

lemma instead_None [check_simps]: "instead p c = None \<longleftrightarrow> c = None"
  by (simp add: instead_def)

lemma checked_Inr [check_simps]: "checked c x = Inr y \<longleftrightarrow> c = None \<and> x = y"
  by (cases c) (auto simp: checked_def)

lemma and_then_Inr [check_simps]:
  "and_then r f = Inr y \<longleftrightarrow> (\<exists>x. r = Inr x \<and> f x = Inr y)"
  by (cases r) (auto simp: and_then_def)

lemma guarded_Inr [check_simps]: "guarded c r = Inr y \<longleftrightarrow> c = None \<and> r = Inr y"
  by (cases c) (auto simp: guarded_def)

lemma check_each_None [check_simps]: "check_each f xs = None \<longleftrightarrow> (\<forall>x \<in> set xs. f x = None)"
  by (induction xs) (auto simp: check_each_def check_simps)

lemma check_items_None [check_simps]:
  "check_items v key e seen xs = None \<longleftrightarrow>
     (\<forall>x \<in> set xs. v x = None) \<and> distinct (map key xs) \<and> key ` set xs \<inter> set seen = {}"
  by (induction xs arbitrary: seen) (auto simp: check_simps)

lemma map_result_Inr: "map_result f xs = Inr ys \<longleftrightarrow> list_all2 (\<lambda>x y. f x = Inr y) xs ys"
proof (induction xs arbitrary: ys)
  case Nil
  then show ?case by auto
next
  case (Cons x xs)
  then show ?case
    by (cases ys; cases "f x"; cases "map_result f xs") auto
qed

lemma first_error_filter: "first_error cs = None \<longleftrightarrow> (\<forall>c \<in> set cs. c = None)"
  by (induction cs) (auto simp: check_simps)

section \<open>The package strings\<close>

definition strings_HasPrefix :: "string \<Rightarrow> string \<Rightarrow> bool" where
  "strings_HasPrefix s p = (take (length p) s = p)"

definition strings_HasSuffix :: "string \<Rightarrow> string \<Rightarrow> bool" where
  "strings_HasSuffix s p = strings_HasPrefix (rev s) (rev p)"

definition strings_TrimPrefix :: "string \<Rightarrow> string \<Rightarrow> string" where
  "strings_TrimPrefix s p = (if strings_HasPrefix s p then drop (length p) s else s)"

definition strings_TrimSuffix :: "string \<Rightarrow> string \<Rightarrow> string" where
  "strings_TrimSuffix s p = (if strings_HasSuffix s p then take (length s - length p) s else s)"

text \<open>\<open>strings.Trim(s, cut)\<close> for a one-byte cutset.\<close>

definition strings_Trim :: "string \<Rightarrow> char \<Rightarrow> string" where
  "strings_Trim s c = rev (dropWhile (\<lambda>x. x = c) (rev (dropWhile (\<lambda>x. x = c) s)))"

fun strings_Contains :: "string \<Rightarrow> string \<Rightarrow> bool" where
  "strings_Contains [] p = (p = [])"
| "strings_Contains (x # s) p = (strings_HasPrefix (x # s) p \<or> strings_Contains s p)"

definition strings_ContainsAny :: "string \<Rightarrow> string \<Rightarrow> bool" where
  "strings_ContainsAny s cs = list_ex (\<lambda>c. c \<in> set cs) s"

definition strings_ContainsByte :: "string \<Rightarrow> char \<Rightarrow> bool" where
  "strings_ContainsByte s c = list_ex (\<lambda>x. x = c) s"

text \<open>\<open>strings.Split(s, sep)\<close> for a one-byte separator.\<close>

fun strings_Split :: "string \<Rightarrow> char \<Rightarrow> string list" where
  "strings_Split [] c = [[]]"
| "strings_Split (x # s) c =
     (if x = c then [] # strings_Split s c
      else (case strings_Split s c of [] \<Rightarrow> [[x]] | y # ys \<Rightarrow> (x # y) # ys))"

text \<open>\<open>strings.SplitN(s, sep, 2)\<close>: \<^term>\<open>None\<close> is a result of one element, the whole string.\<close>

fun strings_Split2 :: "string \<Rightarrow> string \<Rightarrow> (string \<times> string) option" where
  "strings_Split2 [] p = (if p = [] then Some ([], []) else None)"
| "strings_Split2 (x # s) p =
     (if strings_HasPrefix (x # s) p then Some ([], drop (length p) (x # s))
      else map_option (\<lambda>(a, b). (x # a, b)) (strings_Split2 s p))"

fun strings_Join :: "string list \<Rightarrow> string \<Rightarrow> string" where
  "strings_Join [] sep = []"
| "strings_Join [x] sep = x"
| "strings_Join (x # y # xs) sep = x @ sep @ strings_Join (y # xs) sep"

definition byte_lower :: "char \<Rightarrow> char" where
  "byte_lower c =
     (let n = (of_char c :: nat) in if 65 \<le> n \<and> n \<le> 90 then char_of (n + 32) else c)"

text \<open>\<open>strings.ToLower\<close> on the bytes of an ASCII string.\<close>

definition strings_ToLower :: "string \<Rightarrow> string" where
  "strings_ToLower s = map byte_lower s"

lemma HasPrefix_append [simp]: "strings_HasPrefix (p @ s) p"
  by (simp add: strings_HasPrefix_def)

lemma HasPrefix_iff: "strings_HasPrefix s p \<longleftrightarrow> (\<exists>r. s = p @ r)"
proof
  assume "strings_HasPrefix s p"
  then have "s = p @ drop (length p) s"
    unfolding strings_HasPrefix_def by (metis append_take_drop_id)
  then show "\<exists>r. s = p @ r" ..
qed auto

lemma HasSuffix_iff: "strings_HasSuffix s p \<longleftrightarrow> (\<exists>r. s = r @ p)"
proof -
  have "strings_HasSuffix s p \<longleftrightarrow> (\<exists>r. rev s = rev p @ r)"
    by (simp add: strings_HasSuffix_def HasPrefix_iff)
  also have "\<dots> \<longleftrightarrow> (\<exists>r. s = r @ p)"
    by (metis rev_append rev_rev_ident)
  finally show ?thesis .
qed

lemma TrimPrefix_append [simp]: "strings_TrimPrefix (p @ s) p = s"
  by (simp add: strings_TrimPrefix_def)

lemma TrimSuffix_append [simp]: "strings_TrimSuffix (s @ p) p = s"
  by (simp add: strings_TrimSuffix_def HasSuffix_iff)

lemma TrimPrefix_HasPrefix: "strings_HasPrefix s p \<Longrightarrow> s = p @ strings_TrimPrefix s p"
  by (auto simp: HasPrefix_iff)

lemma ContainsAny_iff: "strings_ContainsAny s cs \<longleftrightarrow> set s \<inter> set cs \<noteq> {}"
  by (auto simp: strings_ContainsAny_def list_ex_iff)

lemma ContainsByte_iff: "strings_ContainsByte s c \<longleftrightarrow> c \<in> set s"
  by (auto simp: strings_ContainsByte_def list_ex_iff)

lemma Contains_iff: "strings_Contains s p \<longleftrightarrow> (\<exists>a b. s = a @ p @ b)"
proof (induction s)
  case Nil
  then show ?case by auto
next
  case (Cons x s)
  have "(\<exists>a b. x # s = a @ p @ b) \<longleftrightarrow> (\<exists>b. x # s = p @ b) \<or> (\<exists>a b. s = a @ p @ b)"
    by (metis append_Cons append_Nil list.sel(3) neq_Nil_conv)
  with Cons show ?case by (simp add: HasPrefix_iff)
qed

lemma Split_not_Nil [simp]: "strings_Split s c \<noteq> []"
  by (induction s) (auto split: list.splits)

lemma Join_Cons: "xs \<noteq> [] \<Longrightarrow> strings_Join (x # xs) sep = x @ sep @ strings_Join xs sep"
  by (cases xs) auto

lemma Join_Split: "strings_Join (strings_Split s c) [c] = s"
proof (induction s)
  case Nil
  then show ?case by simp
next
  case (Cons x s)
  obtain y ys where ys: "strings_Split s c = y # ys"
    by (metis Split_not_Nil neq_Nil_conv)
  with Cons show ?case
    by (cases ys) (auto simp: Join_Cons)
qed

lemma Split_no_sep: "c \<notin> set s \<Longrightarrow> strings_Split s c = [s]"
  by (induction s) auto

lemma Split_append_sep: "c \<notin> set s \<Longrightarrow> strings_Split (s @ c # t) c = s # strings_Split t c"
  by (induction s) auto

lemma Split_Join:
  "xs \<noteq> [] \<Longrightarrow> \<forall>x \<in> set xs. c \<notin> set x \<Longrightarrow> strings_Split (strings_Join xs [c]) c = xs"
proof (induction xs)
  case (Cons x xs)
  then show ?case
    by (cases "xs = []") (auto simp: Join_Cons Split_append_sep Split_no_sep)
qed simp

lemma Split_sep_free: "x \<in> set (strings_Split s c) \<Longrightarrow> c \<notin> set x"
  by (induction s arbitrary: x) (auto split: list.splits if_splits)

lemma Split_subset: "x \<in> set (strings_Split s c) \<Longrightarrow> set x \<subseteq> set s"
proof (induction s arbitrary: x)
  case (Cons a s)
  obtain y ys where ys: "strings_Split s c = y # ys"
    by (metis Split_not_Nil neq_Nil_conv)
  with Cons.prems Cons.IH[of x] Cons.IH[of y] show ?case by (auto split: if_splits)
qed simp

text \<open>
  A separator that occurs in no element makes \<open>strings.Join\<close> injective: the identities the code
  derives by joining fields determine the fields.
\<close>

lemma Join_inject:
  assumes "strings_Join xs [c] = strings_Join ys [c]"
    and "\<forall>x \<in> set xs. c \<notin> set x" and "\<forall>y \<in> set ys. c \<notin> set y"
    and "xs \<noteq> []" and "ys \<noteq> []"
  shows "xs = ys"
  using assms by (metis Split_Join)

lemma set_Join: "set (strings_Join xs sep) \<subseteq> (\<Union>x \<in> set xs. set x) \<union> set sep"
  by (induction xs sep rule: strings_Join.induct) auto

lemma Join_free [sep_free]:
  "\<lbrakk> \<forall>x \<in> set xs. c \<notin> set x; c \<notin> set sep \<rbrakk> \<Longrightarrow> c \<notin> set (strings_Join xs sep)"
  using set_Join[of xs sep] by blast

lemma Split2_Some: "strings_Split2 s p = Some (a, b) \<Longrightarrow> s = a @ p @ b"
proof (induction s arbitrary: a)
  case (Cons x s)
  then show ?case by (auto simp: HasPrefix_iff split: if_splits)
qed (auto split: if_splits)

section \<open>Sets of bytes\<close>

definition byte :: "char \<Rightarrow> nat" where "byte c = of_char c"

lemma byte_less [simp]: "byte c < 256"
  by (simp add: byte_def)

lemma byte_inject [simp]: "byte c = byte d \<longleftrightarrow> c = d"
  by (simp add: byte_def)

definition is_digit :: "char \<Rightarrow> bool" where "is_digit c = (48 \<le> byte c \<and> byte c \<le> 57)"
definition is_lower :: "char \<Rightarrow> bool" where "is_lower c = (97 \<le> byte c \<and> byte c \<le> 122)"
definition is_upper :: "char \<Rightarrow> bool" where "is_upper c = (65 \<le> byte c \<and> byte c \<le> 90)"
definition is_hex :: "char \<Rightarrow> bool" where
  "is_hex c = (is_digit c \<or> (97 \<le> byte c \<and> byte c \<le> 102))"

abbreviation NUL :: char where "NUL \<equiv> CHR 0x00"
abbreviation US :: char where "US \<equiv> CHR 0x1F"
abbreviation BACKSLASH :: char where "BACKSLASH \<equiv> CHR 0x5C"

text \<open>\<open>^[0-9a-f]{n}$\<close> and \<open>^pfx[0-9a-f]{n}$\<close>.\<close>

definition hex_string :: "nat \<Rightarrow> string \<Rightarrow> bool" where
  "hex_string n s = (length s = n \<and> list_all is_hex s)"

definition prefixed_hex :: "string \<Rightarrow> nat \<Rightarrow> string \<Rightarrow> bool" where
  "prefixed_hex p n s = (strings_HasPrefix s p \<and> hex_string n (drop (length p) s))"

lemma prefixed_hex_append: "prefixed_hex p n (p @ s) \<longleftrightarrow> hex_string n s"
  by (simp add: prefixed_hex_def)

text \<open>Separator bytes are outside the classes the code's patterns admit.\<close>

definition printable :: "char \<Rightarrow> bool" where "printable c = (32 \<le> byte c \<and> byte c \<noteq> 127)"

lemma printable_sep [simp]: "\<not> printable NUL" "\<not> printable US"
  by (simp_all add: printable_def byte_def)

lemma printable_literal [simp]:
  "printable (CHR ''-'')" "printable (CHR ''.'')" "printable (CHR ''/'')" "printable (CHR '':'')"
  "printable (CHR ''_'')"
  by (simp_all add: printable_def byte_def)

lemma class_printable:
  "is_digit c \<Longrightarrow> printable c" "is_lower c \<Longrightarrow> printable c" "is_upper c \<Longrightarrow> printable c"
  "is_hex c \<Longrightarrow> printable c"
  by (auto simp: is_digit_def is_lower_def is_upper_def is_hex_def printable_def)

abbreviation printable_string :: "string \<Rightarrow> bool" where
  "printable_string s \<equiv> \<forall>c \<in> set s. printable c"

lemma printable_NUL [sep_free]: "printable_string s \<Longrightarrow> NUL \<notin> set s"
  by auto

lemma printable_US [sep_free]: "printable_string s \<Longrightarrow> US \<notin> set s"
  by auto

lemma hex_string_printable: "hex_string n s \<Longrightarrow> printable_string s"
  by (auto simp: hex_string_def list_all_iff class_printable)

lemma prefixed_hex_printable: "prefixed_hex p n s \<Longrightarrow> printable_string p \<Longrightarrow> printable_string s"
  unfolding prefixed_hex_def HasPrefix_iff using hex_string_printable by fastforce

section \<open>The package unicode/utf8\<close>

text \<open>
  \<open>utf8_decode\<close> is the rune sequence of a string as \<open>for range\<close> and \<open>utf8.ValidString\<close> see it: a
  byte that starts no well-formed sequence (overlong forms, surrogates and values above
  \<open>U+10FFFF\<close> are not well formed) is \<^term>\<open>None\<close>, and decoding goes on at the next byte.
\<close>

definition utf8_cont :: "char \<Rightarrow> bool" where
  "utf8_cont c = (128 \<le> byte c \<and> byte c \<le> 191)"

definition utf8_second3 :: "char \<Rightarrow> char \<Rightarrow> bool" where
  "utf8_second3 c0 c1 =
     (if byte c0 = 224 then 160 \<le> byte c1 \<and> byte c1 \<le> 191
      else if byte c0 = 237 then 128 \<le> byte c1 \<and> byte c1 \<le> 159
      else utf8_cont c1)"

definition utf8_second4 :: "char \<Rightarrow> char \<Rightarrow> bool" where
  "utf8_second4 c0 c1 =
     (if byte c0 = 240 then 144 \<le> byte c1 \<and> byte c1 \<le> 191
      else if byte c0 = 244 then 128 \<le> byte c1 \<and> byte c1 \<le> 143
      else utf8_cont c1)"

text \<open>\<open>utf8.DecodeRuneInString\<close>: the first rune of a non-empty string and its width.\<close>

definition utf8_next :: "string \<Rightarrow> nat option \<times> nat" where
  "utf8_next s =
     (let b0 = byte (s ! 0) in
      if b0 < 128 then (Some b0, 1)
      else if 194 \<le> b0 \<and> b0 \<le> 223 \<and> 2 \<le> length s \<and> utf8_cont (s ! 1) then
        (Some ((b0 - 192) * 64 + (byte (s ! 1) - 128)), 2)
      else if 224 \<le> b0 \<and> b0 \<le> 239 \<and> 3 \<le> length s \<and> utf8_second3 (s ! 0) (s ! 1) \<and> utf8_cont (s ! 2) then
        (Some ((b0 - 224) * 4096 + (byte (s ! 1) - 128) * 64 + (byte (s ! 2) - 128)), 3)
      else if 240 \<le> b0 \<and> b0 \<le> 244 \<and> 4 \<le> length s \<and> utf8_second4 (s ! 0) (s ! 1) \<and> utf8_cont (s ! 2)
              \<and> utf8_cont (s ! 3) then
        (Some ((b0 - 240) * 262144 + (byte (s ! 1) - 128) * 4096
               + (byte (s ! 2) - 128) * 64 + (byte (s ! 3) - 128)), 4)
      else (None, 1))"

fun utf8_decode :: "string \<Rightarrow> nat option list" where
  "utf8_decode [] = []"
| "utf8_decode (c # cs) =
     (case utf8_next (c # cs) of (r, w) \<Rightarrow> r # utf8_decode (drop (w - 1) cs))"

definition utf8_ValidString :: "string \<Rightarrow> bool" where
  "utf8_ValidString s = list_all (\<lambda>r. r \<noteq> None) (utf8_decode s)"

definition runes :: "string \<Rightarrow> nat list" where
  "runes s = map (\<lambda>r. case r of None \<Rightarrow> 65533 | Some n \<Rightarrow> n) (utf8_decode s)"

text \<open>The control characters the validators refuse: C0, DEL, U+2028 and U+2029.\<close>

definition control_rune :: "nat \<Rightarrow> bool" where
  "control_rune r = (r < 32 \<or> r = 127 \<or> r = 8232 \<or> r = 8233)"

definition has_control :: "string \<Rightarrow> bool" where
  "has_control s = list_ex control_rune (runes s)"

lemma utf8_second_high:
  "utf8_cont c \<Longrightarrow> 128 \<le> byte c"
  "utf8_second3 c0 c \<Longrightarrow> 128 \<le> byte c" "utf8_second4 c0 c \<Longrightarrow> 128 \<le> byte c"
  by (auto simp: utf8_cont_def utf8_second3_def utf8_second4_def split: if_splits)

text \<open>
  One decoding step: the bytes absorbed after the first one are all non-ASCII, so an ASCII byte
  is always decoded as itself.
\<close>

lemma utf8_next_ascii: "byte c < 128 \<Longrightarrow> utf8_next (c # cs) = (Some (byte c), 1)"
  by (simp add: utf8_next_def)

lemma utf8_next_absorbs:
  assumes "utf8_next (c # cs) = (r, w)" and "d \<in> set (take (w - 1) cs)"
  shows "128 \<le> byte d"
proof -
  from assms(2) obtain i where i: "i < w - 1" "i < length cs" "d = cs ! i"
    by (auto simp: in_set_conv_nth)
  then have "i = 0 \<or> i = 1 \<or> i = 2 \<or> 3 \<le> i" by linarith
  with i assms(1) show ?thesis
    by (elim disjE) (auto simp: utf8_next_def Let_def numeral_2_eq_2 numeral_3_eq_3
        dest: utf8_second_high split: if_splits)
qed

lemma ascii_decoded: "c \<in> set s \<Longrightarrow> byte c < 128 \<Longrightarrow> Some (byte c) \<in> set (utf8_decode s)"
proof (induction s rule: utf8_decode.induct)
  case (2 c0 cs)
  obtain r w where rw: "utf8_next (c0 # cs) = (r, w)" by fastforce
  have "set cs = set (take (w - 1) cs) \<union> set (drop (w - 1) cs)"
    by (metis append_take_drop_id set_append)
  with "2.prems" utf8_next_absorbs[OF rw] have c: "c = c0 \<or> c \<in> set (drop (w - 1) cs)"
    by fastforce
  have dec: "utf8_decode (c0 # cs) = r # utf8_decode (drop (w - 1) cs)"
    using rw by simp
  show ?case
  proof (cases "c = c0")
    case True
    with rw "2.prems"(2) have "r = Some (byte c)" by (simp add: utf8_next_ascii)
    then show ?thesis unfolding dec by simp
  next
    case False
    with c have "Some (byte c) \<in> set (utf8_decode (drop (w - 1) cs))"
      using "2.IH"[OF rw[symmetric]] "2.prems"(2) by blast
    then show ?thesis unfolding dec by simp
  qed
qed simp

lemma no_control_printable: "\<not> has_control s \<Longrightarrow> printable_string s"
proof
  fix c
  assume s: "\<not> has_control s" and c: "c \<in> set s"
  show "printable c"
  proof (cases "byte c < 128")
    case True
    with c have "Some (byte c) \<in> set (utf8_decode s)" by (rule ascii_decoded)
    then have "byte c \<in> set (runes s)" by (force simp: runes_def)
    with s show ?thesis by (auto simp: has_control_def list_ex_iff control_rune_def printable_def)
  qed (simp add: printable_def)
qed

lemma utf8_ascii: "list_all (\<lambda>c. byte c < 128) s \<Longrightarrow> utf8_decode s = map (\<lambda>c. Some (byte c)) s"
  by (induction s) (auto simp: utf8_next_ascii)

lemma runes_ascii: "list_all (\<lambda>c. byte c < 128) s \<Longrightarrow> runes s = map byte s"
  by (simp add: runes_def utf8_ascii)

text \<open>ASCII text followed by anything decodes piecewise.\<close>

lemma utf8_decode_ascii_append:
  "list_all (\<lambda>c. byte c < 128) s \<Longrightarrow> utf8_decode (s @ t) = map (\<lambda>c. Some (byte c)) s @ utf8_decode t"
  by (induction s) (auto simp: utf8_next_ascii)

text \<open>Decoding splits at every ASCII byte, so controls of a path are the controls of its segments.\<close>

lemma utf8_ascii_not_cont:
  "byte c < 128 \<Longrightarrow> \<not> utf8_cont c" "byte c < 128 \<Longrightarrow> \<not> utf8_second3 d c"
  "byte c < 128 \<Longrightarrow> \<not> utf8_second4 d c"
  using utf8_second_high by fastforce+

lemma utf8_next_append_ascii:
  assumes "byte c < 128"
  shows "utf8_next (x # s @ c # t) = utf8_next (x # s)"
proof -
  note nc = utf8_ascii_not_cont[OF assms]
  consider "s = []" | a where "s = [a]" | a b where "s = [a, b]" | a b d r where "s = a # b # d # r"
    by (metis list.exhaust)
  then show ?thesis
    by cases (simp_all add: utf8_next_def Let_def nc)
qed

lemma utf8_next_width: "utf8_next (x # s) = (r, w) \<Longrightarrow> w - 1 \<le> length s"
  by (auto simp: utf8_next_def Let_def split: if_splits)

lemma utf8_decode_append_ascii:
  "byte c < 128 \<Longrightarrow> utf8_decode (s @ c # t) = utf8_decode s @ utf8_decode (c # t)"
proof (induction s rule: utf8_decode.induct)
  case (2 x s)
  obtain r w where rw: "utf8_next (x # s) = (r, w)" by fastforce
  have "utf8_next ((x # s) @ c # t) = (r, w)"
    using rw utf8_next_append_ascii[OF "2.prems"] by simp
  moreover have "drop (w - 1) (s @ c # t) = drop (w - 1) s @ c # t"
    using utf8_next_width[OF rw] by simp
  ultimately have "utf8_decode ((x # s) @ c # t) = r # utf8_decode (drop (w - 1) s @ c # t)"
    by simp
  also have "\<dots> = r # utf8_decode (drop (w - 1) s) @ utf8_decode (c # t)"
    using "2.IH"[OF rw[symmetric] "2.prems"] by simp
  finally show ?case using rw by simp
qed simp

lemma has_control_append_ascii:
  "byte c < 128 \<Longrightarrow>
     has_control (s @ c # t) \<longleftrightarrow> has_control s \<or> control_rune (byte c) \<or> has_control t"
  by (auto simp: has_control_def runes_def utf8_decode_append_ascii utf8_next_ascii)

lemma has_control_Split:
  assumes "byte c < 128" and "\<not> control_rune (byte c)"
  shows "has_control s \<longleftrightarrow> (\<exists>x \<in> set (strings_Split s c). has_control x)"
proof -
  have "has_control (strings_Join xs [c]) \<longleftrightarrow> (\<exists>x \<in> set xs. has_control x)" if "xs \<noteq> []" for xs
    using that
  proof (induction xs)
    case (Cons x xs)
    with assms show ?case
      by (cases "xs = []") (auto simp: Join_Cons has_control_append_ascii)
  qed simp
  from this[of "strings_Split s c"] show ?thesis by (simp add: Join_Split)
qed

lemma slash_ascii [simp]: "byte (CHR ''/'') = 47"
  by (simp add: byte_def)

lemma has_control_slash: "has_control (CHR ''/'' # s) \<longleftrightarrow> has_control s"
  using has_control_append_ascii[of "CHR ''/''" "[]" s]
  by (simp add: control_rune_def has_control_def runes_def)

section \<open>The package strconv\<close>

definition digit_char :: "nat \<Rightarrow> char" where "digit_char n = char_of (48 + n)"

fun nat_digits :: "nat \<Rightarrow> string" where
  "nat_digits n = (if n < 10 then [digit_char n] else nat_digits (n div 10) @ [digit_char (n mod 10)])"

declare nat_digits.simps [simp del]

definition strconv_Itoa :: "int \<Rightarrow> string" where
  "strconv_Itoa i = (if i < 0 then CHR ''-'' # nat_digits (nat (- i)) else nat_digits (nat i))"

fun digits_value :: "int \<Rightarrow> string \<Rightarrow> int" where
  "digits_value a [] = a"
| "digits_value a (c # cs) = digits_value (10 * a + int (byte c - 48)) cs"

text \<open>
  \<open>strconv.Atoi\<close>: an optional sign and a non-empty run of digits. A value outside the range of a
  64-bit integer is an error.
\<close>

definition strconv_Atoi :: "string \<Rightarrow> int option" where
  "strconv_Atoi s =
     (let neg = (s \<noteq> [] \<and> hd s = CHR ''-'');
          ds = (if s \<noteq> [] \<and> (hd s = CHR ''-'' \<or> hd s = CHR ''+'') then tl s else s);
          v = (if neg then - digits_value 0 ds else digits_value 0 ds)
      in if ds = [] \<or> \<not> list_all is_digit ds then None
         else if v < - (2 ^ 63) \<or> 2 ^ 63 \<le> v then None else Some v)"

lemma byte_digit_char: "n < 10 \<Longrightarrow> byte (digit_char n) = 48 + n"
  by (simp add: byte_def digit_char_def)

lemma is_digit_digit_char: "n < 10 \<Longrightarrow> is_digit (digit_char n)"
  by (simp add: is_digit_def byte_digit_char)

lemma nat_digits_all: "list_all is_digit (nat_digits n)"
proof (induction n rule: nat_digits.induct)
  case (1 n)
  then show ?case
    by (subst nat_digits.simps) (simp add: is_digit_digit_char)
qed

lemma digits_value_append: "digits_value a (xs @ ys) = digits_value (digits_value a xs) ys"
  by (induction xs arbitrary: a) auto

lemma digits_value_nat_digits: "digits_value 0 (nat_digits n) = int n"
proof (induction n rule: nat_digits.induct)
  case (1 n)
  then show ?case
    by (subst nat_digits.simps) (auto simp: digits_value_append byte_digit_char zdiv_int zmod_int)
qed

lemma nat_digits_inject: "nat_digits m = nat_digits n \<Longrightarrow> m = n"
  by (metis digits_value_nat_digits of_nat_eq_iff)

lemma Itoa_inject: "strconv_Itoa i = strconv_Itoa j \<Longrightarrow> i = j"
proof -
  assume eq: "strconv_Itoa i = strconv_Itoa j"
  have sign: "nat_digits n \<noteq> CHR ''-'' # m" for n m
    using nat_digits_all[of n] by (auto simp: is_digit_def byte_def)
  show "i = j"
    using eq sign sign[THEN not_sym]
    by (auto simp: strconv_Itoa_def split: if_splits dest!: nat_digits_inject)
qed

lemma Itoa_printable: "printable_string (strconv_Itoa i)"
proof -
  have "printable_string (nat_digits n)" for n
    using nat_digits_all[of n] by (auto simp: list_all_iff class_printable)
  then show ?thesis by (auto simp: strconv_Itoa_def)
qed

section \<open>The package sort\<close>

text \<open>
  \<open>sort.Strings\<close> is the library's \<^const>\<open>sort\<close>. \<open>sort.Slice\<close> with a comparison \<open>less\<close> that is a
  strict order given by a key is \<^const>\<open>sort_key\<close>; where the code's keys are distinct the result
  does not depend on the order of the input, which is what the next lemma states.
\<close>

lemma sort_key_perm:
  assumes "mset xs = mset ys" and "inj_on f (set xs)"
  shows "sort_key f xs = sort_key f ys"
proof -
  have "mset xs = mset (sort_key f ys)" using assms(1) by simp
  then show ?thesis using assms(2) by (rule sort_key_inj_key_eq) simp
qed

lemma sort_key_id: "sorted (map f xs) \<Longrightarrow> sort_key f xs = xs"
  by (simp add: sort_key_id_if_sorted)

end
