(* ===== verification/Go_Time.thy ===== *)
theory Go_Time
  imports Go_Prelude
begin

text \<open>
  \<open>time.Parse(time.RFC3339Nano, s)\<close> and \<open>filepath.IsAbs\<close>/\<open>filepath.Clean\<close> on Unix. A parsed time is
  its instant in nanoseconds since 1970-01-01T00:00:00Z; \<open>Before\<close>, \<open>Equal\<close> and \<open>After\<close> compare
  instants. The parser keeps what the Go parser accepts beyond RFC 3339: a one-digit hour, a comma
  before the fraction, any number of fraction digits (cut after nine), and zone offsets of up to
  24 hours and 60 minutes.
\<close>

definition digit_value :: "char \<Rightarrow> nat" where "digit_value c = byte c - 48"

fun time_getnum :: "bool \<Rightarrow> string \<Rightarrow> (int \<times> string) option" where
  "time_getnum fixed [] = None"
| "time_getnum fixed [a] =
     (if is_digit a \<and> \<not> fixed then Some (int (digit_value a), []) else None)"
| "time_getnum fixed (a # b # r) =
     (if \<not> is_digit a then None
      else if is_digit b then Some (int (10 * digit_value a + digit_value b), r)
      else if fixed then None else Some (int (digit_value a), b # r))"

definition time_year :: "string \<Rightarrow> (int \<times> string) option" where
  "time_year s =
     (if length s < 4 \<or> \<not> list_all is_digit (take 4 s) then None
      else Some (digits_value 0 (take 4 s), drop 4 s))"

definition time_skip :: "char \<Rightarrow> string \<Rightarrow> string option" where
  "time_skip c s = (case s of [] \<Rightarrow> None | x # r \<Rightarrow> if x = c then Some r else None)"

text \<open>The optional fraction: its nanoseconds and the rest of the input.\<close>

definition time_fraction :: "string \<Rightarrow> int \<times> string" where
  "time_fraction s =
     (case s of
        c # d # r \<Rightarrow>
          if (c = CHR ''.'' \<or> c = CHR '','') \<and> is_digit d then
            (let ds = takeWhile is_digit (d # r); used = take 9 ds
             in (digits_value 0 used * 10 ^ (9 - length used), dropWhile is_digit (d # r)))
          else (0, s)
      | _ \<Rightarrow> (0, s))"

text \<open>The zone: its offset in seconds. Nothing may follow it.\<close>

definition time_zone :: "string \<Rightarrow> int option" where
  "time_zone s =
     (if s = ''Z'' then Some 0
      else if length s \<noteq> 6 \<or> s ! 3 \<noteq> CHR '':'' then None
      else (case (time_getnum True (take 2 (drop 1 s)), time_getnum True (drop 4 s)) of
              (Some (hr, _), Some (mm, _)) \<Rightarrow>
                if 24 < hr \<or> 60 < mm then None
                else if s ! 0 = CHR ''+'' then Some ((hr * 60 + mm) * 60)
                else if s ! 0 = CHR ''-'' then Some (- ((hr * 60 + mm) * 60))
                else None
            | _ \<Rightarrow> None))"

definition leap_year :: "int \<Rightarrow> bool" where
  "leap_year y = (y mod 4 = 0 \<and> (y mod 100 \<noteq> 0 \<or> y mod 400 = 0))"

definition days_in :: "int \<Rightarrow> int \<Rightarrow> int" where
  "days_in m y =
     (if m = 2 then (if leap_year y then 29 else 28)
      else if m = 4 \<or> m = 6 \<or> m = 9 \<or> m = 11 then 30 else 31)"

text \<open>Days since the epoch of a date of the proleptic Gregorian calendar.\<close>

definition civil_days :: "int \<Rightarrow> int \<Rightarrow> int \<Rightarrow> int" where
  "civil_days y m d =
     (let y' = (if m \<le> 2 then y - 1 else y); era = y' div 400; yoe = y' - era * 400;
          doy = (153 * (if 2 < m then m - 3 else m + 9) + 2) div 5 + d - 1;
          doe = yoe * 365 + yoe div 4 - yoe div 100 + doy
      in era * 146097 + doe - 719468)"

definition time_field :: "bool \<Rightarrow> char \<Rightarrow> string \<Rightarrow> (int \<times> string) option" where
  "time_field fixed c s = Option.bind (time_skip c s) (time_getnum fixed)"

definition time_Parse :: "string \<Rightarrow> int option" where
  "time_Parse s =
     (case time_year s of None \<Rightarrow> None | Some (y, s1) \<Rightarrow>
      case time_field True CHR ''-'' s1 of None \<Rightarrow> None | Some (mo, s2) \<Rightarrow>
      case time_field True CHR ''-'' s2 of None \<Rightarrow> None | Some (d, s3) \<Rightarrow>
      case time_field False CHR ''T'' s3 of None \<Rightarrow> None | Some (h, s4) \<Rightarrow>
      case time_field True CHR '':'' s4 of None \<Rightarrow> None | Some (mi, s5) \<Rightarrow>
      case time_field True CHR '':'' s5 of None \<Rightarrow> None | Some (se, s6) \<Rightarrow>
      (case time_fraction s6 of (ns, s7) \<Rightarrow>
       case time_zone s7 of None \<Rightarrow> None | Some off \<Rightarrow>
       if mo < 1 \<or> 12 < mo \<or> d < 1 \<or> days_in mo y < d \<or> 24 \<le> h \<or> 60 \<le> mi \<or> 60 \<le> se then None
       else Some ((((civil_days y mo d * 24 + h) * 60 + mi) * 60 + se - off) * 1000000000 + ns)))"

section \<open>The package path/filepath\<close>

definition filepath_IsAbs :: "string \<Rightarrow> bool" where
  "filepath_IsAbs p = strings_HasPrefix p ''/''"

text \<open>The elements kept by \<open>filepath.Clean\<close>; the stack holds the last element first.\<close>

fun clean_elements :: "bool \<Rightarrow> string list \<Rightarrow> string list \<Rightarrow> string list" where
  "clean_elements rooted stack [] = rev stack"
| "clean_elements rooted stack (x # xs) =
     (if x = [] \<or> x = ''.'' then clean_elements rooted stack xs
      else if x = ''..'' then
        (case stack of
           [] \<Rightarrow> if rooted then clean_elements rooted [] xs else clean_elements rooted [x] xs
         | y # ys \<Rightarrow>
             if y = ''..'' then clean_elements rooted (x # stack) xs else clean_elements rooted ys xs)
      else clean_elements rooted (x # stack) xs)"

definition filepath_Clean :: "string \<Rightarrow> string" where
  "filepath_Clean p =
     (let rooted = filepath_IsAbs p;
          body = strings_Join (clean_elements rooted [] (strings_Split p CHR ''/'')) ''/''
      in if rooted then CHR ''/'' # body else if body = [] then ''.'' else body)"

text \<open>The test the code makes on every directory it records.\<close>

definition canonical_absolute_path :: "string \<Rightarrow> bool" where
  "canonical_absolute_path p = (filepath_IsAbs p \<and> filepath_Clean p = p)"

end
