(* ===== verification/Go_Crypto.thy ===== *)
theory Go_Crypto
  imports Go_Prelude "HOL-Library.Word"
begin

text \<open>
  \<open>crypto/sha256\<close> and \<open>encoding/hex\<close>: the standard library's hash, over 32-bit words, and the
  lower-case hexadecimal encoding. Every opaque identifier of the policy core is a prefix followed
  by \<open>hex.EncodeToString(sum[:16])\<close>. The message length is counted in bits modulo \<open>2 ^ 64\<close>.
\<close>

unbundle bit_operations_syntax

type_synonym u32 = "32 word"

definition sha256_k :: "u32 list" where
  "sha256_k =
    [1116352408, 1899447441, 3049323471, 3921009573, 961987163, 1508970993, 2453635748, 2870763221,
     3624381080, 310598401, 607225278, 1426881987, 1925078388, 2162078206, 2614888103, 3248222580,
     3835390401, 4022224774, 264347078, 604807628, 770255983, 1249150122, 1555081692, 1996064986,
     2554220882, 2821834349, 2952996808, 3210313671, 3336571891, 3584528711, 113926993, 338241895,
     666307205, 773529912, 1294757372, 1396182291, 1695183700, 1986661051, 2177026350, 2456956037,
     2730485921, 2820302411, 3259730800, 3345764771, 3516065817, 3600352804, 4094571909, 275423344,
     430227734, 506948616, 659060556, 883997877, 958139571, 1322822218, 1537002063, 1747873779,
     1955562222, 2024104815, 2227730452, 2361852424, 2428436474, 2756734187, 3204031479, 3329325298]"

definition sha256_init :: "u32 list" where
  "sha256_init =
    [1779033703, 3144134277, 1013904242, 2773480762, 1359893119, 2600822924, 528734635, 1541459225]"

definition rotr :: "nat \<Rightarrow> u32 \<Rightarrow> u32" where
  "rotr n x = drop_bit n x OR push_bit (32 - n) x"

text \<open>The bytes of a word, most significant first.\<close>

definition be_bytes :: "nat \<Rightarrow> 'a::len word \<Rightarrow> nat list" where
  "be_bytes k w = map (\<lambda>i. unat (drop_bit (8 * i) w AND 255)) (rev [0..<k])"

definition sha256_pad :: "nat list \<Rightarrow> nat list" where
  "sha256_pad m =
     m @ [128] @ replicate ((119 - length m mod 64) mod 64) 0
     @ be_bytes 8 (of_nat (length m) * 8 :: 64 word)"

fun be_words :: "nat list \<Rightarrow> u32 list" where
  "be_words (a # b # c # d # rest) =
     (push_bit 24 (of_nat a) OR push_bit 16 (of_nat b) OR push_bit 8 (of_nat c) OR of_nat d)
     # be_words rest"
| "be_words _ = []"

text \<open>The message schedule: the newest word is at the head, \<open>w!15\<close> is the oldest of the window.\<close>

fun sha256_schedule :: "nat \<Rightarrow> u32 list \<Rightarrow> u32 list" where
  "sha256_schedule 0 w = w"
| "sha256_schedule (Suc n) w =
     (let s0 = rotr 7 (w ! 14) XOR rotr 18 (w ! 14) XOR drop_bit 3 (w ! 14);
          s1 = rotr 17 (w ! 1) XOR rotr 19 (w ! 1) XOR drop_bit 10 (w ! 1)
      in sha256_schedule n ((w ! 15 + s0 + w ! 6 + s1) # w))"

fun sha256_round :: "u32 list \<Rightarrow> u32 \<times> u32 \<Rightarrow> u32 list" where
  "sha256_round [a, b, c, d, e, f, g, h] (k, w) =
     (let s1 = rotr 6 e XOR rotr 11 e XOR rotr 25 e;
          ch = (e AND f) XOR ((NOT e) AND g);
          t1 = h + s1 + ch + k + w;
          s0 = rotr 2 a XOR rotr 13 a XOR rotr 22 a;
          maj = (a AND b) XOR (a AND c) XOR (b AND c)
      in [t1 + s0 + maj, a, b, c, d + t1, e, f, g])"
| "sha256_round st _ = st"

definition sha256_block :: "u32 list \<Rightarrow> u32 list \<Rightarrow> u32 list" where
  "sha256_block h block =
     map2 (+) h (foldl sha256_round h (zip sha256_k (rev (sha256_schedule 48 (rev block)))))"

fun sha256_blocks :: "nat \<Rightarrow> u32 list \<Rightarrow> u32 list \<Rightarrow> u32 list" where
  "sha256_blocks 0 h ws = h"
| "sha256_blocks (Suc n) h ws = sha256_blocks n (sha256_block h (take 16 ws)) (drop 16 ws)"

text \<open>\<open>sha256.Sum256\<close>: 32 bytes, big endian.\<close>

definition sha256_Sum256 :: "string \<Rightarrow> nat list" where
  "sha256_Sum256 s =
     (let ws = be_words (sha256_pad (map byte s))
      in concat (map (\<lambda>w. be_bytes 4 w) (sha256_blocks (length ws div 16) sha256_init ws)))"

definition hex_digit :: "nat \<Rightarrow> char" where
  "hex_digit n = (if n < 10 then char_of (48 + n) else char_of (87 + n))"

definition hex_EncodeToString :: "nat list \<Rightarrow> string" where
  "hex_EncodeToString bs = concat (map (\<lambda>b. [hex_digit (b div 16), hex_digit (b mod 16)]) bs)"

text \<open>\<open>hex.EncodeToString(sum[:16])\<close>, the 128-bit digest every opaque reference carries.\<close>

definition digest16 :: "string \<Rightarrow> string" where
  "digest16 s = hex_EncodeToString (take 16 (sha256_Sum256 s))"

lemma sha256_round_length: "length h = 8 \<Longrightarrow> length (sha256_round h kw) = 8"
  by (cases "(h, kw)" rule: sha256_round.cases) (auto simp: Let_def)

lemma foldl_round_length: "length h = 8 \<Longrightarrow> length (foldl sha256_round h kws) = 8"
  by (induction kws arbitrary: h) (auto simp: sha256_round_length)

lemma sha256_blocks_length: "length h = 8 \<Longrightarrow> length (sha256_blocks n h ws) = 8"
  by (induction n arbitrary: h ws) (auto simp: sha256_block_def foldl_round_length)

lemma length_be_bytes [simp]: "length (be_bytes k n) = k"
  by (simp add: be_bytes_def)

lemma and_255_less: "unat ((w :: 32 word) AND 255) < 256"
proof -
  have "unat (w AND 255) \<le> unat (255 :: 32 word)"
    by (rule word_and_le1 [THEN word_le_nat_alt [THEN iffD1]])
  then show ?thesis by simp
qed

lemma be_bytes_less: "b \<in> set (be_bytes k (w :: 32 word)) \<Longrightarrow> b < 256"
  by (auto simp: be_bytes_def and_255_less)

lemma length_Sum256: "length (sha256_Sum256 s) = 32"
proof -
  have "length (sha256_blocks n sha256_init ws) = 8" for n ws
    by (rule sha256_blocks_length) (simp add: sha256_init_def)
  then show ?thesis
    by (simp add: sha256_Sum256_def Let_def length_concat comp_def sum_list_triv)
qed

lemma Sum256_bytes: "b \<in> set (sha256_Sum256 s) \<Longrightarrow> b < 256"
  by (auto simp: sha256_Sum256_def Let_def dest: be_bytes_less)

lemma is_hex_hex_digit: "n < 16 \<Longrightarrow> is_hex (hex_digit n)"
  by (auto simp: is_hex_def is_digit_def hex_digit_def byte_def)

lemma hex_EncodeToString_hex:
  "\<forall>b \<in> set bs. b < 256 \<Longrightarrow> hex_string (2 * length bs) (hex_EncodeToString bs)"
  by (induction bs) (auto simp: hex_string_def hex_EncodeToString_def is_hex_hex_digit)

text \<open>A digest always has the shape the identifier patterns require.\<close>

lemma digest16_hex [simp]: "hex_string 32 (digest16 s)"
proof -
  have "\<forall>b \<in> set (take 16 (sha256_Sum256 s)). b < 256"
    using Sum256_bytes by (auto dest: in_set_takeD)
  then show ?thesis
    using hex_EncodeToString_hex[of "take 16 (sha256_Sum256 s)"]
    by (simp add: digest16_def length_Sum256)
qed

lemma prefixed_digest16 [simp]: "prefixed_hex p 32 (p @ digest16 s)"
  by (simp add: prefixed_hex_append)

lemma digest16_printable: "printable_string (digest16 s)"
  using hex_string_printable[OF digest16_hex] .

end
