(* ===== verification/Policy_Identity.thy ===== *)
theory Policy_Identity
  imports Go_Time Go_Crypto
begin

text \<open>
  The vocabulary of \<open>internal/domain/tobari/policy.go\<close>: the closed value sets, the identifier and
  coordinate patterns, \<open>PolicyProtocolIdentity\<close>, normalized hosts and request paths, and the
  Workspace scope. A pattern is an anchored regular expression of the source, written as the
  predicate it decides; all of them admit ASCII only, so they are stated on bytes.
\<close>

named_theorems printable_facts

section \<open>Patterns\<close>

definition requestIDPattern :: "string \<Rightarrow> bool" where "requestIDPattern = hex_string 32"
definition policyCandidateIDPattern :: "string \<Rightarrow> bool" where
  "policyCandidateIDPattern = prefixed_hex ''pcy_'' 32"
definition policyTemplateIDPattern :: "string \<Rightarrow> bool" where
  "policyTemplateIDPattern = prefixed_hex ''ptp_'' 32"
definition policyDenyRuleIDPattern :: "string \<Rightarrow> bool" where
  "policyDenyRuleIDPattern = prefixed_hex ''pdr_'' 32"
definition learnedRuleIDPattern :: "string \<Rightarrow> bool" where
  "learnedRuleIDPattern = prefixed_hex ''plr_'' 32"
definition policyRevisionPattern :: "string \<Rightarrow> bool" where "policyRevisionPattern = hex_string 64"

definition method_tail :: "char \<Rightarrow> bool" where
  "method_tail c = (is_upper c \<or> is_digit c \<or> c \<in> set ''!#$%&*+.^_|~-'' \<or> byte c = 39 \<or> byte c = 96)"

definition httpMethodPattern :: "string \<Rightarrow> bool" where
  "httpMethodPattern s =
     (case s of [] \<Rightarrow> False
      | c # r \<Rightarrow> is_upper c \<and> length r \<le> 31 \<and> list_all method_tail r)"

definition name_start :: "char \<Rightarrow> bool" where
  "name_start c = (is_lower c \<or> is_upper c \<or> c = CHR ''_'')"
definition name_tail :: "char \<Rightarrow> bool" where "name_tail c = (name_start c \<or> is_digit c)"

definition graphqlNamePattern :: "string \<Rightarrow> bool" where
  "graphqlNamePattern s = (case s of [] \<Rightarrow> False | c # r \<Rightarrow> name_start c \<and> list_all name_tail r)"

definition mcp_char :: "char \<Rightarrow> bool" where "mcp_char c = (name_tail c \<or> c = CHR ''.'' \<or> c = CHR ''-'')"

definition mcpMethodPattern :: "string \<Rightarrow> bool" where
  "mcpMethodPattern s =
     list_all (\<lambda>seg. seg \<noteq> [] \<and> list_all mcp_char seg) (strings_Split s CHR ''/'')"

definition mcpToolNamePattern :: "string \<Rightarrow> bool" where
  "mcpToolNamePattern s =
     (s \<noteq> [] \<and> list_all (\<lambda>c. mcp_char c \<or> c = CHR '':'' \<or> c = CHR ''/'') s)"

definition awsServicePattern :: "string \<Rightarrow> bool" where
  "awsServicePattern s =
     (case s of [] \<Rightarrow> False
      | c # r \<Rightarrow> (is_lower c \<or> is_digit c) \<and> length r \<le> 62
               \<and> list_all (\<lambda>x. is_lower x \<or> is_digit x \<or> x = CHR ''-'') r)"

definition awsQueryOperationPattern :: "string \<Rightarrow> bool" where
  "awsQueryOperationPattern s =
     (case s of [] \<Rightarrow> False | c # r \<Rightarrow> name_start c \<and> length r \<le> 127 \<and> list_all name_tail r)"

definition awsProtocolVersionPattern :: "string \<Rightarrow> bool" where
  "awsProtocolVersionPattern s =
     (case strings_Split s CHR ''-'' of
        [y, m, d] \<Rightarrow>
          length y = 4 \<and> list_all is_digit y \<and> length m = 2 \<and> list_all is_digit m
          \<and> length d = 2 \<and> list_all is_digit d
      | _ \<Rightarrow> False)"

definition awsTargetNamespacePattern :: "string \<Rightarrow> bool" where
  "awsTargetNamespacePattern s =
     list_all (\<lambda>seg. seg \<noteq> [] \<and> list_all (\<lambda>c. name_tail c \<or> c = CHR ''-'') seg)
       (strings_Split s CHR ''.'')"

text \<open>\<open>namePattern\<close> of \<open>tobari.go\<close> and the UUIDv7 pattern shared by \<open>context.go\<close> and \<open>project.go\<close>.\<close>

definition namePattern :: "string \<Rightarrow> bool" where
  "namePattern s =
     (case s of [] \<Rightarrow> False
      | c # r \<Rightarrow> is_lower c \<and> length r \<le> 62
               \<and> list_all (\<lambda>x. is_lower x \<or> is_digit x \<or> x = CHR ''-'') r)"

definition uuid7_pattern :: "string \<Rightarrow> bool" where
  "uuid7_pattern s =
     (case strings_Split s CHR ''-'' of
        [a, b, c, d, e] \<Rightarrow>
          hex_string 8 a \<and> hex_string 4 b \<and> hex_string 4 c \<and> hex_string 4 d \<and> hex_string 12 e
          \<and> c ! 0 = CHR ''7'' \<and> d ! 0 \<in> set ''89ab''
      | _ \<Rightarrow> False)"

abbreviation contextIDPattern :: "string \<Rightarrow> bool" where "contextIDPattern \<equiv> uuid7_pattern"
abbreviation projectIDPattern :: "string \<Rightarrow> bool" where "projectIDPattern \<equiv> uuid7_pattern"

definition digestPattern :: "string \<Rightarrow> bool" where "digestPattern = prefixed_hex ''sha256:'' 64"

section \<open>Closed vocabularies\<close>

definition policyMatchValues :: "string list" where
  "policyMatchValues = [''exact'', ''path_template'']"
definition policyProtocolValues :: "string list" where
  "policyProtocolValues = [''http'', ''graphql'', ''mcp'', ''aws'', ''kubernetes'', ''git'', ''oci'']"
definition policyDecisionValues :: "string list" where
  "policyDecisionValues = [''allow'', ''deny'']"
definition policyStateChangeValues :: "string list" where
  "policyStateChangeValues = [''not_expected'', ''possible'', ''interactive'', ''unknown'']"

fun policyVocabularyContains :: "string list \<Rightarrow> string \<Rightarrow> bool" where
  "policyVocabularyContains [] v = False"
| "policyVocabularyContains (x # xs) v = (v = x \<or> policyVocabularyContains xs v)"

definition validPolicyMatch :: "string \<Rightarrow> bool" where
  "validPolicyMatch v = policyVocabularyContains policyMatchValues v"
definition validPolicyProtocol :: "string \<Rightarrow> bool" where
  "validPolicyProtocol v = policyVocabularyContains policyProtocolValues v"
definition validPolicyDecision :: "string \<Rightarrow> bool" where
  "validPolicyDecision v = policyVocabularyContains policyDecisionValues v"

lemma validPolicyMatch_iff: "validPolicyMatch v \<longleftrightarrow> v = ''exact'' \<or> v = ''path_template''"
  by (simp add: validPolicyMatch_def policyMatchValues_def)

lemma validPolicyDecision_iff: "validPolicyDecision v \<longleftrightarrow> v = ''allow'' \<or> v = ''deny''"
  by (simp add: validPolicyDecision_def policyDecisionValues_def)

section \<open>Protocol identity\<close>

record PolicyProtocolIdentity =
  Scheme :: string
  Protocol :: string
  GraphQLOperationType :: string
  GraphQLRootField :: string
  MCPMethod :: string
  MCPToolName :: string
  AWSWireProtocol :: string
  AWSService :: string
  AWSProtocolVersion :: string
  AWSTargetNamespace :: string
  AWSOperation :: string
  KubernetesKind :: string
  KubernetesVerb :: string
  KubernetesGroup :: string
  KubernetesVersion :: string
  KubernetesResource :: string
  KubernetesNamespace :: string
  KubernetesName :: string
  KubernetesSubresource :: string
  KubernetesDryRun :: string
  KubernetesNonResourcePath :: string
  GitService :: string
  GitRepository :: string
  OCIAction :: string
  OCIRepository :: string
  OCIObject :: string

text \<open>The zero value \<open>PolicyProtocolIdentity{Scheme: s, Protocol: p}\<close>.\<close>

definition base_identity :: "string \<Rightarrow> string \<Rightarrow> PolicyProtocolIdentity" where
  "base_identity s p =
     \<lparr> Scheme = s, Protocol = p, GraphQLOperationType = [], GraphQLRootField = [], MCPMethod = [],
       MCPToolName = [], AWSWireProtocol = [], AWSService = [], AWSProtocolVersion = [],
       AWSTargetNamespace = [], AWSOperation = [], KubernetesKind = [], KubernetesVerb = [],
       KubernetesGroup = [], KubernetesVersion = [], KubernetesResource = [],
       KubernetesNamespace = [], KubernetesName = [], KubernetesSubresource = [],
       KubernetesDryRun = [], KubernetesNonResourcePath = [], GitService = [], GitRepository = [],
       OCIAction = [], OCIRepository = [], OCIObject = [] \<rparr>"

definition validProtocolCoordinate :: "string \<Rightarrow> nat \<Rightarrow> bool \<Rightarrow> bool" where
  "validProtocolCoordinate v maxBytes allowEmpty =
     (\<not> ((\<not> allowEmpty \<and> v = []) \<or> maxBytes < length v \<or> \<not> utf8_ValidString v
          \<or> strings_ContainsByte v NUL)
      \<and> \<not> has_control v)"

section \<open>Hosts and paths\<close>

definition host_char :: "char \<Rightarrow> bool" where
  "host_char c = (is_lower c \<or> is_digit c \<or> c = CHR ''-'')"

definition valid_host_label :: "string \<Rightarrow> bool" where
  "valid_host_label l =
     (l \<noteq> [] \<and> length l \<le> 63 \<and> hd l \<noteq> CHR ''-'' \<and> last l \<noteq> CHR ''-'' \<and> list_all host_char l)"

definition validNormalizedPolicyHost :: "string \<Rightarrow> bool" where
  "validNormalizedPolicyHost h =
     (h \<noteq> [] \<and> length h \<le> 253 \<and> h = strings_ToLower h \<and> \<not> strings_HasSuffix h ''.''
      \<and> list_all valid_host_label (strings_Split h CHR ''.''))"

definition validatePolicyPath :: "string \<Rightarrow> check" where
  "validatePolicyPath v =
     first_error
       [reject (v = [] \<or> 4096 < length v \<or> \<not> strings_HasPrefix v ''/'')
          ''path must be an absolute HTTP path'',
        reject (has_control v) ''path contains a control character'']"

definition containsSpaceOrControl :: "string \<Rightarrow> bool" where
  "containsSpaceOrControl v = list_ex (\<lambda>r. control_rune r \<or> r = 32) (runes v)"

definition validateGraphQLEndpointPath :: "string \<Rightarrow> check" where
  "validateGraphQLEndpointPath p =
     first_error
       [validatePolicyPath p,
        (if p = ''/'' then None
         else first_error
           [reject (strings_ContainsAny p (BACKSLASH # ''%?#'') \<or> strings_Contains p ''//'')
              ''GraphQL endpoint path is not normalized'',
            reject (list_ex (\<lambda>s. s = [] \<or> s = ''.'' \<or> s = ''..'')
                      (strings_Split (strings_Trim p CHR ''/'') CHR ''/''))
              ''GraphQL endpoint path is not normalized''])]"

section \<open>Identifiers and scope\<close>

definition ValidateName :: "string \<Rightarrow> check" where
  "ValidateName n = reject (\<not> namePattern n) ''name must match [a-z][a-z0-9-]{0,62}''"

definition ValidateWorkspaceManifestID :: "string \<Rightarrow> check" where
  "ValidateWorkspaceManifestID i = reject (\<not> contextIDPattern i) ''Workspace Manifest ID is invalid''"

definition ValidateWorkspaceID :: "string \<Rightarrow> check" where
  "ValidateWorkspaceID i = reject (\<not> projectIDPattern i) ''Tobari project ID is invalid''"

definition validateAuthorityUUID :: "string \<Rightarrow> string \<Rightarrow> check" where
  "validateAuthorityUUID kind v = reject (\<not> contextIDPattern v) (kind @ '' ID is invalid'')"

definition ContextID_Validate :: "string \<Rightarrow> check" where
  "ContextID_Validate i = validateAuthorityUUID ''Context'' i"

definition WorkspaceID_Validate :: "string \<Rightarrow> check" where
  "WorkspaceID_Validate i = validateAuthorityUUID ''Workspace'' i"

definition ValidatePolicyCandidateID :: "string \<Rightarrow> check" where
  "ValidatePolicyCandidateID i = reject (\<not> policyCandidateIDPattern i) ''policy candidate ID is invalid''"

definition ValidatePolicyRuleID :: "string \<Rightarrow> check" where
  "ValidatePolicyRuleID i =
     reject (\<not> learnedRuleIDPattern i \<and> \<not> policyDenyRuleIDPattern i) ''policy rule ID is invalid''"

definition validatePolicyScope :: "string \<Rightarrow> string \<Rightarrow> string \<Rightarrow> check" where
  "validatePolicyScope contextID contextName projectRoot =
     first_error
       [instead ''Workspace Manifest ID is invalid'' (ValidateWorkspaceManifestID contextID),
        instead ''Workspace Manifest name is invalid'' (ValidateName contextName),
        reject (\<not> filepath_IsAbs projectRoot \<or> filepath_Clean projectRoot \<noteq> projectRoot)
          ''project root is invalid'']"

text \<open>The vocabulary of destinations and lifetimes (\<open>host_loopback.go\<close>).\<close>

abbreviation HostLoopbackHostname :: string where "HostLoopbackHostname \<equiv> ''host.tobari.internal''"
abbreviation PolicyDestinationExternal :: string where "PolicyDestinationExternal \<equiv> ''external''"
abbreviation PolicyDestinationHostLoopback :: string where
  "PolicyDestinationHostLoopback \<equiv> ''host_loopback''"
abbreviation AuthorityLifetimePersistent :: string where "AuthorityLifetimePersistent \<equiv> ''persistent''"
abbreviation AuthorityLifetimeAttachment :: string where "AuthorityLifetimeAttachment \<equiv> ''attachment''"

definition attachmentEpochPattern :: "string \<Rightarrow> bool" where
  "attachmentEpochPattern = prefixed_hex ''att_'' 32"
definition attachmentGrantPattern :: "string \<Rightarrow> bool" where
  "attachmentGrantPattern = prefixed_hex ''pag_'' 32"

definition ValidateAttachmentEpochID :: "string \<Rightarrow> check" where
  "ValidateAttachmentEpochID v = reject (\<not> attachmentEpochPattern v) ''attachment epoch ID is invalid''"

definition ValidateHostLoopbackPort :: "int \<Rightarrow> check" where
  "ValidateHostLoopbackPort p =
     reject (p < 1024 \<or> 65535 < p) ''host loopback port must be between 1024 and 65535''"

lemmas pattern_defs =
  requestIDPattern_def policyCandidateIDPattern_def policyTemplateIDPattern_def
  policyDenyRuleIDPattern_def learnedRuleIDPattern_def policyRevisionPattern_def digestPattern_def
  attachmentEpochPattern_def attachmentGrantPattern_def

lemmas id_check_defs =
  ValidateName_def ValidateWorkspaceManifestID_def ValidateWorkspaceID_def validateAuthorityUUID_def
  ContextID_Validate_def WorkspaceID_Validate_def ValidatePolicyCandidateID_def
  ValidatePolicyRuleID_def ValidateAttachmentEpochID_def ValidateHostLoopbackPort_def

section \<open>No validated coordinate contains a separator byte\<close>

lemma method_literal_printable: "c \<in> set ''!#$%&*+.^_|~-'' \<Longrightarrow> printable c"
  by (auto simp: printable_def byte_def)

lemma char_class_printable:
  "name_start c \<Longrightarrow> printable c" "name_tail c \<Longrightarrow> printable c" "mcp_char c \<Longrightarrow> printable c"
  "host_char c \<Longrightarrow> printable c"
  by (auto simp: name_start_def name_tail_def mcp_char_def host_char_def class_printable)

lemma method_tail_printable: "method_tail c \<Longrightarrow> printable c"
proof -
  assume "method_tail c"
  then consider "is_upper c" | "is_digit c" | "c \<in> set ''!#$%&*+.^_|~-''" | "byte c = 39 \<or> byte c = 96"
    unfolding method_tail_def by blast
  then show "printable c"
    by cases (simp_all only: class_printable method_literal_printable, auto simp: printable_def)
qed

lemma httpMethod_printable [printable_facts]: "httpMethodPattern s \<Longrightarrow> printable_string s"
  by (auto simp: httpMethodPattern_def list_all_iff class_printable method_tail_printable split: list.splits)

lemma graphqlName_printable [printable_facts]: "graphqlNamePattern s \<Longrightarrow> printable_string s"
  by (auto simp: graphqlNamePattern_def list_all_iff char_class_printable split: list.splits)

lemma awsQueryOperation_printable [printable_facts]: "awsQueryOperationPattern s \<Longrightarrow> printable_string s"
  by (auto simp: awsQueryOperationPattern_def list_all_iff char_class_printable split: list.splits)

lemma awsService_printable [printable_facts]: "awsServicePattern s \<Longrightarrow> printable_string s"
  by (force simp: awsServicePattern_def list_all_iff class_printable split: list.splits)

lemma mcpToolName_printable [printable_facts]: "mcpToolNamePattern s \<Longrightarrow> printable_string s"
  by (force simp: mcpToolNamePattern_def list_all_iff char_class_printable)

text \<open>A string whose pieces between occurrences of a printable byte are printable is printable.\<close>

lemma Split_printable:
  assumes "\<forall>x \<in> set (strings_Split s c). printable_string x" and "printable c"
  shows "printable_string s"
  using assms set_Join[of "strings_Split s c" "[c]"] by (auto simp: Join_Split)

lemma mcpMethod_printable [printable_facts]: "mcpMethodPattern s \<Longrightarrow> printable_string s"
  by (rule Split_printable[of _ "CHR ''/''"])
    (auto simp: mcpMethodPattern_def list_all_iff char_class_printable)

lemma awsTargetNamespace_printable [printable_facts]:
  "awsTargetNamespacePattern s \<Longrightarrow> printable_string s"
proof (rule Split_printable[of _ "CHR ''.''"])
  assume "awsTargetNamespacePattern s"
  then show "\<forall>x \<in> set (strings_Split s CHR ''.''). printable_string x"
    by (force simp: awsTargetNamespacePattern_def list_all_iff char_class_printable)
qed simp

lemma uuid7_printable [printable_facts]: "uuid7_pattern s \<Longrightarrow> printable_string s"
proof (rule Split_printable[of _ "CHR ''-''"])
  assume "uuid7_pattern s"
  then obtain a b c d e where "strings_Split s CHR ''-'' = [a, b, c, d, e]"
    "hex_string 8 a" "hex_string 4 b" "hex_string 4 c" "hex_string 4 d" "hex_string 12 e"
    by (auto simp: uuid7_pattern_def split: list.splits)
  then show "\<forall>x \<in> set (strings_Split s CHR ''-''). printable_string x"
    by (auto dest: hex_string_printable)
qed simp

lemma host_printable [printable_facts]: "validNormalizedPolicyHost s \<Longrightarrow> printable_string s"
  by (rule Split_printable[of _ "CHR ''.''"])
    (auto simp: validNormalizedPolicyHost_def valid_host_label_def list_all_iff char_class_printable)

lemma path_printable [printable_facts]: "validatePolicyPath s = None \<Longrightarrow> printable_string s"
  by (auto simp: validatePolicyPath_def check_simps dest: no_control_printable)

lemma coordinate_printable [printable_facts]: "validProtocolCoordinate s m e \<Longrightarrow> printable_string s"
  by (auto simp: validProtocolCoordinate_def dest: no_control_printable)

lemma awsVersion_printable [printable_facts]: "awsProtocolVersionPattern s \<Longrightarrow> printable_string s"
  by (rule Split_printable[of _ "CHR ''-''"])
    (auto simp: awsProtocolVersionPattern_def list_all_iff class_printable split: list.splits)

lemma prefixed_id_printable [printable_facts]:
  "policyCandidateIDPattern s \<Longrightarrow> printable_string s"
  "policyTemplateIDPattern s \<Longrightarrow> printable_string s"
  "policyDenyRuleIDPattern s \<Longrightarrow> printable_string s"
  "learnedRuleIDPattern s \<Longrightarrow> printable_string s"
  "attachmentEpochPattern s \<Longrightarrow> printable_string s"
  "attachmentGrantPattern s \<Longrightarrow> printable_string s"
  unfolding pattern_defs
  by (erule prefixed_hex_printable, simp add: printable_def byte_def)+

end
