(* ===== verification/Path_Template.thy ===== *)
theory Path_Template
  imports Policy_Identity
begin

text \<open>
  Path templates (\<open>internal/domain/tobari/policy_template.go\<close>): a template is a list of literal
  segments with exactly one \<open>{id}\<close> placeholder. \<open>inferPathTemplate\<close> generalizes two observed paths
  that differ in one segment; \<open>pathTemplateMatches\<close> decides which paths a template covers.
\<close>

abbreviation PolicyPathTemplatePlaceholder :: string where
  "PolicyPathTemplatePlaceholder \<equiv> ''{id}''"

definition segment_check :: "string \<Rightarrow> check" where
  "segment_check s =
     first_error
       [reject (s = [] \<or> s = ''.'' \<or> s = ''..'') ''path contains an empty or dot segment'',
        reject (strings_Contains s ''%'') ''path contains an unsafe encoded segment'']"

definition rawPathSegments :: "string \<Rightarrow> string list result" where
  "rawPathSegments p =
     (let segments = strings_Split (strings_TrimPrefix p ''/'') CHR ''/''
      in checked
           (first_error
              [validatePolicyPath p,
               reject (p = ''/'' \<or> strings_ContainsAny p (BACKSLASH # ''{}''))
                 ''path is not safe template evidence'',
               check_each segment_check segments])
           segments)"

text \<open>The loop of \<open>inferPathTemplate\<close>; the flag records that a segment has already changed.\<close>

fun infer_segments :: "bool \<Rightarrow> string list \<Rightarrow> string list \<Rightarrow> (bool \<times> string list) option" where
  "infer_segments changed (l # ls) (r # rs) =
     (if l = r then map_option (\<lambda>(c, ss). (c, l # ss)) (infer_segments changed ls rs)
      else if changed then None
      else map_option (\<lambda>(c, ss). (c, PolicyPathTemplatePlaceholder # ss)) (infer_segments True ls rs))"
| "infer_segments changed _ _ = Some (changed, [])"

definition inferPathTemplate :: "string \<Rightarrow> string \<Rightarrow> (string \<times> string list) option" where
  "inferPathTemplate left right =
     (case (rawPathSegments left, rawPathSegments right) of
        (Inr ls, Inr rs) \<Rightarrow>
          if length ls \<noteq> length rs \<or> length ls < 2 then None
          else (case infer_segments False ls rs of
                  Some (True, segments) \<Rightarrow> Some (CHR ''/'' # strings_Join segments ''/'', segments)
                | _ \<Rightarrow> None)
      | _ \<Rightarrow> None)"

definition validatePathTemplate :: "string \<Rightarrow> string list \<Rightarrow> check" where
  "validatePathTemplate path segments =
     first_error
       [reject (length segments < 2 \<or> path \<noteq> CHR ''/'' # strings_Join segments ''/'')
          ''path template shape is invalid'',
        check_each
          (\<lambda>s. reject (s \<noteq> PolicyPathTemplatePlaceholder \<and> isl (rawPathSegments (''/fixed/'' @ s)))
                 ''path template literal is unsafe'') segments,
        reject (count_list segments PolicyPathTemplatePlaceholder \<noteq> 1)
          ''path template must contain exactly one placeholder'']"

definition segment_matches :: "string \<Rightarrow> string \<Rightarrow> bool" where
  "segment_matches t s = (t = PolicyPathTemplatePlaceholder \<or> t = s)"

definition pathTemplateMatches :: "string list \<Rightarrow> string \<Rightarrow> bool" where
  "pathTemplateMatches templateSegments path =
     (validatePathTemplate (CHR ''/'' # strings_Join templateSegments ''/'') templateSegments = None
      \<and> (case rawPathSegments path of
           Inl _ \<Rightarrow> False
         | Inr segments \<Rightarrow> list_all2 segment_matches templateSegments segments))"

section \<open>Segments of a raw path\<close>

definition safe_segment :: "string \<Rightarrow> bool" where
  "safe_segment s \<longleftrightarrow> s \<noteq> [] \<and> s \<noteq> ''.'' \<and> s \<noteq> ''..'' \<and> \<not> has_control s \<and>
     set s \<inter> {CHR ''/'', CHR ''%'', CHR ''{'', CHR ''}'', BACKSLASH} = {}"

lemma Contains_char: "strings_Contains s [c] \<longleftrightarrow> c \<in> set s"
  by (metis Contains_iff append_Cons append_Nil in_set_conv_decomp)

lemma segment_check_None:
  "segment_check s = None \<longleftrightarrow> s \<noteq> [] \<and> s \<noteq> ''.'' \<and> s \<noteq> ''..'' \<and> CHR ''%'' \<notin> set s"
  by (auto simp: segment_check_def check_simps Contains_char)

lemma set_Split: "set s - {c} = (\<Union>x \<in> set (strings_Split s c). set x)"
proof
  show "set s - {c} \<subseteq> (\<Union>x \<in> set (strings_Split s c). set x)"
    using set_Join[of "strings_Split s c" "[c]"] by (auto simp: Join_Split)
  show "(\<Union>x \<in> set (strings_Split s c). set x) \<subseteq> set s - {c}"
    using Split_subset[of _ s c] Split_sep_free[of _ s c] by blast
qed

lemma Join_slash_free:
  "segments \<noteq> [] \<Longrightarrow> \<forall>s \<in> set segments. CHR ''/'' \<notin> set s \<Longrightarrow>
     strings_Split (strings_Join segments ''/'') CHR ''/'' = segments"
  by (rule Split_Join)

text \<open>
  A path yields segments exactly when it is the slash-separated list of safe segments, and then
  they determine each other.
\<close>

lemma rawPathSegments_iff:
  "rawPathSegments p = Inr segs \<longleftrightarrow>
     p = CHR ''/'' # strings_Join segs ''/'' \<and> segs \<noteq> [] \<and> length p \<le> 4096 \<and>
     (\<forall>s \<in> set segs. safe_segment s)"
proof
  assume r: "rawPathSegments p = Inr segs"
  then have p: "validatePolicyPath p = None" "\<not> strings_ContainsAny p (BACKSLASH # ''{}'')"
    and segs: "segs = strings_Split (strings_TrimPrefix p ''/'') CHR ''/''"
    and each: "\<forall>s \<in> set segs. segment_check s = None"
    by (auto simp: rawPathSegments_def Let_def check_simps)
  from p(1) obtain q where q: "p = CHR ''/'' # q" "length p \<le> 4096" "\<not> has_control q"
    by (auto simp: validatePolicyPath_def check_simps HasPrefix_iff has_control_slash)
  then have tq: "segs = strings_Split q CHR ''/''"
    using segs by (simp add: strings_TrimPrefix_def strings_HasPrefix_def)
  have nc: "\<forall>s \<in> set segs. \<not> has_control s"
    using q(3) tq has_control_Split[of "CHR ''/''" q] by (simp add: control_rune_def)
  have "safe_segment s" if s: "s \<in> set segs" for s
    using each nc s p(2) q(1) Split_subset[of s q "CHR ''/''"] Split_sep_free[of s q "CHR ''/''"] tq
    by (auto simp: safe_segment_def segment_check_None ContainsAny_iff)
  with q tq show "p = CHR ''/'' # strings_Join segs ''/'' \<and> segs \<noteq> [] \<and> length p \<le> 4096 \<and>
     (\<forall>s \<in> set segs. safe_segment s)"
    by (simp add: Join_Split)
next
  assume a: "p = CHR ''/'' # strings_Join segs ''/'' \<and> segs \<noteq> [] \<and> length p \<le> 4096 \<and>
     (\<forall>s \<in> set segs. safe_segment s)"
  define q where "q = strings_Join segs ''/''"
  from a have sq: "strings_Split q CHR ''/'' = segs"
    unfolding q_def by (intro Join_slash_free) (auto simp: safe_segment_def)
  have nc: "\<not> has_control q"
    using a has_control_Split[of "CHR ''/''" q] sq by (simp add: control_rune_def safe_segment_def)
  have "set q - {CHR ''/''} = (\<Union>x \<in> set segs. set x)"
    using set_Split[of q "CHR ''/''"] sq by simp
  then have sq_sub: "\<forall>c \<in> set q. c = CHR ''/'' \<or> (\<exists>x \<in> set segs. c \<in> set x)"
    by blast
  have clean: "\<forall>x \<in> set segs. BACKSLASH \<notin> set x \<and> CHR ''{'' \<notin> set x \<and> CHR ''}'' \<notin> set x"
    using a by (simp add: safe_segment_def)
  have neq: "BACKSLASH \<noteq> CHR ''/''" "CHR ''{'' \<noteq> CHR ''/''" "CHR ''}'' \<noteq> CHR ''/''"
    by simp_all
  have bad: "BACKSLASH \<notin> set q" "CHR ''{'' \<notin> set q" "CHR ''}'' \<notin> set q"
    using sq_sub clean neq by blast+
  have ne: "q \<noteq> []"
  proof
    assume "q = []"
    with sq have "[] \<in> set segs" by auto
    with a show False by (auto simp: safe_segment_def)
  qed
  from a have p: "p = CHR ''/'' # q" by (simp add: q_def)
  from a have lp: "length p \<le> 4096" by blast
  have v: "validatePolicyPath p = None"
    using lp nc by (simp add: p validatePolicyPath_def check_simps strings_HasPrefix_def has_control_slash)
  have any: "\<not> strings_ContainsAny p (BACKSLASH # ''{}'')"
    using bad unfolding p ContainsAny_iff by simp
  have t: "strings_TrimPrefix p ''/'' = q"
    by (simp add: p strings_TrimPrefix_def strings_HasPrefix_def)
  have each: "\<forall>s \<in> set segs. segment_check s = None"
    using a by (auto simp: segment_check_None safe_segment_def)
  show "rawPathSegments p = Inr segs"
    using v any each ne by (simp add: rawPathSegments_def t sq check_simps) (simp add: p)
qed

lemma rawPathSegments_inject:
  "rawPathSegments p = Inr segs \<Longrightarrow> rawPathSegments q = Inr segs \<Longrightarrow> p = q"
  by (simp add: rawPathSegments_iff)

lemma rawPathSegments_valid: "rawPathSegments p = Inr segs \<Longrightarrow> validatePolicyPath p = None"
  by (auto simp: rawPathSegments_def Let_def check_simps)

lemma safe_segment_neq_placeholder: "safe_segment s \<Longrightarrow> s \<noteq> PolicyPathTemplatePlaceholder"
  by (auto simp: safe_segment_def)

section \<open>Matching\<close>

lemma pathTemplateMatches_iff:
  "pathTemplateMatches ts p \<longleftrightarrow>
     validatePathTemplate (CHR ''/'' # strings_Join ts ''/'') ts = None \<and>
     (\<exists>ss. rawPathSegments p = Inr ss \<and> list_all2 segment_matches ts ss)"
  by (auto simp: pathTemplateMatches_def split: sum.splits)

lemma pathTemplateMatches_path: "pathTemplateMatches ts p \<Longrightarrow> validatePolicyPath p = None"
  by (auto simp: pathTemplateMatches_iff dest: rawPathSegments_valid)

text \<open>The literal check of a template: a safe segment that leaves room for the fixed prefix.\<close>

lemma isl_iff: "isl x \<longleftrightarrow> (\<nexists>y. x = Inr y)"
  by (cases x) auto

lemma literal_safe:
  assumes "CHR ''/'' \<notin> set s"
  shows "isl (rawPathSegments (''/fixed/'' @ s)) \<longleftrightarrow> \<not> (safe_segment s \<and> length s \<le> 4089)"
proof -
  have fixed: "safe_segment ''fixed''" by code_simp
  have "rawPathSegments (''/fixed/'' @ s) = Inr [''fixed'', s]" if "safe_segment s" "length s \<le> 4089"
    using that fixed by (simp add: rawPathSegments_iff)
  moreover have "safe_segment s \<and> length s \<le> 4089" if r: "rawPathSegments (''/fixed/'' @ s) = Inr segs" for segs
  proof -
    from r[unfolded rawPathSegments_iff] have l: "length (''/fixed/'' @ s) \<le> 4096"
      and safe: "\<forall>x \<in> set segs. safe_segment x"
      and e: "''/fixed/'' @ s = CHR ''/'' # strings_Join segs ''/''"
      and ne: "segs \<noteq> []" by blast+
    from e have e2: "strings_Join segs ''/'' = strings_Join [''fixed'', s] ''/''" by simp
    have slash: "\<forall>x \<in> set segs. CHR ''/'' \<notin> set x" using safe by (simp add: safe_segment_def)
    have "segs = [''fixed'', s]"
      by (rule Join_inject[OF e2 slash _ ne]) (simp_all add: assms)
    then have "safe_segment s" using safe by simp
    moreover have "length s \<le> 4089" using l by simp
    ultimately show ?thesis ..
  qed
  ultimately show ?thesis by (auto simp: isl_iff)
qed

section \<open>Inference\<close>

text \<open>The templates inference can produce: one differing segment is replaced by the placeholder.\<close>

lemma infer_segments_matches:
  assumes "infer_segments ch ls rs = Some (ch', ss)" and "length ls = length rs"
  shows "list_all2 segment_matches ss ls \<and> list_all2 segment_matches ss rs"
  using assms
  by (induction ch ls rs arbitrary: ss rule: infer_segments.induct)
    (auto simp: segment_matches_def split: if_splits)

lemma infer_segments_count:
  assumes "infer_segments ch ls rs = Some (ch', ss)" and "length ls = length rs"
    and "\<forall>s \<in> set ls. s \<noteq> PolicyPathTemplatePlaceholder"
  shows "count_list ss PolicyPathTemplatePlaceholder = (if ch' \<and> \<not> ch then 1 else 0) \<and> (ch \<longrightarrow> ch')
    \<and> set ss \<subseteq> insert PolicyPathTemplatePlaceholder (set ls)"
  using assms
  by (induction ch ls rs arbitrary: ss rule: infer_segments.induct) (auto split: if_splits)

lemma infer_segments_sym: "infer_segments ch ls rs = infer_segments ch rs ls"
  by (induction ch ls rs rule: infer_segments.induct) auto

lemma inferPathTemplate_Some:
  "inferPathTemplate l r = Some (t, ss) \<longleftrightarrow>
     (\<exists>ls rs. rawPathSegments l = Inr ls \<and> rawPathSegments r = Inr rs \<and> length ls = length rs \<and>
        2 \<le> length ls \<and> infer_segments False ls rs = Some (True, ss) \<and>
        t = CHR ''/'' # strings_Join ss ''/'')"
  by (auto simp: inferPathTemplate_def split: sum.splits option.splits prod.splits bool.splits)

lemma infer_segments_changed:
  assumes "infer_segments ch ls rs = Some (ch', ss)" and "length ls = length rs" "\<not> ch"
  shows "ch' \<longleftrightarrow> ls \<noteq> rs"
  using assms
proof (induction ch ls rs arbitrary: ss rule: infer_segments.induct)
  case (1 ch l ls r rs)
  have "infer_segments True xs ys = Some (c, zs) \<Longrightarrow> c" for xs ys c zs
    by (induction True xs ys arbitrary: zs rule: infer_segments.induct) (auto split: if_splits)
  with 1 show ?case by (auto split: if_splits)
qed auto

text \<open>Inference never depends on which of the two paths was observed first.\<close>

lemma inferPathTemplate_sym: "inferPathTemplate l r = inferPathTemplate r l"
proof -
  have "inferPathTemplate r l = Some (t, ss)" if "inferPathTemplate l r = Some (t, ss)" for l r t ss
    using that infer_segments_sym unfolding inferPathTemplate_Some by fastforce
  then show ?thesis
    by (metis option.exhaust surj_pair)
qed

lemma length_Join_ge: "s \<in> set ss \<Longrightarrow> length s + length ss \<le> length (strings_Join ss [c]) + 1"
proof (induction ss)
  case (Cons a ss)
  have "length ss \<le> length (strings_Join ss [c]) + 1" for ss
    by (induction ss "[c]" rule: strings_Join.induct) auto
  with Cons show ?case by (cases "ss = []") (fastforce simp: Join_Cons)+
qed simp

text \<open>
  What inference promises: the template has the two paths among its matches, provided every
  literal leaves room for the seven bytes of \<open>/fixed/\<close> that the literal check prepends.
\<close>

lemma inferPathTemplate_valid:
  assumes "inferPathTemplate l r = Some (t, ss)"
  shows "validatePathTemplate t ss = None \<longleftrightarrow>
     (\<forall>s \<in> set ss. s \<noteq> PolicyPathTemplatePlaceholder \<longrightarrow> length s \<le> 4089)"
proof -
  from assms obtain ls rs where raw: "rawPathSegments l = Inr ls" "rawPathSegments r = Inr rs"
    and len: "length ls = length rs" "2 \<le> length ls"
    and inf: "infer_segments False ls rs = Some (True, ss)" and t: "t = CHR ''/'' # strings_Join ss ''/''"
    by (auto simp: inferPathTemplate_Some)
  have safe: "\<forall>s \<in> set ls. safe_segment s" using raw(1) by (simp add: rawPathSegments_iff)
  then have "\<forall>s \<in> set ls. s \<noteq> PolicyPathTemplatePlaceholder"
    using safe_segment_neq_placeholder by blast
  from infer_segments_count[OF inf len(1) this]
  have cnt: "count_list ss PolicyPathTemplatePlaceholder = 1"
    and sub: "set ss \<subseteq> insert PolicyPathTemplatePlaceholder (set ls)" by auto
  have "length ss = length ls"
    using infer_segments_matches[OF inf len(1)] by (auto dest: list_all2_lengthD)
  moreover have "isl (rawPathSegments (''/fixed/'' @ s)) \<longleftrightarrow> 4089 < length s"
    if "s \<in> set ss" "s \<noteq> PolicyPathTemplatePlaceholder" for s
  proof -
    from that sub safe have "safe_segment s" by blast
    then have "CHR ''/'' \<notin> set s" by (auto simp: safe_segment_def)
    then show ?thesis using literal_safe[of s] \<open>safe_segment s\<close> by linarith
  qed
  ultimately show ?thesis
    using len cnt t by (force simp: validatePathTemplate_def check_simps)
qed

lemma inferPathTemplate_matches:
  assumes "inferPathTemplate l r = Some (t, ss)" and "validatePathTemplate t ss = None"
  shows "pathTemplateMatches ss l \<and> pathTemplateMatches ss r"
  using assms infer_segments_matches
  by (fastforce simp: inferPathTemplate_Some pathTemplateMatches_iff)

end
