(* ===== verification/Semantic_Module.thy ===== *)
theory Semantic_Module
  imports Path_Template
begin

text \<open>
  The sealed registry of semantic modules (\<open>internal/domain/tobari/semantic_module.go\<close>): for each
  protocol, which identity fields may be set, which HTTP transport coordinates go with them, how
  the identity contributes to opaque references, and the refinement graph that selects one module
  for a classified request. \<open>SemanticRequestEffect\<close> of \<open>semantic_http.go\<close> is here too, since a
  module validates it.
\<close>

record SemanticRequestEffect =
  eff_Scheme :: string
  eff_Host :: string
  eff_Port :: int
  eff_Method :: string
  eff_Path :: string
  eff_Identity :: PolicyProtocolIdentity

section \<open>Which fields belong to which module\<close>

definition graphqlFieldsSet :: "PolicyProtocolIdentity \<Rightarrow> bool" where
  "graphqlFieldsSet i = (GraphQLOperationType i \<noteq> [] \<or> GraphQLRootField i \<noteq> [])"
definition mcpFieldsSet :: "PolicyProtocolIdentity \<Rightarrow> bool" where
  "mcpFieldsSet i = (MCPMethod i \<noteq> [] \<or> MCPToolName i \<noteq> [])"
definition awsFieldsSet :: "PolicyProtocolIdentity \<Rightarrow> bool" where
  "awsFieldsSet i =
     (AWSWireProtocol i \<noteq> [] \<or> AWSService i \<noteq> [] \<or> AWSProtocolVersion i \<noteq> []
      \<or> AWSTargetNamespace i \<noteq> [] \<or> AWSOperation i \<noteq> [])"
definition kubernetesIdentityFieldsSet :: "PolicyProtocolIdentity \<Rightarrow> bool" where
  "kubernetesIdentityFieldsSet i =
     (KubernetesKind i \<noteq> [] \<or> KubernetesVerb i \<noteq> [] \<or> KubernetesGroup i \<noteq> [] \<or> KubernetesVersion i \<noteq> []
      \<or> KubernetesResource i \<noteq> [] \<or> KubernetesNamespace i \<noteq> [] \<or> KubernetesName i \<noteq> []
      \<or> KubernetesSubresource i \<noteq> [] \<or> KubernetesDryRun i \<noteq> [] \<or> KubernetesNonResourcePath i \<noteq> [])"
definition gitFieldsSet :: "PolicyProtocolIdentity \<Rightarrow> bool" where
  "gitFieldsSet i = (GitService i \<noteq> [] \<or> GitRepository i \<noteq> [])"
definition ociFieldsSet :: "PolicyProtocolIdentity \<Rightarrow> bool" where
  "ociFieldsSet i = (OCIAction i \<noteq> [] \<or> OCIRepository i \<noteq> [] \<or> OCIObject i \<noteq> [])"

lemmas fields_set_defs =
  graphqlFieldsSet_def mcpFieldsSet_def awsFieldsSet_def kubernetesIdentityFieldsSet_def
  gitFieldsSet_def ociFieldsSet_def

definition policyIdentityHasRefinement :: "PolicyProtocolIdentity \<Rightarrow> bool" where
  "policyIdentityHasRefinement i =
     (graphqlFieldsSet i \<or> mcpFieldsSet i \<or> awsFieldsSet i \<or> kubernetesIdentityFieldsSet i
      \<or> gitFieldsSet i \<or> ociFieldsSet i)"

section \<open>Identity validation per module\<close>

definition validateHTTPModuleIdentity :: "PolicyProtocolIdentity \<Rightarrow> check" where
  "validateHTTPModuleIdentity i =
     reject (policyIdentityHasRefinement i)
       ''HTTP policy identity cannot contain semantic refinement fields''"

definition validateGraphQLModuleIdentity :: "PolicyProtocolIdentity \<Rightarrow> check" where
  "validateGraphQLModuleIdentity i =
     first_error
       [reject (mcpFieldsSet i \<or> awsFieldsSet i \<or> kubernetesIdentityFieldsSet i \<or> gitFieldsSet i \<or> ociFieldsSet i)
          ''GraphQL policy identity contains another module's fields'',
        reject (GraphQLOperationType i \<noteq> ''query'' \<and> GraphQLOperationType i \<noteq> ''mutation'')
          ''GraphQL operation type is invalid'',
        reject (GraphQLRootField i = [] \<or> 256 < length (GraphQLRootField i)
                \<or> \<not> graphqlNamePattern (GraphQLRootField i)) ''GraphQL root field is invalid'']"

definition validateMCPModuleIdentity :: "PolicyProtocolIdentity \<Rightarrow> check" where
  "validateMCPModuleIdentity i =
     first_error
       [reject (graphqlFieldsSet i \<or> awsFieldsSet i \<or> kubernetesIdentityFieldsSet i \<or> gitFieldsSet i \<or> ociFieldsSet i)
          ''MCP policy identity contains another module's fields'',
        reject (MCPMethod i = [] \<or> 128 < length (MCPMethod i) \<or> \<not> mcpMethodPattern (MCPMethod i))
          ''MCP method is invalid'',
        (if MCPMethod i = ''tools/call''
         then reject (MCPToolName i = [] \<or> 256 < length (MCPToolName i) \<or> \<not> mcpToolNamePattern (MCPToolName i))
                ''MCP tool name is invalid''
         else reject (MCPToolName i \<noteq> []) ''MCP tool name is only valid for tools/call'')]"

definition validateAWSModuleIdentity :: "PolicyProtocolIdentity \<Rightarrow> check" where
  "validateAWSModuleIdentity i =
     first_error
       [reject (graphqlFieldsSet i \<or> mcpFieldsSet i \<or> kubernetesIdentityFieldsSet i \<or> gitFieldsSet i \<or> ociFieldsSet i)
          ''AWS policy identity contains another module's fields'',
        reject (\<not> awsServicePattern (AWSService i)) ''AWS signing service is invalid'',
        (if AWSWireProtocol i = ''query''
         then reject (\<not> awsProtocolVersionPattern (AWSProtocolVersion i) \<or> AWSTargetNamespace i \<noteq> []
                      \<or> \<not> awsQueryOperationPattern (AWSOperation i)) ''AWS Query operation is invalid''
         else if AWSWireProtocol i = ''json''
         then reject (AWSProtocolVersion i \<noteq> []
                      \<or> 256 < length (AWSTargetNamespace i) + 1 + length (AWSOperation i)
                      \<or> \<not> awsTargetNamespacePattern (AWSTargetNamespace i)
                      \<or> \<not> awsQueryOperationPattern (AWSOperation i)) ''AWS JSON operation is invalid''
         else Some ''AWS wire protocol is invalid'')]"

definition validKubernetesSegment :: "string \<Rightarrow> bool \<Rightarrow> bool" where
  "validKubernetesSegment v allowEmpty =
     (if v = [] then allowEmpty
      else \<not> (253 < length v \<or> \<not> utf8_ValidString v \<or> v = ''.'' \<or> v = ''..''
              \<or> strings_ContainsAny v [CHR ''/'', BACKSLASH])
           \<and> \<not> has_control v)"

definition validKubernetesVerb :: "string \<Rightarrow> bool" where
  "validKubernetesVerb v =
     (v = ''get'' \<or> v = ''list'' \<or> v = ''watch'' \<or> v = ''create'' \<or> v = ''update'' \<or> v = ''patch''
      \<or> v = ''delete'' \<or> v = ''deletecollection'' \<or> v = ''connect'')"

definition kubernetes_interactive :: "string \<Rightarrow> bool" where
  "kubernetes_interactive s =
     (s = ''attach'' \<or> s = ''exec'' \<or> s = ''portforward'' \<or> s = ''proxy'')"

definition kubernetes_valid_shape :: "PolicyProtocolIdentity \<Rightarrow> bool" where
  "kubernetes_valid_shape i =
     (let v = KubernetesVerb i; name = KubernetesName i; sub = KubernetesSubresource i;
          dry = KubernetesDryRun i
      in if v = ''get'' then name \<noteq> [] \<and> \<not> kubernetes_interactive sub \<and> dry = ''none''
         else if v = ''list'' \<or> v = ''watch'' then name = [] \<and> sub = [] \<and> dry = ''none''
         else if v = ''create'' then name = [] \<and> sub = []
         else if v = ''update'' \<or> v = ''patch'' \<or> v = ''delete'' then name \<noteq> []
         else if v = ''deletecollection'' then name = [] \<and> sub = []
         else if v = ''connect'' then name \<noteq> [] \<and> kubernetes_interactive sub \<and> dry = ''none''
         else False)"

definition validKubernetesNonResourcePath :: "string \<Rightarrow> bool" where
  "validKubernetesNonResourcePath p =
     (if p = [] \<or> 1024 < length p \<or> \<not> utf8_ValidString p \<or> \<not> strings_HasPrefix p ''/'' \<or> p = ''/''
         \<or> strings_HasSuffix p ''/'' \<or> strings_Contains p ''//''
         \<or> strings_ContainsAny p (BACKSLASH # ''%?#'') then False
      else let parts = strings_Split (tl p) CHR ''/'' in
        list_all (\<lambda>x. validKubernetesSegment x False) parts \<and> \<not> has_control p
        \<and> (if hd parts = ''api'' then length parts = 1 \<or> length parts = 2
           else if hd parts = ''apis'' then length parts = 1 \<or> length parts = 3
           else hd parts = ''healthz'' \<or> hd parts = ''livez'' \<or> hd parts = ''openapi''
                \<or> hd parts = ''readyz'' \<or> hd parts = ''version''))"

definition validateKubernetesModuleIdentity :: "PolicyProtocolIdentity \<Rightarrow> check" where
  "validateKubernetesModuleIdentity i =
     first_error
       [reject (graphqlFieldsSet i \<or> mcpFieldsSet i \<or> awsFieldsSet i \<or> gitFieldsSet i \<or> ociFieldsSet i)
          ''Kubernetes policy identity contains another module's fields'',
        reject (\<not> validKubernetesVerb (KubernetesVerb i)) ''Kubernetes verb is invalid'',
        (if KubernetesKind i = ''resource'' then
           first_error
             [reject (\<not> validKubernetesSegment (KubernetesGroup i) True
                      \<or> \<not> validKubernetesSegment (KubernetesVersion i) False
                      \<or> \<not> validKubernetesSegment (KubernetesResource i) False
                      \<or> \<not> validKubernetesSegment (KubernetesNamespace i) True
                      \<or> \<not> validKubernetesSegment (KubernetesName i) True
                      \<or> \<not> validKubernetesSegment (KubernetesSubresource i) True
                      \<or> KubernetesNonResourcePath i \<noteq> []) ''Kubernetes resource projection is invalid'',
              reject (KubernetesSubresource i \<noteq> [] \<and> KubernetesName i = [])
                ''Kubernetes subresource requires a named resource'',
              reject (KubernetesDryRun i \<noteq> ''none'' \<and> KubernetesDryRun i \<noteq> ''empty'' \<and> KubernetesDryRun i \<noteq> ''all'')
                ''Kubernetes dry-run mode is invalid'',
              reject (\<not> kubernetes_valid_shape i) ''Kubernetes verb and resource shape are inconsistent'']
         else if KubernetesKind i = ''non_resource'' then
           reject (KubernetesVerb i \<noteq> ''get'' \<or> KubernetesGroup i \<noteq> [] \<or> KubernetesVersion i \<noteq> []
                   \<or> KubernetesResource i \<noteq> [] \<or> KubernetesNamespace i \<noteq> [] \<or> KubernetesName i \<noteq> []
                   \<or> KubernetesSubresource i \<noteq> [] \<or> KubernetesDryRun i \<noteq> []
                   \<or> \<not> validKubernetesNonResourcePath (KubernetesNonResourcePath i))
             ''Kubernetes non-resource projection is invalid''
         else Some ''Kubernetes request kind is invalid'')]"

definition validateGitModuleIdentity :: "PolicyProtocolIdentity \<Rightarrow> check" where
  "validateGitModuleIdentity i =
     (let r = GitRepository i in
      first_error
        [reject (graphqlFieldsSet i \<or> mcpFieldsSet i \<or> awsFieldsSet i \<or> kubernetesIdentityFieldsSet i \<or> ociFieldsSet i)
           ''Git policy identity contains another module's fields'',
         reject (GitService i \<noteq> ''upload-pack'' \<and> GitService i \<noteq> ''receive-pack'') ''Git service is invalid'',
         reject (length r < 2 \<or> 1024 < length r \<or> hd r \<noteq> CHR ''/'' \<or> \<not> utf8_ValidString r
                 \<or> strings_Contains r ''//'' \<or> strings_ContainsAny r [CHR ''%'', BACKSLASH])
           ''Git repository path is invalid'',
         reject (list_ex (\<lambda>s. s = [] \<or> s = ''.'' \<or> s = ''..'') (strings_Split (tl r) CHR ''/''))
           ''Git repository path is invalid'',
         reject (has_control r) ''Git repository path is invalid''])"

section \<open>OCI quoted tokens\<close>

definition hexadecimalNibble :: "char \<Rightarrow> nat option" where
  "hexadecimalNibble c =
     (if is_digit c then Some (byte c - 48)
      else if 65 \<le> byte c \<and> byte c \<le> 70 then Some (byte c - 65 + 10)
      else if 97 \<le> byte c \<and> byte c \<le> 102 then Some (byte c - 97 + 10)
      else None)"

definition oci_unreserved :: "char \<Rightarrow> bool" where
  "oci_unreserved c = (is_lower c \<or> is_upper c \<or> is_digit c \<or> c \<in> set ''-._~'')"

definition hexadecimal :: "nat \<Rightarrow> char" where "hexadecimal n = ''0123456789ABCDEF'' ! n"

fun canonicalOCIQuotedToken :: "string \<Rightarrow> string" where
  "canonicalOCIQuotedToken [] = []"
| "canonicalOCIQuotedToken (c # cs) =
     (if oci_unreserved c then c # canonicalOCIQuotedToken cs
      else CHR ''%'' # hexadecimal (byte c div 16) # hexadecimal (byte c mod 16)
           # canonicalOCIQuotedToken cs)"

text \<open>The byte loop of \<open>decodeCanonicalOCIQuotedToken\<close>.\<close>

fun oci_decode_bytes :: "string \<Rightarrow> string option" where
  "oci_decode_bytes [] = Some []"
| "oci_decode_bytes (c # cs) =
     (if c \<noteq> CHR ''%'' then map_option ((#) c) (oci_decode_bytes cs)
      else (case cs of
              h # l # rest \<Rightarrow>
                (case (hexadecimalNibble h, hexadecimalNibble l) of
                   (Some high, Some low) \<Rightarrow>
                     map_option ((#) (char_of (high * 16 + low))) (oci_decode_bytes rest)
                 | _ \<Rightarrow> None)
            | _ \<Rightarrow> None))"

definition decodeCanonicalOCIQuotedToken :: "string \<Rightarrow> string option" where
  "decodeCanonicalOCIQuotedToken token =
     (if token = [] then None
      else (case oci_decode_bytes token of
              None \<Rightarrow> None
            | Some decoded \<Rightarrow>
                if 512 < length decoded \<or> \<not> utf8_ValidString decoded
                   \<or> canonicalOCIQuotedToken decoded \<noteq> token then None
                else Some decoded))"

definition validOCIPathSegment :: "string \<Rightarrow> bool" where
  "validOCIPathSegment s =
     (\<not> (s = [] \<or> 512 < length s \<or> \<not> utf8_ValidString s \<or> s = ''.'' \<or> s = ''..''
         \<or> strings_ContainsAny s [CHR ''%'', BACKSLASH, CHR ''/''])
      \<and> \<not> has_control s)"

definition validOCIRepository :: "string \<Rightarrow> bool \<Rightarrow> bool" where
  "validOCIRepository r allowEmpty =
     (if r = [] then allowEmpty
      else \<not> (1024 < length r \<or> \<not> utf8_ValidString r \<or> strings_ContainsAny r [CHR ''%'', BACKSLASH])
           \<and> list_all validOCIPathSegment (strings_Split r CHR ''/''))"

fun validOCIPathObject :: "string \<Rightarrow> string list \<Rightarrow> bool" where
  "validOCIPathObject obj [] = False"
| "validOCIPathObject obj (p # ps) =
     (if strings_HasPrefix obj p then validOCIPathSegment (strings_TrimPrefix obj p)
      else validOCIPathObject obj ps)"

definition oci_valid_coordinate :: "string \<Rightarrow> string \<Rightarrow> string \<Rightarrow> bool" where
  "oci_valid_coordinate action repo obj =
     (if action = ''list'' then (repo = [] \<and> obj = ''catalog'') \<or> (repo \<noteq> [] \<and> obj = ''tags'')
      else if action = ''pull'' then repo \<noteq> [] \<and> validOCIPathObject obj [''manifest:'', ''blob:'', ''referrers:'']
      else if action = ''push'' then repo \<noteq> [] \<and> validOCIPathObject obj [''manifest:'']
      else if action = ''delete'' then repo \<noteq> [] \<and> validOCIPathObject obj [''manifest:'', ''blob:'']
      else if action = ''start_upload'' then repo \<noteq> [] \<and> obj = ''upload''
      else if action = ''upload_status'' \<or> action = ''upload_chunk'' \<or> action = ''cancel_upload'' then
        repo \<noteq> [] \<and> validOCIPathObject obj [''upload:'']
      else if action = ''complete_upload'' then
        (if strings_HasPrefix obj ''blob:'' then
           repo \<noteq> [] \<and> decodeCanonicalOCIQuotedToken (strings_TrimPrefix obj ''blob:'') \<noteq> None
         else if strings_HasPrefix obj ''upload:'' then
           (case strings_Split2 (strings_TrimPrefix obj ''upload:'') '':blob:'' of
              None \<Rightarrow> False
            | Some (session, digest) \<Rightarrow>
                repo \<noteq> [] \<and> decodeCanonicalOCIQuotedToken session \<noteq> None
                \<and> decodeCanonicalOCIQuotedToken digest \<noteq> None)
         else False)
      else if action = ''mount'' then
        (case strings_Split2 (strings_TrimPrefix obj ''mount:'') '':from:'' of
           None \<Rightarrow> False
         | Some (digest, source) \<Rightarrow>
             repo \<noteq> [] \<and> strings_HasPrefix obj ''mount:''
             \<and> decodeCanonicalOCIQuotedToken digest \<noteq> None
             \<and> (case decodeCanonicalOCIQuotedToken source of
                  None \<Rightarrow> False | Some s \<Rightarrow> validOCIRepository s False))
      else False)"

definition oci_actions :: "string list" where
  "oci_actions =
     [''list'', ''pull'', ''push'', ''delete'', ''start_upload'', ''upload_status'', ''upload_chunk'',
      ''complete_upload'', ''mount'', ''cancel_upload'']"

definition validateOCIModuleIdentity :: "PolicyProtocolIdentity \<Rightarrow> check" where
  "validateOCIModuleIdentity i =
     first_error
       [reject (graphqlFieldsSet i \<or> mcpFieldsSet i \<or> awsFieldsSet i \<or> kubernetesIdentityFieldsSet i \<or> gitFieldsSet i)
          ''OCI policy identity contains another module's fields'',
        reject (OCIAction i \<notin> set oci_actions) ''OCI action is invalid'',
        reject (\<not> validOCIRepository (OCIRepository i) True \<or> \<not> validProtocolCoordinate (OCIObject i) 1024 False)
          ''OCI coordinate is invalid'',
        reject (\<not> oci_valid_coordinate (OCIAction i) (OCIRepository i) (OCIObject i)
                \<or> strings_HasSuffix (OCIObject i) '':'') ''OCI action coordinate is invalid'']"

section \<open>Transport coordinates per module\<close>

definition validateMCPModuleEffect :: "SemanticRequestEffect \<Rightarrow> check" where
  "validateMCPModuleEffect e = reject (eff_Method e \<noteq> ''POST'') ''MCP transport method must be POST''"

definition validateAWSModuleEffect :: "SemanticRequestEffect \<Rightarrow> check" where
  "validateAWSModuleEffect e =
     reject (eff_Method e \<noteq> ''POST'' \<or> eff_Path e \<noteq> ''/'') ''AWS RPC transport coordinates are invalid''"

definition kubernetesResourcePath :: "PolicyProtocolIdentity \<Rightarrow> string" where
  "kubernetesResourcePath i =
     CHR ''/'' # strings_Join
       ((if KubernetesGroup i = [] then [''api'', KubernetesVersion i]
         else [''apis'', KubernetesGroup i, KubernetesVersion i])
        @ (if KubernetesNamespace i \<noteq> [] then [''namespaces'', KubernetesNamespace i] else [])
        @ [KubernetesResource i]
        @ (if KubernetesName i \<noteq> [] then [KubernetesName i] else [])
        @ (if KubernetesSubresource i \<noteq> [] then [KubernetesSubresource i] else [])) ''/''"

definition kubernetes_verb_method :: "string \<Rightarrow> string" where
  "kubernetes_verb_method v =
     (if v = ''get'' \<or> v = ''list'' \<or> v = ''watch'' then ''GET''
      else if v = ''create'' then ''POST'' else if v = ''update'' then ''PUT''
      else if v = ''patch'' then ''PATCH''
      else if v = ''delete'' \<or> v = ''deletecollection'' then ''DELETE'' else [])"

definition validateKubernetesModuleEffect :: "SemanticRequestEffect \<Rightarrow> check" where
  "validateKubernetesModuleEffect e =
     (let i = eff_Identity e in
      if KubernetesKind i = ''non_resource'' then
        reject (eff_Method e \<noteq> ''GET'' \<or> eff_Path e \<noteq> KubernetesNonResourcePath i)
          ''Kubernetes non-resource transport coordinates are invalid''
      else
        first_error
          [(if KubernetesVerb i = ''connect''
            then reject (eff_Method e \<noteq> ''GET'' \<and> eff_Method e \<noteq> ''POST'')
                   ''Kubernetes connect transport method is invalid''
            else reject (eff_Method e \<noteq> kubernetes_verb_method (KubernetesVerb i))
                   ''Kubernetes transport method is inconsistent with its verb''),
           reject (eff_Path e \<noteq> kubernetesResourcePath i)
             ''Kubernetes transport path is inconsistent with its resource projection''])"

definition validateGitModuleEffect :: "SemanticRequestEffect \<Rightarrow> check" where
  "validateGitModuleEffect e =
     (let i = eff_Identity e in
      reject (\<not> ((eff_Method e = ''GET'' \<and> eff_Path e = GitRepository i @ ''/info/refs'')
                 \<or> (eff_Method e = ''POST'' \<and> eff_Path e = GitRepository i @ ''/git-'' @ GitService i)))
        ''Git Smart HTTP transport coordinates are invalid'')"

definition oci_valid_transport :: "SemanticRequestEffect \<Rightarrow> bool" where
  "oci_valid_transport e =
     (let i = eff_Identity e; action = OCIAction i; repo = OCIRepository i; obj = OCIObject i;
          method = eff_Method e; path = eff_Path e; base = ''/v2/'' @ repo;
          value_of = strings_TrimPrefix obj;
          uploads = (path = base @ ''/blobs/uploads'' \<or> path = base @ ''/blobs/uploads/'')
      in if action = ''list'' then
           method = ''GET'' \<and> ((repo = [] \<and> path = ''/v2/_catalog'') \<or> (repo \<noteq> [] \<and> path = base @ ''/tags/list''))
         else if action = ''pull'' then
           (if strings_HasPrefix obj ''manifest:'' then
              (method = ''GET'' \<or> method = ''HEAD'') \<and> path = base @ ''/manifests/'' @ value_of ''manifest:''
            else if strings_HasPrefix obj ''blob:'' then
              (method = ''GET'' \<or> method = ''HEAD'') \<and> path = base @ ''/blobs/'' @ value_of ''blob:''
            else if strings_HasPrefix obj ''referrers:'' then
              method = ''GET'' \<and> path = base @ ''/referrers/'' @ value_of ''referrers:''
            else False)
         else if action = ''push'' then
           method = ''PUT'' \<and> path = base @ ''/manifests/'' @ value_of ''manifest:''
         else if action = ''delete'' then
           (if strings_HasPrefix obj ''manifest:'' then
              method = ''DELETE'' \<and> path = base @ ''/manifests/'' @ value_of ''manifest:''
            else if strings_HasPrefix obj ''blob:'' then
              method = ''DELETE'' \<and> path = base @ ''/blobs/'' @ value_of ''blob:''
            else False)
         else if action = ''start_upload'' \<or> action = ''mount'' then method = ''POST'' \<and> uploads
         else if action = ''upload_status'' then
           method = ''GET'' \<and> path = base @ ''/blobs/uploads/'' @ value_of ''upload:''
         else if action = ''upload_chunk'' then
           method = ''PATCH'' \<and> path = base @ ''/blobs/uploads/'' @ value_of ''upload:''
         else if action = ''cancel_upload'' then
           method = ''DELETE'' \<and> path = base @ ''/blobs/uploads/'' @ value_of ''upload:''
         else if action = ''complete_upload'' then
           (if strings_HasPrefix obj ''blob:'' then method = ''POST'' \<and> uploads
            else if strings_HasPrefix obj ''upload:'' then
              (case strings_Split2 (value_of ''upload:'') '':blob:'' of
                 None \<Rightarrow> False
               | Some (s, _) \<Rightarrow>
                   (case decodeCanonicalOCIQuotedToken s of
                      None \<Rightarrow> False
                    | Some session \<Rightarrow> method = ''PUT'' \<and> path = base @ ''/blobs/uploads/'' @ session))
            else False)
         else False)"

definition validateOCIModuleEffect :: "SemanticRequestEffect \<Rightarrow> check" where
  "validateOCIModuleEffect e =
     reject (\<not> oci_valid_transport e) ''OCI Distribution transport coordinates are invalid''"

section \<open>The registry\<close>

record policyModule =
  moduleID :: string
  parentModuleID :: string
  protocolID :: string
  validateFn :: "PolicyProtocolIdentity \<Rightarrow> check"
  validateEffectFn :: "(SemanticRequestEffect \<Rightarrow> check) option"
  stateChangeFn :: "PolicyProtocolIdentity \<Rightarrow> string"
  appendFn :: "string list \<Rightarrow> PolicyProtocolIdentity \<Rightarrow> string list"

abbreviation SemanticModuleHTTPGeneric :: string where
  "SemanticModuleHTTPGeneric \<equiv> ''protocols.http.generic''"
abbreviation SemanticModuleGraphQL :: string where "SemanticModuleGraphQL \<equiv> ''protocols.http.graphql''"
abbreviation SemanticModuleMCP :: string where "SemanticModuleMCP \<equiv> ''protocols.http.mcp''"
abbreviation SemanticModuleAWS :: string where "SemanticModuleAWS \<equiv> ''providers.aws''"
abbreviation SemanticModuleKubernetes :: string where "SemanticModuleKubernetes \<equiv> ''providers.kubernetes''"
abbreviation SemanticModuleGit :: string where "SemanticModuleGit \<equiv> ''protocols.http.git''"
abbreviation SemanticModuleOCI :: string where "SemanticModuleOCI \<equiv> ''protocols.http.oci''"

definition semanticModuleIDs :: "string list" where
  "semanticModuleIDs =
     [SemanticModuleHTTPGeneric, SemanticModuleGraphQL, SemanticModuleMCP, SemanticModuleAWS,
      SemanticModuleKubernetes, SemanticModuleGit, SemanticModuleOCI]"

definition graphqlStateChange :: "PolicyProtocolIdentity \<Rightarrow> string" where
  "graphqlStateChange i = (if GraphQLOperationType i = ''query'' then ''not_expected'' else ''possible'')"

definition kubernetesStateChange :: "PolicyProtocolIdentity \<Rightarrow> string" where
  "kubernetesStateChange i =
     (if KubernetesVerb i = ''connect'' then ''interactive''
      else if KubernetesDryRun i = ''all'' \<or> KubernetesVerb i = ''get'' \<or> KubernetesVerb i = ''list''
              \<or> KubernetesVerb i = ''watch'' then ''not_expected'' else ''possible'')"

definition gitStateChange :: "PolicyProtocolIdentity \<Rightarrow> string" where
  "gitStateChange i = (if GitService i = ''upload-pack'' then ''not_expected'' else ''possible'')"

definition ociStateChange :: "PolicyProtocolIdentity \<Rightarrow> string" where
  "ociStateChange i =
     (if OCIAction i = ''list'' \<or> OCIAction i = ''pull'' \<or> OCIAction i = ''upload_status''
      then ''not_expected'' else ''possible'')"

definition semanticModules :: "policyModule list" where
  "semanticModules =
     [\<lparr> moduleID = SemanticModuleHTTPGeneric, parentModuleID = [], protocolID = ''http'',
        validateFn = validateHTTPModuleIdentity, validateEffectFn = None,
        stateChangeFn = (\<lambda>_. ''unknown''), appendFn = (\<lambda>m _. m) \<rparr>,
      \<lparr> moduleID = SemanticModuleGraphQL, parentModuleID = SemanticModuleHTTPGeneric, protocolID = ''graphql'',
        validateFn = validateGraphQLModuleIdentity, validateEffectFn = None,
        stateChangeFn = graphqlStateChange,
        appendFn = (\<lambda>m i. m @ [''graphql'', GraphQLOperationType i, GraphQLRootField i]) \<rparr>,
      \<lparr> moduleID = SemanticModuleMCP, parentModuleID = SemanticModuleHTTPGeneric, protocolID = ''mcp'',
        validateFn = validateMCPModuleIdentity, validateEffectFn = Some validateMCPModuleEffect,
        stateChangeFn = (\<lambda>_. ''unknown''),
        appendFn = (\<lambda>m i. m @ [''mcp'', MCPMethod i, MCPToolName i]) \<rparr>,
      \<lparr> moduleID = SemanticModuleAWS, parentModuleID = SemanticModuleHTTPGeneric, protocolID = ''aws'',
        validateFn = validateAWSModuleIdentity, validateEffectFn = Some validateAWSModuleEffect,
        stateChangeFn = (\<lambda>_. ''unknown''),
        appendFn = (\<lambda>m i. m @ [''aws'', AWSWireProtocol i, AWSService i, AWSProtocolVersion i,
                               AWSTargetNamespace i, AWSOperation i]) \<rparr>,
      \<lparr> moduleID = SemanticModuleKubernetes, parentModuleID = SemanticModuleHTTPGeneric, protocolID = ''kubernetes'',
        validateFn = validateKubernetesModuleIdentity, validateEffectFn = Some validateKubernetesModuleEffect,
        stateChangeFn = kubernetesStateChange,
        appendFn = (\<lambda>m i. m @ [''kubernetes'', KubernetesKind i, KubernetesVerb i, KubernetesGroup i,
                               KubernetesVersion i, KubernetesResource i, KubernetesNamespace i,
                               KubernetesName i, KubernetesSubresource i, KubernetesDryRun i,
                               KubernetesNonResourcePath i]) \<rparr>,
      \<lparr> moduleID = SemanticModuleGit, parentModuleID = SemanticModuleHTTPGeneric, protocolID = ''git'',
        validateFn = validateGitModuleIdentity, validateEffectFn = Some validateGitModuleEffect,
        stateChangeFn = gitStateChange,
        appendFn = (\<lambda>m i. m @ [''git'', GitService i, GitRepository i]) \<rparr>,
      \<lparr> moduleID = SemanticModuleOCI, parentModuleID = SemanticModuleHTTPGeneric, protocolID = ''oci'',
        validateFn = validateOCIModuleIdentity, validateEffectFn = Some validateOCIModuleEffect,
        stateChangeFn = ociStateChange,
        appendFn = (\<lambda>m i. m @ [''oci'', OCIAction i, OCIRepository i, OCIObject i]) \<rparr>]"

definition module_validateEffect :: "policyModule \<Rightarrow> SemanticRequestEffect \<Rightarrow> check" where
  "module_validateEffect m e = (case validateEffectFn m of None \<Rightarrow> None | Some f \<Rightarrow> f e)"

definition semanticModuleByProtocol :: "string \<Rightarrow> policyModule option" where
  "semanticModuleByProtocol p = find (\<lambda>m. protocolID m = p) semanticModules"

definition semanticModuleByID :: "string \<Rightarrow> policyModule option" where
  "semanticModuleByID i = find (\<lambda>m. moduleID m = i) semanticModules"

definition validateSemanticModuleIdentity :: "PolicyProtocolIdentity \<Rightarrow> check" where
  "validateSemanticModuleIdentity i =
     first_error
       [reject (Scheme i \<noteq> ''http'' \<and> Scheme i \<noteq> ''https'') ''policy scheme is invalid'',
        (case semanticModuleByProtocol (Protocol i) of
           None \<Rightarrow> Some ''policy semantic module is invalid''
         | Some m \<Rightarrow> validateFn m i)]"

abbreviation PolicyProtocolIdentity_Validate :: "PolicyProtocolIdentity \<Rightarrow> check" where
  "PolicyProtocolIdentity_Validate \<equiv> validateSemanticModuleIdentity"

definition semanticModuleStateChange :: "PolicyProtocolIdentity \<Rightarrow> string" where
  "semanticModuleStateChange i =
     (case semanticModuleByProtocol (Protocol i) of None \<Rightarrow> ''unknown'' | Some m \<Rightarrow> stateChangeFn m i)"

definition semanticModuleMatches :: "PolicyProtocolIdentity \<Rightarrow> PolicyProtocolIdentity \<Rightarrow> bool" where
  "semanticModuleMatches left right =
     (case semanticModuleByProtocol (Protocol left) of
        None \<Rightarrow> False
      | Some m \<Rightarrow> if Protocol right \<noteq> Protocol left then False else left = right)"

definition appendSemanticModuleIdentity :: "string list \<Rightarrow> PolicyProtocolIdentity \<Rightarrow> string list" where
  "appendSemanticModuleIdentity material i =
     (case semanticModuleByProtocol (Protocol i) of
        None \<Rightarrow> (material @ [Scheme i]) @ [''invalid'']
      | Some m \<Rightarrow> appendFn m (material @ [Scheme i]) i)"

definition SemanticModuleID :: "PolicyProtocolIdentity \<Rightarrow> string" where
  "SemanticModuleID i =
     (if validateSemanticModuleIdentity i \<noteq> None then []
      else (case semanticModuleByProtocol (Protocol i) of None \<Rightarrow> [] | Some m \<Rightarrow> moduleID m))"

definition SemanticRequestEffect_Validate :: "SemanticRequestEffect \<Rightarrow> check" where
  "SemanticRequestEffect_Validate e =
     first_error
       [wrap ''semantic request identity'' (PolicyProtocolIdentity_Validate (eff_Identity e)),
        reject (eff_Scheme e \<noteq> Scheme (eff_Identity e))
          ''semantic request scheme does not match its module identity'',
        reject (\<not> validNormalizedPolicyHost (eff_Host e) \<or> eff_Port e < 1 \<or> 65535 < eff_Port e)
          ''semantic request authority is invalid'',
        reject (\<not> httpMethodPattern (eff_Method e)) ''semantic request method is invalid'',
        instead ''semantic request path is invalid'' (validatePolicyPath (eff_Path e)),
        (case semanticModuleByProtocol (Protocol (eff_Identity e)) of
           None \<Rightarrow> Some ''semantic request module is invalid''
         | Some m \<Rightarrow> module_validateEffect m e)]"

definition semanticExactEffectMatches :: "SemanticRequestEffect \<Rightarrow> SemanticRequestEffect \<Rightarrow> bool" where
  "semanticExactEffectMatches left right =
     (SemanticRequestEffect_Validate left = None \<and> SemanticRequestEffect_Validate right = None
      \<and> eff_Scheme left = eff_Scheme right \<and> eff_Host left = eff_Host right
      \<and> eff_Port left = eff_Port right \<and> eff_Method left = eff_Method right
      \<and> eff_Path left = eff_Path right
      \<and> semanticModuleMatches (eff_Identity left) (eff_Identity right))"

section \<open>Validation of the registry and selection of a module\<close>

text \<open>The walk from a module to the root, with the identifiers already seen on the way.\<close>

function registry_chain :: "policyModule list \<Rightarrow> string list \<Rightarrow> string \<Rightarrow> check" where
  "registry_chain mods seen parent =
     (if parent = [] then None
      else if parent \<in> set seen then Some ''semantic module refinement graph contains a cycle''
      else (case find (\<lambda>m. moduleID m = parent) mods of
              None \<Rightarrow> Some ''semantic module parent is unknown''
            | Some m \<Rightarrow> registry_chain mods (parent # seen) (parentModuleID m)))"
  by pat_completeness auto
termination
proof (relation "measure (\<lambda>(mods, seen, _). card (moduleID ` set mods - set seen))", simp, clarsimp)
  fix mods :: "policyModule list" and seen parent m
  assume new: "parent \<notin> set seen" and found: "find (\<lambda>m. moduleID m = parent) mods = Some m"
  then have "parent \<in> moduleID ` set mods - set seen"
    by (force simp: find_Some_iff)
  moreover have "moduleID ` set mods - insert parent (set seen) = (moduleID ` set mods - set seen) - {parent}"
    by blast
  ultimately show "card (moduleID ` set mods - insert parent (set seen)) < card (moduleID ` set mods - set seen)"
    by (metis List.finite_set card_Diff1_less finite_Diff finite_imageI)
qed

declare registry_chain.simps [simp del]

fun registry_inventory :: "string list \<Rightarrow> string list \<Rightarrow> policyModule list \<Rightarrow> check" where
  "registry_inventory byID byProtocol [] = None"
| "registry_inventory byID byProtocol (m # ms) =
     first_error
       [reject (moduleID m = [] \<or> protocolID m = []) ''semantic module identity is empty'',
        reject (moduleID m \<in> set byID) ''semantic module ID is duplicated'',
        reject (protocolID m \<in> set byProtocol) ''semantic module protocol is duplicated'',
        registry_inventory (moduleID m # byID) (protocolID m # byProtocol) ms]"

definition registry_check :: "policyModule list \<Rightarrow> string list \<Rightarrow> check" where
  "registry_check mods public =
     first_error
       [registry_inventory [] [] mods,
        reject (length mods \<noteq> length public)
          ''semantic module registry inventory diverges from its public IDs'',
        check_each (\<lambda>i. reject (i \<notin> moduleID ` set mods) ''semantic module registry omits public ID'') public,
        check_each
          (\<lambda>m. first_error
             [reject (moduleID m \<noteq> SemanticModuleHTTPGeneric \<and> parentModuleID m = [])
                ''semantic module is an extra refinement root'',
              registry_chain mods [moduleID m] (parentModuleID m)]) mods,
        (case find (\<lambda>m. moduleID m = SemanticModuleHTTPGeneric) mods of
           None \<Rightarrow> Some ''generic HTTP must be the semantic module root''
         | Some root \<Rightarrow> reject (parentModuleID root \<noteq> []) ''generic HTTP must be the semantic module root'')]"

definition ValidateSemanticModuleRegistry :: check where
  "ValidateSemanticModuleRegistry = registry_check semanticModules semanticModuleIDs"

lemma semanticModuleByID_simps [simp]:
  "semanticModuleByID [] = None"
  "map_option parentModuleID (semanticModuleByID i) =
     (if i \<notin> set semanticModuleIDs then None
      else if i = SemanticModuleHTTPGeneric then Some [] else Some SemanticModuleHTTPGeneric)"
  by (auto simp: semanticModuleByID_def semanticModules_def semanticModuleIDs_def)

lemma semanticModuleByID_parent:
  assumes "semanticModuleByID i = Some m"
  shows "i \<in> set semanticModuleIDs" and "i \<noteq> []"
    and "parentModuleID m = (if i = SemanticModuleHTTPGeneric then [] else SemanticModuleHTTPGeneric)"
  using assms semanticModuleByID_simps(2)[of i] by (auto split: if_splits)

function semanticModuleRefines :: "string \<Rightarrow> string \<Rightarrow> bool" where
  "semanticModuleRefines current ancestor =
     (if current = [] then False
      else if current = ancestor then True
      else (case semanticModuleByID current of
              None \<Rightarrow> False
            | Some m \<Rightarrow> semanticModuleRefines (parentModuleID m) ancestor))"
  by pat_completeness auto
termination
  by (relation "measure (\<lambda>(c, _). if c = [] then 0 else if c = SemanticModuleHTTPGeneric then 1 else (2 :: nat))")
    (auto simp: semanticModuleByID_parent(3))

declare semanticModuleRefines.simps [simp del]

definition most_specific :: "string list \<Rightarrow> string list" where
  "most_specific unique =
     sort (filter (\<lambda>c. \<not> list_ex (\<lambda>o'. o' \<noteq> c \<and> semanticModuleRefines o' c) unique) unique)"

definition SelectSemanticModule :: "string list \<Rightarrow> string result" where
  "SelectSemanticModule candidates =
     guarded
       (first_error
          [ValidateSemanticModuleRegistry,
           reject (candidates = []) ''semantic module candidates are empty'',
           check_each (\<lambda>c. reject (semanticModuleByID c = None) ''semantic module candidate is unknown'')
             candidates])
       (case most_specific (remdups candidates) of
          [m] \<Rightarrow> Inr m
        | ms \<Rightarrow> Inl (''semantic module classification is ambiguous: '' @ strings_Join ms '',''))"

record SemanticClassificationClaim =
  claim_ModuleID :: string
  claim_State :: string

definition claim_check :: "SemanticClassificationClaim \<Rightarrow> check" where
  "claim_check c =
     first_error
       [reject (semanticModuleByID (claim_ModuleID c) = None) ''semantic module claim is unknown'',
        (if claim_State c = ''matched'' then None
         else if claim_State c = ''malformed'' then Some ''semantic module classified request is malformed''
         else Some ''semantic module claim state is invalid'')]"

definition SelectSemanticModuleClaims :: "SemanticClassificationClaim list \<Rightarrow> string result" where
  "SelectSemanticModuleClaims claims =
     guarded
       (first_error
          [reject (claims = []) ''semantic module classification claims are empty'',
           check_each claim_check claims])
       (SelectSemanticModule (map claim_ModuleID claims))"

section \<open>The registry and the selection\<close>

lemma registry_valid: "ValidateSemanticModuleRegistry = None"
  by code_simp

lemma semanticModuleByID_None: "semanticModuleByID i = None \<longleftrightarrow> i \<notin> set semanticModuleIDs"
  using semanticModuleByID_simps(2)[of i] by (cases "semanticModuleByID i") (auto split: if_splits)

lemma refines_known:
  "c \<in> set semanticModuleIDs \<Longrightarrow>
     semanticModuleRefines c a \<longleftrightarrow> a = c \<or> a = SemanticModuleHTTPGeneric"
proof -
  assume c: "c \<in> set semanticModuleIDs"
  then obtain m where m: "semanticModuleByID c = Some m"
    using semanticModuleByID_None by fastforce
  note p = semanticModuleByID_parent[OF m]
  have root: "semanticModuleRefines SemanticModuleHTTPGeneric a \<longleftrightarrow> a = SemanticModuleHTTPGeneric"
  proof -
    obtain r where r: "semanticModuleByID SemanticModuleHTTPGeneric = Some r"
      using semanticModuleByID_None[of SemanticModuleHTTPGeneric] by (auto simp: semanticModuleIDs_def)
    have "\<not> semanticModuleRefines [] a" by (subst semanticModuleRefines.simps) simp
    with r semanticModuleByID_parent(3)[OF r] show ?thesis
      by (subst semanticModuleRefines.simps) auto
  qed
  have "\<not> semanticModuleRefines [] a" by (subst semanticModuleRefines.simps) simp
  with m p root show ?thesis
    by (subst semanticModuleRefines.simps) (auto split: if_splits)
qed

lemma most_specific_eq:
  assumes "set cs \<subseteq> set semanticModuleIDs"
  shows "most_specific cs =
     sort (filter (\<lambda>c. c = SemanticModuleHTTPGeneric \<longrightarrow> set cs = {SemanticModuleHTTPGeneric}) cs)"
proof -
  have "list_ex (\<lambda>o'. o' \<noteq> c \<and> semanticModuleRefines o' c) cs \<longleftrightarrow>
      c = SemanticModuleHTTPGeneric \<and> set cs \<noteq> {SemanticModuleHTTPGeneric}" if "c \<in> set cs" for c
    using that assms by (auto simp: list_ex_iff refines_known subset_iff)
  then show ?thesis unfolding most_specific_def by (intro arg_cong[of _ _ sort] filter_cong) auto
qed

lemma singleton_sort: "distinct xs \<Longrightarrow> sort xs = [m] \<longleftrightarrow> set xs = {m}"
proof
  assume "sort xs = [m]"
  then show "set xs = {m}" by (metis set_sort list.set(1) list.set(2))
next
  assume d: "distinct xs" and s: "set xs = {m}"
  then obtain a ys where xs: "xs = a # ys" by (cases xs) auto
  with s have "a = m" "set ys \<subseteq> {m}" by auto
  with d xs have "set ys = {}" by (metis distinct.simps(2) subset_singletonD insertI1)
  with xs \<open>a = m\<close> show "sort xs = [m]" by simp
qed

lemma refined_singleton:
  "A \<noteq> {} \<and> {c \<in> A. c = h \<longrightarrow> A = {h}} = {m} \<longleftrightarrow> m \<in> A \<and> A \<subseteq> {m, h}"
  by (cases "A = {h}") auto

text \<open>
  Selection: the result is the only refined module among the candidates, or generic HTTP when it
  is the only candidate. Order and repetition of the candidates do not matter.
\<close>

lemma select_iff:
  "SelectSemanticModule cs = Inr m \<longleftrightarrow>
     set cs \<subseteq> set semanticModuleIDs \<and> m \<in> set cs \<and> set cs \<subseteq> {m, SemanticModuleHTTPGeneric}"
proof -
  define h where "h = SemanticModuleHTTPGeneric"
  define ids where "ids = set semanticModuleIDs"
  have sel: "SelectSemanticModule cs = Inr m \<longleftrightarrow>
      cs \<noteq> [] \<and> set cs \<subseteq> ids \<and> most_specific (remdups cs) = [m]"
    unfolding ids_def
    by (auto simp: SelectSemanticModule_def check_simps registry_valid semanticModuleByID_None
        split: list.splits)
  have spec: "most_specific (remdups cs) = [m] \<longleftrightarrow> {c \<in> set cs. c = h \<longrightarrow> set cs = {h}} = {m}"
    if "set cs \<subseteq> ids"
  proof -
    have "most_specific (remdups cs) = sort (filter (\<lambda>c. c = h \<longrightarrow> set cs = {h}) (remdups cs))"
      using that most_specific_eq[of "remdups cs"] unfolding h_def ids_def by simp
    also have "\<dots> = [m] \<longleftrightarrow> set (filter (\<lambda>c. c = h \<longrightarrow> set cs = {h}) (remdups cs)) = {m}"
      by (rule singleton_sort) (rule distinct_filter[OF distinct_remdups])
    finally show ?thesis by (simp only: set_filter set_remdups)
  qed
  have "set cs \<noteq> {} \<longleftrightarrow> cs \<noteq> []" by simp
  with sel spec refined_singleton[of "set cs" h m]
  have "SelectSemanticModule cs = Inr m \<longleftrightarrow> set cs \<subseteq> ids \<and> m \<in> set cs \<and> set cs \<subseteq> {m, h}"
    by meson
  then show ?thesis unfolding h_def ids_def .
qed

lemma claims_Inr:
  "SelectSemanticModuleClaims cl = Inr m \<longleftrightarrow>
     (\<forall>c \<in> set cl. claim_State c = ''matched'') \<and> SelectSemanticModule (map claim_ModuleID cl) = Inr m"
proof -
  have each: "claim_check c = None \<longleftrightarrow>
      claim_ModuleID c \<in> set semanticModuleIDs \<and> claim_State c = ''matched''" for c
    by (auto simp: claim_check_def check_simps semanticModuleByID_None)
  show ?thesis
    by (auto simp: SelectSemanticModuleClaims_def check_simps each select_iff)
qed

section \<open>OCI quoted tokens round-trip\<close>

lemma nibble_hexadecimal: "n < 16 \<Longrightarrow> hexadecimalNibble (hexadecimal n) = Some n"
proof -
  have "\<forall>n \<in> set [0..<16]. hexadecimalNibble (hexadecimal n) = Some n" by code_simp
  then show "n < 16 \<Longrightarrow> hexadecimalNibble (hexadecimal n) = Some n" by auto
qed

lemma oci_unreserved_percent: "oci_unreserved c \<Longrightarrow> c \<noteq> CHR ''%''"
proof
  assume "oci_unreserved c" "c = CHR ''%''"
  moreover have "\<not> oci_unreserved (CHR ''%'')" by code_simp
  ultimately show False by simp
qed

lemma decode_canonical: "oci_decode_bytes (canonicalOCIQuotedToken s) = Some s"
proof (induction s)
  case (Cons c s)
  have "byte c div 16 < 16" using byte_less[of c] by linarith
  with Cons show ?case
    by (auto simp: nibble_hexadecimal oci_unreserved_percent) (simp add: byte_def)
qed simp

lemma canonical_Nil: "canonicalOCIQuotedToken s = [] \<longleftrightarrow> s = []"
  by (cases s) auto

lemma decodeCanonical_iff:
  "decodeCanonicalOCIQuotedToken t = Some s \<longleftrightarrow>
     t = canonicalOCIQuotedToken s \<and> s \<noteq> [] \<and> length s \<le> 512 \<and> utf8_ValidString s"
proof
  assume "decodeCanonicalOCIQuotedToken t = Some s"
  then show "t = canonicalOCIQuotedToken s \<and> s \<noteq> [] \<and> length s \<le> 512 \<and> utf8_ValidString s"
    by (auto simp: decodeCanonicalOCIQuotedToken_def split: if_splits option.splits)
next
  assume "t = canonicalOCIQuotedToken s \<and> s \<noteq> [] \<and> length s \<le> 512 \<and> utf8_ValidString s"
  then show "decodeCanonicalOCIQuotedToken t = Some s"
    by (simp add: decodeCanonicalOCIQuotedToken_def decode_canonical canonical_Nil)
qed

end
