(* ===== verification/Identity_Material.thy ===== *)
theory Identity_Material
  imports Semantic_Module
begin

text \<open>
  The contribution of a protocol identity to an opaque reference. A validated identity is rebuilt
  from its scheme, its protocol and the fields of its own module; hence the material appended by
  \<open>appendPolicyProtocolIdentity\<close> determines the identity. All material fields are free of the
  separator bytes.
\<close>

definition identity_material :: "PolicyProtocolIdentity \<Rightarrow> string list" where
  "identity_material i = appendSemanticModuleIdentity [] i"

lemma byProtocol_simps [simp]:
  "semanticModuleByProtocol ''http'' = Some (semanticModules ! 0)"
  "semanticModuleByProtocol ''graphql'' = Some (semanticModules ! 1)"
  "semanticModuleByProtocol ''mcp'' = Some (semanticModules ! 2)"
  "semanticModuleByProtocol ''aws'' = Some (semanticModules ! 3)"
  "semanticModuleByProtocol ''kubernetes'' = Some (semanticModules ! 4)"
  "semanticModuleByProtocol ''git'' = Some (semanticModules ! 5)"
  "semanticModuleByProtocol ''oci'' = Some (semanticModules ! 6)"
  by (simp_all add: semanticModuleByProtocol_def semanticModules_def)

lemma byProtocol_None:
  "semanticModuleByProtocol p = None \<longleftrightarrow> p \<notin> set policyProtocolValues"
  by (auto simp: semanticModuleByProtocol_def semanticModules_def policyProtocolValues_def)

lemma identity_matches_iff:
  "semanticModuleMatches i j \<longleftrightarrow> Protocol i \<in> set policyProtocolValues \<and> i = j"
  using byProtocol_None[of "Protocol i"]
  by (auto simp: semanticModuleMatches_def split: option.splits)

lemma module_fields:
  "validateFn (semanticModules ! 0) = validateHTTPModuleIdentity"
  "validateFn (semanticModules ! 1) = validateGraphQLModuleIdentity"
  "validateFn (semanticModules ! 2) = validateMCPModuleIdentity"
  "validateFn (semanticModules ! 3) = validateAWSModuleIdentity"
  "validateFn (semanticModules ! 4) = validateKubernetesModuleIdentity"
  "validateFn (semanticModules ! 5) = validateGitModuleIdentity"
  "validateFn (semanticModules ! 6) = validateOCIModuleIdentity"
  by (simp_all add: semanticModules_def)

lemma module_ids:
  "moduleID (semanticModules ! 0) = SemanticModuleHTTPGeneric"
  "moduleID (semanticModules ! 1) = SemanticModuleGraphQL"
  "moduleID (semanticModules ! 2) = SemanticModuleMCP"
  "moduleID (semanticModules ! 3) = SemanticModuleAWS"
  "moduleID (semanticModules ! 4) = SemanticModuleKubernetes"
  "moduleID (semanticModules ! 5) = SemanticModuleGit"
  "moduleID (semanticModules ! 6) = SemanticModuleOCI"
  by (simp_all add: semanticModules_def)

lemma module_effects:
  "module_validateEffect (semanticModules ! 0) e = None"
  "module_validateEffect (semanticModules ! 1) e = None"
  "module_validateEffect (semanticModules ! 2) e = validateMCPModuleEffect e"
  "module_validateEffect (semanticModules ! 3) e = validateAWSModuleEffect e"
  "module_validateEffect (semanticModules ! 4) e = validateKubernetesModuleEffect e"
  "module_validateEffect (semanticModules ! 5) e = validateGitModuleEffect e"
  "module_validateEffect (semanticModules ! 6) e = validateOCIModuleEffect e"
  by (simp_all add: semanticModules_def module_validateEffect_def)

lemma protocol_known:
  "PolicyProtocolIdentity_Validate i = None \<Longrightarrow> Protocol i \<in> set policyProtocolValues"
  using byProtocol_None[of "Protocol i"]
  by (auto simp: validateSemanticModuleIdentity_def check_simps split: option.splits)

lemma protocol_cases [consumes 1, case_names http graphql mcp aws kubernetes git oci]:
  assumes "PolicyProtocolIdentity_Validate i = None"
  obtains "Protocol i = ''http'' \<and> validateHTTPModuleIdentity i = None"
  | "Protocol i = ''graphql'' \<and> validateGraphQLModuleIdentity i = None"
  | "Protocol i = ''mcp'' \<and> validateMCPModuleIdentity i = None"
  | "Protocol i = ''aws'' \<and> validateAWSModuleIdentity i = None"
  | "Protocol i = ''kubernetes'' \<and> validateKubernetesModuleIdentity i = None"
  | "Protocol i = ''git'' \<and> validateGitModuleIdentity i = None"
  | "Protocol i = ''oci'' \<and> validateOCIModuleIdentity i = None"
proof -
  from protocol_known[OF assms] consider "Protocol i = ''http''" | "Protocol i = ''graphql''" | "Protocol i = ''mcp''"
    | "Protocol i = ''aws''" | "Protocol i = ''kubernetes''" | "Protocol i = ''git''" | "Protocol i = ''oci''"
    unfolding policyProtocolValues_def by fastforce
  then show thesis
    using that assms
    by cases (simp_all add: validateSemanticModuleIdentity_def check_simps module_fields del: One_nat_def)
qed

text \<open>A validated identity consists of its own module's fields and nothing else.\<close>

lemma http_identity_shape:
  "validateHTTPModuleIdentity i = None \<Longrightarrow> Protocol i = ''http'' \<Longrightarrow> i = base_identity (Scheme i) ''http''"
  by (cases i) (simp add: validateHTTPModuleIdentity_def check_simps policyIdentityHasRefinement_def
      fields_set_defs base_identity_def)

lemma graphql_identity_shape:
  "validateGraphQLModuleIdentity i = None \<Longrightarrow> Protocol i = ''graphql'' \<Longrightarrow>
     i = (base_identity (Scheme i) ''graphql'')
           \<lparr> GraphQLOperationType := GraphQLOperationType i, GraphQLRootField := GraphQLRootField i \<rparr>"
  by (cases i) (simp add: validateGraphQLModuleIdentity_def check_simps fields_set_defs base_identity_def)

lemma mcp_identity_shape:
  "validateMCPModuleIdentity i = None \<Longrightarrow> Protocol i = ''mcp'' \<Longrightarrow>
     i = (base_identity (Scheme i) ''mcp'') \<lparr> MCPMethod := MCPMethod i, MCPToolName := MCPToolName i \<rparr>"
  by (cases i) (simp add: validateMCPModuleIdentity_def check_simps fields_set_defs base_identity_def)

lemma aws_identity_shape:
  "validateAWSModuleIdentity i = None \<Longrightarrow> Protocol i = ''aws'' \<Longrightarrow>
     i = (base_identity (Scheme i) ''aws'')
           \<lparr> AWSWireProtocol := AWSWireProtocol i, AWSService := AWSService i,
             AWSProtocolVersion := AWSProtocolVersion i, AWSTargetNamespace := AWSTargetNamespace i,
             AWSOperation := AWSOperation i \<rparr>"
  by (cases i) (simp add: validateAWSModuleIdentity_def check_simps fields_set_defs base_identity_def)

lemma kubernetes_identity_shape:
  "validateKubernetesModuleIdentity i = None \<Longrightarrow> Protocol i = ''kubernetes'' \<Longrightarrow>
     i = (base_identity (Scheme i) ''kubernetes'')
           \<lparr> KubernetesKind := KubernetesKind i, KubernetesVerb := KubernetesVerb i,
             KubernetesGroup := KubernetesGroup i, KubernetesVersion := KubernetesVersion i,
             KubernetesResource := KubernetesResource i, KubernetesNamespace := KubernetesNamespace i,
             KubernetesName := KubernetesName i, KubernetesSubresource := KubernetesSubresource i,
             KubernetesDryRun := KubernetesDryRun i, KubernetesNonResourcePath := KubernetesNonResourcePath i \<rparr>"
  by (cases i) (simp add: validateKubernetesModuleIdentity_def check_simps fields_set_defs base_identity_def)

lemma git_identity_shape:
  "validateGitModuleIdentity i = None \<Longrightarrow> Protocol i = ''git'' \<Longrightarrow>
     i = (base_identity (Scheme i) ''git'') \<lparr> GitService := GitService i, GitRepository := GitRepository i \<rparr>"
  by (cases i) (simp add: validateGitModuleIdentity_def Let_def check_simps fields_set_defs base_identity_def)

lemma oci_identity_shape:
  "validateOCIModuleIdentity i = None \<Longrightarrow> Protocol i = ''oci'' \<Longrightarrow>
     i = (base_identity (Scheme i) ''oci'')
           \<lparr> OCIAction := OCIAction i, OCIRepository := OCIRepository i, OCIObject := OCIObject i \<rparr>"
  by (cases i) (simp add: validateOCIModuleIdentity_def check_simps fields_set_defs base_identity_def)

lemma material_simps:
  "Protocol i = ''http'' \<Longrightarrow> identity_material i = [Scheme i]"
  "Protocol i = ''graphql'' \<Longrightarrow>
     identity_material i = [Scheme i, ''graphql'', GraphQLOperationType i, GraphQLRootField i]"
  "Protocol i = ''mcp'' \<Longrightarrow> identity_material i = [Scheme i, ''mcp'', MCPMethod i, MCPToolName i]"
  "Protocol i = ''aws'' \<Longrightarrow>
     identity_material i = [Scheme i, ''aws'', AWSWireProtocol i, AWSService i, AWSProtocolVersion i,
       AWSTargetNamespace i, AWSOperation i]"
  "Protocol i = ''kubernetes'' \<Longrightarrow>
     identity_material i = [Scheme i, ''kubernetes'', KubernetesKind i, KubernetesVerb i, KubernetesGroup i,
       KubernetesVersion i, KubernetesResource i, KubernetesNamespace i, KubernetesName i,
       KubernetesSubresource i, KubernetesDryRun i, KubernetesNonResourcePath i]"
  "Protocol i = ''git'' \<Longrightarrow> identity_material i = [Scheme i, ''git'', GitService i, GitRepository i]"
  "Protocol i = ''oci'' \<Longrightarrow>
     identity_material i = [Scheme i, ''oci'', OCIAction i, OCIRepository i, OCIObject i]"
  by (simp_all add: identity_material_def appendSemanticModuleIdentity_def semanticModules_def)

lemma append_material: "appendSemanticModuleIdentity m i = m @ identity_material i"
proof (cases "semanticModuleByProtocol (Protocol i)")
  case None
  then show ?thesis by (simp add: appendSemanticModuleIdentity_def identity_material_def)
next
  case (Some x)
  then have "x \<in> set semanticModules"
    by (auto simp: semanticModuleByProtocol_def find_Some_iff)
  then show ?thesis
    using Some by (auto simp: appendSemanticModuleIdentity_def identity_material_def semanticModules_def)
qed

text \<open>The material determines a validated identity.\<close>

lemma material_protocol:
  assumes "PolicyProtocolIdentity_Validate i = None"
  shows "Protocol i = (if length (identity_material i) = 1 then ''http'' else identity_material i ! 1)"
  using assms by (cases rule: protocol_cases) (simp_all add: material_simps)

lemma material_Scheme:
  assumes "PolicyProtocolIdentity_Validate i = None"
  shows "Scheme i = identity_material i ! 0"
  using assms by (cases rule: protocol_cases) (simp_all add: material_simps)

lemma material_inject:
  assumes i: "PolicyProtocolIdentity_Validate i = None" and j: "PolicyProtocolIdentity_Validate j = None"
    and eq: "identity_material i = identity_material j"
  shows "i = j"
proof -
  have p: "Protocol j = Protocol i" using material_protocol[OF i] material_protocol[OF j] eq by simp
  have s: "Scheme j = Scheme i" using material_Scheme[OF i] material_Scheme[OF j] eq by simp
  have same: "validateFn m j = None" if "semanticModuleByProtocol (Protocol i) = Some m" for m
    using j that p by (simp add: validateSemanticModuleIdentity_def check_simps)
  show ?thesis
    using i
  proof (cases rule: protocol_cases)
    case http
    then show ?thesis
      using same p s http_identity_shape[of i] http_identity_shape[of j] by (simp add: module_fields)
  next
    case graphql
    then show ?thesis
      using same p s eq graphql_identity_shape[of i] graphql_identity_shape[of j]
      by (simp add: module_fields material_simps del: One_nat_def)
  next
    case mcp
    then show ?thesis
      using same p s eq mcp_identity_shape[of i] mcp_identity_shape[of j]
      by (simp add: module_fields material_simps)
  next
    case aws
    then show ?thesis
      using same p s eq aws_identity_shape[of i] aws_identity_shape[of j]
      by (simp add: module_fields material_simps)
  next
    case kubernetes
    then show ?thesis
      using same p s eq kubernetes_identity_shape[of i] kubernetes_identity_shape[of j]
      by (simp add: module_fields material_simps)
  next
    case git
    then show ?thesis
      using same p s eq git_identity_shape[of i] git_identity_shape[of j]
      by (simp add: module_fields material_simps)
  next
    case oci
    then show ?thesis
      using same p s eq oci_identity_shape[of i] oci_identity_shape[of j]
      by (simp add: module_fields material_simps)
  qed
qed

text \<open>No field of a validated identity contains a separator byte.\<close>

lemma literal_printable:
  "printable_string ''http''" "printable_string ''https''" "printable_string ''graphql''"
  "printable_string ''mcp''" "printable_string ''aws''" "printable_string ''kubernetes''"
  "printable_string ''git''" "printable_string ''oci''" "printable_string ''query''"
  "printable_string ''mutation''" "printable_string ''json''" "printable_string ''resource''"
  "printable_string ''non_resource''" "printable_string ''none''" "printable_string ''empty''"
  "printable_string ''all''" "printable_string ''upload-pack''" "printable_string ''receive-pack''"
  "printable_string ''POST''" "printable_string ''external''" "printable_string ''host_loopback''"
  by code_simp+

lemma verb_printable: "validKubernetesVerb v \<Longrightarrow> printable_string v"
proof -
  have "\<forall>v \<in> set [''get'', ''list'', ''watch'', ''create'', ''update'', ''patch'', ''delete'',
      ''deletecollection'', ''connect'']. printable_string v" by code_simp
  then show "validKubernetesVerb v \<Longrightarrow> printable_string v"
    unfolding validKubernetesVerb_def by auto
qed

lemma oci_action_printable: "a \<in> set oci_actions \<Longrightarrow> printable_string a"
proof -
  have "\<forall>a \<in> set oci_actions. printable_string a" by code_simp
  then show "a \<in> set oci_actions \<Longrightarrow> printable_string a" by blast
qed

lemma segment_printable: "validKubernetesSegment v e \<Longrightarrow> printable_string v"
  by (cases "v = []") (auto simp: validKubernetesSegment_def dest: no_control_printable)

lemma nonResourcePath_printable: "validKubernetesNonResourcePath p \<Longrightarrow> printable_string p"
  by (auto simp: validKubernetesNonResourcePath_def Let_def dest: no_control_printable split: if_splits)

lemma ociRepository_printable: "validOCIRepository r e \<Longrightarrow> printable_string r"
proof (cases "r = []")
  case False
  assume "validOCIRepository r e"
  with False show ?thesis
    by (intro Split_printable[of _ "CHR ''/''"])
      (auto simp: validOCIRepository_def list_all_iff validOCIPathSegment_def dest: no_control_printable)
qed simp

lemma scheme_printable:
  "PolicyProtocolIdentity_Validate i = None \<Longrightarrow> printable_string (Scheme i)"
  using literal_printable(1,2) by (auto simp: validateSemanticModuleIdentity_def check_simps)

lemma kubernetes_fields_printable:
  assumes "validateKubernetesModuleIdentity i = None"
  shows "\<forall>x \<in> set [KubernetesKind i, KubernetesVerb i, KubernetesGroup i, KubernetesVersion i,
    KubernetesResource i, KubernetesNamespace i, KubernetesName i, KubernetesSubresource i,
    KubernetesDryRun i, KubernetesNonResourcePath i]. printable_string x"
proof -
  have "validKubernetesVerb (KubernetesVerb i)"
    using assms by (simp add: validateKubernetesModuleIdentity_def check_simps)
  then have verb: "printable_string (KubernetesVerb i)" by (rule verb_printable)
  consider "KubernetesKind i = ''resource''" | "KubernetesKind i = ''non_resource''"
    using assms by (auto simp: validateKubernetesModuleIdentity_def check_simps split: if_splits)
  then show ?thesis
  proof cases
    case 1
    then have "printable_string (KubernetesDryRun i)"
      using assms literal_printable(14,15,16)
      by (auto simp: validateKubernetesModuleIdentity_def check_simps)
    moreover have "printable_string (KubernetesGroup i)" "printable_string (KubernetesVersion i)"
      "printable_string (KubernetesResource i)" "printable_string (KubernetesNamespace i)"
      "printable_string (KubernetesName i)" "printable_string (KubernetesSubresource i)"
      "KubernetesNonResourcePath i = []"
      using 1 assms by (simp_all only: validateKubernetesModuleIdentity_def check_simps if_True simp_thms)
        (blast dest: segment_printable)+
    ultimately show ?thesis using 1 verb literal_printable(12) by simp
  next
    case 2
    then have "validKubernetesNonResourcePath (KubernetesNonResourcePath i)"
      "\<forall>x \<in> {KubernetesGroup i, KubernetesVersion i, KubernetesResource i, KubernetesNamespace i,
        KubernetesName i, KubernetesSubresource i, KubernetesDryRun i}. x = []"
      using assms by (simp_all add: validateKubernetesModuleIdentity_def check_simps)
    with 2 verb show ?thesis using literal_printable(13) nonResourcePath_printable by auto
  qed
qed

lemma material_printable:
  assumes i: "PolicyProtocolIdentity_Validate i = None" and x: "x \<in> set (identity_material i)"
  shows "printable_string x"
  using i
proof (cases rule: protocol_cases)
  case http
  then show ?thesis using x scheme_printable[OF i] by (simp add: material_simps)
next
  case graphql
  then have "printable_string (GraphQLOperationType i)" "printable_string (GraphQLRootField i)"
    using literal_printable(9,10) graphqlName_printable
    by (auto simp: validateGraphQLModuleIdentity_def check_simps)
  then show ?thesis using graphql x scheme_printable[OF i] literal_printable(3) by (auto simp: material_simps)
next
  case mcp
  then have "printable_string (MCPMethod i)" "printable_string (MCPToolName i)"
    using mcpMethod_printable mcpToolName_printable
    by (auto simp: validateMCPModuleIdentity_def check_simps split: if_splits)
  then show ?thesis using mcp x scheme_printable[OF i] literal_printable(4) by (auto simp: material_simps)
next
  case aws
  then have "printable_string (AWSWireProtocol i)" "printable_string (AWSService i)"
    "printable_string (AWSProtocolVersion i)" "printable_string (AWSTargetNamespace i)"
    "printable_string (AWSOperation i)"
    using literal_printable(9,11) awsService_printable awsVersion_printable awsQueryOperation_printable
      awsTargetNamespace_printable
    by (auto simp: validateAWSModuleIdentity_def check_simps split: if_splits)
  then show ?thesis using aws x scheme_printable[OF i] literal_printable(5) by (auto simp: material_simps)
next
  case kubernetes
  then have "x = Scheme i \<or> x = ''kubernetes'' \<or> x \<in> set [KubernetesKind i, KubernetesVerb i, KubernetesGroup i,
      KubernetesVersion i, KubernetesResource i, KubernetesNamespace i, KubernetesName i,
      KubernetesSubresource i, KubernetesDryRun i, KubernetesNonResourcePath i]"
    using x by (simp only: material_simps list.set_sel set_simps) blast
  then show ?thesis
    using kubernetes kubernetes_fields_printable[of i] scheme_printable[OF i] literal_printable(6) by metis
next
  case git
  then have "printable_string (GitService i)" "printable_string (GitRepository i)"
    using literal_printable(17,18) no_control_printable
    by (auto simp: validateGitModuleIdentity_def Let_def check_simps)
  then show ?thesis using git x scheme_printable[OF i] literal_printable(7) by (auto simp: material_simps)
next
  case oci
  then have "printable_string (OCIAction i)" "printable_string (OCIRepository i)" "printable_string (OCIObject i)"
    using oci_action_printable ociRepository_printable coordinate_printable
    by (auto simp: validateOCIModuleIdentity_def check_simps)
  then show ?thesis using oci x scheme_printable[OF i] literal_printable(8) by (auto simp: material_simps)
qed

end
