(* ===== verification/Semantic_Authority.thy ===== *)
theory Semantic_Authority
  imports Identity_Material
begin

text \<open>
  Static destination selectors of Workspace Template policy: \<open>ManifestPolicyAuthority\<close>
  (\<open>context_policy.go\<close>), \<open>SemanticRuleAuthority\<close> (\<open>semantic_http.go\<close>) and the trusted endpoint
  declarations (\<open>semantic_graphql.go\<close>). Every semantic rule embeds an authority; the rule records
  of \<open>Semantic_Rules\<close> extend \<open>SemanticRuleAuthority\<close>, so the authority's methods apply to them as
  Go's promoted methods do. The locales \<open>covering_rules\<close> and \<open>exact_rules\<close> state what the Allow and
  Deny rules of every module owe to the shadowing check of their policy.
\<close>

section \<open>Public destinations\<close>

record ManifestPolicyAuthority =
  mpa_Scheme :: string
  mpa_Host :: string
  mpa_Port :: int

definition contextPolicyIPv4Literal :: "string \<Rightarrow> bool" where
  "contextPolicyIPv4Literal host =
     (let parts = strings_Split host CHR ''.'' in
      length parts = 4 \<and>
      list_all
        (\<lambda>part. \<not> (part = [] \<or> (1 < length part \<and> hd part = CHR ''0''))
           \<and> (case strconv_Atoi part of None \<Rightarrow> False | Some v \<Rightarrow> \<not> (v < 0 \<or> 255 < v)))
        parts)"

definition contextPolicyReservedHost :: "string \<Rightarrow> bool" where
  "contextPolicyReservedHost host =
     (host = ''localhost'' \<or> host = ''localhost.localdomain'' \<or> host = ''example.com''
      \<or> host = ''example.net'' \<or> host = ''example.org''
      \<or> list_ex (strings_HasSuffix host)
          [''.localhost'', ''.local'', ''.internal'', ''.test'', ''.invalid'', ''.example''])"

definition ManifestPolicyAuthority_Validate :: "ManifestPolicyAuthority \<Rightarrow> check" where
  "ManifestPolicyAuthority_Validate a =
     first_error
       [reject (mpa_Scheme a \<noteq> ''https'' \<and> mpa_Scheme a \<noteq> ''http'') ''context policy authority scheme is invalid'',
        reject (mpa_Port a < 1 \<or> 65535 < mpa_Port a \<or> contextPolicyIPv4Literal (mpa_Host a)
                \<or> \<not> validNormalizedPolicyHost (mpa_Host a) \<or> \<not> strings_Contains (mpa_Host a) ''.''
                \<or> contextPolicyReservedHost (mpa_Host a))
          ''context policy authority is not an exact public destination'']"

section \<open>Rule authorities\<close>

record SemanticRuleAuthority =
  auth_Scheme :: string
  auth_Host :: string
  auth_Hosts :: "string list option"
  auth_Port :: int

definition auth_hosts :: "'a SemanticRuleAuthority_scheme \<Rightarrow> string list" where
  "auth_hosts a = (if auth_Host a \<noteq> [] then [auth_Host a] else elems (auth_Hosts a))"

definition SemanticRuleAuthority_Validate :: "'a SemanticRuleAuthority_scheme \<Rightarrow> check" where
  "SemanticRuleAuthority_Validate a =
     first_error
       [reject (auth_Scheme a \<noteq> ''https'') ''semantic static rule authority must use public HTTPS'',
        reject ((auth_Host a = []) = (auth_Hosts a = None)) ''semantic rule requires exactly one of host or hosts'',
        (let hosts = (if auth_Host a \<noteq> [] then [auth_Host a] else elems (auth_Hosts a)) in
         first_error
           [reject (length hosts = 0 \<or> auth_Hosts a \<noteq> None \<and> length hosts < 2)
              ''semantic rule hosts must contain at least two values'',
            check_items
              (\<lambda>host. wrap ''semantic rule authority''
                 (ManifestPolicyAuthority_Validate
                    \<lparr> mpa_Scheme = auth_Scheme a, mpa_Host = host, mpa_Port = auth_Port a \<rparr>))
              (\<lambda>host. host) ''semantic rule host is duplicated'' [] hosts])]"

definition auth_matches :: "'a SemanticRuleAuthority_scheme \<Rightarrow> SemanticRequestEffect \<Rightarrow> bool" where
  "auth_matches a e =
     (\<not> (auth_Scheme a \<noteq> eff_Scheme e \<or> auth_Port a \<noteq> eff_Port e)
      \<and> list_ex (\<lambda>host. host = eff_Host e) (auth_hosts a))"

definition auth_canonicalKey :: "'a SemanticRuleAuthority_scheme \<Rightarrow> string" where
  "auth_canonicalKey a =
     strings_Join [auth_Scheme a, strings_Join (sort (auth_hosts a)) [US], strconv_Itoa (auth_Port a)] [NUL]"

text \<open>The loop over the hosts of the other rule that every \<open>covers\<close> method ends with.\<close>

definition hosts_covered :: "'a SemanticRuleAuthority_scheme \<Rightarrow> 'b SemanticRuleAuthority_scheme \<Rightarrow> bool" where
  "hosts_covered r other = list_all (\<lambda>host. host \<in> set (auth_hosts r)) (auth_hosts other)"

text \<open>\<open>narrowed := allow; narrowed.Host, narrowed.Hosts = host, nil\<close>\<close>

definition narrow_host :: "'a SemanticRuleAuthority_scheme \<Rightarrow> string \<Rightarrow> 'a SemanticRuleAuthority_scheme" where
  "narrow_host r host = r\<lparr> auth_Host := host, auth_Hosts := None \<rparr>"

definition host_parts :: "'a SemanticRuleAuthority_scheme \<Rightarrow> 'a SemanticRuleAuthority_scheme list" where
  "host_parts r = map (narrow_host r) (auth_hosts r)"

section \<open>Endpoints\<close>

record SemanticHTTPEndpoint = SemanticRuleAuthority +
  ep_Path :: string

definition SemanticHTTPEndpoint_Validate :: "SemanticHTTPEndpoint \<Rightarrow> check" where
  "SemanticHTTPEndpoint_Validate e =
     first_error
       [SemanticRuleAuthority_Validate e,
        instead ''semantic HTTP endpoint path is invalid'' (validateGraphQLEndpointPath (ep_Path e))]"

definition SemanticHTTPEndpoint_canonicalKey :: "SemanticHTTPEndpoint \<Rightarrow> string" where
  "SemanticHTTPEndpoint_canonicalKey e = auth_canonicalKey e @ [NUL] @ ep_Path e"

definition declaresHost ::
    "SemanticHTTPEndpoint \<Rightarrow> 'a SemanticRuleAuthority_scheme \<Rightarrow> string \<Rightarrow> string \<Rightarrow> bool" where
  "declaresHost e ruleAuthority path requestedHost =
     (\<not> (auth_Scheme e \<noteq> auth_Scheme ruleAuthority \<or> auth_Port e \<noteq> auth_Port ruleAuthority \<or> ep_Path e \<noteq> path)
      \<and> list_ex (\<lambda>host. host = requestedHost) (auth_hosts e))"

section \<open>Rule sets and policies\<close>

text \<open>
  The seven modules repeat the same rule-set and policy shapes with their own rule type. The
  records are generic in it, and so are the three loops every \<open>Validate\<close> is made of.
\<close>

record 'r SemanticRuleSet =
  Rules :: "'r list option"

record 'r SemanticPolicy =
  Allow :: "'r SemanticRuleSet"
  Deny :: "'r SemanticRuleSet"

record 'r SemanticEndpointPolicy = "'r SemanticPolicy" +
  Endpoints :: "SemanticHTTPEndpoint list option"

definition ruleset_validate ::
    "('r \<Rightarrow> check) \<Rightarrow> ('r \<Rightarrow> string) \<Rightarrow> string \<Rightarrow> 'r SemanticRuleSet \<Rightarrow> check" where
  "ruleset_validate validate key kind s =
     (case Rules s of
        None \<Rightarrow> Some (''semantic '' @ kind @ '' rule collection must be explicit'')
      | Some rules \<Rightarrow> check_items validate key (''semantic '' @ kind @ '' rule is duplicated'') [] rules)"

definition endpoints_validate :: "string \<Rightarrow> SemanticHTTPEndpoint list option \<Rightarrow> check" where
  "endpoints_validate kind eps =
     (case eps of
        None \<Rightarrow> Some (''semantic '' @ kind @ '' endpoint collection must be explicit'')
      | Some es \<Rightarrow>
          check_items SemanticHTTPEndpoint_Validate SemanticHTTPEndpoint_canonicalKey
            (''semantic '' @ kind @ '' endpoint is duplicated'') [] es)"

definition declared_check ::
    "string \<Rightarrow> SemanticHTTPEndpoint list \<Rightarrow> ('a SemanticRuleAuthority_scheme \<Rightarrow> string)
     \<Rightarrow> 'a SemanticRuleAuthority_scheme list \<Rightarrow> check" where
  "declared_check kind es path rules =
     check_each
       (\<lambda>rule. check_each
          (\<lambda>host. reject (\<not> list_ex (\<lambda>e. declaresHost e rule (path rule) host) es)
             (''semantic '' @ kind @ '' rule has no declared endpoint''))
          (auth_hosts rule))
       rules"

text \<open>Every narrowed part of an Allow is covered by one Deny.\<close>

definition fully_shadowed :: "('r \<Rightarrow> 'r \<Rightarrow> bool) \<Rightarrow> ('r \<Rightarrow> 'r list) \<Rightarrow> 'r list \<Rightarrow> 'r \<Rightarrow> bool" where
  "fully_shadowed covers parts denies allow =
     list_all (\<lambda>narrowed. list_ex (\<lambda>deny. covers deny narrowed) denies) (parts allow)"

definition shadow_check ::
    "string \<Rightarrow> ('r \<Rightarrow> 'r \<Rightarrow> bool) \<Rightarrow> ('r \<Rightarrow> 'r list) \<Rightarrow> 'r list \<Rightarrow> 'r list \<Rightarrow> check" where
  "shadow_check kind covers parts denies allows =
     check_each
       (\<lambda>allow. reject (fully_shadowed covers parts denies allow)
          (''semantic '' @ kind @ '' Allow is fully shadowed by Deny''))
       allows"

section \<open>Facts about authorities\<close>

lemma auth_valid_iff:
  "SemanticRuleAuthority_Validate a = None \<longleftrightarrow>
     auth_Scheme a = ''https'' \<and>
     ((auth_Host a \<noteq> [] \<and> auth_Hosts a = None) \<or>
      (auth_Host a = [] \<and> (\<exists>hs. auth_Hosts a = Some hs \<and> 2 \<le> length hs))) \<and>
     distinct (auth_hosts a) \<and>
     (\<forall>h \<in> set (auth_hosts a).
        ManifestPolicyAuthority_Validate \<lparr> mpa_Scheme = ''https'', mpa_Host = h, mpa_Port = auth_Port a \<rparr> = None)"
  unfolding SemanticRuleAuthority_Validate_def auth_hosts_def
  by (auto simp: check_simps Let_def not_less)

lemma public_host_facts:
  assumes "ManifestPolicyAuthority_Validate \<lparr> mpa_Scheme = s, mpa_Host = h, mpa_Port = p \<rparr> = None"
  shows "validNormalizedPolicyHost h" and "1 \<le> p" and "p \<le> 65535"
  using assms by (auto simp: ManifestPolicyAuthority_Validate_def check_simps)

lemma host_nonempty [simp]: "\<not> validNormalizedPolicyHost []"
  by (simp add: validNormalizedPolicyHost_def)

lemma auth_valid_host:
  assumes "SemanticRuleAuthority_Validate a = None" and "h \<in> set (auth_hosts a)"
  shows "validNormalizedPolicyHost h" and "h \<noteq> []" and "1 \<le> auth_Port a" and "auth_Port a \<le> 65535"
proof -
  from assms have "ManifestPolicyAuthority_Validate
      \<lparr> mpa_Scheme = ''https'', mpa_Host = h, mpa_Port = auth_Port a \<rparr> = None"
    by (simp add: auth_valid_iff)
  from public_host_facts[OF this]
  show "validNormalizedPolicyHost h" "h \<noteq> []" "1 \<le> auth_Port a" "auth_Port a \<le> 65535"
    by auto
qed

lemma auth_hosts_nonempty: "SemanticRuleAuthority_Validate a = None \<Longrightarrow> auth_hosts a \<noteq> []"
  by (auto simp: auth_valid_iff auth_hosts_def)

lemma narrow_host_simps [simp]:
  "auth_Scheme (narrow_host r h) = auth_Scheme r" "auth_Port (narrow_host r h) = auth_Port r"
  "SemanticRuleAuthority.more (narrow_host r h) = SemanticRuleAuthority.more r"
  "h \<noteq> [] \<Longrightarrow> auth_hosts (narrow_host r h) = [h]"
  by (simp_all add: narrow_host_def auth_hosts_def)

lemma narrow_host_valid:
  assumes "SemanticRuleAuthority_Validate a = None" and "h \<in> set (auth_hosts a)"
  shows "SemanticRuleAuthority_Validate (narrow_host a h) = None"
  using assms auth_valid_host(2)[OF assms]
  by (simp add: auth_valid_iff[of "narrow_host a h"]) (simp add: auth_valid_iff narrow_host_def)

lemma auth_matches_iff:
  "auth_matches a e \<longleftrightarrow>
     eff_Scheme e = auth_Scheme a \<and> eff_Port e = auth_Port a \<and> eff_Host e \<in> set (auth_hosts a)"
  by (auto simp: auth_matches_def list_ex_iff)

lemma hosts_covered_iff: "hosts_covered r other \<longleftrightarrow> set (auth_hosts other) \<subseteq> set (auth_hosts r)"
  by (auto simp: hosts_covered_def list_all_iff)

lemma hosts_covered_matches:
  assumes "hosts_covered r other" and "auth_Scheme r = auth_Scheme other" and "auth_Port r = auth_Port other"
    and "auth_matches other e"
  shows "auth_matches r e"
  using assms by (auto simp: auth_matches_iff hosts_covered_iff)

lemma matches_narrow:
  assumes "SemanticRuleAuthority_Validate a = None" and "auth_matches a e"
  shows "eff_Host e \<in> set (auth_hosts a)" and "auth_matches (narrow_host a (eff_Host e)) e"
  using assms auth_valid_host(2)[OF assms(1)] by (auto simp: auth_matches_iff)

text \<open>The canonical key of an authority determines scheme, host set and port.\<close>

lemma https_printable: "printable_string ''https''" by code_simp

lemma auth_hosts_printable:
  "SemanticRuleAuthority_Validate a = None \<Longrightarrow> h \<in> set (auth_hosts a) \<Longrightarrow> printable_string h"
  using auth_valid_host(1) host_printable by blast

lemma hosts_join_free:
  assumes "SemanticRuleAuthority_Validate a = None"
  shows "NUL \<notin> set (strings_Join (sort (auth_hosts a)) [US])"
proof (rule Join_free)
  show "\<forall>x \<in> set (sort (auth_hosts a)). NUL \<notin> set x"
    using printable_NUL[OF auth_hosts_printable[OF assms]] by simp
qed simp

lemma hosts_join_inject:
  assumes "SemanticRuleAuthority_Validate a = None" and "SemanticRuleAuthority_Validate b = None"
    and "strings_Join (sort (auth_hosts a)) [US] = strings_Join (sort (auth_hosts b)) [US]"
  shows "sort (auth_hosts a) = sort (auth_hosts b)"
proof (rule Join_inject[OF assms(3)])
  show "\<forall>x \<in> set (sort (auth_hosts a)). US \<notin> set x" "\<forall>x \<in> set (sort (auth_hosts b)). US \<notin> set x"
    using auth_hosts_printable[OF assms(1)] auth_hosts_printable[OF assms(2)] printable_US by auto
  show "sort (auth_hosts a) \<noteq> []" "sort (auth_hosts b) \<noteq> []"
    using auth_hosts_nonempty[OF assms(1)] auth_hosts_nonempty[OF assms(2)]
    by (metis set_sort set_empty)+
qed

section \<open>What rules owe to the shadowing check\<close>

text \<open>
  The interface between a module's rules and the check that refuses a fully shadowed Allow: every
  request an Allow matches is matched by one of its narrowed parts, and a Deny that covers a part
  matches whatever the part matches.
\<close>

locale covering_rules =
  fixes validate :: "'r \<Rightarrow> check"
    and matches :: "'r \<Rightarrow> SemanticRequestEffect \<Rightarrow> bool"
    and covers :: "'r \<Rightarrow> 'r \<Rightarrow> bool"
    and parts :: "'r \<Rightarrow> 'r list"
  assumes part_matches: "matches a e \<Longrightarrow> \<exists>n \<in> set (parts a). matches n e"
    and part_of: "validate a = None \<Longrightarrow> n \<in> set (parts a) \<Longrightarrow> matches n e \<Longrightarrow> matches a e"
    and covers_sound: "validate d = None \<Longrightarrow> covers d n \<Longrightarrow> matches n e \<Longrightarrow> matches d e"
begin

lemma shadowed_dead:
  assumes "\<forall>d \<in> set denies. validate d = None" and "fully_shadowed covers parts denies a" and "matches a e"
  shows "\<exists>d \<in> set denies. matches d e"
proof -
  from part_matches[OF assms(3)] obtain n where n: "n \<in> set (parts a)" "matches n e" by blast
  with assms(2) obtain d where "d \<in> set denies" "covers d n"
    by (auto simp: fully_shadowed_def list_all_iff list_ex_iff)
  with n assms(1) covers_sound show ?thesis by blast
qed

text \<open>An Allow with a request no Deny matches passes the check.\<close>

lemma live_accepted:
  assumes "\<forall>d \<in> set denies. validate d = None"
    and "\<forall>a \<in> set allows. \<exists>e. matches a e \<and> (\<forall>d \<in> set denies. \<not> matches d e)"
  shows "shadow_check kind covers parts denies allows = None"
  using assms shadowed_dead by (fastforce simp: shadow_check_def check_simps)

end

text \<open>
  A module in which the parts of an Allow without wildcards match through one exemplary request: a
  Deny matches the exemplar of a part only when it covers the part. For such an Allow the syntactic
  check is exact: it is refused if and only if it is dead.
\<close>

locale exact_rules = covering_rules validate matches covers parts
  for validate :: "'r \<Rightarrow> check"
    and matches :: "'r \<Rightarrow> SemanticRequestEffect \<Rightarrow> bool"
    and covers :: "'r \<Rightarrow> 'r \<Rightarrow> bool"
    and parts :: "'r \<Rightarrow> 'r list" +
  fixes exact :: "'r \<Rightarrow> bool"
    and exemplar :: "'r \<Rightarrow> SemanticRequestEffect"
  assumes exemplar_matches:
      "validate a = None \<Longrightarrow> exact a \<Longrightarrow> n \<in> set (parts a) \<Longrightarrow> matches n (exemplar n)"
    and exemplar_covers:
      "validate a = None \<Longrightarrow> exact a \<Longrightarrow> n \<in> set (parts a) \<Longrightarrow> validate d = None \<Longrightarrow>
       matches d (exemplar n) \<Longrightarrow> covers d n"
begin

lemma shadowed_iff_dead:
  assumes "\<forall>d \<in> set denies. validate d = None" and "validate a = None" and "exact a"
  shows "fully_shadowed covers parts denies a \<longleftrightarrow> (\<forall>e. matches a e \<longrightarrow> (\<exists>d \<in> set denies. matches d e))"
proof
  assume dead: "\<forall>e. matches a e \<longrightarrow> (\<exists>d \<in> set denies. matches d e)"
  have "\<exists>d \<in> set denies. covers d n" if n: "n \<in> set (parts a)" for n
  proof -
    have "matches a (exemplar n)"
      using part_of[OF assms(2) n] exemplar_matches[OF assms(2,3) n] by blast
    with dead obtain d where "d \<in> set denies" "matches d (exemplar n)" by blast
    with exemplar_covers[OF assms(2,3) n] assms(1) show ?thesis by blast
  qed
  then show "fully_shadowed covers parts denies a"
    by (auto simp: fully_shadowed_def list_all_iff list_ex_iff)
qed (use assms(1) shadowed_dead in blast)

lemma shadow_check_exact:
  assumes "\<forall>d \<in> set denies. validate d = None" and "\<forall>a \<in> set allows. validate a = None \<and> exact a"
  shows "shadow_check kind covers parts denies allows = None \<longleftrightarrow>
    (\<forall>a \<in> set allows. \<exists>e. matches a e \<and> (\<forall>d \<in> set denies. \<not> matches d e))"
  using shadowed_iff_dead[OF assms(1)] assms(2) by (auto simp: shadow_check_def check_simps)

end

end
