(* ===== verification/Semantic_Rules.thy ===== *)
theory Semantic_Rules
  imports Semantic_Authority
begin

text \<open>
  The static Allow and Deny rules of the seven semantic modules (\<open>semantic_http.go\<close>,
  \<open>semantic_graphql.go\<close>, \<open>semantic_mcp.go\<close>, \<open>semantic_git.go\<close>, \<open>semantic_oci.go\<close>,
  \<open>semantic_aws.go\<close>, \<open>semantic_kubernetes.go\<close>): validation, matching, canonical keys, the \<open>covers\<close>
  relation, and the rule-set and policy validators. Each module's rules are an interpretation of
  \<open>covering_rules\<close>; GraphQL, MCP and Git rules are also one of \<open>exact_rules\<close>.
\<close>

section \<open>Generic HTTP\<close>

record SemanticHTTPRule = SemanticRuleAuthority +
  http_Method :: string
  http_Path :: string

abbreviation template_segments :: "string \<Rightarrow> string list" where
  "template_segments p \<equiv> strings_Split (strings_TrimPrefix p ''/'') CHR ''/''"

definition SemanticHTTPRule_Validate :: "SemanticHTTPRule \<Rightarrow> check" where
  "SemanticHTTPRule_Validate r =
     first_error
       [SemanticRuleAuthority_Validate r,
        reject (\<not> httpMethodPattern (http_Method r)) ''semantic HTTP method is invalid'',
        (if strings_Contains (http_Path r) PolicyPathTemplatePlaceholder then
           (let segments = template_segments (http_Path r) in
            first_error
              [reject (\<not> strings_HasPrefix (http_Path r) ''/'' \<or> length segments < 2 \<or> 32 < length segments
                       \<or> segments ! (length segments - 1) \<noteq> PolicyPathTemplatePlaceholder)
                 ''semantic HTTP path template is invalid'',
               check_each
                 (\<lambda>s. if s = PolicyPathTemplatePlaceholder then None
                      else reject (s = [] \<or> s = ''.'' \<or> s = ''..''
                                   \<or> strings_ContainsAny s (CHR ''/'' # BACKSLASH # ''%?#''))
                             ''semantic HTTP path template is invalid'')
                 segments,
               reject (length (filter (\<lambda>s. s = PolicyPathTemplatePlaceholder) segments) \<noteq> 1)
                 ''semantic HTTP path template is invalid''])
         else instead ''semantic HTTP exact path is invalid'' (validatePolicyPath (http_Path r)))]"

definition SemanticHTTPRule_Matches :: "SemanticHTTPRule \<Rightarrow> SemanticRequestEffect \<Rightarrow> bool" where
  "SemanticHTTPRule_Matches r e =
     (if SemanticHTTPRule_Validate r \<noteq> None then False
      else if SemanticRequestEffect_Validate e \<noteq> None
              \<or> SemanticModuleID (eff_Identity e) \<noteq> SemanticModuleHTTPGeneric
              \<or> \<not> auth_matches r e \<or> http_Method r \<noteq> eff_Method e then False
      else if \<not> strings_Contains (http_Path r) PolicyPathTemplatePlaceholder then http_Path r = eff_Path e
      else pathTemplateMatches (template_segments (http_Path r)) (eff_Path e))"

definition SemanticHTTPRule_canonicalKey :: "SemanticHTTPRule \<Rightarrow> string" where
  "SemanticHTTPRule_canonicalKey r = strings_Join [auth_canonicalKey r, http_Method r, http_Path r] [NUL]"

definition SemanticHTTPRule_covers :: "SemanticHTTPRule \<Rightarrow> SemanticHTTPRule \<Rightarrow> bool" where
  "SemanticHTTPRule_covers r other =
     (if auth_Scheme r \<noteq> auth_Scheme other \<or> auth_Port r \<noteq> auth_Port other
         \<or> http_Method r \<noteq> http_Method other then False
      else if \<not> hosts_covered r other then False
      else if http_Path r = http_Path other then True
      else if \<not> strings_Contains (http_Path r) PolicyPathTemplatePlaceholder
              \<or> strings_Contains (http_Path other) PolicyPathTemplatePlaceholder then False
      else pathTemplateMatches (template_segments (http_Path r)) (http_Path other))"

type_synonym SemanticHTTPRuleSet = "SemanticHTTPRule SemanticRuleSet"
type_synonym SemanticHTTPPolicy = "SemanticHTTPRule SemanticPolicy"

definition SemanticHTTPRuleSet_Validate :: "SemanticHTTPRuleSet \<Rightarrow> check" where
  "SemanticHTTPRuleSet_Validate s =
     ruleset_validate SemanticHTTPRule_Validate SemanticHTTPRule_canonicalKey ''HTTP'' s"

definition SemanticHTTPPolicy_Validate :: "SemanticHTTPPolicy \<Rightarrow> check" where
  "SemanticHTTPPolicy_Validate p =
     first_error
       [SemanticHTTPRuleSet_Validate (Allow p), SemanticHTTPRuleSet_Validate (Deny p),
        shadow_check ''HTTP'' SemanticHTTPRule_covers host_parts (elems (Rules (Deny p))) (elems (Rules (Allow p)))]"

section \<open>GraphQL\<close>

record SemanticGraphQLRule = SemanticRuleAuthority +
  gql_Path :: string
  gql_OperationType :: string
  gql_RootField :: string

definition gql_identity :: "SemanticGraphQLRule \<Rightarrow> PolicyProtocolIdentity" where
  "gql_identity r =
     (base_identity (auth_Scheme r) ''graphql'')
       \<lparr> GraphQLOperationType := gql_OperationType r, GraphQLRootField := gql_RootField r \<rparr>"

definition SemanticGraphQLRule_Validate :: "SemanticGraphQLRule \<Rightarrow> check" where
  "SemanticGraphQLRule_Validate r =
     first_error
       [SemanticRuleAuthority_Validate r,
        instead ''semantic GraphQL path is invalid'' (validateGraphQLEndpointPath (gql_Path r)),
        PolicyProtocolIdentity_Validate (gql_identity r)]"

definition SemanticGraphQLRule_Matches :: "SemanticGraphQLRule \<Rightarrow> SemanticRequestEffect \<Rightarrow> bool" where
  "SemanticGraphQLRule_Matches r e =
     (if SemanticGraphQLRule_Validate r \<noteq> None then False
      else if SemanticRequestEffect_Validate e \<noteq> None
              \<or> SemanticModuleID (eff_Identity e) \<noteq> SemanticModuleGraphQL then False
      else auth_matches r e \<and> eff_Method e = ''POST'' \<and> gql_Path r = eff_Path e
           \<and> gql_OperationType r = GraphQLOperationType (eff_Identity e)
           \<and> gql_RootField r = GraphQLRootField (eff_Identity e))"

definition SemanticGraphQLRule_canonicalKey :: "SemanticGraphQLRule \<Rightarrow> string" where
  "SemanticGraphQLRule_canonicalKey r =
     strings_Join [auth_canonicalKey r, gql_Path r, gql_OperationType r, gql_RootField r] [NUL]"

definition SemanticGraphQLRule_covers :: "SemanticGraphQLRule \<Rightarrow> SemanticGraphQLRule \<Rightarrow> bool" where
  "SemanticGraphQLRule_covers r other =
     (if auth_Scheme r \<noteq> auth_Scheme other \<or> auth_Port r \<noteq> auth_Port other \<or> gql_Path r \<noteq> gql_Path other
         \<or> gql_OperationType r \<noteq> gql_OperationType other \<or> gql_RootField r \<noteq> gql_RootField other then False
      else hosts_covered r other)"

type_synonym SemanticGraphQLRuleSet = "SemanticGraphQLRule SemanticRuleSet"
type_synonym SemanticGraphQLPolicy = "SemanticGraphQLRule SemanticEndpointPolicy"

definition SemanticGraphQLRuleSet_Validate :: "SemanticGraphQLRuleSet \<Rightarrow> check" where
  "SemanticGraphQLRuleSet_Validate s =
     ruleset_validate SemanticGraphQLRule_Validate SemanticGraphQLRule_canonicalKey ''GraphQL'' s"

definition SemanticGraphQLPolicy_Validate :: "SemanticGraphQLPolicy \<Rightarrow> check" where
  "SemanticGraphQLPolicy_Validate p =
     first_error
       [endpoints_validate ''GraphQL'' (Endpoints p),
        SemanticGraphQLRuleSet_Validate (Allow p), SemanticGraphQLRuleSet_Validate (Deny p),
        declared_check ''GraphQL'' (elems (Endpoints p)) gql_Path (elems (Rules (Allow p))),
        declared_check ''GraphQL'' (elems (Endpoints p)) gql_Path (elems (Rules (Deny p))),
        shadow_check ''GraphQL'' SemanticGraphQLRule_covers host_parts
          (elems (Rules (Deny p))) (elems (Rules (Allow p)))]"

section \<open>MCP\<close>

record SemanticMCPRule = SemanticRuleAuthority +
  mcp_Path :: string
  mcp_Method :: string
  mcp_ToolName :: string

definition mcp_identity :: "SemanticMCPRule \<Rightarrow> PolicyProtocolIdentity" where
  "mcp_identity r =
     (base_identity (auth_Scheme r) ''mcp'') \<lparr> MCPMethod := mcp_Method r, MCPToolName := mcp_ToolName r \<rparr>"

definition SemanticMCPRule_Validate :: "SemanticMCPRule \<Rightarrow> check" where
  "SemanticMCPRule_Validate r =
     first_error
       [SemanticRuleAuthority_Validate r,
        instead ''semantic MCP path is invalid'' (validateGraphQLEndpointPath (mcp_Path r)),
        PolicyProtocolIdentity_Validate (mcp_identity r)]"

definition SemanticMCPRule_Matches :: "SemanticMCPRule \<Rightarrow> SemanticRequestEffect \<Rightarrow> bool" where
  "SemanticMCPRule_Matches r e =
     (if SemanticMCPRule_Validate r \<noteq> None then False
      else if SemanticRequestEffect_Validate e \<noteq> None
              \<or> SemanticModuleID (eff_Identity e) \<noteq> SemanticModuleMCP then False
      else auth_matches r e \<and> eff_Method e = ''POST'' \<and> mcp_Path r = eff_Path e
           \<and> mcp_Method r = MCPMethod (eff_Identity e) \<and> mcp_ToolName r = MCPToolName (eff_Identity e))"

definition SemanticMCPRule_canonicalKey :: "SemanticMCPRule \<Rightarrow> string" where
  "SemanticMCPRule_canonicalKey r =
     strings_Join [auth_canonicalKey r, mcp_Path r, mcp_Method r, mcp_ToolName r] [NUL]"

definition SemanticMCPRule_covers :: "SemanticMCPRule \<Rightarrow> SemanticMCPRule \<Rightarrow> bool" where
  "SemanticMCPRule_covers r other =
     (if auth_Scheme r \<noteq> auth_Scheme other \<or> auth_Port r \<noteq> auth_Port other \<or> mcp_Path r \<noteq> mcp_Path other
         \<or> mcp_Method r \<noteq> mcp_Method other \<or> mcp_ToolName r \<noteq> mcp_ToolName other then False
      else hosts_covered r other)"

type_synonym SemanticMCPRuleSet = "SemanticMCPRule SemanticRuleSet"
type_synonym SemanticMCPPolicy = "SemanticMCPRule SemanticEndpointPolicy"

definition SemanticMCPRuleSet_Validate :: "SemanticMCPRuleSet \<Rightarrow> check" where
  "SemanticMCPRuleSet_Validate s =
     ruleset_validate SemanticMCPRule_Validate SemanticMCPRule_canonicalKey ''MCP'' s"

definition SemanticMCPPolicy_Validate :: "SemanticMCPPolicy \<Rightarrow> check" where
  "SemanticMCPPolicy_Validate p =
     first_error
       [endpoints_validate ''MCP'' (Endpoints p),
        SemanticMCPRuleSet_Validate (Allow p), SemanticMCPRuleSet_Validate (Deny p),
        declared_check ''MCP'' (elems (Endpoints p)) mcp_Path (elems (Rules (Allow p))),
        declared_check ''MCP'' (elems (Endpoints p)) mcp_Path (elems (Rules (Deny p))),
        shadow_check ''MCP'' SemanticMCPRule_covers host_parts
          (elems (Rules (Deny p))) (elems (Rules (Allow p)))]"

section \<open>Git Smart HTTP\<close>

record SemanticGitRule = SemanticRuleAuthority +
  git_Service :: string
  git_Repository :: string

definition SemanticGitRule_identity :: "SemanticGitRule \<Rightarrow> PolicyProtocolIdentity" where
  "SemanticGitRule_identity r =
     (base_identity (auth_Scheme r) ''git'') \<lparr> GitService := git_Service r, GitRepository := git_Repository r \<rparr>"

definition SemanticGitRule_Validate :: "SemanticGitRule \<Rightarrow> check" where
  "SemanticGitRule_Validate r =
     first_error [SemanticRuleAuthority_Validate r, PolicyProtocolIdentity_Validate (SemanticGitRule_identity r)]"

definition SemanticGitRule_Matches :: "SemanticGitRule \<Rightarrow> SemanticRequestEffect \<Rightarrow> bool" where
  "SemanticGitRule_Matches r e =
     (if SemanticGitRule_Validate r \<noteq> None then False
      else if SemanticRequestEffect_Validate e \<noteq> None
              \<or> SemanticModuleID (eff_Identity e) \<noteq> SemanticModuleGit \<or> \<not> auth_matches r e then False
      else semanticModuleMatches (SemanticGitRule_identity r) (eff_Identity e))"

definition SemanticGitRule_canonicalKey :: "SemanticGitRule \<Rightarrow> string" where
  "SemanticGitRule_canonicalKey r =
     strings_Join
       [auth_Scheme r, strings_Join (sort (auth_hosts r)) [US], strconv_Itoa (auth_Port r),
        git_Service r, git_Repository r] [NUL]"

definition SemanticGitRule_covers :: "SemanticGitRule \<Rightarrow> SemanticGitRule \<Rightarrow> bool" where
  "SemanticGitRule_covers r other =
     (if auth_Scheme r \<noteq> auth_Scheme other \<or> auth_Port r \<noteq> auth_Port other
         \<or> \<not> semanticModuleMatches (SemanticGitRule_identity r) (SemanticGitRule_identity other) then False
      else hosts_covered r other)"

type_synonym SemanticGitRuleSet = "SemanticGitRule SemanticRuleSet"
type_synonym SemanticGitPolicy = "SemanticGitRule SemanticPolicy"

definition SemanticGitRuleSet_Validate :: "SemanticGitRuleSet \<Rightarrow> check" where
  "SemanticGitRuleSet_Validate s =
     ruleset_validate SemanticGitRule_Validate SemanticGitRule_canonicalKey ''Git'' s"

definition SemanticGitPolicy_Validate :: "SemanticGitPolicy \<Rightarrow> check" where
  "SemanticGitPolicy_Validate p =
     first_error
       [SemanticGitRuleSet_Validate (Allow p), SemanticGitRuleSet_Validate (Deny p),
        shadow_check ''Git'' SemanticGitRule_covers host_parts (elems (Rules (Deny p))) (elems (Rules (Allow p)))]"

section \<open>OCI Distribution\<close>

record SemanticOCIRule = SemanticRuleAuthority +
  oci_Action :: string
  oci_Repository :: string
  oci_Object :: string

definition SemanticOCIRule_identity :: "SemanticOCIRule \<Rightarrow> PolicyProtocolIdentity" where
  "SemanticOCIRule_identity r =
     (base_identity (auth_Scheme r) ''oci'')
       \<lparr> OCIAction := oci_Action r, OCIRepository := oci_Repository r, OCIObject := oci_Object r \<rparr>"

definition SemanticOCIRule_Validate :: "SemanticOCIRule \<Rightarrow> check" where
  "SemanticOCIRule_Validate r =
     first_error [SemanticRuleAuthority_Validate r, PolicyProtocolIdentity_Validate (SemanticOCIRule_identity r)]"

definition SemanticOCIRule_Matches :: "SemanticOCIRule \<Rightarrow> SemanticRequestEffect \<Rightarrow> bool" where
  "SemanticOCIRule_Matches r e =
     (if SemanticOCIRule_Validate r \<noteq> None then False
      else if SemanticRequestEffect_Validate e \<noteq> None
              \<or> SemanticModuleID (eff_Identity e) \<noteq> SemanticModuleOCI \<or> \<not> auth_matches r e then False
      else semanticModuleMatches (SemanticOCIRule_identity r) (eff_Identity e))"

definition SemanticOCIRule_canonicalKey :: "SemanticOCIRule \<Rightarrow> string" where
  "SemanticOCIRule_canonicalKey r =
     strings_Join
       [auth_Scheme r, strings_Join (sort (auth_hosts r)) [US], strconv_Itoa (auth_Port r),
        oci_Action r, oci_Repository r, oci_Object r] [NUL]"

definition SemanticOCIRule_covers :: "SemanticOCIRule \<Rightarrow> SemanticOCIRule \<Rightarrow> bool" where
  "SemanticOCIRule_covers r other =
     (if auth_Scheme r \<noteq> auth_Scheme other \<or> auth_Port r \<noteq> auth_Port other
         \<or> \<not> semanticModuleMatches (SemanticOCIRule_identity r) (SemanticOCIRule_identity other) then False
      else hosts_covered r other)"

type_synonym SemanticOCIRuleSet = "SemanticOCIRule SemanticRuleSet"
type_synonym SemanticOCIPolicy = "SemanticOCIRule SemanticPolicy"

definition SemanticOCIRuleSet_Validate :: "SemanticOCIRuleSet \<Rightarrow> check" where
  "SemanticOCIRuleSet_Validate s =
     ruleset_validate SemanticOCIRule_Validate SemanticOCIRule_canonicalKey ''OCI'' s"

definition SemanticOCIPolicy_Validate :: "SemanticOCIPolicy \<Rightarrow> check" where
  "SemanticOCIPolicy_Validate p =
     first_error
       [SemanticOCIRuleSet_Validate (Allow p), SemanticOCIRuleSet_Validate (Deny p),
        shadow_check ''OCI'' SemanticOCIRule_covers host_parts (elems (Rules (Deny p))) (elems (Rules (Allow p)))]"

section \<open>AWS\<close>

record SemanticAWSRule = SemanticRuleAuthority +
  aws_WireProtocol :: string
  aws_Service :: string
  aws_Services :: "string list option"
  aws_ProtocolVersion :: string
  aws_TargetNamespace :: string
  aws_Operation :: string

definition aws_services :: "SemanticAWSRule \<Rightarrow> string list" where
  "aws_services r = (if aws_Service r \<noteq> [] then [aws_Service r] else elems (aws_Services r))"

definition SemanticAWSRule_Validate :: "SemanticAWSRule \<Rightarrow> check" where
  "SemanticAWSRule_Validate r =
     first_error
       [SemanticRuleAuthority_Validate r,
        reject (auth_Port r \<noteq> 443) ''semantic AWS authority must use the classified port'',
        check_each (\<lambda>host. reject (\<not> strings_HasSuffix host ''.amazonaws.com'')
                      ''semantic AWS authority is outside the classifier'') (auth_hosts r),
        reject ((aws_Service r = []) = (aws_Services r = None))
          ''semantic AWS rule requires exactly one of service or services'',
        reject (length (aws_services r) = 0 \<or> aws_Services r \<noteq> None \<and> length (aws_services r) < 2)
          ''semantic AWS services must contain at least two values'',
        check_items (\<lambda>service. reject (\<not> awsServicePattern service) ''semantic AWS service is invalid'')
          (\<lambda>service. service) ''semantic AWS service is duplicated'' [] (aws_services r),
        (let operation = strings_TrimSuffix (aws_Operation r) ''*'' in
         first_error
           [reject (operation = [] \<or> 1 < length (filter (\<lambda>c. c = CHR ''*'') (aws_Operation r))
                    \<or> strings_Contains operation ''*'' \<or> \<not> awsQueryOperationPattern operation)
              ''semantic AWS operation matcher is invalid'',
            (if aws_WireProtocol r = ''query'' then
               reject (\<not> awsProtocolVersionPattern (aws_ProtocolVersion r) \<or> aws_TargetNamespace r \<noteq> [])
                 ''semantic AWS Query projection is invalid''
             else if aws_WireProtocol r = ''json'' then
               reject (aws_ProtocolVersion r \<noteq> []
                       \<or> 256 < length (aws_TargetNamespace r) + 1 + length operation
                       \<or> \<not> awsTargetNamespacePattern (aws_TargetNamespace r))
                 ''semantic AWS JSON projection is invalid''
             else Some ''semantic AWS wire protocol is invalid'')])]"

definition operationMatches :: "SemanticAWSRule \<Rightarrow> string \<Rightarrow> bool" where
  "operationMatches r operation =
     (if \<not> strings_HasSuffix (aws_Operation r) ''*'' then aws_Operation r = operation
      else strings_HasPrefix operation (strings_TrimSuffix (aws_Operation r) ''*''))"

definition SemanticAWSRule_Matches :: "SemanticAWSRule \<Rightarrow> SemanticRequestEffect \<Rightarrow> bool" where
  "SemanticAWSRule_Matches r e =
     (let i = eff_Identity e in
      if SemanticAWSRule_Validate r \<noteq> None then False
      else if SemanticRequestEffect_Validate e \<noteq> None
              \<or> SemanticModuleID i \<noteq> SemanticModuleAWS \<or> \<not> auth_matches r e then False
      else if aws_WireProtocol r \<noteq> AWSWireProtocol i \<or> aws_ProtocolVersion r \<noteq> AWSProtocolVersion i
              \<or> aws_TargetNamespace r \<noteq> AWSTargetNamespace i \<or> \<not> operationMatches r (AWSOperation i) then False
      else list_ex (\<lambda>service. service = AWSService i) (aws_services r))"

definition SemanticAWSRule_canonicalKey :: "SemanticAWSRule \<Rightarrow> string" where
  "SemanticAWSRule_canonicalKey r =
     strings_Join
       [auth_Scheme r, strings_Join (sort (auth_hosts r)) [US], strconv_Itoa (auth_Port r),
        aws_WireProtocol r, strings_Join (sort (aws_services r)) [US], aws_ProtocolVersion r,
        aws_TargetNamespace r, aws_Operation r] [NUL]"

definition SemanticAWSRule_covers :: "SemanticAWSRule \<Rightarrow> SemanticAWSRule \<Rightarrow> bool" where
  "SemanticAWSRule_covers r other =
     (if auth_Scheme r \<noteq> auth_Scheme other \<or> auth_Port r \<noteq> auth_Port other
         \<or> aws_WireProtocol r \<noteq> aws_WireProtocol other \<or> aws_ProtocolVersion r \<noteq> aws_ProtocolVersion other
         \<or> aws_TargetNamespace r \<noteq> aws_TargetNamespace other then False
      else if strings_HasSuffix (aws_Operation r) ''*''
              \<and> \<not> strings_HasPrefix (strings_TrimSuffix (aws_Operation other) ''*'')
                    (strings_TrimSuffix (aws_Operation r) ''*'') then False
      else if \<not> strings_HasSuffix (aws_Operation r) ''*'' \<and> aws_Operation r \<noteq> aws_Operation other then False
      else hosts_covered r other
           \<and> list_all (\<lambda>service. service \<in> set (aws_services r)) (aws_services other))"

text \<open>The two narrowing loops: one part for every host and service.\<close>

definition narrow_service :: "SemanticAWSRule \<Rightarrow> string \<Rightarrow> SemanticAWSRule" where
  "narrow_service r service = r\<lparr> aws_Service := service, aws_Services := None \<rparr>"

definition aws_parts :: "SemanticAWSRule \<Rightarrow> SemanticAWSRule list" where
  "aws_parts r =
     concat (map (\<lambda>host. map (\<lambda>service. narrow_service (narrow_host r host) service) (aws_services r)) (auth_hosts r))"

type_synonym SemanticAWSRuleSet = "SemanticAWSRule SemanticRuleSet"
type_synonym SemanticAWSPolicy = "SemanticAWSRule SemanticPolicy"

definition SemanticAWSRuleSet_Validate :: "SemanticAWSRuleSet \<Rightarrow> check" where
  "SemanticAWSRuleSet_Validate s =
     ruleset_validate SemanticAWSRule_Validate SemanticAWSRule_canonicalKey ''AWS'' s"

definition SemanticAWSPolicy_Validate :: "SemanticAWSPolicy \<Rightarrow> check" where
  "SemanticAWSPolicy_Validate p =
     first_error
       [SemanticAWSRuleSet_Validate (Allow p), SemanticAWSRuleSet_Validate (Deny p),
        shadow_check ''AWS'' SemanticAWSRule_covers aws_parts (elems (Rules (Deny p))) (elems (Rules (Allow p)))]"

section \<open>Kubernetes\<close>

record SemanticKubernetesResourceRule =
  res_Group :: string
  res_Version :: string
  res_Resource :: string
  res_Namespace :: string
  res_Name :: string
  res_Subresource :: string
  res_Verb :: string
  res_DryRun :: string

definition resource_identity :: "SemanticKubernetesResourceRule \<Rightarrow> string \<Rightarrow> PolicyProtocolIdentity" where
  "resource_identity r scheme =
     (base_identity scheme ''kubernetes'')
       \<lparr> KubernetesKind := ''resource'', KubernetesGroup := res_Group r, KubernetesVersion := res_Version r,
         KubernetesResource := res_Resource r, KubernetesNamespace := res_Namespace r,
         KubernetesName := res_Name r, KubernetesSubresource := res_Subresource r,
         KubernetesVerb := res_Verb r, KubernetesDryRun := res_DryRun r \<rparr>"

record SemanticKubernetesNonResourceRule =
  nonres_Path :: string
  nonres_Verb :: string

definition nonresource_identity :: "SemanticKubernetesNonResourceRule \<Rightarrow> string \<Rightarrow> PolicyProtocolIdentity" where
  "nonresource_identity r scheme =
     (base_identity scheme ''kubernetes'')
       \<lparr> KubernetesKind := ''non_resource'', KubernetesVerb := nonres_Verb r,
         KubernetesNonResourcePath := nonres_Path r \<rparr>"

record SemanticKubernetesRule = SemanticRuleAuthority +
  k8s_Resource :: "SemanticKubernetesResourceRule option"
  k8s_NonResource :: "SemanticKubernetesNonResourceRule option"

definition SemanticKubernetesRule_identity :: "SemanticKubernetesRule \<Rightarrow> PolicyProtocolIdentity" where
  "SemanticKubernetesRule_identity r =
     (case k8s_Resource r of
        Some x \<Rightarrow> resource_identity x (auth_Scheme r)
      | None \<Rightarrow>
          (case k8s_NonResource r of
             Some x \<Rightarrow> nonresource_identity x (auth_Scheme r)
           | None \<Rightarrow> base_identity [] []))"

definition SemanticKubernetesRule_Validate :: "SemanticKubernetesRule \<Rightarrow> check" where
  "SemanticKubernetesRule_Validate r =
     first_error
       [SemanticRuleAuthority_Validate r,
        reject (auth_Port r \<noteq> 443) ''semantic Kubernetes authority must use the classified port'',
        check_each (\<lambda>host. reject (\<not> strings_HasSuffix host ''.eks.amazonaws.com'')
                      ''semantic Kubernetes authority is outside the EKS classifier'') (auth_hosts r),
        reject ((k8s_Resource r = None) = (k8s_NonResource r = None))
          ''semantic Kubernetes rule requires exactly one request variant'',
        (case k8s_Resource r of
           Some x \<Rightarrow> PolicyProtocolIdentity_Validate (resource_identity x (auth_Scheme r))
         | None \<Rightarrow>
             (case k8s_NonResource r of
                Some x \<Rightarrow> PolicyProtocolIdentity_Validate (nonresource_identity x (auth_Scheme r))
              | None \<Rightarrow> None))]"

definition SemanticKubernetesRule_Matches :: "SemanticKubernetesRule \<Rightarrow> SemanticRequestEffect \<Rightarrow> bool" where
  "SemanticKubernetesRule_Matches r e =
     (if SemanticKubernetesRule_Validate r \<noteq> None then False
      else if SemanticRequestEffect_Validate e \<noteq> None
              \<or> SemanticModuleID (eff_Identity e) \<noteq> SemanticModuleKubernetes \<or> \<not> auth_matches r e then False
      else semanticModuleMatches (SemanticKubernetesRule_identity r) (eff_Identity e))"

definition SemanticKubernetesRule_canonicalKey :: "SemanticKubernetesRule \<Rightarrow> string" where
  "SemanticKubernetesRule_canonicalKey r =
     (let i = SemanticKubernetesRule_identity r in
      strings_Join
        [auth_Scheme r, strings_Join (sort (auth_hosts r)) [US], strconv_Itoa (auth_Port r),
         KubernetesKind i, KubernetesVerb i, KubernetesGroup i, KubernetesVersion i, KubernetesResource i,
         KubernetesNamespace i, KubernetesName i, KubernetesSubresource i, KubernetesDryRun i,
         KubernetesNonResourcePath i] [NUL])"

definition SemanticKubernetesRule_covers :: "SemanticKubernetesRule \<Rightarrow> SemanticKubernetesRule \<Rightarrow> bool" where
  "SemanticKubernetesRule_covers r other =
     (if auth_Scheme r \<noteq> auth_Scheme other \<or> auth_Port r \<noteq> auth_Port other
         \<or> \<not> semanticModuleMatches (SemanticKubernetesRule_identity r) (SemanticKubernetesRule_identity other)
      then False
      else hosts_covered r other)"

type_synonym SemanticKubernetesRuleSet = "SemanticKubernetesRule SemanticRuleSet"
type_synonym SemanticKubernetesPolicy = "SemanticKubernetesRule SemanticPolicy"

definition SemanticKubernetesRuleSet_Validate :: "SemanticKubernetesRuleSet \<Rightarrow> check" where
  "SemanticKubernetesRuleSet_Validate s =
     ruleset_validate SemanticKubernetesRule_Validate SemanticKubernetesRule_canonicalKey ''Kubernetes'' s"

definition SemanticKubernetesPolicy_Validate :: "SemanticKubernetesPolicy \<Rightarrow> check" where
  "SemanticKubernetesPolicy_Validate p =
     first_error
       [SemanticKubernetesRuleSet_Validate (Allow p), SemanticKubernetesRuleSet_Validate (Deny p),
        shadow_check ''Kubernetes'' SemanticKubernetesRule_covers host_parts
          (elems (Rules (Deny p))) (elems (Rules (Allow p)))]"

end
