(* ===== verification/Rule_Coverage.thy ===== *)
theory Rule_Coverage
  imports Semantic_Rules
begin

text \<open>
  Every module's rules honour the contract of the shadowing check: \<open>covers\<close> is sound for matching.
  For rules without wildcards the check is exact. The exemplary request of a rule part is built
  from the part's own coordinates.
\<close>

lemma narrow_rule_fields [simp]:
  "http_Method (narrow_host r1 h) = http_Method r1" "http_Path (narrow_host r1 h) = http_Path r1"
  "gql_Path (narrow_host r2 h) = gql_Path r2" "gql_OperationType (narrow_host r2 h) = gql_OperationType r2"
  "gql_RootField (narrow_host r2 h) = gql_RootField r2"
  "mcp_Path (narrow_host r3 h) = mcp_Path r3" "mcp_Method (narrow_host r3 h) = mcp_Method r3"
  "mcp_ToolName (narrow_host r3 h) = mcp_ToolName r3"
  "SemanticGitRule_identity (narrow_host r4 h) = SemanticGitRule_identity r4"
  "SemanticOCIRule_identity (narrow_host r5 h) = SemanticOCIRule_identity r5"
  "SemanticKubernetesRule_identity (narrow_host r6 h) = SemanticKubernetesRule_identity r6"
  "k8s_Resource (narrow_host r6 h) = k8s_Resource r6" "k8s_NonResource (narrow_host r6 h) = k8s_NonResource r6"
  "gql_identity (narrow_host r2 h) = gql_identity r2" "mcp_identity (narrow_host r3 h) = mcp_identity r3"
  by (simp_all add: narrow_host_def SemanticGitRule_identity_def SemanticOCIRule_identity_def
      SemanticKubernetesRule_identity_def gql_identity_def mcp_identity_def split: option.split)

lemma set_host_parts: "set (host_parts r) = narrow_host r ` set (auth_hosts r)"
  by (simp add: host_parts_def)

text \<open>A part has exactly the host it was narrowed to.\<close>

lemma part_shape:
  assumes "SemanticRuleAuthority_Validate a = None" and "n \<in> set (host_parts a)"
  shows "SemanticRuleAuthority_Validate n = None" and "auth_hosts n = [auth_Host n]"
proof -
  obtain h where h: "h \<in> set (auth_hosts a)" "n = narrow_host a h" using assms(2) by (auto simp: set_host_parts)
  then show "SemanticRuleAuthority_Validate n = None" using narrow_host_valid[OF assms(1)] by simp
  show "auth_hosts n = [auth_Host n]"
    using h auth_valid_host(2)[OF assms(1) h(1)] by (simp add: narrow_host_def auth_hosts_def)
qed

text \<open>
  The shape of a rule type whose parts are its hosts: validation and matching are those of the
  authority and a residue that narrowing does not change.
\<close>

locale host_rule =
  fixes validate :: "'a SemanticRuleAuthority_scheme \<Rightarrow> check"
    and matches :: "'a SemanticRuleAuthority_scheme \<Rightarrow> SemanticRequestEffect \<Rightarrow> bool"
    and covers :: "'a SemanticRuleAuthority_scheme \<Rightarrow> 'a SemanticRuleAuthority_scheme \<Rightarrow> bool"
    and rest_matches :: "'a SemanticRuleAuthority_scheme \<Rightarrow> SemanticRequestEffect \<Rightarrow> bool"
    and rest_covers :: "'a SemanticRuleAuthority_scheme \<Rightarrow> 'a SemanticRuleAuthority_scheme \<Rightarrow> bool"
  assumes validate_authority: "validate r = None \<Longrightarrow> SemanticRuleAuthority_Validate r = None"
    and narrow_valid: "validate r = None \<Longrightarrow> h \<in> set (auth_hosts r) \<Longrightarrow> validate (narrow_host r h) = None"
    and matches_iff: "matches r e \<longleftrightarrow> validate r = None \<and> auth_matches r e \<and> rest_matches r e"
    and covers_iff: "covers r s \<longleftrightarrow>
      auth_Scheme r = auth_Scheme s \<and> auth_Port r = auth_Port s \<and> hosts_covered r s \<and> rest_covers r s"
    and rest_matches_narrow: "rest_matches (narrow_host r h) e \<longleftrightarrow> rest_matches r e"
    and rest_sound: "rest_covers r s \<Longrightarrow> rest_matches s e \<Longrightarrow> rest_matches r e"
begin

lemma part_valid: "validate a = None \<Longrightarrow> n \<in> set (host_parts a) \<Longrightarrow> validate n = None"
  using narrow_valid by (auto simp: set_host_parts)

lemma part_authority:
  assumes "validate a = None" and "n \<in> set (host_parts a)"
  shows "SemanticRuleAuthority_Validate n = None" and "auth_hosts n = [auth_Host n]"
  using part_shape[OF validate_authority[OF assms(1)] assms(2)] .

lemma parts_match: "matches a e \<Longrightarrow> \<exists>n \<in> set (host_parts a). matches n e"
proof -
  assume m: "matches a e"
  then have v: "validate a = None" "auth_matches a e" "rest_matches a e"
    using matches_iff by blast+
  then have "SemanticRuleAuthority_Validate a = None" using validate_authority by blast
  from matches_narrow[OF this v(2)] v have "eff_Host e \<in> set (auth_hosts a)"
    "matches (narrow_host a (eff_Host e)) e"
    using narrow_valid matches_iff rest_matches_narrow by blast+
  then show ?thesis by (auto simp: set_host_parts)
qed

lemma part_of_rule:
  assumes "validate a = None" and "n \<in> set (host_parts a)" and "matches n e"
  shows "matches a e"
proof -
  obtain h where h: "h \<in> set (auth_hosts a)" "n = narrow_host a h"
    using assms(2) by (auto simp: set_host_parts)
  then have "h \<noteq> []" using auth_valid_host(2) validate_authority assms(1) by blast
  with h assms show ?thesis
    using matches_iff rest_matches_narrow by (auto simp: auth_matches_iff)
qed

lemma covers_matches: "validate d = None \<Longrightarrow> covers d n \<Longrightarrow> matches n e \<Longrightarrow> matches d e"
  using matches_iff[of n] matches_iff[of d] covers_iff[of d n] hosts_covered_matches[of d n e]
    rest_sound[of d n e] by blast

end

sublocale host_rule \<subseteq> covering_rules validate matches covers host_parts
  by unfold_locales (blast intro: parts_match part_of_rule covers_matches)+

section \<open>The interpretations\<close>

lemma http_template_path:
  "SemanticHTTPRule_Matches r e \<longleftrightarrow>
     SemanticHTTPRule_Validate r = None \<and> auth_matches r e \<and>
     (SemanticRequestEffect_Validate e = None \<and> SemanticModuleID (eff_Identity e) = SemanticModuleHTTPGeneric \<and>
      http_Method r = eff_Method e \<and>
      (if strings_Contains (http_Path r) PolicyPathTemplatePlaceholder
       then pathTemplateMatches (template_segments (http_Path r)) (eff_Path e)
       else http_Path r = eff_Path e))"
  by (auto simp: SemanticHTTPRule_Matches_def)

interpretation http: host_rule SemanticHTTPRule_Validate SemanticHTTPRule_Matches SemanticHTTPRule_covers
  "\<lambda>r e. SemanticRequestEffect_Validate e = None \<and> SemanticModuleID (eff_Identity e) = SemanticModuleHTTPGeneric \<and>
      http_Method r = eff_Method e \<and>
      (if strings_Contains (http_Path r) PolicyPathTemplatePlaceholder
       then pathTemplateMatches (template_segments (http_Path r)) (eff_Path e)
       else http_Path r = eff_Path e)"
  "\<lambda>r s. http_Method r = http_Method s \<and>
      (http_Path r = http_Path s \<or>
       strings_Contains (http_Path r) PolicyPathTemplatePlaceholder \<and>
       \<not> strings_Contains (http_Path s) PolicyPathTemplatePlaceholder \<and>
       pathTemplateMatches (template_segments (http_Path r)) (http_Path s))"
proof (unfold_locales, goal_cases)
  case 1 then show ?case by (simp add: SemanticHTTPRule_Validate_def check_simps)
next
  case 2 then show ?case
    unfolding SemanticHTTPRule_Validate_def first_error_None narrow_rule_fields
    by (blast intro: narrow_host_valid)
next
  case 3 then show ?case by (rule http_template_path)
next
  case 4 then show ?case by (auto simp: SemanticHTTPRule_covers_def)
next
  case 5 then show ?case by simp
next
  case 6 then show ?case by (metis (no_types, lifting))
qed

interpretation gql: host_rule SemanticGraphQLRule_Validate SemanticGraphQLRule_Matches SemanticGraphQLRule_covers
  "\<lambda>r e. SemanticRequestEffect_Validate e = None \<and> SemanticModuleID (eff_Identity e) = SemanticModuleGraphQL \<and>
      eff_Method e = ''POST'' \<and> gql_Path r = eff_Path e \<and>
      gql_OperationType r = GraphQLOperationType (eff_Identity e) \<and>
      gql_RootField r = GraphQLRootField (eff_Identity e)"
  "\<lambda>r s. gql_Path r = gql_Path s \<and> gql_OperationType r = gql_OperationType s \<and> gql_RootField r = gql_RootField s"
  by unfold_locales (auto simp: SemanticGraphQLRule_Validate_def SemanticGraphQLRule_Matches_def
      SemanticGraphQLRule_covers_def check_simps narrow_host_valid)

interpretation mcp: host_rule SemanticMCPRule_Validate SemanticMCPRule_Matches SemanticMCPRule_covers
  "\<lambda>r e. SemanticRequestEffect_Validate e = None \<and> SemanticModuleID (eff_Identity e) = SemanticModuleMCP \<and>
      eff_Method e = ''POST'' \<and> mcp_Path r = eff_Path e \<and>
      mcp_Method r = MCPMethod (eff_Identity e) \<and> mcp_ToolName r = MCPToolName (eff_Identity e)"
  "\<lambda>r s. mcp_Path r = mcp_Path s \<and> mcp_Method r = mcp_Method s \<and> mcp_ToolName r = mcp_ToolName s"
  by unfold_locales (auto simp: SemanticMCPRule_Validate_def SemanticMCPRule_Matches_def
      SemanticMCPRule_covers_def check_simps narrow_host_valid)

interpretation git: host_rule SemanticGitRule_Validate SemanticGitRule_Matches SemanticGitRule_covers
  "\<lambda>r e. SemanticRequestEffect_Validate e = None \<and> SemanticModuleID (eff_Identity e) = SemanticModuleGit \<and>
      semanticModuleMatches (SemanticGitRule_identity r) (eff_Identity e)"
  "\<lambda>r s. semanticModuleMatches (SemanticGitRule_identity r) (SemanticGitRule_identity s)"
  by unfold_locales (auto simp: SemanticGitRule_Validate_def SemanticGitRule_Matches_def
      SemanticGitRule_covers_def check_simps narrow_host_valid identity_matches_iff)

interpretation oci: host_rule SemanticOCIRule_Validate SemanticOCIRule_Matches SemanticOCIRule_covers
  "\<lambda>r e. SemanticRequestEffect_Validate e = None \<and> SemanticModuleID (eff_Identity e) = SemanticModuleOCI \<and>
      semanticModuleMatches (SemanticOCIRule_identity r) (eff_Identity e)"
  "\<lambda>r s. semanticModuleMatches (SemanticOCIRule_identity r) (SemanticOCIRule_identity s)"
  by unfold_locales (auto simp: SemanticOCIRule_Validate_def SemanticOCIRule_Matches_def
      SemanticOCIRule_covers_def check_simps narrow_host_valid identity_matches_iff)

interpretation k8s: host_rule SemanticKubernetesRule_Validate SemanticKubernetesRule_Matches
  SemanticKubernetesRule_covers
  "\<lambda>r e. SemanticRequestEffect_Validate e = None \<and> SemanticModuleID (eff_Identity e) = SemanticModuleKubernetes \<and>
      semanticModuleMatches (SemanticKubernetesRule_identity r) (eff_Identity e)"
  "\<lambda>r s. semanticModuleMatches (SemanticKubernetesRule_identity r) (SemanticKubernetesRule_identity s)"
proof (unfold_locales, goal_cases)
  case 1 then show ?case by (simp add: SemanticKubernetesRule_Validate_def check_simps)
next
  case (2 r h)
  then have "h \<noteq> []" using auth_valid_host(2) by (auto simp: SemanticKubernetesRule_Validate_def check_simps)
  with 2 show ?case
    unfolding SemanticKubernetesRule_Validate_def check_simps narrow_rule_fields narrow_host_simps(1,2)
    by (simp add: narrow_host_valid)
next
  case 3 then show ?case by (auto simp: SemanticKubernetesRule_Matches_def)
next
  case 4 then show ?case by (auto simp: SemanticKubernetesRule_covers_def)
next
  case 5 then show ?case by simp
next
  case 6 then show ?case by (auto simp: identity_matches_iff)
qed

section \<open>AWS: parts are pairs of a host and a service\<close>

lemma narrow_service_simps [simp]:
  "auth_Scheme (narrow_service r s) = auth_Scheme r" "auth_Port (narrow_service r s) = auth_Port r"
  "auth_hosts (narrow_service r s) = auth_hosts r" "aws_WireProtocol (narrow_service r s) = aws_WireProtocol r"
  "aws_ProtocolVersion (narrow_service r s) = aws_ProtocolVersion r"
  "aws_TargetNamespace (narrow_service r s) = aws_TargetNamespace r"
  "aws_Operation (narrow_service r s) = aws_Operation r"
  "SemanticRuleAuthority_Validate (narrow_service r s) = SemanticRuleAuthority_Validate r"
  "s \<noteq> [] \<Longrightarrow> aws_services (narrow_service r s) = [s]"
  "auth_Host (narrow_service r s) = auth_Host r"
  by (simp_all add: narrow_service_def auth_hosts_def aws_services_def SemanticRuleAuthority_Validate_def)

lemma narrow_host_aws [simp]:
  "aws_WireProtocol (narrow_host r h) = aws_WireProtocol r"
  "aws_ProtocolVersion (narrow_host r h) = aws_ProtocolVersion r"
  "aws_TargetNamespace (narrow_host r h) = aws_TargetNamespace r"
  "aws_Operation (narrow_host r h) = aws_Operation r" "aws_services (narrow_host r h) = aws_services r"
  "aws_Service (narrow_service r s) = s" "aws_Services (narrow_service r s) = None"
  by (simp_all add: narrow_host_def narrow_service_def aws_services_def)

lemma aws_matches_iff:
  "SemanticAWSRule_Matches r e \<longleftrightarrow>
     SemanticAWSRule_Validate r = None \<and> SemanticRequestEffect_Validate e = None \<and>
     SemanticModuleID (eff_Identity e) = SemanticModuleAWS \<and> auth_matches r e \<and>
     aws_WireProtocol r = AWSWireProtocol (eff_Identity e) \<and>
     aws_ProtocolVersion r = AWSProtocolVersion (eff_Identity e) \<and>
     aws_TargetNamespace r = AWSTargetNamespace (eff_Identity e) \<and>
     operationMatches r (AWSOperation (eff_Identity e)) \<and> AWSService (eff_Identity e) \<in> set (aws_services r)"
  by (auto simp: SemanticAWSRule_Matches_def Let_def list_ex_iff)

lemma aws_service_nonempty:
  assumes "SemanticAWSRule_Validate r = None" and "s \<in> set (aws_services r)"
  shows "s \<noteq> []" and "awsServicePattern s"
proof -
  from assms show "awsServicePattern s" by (simp add: SemanticAWSRule_Validate_def check_simps)
  then show "s \<noteq> []" by (auto simp: awsServicePattern_def)
qed

lemma aws_narrow_valid:
  assumes v: "SemanticAWSRule_Validate r = None" and h: "h \<in> set (auth_hosts r)" and s: "s \<in> set (aws_services r)"
  shows "SemanticAWSRule_Validate (narrow_service (narrow_host r h) s) = None"
proof -
  have a: "SemanticRuleAuthority_Validate r = None" using v by (simp add: SemanticAWSRule_Validate_def check_simps)
  note hs = auth_valid_host(2)[OF a h] narrow_host_valid[OF a h] aws_service_nonempty[OF v s]
  from v h show ?thesis
    unfolding SemanticAWSRule_Validate_def check_simps narrow_service_simps(1-8) narrow_host_aws narrow_host_simps(1,2)
    by (simp add: hs)
qed

lemma aws_parts_iff:
  "n \<in> set (aws_parts r) \<longleftrightarrow>
     (\<exists>h \<in> set (auth_hosts r). \<exists>s \<in> set (aws_services r). n = narrow_service (narrow_host r h) s)"
  by (auto simp: aws_parts_def)

lemma HasPrefix_trans: "strings_HasPrefix a b \<Longrightarrow> strings_HasPrefix b c \<Longrightarrow> strings_HasPrefix a c"
  by (auto simp: HasPrefix_iff)

lemma operation_covered:
  assumes "if strings_HasSuffix (aws_Operation d) ''*''
      then strings_HasPrefix (strings_TrimSuffix (aws_Operation n) ''*'') (strings_TrimSuffix (aws_Operation d) ''*'')
      else aws_Operation d = aws_Operation n"
    and "operationMatches n x"
  shows "operationMatches d x"
proof (cases "strings_HasSuffix (aws_Operation d) ''*''")
  case True
  have "strings_HasPrefix x (strings_TrimSuffix (aws_Operation n) ''*'')"
    using assms(2) by (auto simp: operationMatches_def strings_TrimSuffix_def HasPrefix_iff split: if_splits)
  with True assms(1) show ?thesis by (auto simp: operationMatches_def intro: HasPrefix_trans)
next
  case False
  with assms show ?thesis by (simp add: operationMatches_def)
qed

interpretation aws: covering_rules SemanticAWSRule_Validate SemanticAWSRule_Matches SemanticAWSRule_covers aws_parts
proof (unfold_locales, goal_cases)
  case (1 a e)
  then have v: "SemanticAWSRule_Validate a = None" and m: "auth_matches a e"
    and s: "AWSService (eff_Identity e) \<in> set (aws_services a)" by (auto simp: aws_matches_iff)
  have a: "SemanticRuleAuthority_Validate a = None" using v by (simp add: SemanticAWSRule_Validate_def check_simps)
  note h = matches_narrow[OF a m]
  have "SemanticAWSRule_Matches (narrow_service (narrow_host a (eff_Host e)) (AWSService (eff_Identity e))) e"
    using 1 h aws_narrow_valid[OF v h(1) s] aws_service_nonempty(1)[OF v s]
    by (simp add: aws_matches_iff auth_matches_iff operationMatches_def)
  moreover have "narrow_service (narrow_host a (eff_Host e)) (AWSService (eff_Identity e)) \<in> set (aws_parts a)"
    using h(1) s by (auto simp: aws_parts_iff)
  ultimately show ?case by blast
next
  case (2 a n e)
  then obtain h s where n: "h \<in> set (auth_hosts a)" "s \<in> set (aws_services a)"
    "n = narrow_service (narrow_host a h) s" by (auto simp: aws_parts_iff)
  have "SemanticRuleAuthority_Validate a = None" using 2 by (simp add: SemanticAWSRule_Validate_def check_simps)
  then have "h \<noteq> []" "s \<noteq> []" using n(1,2) auth_valid_host(2) aws_service_nonempty(1)[OF 2(1)] by blast+
  with 2 n show ?case
    by (auto simp: aws_matches_iff auth_matches_iff operationMatches_def)
next
  case (3 d n e)
  then have "operationMatches d (AWSOperation (eff_Identity e))"
    by (intro operation_covered[of d n]) (auto simp: SemanticAWSRule_covers_def aws_matches_iff split: if_splits)
  with 3 show ?case
    using hosts_covered_matches[of d n e]
    by (auto simp: SemanticAWSRule_covers_def aws_matches_iff list_all_iff split: if_splits)
qed

section \<open>Exemplary requests\<close>

definition exemplar_effect ::
    "'a SemanticRuleAuthority_scheme \<Rightarrow> string \<Rightarrow> string \<Rightarrow> PolicyProtocolIdentity \<Rightarrow> SemanticRequestEffect" where
  "exemplar_effect n method path i =
     \<lparr> eff_Scheme = auth_Scheme n, eff_Host = auth_Host n, eff_Port = auth_Port n,
       eff_Method = method, eff_Path = path, eff_Identity = i \<rparr>"

lemma exemplar_fields [simp]:
  "eff_Scheme (exemplar_effect n m p i) = auth_Scheme n" "eff_Host (exemplar_effect n m p i) = auth_Host n"
  "eff_Port (exemplar_effect n m p i) = auth_Port n" "eff_Method (exemplar_effect n m p i) = m"
  "eff_Path (exemplar_effect n m p i) = p" "eff_Identity (exemplar_effect n m p i) = i"
  by (simp_all add: exemplar_effect_def)

lemma exemplar_valid:
  assumes n: "SemanticRuleAuthority_Validate n = None" "auth_hosts n = [auth_Host n]"
    and i: "PolicyProtocolIdentity_Validate i = None" "Scheme i = auth_Scheme n"
    and t: "httpMethodPattern m" "validatePolicyPath p = None"
    and e: "semanticModuleByProtocol (Protocol i) = Some md" "module_validateEffect md (exemplar_effect n m p i) = None"
  shows "SemanticRequestEffect_Validate (exemplar_effect n m p i) = None"
    and "auth_matches n (exemplar_effect n m p i)"
    and "SemanticModuleID i = moduleID md"
proof -
  have h: "auth_Host n \<in> set (auth_hosts n)" using n(2) by simp
  show "SemanticRequestEffect_Validate (exemplar_effect n m p i) = None"
    using auth_valid_host[OF n(1) h] i t e by (simp add: SemanticRequestEffect_Validate_def check_simps)
  show "auth_matches n (exemplar_effect n m p i)" using h by (simp add: auth_matches_iff)
  show "SemanticModuleID i = moduleID md" using i e by (simp add: SemanticModuleID_def)
qed

lemma exemplar_hosts:
  assumes "auth_hosts n = [auth_Host n]" and "auth_matches d (exemplar_effect n m p i)"
  shows "auth_Scheme d = auth_Scheme n" and "auth_Port d = auth_Port n" and "hosts_covered d n"
  using assms by (auto simp: auth_matches_iff hosts_covered_iff)

lemma post_method: "httpMethodPattern ''POST''" "httpMethodPattern ''GET''" "httpMethodPattern ''PUT''"
  "httpMethodPattern ''PATCH''" "httpMethodPattern ''DELETE''" by code_simp+

lemma base_identity_simps [simp]:
  "Scheme (base_identity s p) = s" "Protocol (base_identity s p) = p"
  by (simp_all add: base_identity_def)

lemma http_base_valid:
  assumes "s = ''http'' \<or> s = ''https''"
  shows "PolicyProtocolIdentity_Validate (base_identity s ''http'') = None"
  using assms
  by (simp add: validateSemanticModuleIdentity_def check_simps module_fields validateHTTPModuleIdentity_def
      policyIdentityHasRefinement_def fields_set_defs)
    (auto simp: base_identity_def)

lemma endpoint_path_valid: "validateGraphQLEndpointPath p = None \<Longrightarrow> validatePolicyPath p = None"
  by (simp add: validateGraphQLEndpointPath_def check_simps)

interpretation http_exact: exact_rules SemanticHTTPRule_Validate SemanticHTTPRule_Matches SemanticHTTPRule_covers
  host_parts "\<lambda>r. \<not> strings_Contains (http_Path r) PolicyPathTemplatePlaceholder"
  "\<lambda>n. exemplar_effect n (http_Method n) (http_Path n) (base_identity (auth_Scheme n) ''http'')"
proof (unfold_locales, goal_cases)
  case (1 a n)
  note n = http.part_authority[OF 1(1,3)]
  obtain h where h: "n = narrow_host a h" using 1(3) by (auto simp: set_host_parts)
  have v: "SemanticHTTPRule_Validate n = None" using http.part_valid[OF 1(1,3)] .
  have x: "\<not> strings_Contains (http_Path n) PolicyPathTemplatePlaceholder" using 1(2) h by simp
  have s: "auth_Scheme n = ''https''" using n(1) by (simp add: auth_valid_iff)
  have t: "httpMethodPattern (http_Method n)" "validatePolicyPath (http_Path n) = None"
    using v x by (simp_all add: SemanticHTTPRule_Validate_def check_simps)
  note ex = exemplar_valid[OF n http_base_valid _ t, of "auth_Scheme n" "semanticModules ! 0"]
  show ?case
    using ex s v x by (simp add: http_template_path module_effects module_ids)
next
  case (2 a n d)
  note n = http.part_authority[OF 2(1,3)]
  obtain h where h: "n = narrow_host a h" using 2(3) by (auto simp: set_host_parts)
  have x: "\<not> strings_Contains (http_Path n) PolicyPathTemplatePlaceholder" using 2(2) h by simp
  have "auth_matches d (exemplar_effect n (http_Method n) (http_Path n) (base_identity (auth_Scheme n) ''http''))"
    using 2(5) by (simp add: http_template_path)
  from exemplar_hosts[OF n(2) this] 2(5) x show ?case
    by (auto simp: http_template_path http.covers_iff split: if_splits)
qed

interpretation gql_exact: exact_rules SemanticGraphQLRule_Validate SemanticGraphQLRule_Matches
  SemanticGraphQLRule_covers host_parts "\<lambda>r. True"
  "\<lambda>n. exemplar_effect n ''POST'' (gql_Path n) (gql_identity n)"
proof (unfold_locales, goal_cases)
  case (1 a n)
  note n = gql.part_authority[OF 1(1,3)]
  have v: "SemanticGraphQLRule_Validate n = None" using gql.part_valid[OF 1(1,3)] .
  then have t: "PolicyProtocolIdentity_Validate (gql_identity n) = None" "validatePolicyPath (gql_Path n) = None"
    by (simp_all add: SemanticGraphQLRule_Validate_def check_simps endpoint_path_valid)
  note ex = exemplar_valid[OF n t(1) _ post_method(1) t(2), of "semanticModules ! 1"]
  show ?case
    using ex v by (simp add: gql.matches_iff gql_identity_def module_effects module_ids del: One_nat_def)
next
  case (2 a n d)
  note n = gql.part_authority[OF 2(1,3)]
  have "auth_matches d (exemplar_effect n ''POST'' (gql_Path n) (gql_identity n))"
    using 2(5) by (simp add: gql.matches_iff)
  from exemplar_hosts[OF n(2) this] 2(5) show ?case
    by (simp add: gql.matches_iff gql.covers_iff gql_identity_def)
qed

interpretation mcp_exact: exact_rules SemanticMCPRule_Validate SemanticMCPRule_Matches
  SemanticMCPRule_covers host_parts "\<lambda>r. True"
  "\<lambda>n. exemplar_effect n ''POST'' (mcp_Path n) (mcp_identity n)"
proof (unfold_locales, goal_cases)
  case (1 a n)
  note n = mcp.part_authority[OF 1(1,3)]
  have v: "SemanticMCPRule_Validate n = None" using mcp.part_valid[OF 1(1,3)] .
  then have t: "PolicyProtocolIdentity_Validate (mcp_identity n) = None" "validatePolicyPath (mcp_Path n) = None"
    by (simp_all add: SemanticMCPRule_Validate_def check_simps endpoint_path_valid)
  note ex = exemplar_valid[OF n t(1) _ post_method(1) t(2), of "semanticModules ! 2"]
  show ?case
    using ex v by (simp add: mcp.matches_iff mcp_identity_def module_effects module_ids
        validateMCPModuleEffect_def check_simps)
next
  case (2 a n d)
  note n = mcp.part_authority[OF 2(1,3)]
  have "auth_matches d (exemplar_effect n ''POST'' (mcp_Path n) (mcp_identity n))"
    using 2(5) by (simp add: mcp.matches_iff)
  from exemplar_hosts[OF n(2) this] 2(5) show ?case
    by (simp add: mcp.matches_iff mcp.covers_iff mcp_identity_def)
qed

lemma git_refs_path:
  assumes "validateGitModuleIdentity i = None"
  shows "validatePolicyPath (GitRepository i @ ''/info/refs'') = None"
proof -
  have r: "2 \<le> length (GitRepository i)" "length (GitRepository i) \<le> 1024" "hd (GitRepository i) = CHR ''/''"
    "\<not> has_control (GitRepository i)"
    using assms by (auto simp: validateGitModuleIdentity_def Let_def check_simps)
  then obtain s where "GitRepository i = CHR ''/'' # s" by (cases "GitRepository i") auto
  moreover have "\<not> has_control ''info/refs''" "\<not> control_rune (byte (CHR ''/''))" by code_simp+
  ultimately show ?thesis
    using r has_control_append_ascii[of "CHR ''/''" "GitRepository i" "''info/refs''"]
    by (simp add: validatePolicyPath_def check_simps strings_HasPrefix_def)
qed

interpretation git_exact: exact_rules SemanticGitRule_Validate SemanticGitRule_Matches
  SemanticGitRule_covers host_parts "\<lambda>r. True"
  "\<lambda>n. exemplar_effect n ''GET'' (git_Repository n @ ''/info/refs'') (SemanticGitRule_identity n)"
proof (unfold_locales, goal_cases)
  case (1 a n)
  note n = git.part_authority[OF 1(1,3)]
  have v: "SemanticGitRule_Validate n = None" using git.part_valid[OF 1(1,3)] .
  let ?i = "SemanticGitRule_identity n"
  have i: "PolicyProtocolIdentity_Validate ?i = None" using v by (simp add: SemanticGitRule_Validate_def check_simps)
  have p: "Protocol ?i = ''git''" "Scheme ?i = auth_Scheme n" "GitRepository ?i = git_Repository n"
    by (simp_all add: SemanticGitRule_identity_def)
  have "validateGitModuleIdentity ?i = None"
    using i p by (simp add: validateSemanticModuleIdentity_def check_simps module_fields)
  from git_refs_path[OF this] have t: "validatePolicyPath (git_Repository n @ ''/info/refs'') = None"
    by (simp add: p)
  note ex = exemplar_valid[OF n i p(2) post_method(2) t, of "semanticModules ! 5"]
  show ?case
    using ex v p by (simp add: git.matches_iff module_effects module_ids validateGitModuleEffect_def
        check_simps identity_matches_iff policyProtocolValues_def)
next
  case (2 a n d)
  note n = git.part_authority[OF 2(1,3)]
  have "auth_matches d (exemplar_effect n ''GET'' (git_Repository n @ ''/info/refs'') (SemanticGitRule_identity n))"
    using 2(5) by (simp add: git.matches_iff)
  from exemplar_hosts[OF n(2) this] 2(5) show ?case by (simp add: git.matches_iff git.covers_iff)
qed

section \<open>Exemplary Kubernetes and AWS requests\<close>

lemma length_Join_le: "\<forall>x \<in> set xs. length x \<le> k \<Longrightarrow> length (strings_Join xs [c]) \<le> length xs * (k + 1)"
proof (induction xs)
  case (Cons x xs)
  then show ?case by (cases "xs = []") (auto simp: Join_Cons)
qed simp

lemma has_control_Join_slash:
  "xs \<noteq> [] \<Longrightarrow> has_control (strings_Join xs ''/'') \<longleftrightarrow> (\<exists>x \<in> set xs. has_control x)"
proof (induction xs)
  case (Cons x xs)
  have "\<not> control_rune (byte (CHR ''/''))" by code_simp
  with Cons show ?case
    by (cases "xs = []") (auto simp: Join_Cons has_control_append_ascii)
qed simp

lemma segment_bound: "validKubernetesSegment v e \<Longrightarrow> length v \<le> 253 \<and> \<not> has_control v"
  by (cases "v = []") (auto simp: validKubernetesSegment_def has_control_def runes_def)

lemma kubernetes_path_valid:
  assumes "validateKubernetesModuleIdentity i = None" and "KubernetesKind i = ''resource''"
  shows "validatePolicyPath (kubernetesResourcePath i) = None"
proof -
  define segs where "segs = (if KubernetesGroup i = [] then [''api'', KubernetesVersion i]
         else [''apis'', KubernetesGroup i, KubernetesVersion i])
        @ (if KubernetesNamespace i \<noteq> [] then [''namespaces'', KubernetesNamespace i] else [])
        @ [KubernetesResource i]
        @ (if KubernetesName i \<noteq> [] then [KubernetesName i] else [])
        @ (if KubernetesSubresource i \<noteq> [] then [KubernetesSubresource i] else [])"
  have seg: "\<forall>v \<in> {KubernetesGroup i, KubernetesVersion i, KubernetesResource i, KubernetesNamespace i,
      KubernetesName i, KubernetesSubresource i}. length v \<le> 253 \<and> \<not> has_control v"
    using assms segment_bound by (simp add: validateKubernetesModuleIdentity_def check_simps) blast
  have lit: "\<forall>v \<in> {''api'', ''apis'', ''namespaces''}. length v \<le> 253 \<and> \<not> has_control v" by code_simp
  have ne: "segs \<noteq> []" by (simp add: segs_def)
  have all: "\<forall>v \<in> set segs. length v \<le> 253 \<and> \<not> has_control v"
    using seg lit by (auto simp: segs_def)
  have "length (strings_Join segs ''/'') \<le> length segs * 254"
    using length_Join_le[of segs 253 "CHR ''/''"] all by simp
  moreover have "length segs \<le> 8" by (simp add: segs_def)
  ultimately have "length (strings_Join segs ''/'') \<le> 2032" by linarith
  moreover have "\<not> has_control (strings_Join segs ''/'')"
    using all has_control_Join_slash[of segs] ne by blast
  ultimately show ?thesis
    unfolding validatePolicyPath_def kubernetesResourcePath_def segs_def[symmetric]
    by (simp add: check_simps has_control_slash strings_HasPrefix_def)
qed

lemma nonresource_path_valid:
  "validKubernetesNonResourcePath p \<Longrightarrow> validatePolicyPath p = None"
  by (auto simp: validKubernetesNonResourcePath_def validatePolicyPath_def check_simps Let_def split: if_splits)

definition kubernetes_exemplar :: "SemanticKubernetesRule \<Rightarrow> SemanticRequestEffect" where
  "kubernetes_exemplar n =
     (let i = SemanticKubernetesRule_identity n in
      if KubernetesKind i = ''non_resource'' then exemplar_effect n ''GET'' (KubernetesNonResourcePath i) i
      else exemplar_effect n
             (if KubernetesVerb i = ''connect'' then ''GET'' else kubernetes_verb_method (KubernetesVerb i))
             (kubernetesResourcePath i) i)"

lemma verb_method_valid:
  "validKubernetesVerb v \<Longrightarrow> v \<noteq> ''connect'' \<Longrightarrow> httpMethodPattern (kubernetes_verb_method v)"
  using post_method by (auto simp: validKubernetesVerb_def kubernetes_verb_method_def)

lemma kubernetes_identity_valid:
  assumes "SemanticKubernetesRule_Validate n = None"
  shows "PolicyProtocolIdentity_Validate (SemanticKubernetesRule_identity n) = None"
    and "Protocol (SemanticKubernetesRule_identity n) = ''kubernetes''"
    and "Scheme (SemanticKubernetesRule_identity n) = auth_Scheme n"
  using assms
  by (auto simp: SemanticKubernetesRule_Validate_def SemanticKubernetesRule_identity_def check_simps
      resource_identity_def nonresource_identity_def split: option.splits)

lemma kubernetes_exemplar_eq:
  assumes "validateKubernetesModuleIdentity (SemanticKubernetesRule_identity n) = None"
  obtains m p where "kubernetes_exemplar n = exemplar_effect n m p (SemanticKubernetesRule_identity n)"
    and "httpMethodPattern m" and "validatePolicyPath p = None"
    and "validateKubernetesModuleEffect (exemplar_effect n m p (SemanticKubernetesRule_identity n)) = None"
proof (cases "KubernetesKind (SemanticKubernetesRule_identity n) = ''non_resource''")
  case True
  let ?i = "SemanticKubernetesRule_identity n"
  have "validKubernetesNonResourcePath (KubernetesNonResourcePath ?i)"
    using assms True by (simp add: validateKubernetesModuleIdentity_def check_simps)
  then show ?thesis
    using True by (intro that[of "''GET''" "KubernetesNonResourcePath ?i"])
      (simp_all add: kubernetes_exemplar_def Let_def post_method nonresource_path_valid
        validateKubernetesModuleEffect_def check_simps)
next
  case False
  let ?i = "SemanticKubernetesRule_identity n"
  let ?m = "if KubernetesVerb ?i = ''connect'' then ''GET'' else kubernetes_verb_method (KubernetesVerb ?i)"
  have v: "validKubernetesVerb (KubernetesVerb ?i)" "KubernetesKind ?i = ''resource''"
    using assms False by (auto simp: validateKubernetesModuleIdentity_def check_simps split: if_splits)
  have m: "httpMethodPattern ?m" using v(1) verb_method_valid post_method(2) by simp
  show ?thesis
    by (rule that[of ?m "kubernetesResourcePath ?i", OF _ m kubernetes_path_valid[OF assms v(2)]])
      (use False in \<open>simp_all add: kubernetes_exemplar_def Let_def validateKubernetesModuleEffect_def check_simps\<close>)
qed

interpretation k8s_exact: exact_rules SemanticKubernetesRule_Validate SemanticKubernetesRule_Matches
  SemanticKubernetesRule_covers host_parts "\<lambda>r. True" kubernetes_exemplar
proof (unfold_locales, goal_cases)
  case (1 a n)
  note n = k8s.part_authority[OF 1(1,3)]
  have v: "SemanticKubernetesRule_Validate n = None" using k8s.part_valid[OF 1(1,3)] .
  note i = kubernetes_identity_valid[OF v]
  have "validateKubernetesModuleIdentity (SemanticKubernetesRule_identity n) = None"
    using i by (simp add: validateSemanticModuleIdentity_def check_simps module_fields)
  then obtain m p where e: "kubernetes_exemplar n = exemplar_effect n m p (SemanticKubernetesRule_identity n)"
    and t: "httpMethodPattern m" "validatePolicyPath p = None"
    and w: "validateKubernetesModuleEffect (exemplar_effect n m p (SemanticKubernetesRule_identity n)) = None"
    by (rule kubernetes_exemplar_eq)
  note ex = exemplar_valid[OF n i(1,3) t, of "semanticModules ! 4"]
  show ?case
    unfolding e using ex v i w
    by (simp add: k8s.matches_iff module_effects module_ids identity_matches_iff policyProtocolValues_def)
next
  case (2 a n d)
  note n = k8s.part_authority[OF 2(1,3)]
  have "\<exists>m p. kubernetes_exemplar n = exemplar_effect n m p (SemanticKubernetesRule_identity n)"
    by (auto simp: kubernetes_exemplar_def Let_def)
  then obtain m p where e: "kubernetes_exemplar n = exemplar_effect n m p (SemanticKubernetesRule_identity n)"
    by blast
  have "auth_matches d (exemplar_effect n m p (SemanticKubernetesRule_identity n))"
    using 2(5) by (simp add: k8s.matches_iff e)
  from exemplar_hosts[OF n(2) this] 2(5) show ?case by (simp add: k8s.matches_iff k8s.covers_iff e)
qed

definition aws_identity :: "SemanticAWSRule \<Rightarrow> PolicyProtocolIdentity" where
  "aws_identity n =
     (base_identity (auth_Scheme n) ''aws'')
       \<lparr> AWSWireProtocol := aws_WireProtocol n, AWSService := aws_Service n,
         AWSProtocolVersion := aws_ProtocolVersion n, AWSTargetNamespace := aws_TargetNamespace n,
         AWSOperation := aws_Operation n \<rparr>"

lemma aws_part_shape:
  assumes v: "SemanticAWSRule_Validate a = None" and p: "n \<in> set (aws_parts a)"
  shows "SemanticAWSRule_Validate n = None" and "SemanticRuleAuthority_Validate n = None"
    and "auth_hosts n = [auth_Host n]" and "aws_services n = [aws_Service n]"
    and "aws_Operation n = aws_Operation a"
proof -
  obtain h s where n: "h \<in> set (auth_hosts a)" "s \<in> set (aws_services a)" "n = narrow_service (narrow_host a h) s"
    using p by (auto simp: aws_parts_iff)
  show "SemanticAWSRule_Validate n = None" unfolding n(3) by (rule aws_narrow_valid[OF v n(1,2)])
  then show a: "SemanticRuleAuthority_Validate n = None" by (simp add: SemanticAWSRule_Validate_def check_simps)
  have "SemanticRuleAuthority_Validate a = None" using v by (simp add: SemanticAWSRule_Validate_def check_simps)
  then have "h \<noteq> []" "s \<noteq> []" using n auth_valid_host(2) aws_service_nonempty(1)[OF v] by blast+
  then show "auth_hosts n = [auth_Host n]" "aws_services n = [aws_Service n]" "aws_Operation n = aws_Operation a"
    unfolding n(3) by (simp_all add: narrow_host_def auth_hosts_def)
qed

lemma aws_identity_fields [simp]:
  "Protocol (aws_identity n) = ''aws''" "Scheme (aws_identity n) = auth_Scheme n"
  "AWSWireProtocol (aws_identity n) = aws_WireProtocol n" "AWSService (aws_identity n) = aws_Service n"
  "AWSProtocolVersion (aws_identity n) = aws_ProtocolVersion n"
  "AWSTargetNamespace (aws_identity n) = aws_TargetNamespace n" "AWSOperation (aws_identity n) = aws_Operation n"
  "graphqlFieldsSet (aws_identity n) = False" "mcpFieldsSet (aws_identity n) = False"
  "kubernetesIdentityFieldsSet (aws_identity n) = False" "gitFieldsSet (aws_identity n) = False"
  "ociFieldsSet (aws_identity n) = False"
  by (simp_all add: aws_identity_def base_identity_def fields_set_defs)

lemma aws_identity_valid:
  assumes v: "SemanticAWSRule_Validate n = None" and s: "aws_services n = [aws_Service n]"
    and x: "\<not> strings_HasSuffix (aws_Operation n) ''*''"
  shows "PolicyProtocolIdentity_Validate (aws_identity n) = None"
proof -
  have t: "strings_TrimSuffix (aws_Operation n) ''*'' = aws_Operation n" using x by (simp add: strings_TrimSuffix_def)
  have sch: "auth_Scheme n = ''https''" using v by (simp add: SemanticAWSRule_Validate_def auth_valid_iff check_simps)
  have op: "awsQueryOperationPattern (aws_Operation n)" "awsServicePattern (aws_Service n)"
    using v s by (simp_all add: SemanticAWSRule_Validate_def check_simps t Let_def)
  consider "aws_WireProtocol n = ''query''" | "aws_WireProtocol n = ''json''"
    using v by (auto simp: SemanticAWSRule_Validate_def check_simps Let_def split: if_splits)
  then have "validateAWSModuleIdentity (aws_identity n) = None"
    using v op by cases (simp_all add: SemanticAWSRule_Validate_def validateAWSModuleIdentity_def check_simps t Let_def)
  then show ?thesis using sch by (simp add: validateSemanticModuleIdentity_def check_simps module_fields)
qed

lemma root_path: "validatePolicyPath ''/'' = None" by code_simp

interpretation aws_exact: exact_rules SemanticAWSRule_Validate SemanticAWSRule_Matches SemanticAWSRule_covers
  aws_parts "\<lambda>r. \<not> strings_HasSuffix (aws_Operation r) ''*''"
  "\<lambda>n. exemplar_effect n ''POST'' ''/'' (aws_identity n)"
proof (unfold_locales, goal_cases)
  case (1 a n)
  note n = aws_part_shape[OF 1(1,3)]
  have x: "\<not> strings_HasSuffix (aws_Operation n) ''*''" using 1(2) n(5) by simp
  note i = aws_identity_valid[OF n(1,4) x]
  note ex = exemplar_valid[OF n(2,3) i aws_identity_fields(2) post_method(1) root_path, of "semanticModules ! 3"]
  show ?case
    using ex n x by (simp add: aws_matches_iff module_effects module_ids validateAWSModuleEffect_def check_simps
        operationMatches_def)
next
  case (2 a n d)
  note n = aws_part_shape[OF 2(1,3)]
  have x: "\<not> strings_HasSuffix (aws_Operation n) ''*''" using 2(2) n(5) by simp
  then have t: "strings_TrimSuffix (aws_Operation n) ''*'' = aws_Operation n" by (simp add: strings_TrimSuffix_def)
  have "auth_matches d (exemplar_effect n ''POST'' ''/'' (aws_identity n))" using 2(5) by (simp add: aws_matches_iff)
  from exemplar_hosts[OF n(3) this] 2(5) n(4) show ?case
    by (auto simp: aws_matches_iff SemanticAWSRule_covers_def operationMatches_def t split: if_splits)
qed

end
