(* ===== verification/Semantic_Policy.thy ===== *)
theory Semantic_Policy
  imports Rule_Coverage
begin

text \<open>
  The static policy taxonomy of a Workspace Template (\<open>semantic_policy.go\<close>): the seven module
  policies, their joint validation (endpoint collisions, the Method Boundary), the expansion of
  endpoint declarations and the canonical order used before a revision is derived.
\<close>

section \<open>The taxonomy\<close>

record WorkspaceTemplateSemanticHTTP =
  Generic :: SemanticHTTPPolicy
  GraphQL :: SemanticGraphQLPolicy
  MCP :: SemanticMCPPolicy
  Git :: SemanticGitPolicy
  OCI :: SemanticOCIPolicy

record WorkspaceTemplateSemanticProtocols =
  HTTP :: WorkspaceTemplateSemanticHTTP

record WorkspaceTemplateSemanticProviders =
  AWS :: SemanticAWSPolicy
  Kubernetes :: SemanticKubernetesPolicy

record WorkspaceTemplateSemanticModules =
  Protocols :: WorkspaceTemplateSemanticProtocols
  Providers :: WorkspaceTemplateSemanticProviders

definition EmptyWorkspaceTemplateSemanticModules :: WorkspaceTemplateSemanticModules where
  "EmptyWorkspaceTemplateSemanticModules =
     \<lparr> Protocols = \<lparr> HTTP =
         \<lparr> Generic = \<lparr> Allow = \<lparr> Rules = Some [] \<rparr>, Deny = \<lparr> Rules = Some [] \<rparr> \<rparr>,
           GraphQL = \<lparr> Allow = \<lparr> Rules = Some [] \<rparr>, Deny = \<lparr> Rules = Some [] \<rparr>, Endpoints = Some [] \<rparr>,
           MCP = \<lparr> Allow = \<lparr> Rules = Some [] \<rparr>, Deny = \<lparr> Rules = Some [] \<rparr>, Endpoints = Some [] \<rparr>,
           Git = \<lparr> Allow = \<lparr> Rules = Some [] \<rparr>, Deny = \<lparr> Rules = Some [] \<rparr> \<rparr>,
           OCI = \<lparr> Allow = \<lparr> Rules = Some [] \<rparr>, Deny = \<lparr> Rules = Some [] \<rparr> \<rparr> \<rparr> \<rparr>,
       Providers =
         \<lparr> AWS = \<lparr> Allow = \<lparr> Rules = Some [] \<rparr>, Deny = \<lparr> Rules = Some [] \<rparr> \<rparr>,
           Kubernetes = \<lparr> Allow = \<lparr> Rules = Some [] \<rparr>, Deny = \<lparr> Rules = Some [] \<rparr> \<rparr> \<rparr> \<rparr>"

abbreviation generic_of :: "WorkspaceTemplateSemanticModules \<Rightarrow> SemanticHTTPPolicy" where
  "generic_of m \<equiv> Generic (HTTP (Protocols m))"
abbreviation graphql_of :: "WorkspaceTemplateSemanticModules \<Rightarrow> SemanticGraphQLPolicy" where
  "graphql_of m \<equiv> GraphQL (HTTP (Protocols m))"
abbreviation mcp_of :: "WorkspaceTemplateSemanticModules \<Rightarrow> SemanticMCPPolicy" where
  "mcp_of m \<equiv> MCP (HTTP (Protocols m))"
abbreviation git_of :: "WorkspaceTemplateSemanticModules \<Rightarrow> SemanticGitPolicy" where
  "git_of m \<equiv> Git (HTTP (Protocols m))"
abbreviation oci_of :: "WorkspaceTemplateSemanticModules \<Rightarrow> SemanticOCIPolicy" where
  "oci_of m \<equiv> OCI (HTTP (Protocols m))"
abbreviation aws_of :: "WorkspaceTemplateSemanticModules \<Rightarrow> SemanticAWSPolicy" where
  "aws_of m \<equiv> AWS (Providers m)"
abbreviation kubernetes_of :: "WorkspaceTemplateSemanticModules \<Rightarrow> SemanticKubernetesPolicy" where
  "kubernetes_of m \<equiv> Kubernetes (Providers m)"

section \<open>Endpoint expansion\<close>

record GraphQLEndpoint =
  gep_Scheme :: string
  gep_Host :: string
  gep_Port :: int
  gep_Path :: string

type_synonym MCPEndpoint = GraphQLEndpoint

definition endpoint_check :: "string \<Rightarrow> GraphQLEndpoint \<Rightarrow> check" where
  "endpoint_check kind e =
     first_error
       [reject (gep_Scheme e \<noteq> ''http'' \<and> gep_Scheme e \<noteq> ''https'') (kind @ '' endpoint scheme is invalid''),
        reject (\<not> validNormalizedPolicyHost (gep_Host e)) (kind @ '' endpoint host is invalid''),
        reject (gep_Port e < 1 \<or> 65535 < gep_Port e) (kind @ '' endpoint port is invalid''),
        instead (kind @ '' endpoint path is invalid'') (validateGraphQLEndpointPath (gep_Path e))]"

definition GraphQLEndpoint_Validate :: "GraphQLEndpoint \<Rightarrow> check" where
  "GraphQLEndpoint_Validate e = endpoint_check ''GraphQL'' e"

definition MCPEndpoint_Validate :: "MCPEndpoint \<Rightarrow> check" where
  "MCPEndpoint_Validate e = endpoint_check ''MCP'' e"

definition GraphQLEndpoint_Matches :: "GraphQLEndpoint \<Rightarrow> string \<Rightarrow> string \<Rightarrow> int \<Rightarrow> string \<Rightarrow> bool" where
  "GraphQLEndpoint_Matches e scheme host port path =
     (gep_Scheme e = scheme \<and> gep_Host e = host \<and> gep_Port e = port \<and> gep_Path e = path)"

text \<open>
  The comparison of the code leaves out the port, so endpoints that differ in the port only are
  equal for it; they keep their order here.
\<close>

definition expanded_key :: "GraphQLEndpoint \<Rightarrow> string" where
  "expanded_key e = gep_Scheme e @ [NUL] @ gep_Host e @ [NUL] @ gep_Path e"

definition expandSemanticEndpoints :: "SemanticHTTPEndpoint list \<Rightarrow> GraphQLEndpoint list" where
  "expandSemanticEndpoints source =
     sort_key expanded_key
       (concat (map (\<lambda>e. map (\<lambda>host. \<lparr> gep_Scheme = auth_Scheme e, gep_Host = host, gep_Port = auth_Port e,
                                          gep_Path = ep_Path e \<rparr>) (auth_hosts e)) source))"

definition GraphQLEndpoints :: "WorkspaceTemplateSemanticModules \<Rightarrow> GraphQLEndpoint list" where
  "GraphQLEndpoints m = expandSemanticEndpoints (elems (Endpoints (graphql_of m)))"

definition MCPEndpoints :: "WorkspaceTemplateSemanticModules \<Rightarrow> MCPEndpoint list" where
  "MCPEndpoints m = expandSemanticEndpoints (elems (Endpoints (mcp_of m)))"

section \<open>Joint validation\<close>

definition semanticEndpointSetsCollide :: "SemanticHTTPEndpoint list \<Rightarrow> SemanticHTTPEndpoint list \<Rightarrow> bool" where
  "semanticEndpointSetsCollide left right =
     list_ex (\<lambda>a. list_ex (\<lambda>b.
       \<not> (auth_Scheme a \<noteq> auth_Scheme b \<or> auth_Port a \<noteq> auth_Port b \<or> ep_Path a \<noteq> ep_Path b)
       \<and> list_ex (\<lambda>host. host \<in> set (auth_hosts a)) (auth_hosts b)) right) left"

definition semanticKubernetesMethods :: "PolicyProtocolIdentity \<Rightarrow> string list" where
  "semanticKubernetesMethods i =
     (if KubernetesKind i = ''non_resource'' then [''GET'']
      else if KubernetesVerb i = ''connect'' then [''GET'', ''POST'']
      else let method = kubernetes_verb_method (KubernetesVerb i) in
        if method = [] then [] else [method])"

definition semanticOCIMethods :: "SemanticOCIRule \<Rightarrow> string list" where
  "semanticOCIMethods r =
     (let a = oci_Action r in
      if a = ''list'' \<or> a = ''upload_status'' then [''GET'']
      else if a = ''pull'' then
        (if strings_HasPrefix (oci_Object r) ''referrers:'' then [''GET''] else [''GET'', ''HEAD''])
      else if a = ''push'' then [''PUT'']
      else if a = ''complete_upload'' then
        (if strings_HasPrefix (oci_Object r) ''upload:'' then [''PUT''] else [''POST''])
      else if a = ''delete'' \<or> a = ''cancel_upload'' then [''DELETE'']
      else if a = ''start_upload'' \<or> a = ''mount'' then [''POST'']
      else if a = ''upload_chunk'' then [''PATCH'']
      else [])"

definition allDenied :: "string list \<Rightarrow> string list \<Rightarrow> bool" where
  "allDenied denied methods = (methods \<noteq> [] \<and> list_all (\<lambda>m. m \<in> set denied) methods)"

definition semanticAllowsFullyMethodDenied :: "WorkspaceTemplateSemanticModules \<Rightarrow> string list \<Rightarrow> bool" where
  "semanticAllowsFullyMethodDenied m denied =
     (list_ex (\<lambda>r. allDenied denied [http_Method r]) (elems (Rules (Allow (generic_of m))))
      \<or> elems (Rules (Allow (graphql_of m))) \<noteq> [] \<and> allDenied denied [''POST'']
      \<or> elems (Rules (Allow (mcp_of m))) \<noteq> [] \<and> allDenied denied [''POST'']
      \<or> elems (Rules (Allow (aws_of m))) \<noteq> [] \<and> allDenied denied [''POST'']
      \<or> elems (Rules (Allow (git_of m))) \<noteq> [] \<and> allDenied denied [''GET'', ''POST'']
      \<or> list_ex (\<lambda>r. allDenied denied (semanticOCIMethods r)) (elems (Rules (Allow (oci_of m))))
      \<or> list_ex (\<lambda>r. allDenied denied (semanticKubernetesMethods (SemanticKubernetesRule_identity r)))
          (elems (Rules (Allow (kubernetes_of m)))))"

definition WorkspaceTemplateSemanticModules_Validate ::
    "WorkspaceTemplateSemanticModules \<Rightarrow> string list \<Rightarrow> check" where
  "WorkspaceTemplateSemanticModules_Validate m deniedMethods =
     first_error
       [wrap ''generic HTTP policy'' (SemanticHTTPPolicy_Validate (generic_of m)),
        wrap ''GraphQL policy'' (SemanticGraphQLPolicy_Validate (graphql_of m)),
        wrap ''MCP policy'' (SemanticMCPPolicy_Validate (mcp_of m)),
        wrap ''Git policy'' (SemanticGitPolicy_Validate (git_of m)),
        wrap ''OCI policy'' (SemanticOCIPolicy_Validate (oci_of m)),
        wrap ''AWS policy'' (SemanticAWSPolicy_Validate (aws_of m)),
        wrap ''Kubernetes policy'' (SemanticKubernetesPolicy_Validate (kubernetes_of m)),
        reject (semanticEndpointSetsCollide (elems (Endpoints (graphql_of m))) (elems (Endpoints (mcp_of m))))
          ''GraphQL and MCP endpoint declarations collide'',
        reject (semanticAllowsFullyMethodDenied m deniedMethods)
          ''semantic Allow is fully shadowed by the Method Boundary'']"

section \<open>Clone and Normalize\<close>

definition cloneAuthority :: "bool \<Rightarrow> 'a SemanticRuleAuthority_scheme \<Rightarrow> 'a SemanticRuleAuthority_scheme" where
  "cloneAuthority order a =
     a\<lparr> auth_Hosts := map_option (\<lambda>hs. if order then sort hs else hs) (auth_Hosts a) \<rparr>"

text \<open>
  A clone is never \<open>nil\<close>: \<open>append([]T{}, source...)\<close>. Rules with equal keys may come in any order
  from \<open>sort.Slice\<close>; in a validated policy the keys are distinct.
\<close>

definition clone_rules :: "('r \<Rightarrow> 'r) \<Rightarrow> ('r \<Rightarrow> string) \<Rightarrow> bool \<Rightarrow> 'r list option \<Rightarrow> 'r list option" where
  "clone_rules norm key order source =
     Some (let result = map norm (elems source) in if order then sort_key key result else result)"

definition cloneEndpoints :: "bool \<Rightarrow> SemanticHTTPEndpoint list option \<Rightarrow> SemanticHTTPEndpoint list option" where
  "cloneEndpoints order source = clone_rules (cloneAuthority order) SemanticHTTPEndpoint_canonicalKey order source"

definition cloneHTTPRules :: "bool \<Rightarrow> SemanticHTTPRule list option \<Rightarrow> SemanticHTTPRule list option" where
  "cloneHTTPRules order source = clone_rules (cloneAuthority order) SemanticHTTPRule_canonicalKey order source"

definition cloneGraphQLRules :: "bool \<Rightarrow> SemanticGraphQLRule list option \<Rightarrow> SemanticGraphQLRule list option" where
  "cloneGraphQLRules order source =
     clone_rules (cloneAuthority order) SemanticGraphQLRule_canonicalKey order source"

definition cloneMCPRules :: "bool \<Rightarrow> SemanticMCPRule list option \<Rightarrow> SemanticMCPRule list option" where
  "cloneMCPRules order source = clone_rules (cloneAuthority order) SemanticMCPRule_canonicalKey order source"

definition cloneGitRules :: "bool \<Rightarrow> SemanticGitRule list option \<Rightarrow> SemanticGitRule list option" where
  "cloneGitRules order source = clone_rules (cloneAuthority order) SemanticGitRule_canonicalKey order source"

definition cloneOCIRules :: "bool \<Rightarrow> SemanticOCIRule list option \<Rightarrow> SemanticOCIRule list option" where
  "cloneOCIRules order source = clone_rules (cloneAuthority order) SemanticOCIRule_canonicalKey order source"

definition cloneAWSRule :: "bool \<Rightarrow> SemanticAWSRule \<Rightarrow> SemanticAWSRule" where
  "cloneAWSRule order r =
     (cloneAuthority order r)
       \<lparr> aws_Services := map_option (\<lambda>ss. if order then sort ss else ss) (aws_Services r) \<rparr>"

definition cloneAWSRules :: "bool \<Rightarrow> SemanticAWSRule list option \<Rightarrow> SemanticAWSRule list option" where
  "cloneAWSRules order source = clone_rules (cloneAWSRule order) SemanticAWSRule_canonicalKey order source"

text \<open>The copied \<open>Resource\<close> and \<open>NonResource\<close> values are equal to the originals.\<close>

definition cloneKubernetesRules ::
    "bool \<Rightarrow> SemanticKubernetesRule list option \<Rightarrow> SemanticKubernetesRule list option" where
  "cloneKubernetesRules order source =
     clone_rules (cloneAuthority order) SemanticKubernetesRule_canonicalKey order source"

definition clone_policy :: "('r list option \<Rightarrow> 'r list option) \<Rightarrow> ('r, 'z) SemanticPolicy_scheme \<Rightarrow>
    ('r, 'z) SemanticPolicy_scheme" where
  "clone_policy cl p = p\<lparr> Allow := \<lparr> Rules = cl (Rules (Allow p)) \<rparr>, Deny := \<lparr> Rules = cl (Rules (Deny p)) \<rparr> \<rparr>"

definition normalized :: "bool \<Rightarrow> WorkspaceTemplateSemanticModules \<Rightarrow> WorkspaceTemplateSemanticModules" where
  "normalized order m =
     \<lparr> Protocols = \<lparr> HTTP =
         \<lparr> Generic = clone_policy (cloneHTTPRules order) (generic_of m),
           GraphQL = (clone_policy (cloneGraphQLRules order) (graphql_of m))
             \<lparr> Endpoints := cloneEndpoints order (Endpoints (graphql_of m)) \<rparr>,
           MCP = (clone_policy (cloneMCPRules order) (mcp_of m))
             \<lparr> Endpoints := cloneEndpoints order (Endpoints (mcp_of m)) \<rparr>,
           Git = clone_policy (cloneGitRules order) (git_of m),
           OCI = clone_policy (cloneOCIRules order) (oci_of m) \<rparr> \<rparr>,
       Providers =
         \<lparr> AWS = clone_policy (cloneAWSRules order) (aws_of m),
           Kubernetes = clone_policy (cloneKubernetesRules order) (kubernetes_of m) \<rparr> \<rparr>"

definition Clone :: "WorkspaceTemplateSemanticModules \<Rightarrow> WorkspaceTemplateSemanticModules" where
  "Clone m = normalized False m"

definition Normalize :: "WorkspaceTemplateSemanticModules \<Rightarrow> WorkspaceTemplateSemanticModules" where
  "Normalize m = normalized True m"

definition FinalSemanticModules ::
    "WorkspaceTemplateSemanticModules option \<Rightarrow> WorkspaceTemplateSemanticModules option" where
  "FinalSemanticModules body = map_option Normalize body"

end
