(* ===== verification/Policy_Normal_Form.thy ===== *)
theory Policy_Normal_Form
  imports Semantic_Policy
begin

text \<open>
  \<open>Normalize\<close> is a canonical form. The canonical key of a validated rule determines the rule up to
  the order of its hosts (and services), so two validated policies normalize to the same value
  exactly when they declare the same keys. The locale \<open>canonical_rules\<close> states what a rule type
  owes to the normal form, \<open>normal_policy\<close> adds what keeps the shadowing check.
\<close>

section \<open>Joined fields\<close>

lemma append_sep_inject:
  assumes "x @ c # r = y @ c # s" and "c \<notin> set x" and "c \<notin> set y"
  shows "x = y \<and> r = s"
proof -
  have "takeWhile (\<lambda>a. a \<noteq> c) (x @ c # r) = x" "takeWhile (\<lambda>a. a \<noteq> c) (y @ c # s) = y"
    using assms(2,3) by (auto simp: takeWhile_append)
  with assms(1) show ?thesis by simp
qed

lemma Join_inject_last:
  assumes "length xs = length ys" and "strings_Join (xs @ [a]) [c] = strings_Join (ys @ [b]) [c]"
    and "\<forall>x \<in> set xs. c \<notin> set x" and "\<forall>y \<in> set ys. c \<notin> set y"
  shows "xs = ys \<and> a = b"
  using assms
proof (induction xs ys rule: list_induct2)
  case (Cons x xs y ys)
  from Cons.prems have "x @ c # strings_Join (xs @ [a]) [c] = y @ c # strings_Join (ys @ [b]) [c]"
    by (simp add: Join_Cons)
  with append_sep_inject[OF this] Cons show ?case by auto
qed simp

lemma Join_nested: "xs \<noteq> [] \<Longrightarrow> strings_Join (strings_Join xs sep # ys) sep = strings_Join (xs @ ys) sep"
proof (induction xs)
  case (Cons x xs)
  show ?case
  proof (cases "xs = []")
    case False
    then have "strings_Join (x # xs) sep = x @ sep @ strings_Join xs sep" by (simp add: Join_Cons)
    with Cons False show ?thesis by (cases "ys = []") (auto simp: Join_Cons)
  qed simp
qed simp

lemma sort_sort: "sort (sort xs) = sort xs"
  by (simp add: sort_key_id)

section \<open>Authorities\<close>

lemma cloneAuthority_simps [simp]:
  "auth_Scheme (cloneAuthority b a) = auth_Scheme a" "auth_Port (cloneAuthority b a) = auth_Port a"
  "auth_Host (cloneAuthority b a) = auth_Host a"
  "auth_Hosts (cloneAuthority b a) = map_option (\<lambda>hs. if b then sort hs else hs) (auth_Hosts a)"
  "SemanticRuleAuthority.more (cloneAuthority b a) = SemanticRuleAuthority.more a"
  by (simp_all add: cloneAuthority_def)

lemma hosts_clone:
  "set (auth_hosts (cloneAuthority b a)) = set (auth_hosts a)"
  "length (auth_hosts (cloneAuthority b a)) = length (auth_hosts a)"
  "distinct (auth_hosts (cloneAuthority b a)) \<longleftrightarrow> distinct (auth_hosts a)"
  "sort (auth_hosts (cloneAuthority b a)) = sort (auth_hosts a)"
  by (auto simp: auth_hosts_def elems_def sort_sort split: option.splits)

lemma clone_valid: "SemanticRuleAuthority_Validate (cloneAuthority b a) = None \<longleftrightarrow> SemanticRuleAuthority_Validate a = None"
  by (cases "auth_Hosts a") (auto simp: auth_valid_iff hosts_clone)

lemma clone_clone: "cloneAuthority b (cloneAuthority b a) = cloneAuthority b a"
  by (cases "auth_Hosts a") (simp_all add: cloneAuthority_def sort_sort)

lemma clone_False: "cloneAuthority False a = a"
  by (simp add: cloneAuthority_def option.map_ident)

lemma clone_matches [simp]: "auth_matches (cloneAuthority b a) e = auth_matches a e"
  by (simp add: auth_matches_iff hosts_clone)

lemma clone_covered [simp]:
  "hosts_covered (cloneAuthority b r) s = hosts_covered r s" "hosts_covered r (cloneAuthority b s) = hosts_covered r s"
  by (simp_all add: hosts_covered_iff hosts_clone)

lemma clone_narrow [simp]: "narrow_host (cloneAuthority b a) h = narrow_host a h"
  by (simp add: narrow_host_def cloneAuthority_def)

lemma clone_parts: "set (host_parts (cloneAuthority b a)) = set (host_parts a)"
  by (auto simp: set_host_parts hosts_clone)

lemma clone_key [simp]: "auth_canonicalKey (cloneAuthority b a) = auth_canonicalKey a"
  by (simp add: auth_canonicalKey_def hosts_clone)

text \<open>Equal sorted hosts of validated authorities come from the same form, \<open>host\<close> or \<open>hosts\<close>.\<close>

lemma clone_authority_eq:
  assumes a: "SemanticRuleAuthority_Validate a = None" and b: "SemanticRuleAuthority_Validate b = None"
    and eq: "sort (auth_hosts a) = sort (auth_hosts b)"
  shows "auth_Host (cloneAuthority True a) = auth_Host (cloneAuthority True b)"
    and "auth_Hosts (cloneAuthority True a) = auth_Hosts (cloneAuthority True b)"
proof -
  have len: "length (auth_hosts a) = length (auth_hosts b)" using eq by (metis length_sort)
  note va = a[unfolded auth_valid_iff] and vb = b[unfolded auth_valid_iff]
  have form: "auth_Host a \<noteq> [] \<longleftrightarrow> auth_Host b \<noteq> []"
    using va vb len by (auto simp: auth_hosts_def)
  show "auth_Host (cloneAuthority True a) = auth_Host (cloneAuthority True b)"
    using va vb form eq by (auto simp: auth_hosts_def)
  show "auth_Hosts (cloneAuthority True a) = auth_Hosts (cloneAuthority True b)"
    using va vb form eq by (auto simp: auth_hosts_def)
qed

lemma port_free: "NUL \<notin> set (strconv_Itoa i)"
  using printable_NUL[OF Itoa_printable[of i]] .

text \<open>
  The common part of every key: scheme, sorted hosts, port, further fields free of the separator and
  one last field.
\<close>

definition rule_key :: "'a SemanticRuleAuthority_scheme \<Rightarrow> string list \<Rightarrow> string \<Rightarrow> string" where
  "rule_key a fs z =
     strings_Join ([auth_Scheme a, strings_Join (sort (auth_hosts a)) [US], strconv_Itoa (auth_Port a)]
       @ fs @ [z]) [NUL]"

lemma rule_key_inject:
  assumes a: "SemanticRuleAuthority_Validate a = None" and b: "SemanticRuleAuthority_Validate b = None"
    and fs: "\<forall>x \<in> set fs. NUL \<notin> set x" and gs: "\<forall>x \<in> set gs. NUL \<notin> set x" and len: "length fs = length gs"
    and eq: "rule_key a fs y = rule_key b gs z"
  shows "auth_Port a = auth_Port b" and "fs = gs" and "y = z"
    and "auth_Host (cloneAuthority True a) = auth_Host (cloneAuthority True b)"
    and "auth_Hosts (cloneAuthority True a) = auth_Hosts (cloneAuthority True b)"
    and "auth_Scheme a = auth_Scheme b"
proof -
  let ?pre = "\<lambda>a fs. [auth_Scheme a, strings_Join (sort (auth_hosts a)) [US], strconv_Itoa (auth_Port a)] @ fs"
  have https: "auth_Scheme a = ''https''" "auth_Scheme b = ''https''"
    using a b by (auto simp: auth_valid_iff)
  then show "auth_Scheme a = auth_Scheme b" by simp
  have free: "\<forall>x \<in> set (?pre a fs). NUL \<notin> set x" "\<forall>x \<in> set (?pre b gs). NUL \<notin> set x"
    using fs gs https hosts_join_free[OF a] hosts_join_free[OF b] port_free printable_NUL[OF https_printable]
    by (auto simp del: set_simps simp: list.set)
  have "?pre a fs = ?pre b gs \<and> y = z"
    by (rule Join_inject_last[OF _ _ free]) (use len eq in \<open>simp_all add: rule_key_def\<close>)
  then have "strings_Join (sort (auth_hosts a)) [US] = strings_Join (sort (auth_hosts b)) [US]"
    "strconv_Itoa (auth_Port a) = strconv_Itoa (auth_Port b)" and fg: "fs = gs" "y = z" by simp_all
  with hosts_join_inject[OF a b] Itoa_inject
  have h: "sort (auth_hosts a) = sort (auth_hosts b)" and p: "auth_Port a = auth_Port b" by blast+
  show "auth_Port a = auth_Port b" by (rule p)
  show "fs = gs" by (rule fg(1))
  show "y = z" by (rule fg(2))
  show "auth_Host (cloneAuthority True a) = auth_Host (cloneAuthority True b)"
    "auth_Hosts (cloneAuthority True a) = auth_Hosts (cloneAuthority True b)"
    using clone_authority_eq[OF a b h] by auto
qed

lemma key_determines_rule:
  fixes a b :: "'a SemanticRuleAuthority_scheme"
  assumes "SemanticRuleAuthority_Validate a = None" and "SemanticRuleAuthority_Validate b = None"
    and "rule_key a fs y = rule_key b gs z"
    and "\<forall>x \<in> set fs. NUL \<notin> set x" and "\<forall>x \<in> set gs. NUL \<notin> set x" and "length fs = length gs"
    and rest: "fs = gs \<Longrightarrow> y = z \<Longrightarrow> auth_Scheme a = auth_Scheme b \<Longrightarrow>
      SemanticRuleAuthority.more a = SemanticRuleAuthority.more b"
  shows "cloneAuthority True a = cloneAuthority True b"
proof -
  note k = rule_key_inject[OF assms(1,2,4,5,6,3)]
  from rest[OF k(2,3,6)] k show ?thesis by (cases a; cases b) (simp add: cloneAuthority_def)
qed

section \<open>What a rule type owes to the normal form\<close>

text \<open>The ordered clone of a rule collection.\<close>

definition normal_list :: "('r \<Rightarrow> 'r) \<Rightarrow> ('r \<Rightarrow> string) \<Rightarrow> 'r list option \<Rightarrow> 'r list" where
  "normal_list norm key rs = sort_key key (map norm (elems rs))"

lemma clone_rules_True: "clone_rules norm key True rs = Some (normal_list norm key rs)"
  by (simp add: clone_rules_def normal_list_def)

locale canonical_rules =
  fixes validate :: "'r \<Rightarrow> check" and key :: "'r \<Rightarrow> string" and norm :: "'r \<Rightarrow> 'r"
  assumes norm_key: "key (norm r) = key r"
    and norm_norm: "norm (norm r) = norm r"
    and norm_valid: "validate (norm r) = None \<longleftrightarrow> validate r = None"
    and key_inject: "validate r = None \<Longrightarrow> validate s = None \<Longrightarrow> key r = key s \<Longrightarrow> norm r = norm s"
begin

lemma normal_list_set: "set (normal_list norm key rs) = norm ` set (elems rs)"
  by (simp add: normal_list_def)

lemma normal_list_keys: "key ` set (normal_list norm key rs) = key ` set (elems rs)"
  by (simp add: normal_list_set image_image norm_key)

lemma normal_list_idem: "normal_list norm key (Some (normal_list norm key rs)) = normal_list norm key rs"
proof -
  have "map norm (normal_list norm key rs) = normal_list norm key rs"
    by (rule map_idI) (auto simp: normal_list_set norm_norm)
  then have "normal_list norm key (Some (normal_list norm key rs)) = sort_key key (normal_list norm key rs)"
    by (simp add: normal_list_def)
  also have "\<dots> = normal_list norm key rs" by (rule sort_key_id) (simp add: normal_list_def)
  finally show ?thesis .
qed

lemma distinct_keys: "distinct (map key (normal_list norm key rs)) \<longleftrightarrow> distinct (map key (elems rs))"
proof -
  have "mset (map key (normal_list norm key rs)) = mset (map key (elems rs))"
    by (simp add: normal_list_def norm_key multiset.map_comp comp_def)
  then show ?thesis by (rule mset_eq_imp_distinct_iff)
qed

lemma ruleset_ok:
  "ruleset_validate validate key kind s = None \<longleftrightarrow>
     Rules s \<noteq> None \<and> (\<forall>r \<in> set (elems (Rules s)). validate r = None) \<and> distinct (map key (elems (Rules s)))"
  by (auto simp: ruleset_validate_def check_simps split: option.splits)

lemma normal_list_valid:
  "ruleset_validate validate key kind s = None \<Longrightarrow>
   ruleset_validate validate key kind \<lparr> Rules = Some (normal_list norm key (Rules s)) \<rparr> = None"
  by (auto simp: ruleset_ok normal_list_set norm_valid distinct_keys)

text \<open>Validated collections have the same normal form exactly when they declare the same keys.\<close>

lemma normal_list_canonical:
  assumes r: "\<forall>r \<in> set (elems rs). validate r = None" "distinct (map key (elems rs))"
    and s: "\<forall>r \<in> set (elems ss). validate r = None" "distinct (map key (elems ss))"
  shows "normal_list norm key rs = normal_list norm key ss \<longleftrightarrow> key ` set (elems rs) = key ` set (elems ss)"
proof
  assume "normal_list norm key rs = normal_list norm key ss"
  then show "key ` set (elems rs) = key ` set (elems ss)" using normal_list_keys by metis
next
  assume eq: "key ` set (elems rs) = key ` set (elems ss)"
  have sub: "norm ` set (elems xs) \<subseteq> norm ` set (elems ys)"
    if "key ` set (elems xs) \<subseteq> key ` set (elems ys)" "\<forall>x \<in> set (elems xs). validate x = None"
      "\<forall>y \<in> set (elems ys). validate y = None" for xs ys
  proof
    fix n assume "n \<in> norm ` set (elems xs)"
    then obtain x where x: "x \<in> set (elems xs)" "n = norm x" by blast
    with that(1) obtain y where "y \<in> set (elems ys)" "key y = key x" by (metis (no_types, lifting) imageE imageI subset_iff)
    with x that(2,3) key_inject[of x y] show "n \<in> norm ` set (elems ys)" by auto
  qed
  have "norm ` set (elems rs) = norm ` set (elems ss)"
    using sub[of rs ss] sub[of ss rs] eq r s by blast
  then have set: "set (normal_list norm key rs) = set (normal_list norm key ss)" by (simp add: normal_list_set)
  have d: "distinct (map key (normal_list norm key rs))" "distinct (map key (normal_list norm key ss))"
    using r s distinct_keys by blast+
  have "mset (normal_list norm key rs) = mset (normal_list norm key ss)"
    using d set by (simp add: set_eq_iff_mset_eq_distinct distinct_map)
  moreover have "inj_on key (set (normal_list norm key rs))" using d(1) by (simp add: distinct_map)
  ultimately have "sort_key key (normal_list norm key rs) = sort_key key (normal_list norm key ss)" by (rule sort_key_perm)
  then show "normal_list norm key rs = normal_list norm key ss"
    by (simp add: sort_key_id normal_list_def)
qed

end

text \<open>Rules whose parts, coverage and matching do not see the order of hosts.\<close>

locale normal_policy = canonical_rules validate key norm
  for validate :: "'r \<Rightarrow> check" and key :: "'r \<Rightarrow> string" and norm :: "'r \<Rightarrow> 'r" +
  fixes matches :: "'r \<Rightarrow> SemanticRequestEffect \<Rightarrow> bool" and covers :: "'r \<Rightarrow> 'r \<Rightarrow> bool"
    and parts :: "'r \<Rightarrow> 'r list"
  assumes norm_matches: "matches (norm r) e \<longleftrightarrow> matches r e"
    and norm_covers: "covers (norm d) n \<longleftrightarrow> covers d n"
    and norm_parts: "set (parts (norm r)) = set (parts r)"
begin

lemma normal_shadow:
  "shadow_check kind covers parts (normal_list norm key ds) (normal_list norm key as) = None \<longleftrightarrow>
   shadow_check kind covers parts (elems ds) (elems as) = None"
  by (simp add: shadow_check_def check_simps fully_shadowed_def list_all_iff list_ex_iff normal_list_set
      norm_covers norm_parts)

lemma normal_matches: "(\<exists>r \<in> set (normal_list norm key rs). matches r e) \<longleftrightarrow> (\<exists>r \<in> set (elems rs). matches r e)"
  by (simp add: normal_list_set norm_matches)

end

section \<open>The interpretations\<close>

lemma http_key: "SemanticHTTPRule_canonicalKey r = rule_key r [http_Method r] (http_Path r)"
  using Join_nested[of "[auth_Scheme r, strings_Join (sort (auth_hosts r)) [US], strconv_Itoa (auth_Port r)]" "[NUL]"]
  by (simp add: SemanticHTTPRule_canonicalKey_def auth_canonicalKey_def rule_key_def)

lemma gql_key: "SemanticGraphQLRule_canonicalKey r = rule_key r [gql_Path r, gql_OperationType r] (gql_RootField r)"
  using Join_nested[of "[auth_Scheme r, strings_Join (sort (auth_hosts r)) [US], strconv_Itoa (auth_Port r)]" "[NUL]"]
  by (simp add: SemanticGraphQLRule_canonicalKey_def auth_canonicalKey_def rule_key_def)

lemma mcp_key: "SemanticMCPRule_canonicalKey r = rule_key r [mcp_Path r, mcp_Method r] (mcp_ToolName r)"
  using Join_nested[of "[auth_Scheme r, strings_Join (sort (auth_hosts r)) [US], strconv_Itoa (auth_Port r)]" "[NUL]"]
  by (simp add: SemanticMCPRule_canonicalKey_def auth_canonicalKey_def rule_key_def)

lemma endpoint_key: "SemanticHTTPEndpoint_canonicalKey r = rule_key r [] (ep_Path r)"
  by (simp add: SemanticHTTPEndpoint_canonicalKey_def auth_canonicalKey_def rule_key_def)

lemma git_key: "SemanticGitRule_canonicalKey r = rule_key r [git_Service r] (git_Repository r)"
  by (simp add: SemanticGitRule_canonicalKey_def rule_key_def)

lemma oci_key: "SemanticOCIRule_canonicalKey r = rule_key r [oci_Action r, oci_Repository r] (oci_Object r)"
  by (simp add: SemanticOCIRule_canonicalKey_def rule_key_def)

lemma aws_key:
  "SemanticAWSRule_canonicalKey r =
     rule_key r [aws_WireProtocol r, strings_Join (sort (aws_services r)) [US], aws_ProtocolVersion r,
       aws_TargetNamespace r] (aws_Operation r)"
  by (simp add: SemanticAWSRule_canonicalKey_def rule_key_def)

lemma clone_rule_key: "rule_key (cloneAuthority b a) fs z = rule_key a fs z"
  by (simp add: rule_key_def hosts_clone)

lemma clone_rule_fields [simp]:
  "http_Method (cloneAuthority b r1) = http_Method r1" "http_Path (cloneAuthority b r1) = http_Path r1"
  "gql_Path (cloneAuthority b r2) = gql_Path r2" "gql_OperationType (cloneAuthority b r2) = gql_OperationType r2"
  "gql_RootField (cloneAuthority b r2) = gql_RootField r2" "gql_identity (cloneAuthority b r2) = gql_identity r2"
  "mcp_Path (cloneAuthority b r3) = mcp_Path r3" "mcp_Method (cloneAuthority b r3) = mcp_Method r3"
  "mcp_ToolName (cloneAuthority b r3) = mcp_ToolName r3" "mcp_identity (cloneAuthority b r3) = mcp_identity r3"
  "git_Service (cloneAuthority b r4) = git_Service r4" "git_Repository (cloneAuthority b r4) = git_Repository r4"
  "SemanticGitRule_identity (cloneAuthority b r4) = SemanticGitRule_identity r4"
  "oci_Action (cloneAuthority b r5) = oci_Action r5" "oci_Repository (cloneAuthority b r5) = oci_Repository r5"
  "oci_Object (cloneAuthority b r5) = oci_Object r5"
  "SemanticOCIRule_identity (cloneAuthority b r5) = SemanticOCIRule_identity r5"
  "k8s_Resource (cloneAuthority b r6) = k8s_Resource r6" "k8s_NonResource (cloneAuthority b r6) = k8s_NonResource r6"
  "ep_Path (cloneAuthority b r7) = ep_Path r7"
  by (simp_all add: cloneAuthority_def gql_identity_def mcp_identity_def SemanticGitRule_identity_def
      SemanticOCIRule_identity_def)

lemma clone_k8s_identity [simp]:
  "SemanticKubernetesRule_identity (cloneAuthority b r) = SemanticKubernetesRule_identity r"
  by (simp add: SemanticKubernetesRule_identity_def split: option.split)

text \<open>Validation does not see the order of the hosts.\<close>

lemma clone_rule_valid:
  "SemanticHTTPRule_Validate (cloneAuthority b r1) = None \<longleftrightarrow> SemanticHTTPRule_Validate r1 = None"
  "SemanticGraphQLRule_Validate (cloneAuthority b r2) = None \<longleftrightarrow> SemanticGraphQLRule_Validate r2 = None"
  "SemanticMCPRule_Validate (cloneAuthority b r3) = None \<longleftrightarrow> SemanticMCPRule_Validate r3 = None"
  "SemanticGitRule_Validate (cloneAuthority b r4) = None \<longleftrightarrow> SemanticGitRule_Validate r4 = None"
  "SemanticOCIRule_Validate (cloneAuthority b r5) = None \<longleftrightarrow> SemanticOCIRule_Validate r5 = None"
  "SemanticHTTPEndpoint_Validate (cloneAuthority b r7) = None \<longleftrightarrow> SemanticHTTPEndpoint_Validate r7 = None"
  unfolding SemanticHTTPRule_Validate_def SemanticGraphQLRule_Validate_def SemanticMCPRule_Validate_def
    SemanticGitRule_Validate_def SemanticOCIRule_Validate_def SemanticHTTPEndpoint_Validate_def
    first_error_None clone_valid clone_rule_fields
  by (rule refl)+

lemma clone_kubernetes_valid:
  "SemanticKubernetesRule_Validate (cloneAuthority b r) = None \<longleftrightarrow> SemanticKubernetesRule_Validate r = None"
  unfolding SemanticKubernetesRule_Validate_def first_error_None clone_valid clone_rule_fields
    cloneAuthority_simps(1,2) check_each_None hosts_clone by (rule refl)

text \<open>The fields a key is made of are free of its separator, the last one apart.\<close>

lemma key_fields_free:
  "SemanticHTTPRule_Validate r1 = None \<Longrightarrow> NUL \<notin> set (http_Method r1)"
  "SemanticGraphQLRule_Validate r2 = None \<Longrightarrow> NUL \<notin> set (gql_Path r2)"
  "SemanticMCPRule_Validate r3 = None \<Longrightarrow> NUL \<notin> set (mcp_Path r3)"
  unfolding SemanticHTTPRule_Validate_def SemanticGraphQLRule_Validate_def SemanticMCPRule_Validate_def
    first_error_None reject_None instead_None
  using printable_NUL[OF httpMethod_printable] printable_NUL[OF path_printable[OF endpoint_path_valid]]
  by blast+

lemma material_free:
  "PolicyProtocolIdentity_Validate i = None \<Longrightarrow> x \<in> set (identity_material i) \<Longrightarrow> NUL \<notin> set x"
  using printable_NUL[OF material_printable] .

lemma key_identity_free:
  "SemanticGraphQLRule_Validate r2 = None \<Longrightarrow> NUL \<notin> set (gql_OperationType r2)"
  "SemanticMCPRule_Validate r3 = None \<Longrightarrow> NUL \<notin> set (mcp_Method r3)"
  "SemanticGitRule_Validate r4 = None \<Longrightarrow> NUL \<notin> set (git_Service r4)"
  "SemanticOCIRule_Validate r5 = None \<Longrightarrow> NUL \<notin> set (oci_Action r5) \<and> NUL \<notin> set (oci_Repository r5)"
  using material_free[of "gql_identity r2"] material_free[of "mcp_identity r3"]
    material_free[of "SemanticGitRule_identity r4"] material_free[of "SemanticOCIRule_identity r5"]
  by (simp_all add: SemanticGraphQLRule_Validate_def SemanticMCPRule_Validate_def SemanticGitRule_Validate_def
      SemanticOCIRule_Validate_def check_simps material_simps gql_identity_def mcp_identity_def
      SemanticGitRule_identity_def SemanticOCIRule_identity_def)

interpretation http_nf: normal_policy SemanticHTTPRule_Validate SemanticHTTPRule_canonicalKey "cloneAuthority True"
  SemanticHTTPRule_Matches SemanticHTTPRule_covers host_parts
proof (unfold_locales, goal_cases)
  case (4 r s)
  show ?case
    by (rule key_determines_rule[OF 4(1,2)[THEN http.validate_authority] 4(3)[unfolded http_key]],
        use key_fields_free(1)[OF 4(1)] key_fields_free(1)[OF 4(2)] in simp_all)
      (cases r; cases s; simp)
qed (simp_all add: http_key clone_rule_key clone_clone clone_parts http.covers_iff clone_rule_valid http_template_path)

interpretation gql_nf: normal_policy SemanticGraphQLRule_Validate SemanticGraphQLRule_canonicalKey
  "cloneAuthority True" SemanticGraphQLRule_Matches SemanticGraphQLRule_covers host_parts
proof (unfold_locales, goal_cases)
  case (4 r s)
  show ?case
    by (rule key_determines_rule[OF 4(1,2)[THEN gql.validate_authority] 4(3)[unfolded gql_key]],
        use key_fields_free(2)[OF 4(1)] key_fields_free(2)[OF 4(2)] key_identity_free(1)[OF 4(1)]
      key_identity_free(1)[OF 4(2)] in simp_all)
      (cases r; cases s; simp)
qed (simp_all add: gql_key clone_rule_key clone_clone clone_parts gql.covers_iff clone_rule_valid gql.matches_iff)

interpretation mcp_nf: normal_policy SemanticMCPRule_Validate SemanticMCPRule_canonicalKey
  "cloneAuthority True" SemanticMCPRule_Matches SemanticMCPRule_covers host_parts
proof (unfold_locales, goal_cases)
  case (4 r s)
  show ?case
    by (rule key_determines_rule[OF 4(1,2)[THEN mcp.validate_authority] 4(3)[unfolded mcp_key]],
        use key_fields_free(3)[OF 4(1)] key_fields_free(3)[OF 4(2)] key_identity_free(2)[OF 4(1)]
      key_identity_free(2)[OF 4(2)] in simp_all)
      (cases r; cases s; simp)
qed (simp_all add: mcp_key clone_rule_key clone_clone clone_parts mcp.covers_iff clone_rule_valid mcp.matches_iff)

interpretation git_nf: normal_policy SemanticGitRule_Validate SemanticGitRule_canonicalKey
  "cloneAuthority True" SemanticGitRule_Matches SemanticGitRule_covers host_parts
proof (unfold_locales, goal_cases)
  case (4 r s)
  show ?case
    by (rule key_determines_rule[OF 4(1,2)[THEN git.validate_authority] 4(3)[unfolded git_key]],
        use key_identity_free(3)[OF 4(1)] key_identity_free(3)[OF 4(2)] in simp_all)
      (cases r; cases s; simp)
qed (simp_all add: git_key clone_rule_key clone_clone clone_parts git.covers_iff clone_rule_valid git.matches_iff)

interpretation oci_nf: normal_policy SemanticOCIRule_Validate SemanticOCIRule_canonicalKey
  "cloneAuthority True" SemanticOCIRule_Matches SemanticOCIRule_covers host_parts
proof (unfold_locales, goal_cases)
  case (4 r s)
  show ?case
    by (rule key_determines_rule[OF 4(1,2)[THEN oci.validate_authority] 4(3)[unfolded oci_key]],
        use key_identity_free(4)[OF 4(1)] key_identity_free(4)[OF 4(2)] in simp_all)
      (cases r; cases s; simp)
qed (simp_all add: oci_key clone_rule_key clone_clone clone_parts oci.covers_iff clone_rule_valid oci.matches_iff)

interpretation ep_nf: canonical_rules SemanticHTTPEndpoint_Validate SemanticHTTPEndpoint_canonicalKey
  "cloneAuthority True"
proof (unfold_locales, goal_cases)
  case (4 r s)
  have "SemanticRuleAuthority_Validate r = None" "SemanticRuleAuthority_Validate s = None"
    using 4 by (simp_all add: SemanticHTTPEndpoint_Validate_def check_simps)
  then show ?case
    by (rule key_determines_rule[OF _ _ 4(3)[unfolded endpoint_key]]) (simp_all, cases r, cases s, simp)
qed (simp_all add: endpoint_key clone_rule_key clone_clone clone_rule_valid)

interpretation k8s_nf: normal_policy SemanticKubernetesRule_Validate SemanticKubernetesRule_canonicalKey
  "cloneAuthority True" SemanticKubernetesRule_Matches SemanticKubernetesRule_covers host_parts
proof (unfold_locales, goal_cases)
  case (4 r s)
  let ?f = "\<lambda>i. [KubernetesKind i, KubernetesVerb i, KubernetesGroup i, KubernetesVersion i, KubernetesResource i,
    KubernetesNamespace i, KubernetesName i, KubernetesSubresource i, KubernetesDryRun i]"
  let ?i = "SemanticKubernetesRule_identity r" and ?j = "SemanticKubernetesRule_identity s"
  have key: "rule_key r (?f ?i) (KubernetesNonResourcePath ?i) = rule_key s (?f ?j) (KubernetesNonResourcePath ?j)"
    using 4(3) by (simp add: SemanticKubernetesRule_canonicalKey_def rule_key_def Let_def)
  have free: "\<forall>x \<in> set (?f i). NUL \<notin> set x"
    if "PolicyProtocolIdentity_Validate i = None" "Protocol i = ''kubernetes''" for i
    using material_free[OF that(1)] by (simp add: material_simps(5)[OF that(2)])
  note v = 4(1,2)[THEN k8s.validate_authority] and ir = kubernetes_identity_valid[OF 4(1)]
    and js = kubernetes_identity_valid[OF 4(2)]
  show ?case
  proof (rule key_determines_rule[OF v key free[OF ir(1,2)] free[OF js(1,2)]])
    assume f: "?f ?i = ?f ?j" "KubernetesNonResourcePath ?i = KubernetesNonResourcePath ?j"
      "auth_Scheme r = auth_Scheme s"
    have one: "(k8s_Resource r = None) \<noteq> (k8s_NonResource r = None)" "(k8s_Resource s = None) \<noteq> (k8s_NonResource s = None)"
      using 4(1,2) by (auto simp: SemanticKubernetesRule_Validate_def check_simps)
    have "k8s_Resource r = k8s_Resource s \<and> k8s_NonResource r = k8s_NonResource s"
      using f one
      by (cases "k8s_Resource r"; cases "k8s_NonResource r"; cases "k8s_Resource s"; cases "k8s_NonResource s")
        (auto simp: SemanticKubernetesRule_identity_def resource_identity_def nonresource_identity_def base_identity_def)
    then show "SemanticRuleAuthority.more r = SemanticRuleAuthority.more s" by (cases r; cases s) simp
  qed simp
qed (simp_all add: SemanticKubernetesRule_canonicalKey_def hosts_clone clone_clone clone_parts
    k8s.covers_iff clone_kubernetes_valid k8s.matches_iff)

text \<open>AWS rules sort their services too.\<close>

lemma cloneAWS_fields [simp]:
  "auth_Scheme (cloneAWSRule b r) = auth_Scheme r" "auth_Port (cloneAWSRule b r) = auth_Port r"
  "auth_hosts (cloneAWSRule b r) = auth_hosts (cloneAuthority b r)"
  "SemanticRuleAuthority_Validate (cloneAWSRule b r) = SemanticRuleAuthority_Validate (cloneAuthority b r)"
  "aws_WireProtocol (cloneAWSRule b r) = aws_WireProtocol r" "aws_Service (cloneAWSRule b r) = aws_Service r"
  "aws_ProtocolVersion (cloneAWSRule b r) = aws_ProtocolVersion r"
  "aws_TargetNamespace (cloneAWSRule b r) = aws_TargetNamespace r" "aws_Operation (cloneAWSRule b r) = aws_Operation r"
  "aws_Services (cloneAWSRule b r) = map_option (\<lambda>ss. if b then sort ss else ss) (aws_Services r)"
  by (simp_all add: cloneAWSRule_def cloneAuthority_def auth_hosts_def SemanticRuleAuthority_Validate_def)

lemma services_clone:
  "set (aws_services (cloneAWSRule b r)) = set (aws_services r)"
  "length (aws_services (cloneAWSRule b r)) = length (aws_services r)"
  "distinct (aws_services (cloneAWSRule b r)) \<longleftrightarrow> distinct (aws_services r)"
  "sort (aws_services (cloneAWSRule b r)) = sort (aws_services r)"
  by (auto simp: aws_services_def elems_def sort_sort split: option.splits)

lemma cloneAWS_valid: "SemanticAWSRule_Validate (cloneAWSRule b r) = None \<longleftrightarrow> SemanticAWSRule_Validate r = None"
proof -
  have some: "(map_option f x = None) = (x = None)" for f :: "string list \<Rightarrow> string list" and x
    by simp
  show ?thesis
    unfolding SemanticAWSRule_Validate_def check_simps cloneAWS_fields clone_valid hosts_clone services_clone some
      map_ident by (rule refl)
qed

lemma cloneAWS_parts: "set (aws_parts (cloneAWSRule b r)) = set (aws_parts r)"
proof -
  have "narrow_service (narrow_host (cloneAWSRule b r) h) s = narrow_service (narrow_host r h) s" for h s
    by (simp add: cloneAWSRule_def cloneAuthority_def narrow_service_def narrow_host_def)
  then show ?thesis by (auto simp: aws_parts_iff hosts_clone services_clone)
qed

lemma cloneAWS_idem: "cloneAWSRule b (cloneAWSRule b r) = cloneAWSRule b r"
  by (cases "aws_Services r"; cases "auth_Hosts r")
    (simp_all add: cloneAWSRule_def cloneAuthority_def sort_sort)

lemma services_free:
  assumes "SemanticAWSRule_Validate r = None"
  shows "NUL \<notin> set (strings_Join (sort (aws_services r)) [US])"
    and "\<forall>x \<in> set (sort (aws_services r)). US \<notin> set x" and "sort (aws_services r) \<noteq> []"
proof -
  have p: "printable_string s" if "s \<in> set (aws_services r)" for s
    using aws_service_nonempty(2)[OF assms that] awsService_printable by blast
  have "\<forall>x \<in> set (sort (aws_services r)). NUL \<notin> set x" using printable_NUL[OF p] by simp
  then show "NUL \<notin> set (strings_Join (sort (aws_services r)) [US])" by (rule Join_free) simp
  show "\<forall>x \<in> set (sort (aws_services r)). US \<notin> set x" using printable_US[OF p] by simp
  have "length (aws_services r) \<noteq> 0" using assms by (simp add: SemanticAWSRule_Validate_def check_simps)
  then show "sort (aws_services r) \<noteq> []" by (metis length_sort list.size(3))
qed

lemma aws_fields_free:
  assumes "SemanticAWSRule_Validate r = None"
  shows "NUL \<notin> set (aws_WireProtocol r)" "NUL \<notin> set (aws_ProtocolVersion r)" "NUL \<notin> set (aws_TargetNamespace r)"
proof -
  consider "aws_WireProtocol r = ''query''" "awsProtocolVersionPattern (aws_ProtocolVersion r)" "aws_TargetNamespace r = []"
    | "aws_WireProtocol r = ''json''" "aws_ProtocolVersion r = []" "awsTargetNamespacePattern (aws_TargetNamespace r)"
    using assms by (auto simp: SemanticAWSRule_Validate_def check_simps Let_def split: if_splits)
  then have "printable_string (aws_WireProtocol r) \<and> printable_string (aws_ProtocolVersion r)
      \<and> printable_string (aws_TargetNamespace r)"
    by cases (use literal_printable(9,11) awsVersion_printable awsTargetNamespace_printable in auto)
  then show "NUL \<notin> set (aws_WireProtocol r)" "NUL \<notin> set (aws_ProtocolVersion r)" "NUL \<notin> set (aws_TargetNamespace r)"
    using printable_NUL by blast+
qed

lemma clone_services_eq:
  assumes r: "SemanticAWSRule_Validate r = None" and s: "SemanticAWSRule_Validate s = None"
    and eq: "sort (aws_services r) = sort (aws_services s)"
  shows "aws_Service r = aws_Service s" and "map_option sort (aws_Services r) = map_option sort (aws_Services s)"
proof -
  have len: "length (aws_services r) = length (aws_services s)" using eq by (metis length_sort)
  have vr: "(aws_Service r = []) \<noteq> (aws_Services r = None)" "aws_Services r \<noteq> None \<longrightarrow> 2 \<le> length (aws_services r)"
    and vs: "(aws_Service s = []) \<noteq> (aws_Services s = None)" "aws_Services s \<noteq> None \<longrightarrow> 2 \<le> length (aws_services s)"
    using r s by (auto simp: SemanticAWSRule_Validate_def check_simps)
  have form: "aws_Service r \<noteq> [] \<longleftrightarrow> aws_Service s \<noteq> []" using vr vs len by (auto simp: aws_services_def)
  show "aws_Service r = aws_Service s" "map_option sort (aws_Services r) = map_option sort (aws_Services s)"
    using vr vs form eq by (auto simp: aws_services_def)
qed

interpretation aws_nf: normal_policy SemanticAWSRule_Validate SemanticAWSRule_canonicalKey "cloneAWSRule True"
  SemanticAWSRule_Matches SemanticAWSRule_covers aws_parts
proof (unfold_locales, goal_cases)
  case (4 r s)
  have v: "SemanticRuleAuthority_Validate r = None" "SemanticRuleAuthority_Validate s = None"
    using 4 by (simp_all add: SemanticAWSRule_Validate_def check_simps)
  let ?f = "\<lambda>r. [aws_WireProtocol r, strings_Join (sort (aws_services r)) [US], aws_ProtocolVersion r, aws_TargetNamespace r]"
  have free: "\<forall>x \<in> set (?f r). NUL \<notin> set x" if "SemanticAWSRule_Validate r = None" for r
    using aws_fields_free[OF that] services_free(1)[OF that] by simp
  have len: "length (?f r) = length (?f s)" by simp
  note k = rule_key_inject[OF v free[OF 4(1)] free[OF 4(2)] len 4(3)[unfolded aws_key]]
  have "strings_Join (sort (aws_services r)) [US] = strings_Join (sort (aws_services s)) [US]" using k(2) by simp
  from Join_inject[OF this services_free(2)[OF 4(1)] services_free(2)[OF 4(2)] services_free(3)[OF 4(1)] services_free(3)[OF 4(2)]]
  have "sort (aws_services r) = sort (aws_services s)" .
  note c = clone_services_eq[OF 4(1,2) this]
  from k c show ?case by (cases r; cases s) (simp add: cloneAWSRule_def cloneAuthority_def)
qed (simp_all add: aws_key rule_key_def hosts_clone services_clone cloneAWS_idem cloneAWS_valid cloneAWS_parts
    aws_matches_iff auth_matches_iff SemanticAWSRule_covers_def hosts_covered_iff operationMatches_def)

end
