(* ===== verification/Template_Policy.thy ===== *)
theory Template_Policy
  imports Policy_Normal_Form
begin

text \<open>
  What a validated Workspace Template policy guarantees, over all seven modules together: which
  requests its rules match, that no accepted Allow is dead, that \<open>Normalize\<close> is a canonical form,
  and that the Method Boundary check is sound.
\<close>

section \<open>An example policy\<close>

text \<open>A small validated policy, used to evaluate the statements below at a concrete input.\<close>

definition example_http :: "string \<Rightarrow> SemanticHTTPRule" where
  "example_http path =
     \<lparr> auth_Scheme = ''https'', auth_Host = [], auth_Hosts = Some [''b.tobari.dev'', ''a.tobari.dev''],
       auth_Port = 443, http_Method = ''GET'', http_Path = path \<rparr>"

definition example_graphql :: SemanticGraphQLRule where
  "example_graphql =
     \<lparr> auth_Scheme = ''https'', auth_Host = ''a.tobari.dev'', auth_Hosts = None, auth_Port = 443,
       gql_Path = ''/graphql'', gql_OperationType = ''query'', gql_RootField = ''viewer'' \<rparr>"

definition example_endpoint :: "string \<Rightarrow> SemanticHTTPEndpoint" where
  "example_endpoint path =
     \<lparr> auth_Scheme = ''https'', auth_Host = ''a.tobari.dev'', auth_Hosts = None, auth_Port = 443, ep_Path = path \<rparr>"

definition example_aws :: SemanticAWSRule where
  "example_aws =
     \<lparr> auth_Scheme = ''https'', auth_Host = ''sts.amazonaws.com'', auth_Hosts = None, auth_Port = 443,
       aws_WireProtocol = ''query'', aws_Service = [], aws_Services = Some [''sts'', ''iam''],
       aws_ProtocolVersion = ''2011-06-15'', aws_TargetNamespace = [], aws_Operation = ''GetCallerIdentity'' \<rparr>"

definition example_modules :: WorkspaceTemplateSemanticModules where
  "example_modules =
     \<lparr> Protocols = \<lparr> HTTP =
         \<lparr> Generic = \<lparr> Allow = \<lparr> Rules = Some [example_http ''/v1/items/{id}'', example_http ''/v1/items''] \<rparr>,
             Deny = \<lparr> Rules = Some [example_http ''/v1/items/7''] \<rparr> \<rparr>,
           GraphQL = \<lparr> Allow = \<lparr> Rules = Some [example_graphql] \<rparr>, Deny = \<lparr> Rules = Some [] \<rparr>,
             Endpoints = Some [example_endpoint ''/graphql''] \<rparr>,
           MCP = \<lparr> Allow = \<lparr> Rules = Some [] \<rparr>, Deny = \<lparr> Rules = Some [] \<rparr>,
             Endpoints = Some [example_endpoint ''/mcp''] \<rparr>,
           Git = \<lparr> Allow = \<lparr> Rules = Some [] \<rparr>, Deny = \<lparr> Rules = Some [] \<rparr> \<rparr>,
           OCI = \<lparr> Allow = \<lparr> Rules = Some [] \<rparr>, Deny = \<lparr> Rules = Some [] \<rparr> \<rparr> \<rparr> \<rparr>,
       Providers =
         \<lparr> AWS = \<lparr> Allow = \<lparr> Rules = Some [example_aws] \<rparr>,
             Deny = \<lparr> Rules = Some [example_aws\<lparr> aws_Operation := ''Create*'' \<rparr>] \<rparr> \<rparr>,
           Kubernetes = \<lparr> Allow = \<lparr> Rules = Some [] \<rparr>, Deny = \<lparr> Rules = Some [] \<rparr> \<rparr> \<rparr> \<rparr>"

lemma example_valid: "WorkspaceTemplateSemanticModules_Validate example_modules [''DELETE''] = None"
  by code_simp

section \<open>The rules of a policy as matchers\<close>

definition matchers :: "(WorkspaceTemplateSemanticModules \<Rightarrow> SemanticHTTPRule list)
    \<times> (WorkspaceTemplateSemanticModules \<Rightarrow> SemanticGraphQLRule list)
    \<times> (WorkspaceTemplateSemanticModules \<Rightarrow> SemanticMCPRule list)
    \<times> (WorkspaceTemplateSemanticModules \<Rightarrow> SemanticGitRule list)
    \<times> (WorkspaceTemplateSemanticModules \<Rightarrow> SemanticOCIRule list)
    \<times> (WorkspaceTemplateSemanticModules \<Rightarrow> SemanticAWSRule list)
    \<times> (WorkspaceTemplateSemanticModules \<Rightarrow> SemanticKubernetesRule list)
    \<Rightarrow> WorkspaceTemplateSemanticModules \<Rightarrow> (SemanticRequestEffect \<Rightarrow> bool) list" where
  "matchers sel m =
     (case sel of (http, gql, mcp, git, oci, aws, k8s) \<Rightarrow>
        map SemanticHTTPRule_Matches (http m) @ map SemanticGraphQLRule_Matches (gql m)
        @ map SemanticMCPRule_Matches (mcp m) @ map SemanticGitRule_Matches (git m)
        @ map SemanticOCIRule_Matches (oci m) @ map SemanticAWSRule_Matches (aws m)
        @ map SemanticKubernetesRule_Matches (k8s m))"

abbreviation allows :: "('r, 'z) SemanticPolicy_scheme \<Rightarrow> 'r list" where
  "allows p \<equiv> elems (Rules (Allow p))"
abbreviation denies :: "('r, 'z) SemanticPolicy_scheme \<Rightarrow> 'r list" where
  "denies p \<equiv> elems (Rules (Deny p))"

definition allow_matchers :: "WorkspaceTemplateSemanticModules \<Rightarrow> (SemanticRequestEffect \<Rightarrow> bool) list" where
  "allow_matchers =
     matchers (\<lambda>m. allows (generic_of m), \<lambda>m. allows (graphql_of m), \<lambda>m. allows (mcp_of m), \<lambda>m. allows (git_of m),
       \<lambda>m. allows (oci_of m), \<lambda>m. allows (aws_of m), \<lambda>m. allows (kubernetes_of m))"

definition deny_matchers :: "WorkspaceTemplateSemanticModules \<Rightarrow> (SemanticRequestEffect \<Rightarrow> bool) list" where
  "deny_matchers =
     matchers (\<lambda>m. denies (generic_of m), \<lambda>m. denies (graphql_of m), \<lambda>m. denies (mcp_of m), \<lambda>m. denies (git_of m),
       \<lambda>m. denies (oci_of m), \<lambda>m. denies (aws_of m), \<lambda>m. denies (kubernetes_of m))"

definition policy_allows :: "WorkspaceTemplateSemanticModules \<Rightarrow> SemanticRequestEffect \<Rightarrow> bool" where
  "policy_allows m e = list_ex (\<lambda>f. f e) (allow_matchers m)"

definition policy_denies :: "WorkspaceTemplateSemanticModules \<Rightarrow> SemanticRequestEffect \<Rightarrow> bool" where
  "policy_denies m e = list_ex (\<lambda>f. f e) (deny_matchers m)"

lemma policy_allows_iff:
  "policy_allows m e \<longleftrightarrow>
     (\<exists>r \<in> set (allows (generic_of m)). SemanticHTTPRule_Matches r e) \<or>
     (\<exists>r \<in> set (allows (graphql_of m)). SemanticGraphQLRule_Matches r e) \<or>
     (\<exists>r \<in> set (allows (mcp_of m)). SemanticMCPRule_Matches r e) \<or>
     (\<exists>r \<in> set (allows (git_of m)). SemanticGitRule_Matches r e) \<or>
     (\<exists>r \<in> set (allows (oci_of m)). SemanticOCIRule_Matches r e) \<or>
     (\<exists>r \<in> set (allows (aws_of m)). SemanticAWSRule_Matches r e) \<or>
     (\<exists>r \<in> set (allows (kubernetes_of m)). SemanticKubernetesRule_Matches r e)"
  by (auto simp: policy_allows_def allow_matchers_def matchers_def list_ex_iff)

lemma policy_denies_iff:
  "policy_denies m e \<longleftrightarrow>
     (\<exists>r \<in> set (denies (generic_of m)). SemanticHTTPRule_Matches r e) \<or>
     (\<exists>r \<in> set (denies (graphql_of m)). SemanticGraphQLRule_Matches r e) \<or>
     (\<exists>r \<in> set (denies (mcp_of m)). SemanticMCPRule_Matches r e) \<or>
     (\<exists>r \<in> set (denies (git_of m)). SemanticGitRule_Matches r e) \<or>
     (\<exists>r \<in> set (denies (oci_of m)). SemanticOCIRule_Matches r e) \<or>
     (\<exists>r \<in> set (denies (aws_of m)). SemanticAWSRule_Matches r e) \<or>
     (\<exists>r \<in> set (denies (kubernetes_of m)). SemanticKubernetesRule_Matches r e)"
  by (auto simp: policy_denies_def deny_matchers_def matchers_def list_ex_iff)

text \<open>A rule matches only valid requests classified into its own module.\<close>

lemma matches_module:
  "SemanticHTTPRule_Matches r1 e \<Longrightarrow> SemanticModuleID (eff_Identity e) = SemanticModuleHTTPGeneric"
  "SemanticGraphQLRule_Matches r2 e \<Longrightarrow> SemanticModuleID (eff_Identity e) = SemanticModuleGraphQL"
  "SemanticMCPRule_Matches r3 e \<Longrightarrow> SemanticModuleID (eff_Identity e) = SemanticModuleMCP"
  "SemanticGitRule_Matches r4 e \<Longrightarrow> SemanticModuleID (eff_Identity e) = SemanticModuleGit"
  "SemanticOCIRule_Matches r5 e \<Longrightarrow> SemanticModuleID (eff_Identity e) = SemanticModuleOCI"
  "SemanticAWSRule_Matches r6 e \<Longrightarrow> SemanticModuleID (eff_Identity e) = SemanticModuleAWS"
  "SemanticKubernetesRule_Matches r7 e \<Longrightarrow> SemanticModuleID (eff_Identity e) = SemanticModuleKubernetes"
  by (simp_all add: http_template_path gql.matches_iff mcp.matches_iff git.matches_iff oci.matches_iff
      aws_matches_iff k8s.matches_iff)

lemma matches_valid:
  "SemanticHTTPRule_Matches r1 e \<Longrightarrow> SemanticRequestEffect_Validate e = None"
  "SemanticGraphQLRule_Matches r2 e \<Longrightarrow> SemanticRequestEffect_Validate e = None"
  "SemanticMCPRule_Matches r3 e \<Longrightarrow> SemanticRequestEffect_Validate e = None"
  "SemanticGitRule_Matches r4 e \<Longrightarrow> SemanticRequestEffect_Validate e = None"
  "SemanticOCIRule_Matches r5 e \<Longrightarrow> SemanticRequestEffect_Validate e = None"
  "SemanticAWSRule_Matches r6 e \<Longrightarrow> SemanticRequestEffect_Validate e = None"
  "SemanticKubernetesRule_Matches r7 e \<Longrightarrow> SemanticRequestEffect_Validate e = None"
  by (simp_all add: http_template_path gql.matches_iff mcp.matches_iff git.matches_iff oci.matches_iff
      aws_matches_iff k8s.matches_iff)

text \<open>So the denials that concern a request are those of its own module.\<close>

lemma denies_module:
  "SemanticModuleID (eff_Identity e) = SemanticModuleHTTPGeneric \<Longrightarrow>
     policy_denies m e \<longleftrightarrow> (\<exists>r \<in> set (denies (generic_of m)). SemanticHTTPRule_Matches r e)"
  "SemanticModuleID (eff_Identity e) = SemanticModuleGraphQL \<Longrightarrow>
     policy_denies m e \<longleftrightarrow> (\<exists>r \<in> set (denies (graphql_of m)). SemanticGraphQLRule_Matches r e)"
  "SemanticModuleID (eff_Identity e) = SemanticModuleMCP \<Longrightarrow>
     policy_denies m e \<longleftrightarrow> (\<exists>r \<in> set (denies (mcp_of m)). SemanticMCPRule_Matches r e)"
  "SemanticModuleID (eff_Identity e) = SemanticModuleGit \<Longrightarrow>
     policy_denies m e \<longleftrightarrow> (\<exists>r \<in> set (denies (git_of m)). SemanticGitRule_Matches r e)"
  "SemanticModuleID (eff_Identity e) = SemanticModuleOCI \<Longrightarrow>
     policy_denies m e \<longleftrightarrow> (\<exists>r \<in> set (denies (oci_of m)). SemanticOCIRule_Matches r e)"
  "SemanticModuleID (eff_Identity e) = SemanticModuleAWS \<Longrightarrow>
     policy_denies m e \<longleftrightarrow> (\<exists>r \<in> set (denies (aws_of m)). SemanticAWSRule_Matches r e)"
  "SemanticModuleID (eff_Identity e) = SemanticModuleKubernetes \<Longrightarrow>
     policy_denies m e \<longleftrightarrow> (\<exists>r \<in> set (denies (kubernetes_of m)). SemanticKubernetesRule_Matches r e)"
  unfolding policy_denies_iff by (auto dest: matches_module)

section \<open>Accepted Allow rules are live\<close>

lemma ruleset_valid:
  "SemanticHTTPRuleSet_Validate s1 = None \<Longrightarrow> r1 \<in> set (elems (Rules s1)) \<Longrightarrow> SemanticHTTPRule_Validate r1 = None"
  "SemanticGraphQLRuleSet_Validate s2 = None \<Longrightarrow> r2 \<in> set (elems (Rules s2)) \<Longrightarrow> SemanticGraphQLRule_Validate r2 = None"
  "SemanticMCPRuleSet_Validate s3 = None \<Longrightarrow> r3 \<in> set (elems (Rules s3)) \<Longrightarrow> SemanticMCPRule_Validate r3 = None"
  "SemanticGitRuleSet_Validate s4 = None \<Longrightarrow> r4 \<in> set (elems (Rules s4)) \<Longrightarrow> SemanticGitRule_Validate r4 = None"
  "SemanticOCIRuleSet_Validate s5 = None \<Longrightarrow> r5 \<in> set (elems (Rules s5)) \<Longrightarrow> SemanticOCIRule_Validate r5 = None"
  "SemanticAWSRuleSet_Validate s6 = None \<Longrightarrow> r6 \<in> set (elems (Rules s6)) \<Longrightarrow> SemanticAWSRule_Validate r6 = None"
  "SemanticKubernetesRuleSet_Validate s7 = None \<Longrightarrow> r7 \<in> set (elems (Rules s7)) \<Longrightarrow> SemanticKubernetesRule_Validate r7 = None"
  by (simp_all add: SemanticHTTPRuleSet_Validate_def SemanticGraphQLRuleSet_Validate_def SemanticMCPRuleSet_Validate_def
      SemanticGitRuleSet_Validate_def SemanticOCIRuleSet_Validate_def SemanticAWSRuleSet_Validate_def
      SemanticKubernetesRuleSet_Validate_def ruleset_validate_def check_simps split: option.splits)

lemma module_policies_valid:
  assumes "WorkspaceTemplateSemanticModules_Validate m denied = None"
  shows "SemanticHTTPPolicy_Validate (generic_of m) = None" and "SemanticGraphQLPolicy_Validate (graphql_of m) = None"
    and "SemanticMCPPolicy_Validate (mcp_of m) = None" and "SemanticGitPolicy_Validate (git_of m) = None"
    and "SemanticOCIPolicy_Validate (oci_of m) = None" and "SemanticAWSPolicy_Validate (aws_of m) = None"
    and "SemanticKubernetesPolicy_Validate (kubernetes_of m) = None"
  using assms by (simp_all add: WorkspaceTemplateSemanticModules_Validate_def check_simps)

lemma not_shadowed:
  "shadow_check kind covers parts ds as = None \<longleftrightarrow> (\<forall>a \<in> set as. \<not> fully_shadowed covers parts ds a)"
  by (simp add: shadow_check_def check_simps)

lemma http_live:
  assumes p: "SemanticHTTPPolicy_Validate p = None" and a: "a \<in> set (allows p)"
    and x: "\<not> strings_Contains (http_Path a) PolicyPathTemplatePlaceholder"
  shows "\<exists>e. SemanticHTTPRule_Matches a e \<and> (\<forall>d \<in> set (denies p). \<not> SemanticHTTPRule_Matches d e)"
proof -
  have v: "SemanticHTTPRuleSet_Validate (Allow p) = None" "SemanticHTTPRuleSet_Validate (Deny p) = None"
    "\<not> fully_shadowed SemanticHTTPRule_covers host_parts (denies p) a"
    using p a by (simp_all add: SemanticHTTPPolicy_Validate_def check_simps not_shadowed)
  have d: "\<forall>d \<in> set (denies p). SemanticHTTPRule_Validate d = None" using ruleset_valid(1)[OF v(2)] by blast
  from http_exact.shadowed_iff_dead[OF d ruleset_valid(1)[OF v(1) a] x] v(3) show ?thesis by blast
qed

lemma gql_live:
  assumes p: "SemanticGraphQLPolicy_Validate p = None" and a: "a \<in> set (allows p)"
  shows "\<exists>e. SemanticGraphQLRule_Matches a e \<and> (\<forall>d \<in> set (denies p). \<not> SemanticGraphQLRule_Matches d e)"
proof -
  have v: "SemanticGraphQLRuleSet_Validate (Allow p) = None" "SemanticGraphQLRuleSet_Validate (Deny p) = None"
    "\<not> fully_shadowed SemanticGraphQLRule_covers host_parts (denies p) a"
    using p a by (simp_all add: SemanticGraphQLPolicy_Validate_def check_simps not_shadowed)
  have d: "\<forall>d \<in> set (denies p). SemanticGraphQLRule_Validate d = None" using ruleset_valid(2)[OF v(2)] by blast
  from gql_exact.shadowed_iff_dead[OF d ruleset_valid(2)[OF v(1) a] TrueI] v(3) show ?thesis by blast
qed

lemma mcp_live:
  assumes p: "SemanticMCPPolicy_Validate p = None" and a: "a \<in> set (allows p)"
  shows "\<exists>e. SemanticMCPRule_Matches a e \<and> (\<forall>d \<in> set (denies p). \<not> SemanticMCPRule_Matches d e)"
proof -
  have v: "SemanticMCPRuleSet_Validate (Allow p) = None" "SemanticMCPRuleSet_Validate (Deny p) = None"
    "\<not> fully_shadowed SemanticMCPRule_covers host_parts (denies p) a"
    using p a by (simp_all add: SemanticMCPPolicy_Validate_def check_simps not_shadowed)
  have d: "\<forall>d \<in> set (denies p). SemanticMCPRule_Validate d = None" using ruleset_valid(3)[OF v(2)] by blast
  from mcp_exact.shadowed_iff_dead[OF d ruleset_valid(3)[OF v(1) a] TrueI] v(3) show ?thesis by blast
qed

lemma git_live:
  assumes p: "SemanticGitPolicy_Validate p = None" and a: "a \<in> set (allows p)"
  shows "\<exists>e. SemanticGitRule_Matches a e \<and> (\<forall>d \<in> set (denies p). \<not> SemanticGitRule_Matches d e)"
proof -
  have v: "SemanticGitRuleSet_Validate (Allow p) = None" "SemanticGitRuleSet_Validate (Deny p) = None"
    "\<not> fully_shadowed SemanticGitRule_covers host_parts (denies p) a"
    using p a by (simp_all add: SemanticGitPolicy_Validate_def check_simps not_shadowed)
  have d: "\<forall>d \<in> set (denies p). SemanticGitRule_Validate d = None" using ruleset_valid(4)[OF v(2)] by blast
  from git_exact.shadowed_iff_dead[OF d ruleset_valid(4)[OF v(1) a] TrueI] v(3) show ?thesis by blast
qed

lemma aws_live:
  assumes p: "SemanticAWSPolicy_Validate p = None" and a: "a \<in> set (allows p)"
    and x: "\<not> strings_HasSuffix (aws_Operation a) ''*''"
  shows "\<exists>e. SemanticAWSRule_Matches a e \<and> (\<forall>d \<in> set (denies p). \<not> SemanticAWSRule_Matches d e)"
proof -
  have v: "SemanticAWSRuleSet_Validate (Allow p) = None" "SemanticAWSRuleSet_Validate (Deny p) = None"
    "\<not> fully_shadowed SemanticAWSRule_covers aws_parts (denies p) a"
    using p a by (simp_all add: SemanticAWSPolicy_Validate_def check_simps not_shadowed)
  have d: "\<forall>d \<in> set (denies p). SemanticAWSRule_Validate d = None" using ruleset_valid(6)[OF v(2)] by blast
  from aws_exact.shadowed_iff_dead[OF d ruleset_valid(6)[OF v(1) a] x] v(3) show ?thesis by blast
qed

lemma k8s_live:
  assumes p: "SemanticKubernetesPolicy_Validate p = None" and a: "a \<in> set (allows p)"
  shows "\<exists>e. SemanticKubernetesRule_Matches a e \<and> (\<forall>d \<in> set (denies p). \<not> SemanticKubernetesRule_Matches d e)"
proof -
  have v: "SemanticKubernetesRuleSet_Validate (Allow p) = None" "SemanticKubernetesRuleSet_Validate (Deny p) = None"
    "\<not> fully_shadowed SemanticKubernetesRule_covers host_parts (denies p) a"
    using p a by (simp_all add: SemanticKubernetesPolicy_Validate_def check_simps not_shadowed)
  have d: "\<forall>d \<in> set (denies p). SemanticKubernetesRule_Validate d = None" using ruleset_valid(7)[OF v(2)] by blast
  from k8s_exact.shadowed_iff_dead[OF d ruleset_valid(7)[OF v(1) a] TrueI] v(3) show ?thesis by blast
qed

text \<open>C4: In a validated Template policy every Allow rule is live against all Deny rules of all modules:
  some request is matched by the Allow and denied by no rule. The statement covers GraphQL, MCP, Git and
  Kubernetes rules, generic HTTP rules with an exact path and AWS rules with an exact operation.\<close>

theorem validated_allow_live:
  assumes v: "WorkspaceTemplateSemanticModules_Validate m denied = None"
  shows "(\<forall>r \<in> set (allows (generic_of m)). \<not> strings_Contains (http_Path r) PolicyPathTemplatePlaceholder \<longrightarrow>
      (\<exists>e. SemanticHTTPRule_Matches r e \<and> \<not> policy_denies m e)) \<and>
    (\<forall>r \<in> set (allows (graphql_of m)). \<exists>e. SemanticGraphQLRule_Matches r e \<and> \<not> policy_denies m e) \<and>
    (\<forall>r \<in> set (allows (mcp_of m)). \<exists>e. SemanticMCPRule_Matches r e \<and> \<not> policy_denies m e) \<and>
    (\<forall>r \<in> set (allows (git_of m)). \<exists>e. SemanticGitRule_Matches r e \<and> \<not> policy_denies m e) \<and>
    (\<forall>r \<in> set (allows (aws_of m)). \<not> strings_HasSuffix (aws_Operation r) ''*'' \<longrightarrow>
      (\<exists>e. SemanticAWSRule_Matches r e \<and> \<not> policy_denies m e)) \<and>
    (\<forall>r \<in> set (allows (kubernetes_of m)). \<exists>e. SemanticKubernetesRule_Matches r e \<and> \<not> policy_denies m e)"
  using http_live[OF module_policies_valid(1)[OF v]] gql_live[OF module_policies_valid(2)[OF v]]
    mcp_live[OF module_policies_valid(3)[OF v]] git_live[OF module_policies_valid(4)[OF v]]
    aws_live[OF module_policies_valid(6)[OF v]] k8s_live[OF module_policies_valid(7)[OF v]]
    denies_module[where m = m] matches_module
  by (intro conjI) meson+

theorem validated_allow_live_witness:
  "WorkspaceTemplateSemanticModules_Validate example_modules [''DELETE''] = None \<and>
   (\<exists>e. SemanticAWSRule_Matches example_aws e \<and> \<not> policy_denies example_modules e)"
proof -
  have "example_aws \<in> set (allows (aws_of example_modules))" "\<not> strings_HasSuffix (aws_Operation example_aws) ''*''"
    by code_simp+
  with validated_allow_live[OF example_valid] example_valid show ?thesis by blast
qed

section \<open>A refused Allow is dead\<close>

text \<open>Generic HTTP rules may use one \<open>{id}\<close> segment, so \<open>covers\<close> is not exact for them; it is sound.
  A policy whose rule sets are valid is refused only when one of its Allow rules is dead: every request it
  matches is matched by a Deny.\<close>

theorem http_refused_only_if_dead:
  assumes "SemanticHTTPRuleSet_Validate (Allow p) = None" and d: "SemanticHTTPRuleSet_Validate (Deny p) = None"
    and "SemanticHTTPPolicy_Validate p \<noteq> None"
  shows "\<exists>a \<in> set (allows p). \<forall>e. SemanticHTTPRule_Matches a e \<longrightarrow>
    (\<exists>d \<in> set (denies p). SemanticHTTPRule_Matches d e)"
proof -
  from assms obtain a where "a \<in> set (allows p)" "fully_shadowed SemanticHTTPRule_covers host_parts (denies p) a"
    by (auto simp: SemanticHTTPPolicy_Validate_def check_simps not_shadowed simp del: not_None_eq)
  then show ?thesis using http.shadowed_dead ruleset_valid(1)[OF d] by blast
qed

theorem http_refused_only_if_dead_witness:
  "\<exists>a \<in> {example_http ''/v1/items/7''}. \<forall>e. SemanticHTTPRule_Matches a e \<longrightarrow>
    (\<exists>d \<in> {example_http ''/v1/items/{id}''}. SemanticHTTPRule_Matches d e)"
proof -
  let ?p = "\<lparr> Allow = \<lparr> Rules = Some [example_http ''/v1/items/7''] \<rparr>,
    Deny = \<lparr> Rules = Some [example_http ''/v1/items/{id}''] \<rparr> \<rparr> :: SemanticHTTPPolicy"
  have "SemanticHTTPRuleSet_Validate (Allow ?p) = None" "SemanticHTTPRuleSet_Validate (Deny ?p) = None"
    "SemanticHTTPPolicy_Validate ?p \<noteq> None" by code_simp+
  from http_refused_only_if_dead[OF this] show ?thesis by simp
qed

text \<open>The same for AWS rules, whose shadowing check narrows every Allow to one host and one service and
  compares operation prefixes: a refused policy with valid rule sets has a dead Allow.\<close>

theorem aws_refused_only_if_dead:
  assumes "SemanticAWSRuleSet_Validate (Allow p) = None" and d: "SemanticAWSRuleSet_Validate (Deny p) = None"
    and "SemanticAWSPolicy_Validate p \<noteq> None"
  shows "\<exists>a \<in> set (allows p). \<forall>e. SemanticAWSRule_Matches a e \<longrightarrow>
    (\<exists>d \<in> set (denies p). SemanticAWSRule_Matches d e)"
proof -
  from assms obtain a where "a \<in> set (allows p)" "fully_shadowed SemanticAWSRule_covers aws_parts (denies p) a"
    by (auto simp: SemanticAWSPolicy_Validate_def check_simps not_shadowed simp del: not_None_eq)
  then show ?thesis using aws.shadowed_dead ruleset_valid(6)[OF d] by blast
qed

theorem aws_refused_only_if_dead_witness:
  "\<exists>a \<in> {example_aws}. \<forall>e. SemanticAWSRule_Matches a e \<longrightarrow>
    (\<exists>d \<in> {example_aws\<lparr> aws_Service := ''iam'', aws_Services := None, aws_Operation := ''Get*'' \<rparr>,
           example_aws\<lparr> aws_Service := ''sts'', aws_Services := None \<rparr>}. SemanticAWSRule_Matches d e)"
proof -
  let ?p = "\<lparr> Allow = \<lparr> Rules = Some [example_aws] \<rparr>,
    Deny = \<lparr> Rules = Some [example_aws\<lparr> aws_Service := ''iam'', aws_Services := None, aws_Operation := ''Get*'' \<rparr>,
           example_aws\<lparr> aws_Service := ''sts'', aws_Services := None \<rparr>] \<rparr> \<rparr> :: SemanticAWSPolicy"
  have "SemanticAWSRuleSet_Validate (Allow ?p) = None" "SemanticAWSRuleSet_Validate (Deny ?p) = None"
    "SemanticAWSPolicy_Validate ?p \<noteq> None" by code_simp+
  from aws_refused_only_if_dead[OF this] show ?thesis by simp
qed

text \<open>The same for OCI rules, which pin one action and object of one repository.\<close>

theorem oci_refused_only_if_dead:
  assumes "SemanticOCIRuleSet_Validate (Allow p) = None" and d: "SemanticOCIRuleSet_Validate (Deny p) = None"
    and "SemanticOCIPolicy_Validate p \<noteq> None"
  shows "\<exists>a \<in> set (allows p). \<forall>e. SemanticOCIRule_Matches a e \<longrightarrow>
    (\<exists>d \<in> set (denies p). SemanticOCIRule_Matches d e)"
proof -
  from assms obtain a where "a \<in> set (allows p)" "fully_shadowed SemanticOCIRule_covers host_parts (denies p) a"
    by (auto simp: SemanticOCIPolicy_Validate_def check_simps not_shadowed simp del: not_None_eq)
  then show ?thesis using oci.shadowed_dead ruleset_valid(5)[OF d] by blast
qed

definition example_oci :: SemanticOCIRule where
  "example_oci =
     \<lparr> auth_Scheme = ''https'', auth_Host = ''ghcr.io'', auth_Hosts = None, auth_Port = 443,
       oci_Action = ''pull'', oci_Repository = ''owner/image'', oci_Object = ''manifest:latest'' \<rparr>"

theorem oci_refused_only_if_dead_witness:
  "\<exists>a \<in> {example_oci}. \<forall>e. SemanticOCIRule_Matches a e \<longrightarrow> (\<exists>d \<in> {example_oci}. SemanticOCIRule_Matches d e)"
proof -
  let ?p = "\<lparr> Allow = \<lparr> Rules = Some [example_oci] \<rparr>, Deny = \<lparr> Rules = Some [example_oci] \<rparr> \<rparr> :: SemanticOCIPolicy"
  have "SemanticOCIRuleSet_Validate (Allow ?p) = None" "SemanticOCIRuleSet_Validate (Deny ?p) = None"
    "SemanticOCIPolicy_Validate ?p \<noteq> None" by code_simp+
  from oci_refused_only_if_dead[OF this] show ?thesis by simp
qed

section \<open>Endpoints\<close>

lemma expand_set:
  "x \<in> set (expandSemanticEndpoints es) \<longleftrightarrow>
     (\<exists>e \<in> set es. gep_Host x \<in> set (auth_hosts e) \<and> gep_Scheme x = auth_Scheme e \<and>
        gep_Port x = auth_Port e \<and> gep_Path x = ep_Path e)"
  by (cases x) (auto simp: expandSemanticEndpoints_def)

lemma collide_iff:
  "semanticEndpointSetsCollide l r \<longleftrightarrow> set (expandSemanticEndpoints l) \<inter> set (expandSemanticEndpoints r) \<noteq> {}"
proof
  assume "semanticEndpointSetsCollide l r"
  then obtain a b h where "a \<in> set l" "b \<in> set r" "auth_Scheme a = auth_Scheme b" "auth_Port a = auth_Port b"
    "ep_Path a = ep_Path b" "h \<in> set (auth_hosts a)" "h \<in> set (auth_hosts b)"
    by (auto simp: semanticEndpointSetsCollide_def list_ex_iff)
  then have "\<lparr> gep_Scheme = auth_Scheme a, gep_Host = h, gep_Port = auth_Port a, gep_Path = ep_Path a \<rparr>
      \<in> set (expandSemanticEndpoints l) \<inter> set (expandSemanticEndpoints r)"
    by (auto simp: expand_set)
  then show "set (expandSemanticEndpoints l) \<inter> set (expandSemanticEndpoints r) \<noteq> {}" by blast
next
  assume "set (expandSemanticEndpoints l) \<inter> set (expandSemanticEndpoints r) \<noteq> {}"
  then show "semanticEndpointSetsCollide l r"
    by (fastforce simp: expand_set semanticEndpointSetsCollide_def list_ex_iff)
qed

lemma expanded_valid:
  assumes "\<forall>e \<in> set es. SemanticHTTPEndpoint_Validate e = None" and "x \<in> set (expandSemanticEndpoints es)"
  shows "endpoint_check kind x = None"
proof -
  obtain e where e: "e \<in> set es" "gep_Host x \<in> set (auth_hosts e)" "gep_Scheme x = auth_Scheme e"
    "gep_Port x = auth_Port e" "gep_Path x = ep_Path e" using assms(2) by (auto simp: expand_set)
  then have v: "SemanticRuleAuthority_Validate e = None" "validateGraphQLEndpointPath (ep_Path e) = None"
    using assms(1) by (simp_all add: SemanticHTTPEndpoint_Validate_def check_simps)
  have "auth_Scheme e = ''https''" using v(1) by (simp add: auth_valid_iff)
  then show ?thesis
    using auth_valid_host[OF v(1) e(2)] v(2) e by (simp add: endpoint_check_def check_simps)
qed

lemma endpoints_ok: "endpoints_validate kind eps = None \<Longrightarrow> \<forall>e \<in> set (elems eps). SemanticHTTPEndpoint_Validate e = None"
  by (auto simp: endpoints_validate_def check_simps split: option.splits)

text \<open>C28: The expanded classification locations of a validated policy are valid endpoints, and no location
  is declared for both GraphQL and MCP, so the classification of a request body is unambiguous.\<close>

theorem endpoints_valid_disjoint:
  assumes "WorkspaceTemplateSemanticModules_Validate m denied = None"
  shows "(\<forall>x \<in> set (GraphQLEndpoints m). GraphQLEndpoint_Validate x = None) \<and>
    (\<forall>x \<in> set (MCPEndpoints m). MCPEndpoint_Validate x = None) \<and>
    set (GraphQLEndpoints m) \<inter> set (MCPEndpoints m) = {}"
proof -
  have c: "\<not> semanticEndpointSetsCollide (elems (Endpoints (graphql_of m))) (elems (Endpoints (mcp_of m)))"
    using assms by (simp add: WorkspaceTemplateSemanticModules_Validate_def check_simps)
  have "endpoints_validate ''GraphQL'' (Endpoints (graphql_of m)) = None"
    "endpoints_validate ''MCP'' (Endpoints (mcp_of m)) = None"
    using module_policies_valid(2,3)[OF assms]
    by (simp_all add: SemanticGraphQLPolicy_Validate_def SemanticMCPPolicy_Validate_def check_simps)
  from expanded_valid[OF endpoints_ok[OF this(1)]] expanded_valid[OF endpoints_ok[OF this(2)]] c show ?thesis
    unfolding GraphQLEndpoints_def MCPEndpoints_def GraphQLEndpoint_Validate_def MCPEndpoint_Validate_def collide_iff
    by blast
qed

theorem endpoints_valid_disjoint_witness:
  "set (GraphQLEndpoints example_modules) \<inter> set (MCPEndpoints example_modules) = {} \<and>
   GraphQLEndpoints example_modules \<noteq> []"
proof -
  have "GraphQLEndpoints example_modules \<noteq> []" by code_simp
  with endpoints_valid_disjoint[OF example_valid] show ?thesis by blast
qed

lemma declared_iff:
  "declared_check kind es path rules = None \<longleftrightarrow>
     (\<forall>r \<in> set rules. \<forall>h \<in> set (auth_hosts r). \<exists>x \<in> set (expandSemanticEndpoints es).
        GraphQLEndpoint_Matches x (auth_Scheme r) h (auth_Port r) (path r))"
proof -
  have "list_ex (\<lambda>e. declaresHost e r p h) es \<longleftrightarrow>
      (\<exists>x \<in> set (expandSemanticEndpoints es). GraphQLEndpoint_Matches x (auth_Scheme r) h (auth_Port r) p)"
    for r :: "'a SemanticRuleAuthority_scheme" and p h
  proof
    assume "list_ex (\<lambda>e. declaresHost e r p h) es"
    then obtain e where "e \<in> set es" "auth_Scheme e = auth_Scheme r" "auth_Port e = auth_Port r" "ep_Path e = p"
      "h \<in> set (auth_hosts e)" by (auto simp: declaresHost_def list_ex_iff)
    then show "\<exists>x \<in> set (expandSemanticEndpoints es). GraphQLEndpoint_Matches x (auth_Scheme r) h (auth_Port r) p"
      by (intro bexI[of _ "\<lparr> gep_Scheme = auth_Scheme r, gep_Host = h, gep_Port = auth_Port r, gep_Path = p \<rparr>"])
        (auto simp: GraphQLEndpoint_Matches_def expand_set)
  next
    assume "\<exists>x \<in> set (expandSemanticEndpoints es). GraphQLEndpoint_Matches x (auth_Scheme r) h (auth_Port r) p"
    then show "list_ex (\<lambda>e. declaresHost e r p h) es"
      by (fastforce simp: GraphQLEndpoint_Matches_def expand_set declaresHost_def list_ex_iff)
  qed
  then show ?thesis by (simp add: declared_check_def check_simps)
qed

text \<open>In a validated policy a GraphQL rule, Allow or Deny, matches only requests at a declared GraphQL
  endpoint, and an MCP rule only requests at a declared MCP endpoint.\<close>

theorem rules_match_at_declared_endpoints:
  assumes "WorkspaceTemplateSemanticModules_Validate m denied = None"
  shows "(\<forall>r \<in> set (allows (graphql_of m) @ denies (graphql_of m)). \<forall>e. SemanticGraphQLRule_Matches r e \<longrightarrow>
      (\<exists>x \<in> set (GraphQLEndpoints m).
         GraphQLEndpoint_Matches x (eff_Scheme e) (eff_Host e) (eff_Port e) (eff_Path e))) \<and>
    (\<forall>r \<in> set (allows (mcp_of m) @ denies (mcp_of m)). \<forall>e. SemanticMCPRule_Matches r e \<longrightarrow>
      (\<exists>x \<in> set (MCPEndpoints m).
         GraphQLEndpoint_Matches x (eff_Scheme e) (eff_Host e) (eff_Port e) (eff_Path e)))"
proof -
  have "declared_check ''GraphQL'' (elems (Endpoints (graphql_of m))) gql_Path (allows (graphql_of m)) = None"
    "declared_check ''GraphQL'' (elems (Endpoints (graphql_of m))) gql_Path (denies (graphql_of m)) = None"
    "declared_check ''MCP'' (elems (Endpoints (mcp_of m))) mcp_Path (allows (mcp_of m)) = None"
    "declared_check ''MCP'' (elems (Endpoints (mcp_of m))) mcp_Path (denies (mcp_of m)) = None"
    using module_policies_valid(2,3)[OF assms]
    by (simp_all add: SemanticGraphQLPolicy_Validate_def SemanticMCPPolicy_Validate_def check_simps)
  then show ?thesis
    by (auto simp: declared_iff GraphQLEndpoints_def MCPEndpoints_def gql.matches_iff mcp.matches_iff auth_matches_iff)
qed

theorem rules_match_at_declared_endpoints_witness:
  "SemanticGraphQLRule_Matches example_graphql
      (exemplar_effect example_graphql ''POST'' ''/graphql'' (gql_identity example_graphql)) \<and>
   (\<exists>x \<in> set (GraphQLEndpoints example_modules). GraphQLEndpoint_Matches x ''https'' ''a.tobari.dev'' 443 ''/graphql'')"
proof -
  let ?e = "exemplar_effect example_graphql ''POST'' ''/graphql'' (gql_identity example_graphql)"
  have m: "SemanticGraphQLRule_Matches example_graphql ?e" by code_simp
  have "example_graphql \<in> set (allows (graphql_of example_modules) @ denies (graphql_of example_modules))" by code_simp
  with rules_match_at_declared_endpoints[OF example_valid] m have
    "\<exists>x \<in> set (GraphQLEndpoints example_modules).
       GraphQLEndpoint_Matches x (eff_Scheme ?e) (eff_Host ?e) (eff_Port ?e) (eff_Path ?e)" by blast
  then have "\<exists>x \<in> set (GraphQLEndpoints example_modules). GraphQLEndpoint_Matches x ''https'' ''a.tobari.dev'' 443 ''/graphql''"
    by (simp add: example_graphql_def)
  with m show ?thesis ..
qed

section \<open>Modules do not overlap\<close>

text \<open>A rule of a module matches only well-formed requests classified into that module: a generic HTTP
  rule never matches a request that belongs to a more specific module, and a request matched by rules of a
  policy is decided by the rules of one module only.\<close>

theorem policy_match_is_classified:
  assumes "policy_allows m e \<or> policy_denies m e"
  shows "SemanticRequestEffect_Validate e = None \<and>
    (\<exists>i. SelectSemanticModule [SemanticModuleHTTPGeneric, i] = Inr (SemanticModuleID (eff_Identity e))) \<and>
    ((\<exists>r. SemanticHTTPRule_Matches r e) \<longrightarrow>
       (\<forall>r. \<not> SemanticGraphQLRule_Matches r e) \<and> (\<forall>r. \<not> SemanticMCPRule_Matches r e) \<and>
       (\<forall>r. \<not> SemanticGitRule_Matches r e) \<and> (\<forall>r. \<not> SemanticOCIRule_Matches r e) \<and>
       (\<forall>r. \<not> SemanticAWSRule_Matches r e) \<and> (\<forall>r. \<not> SemanticKubernetesRule_Matches r e))"
proof (intro conjI)
  show v: "SemanticRequestEffect_Validate e = None"
    using assms matches_valid unfolding policy_allows_iff policy_denies_iff by blast
  have i: "PolicyProtocolIdentity_Validate (eff_Identity e) = None"
    using v by (simp add: SemanticRequestEffect_Validate_def check_simps)
  have "SemanticModuleID (eff_Identity e) \<in> set semanticModuleIDs"
    using i by (cases rule: protocol_cases)
      (simp_all add: SemanticModuleID_def i module_ids semanticModuleIDs_def del: One_nat_def)
  then show "\<exists>i. SelectSemanticModule [SemanticModuleHTTPGeneric, i] = Inr (SemanticModuleID (eff_Identity e))"
    unfolding select_iff by (intro exI[of _ "SemanticModuleID (eff_Identity e)"]) (auto simp: semanticModuleIDs_def)
qed (auto dest!: matches_module)

theorem policy_match_is_classified_witness:
  "SemanticRequestEffect_Validate
     (exemplar_effect (narrow_host (example_http ''/v1/items'') ''a.tobari.dev'') ''GET'' ''/v1/items'' (base_identity ''https'' ''http'')) = None"
proof -
  have "policy_allows example_modules
     (exemplar_effect (narrow_host (example_http ''/v1/items'') ''a.tobari.dev'') ''GET'' ''/v1/items'' (base_identity ''https'' ''http''))"
    by code_simp
  from policy_match_is_classified[OF disjI1[OF this]] show ?thesis by blast
qed

section \<open>The Method Boundary\<close>

lemma oci_method:
  assumes "SemanticOCIRule_Matches r e"
  shows "eff_Method e \<in> set (semanticOCIMethods r)"
proof -
  have e: "eff_Identity e = SemanticOCIRule_identity r" "SemanticRequestEffect_Validate e = None"
    using assms by (auto simp: oci.matches_iff identity_matches_iff)
  then have t: "oci_valid_transport e"
    by (simp add: SemanticRequestEffect_Validate_def check_simps module_effects validateOCIModuleEffect_def
        SemanticOCIRule_identity_def)
  have f: "OCIAction (eff_Identity e) = oci_Action r" "OCIObject (eff_Identity e) = oci_Object r"
    by (simp_all add: e SemanticOCIRule_identity_def)
  have disj: "strings_HasPrefix x ''manifest:'' \<Longrightarrow> \<not> strings_HasPrefix x ''referrers:''"
    "strings_HasPrefix x ''blob:'' \<Longrightarrow> \<not> strings_HasPrefix x ''referrers:''"
    "strings_HasPrefix x ''blob:'' \<Longrightarrow> \<not> strings_HasPrefix x ''upload:''" for x
    by (auto simp: HasPrefix_iff)
  note t' = t[unfolded oci_valid_transport_def Let_def f]
  consider "oci_Action r = ''list''" | "oci_Action r = ''pull''" | "oci_Action r = ''push''"
    | "oci_Action r = ''delete''" | "oci_Action r = ''start_upload''" | "oci_Action r = ''mount''"
    | "oci_Action r = ''upload_status''" | "oci_Action r = ''upload_chunk''" | "oci_Action r = ''cancel_upload''"
    | "oci_Action r = ''complete_upload''"
    using t' by (metis (no_types))
  then show ?thesis
  proof cases
    case 2
    with t' disj[of "oci_Object r"] show ?thesis by (auto simp: semanticOCIMethods_def split: if_splits)
  next
    case 10
    with t' disj(3)[of "oci_Object r"] show ?thesis
      by (auto simp: semanticOCIMethods_def split: if_splits option.splits)
  qed (use t' in \<open>auto simp: semanticOCIMethods_def split: if_splits\<close>)
qed

lemma kubernetes_method:
  assumes "SemanticKubernetesRule_Matches r e"
  shows "eff_Method e \<in> set (semanticKubernetesMethods (SemanticKubernetesRule_identity r))"
proof -
  have e: "eff_Identity e = SemanticKubernetesRule_identity r" "SemanticRequestEffect_Validate e = None"
    and v: "SemanticKubernetesRule_Validate r = None"
    using assms by (auto simp: k8s.matches_iff identity_matches_iff)
  then have "validateKubernetesModuleEffect e = None" "httpMethodPattern (eff_Method e)"
    using kubernetes_identity_valid(2)[OF v]
    by (simp_all add: SemanticRequestEffect_Validate_def check_simps module_effects)
  moreover have "\<not> httpMethodPattern []" by (simp add: httpMethodPattern_def)
  ultimately show ?thesis
    by (auto simp: validateKubernetesModuleEffect_def semanticKubernetesMethods_def check_simps e Let_def
        split: if_splits)
qed

lemma git_method:
  assumes "SemanticGitRule_Matches r e"
  shows "eff_Method e \<in> {''GET'', ''POST''}"
proof -
  have e: "eff_Identity e = SemanticGitRule_identity r" "SemanticRequestEffect_Validate e = None"
    using assms by (auto simp: git.matches_iff identity_matches_iff)
  then have "validateGitModuleEffect e = None"
    by (simp add: SemanticRequestEffect_Validate_def check_simps module_effects SemanticGitRule_identity_def)
  then show ?thesis by (auto simp: validateGitModuleEffect_def check_simps Let_def)
qed

lemma aws_method:
  assumes "SemanticAWSRule_Matches r e"
  shows "eff_Method e = ''POST''"
proof -
  have v: "SemanticRequestEffect_Validate e = None" "SemanticModuleID (eff_Identity e) = SemanticModuleAWS"
    using assms by (simp_all add: aws_matches_iff)
  have i: "PolicyProtocolIdentity_Validate (eff_Identity e) = None"
    using v by (simp add: SemanticRequestEffect_Validate_def check_simps)
  then have "Protocol (eff_Identity e) = ''aws''"
    using v(2) by (cases rule: protocol_cases) (simp_all add: SemanticModuleID_def i module_ids del: One_nat_def)
  then have "validateAWSModuleEffect e = None"
    using v(1) by (simp add: SemanticRequestEffect_Validate_def check_simps module_effects)
  then show ?thesis by (simp add: validateAWSModuleEffect_def check_simps)
qed

text \<open>When the Method Boundary check refuses a policy, some Allow rule of it can match only requests whose
  method the boundary denies: the methods derived for every module are all the methods its rules can match.\<close>

theorem method_boundary_refusal_sound:
  assumes "semanticAllowsFullyMethodDenied m denied"
  shows "\<exists>f \<in> set (allow_matchers m). \<forall>e. f e \<longrightarrow> eff_Method e \<in> set denied"
proof -
  have sub: "allDenied denied ms \<Longrightarrow> x \<in> set ms \<Longrightarrow> x \<in> set denied" for ms x
    by (auto simp: allDenied_def list_all_iff)
  have set: "set (allow_matchers m) =
      SemanticHTTPRule_Matches ` set (allows (generic_of m)) \<union> SemanticGraphQLRule_Matches ` set (allows (graphql_of m))
      \<union> SemanticMCPRule_Matches ` set (allows (mcp_of m)) \<union> SemanticGitRule_Matches ` set (allows (git_of m))
      \<union> SemanticOCIRule_Matches ` set (allows (oci_of m)) \<union> SemanticAWSRule_Matches ` set (allows (aws_of m))
      \<union> SemanticKubernetesRule_Matches ` set (allows (kubernetes_of m))"
    by (auto simp: allow_matchers_def matchers_def)
  from assms consider
    (http) r where "r \<in> set (allows (generic_of m))" "allDenied denied [http_Method r]"
  | (gql) r where "r \<in> set (allows (graphql_of m))" "allDenied denied [''POST'']"
  | (mcp) r where "r \<in> set (allows (mcp_of m))" "allDenied denied [''POST'']"
  | (aws) r where "r \<in> set (allows (aws_of m))" "allDenied denied [''POST'']"
  | (git) r where "r \<in> set (allows (git_of m))" "allDenied denied [''GET'', ''POST'']"
  | (oci) r where "r \<in> set (allows (oci_of m))" "allDenied denied (semanticOCIMethods r)"
  | (k8s) r where "r \<in> set (allows (kubernetes_of m))"
      "allDenied denied (semanticKubernetesMethods (SemanticKubernetesRule_identity r))"
    unfolding semanticAllowsFullyMethodDenied_def list_ex_iff
    by (elim disjE conjE bexE) (meson list.set_sel(1))+
  then show ?thesis
  proof cases
    case http
    then have "\<forall>e. SemanticHTTPRule_Matches r e \<longrightarrow> eff_Method e \<in> set denied"
      using sub[OF http(2)] http_template_path[of r] by auto
    with http(1) show ?thesis unfolding set by blast
  next
    case gql
    then have "\<forall>e. SemanticGraphQLRule_Matches r e \<longrightarrow> eff_Method e \<in> set denied"
      using sub[of "[''POST'']"] by (simp add: gql.matches_iff)
    with gql(1) show ?thesis unfolding set by blast
  next
    case mcp
    then have "\<forall>e. SemanticMCPRule_Matches r e \<longrightarrow> eff_Method e \<in> set denied"
      using sub[of "[''POST'']"] by (simp add: mcp.matches_iff)
    with mcp(1) show ?thesis unfolding set by blast
  next
    case aws
    then have "\<forall>e. SemanticAWSRule_Matches r e \<longrightarrow> eff_Method e \<in> set denied"
      using sub[of "[''POST'']"] by (simp add: aws_method)
    with aws(1) show ?thesis unfolding set by blast
  next
    case git
    then have "\<forall>e. SemanticGitRule_Matches r e \<longrightarrow> eff_Method e \<in> set denied"
      using sub[OF git(2)] git_method[of r] by auto
    with git(1) show ?thesis unfolding set by blast
  next
    case oci
    have "\<forall>e. SemanticOCIRule_Matches r e \<longrightarrow> eff_Method e \<in> set denied"
      using sub[OF oci(2)] oci_method[of r] by blast
    with oci(1) show ?thesis unfolding set by blast
  next
    case k8s
    have "\<forall>e. SemanticKubernetesRule_Matches r e \<longrightarrow> eff_Method e \<in> set denied"
      using sub[OF k8s(2)] kubernetes_method[of r] by blast
    moreover have "SemanticKubernetesRule_Matches r \<in> set (allow_matchers m)" using k8s(1) by (simp add: set)
    ultimately show ?thesis by (intro bexI[of _ "SemanticKubernetesRule_Matches r"])
  qed
qed

theorem method_boundary_refusal_sound_witness:
  "\<exists>f \<in> set (allow_matchers example_modules). \<forall>e. f e \<longrightarrow> eff_Method e \<in> set [''POST'', ''PATCH'']"
proof -
  have "semanticAllowsFullyMethodDenied example_modules [''POST'', ''PATCH'']" by code_simp
  from method_boundary_refusal_sound[OF this] show ?thesis .
qed

section \<open>Normalize\<close>

abbreviation "nf_http \<equiv> normal_list (cloneAuthority True) SemanticHTTPRule_canonicalKey"
abbreviation "nf_gql \<equiv> normal_list (cloneAuthority True) SemanticGraphQLRule_canonicalKey"
abbreviation "nf_mcp \<equiv> normal_list (cloneAuthority True) SemanticMCPRule_canonicalKey"
abbreviation "nf_git \<equiv> normal_list (cloneAuthority True) SemanticGitRule_canonicalKey"
abbreviation "nf_oci \<equiv> normal_list (cloneAuthority True) SemanticOCIRule_canonicalKey"
abbreviation "nf_aws \<equiv> normal_list (cloneAWSRule True) SemanticAWSRule_canonicalKey"
abbreviation "nf_k8s \<equiv> normal_list (cloneAuthority True) SemanticKubernetesRule_canonicalKey"
abbreviation "nf_ep \<equiv> normal_list (cloneAuthority True) SemanticHTTPEndpoint_canonicalKey"

lemma Normalize_fields:
  "Allow (generic_of (Normalize m)) = \<lparr> Rules = Some (nf_http (Rules (Allow (generic_of m)))) \<rparr>"
  "Deny (generic_of (Normalize m)) = \<lparr> Rules = Some (nf_http (Rules (Deny (generic_of m)))) \<rparr>"
  "Allow (graphql_of (Normalize m)) = \<lparr> Rules = Some (nf_gql (Rules (Allow (graphql_of m)))) \<rparr>"
  "Deny (graphql_of (Normalize m)) = \<lparr> Rules = Some (nf_gql (Rules (Deny (graphql_of m)))) \<rparr>"
  "Endpoints (graphql_of (Normalize m)) = Some (nf_ep (Endpoints (graphql_of m)))"
  "Allow (mcp_of (Normalize m)) = \<lparr> Rules = Some (nf_mcp (Rules (Allow (mcp_of m)))) \<rparr>"
  "Deny (mcp_of (Normalize m)) = \<lparr> Rules = Some (nf_mcp (Rules (Deny (mcp_of m)))) \<rparr>"
  "Endpoints (mcp_of (Normalize m)) = Some (nf_ep (Endpoints (mcp_of m)))"
  "Allow (git_of (Normalize m)) = \<lparr> Rules = Some (nf_git (Rules (Allow (git_of m)))) \<rparr>"
  "Deny (git_of (Normalize m)) = \<lparr> Rules = Some (nf_git (Rules (Deny (git_of m)))) \<rparr>"
  "Allow (oci_of (Normalize m)) = \<lparr> Rules = Some (nf_oci (Rules (Allow (oci_of m)))) \<rparr>"
  "Deny (oci_of (Normalize m)) = \<lparr> Rules = Some (nf_oci (Rules (Deny (oci_of m)))) \<rparr>"
  "Allow (aws_of (Normalize m)) = \<lparr> Rules = Some (nf_aws (Rules (Allow (aws_of m)))) \<rparr>"
  "Deny (aws_of (Normalize m)) = \<lparr> Rules = Some (nf_aws (Rules (Deny (aws_of m)))) \<rparr>"
  "Allow (kubernetes_of (Normalize m)) = \<lparr> Rules = Some (nf_k8s (Rules (Allow (kubernetes_of m)))) \<rparr>"
  "Deny (kubernetes_of (Normalize m)) = \<lparr> Rules = Some (nf_k8s (Rules (Deny (kubernetes_of m)))) \<rparr>"
  by (simp_all add: Normalize_def normalized_def clone_policy_def cloneHTTPRules_def cloneGraphQLRules_def
      cloneMCPRules_def cloneGitRules_def cloneOCIRules_def cloneAWSRules_def cloneKubernetesRules_def
      cloneEndpoints_def clone_rules_True)

text \<open>Two policies are equal when their sixteen collections are.\<close>

lemma modules_eqI:
  assumes "Rules (Allow (generic_of m)) = Rules (Allow (generic_of n))" "Rules (Deny (generic_of m)) = Rules (Deny (generic_of n))"
    "Rules (Allow (graphql_of m)) = Rules (Allow (graphql_of n))" "Rules (Deny (graphql_of m)) = Rules (Deny (graphql_of n))"
    "Rules (Allow (mcp_of m)) = Rules (Allow (mcp_of n))" "Rules (Deny (mcp_of m)) = Rules (Deny (mcp_of n))"
    "Rules (Allow (git_of m)) = Rules (Allow (git_of n))" "Rules (Deny (git_of m)) = Rules (Deny (git_of n))"
    "Rules (Allow (oci_of m)) = Rules (Allow (oci_of n))" "Rules (Deny (oci_of m)) = Rules (Deny (oci_of n))"
    "Rules (Allow (aws_of m)) = Rules (Allow (aws_of n))" "Rules (Deny (aws_of m)) = Rules (Deny (aws_of n))"
    "Rules (Allow (kubernetes_of m)) = Rules (Allow (kubernetes_of n))"
    "Rules (Deny (kubernetes_of m)) = Rules (Deny (kubernetes_of n))"
    "Endpoints (graphql_of m) = Endpoints (graphql_of n)" "Endpoints (mcp_of m) = Endpoints (mcp_of n)"
  shows "m = n"
  using assms
  by (intro WorkspaceTemplateSemanticModules.equality WorkspaceTemplateSemanticProtocols.equality
      WorkspaceTemplateSemanticHTTP.equality WorkspaceTemplateSemanticProviders.equality
      SemanticPolicy.equality SemanticEndpointPolicy.equality SemanticRuleSet.equality) simp_all

text \<open>C24: \<open>Normalize\<close> is idempotent, and it keeps exactly the requests that the Allow rules match and that the
  Deny rules match: the authored order of rules, hosts and services carries no authority.\<close>

theorem Normalize_idempotent_and_faithful:
  "Normalize (Normalize m) = Normalize m \<and>
   (\<forall>e. policy_allows (Normalize m) e = policy_allows m e) \<and> (\<forall>e. policy_denies (Normalize m) e = policy_denies m e)"
proof (intro conjI allI)
  show "Normalize (Normalize m) = Normalize m"
    by (rule modules_eqI) (simp_all add: Normalize_fields http_nf.normal_list_idem gql_nf.normal_list_idem
        mcp_nf.normal_list_idem git_nf.normal_list_idem oci_nf.normal_list_idem aws_nf.normal_list_idem
        k8s_nf.normal_list_idem ep_nf.normal_list_idem)
  fix e
  show "policy_allows (Normalize m) e = policy_allows m e" "policy_denies (Normalize m) e = policy_denies m e"
    unfolding policy_allows_iff policy_denies_iff
    by (simp_all add: Normalize_fields http_nf.normal_matches gql_nf.normal_matches
        mcp_nf.normal_matches git_nf.normal_matches oci_nf.normal_matches aws_nf.normal_matches
        k8s_nf.normal_matches)
qed

lemma nf_expand: "set (expandSemanticEndpoints (nf_ep es)) = set (expandSemanticEndpoints (elems es))"
  by (auto simp: expand_set ep_nf.normal_list_set hosts_clone)

lemma nf_endpoints: "endpoints_validate kind es = None \<Longrightarrow> endpoints_validate kind (Some (nf_ep es)) = None"
  using ep_nf.distinct_keys[of es]
  by (auto simp: endpoints_validate_def check_simps ep_nf.normal_list_set clone_rule_valid split: option.splits)

lemma nf_declared:
  assumes "\<And>r. path (cloneAuthority True r) = path r"
  shows "declared_check kind (nf_ep es) path (normal_list (cloneAuthority True) key rs) = None \<longleftrightarrow>
    declared_check kind (elems es) path (elems rs) = None"
  unfolding declared_iff nf_expand by (simp add: normal_list_def hosts_clone assms)

lemma Normalize_policies:
  assumes "WorkspaceTemplateSemanticModules_Validate m denied = None"
  shows "SemanticHTTPPolicy_Validate (generic_of (Normalize m)) = None"
    and "SemanticGraphQLPolicy_Validate (graphql_of (Normalize m)) = None"
    and "SemanticMCPPolicy_Validate (mcp_of (Normalize m)) = None"
    and "SemanticGitPolicy_Validate (git_of (Normalize m)) = None"
    and "SemanticOCIPolicy_Validate (oci_of (Normalize m)) = None"
    and "SemanticAWSPolicy_Validate (aws_of (Normalize m)) = None"
    and "SemanticKubernetesPolicy_Validate (kubernetes_of (Normalize m)) = None"
proof -
  show "SemanticHTTPPolicy_Validate (generic_of (Normalize m)) = None"
    using module_policies_valid(1)[OF assms]
    by (simp add: SemanticHTTPPolicy_Validate_def SemanticHTTPRuleSet_Validate_def check_simps Normalize_fields
        http_nf.normal_shadow http_nf.normal_list_valid)
  show "SemanticGraphQLPolicy_Validate (graphql_of (Normalize m)) = None"
    using module_policies_valid(2)[OF assms]
    by (simp add: SemanticGraphQLPolicy_Validate_def SemanticGraphQLRuleSet_Validate_def check_simps Normalize_fields
        gql_nf.normal_shadow gql_nf.normal_list_valid nf_endpoints nf_declared)
  show "SemanticMCPPolicy_Validate (mcp_of (Normalize m)) = None"
    using module_policies_valid(3)[OF assms]
    by (simp add: SemanticMCPPolicy_Validate_def SemanticMCPRuleSet_Validate_def check_simps Normalize_fields
        mcp_nf.normal_shadow mcp_nf.normal_list_valid nf_endpoints nf_declared)
  show "SemanticGitPolicy_Validate (git_of (Normalize m)) = None"
    using module_policies_valid(4)[OF assms]
    by (simp add: SemanticGitPolicy_Validate_def SemanticGitRuleSet_Validate_def check_simps Normalize_fields
        git_nf.normal_shadow git_nf.normal_list_valid)
  show "SemanticOCIPolicy_Validate (oci_of (Normalize m)) = None"
    using module_policies_valid(5)[OF assms]
    by (simp add: SemanticOCIPolicy_Validate_def SemanticOCIRuleSet_Validate_def check_simps Normalize_fields
        oci_nf.normal_shadow oci_nf.normal_list_valid)
  show "SemanticAWSPolicy_Validate (aws_of (Normalize m)) = None"
    using module_policies_valid(6)[OF assms]
    by (simp add: SemanticAWSPolicy_Validate_def SemanticAWSRuleSet_Validate_def check_simps Normalize_fields
        aws_nf.normal_shadow aws_nf.normal_list_valid)
  show "SemanticKubernetesPolicy_Validate (kubernetes_of (Normalize m)) = None"
    using module_policies_valid(7)[OF assms]
    by (simp add: SemanticKubernetesPolicy_Validate_def SemanticKubernetesRuleSet_Validate_def check_simps Normalize_fields
        k8s_nf.normal_shadow k8s_nf.normal_list_valid)
qed

text \<open>The normalized form of a validated policy is valid under the same Method Boundary.\<close>

theorem Normalize_preserves_Validate:
  assumes v: "WorkspaceTemplateSemanticModules_Validate m denied = None"
  shows "WorkspaceTemplateSemanticModules_Validate (Normalize m) denied = None"
proof -
  have ne: "normal_list norm key rs = [] \<longleftrightarrow> elems rs = []" for norm :: "'r \<Rightarrow> 'r" and key rs
    by (simp add: normal_list_def) (metis length_0_conv length_sort length_map)
  have oci: "semanticOCIMethods (cloneAuthority True r) = semanticOCIMethods r" for r
    by (simp add: semanticOCIMethods_def)
  have "\<not> semanticEndpointSetsCollide (elems (Endpoints (graphql_of (Normalize m)))) (elems (Endpoints (mcp_of (Normalize m))))"
    using v by (simp add: WorkspaceTemplateSemanticModules_Validate_def check_simps Normalize_fields collide_iff nf_expand)
  moreover have "semanticAllowsFullyMethodDenied (Normalize m) denied = semanticAllowsFullyMethodDenied m denied"
    by (simp add: semanticAllowsFullyMethodDenied_def Normalize_fields list_ex_iff ne oci
        http_nf.normal_list_set oci_nf.normal_list_set k8s_nf.normal_list_set)
  ultimately show ?thesis
    using v Normalize_policies[OF v] by (simp add: WorkspaceTemplateSemanticModules_Validate_def check_simps)
qed

theorem Normalize_preserves_Validate_witness:
  "WorkspaceTemplateSemanticModules_Validate (Normalize example_modules) [''DELETE''] = None \<and>
   Normalize example_modules \<noteq> example_modules"
proof -
  have "Normalize example_modules \<noteq> example_modules" by code_simp
  with Normalize_preserves_Validate[OF example_valid] show ?thesis by blast
qed

text \<open>The canonical keys a policy declares, collection by collection.\<close>

definition declared_keys :: "WorkspaceTemplateSemanticModules \<Rightarrow> string set list" where
  "declared_keys m =
     [SemanticHTTPRule_canonicalKey ` set (allows (generic_of m)),
      SemanticHTTPRule_canonicalKey ` set (denies (generic_of m)),
      SemanticGraphQLRule_canonicalKey ` set (allows (graphql_of m)),
      SemanticGraphQLRule_canonicalKey ` set (denies (graphql_of m)),
      SemanticMCPRule_canonicalKey ` set (allows (mcp_of m)),
      SemanticMCPRule_canonicalKey ` set (denies (mcp_of m)),
      SemanticGitRule_canonicalKey ` set (allows (git_of m)),
      SemanticGitRule_canonicalKey ` set (denies (git_of m)),
      SemanticOCIRule_canonicalKey ` set (allows (oci_of m)),
      SemanticOCIRule_canonicalKey ` set (denies (oci_of m)),
      SemanticAWSRule_canonicalKey ` set (allows (aws_of m)),
      SemanticAWSRule_canonicalKey ` set (denies (aws_of m)),
      SemanticKubernetesRule_canonicalKey ` set (allows (kubernetes_of m)),
      SemanticKubernetesRule_canonicalKey ` set (denies (kubernetes_of m)),
      SemanticHTTPEndpoint_canonicalKey ` set (elems (Endpoints (graphql_of m))),
      SemanticHTTPEndpoint_canonicalKey ` set (elems (Endpoints (mcp_of m)))]"

lemma declared_keys_Normalize: "declared_keys (Normalize m) = declared_keys m"
  by (simp add: declared_keys_def Normalize_fields http_nf.normal_list_keys gql_nf.normal_list_keys
      mcp_nf.normal_list_keys git_nf.normal_list_keys oci_nf.normal_list_keys aws_nf.normal_list_keys
      k8s_nf.normal_list_keys ep_nf.normal_list_keys)

lemma endpoints_distinct:
  "endpoints_validate kind eps = None \<Longrightarrow> distinct (map SemanticHTTPEndpoint_canonicalKey (elems eps))"
  by (auto simp: endpoints_validate_def check_simps split: option.splits)

lemma collections_valid:
  assumes "WorkspaceTemplateSemanticModules_Validate m denied = None"
  shows "ruleset_validate SemanticHTTPRule_Validate SemanticHTTPRule_canonicalKey ''HTTP'' (Allow (generic_of m)) = None"
    and "ruleset_validate SemanticHTTPRule_Validate SemanticHTTPRule_canonicalKey ''HTTP'' (Deny (generic_of m)) = None"
    and "ruleset_validate SemanticGraphQLRule_Validate SemanticGraphQLRule_canonicalKey ''GraphQL'' (Allow (graphql_of m)) = None"
    and "ruleset_validate SemanticGraphQLRule_Validate SemanticGraphQLRule_canonicalKey ''GraphQL'' (Deny (graphql_of m)) = None"
    and "ruleset_validate SemanticMCPRule_Validate SemanticMCPRule_canonicalKey ''MCP'' (Allow (mcp_of m)) = None"
    and "ruleset_validate SemanticMCPRule_Validate SemanticMCPRule_canonicalKey ''MCP'' (Deny (mcp_of m)) = None"
    and "ruleset_validate SemanticGitRule_Validate SemanticGitRule_canonicalKey ''Git'' (Allow (git_of m)) = None"
    and "ruleset_validate SemanticGitRule_Validate SemanticGitRule_canonicalKey ''Git'' (Deny (git_of m)) = None"
    and "ruleset_validate SemanticOCIRule_Validate SemanticOCIRule_canonicalKey ''OCI'' (Allow (oci_of m)) = None"
    and "ruleset_validate SemanticOCIRule_Validate SemanticOCIRule_canonicalKey ''OCI'' (Deny (oci_of m)) = None"
    and "ruleset_validate SemanticAWSRule_Validate SemanticAWSRule_canonicalKey ''AWS'' (Allow (aws_of m)) = None"
    and "ruleset_validate SemanticAWSRule_Validate SemanticAWSRule_canonicalKey ''AWS'' (Deny (aws_of m)) = None"
    and "ruleset_validate SemanticKubernetesRule_Validate SemanticKubernetesRule_canonicalKey ''Kubernetes'' (Allow (kubernetes_of m)) = None"
    and "ruleset_validate SemanticKubernetesRule_Validate SemanticKubernetesRule_canonicalKey ''Kubernetes'' (Deny (kubernetes_of m)) = None"
    and "endpoints_validate ''GraphQL'' (Endpoints (graphql_of m)) = None"
    and "endpoints_validate ''MCP'' (Endpoints (mcp_of m)) = None"
  using module_policies_valid[OF assms]
  by (simp_all only: SemanticHTTPPolicy_Validate_def SemanticGraphQLPolicy_Validate_def SemanticMCPPolicy_Validate_def
      SemanticGitPolicy_Validate_def SemanticOCIPolicy_Validate_def SemanticAWSPolicy_Validate_def
      SemanticKubernetesPolicy_Validate_def SemanticHTTPRuleSet_Validate_def SemanticGraphQLRuleSet_Validate_def
      SemanticMCPRuleSet_Validate_def SemanticGitRuleSet_Validate_def SemanticOCIRuleSet_Validate_def
      SemanticAWSRuleSet_Validate_def SemanticKubernetesRuleSet_Validate_def first_error_None)

text \<open>Equal keys, equal normal form, for every kind of collection.\<close>

lemma http_same_nf:
  assumes "ruleset_validate SemanticHTTPRule_Validate SemanticHTTPRule_canonicalKey ''HTTP'' s = None"
    and "ruleset_validate SemanticHTTPRule_Validate SemanticHTTPRule_canonicalKey ''HTTP'' t = None"
    and "SemanticHTTPRule_canonicalKey ` set (elems (Rules s)) = SemanticHTTPRule_canonicalKey ` set (elems (Rules t))"
  shows "nf_http (Rules s) = nf_http (Rules t)"
  using http_nf.normal_list_canonical assms unfolding http_nf.ruleset_ok by blast

lemma gql_same_nf:
  assumes "ruleset_validate SemanticGraphQLRule_Validate SemanticGraphQLRule_canonicalKey ''GraphQL'' s = None"
    and "ruleset_validate SemanticGraphQLRule_Validate SemanticGraphQLRule_canonicalKey ''GraphQL'' t = None"
    and "SemanticGraphQLRule_canonicalKey ` set (elems (Rules s)) = SemanticGraphQLRule_canonicalKey ` set (elems (Rules t))"
  shows "nf_gql (Rules s) = nf_gql (Rules t)"
  using gql_nf.normal_list_canonical assms unfolding gql_nf.ruleset_ok by blast

lemma mcp_same_nf:
  assumes "ruleset_validate SemanticMCPRule_Validate SemanticMCPRule_canonicalKey ''MCP'' s = None"
    and "ruleset_validate SemanticMCPRule_Validate SemanticMCPRule_canonicalKey ''MCP'' t = None"
    and "SemanticMCPRule_canonicalKey ` set (elems (Rules s)) = SemanticMCPRule_canonicalKey ` set (elems (Rules t))"
  shows "nf_mcp (Rules s) = nf_mcp (Rules t)"
  using mcp_nf.normal_list_canonical assms unfolding mcp_nf.ruleset_ok by blast

lemma git_same_nf:
  assumes "ruleset_validate SemanticGitRule_Validate SemanticGitRule_canonicalKey ''Git'' s = None"
    and "ruleset_validate SemanticGitRule_Validate SemanticGitRule_canonicalKey ''Git'' t = None"
    and "SemanticGitRule_canonicalKey ` set (elems (Rules s)) = SemanticGitRule_canonicalKey ` set (elems (Rules t))"
  shows "nf_git (Rules s) = nf_git (Rules t)"
  using git_nf.normal_list_canonical assms unfolding git_nf.ruleset_ok by blast

lemma oci_same_nf:
  assumes "ruleset_validate SemanticOCIRule_Validate SemanticOCIRule_canonicalKey ''OCI'' s = None"
    and "ruleset_validate SemanticOCIRule_Validate SemanticOCIRule_canonicalKey ''OCI'' t = None"
    and "SemanticOCIRule_canonicalKey ` set (elems (Rules s)) = SemanticOCIRule_canonicalKey ` set (elems (Rules t))"
  shows "nf_oci (Rules s) = nf_oci (Rules t)"
  using oci_nf.normal_list_canonical assms unfolding oci_nf.ruleset_ok by blast

lemma aws_same_nf:
  assumes "ruleset_validate SemanticAWSRule_Validate SemanticAWSRule_canonicalKey ''AWS'' s = None"
    and "ruleset_validate SemanticAWSRule_Validate SemanticAWSRule_canonicalKey ''AWS'' t = None"
    and "SemanticAWSRule_canonicalKey ` set (elems (Rules s)) = SemanticAWSRule_canonicalKey ` set (elems (Rules t))"
  shows "nf_aws (Rules s) = nf_aws (Rules t)"
  using aws_nf.normal_list_canonical assms unfolding aws_nf.ruleset_ok by blast

lemma k8s_same_nf:
  assumes "ruleset_validate SemanticKubernetesRule_Validate SemanticKubernetesRule_canonicalKey ''Kubernetes'' s = None"
    and "ruleset_validate SemanticKubernetesRule_Validate SemanticKubernetesRule_canonicalKey ''Kubernetes'' t = None"
    and "SemanticKubernetesRule_canonicalKey ` set (elems (Rules s)) = SemanticKubernetesRule_canonicalKey ` set (elems (Rules t))"
  shows "nf_k8s (Rules s) = nf_k8s (Rules t)"
  using k8s_nf.normal_list_canonical assms unfolding k8s_nf.ruleset_ok by blast

lemma ep_same_nf:
  assumes "endpoints_validate kind s = None" and "endpoints_validate kind t = None"
    and "SemanticHTTPEndpoint_canonicalKey ` set (elems s) = SemanticHTTPEndpoint_canonicalKey ` set (elems t)"
  shows "nf_ep s = nf_ep t"
  using ep_nf.normal_list_canonical assms endpoints_ok endpoints_distinct by blast

lemma same_keys_same_nf:
  assumes m: "WorkspaceTemplateSemanticModules_Validate m denied = None"
    and n: "WorkspaceTemplateSemanticModules_Validate n denied' = None" and k: "declared_keys m = declared_keys n"
  shows "Normalize m = Normalize n"
proof -
  note cm = collections_valid[OF m] and cn = collections_valid[OF n]
  note k' = k[unfolded declared_keys_def list.inject]
  have e1: "nf_http (Rules (Allow (generic_of m))) = nf_http (Rules (Allow (generic_of n)))"
    by (rule http_same_nf[OF cm(1) cn(1)], insert k', elim conjE, assumption)
  have e2: "nf_http (Rules (Deny (generic_of m))) = nf_http (Rules (Deny (generic_of n)))"
    by (rule http_same_nf[OF cm(2) cn(2)], insert k', elim conjE, assumption)
  have e3: "nf_gql (Rules (Allow (graphql_of m))) = nf_gql (Rules (Allow (graphql_of n)))"
    by (rule gql_same_nf[OF cm(3) cn(3)], insert k', elim conjE, assumption)
  have e4: "nf_gql (Rules (Deny (graphql_of m))) = nf_gql (Rules (Deny (graphql_of n)))"
    by (rule gql_same_nf[OF cm(4) cn(4)], insert k', elim conjE, assumption)
  have e5: "nf_mcp (Rules (Allow (mcp_of m))) = nf_mcp (Rules (Allow (mcp_of n)))"
    by (rule mcp_same_nf[OF cm(5) cn(5)], insert k', elim conjE, assumption)
  have e6: "nf_mcp (Rules (Deny (mcp_of m))) = nf_mcp (Rules (Deny (mcp_of n)))"
    by (rule mcp_same_nf[OF cm(6) cn(6)], insert k', elim conjE, assumption)
  have e7: "nf_git (Rules (Allow (git_of m))) = nf_git (Rules (Allow (git_of n)))"
    by (rule git_same_nf[OF cm(7) cn(7)], insert k', elim conjE, assumption)
  have e8: "nf_git (Rules (Deny (git_of m))) = nf_git (Rules (Deny (git_of n)))"
    by (rule git_same_nf[OF cm(8) cn(8)], insert k', elim conjE, assumption)
  have e9: "nf_oci (Rules (Allow (oci_of m))) = nf_oci (Rules (Allow (oci_of n)))"
    by (rule oci_same_nf[OF cm(9) cn(9)], insert k', elim conjE, assumption)
  have e10: "nf_oci (Rules (Deny (oci_of m))) = nf_oci (Rules (Deny (oci_of n)))"
    by (rule oci_same_nf[OF cm(10) cn(10)], insert k', elim conjE, assumption)
  have e11: "nf_aws (Rules (Allow (aws_of m))) = nf_aws (Rules (Allow (aws_of n)))"
    by (rule aws_same_nf[OF cm(11) cn(11)], insert k', elim conjE, assumption)
  have e12: "nf_aws (Rules (Deny (aws_of m))) = nf_aws (Rules (Deny (aws_of n)))"
    by (rule aws_same_nf[OF cm(12) cn(12)], insert k', elim conjE, assumption)
  have e13: "nf_k8s (Rules (Allow (kubernetes_of m))) = nf_k8s (Rules (Allow (kubernetes_of n)))"
    by (rule k8s_same_nf[OF cm(13) cn(13)], insert k', elim conjE, assumption)
  have e14: "nf_k8s (Rules (Deny (kubernetes_of m))) = nf_k8s (Rules (Deny (kubernetes_of n)))"
    by (rule k8s_same_nf[OF cm(14) cn(14)], insert k', elim conjE, assumption)
  have e15: "nf_ep (Endpoints (graphql_of m)) = nf_ep (Endpoints (graphql_of n))"
    by (rule ep_same_nf[OF cm(15) cn(15)], insert k', elim conjE, assumption)
  have e16: "nf_ep (Endpoints (mcp_of m)) = nf_ep (Endpoints (mcp_of n))"
    by (rule ep_same_nf[OF cm(16) cn(16)], insert k', elim conjE, assumption)
  show ?thesis
    by (rule modules_eqI) (simp_all add: Normalize_fields e1 e2 e3 e4 e5 e6 e7 e8 e9 e10 e11 e12 e13 e14 e15 e16)
qed

text \<open>C12: \<open>Normalize\<close> is canonical: two validated policies have the same normal form exactly when they declare
  the same canonical keys in each of the sixteen collections. In particular reordering rules, hosts or
  services does not change the revision derived from it.\<close>

theorem Normalize_canonical:
  assumes "WorkspaceTemplateSemanticModules_Validate m denied = None"
    and "WorkspaceTemplateSemanticModules_Validate n denied' = None"
  shows "Normalize m = Normalize n \<longleftrightarrow> declared_keys m = declared_keys n"
  using same_keys_same_nf[OF assms] declared_keys_Normalize by metis

theorem Normalize_canonical_witness:
  "Normalize example_modules = Normalize (Normalize example_modules) \<and> example_modules \<noteq> Normalize example_modules"
proof -
  have v: "WorkspaceTemplateSemanticModules_Validate (Normalize example_modules) [''DELETE''] = None"
    "declared_keys example_modules = declared_keys (Normalize example_modules)"
    "example_modules \<noteq> Normalize example_modules" by code_simp+
  from Normalize_canonical[OF example_valid v(1)] v(2,3) show ?thesis by blast
qed

end
