(* ===== verification/Semantic_Properties.thy ===== *)
theory Semantic_Properties
  imports Identity_Material
begin

text \<open>
  The promises of the semantic-module layer: selection of one module for a classified request,
  malformed classifications, the identity material, the OCI token codec and path templates.
\<close>

section \<open>Selection of a module\<close>

text \<open>Selection succeeds exactly when all candidates are registered and at most one of them refines generic
  HTTP; the result is that refinement, or generic HTTP when there is none. Order and repetition of the
  candidates do not matter.\<close>

theorem SelectSemanticModule_spec:
  "(SelectSemanticModule cs = Inr m \<longleftrightarrow>
     set cs \<subseteq> set semanticModuleIDs \<and> m \<in> set cs \<and> set cs \<subseteq> {m, SemanticModuleHTTPGeneric}) \<and>
   (set cs = set ds \<longrightarrow> SelectSemanticModule cs = Inr m \<longrightarrow> SelectSemanticModule ds = Inr m)"
  unfolding select_iff by blast

theorem SelectSemanticModule_spec_witness:
  "SelectSemanticModule [SemanticModuleGit, SemanticModuleHTTPGeneric, SemanticModuleGit] = Inr SemanticModuleGit"
proof -
  have "set [SemanticModuleHTTPGeneric, SemanticModuleGit] =
      set [SemanticModuleGit, SemanticModuleHTTPGeneric, SemanticModuleGit]"
    "SelectSemanticModule [SemanticModuleHTTPGeneric, SemanticModuleGit] = Inr SemanticModuleGit" by code_simp+
  then show ?thesis using SelectSemanticModule_spec by blast
qed

text \<open>One malformed or unknown classification claim makes the whole selection fail: a request a module
  recognised but could not parse never falls back to generic HTTP.\<close>

theorem malformed_claim_never_falls_back:
  assumes "c \<in> set claims" and "claim_State c \<noteq> ''matched'' \<or> claim_ModuleID c \<notin> set semanticModuleIDs"
  shows "\<exists>e. SelectSemanticModuleClaims claims = Inl e"
proof (cases "SelectSemanticModuleClaims claims")
  case (Inr m)
  then have "\<forall>c \<in> set claims. claim_State c = ''matched''" "claim_ModuleID ` set claims \<subseteq> set semanticModuleIDs"
    by (simp_all add: claims_Inr select_iff)
  with assms show ?thesis by blast
qed simp

theorem malformed_claim_never_falls_back_witness:
  "\<exists>e. SelectSemanticModuleClaims
     [\<lparr> claim_ModuleID = SemanticModuleHTTPGeneric, claim_State = ''matched'' \<rparr>,
      \<lparr> claim_ModuleID = SemanticModuleGraphQL, claim_State = ''malformed'' \<rparr>] = Inl e"
  by (rule malformed_claim_never_falls_back[where c = "\<lparr> claim_ModuleID = SemanticModuleGraphQL, claim_State = ''malformed'' \<rparr>"])
    simp_all

section \<open>Protocol identities\<close>

text \<open>The material a validated identity contributes to opaque references determines the identity, and none
  of its fields contains a byte the references use as separator.\<close>

theorem identity_material_injective:
  assumes "PolicyProtocolIdentity_Validate i = None" and "PolicyProtocolIdentity_Validate j = None"
  shows "(appendSemanticModuleIdentity pre i = appendSemanticModuleIdentity pre j \<longleftrightarrow> i = j) \<and>
    (\<forall>x \<in> set (appendSemanticModuleIdentity [] i). NUL \<notin> set x \<and> US \<notin> set x)"
  using material_inject[OF assms] material_printable[OF assms(1)] printable_NUL printable_US
  by (auto simp: append_material identity_material_def[symmetric])

theorem identity_material_injective_witness:
  "appendSemanticModuleIdentity [''x''] (base_identity ''http'' ''http'') \<noteq>
   appendSemanticModuleIdentity [''x''] (base_identity ''https'' ''http'')"
proof -
  have v: "PolicyProtocolIdentity_Validate (base_identity ''http'' ''http'') = None"
    "PolicyProtocolIdentity_Validate (base_identity ''https'' ''http'') = None"
    "base_identity ''http'' ''http'' \<noteq> base_identity ''https'' ''http''" by code_simp+
  from identity_material_injective[OF v(1,2)] v(3) show ?thesis by blast
qed

text \<open>A validated identity belongs to exactly one module: it is the zero value of its scheme and protocol
  with nothing but the fields of its own module filled in.\<close>

theorem identity_has_only_its_module_fields:
  assumes "PolicyProtocolIdentity_Validate i = None"
  shows "(Protocol i = ''http'' \<or> \<not> (\<forall>f \<in> {graphqlFieldsSet, mcpFieldsSet, awsFieldsSet, kubernetesIdentityFieldsSet,
            gitFieldsSet, ociFieldsSet}. \<not> f i)) \<and>
    (graphqlFieldsSet i \<longrightarrow> Protocol i = ''graphql'') \<and> (mcpFieldsSet i \<longrightarrow> Protocol i = ''mcp'') \<and>
    (awsFieldsSet i \<longrightarrow> Protocol i = ''aws'') \<and> (kubernetesIdentityFieldsSet i \<longrightarrow> Protocol i = ''kubernetes'') \<and>
    (gitFieldsSet i \<longrightarrow> Protocol i = ''git'') \<and> (ociFieldsSet i \<longrightarrow> Protocol i = ''oci'')"
  using assms
proof (cases rule: protocol_cases)
  case http
  then show ?thesis
    by (simp add: validateHTTPModuleIdentity_def policyIdentityHasRefinement_def check_simps)
next
  case graphql
  then show ?thesis
    by (simp add: validateGraphQLModuleIdentity_def check_simps) (auto simp: graphqlFieldsSet_def)
next
  case mcp
  then show ?thesis
    by (simp add: validateMCPModuleIdentity_def check_simps) (auto simp: mcpFieldsSet_def)
next
  case aws
  then have "AWSService i \<noteq> []" by (auto simp: validateAWSModuleIdentity_def check_simps awsServicePattern_def)
  with aws show ?thesis
    by (simp add: validateAWSModuleIdentity_def check_simps awsFieldsSet_def)
next
  case kubernetes
  then have "KubernetesVerb i \<noteq> []"
    by (auto simp: validateKubernetesModuleIdentity_def check_simps validKubernetesVerb_def)
  with kubernetes show ?thesis
    by (simp add: validateKubernetesModuleIdentity_def check_simps kubernetesIdentityFieldsSet_def)
next
  case git
  then have "GitService i \<noteq> []" by (auto simp: validateGitModuleIdentity_def Let_def check_simps)
  with git show ?thesis
    by (simp add: validateGitModuleIdentity_def Let_def check_simps gitFieldsSet_def)
next
  case oci
  then have "OCIObject i \<noteq> []" by (auto simp: validateOCIModuleIdentity_def check_simps validProtocolCoordinate_def)
  with oci show ?thesis
    by (simp add: validateOCIModuleIdentity_def check_simps ociFieldsSet_def)
qed

theorem identity_has_only_its_module_fields_witness:
  "\<not> mcpFieldsSet ((base_identity ''https'' ''git'') \<lparr> GitService := ''upload-pack'', GitRepository := ''/a/b'' \<rparr>)"
proof -
  have v: "PolicyProtocolIdentity_Validate
      ((base_identity ''https'' ''git'') \<lparr> GitService := ''upload-pack'', GitRepository := ''/a/b'' \<rparr>) = None"
    by code_simp
  have "Protocol ((base_identity ''https'' ''git'') \<lparr> GitService := ''upload-pack'', GitRepository := ''/a/b'' \<rparr>) \<noteq> ''mcp''"
    by code_simp
  with identity_has_only_its_module_fields[OF v] show ?thesis by blast
qed

section \<open>OCI tokens\<close>

text \<open>The OCI token codec round-trips: decoding succeeds exactly on the canonical encoding of a non-empty
  UTF-8 string of at most 512 bytes and gives that string back; in particular no two encodings of one
  string are accepted.\<close>

theorem oci_token_roundtrip:
  "decodeCanonicalOCIQuotedToken t = Some s \<longleftrightarrow>
     t = canonicalOCIQuotedToken s \<and> s \<noteq> [] \<and> length s \<le> 512 \<and> utf8_ValidString s"
  by (rule decodeCanonical_iff)

section \<open>Path templates\<close>

text \<open>Inference is symmetric in the two observed paths, and the inferred template matches both of them unless
  one of its literals is longer than 4089 bytes, in which case the template validator refuses it.\<close>

theorem inferPathTemplate_sound:
  assumes "inferPathTemplate l r = Some (t, ss)"
  shows "inferPathTemplate r l = Some (t, ss) \<and> l \<noteq> r \<and>
    (if \<forall>s \<in> set ss. s \<noteq> PolicyPathTemplatePlaceholder \<longrightarrow> length s \<le> 4089
     then validatePathTemplate t ss = None \<and> pathTemplateMatches ss l \<and> pathTemplateMatches ss r
     else validatePathTemplate t ss \<noteq> None)"
proof -
  have ne: "l \<noteq> r"
  proof
    assume "l = r"
    with assms obtain ls where "infer_segments False ls ls = Some (True, ss)" by (auto simp: inferPathTemplate_Some)
    then show False using infer_segments_changed[of False ls ls True ss] by simp
  qed
  show ?thesis
    using assms ne inferPathTemplate_sym[of l r] inferPathTemplate_valid[OF assms] inferPathTemplate_matches[OF assms]
    by auto
qed

theorem inferPathTemplate_sound_witness:
  "pathTemplateMatches [''users'', ''{id}'', ''posts''] ''/users/7/posts'' \<and>
   pathTemplateMatches [''users'', ''{id}'', ''posts''] ''/users/8/posts''"
proof -
  have "inferPathTemplate ''/users/7/posts'' ''/users/8/posts'' = Some (''/users/{id}/posts'', [''users'', ''{id}'', ''posts''])"
    by code_simp
  from inferPathTemplate_sound[OF this] show ?thesis by simp
qed

text \<open>C37: The inference can produce a template that the validator refuses: two paths that agree on a literal of
  4090 bytes or more and differ in another segment infer a template whose literal check fails, because the
  check prepends \<open>/fixed/\<close> to the literal before it applies the path limit of 4096 bytes.\<close>

theorem inferred_template_can_be_invalid:
  "\<exists>l r t ss. validatePolicyPath l = None \<and> validatePolicyPath r = None \<and>
     inferPathTemplate l r = Some (t, ss) \<and> validatePathTemplate t ss \<noteq> None"
proof -
  define a where "a = replicate 4090 CHR ''a''"
  let ?l = "CHR ''/'' # strings_Join [a, ''1''] ''/''" and ?r = "CHR ''/'' # strings_Join [a, ''2''] ''/''"
  have len: "length a = 4090" and elems: "set a = {CHR ''a''}" by (simp_all add: a_def)
  have "list_all (\<lambda>c. byte c < 128) a" by (simp add: elems list_all_iff byte_def)
  then have "\<not> has_control a" by (simp add: elems has_control_def runes_ascii list_ex_iff control_rune_def byte_def)
  moreover have "a \<noteq> []" "a \<noteq> ''.''" "a \<noteq> ''..''" using len by auto
  ultimately have safe: "safe_segment a" "safe_segment ''1''" "safe_segment ''2''"
    using len elems by (simp add: safe_segment_def, code_simp+)
  have raw: "rawPathSegments ?l = Inr [a, ''1'']" "rawPathSegments ?r = Inr [a, ''2'']"
    using safe len by (simp_all add: rawPathSegments_iff)
  have i: "inferPathTemplate ?l ?r = Some (CHR ''/'' # strings_Join [a, ''{id}''] ''/'', [a, ''{id}''])"
    unfolding inferPathTemplate_Some using raw by auto
  have "\<not> (\<forall>s \<in> set [a, ''{id}'']. s \<noteq> PolicyPathTemplatePlaceholder \<longrightarrow> length s \<le> 4089)"
    using len safe_segment_neq_placeholder[OF safe(1)] by auto
  with inferPathTemplate_valid[OF i] have "validatePathTemplate (CHR ''/'' # strings_Join [a, ''{id}''] ''/'') [a, ''{id}''] \<noteq> None"
    by blast
  with i rawPathSegments_valid[OF raw(1)] rawPathSegments_valid[OF raw(2)] show ?thesis by blast
qed

end
