(* ===== verification/Policy_Rules.thy ===== *)
theory Policy_Rules
  imports Identity_Material
begin

text \<open>
  Policy learning (\<open>internal/domain/tobari/policy.go\<close>): Gateway denials, the exact permission
  candidates derived from them, learned Allow and Deny rules, the inventory of current decisions and
  the removal of one of them. Every record of the source that embeds a protocol identity and the
  request coordinates extends \<open>scoped_effect\<close>, which holds those shared fields.
\<close>

section \<open>Shared fields\<close>

record scoped_effect =
  Identity :: PolicyProtocolIdentity
  WorkspaceManifestID :: string
  WorkspaceManifestName :: string
  ProjectID :: string
  ProjectRoot :: string
  Host :: string
  Port :: int
  Method :: string
  Path :: string

definition effect_of :: "'a scoped_effect_scheme \<Rightarrow> SemanticRequestEffect" where
  "effect_of r =
     \<lparr> eff_Scheme = Scheme (Identity r), eff_Host = Host r, eff_Port = Port r, eff_Method = Method r,
       eff_Path = Path r, eff_Identity = Identity r \<rparr>"

text \<open>The checks from the scope to the method, which the validators repeat in this order.\<close>

definition coordinate_checks :: "string \<Rightarrow> 'a scoped_effect_scheme \<Rightarrow> check" where
  "coordinate_checks kind r =
     first_error
       [wrap (kind @ '' scope'') (validatePolicyScope (WorkspaceManifestID r) (WorkspaceManifestName r) (ProjectRoot r)),
        instead (kind @ '' project ID is invalid'') (ValidateWorkspaceID (ProjectID r)),
        reject (Host r = [] \<or> 253 < length (Host r) \<or> containsSpaceOrControl (Host r)) (kind @ '' host is invalid''),
        reject (Port r < 1 \<or> 65535 < Port r) (kind @ '' port is invalid''),
        reject (\<not> httpMethodPattern (Method r)) (kind @ '' method is invalid'')]"

section \<open>Denials\<close>

record PolicyDenial = scoped_effect +
  den_Timestamp :: string
  den_RequestID :: string
  den_Reason :: string
  den_StatusCode :: int
  den_Learnable :: bool
  den_DestinationKind :: string
  den_AuthorityLifetime :: string
  den_AttachmentEpochID :: string

definition effective_destination :: "string \<Rightarrow> string" where
  "effective_destination kind = (if kind = [] then PolicyDestinationExternal else kind)"

definition effective_lifetime :: "string \<Rightarrow> string" where
  "effective_lifetime lifetime = (if lifetime = [] then AuthorityLifetimePersistent else lifetime)"

definition den_EffectiveDestinationKind :: "PolicyDenial \<Rightarrow> string" where
  "den_EffectiveDestinationKind d = effective_destination (den_DestinationKind d)"

definition den_EffectiveAuthorityLifetime :: "PolicyDenial \<Rightarrow> string" where
  "den_EffectiveAuthorityLifetime d = effective_lifetime (den_AuthorityLifetime d)"

definition PolicyDenial_Validate :: "PolicyDenial \<Rightarrow> check" where
  "PolicyDenial_Validate d =
     first_error
       [wrap ''denial protocol identity'' (PolicyProtocolIdentity_Validate (Identity d)),
        reject (time_Parse (den_Timestamp d) = None) ''denial timestamp is invalid'',
        reject (\<not> requestIDPattern (den_RequestID d)) ''denial request ID is invalid'',
        coordinate_checks ''denial'' d,
        instead ''denial path is invalid'' (validatePolicyPath (Path d)),
        wrap ''denial semantic effect'' (SemanticRequestEffect_Validate (effect_of d)),
        reject (den_Reason d = [] \<or> 1024 < length (den_Reason d)) ''denial reason is invalid'',
        reject (den_StatusCode d < 400 \<or> 599 < den_StatusCode d) ''denial status code is invalid'',
        (if den_EffectiveDestinationKind d = PolicyDestinationHostLoopback then
           reject (den_EffectiveAuthorityLifetime d \<noteq> AuthorityLifetimeAttachment
                   \<or> ValidateAttachmentEpochID (den_AttachmentEpochID d) \<noteq> None
                   \<or> Host d \<noteq> HostLoopbackHostname \<or> Scheme (Identity d) \<noteq> ''http''
                   \<or> ValidateHostLoopbackPort (Port d) \<noteq> None) ''denial Host Loopback authority is invalid''
         else
           reject (den_EffectiveDestinationKind d \<noteq> PolicyDestinationExternal
                   \<or> den_EffectiveAuthorityLifetime d \<noteq> AuthorityLifetimePersistent
                   \<or> den_AttachmentEpochID d \<noteq> []) ''denial destination authority is invalid'')]"

record DenialRead =
  read_Items :: "PolicyDenial list option"
  read_UnparsedLines :: int

definition DenialRead_Validate :: "DenialRead \<Rightarrow> check" where
  "DenialRead_Validate r =
     first_error
       [reject (read_Items r = None) ''denial read collection is unknown'',
        reject (read_UnparsedLines r < 0) ''denial read unparsed line count is invalid'',
        check_each PolicyDenial_Validate (elems (read_Items r))]"

section \<open>Projection identity\<close>

definition ValidateDigest :: "string \<Rightarrow> check" where
  "ValidateDigest d = reject (\<not> digestPattern d) ''digest must be sha256 followed by 64 lowercase hex characters''"

record PolicyEvaluatorIdentity =
  evaluator_SchemaVersion :: int
  evaluator_Version :: string
  evaluator_Digest :: string

definition PolicyEvaluatorIdentity_Validate :: "PolicyEvaluatorIdentity \<Rightarrow> check" where
  "PolicyEvaluatorIdentity_Validate i =
     first_error
       [reject (evaluator_SchemaVersion i \<noteq> 1 \<or> evaluator_Version i = []
                \<or> strings_ContainsAny (evaluator_Version i) [CHR '' '', CHR 0x09, CHR 0x0D, CHR 0x0A])
          ''policy evaluator identity metadata is invalid'',
        wrap ''policy evaluator identity digest'' (ValidateDigest (evaluator_Digest i))]"

record PolicyDataIdentity =
  data_SchemaVersion :: int
  data_Digest :: string

definition PolicyDataIdentity_Validate :: "PolicyDataIdentity \<Rightarrow> check" where
  "PolicyDataIdentity_Validate i =
     first_error
       [reject (data_SchemaVersion i \<noteq> 1) ''policy data identity metadata is invalid'',
        wrap ''policy data identity digest'' (ValidateDigest (data_Digest i))]"

record PolicyProjectionIdentity =
  AggregateRevision :: string
  EvaluatorIdentity :: PolicyEvaluatorIdentity
  PolicyDataIdentity_of :: PolicyDataIdentity

definition PolicyProjectionIdentity_Validate :: "PolicyProjectionIdentity \<Rightarrow> check" where
  "PolicyProjectionIdentity_Validate i =
     first_error
       [reject (\<not> policyRevisionPattern (AggregateRevision i)) ''aggregate policy revision is invalid'',
        wrap ''aggregate evaluator identity'' (PolicyEvaluatorIdentity_Validate (EvaluatorIdentity i)),
        wrap ''aggregate policy-data identity'' (PolicyDataIdentity_Validate (PolicyDataIdentity_of i))]"

definition zero_evaluator :: PolicyEvaluatorIdentity where
  "zero_evaluator = \<lparr> evaluator_SchemaVersion = 0, evaluator_Version = [], evaluator_Digest = [] \<rparr>"
definition zero_data :: PolicyDataIdentity where
  "zero_data = \<lparr> data_SchemaVersion = 0, data_Digest = [] \<rparr>"
definition zero_projection :: PolicyProjectionIdentity where
  "zero_projection = \<lparr> AggregateRevision = [], EvaluatorIdentity = zero_evaluator, PolicyDataIdentity_of = zero_data \<rparr>"

record DenialReport =
  dr_Task :: string
  dr_Projection :: PolicyProjectionIdentity
  dr_WindowLines :: int
  dr_UnparsedLines :: int
  dr_Items :: "PolicyDenial list option"

definition DenialReport_Validate :: "DenialReport \<Rightarrow> check" where
  "DenialReport_Validate r =
     first_error
       [reject (dr_Task r \<noteq> ''cluster.denials'') ''denial report task identity is invalid'',
        wrap ''denial report projection identity'' (PolicyProjectionIdentity_Validate (dr_Projection r)),
        reject (dr_WindowLines r < 1 \<or> 10000 < dr_WindowLines r) ''denial report window is invalid'',
        reject (dr_UnparsedLines r < 0 \<or> dr_WindowLines r < dr_UnparsedLines r)
          ''denial report unparsed line count is invalid'',
        reject (dr_Items r = None) ''denial report collection is unknown'',
        check_each PolicyDenial_Validate (elems (dr_Items r))]"

section \<open>Candidates\<close>

record PolicyCandidate = scoped_effect +
  cand_ID :: string
  cand_ObservedAt :: string
  cand_ObservationCount :: int
  cand_Reason :: string
  cand_StatusCode :: int
  cand_DestinationKind :: string
  cand_AuthorityLifetime :: string
  cand_AttachmentEpochID :: string

definition cand_EffectiveDestinationKind :: "PolicyCandidate \<Rightarrow> string" where
  "cand_EffectiveDestinationKind c = effective_destination (cand_DestinationKind c)"

definition cand_EffectiveAuthorityLifetime :: "PolicyCandidate \<Rightarrow> string" where
  "cand_EffectiveAuthorityLifetime c = effective_lifetime (cand_AuthorityLifetime c)"

text \<open>The fields hashed into the opaque reference of a candidate.\<close>

definition candidate_material :: "PolicyDenial \<Rightarrow> string list" where
  "candidate_material d =
     (let material =
        appendSemanticModuleIdentity
          [''tobari-policy-candidate-v2'', WorkspaceManifestID d, Host d, strconv_Itoa (Port d), Method d, Path d]
          (Identity d)
      in if den_EffectiveDestinationKind d = PolicyDestinationHostLoopback
         then material @ [ProjectID d, den_EffectiveDestinationKind d, den_EffectiveAuthorityLifetime d,
                          den_AttachmentEpochID d]
         else material)"

definition candidate_of :: "PolicyDenial \<Rightarrow> PolicyCandidate" where
  "candidate_of d =
     \<lparr> Identity = Identity d, WorkspaceManifestID = WorkspaceManifestID d,
       WorkspaceManifestName = WorkspaceManifestName d, ProjectID = ProjectID d, ProjectRoot = ProjectRoot d,
       Host = Host d, Port = Port d, Method = Method d, Path = Path d,
       cand_ID = ''pcy_'' @ digest16 (strings_Join (candidate_material d) [NUL]),
       cand_ObservedAt = den_Timestamp d, cand_ObservationCount = 1,
       cand_Reason = den_Reason d, cand_StatusCode = den_StatusCode d,
       cand_DestinationKind = den_DestinationKind d, cand_AuthorityLifetime = den_AuthorityLifetime d,
       cand_AttachmentEpochID = den_AttachmentEpochID d \<rparr>"

definition NewPolicyCandidate :: "PolicyDenial \<Rightarrow> PolicyCandidate result" where
  "NewPolicyCandidate d =
     checked
       (first_error
          [PolicyDenial_Validate d,
           reject (\<not> den_Learnable d) ''denial cannot be resolved by an exact learned rule''])
       (candidate_of d)"

text \<open>The denial a candidate is checked against, with a placeholder request ID.\<close>

definition candidate_denial :: "PolicyCandidate \<Rightarrow> PolicyDenial" where
  "candidate_denial c =
     \<lparr> Identity = Identity c, WorkspaceManifestID = WorkspaceManifestID c,
       WorkspaceManifestName = WorkspaceManifestName c, ProjectID = ProjectID c, ProjectRoot = ProjectRoot c,
       Host = Host c, Port = Port c, Method = Method c, Path = Path c,
       den_Timestamp = cand_ObservedAt c, den_RequestID = replicate 32 CHR ''0'', den_Reason = cand_Reason c,
       den_StatusCode = cand_StatusCode c, den_Learnable = True, den_DestinationKind = cand_DestinationKind c,
       den_AuthorityLifetime = cand_AuthorityLifetime c, den_AttachmentEpochID = cand_AttachmentEpochID c \<rparr>"

definition PolicyCandidate_Validate :: "PolicyCandidate \<Rightarrow> check" where
  "PolicyCandidate_Validate c =
     first_error
       [wrap ''policy candidate protocol identity'' (PolicyProtocolIdentity_Validate (Identity c)),
        ValidatePolicyCandidateID (cand_ID c),
        reject (time_Parse (cand_ObservedAt c) = None) ''policy candidate timestamp is invalid'',
        reject (cand_ObservationCount c < 1) ''policy candidate observation count is invalid'',
        coordinate_checks ''policy candidate'' c,
        instead ''policy candidate path is invalid'' (validatePolicyPath (Path c)),
        reject (cand_Reason c = [] \<or> 1024 < length (cand_Reason c)) ''policy candidate reason is invalid'',
        reject (cand_StatusCode c < 400 \<or> 599 < cand_StatusCode c) ''policy candidate status is invalid'',
        wrap ''policy candidate authority'' (PolicyDenial_Validate (candidate_denial c))]"

section \<open>Sorted evidence\<close>

text \<open>The loops of \<open>validateSortedUniquePaths\<close> and \<open>validateSortedUniqueCandidateIDs\<close>.\<close>

fun sorted_unique_check :: "(string \<Rightarrow> check) \<Rightarrow> error \<Rightarrow> string option \<Rightarrow> string list \<Rightarrow> check" where
  "sorted_unique_check v e previous [] = None"
| "sorted_unique_check v e previous (x # xs) =
     first_error
       [v x, reject (case previous of None \<Rightarrow> False | Some p \<Rightarrow> x \<le> p) e, sorted_unique_check v e (Some x) xs]"

definition validateSortedUniquePaths :: "string list \<Rightarrow> check" where
  "validateSortedUniquePaths xs = sorted_unique_check validatePolicyPath ''paths must be unique and sorted'' None xs"

definition validateSortedUniqueCandidateIDs :: "string list \<Rightarrow> check" where
  "validateSortedUniqueCandidateIDs xs =
     sorted_unique_check ValidatePolicyCandidateID ''candidate IDs must be unique and sorted'' None xs"

section \<open>Deny rules\<close>

record PolicyDenyRule = scoped_effect +
  deny_ID :: string
  deny_SourceCandidates :: "string list"

definition policyDenyRuleIDWithIdentity ::
    "string \<Rightarrow> string \<Rightarrow> string \<Rightarrow> int \<Rightarrow> string \<Rightarrow> string \<Rightarrow> string list \<Rightarrow> PolicyProtocolIdentity \<Rightarrow> string" where
  "policyDenyRuleIDWithIdentity contextID projectID host port method path sources i =
     ''pdr_'' @ digest16 (strings_Join
       (appendSemanticModuleIdentity
          [''tobari-policy-deny-v1'', contextID, projectID, host, strconv_Itoa port, method, path,
           strings_Join sources [US]] i) [NUL])"

definition deny_id_of :: "PolicyDenyRule \<Rightarrow> string" where
  "deny_id_of r =
     policyDenyRuleIDWithIdentity (WorkspaceManifestID r) (ProjectID r) (Host r) (Port r) (Method r) (Path r)
       (deny_SourceCandidates r) (Identity r)"

definition NewExactPolicyDenyRule :: "PolicyCandidate \<Rightarrow> PolicyDenyRule result" where
  "NewExactPolicyDenyRule c =
     checked
       (first_error
          [PolicyCandidate_Validate c,
           reject (cand_EffectiveDestinationKind c \<noteq> PolicyDestinationExternal
                   \<or> cand_EffectiveAuthorityLifetime c \<noteq> AuthorityLifetimePersistent)
             ''attachment candidate cannot become a persistent deny rule''])
       (let rule =
          \<lparr> Identity = Identity c, WorkspaceManifestID = WorkspaceManifestID c,
            WorkspaceManifestName = WorkspaceManifestName c, ProjectID = ProjectID c, ProjectRoot = ProjectRoot c,
            Host = Host c, Port = Port c, Method = Method c, Path = Path c,
            deny_ID = [], deny_SourceCandidates = [cand_ID c] \<rparr>
        in rule\<lparr> deny_ID := deny_id_of rule \<rparr>)"

definition PolicyDenyRule_Validate :: "PolicyDenyRule \<Rightarrow> check" where
  "PolicyDenyRule_Validate r =
     first_error
       [wrap ''policy deny rule protocol identity'' (PolicyProtocolIdentity_Validate (Identity r)),
        reject (\<not> policyDenyRuleIDPattern (deny_ID r)) ''policy deny rule ID is invalid'',
        coordinate_checks ''policy deny rule'' r,
        instead ''policy deny rule path is invalid'' (validatePolicyPath (Path r)),
        wrap ''policy deny rule semantic effect'' (SemanticRequestEffect_Validate (effect_of r)),
        wrap ''policy deny rule sources'' (validateSortedUniqueCandidateIDs (deny_SourceCandidates r)),
        reject (length (deny_SourceCandidates r) \<noteq> 1) ''exact policy deny rule must have one source candidate'',
        reject (deny_ID r \<noteq> deny_id_of r) ''policy deny rule ID does not bind its content'']"

text \<open>The request a rule is compared with.\<close>

definition request_effect :: "string \<Rightarrow> int \<Rightarrow> string \<Rightarrow> string \<Rightarrow> PolicyProtocolIdentity \<Rightarrow> SemanticRequestEffect" where
  "request_effect host port method path i =
     \<lparr> eff_Scheme = Scheme i, eff_Host = host, eff_Port = port, eff_Method = method, eff_Path = path, eff_Identity = i \<rparr>"

definition PolicyDenyRule_MatchesIdentity ::
    "PolicyDenyRule \<Rightarrow> string \<Rightarrow> string \<Rightarrow> string \<Rightarrow> int \<Rightarrow> string \<Rightarrow> string \<Rightarrow> PolicyProtocolIdentity \<Rightarrow> bool" where
  "PolicyDenyRule_MatchesIdentity r contextID projectID host port method path i =
     (WorkspaceManifestID r = contextID \<and> ProjectID r = projectID
      \<and> semanticExactEffectMatches (effect_of r) (request_effect host port method path i))"

record PolicyDenyRuleSet =
  Exact :: "PolicyDenyRule list option"

definition PolicyDenyRuleSet_Validate :: "PolicyDenyRuleSet \<Rightarrow> check" where
  "PolicyDenyRuleSet_Validate s =
     first_error
       [reject (Exact s = None) ''policy deny rule collections are unknown'',
        check_items PolicyDenyRule_Validate deny_ID ''policy deny rule IDs must be unique'' [] (elems (Exact s))]"

definition PolicyDenyRuleSet_Matches :: "PolicyDenyRuleSet \<Rightarrow> PolicyDenial \<Rightarrow> bool" where
  "PolicyDenyRuleSet_Matches s d =
     list_ex (\<lambda>r. PolicyDenyRule_MatchesIdentity r (WorkspaceManifestID d) (ProjectID d) (Host d) (Port d)
                    (Method d) (Path d) (Identity d)) (elems (Exact s))"

section \<open>Learned rules\<close>

record LearnedPolicyRule = scoped_effect +
  lr_ID :: string
  lr_Match :: string
  lr_Segments :: "string list"
  lr_Examples :: "string list option"
  lr_SourceCandidates :: "string list option"

definition learnedRuleIDWithIdentity ::
    "string \<Rightarrow> string \<Rightarrow> string \<Rightarrow> string \<Rightarrow> int \<Rightarrow> string \<Rightarrow> string \<Rightarrow> string list \<Rightarrow> string list
     \<Rightarrow> PolicyProtocolIdentity \<Rightarrow> string" where
  "learnedRuleIDWithIdentity mtch contextID projectID host port method path examples sources i =
     ''plr_'' @ digest16 (strings_Join
       (appendSemanticModuleIdentity
          [''tobari-learned-rule-v2'', mtch, contextID, projectID, host, strconv_Itoa port, method, path,
           strings_Join examples [US], strings_Join sources [US]] i) [NUL])"

definition learned_id_of :: "LearnedPolicyRule \<Rightarrow> string" where
  "learned_id_of r =
     learnedRuleIDWithIdentity (lr_Match r) (WorkspaceManifestID r) (ProjectID r) (Host r) (Port r) (Method r) (Path r)
       (elems (lr_Examples r)) (elems (lr_SourceCandidates r)) (Identity r)"

definition NewExactLearnedPolicyRule :: "PolicyCandidate \<Rightarrow> LearnedPolicyRule result" where
  "NewExactLearnedPolicyRule c =
     checked
       (first_error
          [PolicyCandidate_Validate c,
           reject (cand_EffectiveDestinationKind c \<noteq> PolicyDestinationExternal
                   \<or> cand_EffectiveAuthorityLifetime c \<noteq> AuthorityLifetimePersistent)
             ''attachment candidate cannot become a persistent learned rule''])
       (let rule =
          \<lparr> Identity = Identity c, WorkspaceManifestID = WorkspaceManifestID c,
            WorkspaceManifestName = WorkspaceManifestName c, ProjectID = ProjectID c, ProjectRoot = ProjectRoot c,
            Host = Host c, Port = Port c, Method = Method c, Path = Path c,
            lr_ID = [], lr_Match = ''exact'', lr_Segments = [], lr_Examples = Some [Path c],
            lr_SourceCandidates = Some [cand_ID c] \<rparr>
        in rule\<lparr> lr_ID := learned_id_of rule \<rparr>)"

definition LearnedPolicyRule_Validate :: "LearnedPolicyRule \<Rightarrow> check" where
  "LearnedPolicyRule_Validate r =
     (let minimumEvidence = (if lr_Match r = ''path_template'' then 2 else 1);
          examples = elems (lr_Examples r); sources = elems (lr_SourceCandidates r)
      in first_error
       [wrap ''learned rule protocol identity'' (PolicyProtocolIdentity_Validate (Identity r)),
        reject (\<not> learnedRuleIDPattern (lr_ID r)) ''learned rule ID is invalid'',
        reject (\<not> validPolicyMatch (lr_Match r)) ''learned rule match is invalid'',
        coordinate_checks ''learned rule'' r,
        (if lr_Match r = ''exact'' then
           first_error
             [instead ''learned rule path is invalid'' (validatePolicyPath (Path r)),
              wrap ''learned rule semantic effect'' (SemanticRequestEffect_Validate (effect_of r))]
         else wrap ''learned rule path template is invalid'' (validatePathTemplate (Path r) (lr_Segments r))),
        reject (lr_Examples r = None \<or> lr_SourceCandidates r = None) ''learned rule evidence is unknown'',
        reject (length examples < minimumEvidence \<or> length sources < minimumEvidence)
          ''learned rule has insufficient evidence'',
        wrap ''learned rule examples'' (validateSortedUniquePaths examples),
        wrap ''learned rule sources'' (validateSortedUniqueCandidateIDs sources),
        check_each
          (\<lambda>example. first_error
             [reject (lr_Match r = ''exact'' \<and> example \<noteq> Path r) ''exact learned rule example must equal its path'',
              reject (lr_Match r = ''path_template'' \<and> \<not> pathTemplateMatches (lr_Segments r) example)
                ''path-template learned rule example must match its template'']) examples,
        reject (lr_Match r = ''exact'' \<and> length (lr_Segments r) \<noteq> 0)
          ''exact learned rule cannot contain template segments'',
        reject (lr_Match r = ''path_template'' \<and> Protocol (Identity r) \<noteq> ''http'')
          ''non-HTTP learned rules cannot use a path template'',
        reject (lr_ID r \<noteq> learned_id_of r) ''learned rule ID does not bind its content''])"

definition ValidateLearnedPolicyRules :: "LearnedPolicyRule list option \<Rightarrow> check" where
  "ValidateLearnedPolicyRules rules =
     first_error
       [reject (rules = None) ''learned rule collection is unknown'',
        check_items LearnedPolicyRule_Validate lr_ID ''learned rule IDs must be unique'' [] (elems rules)]"

definition LearnedPolicyRule_MatchesIdentity ::
    "LearnedPolicyRule \<Rightarrow> string \<Rightarrow> string \<Rightarrow> string \<Rightarrow> int \<Rightarrow> string \<Rightarrow> string \<Rightarrow> PolicyProtocolIdentity \<Rightarrow> bool" where
  "LearnedPolicyRule_MatchesIdentity r contextID projectID host port method path i =
     (let left = effect_of r; right = request_effect host port method path i in
      if WorkspaceManifestID r \<noteq> contextID \<or> ProjectID r \<noteq> projectID then False
      else if lr_Match r = ''exact'' then semanticExactEffectMatches left right
      else if lr_Match r = ''path_template'' then
        eff_Scheme left = eff_Scheme right \<and> eff_Host left = eff_Host right \<and> eff_Port left = eff_Port right
        \<and> eff_Method left = eff_Method right \<and> semanticModuleMatches (eff_Identity left) (eff_Identity right)
        \<and> pathTemplateMatches (lr_Segments r) (eff_Path right)
      else False)"

section \<open>Validity in closed form\<close>

lemma sorted_unique_None [check_simps]:
  "sorted_unique_check v e p xs = None \<longleftrightarrow>
     (\<forall>x \<in> set xs. v x = None) \<and> sorted_wrt (<) xs \<and> (\<forall>q. p = Some q \<longrightarrow> (\<forall>x \<in> set xs. q < x))"
proof (induction xs arbitrary: p)
  case (Cons x xs)
  show ?case
    by (cases p) (auto simp: Cons check_simps not_le intro: less_trans)
qed simp

lemma coordinates_None:
  "coordinate_checks kind r = None \<longleftrightarrow> coordinate_checks kind' r = None"
  by (simp add: coordinate_checks_def check_simps)

lemma coordinates_cong:
  assumes "WorkspaceManifestID r = WorkspaceManifestID s" "WorkspaceManifestName r = WorkspaceManifestName s"
    "ProjectID r = ProjectID s" "ProjectRoot r = ProjectRoot s" "Host r = Host s" "Port r = Port s" "Method r = Method s"
  shows "coordinate_checks kind r = coordinate_checks kind s"
  using assms by (simp add: coordinate_checks_def)

lemma candidate_of_fields [simp]:
  "Identity (candidate_of d) = Identity d" "WorkspaceManifestID (candidate_of d) = WorkspaceManifestID d"
  "WorkspaceManifestName (candidate_of d) = WorkspaceManifestName d" "ProjectID (candidate_of d) = ProjectID d"
  "ProjectRoot (candidate_of d) = ProjectRoot d" "Host (candidate_of d) = Host d" "Port (candidate_of d) = Port d"
  "Method (candidate_of d) = Method d" "Path (candidate_of d) = Path d"
  "cand_ObservedAt (candidate_of d) = den_Timestamp d" "cand_ObservationCount (candidate_of d) = 1"
  "cand_Reason (candidate_of d) = den_Reason d" "cand_StatusCode (candidate_of d) = den_StatusCode d"
  "cand_DestinationKind (candidate_of d) = den_DestinationKind d"
  "cand_AuthorityLifetime (candidate_of d) = den_AuthorityLifetime d"
  "cand_AttachmentEpochID (candidate_of d) = den_AttachmentEpochID d"
  "cand_ID (candidate_of d) = ''pcy_'' @ digest16 (strings_Join (candidate_material d) [NUL])"
  by (simp_all add: candidate_of_def)

lemma candidate_id_valid [simp]: "ValidatePolicyCandidateID (''pcy_'' @ digest16 s) = None"
  unfolding ValidatePolicyCandidateID_def policyCandidateIDPattern_def reject_None
  by (simp del: append_Cons append_Nil)

lemma zero_request_id: "requestIDPattern (replicate 32 CHR ''0'')"
  by code_simp

text \<open>The destination of a request: attachment-local Host Loopback or persistent external.\<close>

definition destination_ok :: "string \<Rightarrow> string \<Rightarrow> string \<Rightarrow> SemanticRequestEffect \<Rightarrow> bool" where
  "destination_ok kind lifetime epoch e =
     (if effective_destination kind = PolicyDestinationHostLoopback
      then effective_lifetime lifetime = AuthorityLifetimeAttachment \<and> attachmentEpochPattern epoch
           \<and> eff_Host e = HostLoopbackHostname \<and> eff_Scheme e = ''http'' \<and> 1024 \<le> eff_Port e \<and> eff_Port e \<le> 65535
      else effective_destination kind = PolicyDestinationExternal
           \<and> effective_lifetime lifetime = AuthorityLifetimePersistent \<and> epoch = [])"

lemma effect_of_fields [simp]:
  "eff_Scheme (effect_of r) = Scheme (Identity r)" "eff_Host (effect_of r) = Host r" "eff_Port (effect_of r) = Port r"
  "eff_Method (effect_of r) = Method r" "eff_Path (effect_of r) = Path r" "eff_Identity (effect_of r) = Identity r"
  by (simp_all add: effect_of_def)

lemma effect_valid_parts:
  assumes "SemanticRequestEffect_Validate e = None"
  shows "PolicyProtocolIdentity_Validate (eff_Identity e) = None" and "validatePolicyPath (eff_Path e) = None"
    and "validNormalizedPolicyHost (eff_Host e)" and "httpMethodPattern (eff_Method e)"
    and "1 \<le> eff_Port e" and "eff_Port e \<le> 65535" and "eff_Scheme e = Scheme (eff_Identity e)"
  using assms by (simp_all add: SemanticRequestEffect_Validate_def check_simps)

lemma denial_valid_iff:
  "PolicyDenial_Validate d = None \<longleftrightarrow>
     time_Parse (den_Timestamp d) \<noteq> None \<and> requestIDPattern (den_RequestID d) \<and>
     coordinate_checks ''denial'' d = None \<and> SemanticRequestEffect_Validate (effect_of d) = None \<and>
     den_Reason d \<noteq> [] \<and> length (den_Reason d) \<le> 1024 \<and> 400 \<le> den_StatusCode d \<and> den_StatusCode d \<le> 599 \<and>
     destination_ok (den_DestinationKind d) (den_AuthorityLifetime d) (den_AttachmentEpochID d) (effect_of d)"
proof -
  have "(if den_EffectiveDestinationKind d = PolicyDestinationHostLoopback then
           reject (den_EffectiveAuthorityLifetime d \<noteq> AuthorityLifetimeAttachment
                   \<or> ValidateAttachmentEpochID (den_AttachmentEpochID d) \<noteq> None
                   \<or> Host d \<noteq> HostLoopbackHostname \<or> Scheme (Identity d) \<noteq> ''http''
                   \<or> ValidateHostLoopbackPort (Port d) \<noteq> None) e
         else reject (den_EffectiveDestinationKind d \<noteq> PolicyDestinationExternal
                   \<or> den_EffectiveAuthorityLifetime d \<noteq> AuthorityLifetimePersistent
                   \<or> den_AttachmentEpochID d \<noteq> []) f) = None \<longleftrightarrow>
      destination_ok (den_DestinationKind d) (den_AuthorityLifetime d) (den_AttachmentEpochID d) (effect_of d)" for e f
    by (simp add: destination_ok_def den_EffectiveDestinationKind_def den_EffectiveAuthorityLifetime_def
        check_simps id_check_defs not_less conj_ac)
  moreover have "SemanticRequestEffect_Validate (effect_of d) = None \<Longrightarrow>
      PolicyProtocolIdentity_Validate (Identity d) = None \<and> validatePolicyPath (Path d) = None"
    using effect_valid_parts[of "effect_of d"] by simp
  ultimately show ?thesis
    unfolding PolicyDenial_Validate_def check_simps by (auto simp: not_less)
qed

lemma candidate_denial_fields:
  "coordinate_checks kind (candidate_denial c) = coordinate_checks kind c" "effect_of (candidate_denial c) = effect_of c"
  "den_Timestamp (candidate_denial c) = cand_ObservedAt c" "requestIDPattern (den_RequestID (candidate_denial c))"
  "den_Reason (candidate_denial c) = cand_Reason c" "den_StatusCode (candidate_denial c) = cand_StatusCode c"
  "den_DestinationKind (candidate_denial c) = cand_DestinationKind c"
  "den_AuthorityLifetime (candidate_denial c) = cand_AuthorityLifetime c"
  "den_AttachmentEpochID (candidate_denial c) = cand_AttachmentEpochID c"
proof -
  show "requestIDPattern (den_RequestID (candidate_denial c))" using zero_request_id by (simp add: candidate_denial_def)
qed (simp_all add: candidate_denial_def coordinate_checks_def effect_of_def)

lemma candidate_valid_iff:
  "PolicyCandidate_Validate c = None \<longleftrightarrow>
     policyCandidateIDPattern (cand_ID c) \<and> 1 \<le> cand_ObservationCount c \<and>
     time_Parse (cand_ObservedAt c) \<noteq> None \<and> coordinate_checks ''denial'' c = None \<and>
     SemanticRequestEffect_Validate (effect_of c) = None \<and>
     cand_Reason c \<noteq> [] \<and> length (cand_Reason c) \<le> 1024 \<and> 400 \<le> cand_StatusCode c \<and> cand_StatusCode c \<le> 599 \<and>
     destination_ok (cand_DestinationKind c) (cand_AuthorityLifetime c) (cand_AttachmentEpochID c) (effect_of c)"
proof -
  have "SemanticRequestEffect_Validate (effect_of c) = None \<Longrightarrow>
      PolicyProtocolIdentity_Validate (Identity c) = None \<and> validatePolicyPath (Path c) = None"
    using effect_valid_parts[of "effect_of c"] by simp
  then show ?thesis
    unfolding PolicyCandidate_Validate_def check_simps ValidatePolicyCandidateID_def denial_valid_iff
      candidate_denial_fields coordinates_None[of "''policy candidate''" _ "''denial''"]
    by (auto simp: not_less candidate_denial_fields(4))
qed

lemma candidate_of_effect [simp]:
  "effect_of (candidate_of d) = effect_of d" "coordinate_checks kind (candidate_of d) = coordinate_checks kind d"
  by (simp_all add: coordinate_checks_def effect_of_def)

lemma candidate_of_valid:
  assumes "PolicyDenial_Validate d = None"
  shows "PolicyCandidate_Validate (candidate_of d) = None"
proof -
  have "policyCandidateIDPattern (cand_ID (candidate_of d))"
    using candidate_id_valid unfolding ValidatePolicyCandidateID_def check_simps candidate_of_fields by blast
  then show ?thesis
    using assms unfolding denial_valid_iff candidate_valid_iff candidate_of_fields(10-16) candidate_of_effect by simp
qed

lemma NewPolicyCandidate_Inr:
  "NewPolicyCandidate d = Inr c \<longleftrightarrow> PolicyDenial_Validate d = None \<and> den_Learnable d \<and> c = candidate_of d"
  by (auto simp: NewPolicyCandidate_def check_simps)


section \<open>Exact rules bind their candidate\<close>

lemma exact_effect_matches:
  "semanticExactEffectMatches l r \<longleftrightarrow> SemanticRequestEffect_Validate l = None \<and> l = r"
proof
  assume m: "semanticExactEffectMatches l r"
  then have "eff_Identity l = eff_Identity r"
    by (simp only: semanticExactEffectMatches_def identity_matches_iff)
  with m show "SemanticRequestEffect_Validate l = None \<and> l = r"
    by (simp only: semanticExactEffectMatches_def) (intro conjI SemanticRequestEffect.equality, simp_all)
next
  assume a: "SemanticRequestEffect_Validate l = None \<and> l = r"
  then have v: "SemanticRequestEffect_Validate l = None" and r: "r = l" by blast+
  have "Protocol (eff_Identity l) \<in> set policyProtocolValues"
    by (rule protocol_known[OF effect_valid_parts(1)[OF v]])
  with v show "semanticExactEffectMatches l r"
    unfolding r semanticExactEffectMatches_def identity_matches_iff by (intro conjI refl)
qed

lemma deny_id_pattern: "policyDenyRuleIDPattern (deny_id_of r)"
  unfolding policyDenyRuleIDPattern_def deny_id_of_def policyDenyRuleIDWithIdentity_def by (rule prefixed_digest16)

lemma learned_id_pattern: "learnedRuleIDPattern (learned_id_of r)"
  unfolding learnedRuleIDPattern_def learned_id_of_def learnedRuleIDWithIdentity_def by (rule prefixed_digest16)

lemma external_iff:
  "destination_ok kind lifetime epoch e \<Longrightarrow>
     (effective_destination kind \<noteq> PolicyDestinationExternal \<or> effective_lifetime lifetime \<noteq> AuthorityLifetimePersistent)
     \<longleftrightarrow> effective_destination kind = PolicyDestinationHostLoopback"
  by (cases "effective_destination kind = PolicyDestinationHostLoopback") (simp_all add: destination_ok_def)

lemma NewExactPolicyDenyRule_Inr:
  "NewExactPolicyDenyRule c = Inr r \<longleftrightarrow>
     PolicyCandidate_Validate c = None \<and> cand_EffectiveDestinationKind c \<noteq> PolicyDestinationHostLoopback \<and>
     effect_of r = effect_of c \<and> WorkspaceManifestID r = WorkspaceManifestID c \<and>
     WorkspaceManifestName r = WorkspaceManifestName c \<and> ProjectID r = ProjectID c \<and> ProjectRoot r = ProjectRoot c \<and>
     deny_SourceCandidates r = [cand_ID c] \<and> deny_ID r = deny_id_of r"
proof -
  have dest: "PolicyCandidate_Validate c = None \<Longrightarrow>
      \<not> (cand_EffectiveDestinationKind c \<noteq> PolicyDestinationExternal
         \<or> cand_EffectiveAuthorityLifetime c \<noteq> AuthorityLifetimePersistent)
      \<longleftrightarrow> cand_EffectiveDestinationKind c \<noteq> PolicyDestinationHostLoopback"
    unfolding candidate_valid_iff cand_EffectiveDestinationKind_def cand_EffectiveAuthorityLifetime_def
    using external_iff by blast
  show ?thesis
    unfolding NewExactPolicyDenyRule_def Let_def check_simps using dest
    by (cases r) (auto simp: effect_of_def deny_id_of_def)
qed

lemma NewExactLearnedPolicyRule_Inr:
  "NewExactLearnedPolicyRule c = Inr r \<longleftrightarrow>
     PolicyCandidate_Validate c = None \<and> cand_EffectiveDestinationKind c \<noteq> PolicyDestinationHostLoopback \<and>
     effect_of r = effect_of c \<and> WorkspaceManifestID r = WorkspaceManifestID c \<and>
     WorkspaceManifestName r = WorkspaceManifestName c \<and> ProjectID r = ProjectID c \<and> ProjectRoot r = ProjectRoot c \<and>
     lr_Match r = ''exact'' \<and> lr_Segments r = [] \<and> lr_Examples r = Some [Path c] \<and>
     lr_SourceCandidates r = Some [cand_ID c] \<and> lr_ID r = learned_id_of r"
proof -
  have dest: "PolicyCandidate_Validate c = None \<Longrightarrow>
      \<not> (cand_EffectiveDestinationKind c \<noteq> PolicyDestinationExternal
         \<or> cand_EffectiveAuthorityLifetime c \<noteq> AuthorityLifetimePersistent)
      \<longleftrightarrow> cand_EffectiveDestinationKind c \<noteq> PolicyDestinationHostLoopback"
    unfolding candidate_valid_iff cand_EffectiveDestinationKind_def cand_EffectiveAuthorityLifetime_def
    using external_iff by blast
  show ?thesis
    unfolding NewExactLearnedPolicyRule_def Let_def check_simps using dest
    by (cases r) (auto simp: effect_of_def learned_id_of_def)
qed

lemma deny_valid_iff:
  "PolicyDenyRule_Validate r = None \<longleftrightarrow>
     coordinate_checks ''denial'' r = None \<and> SemanticRequestEffect_Validate (effect_of r) = None \<and>
     (\<exists>s. deny_SourceCandidates r = [s] \<and> policyCandidateIDPattern s) \<and> deny_ID r = deny_id_of r"
proof -
  have "SemanticRequestEffect_Validate (effect_of r) = None \<Longrightarrow>
      PolicyProtocolIdentity_Validate (Identity r) = None \<and> validatePolicyPath (Path r) = None"
    using effect_valid_parts[of "effect_of r"] by simp
  moreover have "length (deny_SourceCandidates r) = 1 \<longleftrightarrow> (\<exists>s. deny_SourceCandidates r = [s])"
    by (simp add: length_Suc_conv)
  ultimately show ?thesis
    unfolding PolicyDenyRule_Validate_def check_simps coordinates_None[of "''policy deny rule''" _ "''denial''"]
      validateSortedUniqueCandidateIDs_def ValidatePolicyCandidateID_def
    using deny_id_pattern[of r] by (auto simp: check_simps)
qed

lemma exact_valid_iff:
  assumes "lr_Match r = ''exact''"
  shows "LearnedPolicyRule_Validate r = None \<longleftrightarrow>
     coordinate_checks ''denial'' r = None \<and> SemanticRequestEffect_Validate (effect_of r) = None \<and>
     lr_Segments r = [] \<and> lr_Examples r = Some [Path r] \<and>
     (\<exists>ss. lr_SourceCandidates r = Some ss \<and> ss \<noteq> [] \<and> sorted_wrt (<) ss \<and> (\<forall>s \<in> set ss. policyCandidateIDPattern s)) \<and>
     lr_ID r = learned_id_of r"
proof -
  have e: "SemanticRequestEffect_Validate (effect_of r) = None \<Longrightarrow>
      PolicyProtocolIdentity_Validate (Identity r) = None \<and> validatePolicyPath (Path r) = None"
    using effect_valid_parts[of "effect_of r"] by simp
  have one: "sorted_wrt (<) xs \<and> xs \<noteq> [] \<and> (\<forall>x \<in> set xs. x = p) \<longleftrightarrow> xs = [p]" for xs and p :: string
    by (cases xs; cases "tl xs") auto
  show ?thesis
    unfolding LearnedPolicyRule_Validate_def Let_def check_simps coordinates_None[of "''learned rule''" _ "''denial''"]
      validateSortedUniqueCandidateIDs_def validateSortedUniquePaths_def ValidatePolicyCandidateID_def assms
    using learned_id_pattern[of r] e one[of "elems (lr_Examples r)" "Path r"]
    by (cases "lr_Examples r"; cases "lr_SourceCandidates r")
      (auto simp: check_simps validPolicyMatch_iff Suc_le_eq not_less)
qed

end
