(* ===== verification/Policy_Candidates.thy ===== *)
theory Policy_Candidates
  imports Policy_Rules "HOL-Library.AList" "HOL-Library.Product_Lexorder"
begin

text \<open>
  The Permission Inbox source (\<open>PolicyCandidatesWithDenyRules\<close> of \<open>internal/domain/tobari/policy.go\<close>):
  learnable denials that no current decision covers are aggregated per effect into one pending candidate,
  which keeps the latest observation and the number of observations. A Go map is an association list here;
  the order in which Go iterates over it is a parameter, a function that permutes its entries. The function
  is proved equal to a declarative definition that sorts the latest denials of every effect.
\<close>

section \<open>Aggregation\<close>

record effectKey =
  key_contextID :: string
  key_attachmentProject :: string
  key_host :: string
  key_port :: int
  key_method :: string
  key_path :: string
  key_protocol :: string
  key_protocolKey :: string
  key_destinationKind :: string
  key_attachmentEpochID :: string

definition effect_key :: "PolicyDenial \<Rightarrow> effectKey" where
  "effect_key d =
     \<lparr> key_contextID = WorkspaceManifestID d,
       key_attachmentProject =
         (if den_EffectiveDestinationKind d = PolicyDestinationHostLoopback then ProjectID d else []),
       key_host = Host d, key_port = Port d, key_method = Method d, key_path = Path d,
       key_protocol = Protocol (Identity d),
       key_protocolKey = strings_Join (appendSemanticModuleIdentity [] (Identity d)) [NUL],
       key_destinationKind = den_EffectiveDestinationKind d, key_attachmentEpochID = den_AttachmentEpochID d \<rparr>"

record aggregate =
  agg_candidate :: PolicyCandidate
  agg_observedAt :: int
  agg_latestIndex :: nat

type_synonym aggregates = "(effectKey \<times> aggregate) list"

definition covered :: "LearnedPolicyRule list \<Rightarrow> PolicyDenial \<Rightarrow> bool" where
  "covered rules d =
     (if den_EffectiveDestinationKind d = PolicyDestinationHostLoopback then False
      else list_ex
        (\<lambda>r. LearnedPolicyRule_MatchesIdentity r (WorkspaceManifestID d) (ProjectID d) (Host d) (Port d)
               (Method d) (Path d) (Identity d)) rules)"

definition persistentDenyCovered :: "PolicyDenyRuleSet \<Rightarrow> PolicyDenial \<Rightarrow> bool" where
  "persistentDenyCovered denyRules d =
     (den_EffectiveDestinationKind d \<noteq> PolicyDestinationHostLoopback \<and> PolicyDenyRuleSet_Matches denyRules d)"

definition skipped :: "LearnedPolicyRule list \<Rightarrow> PolicyDenyRuleSet \<Rightarrow> PolicyDenial \<Rightarrow> bool" where
  "skipped rules denyRules d = (\<not> den_Learnable d \<or> covered rules d \<or> persistentDenyCovered denyRules d)"

text \<open>One more observation of an effect: the latest one keeps its fields, the count grows.\<close>

definition observe :: "effectKey \<Rightarrow> PolicyCandidate \<Rightarrow> int \<Rightarrow> nat \<Rightarrow> aggregates \<Rightarrow> aggregates" where
  "observe key candidate observedAt index aggregates =
     (case map_of aggregates key of
        None \<Rightarrow>
          AList.update key
            \<lparr> agg_candidate = candidate, agg_observedAt = observedAt, agg_latestIndex = index \<rparr> aggregates
      | Some current \<Rightarrow>
          (let count = cand_ObservationCount (agg_candidate current) + 1 in
           if agg_observedAt current \<le> observedAt then
             AList.update key
               \<lparr> agg_candidate = candidate\<lparr> cand_ObservationCount := count \<rparr>, agg_observedAt = observedAt,
                 agg_latestIndex = index \<rparr> aggregates
           else
             AList.update key
               (current\<lparr> agg_candidate := (agg_candidate current)\<lparr> cand_ObservationCount := count \<rparr> \<rparr>)
               aggregates))"

fun aggregate_loop ::
    "LearnedPolicyRule list \<Rightarrow> PolicyDenyRuleSet \<Rightarrow> nat \<Rightarrow> aggregates \<Rightarrow> PolicyDenial list \<Rightarrow> aggregates result" where
  "aggregate_loop rules denyRules index aggregates [] = Inr aggregates"
| "aggregate_loop rules denyRules index aggregates (d # ds) =
     guarded (PolicyDenial_Validate d)
       (if skipped rules denyRules d then aggregate_loop rules denyRules (index + 1) aggregates ds
        else and_then (NewPolicyCandidate d) (\<lambda>candidate.
          case time_Parse (den_Timestamp d) of
            None \<Rightarrow> Inl ''cannot parse time''
          | Some observedAt \<Rightarrow>
              aggregate_loop rules denyRules (index + 1) (observe (effect_key d) candidate observedAt index aggregates) ds))"

definition aggregate_order :: "aggregate \<Rightarrow> int \<times> nat" where
  "aggregate_order a = (agg_observedAt a, agg_latestIndex a)"

definition PolicyCandidatesWithDenyRules ::
    "(aggregates \<Rightarrow> aggregates) \<Rightarrow> PolicyDenial list option \<Rightarrow> LearnedPolicyRule list option \<Rightarrow> PolicyDenyRuleSet
     \<Rightarrow> PolicyCandidate list result" where
  "PolicyCandidatesWithDenyRules iteration denials rules denyRules =
     guarded
       (first_error
          [reject (denials = None) ''denial collection is unknown'', ValidateLearnedPolicyRules rules,
           PolicyDenyRuleSet_Validate denyRules])
       (and_then (aggregate_loop (elems rules) denyRules 0 [] (elems denials)) (\<lambda>aggregates.
          Inr (map agg_candidate (sort_key aggregate_order (map snd (iteration aggregates))))))"

definition PolicyCandidates ::
    "(aggregates \<Rightarrow> aggregates) \<Rightarrow> PolicyDenial list option \<Rightarrow> LearnedPolicyRule list option \<Rightarrow> PolicyCandidate list result" where
  "PolicyCandidates iteration denials rules =
     PolicyCandidatesWithDenyRules iteration denials rules \<lparr> Exact = Some [] \<rparr>"

section \<open>A declarative definition\<close>

text \<open>The denials with their positions, the time of one, and the candidate of the latest of an effect.\<close>

definition observed :: "PolicyDenial \<Rightarrow> int" where
  "observed d = the (time_Parse (den_Timestamp d))"

definition same_effect :: "PolicyDenial list \<Rightarrow> nat \<Rightarrow> nat \<Rightarrow> bool" where
  "same_effect ds i j \<longleftrightarrow> effect_key (ds ! i) = effect_key (ds ! j)"

definition pending_positions :: "(PolicyDenial \<Rightarrow> bool) \<Rightarrow> PolicyDenial list \<Rightarrow> nat list" where
  "pending_positions skip ds = filter (\<lambda>i. \<not> skip (ds ! i)) [0..<length ds]"

definition latest_positions :: "(PolicyDenial \<Rightarrow> bool) \<Rightarrow> PolicyDenial list \<Rightarrow> nat list" where
  "latest_positions skip ds =
     filter (\<lambda>i. \<forall>j \<in> set (pending_positions skip ds).
        same_effect ds j i \<longrightarrow> (observed (ds ! j), j) \<le> (observed (ds ! i), i)) (pending_positions skip ds)"

definition observation_count :: "(PolicyDenial \<Rightarrow> bool) \<Rightarrow> PolicyDenial list \<Rightarrow> nat \<Rightarrow> nat" where
  "observation_count skip ds i = length (filter (\<lambda>j. same_effect ds j i) (pending_positions skip ds))"

definition pending_candidates :: "(PolicyDenial \<Rightarrow> bool) \<Rightarrow> PolicyDenial list \<Rightarrow> PolicyCandidate list" where
  "pending_candidates skip ds =
     map (\<lambda>i. (candidate_of (ds ! i))\<lparr> cand_ObservationCount := int (observation_count skip ds i) \<rparr>)
       (sort_key (\<lambda>i. (observed (ds ! i), i)) (latest_positions skip ds))"

section \<open>The loop computes the declarative definition\<close>

definition effect_class :: "(PolicyDenial \<Rightarrow> bool) \<Rightarrow> PolicyDenial list \<Rightarrow> effectKey \<Rightarrow> nat list" where
  "effect_class skip ds k = filter (\<lambda>i. effect_key (ds ! i) = k) (pending_positions skip ds)"

definition latest_of :: "PolicyDenial list \<Rightarrow> nat list \<Rightarrow> nat \<Rightarrow> bool" where
  "latest_of ds ps i \<longleftrightarrow> i \<in> set ps \<and> (\<forall>j \<in> set ps. (observed (ds ! j), j) \<le> (observed (ds ! i), i))"

definition entry_at :: "PolicyDenial list \<Rightarrow> nat list \<Rightarrow> nat \<Rightarrow> aggregate" where
  "entry_at ds ps i =
     \<lparr> agg_candidate = (candidate_of (ds ! i))\<lparr> cand_ObservationCount := int (length ps) \<rparr>,
       agg_observedAt = observed (ds ! i), agg_latestIndex = i \<rparr>"

definition aggregates_ok :: "(PolicyDenial \<Rightarrow> bool) \<Rightarrow> PolicyDenial list \<Rightarrow> aggregates \<Rightarrow> bool" where
  "aggregates_ok skip ds as \<longleftrightarrow>
     distinct (map fst as) \<and> (\<forall>k. map_of as k = None \<longleftrightarrow> effect_class skip ds k = []) \<and>
     (\<forall>k a. map_of as k = Some a \<longrightarrow>
        (\<exists>i. latest_of ds (effect_class skip ds k) i \<and> a = entry_at ds (effect_class skip ds k) i))"

lemma pending_snoc:
  "pending_positions skip (ds @ [d]) = pending_positions skip ds @ (if skip d then [] else [length ds])"
  by (auto simp: pending_positions_def nth_append intro!: filter_cong)

lemma pending_less: "i \<in> set (pending_positions skip ds) \<longleftrightarrow> i < length ds \<and> \<not> skip (ds ! i)"
  by (auto simp: pending_positions_def)

lemma class_snoc:
  "effect_class skip (ds @ [d]) k =
     effect_class skip ds k @ (if \<not> skip d \<and> effect_key d = k then [length ds] else [])"
  by (auto simp: effect_class_def pending_snoc pending_less nth_append intro!: filter_cong)

lemma class_less: "i \<in> set (effect_class skip ds k) \<Longrightarrow> i < length ds"
  by (simp add: effect_class_def pending_less)

lemma latest_append: "set ps \<subseteq> {..<length ds} \<Longrightarrow> latest_of (ds @ [d]) ps i = latest_of ds ps i"
  by (auto simp: latest_of_def nth_append)

lemma entry_append: "i < length ds \<Longrightarrow> entry_at (ds @ [d]) ps i = entry_at ds ps i"
  by (simp add: entry_at_def nth_append)

lemma latest_snoc:
  assumes "set ps \<subseteq> {..<length ds}" "latest_of ds ps i"
  shows "latest_of (ds @ [d]) (ps @ [length ds]) (if observed (ds ! i) \<le> observed d then length ds else i)"
proof -
  have "j < length ds" if "j \<in> set ps" for j using assms(1) that by auto
  then show ?thesis using assms(2) by (fastforce simp: latest_of_def nth_append)
qed

lemma latest_single: "latest_of (ds @ [d]) [length ds] (length ds)"
  by (simp add: latest_of_def)

lemma skip_step:
  assumes "aggregates_ok skip ds as" "skip d"
  shows "aggregates_ok skip (ds @ [d]) as"
proof -
  have sub: "set (effect_class skip ds k) \<subseteq> {..<length ds}" for k using class_less by blast
  have "latest_of (ds @ [d]) (effect_class skip ds k) i \<and> a = entry_at (ds @ [d]) (effect_class skip ds k) i
     \<longleftrightarrow> latest_of ds (effect_class skip ds k) i \<and> a = entry_at ds (effect_class skip ds k) i" for k i a
    using latest_append[OF sub] entry_append class_less by (metis latest_of_def)
  then show ?thesis using assms by (simp add: aggregates_ok_def class_snoc)
qed

lemma observe_step:
  assumes ok: "aggregates_ok skip ds as" and "\<not> skip d"
  shows "aggregates_ok skip (ds @ [d]) (observe (effect_key d) (candidate_of d) (observed d) (length ds) as)"
proof -
  let ?k = "effect_key d" and ?as = "observe (effect_key d) (candidate_of d) (observed d) (length ds) as"
  have sub: "set (effect_class skip ds k) \<subseteq> {..<length ds}" for k using class_less by blast
  have old: "latest_of (ds @ [d]) (effect_class skip ds k) i \<and> a = entry_at (ds @ [d]) (effect_class skip ds k) i
     \<longleftrightarrow> latest_of ds (effect_class skip ds k) i \<and> a = entry_at ds (effect_class skip ds k) i" for k i a
    using latest_append[OF sub] entry_append class_less by (metis latest_of_def)
  have dist: "distinct (map fst ?as)" using ok
    by (auto simp: observe_def aggregates_ok_def distinct_update Let_def split: option.splits)
  have other: "map_of ?as k = map_of as k" if "k \<noteq> ?k" for k
    using that by (auto simp: observe_def Let_def update_conv' split: option.splits)
  have "\<exists>i. latest_of (ds @ [d]) (effect_class skip ds ?k @ [length ds]) i \<and>
       map_of ?as ?k = Some (entry_at (ds @ [d]) (effect_class skip ds ?k @ [length ds]) i)"
  proof (cases "map_of as ?k")
    case None
    then have "effect_class skip ds ?k = []" using ok by (simp add: aggregates_ok_def)
    then show ?thesis using None latest_single[of ds d]
      by (auto simp: observe_def entry_at_def update_conv' candidate_of_def)
  next
    case (Some a)
    then obtain i where i: "latest_of ds (effect_class skip ds ?k) i" and a: "a = entry_at ds (effect_class skip ds ?k) i"
      using ok unfolding aggregates_ok_def by blast
    then have "i < length ds" using class_less by (auto simp: latest_of_def)
    then have "map_of ?as ?k = Some (entry_at (ds @ [d]) (effect_class skip ds ?k @ [length ds])
        (if observed (ds ! i) \<le> observed d then length ds else i))"
      using Some a by (simp add: observe_def Let_def update_conv' entry_at_def nth_append)
    then show ?thesis using latest_snoc[OF sub i, of d] by blast
  qed
  then obtain i where i: "latest_of (ds @ [d]) (effect_class skip ds ?k @ [length ds]) i"
      "map_of ?as ?k = Some (entry_at (ds @ [d]) (effect_class skip ds ?k @ [length ds]) i)" by blast
  have cls: "effect_class skip (ds @ [d]) k =
      (if k = ?k then effect_class skip ds ?k @ [length ds] else effect_class skip ds k)" for k
    using assms(2) by (auto simp: class_snoc)
  have "map_of ?as k = None \<longleftrightarrow> effect_class skip (ds @ [d]) k = []" for k
    using ok i(2) other[of k] by (cases "k = ?k") (simp_all add: cls aggregates_ok_def)
  moreover have "\<exists>i. latest_of (ds @ [d]) (effect_class skip (ds @ [d]) k) i \<and>
      a = entry_at (ds @ [d]) (effect_class skip (ds @ [d]) k) i" if "map_of ?as k = Some a" for k a
  proof (cases "k = ?k")
    case False
    with that other have "map_of as k = Some a" by simp
    then show ?thesis using ok old False unfolding aggregates_ok_def cls by auto
  qed (use that i cls in auto)
  ultimately show ?thesis using dist unfolding aggregates_ok_def by blast
qed

lemma aggregate_loop_Inr:
  assumes "aggregate_loop rules denies (length ds0) as ds = Inr as'" "aggregates_ok (skipped rules denies) ds0 as"
  shows "aggregates_ok (skipped rules denies) (ds0 @ ds) as'" and "\<forall>d \<in> set ds. PolicyDenial_Validate d = None"
proof -
  have "aggregates_ok (skipped rules denies) (ds0 @ ds) as' \<and> (\<forall>d \<in> set ds. PolicyDenial_Validate d = None)"
    using assms
  proof (induction ds arbitrary: ds0 as)
    case (Cons d ds)
    have v: "PolicyDenial_Validate d = None" using Cons.prems(1) by (simp add: check_simps)
    show ?case
    proof (cases "skipped rules denies d")
      case True
      then show ?thesis
        using Cons.IH[of "ds0 @ [d]" as] Cons.prems skip_step[OF Cons.prems(2) True] v by (simp add: check_simps)
    next
      case False
      then have "aggregate_loop rules denies (length (ds0 @ [d]))
          (observe (effect_key d) (candidate_of d) (observed d) (length ds0) as) ds = Inr as'"
        using Cons.prems(1) by (auto simp: check_simps NewPolicyCandidate_Inr observed_def split: option.splits)
      from Cons.IH[OF this observe_step[OF Cons.prems(2) False]] v show ?thesis by simp
    qed
  qed simp
  then show "aggregates_ok (skipped rules denies) (ds0 @ ds) as'" "\<forall>d \<in> set ds. PolicyDenial_Validate d = None"
    by blast+
qed

lemma aggregate_loop_total:
  assumes "\<forall>d \<in> set ds. PolicyDenial_Validate d = None"
  shows "\<exists>as'. aggregate_loop rules denies n as ds = Inr as'"
  using assms
proof (induction ds arbitrary: n as)
  case (Cons d ds)
  have v: "PolicyDenial_Validate d = None" using Cons.prems by simp
  then obtain t where "time_Parse (den_Timestamp d) = Some t" unfolding denial_valid_iff by blast
  moreover have "NewPolicyCandidate d = Inr (candidate_of d)" if "\<not> skipped rules denies d"
    using that v by (simp add: NewPolicyCandidate_Inr skipped_def)
  ultimately show ?case using Cons v by (simp add: guarded_def and_then_def)
qed simp

lemma aggregates_nil: "aggregates_ok skip [] []"
  by (simp add: aggregates_ok_def effect_class_def pending_positions_def)

section \<open>Sorting the aggregates\<close>

abbreviation entry :: "(PolicyDenial \<Rightarrow> bool) \<Rightarrow> PolicyDenial list \<Rightarrow> nat \<Rightarrow> aggregate" where
  "entry skip ds i \<equiv> entry_at ds (effect_class skip ds (effect_key (ds ! i))) i"

lemma entry_order [simp]: "aggregate_order (entry_at ds ps i) = (observed (ds ! i), i)"
  by (simp add: aggregate_order_def entry_at_def)

lemma latest_of_class:
  "latest_of ds (effect_class skip ds k) i \<longleftrightarrow> i \<in> set (latest_positions skip ds) \<and> effect_key (ds ! i) = k"
  by (auto simp: latest_of_def effect_class_def latest_positions_def same_effect_def)

lemma aggregates_entries:
  assumes "aggregates_ok skip ds as"
  shows "mset (map snd as) = mset (map (entry skip ds) (latest_positions skip ds))"
proof -
  have map_of: "map_of as k = Some a \<longleftrightarrow> (k, a) \<in> set as" for k a
    using assms by (simp add: aggregates_ok_def)
  have unique: "i = j" if "latest_of ds ps i" "latest_of ds ps j" for ps i j
    using that by (force simp: latest_of_def)
  have mem: "(k, a) \<in> set as \<longleftrightarrow> (\<exists>i \<in> set (latest_positions skip ds). k = effect_key (ds ! i) \<and> a = entry skip ds i)" for k a
  proof
    assume "(k, a) \<in> set as"
    with assms map_of show "\<exists>i \<in> set (latest_positions skip ds). k = effect_key (ds ! i) \<and> a = entry skip ds i"
      unfolding aggregates_ok_def latest_of_class by metis
  next
    assume "\<exists>i \<in> set (latest_positions skip ds). k = effect_key (ds ! i) \<and> a = entry skip ds i"
    then obtain i where i: "latest_of ds (effect_class skip ds k) i" "a = entry_at ds (effect_class skip ds k) i"
      unfolding latest_of_class by blast
    then have "effect_class skip ds k \<noteq> []" by (auto simp: latest_of_def)
    then obtain b where "map_of as k = Some b" using assms by (auto simp: aggregates_ok_def simp del: not_None_eq)
    with assms i unique show "(k, a) \<in> set as" unfolding aggregates_ok_def map_of by metis
  qed
  have "distinct as" using assms by (simp add: aggregates_ok_def distinct_map)
  moreover have "inj_on snd (set as)"
    by (rule inj_onI) (force simp: mem entry_at_def)
  moreover have "inj_on (entry skip ds) (set (latest_positions skip ds))"
    by (rule inj_onI) (simp add: entry_at_def)
  moreover have "distinct (latest_positions skip ds)"
    by (simp add: latest_positions_def pending_positions_def)
  moreover have "set (map snd as) = set (map (entry skip ds) (latest_positions skip ds))"
    using mem by force
  ultimately show ?thesis by (metis distinct_map set_eq_iff_mset_eq_distinct)
qed

lemma sorted_entries:
  assumes "mset (map snd as) = mset (map (entry skip ds) (latest_positions skip ds))"
  shows "map agg_candidate (sort_key aggregate_order (map snd as)) = pending_candidates skip ds"
proof -
  let ?ps = "sort_key (\<lambda>i. (observed (ds ! i), i)) (latest_positions skip ds)"
  have "sort_key aggregate_order (map snd as) = map (entry skip ds) ?ps"
  proof (rule sort_key_inj_key_eq)
    show "mset (map snd as) = mset (map (entry skip ds) ?ps)" using assms by simp
    have "set (map snd as) = entry skip ds ` set (latest_positions skip ds)" using assms by (metis mset_eq_setD set_map)
    then show "inj_on aggregate_order (set (map snd as))" by (auto simp: inj_on_def)
    show "sorted (map aggregate_order (map (entry skip ds) ?ps))"
      using sorted_sort_key[of "\<lambda>i. (observed (ds ! i), i)" "latest_positions skip ds"] by (simp add: o_def)
  qed
  then show ?thesis
    by (simp add: pending_candidates_def entry_at_def o_def effect_class_def observation_count_def same_effect_def)
qed

section \<open>Results\<close>

lemma candidates_Inr:
  assumes "\<And>as. mset (iteration as) = mset as"
  shows "PolicyCandidatesWithDenyRules iteration denials rules denies = Inr cs \<longleftrightarrow>
    denials \<noteq> None \<and> ValidateLearnedPolicyRules rules = None \<and> PolicyDenyRuleSet_Validate denies = None \<and>
    (\<forall>d \<in> set (elems denials). PolicyDenial_Validate d = None) \<and>
    cs = pending_candidates (skipped (elems rules) denies) (elems denials)"
proof -
  have "(\<exists>as. aggregate_loop (elems rules) denies 0 [] (elems denials) = Inr as \<and>
       Inr (map agg_candidate (sort_key aggregate_order (map snd (iteration as)))) = Inr cs) \<longleftrightarrow>
     (\<forall>d \<in> set (elems denials). PolicyDenial_Validate d = None) \<and>
     cs = pending_candidates (skipped (elems rules) denies) (elems denials)" (is "?run \<longleftrightarrow> ?spec")
  proof -
    have ok: "map agg_candidate (sort_key aggregate_order (map snd (iteration as))) =
        pending_candidates (skipped (elems rules) denies) (elems denials) \<and>
        (\<forall>d \<in> set (elems denials). PolicyDenial_Validate d = None)"
      if "aggregate_loop (elems rules) denies 0 [] (elems denials) = Inr as" for as
    proof -
      note loop = aggregate_loop_Inr[of "elems rules" denies "[]" "[]" "elems denials" as, simplified, OF that aggregates_nil]
      have "mset (map snd (iteration as)) = mset (map snd as)" using assms[of as] by simp
      then have "mset (map snd (iteration as)) = mset (map (entry (skipped (elems rules) denies) (elems denials))
          (latest_positions (skipped (elems rules) denies) (elems denials)))"
        using aggregates_entries[OF loop(1)] by simp
      from sorted_entries[OF this] loop(2) show ?thesis by blast
    qed
    show ?thesis
    proof
      assume ?run then show ?spec using ok by blast
    next
      assume s: ?spec
      then obtain as where "aggregate_loop (elems rules) denies 0 [] (elems denials) = Inr as"
        using aggregate_loop_total by metis
      then show ?run using ok s by metis
    qed
  qed
  note run = this
  show ?thesis unfolding PolicyCandidatesWithDenyRules_def check_simps run
    by (simp only: first_error.simps(1) simp_thms conj_assoc)
qed

lemma latest_key_inj: "inj_on (\<lambda>i. effect_key (ds ! i)) (set (latest_positions skip ds))"
proof (rule inj_onI)
  fix i j
  assume "i \<in> set (latest_positions skip ds)" "j \<in> set (latest_positions skip ds)"
    "effect_key (ds ! i) = effect_key (ds ! j)"
  then have "latest_of ds (effect_class skip ds (effect_key (ds ! i))) i"
    "latest_of ds (effect_class skip ds (effect_key (ds ! i))) j"
    by (simp_all add: latest_of_class)
  then show "i = j" by (force simp: latest_of_def)
qed

lemma class_has_latest:
  assumes "p \<in> set (pending_positions skip ds)"
  obtains i where "i \<in> set (latest_positions skip ds)" "effect_key (ds ! i) = effect_key (ds ! p)"
proof -
  let ?c = "set (effect_class skip ds (effect_key (ds ! p)))"
  have "?c \<noteq> {}" "finite ?c" using assms by (auto simp: effect_class_def)
  moreover define M where "M = Max ((\<lambda>j. (observed (ds ! j), j)) ` ?c)"
  ultimately have "M \<in> (\<lambda>j. (observed (ds ! j), j)) ` ?c" and "\<forall>j \<in> ?c. (observed (ds ! j), j) \<le> M"
    by (simp_all only: Max_in finite_imageI image_is_empty not_False_eq_True) (simp add: M_def)
  then have "\<exists>i. latest_of ds (effect_class skip ds (effect_key (ds ! p))) i" unfolding latest_of_def by blast
  then show thesis using that unfolding latest_of_class by blast
qed

lemma sum_counts:
  "(\<Sum>i \<in> set (latest_positions skip ds). observation_count skip ds i) = length (pending_positions skip ds)"
proof -
  let ?pend = "set (pending_positions skip ds)" and ?key = "\<lambda>i. effect_key (ds ! i)"
  have inj: "inj_on ?key (set (latest_positions skip ds))" by (rule latest_key_inj)
  have image: "?key ` set (latest_positions skip ds) = ?key ` ?pend"
  proof
    show "?key ` set (latest_positions skip ds) \<subseteq> ?key ` ?pend" by (auto simp: latest_positions_def)
    show "?key ` ?pend \<subseteq> ?key ` set (latest_positions skip ds)"
      using class_has_latest by (smt (verit) image_iff subsetI)
  qed
  have "observation_count skip ds i = card {j \<in> ?pend. ?key j = ?key i}" for i
    by (simp add: observation_count_def same_effect_def distinct_length_filter pending_positions_def Int_def conj_ac)
  then have "(\<Sum>i \<in> set (latest_positions skip ds). observation_count skip ds i)
      = (\<Sum>k \<in> ?key ` ?pend. card {j \<in> ?pend. ?key j = k})"
    using sum.reindex[OF inj, of "\<lambda>k. card {j \<in> ?pend. ?key j = k}"] image by (simp add: o_def)
  also have "\<dots> = card ?pend"
    using sum.group[of ?pend "?key ` ?pend" ?key "\<lambda>_. 1::nat"] by simp
  also have "\<dots> = length (pending_positions skip ds)" by (rule distinct_card) (simp add: pending_positions_def)
  finally show ?thesis .
qed

lemma pending_candidates_count:
  "sum_list (map cand_ObservationCount (pending_candidates skip ds)) = int (length (filter (\<lambda>d. \<not> skip d) ds))"
proof -
  have "length (pending_positions skip ds) = length (filter (\<lambda>d. \<not> skip d) ds)"
    by (induction ds rule: rev_induct) (simp_all add: pending_snoc, simp add: pending_positions_def)
  moreover have "sum_list (map cand_ObservationCount (pending_candidates skip ds))
      = (\<Sum>i \<leftarrow> latest_positions skip ds. int (observation_count skip ds i))"
    unfolding pending_candidates_def map_map o_def
    by (simp flip: sum_mset_sum_list)
  moreover have "\<dots> = int (\<Sum>i \<in> set (latest_positions skip ds). observation_count skip ds i)"
    by (subst sum_list_distinct_conv_sum_set) (simp_all add: latest_positions_def pending_positions_def)
  ultimately show ?thesis using sum_counts[of skip ds] by simp
qed

lemma pending_candidates_set:
  "c \<in> set (pending_candidates skip ds) \<longleftrightarrow>
     (\<exists>i \<in> set (latest_positions skip ds).
        c = (candidate_of (ds ! i))\<lparr> cand_ObservationCount := int (observation_count skip ds i) \<rparr>)"
  by (auto simp: pending_candidates_def)

lemma count_update_valid:
  assumes "PolicyCandidate_Validate c = None" "1 \<le> n"
  shows "PolicyCandidate_Validate (c\<lparr> cand_ObservationCount := n \<rparr>) = None"
proof -
  have e: "effect_of (c\<lparr> cand_ObservationCount := n \<rparr>) = effect_of c" by (simp add: effect_of_def)
  have "coordinate_checks kind (c\<lparr> cand_ObservationCount := n \<rparr>) = coordinate_checks kind c" for kind
    by (simp add: coordinate_checks_def)
  then show ?thesis using assms unfolding candidate_valid_iff e by simp
qed

lemma pending_candidates_valid:
  assumes "\<forall>d \<in> set ds. PolicyDenial_Validate d = None" "c \<in> set (pending_candidates skip ds)"
  shows "PolicyCandidate_Validate c = None"
proof -
  obtain i where i: "i \<in> set (latest_positions skip ds)"
    and c: "c = (candidate_of (ds ! i))\<lparr> cand_ObservationCount := int (observation_count skip ds i) \<rparr>"
    using assms(2) unfolding pending_candidates_set by blast
  have p: "i \<in> set (pending_positions skip ds)" using i by (simp add: latest_positions_def)
  then have "i \<in> set (filter (\<lambda>j. same_effect ds j i) (pending_positions skip ds))" by (simp add: same_effect_def)
  then have "1 \<le> int (observation_count skip ds i)"
    unfolding observation_count_def by (metis One_nat_def Suc_leI length_pos_if_in_set of_nat_1 of_nat_le_iff)
  moreover have "PolicyDenial_Validate (ds ! i) = None" using assms(1) p by (simp add: pending_less)
  ultimately show ?thesis unfolding c by (intro count_update_valid candidate_of_valid)
qed

end
