(* ===== verification/Policy_Learning.thy ===== *)
theory Policy_Learning
  imports Policy_Candidates
begin

text \<open>
  What the policy-learning records mean together: the opaque reference of a candidate determines the effect
  it stands for, the Permission Inbox shows every uncovered effect once with all its observations, and an exact
  decision on a candidate covers that effect in that Workspace and nothing else.
\<close>

section \<open>References determine effects\<close>

lemma denial_fields_printable:
  assumes "PolicyDenial_Validate d = None"
  shows "printable_string (WorkspaceManifestID d)" "printable_string (ProjectID d)" "printable_string (Host d)"
    "printable_string (Method d)" "printable_string (Path d)" "PolicyProtocolIdentity_Validate (Identity d) = None"
proof -
  have e: "SemanticRequestEffect_Validate (effect_of d) = None" and c: "coordinate_checks ''denial'' d = None"
    using assms unfolding denial_valid_iff by blast+
  show "printable_string (Host d)" "printable_string (Method d)" "printable_string (Path d)"
    "PolicyProtocolIdentity_Validate (Identity d) = None"
    using effect_valid_parts[OF e] host_printable httpMethod_printable path_printable by simp_all
  have "uuid7_pattern (WorkspaceManifestID d)" "uuid7_pattern (ProjectID d)"
    using c by (simp_all add: coordinate_checks_def check_simps validatePolicyScope_def ValidateWorkspaceManifestID_def
        ValidateWorkspaceID_def)
  then show "printable_string (WorkspaceManifestID d)" "printable_string (ProjectID d)" using uuid7_printable by blast+
qed

lemma loopback_iff:
  assumes "PolicyDenial_Validate d = None"
  shows "den_EffectiveDestinationKind d = PolicyDestinationHostLoopback \<longleftrightarrow> attachmentEpochPattern (den_AttachmentEpochID d)"
    and "den_EffectiveDestinationKind d = PolicyDestinationHostLoopback \<Longrightarrow>
      den_EffectiveAuthorityLifetime d = AuthorityLifetimeAttachment"
    and "den_EffectiveDestinationKind d \<noteq> PolicyDestinationHostLoopback \<Longrightarrow>
      den_EffectiveDestinationKind d = PolicyDestinationExternal \<and> den_AttachmentEpochID d = []"
proof -
  have d: "destination_ok (den_DestinationKind d) (den_AuthorityLifetime d) (den_AttachmentEpochID d) (effect_of d)"
    using assms unfolding denial_valid_iff by blast
  have "\<not> attachmentEpochPattern []" by code_simp
  with d show "den_EffectiveDestinationKind d = PolicyDestinationHostLoopback \<longleftrightarrow> attachmentEpochPattern (den_AttachmentEpochID d)"
    "den_EffectiveDestinationKind d = PolicyDestinationHostLoopback \<Longrightarrow>
      den_EffectiveAuthorityLifetime d = AuthorityLifetimeAttachment"
    "den_EffectiveDestinationKind d \<noteq> PolicyDestinationHostLoopback \<Longrightarrow>
      den_EffectiveDestinationKind d = PolicyDestinationExternal \<and> den_AttachmentEpochID d = []"
    unfolding den_EffectiveDestinationKind_def den_EffectiveAuthorityLifetime_def destination_ok_def
    by (metis (full_types))+
qed

definition candidate_preimage :: "PolicyDenial \<Rightarrow> string" where
  "candidate_preimage d = strings_Join (candidate_material d) [NUL]"

lemma candidate_material_eq:
  "candidate_material d =
     [''tobari-policy-candidate-v2'', WorkspaceManifestID d, Host d, strconv_Itoa (Port d), Method d, Path d]
     @ identity_material (Identity d)
     @ (if den_EffectiveDestinationKind d = PolicyDestinationHostLoopback
        then [ProjectID d, PolicyDestinationHostLoopback, den_EffectiveAuthorityLifetime d, den_AttachmentEpochID d]
        else [])"
  by (simp add: candidate_material_def append_material)

lemma candidate_material_nonempty: "candidate_material d \<noteq> []"
  by (simp add: candidate_material_eq)

lemma candidate_material_printable:
  assumes "PolicyDenial_Validate d = None"
  shows "\<forall>x \<in> set (candidate_material d). NUL \<notin> set x"
proof -
  have lit: "printable_string ''tobari-policy-candidate-v2''" "printable_string PolicyDestinationHostLoopback"
    "printable_string AuthorityLifetimeAttachment" "printable_string ''att_''" by code_simp+
  note f = denial_fields_printable[OF assms]
  have "list_all printable_string (if den_EffectiveDestinationKind d = PolicyDestinationHostLoopback
      then [ProjectID d, PolicyDestinationHostLoopback, den_EffectiveAuthorityLifetime d, den_AttachmentEpochID d] else [])"
  proof (cases "den_EffectiveDestinationKind d = PolicyDestinationHostLoopback")
    case True
    then have "printable_string (den_AttachmentEpochID d)"
      using loopback_iff(1)[OF assms] prefixed_hex_printable[OF _ lit(4)] unfolding attachmentEpochPattern_def by blast
    then show ?thesis
      using lit f(2) True unfolding loopback_iff(2)[OF assms True] by (simp only: list.pred_inject simp_thms if_True)
  qed (simp only: list.pred_inject if_False)
  moreover have "list_all printable_string (identity_material (Identity d))"
    using material_printable[OF f(6)] by (simp only: list_all_iff) blast
  ultimately have "list_all printable_string (candidate_material d)"
    using lit f Itoa_printable[of "Port d"] unfolding candidate_material_eq
    by (simp only: list_all_append list.pred_inject simp_thms)
  then show ?thesis using printable_NUL unfolding list_all_iff by blast
qed

lemma material_length:
  assumes "PolicyProtocolIdentity_Validate i = None"
  shows "length (identity_material i) \<in> (if Protocol i = ''oci'' then {5} else if Protocol i = ''http'' then {1} else {4, 7, 12})"
  using assms by (cases rule: protocol_cases) (simp_all add: material_simps)

text \<open>An attachment suffix never turns one valid identity into another: only the length of an OCI identity fits,
  and the Workspace ID in its protocol position is not a protocol.\<close>

lemma attachment_suffix:
  assumes i: "PolicyProtocolIdentity_Validate i = None" and j: "PolicyProtocolIdentity_Validate j = None"
    and p: "uuid7_pattern p"
  shows "identity_material i @ [p, k, l, e] \<noteq> identity_material j"
proof
  assume eq: "identity_material i @ [p, k, l, e] = identity_material j"
  have "length (identity_material i) + 4 = length (identity_material j)" using arg_cong[OF eq, of length] by simp
  with material_length[OF i] material_length[OF j] have "Protocol j = ''oci''" "length (identity_material i) = 1"
    by (auto split: if_splits)
  then have "p = ''oci''" using eq material_simps(7)[of j]
    by (cases "identity_material i") auto
  moreover have "\<not> uuid7_pattern ''oci''" by code_simp
  ultimately show False using p by blast
qed

lemma material_tail_inject:
  assumes "PolicyProtocolIdentity_Validate i = None" "PolicyProtocolIdentity_Validate j = None"
    and "uuid7_pattern p" "uuid7_pattern q"
    and "identity_material i @ (if a then [p, x, y, e] else []) = identity_material j @ (if b then [q, x, z, f] else [])"
  shows "i = j \<and> a = b \<and> (a \<longrightarrow> p = q \<and> e = f)"
proof -
  have ab: "a = b" using attachment_suffix assms by (metis append_Nil2)
  then have "identity_material i = identity_material j \<and> (a \<longrightarrow> p = q \<and> e = f)"
    using assms(5) by (auto split: if_splits)
  with ab material_inject[OF assms(1,2)] show ?thesis by blast
qed

lemma denial_uuids:
  assumes "PolicyDenial_Validate d = None"
  shows "uuid7_pattern (WorkspaceManifestID d)" "uuid7_pattern (ProjectID d)"
proof -
  have "coordinate_checks ''denial'' d = None" using assms unfolding denial_valid_iff by blast
  then show "uuid7_pattern (WorkspaceManifestID d)" "uuid7_pattern (ProjectID d)"
    by (simp_all add: coordinate_checks_def check_simps validatePolicyScope_def ValidateWorkspaceManifestID_def
        ValidateWorkspaceID_def)
qed

lemma protocol_key_inject:
  assumes "PolicyProtocolIdentity_Validate i = None" "PolicyProtocolIdentity_Validate j = None"
  shows "strings_Join (appendSemanticModuleIdentity [] i) [NUL] = strings_Join (appendSemanticModuleIdentity [] j) [NUL] \<longleftrightarrow> i = j"
proof
  assume eq: "strings_Join (appendSemanticModuleIdentity [] i) [NUL] = strings_Join (appendSemanticModuleIdentity [] j) [NUL]"
  have ne: "identity_material k \<noteq> []" if "PolicyProtocolIdentity_Validate k = None" for k
    using material_length[OF that] by (auto split: if_splits)
  have free: "\<forall>x \<in> set (identity_material k). NUL \<notin> set x" if "PolicyProtocolIdentity_Validate k = None" for k
    using material_printable[OF that] printable_NUL by blast
  have "identity_material i = identity_material j"
    using eq unfolding append_material append_Nil
    by (rule Join_inject) (use ne free assms in blast)+
  then show "i = j" by (rule material_inject[OF assms])
qed simp

lemma effect_key_iff:
  assumes d: "PolicyDenial_Validate d = None" and d': "PolicyDenial_Validate d' = None"
  shows "effect_key d = effect_key d' \<longleftrightarrow>
    WorkspaceManifestID d = WorkspaceManifestID d' \<and> effect_of d = effect_of d' \<and>
    den_EffectiveDestinationKind d = den_EffectiveDestinationKind d' \<and>
    (den_EffectiveDestinationKind d = PolicyDestinationHostLoopback \<longrightarrow>
       ProjectID d = ProjectID d' \<and> den_AttachmentEpochID d = den_AttachmentEpochID d')"
proof -
  have epoch: "den_AttachmentEpochID d = den_AttachmentEpochID d'"
    if "den_EffectiveDestinationKind d \<noteq> PolicyDestinationHostLoopback"
      "den_EffectiveDestinationKind d = den_EffectiveDestinationKind d'"
    using that loopback_iff(3)[OF d] loopback_iff(3)[OF d'] by metis
  have key: "strings_Join (appendSemanticModuleIdentity [] (Identity d)) [NUL] =
      strings_Join (appendSemanticModuleIdentity [] (Identity d')) [NUL] \<longleftrightarrow> Identity d = Identity d'"
    using protocol_key_inject denial_fields_printable(6)[OF d] denial_fields_printable(6)[OF d'] by blast
  show ?thesis
    using epoch
    by (cases "den_EffectiveDestinationKind d = PolicyDestinationHostLoopback")
      (auto simp: effect_key_def effect_of_def key)
qed

lemma candidate_preimage_iff:
  assumes d: "PolicyDenial_Validate d = None" and d': "PolicyDenial_Validate d' = None"
  shows "candidate_preimage d = candidate_preimage d' \<longleftrightarrow> effect_key d = effect_key d'"
proof -
  let ?loop = "\<lambda>x. den_EffectiveDestinationKind x = PolicyDestinationHostLoopback"
  have mat: "candidate_preimage d = candidate_preimage d' \<longleftrightarrow> candidate_material d = candidate_material d'"
    using Join_inject[of "candidate_material d" NUL "candidate_material d'"] candidate_material_printable[OF d]
      candidate_material_printable[OF d'] candidate_material_nonempty unfolding candidate_preimage_def by metis
  have life: "?loop x \<Longrightarrow> den_EffectiveAuthorityLifetime x = AuthorityLifetimeAttachment"
    if "PolicyDenial_Validate x = None" for x using loopback_iff(2)[OF that] .
  have dest: "den_EffectiveDestinationKind d = den_EffectiveDestinationKind d' \<longleftrightarrow> ?loop d = ?loop d'"
    using loopback_iff(3)[OF d] loopback_iff(3)[OF d'] by metis
  have "candidate_material d = candidate_material d' \<longleftrightarrow>
     WorkspaceManifestID d = WorkspaceManifestID d' \<and> Host d = Host d' \<and> Port d = Port d' \<and> Method d = Method d' \<and>
     Path d = Path d' \<and> Identity d = Identity d' \<and> ?loop d = ?loop d' \<and>
     (?loop d \<longrightarrow> ProjectID d = ProjectID d' \<and> den_AttachmentEpochID d = den_AttachmentEpochID d')" (is "?m \<longleftrightarrow> ?r")
  proof
    assume ?m
    then have h: "WorkspaceManifestID d = WorkspaceManifestID d' \<and> Host d = Host d' \<and>
        strconv_Itoa (Port d) = strconv_Itoa (Port d') \<and> Method d = Method d' \<and> Path d = Path d'"
      and t: "identity_material (Identity d) @ (if ?loop d then [ProjectID d, PolicyDestinationHostLoopback,
          den_EffectiveAuthorityLifetime d, den_AttachmentEpochID d] else []) =
        identity_material (Identity d') @ (if ?loop d' then [ProjectID d', PolicyDestinationHostLoopback,
          den_EffectiveAuthorityLifetime d', den_AttachmentEpochID d'] else [])"
      unfolding candidate_material_eq append_Cons list.inject append_Nil by blast+
    from h Itoa_inject material_tail_inject[OF denial_fields_printable(6)[OF d] denial_fields_printable(6)[OF d']
        denial_uuids(2)[OF d] denial_uuids(2)[OF d'] t]
    show ?r by blast
  next
    assume r: ?r
    then have "den_EffectiveAuthorityLifetime d = den_EffectiveAuthorityLifetime d'" if "?loop d"
      using life[OF d] life[OF d'] that by metis
    with r show ?m unfolding candidate_material_eq by (cases "?loop d") simp_all
  qed
  with mat effect_key_iff[OF d d'] dest show ?thesis by (auto simp: effect_of_def)
qed

section \<open>An example denial\<close>

definition example_denial :: "string \<Rightarrow> string \<Rightarrow> PolicyDenial" where
  "example_denial project path =
     \<lparr> Identity = base_identity ''https'' ''http'', WorkspaceManifestID = ''0190a1b2-c3d4-7e5f-8a9b-0c1d2e3f4a5b'',
       WorkspaceManifestName = ''dev'', ProjectID = project, ProjectRoot = ''/home/u/p'', Host = ''api.tobari.dev'',
       Port = 443, Method = ''GET'', Path = path, den_Timestamp = ''2024-05-06T07:08:09Z'',
       den_RequestID = ''0123456789abcdef0123456789abcdef'', den_Reason = ''denied'', den_StatusCode = 403,
       den_Learnable = True, den_DestinationKind = [], den_AuthorityLifetime = [], den_AttachmentEpochID = [] \<rparr>"

abbreviation example_workspace :: string where
  "example_workspace \<equiv> ''0190a1b2-c3d4-7e5f-8a9b-0c1d2e3f4a5c''"

abbreviation other_workspace :: string where
  "other_workspace \<equiv> ''0190a1b2-c3d4-7e5f-8a9b-0c1d2e3f4a5d''"

lemma example_denials_valid:
  "PolicyDenial_Validate (example_denial example_workspace ''/v1/items/7'') = None"
  "PolicyDenial_Validate (example_denial other_workspace ''/v1/items/7'') = None"
  "PolicyDenial_Validate (example_denial example_workspace ''/v1/items/8'') = None"
  by code_simp+

section \<open>Properties\<close>

text \<open>C29: The string hashed into the reference of a candidate determines the effect it stands for: two validated
  denials have the same preimage exactly when they agree on the Workspace Manifest, on the request effect with its
  protocol identity and on the destination kind, and, for an attachment-local Host Loopback denial, on the
  Workspace and the attachment epoch. The aggregation key of the Inbox separates the same effects.\<close>

theorem candidate_reference_binds_effect:
  assumes d: "PolicyDenial_Validate d = None" and d': "PolicyDenial_Validate d' = None"
  shows "(strings_Join (candidate_material d) [NUL] = strings_Join (candidate_material d') [NUL] \<longleftrightarrow>
      WorkspaceManifestID d = WorkspaceManifestID d' \<and> effect_of d = effect_of d' \<and>
      den_EffectiveDestinationKind d = den_EffectiveDestinationKind d' \<and>
      (den_EffectiveDestinationKind d = PolicyDestinationHostLoopback \<longrightarrow>
         ProjectID d = ProjectID d' \<and> den_AttachmentEpochID d = den_AttachmentEpochID d')) \<and>
    (effect_key d = effect_key d' \<longleftrightarrow> strings_Join (candidate_material d) [NUL] = strings_Join (candidate_material d') [NUL])"
  using candidate_preimage_iff[OF d d'] effect_key_iff[OF d d'] unfolding candidate_preimage_def by blast

theorem candidate_reference_binds_effect_witness:
  "strings_Join (candidate_material (example_denial example_workspace ''/v1/items/7'')) [NUL] =
     strings_Join (candidate_material (example_denial other_workspace ''/v1/items/7'')) [NUL] \<and>
   strings_Join (candidate_material (example_denial example_workspace ''/v1/items/7'')) [NUL] \<noteq>
     strings_Join (candidate_material (example_denial example_workspace ''/v1/items/8'')) [NUL]"
proof -
  have "effect_key (example_denial example_workspace ''/v1/items/7'') = effect_key (example_denial other_workspace ''/v1/items/7'')"
    "effect_key (example_denial example_workspace ''/v1/items/7'') \<noteq> effect_key (example_denial example_workspace ''/v1/items/8'')"
    by code_simp+
  with candidate_reference_binds_effect[OF example_denials_valid(1,2)]
    candidate_reference_binds_effect[OF example_denials_valid(1,3)]
  show ?thesis by blast
qed

text \<open>C2: The Inbox computes its declarative definition, whatever order Go gives the entries of its map: it succeeds
  exactly when the denial collection is known and every denial, learned rule and Deny rule is valid, and then it
  returns one candidate per uncovered effect, taken from the latest denial of that effect (the last one at equal
  times), sorted by that time and position, with the number of its denials as the observation count.\<close>

theorem PolicyCandidates_refines_spec:
  assumes "\<And>as. mset (iteration as) = mset as"
  shows "PolicyCandidatesWithDenyRules iteration denials rules denies = Inr cs \<longleftrightarrow>
    denials \<noteq> None \<and> ValidateLearnedPolicyRules rules = None \<and> PolicyDenyRuleSet_Validate denies = None \<and>
    (\<forall>d \<in> set (elems denials). PolicyDenial_Validate d = None) \<and>
    cs = pending_candidates (skipped (elems rules) denies) (elems denials)"
  by (rule candidates_Inr[OF assms])

theorem PolicyCandidates_refines_spec_witness:
  "PolicyCandidatesWithDenyRules rev (Some [example_denial example_workspace ''/v1/items/7'']) (Some []) \<lparr> Exact = Some [] \<rparr> =
     Inr (pending_candidates (skipped [] \<lparr> Exact = Some [] \<rparr>) [example_denial example_workspace ''/v1/items/7''])"
proof -
  have "ValidateLearnedPolicyRules (Some []) = None" "PolicyDenyRuleSet_Validate \<lparr> Exact = Some [] \<rparr> = None" by code_simp+
  then show ?thesis
    by (subst PolicyCandidates_refines_spec) (simp_all add: example_denials_valid)
qed

lemma candidate_of_id: "cand_ID (candidate_of d) = ''pcy_'' @ digest16 (candidate_preimage d)"
  by (simp add: candidate_preimage_def)

lemma pending_ids:
  "map cand_ID (pending_candidates skip ds) =
     map (\<lambda>i. cand_ID (candidate_of (ds ! i))) (sort_key (\<lambda>i. (observed (ds ! i), i)) (latest_positions skip ds))"
  by (simp add: pending_candidates_def o_def)

lemma pending_ids_set:
  assumes v: "\<forall>d \<in> set ds. PolicyDenial_Validate d = None"
  shows "set (map cand_ID (pending_candidates skip ds)) = (\<lambda>d. cand_ID (candidate_of d)) ` {d \<in> set ds. \<not> skip d}"
proof (intro set_eqI iffI)
  fix x assume "x \<in> set (map cand_ID (pending_candidates skip ds))"
  then obtain i where "i \<in> set (latest_positions skip ds)" "x = cand_ID (candidate_of (ds ! i))"
    unfolding pending_ids by auto
  then show "x \<in> (\<lambda>d. cand_ID (candidate_of d)) ` {d \<in> set ds. \<not> skip d}"
    by (auto simp: latest_positions_def pending_less simp del: candidate_of_fields)
next
  fix x assume "x \<in> (\<lambda>d. cand_ID (candidate_of d)) ` {d \<in> set ds. \<not> skip d}"
  then obtain d where "d \<in> set ds" "\<not> skip d" "x = cand_ID (candidate_of d)" by blast
  then obtain p where p: "p \<in> set (pending_positions skip ds)" "x = cand_ID (candidate_of (ds ! p))"
    unfolding pending_less by (metis in_set_conv_nth)
  then obtain i where i: "i \<in> set (latest_positions skip ds)" "effect_key (ds ! i) = effect_key (ds ! p)"
    using class_has_latest by metis
  then have "i < length ds" "p < length ds" using p by (auto simp: latest_positions_def pending_less)
  with v have "candidate_preimage (ds ! i) = candidate_preimage (ds ! p)"
    using candidate_preimage_iff i(2) by simp
  then have "x = cand_ID (candidate_of (ds ! i))" using p(2) unfolding candidate_of_id by simp
  with i(1) show "x \<in> set (map cand_ID (pending_candidates skip ds))"
    unfolding pending_ids set_map set_sort by blast
qed

lemma pending_ids_distinct:
  assumes v: "\<forall>d \<in> set ds. PolicyDenial_Validate d = None" and inj: "inj_on digest16 (candidate_preimage ` set ds)"
  shows "distinct (map cand_ID (pending_candidates skip ds))"
proof -
  have "i = j" if ij: "i \<in> set (latest_positions skip ds)" "j \<in> set (latest_positions skip ds)"
    "cand_ID (candidate_of (ds ! i)) = cand_ID (candidate_of (ds ! j))" for i j
  proof -
    have l: "i < length ds" "j < length ds" using ij by (auto simp: latest_positions_def pending_less)
    have "candidate_preimage (ds ! i) = candidate_preimage (ds ! j)"
      using ij(3) l inj unfolding candidate_of_id by (auto simp: inj_on_def)
    then have "effect_key (ds ! i) = effect_key (ds ! j)" using candidate_preimage_iff v l by simp
    then show ?thesis using latest_key_inj[of ds skip] ij by (simp add: inj_on_def)
  qed
  then show ?thesis unfolding pending_ids
    by (simp add: distinct_map inj_on_def latest_positions_def pending_positions_def del: candidate_of_fields)
qed

text \<open>C18: The Inbox loses and invents nothing: every returned candidate is valid, the observation counts add up to
  the number of learnable denials that no current decision covers, and the returned references are exactly those
  of these denials; they are pairwise distinct, as the candidate report demands, when the truncated SHA-256 digest
  does not collide on the denials at hand.\<close>

theorem PolicyCandidates_complete:
  assumes "\<And>as. mset (iteration as) = mset as"
    and "PolicyCandidatesWithDenyRules iteration (Some ds) (Some rules) denies = Inr cs"
    and "inj_on digest16 ((\<lambda>d. strings_Join (candidate_material d) [NUL]) ` set ds)"
  shows "list_all (\<lambda>c. PolicyCandidate_Validate c = None) cs \<and>
    sum_list (map cand_ObservationCount cs) = int (length (filter (\<lambda>d. \<not> skipped rules denies d) ds)) \<and>
    set (map cand_ID cs) = (\<lambda>d. cand_ID (candidate_of d)) ` {d \<in> set ds. \<not> skipped rules denies d} \<and>
    distinct (map cand_ID cs)"
proof -
  have v: "\<forall>d \<in> set ds. PolicyDenial_Validate d = None" and cs: "cs = pending_candidates (skipped rules denies) ds"
    using assms(2) unfolding candidates_Inr[OF assms(1)] by simp_all
  have inj: "inj_on digest16 (candidate_preimage ` set ds)"
    using assms(3) candidate_preimage_def by (metis (no_types, lifting) image_cong)
  show ?thesis unfolding cs
    using pending_candidates_valid[OF v] pending_candidates_count pending_ids_set[OF v] pending_ids_distinct[OF v inj]
    by (simp only: list_all_iff) blast
qed

theorem PolicyCandidates_complete_witness:
  "\<exists>c. PolicyCandidatesWithDenyRules rev (Some [example_denial example_workspace ''/v1/items/7'']) (Some []) \<lparr> Exact = Some [] \<rparr> = Inr [c]
     \<and> PolicyCandidate_Validate c = None \<and> cand_ObservationCount c = 1"
proof -
  let ?d = "example_denial example_workspace ''/v1/items/7''"
  have c: "ValidateLearnedPolicyRules (Some []) = None" "PolicyDenyRuleSet_Validate \<lparr> Exact = Some [] \<rparr> = None" by code_simp+
  then obtain cs where cs: "PolicyCandidatesWithDenyRules rev (Some [?d]) (Some []) \<lparr> Exact = Some [] \<rparr> = Inr cs"
    using candidates_Inr[of rev "Some [?d]" "Some []"] example_denials_valid(1) by simp
  have "\<not> skipped [] \<lparr> Exact = Some [] \<rparr> ?d" by code_simp
  then have "{d \<in> set [?d]. \<not> skipped [] \<lparr> Exact = Some [] \<rparr> d} = {?d}"
    "filter (\<lambda>d. \<not> skipped [] \<lparr> Exact = Some [] \<rparr> d) [?d] = [?d]" by auto
  then have "set (map cand_ID cs) = {cand_ID (candidate_of ?d)}" "distinct (map cand_ID cs)"
    "list_all (\<lambda>c. PolicyCandidate_Validate c = None) cs" "sum_list (map cand_ObservationCount cs) = 1"
    using PolicyCandidates_complete[OF _ cs] by (simp_all del: candidate_of_fields)
  moreover from this(1) distinct_card[OF this(2)] have "length cs = 1" by (simp del: set_map candidate_of_fields)
  then obtain c where "cs = [c]" by (metis One_nat_def length_0_conv length_Suc_conv)
  ultimately have "PolicyCandidate_Validate c = None" "cand_ObservationCount c = 1" "cs = [c]" by simp_all
  with cs show ?thesis by blast
qed

section \<open>Decisions\<close>

lemma same_effect_fields:
  "effect_of r = effect_of s \<Longrightarrow> Identity r = Identity s \<and> Host r = Host s \<and> Port r = Port s \<and> Method r = Method s \<and> Path r = Path s"
  by (simp add: effect_of_def)

lemma coordinates_of_effect:
  assumes "effect_of r = effect_of s" "WorkspaceManifestID r = WorkspaceManifestID s"
    "WorkspaceManifestName r = WorkspaceManifestName s" "ProjectID r = ProjectID s" "ProjectRoot r = ProjectRoot s"
  shows "coordinate_checks kind r = coordinate_checks kind s"
  using assms same_effect_fields[OF assms(1)] by (intro coordinates_cong) simp_all

lemma request_effect_of: "request_effect (Host d) (Port d) (Method d) (Path d) (Identity d) = effect_of d"
  by (simp add: request_effect_def effect_of_def)

lemma exact_rule_valid:
  assumes "NewExactLearnedPolicyRule c = Inr r"
  shows "LearnedPolicyRule_Validate r = None"
proof -
  from assms have n: "PolicyCandidate_Validate c = None" "effect_of r = effect_of c"
    "WorkspaceManifestID r = WorkspaceManifestID c" "WorkspaceManifestName r = WorkspaceManifestName c"
    "ProjectID r = ProjectID c" "ProjectRoot r = ProjectRoot c" "lr_Match r = ''exact''" "lr_Segments r = []"
    "lr_Examples r = Some [Path c]" "lr_SourceCandidates r = Some [cand_ID c]" "lr_ID r = learned_id_of r"
    unfolding NewExactLearnedPolicyRule_Inr by blast+
  show ?thesis
    using n(1) n(8-11) same_effect_fields[OF n(2)] coordinates_of_effect[OF n(2-6), of "''denial''"]
    unfolding exact_valid_iff[OF n(7)] candidate_valid_iff n(2) by simp
qed

lemma exact_deny_valid:
  assumes "NewExactPolicyDenyRule c = Inr r"
  shows "PolicyDenyRule_Validate r = None"
proof -
  from assms have n: "PolicyCandidate_Validate c = None" "effect_of r = effect_of c"
    "WorkspaceManifestID r = WorkspaceManifestID c" "WorkspaceManifestName r = WorkspaceManifestName c"
    "ProjectID r = ProjectID c" "ProjectRoot r = ProjectRoot c" "deny_SourceCandidates r = [cand_ID c]"
    "deny_ID r = deny_id_of r"
    unfolding NewExactPolicyDenyRule_Inr by blast+
  show ?thesis
    using n(1) n(7-8) coordinates_of_effect[OF n(2-6), of "''denial''"]
    unfolding deny_valid_iff candidate_valid_iff n(2) by simp
qed

lemma exact_rule_matches:
  assumes "NewExactLearnedPolicyRule c = Inr r"
  shows "LearnedPolicyRule_MatchesIdentity r (WorkspaceManifestID d) (ProjectID d) (Host d) (Port d) (Method d) (Path d) (Identity d)
    \<longleftrightarrow> WorkspaceManifestID d = WorkspaceManifestID c \<and> ProjectID d = ProjectID c \<and> effect_of d = effect_of c"
proof -
  from assms have "effect_of r = effect_of c" "WorkspaceManifestID r = WorkspaceManifestID c" "ProjectID r = ProjectID c"
    "lr_Match r = ''exact''" "SemanticRequestEffect_Validate (effect_of c) = None"
    unfolding NewExactLearnedPolicyRule_Inr candidate_valid_iff by blast+
  then show ?thesis
    unfolding LearnedPolicyRule_MatchesIdentity_def Let_def request_effect_of exact_effect_matches by auto
qed

lemma exact_deny_matches:
  assumes "NewExactPolicyDenyRule c = Inr r"
  shows "PolicyDenyRule_MatchesIdentity r (WorkspaceManifestID d) (ProjectID d) (Host d) (Port d) (Method d) (Path d) (Identity d)
    \<longleftrightarrow> WorkspaceManifestID d = WorkspaceManifestID c \<and> ProjectID d = ProjectID c \<and> effect_of d = effect_of c"
proof -
  from assms have "effect_of r = effect_of c" "WorkspaceManifestID r = WorkspaceManifestID c" "ProjectID r = ProjectID c"
    "SemanticRequestEffect_Validate (effect_of c) = None"
    unfolding NewExactPolicyDenyRule_Inr candidate_valid_iff by blast+
  then show ?thesis
    unfolding PolicyDenyRule_MatchesIdentity_def Let_def request_effect_of exact_effect_matches by auto
qed

lemma exact_decisions_exist:
  assumes "PolicyCandidate_Validate c = None" "cand_EffectiveDestinationKind c \<noteq> PolicyDestinationHostLoopback"
  obtains r q where "NewExactLearnedPolicyRule c = Inr r" "NewExactPolicyDenyRule c = Inr q"
proof -
  have "destination_ok (cand_DestinationKind c) (cand_AuthorityLifetime c) (cand_AttachmentEpochID c) (effect_of c)"
    using assms(1) unfolding candidate_valid_iff by blast
  from external_iff[OF this] assms(2) have e: "cand_EffectiveDestinationKind c = PolicyDestinationExternal"
    "cand_EffectiveAuthorityLifetime c = AuthorityLifetimePersistent"
    unfolding cand_EffectiveDestinationKind_def cand_EffectiveAuthorityLifetime_def by blast+
  then show thesis
    using assms that by (simp add: NewExactLearnedPolicyRule_def NewExactPolicyDenyRule_def checked_def first_error.simps(2) reject_def)
qed

text \<open>C19: An exact decision on a candidate is available exactly for candidates that are not attachment-local. It
  yields a valid rule, and adding that rule to the current rules covers, besides what was covered before, the
  external denials of the same effect in the same Workspace Manifest and the same Workspace, and no other.\<close>

theorem exact_decision_scope:
  assumes "PolicyCandidate_Validate c = None"
  shows "if cand_EffectiveDestinationKind c = PolicyDestinationHostLoopback
    then NewExactLearnedPolicyRule c = Inl ''attachment candidate cannot become a persistent learned rule'' \<and>
      NewExactPolicyDenyRule c = Inl ''attachment candidate cannot become a persistent deny rule''
    else \<exists>r q. NewExactLearnedPolicyRule c = Inr r \<and> LearnedPolicyRule_Validate r = None \<and>
      NewExactPolicyDenyRule c = Inr q \<and> PolicyDenyRule_Validate q = None \<and>
      (\<forall>d rules. covered (rules @ [r]) d \<longleftrightarrow> covered rules d \<or>
        den_EffectiveDestinationKind d \<noteq> PolicyDestinationHostLoopback \<and> WorkspaceManifestID d = WorkspaceManifestID c \<and>
        ProjectID d = ProjectID c \<and> effect_of d = effect_of c) \<and>
      (\<forall>d denies. persistentDenyCovered \<lparr> Exact = Some (denies @ [q]) \<rparr> d \<longleftrightarrow>
        persistentDenyCovered \<lparr> Exact = Some denies \<rparr> d \<or>
        den_EffectiveDestinationKind d \<noteq> PolicyDestinationHostLoopback \<and> WorkspaceManifestID d = WorkspaceManifestID c \<and>
        ProjectID d = ProjectID c \<and> effect_of d = effect_of c)"
proof (cases "cand_EffectiveDestinationKind c = PolicyDestinationHostLoopback")
  case True
  then have "cand_EffectiveDestinationKind c \<noteq> PolicyDestinationExternal" by simp
  with True assms show ?thesis
    by (simp add: NewExactLearnedPolicyRule_def NewExactPolicyDenyRule_def checked_def first_error.simps(2) reject_def)
next
  case False
  obtain r q where r: "NewExactLearnedPolicyRule c = Inr r" and q: "NewExactPolicyDenyRule c = Inr q"
    using exact_decisions_exist[OF assms False] .
  have "covered (rules @ [r]) d \<longleftrightarrow> covered rules d \<or>
      den_EffectiveDestinationKind d \<noteq> PolicyDestinationHostLoopback \<and> WorkspaceManifestID d = WorkspaceManifestID c \<and>
      ProjectID d = ProjectID c \<and> effect_of d = effect_of c" for d rules
    by (auto simp: covered_def exact_rule_matches[OF r])
  moreover have "persistentDenyCovered \<lparr> Exact = Some (denies @ [q]) \<rparr> d \<longleftrightarrow>
      persistentDenyCovered \<lparr> Exact = Some denies \<rparr> d \<or>
      den_EffectiveDestinationKind d \<noteq> PolicyDestinationHostLoopback \<and> WorkspaceManifestID d = WorkspaceManifestID c \<and>
      ProjectID d = ProjectID c \<and> effect_of d = effect_of c" for d denies
    by (auto simp: persistentDenyCovered_def PolicyDenyRuleSet_Matches_def exact_deny_matches[OF q])
  ultimately show ?thesis using False r q exact_rule_valid[OF r] exact_deny_valid[OF q] by auto
qed

lemma example_candidate:
  "PolicyCandidate_Validate (candidate_of (example_denial example_workspace ''/v1/items/7'')) = None"
  "cand_EffectiveDestinationKind (candidate_of (example_denial example_workspace ''/v1/items/7'')) \<noteq> PolicyDestinationHostLoopback"
  using candidate_of_valid[OF example_denials_valid(1)]
  by (simp_all add: cand_EffectiveDestinationKind_def example_denial_def effective_destination_def)

theorem exact_decision_scope_witness:
  "\<exists>r. NewExactLearnedPolicyRule (candidate_of (example_denial example_workspace ''/v1/items/7'')) = Inr r \<and>
     covered [r] (example_denial example_workspace ''/v1/items/7'') \<and>
     \<not> covered [r] (example_denial example_workspace ''/v1/items/8'')"
proof -
  let ?d = "\<lambda>p. example_denial example_workspace p"
  have none: "\<not> covered [] d" for d by (simp add: covered_def)
  have "effect_of (?d ''/v1/items/7'') \<noteq> effect_of (?d ''/v1/items/8'')"
    "den_EffectiveDestinationKind (?d ''/v1/items/7'') \<noteq> PolicyDestinationHostLoopback" by code_simp+
  with exact_decision_scope[OF example_candidate(1)] example_candidate(2) none show ?thesis
    by (metis append_Nil candidate_of_effect(1) candidate_of_fields(2,4))
qed

text \<open>The Inbox shows one candidate for an effect that several Workspaces of a Manifest were denied, but the rule
  learned from it is bound to the Workspace of the latest denial: the denials of the other Workspaces share the
  reference of the approved candidate and stay uncovered.\<close>

theorem shared_candidate_is_decided_per_workspace:
  assumes d: "PolicyDenial_Validate d = None" and d': "PolicyDenial_Validate d' = None"
    and key: "effect_key d = effect_key d'" and p: "ProjectID d \<noteq> ProjectID d'"
    and r: "NewExactLearnedPolicyRule (candidate_of d) = Inr r"
  shows "cand_ID (candidate_of d) = cand_ID (candidate_of d') \<and> covered [r] d \<and> \<not> covered [r] d'"
proof -
  have "cand_EffectiveDestinationKind (candidate_of d) \<noteq> PolicyDestinationHostLoopback"
    using r unfolding NewExactLearnedPolicyRule_Inr by blast
  then have "den_EffectiveDestinationKind d \<noteq> PolicyDestinationHostLoopback"
    by (simp add: cand_EffectiveDestinationKind_def den_EffectiveDestinationKind_def)
  moreover have "cand_ID (candidate_of d) = cand_ID (candidate_of d')"
    using candidate_preimage_iff[OF d d'] key unfolding candidate_of_id by simp
  ultimately show ?thesis
    using p by (simp add: covered_def exact_rule_matches[OF r] del: candidate_of_fields(17))
qed

theorem shared_candidate_is_decided_per_workspace_witness:
  "\<exists>r. NewExactLearnedPolicyRule (candidate_of (example_denial example_workspace ''/v1/items/7'')) = Inr r \<and>
     \<not> covered [r] (example_denial other_workspace ''/v1/items/7'')"
proof -
  have "effect_key (example_denial example_workspace ''/v1/items/7'') = effect_key (example_denial other_workspace ''/v1/items/7'')"
    "ProjectID (example_denial example_workspace ''/v1/items/7'') \<noteq> ProjectID (example_denial other_workspace ''/v1/items/7'')"
    by code_simp+
  note w = shared_candidate_is_decided_per_workspace[OF example_denials_valid(1,2) this]
  obtain r where "NewExactLearnedPolicyRule (candidate_of (example_denial example_workspace ''/v1/items/7'')) = Inr r"
    using exact_decisions_exist[OF example_candidate] by blast
  with w show ?thesis by blast
qed

end
