(* ===== verification/Policy_Inventory.thy ===== *)
theory Policy_Inventory
  imports Policy_Learning
begin

text \<open>
  The inventory of current learned decisions (\<open>internal/domain/tobari/policy.go\<close>): learned Allow rules and
  exact Deny rules in one shape, their report, and the removal of one decision. The inventory is sorted by
  decision and ID; the sort of the source is unstable, and the sorted key is unique in a validated inventory, so
  the stable sort of the model gives the same list.
\<close>

section \<open>The common shape\<close>

record PolicyRule = scoped_effect +
  pr_ID :: string
  pr_Decision :: string
  pr_Match :: string
  pr_Segments :: "string list"
  pr_Examples :: "string list option"
  pr_SourceCandidates :: "string list option"

text \<open>The learned rule and the Deny rule that \<open>PolicyRule.Validate\<close> checks.\<close>

definition policy_rule_learned :: "PolicyRule \<Rightarrow> LearnedPolicyRule" where
  "policy_rule_learned r =
     \<lparr> Identity = Identity r, WorkspaceManifestID = WorkspaceManifestID r, WorkspaceManifestName = WorkspaceManifestName r,
       ProjectID = ProjectID r, ProjectRoot = ProjectRoot r, Host = Host r, Port = Port r, Method = Method r, Path = Path r,
       lr_ID = pr_ID r, lr_Match = pr_Match r, lr_Segments = pr_Segments r, lr_Examples = pr_Examples r,
       lr_SourceCandidates = pr_SourceCandidates r \<rparr>"

definition policy_rule_deny :: "PolicyRule \<Rightarrow> PolicyDenyRule" where
  "policy_rule_deny r =
     \<lparr> Identity = Identity r, WorkspaceManifestID = WorkspaceManifestID r, WorkspaceManifestName = WorkspaceManifestName r,
       ProjectID = ProjectID r, ProjectRoot = ProjectRoot r, Host = Host r, Port = Port r, Method = Method r, Path = Path r,
       deny_ID = pr_ID r, deny_SourceCandidates = elems (pr_SourceCandidates r) \<rparr>"

definition PolicyRule_Validate :: "PolicyRule \<Rightarrow> check" where
  "PolicyRule_Validate r =
     first_error
       [ValidatePolicyRuleID (pr_ID r),
        reject (\<not> validPolicyDecision (pr_Decision r)) ''policy rule decision is invalid'',
        (if pr_Decision r = ''allow'' then
           wrap ''policy rule allow'' (LearnedPolicyRule_Validate (policy_rule_learned r))
         else
           first_error
             [reject (pr_Match r \<noteq> ''exact'' \<or> pr_Examples r = None) ''policy rule deny shape is invalid'',
              wrap ''policy rule deny'' (PolicyDenyRule_Validate (policy_rule_deny r))])]"

definition learned_policy_rule :: "LearnedPolicyRule \<Rightarrow> PolicyRule" where
  "learned_policy_rule r =
     \<lparr> Identity = Identity r, WorkspaceManifestID = WorkspaceManifestID r, WorkspaceManifestName = WorkspaceManifestName r,
       ProjectID = ProjectID r, ProjectRoot = ProjectRoot r, Host = Host r, Port = Port r, Method = Method r, Path = Path r,
       pr_ID = lr_ID r, pr_Decision = ''allow'', pr_Match = lr_Match r, pr_Segments = lr_Segments r,
       pr_Examples = Some (elems (lr_Examples r)), pr_SourceCandidates = Some (elems (lr_SourceCandidates r)) \<rparr>"

definition NewPolicyRuleFromLearned :: "LearnedPolicyRule \<Rightarrow> PolicyRule result" where
  "NewPolicyRuleFromLearned r =
     checked (first_error [LearnedPolicyRule_Validate r, PolicyRule_Validate (learned_policy_rule r)]) (learned_policy_rule r)"

definition deny_policy_rule :: "PolicyDenyRule \<Rightarrow> PolicyRule" where
  "deny_policy_rule r =
     \<lparr> Identity = Identity r, WorkspaceManifestID = WorkspaceManifestID r, WorkspaceManifestName = WorkspaceManifestName r,
       ProjectID = ProjectID r, ProjectRoot = ProjectRoot r, Host = Host r, Port = Port r, Method = Method r, Path = Path r,
       pr_ID = deny_ID r, pr_Decision = ''deny'', pr_Match = ''exact'', pr_Segments = [],
       pr_Examples = Some [], pr_SourceCandidates = Some (deny_SourceCandidates r) \<rparr>"

definition NewPolicyRuleFromDeny :: "PolicyDenyRule \<Rightarrow> PolicyRule result" where
  "NewPolicyRuleFromDeny r =
     checked (first_error [PolicyDenyRule_Validate r, PolicyRule_Validate (deny_policy_rule r)]) (deny_policy_rule r)"

definition policy_rule_order :: "PolicyRule \<Rightarrow> string \<times> string" where
  "policy_rule_order r = (pr_Decision r, pr_ID r)"

definition CurrentPolicyRules :: "LearnedPolicyRule list option \<Rightarrow> PolicyDenyRule list option \<Rightarrow> PolicyRule list result" where
  "CurrentPolicyRules learned denies =
     guarded (first_error [ValidateLearnedPolicyRules learned, PolicyDenyRuleSet_Validate \<lparr> Exact = denies \<rparr>])
       (and_then (map_result NewPolicyRuleFromLearned (elems learned)) (\<lambda>allowed.
        and_then (map_result NewPolicyRuleFromDeny (elems denies)) (\<lambda>denied.
          Inr (sort_key policy_rule_order (allowed @ denied)))))"

section \<open>Reports\<close>

record PolicyRuleReport =
  prr_Task :: string
  prr_Projection :: PolicyProjectionIdentity
  prr_Items :: "PolicyRule list option"

definition PolicyRuleReport_Validate :: "PolicyRuleReport \<Rightarrow> check" where
  "PolicyRuleReport_Validate r =
     first_error
       [reject (prr_Task r \<noteq> ''policy.rules'') ''policy rule report task identity is invalid'',
        wrap ''policy rule report projection identity'' (PolicyProjectionIdentity_Validate (prr_Projection r)),
        reject (prr_Items r = None) ''policy rule collection is unknown'',
        check_items PolicyRule_Validate pr_ID ''policy rule IDs must be unique'' [] (elems (prr_Items r))]"

record PolicyRuleReset =
  reset_Task :: string
  reset_Projection :: PolicyProjectionIdentity
  reset_TargetID :: string
  reset_Decision :: string
  reset_Applied :: bool

definition PolicyRuleReset_Validate :: "PolicyRuleReset \<Rightarrow> check" where
  "PolicyRuleReset_Validate r =
     first_error
       [reject (reset_Task r \<noteq> ''policy.reset'') ''policy rule reset task identity is invalid'',
        ValidatePolicyRuleID (reset_TargetID r),
        reject (\<not> validPolicyDecision (reset_Decision r)) ''policy rule reset decision is invalid'',
        wrap ''policy rule reset projection identity'' (PolicyProjectionIdentity_Validate (reset_Projection r)),
        reject (\<not> reset_Applied r) ''policy rule reset is not applied'']"

section \<open>Removing a decision\<close>

text \<open>
  The two loops of \<open>RemovePolicyRule\<close>. The removed rule is \<^term>\<open>None\<close> while \<open>found\<close> is false; a second
  match overwrites the first in the loop over learned rules and is an error in the loop over Deny rules.
\<close>

fun remove_loop ::
    "('r \<Rightarrow> string) \<Rightarrow> ('r \<Rightarrow> PolicyRule result) \<Rightarrow> bool \<Rightarrow> string \<Rightarrow> PolicyRule option \<Rightarrow> 'r list
     \<Rightarrow> ('r list \<times> PolicyRule option) result" where
  "remove_loop key convert refuse ident removed [] = Inr ([], removed)"
| "remove_loop key convert refuse ident removed (r # rs) =
     (if key r \<noteq> ident then
        and_then (remove_loop key convert refuse ident removed rs) (\<lambda>(kept, found). Inr (r # kept, found))
      else if refuse \<and> removed \<noteq> None then Inl ''policy rule ID is duplicated across decisions''
      else and_then (convert r) (\<lambda>rule. remove_loop key convert refuse ident (Some rule) rs))"

definition RemovePolicyRule ::
    "LearnedPolicyRule list option \<Rightarrow> PolicyDenyRule list option \<Rightarrow> string
     \<Rightarrow> (LearnedPolicyRule list \<times> PolicyDenyRule list \<times> PolicyRule) result" where
  "RemovePolicyRule learned denies ident =
     guarded
       (first_error
          [ValidatePolicyRuleID ident, ValidateLearnedPolicyRules learned, PolicyDenyRuleSet_Validate \<lparr> Exact = denies \<rparr>])
       (and_then (remove_loop lr_ID NewPolicyRuleFromLearned False ident None (elems learned)) (\<lambda>(updatedLearned, removed).
        and_then (remove_loop deny_ID NewPolicyRuleFromDeny True ident removed (elems denies)) (\<lambda>(updatedDenies, removed).
          case removed of
            None \<Rightarrow> Inl ''policy rule is not current''
          | Some rule \<Rightarrow> Inr (updatedLearned, updatedDenies, rule))))"

section \<open>Lemmas\<close>

lemma learned_round_trip:
  assumes "LearnedPolicyRule_Validate r = None"
  shows "policy_rule_learned (learned_policy_rule r) = r"
proof -
  have "lr_Examples r \<noteq> None \<and> lr_SourceCandidates r \<noteq> None"
    using assms unfolding LearnedPolicyRule_Validate_def Let_def check_simps de_Morgan_disj
    by (elim conjE) (intro conjI)
  then show ?thesis by (cases r) (auto simp: policy_rule_learned_def learned_policy_rule_def)
qed

lemma deny_round_trip: "policy_rule_deny (deny_policy_rule r) = r"
  by (simp add: policy_rule_deny_def deny_policy_rule_def)

lemma learned_rule_id:
  assumes "LearnedPolicyRule_Validate r = None"
  shows "learnedRuleIDPattern (lr_ID r)"
  using assms unfolding LearnedPolicyRule_Validate_def Let_def check_simps not_not by (elim conjE)

lemma deny_rule_id:
  assumes "PolicyDenyRule_Validate r = None"
  shows "policyDenyRuleIDPattern (deny_ID r)"
  using assms unfolding PolicyDenyRule_Validate_def check_simps not_not by (elim conjE)

lemma rule_id_kinds: "learnedRuleIDPattern s \<Longrightarrow> \<not> policyDenyRuleIDPattern s"
  by (auto simp: learnedRuleIDPattern_def policyDenyRuleIDPattern_def prefixed_hex_def HasPrefix_iff)

lemma learned_inventory_valid:
  assumes "LearnedPolicyRule_Validate r = None"
  shows "PolicyRule_Validate (learned_policy_rule r) = None"
  using learned_rule_id[OF assms] learned_round_trip[OF assms] assms
  by (simp add: PolicyRule_Validate_def check_simps ValidatePolicyRuleID_def validPolicyDecision_iff learned_policy_rule_def)

lemma deny_inventory_valid:
  assumes "PolicyDenyRule_Validate r = None"
  shows "PolicyRule_Validate (deny_policy_rule r) = None"
proof -
  have "pr_ID (deny_policy_rule r) = deny_ID r" "pr_Decision (deny_policy_rule r) = ''deny''"
    "pr_Match (deny_policy_rule r) = ''exact''" "pr_Examples (deny_policy_rule r) = Some []"
    by (simp_all add: deny_policy_rule_def)
  then show ?thesis
    using deny_rule_id[OF assms] assms
    by (simp add: PolicyRule_Validate_def check_simps ValidatePolicyRuleID_def validPolicyDecision_iff deny_round_trip)
qed

lemma NewPolicyRuleFromLearned_Inr:
  "NewPolicyRuleFromLearned r = Inr p \<longleftrightarrow> LearnedPolicyRule_Validate r = None \<and> p = learned_policy_rule r"
  unfolding NewPolicyRuleFromLearned_def check_simps using learned_inventory_valid by auto

lemma NewPolicyRuleFromDeny_Inr:
  "NewPolicyRuleFromDeny r = Inr p \<longleftrightarrow> PolicyDenyRule_Validate r = None \<and> p = deny_policy_rule r"
  unfolding NewPolicyRuleFromDeny_def check_simps using deny_inventory_valid by auto

lemma map_result_total: "\<forall>x \<in> set xs. f x = Inr (g x) \<Longrightarrow> map_result f xs = Inr (map g xs)"
  by (induction xs) auto

lemma remove_loop_absent:
  "ident \<notin> key ` set rs \<Longrightarrow> remove_loop key convert refuse ident removed rs = Inr (rs, removed)"
  by (induction rs) (auto simp: and_then_def)

lemma remove_loop_found:
  assumes "distinct (map key rs)" "r \<in> set rs" "key r = ident" "convert r = Inr p" "refuse \<longrightarrow> removed = None"
  shows "remove_loop key convert refuse ident removed rs = Inr (filter (\<lambda>x. key x \<noteq> ident) rs, Some p)"
  using assms
proof (induction rs)
  case (Cons x xs)
  show ?case
  proof (cases "key x = ident")
    case True
    with Cons.prems have "x = r" "ident \<notin> key ` set xs" by (auto simp: image_iff)
    then show ?thesis using Cons.prems True remove_loop_absent[of ident key xs convert refuse "Some p"]
      by (auto simp: and_then_def image_iff intro!: filter_True[symmetric])
  next
    case False
    then show ?thesis using Cons by (auto simp: and_then_def)
  qed
qed simp

abbreviation current_valid :: "LearnedPolicyRule list option \<Rightarrow> PolicyDenyRule list option \<Rightarrow> bool" where
  "current_valid learned denies \<equiv>
     ValidateLearnedPolicyRules learned = None \<and> PolicyDenyRuleSet_Validate \<lparr> Exact = denies \<rparr> = None"

lemma current_valid_iff:
  "current_valid learned denies \<longleftrightarrow> learned \<noteq> None \<and> denies \<noteq> None \<and>
     (\<forall>r \<in> set (elems learned). LearnedPolicyRule_Validate r = None) \<and> distinct (map lr_ID (elems learned)) \<and>
     (\<forall>r \<in> set (elems denies). PolicyDenyRule_Validate r = None) \<and> distinct (map deny_ID (elems denies))"
  unfolding ValidateLearnedPolicyRules_def PolicyDenyRuleSet_Validate_def check_simps by auto

definition inventory :: "LearnedPolicyRule list \<Rightarrow> PolicyDenyRule list \<Rightarrow> PolicyRule list" where
  "inventory learned denies = map learned_policy_rule learned @ map deny_policy_rule denies"

lemma CurrentPolicyRules_Inr:
  assumes "current_valid learned denies"
  shows "CurrentPolicyRules learned denies = Inr (sort_key policy_rule_order (inventory (elems learned) (elems denies)))"
proof -
  have "map_result NewPolicyRuleFromLearned (elems learned) = Inr (map learned_policy_rule (elems learned))"
    "map_result NewPolicyRuleFromDeny (elems denies) = Inr (map deny_policy_rule (elems denies))"
    using assms unfolding current_valid_iff
    by (intro map_result_total, simp add: NewPolicyRuleFromLearned_Inr NewPolicyRuleFromDeny_Inr)+
  then show ?thesis
    unfolding CurrentPolicyRules_def check_simps inventory_def using assms by (simp add: check_simps)
qed

lemma inventory_fields [simp]:
  "pr_ID (learned_policy_rule r) = lr_ID r" "pr_Decision (learned_policy_rule r) = ''allow''"
  "pr_ID (deny_policy_rule q) = deny_ID q" "pr_Decision (deny_policy_rule q) = ''deny''"
  by (simp_all add: learned_policy_rule_def deny_policy_rule_def)

lemma inventory_ids_distinct:
  assumes "current_valid learned denies"
  shows "distinct (map pr_ID (inventory (elems learned) (elems denies)))"
proof -
  have "lr_ID r \<noteq> deny_ID q" if "r \<in> set (elems learned)" "q \<in> set (elems denies)" for r q
    using that assms learned_rule_id[of r] deny_rule_id[of q] rule_id_kinds[of "lr_ID r"]
    unfolding current_valid_iff by metis
  with assms show ?thesis unfolding current_valid_iff inventory_def by (auto simp: o_def)
qed

lemma inventory_valid:
  assumes "current_valid learned denies" "p \<in> set (inventory (elems learned) (elems denies))"
  shows "PolicyRule_Validate p = None"
  using assms learned_inventory_valid deny_inventory_valid unfolding current_valid_iff inventory_def by auto

lemma strictly_sorted:
  "sorted (map g ys) \<Longrightarrow> distinct (map g ys) \<Longrightarrow> sorted_wrt (\<lambda>a b. g a < g b) ys"
  by (induction ys) (auto simp: less_le image_iff)

lemma inventory_strictly_sorted:
  assumes "distinct (map pr_ID xs)"
  shows "sorted_wrt (\<lambda>a b. policy_rule_order a < policy_rule_order b) (sort_key policy_rule_order xs)"
proof (rule strictly_sorted)
  have "inj_on policy_rule_order (set xs)" "distinct xs"
    using assms by (auto simp: distinct_map inj_on_def policy_rule_order_def)
  then show "distinct (map policy_rule_order (sort_key policy_rule_order xs))" by (simp add: distinct_map)
qed simp

lemma remove_loop_valid:
  assumes "distinct (map key rs)" "\<And>r. r \<in> set rs \<Longrightarrow> convert r = Inr (conv r)" "ident \<in> key ` set rs \<longrightarrow> removed = None"
  shows "remove_loop key convert refuse ident removed rs =
    Inr (filter (\<lambda>r. key r \<noteq> ident) rs,
         case find (\<lambda>r. key r = ident) rs of None \<Rightarrow> removed | Some r \<Rightarrow> Some (conv r))"
proof (cases "ident \<in> key ` set rs")
  case False
  then have "find (\<lambda>r. key r = ident) rs = None" "filter (\<lambda>r. key r \<noteq> ident) rs = rs"
    by (auto simp: find_None_iff intro: filter_True)
  with remove_loop_absent[OF False] show ?thesis by simp
next
  case True
  then obtain r where f: "find (\<lambda>r. key r = ident) rs = Some r"
    by (metis (mono_tags, lifting) find_None_iff imageE not_None_eq)
  then have "r \<in> set rs" "key r = ident" by (auto simp: find_Some_iff)
  then show ?thesis using remove_loop_found[OF assms(1), of r ident convert "conv r"] assms(2,3) f by auto
qed

lemma RemovePolicyRule_eq:
  assumes v: "current_valid learned denies" and i: "ValidatePolicyRuleID ident = None"
  shows "RemovePolicyRule learned denies ident =
    (case find (\<lambda>p. pr_ID p = ident) (inventory (elems learned) (elems denies)) of
       None \<Rightarrow> Inl ''policy rule is not current''
     | Some p \<Rightarrow> Inr (filter (\<lambda>r. lr_ID r \<noteq> ident) (elems learned), filter (\<lambda>r. deny_ID r \<noteq> ident) (elems denies), p))"
proof -
  let ?L = "elems learned" and ?D = "elems denies"
  let ?r = "find (\<lambda>r. lr_ID r = ident) ?L" and ?q = "find (\<lambda>r. deny_ID r = ident) ?D"
  have conv: "\<And>r. r \<in> set ?L \<Longrightarrow> NewPolicyRuleFromLearned r = Inr (learned_policy_rule r)"
      "\<And>q. q \<in> set ?D \<Longrightarrow> NewPolicyRuleFromDeny q = Inr (deny_policy_rule q)"
    and dist: "distinct (map lr_ID ?L)" "distinct (map deny_ID ?D)"
    using v unfolding current_valid_iff by (auto simp: NewPolicyRuleFromLearned_Inr NewPolicyRuleFromDeny_Inr)
  have disj: "lr_ID ` set ?L \<inter> deny_ID ` set ?D = {}"
    using inventory_ids_distinct[OF v] by (auto simp: inventory_def)
  have l: "remove_loop lr_ID NewPolicyRuleFromLearned False ident None ?L =
      Inr (filter (\<lambda>r. lr_ID r \<noteq> ident) ?L, map_option learned_policy_rule ?r)"
    using remove_loop_valid[OF dist(1) conv(1), where ident = ident and removed = None and refuse = False] by (simp add: map_option_case)
  have "ident \<in> deny_ID ` set ?D \<longrightarrow> map_option learned_policy_rule ?r = None"
    using disj by (auto simp: find_None_iff)
  from remove_loop_valid[OF dist(2) conv(2) this, where refuse = True]
  have d: "remove_loop deny_ID NewPolicyRuleFromDeny True ident (map_option learned_policy_rule ?r) ?D =
      Inr (filter (\<lambda>r. deny_ID r \<noteq> ident) ?D,
           case ?q of None \<Rightarrow> map_option learned_policy_rule ?r | Some q \<Rightarrow> Some (deny_policy_rule q))" .
  have find_map: "find (\<lambda>p. pr_ID p = ident) (map f xs) = map_option f (find (\<lambda>x. pr_ID (f x) = ident) xs)" for f :: "'x \<Rightarrow> _" and xs
    by (induction xs) auto
  have find_append: "find P (xs @ ys) = (case find P xs of None \<Rightarrow> find P ys | Some x \<Rightarrow> Some x)" for P and xs ys :: "PolicyRule list"
    by (induction xs) auto
  have "?q = None \<or> ?r = None" using disj by (auto simp: find_None_iff)
  then show ?thesis
    using v i d unfolding RemovePolicyRule_def l inventory_def find_append find_map
    by (cases ?r; cases ?q) (simp_all add: and_then_def guarded_def first_error.simps(2))
qed

lemma length_filter_remove:
  "distinct (map f xs) \<Longrightarrow> a \<in> f ` set xs \<Longrightarrow> length (filter (\<lambda>x. f x \<noteq> a) xs) + 1 = length xs"
proof (induction xs)
  case (Cons x xs)
  show ?case
  proof (cases "f x = a")
    case True
    then have "filter (\<lambda>x. f x \<noteq> a) xs = xs" using Cons.prems by (auto intro!: filter_True simp: image_iff)
    with True show ?thesis by simp
  qed (use Cons in auto)
qed simp

lemma CurrentPolicyRules_remove:
  assumes v: "current_valid learned denies"
  shows "CurrentPolicyRules (Some (filter (\<lambda>r. lr_ID r \<noteq> ident) (elems learned)))
      (Some (filter (\<lambda>r. deny_ID r \<noteq> ident) (elems denies))) =
    Inr (filter (\<lambda>q. pr_ID q \<noteq> ident) (sort_key policy_rule_order (inventory (elems learned) (elems denies))))"
proof -
  let ?l = "filter (\<lambda>r. lr_ID r \<noteq> ident) (elems learned)" and ?d = "filter (\<lambda>r. deny_ID r \<noteq> ident) (elems denies)"
  have "current_valid (Some ?l) (Some ?d)"
    using v unfolding current_valid_iff by (auto simp: distinct_map inj_on_def)
  then show ?thesis using CurrentPolicyRules_Inr[of "Some ?l" "Some ?d"]
    by (simp add: filter_sort inventory_def filter_map o_def)
qed

section \<open>Properties\<close>

text \<open>The inventory of a validated policy snapshot always exists, lists every learned Allow and every exact Deny
  once, is strictly sorted by decision and ID, and passes the validation of the report that carries it.\<close>

theorem CurrentPolicyRules_exhaustive:
  assumes "ValidateLearnedPolicyRules learned = None" "PolicyDenyRuleSet_Validate \<lparr> Exact = denies \<rparr> = None"
    and "PolicyProjectionIdentity_Validate projection = None"
  shows "\<exists>items. CurrentPolicyRules learned denies = Inr items \<and>
    mset items = mset (map learned_policy_rule (elems learned)) + mset (map deny_policy_rule (elems denies)) \<and>
    sorted_wrt (\<lambda>a b. policy_rule_order a < policy_rule_order b) items \<and>
    PolicyRuleReport_Validate \<lparr> prr_Task = ''policy.rules'', prr_Projection = projection, prr_Items = Some items \<rparr> = None"
proof -
  let ?inv = "inventory (elems learned) (elems denies)"
  have v: "current_valid learned denies" using assms by simp
  have "PolicyRuleReport_Validate \<lparr> prr_Task = ''policy.rules'', prr_Projection = projection,
      prr_Items = Some (sort_key policy_rule_order ?inv) \<rparr> = None"
    using assms(3) inventory_valid[OF v] inventory_ids_distinct[OF v]
    by (simp add: PolicyRuleReport_Validate_def check_simps distinct_map)
  then show ?thesis
    using CurrentPolicyRules_Inr[OF v] inventory_strictly_sorted[OF inventory_ids_distinct[OF v]]
    by (simp add: inventory_def)
qed

definition example_projection :: PolicyProjectionIdentity where
  "example_projection =
     (let h = replicate 64 CHR ''a'' in
      \<lparr> AggregateRevision = h,
        EvaluatorIdentity = \<lparr> evaluator_SchemaVersion = 1, evaluator_Version = ''v1'', evaluator_Digest = ''sha256:'' @ h \<rparr>,
        PolicyDataIdentity_of = \<lparr> data_SchemaVersion = 1, data_Digest = ''sha256:'' @ h \<rparr> \<rparr>)"

lemma example_projection_valid: "PolicyProjectionIdentity_Validate example_projection = None"
  by code_simp

lemma example_rules:
  obtains r q where "ValidateLearnedPolicyRules (Some [r]) = None" "PolicyDenyRuleSet_Validate \<lparr> Exact = Some [q] \<rparr> = None"
proof -
  obtain r q where "NewExactLearnedPolicyRule (candidate_of (example_denial example_workspace ''/v1/items/7'')) = Inr r"
    "NewExactPolicyDenyRule (candidate_of (example_denial example_workspace ''/v1/items/7'')) = Inr q"
    using exact_decisions_exist[OF example_candidate] .
  from exact_rule_valid[OF this(1)] exact_deny_valid[OF this(2)] show thesis
    by (intro that[of r q]) (simp_all add: ValidateLearnedPolicyRules_def PolicyDenyRuleSet_Validate_def check_simps)
qed

theorem CurrentPolicyRules_exhaustive_witness:
  "\<exists>r q items. CurrentPolicyRules (Some [r]) (Some [q]) = Inr items \<and>
     mset items = {# deny_policy_rule q, learned_policy_rule r #}"
proof -
  obtain r q where "ValidateLearnedPolicyRules (Some [r]) = None" "PolicyDenyRuleSet_Validate \<lparr> Exact = Some [q] \<rparr> = None"
    by (rule example_rules)
  from CurrentPolicyRules_exhaustive[OF this example_projection_valid] show ?thesis by auto
qed

text \<open>C30: Removing a current decision is exactly removing its line from the inventory: for an ID of the inventory
  the operation succeeds, returns that line, and the inventory of the remaining rules is the old one without it;
  for any other ID it fails and says that the rule is not current.\<close>

theorem RemovePolicyRule_removes_one:
  assumes "ValidateLearnedPolicyRules learned = None" "PolicyDenyRuleSet_Validate \<lparr> Exact = denies \<rparr> = None"
    and "ValidatePolicyRuleID ident = None" and "CurrentPolicyRules learned denies = Inr items"
  shows "if ident \<in> pr_ID ` set items
    then \<exists>l d p. RemovePolicyRule learned denies ident = Inr (l, d, p) \<and> p \<in> set items \<and> pr_ID p = ident \<and>
      CurrentPolicyRules (Some l) (Some d) = Inr (filter (\<lambda>q. pr_ID q \<noteq> ident) items) \<and>
      length (filter (\<lambda>q. pr_ID q \<noteq> ident) items) + 1 = length items
    else RemovePolicyRule learned denies ident = Inl ''policy rule is not current''"
proof -
  let ?inv = "inventory (elems learned) (elems denies)"
  have v: "current_valid learned denies" using assms by simp
  have items: "items = sort_key policy_rule_order ?inv" using CurrentPolicyRules_Inr[OF v] assms(4) by simp
  have "length (filter (\<lambda>q. pr_ID q \<noteq> ident) items) + 1 = length items" if "ident \<in> pr_ID ` set items"
    using that inventory_ids_distinct[OF v] by (intro length_filter_remove) (simp_all add: items distinct_map)
  moreover have "find (\<lambda>p. pr_ID p = ident) ?inv = None \<longleftrightarrow> ident \<notin> pr_ID ` set items"
    by (auto simp: items find_None_iff)
  moreover have "p \<in> set items \<and> pr_ID p = ident" if "find (\<lambda>p. pr_ID p = ident) ?inv = Some p" for p
    using that by (auto simp: items find_Some_iff)
  ultimately show ?thesis
    using RemovePolicyRule_eq[OF v assms(3)] CurrentPolicyRules_remove[OF v, of ident]
    by (auto simp: items split: option.splits)
qed

theorem RemovePolicyRule_removes_one_witness:
  "\<exists>r q l d. RemovePolicyRule (Some [r]) (Some [q]) (lr_ID r) = Inr (l, d, learned_policy_rule r)"
proof -
  obtain r q where v: "ValidateLearnedPolicyRules (Some [r]) = None" "PolicyDenyRuleSet_Validate \<lparr> Exact = Some [q] \<rparr> = None"
    by (rule example_rules)
  then obtain items where items: "CurrentPolicyRules (Some [r]) (Some [q]) = Inr items"
      "items = sort_key policy_rule_order (inventory [r] [q])"
    using CurrentPolicyRules_Inr[of "Some [r]" "Some [q]"] by simp
  have ids: "set items = {learned_policy_rule r, deny_policy_rule q}" by (auto simp: items(2) inventory_def)
  have "ValidatePolicyRuleID (lr_ID r) = None" "deny_ID q \<noteq> lr_ID r"
    using v learned_rule_id[of r] deny_rule_id[of q] rule_id_kinds[of "lr_ID r"]
    by (auto simp: ValidateLearnedPolicyRules_def PolicyDenyRuleSet_Validate_def ValidatePolicyRuleID_def check_simps)
  with RemovePolicyRule_removes_one[OF v this(1) items(1)] ids show ?thesis
    by (auto split: if_splits)
qed

end
