(* ===== verification/Host_Loopback.thy ===== *)
theory Host_Loopback
  imports Policy_Learning
begin

text \<open>
  Host Loopback authority (\<open>internal/domain/tobari/host_loopback.go\<close>): attachment-local routes and their
  registry, the fixed capability projection shown to a Workspace, grants that decide one exact Host Loopback
  effect for one attachment epoch, the grant registry, and the receipt of publishing a grant
  (\<open>PolicyActivationReceipt\<close> of \<open>policy.go\<close>).
\<close>

section \<open>Routes\<close>

definition hostLoopbackRoutePattern :: "string \<Rightarrow> bool" where
  "hostLoopbackRoutePattern = prefixed_hex ''hlr_'' 32"
definition relayTokenPattern :: "string \<Rightarrow> bool" where
  "relayTokenPattern = hex_string 64"

definition hostLoopbackRouteID :: "string \<Rightarrow> string \<Rightarrow> string \<Rightarrow> string \<Rightarrow> string" where
  "hostLoopbackRouteID epochID contextID workspaceID hostname =
     ''hlr_'' @ digest16 (strings_Join [''tobari-host-loopback-route-v2'', epochID, contextID, workspaceID, hostname] [NUL])"

record AttachmentHostLoopbackRoute =
  route_ID :: string
  route_EpochID :: string
  route_ContextID :: string
  route_ContextPresentation :: string
  route_WorkspaceID :: string
  route_ProjectRoot :: string
  route_Hostname :: string
  route_RelayPort :: int
  route_RelayToken :: string

definition AttachmentHostLoopbackRoute_Validate :: "AttachmentHostLoopbackRoute \<Rightarrow> check" where
  "AttachmentHostLoopbackRoute_Validate r =
     first_error
       [reject (\<not> hostLoopbackRoutePattern (route_ID r)
                \<or> route_ID r \<noteq> hostLoopbackRouteID (route_EpochID r) (route_ContextID r) (route_WorkspaceID r) (route_Hostname r))
          ''host loopback route ID is invalid'',
        ValidateAttachmentEpochID (route_EpochID r),
        instead ''host loopback Context ID is invalid'' (ContextID_Validate (route_ContextID r)),
        instead ''host loopback Context presentation is invalid'' (ValidateName (route_ContextPresentation r)),
        instead ''host loopback Workspace ID is invalid'' (WorkspaceID_Validate (route_WorkspaceID r)),
        reject (route_ProjectRoot r = [] \<or> hd (route_ProjectRoot r) \<noteq> CHR ''/'') ''host loopback project root is invalid'',
        reject (route_Hostname r \<noteq> HostLoopbackHostname \<or> route_RelayPort r < 1024 \<or> 65535 < route_RelayPort r
                \<or> \<not> relayTokenPattern (route_RelayToken r)) ''host loopback relay authority is invalid'']"

definition NewAttachmentHostLoopbackRouteForPrincipal ::
    "string \<Rightarrow> string \<Rightarrow> string \<Rightarrow> string \<Rightarrow> string \<Rightarrow> int \<Rightarrow> string \<Rightarrow> AttachmentHostLoopbackRoute result" where
  "NewAttachmentHostLoopbackRouteForPrincipal epochID contextID contextPresentation workspaceID projectRoot relayPort relayToken =
     (let route =
        \<lparr> route_ID = hostLoopbackRouteID epochID contextID workspaceID HostLoopbackHostname, route_EpochID = epochID,
          route_ContextID = contextID, route_ContextPresentation = contextPresentation, route_WorkspaceID = workspaceID,
          route_ProjectRoot = projectRoot, route_Hostname = HostLoopbackHostname, route_RelayPort = relayPort,
          route_RelayToken = relayToken \<rparr>
      in checked (AttachmentHostLoopbackRoute_Validate route) route)"

record HostLoopbackRegistry =
  registry_SchemaVersion :: int
  registry_Routes :: "AttachmentHostLoopbackRoute list option"

fun registry_routes :: "string list \<Rightarrow> string list \<Rightarrow> AttachmentHostLoopbackRoute list \<Rightarrow> check" where
  "registry_routes seenIDs seenProjects [] = None"
| "registry_routes seenIDs seenProjects (r # rs) =
     first_error
       [AttachmentHostLoopbackRoute_Validate r,
        reject (route_ID r \<in> set seenIDs) ''host loopback route ID is duplicated'',
        reject (route_WorkspaceID r \<in> set seenProjects) ''host loopback registry has several routes for one Workspace'',
        registry_routes (route_ID r # seenIDs) (route_WorkspaceID r # seenProjects) rs]"

definition HostLoopbackRegistry_Validate :: "HostLoopbackRegistry \<Rightarrow> check" where
  "HostLoopbackRegistry_Validate r =
     first_error
       [reject (registry_SchemaVersion r \<noteq> 2 \<or> registry_Routes r = None \<or> 128 < length (elems (registry_Routes r)))
          ''host loopback registry is invalid'',
        registry_routes [] [] (elems (registry_Routes r))]"

section \<open>Capability projection\<close>

record HostLoopbackCapability =
  cap_URLTemplate :: string
  cap_MinimumPort :: int
  cap_MaximumPort :: int
  cap_Lifetime :: string
  cap_Audience :: string
  cap_Access :: string

record HostLoopbackCapabilityProjection =
  proj_SchemaVersion :: int
  proj_LocalhostMeans :: string
  proj_HostHTTP :: HostLoopbackCapability
  proj_HostDockerControl :: string

definition NewHostLoopbackCapabilityProjection :: HostLoopbackCapabilityProjection where
  "NewHostLoopbackCapabilityProjection =
     \<lparr> proj_SchemaVersion = 1, proj_LocalhostMeans = ''workspace'',
       proj_HostHTTP =
         \<lparr> cap_URLTemplate = ''http://host.tobari.internal:{port}'', cap_MinimumPort = 1024, cap_MaximumPort = 65535,
           cap_Lifetime = AuthorityLifetimeAttachment, cap_Audience = ''workspace'', cap_Access = ''policy_review_required'' \<rparr>,
       proj_HostDockerControl = ''unavailable'' \<rparr>"

definition HostLoopbackCapabilityProjection_Validate :: "HostLoopbackCapabilityProjection \<Rightarrow> check" where
  "HostLoopbackCapabilityProjection_Validate p =
     reject (p \<noteq> NewHostLoopbackCapabilityProjection) ''host loopback capability projection is invalid''"

section \<open>Grants\<close>

record AttachmentGrant =
  grant_ID :: string
  grant_Decision :: string
  grant_Lifetime :: string
  grant_DestinationKind :: string
  grant_ContextID :: string
  grant_WorkspaceID :: string
  grant_EpochID :: string
  grant_Hostname :: string
  grant_TargetPort :: int
  grant_Method :: string
  grant_Path :: string
  grant_SourceCandidate :: string

definition attachmentGrantID :: "AttachmentGrant \<Rightarrow> string" where
  "attachmentGrantID g =
     ''pag_'' @ digest16 (strings_Join
       [''tobari-attachment-grant-v2'', grant_Decision g, grant_ContextID g, grant_WorkspaceID g, grant_EpochID g,
        grant_Hostname g, strconv_Itoa (grant_TargetPort g), grant_Method g, grant_Path g, grant_SourceCandidate g] [NUL])"

definition AttachmentGrant_Validate :: "AttachmentGrant \<Rightarrow> check" where
  "AttachmentGrant_Validate g =
     first_error
       [reject (\<not> attachmentGrantPattern (grant_ID g) \<or> grant_ID g \<noteq> attachmentGrantID g) ''attachment grant ID is invalid'',
        reject (\<not> validPolicyDecision (grant_Decision g)) ''attachment grant decision is invalid'',
        reject (grant_Lifetime g \<noteq> AuthorityLifetimeAttachment \<or> grant_DestinationKind g \<noteq> PolicyDestinationHostLoopback)
          ''attachment grant authority kind is invalid'',
        ContextID_Validate (grant_ContextID g),
        WorkspaceID_Validate (grant_WorkspaceID g),
        ValidateAttachmentEpochID (grant_EpochID g),
        reject (grant_Hostname g \<noteq> HostLoopbackHostname \<or> ValidateHostLoopbackPort (grant_TargetPort g) \<noteq> None)
          ''attachment grant host loopback target is invalid'',
        reject (\<not> httpMethodPattern (grant_Method g)) ''attachment grant method is invalid'',
        instead ''attachment grant path is invalid'' (validatePolicyPath (grant_Path g)),
        ValidatePolicyCandidateID (grant_SourceCandidate g)]"

definition grant_of :: "string \<Rightarrow> PolicyCandidate \<Rightarrow> AttachmentGrant" where
  "grant_of decision c =
     (let grant =
        \<lparr> grant_ID = [], grant_Decision = decision, grant_Lifetime = AuthorityLifetimeAttachment,
          grant_DestinationKind = PolicyDestinationHostLoopback, grant_ContextID = WorkspaceManifestID c,
          grant_WorkspaceID = ProjectID c, grant_EpochID = cand_AttachmentEpochID c, grant_Hostname = Host c,
          grant_TargetPort = Port c, grant_Method = Method c, grant_Path = Path c, grant_SourceCandidate = cand_ID c \<rparr>
      in grant\<lparr> grant_ID := attachmentGrantID grant \<rparr>)"

definition NewAttachmentGrantFromCandidate :: "string \<Rightarrow> PolicyCandidate \<Rightarrow> AttachmentGrant result" where
  "NewAttachmentGrantFromCandidate decision c =
     checked
       (first_error
          [PolicyCandidate_Validate c,
           reject (cand_EffectiveDestinationKind c \<noteq> PolicyDestinationHostLoopback
                   \<or> cand_EffectiveAuthorityLifetime c \<noteq> AuthorityLifetimeAttachment)
             ''policy candidate is not attachment-scoped host loopback'',
           AttachmentGrant_Validate (grant_of decision c)])
       (grant_of decision c)"

record AttachmentGrantRegistry =
  grants_SchemaVersion :: int
  grants_Grants :: "AttachmentGrant list option"

definition grant_effect_key :: "AttachmentGrant \<Rightarrow> string" where
  "grant_effect_key g =
     strings_Join [grant_WorkspaceID g, grant_EpochID g, strconv_Itoa (grant_TargetPort g), grant_Method g, grant_Path g] [NUL]"

definition AttachmentGrantRegistry_Validate :: "AttachmentGrantRegistry \<Rightarrow> check" where
  "AttachmentGrantRegistry_Validate r =
     first_error
       [reject (grants_SchemaVersion r \<noteq> 2 \<or> grants_Grants r = None \<or> 512 < length (elems (grants_Grants r)))
          ''attachment grant registry is invalid'',
        check_items AttachmentGrant_Validate grant_effect_key ''attachment grant effect is duplicated'' []
          (elems (grants_Grants r))]"

section \<open>Activation receipts and publication\<close>

record PolicyActivationReceipt =
  ActiveRevision :: string
  act_EvaluatorIdentity :: PolicyEvaluatorIdentity
  act_PolicyDataIdentity :: PolicyDataIdentity

definition PolicyActivationReceipt_ValidateAggregate :: "PolicyActivationReceipt \<Rightarrow> check" where
  "PolicyActivationReceipt_ValidateAggregate r =
     first_error
       [reject (\<not> policyRevisionPattern (ActiveRevision r)) ''aggregate policy activation revision is invalid'',
        reject (act_EvaluatorIdentity r = zero_evaluator \<or> act_PolicyDataIdentity r = zero_data)
          ''aggregate policy activation requires evaluator and policy-data identities'',
        PolicyProjectionIdentity_Validate
          \<lparr> AggregateRevision = ActiveRevision r, EvaluatorIdentity = act_EvaluatorIdentity r,
            PolicyDataIdentity_of = act_PolicyDataIdentity r \<rparr>]"

definition PolicyActivationReceipt_ValidateAttachment :: "PolicyActivationReceipt \<Rightarrow> check" where
  "PolicyActivationReceipt_ValidateAttachment r =
     first_error
       [reject (\<not> policyRevisionPattern (ActiveRevision r)) ''attachment activation revision is invalid'',
        reject (act_EvaluatorIdentity r \<noteq> zero_evaluator \<or> act_PolicyDataIdentity r \<noteq> zero_data)
          ''attachment activation cannot carry aggregate identities'']"

record AttachmentGrantPublication =
  pub_Candidate :: PolicyCandidate
  pub_Grant :: AttachmentGrant
  pub_Activation :: PolicyActivationReceipt

definition AttachmentGrantPublication_ValidateFor :: "AttachmentGrantPublication \<Rightarrow> string \<Rightarrow> string \<Rightarrow> check" where
  "AttachmentGrantPublication_ValidateFor p candidateID decision =
     first_error
       [PolicyCandidate_Validate (pub_Candidate p),
        reject (cand_ID (pub_Candidate p) \<noteq> candidateID
                \<or> cand_EffectiveDestinationKind (pub_Candidate p) \<noteq> PolicyDestinationHostLoopback
                \<or> cand_EffectiveAuthorityLifetime (pub_Candidate p) \<noteq> AuthorityLifetimeAttachment)
          ''attachment grant publication does not consume the exact Host Loopback candidate'',
        AttachmentGrant_Validate (pub_Grant p),
        (case NewAttachmentGrantFromCandidate decision (pub_Candidate p) of
           Inl e \<Rightarrow> Some e
         | Inr want \<Rightarrow>
             first_error
               [reject (pub_Grant p \<noteq> want) ''attachment grant publication changed the requested exact decision'',
                PolicyActivationReceipt_ValidateAttachment (pub_Activation p)])]"

section \<open>Lemmas\<close>

lemma grant_of_fields [simp]:
  "grant_Decision (grant_of decision c) = decision" "grant_Lifetime (grant_of decision c) = AuthorityLifetimeAttachment"
  "grant_DestinationKind (grant_of decision c) = PolicyDestinationHostLoopback"
  "grant_ContextID (grant_of decision c) = WorkspaceManifestID c" "grant_WorkspaceID (grant_of decision c) = ProjectID c"
  "grant_EpochID (grant_of decision c) = cand_AttachmentEpochID c" "grant_Hostname (grant_of decision c) = Host c"
  "grant_TargetPort (grant_of decision c) = Port c" "grant_Method (grant_of decision c) = Method c"
  "grant_Path (grant_of decision c) = Path c" "grant_SourceCandidate (grant_of decision c) = cand_ID c"
  by (simp_all add: grant_of_def Let_def)

lemma grant_of_id: "grant_ID (grant_of decision c) = attachmentGrantID (grant_of decision c)"
  by (simp add: grant_of_def Let_def attachmentGrantID_def)

lemma grant_id_pattern: "attachmentGrantPattern (attachmentGrantID g)"
  unfolding attachmentGrantPattern_def attachmentGrantID_def by (rule prefixed_digest16)

lemma grant_valid_iff:
  "AttachmentGrant_Validate g = None \<longleftrightarrow>
     grant_ID g = attachmentGrantID g \<and> validPolicyDecision (grant_Decision g) \<and>
     grant_Lifetime g = AuthorityLifetimeAttachment \<and> grant_DestinationKind g = PolicyDestinationHostLoopback \<and>
     uuid7_pattern (grant_ContextID g) \<and> uuid7_pattern (grant_WorkspaceID g) \<and> attachmentEpochPattern (grant_EpochID g) \<and>
     grant_Hostname g = HostLoopbackHostname \<and> 1024 \<le> grant_TargetPort g \<and> grant_TargetPort g \<le> 65535 \<and>
     httpMethodPattern (grant_Method g) \<and> validatePolicyPath (grant_Path g) = None \<and>
     policyCandidateIDPattern (grant_SourceCandidate g)"
  unfolding AttachmentGrant_Validate_def check_simps id_check_defs
  using grant_id_pattern[of g] by (auto simp: not_less check_simps)

lemma loopback_candidate:
  assumes "PolicyCandidate_Validate c = None" "cand_EffectiveDestinationKind c = PolicyDestinationHostLoopback"
  shows "cand_EffectiveAuthorityLifetime c = AuthorityLifetimeAttachment" "attachmentEpochPattern (cand_AttachmentEpochID c)"
    "Host c = HostLoopbackHostname" "Scheme (Identity c) = ''http''" "1024 \<le> Port c" "Port c \<le> 65535"
proof -
  have d: "destination_ok (cand_DestinationKind c) (cand_AuthorityLifetime c) (cand_AttachmentEpochID c) (effect_of c)"
    using assms(1) unfolding candidate_valid_iff by blast
  show "cand_EffectiveAuthorityLifetime c = AuthorityLifetimeAttachment" "attachmentEpochPattern (cand_AttachmentEpochID c)"
    "Host c = HostLoopbackHostname" "Scheme (Identity c) = ''http''" "1024 \<le> Port c" "Port c \<le> 65535"
    using d assms(2) unfolding destination_ok_def cand_EffectiveDestinationKind_def cand_EffectiveAuthorityLifetime_def effect_of_fields
    by (simp_all only: if_True)
qed

lemma candidate_coordinates:
  assumes "PolicyCandidate_Validate c = None"
  shows "uuid7_pattern (WorkspaceManifestID c)" "uuid7_pattern (ProjectID c)" "httpMethodPattern (Method c)"
    "validatePolicyPath (Path c) = None" "policyCandidateIDPattern (cand_ID c)"
proof -
  have c: "coordinate_checks ''denial'' c = None" and e: "SemanticRequestEffect_Validate (effect_of c) = None"
    and i: "policyCandidateIDPattern (cand_ID c)"
    using assms unfolding candidate_valid_iff by blast+
  show "policyCandidateIDPattern (cand_ID c)" by (rule i)
  show "httpMethodPattern (Method c)" "validatePolicyPath (Path c) = None" using effect_valid_parts[OF e] by simp_all
  show "uuid7_pattern (WorkspaceManifestID c)" "uuid7_pattern (ProjectID c)"
    using c by (simp_all add: coordinate_checks_def check_simps validatePolicyScope_def ValidateWorkspaceManifestID_def
        ValidateWorkspaceID_def)
qed

lemma NewAttachmentGrant_Inr:
  "NewAttachmentGrantFromCandidate decision c = Inr g \<longleftrightarrow>
     PolicyCandidate_Validate c = None \<and> cand_EffectiveDestinationKind c = PolicyDestinationHostLoopback \<and>
     validPolicyDecision decision \<and> g = grant_of decision c"
proof -
  have "AttachmentGrant_Validate (grant_of decision c) = None \<longleftrightarrow> validPolicyDecision decision"
    if "PolicyCandidate_Validate c = None" "cand_EffectiveDestinationKind c = PolicyDestinationHostLoopback"
    unfolding grant_valid_iff grant_of_fields grant_of_id
    using candidate_coordinates[OF that(1)] loopback_candidate[OF that] by blast
  then show ?thesis
    unfolding NewAttachmentGrantFromCandidate_def check_simps using loopback_candidate(1)[of c] by auto
qed

lemma grant_key_inject:
  assumes "AttachmentGrant_Validate g = None" "AttachmentGrant_Validate h = None"
  shows "grant_effect_key g = grant_effect_key h \<longleftrightarrow>
    grant_WorkspaceID g = grant_WorkspaceID h \<and> grant_EpochID g = grant_EpochID h \<and>
    grant_TargetPort g = grant_TargetPort h \<and> grant_Method g = grant_Method h \<and> grant_Path g = grant_Path h"
proof
  let ?fields = "\<lambda>x. [grant_WorkspaceID x, grant_EpochID x, strconv_Itoa (grant_TargetPort x), grant_Method x, grant_Path x]"
  have free: "\<forall>y \<in> set (?fields x). NUL \<notin> set y" if "AttachmentGrant_Validate x = None" for x
  proof -
    have v: "uuid7_pattern (grant_WorkspaceID x)" "prefixed_hex ''att_'' 32 (grant_EpochID x)" "httpMethodPattern (grant_Method x)"
      "validatePolicyPath (grant_Path x) = None"
      using that unfolding grant_valid_iff attachmentEpochPattern_def by blast+
    have att: "printable_string ''att_''" by code_simp
    have "list_all printable_string (?fields x)"
      using uuid7_printable[OF v(1)] prefixed_hex_printable[OF v(2) att] httpMethod_printable[OF v(3)] path_printable[OF v(4)]
        Itoa_printable[of "grant_TargetPort x"] by (simp only: list.pred_inject simp_thms)
    then show ?thesis using printable_NUL unfolding list_all_iff by blast
  qed
  assume "grant_effect_key g = grant_effect_key h"
  then have "?fields g = ?fields h"
    unfolding grant_effect_key_def by (rule Join_inject[OF _ free[OF assms(1)] free[OF assms(2)]]) simp_all
  then show "grant_WorkspaceID g = grant_WorkspaceID h \<and> grant_EpochID g = grant_EpochID h \<and>
    grant_TargetPort g = grant_TargetPort h \<and> grant_Method g = grant_Method h \<and> grant_Path g = grant_Path h"
    using Itoa_inject by simp
qed (simp add: grant_effect_key_def)

lemma registry_routes_None:
  "registry_routes ids projects rs = None \<longleftrightarrow>
     (\<forall>r \<in> set rs. AttachmentHostLoopbackRoute_Validate r = None) \<and> distinct (map route_ID rs) \<and>
     distinct (map route_WorkspaceID rs) \<and> route_ID ` set rs \<inter> set ids = {} \<and> route_WorkspaceID ` set rs \<inter> set projects = {}"
  by (induction rs arbitrary: ids projects) (auto simp: check_simps)

section \<open>Properties\<close>

definition example_loopback :: PolicyDenial where
  "example_loopback =
     (example_denial example_workspace ''/health'')
       \<lparr> Identity := base_identity ''http'' ''http'', Host := HostLoopbackHostname, Port := 8080,
         den_DestinationKind := PolicyDestinationHostLoopback, den_AuthorityLifetime := AuthorityLifetimeAttachment,
         den_AttachmentEpochID := ''att_0123456789abcdef0123456789abcdef'' \<rparr>"

lemma example_loopback_valid:
  "PolicyDenial_Validate example_loopback = None" "PolicyCandidate_Validate (candidate_of example_loopback) = None"
  "cand_EffectiveDestinationKind (candidate_of example_loopback) = PolicyDestinationHostLoopback"
proof -
  show v: "PolicyDenial_Validate example_loopback = None" by code_simp
  show "PolicyCandidate_Validate (candidate_of example_loopback) = None" by (rule candidate_of_valid[OF v])
  show "cand_EffectiveDestinationKind (candidate_of example_loopback) = PolicyDestinationHostLoopback"
    by (simp add: cand_EffectiveDestinationKind_def example_loopback_def effective_destination_def)
qed

text \<open>Attachment authority and persistent authority never mix: a valid candidate can be turned into a persistent
  rule or into attachment grants, and not both. A grant exists exactly for Host Loopback candidates and valid
  decisions; it is valid and repeats the Context, Workspace, epoch, port, method and path of its candidate.\<close>

theorem attachment_authority_is_separate:
  assumes "PolicyCandidate_Validate c = None"
  shows "(\<exists>g. NewAttachmentGrantFromCandidate ''allow'' c = Inr g) \<noteq> (\<exists>r. NewExactLearnedPolicyRule c = Inr r) \<and>
    (case NewAttachmentGrantFromCandidate decision c of
       Inl e \<Rightarrow> cand_EffectiveDestinationKind c \<noteq> PolicyDestinationHostLoopback \<or> \<not> validPolicyDecision decision
     | Inr g \<Rightarrow> cand_EffectiveDestinationKind c = PolicyDestinationHostLoopback \<and> validPolicyDecision decision \<and>
         AttachmentGrant_Validate g = None \<and> grant_Decision g = decision \<and> grant_ContextID g = WorkspaceManifestID c \<and>
         grant_WorkspaceID g = ProjectID c \<and> grant_EpochID g = cand_AttachmentEpochID c \<and>
         grant_TargetPort g = Port c \<and> grant_Method g = Method c \<and> grant_Path g = Path c \<and> grant_SourceCandidate g = cand_ID c)"
proof -
  have "(\<exists>g. NewAttachmentGrantFromCandidate ''allow'' c = Inr g) \<longleftrightarrow> cand_EffectiveDestinationKind c = PolicyDestinationHostLoopback"
    using assms by (simp add: NewAttachmentGrant_Inr validPolicyDecision_iff)
  moreover have "(\<exists>r. NewExactLearnedPolicyRule c = Inr r) \<longleftrightarrow> cand_EffectiveDestinationKind c \<noteq> PolicyDestinationHostLoopback"
    using exact_decisions_exist[OF assms] NewExactLearnedPolicyRule_Inr[of c] by blast
  moreover have "AttachmentGrant_Validate g = None" if "NewAttachmentGrantFromCandidate decision c = Inr g" for g
    using that unfolding NewAttachmentGrantFromCandidate_def check_simps by blast
  moreover have "NewAttachmentGrantFromCandidate decision c = Inr (grant_of decision c)"
    if "cand_EffectiveDestinationKind c = PolicyDestinationHostLoopback" "validPolicyDecision decision"
    using that assms by (simp add: NewAttachmentGrant_Inr)
  moreover have "g = grant_of decision c" "cand_EffectiveDestinationKind c = PolicyDestinationHostLoopback" "validPolicyDecision decision"
    if "NewAttachmentGrantFromCandidate decision c = Inr g" for g
    using that by (simp_all add: NewAttachmentGrant_Inr)
  ultimately show ?thesis by (cases "NewAttachmentGrantFromCandidate decision c") auto
qed

theorem attachment_authority_is_separate_witness:
  "\<exists>g. NewAttachmentGrantFromCandidate ''deny'' (candidate_of example_loopback) = Inr g \<and> grant_TargetPort g = 8080"
  using attachment_authority_is_separate[OF example_loopback_valid(2), of "''deny''"] example_loopback_valid(3)
  by (auto simp: example_loopback_def validPolicyDecision_iff split: sum.splits)

text \<open>In a validated grant registry one Host Loopback effect has one decision: two grants for the same Workspace,
  attachment epoch, port, method and path are the same entry, so no Allow stands beside a Deny. In a validated
  route registry a Workspace has at most one route.\<close>

theorem registries_are_unambiguous:
  assumes "AttachmentGrantRegistry_Validate grants = None" and "HostLoopbackRegistry_Validate routes = None"
  shows "(\<forall>g \<in> set (elems (grants_Grants grants)). \<forall>h \<in> set (elems (grants_Grants grants)).
      grant_WorkspaceID g = grant_WorkspaceID h \<and> grant_EpochID g = grant_EpochID h \<and>
      grant_TargetPort g = grant_TargetPort h \<and> grant_Method g = grant_Method h \<and> grant_Path g = grant_Path h \<longrightarrow> g = h) \<and>
    (\<forall>w. length (filter (\<lambda>r. route_WorkspaceID r = w) (elems (registry_Routes routes))) \<le> 1)"
proof -
  have g: "\<forall>g \<in> set (elems (grants_Grants grants)). AttachmentGrant_Validate g = None"
    "distinct (map grant_effect_key (elems (grants_Grants grants)))"
    using assms(1) unfolding AttachmentGrantRegistry_Validate_def check_simps by blast+
  have r: "distinct (map route_WorkspaceID (elems (registry_Routes routes)))"
    using assms(2) unfolding HostLoopbackRegistry_Validate_def check_simps registry_routes_None by blast
  have "length (filter (\<lambda>r. f r = w) xs) \<le> 1" if "distinct (map f xs)" for f :: "AttachmentHostLoopbackRoute \<Rightarrow> string" and xs w
    using that by (induction xs) (auto simp: filter_empty_conv, metis image_eqI)
  then show ?thesis using g grant_key_inject r by (auto simp: distinct_map inj_on_def)
qed

theorem registries_are_unambiguous_witness:
  "\<exists>g. AttachmentGrantRegistry_Validate \<lparr> grants_SchemaVersion = 2, grants_Grants = Some [g] \<rparr> = None \<and>
     (\<forall>w. length (filter (\<lambda>r. route_WorkspaceID r = w) []) \<le> (1::nat))"
proof -
  let ?g = "grant_of ''deny'' (candidate_of example_loopback)"
  have "NewAttachmentGrantFromCandidate ''deny'' (candidate_of example_loopback) = Inr ?g"
    using example_loopback_valid by (simp add: NewAttachmentGrant_Inr validPolicyDecision_iff)
  then have "AttachmentGrant_Validate ?g = None"
    unfolding NewAttachmentGrantFromCandidate_def check_simps by blast
  then have v: "AttachmentGrantRegistry_Validate \<lparr> grants_SchemaVersion = 2, grants_Grants = Some [?g] \<rparr> = None"
    by (simp add: AttachmentGrantRegistry_Validate_def check_simps)
  have "HostLoopbackRegistry_Validate \<lparr> registry_SchemaVersion = 2, registry_Routes = Some [] \<rparr> = None" by code_simp
  from registries_are_unambiguous[OF v this] v show ?thesis by auto
qed

text \<open>A publication receipt is accepted exactly when it consumes the named valid Host Loopback candidate, carries
  the grant that the requested decision determines, and has an attachment-only activation; an activation accepted
  there is never accepted as an aggregate policy activation.\<close>

theorem publication_is_exact:
  "(AttachmentGrantPublication_ValidateFor p candidateID decision = None \<longleftrightarrow>
      PolicyCandidate_Validate (pub_Candidate p) = None \<and> cand_ID (pub_Candidate p) = candidateID \<and>
      NewAttachmentGrantFromCandidate decision (pub_Candidate p) = Inr (pub_Grant p) \<and>
      PolicyActivationReceipt_ValidateAttachment (pub_Activation p) = None) \<and>
   \<not> (PolicyActivationReceipt_ValidateAttachment a = None \<and> PolicyActivationReceipt_ValidateAggregate a = None)"
proof (intro conjI)
  show "\<not> (PolicyActivationReceipt_ValidateAttachment a = None \<and> PolicyActivationReceipt_ValidateAggregate a = None)"
    unfolding PolicyActivationReceipt_ValidateAttachment_def PolicyActivationReceipt_ValidateAggregate_def check_simps by blast
  have new: "NewAttachmentGrantFromCandidate decision c = Inr g \<Longrightarrow> AttachmentGrant_Validate g = None" for c g
    unfolding NewAttachmentGrantFromCandidate_def check_simps by blast
  have dest: "NewAttachmentGrantFromCandidate decision c = Inr g \<Longrightarrow>
      cand_EffectiveDestinationKind c = PolicyDestinationHostLoopback \<and> cand_EffectiveAuthorityLifetime c = AuthorityLifetimeAttachment" for c g
    using loopback_candidate(1) unfolding NewAttachmentGrant_Inr by blast
  show "AttachmentGrantPublication_ValidateFor p candidateID decision = None \<longleftrightarrow>
      PolicyCandidate_Validate (pub_Candidate p) = None \<and> cand_ID (pub_Candidate p) = candidateID \<and>
      NewAttachmentGrantFromCandidate decision (pub_Candidate p) = Inr (pub_Grant p) \<and>
      PolicyActivationReceipt_ValidateAttachment (pub_Activation p) = None"
    using new[of "pub_Candidate p"] dest[of "pub_Candidate p"]
    unfolding AttachmentGrantPublication_ValidateFor_def check_simps
    by (cases "NewAttachmentGrantFromCandidate decision (pub_Candidate p)") (auto simp: check_simps)
qed

end
