(* ===== verification/Policy_Review.thy ===== *)
theory Policy_Review
  imports Policy_Inventory Host_Loopback
begin

text \<open>
  The Permission Inbox projection (\<open>internal/domain/tobari/policy_template.go\<close>, with the report, decision
  and receipt types of \<open>policy.go\<close>): path-template proposals inferred from pending candidates and current exact
  Allow rules, review items, the rule a reviewed proposal becomes, and the receipts of a confirmed review. Go maps
  are association lists; the order in which Go iterates over the map of groups, over the evidence of one group
  and over the evidence by base key is a parameter. Iterations whose result does not depend on the order are written without it.
\<close>

section \<open>Proposals and review items\<close>

record PolicyPathTemplateProposal = scoped_effect +
  prop_ID :: string
  prop_Segments :: "string list"
  prop_Examples :: "string list"
  prop_SourceCandidates :: "string list"
  prop_SourceRuleIDs :: "string list"
  prop_PendingCandidates :: "PolicyCandidate list"

record PolicyReviewItem =
  item_ID :: string
  item_Match :: string
  item_Candidate :: "PolicyCandidate option"
  item_Template :: "PolicyPathTemplateProposal option"

definition ValidatePolicyReviewItemID :: "string \<Rightarrow> check" where
  "ValidatePolicyReviewItemID i =
     (if policyCandidateIDPattern i \<or> policyTemplateIDPattern i then None else Some ''policy review item ID is invalid'')"

definition validateSortedUniqueRuleIDs :: "string list \<Rightarrow> check" where
  "validateSortedUniqueRuleIDs xs =
     sorted_unique_check (\<lambda>x. reject (\<not> learnedRuleIDPattern x) ''learned rule ID is invalid'')
       ''learned rule IDs must be unique and sorted'' None xs"

definition matchesCandidate :: "PolicyPathTemplateProposal \<Rightarrow> PolicyCandidate \<Rightarrow> bool" where
  "matchesCandidate p c =
     (WorkspaceManifestID p = WorkspaceManifestID c \<and> Host p = Host c \<and> Port p = Port c \<and> Method p = Method c
      \<and> semanticModuleMatches (Identity p) (Identity c))"

definition pathTemplateProposalID :: "PolicyPathTemplateProposal \<Rightarrow> string" where
  "pathTemplateProposalID p =
     ''ptp_'' @ digest16 (strings_Join
       (appendSemanticModuleIdentity
          [''tobari-policy-path-template-v2'', WorkspaceManifestID p, Host p, strconv_Itoa (Port p), Method p, Path p]
          (Identity p)) [NUL])"

definition PolicyPathTemplateProposal_Validate :: "PolicyPathTemplateProposal \<Rightarrow> check" where
  "PolicyPathTemplateProposal_Validate p =
     first_error
       [reject (\<not> policyTemplateIDPattern (prop_ID p)) ''policy path-template proposal ID is invalid'',
        reject (PolicyProtocolIdentity_Validate (Identity p) \<noteq> None \<or> Protocol (Identity p) \<noteq> ''http'')
          ''policy path-template proposal protocol is invalid'',
        wrap ''policy path-template proposal scope''
          (validatePolicyScope (WorkspaceManifestID p) (WorkspaceManifestName p) (ProjectRoot p)),
        reject (ValidateWorkspaceID (ProjectID p) \<noteq> None \<or> \<not> validNormalizedPolicyHost (Host p) \<or> Port p < 1
                \<or> 65535 < Port p \<or> \<not> httpMethodPattern (Method p))
          ''policy path-template proposal request identity is invalid'',
        validatePathTemplate (Path p) (prop_Segments p),
        reject (length (prop_Examples p) < 2 \<or> length (prop_SourceCandidates p) < 2 \<or> length (prop_PendingCandidates p) < 1)
          ''policy path-template proposal has insufficient evidence'',
        wrap ''policy path-template proposal examples'' (validateSortedUniquePaths (prop_Examples p)),
        wrap ''policy path-template proposal sources'' (validateSortedUniqueCandidateIDs (prop_SourceCandidates p)),
        wrap ''policy path-template proposal source rules'' (validateSortedUniqueRuleIDs (prop_SourceRuleIDs p)),
        check_items
          (\<lambda>c. reject (PolicyCandidate_Validate c \<noteq> None \<or> \<not> matchesCandidate p c \<or> \<not> pathTemplateMatches (prop_Segments p) (Path c))
             ''policy path-template proposal pending candidate is invalid'')
          cand_ID ''policy path-template proposal pending candidates are duplicated'' [] (prop_PendingCandidates p),
        check_each
          (\<lambda>example. reject (\<not> pathTemplateMatches (prop_Segments p) example)
             ''policy path-template proposal example is outside its template'') (prop_Examples p),
        reject (prop_ID p \<noteq> pathTemplateProposalID p) ''policy path-template proposal ID does not bind its authority'']"

definition PolicyReviewItem_Validate :: "PolicyReviewItem \<Rightarrow> check" where
  "PolicyReviewItem_Validate i =
     first_error
       [ValidatePolicyReviewItemID (item_ID i),
        reject (\<not> validPolicyMatch (item_Match i)) ''policy review item match is invalid'',
        (if item_Match i = ''exact'' then
           (case (item_Candidate i, item_Template i) of
              (Some c, None) \<Rightarrow>
                if item_ID i \<noteq> cand_ID c then Some ''exact policy review item is invalid'' else PolicyCandidate_Validate c
            | _ \<Rightarrow> Some ''exact policy review item is invalid'')
         else if item_Match i = ''path_template'' then
           (case (item_Template i, item_Candidate i) of
              (Some t, None) \<Rightarrow>
                if item_ID i \<noteq> prop_ID t then Some ''template policy review item is invalid''
                else PolicyPathTemplateProposal_Validate t
            | _ \<Rightarrow> Some ''template policy review item is invalid'')
         else Some ''policy review item match semantics are not implemented'')]"

section \<open>Evidence\<close>

record pathTemplateEvidence =
  ev_path :: string
  ev_candidate :: "PolicyCandidate option"
  ev_sourceIDs :: "string list"
  ev_sourceRuleID :: string
  ev_baseKey :: string
  ev_pendingIndex :: int
  ev_identity :: PolicyPathTemplateProposal

definition proposalIdentity :: "'a scoped_effect_scheme \<Rightarrow> PolicyPathTemplateProposal" where
  "proposalIdentity r =
     \<lparr> Identity = Identity r, WorkspaceManifestID = WorkspaceManifestID r, WorkspaceManifestName = WorkspaceManifestName r,
       ProjectID = ProjectID r, ProjectRoot = ProjectRoot r, Host = Host r, Port = Port r, Method = Method r, Path = [],
       prop_ID = [], prop_Segments = [], prop_Examples = [], prop_SourceCandidates = [], prop_SourceRuleIDs = [],
       prop_PendingCandidates = [] \<rparr>"

definition proposalIdentityFromCandidate :: "PolicyCandidate \<Rightarrow> PolicyPathTemplateProposal" where
  "proposalIdentityFromCandidate c = proposalIdentity c"

definition proposalIdentityFromRule :: "LearnedPolicyRule \<Rightarrow> PolicyPathTemplateProposal" where
  "proposalIdentityFromRule r = proposalIdentity r"

definition templateBaseKey :: "PolicyPathTemplateProposal \<Rightarrow> string" where
  "templateBaseKey p =
     strings_Join
       (appendSemanticModuleIdentity [WorkspaceManifestID p, Host p, strconv_Itoa (Port p), Method p] (Identity p)) [NUL]"

definition rule_evidence :: "LearnedPolicyRule \<Rightarrow> pathTemplateEvidence" where
  "rule_evidence r =
     \<lparr> ev_path = Path r, ev_candidate = None, ev_sourceIDs = elems (lr_SourceCandidates r), ev_sourceRuleID = lr_ID r,
       ev_baseKey = templateBaseKey (proposalIdentityFromRule r), ev_pendingIndex = -1,
       ev_identity = proposalIdentityFromRule r \<rparr>"

definition candidate_evidence :: "nat \<Rightarrow> PolicyCandidate \<Rightarrow> pathTemplateEvidence" where
  "candidate_evidence index c =
     \<lparr> ev_path = Path c, ev_candidate = Some c, ev_sourceIDs = [cand_ID c], ev_sourceRuleID = [],
       ev_baseKey = templateBaseKey (proposalIdentityFromCandidate c), ev_pendingIndex = int index,
       ev_identity = proposalIdentityFromCandidate c \<rparr>"

text \<open>The two loops that fill \<open>evidenceByBase\<close>: they append to the entry of the base key.\<close>

type_synonym evidence_map = "(string \<times> pathTemplateEvidence list) list"

definition add_evidence :: "pathTemplateEvidence \<Rightarrow> evidence_map \<Rightarrow> evidence_map" where
  "add_evidence e m = AList.update (ev_baseKey e) (elems (map_of m (ev_baseKey e)) @ [e]) m"

fun rules_evidence :: "evidence_map \<Rightarrow> LearnedPolicyRule list \<Rightarrow> evidence_map" where
  "rules_evidence m [] = m"
| "rules_evidence m (r # rs) =
     (if lr_Match r \<noteq> ''exact'' \<or> Protocol (Identity r) \<noteq> ''http'' then rules_evidence m rs
      else rules_evidence (add_evidence (rule_evidence r) m) rs)"

fun candidates_evidence :: "evidence_map \<Rightarrow> nat \<Rightarrow> PolicyCandidate list \<Rightarrow> evidence_map result" where
  "candidates_evidence m index [] = Inr m"
| "candidates_evidence m index (c # cs) =
     guarded (PolicyCandidate_Validate c)
       (if Protocol (Identity c) \<noteq> ''http'' \<or> cand_EffectiveDestinationKind c = PolicyDestinationHostLoopback
        then candidates_evidence m (index + 1) cs
        else candidates_evidence (add_evidence (candidate_evidence index c) m) (index + 1) cs)"

section \<open>Groups\<close>

record proposalGroup =
  grp_template :: string
  grp_segments :: "string list"
  grp_evidence :: "(string \<times> pathTemplateEvidence) list"

type_synonym group_map = "(string \<times> proposalGroup) list"

text \<open>The pairs \<open>left < right\<close> of a slice in the order of the two nested loops.\<close>

fun pairs :: "'a list \<Rightarrow> ('a \<times> 'a) list" where
  "pairs [] = []"
| "pairs (x # xs) = map (Pair x) xs @ pairs xs"

definition add_pair :: "string \<Rightarrow> pathTemplateEvidence \<times> pathTemplateEvidence \<Rightarrow> group_map \<Rightarrow> group_map" where
  "add_pair base lr groups =
     (case inferPathTemplate (ev_path (fst lr)) (ev_path (snd lr)) of
        None \<Rightarrow> groups
      | Some (template, segments) \<Rightarrow>
          (let key = base @ [NUL] @ template;
               group = (case map_of groups key of
                          None \<Rightarrow> \<lparr> grp_template = template, grp_segments = segments, grp_evidence = [] \<rparr>
                        | Some g \<Rightarrow> g)
           in AList.update key
                (group\<lparr> grp_evidence :=
                   AList.update (ev_path (snd lr)) (snd lr)
                     (AList.update (ev_path (fst lr)) (fst lr) (grp_evidence group)) \<rparr>) groups))"

definition proposal_groups :: "evidence_map \<Rightarrow> group_map" where
  "proposal_groups m = fold (\<lambda>(base, evidence). fold (add_pair base) (pairs evidence)) m []"

definition group_items :: "proposalGroup \<Rightarrow> pathTemplateEvidence list" where
  "group_items g = map snd (grp_evidence g)"

definition eligible_groups :: "group_map \<Rightarrow> proposalGroup list" where
  "eligible_groups groups =
     filter (\<lambda>g. \<not> (length (grp_evidence g) < 2 \<or> \<not> list_ex (\<lambda>e. ev_candidate e \<noteq> None) (group_items g))) (map snd groups)"

definition evidence_key :: "pathTemplateEvidence \<Rightarrow> string" where
  "evidence_key e = ev_baseKey e @ [NUL] @ ev_path e"

definition membership :: "proposalGroup list \<Rightarrow> string \<Rightarrow> nat" where
  "membership eligible key = length (filter (\<lambda>e. evidence_key e = key) (concat (map group_items eligible)))"

definition ambiguous :: "proposalGroup list \<Rightarrow> proposalGroup \<Rightarrow> bool" where
  "ambiguous eligible g = list_ex (\<lambda>e. 1 < membership eligible (evidence_key e)) (group_items g)"

section \<open>Proposals from groups\<close>

definition mergeProposalEvidence :: "PolicyPathTemplateProposal \<Rightarrow> pathTemplateEvidence \<Rightarrow> PolicyPathTemplateProposal" where
  "mergeProposalEvidence p e =
     (let i = ev_identity e;
          p' = (if WorkspaceManifestID p = [] then
                  p\<lparr> Identity := Identity i, WorkspaceManifestID := WorkspaceManifestID i,
                     WorkspaceManifestName := WorkspaceManifestName i, ProjectID := ProjectID i, ProjectRoot := ProjectRoot i,
                     Host := Host i, Port := Port i, Method := Method i \<rparr>
                else p)
      in p'\<lparr> prop_Examples := prop_Examples p' @ [ev_path e],
             prop_SourceCandidates := prop_SourceCandidates p' @ ev_sourceIDs e,
             prop_SourceRuleIDs := prop_SourceRuleIDs p' @ (if ev_sourceRuleID e \<noteq> [] then [ev_sourceRuleID e] else []),
             prop_PendingCandidates := prop_PendingCandidates p'
               @ (case ev_candidate e of None \<Rightarrow> [] | Some c \<Rightarrow> [c]) \<rparr>)"

definition uniqueSortedStrings :: "string list \<Rightarrow> string list" where
  "uniqueSortedStrings xs = remdups_adj xs"

definition empty_proposal :: PolicyPathTemplateProposal where
  "empty_proposal =
     \<lparr> Identity = base_identity [] [], WorkspaceManifestID = [], WorkspaceManifestName = [], ProjectID = [], ProjectRoot = [],
       Host = [], Port = 0, Method = [], Path = [], prop_ID = [], prop_Segments = [], prop_Examples = [],
       prop_SourceCandidates = [], prop_SourceRuleIDs = [], prop_PendingCandidates = [] \<rparr>"

definition group_proposal ::
    "((string \<times> pathTemplateEvidence) list \<Rightarrow> (string \<times> pathTemplateEvidence) list) \<Rightarrow> proposalGroup \<Rightarrow> PolicyPathTemplateProposal" where
  "group_proposal iteration g =
     (let start = empty_proposal\<lparr> Path := grp_template g, prop_Segments := grp_segments g \<rparr>;
          merged = foldl mergeProposalEvidence start (map snd (iteration (grp_evidence g)));
          sorted = merged\<lparr> prop_Examples := sort (prop_Examples merged),
            prop_SourceCandidates := uniqueSortedStrings (sort (prop_SourceCandidates merged)),
            prop_SourceRuleIDs := uniqueSortedStrings (sort (prop_SourceRuleIDs merged)),
            prop_PendingCandidates := sort_key (\<lambda>c. (cand_ObservedAt c, cand_ID c)) (prop_PendingCandidates merged) \<rparr>
      in sorted\<lparr> prop_ID := pathTemplateProposalID sorted \<rparr>)"

text \<open>The first pending index of a group; \<open>len(candidates)\<close> when there is none.\<close>

definition first_pending :: "nat \<Rightarrow> proposalGroup \<Rightarrow> int" where
  "first_pending n g =
     foldl (\<lambda>m e. if ev_candidate e \<noteq> None \<and> ev_pendingIndex e < m then ev_pendingIndex e else m) (int n) (group_items g)"

definition template_item :: "PolicyPathTemplateProposal \<Rightarrow> PolicyReviewItem" where
  "template_item p = \<lparr> item_ID = prop_ID p, item_Match = ''path_template'', item_Candidate = None, item_Template = Some p \<rparr>"

definition exact_item :: "PolicyCandidate \<Rightarrow> PolicyReviewItem" where
  "exact_item c = \<lparr> item_ID = cand_ID c, item_Match = ''exact'', item_Candidate = Some c, item_Template = None \<rparr>"

definition consumed_ids :: "proposalGroup list \<Rightarrow> string list" where
  "consumed_ids gs =
     concat (map (\<lambda>g. concat (map (\<lambda>e. case ev_candidate e of None \<Rightarrow> [] | Some c \<Rightarrow> [cand_ID c]) (group_items g))) gs)"

definition group_item ::
    "((string \<times> pathTemplateEvidence) list \<Rightarrow> (string \<times> pathTemplateEvidence) list) \<Rightarrow> nat \<Rightarrow> proposalGroup
     \<Rightarrow> (int \<times> PolicyReviewItem) result" where
  "group_item iteration n g =
     (let item = template_item (group_proposal iteration g)
      in checked (PolicyReviewItem_Validate item) (first_pending n g, item))"

definition PolicyReviewItems ::
    "(evidence_map \<Rightarrow> evidence_map) \<Rightarrow> (group_map \<Rightarrow> group_map) \<Rightarrow> ((string \<times> pathTemplateEvidence) list \<Rightarrow> (string \<times> pathTemplateEvidence) list)
     \<Rightarrow> PolicyCandidate list option \<Rightarrow> LearnedPolicyRule list option \<Rightarrow> PolicyReviewItem list result" where
  "PolicyReviewItems base_order group_order evidence_order candidates rules =
     guarded
       (first_error
          [reject (candidates = None) ''policy review candidates are unknown'', ValidateLearnedPolicyRules rules])
       (and_then (candidates_evidence (rules_evidence [] (elems rules)) 0 (elems candidates)) (\<lambda>evidenceByBase.
          let eligible = eligible_groups (group_order (proposal_groups (base_order evidenceByBase)));
              unambiguous = filter (\<lambda>g. \<not> ambiguous eligible g) eligible;
              n = length (elems candidates)
          in and_then (map_result (group_item evidence_order n) unambiguous) (\<lambda>templates.
               let consumed = consumed_ids unambiguous;
                   exact = map (\<lambda>(i, c). (int i, exact_item c))
                             (filter (\<lambda>(i, c). cand_ID c \<notin> set consumed) (enumerate 0 (elems candidates)))
               in Inr (map snd (sort_key fst (templates @ exact))))))"

section \<open>Reviewed templates become rules\<close>

definition template_rule :: "PolicyPathTemplateProposal \<Rightarrow> LearnedPolicyRule" where
  "template_rule p =
     (let rule =
        \<lparr> Identity = Identity p, WorkspaceManifestID = WorkspaceManifestID p, WorkspaceManifestName = WorkspaceManifestName p,
          ProjectID = ProjectID p, ProjectRoot = ProjectRoot p, Host = Host p, Port = Port p, Method = Method p, Path = Path p,
          lr_ID = [], lr_Match = ''path_template'', lr_Segments = prop_Segments p, lr_Examples = Some (prop_Examples p),
          lr_SourceCandidates = Some (prop_SourceCandidates p) \<rparr>
      in rule\<lparr> lr_ID := learned_id_of rule \<rparr>)"

definition NewPathTemplateLearnedPolicyRule :: "PolicyPathTemplateProposal \<Rightarrow> LearnedPolicyRule result" where
  "NewPathTemplateLearnedPolicyRule p =
     checked (first_error [PolicyPathTemplateProposal_Validate p, LearnedPolicyRule_Validate (template_rule p)]) (template_rule p)"

section \<open>Decisions and receipts\<close>

record PolicyReviewDecision =
  rd_ReviewItemID :: string
  rd_Decision :: string
  rd_Match :: string

record PolicyReviewDecisionSet =
  rds_Decisions :: "PolicyReviewDecision list"

definition PolicyReviewDecision_check :: "PolicyReviewDecision \<Rightarrow> check" where
  "PolicyReviewDecision_check d =
     first_error
       [ValidatePolicyReviewItemID (rd_ReviewItemID d),
        reject (\<not> validPolicyDecision (rd_Decision d)) ''policy review decision is invalid'',
        reject (\<not> validPolicyMatch (rd_Match d)) ''policy review decision match is invalid'',
        reject (rd_Decision d = ''deny'' \<and> rd_Match d \<noteq> ''exact'') ''policy review deny decision must remain exact'']"

definition PolicyReviewDecisionSet_Validate :: "PolicyReviewDecisionSet \<Rightarrow> check" where
  "PolicyReviewDecisionSet_Validate s =
     first_error
       [reject (length (rds_Decisions s) = 0 \<or> 128 < length (rds_Decisions s))
          ''policy review decision count must be between 1 and 128'',
        check_items PolicyReviewDecision_check rd_ReviewItemID
          ''policy review decision set contains a duplicate review item'' [] (rds_Decisions s)]"

record PolicyReviewAppliedDecision = scoped_effect +
  applied_RuleID :: string
  applied_ReviewItemID :: string
  applied_Decision :: string
  applied_Match :: string
  applied_SourceCandidates :: "string list"
  applied_DestinationKind :: string
  applied_AuthorityLifetime :: string
  applied_AttachmentEpochID :: string

definition PolicyReviewAppliedDecision_Validate :: "PolicyReviewAppliedDecision \<Rightarrow> check" where
  "PolicyReviewAppliedDecision_Validate d =
     first_error
       [wrap ''policy review receipt protocol identity'' (PolicyProtocolIdentity_Validate (Identity d)),
        (if applied_DestinationKind d = PolicyDestinationHostLoopback then
           reject (\<not> attachmentGrantPattern (applied_RuleID d) \<or> applied_AuthorityLifetime d \<noteq> AuthorityLifetimeAttachment
                   \<or> ValidateAttachmentEpochID (applied_AttachmentEpochID d) \<noteq> None \<or> Host d \<noteq> HostLoopbackHostname
                   \<or> ValidateHostLoopbackPort (Port d) \<noteq> None) ''policy review attachment receipt is invalid''
         else
           first_error
             [ValidatePolicyRuleID (applied_RuleID d),
              reject (applied_DestinationKind d \<noteq> [] \<or> applied_AuthorityLifetime d \<noteq> [] \<or> applied_AttachmentEpochID d \<noteq> [])
                ''persistent policy review receipt has attachment authority'']),
        ValidatePolicyReviewItemID (applied_ReviewItemID d),
        reject (\<not> validPolicyDecision (applied_Decision d)) ''policy review receipt decision is invalid'',
        reject (\<not> validPolicyMatch (applied_Match d)) ''policy review receipt match is invalid'',
        reject (applied_Decision d = ''deny'' \<and> applied_Match d \<noteq> ''exact'') ''policy review deny receipt must remain exact'',
        coordinate_checks ''policy review receipt'' d,
        (if applied_Match d = ''exact'' then instead ''policy review receipt path is invalid'' (validatePolicyPath (Path d))
         else reject (\<not> strings_Contains (Path d) PolicyPathTemplatePlaceholder) ''policy review receipt template path is invalid''),
        wrap ''policy review receipt sources'' (validateSortedUniqueCandidateIDs (applied_SourceCandidates d))]"

definition receipt ::
    "'a scoped_effect_scheme \<Rightarrow> string \<Rightarrow> string \<Rightarrow> string \<Rightarrow> string \<Rightarrow> string list \<Rightarrow> PolicyReviewAppliedDecision" where
  "receipt r ruleID reviewItemID decision mtch sources =
     \<lparr> Identity = Identity r, WorkspaceManifestID = WorkspaceManifestID r, WorkspaceManifestName = WorkspaceManifestName r,
       ProjectID = ProjectID r, ProjectRoot = ProjectRoot r, Host = Host r, Port = Port r, Method = Method r, Path = Path r,
       applied_RuleID = ruleID, applied_ReviewItemID = reviewItemID, applied_Decision = decision, applied_Match = mtch,
       applied_SourceCandidates = sources, applied_DestinationKind = [], applied_AuthorityLifetime = [],
       applied_AttachmentEpochID = [] \<rparr>"

definition NewPolicyReviewAppliedAllow :: "string \<Rightarrow> LearnedPolicyRule \<Rightarrow> PolicyReviewAppliedDecision result" where
  "NewPolicyReviewAppliedAllow reviewItemID rule =
     (let r = receipt rule (lr_ID rule) reviewItemID ''allow'' (lr_Match rule) (elems (lr_SourceCandidates rule))
      in checked (first_error [LearnedPolicyRule_Validate rule, PolicyReviewAppliedDecision_Validate r]) r)"

definition NewPolicyReviewAppliedDeny :: "string \<Rightarrow> PolicyDenyRule \<Rightarrow> PolicyReviewAppliedDecision result" where
  "NewPolicyReviewAppliedDeny reviewItemID rule =
     (let r = receipt rule (deny_ID rule) reviewItemID ''deny'' ''exact'' (deny_SourceCandidates rule)
      in checked (first_error [PolicyDenyRule_Validate rule, PolicyReviewAppliedDecision_Validate r]) r)"

definition NewPolicyReviewAppliedAttachment :: "PolicyCandidate \<Rightarrow> AttachmentGrant \<Rightarrow> PolicyReviewAppliedDecision result" where
  "NewPolicyReviewAppliedAttachment c g =
     (let r = (receipt c (grant_ID g) (cand_ID c) (grant_Decision g) ''exact'' [cand_ID c])
                \<lparr> applied_DestinationKind := PolicyDestinationHostLoopback,
                  applied_AuthorityLifetime := AuthorityLifetimeAttachment,
                  applied_AttachmentEpochID := cand_AttachmentEpochID c \<rparr>
      in checked
           (first_error
              [PolicyCandidate_Validate c, AttachmentGrant_Validate g,
               reject (cand_ID c \<noteq> grant_SourceCandidate g) ''attachment grant source does not match review item'',
               PolicyReviewAppliedDecision_Validate r]) r)"

section \<open>Reports and changes\<close>

record PolicyCandidateReport =
  pcr_Task :: string
  pcr_Projection :: PolicyProjectionIdentity
  pcr_WindowLines :: int
  pcr_UnparsedLines :: int
  pcr_Items :: "PolicyCandidate list option"
  pcr_ReviewItems :: "PolicyReviewItem list option"

definition PolicyCandidateReport_Validate :: "PolicyCandidateReport \<Rightarrow> check" where
  "PolicyCandidateReport_Validate r =
     first_error
       [reject (pcr_Task r \<noteq> ''policy.candidates'' \<and> pcr_Task r \<noteq> ''policy.review'')
          ''policy candidate report task identity is invalid'',
        wrap ''policy candidate projection identity'' (PolicyProjectionIdentity_Validate (pcr_Projection r)),
        reject (pcr_WindowLines r < 1 \<or> 10000 < pcr_WindowLines r) ''policy candidate window is invalid'',
        reject (pcr_UnparsedLines r < 0 \<or> pcr_WindowLines r < pcr_UnparsedLines r)
          ''policy candidate unparsed line count is invalid'',
        reject (pcr_Items r = None) ''policy candidate collection is unknown'',
        check_items PolicyCandidate_Validate cand_ID ''policy candidate IDs must be unique'' [] (elems (pcr_Items r)),
        check_items PolicyReviewItem_Validate item_ID ''policy review item IDs must be unique'' [] (elems (pcr_ReviewItems r))]"

record PolicyLearningChange =
  plc_Task :: string
  plc_Projection :: PolicyProjectionIdentity
  plc_TargetID :: string
  plc_Rule :: LearnedPolicyRule
  plc_SourceRuleCount :: int
  plc_Applied :: bool

definition PolicyLearningChange_Validate :: "PolicyLearningChange \<Rightarrow> check" where
  "PolicyLearningChange_Validate c =
     first_error
       [reject (plc_Task c \<noteq> ''policy.allow'') ''policy learning result task identity is invalid'',
        ValidatePolicyCandidateID (plc_TargetID c),
        reject (lr_Match (plc_Rule c) \<noteq> ''exact'' \<or> plc_SourceRuleCount c \<noteq> 1) ''policy allow result is inconsistent'',
        wrap ''policy learning projection identity'' (PolicyProjectionIdentity_Validate (plc_Projection c)),
        LearnedPolicyRule_Validate (plc_Rule c),
        reject (\<not> plc_Applied c) ''policy learning result is not applied'']"

record PolicyDenyChange =
  pdc_Task :: string
  pdc_Projection :: PolicyProjectionIdentity
  pdc_TargetID :: string
  pdc_Rule :: PolicyDenyRule
  pdc_SourceRuleCount :: int
  pdc_Applied :: bool

definition PolicyDenyChange_Validate :: "PolicyDenyChange \<Rightarrow> check" where
  "PolicyDenyChange_Validate c =
     first_error
       [reject (pdc_Task c \<noteq> ''policy.deny'') ''policy deny result task identity is invalid'',
        ValidatePolicyCandidateID (pdc_TargetID c),
        reject (pdc_SourceRuleCount c \<noteq> 1 \<or> \<not> pdc_Applied c) ''policy deny result is inconsistent'',
        wrap ''policy deny projection identity'' (PolicyProjectionIdentity_Validate (pdc_Projection c)),
        PolicyDenyRule_Validate (pdc_Rule c)]"

record PolicyReviewChange =
  prc_Task :: string
  prc_Projection :: PolicyProjectionIdentity
  prc_AllowCount :: int
  prc_DenyCount :: int
  prc_Applied :: bool
  prc_ActiveRevision :: string
  prc_Decisions :: "PolicyReviewAppliedDecision list"

definition PolicyReviewChange_Validate :: "PolicyReviewChange \<Rightarrow> check" where
  "PolicyReviewChange_Validate c =
     (let identitiesEmpty = (prc_Projection c = zero_projection);
          allowed = filter (\<lambda>d. applied_Decision d = ''allow'') (prc_Decisions c);
          denied = filter (\<lambda>d. applied_Decision d \<noteq> ''allow'') (prc_Decisions c)
      in first_error
       [reject (prc_Task c \<noteq> ''policy.review.apply'' \<or> prc_AllowCount c < 0 \<or> prc_DenyCount c < 0
                \<or> prc_AllowCount c + prc_DenyCount c = 0 \<or> 128 < prc_AllowCount c + prc_DenyCount c \<or> \<not> prc_Applied c)
          ''policy review result is inconsistent'',
        reject (\<not> policyRevisionPattern (prc_ActiveRevision c)) ''policy review active revision is invalid'',
        reject (\<not> identitiesEmpty \<and> (AggregateRevision (prc_Projection c) \<noteq> prc_ActiveRevision c
                \<or> PolicyProjectionIdentity_Validate (prc_Projection c) \<noteq> None)) ''policy review projection identity is invalid'',
        reject (int (length (prc_Decisions c)) \<noteq> prc_AllowCount c + prc_DenyCount c)
          ''policy review receipt count is inconsistent'',
        check_items PolicyReviewAppliedDecision_Validate applied_RuleID ''policy review receipt contains a duplicate rule'' []
          (prc_Decisions c),
        (if identitiesEmpty then
           check_each (\<lambda>d. reject (applied_DestinationKind d \<noteq> PolicyDestinationHostLoopback)
             ''persistent policy review result is missing projection identity'') (prc_Decisions c)
         else None),
        reject (int (length allowed) \<noteq> prc_AllowCount c \<or> int (length denied) \<noteq> prc_DenyCount c)
          ''policy review receipt decisions do not match counts''])"

end
