(* ===== verification/Review_Items.thy ===== *)
theory Review_Items
  imports Policy_Review
begin

text \<open>
  What the Permission Inbox shows: the evidence of the template groups stays within the given candidates, the
  groups that survive the ambiguity check are disjoint, and the items it returns are valid and show the candidates
  of those groups and the remaining ones.
\<close>

section \<open>Evidence in groups\<close>

definition evidence_candidates :: "pathTemplateEvidence \<Rightarrow> PolicyCandidate list" where
  "evidence_candidates e = (case ev_candidate e of None \<Rightarrow> [] | Some c \<Rightarrow> [c])"

definition group_pending :: "proposalGroup \<Rightarrow> PolicyCandidate list" where
  "group_pending g = concat (map evidence_candidates (group_items g))"

definition candidate_key :: "PolicyCandidate \<Rightarrow> string" where
  "candidate_key c = templateBaseKey (proposalIdentityFromCandidate c) @ [NUL] @ Path c"

text \<open>Evidence carries candidates of the given collection, under the key of their own effect.\<close>

definition evidence_ok :: "PolicyCandidate list \<Rightarrow> pathTemplateEvidence \<Rightarrow> bool" where
  "evidence_ok cs e \<longleftrightarrow> (\<forall>c \<in> set (evidence_candidates e). c \<in> set cs \<and> evidence_key e = candidate_key c)"

lemma set_update_subset: "set (AList.update k v al) \<subseteq> insert (k, v) (set al)"
  by (induction al) auto

definition map_evidence :: "evidence_map \<Rightarrow> pathTemplateEvidence set" where
  "map_evidence m = (\<Union>x \<in> set m. set (snd x))"

lemma map_evidence_add: "map_evidence (add_evidence e m) \<subseteq> insert e (map_evidence m)"
proof -
  have "set (elems (map_of m k)) \<subseteq> map_evidence m" for k
    by (cases "map_of m k") (auto simp: map_evidence_def dest: map_of_SomeD intro: rev_bexI)
  then show ?thesis
    using set_update_subset[of "ev_baseKey e" "elems (map_of m (ev_baseKey e)) @ [e]" m]
    by (fastforce simp: map_evidence_def add_evidence_def)
qed

lemma rules_evidence_ok:
  "\<forall>e \<in> map_evidence m. evidence_ok cs e \<Longrightarrow> \<forall>e \<in> map_evidence (rules_evidence m rs). evidence_ok cs e"
proof (induction rs arbitrary: m)
  case (Cons r rs)
  have "evidence_ok cs (rule_evidence r)" by (simp add: evidence_ok_def rule_evidence_def evidence_candidates_def)
  then have "\<forall>e \<in> map_evidence (add_evidence (rule_evidence r) m). evidence_ok cs e"
    using Cons.prems map_evidence_add by blast
  then show ?case using Cons by simp
qed simp

lemma candidates_evidence_ok:
  assumes "candidates_evidence m n cs' = Inr m'" "\<forall>e \<in> map_evidence m. evidence_ok cs e" "set cs' \<subseteq> set cs"
  shows "(\<forall>e \<in> map_evidence m'. evidence_ok cs e) \<and> (\<forall>c \<in> set cs'. PolicyCandidate_Validate c = None)"
  using assms
proof (induction cs' arbitrary: m n)
  case (Cons c cs')
  have "evidence_ok cs (candidate_evidence n c)"
    using Cons.prems(3)
    by (simp add: evidence_ok_def candidate_evidence_def evidence_candidates_def evidence_key_def candidate_key_def)
  then have "\<forall>e \<in> map_evidence (add_evidence (candidate_evidence n c) m). evidence_ok cs e"
    using Cons.prems(2) map_evidence_add by blast
  then show ?case using Cons by (auto simp: check_simps split: if_splits)
qed simp

definition groups_evidence :: "group_map \<Rightarrow> pathTemplateEvidence set" where
  "groups_evidence gs = (\<Union>x \<in> set gs. set (group_items (snd x)))"

lemma set_update_snd: "snd ` set (AList.update k v al) \<subseteq> insert v (snd ` set al)"
  using set_update_subset[of k v al] by force

lemma groups_evidence_update: "groups_evidence (AList.update k g gs) \<subseteq> set (group_items g) \<union> groups_evidence gs"
  using set_update_subset[of k g gs] unfolding groups_evidence_def by fastforce

lemma groups_evidence_add: "groups_evidence (add_pair base lr gs) \<subseteq> groups_evidence gs \<union> {fst lr, snd lr}"
proof (cases "inferPathTemplate (ev_path (fst lr)) (ev_path (snd lr))")
  case (Some ts)
  obtain t segs where ts: "ts = (t, segs)" by (cases ts)
  define g where "g = (case map_of gs (base @ [NUL] @ t) of
    None \<Rightarrow> \<lparr> grp_template = t, grp_segments = segs, grp_evidence = [] \<rparr> | Some g \<Rightarrow> g)"
  have "set (group_items g) \<subseteq> groups_evidence gs"
  proof (cases "map_of gs (base @ [NUL] @ t)")
    case (Some g')
    then have "(base @ [NUL] @ t, g') \<in> set gs" "g = g'" by (auto simp: g_def dest: map_of_SomeD)
    then show ?thesis by (force simp: groups_evidence_def)
  qed (simp add: g_def group_items_def)
  then have "set (group_items (g\<lparr> grp_evidence := AList.update (ev_path (snd lr)) (snd lr)
      (AList.update (ev_path (fst lr)) (fst lr) (grp_evidence g)) \<rparr>)) \<subseteq> groups_evidence gs \<union> {fst lr, snd lr}"
    using set_update_snd[of "ev_path (snd lr)" "snd lr" "AList.update (ev_path (fst lr)) (fst lr) (grp_evidence g)"]
      set_update_snd[of "ev_path (fst lr)" "fst lr" "grp_evidence g"]
    unfolding group_items_def by simp blast
  moreover have "add_pair base lr gs = AList.update (base @ [NUL] @ t) (g\<lparr> grp_evidence := AList.update (ev_path (snd lr)) (snd lr)
      (AList.update (ev_path (fst lr)) (fst lr) (grp_evidence g)) \<rparr>) gs"
    unfolding add_pair_def Some ts g_def by (simp add: Let_def)
  ultimately show ?thesis using groups_evidence_update by fastforce
qed (auto simp: add_pair_def)

lemma pairs_subset: "x \<in> set (pairs es) \<Longrightarrow> fst x \<in> set es \<and> snd x \<in> set es"
  by (induction es) auto

lemma proposal_groups_evidence: "groups_evidence (proposal_groups m) \<subseteq> map_evidence m"
proof -
  have inner: "groups_evidence (fold (add_pair b) ps gs) \<subseteq> groups_evidence gs \<union> (\<Union>p \<in> set ps. {fst p, snd p})" for b ps gs
    by (induction ps arbitrary: gs) (use groups_evidence_add in \<open>auto, blast\<close>)
  have "groups_evidence (fold (\<lambda>(b, es). fold (add_pair b) (pairs es)) m gs) \<subseteq> groups_evidence gs \<union> map_evidence m" for gs
  proof (induction m arbitrary: gs)
    case (Cons x m)
    have "groups_evidence (fold (add_pair (fst x)) (pairs (snd x)) gs) \<subseteq> groups_evidence gs \<union> set (snd x)"
      using inner[of "fst x" "pairs (snd x)" gs] pairs_subset by blast
    then show ?case using Cons[of "fold (add_pair (fst x)) (pairs (snd x)) gs"]
      by (auto simp: map_evidence_def case_prod_beta)
  qed (simp add: map_evidence_def)
  from this[of "[]"] show ?thesis by (simp add: proposal_groups_def groups_evidence_def)
qed

section \<open>Every candidate is shown once\<close>

lemma distinct_by_counts:
  "\<forall>e \<in> set es. length (filter (\<lambda>x. f x = f e) es) \<le> 1 \<Longrightarrow> distinct (map f es)"
proof (induction es)
  case (Cons e es)
  have "f e \<notin> f ` set es"
  proof
    assume "f e \<in> f ` set es"
    then have "filter (\<lambda>x. f x = f e) es \<noteq> []" by (auto simp: filter_empty_conv)
    with Cons.prems show False by (cases "filter (\<lambda>x. f x = f e) es") auto
  qed
  moreover have "length (filter (\<lambda>y. f y = f x) es) \<le> 1" if "x \<in> set es" for x
  proof -
    have "length (filter (\<lambda>y. f y = f x) es) \<le> length (filter (\<lambda>y. f y = f x) (e # es))" by simp
    with Cons.prems that show ?thesis by fastforce
  qed
  ultimately show ?case using Cons.IH by simp
qed simp

lemma filter_concat_le:
  "length (filter P (concat (map f (filter Q xs)))) \<le> length (filter P (concat (map f xs)))"
  by (induction xs) auto

lemma unambiguous_keys_distinct:
  "distinct (map evidence_key (concat (map group_items (filter (\<lambda>g. \<not> ambiguous eligible g) eligible))))"
proof (rule distinct_by_counts, rule ballI)
  let ?gs = "filter (\<lambda>g. \<not> ambiguous eligible g) eligible"
  fix e assume "e \<in> set (concat (map group_items ?gs))"
  then obtain g where "\<not> ambiguous eligible g" "e \<in> set (group_items g)" by auto
  then have "membership eligible (evidence_key e) \<le> 1"
    unfolding ambiguous_def list_ex_iff by (metis not_less)
  then show "length (filter (\<lambda>x. evidence_key x = evidence_key e) (concat (map group_items ?gs))) \<le> 1"
    using filter_concat_le[of "\<lambda>x. evidence_key x = evidence_key e" group_items "\<lambda>g. \<not> ambiguous eligible g" eligible]
    unfolding membership_def by linarith
qed

lemma distinct_concat_keys:
  assumes "distinct (map k es)" "\<forall>e \<in> set es. \<forall>c \<in> set (h e). k' c = k e" "\<forall>e \<in> set es. distinct (h e)"
  shows "distinct (concat (map h es))"
  using assms
proof (induction es)
  case (Cons e es)
  have "set (h e) \<inter> set (concat (map h es)) = {}" using Cons.prems(1,2) by (fastforce simp: image_iff)
  then show ?case using Cons by simp
qed simp

lemma pending_distinct:
  assumes "\<forall>g \<in> set eligible. \<forall>e \<in> set (group_items g). evidence_ok cs e"
  shows "distinct (concat (map group_pending (filter (\<lambda>g. \<not> ambiguous eligible g) eligible)))"
proof -
  let ?es = "concat (map group_items (filter (\<lambda>g. \<not> ambiguous eligible g) eligible))"
  have "concat (map group_pending eligible') = concat (map evidence_candidates (concat (map group_items eligible')))" for eligible'
    by (induction eligible') (simp_all add: group_pending_def)
  moreover have "distinct (concat (map evidence_candidates ?es))"
  proof (rule distinct_concat_keys[OF unambiguous_keys_distinct])
    show "\<forall>e \<in> set ?es. \<forall>c \<in> set (evidence_candidates e). candidate_key c = evidence_key e"
      using assms by (auto simp: evidence_ok_def)
    show "\<forall>e \<in> set ?es. distinct (evidence_candidates e)"
      by (simp add: evidence_candidates_def split: option.split)
  qed
  ultimately show ?thesis by simp
qed

lemma mset_concat_map: "mset xs = mset ys \<Longrightarrow> mset (concat (map f xs)) = mset (concat (map f ys))"
proof -
  have "mset (concat (map f xs)) = \<Sum>\<^sub># (image_mset (\<lambda>x. mset (f x)) (mset xs))" for xs by (induction xs) simp_all
  then show "mset xs = mset ys \<Longrightarrow> mset (concat (map f xs)) = mset (concat (map f ys))" by simp
qed

lemma merged_pending:
  "prop_PendingCandidates (foldl mergeProposalEvidence p es) = prop_PendingCandidates p @ concat (map evidence_candidates es)"
proof (induction es arbitrary: p)
  case (Cons e es)
  have "prop_PendingCandidates (mergeProposalEvidence p e) = prop_PendingCandidates p @ evidence_candidates e"
    by (simp add: mergeProposalEvidence_def Let_def evidence_candidates_def)
  with Cons show ?case by simp
qed simp

lemma proposal_pending:
  assumes "\<And>al. mset (it al) = mset al"
  shows "mset (prop_PendingCandidates (group_proposal it g)) = mset (group_pending g)"
proof -
  have "prop_PendingCandidates (empty_proposal\<lparr> Path := grp_template g, prop_Segments := grp_segments g \<rparr>) = []"
    by (simp add: empty_proposal_def)
  then have "mset (prop_PendingCandidates (group_proposal it g)) = mset (concat (map evidence_candidates (map snd (it (grp_evidence g)))))"
    unfolding group_proposal_def Let_def by (simp add: merged_pending)
  also have "\<dots> = mset (concat (map evidence_candidates (map snd (grp_evidence g))))"
    by (rule mset_concat_map) (simp only: mset_map assms)
  finally show ?thesis by (simp add: group_pending_def group_items_def)
qed

definition shown :: "PolicyReviewItem \<Rightarrow> PolicyCandidate list" where
  "shown i =
     (case item_Candidate i of Some c \<Rightarrow> [c]
      | None \<Rightarrow> (case item_Template i of Some t \<Rightarrow> prop_PendingCandidates t | None \<Rightarrow> []))"

lemma shown_simps [simp]:
  "shown (exact_item c) = [c]" "shown (template_item p) = prop_PendingCandidates p"
  by (simp_all add: shown_def exact_item_def template_item_def)

lemma exact_shown:
  "concat (map shown (map snd (map (\<lambda>(i, c). (int i, exact_item c)) (filter (\<lambda>(i, c). P c) (enumerate n cs))))) = filter P cs"
  by (induction cs arbitrary: n) auto

lemma consumed_pending: "consumed_ids gs = map cand_ID (concat (map group_pending gs))"
  by (simp add: consumed_ids_def group_pending_def evidence_candidates_def map_concat o_def option.case_distrib cong: option.case_cong)

lemma eligible_evidence_ok:
  assumes ev: "\<forall>e \<in> map_evidence m. evidence_ok cs e" and g: "\<And>x. mset (group_order x) = mset x"
    and b: "\<And>x. mset (base_order x) = mset x"
    and "h \<in> set (eligible_groups (group_order (proposal_groups (base_order m))))" "e \<in> set (group_items h)"
  shows "evidence_ok cs e"
proof -
  have "set (group_order (proposal_groups (base_order m))) = set (proposal_groups (base_order m))" using g by (metis set_mset_mset)
  then have "e \<in> groups_evidence (proposal_groups (base_order m))"
    using assms(4,5) by (auto simp: eligible_groups_def groups_evidence_def)
  moreover have "map_evidence (base_order m) = map_evidence m" unfolding map_evidence_def using b by (metis set_mset_mset)
  ultimately show ?thesis using proposal_groups_evidence ev by blast
qed

lemma exact_item_valid: "PolicyCandidate_Validate c = None \<Longrightarrow> PolicyReviewItem_Validate (exact_item c) = None"
proof -
  assume v: "PolicyCandidate_Validate c = None"
  then have "policyCandidateIDPattern (cand_ID c)" unfolding candidate_valid_iff by blast
  with v show ?thesis
    by (simp add: PolicyReviewItem_Validate_def exact_item_def ValidatePolicyReviewItemID_def check_simps validPolicyMatch_iff)
qed

lemma split_by_consumed:
  assumes "distinct (map cand_ID cs)" "set ps \<subseteq> set cs" "distinct ps"
  shows "mset ps + mset (filter (\<lambda>c. cand_ID c \<notin> set (map cand_ID ps)) cs) = mset cs"
proof -
  have "set (filter (\<lambda>c. cand_ID c \<in> set (map cand_ID ps)) cs) = set ps"
    using assms(1,2) by (auto simp: distinct_map inj_on_def)
  then have "mset ps = mset (filter (\<lambda>c. cand_ID c \<in> set (map cand_ID ps)) cs)"
    using assms(1,3) by (metis distinct_filter distinct_map set_eq_iff_mset_eq_distinct)
  moreover have "mset (filter P cs) + mset (filter (\<lambda>c. \<not> P c) cs) = mset cs" for P by (induction cs) auto
  ultimately show ?thesis by metis
qed

lemma group_items_shown:
  assumes "list_all2 (\<lambda>g x. group_item it n g = Inr x) gs ts" "\<And>al. mset (it al) = mset al"
  shows "mset (concat (map shown (map snd ts))) = mset (concat (map group_pending gs))"
    and "\<forall>x \<in> set (map snd ts). PolicyReviewItem_Validate x = None"
  using assms(1)
  by (induction rule: list_all2_induct)
    (auto simp: group_item_def Let_def check_simps proposal_pending[OF assms(2)])

lemma review_items_shown:
  assumes orders: "\<And>x. mset (base_order x) = mset x" "\<And>x. mset (group_order x) = mset x" "\<And>x. mset (evidence_order x) = mset x"
    and run: "PolicyReviewItems base_order group_order evidence_order (Some cs) rules = Inr items"
  obtains ps where "set ps \<subseteq> set cs" "distinct ps" "\<forall>c \<in> set cs. PolicyCandidate_Validate c = None"
    "\<forall>x \<in> set items. PolicyReviewItem_Validate x = None"
    "mset (concat (map shown items)) = mset ps + mset (filter (\<lambda>c. cand_ID c \<notin> set (map cand_ID ps)) cs)"
proof -
  obtain m where m: "candidates_evidence (rules_evidence [] (elems rules)) 0 cs = Inr m"
    using run unfolding PolicyReviewItems_def check_simps by auto
  have "\<forall>e \<in> map_evidence (rules_evidence [] (elems rules)). evidence_ok cs e"
    by (rule rules_evidence_ok) (simp add: map_evidence_def)
  from candidates_evidence_ok[OF m this] have ev: "\<forall>e \<in> map_evidence m. evidence_ok cs e"
    and v: "\<forall>c \<in> set cs. PolicyCandidate_Validate c = None" by blast+
  define el where "el = eligible_groups (group_order (proposal_groups (base_order m)))"
  define un where "un = filter (\<lambda>g. \<not> ambiguous el g) el"
  define ps where "ps = concat (map group_pending un)"
  let ?exact = "map (\<lambda>(i, c). (int i, exact_item c)) (filter (\<lambda>(i, c). cand_ID c \<notin> set (map cand_ID ps)) (enumerate 0 cs))"
  have set_ps: "(\<Union>x\<in>{x \<in> set el. \<not> ambiguous el x}. set (group_pending x)) = set ps" by (simp add: ps_def un_def)
  obtain ts where ts: "list_all2 (\<lambda>g x. group_item evidence_order (length cs) g = Inr x) un ts"
    and items: "items = map snd (sort_key fst (ts @ ?exact))"
    using run m unfolding PolicyReviewItems_def check_simps Let_def el_def[symmetric] un_def[symmetric] consumed_pending
      ps_def[symmetric] map_result_Inr by (auto simp: el_def[symmetric] un_def[symmetric] ps_def[symmetric] set_ps)
  have ok: "\<forall>g \<in> set el. \<forall>e \<in> set (group_items g). evidence_ok cs e"
    using eligible_evidence_ok[of m cs group_order base_order, OF ev orders(2,1)] unfolding el_def by blast
  have "set ps \<subseteq> set cs" using ok by (auto simp: ps_def un_def group_pending_def evidence_ok_def)
  moreover have "distinct ps" using pending_distinct[OF ok] by (simp add: ps_def un_def)
  moreover have "\<forall>x \<in> set items. PolicyReviewItem_Validate x = None"
    using group_items_shown(2)[OF ts orders(3)] v exact_item_valid by (auto simp: items in_set_enumerate_eq)
  moreover have "mset (concat (map shown items)) = mset (concat (map shown (map snd (ts @ ?exact))))"
    unfolding items by (rule mset_concat_map) (simp only: mset_map mset_sort)
  moreover have "\<dots> = mset ps + mset (filter (\<lambda>c. cand_ID c \<notin> set (map cand_ID ps)) cs)"
    using group_items_shown(1)[OF ts orders(3)] exact_shown[of "\<lambda>c. cand_ID c \<notin> set (map cand_ID ps)" 0 cs]
    by (simp add: ps_def)
  ultimately show thesis using that v by metis
qed

end
