(* ===== verification/Review_Decisions.thy ===== *)
theory Review_Decisions
  imports Review_Items
begin

text \<open>
  What a review decides: the rule a reviewed template becomes has exactly the scope of the template, every pending
  candidate is shown once, every confirmed persistent decision has a receipt, and the Workspace of a template
  proposal depends on the iteration order of a Go map.
\<close>

section \<open>Template decisions\<close>

lemma host_no_space:
  assumes "validNormalizedPolicyHost h"
  shows "h \<noteq> [] \<and> length h \<le> 253 \<and> \<not> containsSpaceOrControl h"
proof -
  have "c = CHR ''.'' \<or> host_char c" if "c \<in> set h" for c
  proof -
    have "h = strings_Join (strings_Split h CHR ''.'') [CHR ''.'']" by (simp add: Join_Split)
    then have "c \<in> (\<Union>x \<in> set (strings_Split h CHR ''.''). set x) \<union> {CHR ''.''}"
      using that set_Join[of "strings_Split h CHR ''.''" "[CHR ''.'']"] by auto
    then show ?thesis using assms by (auto simp: validNormalizedPolicyHost_def list_all_iff valid_host_label_def)
  qed
  moreover have "32 < byte c \<and> byte c < 127" if "c = CHR ''.'' \<or> host_char c" for c
    using that by (auto simp: host_char_def is_lower_def is_digit_def byte_def)
  ultimately have b: "\<forall>c \<in> set h. 32 < byte c \<and> byte c < 127" by blast
  then have "runes h = map byte h" by (intro runes_ascii) (auto simp: list_all_iff)
  then have "\<not> containsSpaceOrControl h"
    using b by (auto simp: containsSpaceOrControl_def list_ex_iff control_rune_def)
  with assms show ?thesis by (simp add: validNormalizedPolicyHost_def)
qed

lemma template_rule_fields [simp]:
  "Identity (template_rule p) = Identity p" "WorkspaceManifestID (template_rule p) = WorkspaceManifestID p"
  "WorkspaceManifestName (template_rule p) = WorkspaceManifestName p" "ProjectID (template_rule p) = ProjectID p"
  "ProjectRoot (template_rule p) = ProjectRoot p" "Host (template_rule p) = Host p" "Port (template_rule p) = Port p"
  "Method (template_rule p) = Method p" "Path (template_rule p) = Path p" "lr_Match (template_rule p) = ''path_template''"
  "lr_Segments (template_rule p) = prop_Segments p" "lr_Examples (template_rule p) = Some (prop_Examples p)"
  "lr_SourceCandidates (template_rule p) = Some (prop_SourceCandidates p)"
  by (simp_all add: template_rule_def Let_def)

lemma template_rule_id: "lr_ID (template_rule p) = learned_id_of (template_rule p)"
  by (simp add: template_rule_def Let_def learned_id_of_def)

lemma proposal_valid_parts:
  assumes "PolicyPathTemplateProposal_Validate p = None"
  shows "PolicyProtocolIdentity_Validate (Identity p) = None \<and> Protocol (Identity p) = ''http'' \<and>
    validatePolicyScope (WorkspaceManifestID p) (WorkspaceManifestName p) (ProjectRoot p) = None \<and>
    ValidateWorkspaceID (ProjectID p) = None \<and> validNormalizedPolicyHost (Host p) \<and> 1 \<le> Port p \<and> Port p \<le> 65535 \<and>
    httpMethodPattern (Method p) \<and> validatePathTemplate (Path p) (prop_Segments p) = None \<and>
    2 \<le> length (prop_Examples p) \<and> 2 \<le> length (prop_SourceCandidates p) \<and>
    validateSortedUniquePaths (prop_Examples p) = None \<and> validateSortedUniqueCandidateIDs (prop_SourceCandidates p) = None \<and>
    (\<forall>x \<in> set (prop_Examples p). pathTemplateMatches (prop_Segments p) x) \<and>
    (\<forall>c \<in> set (prop_PendingCandidates p). PolicyCandidate_Validate c = None \<and> matchesCandidate p c \<and>
       pathTemplateMatches (prop_Segments p) (Path c))"
  using assms unfolding PolicyPathTemplateProposal_Validate_def check_simps de_Morgan_disj not_not not_less
  by (elim conjE, intro conjI) (assumption | rule ballI; blast)+

lemma template_rule_valid:
  assumes "PolicyPathTemplateProposal_Validate p = None"
  shows "LearnedPolicyRule_Validate (template_rule p) = None"
proof -
  note v = proposal_valid_parts[OF assms]
  have "coordinate_checks ''learned rule'' (template_rule p) = None"
    using v host_no_space[of "Host p"] by (simp add: coordinate_checks_def check_simps not_less)
  moreover have "learnedRuleIDPattern (lr_ID (template_rule p))" unfolding template_rule_id by (rule learned_id_pattern)
  ultimately show ?thesis
    using v template_rule_id[of p] unfolding LearnedPolicyRule_Validate_def Let_def check_simps template_rule_fields
    by (simp add: validPolicyMatch_iff check_simps not_less)
qed

lemma NewPathTemplateLearnedPolicyRule_Inr:
  "NewPathTemplateLearnedPolicyRule p = Inr r \<longleftrightarrow> PolicyPathTemplateProposal_Validate p = None \<and> r = template_rule p"
  unfolding NewPathTemplateLearnedPolicyRule_def check_simps using template_rule_valid by auto

text \<open>The requests that a template rule admits.\<close>

lemma template_rule_covers:
  assumes "PolicyPathTemplateProposal_Validate p = None"
  shows "covered [template_rule p] d \<longleftrightarrow> den_EffectiveDestinationKind d \<noteq> PolicyDestinationHostLoopback \<and>
       WorkspaceManifestID d = WorkspaceManifestID p \<and> ProjectID d = ProjectID p \<and> Identity d = Identity p \<and>
       Host d = Host p \<and> Port d = Port p \<and> Method d = Method p \<and> pathTemplateMatches (prop_Segments p) (Path d)"
proof -
  have "Protocol (Identity p) \<in> set policyProtocolValues" using proposal_valid_parts[OF assms] protocol_known by blast
  then show ?thesis by (auto simp: covered_def LearnedPolicyRule_MatchesIdentity_def request_effect_of identity_matches_iff)
qed

text \<open>C25: A reviewed template proposal always becomes a rule, and the rule has exactly the scope of the proposal: it
  covers the external denials of the same Workspace Manifest, Workspace, protocol identity, host, port and method
  whose path matches the template. Every pending candidate of the proposal lies in that scope up to the Workspace.\<close>

theorem template_decision_scope:
  assumes "PolicyPathTemplateProposal_Validate p = None"
  shows "\<exists>r. NewPathTemplateLearnedPolicyRule p = Inr r \<and> LearnedPolicyRule_Validate r = None \<and>
    (\<forall>d. covered [r] d \<longleftrightarrow> den_EffectiveDestinationKind d \<noteq> PolicyDestinationHostLoopback \<and>
       WorkspaceManifestID d = WorkspaceManifestID p \<and> ProjectID d = ProjectID p \<and> Identity d = Identity p \<and>
       Host d = Host p \<and> Port d = Port p \<and> Method d = Method p \<and> pathTemplateMatches (prop_Segments p) (Path d)) \<and>
    (\<forall>c \<in> set (prop_PendingCandidates p). WorkspaceManifestID c = WorkspaceManifestID p \<and> Identity c = Identity p \<and>
       Host c = Host p \<and> Port c = Port p \<and> Method c = Method p \<and> pathTemplateMatches (prop_Segments p) (Path c))"
proof (intro exI conjI)
  note v = proposal_valid_parts[OF assms]
  show "NewPathTemplateLearnedPolicyRule p = Inr (template_rule p)"
    using assms by (simp add: NewPathTemplateLearnedPolicyRule_Inr)
  show "LearnedPolicyRule_Validate (template_rule p) = None" by (rule template_rule_valid[OF assms])
  show "\<forall>d. covered [template_rule p] d \<longleftrightarrow> den_EffectiveDestinationKind d \<noteq> PolicyDestinationHostLoopback \<and>
       WorkspaceManifestID d = WorkspaceManifestID p \<and> ProjectID d = ProjectID p \<and> Identity d = Identity p \<and>
       Host d = Host p \<and> Port d = Port p \<and> Method d = Method p \<and> pathTemplateMatches (prop_Segments p) (Path d)"
    using template_rule_covers[OF assms] by blast
  show "\<forall>c \<in> set (prop_PendingCandidates p). WorkspaceManifestID c = WorkspaceManifestID p \<and> Identity c = Identity p \<and>
       Host c = Host p \<and> Port c = Port p \<and> Method c = Method p \<and> pathTemplateMatches (prop_Segments p) (Path c)"
    using v by (auto simp: matchesCandidate_def identity_matches_iff)
qed

definition example_proposal :: PolicyPathTemplateProposal where
  "example_proposal =
     (let p = (proposalIdentity (example_denial example_workspace ''/v1/items/7''))
            \<lparr> Path := ''/v1/items/{id}'', prop_Segments := [''v1'', ''items'', ''{id}''],
              prop_Examples := [''/v1/items/7'', ''/v1/items/8''],
              prop_SourceCandidates := [''pcy_0123456789abcdef0123456789abcdef'', ''pcy_1123456789abcdef0123456789abcdef''],
              prop_PendingCandidates := [candidate_of (example_denial example_workspace ''/v1/items/7'')] \<rparr>
      in p\<lparr> prop_ID := pathTemplateProposalID p \<rparr>)"

lemma proposal_id_pattern: "policyTemplateIDPattern (pathTemplateProposalID p)"
  unfolding policyTemplateIDPattern_def pathTemplateProposalID_def by (rule prefixed_digest16)

lemma example_proposal_fields:
  "Identity example_proposal = base_identity ''https'' ''http''"
  "WorkspaceManifestID example_proposal = ''0190a1b2-c3d4-7e5f-8a9b-0c1d2e3f4a5b''"
  "WorkspaceManifestName example_proposal = ''dev''" "ProjectID example_proposal = example_workspace"
  "ProjectRoot example_proposal = ''/home/u/p''" "Host example_proposal = ''api.tobari.dev''" "Port example_proposal = 443"
  "Method example_proposal = ''GET''" "Path example_proposal = ''/v1/items/{id}''"
  "prop_Segments example_proposal = [''v1'', ''items'', ''{id}'']"
  "prop_Examples example_proposal = [''/v1/items/7'', ''/v1/items/8'']"
  "prop_SourceCandidates example_proposal = [''pcy_0123456789abcdef0123456789abcdef'', ''pcy_1123456789abcdef0123456789abcdef'']"
  "prop_SourceRuleIDs example_proposal = []"
  "prop_PendingCandidates example_proposal = [candidate_of (example_denial example_workspace ''/v1/items/7'')]"
  by (simp_all add: example_proposal_def proposalIdentity_def example_denial_def Let_def)

lemma example_proposal_id: "prop_ID example_proposal = pathTemplateProposalID example_proposal"
  by (simp add: example_proposal_def Let_def pathTemplateProposalID_def proposalIdentity_def)

lemma example_proposal_pending:
  "matchesCandidate example_proposal (candidate_of (example_denial example_workspace ''/v1/items/7''))"
  "pathTemplateMatches [''v1'', ''items'', ''{id}''] (Path (candidate_of (example_denial example_workspace ''/v1/items/7'')))"
proof -
  have "semanticModuleMatches (base_identity ''https'' ''http'') (base_identity ''https'' ''http'')"
    "pathTemplateMatches [''v1'', ''items'', ''{id}''] ''/v1/items/7''" by code_simp+
  then show "matchesCandidate example_proposal (candidate_of (example_denial example_workspace ''/v1/items/7''))"
    "pathTemplateMatches [''v1'', ''items'', ''{id}''] (Path (candidate_of (example_denial example_workspace ''/v1/items/7'')))"
    by (simp_all add: matchesCandidate_def example_proposal_fields candidate_of_def Let_def example_denial_def)
qed

lemma example_proposal_valid: "PolicyPathTemplateProposal_Validate example_proposal = None"
proof -
  have e:
    "PolicyProtocolIdentity_Validate (base_identity ''https'' ''http'') = None"
    "Protocol (base_identity ''https'' ''http'') = ''http''"
    "validatePolicyScope ''0190a1b2-c3d4-7e5f-8a9b-0c1d2e3f4a5b'' ''dev'' ''/home/u/p'' = None"
    "ValidateWorkspaceID example_workspace = None" "validNormalizedPolicyHost ''api.tobari.dev''" "httpMethodPattern ''GET''"
    "validatePathTemplate ''/v1/items/{id}'' [''v1'', ''items'', ''{id}''] = None"
    "validateSortedUniquePaths [''/v1/items/7'', ''/v1/items/8''] = None"
    "validateSortedUniqueCandidateIDs [''pcy_0123456789abcdef0123456789abcdef'', ''pcy_1123456789abcdef0123456789abcdef''] = None"
    "validateSortedUniqueRuleIDs [] = None"
    "pathTemplateMatches [''v1'', ''items'', ''{id}''] ''/v1/items/7''"
    "pathTemplateMatches [''v1'', ''items'', ''{id}''] ''/v1/items/8''"
    by code_simp+
  show ?thesis
    unfolding PolicyPathTemplateProposal_Validate_def check_simps example_proposal_fields e
    using proposal_id_pattern[of example_proposal] example_proposal_id e example_proposal_pending example_candidate(1)
    by simp
qed

theorem template_decision_scope_witness:
  "\<exists>r. NewPathTemplateLearnedPolicyRule example_proposal = Inr r \<and>
     covered [r] (example_denial example_workspace ''/v1/items/8'') \<and>
     \<not> covered [r] (example_denial other_workspace ''/v1/items/8'')"
proof -
  have "pathTemplateMatches [''v1'', ''items'', ''{id}''] ''/v1/items/8''" "example_workspace \<noteq> other_workspace"
    "den_EffectiveDestinationKind (example_denial example_workspace ''/v1/items/8'') \<noteq> PolicyDestinationHostLoopback"
    by code_simp+
  then show ?thesis
    using template_decision_scope[OF example_proposal_valid] unfolding example_proposal_fields
    by (auto simp: example_denial_def)
qed


text \<open>C10: The Permission Inbox shows every pending candidate exactly once, whatever order Go gives its maps: when it
  returns, the candidates inside the template proposals together with the exact items are the given candidates
  with their multiplicity, and every item it shows is valid.\<close>

theorem review_items_show_each_candidate_once:
  assumes "\<And>x. mset (base_order x) = mset x" "\<And>x. mset (group_order x) = mset x" "\<And>x. mset (evidence_order x) = mset x"
    and "distinct (map cand_ID cs)"
    and "PolicyReviewItems base_order group_order evidence_order (Some cs) rules = Inr items"
  shows "mset (concat (map shown items)) = mset cs \<and> list_all (\<lambda>i. PolicyReviewItem_Validate i = None) items"
proof -
  obtain ps where "set ps \<subseteq> set cs" "distinct ps" "\<forall>x \<in> set items. PolicyReviewItem_Validate x = None"
    "mset (concat (map shown items)) = mset ps + mset (filter (\<lambda>c. cand_ID c \<notin> set (map cand_ID ps)) cs)"
    using review_items_shown[OF assms(1,2,3,5)] by metis
  then show ?thesis using split_by_consumed[OF assms(4)] by (simp add: list_all_iff)
qed

lemma single_candidate_items:
  assumes "PolicyCandidate_Validate c = None"
  shows "PolicyReviewItems rev rev rev (Some [c]) (Some []) = Inr [exact_item c]"
proof -
  have "proposal_groups (rev (add_evidence e [])) = []" for e by (simp add: add_evidence_def proposal_groups_def)
  then show ?thesis
    using assms
    by (simp add: PolicyReviewItems_def check_simps ValidateLearnedPolicyRules_def guarded_def and_then_def
        proposal_groups_def eligible_groups_def consumed_ids_def first_error.simps reject_def)
qed

theorem review_items_show_each_candidate_once_witness:
  "\<exists>items. PolicyReviewItems rev rev rev (Some [candidate_of (example_denial example_workspace ''/v1/items/7'')]) (Some []) = Inr items \<and>
     mset (concat (map shown items)) = {#candidate_of (example_denial example_workspace ''/v1/items/7'')#}"
proof (intro exI conjI)
  note run = single_candidate_items[OF example_candidate(1)]
  show "PolicyReviewItems rev rev rev (Some [candidate_of (example_denial example_workspace ''/v1/items/7'')]) (Some []) =
    Inr [exact_item (candidate_of (example_denial example_workspace ''/v1/items/7''))]" by (rule run)
  show "mset (concat (map shown [exact_item (candidate_of (example_denial example_workspace ''/v1/items/7''))])) =
    {#candidate_of (example_denial example_workspace ''/v1/items/7'')#}"
    using review_items_show_each_candidate_once[OF _ _ _ _ run] by simp
qed

section \<open>Receipts\<close>

lemma receipt_fields [simp]:
  "Identity (receipt r i v d m s) = Identity r" "Path (receipt r i v d m s) = Path r"
  "applied_RuleID (receipt r i v d m s) = i" "applied_ReviewItemID (receipt r i v d m s) = v"
  "applied_Decision (receipt r i v d m s) = d" "applied_Match (receipt r i v d m s) = m"
  "applied_SourceCandidates (receipt r i v d m s) = s" "applied_DestinationKind (receipt r i v d m s) = []"
  "applied_AuthorityLifetime (receipt r i v d m s) = []" "applied_AttachmentEpochID (receipt r i v d m s) = []"
  "coordinate_checks l (receipt r i v d m s) = coordinate_checks l r"
  "effect_of (receipt r i v d m s) = effect_of r"
  by (simp_all add: receipt_def coordinate_checks_def effect_of_def)

lemma Join_contains: "x \<in> set ss \<Longrightarrow> strings_Contains (strings_Join ss sep) x"
proof (induction ss sep rule: strings_Join.induct)
  case (3 s t ts sep)
  show ?case
  proof (cases "x = s")
    case True
    then show ?thesis by (auto simp: Contains_iff intro: exI[of _ "[]"])
  next
    case False
    with 3 obtain a b where "strings_Join (t # ts) sep = a @ x @ b" by (auto simp: Contains_iff)
    then have "strings_Join (s # t # ts) sep = (s @ sep @ a) @ x @ b" by simp
    then show ?thesis unfolding Contains_iff by blast
  qed
qed (auto simp: Contains_iff intro: exI[of _ "[]"])

lemma template_path_placeholder:
  assumes "validatePathTemplate p ss = None"
  shows "strings_Contains p PolicyPathTemplatePlaceholder"
proof -
  from assms have p: "p = CHR ''/'' # strings_Join ss ''/''" "count_list ss PolicyPathTemplatePlaceholder = 1"
    unfolding validatePathTemplate_def check_simps by simp_all
  then have "PolicyPathTemplatePlaceholder \<in> set ss" by (metis count_list_0_iff zero_neq_one)
  then obtain a b where "strings_Join ss ''/'' = a @ PolicyPathTemplatePlaceholder @ b"
    using Join_contains unfolding Contains_iff by blast
  then have "p = (CHR ''/'' # a) @ PolicyPathTemplatePlaceholder @ b" by (simp add: p)
  then show ?thesis unfolding Contains_iff by blast
qed

text \<open>The checks of a persistent receipt that its rule does not already guarantee: only the review item reference.\<close>

lemma persistent_receipt_valid:
  assumes "PolicyProtocolIdentity_Validate (Identity r) = None" "ValidatePolicyRuleID i = None" "validPolicyDecision d"
    and "validPolicyMatch m" "d = ''deny'' \<longrightarrow> m = ''exact''" "coordinate_checks l r = None"
    and "if m = ''exact'' then validatePolicyPath (Path r) = None else strings_Contains (Path r) PolicyPathTemplatePlaceholder"
    and "validateSortedUniqueCandidateIDs s = None"
  shows "PolicyReviewAppliedDecision_Validate (receipt r i v d m s) = ValidatePolicyReviewItemID v"
proof -
  have "[] \<noteq> PolicyDestinationHostLoopback" by code_simp
  moreover have "coordinate_checks ''policy review receipt'' r = None" using assms(6) coordinates_None by blast
  ultimately show ?thesis
    using assms
    by (cases "m = ''exact''"; cases "ValidatePolicyReviewItemID v")
      (simp_all add: PolicyReviewAppliedDecision_Validate_def first_error.simps wrap_def instead_def reject_def)
qed

lemma allow_receipt_valid:
  assumes v: "LearnedPolicyRule_Validate r = None"
  shows "PolicyReviewAppliedDecision_Validate (receipt r (lr_ID r) i ''allow'' (lr_Match r) (elems (lr_SourceCandidates r))) =
    ValidatePolicyReviewItemID i"
proof (rule persistent_receipt_valid)
  have "validPolicyDecision ''allow''" by code_simp
  then show "validPolicyDecision ''allow''" .
  show "''allow'' = ''deny'' \<longrightarrow> lr_Match r = ''exact''" by simp
  show "if lr_Match r = ''exact'' then validatePolicyPath (Path r) = None
    else strings_Contains (Path r) PolicyPathTemplatePlaceholder"
    using v template_path_placeholder unfolding LearnedPolicyRule_Validate_def Let_def check_simps
    by (auto simp: check_simps)
qed (use v in \<open>auto simp: LearnedPolicyRule_Validate_def Let_def check_simps ValidatePolicyRuleID_def\<close>)

lemma deny_receipt_valid:
  assumes v: "PolicyDenyRule_Validate r = None"
  shows "PolicyReviewAppliedDecision_Validate (receipt r (deny_ID r) i ''deny'' ''exact'' (deny_SourceCandidates r)) =
    ValidatePolicyReviewItemID i"
proof (rule persistent_receipt_valid)
  have "validPolicyDecision ''deny''" "validPolicyMatch ''exact''" by code_simp+
  then show "validPolicyDecision ''deny''" "validPolicyMatch ''exact''" .
qed (use v in \<open>auto simp: PolicyDenyRule_Validate_def Let_def check_simps ValidatePolicyRuleID_def\<close>)

text \<open>A confirmed persistent decision always gets a receipt: for every valid learned rule, exact or template, and for
  every valid Deny rule, the receipt is built exactly when the review item reference is well formed, and it names
  the rule, its effect and its sources, without any attachment authority.\<close>

theorem persistent_receipts_total:
  assumes "LearnedPolicyRule_Validate r = None" "PolicyDenyRule_Validate q = None"
  shows "(ValidatePolicyReviewItemID i = None \<longrightarrow>
       (\<exists>a. NewPolicyReviewAppliedAllow i r = Inr a \<and> applied_RuleID a = lr_ID r \<and> applied_Match a = lr_Match r \<and>
          effect_of a = effect_of r \<and> applied_AttachmentEpochID a = []) \<and>
       (\<exists>d. NewPolicyReviewAppliedDeny i q = Inr d \<and> applied_RuleID d = deny_ID q \<and> applied_Match d = ''exact'' \<and>
          effect_of d = effect_of q \<and> applied_AttachmentEpochID d = [])) \<and>
    (ValidatePolicyReviewItemID i \<noteq> None \<longrightarrow> isl (NewPolicyReviewAppliedAllow i r) \<and> isl (NewPolicyReviewAppliedDeny i q))"
  using assms allow_receipt_valid[OF assms(1), of i] deny_receipt_valid[OF assms(2), of i]
  by (cases "ValidatePolicyReviewItemID i")
    (simp_all add: NewPolicyReviewAppliedAllow_def NewPolicyReviewAppliedDeny_def Let_def checked_def first_error.simps)

theorem persistent_receipts_total_witness:
  "\<exists>r q a d. NewExactLearnedPolicyRule (candidate_of (example_denial example_workspace ''/v1/items/7'')) = Inr r \<and>
     NewExactPolicyDenyRule (candidate_of (example_denial example_workspace ''/v1/items/7'')) = Inr q \<and>
     NewPolicyReviewAppliedAllow ''pcy_0123456789abcdef0123456789abcdef'' r = Inr a \<and>
     NewPolicyReviewAppliedDeny ''pcy_0123456789abcdef0123456789abcdef'' q = Inr d \<and>
     isl (NewPolicyReviewAppliedAllow ''unknown'' r)"
proof -
  have i: "ValidatePolicyReviewItemID ''pcy_0123456789abcdef0123456789abcdef'' = None" "ValidatePolicyReviewItemID ''unknown'' \<noteq> None"
    by code_simp+
  obtain r q where r: "NewExactLearnedPolicyRule (candidate_of (example_denial example_workspace ''/v1/items/7'')) = Inr r"
    and q: "NewExactPolicyDenyRule (candidate_of (example_denial example_workspace ''/v1/items/7'')) = Inr q"
    using exact_decisions_exist[OF example_candidate] by blast
  note t = persistent_receipts_total[OF exact_rule_valid[OF r] exact_deny_valid[OF q]]
  from t[of "''pcy_0123456789abcdef0123456789abcdef''"] t[of "''unknown''"] i r q show ?thesis by blast
qed

section \<open>The Workspace of a proposal\<close>

text \<open>Two pending candidates that agree on everything but the path and the Workspace, and the group that their paths form.\<close>

definition pair_group :: "string \<Rightarrow> string list \<Rightarrow> PolicyCandidate \<Rightarrow> PolicyCandidate \<Rightarrow> proposalGroup" where
  "pair_group t ss a b =
     \<lparr> grp_template = t, grp_segments = ss, grp_evidence = [(Path a, candidate_evidence 0 a), (Path b, candidate_evidence 1 b)] \<rparr>"

definition one_template :: "string \<Rightarrow> string list \<Rightarrow> PolicyCandidate \<Rightarrow> PolicyCandidate \<Rightarrow> bool" where
  "one_template t ss a b \<longleftrightarrow>
     PolicyCandidate_Validate a = None \<and> PolicyCandidate_Validate b = None \<and> cand_ID a \<noteq> cand_ID b \<and> Protocol (Identity a) = ''http'' \<and>
     cand_EffectiveDestinationKind a \<noteq> PolicyDestinationHostLoopback \<and> cand_EffectiveDestinationKind b \<noteq> PolicyDestinationHostLoopback \<and>
     WorkspaceManifestID b = WorkspaceManifestID a \<and> Identity b = Identity a \<and> Host b = Host a \<and> Port b = Port a \<and> Method b = Method a \<and>
     inferPathTemplate (Path a) (Path b) = Some (t, ss) \<and> validatePathTemplate t ss = None"

lemma one_template_sym: "one_template t ss a b \<Longrightarrow> one_template t ss b a"
  using inferPathTemplate_sym[of "Path a" "Path b"] by (auto simp: one_template_def)

lemma inferred_apart: "inferPathTemplate l r = Some (t, ss) \<Longrightarrow> l \<noteq> r"
  using infer_segments_changed by (fastforce simp: inferPathTemplate_Some)

lemma one_template_paths:
  assumes "one_template t ss a b"
  shows "Path a \<noteq> Path b" "pathTemplateMatches ss (Path a)" "pathTemplateMatches ss (Path b)"
  using assms inferred_apart inferPathTemplate_matches unfolding one_template_def by blast+

lemma single_order: "(\<And>x. mset (order x) = mset x) \<Longrightarrow> order [x] = [x]"
  by (metis mset_single_iff mset_single_iff_right mset.simps)

lemma pair_items:
  assumes c: "one_template t ss a b" and o: "\<And>x. mset (base_order x) = mset x" "\<And>x. mset (group_order x) = mset x"
  shows "PolicyReviewItems base_order group_order evidence_order (Some [a, b]) (Some []) =
    checked (PolicyReviewItem_Validate (template_item (group_proposal evidence_order (pair_group t ss a b))))
      [template_item (group_proposal evidence_order (pair_group t ss a b))]"
proof -
  let ?k = "templateBaseKey (proposalIdentityFromCandidate a)" and ?g = "pair_group t ss a b"
  have k: "templateBaseKey (proposalIdentityFromCandidate b) = ?k"
    using c by (simp add: one_template_def templateBaseKey_def proposalIdentityFromCandidate_def proposalIdentity_def)
  have m: "candidates_evidence [] 0 [a, b] = Inr [(?k, [candidate_evidence 0 a, candidate_evidence 1 b])]"
    using c k by (simp add: one_template_def guarded_def add_evidence_def candidate_evidence_def)
  have g: "proposal_groups [(?k, [candidate_evidence 0 a, candidate_evidence 1 b])] = [(?k @ [NUL] @ t, ?g)]"
    using c one_template_paths(1)[OF c] by (simp add: one_template_def proposal_groups_def add_pair_def candidate_evidence_def pair_group_def)
  have e: "eligible_groups [(?k @ [NUL] @ t, ?g)] = [?g]"
    by (simp add: eligible_groups_def pair_group_def group_items_def candidate_evidence_def)
  have u: "\<not> ambiguous [?g] ?g"
    using one_template_paths(1)[OF c] k
    by (simp add: ambiguous_def membership_def pair_group_def group_items_def evidence_key_def candidate_evidence_def)
  have x: "consumed_ids [?g] = [cand_ID a, cand_ID b]"
    by (simp add: consumed_ids_def pair_group_def group_items_def candidate_evidence_def)
  show ?thesis
    using m g e u x single_order[of base_order, OF o(1)] single_order[of group_order, OF o(2)]
    by (simp add: PolicyReviewItems_def guarded_def and_then_def ValidateLearnedPolicyRules_def first_error.simps reject_def
        group_item_def Let_def checked_def split: option.splits)
qed

text \<open>The proposal of the pair takes its identity from the first evidence of the iteration.\<close>

lemma pair_proposal:
  fixes x y :: PolicyCandidate and i j :: nat
  assumes c: "one_template t ss x y"
  defines "p \<equiv> group_proposal id \<lparr> grp_template = t, grp_segments = ss, grp_evidence = [(Path x, candidate_evidence i x), (Path y, candidate_evidence j y)] \<rparr>"
  shows "Identity p = Identity x" "WorkspaceManifestID p = WorkspaceManifestID x" "ProjectID p = ProjectID x" "Host p = Host x"
    "Port p = Port x" "Method p = Method x" "Path p = t" "prop_Segments p = ss" "PolicyPathTemplateProposal_Validate p = None"
proof -
  have v: "PolicyCandidate_Validate x = None" "PolicyCandidate_Validate y = None" using c by (simp_all add: one_template_def)
  have "ValidateWorkspaceManifestID [] \<noteq> None" by code_simp
  then have ne: "WorkspaceManifestID x \<noteq> []"
    using v(1) unfolding candidate_valid_iff coordinate_checks_def validatePolicyScope_def by (auto simp: check_simps)
  show f: "Identity p = Identity x" "WorkspaceManifestID p = WorkspaceManifestID x" "ProjectID p = ProjectID x" "Host p = Host x"
    "Port p = Port x" "Method p = Method x" "Path p = t" "prop_Segments p = ss"
    using ne by (simp_all add: p_def group_proposal_def Let_def mergeProposalEvidence_def candidate_evidence_def empty_proposal_def
        proposalIdentityFromCandidate_def proposalIdentity_def)
  have h: "WorkspaceManifestName p = WorkspaceManifestName x" "ProjectRoot p = ProjectRoot x"
    "prop_Examples p = sort [Path x, Path y]" "prop_SourceCandidates p = uniqueSortedStrings (sort [cand_ID x, cand_ID y])"
    "prop_SourceRuleIDs p = []" "prop_PendingCandidates p = sort_key (\<lambda>c. (cand_ObservedAt c, cand_ID c)) [x, y]"
    using ne by (simp_all add: p_def group_proposal_def Let_def mergeProposalEvidence_def candidate_evidence_def empty_proposal_def
        proposalIdentityFromCandidate_def proposalIdentity_def uniqueSortedStrings_def)
  have id: "prop_ID p = pathTemplateProposalID p" by (simp add: p_def group_proposal_def Let_def pathTemplateProposalID_def)
  note paths = one_template_paths[OF c]
  have "cand_ID x \<noteq> cand_ID y" using c by (simp add: one_template_def)
  then have s: "prop_SourceCandidates p = sort [cand_ID x, cand_ID y]" unfolding h(4) uniqueSortedStrings_def by simp
  note parts = v[unfolded candidate_valid_iff]
  have valid: "policyCandidateIDPattern (cand_ID x)" "policyCandidateIDPattern (cand_ID y)" "coordinate_checks ''denial'' x = None"
    "SemanticRequestEffect_Validate (effect_of x) = None" "SemanticRequestEffect_Validate (effect_of y) = None"
    using parts by blast+
  note ex = effect_valid_parts[OF valid(4), unfolded effect_of_def, simplified] and ey = effect_valid_parts(2)[OF valid(5), unfolded effect_of_def, simplified]
  have sorted: "validateSortedUniquePaths (sort [Path x, Path y]) = None" "validateSortedUniqueCandidateIDs (sort [cand_ID x, cand_ID y]) = None"
    using paths(1) \<open>cand_ID x \<noteq> cand_ID y\<close> ex(2) ey valid(1,2)
    by (auto simp: validateSortedUniquePaths_def validateSortedUniqueCandidateIDs_def ValidatePolicyCandidateID_def first_error.simps reject_def)
  have pending: "matchesCandidate p x" "matchesCandidate p y"
    using c protocol_known[OF ex(1)] by (simp_all add: one_template_def matchesCandidate_def f identity_matches_iff)
  have "prop_PendingCandidates p = [x, y] \<or> prop_PendingCandidates p = [y, x]" unfolding h(6) by simp
  then show "PolicyPathTemplateProposal_Validate p = None"
    using proposal_id_pattern[of p] id c sorted s valid ex pending paths v \<open>cand_ID x \<noteq> cand_ID y\<close>
    unfolding PolicyPathTemplateProposal_Validate_def check_simps f h(1-3,5)
    by (auto simp: one_template_def coordinate_checks_def check_simps validateSortedUniqueRuleIDs_def)
qed

text \<open>The iteration order decides whose Workspace the proposal has, and whose requests its rule admits.\<close>

lemma pair_order:
  assumes c: "one_template t ss a b" and w: "ProjectID a \<noteq> ProjectID b"
  defines "p \<equiv> group_proposal id (pair_group t ss a b)" and "q \<equiv> group_proposal rev (pair_group t ss a b)"
  shows "PolicyPathTemplateProposal_Validate p = None" "PolicyPathTemplateProposal_Validate q = None" "prop_ID p = prop_ID q"
    "covered [template_rule p] (candidate_denial a)" "\<not> covered [template_rule p] (candidate_denial b)"
    "covered [template_rule q] (candidate_denial b)" "\<not> covered [template_rule q] (candidate_denial a)"
proof -
  have q: "q = group_proposal id \<lparr> grp_template = t, grp_segments = ss, grp_evidence = [(Path b, candidate_evidence 1 b), (Path a, candidate_evidence 0 a)] \<rparr>"
    unfolding q_def pair_group_def group_proposal_def Let_def by simp
  note p = pair_proposal[OF c, of 0 1, folded pair_group_def p_def] and q = pair_proposal[OF one_template_sym[OF c], of 1 0, folded q]
  show "PolicyPathTemplateProposal_Validate p = None" "PolicyPathTemplateProposal_Validate q = None" using p(9) q(9) .
  have "prop_ID p = pathTemplateProposalID p" "prop_ID q = pathTemplateProposalID q"
    by (simp_all add: p_def q_def group_proposal_def Let_def pathTemplateProposalID_def)
  then show "prop_ID p = prop_ID q" using c by (simp add: pathTemplateProposalID_def p q one_template_def)
  have k: "den_EffectiveDestinationKind (candidate_denial x) = cand_EffectiveDestinationKind x" for x
    by (simp add: den_EffectiveDestinationKind_def cand_EffectiveDestinationKind_def candidate_denial_def)
  note fields = template_rule_covers[OF p(9)] template_rule_covers[OF q(9)] p q k candidate_denial_fields
  show "covered [template_rule p] (candidate_denial a)" "\<not> covered [template_rule p] (candidate_denial b)"
    "covered [template_rule q] (candidate_denial b)" "\<not> covered [template_rule q] (candidate_denial a)"
    unfolding fields using c w one_template_paths[OF c] by (auto simp: one_template_def candidate_denial_def)
qed

text \<open>C40: The Workspace that a template proposal is bound to, and so the requests that its rule admits, depend on the order in which
  Go iterates over a map. Let the Permission Inbox show any two valid pending candidates for one Workspace Manifest, effect and host
  that come from two Workspaces and whose paths one valid template generalizes. Whatever the order of the other maps, it shows one
  template proposal, with the same reference for both orders of the evidence; but in one order the rule that the reviewed proposal
  becomes admits the request of the first candidate and not that of the second, and in the other order the reverse.\<close>

theorem proposal_workspace_depends_on_map_order:
  assumes "one_template t ss a b" "ProjectID a \<noteq> ProjectID b"
    and "\<And>x. mset (base_order x) = mset x" "\<And>x. mset (group_order x) = mset x"
  shows "\<exists>p q r s. PolicyReviewItems base_order group_order id (Some [a, b]) (Some []) = Inr [template_item p] \<and>
     PolicyReviewItems base_order group_order rev (Some [a, b]) (Some []) = Inr [template_item q] \<and> prop_ID p = prop_ID q \<and>
     NewPathTemplateLearnedPolicyRule p = Inr r \<and> NewPathTemplateLearnedPolicyRule q = Inr s \<and>
     covered [r] (candidate_denial a) \<and> \<not> covered [r] (candidate_denial b) \<and>
     covered [s] (candidate_denial b) \<and> \<not> covered [s] (candidate_denial a)"
proof -
  note o = pair_order[OF assms(1,2)]
  have "PolicyReviewItem_Validate (template_item p) = None" if "PolicyPathTemplateProposal_Validate p = None" for p
    using that proposal_id_pattern[of p]
    by (simp add: PolicyReviewItem_Validate_def template_item_def ValidatePolicyReviewItemID_def PolicyPathTemplateProposal_Validate_def check_simps validPolicyMatch_iff)
  then show ?thesis
    using o pair_items[OF assms(1,3,4)] NewPathTemplateLearnedPolicyRule_Inr by (simp add: checked_def) blast
qed

text \<open>Two candidates of two Workspaces with their own references.\<close>

abbreviation example_pending :: "string \<Rightarrow> string \<Rightarrow> string \<Rightarrow> PolicyCandidate" where
  "example_pending i w path \<equiv> (candidate_of (example_denial w path))\<lparr> cand_ID := i \<rparr>"

lemma example_one_template:
  "one_template ''/v1/items/{id}'' [''v1'', ''items'', ''{id}'']
     (example_pending ''pcy_0123456789abcdef0123456789abcdef'' example_workspace ''/v1/items/7'')
     (example_pending ''pcy_1123456789abcdef0123456789abcdef'' other_workspace ''/v1/items/8'')"
proof -
  have "PolicyDenial_Validate (example_denial example_workspace ''/v1/items/7'') = None"
    "PolicyDenial_Validate (example_denial other_workspace ''/v1/items/8'') = None"
    "policyCandidateIDPattern ''pcy_0123456789abcdef0123456789abcdef''" "policyCandidateIDPattern ''pcy_1123456789abcdef0123456789abcdef''"
    by code_simp+
  moreover have "PolicyCandidate_Validate (example_pending i w path) = None"
    if "policyCandidateIDPattern i" "PolicyDenial_Validate (example_denial w path) = None" for i w path
    using candidate_of_valid[OF that(2)] that(1) unfolding candidate_valid_iff by (simp add: effect_of_def coordinate_checks_def)
  moreover have "inferPathTemplate ''/v1/items/7'' ''/v1/items/8'' = Some (''/v1/items/{id}'', [''v1'', ''items'', ''{id}''])"
    "validatePathTemplate ''/v1/items/{id}'' [''v1'', ''items'', ''{id}''] = None" "Protocol (base_identity ''https'' ''http'') = ''http''"
    by code_simp+
  ultimately show ?thesis
    by (simp add: one_template_def cand_EffectiveDestinationKind_def example_denial_def effective_destination_def)
qed

theorem proposal_workspace_depends_on_map_order_witness:
  "\<exists>p q r s. PolicyReviewItems rev rev id (Some [example_pending ''pcy_0123456789abcdef0123456789abcdef'' example_workspace ''/v1/items/7'',
       example_pending ''pcy_1123456789abcdef0123456789abcdef'' other_workspace ''/v1/items/8'']) (Some []) = Inr [template_item p] \<and>
     PolicyReviewItems rev rev rev (Some [example_pending ''pcy_0123456789abcdef0123456789abcdef'' example_workspace ''/v1/items/7'',
       example_pending ''pcy_1123456789abcdef0123456789abcdef'' other_workspace ''/v1/items/8'']) (Some []) = Inr [template_item q] \<and>
     prop_ID p = prop_ID q \<and> NewPathTemplateLearnedPolicyRule p = Inr r \<and> NewPathTemplateLearnedPolicyRule q = Inr s \<and>
     covered [r] (candidate_denial (example_pending ''pcy_0123456789abcdef0123456789abcdef'' example_workspace ''/v1/items/7'')) \<and>
     \<not> covered [s] (candidate_denial (example_pending ''pcy_0123456789abcdef0123456789abcdef'' example_workspace ''/v1/items/7''))"
proof -
  have "example_workspace \<noteq> other_workspace" by code_simp
  then have "ProjectID (example_pending ''pcy_0123456789abcdef0123456789abcdef'' example_workspace ''/v1/items/7'')
      \<noteq> ProjectID (example_pending ''pcy_1123456789abcdef0123456789abcdef'' other_workspace ''/v1/items/8'')"
    by (simp add: example_denial_def)
  from proposal_workspace_depends_on_map_order[OF example_one_template this mset_rev mset_rev] show ?thesis by blast
qed

end
