(* ===== verification/Permission_Wait.thy ===== *)
theory Permission_Wait
  imports Semantic_Module
begin

text \<open>
  Permission waits (\<open>internal/domain/tobari/permission_wait.go\<close>): the session of the interactive owner of an
  attachment with its renewable lease, the registry of sessions, the access state of one wait, and the wait record
  with its exact effect. Times are nanoseconds since the epoch. \<open>Time.Sub\<close> saturates at the largest
  duration; every use compares the difference of an ordered pair with a lease, and the saturated value is above it
  exactly when the true difference is.
\<close>

section \<open>Vocabularies\<close>

definition PermissionWaitLease :: int where "PermissionWaitLease = 15 * 60 * 1000000000"
definition PermissionSessionLease :: int where "PermissionSessionLease = 30 * 1000000000"
definition PermissionWaitMaxLive :: nat where "PermissionWaitMaxLive = 8"
definition PermissionWaitMaxAttempts :: int where "PermissionWaitMaxAttempts = 3"

definition permissionWaitIDPattern :: "string \<Rightarrow> bool" where "permissionWaitIDPattern = prefixed_hex ''pwt_'' 32"
definition permissionWaitPrincipalPattern :: "string \<Rightarrow> bool" where "permissionWaitPrincipalPattern = hex_string 64"
definition permissionSessionNoncePattern :: "string \<Rightarrow> bool" where "permissionSessionNoncePattern = hex_string 64"
definition permissionSessionSocketPattern :: "string \<Rightarrow> bool" where
  "permissionSessionSocketPattern s =
     (strings_HasSuffix s ''.sock'' \<and> prefixed_hex ''pws_'' 32 (strings_TrimSuffix s ''.sock''))"

definition PermissionSessionTransport_Validate :: "string \<Rightarrow> check" where
  "PermissionSessionTransport_Validate t = reject (t \<noteq> ''unix'' \<and> t \<noteq> ''loopback_tcp'') ''permission session transport is invalid''"

definition PermissionWaitResult_Validate :: "string \<Rightarrow> check" where
  "PermissionWaitResult_Validate r =
     reject (r \<noteq> ''allow'' \<and> r \<noteq> ''deny'' \<and> r \<noteq> ''expired'') ''permission wait result is invalid''"

section \<open>Sessions\<close>

record InteractiveAttachmentSession =
  ias_SchemaVersion :: int
  ias_WorkspaceManifestID :: string
  ias_WorkspaceID :: string
  ias_AttachmentID :: string
  ias_OwnerKind :: string
  ias_FrozenPrincipalFingerprint :: string
  ias_OwnerPID :: int
  ias_IngestionTransport :: string
  ias_IngestionEndpoint :: string
  ias_IngestionNonce :: string
  ias_CreatedAt :: string
  ias_LeaseIssuedAt :: string
  ias_ExpiresAt :: string

definition loopback_endpoint :: "string \<Rightarrow> bool" where
  "loopback_endpoint endpoint =
     (case strings_Split2 endpoint '':'' of
        None \<Rightarrow> False
      | Some (host, portText) \<Rightarrow>
          (case strconv_Atoi portText of
             None \<Rightarrow> False
           | Some port \<Rightarrow> \<not> (host \<noteq> ''127.0.0.1'' \<or> port < 1 \<or> 65535 < port \<or> strconv_Itoa port \<noteq> portText)))"

definition session_lease_check :: "InteractiveAttachmentSession \<Rightarrow> check" where
  "session_lease_check s =
     (case time_Parse (ias_CreatedAt s) of
        None \<Rightarrow> Some ''interactive attachment session creation time is invalid''
      | Some created \<Rightarrow>
          (case time_Parse (ias_LeaseIssuedAt s) of
             None \<Rightarrow> Some ''interactive attachment session lease issue time is invalid''
           | Some issued \<Rightarrow>
               if issued < created then Some ''interactive attachment session lease issue time is invalid''
               else (case time_Parse (ias_ExpiresAt s) of
                       None \<Rightarrow> Some ''interactive attachment session lease is invalid''
                     | Some expires \<Rightarrow> reject (\<not> issued < expires \<or> PermissionSessionLease < expires - issued)
                         ''interactive attachment session lease is invalid'')))"

definition InteractiveAttachmentSession_Validate :: "InteractiveAttachmentSession \<Rightarrow> check" where
  "InteractiveAttachmentSession_Validate s =
     first_error
       [reject (ias_SchemaVersion s \<noteq> 2) ''interactive attachment session schema is invalid'',
        reject (ValidateWorkspaceManifestID (ias_WorkspaceManifestID s) \<noteq> None \<or> ValidateWorkspaceID (ias_WorkspaceID s) \<noteq> None
                \<or> ValidateAttachmentEpochID (ias_AttachmentID s) \<noteq> None) ''interactive attachment session identity is invalid'',
        reject (ias_OwnerKind s \<noteq> ''interactive_workspace'' \<or> \<not> permissionWaitPrincipalPattern (ias_FrozenPrincipalFingerprint s))
          ''interactive attachment session join is invalid'',
        reject (ias_OwnerPID s < 1 \<or> PermissionSessionTransport_Validate (ias_IngestionTransport s) \<noteq> None
                \<or> \<not> permissionSessionNoncePattern (ias_IngestionNonce s))
          ''interactive attachment session owner endpoint is invalid'',
        (if ias_IngestionTransport s = ''unix'' then
           reject (\<not> permissionSessionSocketPattern (ias_IngestionEndpoint s))
             ''interactive attachment session Unix endpoint is invalid''
         else if ias_IngestionTransport s = ''loopback_tcp'' then
           reject (\<not> loopback_endpoint (ias_IngestionEndpoint s)) ''interactive attachment session loopback endpoint is invalid''
         else None),
        session_lease_check s]"

definition SameAuthority :: "InteractiveAttachmentSession \<Rightarrow> InteractiveAttachmentSession \<Rightarrow> bool" where
  "SameAuthority s other =
     (ias_SchemaVersion s = ias_SchemaVersion other \<and> ias_WorkspaceManifestID s = ias_WorkspaceManifestID other
      \<and> ias_WorkspaceID s = ias_WorkspaceID other \<and> ias_AttachmentID s = ias_AttachmentID other
      \<and> ias_OwnerKind s = ias_OwnerKind other \<and> ias_FrozenPrincipalFingerprint s = ias_FrozenPrincipalFingerprint other
      \<and> ias_OwnerPID s = ias_OwnerPID other \<and> ias_IngestionTransport s = ias_IngestionTransport other
      \<and> ias_IngestionEndpoint s = ias_IngestionEndpoint other \<and> ias_IngestionNonce s = ias_IngestionNonce other
      \<and> ias_CreatedAt s = ias_CreatedAt other)"

text \<open>The parse of a validated time cannot fail; Go ignores its error.\<close>

definition parsed :: "string \<Rightarrow> int" where
  "parsed t = (case time_Parse t of None \<Rightarrow> - 62135596800 * 1000000000 | Some n \<Rightarrow> n)"

definition ValidateRenewal :: "InteractiveAttachmentSession \<Rightarrow> InteractiveAttachmentSession \<Rightarrow> check" where
  "ValidateRenewal s previous =
     first_error
       [InteractiveAttachmentSession_Validate previous,
        InteractiveAttachmentSession_Validate s,
        reject (\<not> SameAuthority s previous) ''interactive attachment session authority changed'',
        reject (\<not> parsed (ias_LeaseIssuedAt previous) < parsed (ias_LeaseIssuedAt s))
          ''interactive attachment session lease did not advance'']"

record InteractiveAttachmentSessionRegistry =
  iasr_SchemaVersion :: int
  iasr_Sessions :: "InteractiveAttachmentSession list option"

definition session_pair :: "InteractiveAttachmentSession \<Rightarrow> string" where
  "session_pair s = ias_WorkspaceManifestID s @ [NUL] @ ias_WorkspaceID s"

definition session_endpoint :: "InteractiveAttachmentSession \<Rightarrow> string" where
  "session_endpoint s = ias_IngestionTransport s @ [NUL] @ ias_IngestionEndpoint s"

fun session_rows ::
    "string set \<Rightarrow> string set \<Rightarrow> string set \<Rightarrow> string set \<Rightarrow> InteractiveAttachmentSession list \<Rightarrow> check" where
  "session_rows owners epochs endpoints nonces [] = None"
| "session_rows owners epochs endpoints nonces (s # ss) =
     first_error
       [InteractiveAttachmentSession_Validate s,
        reject (session_pair s \<in> owners) ''interactive attachment session owner is ambiguous'',
        reject (ias_AttachmentID s \<in> epochs) ''interactive attachment session epoch is duplicated'',
        reject (session_endpoint s \<in> endpoints) ''interactive attachment session endpoint is duplicated'',
        reject (ias_IngestionNonce s \<in> nonces) ''interactive attachment session process identity is duplicated'',
        session_rows (insert (session_pair s) owners) (insert (ias_AttachmentID s) epochs)
          (insert (session_endpoint s) endpoints) (insert (ias_IngestionNonce s) nonces) ss]"

definition InteractiveAttachmentSessionRegistry_Validate :: "InteractiveAttachmentSessionRegistry \<Rightarrow> check" where
  "InteractiveAttachmentSessionRegistry_Validate r =
     first_error
       [reject (iasr_SchemaVersion r \<noteq> 2 \<or> iasr_Sessions r = None \<or> 128 < length (elems (iasr_Sessions r)))
          ''interactive attachment session registry is invalid'',
        session_rows {} {} {} {} (elems (iasr_Sessions r))]"

section \<open>The access state of a wait\<close>

record PermissionWaitAccessState =
  pwa_Attempts :: int
  pwa_Active :: bool
  pwa_Consumed :: bool

definition PermissionWaitAccessState_Validate :: "PermissionWaitAccessState \<Rightarrow> check" where
  "PermissionWaitAccessState_Validate s =
     first_error
       [reject (pwa_Attempts s < 0 \<or> PermissionWaitMaxAttempts < pwa_Attempts s) ''permission wait attempt count is invalid'',
        reject (pwa_Active s \<and> pwa_Consumed s) ''consumed permission wait cannot remain active'']"

definition StartAttempt :: "PermissionWaitAccessState \<Rightarrow> PermissionWaitAccessState result" where
  "StartAttempt s =
     checked
       (first_error
          [PermissionWaitAccessState_Validate s,
           reject (pwa_Active s \<or> pwa_Consumed s \<or> PermissionWaitMaxAttempts \<le> pwa_Attempts s) ''permission wait is unavailable''])
       (s\<lparr> pwa_Attempts := pwa_Attempts s + 1, pwa_Active := True \<rparr>)"

definition FinishAttempt :: "PermissionWaitAccessState \<Rightarrow> bool \<Rightarrow> PermissionWaitAccessState result" where
  "FinishAttempt s terminal =
     checked
       (first_error
          [PermissionWaitAccessState_Validate s,
           reject (\<not> pwa_Active s) ''permission wait has no active attempt''])
       (s\<lparr> pwa_Active := False, pwa_Consumed := terminal \<rparr>)"

section \<open>Wait records\<close>

text \<open>The entropy source is a reader: \<open>io.ReadFull\<close> of 16 bytes gives an error or the bytes.\<close>

definition NewPermissionWaitID :: "(nat \<Rightarrow> nat list result) option \<Rightarrow> string result" where
  "NewPermissionWaitID source =
     (case source of
        None \<Rightarrow> Inl ''permission wait entropy source is required''
      | Some read \<Rightarrow>
          (case read 16 of
             Inl e \<Rightarrow> Inl ''read permission wait entropy''
           | Inr entropy \<Rightarrow> Inr (''pwt_'' @ hex_EncodeToString entropy)))"

definition ValidatePermissionWaitID :: "string \<Rightarrow> check" where
  "ValidatePermissionWaitID v = reject (\<not> permissionWaitIDPattern v) ''permission wait ID is invalid''"

record PermissionWaitEffect =
  pwe_Scheme :: string
  pwe_Host :: string
  pwe_Port :: int
  pwe_Method :: string
  pwe_Path :: string
  pwe_Segments :: "string list option"

text \<open>\<open>hex.Decode\<close> of one byte: a digit or a letter of either case.\<close>

definition hex_value :: "char \<Rightarrow> nat option" where
  "hex_value c =
     (if is_digit c then Some (byte c - 48)
      else if 97 \<le> byte c \<and> byte c \<le> 102 then Some (byte c - 87)
      else if 65 \<le> byte c \<and> byte c \<le> 70 then Some (byte c - 55) else None)"

fun percent_decode :: "string \<Rightarrow> string option" where
  "percent_decode [] = Some []"
| "percent_decode (c # cs) =
     (if c \<noteq> CHR ''%'' then map_option ((#) c) (percent_decode cs)
      else (case cs of
              h # l # rest \<Rightarrow>
                (case (hex_value h, hex_value l) of
                   (Some a, Some b) \<Rightarrow> map_option ((#) (char_of (16 * a + b))) (percent_decode rest)
                 | _ \<Rightarrow> None)
            | _ \<Rightarrow> None))"

fun normalize_segments :: "string list \<Rightarrow> string list result" where
  "normalize_segments [] = Inr []"
| "normalize_segments (s # ss) =
     (if s = [] then normalize_segments ss
      else (case percent_decode s of
              None \<Rightarrow> Inl ''permission wait effect path has an invalid percent escape''
            | Some decoded \<Rightarrow>
                if \<not> utf8_ValidString decoded \<or> has_control decoded
                then Inl ''permission wait effect path segment is invalid UTF-8''
                else and_then (normalize_segments ss) (\<lambda>rest. Inr (decoded # rest))))"

definition NormalizePermissionWaitPath :: "string \<Rightarrow> string list result" where
  "NormalizePermissionWaitPath path = normalize_segments (strings_Split path CHR ''/'')"

definition PermissionWaitEffect_Validate :: "PermissionWaitEffect \<Rightarrow> check" where
  "PermissionWaitEffect_Validate e =
     first_error
       [wrap ''permission wait effect scheme'' (PolicyProtocolIdentity_Validate (base_identity (pwe_Scheme e) ''http'')),
        reject (\<not> validNormalizedPolicyHost (pwe_Host e) \<or> pwe_Host e = HostLoopbackHostname)
          ''permission wait effect host is invalid'',
        reject (pwe_Port e < 1 \<or> 65535 < pwe_Port e) ''permission wait effect port is invalid'',
        reject (\<not> httpMethodPattern (pwe_Method e)) ''permission wait effect method is invalid'',
        wrap ''permission wait effect path'' (validatePolicyPath (pwe_Path e)),
        (case NormalizePermissionWaitPath (pwe_Path e) of
           Inl err \<Rightarrow> Some err
         | Inr segments \<Rightarrow> reject (pwe_Segments e \<noteq> Some segments) ''permission wait effect segments do not match the path'')]"

record PermissionWaitRecord =
  pwr_SchemaVersion :: int
  pwr_ID :: string
  pwr_DenialCorrelationID :: string
  pwr_FrozenPrincipalFingerprint :: string
  pwr_WorkspaceManifestID :: string
  pwr_WorkspaceID :: string
  pwr_AttachmentID :: string
  pwr_Effect :: PermissionWaitEffect
  pwr_CreatedAt :: string
  pwr_ExpiresAt :: string

definition wait_lease_check :: "PermissionWaitRecord \<Rightarrow> check" where
  "wait_lease_check r =
     (case time_Parse (pwr_CreatedAt r) of
        None \<Rightarrow> Some ''permission wait creation time is invalid''
      | Some created \<Rightarrow>
          (case time_Parse (pwr_ExpiresAt r) of
             None \<Rightarrow> Some ''permission wait expiry time is invalid''
           | Some expires \<Rightarrow> reject (\<not> created < expires \<or> PermissionWaitLease < expires - created)
               ''permission wait lease is invalid''))"

definition PermissionWaitRecord_Validate :: "PermissionWaitRecord \<Rightarrow> check" where
  "PermissionWaitRecord_Validate r =
     first_error
       [reject (pwr_SchemaVersion r \<noteq> 2) ''permission wait record schema version is invalid'',
        ValidatePermissionWaitID (pwr_ID r),
        reject (\<not> requestIDPattern (pwr_DenialCorrelationID r)) ''permission wait denial correlation is invalid'',
        reject (\<not> permissionWaitPrincipalPattern (pwr_FrozenPrincipalFingerprint r))
          ''permission wait principal fingerprint is invalid'',
        instead ''permission wait Workspace Manifest ID is invalid'' (ValidateWorkspaceManifestID (pwr_WorkspaceManifestID r)),
        instead ''permission wait Workspace ID is invalid'' (ValidateWorkspaceID (pwr_WorkspaceID r)),
        instead ''permission wait attachment ID is invalid'' (ValidateAttachmentEpochID (pwr_AttachmentID r)),
        PermissionWaitEffect_Validate (pwr_Effect r),
        wait_lease_check r]"

definition Expired :: "PermissionWaitRecord \<Rightarrow> int \<Rightarrow> bool result" where
  "Expired r now = checked (PermissionWaitRecord_Validate r) (\<not> now < parsed (pwr_ExpiresAt r))"

section \<open>Lemmas\<close>

lemma session_lease_None:
  "session_lease_check s = None \<longleftrightarrow>
     (\<exists>c i e. time_Parse (ias_CreatedAt s) = Some c \<and> time_Parse (ias_LeaseIssuedAt s) = Some i \<and>
        time_Parse (ias_ExpiresAt s) = Some e \<and> c \<le> i \<and> i < e \<and> e \<le> i + PermissionSessionLease)"
  by (auto simp: session_lease_check_def check_simps not_less split: option.splits if_splits)

lemma wait_lease_None:
  "wait_lease_check r = None \<longleftrightarrow>
     (\<exists>c e. time_Parse (pwr_CreatedAt r) = Some c \<and> time_Parse (pwr_ExpiresAt r) = Some e \<and> c < e \<and> e \<le> c + PermissionWaitLease)"
  by (auto simp: wait_lease_check_def check_simps not_less split: option.splits if_splits)

lemma session_valid_lease:
  assumes "InteractiveAttachmentSession_Validate s = None"
  shows "parsed (ias_CreatedAt s) \<le> parsed (ias_LeaseIssuedAt s) \<and> parsed (ias_LeaseIssuedAt s) < parsed (ias_ExpiresAt s) \<and>
    parsed (ias_ExpiresAt s) \<le> parsed (ias_LeaseIssuedAt s) + PermissionSessionLease"
proof -
  have "session_lease_check s = None" using assms unfolding InteractiveAttachmentSession_Validate_def check_simps by blast
  then show ?thesis unfolding session_lease_None by (auto simp: parsed_def)
qed

lemma wait_valid_lease:
  assumes "PermissionWaitRecord_Validate r = None"
  shows "parsed (pwr_CreatedAt r) < parsed (pwr_ExpiresAt r) \<and>
    parsed (pwr_ExpiresAt r) \<le> parsed (pwr_CreatedAt r) + PermissionWaitLease"
proof -
  have "wait_lease_check r = None" using assms unfolding PermissionWaitRecord_Validate_def check_simps by blast
  then show ?thesis unfolding wait_lease_None by (auto simp: parsed_def)
qed

lemma renewal_None:
  "ValidateRenewal s p = None \<longleftrightarrow>
     InteractiveAttachmentSession_Validate p = None \<and> InteractiveAttachmentSession_Validate s = None \<and> SameAuthority s p \<and>
     parsed (ias_LeaseIssuedAt p) < parsed (ias_LeaseIssuedAt s)"
  unfolding ValidateRenewal_def check_simps by auto

lemma SameAuthority_trans: "SameAuthority a b \<Longrightarrow> SameAuthority b c \<Longrightarrow> SameAuthority a c"
  by (simp add: SameAuthority_def)

lemma session_rows_None:
  "session_rows P E D N ss = None \<longleftrightarrow>
     (\<forall>s \<in> set ss. InteractiveAttachmentSession_Validate s = None) \<and>
     distinct (map session_pair ss) \<and> session_pair ` set ss \<inter> P = {} \<and>
     distinct (map ias_AttachmentID ss) \<and> ias_AttachmentID ` set ss \<inter> E = {} \<and>
     distinct (map session_endpoint ss) \<and> session_endpoint ` set ss \<inter> D = {} \<and>
     distinct (map ias_IngestionNonce ss) \<and> ias_IngestionNonce ` set ss \<inter> N = {}"
proof (induction ss arbitrary: P E D N)
  case (Cons s ss)
  show ?case
    by (simp only: session_rows.simps check_simps Cons.IH first_error.simps(1)) auto
qed simp

lemma hex_value_digit: "n < 16 \<Longrightarrow> hex_value (hex_digit n) = Some n"
  by (auto simp: hex_value_def hex_digit_def is_digit_def byte_def)

lemma percent_decode_escape:
  assumes "n < 256"
  shows "percent_decode (CHR ''%'' # hex_EncodeToString [n] @ s) = map_option ((#) (char_of n)) (percent_decode s)"
proof -
  have "n div 16 < 16" "n mod 16 < 16" "16 * (n div 16) + n mod 16 = n" using assms by auto
  then show ?thesis by (simp add: hex_EncodeToString_def hex_value_digit)
qed

text \<open>An encoder for the round trip: every byte of a segment is escaped.\<close>

definition percent_encode :: "string \<Rightarrow> string" where
  "percent_encode s = concat (map (\<lambda>c. CHR ''%'' # hex_EncodeToString [byte c]) s)"

lemma percent_round_trip: "percent_decode (percent_encode s) = Some s"
proof (induction s)
  case (Cons c s)
  have "byte c < 256" "char_of (byte c) = c" by (simp_all add: byte_def)
  then show ?case
    using Cons percent_decode_escape[of "byte c" "percent_encode s"] by (simp add: percent_encode_def)
qed (simp add: percent_encode_def)

lemma percent_encode_no_slash: "CHR ''/'' \<notin> set (percent_encode s)"
proof -
  have "c \<noteq> CHR ''/''" if "is_hex c" for c using that by (auto simp: is_hex_def is_digit_def byte_def)
  moreover have "list_all is_hex (hex_EncodeToString [byte c])" for c
    using hex_EncodeToString_hex[of "[byte c]"] by (simp add: hex_string_def byte_def)
  ultimately have "CHR ''/'' \<notin> set (hex_EncodeToString [byte c])" for c by (auto simp: list_all_iff)
  then show ?thesis by (auto simp: percent_encode_def)
qed

lemma percent_encode_nonempty: "s \<noteq> [] \<Longrightarrow> percent_encode s \<noteq> []"
  by (cases s) (simp_all add: percent_encode_def)

definition wait_segment :: "string \<Rightarrow> bool" where
  "wait_segment s \<longleftrightarrow> s \<noteq> [] \<and> utf8_ValidString s \<and> \<not> has_control s"

lemma normalize_encoded:
  "\<forall>s \<in> set ss. wait_segment s \<Longrightarrow> normalize_segments (map percent_encode ss) = Inr ss"
  by (induction ss) (auto simp: wait_segment_def percent_encode_nonempty percent_round_trip and_then_def)

lemma percent_decode_nonempty: "percent_decode s = Some t \<Longrightarrow> s \<noteq> [] \<Longrightarrow> t \<noteq> []"
  by (cases s) (auto split: if_splits list.splits option.splits)

lemma normalized_segments_ok: "normalize_segments xs = Inr ss \<Longrightarrow> \<forall>s \<in> set ss. wait_segment s"
  by (induction xs arbitrary: ss)
    (auto simp: check_simps wait_segment_def dest: percent_decode_nonempty split: if_splits option.splits)

section \<open>Properties\<close>

text \<open>C35: The path segments a wait is bound to are exactly the decoded segments: every accepted path yields non-empty,
  valid UTF-8 segments without control characters, and every list of such segments is the normalization of
  its percent-encoded path, so decoding loses nothing, whatever bytes (also a slash) a segment holds.\<close>

theorem wait_path_roundtrip:
  "(NormalizePermissionWaitPath path = Inr ss \<longrightarrow> list_all wait_segment ss) \<and>
   (list_all wait_segment ss \<longrightarrow>
      NormalizePermissionWaitPath (CHR ''/'' # strings_Join (map percent_encode ss) ''/'') = Inr ss)"
proof (intro conjI impI)
  show "list_all wait_segment ss" if "NormalizePermissionWaitPath path = Inr ss"
    using normalized_segments_ok that by (auto simp: NormalizePermissionWaitPath_def list_all_iff)
  assume "list_all wait_segment ss"
  then have n: "normalize_segments (map percent_encode ss) = Inr ss" by (simp add: list_all_iff normalize_encoded)
  show "NormalizePermissionWaitPath (CHR ''/'' # strings_Join (map percent_encode ss) ''/'') = Inr ss"
  proof (cases "ss = []")
    case False
    then have "strings_Split (strings_Join (map percent_encode ss) ''/'') CHR ''/'' = map percent_encode ss"
      by (intro Split_Join) (auto simp: percent_encode_no_slash)
    with n show ?thesis by (simp add: NormalizePermissionWaitPath_def)
  qed (simp add: NormalizePermissionWaitPath_def)
qed

theorem wait_path_roundtrip_witness:
  "NormalizePermissionWaitPath ''/a/%2f'' = Inr [''a'', ''/''] \<and>
   NormalizePermissionWaitPath (CHR ''/'' # strings_Join (map percent_encode [''a'', ''/'']) ''/'') = Inr [''a'', ''/'']"
proof -
  have "NormalizePermissionWaitPath ''/a/%2f'' = Inr [''a'', ''/'']" by code_simp
  with wait_path_roundtrip[of "''/a/%2f''" "[''a'', ''/'']"] show ?thesis by blast
qed

text \<open>Along any sequence of accepted renewals the owner of an attachment stays the same in every stable field, the
  lease issue time strictly advances, and no lease reaches more than thirty seconds beyond its issue time.\<close>

theorem renewals_keep_the_owner:
  assumes "successively (\<lambda>p s. ValidateRenewal s p = None) (s # ss)" "t \<in> set ss"
  shows "SameAuthority t s \<and> sorted_wrt (<) (map (\<lambda>x. parsed (ias_LeaseIssuedAt x)) (s # ss)) \<and>
    parsed (ias_LeaseIssuedAt t) < parsed (ias_ExpiresAt t) \<and>
    parsed (ias_ExpiresAt t) \<le> parsed (ias_LeaseIssuedAt t) + PermissionSessionLease"
proof -
  define R where "R = (\<lambda>p s. InteractiveAttachmentSession_Validate s = None \<and> SameAuthority s p \<and>
      parsed (ias_LeaseIssuedAt p) < parsed (ias_LeaseIssuedAt s))"
  have "transp R" by (rule transpI) (auto simp: R_def dest: SameAuthority_trans)
  moreover have "successively R (s # ss)"
    using assms(1) by (rule successively_mono) (auto simp: R_def renewal_None)
  ultimately have w: "sorted_wrt R (s # ss)" by (simp add: successively_conv_sorted_wrt)
  then have "sorted_wrt (\<lambda>x y. parsed (ias_LeaseIssuedAt x) < parsed (ias_LeaseIssuedAt y)) (s # ss)"
    by (rule sorted_wrt_mono_rel[rotated]) (simp add: R_def)
  moreover have "R s t" using w assms(2) by simp
  ultimately show ?thesis using session_valid_lease[of t] by (auto simp: R_def sorted_wrt_map)
qed

definition example_session :: "string \<Rightarrow> string \<Rightarrow> InteractiveAttachmentSession" where
  "example_session issued expires =
     \<lparr> ias_SchemaVersion = 2, ias_WorkspaceManifestID = ''0190a1b2-c3d4-7e5f-8a9b-0c1d2e3f4a5b'',
       ias_WorkspaceID = ''0190a1b2-c3d4-7e5f-8a9b-0c1d2e3f4a5c'', ias_AttachmentID = ''att_0123456789abcdef0123456789abcdef'',
       ias_OwnerKind = ''interactive_workspace'',
       ias_FrozenPrincipalFingerprint = ''0123456789abcdef0123456789abcdef0123456789abcdef0123456789abcdef'',
       ias_OwnerPID = 7, ias_IngestionTransport = ''loopback_tcp'', ias_IngestionEndpoint = ''127.0.0.1:4000'',
       ias_IngestionNonce = ''1123456789abcdef0123456789abcdef0123456789abcdef0123456789abcdef'',
       ias_CreatedAt = ''2024-05-06T07:08:09Z'', ias_LeaseIssuedAt = issued, ias_ExpiresAt = expires \<rparr>"

theorem renewals_keep_the_owner_witness:
  "SameAuthority (example_session ''2024-05-06T07:08:20Z'' ''2024-05-06T07:08:50Z'')
     (example_session ''2024-05-06T07:08:09Z'' ''2024-05-06T07:08:39Z'') \<and>
   parsed ''2024-05-06T07:08:50Z'' \<le> parsed ''2024-05-06T07:08:20Z'' + PermissionSessionLease"
proof -
  have "successively (\<lambda>p s. ValidateRenewal s p = None)
     [example_session ''2024-05-06T07:08:09Z'' ''2024-05-06T07:08:39Z'', example_session ''2024-05-06T07:08:20Z'' ''2024-05-06T07:08:50Z'']"
    by code_simp
  from renewals_keep_the_owner[OF this, of "example_session ''2024-05-06T07:08:20Z'' ''2024-05-06T07:08:50Z''"]
  show ?thesis by (simp add: example_session_def)
qed

end
