(* ===== verification/Wait_Registry.thy ===== *)
theory Wait_Registry
  imports Permission_Wait "HOL-Library.AList" "HOL-Library.Multiset"
begin

text \<open>
  The attachment-owned registry of permission waits (\<open>internal/infra/dockerruntime/permission_wait_registry.go\<close>).
  Every method that takes the mutex is one function on the registry; the clock is an argument. A call of
  \<open>WaitPermission\<close> runs \<open>begin\<close>, then rounds of checks, observation and waiting, then the deferred \<open>finish\<close>;
  between these it releases the mutex, so other calls interleave. The interleavings are the step relation
  \<open>registry_step\<close>, whose state carries the multiset of calls that have begun and not finished. The Go map of
  records is an association list; a fault is its code. \<open>invalidateOnce\<close> makes closing the channel idempotent.
\<close>

section \<open>The registry\<close>

record permissionWaitEntry =
  ent_record :: PermissionWaitRecord
  ent_access :: PermissionWaitAccessState

record permissionWaitRegistry =
  reg_session :: InteractiveAttachmentSession
  reg_records :: "(string \<times> permissionWaitEntry) list"
  reg_ownerExpiry :: int
  reg_unavailable :: bool

definition newPermissionWaitRegistry :: "InteractiveAttachmentSession \<Rightarrow> 'o option \<Rightarrow> permissionWaitRegistry result" where
  "newPermissionWaitRegistry session observer =
     checked
       (first_error
          [InteractiveAttachmentSession_Validate session,
           reject (observer = None) ''permission disposition observer is required''])
       \<lparr> reg_session = session, reg_records = [], reg_ownerExpiry = parsed (ias_ExpiresAt session), reg_unavailable = False \<rparr>"

definition Invalidate :: "permissionWaitRegistry \<Rightarrow> permissionWaitRegistry" where
  "Invalidate r = r\<lparr> reg_unavailable := True \<rparr>"

definition RenewOwner :: "permissionWaitRegistry \<Rightarrow> int \<Rightarrow> int \<Rightarrow> permissionWaitRegistry result" where
  "RenewOwner r issued expires =
     checked
       (first_error
          [reject (reg_unavailable r) ''permission wait owner is unavailable'',
           reject (\<not> issued < expires \<or> PermissionSessionLease < expires - issued) ''permission wait owner lease is invalid''])
       (r\<lparr> reg_ownerExpiry := expires \<rparr>)"

definition ownerCurrentLocked :: "permissionWaitRegistry \<Rightarrow> int \<Rightarrow> bool" where
  "ownerCurrentLocked r now = (\<not> reg_unavailable r \<and> now < reg_ownerExpiry r)"

abbreviation permissionWaitOwnerFault :: error where "permissionWaitOwnerFault \<equiv> ''permission_wait_owner_unavailable''"
abbreviation invalidPermissionWaitFault :: error where "invalidPermissionWaitFault \<equiv> ''invalid_permission_wait''"

definition belongs :: "InteractiveAttachmentSession \<Rightarrow> PermissionWaitRecord \<Rightarrow> bool" where
  "belongs session record =
     (\<not> (pwr_WorkspaceManifestID record \<noteq> ias_WorkspaceManifestID session \<or> pwr_WorkspaceID record \<noteq> ias_WorkspaceID session
         \<or> pwr_AttachmentID record \<noteq> ias_AttachmentID session
         \<or> pwr_FrozenPrincipalFingerprint record \<noteq> ias_FrozenPrincipalFingerprint session))"

text \<open>Expired entries without an active attempt are dropped before the capacity is checked, also when \<open>Register\<close> then fails.\<close>

definition evict :: "int \<Rightarrow> permissionWaitRegistry \<Rightarrow> permissionWaitRegistry" where
  "evict now r =
     r\<lparr> reg_records := filter (\<lambda>(k, e). \<not> (\<not> now < parsed (pwr_ExpiresAt (ent_record e)) \<and> \<not> pwa_Active (ent_access e)))
          (reg_records r) \<rparr>"

definition Register :: "permissionWaitRegistry \<Rightarrow> PermissionWaitRecord \<Rightarrow> int \<Rightarrow> permissionWaitRegistry \<times> check" where
  "Register r record now =
     (case first_error
        [PermissionWaitRecord_Validate record,
         reject (\<not> belongs (reg_session r) record) ''permission wait record does not belong to the attachment owner'',
         reject (now + 5 * 1000000000 < parsed (pwr_CreatedAt record) \<or> \<not> now < parsed (pwr_ExpiresAt record))
           ''permission wait record lease is not current'',
         reject (\<not> ownerCurrentLocked r now) permissionWaitOwnerFault] of
        Some e \<Rightarrow> (r, Some e)
      | None \<Rightarrow>
          (let kept = evict now r in
           if PermissionWaitMaxLive \<le> length (reg_records kept) then (kept, Some ''permission wait attachment capacity is exhausted'')
           else if map_of (reg_records kept) (pwr_ID record) \<noteq> None then (kept, Some ''permission wait record already exists'')
           else (kept\<lparr> reg_records := AList.update (pwr_ID record)
                   \<lparr> ent_record = record, ent_access = \<lparr> pwa_Attempts = 0, pwa_Active = False, pwa_Consumed = False \<rparr> \<rparr>
                   (reg_records kept) \<rparr>, None)))"

definition begin_wait :: "permissionWaitRegistry \<Rightarrow> string \<Rightarrow> int \<Rightarrow> permissionWaitRegistry \<times> PermissionWaitRecord result" where
  "begin_wait r ident now =
     (if \<not> ownerCurrentLocked r now then (r, Inl permissionWaitOwnerFault)
      else (case map_of (reg_records r) ident of
              None \<Rightarrow> (r, Inl invalidPermissionWaitFault)
            | Some entry \<Rightarrow>
                (case StartAttempt (ent_access entry) of
                   Inl _ \<Rightarrow> (r, Inl invalidPermissionWaitFault)
                 | Inr state \<Rightarrow>
                     (r\<lparr> reg_records := AList.update ident (entry\<lparr> ent_access := state \<rparr>) (reg_records r) \<rparr>, Inr (ent_record entry)))))"

definition finish_wait :: "permissionWaitRegistry \<Rightarrow> string \<Rightarrow> bool \<Rightarrow> permissionWaitRegistry" where
  "finish_wait r ident terminal =
     (case map_of (reg_records r) ident of
        None \<Rightarrow> r
      | Some entry \<Rightarrow>
          (case FinishAttempt (ent_access entry) terminal of
             Inl _ \<Rightarrow> r\<lparr> reg_records := AList.delete ident (reg_records r) \<rparr>
           | Inr state \<Rightarrow>
               (let updated = AList.update ident (entry\<lparr> ent_access := state \<rparr>) (reg_records r)
                in r\<lparr> reg_records := (if terminal then AList.delete ident updated else updated) \<rparr>)))"

definition fenceTerminal :: "permissionWaitRegistry \<Rightarrow> PermissionWaitRecord \<Rightarrow> int \<Rightarrow> bool result" where
  "fenceTerminal r record now =
     (if \<not> ownerCurrentLocked r now then Inl permissionWaitOwnerFault
      else (case Expired record now of Inl _ \<Rightarrow> Inl ''invalid_permission_wait_record'' | Inr expired \<Rightarrow> Inr expired))"

section \<open>The rounds of a wait\<close>

text \<open>
  What one round reads from its environment: the registry and the clock at each of its checks, the answer of the
  disposition observer, whether the owner channel is closed before waiting, and how waiting for a given delay ends.
\<close>

datatype observation = ObservationFailed | Observed string bool
datatype wait_outcome = Elapsed | OwnerUnavailable | Interrupted

record wait_round =
  rnd_owner :: permissionWaitRegistry
  rnd_owner_now :: int
  rnd_now :: int
  rnd_observation :: observation
  rnd_fence :: permissionWaitRegistry
  rnd_fence_now :: int
  rnd_unavailable :: bool
  rnd_wait :: "int \<Rightarrow> wait_outcome"

definition delay :: "nat \<Rightarrow> int" where
  "delay attempt = (if attempt < 3 then [1, 2, 4] ! attempt else 5) * 1000000000"

text \<open>The result of the loop with the value of \<open>terminal\<close> when it returns; \<^term>\<open>None\<close> while it is still waiting.\<close>

fun wait_rounds :: "PermissionWaitRecord \<Rightarrow> nat \<Rightarrow> wait_round list \<Rightarrow> (string result \<times> bool) option" where
  "wait_rounds record attempt [] = None"
| "wait_rounds record attempt (x # xs) =
     (if \<not> ownerCurrentLocked (rnd_owner x) (rnd_owner_now x) then Some (Inl permissionWaitOwnerFault, False)
      else (case Expired record (rnd_now x) of
        Inl _ \<Rightarrow> Some (Inl ''invalid_permission_wait_record'', False)
      | Inr True \<Rightarrow> Some (Inr ''expired'', True)
      | Inr False \<Rightarrow>
          (case rnd_observation x of
             ObservationFailed \<Rightarrow> Some (Inl ''permission_wait_unavailable'', False)
           | Observed observed finished \<Rightarrow>
               (case fenceTerminal (rnd_fence x) record (rnd_fence_now x) of
                  Inl e \<Rightarrow> Some (Inl e, False)
                | Inr True \<Rightarrow> Some (Inr ''expired'', True)
                | Inr False \<Rightarrow>
                    if finished then
                      (if PermissionWaitResult_Validate observed \<noteq> None then Some (Inl ''invalid_permission_wait_result'', False)
                       else Some (Inr observed, True))
                    else if rnd_unavailable x then Some (Inl permissionWaitOwnerFault, False)
                    else (case rnd_wait x (delay attempt) of
                            OwnerUnavailable \<Rightarrow> Some (Inl permissionWaitOwnerFault, False)
                          | Interrupted \<Rightarrow> Some (Inl ''permission_wait_interrupted'', False)
                          | Elapsed \<Rightarrow> wait_rounds record (attempt + 1) xs)))))"

text \<open>A whole call: \<open>ending\<close> is the registry that the deferred \<open>finish\<close> finds.\<close>

definition WaitPermission ::
    "permissionWaitRegistry \<Rightarrow> string \<Rightarrow> int \<Rightarrow> wait_round list \<Rightarrow> permissionWaitRegistry
     \<Rightarrow> permissionWaitRegistry \<times> string result option" where
  "WaitPermission r ident now rounds ending =
     (case begin_wait r ident now of
        (r', Inl e) \<Rightarrow> (r', Some (Inl e))
      | (r', Inr record) \<Rightarrow>
          (case wait_rounds record 0 rounds of
             None \<Rightarrow> (r', None)
           | Some (returned, terminal) \<Rightarrow> (finish_wait ending ident terminal, Some returned)))"

section \<open>Interleavings\<close>

type_synonym wait_system = "permissionWaitRegistry \<times> string multiset"

inductive registry_step :: "wait_system \<Rightarrow> wait_system \<Rightarrow> bool" where
  register: "Register r record now = (r', e) \<Longrightarrow> registry_step (r, W) (r', W)"
| begins: "begin_wait r ident now = (r', Inr record) \<Longrightarrow> registry_step (r, W) (r', add_mset ident W)"
| refused: "begin_wait r ident now = (r', Inl e) \<Longrightarrow> registry_step (r, W) (r', W)"
| finishes: "ident \<in># W \<Longrightarrow> registry_step (r, W) (finish_wait r ident terminal, W - {#ident#})"
| renews: "RenewOwner r issued expires = Inr r' \<Longrightarrow> registry_step (r, W) (r', W)"
| invalidates: "registry_step (r, W) (Invalidate r, W)"

inductive_cases registry_stepE: "registry_step x y"

inductive registry_reachable :: "InteractiveAttachmentSession \<Rightarrow> wait_system \<Rightarrow> bool" for session where
  start: "newPermissionWaitRegistry session (Some ()) = Inr r \<Longrightarrow> registry_reachable session (r, {#})"
| step: "registry_reachable session x \<Longrightarrow> registry_step x y \<Longrightarrow> registry_reachable session y"

section \<open>The invariant\<close>

definition entry_ok :: "InteractiveAttachmentSession \<Rightarrow> string \<Rightarrow> permissionWaitEntry \<Rightarrow> bool" where
  "entry_ok session k e \<longleftrightarrow>
     pwr_ID (ent_record e) = k \<and> PermissionWaitRecord_Validate (ent_record e) = None \<and> belongs session (ent_record e) \<and>
     0 \<le> pwa_Attempts (ent_access e) \<and> pwa_Attempts (ent_access e) \<le> PermissionWaitMaxAttempts \<and>
     \<not> pwa_Consumed (ent_access e)"

definition active :: "permissionWaitRegistry \<Rightarrow> string \<Rightarrow> bool" where
  "active r k = (case map_of (reg_records r) k of None \<Rightarrow> False | Some e \<Rightarrow> pwa_Active (ent_access e))"

definition registry_ok :: "InteractiveAttachmentSession \<Rightarrow> wait_system \<Rightarrow> bool" where
  "registry_ok session x \<longleftrightarrow>
     reg_session (fst x) = session \<and> distinct (map fst (reg_records (fst x))) \<and>
     length (reg_records (fst x)) \<le> PermissionWaitMaxLive \<and>
     (\<forall>k e. map_of (reg_records (fst x)) k = Some e \<longrightarrow> entry_ok session k e) \<and>
     (\<forall>k. count (snd x) k = (if active (fst x) k then 1 else 0))"

lemma active_iff: "active r k \<longleftrightarrow> (\<exists>e. map_of (reg_records r) k = Some e \<and> pwa_Active (ent_access e))"
  by (simp add: active_def split: option.splits)

declare map_of_eq_Some_iff [simp del]

lemma map_of_update: "map_of (AList.update k v al) = (map_of al)(k \<mapsto> v)"
  by (simp add: update_conv')

lemma map_of_delete: "map_of (AList.delete k al) = (map_of al)(k := None)"
  by (simp add: delete_conv')

lemma length_update_present: "map_of al k = Some w \<Longrightarrow> length (AList.update k v al) = length al"
  by (induction al) (auto split: if_splits)

lemma length_update_absent: "map_of al k = None \<Longrightarrow> length (AList.update k v al) = Suc (length al)"
  by (induction al) (auto split: if_splits)

lemma evict_ok:
  assumes "registry_ok session (r, W)"
  shows "registry_ok session (evict now r, W)"
proof -
  let ?P = "\<lambda>(k, e). \<not> (\<not> now < parsed (pwr_ExpiresAt (ent_record e)) \<and> \<not> pwa_Active (ent_access e))"
  have d: "distinct (map fst (reg_records r))" using assms by (simp add: registry_ok_def)
  have m: "map_of (filter ?P (reg_records r)) k = Some e \<longleftrightarrow> map_of (reg_records r) k = Some e \<and> ?P (k, e)" for k e
    using d by (auto simp: map_of_eq_Some_iff distinct_map_filter)
  then have "active (evict now r) k = active r k" for k
    unfolding active_iff evict_def by auto
  moreover have "length (reg_records (evict now r)) \<le> PermissionWaitMaxLive"
    using assms by (auto simp: registry_ok_def evict_def intro: order_trans[OF length_filter_le])
  ultimately show ?thesis
    using assms m d by (auto simp: registry_ok_def evict_def distinct_map_filter)
qed

lemma register_ok:
  assumes ok: "registry_ok session (r, W)" and run: "Register r record now = (r', e)"
  shows "registry_ok session (r', W)"
proof (cases "e = None")
  case False
  then have "r' = r \<or> r' = evict now r"
    using run by (auto simp: Register_def Let_def split: option.splits if_splits)
  then show ?thesis using ok evict_ok by blast
next
  case True
  let ?kept = "evict now r"
  let ?entry = "\<lparr> ent_record = record, ent_access = \<lparr> pwa_Attempts = 0, pwa_Active = False, pwa_Consumed = False \<rparr> \<rparr>"
  from run True have v: "PermissionWaitRecord_Validate record = None" "belongs (reg_session r) record"
    and len: "length (reg_records ?kept) < PermissionWaitMaxLive" and absent: "map_of (reg_records ?kept) (pwr_ID record) = None"
    and r': "r' = ?kept\<lparr> reg_records := AList.update (pwr_ID record) ?entry (reg_records ?kept) \<rparr>"
    by (auto simp: Register_def Let_def check_simps split: option.splits if_splits)
  have kept: "registry_ok session (?kept, W)" by (rule evict_ok[OF ok])
  have "entry_ok session (pwr_ID record) ?entry"
    using v ok by (simp add: entry_ok_def registry_ok_def PermissionWaitMaxAttempts_def)
  moreover have "active r' k = active ?kept k" for k using absent by (simp add: active_def r' map_of_update)
  ultimately show ?thesis
    using kept len length_update_absent[OF absent]
    by (auto simp: registry_ok_def r' map_of_update distinct_update split: if_splits)
qed

lemma StartAttempt_Inr:
  "StartAttempt a = Inr b \<longleftrightarrow>
     0 \<le> pwa_Attempts a \<and> pwa_Attempts a < PermissionWaitMaxAttempts \<and> \<not> pwa_Active a \<and> \<not> pwa_Consumed a \<and>
     b = a\<lparr> pwa_Attempts := pwa_Attempts a + 1, pwa_Active := True \<rparr>"
  by (auto simp: StartAttempt_def PermissionWaitAccessState_Validate_def check_simps)

lemma FinishAttempt_Inr:
  "FinishAttempt a t = Inr b \<longleftrightarrow>
     0 \<le> pwa_Attempts a \<and> pwa_Attempts a \<le> PermissionWaitMaxAttempts \<and> pwa_Active a \<and> \<not> pwa_Consumed a \<and>
     b = a\<lparr> pwa_Active := False, pwa_Consumed := t \<rparr>"
  by (auto simp: FinishAttempt_def PermissionWaitAccessState_Validate_def check_simps)

lemma begin_Inr:
  assumes "begin_wait r k now = (r', Inr record)"
  obtains e b where "map_of (reg_records r) k = Some e" "StartAttempt (ent_access e) = Inr b" "record = ent_record e"
    "r' = r\<lparr> reg_records := AList.update k (e\<lparr> ent_access := b \<rparr>) (reg_records r) \<rparr>" "ownerCurrentLocked r now"
  using assms by (auto simp: begin_wait_def split: if_splits option.splits sum.splits)

lemma begin_Inl: "begin_wait r k now = (r', Inl e) \<Longrightarrow> r' = r"
  by (auto simp: begin_wait_def split: if_splits option.splits sum.splits)

lemma begin_ok:
  assumes ok: "registry_ok session (r, W)" and run: "begin_wait r k now = (r', Inr record)"
  shows "registry_ok session (r', add_mset k W)"
  using run
proof (cases rule: begin_Inr)
  case (1 e b)
  then have b: "\<not> pwa_Active (ent_access e)" "\<not> pwa_Consumed (ent_access e)" "pwa_Attempts (ent_access e) < PermissionWaitMaxAttempts"
      "b = (ent_access e)\<lparr> pwa_Attempts := pwa_Attempts (ent_access e) + 1, pwa_Active := True \<rparr>"
    by (simp_all add: StartAttempt_Inr)
  have "entry_ok session k e" using ok 1(1) by (simp add: registry_ok_def)
  then have "entry_ok session k (e\<lparr> ent_access := b \<rparr>)" using b by (simp add: entry_ok_def)
  moreover have "active r' j = (j = k \<or> active r j)" for j using b by (simp add: active_def 1(4) map_of_update)
  moreover have "\<not> active r k" using b 1(1) by (simp add: active_def)
  ultimately show ?thesis
    using ok length_update_present[OF 1(1)]
    by (auto simp: registry_ok_def 1(4) map_of_update distinct_update)
qed

lemma finish_cases:
  assumes ok: "registry_ok session (r, W)" and w: "k \<in># W"
  obtains e where "map_of (reg_records r) k = Some e" "pwa_Active (ent_access e)"
    "FinishAttempt (ent_access e) t = Inr ((ent_access e)\<lparr> pwa_Active := False, pwa_Consumed := t \<rparr>)"
proof -
  have "active r k" using ok w by (auto simp: registry_ok_def count_greater_zero_iff[symmetric] simp del: count_greater_zero_iff split: if_splits)
  then obtain e where e: "map_of (reg_records r) k = Some e" "pwa_Active (ent_access e)" by (auto simp: active_def split: option.splits)
  then have "entry_ok session k e" using ok by (simp add: registry_ok_def)
  with e that show thesis by (simp add: entry_ok_def FinishAttempt_Inr)
qed

lemma finish_ok:
  assumes ok: "registry_ok session (r, W)" and w: "k \<in># W"
  shows "registry_ok session (finish_wait r k t, W - {#k#})"
proof -
  obtain e where e: "map_of (reg_records r) k = Some e" "pwa_Active (ent_access e)"
    "FinishAttempt (ent_access e) t = Inr ((ent_access e)\<lparr> pwa_Active := False, pwa_Consumed := t \<rparr>)"
    using finish_cases[OF ok w] .
  let ?e = "e\<lparr> ent_access := (ent_access e)\<lparr> pwa_Active := False, pwa_Consumed := t \<rparr> \<rparr>"
  let ?updated = "AList.update k ?e (reg_records r)"
  have f: "finish_wait r k t = r\<lparr> reg_records := if t then AList.delete k ?updated else ?updated \<rparr>"
    using e by (simp add: finish_wait_def)
  have "entry_ok session k e" using ok e by (simp add: registry_ok_def)
  then have "\<not> t \<Longrightarrow> entry_ok session k ?e" by (simp add: entry_ok_def)
  moreover have "active (finish_wait r k t) j = (j \<noteq> k \<and> active r j)" for j
    by (simp add: active_def f map_of_update map_of_delete)
  moreover have "count W k = 1" using ok e by (simp add: registry_ok_def active_def)
  moreover have "length (AList.delete k ?updated) \<le> length ?updated" by (rule length_delete_le)
  ultimately show ?thesis
    using ok length_update_present[OF e(1), of ?e]
    by (auto simp: registry_ok_def f map_of_update map_of_delete distinct_update distinct_delete split: if_splits)
qed

lemma step_ok: "registry_step x y \<Longrightarrow> registry_ok session x \<Longrightarrow> registry_ok session y"
proof (induction rule: registry_step.induct)
  case (register r wr now r' e W)
  then show ?case using register_ok by blast
next
  case (begins r ident now r' wr W)
  then show ?case using begin_ok by blast
next
  case (refused r ident now r' e W)
  then show ?case using begin_Inl by metis
next
  case (finishes ident W r terminal)
  then show ?case using finish_ok by blast
next
  case (renews r issued expires r' W)
  then show ?case by (auto simp: RenewOwner_def check_simps registry_ok_def active_def)
next
  case (invalidates r W)
  then show ?case by (simp add: registry_ok_def active_def Invalidate_def)
qed

lemma reachable_ok: "registry_reachable session x \<Longrightarrow> registry_ok session x"
proof (induction rule: registry_reachable.induct)
  case (start r)
  then show ?case by (auto simp: newPermissionWaitRegistry_def check_simps registry_ok_def active_def)
next
  case (step x y)
  then show ?case using step_ok by blast
qed

section \<open>Termination of the rounds\<close>

text \<open>Documented behaviour of the clock and the timer: the clock does not run backwards within a round, and a timer
  that elapsed has let its delay pass before the next round reads the clock.\<close>

definition timers_hold :: "(nat \<Rightarrow> wait_round) \<Rightarrow> bool" where
  "timers_hold rounds \<longleftrightarrow>
     (\<forall>i. rnd_now (rounds i) \<le> rnd_fence_now (rounds i) \<and> rnd_fence_now (rounds i) + delay i \<le> rnd_now (rounds (Suc i)))"

fun waited :: "nat \<Rightarrow> int" where
  "waited 0 = 0"
| "waited (Suc n) = waited n + delay n"

lemma waited_now: "timers_hold rounds \<Longrightarrow> rnd_now (rounds 0) + waited n \<le> rnd_now (rounds n)"
proof (induction n)
  case (Suc n)
  then show ?case unfolding timers_hold_def by (fastforce dest: spec[of _ n])
qed simp

lemma waited_long: "waited (n + 3) = (7 + 5 * int n) * 1000000000"
proof (induction n)
  case 0
  show ?case by code_simp
next
  case (Suc n)
  moreover have "waited (Suc n + 3) = waited (n + 3) + delay (n + 3)" using waited.simps(2)[of "n + 3"] by (simp only: add_Suc)
  ultimately show ?case by (simp only: delay_def) simp
qed

lemma expired_iff: "PermissionWaitRecord_Validate record = None \<Longrightarrow> Expired record now = Inr (parsed (pwr_ExpiresAt record) \<le> now)"
  by (simp add: Expired_def checked_def not_less)

lemma rounds_return:
  assumes "PermissionWaitRecord_Validate record = None" "parsed (pwr_ExpiresAt record) \<le> rnd_now (last xs)" "xs \<noteq> []"
  shows "wait_rounds record a xs \<noteq> None"
  using assms(2,3)
proof (induction xs arbitrary: a)
  case (Cons x xs)
  show ?case
  proof (cases "xs = []")
    case True
    with Cons.prems show ?thesis by (auto simp: expired_iff[OF assms(1)])
  next
    case False
    with Cons have "wait_rounds record (a + 1) xs \<noteq> None" by simp
    then show ?thesis by (auto split: sum.splits bool.splits observation.splits wait_outcome.splits)
  qed
qed simp

section \<open>Properties\<close>

section \<open>An example\<close>

definition example_record :: PermissionWaitRecord where
  "example_record =
     \<lparr> pwr_SchemaVersion = 2, pwr_ID = ''pwt_0123456789abcdef0123456789abcdef'',
       pwr_DenialCorrelationID = ''0123456789abcdef0123456789abcdef'',
       pwr_FrozenPrincipalFingerprint = ''0123456789abcdef0123456789abcdef0123456789abcdef0123456789abcdef'',
       pwr_WorkspaceManifestID = ''0190a1b2-c3d4-7e5f-8a9b-0c1d2e3f4a5b'', pwr_WorkspaceID = ''0190a1b2-c3d4-7e5f-8a9b-0c1d2e3f4a5c'',
       pwr_AttachmentID = ''att_0123456789abcdef0123456789abcdef'',
       pwr_Effect = \<lparr> pwe_Scheme = ''https'', pwe_Host = ''api.tobari.dev'', pwe_Port = 443, pwe_Method = ''GET'',
         pwe_Path = ''/v1/items'', pwe_Segments = Some [''v1'', ''items''] \<rparr>,
       pwr_CreatedAt = ''2024-05-06T07:08:10Z'', pwr_ExpiresAt = ''2024-05-06T07:20:00Z'' \<rparr>"

abbreviation "example_owner \<equiv> example_session ''2024-05-06T07:08:09Z'' ''2024-05-06T07:08:39Z''"

definition example_now :: int where "example_now = parsed ''2024-05-06T07:08:12Z''"

definition example_started :: permissionWaitRegistry where
  "example_started =
     \<lparr> reg_session = example_owner, reg_records = [], reg_ownerExpiry = parsed ''2024-05-06T07:08:39Z'', reg_unavailable = False \<rparr>"

definition example_round :: "observation \<Rightarrow> int \<Rightarrow> wait_round" where
  "example_round seen now =
     \<lparr> rnd_owner = example_started, rnd_owner_now = now, rnd_now = now, rnd_observation = seen, rnd_fence = example_started,
       rnd_fence_now = now, rnd_unavailable = False, rnd_wait = (\<lambda>_. Elapsed) \<rparr>"

lemma example_record_valid: "PermissionWaitRecord_Validate example_record = None"
  by code_simp

lemma example_reachable:
  obtains r where "registry_reachable example_owner (r, {#pwr_ID example_record#})"
    "map_option (pwa_Attempts \<circ> ent_access) (map_of (reg_records r) (pwr_ID example_record)) = Some 1"
proof -
  define r1 where "r1 = fst (Register example_started example_record example_now)"
  define r2 where "r2 = fst (begin_wait r1 (pwr_ID example_record) example_now)"
  have "newPermissionWaitRegistry example_owner (Some ()) = Inr example_started" by code_simp
  then have "registry_reachable example_owner (example_started, {#})" by (rule registry_reachable.start)
  moreover have "Register example_started example_record example_now = (r1, None)" unfolding r1_def by code_simp
  ultimately have "registry_reachable example_owner (r1, {#})"
    by (blast intro: registry_reachable.step registry_step.register)
  moreover have "begin_wait r1 (pwr_ID example_record) example_now = (r2, Inr example_record)"
    unfolding r2_def r1_def by code_simp
  ultimately have "registry_reachable example_owner (r2, {#pwr_ID example_record#})"
    by (rule registry_reachable.step[OF _ registry_step.begins])
  moreover have "map_option (pwa_Attempts \<circ> ent_access) (map_of (reg_records r2) (pwr_ID example_record)) = Some 1"
    unfolding r2_def r1_def by code_simp
  ultimately show thesis by (rule that)
qed

text \<open>C1: In every reachable interleaving of registrations, waits, renewals and invalidation the registry holds at most
  eight records, each under its own reference, valid and owned by the session; a record has one attempt in flight
  exactly when it is marked active and never more than one, its attempts never exceed three, and no consumed record
  stays. So finishing an attempt in flight always finds its record active.\<close>

theorem wait_registry_invariant:
  assumes "registry_reachable session (r, W)"
  shows "reg_session r = session \<and> distinct (map fst (reg_records r)) \<and> length (reg_records r) \<le> 8 \<and>
    (\<forall>(k, e) \<in> set (reg_records r). pwr_ID (ent_record e) = k \<and> PermissionWaitRecord_Validate (ent_record e) = None \<and>
       belongs session (ent_record e) \<and> 0 \<le> pwa_Attempts (ent_access e) \<and> pwa_Attempts (ent_access e) \<le> 3 \<and>
       \<not> pwa_Consumed (ent_access e) \<and> count W k = (if pwa_Active (ent_access e) then 1 else 0)) \<and>
    (\<forall>k \<in># W. \<forall>terminal. \<exists>e s. map_of (reg_records r) k = Some e \<and> FinishAttempt (ent_access e) terminal = Inr s)"
proof -
  have ok: "registry_ok session (r, W)" by (rule reachable_ok[OF assms])
  then have d: "distinct (map fst (reg_records r))" by (simp add: registry_ok_def)
  have e: "pwr_ID (ent_record e) = k \<and> PermissionWaitRecord_Validate (ent_record e) = None \<and>
       belongs session (ent_record e) \<and> 0 \<le> pwa_Attempts (ent_access e) \<and> pwa_Attempts (ent_access e) \<le> 3 \<and>
       \<not> pwa_Consumed (ent_access e) \<and> count W k = (if pwa_Active (ent_access e) then 1 else 0)"
    if "(k, e) \<in> set (reg_records r)" for k e
  proof -
    from that have m: "map_of (reg_records r) k = Some e" using d by (simp add: map_of_eq_Some_iff)
    then have "entry_ok session k e" using ok by (simp add: registry_ok_def)
    moreover have "active r k = pwa_Active (ent_access e)" using m by (simp add: active_def)
    ultimately show ?thesis using ok by (simp add: entry_ok_def registry_ok_def PermissionWaitMaxAttempts_def)
  qed
  have "\<exists>e s. map_of (reg_records r) k = Some e \<and> FinishAttempt (ent_access e) t = Inr s" if "k \<in># W" for k t
    using finish_cases[OF ok that] by metis
  with e ok show ?thesis by (auto simp: registry_ok_def PermissionWaitMaxLive_def)
qed

theorem wait_registry_invariant_witness:
  "\<exists>r. registry_reachable example_owner (r, {#pwr_ID example_record#}) \<and> length (reg_records r) \<le> 8 \<and>
     (\<exists>e s. map_of (reg_records r) (pwr_ID example_record) = Some e \<and> FinishAttempt (ent_access e) True = Inr s)"
proof -
  obtain r where r: "registry_reachable example_owner (r, {#pwr_ID example_record#})" using example_reachable .
  with wait_registry_invariant[OF r] show ?thesis by (metis (no_types, lifting) multi_member_last)
qed

text \<open>C11: A wait always returns. While the clock and the timers behave as documented and the wait began at most five
  seconds of clock skew before its creation time, the loop has returned after at most 184 rounds, whatever the
  observer, the owner and the other calls do: the lease of fifteen minutes is over by then.\<close>

theorem wait_returns:
  assumes "PermissionWaitRecord_Validate record = None" "timers_hold rounds"
    and "parsed (pwr_CreatedAt record) \<le> rnd_now (rounds 0) + 5 * 1000000000"
  shows "\<exists>returned terminal. wait_rounds record 0 (map rounds [0..<184]) = Some (returned, terminal)"
proof -
  have "waited 183 = (7 + 5 * int 180) * 1000000000" using waited_long[of 180] by simp
  then have "parsed (pwr_ExpiresAt record) \<le> rnd_now (rounds 183)"
    using waited_now[OF assms(2), of 183] wait_valid_lease[OF assms(1)] assms(3) by (simp add: PermissionWaitLease_def)
  moreover have "last (map rounds [0..<184]) = rounds 183" by (simp add: last_map)
  ultimately show ?thesis using rounds_return[OF assms(1), of "map rounds [0..<184]" 0] by fastforce
qed

theorem wait_returns_witness:
  "\<exists>returned terminal. wait_rounds example_record 0
     (map (\<lambda>i. example_round (Observed [] False) (example_now + waited i)) [0..<184]) = Some (returned, terminal)"
proof (rule wait_returns[OF example_record_valid])
  show "timers_hold (\<lambda>i. example_round (Observed [] False) (example_now + waited i))"
    by (simp add: timers_hold_def example_round_def)
  have "parsed (pwr_CreatedAt example_record) \<le> example_now + 5 * 1000000000" by code_simp
  then show "parsed (pwr_CreatedAt example_record) \<le>
      rnd_now (example_round (Observed [] False) (example_now + waited 0)) + 5 * 1000000000"
    by (simp add: example_round_def)
qed



end
