(* ===== verification/Service_Exposure.thy ===== *)
theory Service_Exposure
  imports Semantic_Module
begin

text \<open>
  Workspace services exposed to the host (\<open>internal/domain/tobari/service_exposure.go\<close>): requests, exposures and
  their access URL, owner observations, snapshots, the summary for one Workspace, and the result records.
\<close>

section \<open>References, ports and identities\<close>

definition serviceRequestIDPattern :: "string \<Rightarrow> bool" where "serviceRequestIDPattern = prefixed_hex ''srq_'' 32"
definition serviceExposureIDPattern :: "string \<Rightarrow> bool" where "serviceExposureIDPattern = prefixed_hex ''exp_'' 32"
definition serviceOriginLabelPattern :: "string \<Rightarrow> bool" where "serviceOriginLabelPattern = hex_string 32"
definition serviceSnapshotAnchorRegex :: "string \<Rightarrow> bool" where "serviceSnapshotAnchorRegex = hex_string 64"

definition ValidateServicePort :: "int \<Rightarrow> check" where
  "ValidateServicePort port = reject (port < 1024 \<or> 65535 < port) ''Workspace service port must be between 1024 and 65535''"

definition ValidateServiceRequestID :: "string \<Rightarrow> check" where
  "ValidateServiceRequestID i = reject (\<not> serviceRequestIDPattern i) ''service request reference is invalid''"

definition ValidateServiceExposureID :: "string \<Rightarrow> check" where
  "ValidateServiceExposureID i = reject (\<not> serviceExposureIDPattern i) ''service exposure reference is invalid''"

definition ValidateCanonicalRoot :: "string \<Rightarrow> check" where
  "ValidateCanonicalRoot root = reject (\<not> filepath_IsAbs root \<or> filepath_Clean root \<noteq> root) ''root must be a canonical absolute path''"

definition validateServiceIdentity :: "string \<Rightarrow> string \<Rightarrow> string \<Rightarrow> string \<Rightarrow> string \<Rightarrow> check" where
  "validateServiceIdentity contextID workspaceID attachmentID contextName projectRoot =
     first_error
       [instead ''service Context identity is invalid'' (ContextID_Validate contextID),
        instead ''service Workspace identity is invalid'' (WorkspaceID_Validate workspaceID),
        reject (ValidateAttachmentEpochID attachmentID \<noteq> None \<or> ValidateName contextName \<noteq> None
                \<or> ValidateCanonicalRoot projectRoot \<noteq> None) ''service attachment presentation is invalid'']"

section \<open>Requests and exposures\<close>

record ServiceRequest =
  srq_SchemaVersion :: int
  srq_ID :: string
  srq_AttachmentID :: string
  srq_ContextID :: string
  srq_WorkspaceID :: string
  srq_Context :: string
  srq_ProjectRoot :: string
  srq_TargetPort :: int
  srq_State :: string

definition ServiceRequest_Validate :: "ServiceRequest \<Rightarrow> check" where
  "ServiceRequest_Validate r =
     first_error
       [reject (srq_SchemaVersion r \<noteq> 1 \<or> ValidateServiceRequestID (srq_ID r) \<noteq> None
                \<or> validateServiceIdentity (srq_ContextID r) (srq_WorkspaceID r) (srq_AttachmentID r) (srq_Context r) (srq_ProjectRoot r) \<noteq> None
                \<or> ValidateServicePort (srq_TargetPort r) \<noteq> None) ''service request is invalid'',
        reject (srq_State r \<noteq> ''pending'' \<and> srq_State r \<noteq> ''denied'' \<and> srq_State r \<noteq> ''withdrawn'')
          ''service request state is invalid'']"

record ServiceExposure =
  exp_SchemaVersion :: int
  exp_ID :: string
  exp_RequestID :: string
  exp_AttachmentID :: string
  exp_ContextID :: string
  exp_WorkspaceID :: string
  exp_Context :: string
  exp_ProjectRoot :: string
  exp_TargetPort :: int
  exp_HostPort :: int
  exp_URL :: string
  exp_State :: string
  exp_Connections :: int

definition serviceExposureAuthority :: "int \<Rightarrow> string \<Rightarrow> string" where
  "serviceExposureAuthority port label = ''svc-'' @ label @ ''.localhost:'' @ strconv_Itoa port"

definition ServiceExposureURL :: "int \<Rightarrow> string \<Rightarrow> string result" where
  "ServiceExposureURL port label =
     checked (reject (port < 1 \<or> 65535 < port \<or> \<not> serviceOriginLabelPattern label) ''service exposure origin is invalid'')
       (''http://'' @ serviceExposureAuthority port label @ ''/'')"

text \<open>Slices of the source are taken only where their bounds hold: the suffix test rules out a value shorter than both.\<close>

definition ParseServiceExposureURL :: "string \<Rightarrow> (string \<times> int) result" where
  "ParseServiceExposureURL v =
     (let prefix = ''http://svc-''; suffix = ''.localhost:'';
          remainder = take (length v - 1 - length prefix) (drop (length prefix) v);
          label = take 32 remainder
      in if \<not> strings_HasPrefix v prefix \<or> \<not> strings_HasSuffix v ''/'' then Inl ''service exposure URL is invalid''
         else if length remainder \<le> 32 + length suffix \<or> take (length suffix) (drop 32 remainder) \<noteq> suffix
         then Inl ''service exposure URL is invalid''
         else (case strconv_Atoi (drop (32 + length suffix) remainder) of
                 None \<Rightarrow> Inl ''service exposure URL is invalid''
               | Some port \<Rightarrow>
                   if port < 1 \<or> 65535 < port \<or> \<not> serviceOriginLabelPattern label
                      \<or> v \<noteq> ''http://'' @ serviceExposureAuthority port label @ ''/''
                   then Inl ''service exposure URL is invalid'' else Inr (label, port)))"

definition ServiceExposure_Validate :: "ServiceExposure \<Rightarrow> check" where
  "ServiceExposure_Validate e =
     first_error
       [reject (exp_SchemaVersion e \<noteq> 1 \<or> ValidateServiceExposureID (exp_ID e) \<noteq> None \<or> ValidateServiceRequestID (exp_RequestID e) \<noteq> None
                \<or> validateServiceIdentity (exp_ContextID e) (exp_WorkspaceID e) (exp_AttachmentID e) (exp_Context e) (exp_ProjectRoot e) \<noteq> None
                \<or> ValidateServicePort (exp_TargetPort e) \<noteq> None \<or> exp_HostPort e < 1 \<or> 65535 < exp_HostPort e
                \<or> (case ParseServiceExposureURL (exp_URL e) of Inl _ \<Rightarrow> True | Inr (_, urlPort) \<Rightarrow> urlPort \<noteq> exp_HostPort e)
                \<or> exp_Connections e < 0) ''service exposure is invalid'',
        reject (exp_State e \<noteq> ''listening'' \<and> exp_State e \<noteq> ''relaying'' \<and> exp_State e \<noteq> ''workspace_unavailable'')
          ''service exposure state is invalid'']"

section \<open>Snapshots\<close>

record ServiceOwnerObservation =
  soo_Scope :: string
  soo_Anchor :: string
  soo_Coverage :: string
  soo_Observation :: string
  soo_ObservedOwnerCount :: int
  soo_UnavailableOwnerCount :: int

definition ServiceOwnerObservation_Validate :: "ServiceOwnerObservation \<Rightarrow> check" where
  "ServiceOwnerObservation_Validate o' =
     first_error
       [reject (soo_Scope o' \<noteq> ''live_service_attachments'' \<or> soo_Coverage o' \<noteq> ''bounded_window''
                \<or> \<not> serviceSnapshotAnchorRegex (soo_Anchor o') \<or> soo_ObservedOwnerCount o' < 0 \<or> soo_UnavailableOwnerCount o' < 0)
          ''service owner observation is invalid'',
        (if soo_Observation o' = ''complete'' then
           reject (soo_UnavailableOwnerCount o' \<noteq> 0) ''complete service observation has unavailable owners''
         else if soo_Observation o' = ''partial'' then
           reject (soo_ObservedOwnerCount o' = 0 \<or> soo_UnavailableOwnerCount o' = 0) ''partial service observation counts are invalid''
         else if soo_Observation o' = ''unavailable'' then
           reject (soo_ObservedOwnerCount o' \<noteq> 0 \<or> soo_UnavailableOwnerCount o' = 0) ''unavailable service observation counts are invalid''
         else Some ''service observation state is invalid'')]"

definition validateServiceRows :: "ServiceRequest list \<Rightarrow> ServiceExposure list \<Rightarrow> check" where
  "validateServiceRows requests exposures =
     first_error
       [check_items
          (\<lambda>r. reject (ServiceRequest_Validate r \<noteq> None \<or> srq_State r \<noteq> ''pending'') ''service snapshot contains an invalid request'')
          srq_ID ''service snapshot contains duplicate request references'' [] requests,
        check_items
          (\<lambda>e. reject (ServiceExposure_Validate e \<noteq> None) ''service snapshot contains an invalid exposure'')
          exp_ID ''service snapshot contains duplicate exposure references'' [] exposures]"

record ServiceReviewSnapshot =
  srs_SchemaVersion :: int
  srs_Owner :: ServiceOwnerObservation
  srs_Requests :: "ServiceRequest list option"

definition ServiceReviewSnapshot_Validate :: "ServiceReviewSnapshot \<Rightarrow> check" where
  "ServiceReviewSnapshot_Validate s =
     first_error
       [reject (srs_SchemaVersion s \<noteq> 1 \<or> ServiceOwnerObservation_Validate (srs_Owner s) \<noteq> None \<or> srs_Requests s = None)
          ''service review snapshot is invalid'',
        validateServiceRows (elems (srs_Requests s)) []]"

record ServiceStatusSnapshot =
  sss_SchemaVersion :: int
  sss_Owner :: ServiceOwnerObservation
  sss_Requests :: "ServiceRequest list option"
  sss_Exposures :: "ServiceExposure list option"

definition ServiceStatusSnapshot_Validate :: "ServiceStatusSnapshot \<Rightarrow> check" where
  "ServiceStatusSnapshot_Validate s =
     first_error
       [reject (sss_SchemaVersion s \<noteq> 1 \<or> ServiceOwnerObservation_Validate (sss_Owner s) \<noteq> None \<or> sss_Requests s = None
                \<or> sss_Exposures s = None) ''service status snapshot is invalid'',
        validateServiceRows (elems (sss_Requests s)) (elems (sss_Exposures s))]"

record ServicePendingStatus =
  sps_TargetPort :: int
  sps_State :: string

definition ServicePendingStatus_Validate :: "ServicePendingStatus \<Rightarrow> check" where
  "ServicePendingStatus_Validate s =
     reject (ValidateServicePort (sps_TargetPort s) \<noteq> None \<or> sps_State s \<noteq> ''pending'') ''service pending status is invalid''"

record ServiceAttachmentStatus =
  sas_SchemaVersion :: int
  sas_Scope :: string
  sas_AttachmentID :: string
  sas_Pending :: "ServicePendingStatus list option"
  sas_Exposures :: "ServiceExposure list option"

definition ServiceAttachmentStatus_Validate :: "ServiceAttachmentStatus \<Rightarrow> check" where
  "ServiceAttachmentStatus_Validate s =
     first_error
       [reject (sas_SchemaVersion s \<noteq> 1 \<or> sas_Scope s \<noteq> ''current_attachment'' \<or> ValidateAttachmentEpochID (sas_AttachmentID s) \<noteq> None
                \<or> sas_Pending s = None \<or> sas_Exposures s = None) ''service attachment status is invalid'',
        check_each (\<lambda>p. instead ''service attachment status contains invalid pending state'' (ServicePendingStatus_Validate p))
          (elems (sas_Pending s)),
        check_each (\<lambda>e. reject (ServiceExposure_Validate e \<noteq> None \<or> exp_AttachmentID e \<noteq> sas_AttachmentID s)
          ''service attachment status contains invalid exposure'') (elems (sas_Exposures s))]"

section \<open>The summary of one Workspace\<close>

record ServiceSummary =
  sum_SchemaVersion :: int
  sum_Observation :: string
  sum_PendingCount :: int
  sum_ActiveCount :: int
  sum_UnavailableOwnerCount :: int
  sum_Attention :: bool

definition ServiceSummary_Validate :: "ServiceSummary \<Rightarrow> check" where
  "ServiceSummary_Validate s =
     first_error
       [reject (sum_SchemaVersion s \<noteq> 1 \<or> sum_PendingCount s < 0 \<or> sum_ActiveCount s < 0 \<or> sum_UnavailableOwnerCount s < 0
                \<or> sum_Attention s \<noteq> (0 < sum_PendingCount s \<or> 0 < sum_UnavailableOwnerCount s)) ''service summary is invalid'',
        (if sum_Observation s = ''complete'' then
           reject (sum_UnavailableOwnerCount s \<noteq> 0) ''complete service summary has unavailable owners''
         else if sum_Observation s = ''partial'' \<or> sum_Observation s = ''unavailable'' then
           reject (sum_UnavailableOwnerCount s = 0) ''uncertain service summary has no unavailable owner''
         else Some ''service summary observation is invalid'')]"

definition service_summary :: "ServiceStatusSnapshot \<Rightarrow> string \<Rightarrow> string \<Rightarrow> ServiceSummary" where
  "service_summary s contextID workspaceID =
     (let pending = foldl (\<lambda>n r. if srq_ContextID r = contextID \<and> srq_WorkspaceID r = workspaceID then n + 1 else n) 0 (elems (sss_Requests s));
          live = foldl (\<lambda>n e. if exp_ContextID e = contextID \<and> exp_WorkspaceID e = workspaceID then n + 1 else n) 0 (elems (sss_Exposures s));
          missing = soo_UnavailableOwnerCount (sss_Owner s)
      in \<lparr> sum_SchemaVersion = 1, sum_Observation = soo_Observation (sss_Owner s), sum_PendingCount = pending,
           sum_ActiveCount = live, sum_UnavailableOwnerCount = missing, sum_Attention = (0 < pending \<or> 0 < missing) \<rparr>)"

definition SummaryFor :: "ServiceStatusSnapshot \<Rightarrow> string \<Rightarrow> string \<Rightarrow> ServiceSummary result" where
  "SummaryFor s contextID workspaceID =
     checked
       (first_error
          [reject (ServiceStatusSnapshot_Validate s \<noteq> None \<or> ContextID_Validate contextID \<noteq> None \<or> WorkspaceID_Validate workspaceID \<noteq> None)
             ''service summary scope is invalid'',
           ServiceSummary_Validate (service_summary s contextID workspaceID)])
       (service_summary s contextID workspaceID)"

section \<open>Result records\<close>

record ServiceOpenResult =
  sor_SchemaVersion :: int
  sor_ID :: string
  sor_URL :: string
  sor_Outcome :: string

definition ServiceOpenResult_Validate :: "ServiceOpenResult \<Rightarrow> check" where
  "ServiceOpenResult_Validate r =
     first_error
       [reject (sor_SchemaVersion r \<noteq> 1 \<or> ValidateServiceExposureID (sor_ID r) \<noteq> None) ''service open result is invalid'',
        reject (isl (ParseServiceExposureURL (sor_URL r))) ''service open result is invalid'',
        reject (sor_Outcome r \<noteq> ''open_not_dispatched'' \<and> sor_Outcome r \<noteq> ''open_requested'' \<and> sor_Outcome r \<noteq> ''open_outcome_unknown'')
          ''service open outcome is invalid'']"

record ServiceCleanupReceipt =
  scr_SchemaVersion :: int
  scr_PendingWithdrawnCount :: int
  scr_ExposureClosedCount :: int
  scr_StreamClosedCount :: int

definition ServiceCleanupReceipt_Validate :: "ServiceCleanupReceipt \<Rightarrow> check" where
  "ServiceCleanupReceipt_Validate r =
     reject (scr_SchemaVersion r \<noteq> 1 \<or> scr_PendingWithdrawnCount r < 0 \<or> scr_ExposureClosedCount r < 0 \<or> scr_StreamClosedCount r < 0)
       ''service cleanup receipt is invalid''"

section \<open>Properties\<close>

lemma count_foldl: "foldl (\<lambda>n x. if P x then n + 1 else n) a xs = a + int (length (filter P xs))"
  by (induction xs arbitrary: a) auto

lemma Atoi_Itoa: "0 \<le> i \<Longrightarrow> i < 2 ^ 63 \<Longrightarrow> strconv_Atoi (strconv_Itoa i) = Some i"
proof -
  assume i: "0 \<le> i" "i < 2 ^ 63"
  let ?s = "nat_digits (nat i)"
  have d: "list_all is_digit ?s" by (rule nat_digits_all)
  have ne: "?s \<noteq> []" by (subst nat_digits.simps) auto
  then have "is_digit (hd ?s)" using d by (cases ?s) simp_all
  then have "hd ?s \<noteq> CHR ''-''" "hd ?s \<noteq> CHR ''+''" by (auto simp: is_digit_def byte_def)
  moreover have "digits_value 0 ?s = i" using i by (simp add: digits_value_nat_digits)
  ultimately show ?thesis using i d ne by (simp add: strconv_Atoi_def strconv_Itoa_def)
qed

lemma between_slices: "take (length (p @ m @ [c]) - 1 - length p) (drop (length p) (p @ m @ [c])) = m"
  by simp

text \<open>The access URL of an exposure and its parser are inverse: a URL parses to a label and a port exactly when it is
  the URL built from them, so no second spelling of an origin is accepted, and every built URL parses back.\<close>

theorem exposure_url_roundtrip:
  "ParseServiceExposureURL url = Inr (label, port) \<longleftrightarrow> ServiceExposureURL port label = Inr url"
proof
  assume "ParseServiceExposureURL url = Inr (label, port)"
  then show "ServiceExposureURL port label = Inr url"
    by (auto simp: ParseServiceExposureURL_def ServiceExposureURL_def Let_def check_simps split: if_splits option.splits)
next
  assume "ServiceExposureURL port label = Inr url"
  then have p: "1 \<le> port" "port \<le> 65535" and l: "serviceOriginLabelPattern label"
    and u: "url = ''http://svc-'' @ label @ ''.localhost:'' @ strconv_Itoa port @ ''/''"
    by (auto simp: ServiceExposureURL_def serviceExposureAuthority_def check_simps not_less)
  have len: "length label = 32" using l by (simp add: serviceOriginLabelPattern_def hex_string_def)
  have "strconv_Itoa port \<noteq> []" using p by (auto simp: strconv_Itoa_def) (subst (asm) nat_digits.simps, auto split: if_splits)
  moreover have "strings_HasSuffix url ''/''" by (simp add: u HasSuffix_iff)
  moreover have "strings_HasPrefix url ''http://svc-''" by (simp add: u HasPrefix_iff)
  moreover have "strconv_Atoi (strconv_Itoa port) = Some port" using p by (intro Atoi_Itoa) auto
  moreover have "take (length url - 1 - length ''http://svc-'') (drop (length ''http://svc-'') url) =
      label @ ''.localhost:'' @ strconv_Itoa port"
    using between_slices[of "''http://svc-''" "label @ ''.localhost:'' @ strconv_Itoa port" "CHR ''/''"] by (simp only: u append_assoc)
  moreover have "take (length ''.localhost:'') (drop 32 (label @ ''.localhost:'' @ strconv_Itoa port)) = ''.localhost:''"
    "take 32 (label @ ''.localhost:'' @ strconv_Itoa port) = label"
    "drop (32 + length ''.localhost:'') (label @ ''.localhost:'' @ strconv_Itoa port) = strconv_Itoa port"
    "\<not> length (label @ ''.localhost:'' @ strconv_Itoa port) \<le> 32 + length ''.localhost:''"
    using len \<open>strconv_Itoa port \<noteq> []\<close> by simp_all
  moreover have "url = ''http://'' @ serviceExposureAuthority port label @ ''/''" by (simp add: u serviceExposureAuthority_def)
  moreover have "\<not> port < 1" "\<not> 65535 < port" using p by simp_all
  ultimately show "ParseServiceExposureURL url = Inr (label, port)"
    using l by (simp only: ParseServiceExposureURL_def Let_def option.case simp_thms if_True if_False)
qed

text \<open>A validated status snapshot has a valid summary for every Workspace: the counts are the numbers of its pending
  requests and live exposures, and attention is raised exactly when a request is pending or an owner is missing.\<close>

theorem summary_is_exact:
  assumes "ServiceStatusSnapshot_Validate s = None" "ContextID_Validate c = None" "WorkspaceID_Validate w = None"
  shows "\<exists>r. SummaryFor s c w = Inr r \<and> ServiceSummary_Validate r = None \<and>
    sum_PendingCount r = int (length (filter (\<lambda>q. srq_ContextID q = c \<and> srq_WorkspaceID q = w) (elems (sss_Requests s)))) \<and>
    sum_ActiveCount r = int (length (filter (\<lambda>e. exp_ContextID e = c \<and> exp_WorkspaceID e = w) (elems (sss_Exposures s)))) \<and>
    (sum_Attention r \<longleftrightarrow> (\<exists>q \<in> set (elems (sss_Requests s)). srq_ContextID q = c \<and> srq_WorkspaceID q = w) \<or>
       soo_Observation (sss_Owner s) \<noteq> ''complete'')"
proof -
  let ?r = "service_summary s c w"
  have o: "ServiceOwnerObservation_Validate (sss_Owner s) = None"
    using assms(1) unfolding ServiceStatusSnapshot_Validate_def check_simps by blast
  have counts:
    "sum_PendingCount ?r = int (length (filter (\<lambda>q. srq_ContextID q = c \<and> srq_WorkspaceID q = w) (elems (sss_Requests s))))"
    "sum_ActiveCount ?r = int (length (filter (\<lambda>e. exp_ContextID e = c \<and> exp_WorkspaceID e = w) (elems (sss_Exposures s))))"
    by (simp_all add: service_summary_def Let_def count_foldl)
  have missing: "soo_Observation (sss_Owner s) \<noteq> ''complete'' \<longleftrightarrow> 0 < soo_UnavailableOwnerCount (sss_Owner s)"
    using o unfolding ServiceOwnerObservation_Validate_def check_simps by (auto simp: check_simps split: if_splits)
  have "ServiceSummary_Validate ?r = None"
    using o unfolding ServiceOwnerObservation_Validate_def ServiceSummary_Validate_def check_simps
    by (auto simp: service_summary_def Let_def count_foldl check_simps split: if_splits)
  moreover have "sum_Attention ?r \<longleftrightarrow> (\<exists>q \<in> set (elems (sss_Requests s)). srq_ContextID q = c \<and> srq_WorkspaceID q = w) \<or>
      soo_Observation (sss_Owner s) \<noteq> ''complete''"
    unfolding missing by (auto simp: service_summary_def Let_def count_foldl filter_empty_conv)
  ultimately show ?thesis using assms counts by (simp add: SummaryFor_def check_simps)
qed

definition example_snapshot :: ServiceStatusSnapshot where
  "example_snapshot =
     \<lparr> sss_SchemaVersion = 1,
       sss_Owner = \<lparr> soo_Scope = ''live_service_attachments'',
         soo_Anchor = ''0123456789abcdef0123456789abcdef0123456789abcdef0123456789abcdef'', soo_Coverage = ''bounded_window'',
         soo_Observation = ''complete'', soo_ObservedOwnerCount = 1, soo_UnavailableOwnerCount = 0 \<rparr>,
       sss_Requests = Some [\<lparr> srq_SchemaVersion = 1, srq_ID = ''srq_0123456789abcdef0123456789abcdef'',
         srq_AttachmentID = ''att_0123456789abcdef0123456789abcdef'', srq_ContextID = ''0190a1b2-c3d4-7e5f-8a9b-0c1d2e3f4a5b'',
         srq_WorkspaceID = ''0190a1b2-c3d4-7e5f-8a9b-0c1d2e3f4a5c'', srq_Context = ''dev'', srq_ProjectRoot = ''/home/u/p'',
         srq_TargetPort = 3000, srq_State = ''pending'' \<rparr>],
       sss_Exposures = Some [] \<rparr>"

theorem summary_is_exact_witness:
  "\<exists>r. SummaryFor example_snapshot ''0190a1b2-c3d4-7e5f-8a9b-0c1d2e3f4a5b'' ''0190a1b2-c3d4-7e5f-8a9b-0c1d2e3f4a5c'' = Inr r \<and>
     sum_PendingCount r = 1 \<and> sum_Attention r"
proof -
  have "ServiceStatusSnapshot_Validate example_snapshot = None" "ContextID_Validate ''0190a1b2-c3d4-7e5f-8a9b-0c1d2e3f4a5b'' = None"
    "WorkspaceID_Validate ''0190a1b2-c3d4-7e5f-8a9b-0c1d2e3f4a5c'' = None" by code_simp+
  from summary_is_exact[OF this] show ?thesis by (auto simp: example_snapshot_def)
qed

end
