(* ===== verification/Manifest_Policy.thy ===== *)
theory Manifest_Policy
  imports Semantic_Authority
begin

text \<open>
  The Workspace Manifest policy (\<open>internal/domain/tobari/context_policy.go\<close>): a destination ceiling, a method
  policy, and baseline grants, templates, MCP grants, denies and endpoints; its validation, its normal form and the
  composition with a new method policy. The JSON encoder that the revision hashes is a parameter. The
  \<open>seen\<close> keys join their fields with NUL, the sort keys with a slash and the port padded to five digits. The sorts
  of the source are unstable; the stable sort of the model is one of their results, and the statements below depend on
  the multisets only.
\<close>

section \<open>Rules\<close>

text \<open>The rules extend the authority record as the code repeats its fields.\<close>

record manifest_rule = ManifestPolicyAuthority +
  mr_Method :: string
  mr_Path :: string

record ManifestPolicyExactRule = manifest_rule +
  mer_Protocol :: string
  mer_GraphQLOperationType :: string
  mer_GraphQLRootField :: string

record ManifestPolicyPathTemplateRule = manifest_rule +
  mtr_Segments :: "string list"

record ManifestPolicyMCPRule = manifest_rule +
  mmr_MCPMethod :: string
  mmr_MCPToolName :: string

fun name_run :: "bool \<Rightarrow> string \<Rightarrow> bool" where
  "name_run b [] = b"
| "name_run b (c # cs) =
     (if is_lower c \<or> is_digit c then name_run True cs
      else b \<and> c \<in> set ''._-'' \<and> name_run False cs)"

definition contextPolicyNamePattern :: "string \<Rightarrow> bool" where "contextPolicyNamePattern s = name_run False s"
definition contextPolicyMethodPattern :: "string \<Rightarrow> bool" where
  "contextPolicyMethodPattern s =
     (case s of [] \<Rightarrow> False | c # r \<Rightarrow> is_upper c \<and> length r \<le> 31 \<and> list_all method_tail r)"

definition contextPolicySyntheticExampleHost :: "string \<Rightarrow> bool" where
  "contextPolicySyntheticExampleHost host =
     (host = ''example.com'' \<or> host = ''example.net'' \<or> host = ''example.org'' \<or> strings_HasSuffix host ''.example'')"

definition validatePolicyMemoryDestinationAuthority :: "ManifestPolicyAuthority \<Rightarrow> check" where
  "validatePolicyMemoryDestinationAuthority a =
     first_error
       [reject (mpa_Scheme a \<noteq> ''https'' \<and> mpa_Scheme a \<noteq> ''http'') ''Policy Memory authority scheme is invalid'',
        reject (mpa_Port a < 1 \<or> 65535 < mpa_Port a \<or> contextPolicyIPv4Literal (mpa_Host a)
                \<or> \<not> validNormalizedPolicyHost (mpa_Host a) \<or> \<not> strings_Contains (mpa_Host a) ''.''
                \<or> contextPolicyReservedHost (mpa_Host a) \<and> \<not> contextPolicySyntheticExampleHost (mpa_Host a))
          ''Policy Memory authority is not an exact external destination'']"

definition authority_of :: "'a ManifestPolicyAuthority_scheme \<Rightarrow> ManifestPolicyAuthority" where
  "authority_of r = \<lparr> mpa_Scheme = mpa_Scheme r, mpa_Host = mpa_Host r, mpa_Port = mpa_Port r \<rparr>"

definition exact_of :: "'a manifest_rule_scheme \<Rightarrow> ManifestPolicyExactRule" where
  "exact_of r =
     \<lparr> mpa_Scheme = mpa_Scheme r, mpa_Host = mpa_Host r, mpa_Port = mpa_Port r, mr_Method = mr_Method r, mr_Path = mr_Path r,
       mer_Protocol = [], mer_GraphQLOperationType = [], mer_GraphQLRootField = [] \<rparr>"

definition ManifestPolicyExactRule_Validate :: "ManifestPolicyExactRule \<Rightarrow> check" where
  "ManifestPolicyExactRule_Validate r =
     first_error
       [ManifestPolicyAuthority_Validate (authority_of r),
        reject (\<not> contextPolicyMethodPattern (mr_Method r) \<or> \<not> strings_HasPrefix (mr_Path r) ''/''
                \<or> strings_ContainsAny (mr_Path r) [CHR 0x0D, CHR 0x0A]) ''context policy exact rule is invalid'',
        (if mer_Protocol r = [] then
           reject (mer_GraphQLOperationType r \<noteq> [] \<or> mer_GraphQLRootField r \<noteq> []) ''context policy HTTP rule has semantic fields''
         else
           first_error
             [reject (mer_Protocol r \<noteq> ''graphql'' \<or> mr_Method r \<noteq> ''POST'') ''context policy semantic exact rule is invalid'',
              PolicyProtocolIdentity_Validate
                ((base_identity (mpa_Scheme r) (mer_Protocol r))
                   \<lparr> GraphQLOperationType := mer_GraphQLOperationType r, GraphQLRootField := mer_GraphQLRootField r \<rparr>)])]"

definition ManifestPolicyPathTemplateRule_Validate :: "ManifestPolicyPathTemplateRule \<Rightarrow> check" where
  "ManifestPolicyPathTemplateRule_Validate r =
     first_error
       [ManifestPolicyExactRule_Validate (exact_of r),
        reject (length (mtr_Segments r) < 2 \<or> 32 < length (mtr_Segments r) \<or> mr_Path r \<noteq> CHR ''/'' # strings_Join (mtr_Segments r) ''/'')
          ''context policy path template is invalid'',
        check_each
          (\<lambda>s. reject (s \<noteq> ''{id}'' \<and> (s = [] \<or> s = ''.'' \<or> s = ''..'' \<or> strings_ContainsAny s (''/%?#'' @ [BACKSLASH])))
             ''context policy path template segment is invalid'') (mtr_Segments r),
        reject (count_list (mtr_Segments r) ''{id}'' \<noteq> 1 \<or> last (mtr_Segments r) \<noteq> ''{id}'')
          ''context policy path template must end in one identifier segment'']"

definition ManifestPolicyMCPRule_Validate :: "ManifestPolicyMCPRule \<Rightarrow> check" where
  "ManifestPolicyMCPRule_Validate r =
     first_error
       [ManifestPolicyExactRule_Validate (exact_of r),
        reject (mr_Method r \<noteq> ''POST'') ''context policy MCP transport method must be POST'',
        PolicyProtocolIdentity_Validate
          ((base_identity (mpa_Scheme r) ''mcp'')\<lparr> MCPMethod := mmr_MCPMethod r, MCPToolName := mmr_MCPToolName r \<rparr>)]"

section \<open>The method policy\<close>

record ManifestMethodOverride =
  mmo_Method :: string
  mmo_Decision :: string

record ManifestMethodPolicy =
  mmp_Default :: string
  mmp_Overrides :: "ManifestMethodOverride list option"

definition ManifestMethodDecision_Validate :: "string \<Rightarrow> check" where
  "ManifestMethodDecision_Validate d =
     reject (d \<noteq> ''allow'' \<and> d \<noteq> ''exact_review'' \<and> d \<noteq> ''deny'') ''context policy method decision is invalid''"

definition ManifestMethodOverride_Validate :: "ManifestMethodOverride \<Rightarrow> check" where
  "ManifestMethodOverride_Validate o' =
     first_error
       [reject (\<not> contextPolicyMethodPattern (mmo_Method o')) ''context policy method override is invalid'',
        ManifestMethodDecision_Validate (mmo_Decision o')]"

definition ManifestMethodPolicy_Clone :: "ManifestMethodPolicy \<Rightarrow> ManifestMethodPolicy" where
  "ManifestMethodPolicy_Clone p = \<lparr> mmp_Default = mmp_Default p, mmp_Overrides = Some (elems (mmp_Overrides p)) \<rparr>"

definition ManifestMethodPolicy_Validate :: "ManifestMethodPolicy \<Rightarrow> check" where
  "ManifestMethodPolicy_Validate p =
     first_error
       [ManifestMethodDecision_Validate (mmp_Default p),
        reject (mmp_Overrides p = None) ''context policy method overrides must be explicit'',
        check_items
          (\<lambda>o'. first_error
             [ManifestMethodOverride_Validate o',
              reject (mmo_Decision o' = mmp_Default p) ''context policy method override repeats the default''])
          mmo_Method ''context policy method override is duplicated'' [] (elems (mmp_Overrides p))]"

definition NormalizeContextMethodPolicy :: "ManifestMethodPolicy \<Rightarrow> ManifestMethodPolicy result" where
  "NormalizeContextMethodPolicy p =
     checked (ManifestMethodPolicy_Validate p)
       ((ManifestMethodPolicy_Clone p)\<lparr> mmp_Overrides := Some (sort_key mmo_Method (elems (mmp_Overrides p))) \<rparr>)"

definition Decision :: "ManifestMethodPolicy \<Rightarrow> string \<Rightarrow> string" where
  "Decision p method =
     (case find (\<lambda>o'. mmo_Method o' = method) (elems (mmp_Overrides p)) of
        None \<Rightarrow> mmp_Default p | Some o' \<Rightarrow> mmo_Decision o')"

section \<open>The policy\<close>

record ManifestPolicyDestinationCeiling =
  mdc_Mode :: string
  mdc_Authorities :: "ManifestPolicyAuthority list option"

record ManifestPolicy =
  mp_SchemaVersion :: int
  mp_Name :: string
  mp_DestinationCeiling :: ManifestPolicyDestinationCeiling
  mp_MethodPolicy :: ManifestMethodPolicy
  mp_BaselineGrants :: "ManifestPolicyExactRule list option"
  mp_BaselineTemplates :: "ManifestPolicyPathTemplateRule list option"
  mp_MCPBaselineGrants :: "ManifestPolicyMCPRule list option"
  mp_BaselineDenies :: "ManifestPolicyExactRule list option"
  mp_GraphQLEndpoints :: "ManifestPolicyExactRule list option"
  mp_MCPEndpoints :: "ManifestPolicyExactRule list option"

definition contextPolicyContainsAuthority :: "ManifestPolicyAuthority list \<Rightarrow> 'a ManifestPolicyAuthority_scheme \<Rightarrow> bool" where
  "contextPolicyContainsAuthority authorities r =
     list_ex (\<lambda>a. mpa_Scheme a = mpa_Scheme r \<and> mpa_Host a = mpa_Host r \<and> mpa_Port a = mpa_Port r) authorities"

definition contextPolicyRuleInsideDestination :: "ManifestPolicyDestinationCeiling \<Rightarrow> 'a ManifestPolicyAuthority_scheme \<Rightarrow> bool" where
  "contextPolicyRuleInsideDestination ceiling r =
     (if mdc_Mode ceiling = ''public_https'' then mpa_Scheme r = ''https''
      else contextPolicyContainsAuthority (elems (mdc_Authorities ceiling)) r)"

definition authority_key :: "'a ManifestPolicyAuthority_scheme \<Rightarrow> string list" where
  "authority_key a = [mpa_Scheme a, mpa_Host a, strconv_Itoa (mpa_Port a)]"

definition plain_key :: "'a manifest_rule_scheme \<Rightarrow> string list" where
  "plain_key r = authority_key r @ [mr_Method r, mr_Path r]"

definition grant_key :: "ManifestPolicyExactRule \<Rightarrow> string list" where
  "grant_key r = plain_key r @ [mer_Protocol r, mer_GraphQLOperationType r, mer_GraphQLRootField r]"

definition mcp_grant_key :: "ManifestPolicyMCPRule \<Rightarrow> string list" where
  "mcp_grant_key r = plain_key r @ [mmr_MCPMethod r, mmr_MCPToolName r]"

abbreviation seen_key :: "string list \<Rightarrow> string" where "seen_key parts \<equiv> strings_Join parts [NUL]"

text \<open>A loop that validates an item, refuses a seen key, and then checks the item against the policy.\<close>

fun check_rows ::
    "('a \<Rightarrow> check) \<Rightarrow> ('a \<Rightarrow> string) \<Rightarrow> error \<Rightarrow> ('a \<Rightarrow> check) \<Rightarrow> string list \<Rightarrow> 'a list \<Rightarrow> check" where
  "check_rows before key e after seen [] = None"
| "check_rows before key e after seen (x # xs) =
     first_error
       [before x, reject (key x \<in> set seen) e, after x, check_rows before key e after (key x # seen) xs]"

definition method_denied :: "ManifestMethodPolicy \<Rightarrow> 'a manifest_rule_scheme \<Rightarrow> bool" where
  "method_denied m r = (Decision m (mr_Method r) = ''deny'')"

definition grant_rows :: "ManifestPolicy \<Rightarrow> check" where
  "grant_rows p =
     check_rows ManifestPolicyExactRule_Validate (\<lambda>r. seen_key (grant_key r)) ''context policy grant is duplicated''
       (\<lambda>r. first_error
          [reject (\<not> contextPolicyRuleInsideDestination (mp_DestinationCeiling p) r \<or> method_denied (mp_MethodPolicy p) r)
             ''context policy rule exceeds its ceiling'',
           reject (mer_Protocol r = ''graphql'' \<and> exact_of r \<notin> set (elems (mp_GraphQLEndpoints p)))
             ''context policy GraphQL grant has no declared endpoint'']) [] (elems (mp_BaselineGrants p))"

definition plain_rows :: "ManifestPolicy \<Rightarrow> ManifestPolicyExactRule list \<Rightarrow> check" where
  "plain_rows p rules =
     check_rows
       (\<lambda>r. first_error
          [ManifestPolicyExactRule_Validate r,
           reject (mer_Protocol r \<noteq> []) ''context policy endpoint or deny cannot contain semantic grant identity''])
       (\<lambda>r. seen_key (plain_key r)) ''context policy rule is duplicated''
       (\<lambda>r. first_error
          [reject (\<not> contextPolicyRuleInsideDestination (mp_DestinationCeiling p) r) ''context policy rule exceeds its destination ceiling'',
           reject (method_denied (mp_MethodPolicy p) r) ''context policy rule exceeds its method ceiling'']) [] rules"

definition template_rows :: "ManifestPolicy \<Rightarrow> check" where
  "template_rows p =
     check_rows ManifestPolicyPathTemplateRule_Validate (\<lambda>r. seen_key (plain_key r)) ''context policy path template is duplicated''
       (\<lambda>r. reject (\<not> contextPolicyRuleInsideDestination (mp_DestinationCeiling p) r \<or> method_denied (mp_MethodPolicy p) r)
          ''context policy path template exceeds its ceiling'') [] (elems (mp_BaselineTemplates p))"

definition mcp_rows :: "ManifestPolicy \<Rightarrow> check" where
  "mcp_rows p =
     check_rows ManifestPolicyMCPRule_Validate (\<lambda>r. seen_key (mcp_grant_key r)) ''context policy MCP grant is duplicated''
       (\<lambda>r. first_error
          [reject (\<not> contextPolicyRuleInsideDestination (mp_DestinationCeiling p) r \<or> method_denied (mp_MethodPolicy p) r)
             ''context policy MCP grant exceeds its ceiling'',
           reject (exact_of r \<notin> set (elems (mp_MCPEndpoints p))) ''context policy MCP grant has no declared endpoint''])
       [] (elems (mp_MCPBaselineGrants p))"

definition same_location :: "ManifestPolicyExactRule \<Rightarrow> ManifestPolicyExactRule \<Rightarrow> bool" where
  "same_location a b = (mpa_Scheme a = mpa_Scheme b \<and> mpa_Host a = mpa_Host b \<and> mpa_Port a = mpa_Port b \<and> mr_Path a = mr_Path b)"

definition ManifestPolicy_Validate :: "ManifestPolicy \<Rightarrow> check" where
  "ManifestPolicy_Validate p =
     (let graphql = elems (mp_GraphQLEndpoints p); mcp = elems (mp_MCPEndpoints p); ceiling = mp_DestinationCeiling p
      in first_error
       [reject (mp_SchemaVersion p \<noteq> 1 \<or> \<not> contextPolicyNamePattern (mp_Name p)) ''context policy identity is invalid'',
        reject (mdc_Authorities ceiling = None \<or> mmp_Overrides (mp_MethodPolicy p) = None
                \<or> mp_BaselineGrants p = None \<or> mp_BaselineTemplates p = None \<or> mp_MCPBaselineGrants p = None
                \<or> mp_BaselineDenies p = None \<or> mp_GraphQLEndpoints p = None \<or> mp_MCPEndpoints p = None)
          ''context policy collections must be explicit'',
        reject (mdc_Mode ceiling \<noteq> ''public_https'' \<and> mdc_Mode ceiling \<noteq> ''exact'')
          ''context policy destination ceiling mode is invalid'',
        ManifestMethodPolicy_Validate (mp_MethodPolicy p),
        reject (mdc_Mode ceiling = ''public_https'' \<and> length (elems (mdc_Authorities ceiling)) \<noteq> 0)
          ''public_https destination ceiling cannot contain exact authorities'',
        check_items ManifestPolicyAuthority_Validate (\<lambda>a. seen_key (authority_key a)) ''context policy authority is duplicated'' []
          (elems (mdc_Authorities ceiling)),
        grant_rows p,
        plain_rows p (elems (mp_BaselineDenies p)), plain_rows p graphql, plain_rows p mcp,
        template_rows p,
        mcp_rows p,
        check_each (\<lambda>e. reject (mr_Method e \<noteq> ''POST'') ''context policy GraphQL endpoint method must be POST'') graphql,
        check_each (\<lambda>e. reject (mr_Method e \<noteq> ''POST'') ''context policy MCP endpoint method must be POST'') mcp,
        check_each (\<lambda>g. check_each (\<lambda>m. reject (same_location g m) ''context policy semantic endpoint is ambiguous'') mcp) graphql])"

section \<open>Normal form and composition\<close>

text \<open>The verb \<open>%05d\<close>.\<close>

definition fmt_05d :: "int \<Rightarrow> string" where
  "fmt_05d i =
     (let digits = nat_digits (nat \<bar>i\<bar>) in
      if i < 0 then CHR ''-'' # replicate (4 - length digits) CHR ''0'' @ digits
      else replicate (5 - length digits) CHR ''0'' @ digits)"

definition sort_authority :: "'a ManifestPolicyAuthority_scheme \<Rightarrow> string list" where
  "sort_authority a = [mpa_Scheme a, mpa_Host a, fmt_05d (mpa_Port a)]"

abbreviation sort_text :: "string list \<Rightarrow> string" where "sort_text parts \<equiv> strings_Join parts ''/''"

definition lessRule :: "ManifestPolicyExactRule \<Rightarrow> string" where
  "lessRule r =
     sort_text (sort_authority r @ [mr_Method r, mr_Path r, mer_Protocol r, mer_GraphQLOperationType r, mer_GraphQLRootField r])"

definition template_order :: "ManifestPolicyPathTemplateRule \<Rightarrow> string" where
  "template_order r = sort_text (sort_authority r @ [mr_Method r, mr_Path r])"

definition mcp_order :: "ManifestPolicyMCPRule \<Rightarrow> string" where
  "mcp_order r = sort_text (sort_authority r @ [mr_Method r, mr_Path r, mmr_MCPMethod r, mmr_MCPToolName r])"

definition normalized_policy :: "ManifestPolicy \<Rightarrow> ManifestPolicy" where
  "normalized_policy p =
     p\<lparr> mp_DestinationCeiling := (mp_DestinationCeiling p)
          \<lparr> mdc_Authorities := Some (sort_key (\<lambda>a. sort_text (sort_authority a)) (elems (mdc_Authorities (mp_DestinationCeiling p)))) \<rparr>,
        mp_MethodPolicy := (mp_MethodPolicy p)\<lparr> mmp_Overrides := Some (sort_key mmo_Method (elems (mmp_Overrides (mp_MethodPolicy p)))) \<rparr>,
        mp_BaselineGrants := Some (sort_key lessRule (elems (mp_BaselineGrants p))),
        mp_BaselineTemplates := Some (sort_key template_order (elems (mp_BaselineTemplates p))),
        mp_MCPBaselineGrants := Some (sort_key mcp_order (elems (mp_MCPBaselineGrants p))),
        mp_BaselineDenies := Some (sort_key lessRule (elems (mp_BaselineDenies p))),
        mp_GraphQLEndpoints := Some (sort_key lessRule (elems (mp_GraphQLEndpoints p))),
        mp_MCPEndpoints := Some (sort_key lessRule (elems (mp_MCPEndpoints p))) \<rparr>"

definition NormalizeContextPolicy :: "(ManifestPolicy \<Rightarrow> string result) \<Rightarrow> ManifestPolicy \<Rightarrow> (ManifestPolicy \<times> string \<times> string) result" where
  "NormalizeContextPolicy json_MarshalIndent p =
     guarded (ManifestPolicy_Validate p)
       (let clone = normalized_policy p in
        and_then (json_MarshalIndent clone) (\<lambda>encoded.
          let data = encoded @ [CHR 0x0A] in Inr (clone, data, ''sha256:'' @ hex_EncodeToString (sha256_Sum256 data))))"

definition PolicyRevision :: "(ManifestPolicy \<Rightarrow> string result) \<Rightarrow> ManifestPolicy \<Rightarrow> string result" where
  "PolicyRevision json_MarshalIndent p =
     and_then (NormalizeContextPolicy json_MarshalIndent p) (\<lambda>(_, _, revision). Inr revision)"

definition keep_reachable :: "ManifestMethodPolicy \<Rightarrow> 'a manifest_rule_scheme list option \<Rightarrow> 'a manifest_rule_scheme list option" where
  "keep_reachable m rules = Some (filter (\<lambda>r. \<not> method_denied m r) (elems rules))"

definition composed :: "ManifestPolicy \<Rightarrow> ManifestMethodPolicy \<Rightarrow> ManifestPolicy" where
  "composed p m =
     p\<lparr> mp_MethodPolicy := ManifestMethodPolicy_Clone m,
        mp_BaselineGrants := keep_reachable m (mp_BaselineGrants p),
        mp_BaselineTemplates := keep_reachable m (mp_BaselineTemplates p),
        mp_MCPBaselineGrants := keep_reachable m (mp_MCPBaselineGrants p),
        mp_GraphQLEndpoints := keep_reachable m (mp_GraphQLEndpoints p),
        mp_MCPEndpoints := keep_reachable m (mp_MCPEndpoints p) \<rparr>"

definition ComposeContextMethodPolicy ::
    "(ManifestPolicy \<Rightarrow> string result) \<Rightarrow> ManifestPolicy \<Rightarrow> ManifestMethodPolicy \<Rightarrow> ManifestPolicy result" where
  "ComposeContextMethodPolicy json_MarshalIndent p m =
     guarded (ManifestPolicy_Validate p)
       (and_then (NormalizeContextPolicy json_MarshalIndent (composed p m)) (\<lambda>(normalized, _, _). Inr normalized))"

section \<open>Lemmas\<close>

lemma check_rows_None [check_simps]:
  "check_rows before key e after seen xs = None \<longleftrightarrow>
     (\<forall>x \<in> set xs. before x = None \<and> after x = None) \<and> distinct (map key xs) \<and> key ` set xs \<inter> set seen = {}"
proof (induction xs arbitrary: seen)
  case (Cons x xs)
  show ?case by (simp only: check_rows.simps check_simps Cons.IH first_error.simps(1)) auto
qed simp

definition reaches :: "ManifestPolicy \<Rightarrow> 'a manifest_rule_scheme \<Rightarrow> bool" where
  "reaches p r \<longleftrightarrow> contextPolicyRuleInsideDestination (mp_DestinationCeiling p) r \<and> \<not> method_denied (mp_MethodPolicy p) r"

lemma grant_rows_None [check_simps]:
  "grant_rows p = None \<longleftrightarrow>
     (\<forall>r \<in> set (elems (mp_BaselineGrants p)). ManifestPolicyExactRule_Validate r = None \<and> reaches p r \<and>
        (mer_Protocol r = ''graphql'' \<longrightarrow> exact_of r \<in> set (elems (mp_GraphQLEndpoints p)))) \<and>
     distinct (map (\<lambda>r. seen_key (grant_key r)) (elems (mp_BaselineGrants p)))"
  unfolding grant_rows_def check_simps reaches_def by (auto simp: first_error.simps)

lemma plain_rows_None [check_simps]:
  "plain_rows p rs = None \<longleftrightarrow>
     (\<forall>r \<in> set rs. ManifestPolicyExactRule_Validate r = None \<and> mer_Protocol r = [] \<and> reaches p r) \<and>
     distinct (map (\<lambda>r. seen_key (plain_key r)) rs)"
  unfolding plain_rows_def check_simps reaches_def by (auto simp: first_error.simps)

lemma template_rows_None [check_simps]:
  "template_rows p = None \<longleftrightarrow>
     (\<forall>r \<in> set (elems (mp_BaselineTemplates p)). ManifestPolicyPathTemplateRule_Validate r = None \<and> reaches p r) \<and>
     distinct (map (\<lambda>r. seen_key (plain_key r)) (elems (mp_BaselineTemplates p)))"
  unfolding template_rows_def check_simps reaches_def by (auto simp: first_error.simps)

lemma mcp_rows_None [check_simps]:
  "mcp_rows p = None \<longleftrightarrow>
     (\<forall>r \<in> set (elems (mp_MCPBaselineGrants p)). ManifestPolicyMCPRule_Validate r = None \<and> reaches p r \<and>
        exact_of r \<in> set (elems (mp_MCPEndpoints p))) \<and>
     distinct (map (\<lambda>r. seen_key (mcp_grant_key r)) (elems (mp_MCPBaselineGrants p)))"
  unfolding mcp_rows_def check_simps reaches_def by (auto simp: first_error.simps)

text \<open>Validity of the fields that composition and normalization leave alone, and of the rule collections.\<close>

definition frame_ok :: "ManifestPolicy \<Rightarrow> bool" where
  "frame_ok p \<longleftrightarrow>
     mp_SchemaVersion p = 1 \<and> contextPolicyNamePattern (mp_Name p) \<and>
     (mdc_Mode (mp_DestinationCeiling p) = ''public_https'' \<or> mdc_Mode (mp_DestinationCeiling p) = ''exact'') \<and>
     (mdc_Mode (mp_DestinationCeiling p) \<noteq> ''public_https'' \<or> elems (mdc_Authorities (mp_DestinationCeiling p)) = []) \<and>
     mdc_Authorities (mp_DestinationCeiling p) \<noteq> None \<and>
     (\<forall>a \<in> set (elems (mdc_Authorities (mp_DestinationCeiling p))). ManifestPolicyAuthority_Validate a = None) \<and>
     distinct (map (\<lambda>a. seen_key (authority_key a)) (elems (mdc_Authorities (mp_DestinationCeiling p))))"

definition explicit :: "ManifestPolicy \<Rightarrow> bool" where
  "explicit p \<longleftrightarrow>
     mmp_Overrides (mp_MethodPolicy p) \<noteq> None \<and>
     mp_BaselineGrants p \<noteq> None \<and> mp_BaselineTemplates p \<noteq> None \<and> mp_MCPBaselineGrants p \<noteq> None \<and>
     mp_BaselineDenies p \<noteq> None \<and> mp_GraphQLEndpoints p \<noteq> None \<and> mp_MCPEndpoints p \<noteq> None"

definition endpoints_apart :: "ManifestPolicy \<Rightarrow> bool" where
  "endpoints_apart p \<longleftrightarrow>
     (\<forall>g \<in> set (elems (mp_GraphQLEndpoints p)). mr_Method g = ''POST'') \<and>
     (\<forall>m \<in> set (elems (mp_MCPEndpoints p)). mr_Method m = ''POST'') \<and>
     (\<forall>g \<in> set (elems (mp_GraphQLEndpoints p)). \<forall>m \<in> set (elems (mp_MCPEndpoints p)). \<not> same_location g m)"

lemma policy_valid_iff:
  "ManifestPolicy_Validate p = None \<longleftrightarrow>
     frame_ok p \<and> explicit p \<and> ManifestMethodPolicy_Validate (mp_MethodPolicy p) = None \<and> grant_rows p = None \<and>
     plain_rows p (elems (mp_BaselineDenies p)) = None \<and> plain_rows p (elems (mp_GraphQLEndpoints p)) = None \<and>
     plain_rows p (elems (mp_MCPEndpoints p)) = None \<and> template_rows p = None \<and> mcp_rows p = None \<and> endpoints_apart p"
  unfolding ManifestPolicy_Validate_def Let_def frame_ok_def explicit_def endpoints_apart_def first_error_None reject_None
    check_each_None check_items_None length_0_conv first_error.simps(1) de_Morgan_disj de_Morgan_conj not_not list.set Int_empty_right
    simp_thms
  by (intro iffI; elim conjE; intro conjI; assumption)

lemma decision_clone [simp]: "Decision (ManifestMethodPolicy_Clone m) = Decision m"
  by (rule ext) (simp add: Decision_def ManifestMethodPolicy_Clone_def split: option.split)

lemma denied_clone [simp]: "method_denied (ManifestMethodPolicy_Clone m) r = method_denied m r"
  by (simp add: method_denied_def)

lemma composed_fields [simp]:
  "mp_SchemaVersion (composed p m) = mp_SchemaVersion p" "mp_Name (composed p m) = mp_Name p"
  "mp_DestinationCeiling (composed p m) = mp_DestinationCeiling p" "mp_MethodPolicy (composed p m) = ManifestMethodPolicy_Clone m"
  "mp_BaselineDenies (composed p m) = mp_BaselineDenies p"
  "elems (mp_BaselineGrants (composed p m)) = filter (\<lambda>r. \<not> method_denied m r) (elems (mp_BaselineGrants p))"
  "elems (mp_BaselineTemplates (composed p m)) = filter (\<lambda>r. \<not> method_denied m r) (elems (mp_BaselineTemplates p))"
  "elems (mp_MCPBaselineGrants (composed p m)) = filter (\<lambda>r. \<not> method_denied m r) (elems (mp_MCPBaselineGrants p))"
  "elems (mp_GraphQLEndpoints (composed p m)) = filter (\<lambda>r. \<not> method_denied m r) (elems (mp_GraphQLEndpoints p))"
  "elems (mp_MCPEndpoints (composed p m)) = filter (\<lambda>r. \<not> method_denied m r) (elems (mp_MCPEndpoints p))"
  by (simp_all add: composed_def keep_reachable_def)

lemma reaches_composed [simp]:
  "reaches (composed p m) r \<longleftrightarrow> contextPolicyRuleInsideDestination (mp_DestinationCeiling p) r \<and> \<not> method_denied m r"
  by (simp add: reaches_def)

lemma exact_of_method [simp]: "method_denied m (exact_of r) = method_denied m r"
  by (simp add: method_denied_def exact_of_def)

lemma composed_valid:
  assumes v: "ManifestPolicy_Validate p = None"
  shows "ManifestPolicy_Validate (composed p m) = None \<longleftrightarrow>
    ManifestMethodPolicy_Validate (ManifestMethodPolicy_Clone m) = None \<and>
    (\<forall>r \<in> set (elems (mp_BaselineDenies p)). \<not> method_denied m r)"
proof -
  note p = v[unfolded policy_valid_iff]
  have "frame_ok (composed p m)" using p by (simp add: frame_ok_def)
  moreover have "explicit (composed p m)" using p by (simp add: explicit_def composed_def keep_reachable_def ManifestMethodPolicy_Clone_def)
  moreover have "grant_rows (composed p m) = None" "template_rows (composed p m) = None" "mcp_rows (composed p m) = None"
    using p by (auto simp: check_simps distinct_map_filter reaches_def)
  moreover have "plain_rows (composed p m) (elems (mp_GraphQLEndpoints (composed p m))) = None"
    "plain_rows (composed p m) (elems (mp_MCPEndpoints (composed p m))) = None"
    using p by (auto simp: check_simps distinct_map_filter reaches_def)
  moreover have "plain_rows (composed p m) (elems (mp_BaselineDenies p)) = None \<longleftrightarrow>
      (\<forall>r \<in> set (elems (mp_BaselineDenies p)). \<not> method_denied m r)"
    using p by (auto simp: check_simps reaches_def)
  moreover have "endpoints_apart (composed p m)" using p by (auto simp: endpoints_apart_def)
  ultimately show ?thesis unfolding policy_valid_iff[of "composed p m"] composed_fields(4,5) by blast
qed

lemma distinct_map_sort: "distinct (map f (sort_key k xs)) = distinct (map f xs)"
  by (metis mset_map mset_eq_imp_distinct_iff mset_sort)

lemma decision_sort:
  assumes "distinct (map mmo_Method os)"
  shows "find (\<lambda>o'. mmo_Method o' = x) (sort_key mmo_Method os) = find (\<lambda>o'. mmo_Method o' = x) os"
proof -
  have u: "find (\<lambda>o'. mmo_Method o' = x) ys = Some o' \<longleftrightarrow> o' \<in> set ys \<and> mmo_Method o' = x"
    if "distinct (map mmo_Method ys)" for ys o'
    using that by (induction ys) (auto simp: image_iff)
  show ?thesis
  proof (cases "find (\<lambda>o'. mmo_Method o' = x) os")
    case None
    then have "find (\<lambda>o'. mmo_Method o' = x) (sort_key mmo_Method os) = None" by (simp add: find_None_iff)
    with None show ?thesis by simp
  next
    case (Some o')
    then have "find (\<lambda>o'. mmo_Method o' = x) (sort_key mmo_Method os) = Some o'"
      using u[OF assms] u[of "sort_key mmo_Method os"] assms by (simp add: distinct_map_sort)
    with Some show ?thesis by simp
  qed
qed

lemma method_policy_sorted:
  assumes "ManifestMethodPolicy_Validate m = None"
  shows "ManifestMethodPolicy_Validate (m\<lparr> mmp_Overrides := Some (sort_key mmo_Method (elems (mmp_Overrides m))) \<rparr>) = None"
    and "Decision (m\<lparr> mmp_Overrides := Some (sort_key mmo_Method (elems (mmp_Overrides m))) \<rparr>) = Decision m"
  using assms unfolding ManifestMethodPolicy_Validate_def check_simps
  by (auto simp: distinct_map_sort Decision_def decision_sort check_simps intro!: ext split: option.split)

lemma normalized_fields [simp]:
  "mp_SchemaVersion (normalized_policy p) = mp_SchemaVersion p" "mp_Name (normalized_policy p) = mp_Name p"
  "mdc_Mode (mp_DestinationCeiling (normalized_policy p)) = mdc_Mode (mp_DestinationCeiling p)"
  "mset (elems (mdc_Authorities (mp_DestinationCeiling (normalized_policy p)))) = mset (elems (mdc_Authorities (mp_DestinationCeiling p)))"
  "mset (elems (mp_BaselineGrants (normalized_policy p))) = mset (elems (mp_BaselineGrants p))"
  "mset (elems (mp_BaselineTemplates (normalized_policy p))) = mset (elems (mp_BaselineTemplates p))"
  "mset (elems (mp_MCPBaselineGrants (normalized_policy p))) = mset (elems (mp_MCPBaselineGrants p))"
  "mset (elems (mp_BaselineDenies (normalized_policy p))) = mset (elems (mp_BaselineDenies p))"
  "mset (elems (mp_GraphQLEndpoints (normalized_policy p))) = mset (elems (mp_GraphQLEndpoints p))"
  "mset (elems (mp_MCPEndpoints (normalized_policy p))) = mset (elems (mp_MCPEndpoints p))"
  by (simp_all add: normalized_policy_def)

lemma normalized_sets [simp]:
  "set (elems (mdc_Authorities (mp_DestinationCeiling (normalized_policy p)))) = set (elems (mdc_Authorities (mp_DestinationCeiling p)))"
  "set (elems (mp_BaselineGrants (normalized_policy p))) = set (elems (mp_BaselineGrants p))"
  "set (elems (mp_BaselineTemplates (normalized_policy p))) = set (elems (mp_BaselineTemplates p))"
  "set (elems (mp_MCPBaselineGrants (normalized_policy p))) = set (elems (mp_MCPBaselineGrants p))"
  "set (elems (mp_BaselineDenies (normalized_policy p))) = set (elems (mp_BaselineDenies p))"
  "set (elems (mp_GraphQLEndpoints (normalized_policy p))) = set (elems (mp_GraphQLEndpoints p))"
  "set (elems (mp_MCPEndpoints (normalized_policy p))) = set (elems (mp_MCPEndpoints p))"
  by (simp_all add: normalized_policy_def)

lemma normalized_distinct [simp]:
  "distinct (map f (elems (mdc_Authorities (mp_DestinationCeiling (normalized_policy p))))) =
     distinct (map f (elems (mdc_Authorities (mp_DestinationCeiling p))))"
  "distinct (map g (elems (mp_BaselineGrants (normalized_policy p)))) = distinct (map g (elems (mp_BaselineGrants p)))"
  "distinct (map h (elems (mp_BaselineTemplates (normalized_policy p)))) = distinct (map h (elems (mp_BaselineTemplates p)))"
  "distinct (map i (elems (mp_MCPBaselineGrants (normalized_policy p)))) = distinct (map i (elems (mp_MCPBaselineGrants p)))"
  "distinct (map g (elems (mp_BaselineDenies (normalized_policy p)))) = distinct (map g (elems (mp_BaselineDenies p)))"
  "distinct (map g (elems (mp_GraphQLEndpoints (normalized_policy p)))) = distinct (map g (elems (mp_GraphQLEndpoints p)))"
  "distinct (map g (elems (mp_MCPEndpoints (normalized_policy p)))) = distinct (map g (elems (mp_MCPEndpoints p)))"
  by (simp_all add: normalized_policy_def distinct_map_sort)

lemma normalized_method_policy:
  "mp_MethodPolicy (normalized_policy p) =
     (mp_MethodPolicy p)\<lparr> mmp_Overrides := Some (sort_key mmo_Method (elems (mmp_Overrides (mp_MethodPolicy p)))) \<rparr>"
  by (simp add: normalized_policy_def)

lemma normalized_reaches:
  assumes "ManifestMethodPolicy_Validate (mp_MethodPolicy p) = None"
  shows "reaches (normalized_policy p) r = reaches p r"
  using method_policy_sorted(2)[OF assms]
  by (simp add: reaches_def method_denied_def normalized_method_policy contextPolicyRuleInsideDestination_def
      contextPolicyContainsAuthority_def list_ex_iff)

lemma normalized_valid:
  assumes v: "ManifestPolicy_Validate p = None"
  shows "ManifestPolicy_Validate (normalized_policy p) = None"
proof -
  note p = v[unfolded policy_valid_iff]
  have m: "ManifestMethodPolicy_Validate (mp_MethodPolicy p) = None" using p by blast
  note r = normalized_reaches[OF m]
  have "elems (mdc_Authorities (mp_DestinationCeiling (normalized_policy p))) = [] \<longleftrightarrow>
      elems (mdc_Authorities (mp_DestinationCeiling p)) = []"
    using normalized_sets(1)[of p] by (metis set_empty)
  then have "frame_ok (normalized_policy p)" using p by (simp add: frame_ok_def) (simp add: normalized_policy_def)
  moreover have "explicit (normalized_policy p)" by (simp add: explicit_def normalized_policy_def)
  moreover have "ManifestMethodPolicy_Validate (mp_MethodPolicy (normalized_policy p)) = None"
    using method_policy_sorted(1)[OF m] by (simp add: normalized_method_policy)
  moreover have "grant_rows (normalized_policy p) = None" "template_rows (normalized_policy p) = None" "mcp_rows (normalized_policy p) = None"
    using p by (simp_all add: check_simps r)
  moreover have "plain_rows (normalized_policy p) (elems (mp_BaselineDenies (normalized_policy p))) = None"
    "plain_rows (normalized_policy p) (elems (mp_GraphQLEndpoints (normalized_policy p))) = None"
    "plain_rows (normalized_policy p) (elems (mp_MCPEndpoints (normalized_policy p))) = None"
    using p by (simp_all add: check_simps r)
  moreover have "endpoints_apart (normalized_policy p)" using p by (simp add: endpoints_apart_def)
  ultimately show ?thesis unfolding policy_valid_iff by blast
qed

section \<open>Properties\<close>

text \<open>C17: Composing a valid policy with a method policy succeeds exactly when the method policy is valid and denies the
  method of no exact Deny rule. The result is valid, decides every method as the new method policy does, keeps the
  ceiling and the exact Denies, and keeps of the grants, templates and endpoints exactly those whose method is not
  denied: it never adds authority. When an exact Deny has a denied method the composition fails instead.\<close>

theorem compose_method_policy:
  assumes v: "ManifestPolicy_Validate p = None" and marshal: "\<And>q. \<exists>d. marshal q = Inr d"
  shows "if ManifestMethodPolicy_Validate (ManifestMethodPolicy_Clone m) = None \<and>
        (\<forall>r \<in> set (elems (mp_BaselineDenies p)). Decision m (mr_Method r) \<noteq> ''deny'')
    then \<exists>q. ComposeContextMethodPolicy marshal p m = Inr q \<and> ManifestPolicy_Validate q = None \<and>
      Decision (mp_MethodPolicy q) = Decision m \<and>
      mset (elems (mdc_Authorities (mp_DestinationCeiling q))) = mset (elems (mdc_Authorities (mp_DestinationCeiling p))) \<and>
      mset (elems (mp_BaselineDenies q)) = mset (elems (mp_BaselineDenies p)) \<and>
      mset (elems (mp_BaselineGrants q)) = filter_mset (\<lambda>r. Decision m (mr_Method r) \<noteq> ''deny'') (mset (elems (mp_BaselineGrants p))) \<and>
      mset (elems (mp_BaselineTemplates q)) = filter_mset (\<lambda>r. Decision m (mr_Method r) \<noteq> ''deny'') (mset (elems (mp_BaselineTemplates p))) \<and>
      mset (elems (mp_MCPBaselineGrants q)) = filter_mset (\<lambda>r. Decision m (mr_Method r) \<noteq> ''deny'') (mset (elems (mp_MCPBaselineGrants p))) \<and>
      mset (elems (mp_GraphQLEndpoints q)) = filter_mset (\<lambda>r. Decision m (mr_Method r) \<noteq> ''deny'') (mset (elems (mp_GraphQLEndpoints p))) \<and>
      mset (elems (mp_MCPEndpoints q)) = filter_mset (\<lambda>r. Decision m (mr_Method r) \<noteq> ''deny'') (mset (elems (mp_MCPEndpoints p)))
    else \<exists>e. ComposeContextMethodPolicy marshal p m = Inl e"
proof -
  let ?c = "composed p m"
  have c: "ManifestPolicy_Validate ?c = None \<longleftrightarrow> ManifestMethodPolicy_Validate (ManifestMethodPolicy_Clone m) = None \<and>
      (\<forall>r \<in> set (elems (mp_BaselineDenies p)). Decision m (mr_Method r) \<noteq> ''deny'')"
    using composed_valid[OF v, of m] by (simp only: method_denied_def)
  show ?thesis
  proof (cases "ManifestPolicy_Validate ?c")
    case None
    obtain d where "marshal (normalized_policy ?c) = Inr d" using marshal by blast
    then have "ComposeContextMethodPolicy marshal p m = Inr (normalized_policy ?c)"
      using v None by (simp add: ComposeContextMethodPolicy_def NormalizeContextPolicy_def check_simps Let_def)
    moreover have "Decision (mp_MethodPolicy (normalized_policy ?c)) = Decision m"
      using None unfolding policy_valid_iff by (simp add: normalized_method_policy method_policy_sorted(2))
    ultimately show ?thesis
      using None normalized_valid[OF None] unfolding c[symmetric]
      by (simp only: if_True simp_thms) (simp add: method_denied_def)
  next
    case (Some e)
    then have "ComposeContextMethodPolicy marshal p m = Inl e"
      using v by (simp add: ComposeContextMethodPolicy_def NormalizeContextPolicy_def guarded_def and_then_def)
    with Some show ?thesis unfolding c[symmetric] by simp
  qed
qed

definition example_rule :: "string \<Rightarrow> ManifestPolicyExactRule" where
  "example_rule method =
     \<lparr> mpa_Scheme = ''https'', mpa_Host = ''api.tobari.dev'', mpa_Port = 443, mr_Method = method, mr_Path = ''/v1'',
       mer_Protocol = [], mer_GraphQLOperationType = [], mer_GraphQLRootField = [] \<rparr>"

definition example_policy :: ManifestPolicy where
  "example_policy =
     \<lparr> mp_SchemaVersion = 1, mp_Name = ''default'',
       mp_DestinationCeiling = \<lparr> mdc_Mode = ''public_https'', mdc_Authorities = Some [] \<rparr>,
       mp_MethodPolicy = \<lparr> mmp_Default = ''exact_review'', mmp_Overrides = Some [] \<rparr>,
       mp_BaselineGrants = Some [example_rule ''GET'', example_rule ''PUT''], mp_BaselineTemplates = Some [],
       mp_MCPBaselineGrants = Some [], mp_BaselineDenies = Some [example_rule ''DELETE''], mp_GraphQLEndpoints = Some [],
       mp_MCPEndpoints = Some [] \<rparr>"

definition example_denying :: "string \<Rightarrow> ManifestMethodPolicy" where
  "example_denying method =
     \<lparr> mmp_Default = ''exact_review'', mmp_Overrides = Some [\<lparr> mmo_Method = method, mmo_Decision = ''deny'' \<rparr>] \<rparr>"

theorem compose_method_policy_witness:
  "(\<exists>q. ComposeContextMethodPolicy (\<lambda>_. Inr []) example_policy (example_denying ''PUT'') = Inr q \<and>
      mset (elems (mp_BaselineGrants q)) = {# example_rule ''GET'' #}) \<and>
   (\<exists>e. ComposeContextMethodPolicy (\<lambda>_. Inr []) example_policy (example_denying ''DELETE'') = Inl e)"
proof -
  have "ManifestPolicy_Validate example_policy = None" by code_simp
  note t = compose_method_policy[OF this, of "\<lambda>_. Inr []"]
  have "ManifestMethodPolicy_Validate (ManifestMethodPolicy_Clone (example_denying ''PUT'')) = None"
    "list_all (\<lambda>r. Decision (example_denying ''PUT'') (mr_Method r) \<noteq> ''deny'') (elems (mp_BaselineDenies example_policy))"
    "\<not> list_all (\<lambda>r. Decision (example_denying ''DELETE'') (mr_Method r) \<noteq> ''deny'') (elems (mp_BaselineDenies example_policy))"
    "Decision (example_denying ''PUT'') (mr_Method (example_rule ''GET'')) \<noteq> ''deny''"
    "Decision (example_denying ''PUT'') (mr_Method (example_rule ''PUT'')) = ''deny''"
    "elems (mp_BaselineGrants example_policy) = [example_rule ''GET'', example_rule ''PUT'']" by code_simp+
  with t[of "example_denying ''PUT''"] t[of "example_denying ''DELETE''"] show ?thesis
    by (simp only: list_all_iff if_True if_False simp_thms) (auto split: if_splits)
qed

end
