(* ===== verification/Go_JSON.thy ===== *)
theory Go_JSON
  imports Go_Crypto
begin

text \<open>
  \<open>encoding/json.Marshal\<close> on the values the program encodes, and \<open>semanticDigest\<close> of
  \<open>internal/domain/tobari/context.go\<close>, which hashes that encoding. A struct is the list of its fields
  in declaration order, with the name of its \<open>json\<close> tag; a field dropped by \<open>omitempty\<close> has no
  value. The encoding of values whose strings are valid UTF-8 is unambiguous, so a semantic digest
  binds the encoded value up to a collision of SHA-256.
\<close>

section \<open>Values and their encoding\<close>

datatype json =
    JNull
  | JBool bool
  | JNumber int
  | JString string
  | JArray "json list"
  | JObject "(string \<times> json) list"

text \<open>\<open>appendString\<close> with HTML escaping: the escape of one byte below 0x80.\<close>

abbreviation DQUOTE :: char where "DQUOTE \<equiv> CHR 0x22"

definition json_plain :: "char \<Rightarrow> bool" where
  "json_plain c = (32 \<le> byte c \<and> c \<noteq> DQUOTE \<and> c \<noteq> BACKSLASH \<and> c \<noteq> CHR ''<'' \<and> c \<noteq> CHR ''>'' \<and> c \<noteq> CHR ''&'')"

definition json_escape :: "char \<Rightarrow> string" where
  "json_escape c =
     (if json_plain c then [c]
      else if c = DQUOTE \<or> c = BACKSLASH then [BACKSLASH, c]
      else if byte c = 8 then [BACKSLASH, CHR ''b'']
      else if byte c = 12 then [BACKSLASH, CHR ''f'']
      else if byte c = 10 then [BACKSLASH, CHR ''n'']
      else if byte c = 13 then [BACKSLASH, CHR ''r'']
      else if byte c = 9 then [BACKSLASH, CHR ''t'']
      else [BACKSLASH, CHR ''u'', CHR ''0'', CHR ''0'', hex_digit (byte c div 16), hex_digit (byte c mod 16)])"

fun json_body :: "string \<Rightarrow> string" where
  "json_body [] = []"
| "json_body (c # cs) =
     (if byte c < 128 then json_escape c @ json_body cs
      else (case utf8_next (c # cs) of
              (None, _) \<Rightarrow> BACKSLASH # ''ufffd'' @ json_body cs
            | (Some r, w) \<Rightarrow>
                (if r = 8232 \<or> r = 8233 then BACKSLASH # ''u202'' @ [hex_digit (r mod 16)] else take w (c # cs))
                @ json_body (drop (w - 1) cs)))"

definition json_string :: "string \<Rightarrow> string" where
  "json_string s = DQUOTE # json_body s @ [DQUOTE]"

primrec json_Marshal :: "json \<Rightarrow> string" where
  "json_Marshal JNull = ''null''"
| "json_Marshal (JBool b) = (if b then ''true'' else ''false'')"
| "json_Marshal (JNumber n) = strconv_Itoa n"
| "json_Marshal (JString s) = json_string s"
| "json_Marshal (JArray xs) = ''['' @ strings_Join (map json_Marshal xs) '','' @ '']''"
| "json_Marshal (JObject fs) =
     ''{'' @ strings_Join (map (\<lambda>(k, v). json_string k @ '':'' @ v) (map (map_prod id json_Marshal) fs)) '','' @ ''}''"

text \<open>Struct fields: a field is kept, or dropped by \<open>omitempty\<close>.\<close>

definition json_struct :: "(string \<times> json option) list \<Rightarrow> json" where
  "json_struct fs = JObject (concat (map (\<lambda>(k, v). case v of None \<Rightarrow> [] | Some j \<Rightarrow> [(k, j)]) fs))"

definition json_omitempty :: "string \<Rightarrow> json option" where
  "json_omitempty s = (if s = [] then None else Some (JString s))"

text \<open>A slice that may be \<open>nil\<close>, which encodes as \<open>null\<close>, and the same under \<open>omitempty\<close>.\<close>

definition json_slice :: "('a \<Rightarrow> json) \<Rightarrow> 'a list option \<Rightarrow> json" where
  "json_slice f xs = (case xs of None \<Rightarrow> JNull | Some ys \<Rightarrow> JArray (map f ys))"

definition json_slice_omitempty :: "('a \<Rightarrow> json) \<Rightarrow> 'a list option \<Rightarrow> json option" where
  "json_slice_omitempty f xs = (if elems xs = [] then None else Some (JArray (map f (elems xs))))"

section \<open>Semantic digests\<close>

definition semanticDigest :: "json \<Rightarrow> string" where
  "semanticDigest j = ''sha256:'' @ hex_EncodeToString (sha256_Sum256 (json_Marshal j))"

text \<open>\<open>SHA-256\<close> does not collide on the encodings of two values.\<close>

definition no_collision :: "json \<Rightarrow> json \<Rightarrow> bool" where
  "no_collision a b = (sha256_Sum256 (json_Marshal a) = sha256_Sum256 (json_Marshal b) \<longrightarrow> json_Marshal a = json_Marshal b)"

section \<open>The encoding is unambiguous\<close>

text \<open>The reader of the body of a string literal, up to the closing quote.\<close>

definition hex_digit_value :: "char \<Rightarrow> nat" where
  "hex_digit_value c = (if is_digit c then byte c - 48 else byte c - 87)"

fun json_read :: "string \<Rightarrow> string \<times> string" where
  "json_read [] = ([], [])"
| "json_read (c # cs) =
     (if c = DQUOTE then ([], cs)
      else if c = BACKSLASH then
        (case cs of
           [] \<Rightarrow> ([], [])
         | e # r \<Rightarrow>
             if e = CHR ''u'' then
               (let v = hex_digit_value (r ! 0) * 4096 + hex_digit_value (r ! 1) * 256 + hex_digit_value (r ! 2) * 16 + hex_digit_value (r ! 3);
                    rest = json_read (drop 4 r)
                in ((if v < 128 then [char_of v] else [char_of (226::nat), char_of (128::nat), char_of (160 + v mod 16)])
                    @ fst rest, snd rest))
             else
               (let rest = json_read r;
                    d = (if e = CHR ''b'' then char_of (8::nat) else if e = CHR ''f'' then char_of (12::nat)
                         else if e = CHR ''n'' then char_of (10::nat) else if e = CHR ''r'' then char_of (13::nat)
                         else if e = CHR ''t'' then char_of (9::nat) else e)
                in (d # fst rest, snd rest)))
      else (let rest = json_read cs in (c # fst rest, snd rest)))"

declare json_read.simps(2) [simp del]

lemma hex_digit_value_hex_digit: "n < 16 \<Longrightarrow> hex_digit_value (hex_digit n) = n"
  by (auto simp: hex_digit_value_def hex_digit_def is_digit_def byte_def)

lemma json_read_quote: "json_read (DQUOTE # r) = ([], r)"
  by (simp add: json_read.simps)

lemma json_read_copy:
  "c \<noteq> DQUOTE \<Longrightarrow> c \<noteq> BACKSLASH \<Longrightarrow> json_read (c # s) = (c # fst (json_read s), snd (json_read s))"
  by (simp add: json_read.simps Let_def)

lemma json_read_unicode:
  assumes "a < 16" "b < 16" "d < 16" "e < 16"
  shows "json_read (BACKSLASH # CHR ''u'' # hex_digit a # hex_digit b # hex_digit d # hex_digit e # s) =
    (let v = a * 4096 + b * 256 + d * 16 + e
     in (if v < 128 then [char_of v] else [char_of (226::nat), char_of (128::nat), char_of (160 + v mod 16)]) @ fst (json_read s),
    snd (json_read s))"
  using assms by (simp add: json_read.simps hex_digit_value_hex_digit Let_def)

lemma json_read_escape:
  assumes "byte c < 128"
  shows "json_read (json_escape c @ s) = (c # fst (json_read s), snd (json_read s))"
proof (cases "json_plain c")
  case True
  then show ?thesis by (auto simp: json_escape_def json_plain_def intro!: json_read_copy)
next
  case False
  have zero: "CHR ''0'' = hex_digit 0" by code_simp
  have same: "char_of (byte c) = c" by (simp add: byte_def)
  have short: "json_read (BACKSLASH # e # s) =
      ((if e = CHR ''b'' then char_of (8::nat) else if e = CHR ''f'' then char_of (12::nat)
        else if e = CHR ''n'' then char_of (10::nat) else if e = CHR ''r'' then char_of (13::nat)
        else if e = CHR ''t'' then char_of (9::nat) else e) # fst (json_read s), snd (json_read s))"
    if "e \<noteq> CHR ''u''" for e
    using that by (simp add: json_read.simps Let_def)
  consider "c = DQUOTE \<or> c = BACKSLASH" | "byte c \<in> {8, 9, 10, 12, 13}"
    | "c \<noteq> DQUOTE" "c \<noteq> BACKSLASH" "byte c \<notin> {8, 9, 10, 12, 13}" by blast
  then show ?thesis
  proof cases
    case 1
    then show ?thesis using False by (auto simp: json_escape_def short)
  next
    case 2
    then have "c \<noteq> DQUOTE" "c \<noteq> BACKSLASH" by (auto simp: byte_def)
    moreover have "c = char_of (byte c)" by (simp add: same)
    ultimately show ?thesis using False 2
      by (elim insertE emptyE) (simp_all add: json_escape_def short)
  next
    case 3
    have v: "byte c div 16 * 16 + byte c mod 16 = byte c" by simp
    have "json_escape c = BACKSLASH # CHR ''u'' # hex_digit 0 # hex_digit 0 # hex_digit (byte c div 16) # [hex_digit (byte c mod 16)]"
      using False 3 by (simp add: json_escape_def zero)
    then show ?thesis
      using assms by (simp add: json_read_unicode Let_def v same)
  qed
qed

lemma json_read_copies:
  "\<forall>c \<in> set w. 128 \<le> byte c \<Longrightarrow> json_read (w @ s) = (w @ fst (json_read s), snd (json_read s))"
proof (induction w)
  case (Cons c w)
  then have "c \<noteq> DQUOTE" "c \<noteq> BACKSLASH" by (auto simp: byte_def)
  then show ?case using Cons by (simp add: json_read_copy)
qed simp

text \<open>The line separators \<open>U+2028\<close> and \<open>U+2029\<close> have one spelling in UTF-8.\<close>

lemma separator_digits:
  fixes x y z :: nat
  assumes "y \<le> 63" "z \<le> 63" "x * 4096 + y * 64 + z = r" "r = 8232 \<or> r = 8233"
  shows "x = 2" "y = 0" "z = 32 + r mod 16"
proof -
  show x: "x = 2" using assms by linarith
  show y: "y = 0" using assms x by linarith
  show "z = 32 + r mod 16" using assms x y by auto
qed

lemma utf8_next_separator:
  assumes "utf8_next (c # cs) = (Some r, w)" and "r = 8232 \<or> r = 8233"
  shows "take w (c # cs) = [char_of (226::nat), char_of (128::nat), char_of (160 + r mod 16)] \<and> w = 3"
proof -
  have le: "byte x < 256" for x by (simp add: byte_def)
  have b: "\<not> byte c < 128" "\<not> (194 \<le> byte c \<and> byte c \<le> 223 \<and> 2 \<le> length (c # cs) \<and> utf8_cont ((c # cs) ! 1))"
    using assms le[of "cs ! 0"] by (auto simp: utf8_next_def Let_def utf8_cont_def split: if_splits)
  have four: "(byte c - 240) * 262144 + (byte d - 128) * 4096 + x + y \<noteq> r" if "240 \<le> byte c" "utf8_second4 c d" for d x y
    using assms(2) that by (auto simp: utf8_second4_def utf8_cont_def split: if_splits)
  from assms b four[of "cs ! 0" "(byte (cs ! 1) - 128) * 64" "byte (cs ! 2) - 128"] have c3: "224 \<le> byte c" "byte c \<le> 239" "3 \<le> length (c # cs)"
    "utf8_second3 c (cs ! 0)" "utf8_cont (cs ! 1)" "w = 3"
    "r = (byte c - 224) * 4096 + (byte (cs ! 0) - 128) * 64 + (byte (cs ! 1) - 128)"
    by (auto simp: utf8_next_def Let_def numeral_2_eq_2 split: if_splits)
  have "128 \<le> byte (cs ! 0)" "byte (cs ! 0) \<le> 191" "128 \<le> byte (cs ! 1)" "byte (cs ! 1) \<le> 191"
    using c3 by (auto simp: utf8_second3_def utf8_cont_def split: if_splits)
  then have "byte (cs ! 0) - 128 \<le> 63" "byte (cs ! 1) - 128 \<le> 63" by simp_all
  from separator_digits[OF this c3(7)[symmetric] assms(2)] c3(1) \<open>128 \<le> byte (cs ! 0)\<close> \<open>128 \<le> byte (cs ! 1)\<close>
  have v: "byte c = 226" "byte (cs ! 0) = 128" "byte (cs ! 1) = 160 + r mod 16" by linarith+
  obtain x y z where cs: "cs = x # y # z" using c3(3) by (cases cs; cases "tl cs") auto
  have "char_of (byte a) = a" for a by (simp add: byte_def)
  then have "c = char_of (226::nat)" "x = char_of (128::nat)" "y = char_of (160 + r mod 16)"
    using v unfolding cs by (metis nth_Cons_0 nth_Cons_Suc One_nat_def)+
  then show ?thesis using c3(6) cs by simp
qed

lemma json_read_body: "utf8_ValidString s \<Longrightarrow> json_read (json_body s @ DQUOTE # r) = (s, r)"
proof (induction s rule: json_body.induct)
  case (2 c cs)
  show ?case
  proof (cases "byte c < 128")
    case True
    with "2.prems" have "utf8_ValidString cs" by (simp add: utf8_ValidString_def utf8_next_ascii)
    then show ?thesis using "2.IH"(1) True by (simp add: json_read_escape)
  next
    case False
    obtain q w where n: "utf8_next (c # cs) = (q, w)" by fastforce
    with "2.prems" obtain x where x: "q = Some x" and v: "utf8_ValidString (drop (w - 1) cs)"
      by (auto simp: utf8_ValidString_def)
    note nx = n[unfolded x]
    have ih: "json_read (json_body (drop (w - 1) cs) @ DQUOTE # r) = (drop (w - 1) cs, r)"
      using "2.IH"(3)[OF False nx[symmetric]] v by simp
    have w: "w \<noteq> 0" using nx by (auto simp: utf8_next_def Let_def split: if_splits)
    have split: "take w (c # cs) @ drop (w - 1) cs = c # cs" using w by (cases w) simp_all
    have high: "\<forall>d \<in> set (take w (c # cs)). 128 \<le> byte d"
      using utf8_next_absorbs[OF nx] False w by (cases w) auto
    show ?thesis
    proof (cases "x = 8232 \<or> x = 8233")
      case True
      have d: "CHR ''2'' = hex_digit 2" "CHR ''0'' = hex_digit 0" by code_simp+
      have "take w (c # cs) = [char_of (226::nat), char_of (128::nat), char_of (160 + x mod 16)]" "w = 3"
        using utf8_next_separator[OF nx True] by auto
      then have "json_read (json_body (c # cs) @ DQUOTE # r) = (take w (c # cs) @ drop (w - 1) cs, r)"
        using False nx ih True by (auto simp: d json_read_unicode Let_def)
      then show ?thesis by (simp only: split)
    next
      case f: False
      then have "json_read (json_body (c # cs) @ DQUOTE # r) = (take w (c # cs) @ drop (w - 1) cs, r)"
        using False nx ih json_read_copies[OF high] by simp
      then show ?thesis by (simp only: split)
    qed
  qed
qed (simp add: json_read_quote)

lemma json_string_inject:
  assumes "utf8_ValidString s" "utf8_ValidString t" "json_string s @ r = json_string t @ u"
  shows "s = t \<and> r = u"
proof -
  have "json_read (json_body s @ DQUOTE # r) = json_read (json_body t @ DQUOTE # u)"
    using assms(3) by (simp add: json_string_def)
  then show ?thesis using assms by (simp add: json_read_body)
qed

primrec json_valid :: "json \<Rightarrow> bool" where
  "json_valid JNull = True"
| "json_valid (JBool b) = True"
| "json_valid (JNumber n) = True"
| "json_valid (JString s) = utf8_ValidString s"
| "json_valid (JArray xs) = list_all id (map json_valid xs)"
| "json_valid (JObject fs) = list_all (\<lambda>(k, v). utf8_ValidString k \<and> v) (map (map_prod id json_valid) fs)"

text \<open>What may follow a value inside an encoding.\<close>

definition delimited :: "string \<Rightarrow> bool" where
  "delimited r = (r = [] \<or> hd r = CHR '','' \<or> hd r = CHR '']'' \<or> hd r = CHR ''}'')"

definition prefix_free :: "('a \<Rightarrow> string) \<Rightarrow> 'a \<Rightarrow> 'a set \<Rightarrow> bool" where
  "prefix_free f x Y = (\<forall>y \<in> Y. \<forall>r u. delimited r \<longrightarrow> delimited u \<longrightarrow> f x @ r = f y @ u \<longrightarrow> x = y \<and> r = u)"

lemma prefix_freeD:
  "prefix_free f x Y \<Longrightarrow> y \<in> Y \<Longrightarrow> delimited r \<Longrightarrow> delimited u \<Longrightarrow> f x @ r = f y @ u \<Longrightarrow> x = y \<and> r = u"
  by (simp add: prefix_free_def)

lemma Join_concat: "strings_Join (x # xs) sep = x @ concat (map (\<lambda>y. sep @ y) xs)"
  by (induction xs arbitrary: x) simp_all

text \<open>Sequences of prefix-free items between brackets are read back item by item.\<close>

lemma items_inject:
  assumes "\<And>x. x \<in> set xs \<Longrightarrow> prefix_free f x Y" "set ys \<subseteq> Y" "c = CHR '']'' \<or> c = CHR ''}''"
    and "concat (map (\<lambda>y. '','' @ f y) xs) @ c # r = concat (map (\<lambda>y. '','' @ f y) ys) @ c # u"
  shows "xs = ys \<and> r = u"
  using assms
proof (induction xs arbitrary: ys)
  case Nil
  then show ?case by (cases ys) auto
next
  case (Cons x xs)
  then obtain y zs where ys: "ys = y # zs" by (cases ys) auto
  let ?t = "\<lambda>zs r. concat (map (\<lambda>y. '','' @ f y) zs) @ c # r"
  have d: "delimited (?t zs r)" for zs r using Cons.prems(3) by (cases zs) (auto simp: delimited_def)
  have "f x @ ?t xs r = f y @ ?t zs u" using Cons.prems(4) ys by simp
  moreover have "prefix_free f x Y" "y \<in> Y" using Cons.prems(1,2) ys by simp_all
  ultimately have "x = y \<and> ?t xs r = ?t zs u" using d by (blast dest: prefix_freeD)
  then show ?case using Cons.IH[of zs] Cons.prems ys by auto
qed

lemma join_inject:
  assumes "\<And>x. x \<in> set xs \<Longrightarrow> prefix_free f x Y" "set ys \<subseteq> Y" "c = CHR '']'' \<or> c = CHR ''}''"
    and "\<And>x. f x \<noteq> [] \<and> \<not> delimited (f x)"
    and "strings_Join (map f xs) '','' @ c # r = strings_Join (map f ys) '','' @ c # u"
  shows "xs = ys \<and> r = u"
proof -
  have ne: "f x @ t \<noteq> c # w" for x t w
    using assms(3) assms(4)[of x] by (cases "f x") (auto simp: delimited_def)
  let ?t = "\<lambda>zs r. concat (map (\<lambda>y. '','' @ f y) zs) @ c # r"
  show ?thesis
  proof (cases xs; cases ys)
    fix x xs' y ys' assume e: "xs = x # xs'" "ys = y # ys'"
    have d: "delimited (?t zs r)" for zs r using assms(3) by (cases zs) (auto simp: delimited_def)
    have "f x @ ?t xs' r = f y @ ?t ys' u" using assms(5) by (simp add: e Join_concat comp_def)
    moreover have "prefix_free f x Y" "y \<in> Y" using assms(1,2) e by simp_all
    ultimately have xy: "x = y \<and> ?t xs' r = ?t ys' u" using d by (blast dest: prefix_freeD)
    then have "xs' = ys' \<and> r = u"
      using items_inject[of xs' f Y ys' c r u] assms(1-3) e by auto
    with xy e show ?thesis by simp
  qed (use assms(5) ne ne[symmetric] in \<open>auto simp: Join_concat\<close>)
qed

lemma Itoa_first: "strconv_Itoa n \<noteq> []" "hd (strconv_Itoa n) = CHR ''-'' \<or> is_digit (hd (strconv_Itoa n))"
proof -
  have ne: "nat_digits m \<noteq> []" for m by (subst nat_digits.simps) simp
  then have "is_digit (hd (nat_digits m))" for m
    using nat_digits_all[of m] by (cases "nat_digits m") simp_all
  then show "strconv_Itoa n \<noteq> []" "hd (strconv_Itoa n) = CHR ''-'' \<or> is_digit (hd (strconv_Itoa n))"
    using ne by (simp_all add: strconv_Itoa_def)
qed

lemma Itoa_delimited:
  assumes "strconv_Itoa m @ r = strconv_Itoa n @ u" "delimited r" "delimited u"
  shows "m = n \<and> r = u"
proof -
  let ?P = "\<lambda>c. is_digit c \<or> c = CHR ''-''"
  have all: "\<forall>c \<in> set (strconv_Itoa k). ?P c" for k
    using nat_digits_all by (auto simp: strconv_Itoa_def list_all_iff)
  have stop: "takeWhile ?P s = []" if "delimited s" for s
    using that by (cases s) (auto simp: delimited_def is_digit_def byte_def)
  have "takeWhile ?P (strconv_Itoa k @ s) = strconv_Itoa k" if "delimited s" for k s
    using all[of k] stop[OF that] by (simp add: takeWhile_append2)
  from this[OF assms(2), of m] this[OF assms(3), of n] assms(1)
  have "strconv_Itoa m = strconv_Itoa n" by simp
  with assms(1) show ?thesis by (auto dest: Itoa_inject)
qed

text \<open>The first byte of an encoding tells the kind of the value.\<close>

lemma Marshal_first:
  "json_Marshal j \<noteq> []"
  "hd (json_Marshal j) =
     (case j of JNull \<Rightarrow> CHR ''n'' | JBool b \<Rightarrow> (if b then CHR ''t'' else CHR ''f'') | JNumber n \<Rightarrow> hd (strconv_Itoa n)
      | JString s \<Rightarrow> DQUOTE | JArray xs \<Rightarrow> CHR ''['' | JObject fs \<Rightarrow> CHR ''{'')"
  by (cases j; simp add: Itoa_first json_string_def)+

lemma Marshal_not_delimited: "json_Marshal j \<noteq> [] \<and> \<not> delimited (json_Marshal j)"
proof -
  have "hd (strconv_Itoa n) \<noteq> CHR '','' \<and> hd (strconv_Itoa n) \<noteq> CHR '']'' \<and> hd (strconv_Itoa n) \<noteq> CHR ''}''" for n
    using Itoa_first(2)[of n] by (auto simp: is_digit_def byte_def)
  then show ?thesis
    using Marshal_first[of j] by (auto simp: delimited_def split: json.splits if_splits)
qed

lemma same_kind:
  assumes "json_Marshal a @ r = json_Marshal b @ u"
  shows "case a of JNull \<Rightarrow> b = JNull | JBool x \<Rightarrow> b = JBool x | JNumber n \<Rightarrow> (\<exists>m. b = JNumber m)
    | JString s \<Rightarrow> (\<exists>t. b = JString t) | JArray xs \<Rightarrow> (\<exists>ys. b = JArray ys) | JObject fs \<Rightarrow> (\<exists>gs. b = JObject gs)"
proof -
  have "hd (json_Marshal a) = hd (json_Marshal b)"
    using assms Marshal_first(1)[of a] Marshal_first(1)[of b] by (metis hd_append2)
  moreover have "hd (strconv_Itoa n) \<notin> set ''ntf[{'' \<and> hd (strconv_Itoa n) \<noteq> DQUOTE" for n
    using Itoa_first(2)[of n] by (auto simp: is_digit_def byte_def)
  ultimately show ?thesis
    by (auto simp: Marshal_first(2) split: json.splits if_splits)
qed

lemma Marshal_object:
  "json_Marshal (JObject fs) = ''{'' @ strings_Join (map (\<lambda>(k, v). json_string k @ '':'' @ json_Marshal v) fs) '','' @ ''}''"
proof -
  have "map (\<lambda>(k, v). json_string k @ '':'' @ v) (map (map_prod id json_Marshal) fs) =
      map (\<lambda>(k, v). json_string k @ '':'' @ json_Marshal v) fs" by auto
  then show ?thesis by (simp only: json_Marshal.simps)
qed

lemma Marshal_prefix_free:
  assumes "json_valid a"
  shows "prefix_free json_Marshal a {b. json_valid b}"
  unfolding prefix_free_def
proof (intro ballI allI impI)
  fix b r u
  assume "b \<in> {b. json_valid b}" "delimited r" "delimited u" "json_Marshal a @ r = json_Marshal b @ u"
  with assms show "a = b \<and> r = u"
  proof (induction a arbitrary: b r u)
    case (JNumber n)
    obtain m where b: "b = JNumber m" using same_kind[OF JNumber.prems(5)] by auto
    show ?case using Itoa_delimited[of n r m u] JNumber.prems(3-5) by (simp add: b)
  next
    case (JString s)
    obtain t where b: "b = JString t" using same_kind[OF JString.prems(5)] by auto
    show ?case using json_string_inject[of s t r u] JString.prems by (simp add: b)
  next
    case (JArray xs)
    obtain ys where b: "b = JArray ys" using same_kind[OF JArray.prems(5)] by auto
    have "prefix_free json_Marshal x {b. json_valid b}" if "x \<in> set xs" for x
      unfolding prefix_free_def using JArray.IH[OF that] JArray.prems(1) that by (auto simp: list_all_iff)
    moreover have "set ys \<subseteq> {b. json_valid b}" using JArray.prems(2) by (auto simp: b list_all_iff)
    ultimately have "xs = ys \<and> r = u"
      using join_inject[of xs json_Marshal "{b. json_valid b}" ys "CHR '']''" r u] JArray.prems(5) Marshal_not_delimited
      by (simp add: b)
    then show ?case by (simp add: b)
  next
    case (JObject fs)
    obtain gs where b: "b = JObject gs" using same_kind[OF JObject.prems(5)] by auto
    let ?f = "\<lambda>(k, v). json_string k @ '':'' @ json_Marshal v"
    let ?V = "{(k, v). utf8_ValidString k \<and> json_valid v}"
    have "prefix_free ?f p ?V" if p: "p \<in> set fs" for p
      unfolding prefix_free_def
    proof (intro ballI allI impI)
      fix q r u assume q: "q \<in> ?V" "delimited r" "delimited u" "?f p @ r = ?f q @ u"
      obtain k v k' v' where kv: "p = (k, v)" "q = (k', v')" by (cases p; cases q)
      have ok: "utf8_ValidString k" "json_valid v" "utf8_ValidString k'" "json_valid v'"
        using JObject.prems(1) p q(1) by (auto simp: kv list_all_iff)
      have "k = k' \<and> '':'' @ json_Marshal v @ r = '':'' @ json_Marshal v' @ u"
        using json_string_inject[of k k' "'':'' @ json_Marshal v @ r" "'':'' @ json_Marshal v' @ u"] ok q(4) by (simp add: kv)
      then show "p = q \<and> r = u" using JObject.IH[OF p, of v v' r u] ok q kv by auto
    qed
    moreover have "set gs \<subseteq> ?V" using JObject.prems(2) by (auto simp: b list_all_iff)
    moreover have "?f p \<noteq> [] \<and> \<not> delimited (?f p)" for p by (cases p) (simp add: json_string_def delimited_def)
    moreover have "strings_Join (map ?f fs) '','' @ CHR ''}'' # r = strings_Join (map ?f gs) '','' @ CHR ''}'' # u"
      using JObject.prems(5) unfolding b Marshal_object by (simp only: append_Cons append_Nil append_assoc list.inject)
    ultimately have "fs = gs \<and> r = u"
      using join_inject[of fs ?f ?V gs "CHR ''}''" r u] by blast
    then show ?case by (simp add: b)
  next
    case JNull
    then show ?case using same_kind[OF JNull.prems(5)] by simp
  next
    case (JBool x)
    then show ?case using same_kind[OF JBool.prems(5)] by simp
  qed
qed

lemma Marshal_inject:
  assumes "json_valid a" "json_valid b" "json_Marshal a = json_Marshal b"
  shows "a = b"
  using prefix_freeD[OF Marshal_prefix_free[OF assms(1)], of b "[]" "[]"] assms(2,3) by (simp add: delimited_def)

section \<open>What a digest binds\<close>

lemma semanticDigest_pattern: "prefixed_hex ''sha256:'' 64 (semanticDigest j)"
proof -
  have "hex_string 64 (hex_EncodeToString (sha256_Sum256 (json_Marshal j)))"
    using hex_EncodeToString_hex[of "sha256_Sum256 (json_Marshal j)"] Sum256_bytes by (simp add: length_Sum256)
  then show ?thesis unfolding semanticDigest_def by (simp only: prefixed_hex_append)
qed

lemma hex_digit_inject: "a < 16 \<Longrightarrow> b < 16 \<Longrightarrow> hex_digit a = hex_digit b \<Longrightarrow> a = b"
  by (metis hex_digit_value_hex_digit)

lemma hex_EncodeToString_inject:
  "\<forall>b \<in> set xs. b < 256 \<Longrightarrow> \<forall>b \<in> set ys. b < 256 \<Longrightarrow> hex_EncodeToString xs = hex_EncodeToString ys \<Longrightarrow> xs = ys"
proof (induction xs arbitrary: ys)
  case Nil
  then show ?case by (cases ys) (auto simp: hex_EncodeToString_def)
next
  case (Cons x xs)
  then obtain y zs where ys: "ys = y # zs" by (cases ys) (auto simp: hex_EncodeToString_def)
  have e: "hex_digit (x div 16) = hex_digit (y div 16)" "hex_digit (x mod 16) = hex_digit (y mod 16)"
    "hex_EncodeToString xs = hex_EncodeToString zs"
    using Cons.prems(3) by (auto simp: ys hex_EncodeToString_def)
  have "x div 16 < 16" "y div 16 < 16" using Cons.prems by (auto simp: ys)
  then have "x div 16 = y div 16" "x mod 16 = y mod 16" using hex_digit_inject[OF _ _ e(1)] hex_digit_inject[OF _ _ e(2)] by simp_all
  then have "x = y" by (metis div_mult_mod_eq)
  moreover have "xs = zs" using Cons.IH[of zs] Cons.prems(1,2) e(3) ys by simp
  ultimately show ?case by (simp only: ys)
qed

lemma semanticDigest_binds:
  assumes "json_valid a" "json_valid b" "no_collision a b"
  shows "semanticDigest a = semanticDigest b \<longleftrightarrow> a = b"
proof
  assume "semanticDigest a = semanticDigest b"
  then have "hex_EncodeToString (sha256_Sum256 (json_Marshal a)) = hex_EncodeToString (sha256_Sum256 (json_Marshal b))"
    by (simp add: semanticDigest_def)
  then have "sha256_Sum256 (json_Marshal a) = sha256_Sum256 (json_Marshal b)"
    by (intro hex_EncodeToString_inject) (auto dest: Sum256_bytes)
  then show "a = b" using assms Marshal_inject by (simp add: no_collision_def)
qed simp

text \<open>Structs with the same keys are equal when their fields are.\<close>

lemma json_struct_inject:
  assumes "distinct (map fst fs)" "map fst fs = map fst gs" "json_struct fs = json_struct gs"
  shows "map snd fs = map snd gs"
  using assms
proof (induction fs arbitrary: gs)
  case (Cons p fs)
  then obtain k v w hs where gs: "p = (k, v)" "gs = (k, w) # hs" by (cases gs; cases p) auto
  have same: "map fst fs = map fst hs" using Cons.prems(2) by (simp add: gs)
  let ?c = "\<lambda>fs :: (string \<times> json option) list. concat (map (\<lambda>(k, v). case v of None \<Rightarrow> [] | Some j \<Rightarrow> [(k, j)]) fs)"
  have out: "(k, j) \<notin> set (?c xs)" if "k \<notin> set (map fst xs)" for xs j
    using that by (induction xs) (auto split: option.splits)
  have "k \<notin> set (map fst fs)" "k \<notin> set (map fst hs)"
    using Cons.prems(1) arg_cong[OF same, of set] by (simp_all add: gs(1))
  then have off: "?c fs \<noteq> (k, j) # x" "?c hs \<noteq> (k, j) # x" for j x
    using out[of fs j] out[of hs j] by (metis list.set_intros(1))+
  have "v = w \<and> ?c fs = ?c hs"
    using Cons.prems(3) off off[symmetric] by (cases v; cases w) (simp_all add: gs json_struct_def)
  then show ?case using Cons gs by (simp add: json_struct_def)
qed simp

end
