(* ===== verification/Authority_Identity.thy ===== *)
theory Authority_Identity
  imports Go_JSON Service_Exposure Policy_Rules
begin

text \<open>
  The identities of final authority, from \<open>internal/domain/tobari/workspace_authority.go\<close> and
  \<open>project.go\<close>: the UUIDv7 identifiers of Templates, Contexts and Workspaces and their issue from a clock
  and an entropy source, the opaque references the command line hands out, the Docker resource names
  derived from a Workspace, and the private network one Workspace is bound to. The three identifier types
  of the code share one byte grammar and are strings here.
\<close>

section \<open>Identifiers\<close>

type_synonym WorkspaceTemplateID = string
type_synonym ContextID = string
type_synonym WorkspaceID = string
type_synonym SemanticDigest = string

definition WorkspaceTemplateID_Validate :: "WorkspaceTemplateID \<Rightarrow> check" where
  "WorkspaceTemplateID_Validate i = validateAuthorityUUID ''Workspace Template'' i"

definition ParseWorkspaceTemplateID :: "string \<Rightarrow> WorkspaceTemplateID result" where
  "ParseWorkspaceTemplateID v = checked (WorkspaceTemplateID_Validate v) v"

definition ParseContextID :: "string \<Rightarrow> ContextID result" where
  "ParseContextID v = checked (ContextID_Validate v) v"

definition ParseWorkspaceID :: "string \<Rightarrow> WorkspaceID result" where
  "ParseWorkspaceID v = checked (WorkspaceID_Validate v) v"

definition SemanticDigest_Validate :: "SemanticDigest \<Rightarrow> check" where
  "SemanticDigest_Validate d = ValidateDigest d"

text \<open>
  An \<open>io.Reader\<close>: the bytes it yields before it fails, and its failure. \<open>io.ReadFull\<close> of \<open>n\<close> bytes turns the end of
  input after a first byte into its own error.
\<close>

record reader =
  rd_bytes :: "8 word list"
  rd_error :: error

definition io_ReadFull :: "nat \<Rightarrow> reader \<Rightarrow> 8 word list result" where
  "io_ReadFull n r =
     (if n \<le> length (rd_bytes r) then Inr (take n (rd_bytes r))
      else if rd_error r = ''EOF'' \<and> rd_bytes r \<noteq> [] then Inl ''unexpected EOF'' else Inl (rd_error r))"

text \<open>\<open>time.Time.UnixMilli\<close> of an instant in nanoseconds since the epoch.\<close>

definition UnixMilli :: "int \<Rightarrow> int" where "UnixMilli now = now div 1000000"

text \<open>The loop that stores the low byte at descending indexes and shifts it out.\<close>

fun store_bytes :: "nat \<Rightarrow> 64 word \<Rightarrow> 8 word list \<Rightarrow> 8 word list" where
  "store_bytes 0 ms acc = acc"
| "store_bytes (Suc n) ms acc = store_bytes n (drop_bit 8 ms) (ucast ms # acc)"

definition hex_bytes :: "8 word list \<Rightarrow> string" where
  "hex_bytes bs = hex_EncodeToString (map unat bs)"

unbundle bit_operations_syntax

text \<open>The sixteen bytes and their text; the entropy holds the last ten.\<close>

definition uuid_bytes :: "64 word \<Rightarrow> 8 word list \<Rightarrow> 8 word list" where
  "uuid_bytes ms entropy =
     (let v = store_bytes 6 ms [] @ entropy;
          v = v[6 := 0x70 OR ((v ! 6) AND 0x0f)]
      in v[8 := 0x80 OR ((v ! 8) AND 0x3f)])"

definition uuid_text :: "8 word list \<Rightarrow> string" where
  "uuid_text v =
     hex_bytes (take 4 v) @ ''-'' @ hex_bytes (take 2 (drop 4 v)) @ ''-'' @ hex_bytes (take 2 (drop 6 v)) @ ''-''
     @ hex_bytes (take 2 (drop 8 v)) @ ''-'' @ hex_bytes (take 6 (drop 10 v))"

definition issueAuthorityUUID :: "string \<Rightarrow> int \<Rightarrow> reader option \<Rightarrow> string result" where
  "issueAuthorityUUID kind now source =
     (case source of
        None \<Rightarrow> Inl (kind @ '' ID entropy source is required'')
      | Some r \<Rightarrow>
          if UnixMilli now < 0 \<or> 2 ^ 48 \<le> UnixMilli now then Inl (kind @ '' ID timestamp is outside UUIDv7 range'')
          else (case io_ReadFull 10 r of
                  Inl e \<Rightarrow> Inl (''read '' @ kind @ '' ID entropy: '' @ e)
                | Inr entropy \<Rightarrow> Inr (uuid_text (uuid_bytes (word_of_int (UnixMilli now)) entropy))))"

definition IssueWorkspaceTemplateID :: "int \<Rightarrow> reader option \<Rightarrow> WorkspaceTemplateID result" where
  "IssueWorkspaceTemplateID now source = issueAuthorityUUID ''Workspace Template'' now source"

definition IssueContextID :: "int \<Rightarrow> reader option \<Rightarrow> ContextID result" where
  "IssueContextID now source = issueAuthorityUUID ''Context'' now source"

definition IssueWorkspaceID :: "int \<Rightarrow> reader option \<Rightarrow> WorkspaceID result" where
  "IssueWorkspaceID now source = issueAuthorityUUID ''Workspace'' now source"

text \<open>\<open>NewWorkspaceManifestID\<close> repeats the construction and checks its own result.\<close>

definition NewWorkspaceManifestID :: "int \<Rightarrow> reader option \<Rightarrow> string result" where
  "NewWorkspaceManifestID now source =
     and_then (issueAuthorityUUID ''Workspace Manifest'' now source) (\<lambda>i. checked (ValidateWorkspaceManifestID i) i)"

definition NewRuntimeID :: "int \<Rightarrow> reader option \<Rightarrow> string result" where
  "NewRuntimeID now source =
     (case NewWorkspaceManifestID now source of Inl e \<Rightarrow> Inl (''create Runtime ID: '' @ e) | Inr i \<Rightarrow> Inr i)"

section \<open>References\<close>

abbreviation workspaceTemplateRefPrefix :: string where "workspaceTemplateRefPrefix \<equiv> ''wtpl1_''"
abbreviation workspaceTemplateRevisionRefPrefix :: string where "workspaceTemplateRevisionRefPrefix \<equiv> ''wtrev1_''"
abbreviation contextRefPrefix :: string where "contextRefPrefix \<equiv> ''ctx1_''"
abbreviation workspaceRefPrefix :: string where "workspaceRefPrefix \<equiv> ''wsp1_''"

definition WorkspaceTemplateRef :: "WorkspaceTemplateID \<Rightarrow> string result" where
  "WorkspaceTemplateRef i = checked (WorkspaceTemplateID_Validate i) (workspaceTemplateRefPrefix @ i)"

definition ContextRef :: "ContextID \<Rightarrow> string result" where
  "ContextRef i = checked (ContextID_Validate i) (contextRefPrefix @ i)"

definition WorkspaceRef :: "WorkspaceID \<Rightarrow> string result" where
  "WorkspaceRef i = checked (WorkspaceID_Validate i) (workspaceRefPrefix @ i)"

definition parse_ref :: "string \<Rightarrow> (string \<Rightarrow> string result) \<Rightarrow> error \<Rightarrow> string \<Rightarrow> string result" where
  "parse_ref prefix parse e reference =
     (if \<not> strings_HasPrefix reference prefix then Inl e
      else (case parse (strings_TrimPrefix reference prefix) of
              Inl _ \<Rightarrow> Inl e
            | Inr i \<Rightarrow> if reference \<noteq> prefix @ i then Inl e else Inr i))"

definition ParseWorkspaceTemplateRef :: "string \<Rightarrow> WorkspaceTemplateID result" where
  "ParseWorkspaceTemplateRef = parse_ref workspaceTemplateRefPrefix ParseWorkspaceTemplateID ''Workspace Template reference is invalid''"

definition ParseContextRef :: "string \<Rightarrow> ContextID result" where
  "ParseContextRef = parse_ref contextRefPrefix ParseContextID ''Context reference is invalid''"

definition ParseWorkspaceRef :: "string \<Rightarrow> WorkspaceID result" where
  "ParseWorkspaceRef = parse_ref workspaceRefPrefix ParseWorkspaceID ''Workspace reference is invalid''"

text \<open>\<open>strings.LastIndexByte\<close>, which is -1 when the byte is absent.\<close>

definition strings_LastIndexByte :: "string \<Rightarrow> char \<Rightarrow> int" where
  "strings_LastIndexByte s c =
     (if c \<in> set s then int (length s) - 1 - int (length (takeWhile (\<lambda>x. x \<noteq> c) (rev s))) else - 1)"

definition WorkspaceTemplateRevisionRef :: "WorkspaceTemplateID \<Rightarrow> SemanticDigest \<Rightarrow> string result" where
  "WorkspaceTemplateRevisionRef i revision =
     checked (first_error [WorkspaceTemplateID_Validate i, SemanticDigest_Validate revision])
       (workspaceTemplateRevisionRefPrefix @ i @ ''_'' @ strings_TrimPrefix revision ''sha256:'')"

definition ParseWorkspaceTemplateRevisionRef :: "string \<Rightarrow> (WorkspaceTemplateID \<times> SemanticDigest) result" where
  "ParseWorkspaceTemplateRevisionRef reference =
     (let e = ''Workspace Template revision reference is invalid'' in
      if \<not> strings_HasPrefix reference workspaceTemplateRevisionRefPrefix then Inl e
      else
        let v = strings_TrimPrefix reference workspaceTemplateRevisionRefPrefix;
            separator = strings_LastIndexByte v CHR ''_''
        in if separator \<le> 0 \<or> separator = int (length v) - 1 then Inl e
           else
             let revision = ''sha256:'' @ drop (nat separator + 1) v in
             (case ParseWorkspaceTemplateID (take (nat separator) v) of
                Inl _ \<Rightarrow> Inl e
              | Inr i \<Rightarrow>
                  if SemanticDigest_Validate revision \<noteq> None then Inl e
                  else if WorkspaceTemplateRevisionRef i revision \<noteq> Inr reference then Inl e
                  else Inr (i, revision)))"

section \<open>Docker resources and the private network\<close>

text \<open>\<open>project.go\<close>: the container and the network of one Workspace.\<close>

definition ProjectResourceNames :: "string \<Rightarrow> (string \<times> string) result" where
  "ProjectResourceNames i =
     checked (ValidateWorkspaceID i)
       (let short = filter (\<lambda>c. c \<noteq> CHR ''-'') (take 13 i)
        in (''tobari-'' @ short @ ''-work'', ''tobari-'' @ short @ ''-net''))"

type_synonym ipv4 = "8 word \<times> 8 word \<times> 8 word \<times> 8 word"

definition ipv4_part :: "string \<Rightarrow> 8 word option" where
  "ipv4_part part =
     (if part = [] \<or> 1 < length part \<and> hd part = CHR ''0'' then None
      else (case strconv_Atoi part of
              None \<Rightarrow> None
            | Some n \<Rightarrow> if n < 0 \<or> 255 < n then None else Some (word_of_int n)))"

definition parseCanonicalIPv4 :: "string \<Rightarrow> ipv4 option" where
  "parseCanonicalIPv4 v =
     (case map ipv4_part (strings_Split v CHR ''.'') of
        [Some a, Some b, Some c, Some d] \<Rightarrow> Some (a, b, c, d)
      | _ \<Rightarrow> None)"

text \<open>\<open>strings.Cut\<close> at the first slash.\<close>

definition parseWorkspaceRuntimeSubnet :: "string \<Rightarrow> ipv4 option" where
  "parseWorkspaceRuntimeSubnet v =
     (case strings_Split2 v ''/'' of
        None \<Rightarrow> None
      | Some (address, suffix) \<Rightarrow>
          if suffix \<noteq> ''24'' then None
          else (case parseCanonicalIPv4 address of
                  None \<Rightarrow> None
                | Some (a, b, c, d) \<Rightarrow>
                    if a \<noteq> 10 \<or> b < 64 \<or> 127 < b \<or> d \<noteq> 0 then None else Some (a, b, c, d)))"

record WorkspaceRuntimeNetworkAuthority =
  wna_Network :: string
  wna_Subnet :: string
  wna_DockerGateway :: string
  wna_GatewayIP :: string
  wna_WorkspaceIP :: string

definition WorkspaceRuntimeNetworkAuthority_ValidateFor :: "WorkspaceRuntimeNetworkAuthority \<Rightarrow> WorkspaceID \<Rightarrow> check" where
  "WorkspaceRuntimeNetworkAuthority_ValidateFor n i =
     (case ProjectResourceNames i of
        Inl e \<Rightarrow> Some (''Workspace network authority has another owner: '' @ e)
      | Inr (_, network) \<Rightarrow>
          if wna_Network n \<noteq> network then Some ''Workspace network authority has another owner: %!w(<nil>)''
          else (case parseWorkspaceRuntimeSubnet (wna_Subnet n) of
                  None \<Rightarrow> Some ''Workspace network authority subnet is invalid''
                | Some (a, b, c, _) \<Rightarrow>
                    reject (parseCanonicalIPv4 (wna_DockerGateway n) \<noteq> Some (a, b, c, 1)
                            \<or> parseCanonicalIPv4 (wna_GatewayIP n) \<noteq> Some (a, b, c, 2)
                            \<or> parseCanonicalIPv4 (wna_WorkspaceIP n) \<noteq> Some (a, b, c, 3))
                      ''Workspace network authority endpoints are invalid''))"

section \<open>The contract of a reference codec\<close>

locale reference_codec =
  fixes ref :: "'a \<Rightarrow> string result" and parse :: "string \<Rightarrow> 'a result" and valid :: "'a \<Rightarrow> bool" and prefix :: string
  assumes ref_total: "valid x \<Longrightarrow> \<exists>r. ref x = Inr r"
    and ref_valid: "ref x = Inr r \<Longrightarrow> valid x \<and> strings_HasPrefix r prefix"
    and parse_iff: "parse r = Inr x \<longleftrightarrow> ref x = Inr r"
begin

lemma parse_inject: "parse r = Inr x \<Longrightarrow> parse s = Inr x \<Longrightarrow> r = s"
  by (simp add: parse_iff)

lemma ref_inject: "ref x = Inr r \<Longrightarrow> ref y = Inr r \<Longrightarrow> x = y"
  by (simp flip: parse_iff)

lemma accepted: "parse r = Inr x \<Longrightarrow> valid x \<and> strings_HasPrefix r prefix"
  by (simp add: parse_iff ref_valid)

end

lemma strip_prefix: "strings_TrimPrefix (p @ x) p = x" "strings_HasPrefix (p @ x) p"
  by (simp_all add: strings_TrimPrefix_def HasPrefix_iff)

lemma parse_ref_iff:
  "parse_ref p (\<lambda>v. checked (c v) v) e r = Inr i \<longleftrightarrow> c i = None \<and> r = p @ i"
proof (cases "strings_HasPrefix r p")
  case True
  then obtain x where r: "r = p @ x" by (auto simp: HasPrefix_iff)
  show ?thesis
    unfolding parse_ref_def r by (cases "c x") (auto simp: strip_prefix checked_def)
next
  case False
  then show ?thesis by (auto simp: parse_ref_def HasPrefix_iff)
qed

lemma prefix_codec:
  "reference_codec (\<lambda>i. checked (c i) (p @ i)) (parse_ref p (\<lambda>v. checked (c v) v) e) (\<lambda>i. c i = None) p"
  by unfold_locales (auto simp: parse_ref_iff strip_prefix checked_Inr)

interpretation template_ref: reference_codec WorkspaceTemplateRef ParseWorkspaceTemplateRef
  "\<lambda>i. WorkspaceTemplateID_Validate i = None" workspaceTemplateRefPrefix
  unfolding ParseWorkspaceTemplateRef_def ParseWorkspaceTemplateID_def[abs_def] WorkspaceTemplateRef_def[abs_def]
  by (rule prefix_codec)

interpretation context_ref: reference_codec ContextRef ParseContextRef "\<lambda>i. ContextID_Validate i = None" contextRefPrefix
  unfolding ParseContextRef_def ParseContextID_def[abs_def] ContextRef_def[abs_def] by (rule prefix_codec)

interpretation workspace_ref: reference_codec WorkspaceRef ParseWorkspaceRef "\<lambda>i. WorkspaceID_Validate i = None" workspaceRefPrefix
  unfolding ParseWorkspaceRef_def ParseWorkspaceID_def[abs_def] WorkspaceRef_def[abs_def] by (rule prefix_codec)

text \<open>Identifiers and digests hold no underscore, so the last one separates them.\<close>

lemma hex_not_dash: "hex_string n h \<Longrightarrow> CHR ''-'' \<notin> set h" "hex_string n h \<Longrightarrow> CHR ''_'' \<notin> set h"
  by (auto simp: hex_string_def list_all_iff is_hex_def is_digit_def byte_def)

lemma uuid_parts:
  "uuid7_pattern s \<longleftrightarrow> (\<exists>a b c d e. s = a @ ''-'' @ b @ ''-'' @ c @ ''-'' @ d @ ''-'' @ e
     \<and> hex_string 8 a \<and> hex_string 4 b \<and> hex_string 4 c \<and> hex_string 4 d \<and> hex_string 12 e
     \<and> c ! 0 = CHR ''7'' \<and> d ! 0 \<in> set ''89ab'')" (is "_ \<longleftrightarrow> ?r")
proof
  assume "uuid7_pattern s"
  then obtain a b c d e where "strings_Split s CHR ''-'' = [a, b, c, d, e]"
    and p: "hex_string 8 a" "hex_string 4 b" "hex_string 4 c" "hex_string 4 d" "hex_string 12 e"
      "c ! 0 = CHR ''7''" "d ! 0 \<in> set ''89ab''"
    unfolding uuid7_pattern_def by (simp split: list.splits)
  then have "s = strings_Join [a, b, c, d, e] ''-''" by (metis Join_Split)
  then have "s = a @ ''-'' @ b @ ''-'' @ c @ ''-'' @ d @ ''-'' @ e" by simp
  with p show ?r by blast
next
  assume ?r
  then obtain a b c d e where s: "s = strings_Join [a, b, c, d, e] ''-''"
    and p: "hex_string 8 a" "hex_string 4 b" "hex_string 4 c" "hex_string 4 d" "hex_string 12 e"
      "c ! 0 = CHR ''7''" "d ! 0 \<in> set ''89ab''" by auto
  have "strings_Split s CHR ''-'' = [a, b, c, d, e]"
    unfolding s using hex_not_dash(1) p(1-5) by (intro Split_Join) auto
  with p show "uuid7_pattern s" unfolding uuid7_pattern_def by (simp only: list.case)
qed

lemma uuid_no_underscore: "uuid7_pattern i \<Longrightarrow> CHR ''_'' \<notin> set i"
  by (auto simp: uuid_parts dest: hex_not_dash(2))

lemma LastIndexByte_append:
  assumes "c \<notin> set b"
  shows "strings_LastIndexByte (a @ c # b) c = int (length a)"
proof -
  have "takeWhile (\<lambda>x. x \<noteq> c) (rev b @ c # rev a) = rev b" using assms by (subst takeWhile_append2) auto
  then show ?thesis by (simp add: strings_LastIndexByte_def)
qed

lemma digest_parts: "digestPattern d \<longleftrightarrow> (\<exists>h. d = ''sha256:'' @ h \<and> hex_string 64 h)"
  by (auto simp: digestPattern_def prefixed_hex_def HasPrefix_iff)

lemma ID_Validate_iff [check_simps]:
  "WorkspaceTemplateID_Validate i = None \<longleftrightarrow> uuid7_pattern i" "ContextID_Validate i = None \<longleftrightarrow> uuid7_pattern i"
  "WorkspaceID_Validate i = None \<longleftrightarrow> uuid7_pattern i" "SemanticDigest_Validate d = None \<longleftrightarrow> digestPattern d"
  by (simp_all add: WorkspaceTemplateID_Validate_def ContextID_Validate_def WorkspaceID_Validate_def SemanticDigest_Validate_def
      ValidateDigest_def validateAuthorityUUID_def reject_None)

lemma TrimPrefix_digest: "strings_TrimPrefix (''sha256:'' @ h) ''sha256:'' = h"
  by (rule strip_prefix)

lemma revision_ref_iff:
  "WorkspaceTemplateRevisionRef i d = Inr r \<longleftrightarrow>
     uuid7_pattern i \<and> (\<exists>h. hex_string 64 h \<and> d = ''sha256:'' @ h \<and> r = workspaceTemplateRevisionRefPrefix @ i @ ''_'' @ h)"
  unfolding WorkspaceTemplateRevisionRef_def check_simps digest_parts first_error.simps(1)
  by (metis TrimPrefix_digest)

lemma parse_revision_ref:
  "ParseWorkspaceTemplateRevisionRef r = Inr (i, d) \<longleftrightarrow> WorkspaceTemplateRevisionRef i d = Inr r" (is "?l \<longleftrightarrow> ?r")
proof
  assume ?l
  then show ?r by (auto simp: ParseWorkspaceTemplateRevisionRef_def Let_def split: if_splits sum.splits)
next
  assume rr: ?r
  then obtain h where h: "uuid7_pattern i" "hex_string 64 h" "d = ''sha256:'' @ h" and r: "r = workspaceTemplateRevisionRefPrefix @ i @ ''_'' @ h"
    by (auto simp only: revision_ref_iff)
  have sep: "strings_LastIndexByte (i @ CHR ''_'' # h) CHR ''_'' = int (length i)"
    using hex_not_dash(2)[OF h(2)] by (rule LastIndexByte_append)
  have pos: "i \<noteq> []" "h \<noteq> []" using h(1,2) by (auto simp: uuid_parts hex_string_def)
  have "ParseWorkspaceTemplateID i = Inr i" using h(1) by (simp add: ParseWorkspaceTemplateID_def check_simps)
  moreover have "SemanticDigest_Validate d = None" using h(2,3) by (simp only: check_simps digest_parts) blast
  moreover have "strings_TrimPrefix r workspaceTemplateRevisionRefPrefix = i @ CHR ''_'' # h"
    using strip_prefix(1)[of workspaceTemplateRevisionRefPrefix "i @ ''_'' @ h"] unfolding r by simp
  moreover have "strings_HasPrefix r workspaceTemplateRevisionRefPrefix" unfolding r by (rule strip_prefix)
  ultimately show ?l
    using sep pos rr h(3)
    by (simp add: ParseWorkspaceTemplateRevisionRef_def Let_def del: append_Cons)
qed

interpretation revision_ref: reference_codec "\<lambda>(i, d). WorkspaceTemplateRevisionRef i d" ParseWorkspaceTemplateRevisionRef
  "\<lambda>(i, d). uuid7_pattern i \<and> digestPattern d" workspaceTemplateRevisionRefPrefix
proof
  show "\<exists>r. (case x of (i, d) \<Rightarrow> WorkspaceTemplateRevisionRef i d) = Inr r"
    if "case x of (i, d) \<Rightarrow> uuid7_pattern i \<and> digestPattern d" for x
    using that by (cases x) (auto simp only: revision_ref_iff digest_parts case_prod_conv)
  show "(case x of (i, d) \<Rightarrow> uuid7_pattern i \<and> digestPattern d) \<and> strings_HasPrefix r workspaceTemplateRevisionRefPrefix"
    if "(case x of (i, d) \<Rightarrow> WorkspaceTemplateRevisionRef i d) = Inr r" for x r
    using that strip_prefix(2) by (cases x) (auto simp only: revision_ref_iff digest_parts case_prod_conv)
  show "ParseWorkspaceTemplateRevisionRef r = Inr x \<longleftrightarrow> (case x of (i, d) \<Rightarrow> WorkspaceTemplateRevisionRef i d) = Inr r" for r x
    by (cases x) (simp only: parse_revision_ref case_prod_conv)
qed

section \<open>Issued identifiers\<close>

text \<open>The fixed-width hexadecimal numeral.\<close>

primrec hex_fixed :: "nat \<Rightarrow> nat \<Rightarrow> string" where
  "hex_fixed 0 v = []"
| "hex_fixed (Suc n) v = hex_fixed n (v div 16) @ [hex_digit (v mod 16)]"

lemma length_hex_fixed [simp]: "length (hex_fixed n v) = n"
  by (induction n arbitrary: v) auto

lemma hex_fixed_hex: "hex_string n (hex_fixed n v)"
  by (induction n arbitrary: v) (auto simp: hex_string_def is_hex_hex_digit)

lemma hex_byte: "hex_bytes (b # bs) = hex_fixed 2 (unat b) @ hex_bytes bs"
proof -
  have "unat b < 256" using unsigned_less[of b] by simp
  then show ?thesis by (simp add: hex_bytes_def hex_EncodeToString_def numeral_2_eq_2)
qed

lemma hex_bytes_append: "hex_bytes (xs @ ys) = hex_bytes xs @ hex_bytes ys"
  by (simp add: hex_bytes_def hex_EncodeToString_def)

lemma hex_bytes_hex: "length bs = n \<Longrightarrow> hex_string (2 * n) (hex_bytes bs)"
proof -
  have "unat (b :: 8 word) < 256" for b using unsigned_less[of b] by simp
  then have "\<forall>b \<in> set (map unat bs). b < 256" by auto
  then show "length bs = n \<Longrightarrow> hex_string (2 * n) (hex_bytes bs)"
    using hex_EncodeToString_hex[of "map unat bs"] by (simp add: hex_bytes_def)
qed

lemma hex_store_bytes:
  "hex_bytes (store_bytes n ms acc) = hex_fixed (2 * n) (unat ms mod 256 ^ n) @ hex_bytes acc"
proof (induction n arbitrary: ms acc)
  case (Suc n)
  let ?v = "unat ms"
  have d: "unat (drop_bit 8 ms) = ?v div 256" by (simp add: drop_bit_eq_div unat_div)
  have u: "unat (ucast ms :: 8 word) = ?v mod 256" by (simp add: unsigned_ucast_eq take_bit_eq_mod)
  have m: "?v mod 256 ^ Suc n div 256 = ?v div 256 mod 256 ^ n" "?v mod 256 ^ Suc n mod 256 = ?v mod 256"
    by (simp_all add: mod_mult2_eq mod_mod_cancel)
  have two: "hex_fixed (2 * Suc n) w = hex_fixed (2 * n) (w div 256) @ hex_fixed 2 (w mod 256)" for w
  proof -
    have q: "w div 256 = w div 16 div 16" using div_mult2_eq[of w 16 16] by simp
    have "w mod 256 = 16 * (w div 16 mod 16) + w mod 16" using mod_mult2_eq[of w 16 16] by simp
    then have "w mod 256 div 16 mod 16 = w div 16 mod 16" "w mod 256 mod 16 = w mod 16" by simp_all
    with q show ?thesis by (simp add: numeral_2_eq_2)
  qed
  show ?case
    using Suc[of "drop_bit 8 ms" "ucast ms # acc"] unfolding two m store_bytes.simps by (simp only: hex_byte d u append_assoc)
qed simp

lemma version_nibble: "unat (0x70 OR (b AND 0x0f) :: 8 word) div 16 = 7"
proof -
  have "unat (0x70 OR (b AND 0x0f) :: 8 word) div 16 = drop_bit 4 (112 OR (unat b AND 15))"
    by (simp add: unsigned_or_eq unsigned_and_eq drop_bit_eq_div)
  also have "\<dots> = 7" by (simp add: drop_bit_or drop_bit_and)
  finally show ?thesis .
qed

lemma variant_nibble: "unat (0x80 OR (b AND 0x3f) :: 8 word) div 16 \<in> {8, 9, 10, 11}"
proof -
  have "unat (0x80 OR (b AND 0x3f) :: 8 word) div 16 = drop_bit 4 (128 OR (unat b AND 63))"
    by (simp add: unsigned_or_eq unsigned_and_eq drop_bit_eq_div)
  also have "\<dots> = 8 OR (drop_bit 4 (unat b) AND 3)" by (simp add: drop_bit_or drop_bit_and)
  also have "drop_bit 4 (unat b) AND 3 = drop_bit 4 (unat b) mod 4"
    using take_bit_eq_mask[of 2 "drop_bit 4 (unat b)"] by (simp add: take_bit_eq_mod mask_eq_exp_minus_1)
  finally have e: "unat (0x80 OR (b AND 0x3f) :: 8 word) div 16 = 8 OR (drop_bit 4 (unat b) mod 4)" .
  have "drop_bit 4 (unat b) mod 4 \<in> {0, 1, 2, 3}" by auto
  then show ?thesis unfolding e by (elim insertE emptyE) simp_all
qed

lemma store_bytes_length [simp]: "length (store_bytes n ms acc) = n + length acc"
  by (induction n arbitrary: ms acc) auto

text \<open>The text of an issued identifier: the timestamp, then the version and variant nibbles.\<close>

lemma uuid_text_shape:
  assumes "length e = 10" "unat ms < 2 ^ 48"
  obtains c d f where "uuid_text (uuid_bytes ms e) = take 8 (hex_fixed 12 (unat ms)) @ ''-'' @ drop 8 (hex_fixed 12 (unat ms))
      @ ''-'' @ c @ ''-'' @ d @ ''-'' @ f"
    and "hex_string 4 c" "hex_string 4 d" "hex_string 12 f" "c ! 0 = CHR ''7''" "d ! 0 \<in> set ''89ab''"
proof -
  obtain e0 e1 e2 e3 r where e: "e = e0 # e1 # e2 # e3 # r" "length r = 6"
    using assms(1) by (auto simp: numeral_eq_Suc length_Suc_conv)
  let ?t = "store_bytes 6 ms []"
  obtain t0 t1 t2 t3 t4 t5 where t: "?t = [t0, t1, t2, t3, t4, t5]" by (simp add: numeral_eq_Suc)
  have hx: "hex_bytes ?t = hex_fixed 12 (unat ms)"
    using hex_store_bytes[of 6 ms "[]"] assms(2) by (simp add: hex_bytes_def hex_EncodeToString_def)
  have l4: "length (hex_bytes [t0, t1, t2, t3]) = 8" using hex_bytes_hex[of "[t0, t1, t2, t3]" 4] by (simp add: hex_string_def)
  have "hex_bytes [t0, t1, t2, t3] @ hex_bytes [t4, t5] = hex_fixed 12 (unat ms)"
    using hx by (simp add: t flip: hex_bytes_append)
  then have ts: "hex_bytes [t0, t1, t2, t3] = take 8 (hex_fixed 12 (unat ms))" "hex_bytes [t4, t5] = drop 8 (hex_fixed 12 (unat ms))"
    using l4 by (metis append_eq_conv_conj)+
  let ?c = "hex_bytes [0x70 OR (e0 AND 0x0f), e1]" and ?d = "hex_bytes [0x80 OR (e2 AND 0x3f), e3]" and ?f = "hex_bytes r"
  have "uuid_text (uuid_bytes ms e) = take 8 (hex_fixed 12 (unat ms)) @ ''-'' @ drop 8 (hex_fixed 12 (unat ms))
      @ ''-'' @ ?c @ ''-'' @ ?d @ ''-'' @ ?f"
    using e(2) by (simp add: uuid_text_def uuid_bytes_def e(1) t Let_def flip: ts)
  moreover have "hex_string 4 ?c" "hex_string 4 ?d" "hex_string 12 ?f"
    using hex_bytes_hex[of "[_, _]" 2] hex_bytes_hex[of r 6] e(2) by simp_all
  moreover have n: "hex_bytes (b # bs) ! 0 = hex_digit (unat b div 16)" for b bs
    by (simp add: hex_bytes_def hex_EncodeToString_def)
  have "hex_digit 7 = CHR ''7''" "\<forall>k \<in> set [8, 9, 10, 11]. hex_digit k \<in> set ''89ab''" by code_simp+
  then have "?c ! 0 = CHR ''7''" "?d ! 0 \<in> set ''89ab''"
    using version_nibble[of e0] variant_nibble[of e2] unfolding n by (simp_all only: list.set)
  ultimately show thesis using that by blast
qed

lemma issue_iff:
  "issueAuthorityUUID kind now source = Inr i \<longleftrightarrow>
     (\<exists>r. source = Some r \<and> 0 \<le> UnixMilli now \<and> UnixMilli now < 2 ^ 48 \<and> 10 \<le> length (rd_bytes r)
        \<and> i = uuid_text (uuid_bytes (word_of_int (UnixMilli now)) (take 10 (rd_bytes r))))"
  by (cases source) (auto simp: issueAuthorityUUID_def io_ReadFull_def split: if_splits)

lemma issued_shape:
  assumes "issueAuthorityUUID kind now source = Inr i"
  obtains c d f where "i = take 8 (hex_fixed 12 (nat (UnixMilli now))) @ ''-'' @ drop 8 (hex_fixed 12 (nat (UnixMilli now)))
      @ ''-'' @ c @ ''-'' @ d @ ''-'' @ f"
    and "hex_string 4 c" "hex_string 4 d" "hex_string 12 f" "c ! 0 = CHR ''7''" "d ! 0 \<in> set ''89ab''"
proof -
  obtain r :: reader where r: "0 \<le> UnixMilli now" "UnixMilli now < 2 ^ 48" "10 \<le> length (rd_bytes r)"
    and i: "i = uuid_text (uuid_bytes (word_of_int (UnixMilli now)) (take 10 (rd_bytes r)))"
    using assms unfolding issue_iff by blast
  have "unat (word_of_int (UnixMilli now) :: 64 word) = nat (UnixMilli now)"
    using r(1,2) by (simp add: unat_eq_nat_uint uint_word_of_int_eq take_bit_int_eq_self)
  moreover have "nat (UnixMilli now) < 2 ^ 48" using r(1,2) by (simp add: nat_less_iff)
  ultimately show thesis
    using uuid_text_shape[of "take 10 (rd_bytes r)" "word_of_int (UnixMilli now)"] r(3) that unfolding i by (metis length_take min_absorb2)
qed

lemma hex_digit_less: "m < n \<Longrightarrow> n < 16 \<Longrightarrow> hex_digit m < hex_digit n"
  by (auto simp: hex_digit_def less_char_def)

lemma less_extend: "(xs :: string) < ys \<Longrightarrow> length xs = length ys \<Longrightarrow> xs @ us < ys @ vs"
  by (simp add: list_less_def lexord_sufI)

lemma less_prepend: "(us :: string) < vs \<Longrightarrow> xs @ us < xs @ vs"
  by (simp add: list_less_def lexord_append_leftI)

lemma less_split: "(xs :: string) @ us < ys @ vs \<Longrightarrow> length xs = length ys \<Longrightarrow> xs < ys \<or> xs = ys \<and> us < vs"
proof (rule ccontr)
  assume a: "xs @ us < ys @ vs" "length xs = length ys" "\<not> (xs < ys \<or> xs = ys \<and> us < vs)"
  then consider "ys < xs" | "xs = ys" "vs \<le> us" by fastforce
  then have "ys @ vs \<le> xs @ us"
    by cases (use a(2) less_extend[of ys xs vs us] less_prepend[of vs us ys] in \<open>auto simp: le_less\<close>)
  with a(1) show False by simp
qed

lemma hex_fixed_order: "a < b \<Longrightarrow> b < 16 ^ n \<Longrightarrow> hex_fixed n a < hex_fixed n b"
proof (induction n arbitrary: a b)
  case (Suc n)
  have "b div 16 < 16 ^ n" using Suc.prems(2) by (simp add: less_mult_imp_div_less mult.commute)
  consider "a div 16 < b div 16" | "a div 16 = b div 16" "a mod 16 < b mod 16"
    using Suc.prems(1) by (metis div_le_mono div_mod_decomp le_neq_implies_less less_imp_le nat_add_left_cancel_less)
  then show ?case
  proof cases
    case 1
    then show ?thesis using Suc.IH \<open>b div 16 < 16 ^ n\<close> by (simp add: less_extend)
  next
    case 2
    then have "[hex_digit (a mod 16)] < [hex_digit (b mod 16)]" by (simp add: hex_digit_less)
    with 2(1) show ?thesis by (simp add: less_prepend)
  qed
qed simp

lemma issued_short:
  assumes "issueAuthorityUUID kind now source = Inr i"
  shows "filter (\<lambda>c. c \<noteq> CHR ''-'') (take 13 i) = hex_fixed 12 (nat (UnixMilli now))"
proof -
  let ?h = "hex_fixed 12 (nat (UnixMilli now))"
  obtain t where i: "i = take 8 ?h @ ''-'' @ drop 8 ?h @ t" using issued_shape[OF assms] by metis
  have "take 13 i = take 8 ?h @ ''-'' @ drop 8 ?h" unfolding i by simp
  moreover have "CHR ''-'' \<notin> set ?h" using hex_not_dash(1)[OF hex_fixed_hex] .
  then have "filter (\<lambda>c. c \<noteq> CHR ''-'') ?h = ?h" by (auto intro: filter_True)
  then have "filter (\<lambda>c. c \<noteq> CHR ''-'') (take 8 ?h) @ filter (\<lambda>c. c \<noteq> CHR ''-'') (drop 8 ?h) = ?h"
    by (metis append_take_drop_id filter_append)
  ultimately show ?thesis by simp
qed

lemma issued_valid: "issueAuthorityUUID kind now source = Inr i \<Longrightarrow> uuid7_pattern i"
proof -
  assume "issueAuthorityUUID kind now source = Inr i"
  from issued_shape[OF this] obtain c d f where
    "i = take 8 (hex_fixed 12 (nat (UnixMilli now))) @ ''-'' @ drop 8 (hex_fixed 12 (nat (UnixMilli now)))
      @ ''-'' @ c @ ''-'' @ d @ ''-'' @ f"
    and "hex_string 4 c" "hex_string 4 d" "hex_string 12 f" "c ! 0 = CHR ''7''" "d ! 0 \<in> set ''89ab''" .
  moreover have "hex_string 8 (take 8 (hex_fixed 12 n))" "hex_string 4 (drop 8 (hex_fixed 12 n))" for n
    using hex_fixed_hex[of 12 n] by (auto simp: hex_string_def list_all_iff dest: in_set_takeD in_set_dropD)
  ultimately show ?thesis unfolding uuid_parts by blast
qed

lemma issued_order:
  assumes "issueAuthorityUUID k1 n1 s1 = Inr i" "issueAuthorityUUID k2 n2 s2 = Inr j" "UnixMilli n1 < UnixMilli n2"
  shows "i < j"
proof -
  let ?a = "hex_fixed 12 (nat (UnixMilli n1))" and ?b = "hex_fixed 12 (nat (UnixMilli n2))"
  have r: "0 \<le> UnixMilli n1" "UnixMilli n2 < 2 ^ 48" using assms(1,2) unfolding issue_iff by auto
  then have "?a < ?b" using assms(3) by (intro hex_fixed_order) (auto simp: nat_less_iff)
  then have "take 8 ?a < take 8 ?b \<or> take 8 ?a = take 8 ?b \<and> drop 8 ?a < drop 8 ?b"
    using less_split[of "take 8 ?a" "drop 8 ?a" "take 8 ?b" "drop 8 ?b"] by simp
  moreover obtain t where i: "i = take 8 ?a @ ''-'' @ drop 8 ?a @ t" using issued_shape[OF assms(1)] by metis
  moreover obtain u where j: "j = take 8 ?b @ ''-'' @ drop 8 ?b @ u" using issued_shape[OF assms(2)] by metis
  ultimately show ?thesis
  proof (elim disjE conjE)
    assume "take 8 ?a < take 8 ?b"
    then show ?thesis unfolding i j by (rule less_extend) simp
  next
    assume e: "take 8 ?a = take 8 ?b" and "drop 8 ?a < drop 8 ?b"
    then have "drop 8 ?a @ t < drop 8 ?b @ u" by (intro less_extend) simp_all
    then show ?thesis unfolding i j e by (intro less_prepend)
  qed
qed

section \<open>Properties\<close>

lemma not_isl_iff: "\<not> isl x \<longleftrightarrow> (\<exists>y. x = Inr y)"
  by (cases x) auto

text \<open>A Template, Context, Workspace or Template revision reference parses exactly when it is the reference built from the
  identity it parses to, so every identity has one spelling, and no reference is accepted as two kinds.\<close>

theorem references_roundtrip:
  "(ParseWorkspaceTemplateRef r = Inr t \<longleftrightarrow> WorkspaceTemplateRef t = Inr r)
   \<and> (ParseWorkspaceTemplateRevisionRef r = Inr (t, d) \<longleftrightarrow> WorkspaceTemplateRevisionRef t d = Inr r)
   \<and> (ParseContextRef r = Inr c \<longleftrightarrow> ContextRef c = Inr r)
   \<and> (ParseWorkspaceRef r = Inr w \<longleftrightarrow> WorkspaceRef w = Inr r)
   \<and> length (filter Not [isl (ParseWorkspaceTemplateRef r), isl (ParseWorkspaceTemplateRevisionRef r),
       isl (ParseContextRef r), isl (ParseWorkspaceRef r)]) \<le> 1"
proof -
  define q where "q = take 3 r"
  have hd: "q = take 3 p" if "strings_HasPrefix r p" "3 \<le> length p" for p
    using that unfolding q_def by (auto simp: HasPrefix_iff)
  have "\<not> isl (ParseWorkspaceTemplateRef r) \<Longrightarrow> q = ''wtp''" "\<not> isl (ParseWorkspaceTemplateRevisionRef r) \<Longrightarrow> q = ''wtr''"
    "\<not> isl (ParseContextRef r) \<Longrightarrow> q = ''ctx''" "\<not> isl (ParseWorkspaceRef r) \<Longrightarrow> q = ''wsp''"
    using template_ref.accepted[of r] revision_ref.accepted[of r] context_ref.accepted[of r] workspace_ref.accepted[of r]
      hd[of workspaceTemplateRefPrefix] hd[of workspaceTemplateRevisionRefPrefix] hd[of contextRefPrefix] hd[of workspaceRefPrefix]
    by (auto simp: not_isl_iff)
  then have "length (filter Not [isl (ParseWorkspaceTemplateRef r), isl (ParseWorkspaceTemplateRevisionRef r),
       isl (ParseContextRef r), isl (ParseWorkspaceRef r)]) \<le> 1"
    by auto
  then show ?thesis
    using template_ref.parse_iff revision_ref.parse_iff[of r "(t, d)"] context_ref.parse_iff workspace_ref.parse_iff by auto
qed

text \<open>C32: An identifier is issued exactly when the clock is inside the 48-bit millisecond range and ten bytes of entropy are there;
  the timestamp is stored without loss, every issued identifier is a valid UUIDv7, and later milliseconds give greater identifiers.\<close>

theorem issued_identifiers_are_bounded_and_ordered:
  "((\<exists>i. issueAuthorityUUID kind now source = Inr i) \<longleftrightarrow>
      0 \<le> UnixMilli now \<and> UnixMilli now < 2 ^ 48 \<and> (\<exists>r. source = Some r \<and> 10 \<le> length (rd_bytes r)))
   \<and> (\<forall>i. issueAuthorityUUID kind now source = Inr i \<longrightarrow> uuid7_pattern i
        \<and> filter (\<lambda>c. c \<noteq> CHR ''-'') (take 13 i) = hex_fixed 12 (nat (UnixMilli now))
        \<and> (\<forall>kind' now' source' j. issueAuthorityUUID kind' now' source' = Inr j \<longrightarrow> UnixMilli now < UnixMilli now' \<longrightarrow> i < j))"
proof (intro conjI allI impI)
  show "(\<exists>i. issueAuthorityUUID kind now source = Inr i) \<longleftrightarrow>
      0 \<le> UnixMilli now \<and> UnixMilli now < 2 ^ 48 \<and> (\<exists>r. source = Some r \<and> 10 \<le> length (rd_bytes r))"
    unfolding issue_iff by metis
qed (fact issued_valid issued_short issued_order)+

theorem issued_identifiers_are_bounded_and_ordered_witness:
  "(\<exists>i. issueAuthorityUUID ''Workspace'' 1700000000123456789 (Some \<lparr> rd_bytes = replicate 10 255, rd_error = ''EOF'' \<rparr>) = Inr i)
   \<and> issueAuthorityUUID ''Workspace'' 1700000000123456789 (Some \<lparr> rd_bytes = replicate 10 255, rd_error = ''EOF'' \<rparr>) =
       Inr ''018bcfe5-687b-7fff-bfff-ffffffffffff''
   \<and> \<not> (\<exists>i. issueAuthorityUUID ''Workspace'' (2 ^ 48 * 1000000) (Some \<lparr> rd_bytes = replicate 10 255, rd_error = ''EOF'' \<rparr>) = Inr i)"
proof -
  have r: "issueAuthorityUUID ''Workspace'' 1700000000123456789 (Some \<lparr> rd_bytes = replicate 10 255, rd_error = ''EOF'' \<rparr>) =
       Inr ''018bcfe5-687b-7fff-bfff-ffffffffffff''" by code_simp
  have out: "\<not> UnixMilli (2 ^ 48 * 1000000) < 2 ^ 48" by (simp add: UnixMilli_def)
  have no: "\<not> (\<exists>i. issueAuthorityUUID ''Workspace'' (2 ^ 48 * 1000000) (Some \<lparr> rd_bytes = replicate 10 255, rd_error = ''EOF'' \<rparr>) = Inr i)"
    using out by (simp only: issued_identifiers_are_bounded_and_ordered[THEN conjunct1] simp_thms)
  show ?thesis by (intro conjI exI, fact r, fact r, fact no)
qed

text \<open>C39: The container and network names of a Workspace are derived from the timestamp of its identifier alone: two issued
  Workspaces own the same names exactly when they were issued in the same millisecond, whatever their entropy.\<close>

theorem resource_names_are_timestamps:
  assumes "IssueWorkspaceID n1 s1 = Inr i" "IssueWorkspaceID n2 s2 = Inr j"
  shows "ProjectResourceNames i = ProjectResourceNames j \<longleftrightarrow> UnixMilli n1 = UnixMilli n2"
proof -
  note iss = assms[unfolded IssueWorkspaceID_def]
  have names: "ProjectResourceNames k = Inr (''tobari-'' @ hex_fixed 12 (nat (UnixMilli n)) @ ''-work'', ''tobari-'' @ hex_fixed 12 (nat (UnixMilli n)) @ ''-net'')"
    if "issueAuthorityUUID ''Workspace'' n s = Inr k" for n s k
    using issued_valid[OF that] issued_short[OF that]
    by (simp add: ProjectResourceNames_def ValidateWorkspaceID_def reject_def checked_def Let_def)
  have r: "0 \<le> UnixMilli n1" "UnixMilli n1 < 2 ^ 48" "0 \<le> UnixMilli n2" "UnixMilli n2 < 2 ^ 48"
    using iss unfolding issue_iff by auto
  have "UnixMilli n1 = UnixMilli n2" if e: "hex_fixed 12 (nat (UnixMilli n1)) = hex_fixed 12 (nat (UnixMilli n2))"
  proof (rule ccontr)
    assume "UnixMilli n1 \<noteq> UnixMilli n2"
    then have "nat (UnixMilli n1) < nat (UnixMilli n2) \<or> nat (UnixMilli n2) < nat (UnixMilli n1)" using r(1,3) by linarith
    moreover have "nat (UnixMilli n1) < 16 ^ 12" "nat (UnixMilli n2) < 16 ^ 12" using r by (auto simp: nat_less_iff)
    ultimately show False using hex_fixed_order[of _ _ 12] e by (metis less_irrefl)
  qed
  then show ?thesis unfolding names[OF iss(1)] names[OF iss(2)] by auto
qed

theorem resource_names_are_timestamps_witness:
  "ProjectResourceNames ''018bcfe5-687b-7fff-bfff-ffffffffffff'' = ProjectResourceNames ''018bcfe5-687b-7000-8000-000000000000''"
proof -
  let ?s = "\<lambda>b. Some \<lparr> rd_bytes = replicate 10 b, rd_error = ''EOF'' \<rparr>"
  have i: "IssueWorkspaceID 1700000000123456789 (?s 255) = Inr ''018bcfe5-687b-7fff-bfff-ffffffffffff''" by code_simp
  have j: "IssueWorkspaceID 1700000000123456789 (?s 0) = Inr ''018bcfe5-687b-7000-8000-000000000000''" by code_simp
  show ?thesis using resource_names_are_timestamps[OF i j] by simp
qed

text \<open>C33: A validated network authority gives a Workspace three distinct addresses of one /24 inside 10.64.0.0/10: the bridge owns .1,
  the Gateway .2 and the Workspace .3. The addresses are bound as numbers: a signed spelling of an octet is accepted too.\<close>

theorem network_authority_is_bounded:
  assumes "WorkspaceRuntimeNetworkAuthority_ValidateFor n i = None"
  shows "\<exists>b c. 64 \<le> b \<and> b \<le> 127 \<and> parseWorkspaceRuntimeSubnet (wna_Subnet n) = Some (10, b, c, 0)
    \<and> parseCanonicalIPv4 (wna_DockerGateway n) = Some (10, b, c, 1) \<and> parseCanonicalIPv4 (wna_GatewayIP n) = Some (10, b, c, 2)
    \<and> parseCanonicalIPv4 (wna_WorkspaceIP n) = Some (10, b, c, 3)
    \<and> distinct [wna_DockerGateway n, wna_GatewayIP n, wna_WorkspaceIP n]"
proof -
  have "\<exists>a b c d. parseWorkspaceRuntimeSubnet (wna_Subnet n) = Some (a, b, c, d) \<and>
      parseCanonicalIPv4 (wna_DockerGateway n) = Some (a, b, c, 1) \<and> parseCanonicalIPv4 (wna_GatewayIP n) = Some (a, b, c, 2)
      \<and> parseCanonicalIPv4 (wna_WorkspaceIP n) = Some (a, b, c, 3)"
    using assms unfolding WorkspaceRuntimeNetworkAuthority_ValidateFor_def
    by (auto simp: reject_None split: sum.splits if_splits option.splits)
  then obtain a b c d where s: "parseWorkspaceRuntimeSubnet (wna_Subnet n) = Some (a, b, c, d)"
    and p: "parseCanonicalIPv4 (wna_DockerGateway n) = Some (a, b, c, 1)" "parseCanonicalIPv4 (wna_GatewayIP n) = Some (a, b, c, 2)"
      "parseCanonicalIPv4 (wna_WorkspaceIP n) = Some (a, b, c, 3)" by blast
  have "a = 10 \<and> 64 \<le> b \<and> b \<le> 127 \<and> d = 0"
    using s unfolding parseWorkspaceRuntimeSubnet_def by (auto simp: not_less split: option.splits if_splits prod.splits)
  moreover have "distinct [wna_DockerGateway n, wna_GatewayIP n, wna_WorkspaceIP n]" using p by auto
  ultimately show ?thesis using s p by blast
qed

theorem network_authority_is_bounded_witness:
  "WorkspaceRuntimeNetworkAuthority_ValidateFor \<lparr> wna_Network = ''tobari-018bcfe5687b-net'', wna_Subnet = ''10.64.+5.0/24'',
      wna_DockerGateway = ''10.64.5.1'', wna_GatewayIP = ''10.64.5.2'', wna_WorkspaceIP = ''10.64.+5.3'' \<rparr>
      ''018bcfe5-687b-7fff-bfff-ffffffffffff'' = None
   \<and> (\<exists>b c. 64 \<le> b \<and> b \<le> 127 \<and> parseWorkspaceRuntimeSubnet ''10.64.+5.0/24'' = Some (10, b, c, 0))"
  (is "?valid \<and> _")
proof
  show ?valid by code_simp
  from network_authority_is_bounded[OF this]
  show "\<exists>b c. 64 \<le> b \<and> b \<le> 127 \<and> parseWorkspaceRuntimeSubnet ''10.64.+5.0/24'' = Some (10, b, c, 0)" by auto
qed

end
