(* ===== verification/Template_Settings.thy ===== *)
theory Template_Settings
  imports Authority_Identity
begin

text \<open>
  The settings a Workspace Template is composed of, from \<open>context.go\<close>, \<open>runtime_library.go\<close> and \<open>tobari.go\<close> of
  \<open>internal/domain/tobari\<close>: source access and native readiness, the allowlisted shell environment with its
  staged changes, the Git identity, and the exact Runtime binding with the image reference grammar. Staged shell
  changes refine the update of a finite map.
\<close>

section \<open>Closed choices\<close>

definition ManifestNativeReadiness_Validate :: "string \<Rightarrow> check" where
  "ManifestNativeReadiness_Validate r =
     reject (r \<noteq> ''enabled'' \<and> r \<noteq> ''disabled'') ''context native readiness is invalid''"

definition ResolveContextNativeReadiness :: "string \<Rightarrow> string result" where
  "ResolveContextNativeReadiness v =
     (if v \<noteq> [] then checked (ManifestNativeReadiness_Validate v) v else Inr ''enabled'')"

definition ManifestSourceAccess_Validate :: "string \<Rightarrow> check" where
  "ManifestSourceAccess_Validate a =
     reject (a \<noteq> ''read-only'' \<and> a \<noteq> ''read-write'') ''context source access is invalid''"

section \<open>Shell environment\<close>

definition contextShellEnvironmentVariables :: "string list" where
  "contextShellEnvironmentVariables = [''COLORTERM'', ''NO_COLOR'', ''PS1'', ''TERM'']"

definition ManifestShellEnvironmentVariables :: "string list" where
  "ManifestShellEnvironmentVariables = contextShellEnvironmentVariables"

record ManifestShellEnvironmentSetting =
  ses_Variable :: string
  ses_Source :: string
  ses_Value :: "string option"

definition InitialContextShellEnvironment :: "ManifestShellEnvironmentSetting list" where
  "InitialContextShellEnvironment = [\<lparr> ses_Variable = ''PS1'', ses_Source = ''inherit'', ses_Value = None \<rparr>]"

definition ValidateContextShellEnvironmentVariable :: "string \<Rightarrow> check" where
  "ValidateContextShellEnvironmentVariable v =
     reject (v \<notin> set contextShellEnvironmentVariables) ''Workspace Manifest shell environment variable is not allowlisted''"

definition ValidateContextShellEnvironmentValue :: "string \<Rightarrow> check" where
  "ValidateContextShellEnvironmentValue v =
     reject (\<not> utf8_ValidString v \<or> 4096 < length v \<or> strings_ContainsByte v NUL)
       ''shell environment value must be valid UTF-8 without NUL''"

definition ManifestShellEnvironmentSetting_Validate :: "ManifestShellEnvironmentSetting \<Rightarrow> bool \<Rightarrow> check" where
  "ManifestShellEnvironmentSetting_Validate s allowDefault =
     first_error
       [ValidateContextShellEnvironmentVariable (ses_Variable s),
        (if ses_Source s = ''default'' then
           first_error [reject (\<not> allowDefault) ''default shell environment source is not persisted'',
                        reject (ses_Value s \<noteq> None) ''default shell environment source cannot contain a value'']
         else if ses_Source s = ''inherit'' then
           reject (ses_Value s \<noteq> None) ''inherited shell environment source cannot contain a value''
         else if ses_Source s = ''literal'' then
           (case ses_Value s of
              None \<Rightarrow> Some ''literal shell environment source requires a value''
            | Some v \<Rightarrow> map_option (\<lambda>e. ''literal '' @ e) (ValidateContextShellEnvironmentValue v))
         else Some ''Workspace Manifest shell environment source is invalid'')]"

definition validateContextShellEnvironment :: "ManifestShellEnvironmentSetting list \<Rightarrow> bool \<Rightarrow> check" where
  "validateContextShellEnvironment settings complete =
     first_error
       [check_items (\<lambda>s. ManifestShellEnvironmentSetting_Validate s complete) ses_Variable
          ''Workspace Manifest shell environment variable is duplicated'' [] settings,
        reject (complete \<and> length settings \<noteq> length contextShellEnvironmentVariables)
          ''Workspace Manifest shell environment report must contain every allowlisted variable'']"

text \<open>The map \<open>byName\<close> built from a list of settings; a later entry overwrites an earlier one.\<close>

definition by_name :: "ManifestShellEnvironmentSetting list \<Rightarrow> string \<Rightarrow> ManifestShellEnvironmentSetting option" where
  "by_name settings = foldl (\<lambda>m s. m(ses_Variable s \<mapsto> s)) Map.empty settings"

definition default_setting :: "string \<Rightarrow> ManifestShellEnvironmentSetting" where
  "default_setting v = \<lparr> ses_Variable = v, ses_Source = ''default'', ses_Value = None \<rparr>"

definition CompleteContextShellEnvironment :: "ManifestShellEnvironmentSetting list \<Rightarrow> ManifestShellEnvironmentSetting list result" where
  "CompleteContextShellEnvironment overrides =
     guarded (validateContextShellEnvironment overrides False)
       (Inr (map (\<lambda>v. case by_name overrides v of None \<Rightarrow> default_setting v | Some s \<Rightarrow> s) contextShellEnvironmentVariables))"

definition DefaultContextShellEnvironmentReport :: "ManifestShellEnvironmentSetting list" where
  "DefaultContextShellEnvironmentReport = map default_setting contextShellEnvironmentVariables"

definition apply_change ::
  "(string \<Rightarrow> ManifestShellEnvironmentSetting option) \<Rightarrow> ManifestShellEnvironmentSetting \<Rightarrow> string \<Rightarrow> ManifestShellEnvironmentSetting option" where
  "apply_change m c = (if ses_Source c = ''default'' then m(ses_Variable c := None) else m(ses_Variable c \<mapsto> c))"

definition ApplyContextShellEnvironmentSettings ::
  "ManifestShellEnvironmentSetting list \<Rightarrow> ManifestShellEnvironmentSetting list \<Rightarrow> ManifestShellEnvironmentSetting list result" where
  "ApplyContextShellEnvironmentSettings overrides changes =
     guarded
       (first_error
          [validateContextShellEnvironment overrides False,
           reject (changes = []) ''Workspace Manifest shell environment change set is empty'',
           check_items (\<lambda>c. ManifestShellEnvironmentSetting_Validate c True) ses_Variable
             ''Workspace Manifest shell environment change is duplicated'' [] changes])
       (let byName = foldl apply_change (by_name overrides) changes
        in Inr (List.map_filter byName contextShellEnvironmentVariables))"

definition ApplyContextShellEnvironmentSetting ::
  "ManifestShellEnvironmentSetting list \<Rightarrow> ManifestShellEnvironmentSetting \<Rightarrow> ManifestShellEnvironmentSetting list result" where
  "ApplyContextShellEnvironmentSetting overrides change = ApplyContextShellEnvironmentSettings overrides [change]"

text \<open>Values are immutable here, so a deep copy is the value itself; a copied \<open>nil\<close> slice becomes an empty one.\<close>

definition cloneContextShellEnvironment :: "ManifestShellEnvironmentSetting list option \<Rightarrow> ManifestShellEnvironmentSetting list option" where
  "cloneContextShellEnvironment settings = Some (elems settings)"

section \<open>Git identity\<close>

record ManifestGitIdentitySetting =
  gis_Source :: string
  gis_Name :: "string option"
  gis_Email :: "string option"

text \<open>\<open>unicode.Is(unicode.Cf, r)\<close>: the format characters.\<close>

definition unicode_Cf :: "nat \<Rightarrow> bool" where
  "unicode_Cf r =
     (r = 0xAD \<or> 0x600 \<le> r \<and> r \<le> 0x605 \<or> r = 0x61C \<or> r = 0x6DD \<or> r = 0x70F \<or> 0x890 \<le> r \<and> r \<le> 0x891 \<or> r = 0x8E2
      \<or> r = 0x180E \<or> 0x200B \<le> r \<and> r \<le> 0x200F \<or> 0x202A \<le> r \<and> r \<le> 0x202E \<or> 0x2060 \<le> r \<and> r \<le> 0x2064
      \<or> 0x2066 \<le> r \<and> r \<le> 0x206F \<or> r = 0xFEFF \<or> 0xFFF9 \<le> r \<and> r \<le> 0xFFFB \<or> r = 0x110BD \<or> r = 0x110CD
      \<or> 0x13430 \<le> r \<and> r \<le> 0x1343F \<or> 0x1BCA0 \<le> r \<and> r \<le> 0x1BCA3 \<or> 0x1D173 \<le> r \<and> r \<le> 0x1D17A \<or> r = 0xE0001
      \<or> 0xE0020 \<le> r \<and> r \<le> 0xE007F)"

definition git_refused_rune :: "nat \<Rightarrow> bool" where
  "git_refused_rune r = (r \<le> 0x1F \<or> 0x7F \<le> r \<and> r \<le> 0x9F \<or> r = 0x2028 \<or> r = 0x2029 \<or> unicode_Cf r)"

definition ValidateContextGitIdentityValue :: "string \<Rightarrow> check" where
  "ValidateContextGitIdentityValue v =
     first_error
       [reject (v = [] \<or> \<not> utf8_ValidString v \<or> 4096 < length v) ''Git identity value must be non-empty valid UTF-8'',
        reject (list_ex git_refused_rune (runes v))
          ''Git identity value cannot contain control, format, or Unicode line-separator characters'']"

definition ManifestGitIdentitySetting_Validate :: "ManifestGitIdentitySetting \<Rightarrow> bool \<Rightarrow> check" where
  "ManifestGitIdentitySetting_Validate s allowDefault =
     (if gis_Source s = ''default'' then
        first_error [reject (\<not> allowDefault) ''default Git identity source is not persisted'',
                     reject (gis_Name s \<noteq> None \<or> gis_Email s \<noteq> None) ''default Git identity source cannot contain name or email'']
      else if gis_Source s = ''inherit'' then
        reject (gis_Name s \<noteq> None \<or> gis_Email s \<noteq> None) ''inherited Git identity source cannot contain name or email''
      else if gis_Source s = ''literal'' then
        (case (gis_Name s, gis_Email s) of
           (Some name, Some email) \<Rightarrow>
             first_error [wrap ''literal Git identity name'' (ValidateContextGitIdentityValue name),
                          wrap ''literal Git identity email'' (ValidateContextGitIdentityValue email)]
         | _ \<Rightarrow> Some ''literal Git identity source requires both name and email'')
      else Some ''Workspace Manifest Git identity source is invalid'')"

definition DefaultContextGitIdentityReport :: ManifestGitIdentitySetting where
  "DefaultContextGitIdentityReport = \<lparr> gis_Source = ''default'', gis_Name = None, gis_Email = None \<rparr>"

section \<open>Runtime binding\<close>

abbreviation StandardRuntimeID :: string where "StandardRuntimeID \<equiv> ''builtin/standard''"
abbreviation StandardRuntimeName :: string where "StandardRuntimeName \<equiv> ''standard''"
abbreviation BuiltinImageSelector :: string where "BuiltinImageSelector \<equiv> ''builtin''"

text \<open>
  \<open>imageReferencePattern\<close>. Slashes separate the segments. The last one may carry a tag, the first of
  several may carry a port; a domain without port is a segment like any other. The digest follows the only \<open>@\<close>.
\<close>

fun separated_run :: "string \<Rightarrow> bool \<Rightarrow> string \<Rightarrow> bool" where
  "separated_run seps open [] = open"
| "separated_run seps open (c # cs) =
     (if is_lower c \<or> is_digit c then separated_run seps True cs
      else c \<in> set seps \<and> open \<and> separated_run seps False cs)"

definition image_tag :: "string \<Rightarrow> bool" where
  "image_tag t =
     (case t of [] \<Rightarrow> False
      | c # r \<Rightarrow> (is_lower c \<or> is_upper c \<or> is_digit c \<or> c = CHR ''_'') \<and> length r \<le> 127
               \<and> list_all (\<lambda>x. is_lower x \<or> is_upper x \<or> is_digit x \<or> x \<in> set ''_.-'') r)"

definition image_segment :: "string \<Rightarrow> bool" where "image_segment s = separated_run ''._-'' False s"

definition image_last :: "string \<Rightarrow> bool" where
  "image_last s =
     (case strings_Split s CHR '':'' of
        [name] \<Rightarrow> image_segment name
      | [name, tag] \<Rightarrow> image_segment name \<and> image_tag tag
      | _ \<Rightarrow> False)"

definition image_domain :: "string \<Rightarrow> bool" where
  "image_domain s =
     (case strings_Split s CHR '':'' of
        [host, port] \<Rightarrow> separated_run ''.-'' False host \<and> port \<noteq> [] \<and> length port \<le> 5 \<and> list_all is_digit port
      | _ \<Rightarrow> False)"

definition image_name :: "string \<Rightarrow> bool" where
  "image_name s =
     (let segs = strings_Split s CHR ''/''
      in image_last (last segs)
         \<and> (case butlast segs of [] \<Rightarrow> True | d # ps \<Rightarrow> (image_segment d \<or> image_domain d) \<and> list_all image_segment ps))"

definition imageReferencePattern :: "string \<Rightarrow> bool" where
  "imageReferencePattern s =
     (case strings_Split s CHR ''@'' of
        [name] \<Rightarrow> image_name name
      | [name, digest] \<Rightarrow> image_name name \<and> prefixed_hex ''sha256:'' 64 digest
      | _ \<Rightarrow> False)"

definition ValidateImageSelector :: "string \<Rightarrow> check" where
  "ValidateImageSelector img =
     (if img = BuiltinImageSelector then None
      else reject (img = [] \<or> 255 < length img \<or> \<not> imageReferencePattern img)
             ''image must be builtin or a portable OCI image reference'')"

definition ValidateRuntimeID :: "string \<Rightarrow> check" where
  "ValidateRuntimeID i = reject (\<not> contextIDPattern i) ''Runtime ID is invalid''"

record RuntimeBinding =
  rtb_RuntimeID :: string
  rtb_Name :: string
  rtb_Revision :: string
  rtb_Ordinal :: int
  rtb_Image :: string

definition RuntimeBinding_Validate :: "RuntimeBinding \<Rightarrow> check" where
  "RuntimeBinding_Validate b =
     first_error
       [(if rtb_RuntimeID b \<noteq> StandardRuntimeID then ValidateRuntimeID (rtb_RuntimeID b) else None),
        wrap ''Runtime binding name'' (ValidateName (rtb_Name b)),
        reject (rtb_Ordinal b < 1) ''Runtime binding ordinal must be positive'',
        wrap ''Runtime binding revision'' (ValidateDigest (rtb_Revision b)),
        wrap ''Runtime binding image'' (ValidateImageSelector (rtb_Image b)),
        reject (rtb_Image b = BuiltinImageSelector) ''Runtime binding image must be resolved execution material'',
        reject (rtb_RuntimeID b = StandardRuntimeID \<and> rtb_Name b \<noteq> StandardRuntimeName) ''standard Runtime binding name is invalid'']"

definition ParseRuntimeSelection :: "string \<Rightarrow> (string \<times> int) result" where
  "ParseRuntimeSelection v =
     (if v = [] \<or> v = StandardRuntimeName then Inr (StandardRuntimeName, 1)
      else
        let index = strings_LastIndexByte v CHR ''@'' in
        if index < 1 \<or> index = int (length v) - 1 then Inl ''Runtime selection must be standard or name@ordinal''
        else
          let name = take (nat index) v in
          guarded (wrap ''Runtime selection name'' (ValidateName name))
            (case strconv_Atoi (drop (nat index + 1) v) of
               None \<Rightarrow> Inl ''Runtime selection ordinal must be positive''
             | Some ordinal \<Rightarrow>
                 if ordinal < 1 then Inl ''Runtime selection ordinal must be positive'' else Inr (name, ordinal)))"

definition Selection :: "RuntimeBinding \<Rightarrow> string result" where
  "Selection b =
     guarded (RuntimeBinding_Validate b)
       (let selection = rtb_Name b @ ''@'' @ strconv_Itoa (rtb_Ordinal b)
        in and_then (ParseRuntimeSelection selection) (\<lambda>_. Inr selection))"

section \<open>Staged shell changes\<close>

lemma guarded_Inl: "guarded c (Inr x) = Inl e \<longleftrightarrow> c = Some e"
  by (cases c) (auto simp: guarded_def)

text \<open>A map from variables to settings that the report of a Template can hold.\<close>

definition setting_map :: "(string \<Rightarrow> ManifestShellEnvironmentSetting option) \<Rightarrow> bool" where
  "setting_map m = (\<forall>v s. m v = Some s \<longrightarrow> ses_Variable s = v \<and> ManifestShellEnvironmentSetting_Validate s False = None)"

lemma setting_variable: "ManifestShellEnvironmentSetting_Validate s b = None \<Longrightarrow> ses_Variable s \<in> set contextShellEnvironmentVariables"
  by (simp add: ManifestShellEnvironmentSetting_Validate_def ValidateContextShellEnvironmentVariable_def check_simps)

lemma by_name_snoc: "by_name (xs @ [s]) = (by_name xs)(ses_Variable s \<mapsto> s)"
  by (simp add: by_name_def)

lemma by_name_distinct:
  "distinct (map ses_Variable xs) \<Longrightarrow> by_name xs v = Some s \<longleftrightarrow> s \<in> set xs \<and> ses_Variable s = v"
proof (induction xs rule: rev_induct)
  case (snoc x xs)
  from snoc.prems have "ses_Variable x \<notin> set (map ses_Variable xs)" by simp
  then have "\<forall>y \<in> set xs. ses_Variable y \<noteq> ses_Variable x" by (metis imageI set_map)
  with snoc show ?case by (auto simp: by_name_snoc)
qed (simp add: by_name_def)

lemma shell_valid:
  "validateContextShellEnvironment xs False = None \<longleftrightarrow>
     (\<forall>s \<in> set xs. ManifestShellEnvironmentSetting_Validate s False = None) \<and> distinct (map ses_Variable xs)"
  by (simp add: validateContextShellEnvironment_def check_simps)

lemma by_name_setting_map: "validateContextShellEnvironment xs False = None \<Longrightarrow> setting_map (by_name xs)"
  by (auto simp: shell_valid setting_map_def by_name_distinct)

text \<open>A change that is not the default is persisted as it is.\<close>

lemma persisted_change:
  "ManifestShellEnvironmentSetting_Validate c True = None \<Longrightarrow> ses_Source c \<noteq> ''default'' \<Longrightarrow>
     ManifestShellEnvironmentSetting_Validate c False = None"
  by (simp add: ManifestShellEnvironmentSetting_Validate_def)

lemma apply_change_setting_map:
  "setting_map m \<Longrightarrow> ManifestShellEnvironmentSetting_Validate c True = None \<Longrightarrow> setting_map (apply_change m c)"
  by (auto simp: setting_map_def apply_change_def persisted_change)

lemma apply_changes_setting_map:
  "setting_map m \<Longrightarrow> \<forall>c \<in> set cs. ManifestShellEnvironmentSetting_Validate c True = None \<Longrightarrow> setting_map (foldl apply_change m cs)"
  by (induction cs arbitrary: m) (auto simp: apply_change_setting_map)

lemma variables_distinct: "distinct contextShellEnvironmentVariables" by code_simp

lemma map_filter_setting_map:
  assumes "setting_map m" "distinct vs" "dom m \<subseteq> set vs"
  shows "by_name (List.map_filter m vs) = m" "validateContextShellEnvironment (List.map_filter m vs) False = None"
    "map ses_Variable (List.map_filter m vs) = filter (\<lambda>v. m v \<noteq> None) vs"
proof -
  show f: "map ses_Variable (List.map_filter m vs) = filter (\<lambda>v. m v \<noteq> None) vs"
    using assms(1) by (induction vs) (auto simp: map_filter_simps setting_map_def split: option.splits)
  have mem: "s \<in> set (List.map_filter m vs) \<longleftrightarrow> (\<exists>v. m v = Some s)" for s
    using assms(3) by (force simp: map_filter_def)
  have d: "distinct (map ses_Variable (List.map_filter m vs))" using assms(2) by (simp add: f)
  show "validateContextShellEnvironment (List.map_filter m vs) False = None"
    using d assms(1) by (auto simp: shell_valid mem setting_map_def)
  show "by_name (List.map_filter m vs) = m"
  proof
    fix v
    have "by_name (List.map_filter m vs) v = Some s \<longleftrightarrow> m v = Some s" for s
      using assms(1) by (auto simp: by_name_distinct[OF d] mem setting_map_def)
    then show "by_name (List.map_filter m vs) v = m v" by (metis not_Some_eq)
  qed
qed

lemma setting_map_dom: "setting_map m \<Longrightarrow> dom m \<subseteq> set contextShellEnvironmentVariables"
  using setting_variable by (auto simp: setting_map_def)

text \<open>Changes of distinct variables are one update of the map, with the defaults taken out.\<close>

definition defaulted :: "ManifestShellEnvironmentSetting list \<Rightarrow> string set" where
  "defaulted cs = {v. \<exists>c. by_name cs v = Some c \<and> ses_Source c = ''default''}"

lemma apply_changes_map:
  "distinct (map ses_Variable cs) \<Longrightarrow> foldl apply_change m cs = (m ++ by_name cs) |` (- defaulted cs)"
proof (induction cs rule: rev_induct)
  case Nil
  then show ?case by (simp add: by_name_def defaulted_def)
next
  case (snoc c cs)
  have none: "by_name cs (ses_Variable c) = None"
    using snoc.prems by_name_distinct[of cs "ses_Variable c"] by (auto simp: image_iff) (metis not_Some_eq)
  show ?case
    using snoc none by (auto simp: by_name_snoc apply_change_def restrict_map_def fun_eq_iff map_add_def defaulted_def split: option.splits)
qed

lemma apply_changes_idem:
  "distinct (map ses_Variable cs) \<Longrightarrow> foldl apply_change (foldl apply_change m cs) cs = foldl apply_change m cs"
  by (auto simp: apply_changes_map restrict_map_def fun_eq_iff map_add_def split: option.splits)

text \<open>C31: Staged shell changes are applied as one update of the map from variables to overrides, all or none: the result denotes the
  old overrides with every changed variable replaced, or removed when the change is the default; it is valid, in allowlist order, and
  nothing but an invalid or empty input is refused.\<close>

theorem shell_changes_refine_map_update:
  "case ApplyContextShellEnvironmentSettings old changes of
     Inr new \<Rightarrow> by_name new = (by_name old ++ by_name changes) |` (- defaulted changes)
       \<and> validateContextShellEnvironment new False = None
       \<and> map ses_Variable new = filter (\<lambda>v. by_name new v \<noteq> None) contextShellEnvironmentVariables
   | Inl _ \<Rightarrow> validateContextShellEnvironment old False \<noteq> None \<or> changes = [] \<or> \<not> distinct (map ses_Variable changes)
       \<or> (\<exists>c \<in> set changes. ManifestShellEnvironmentSetting_Validate c True \<noteq> None)"
proof (cases "ApplyContextShellEnvironmentSettings old changes")
  case (Inr new)
  let ?m = "foldl apply_change (by_name old) changes"
  have v: "validateContextShellEnvironment old False = None" "\<forall>c \<in> set changes. ManifestShellEnvironmentSetting_Validate c True = None"
    "distinct (map ses_Variable changes)" and new: "new = List.map_filter ?m contextShellEnvironmentVariables"
    using Inr by (simp_all add: ApplyContextShellEnvironmentSettings_def check_simps Let_def)
  have m: "setting_map ?m" using v by (simp add: apply_changes_setting_map by_name_setting_map)
  note new_facts = map_filter_setting_map[OF m variables_distinct setting_map_dom[OF m], folded new]
  then show ?thesis using new_facts apply_changes_map[OF v(3)] Inr by simp
next
  case (Inl e)
  then have "first_error
          [validateContextShellEnvironment old False,
           reject (changes = []) ''Workspace Manifest shell environment change set is empty'',
           check_items (\<lambda>c. ManifestShellEnvironmentSetting_Validate c True) ses_Variable
             ''Workspace Manifest shell environment change is duplicated'' [] changes] \<noteq> None"
    by (auto simp: ApplyContextShellEnvironmentSettings_def Let_def guarded_Inl)
  then show ?thesis using Inl by (auto simp: check_simps)
qed

theorem shell_changes_refine_map_update_witness:
  "\<exists>new. ApplyContextShellEnvironmentSettings
       [\<lparr> ses_Variable = ''PS1'', ses_Source = ''inherit'', ses_Value = None \<rparr>]
       [\<lparr> ses_Variable = ''TERM'', ses_Source = ''inherit'', ses_Value = None \<rparr>, \<lparr> ses_Variable = ''PS1'', ses_Source = ''default'', ses_Value = None \<rparr>]
     = Inr new \<and> by_name new ''PS1'' = None \<and> by_name new ''TERM'' \<noteq> None \<and> validateContextShellEnvironment new False = None"
proof -
  let ?old = "[\<lparr> ses_Variable = ''PS1'', ses_Source = ''inherit'', ses_Value = None \<rparr>]"
  let ?changes = "[\<lparr> ses_Variable = ''TERM'', ses_Source = ''inherit'', ses_Value = None \<rparr>,
    \<lparr> ses_Variable = ''PS1'', ses_Source = ''default'', ses_Value = None \<rparr>]"
  have "ApplyContextShellEnvironmentSettings ?old ?changes = Inr [\<lparr> ses_Variable = ''TERM'', ses_Source = ''inherit'', ses_Value = None \<rparr>]"
    by code_simp
  then show ?thesis
    using shell_changes_refine_map_update[of ?old ?changes] by (simp add: by_name_def)
qed

section \<open>Runtime selections\<close>

lemma Itoa_at_free: "CHR ''@'' \<notin> set (strconv_Itoa n)"
proof -
  have "\<not> is_digit CHR ''@''" by (simp add: is_digit_def byte_def)
  then have "CHR ''@'' \<notin> set (nat_digits m)" for m using nat_digits_all[of m] by (auto simp: list_all_iff)
  then show ?thesis by (simp add: strconv_Itoa_def)
qed

lemma name_nonempty: "ValidateName n = None \<Longrightarrow> n \<noteq> []"
  by (cases n) (auto simp: ValidateName_def namePattern_def check_simps)

text \<open>The review syntax of a Runtime binding parses back to its name and ordinal: every valid binding has a selection, and reading it
  gives what was printed.\<close>

theorem runtime_selection_roundtrip:
  assumes "RuntimeBinding_Validate b = None" "rtb_Ordinal b < 2 ^ 63"
  shows "\<exists>s. Selection b = Inr s \<and> ParseRuntimeSelection s = Inr (rtb_Name b, rtb_Ordinal b)"
proof -
  let ?n = "rtb_Name b" and ?o = "strconv_Itoa (rtb_Ordinal b)"
  let ?s = "?n @ CHR ''@'' # ?o"
  have v: "ValidateName ?n = None" "1 \<le> rtb_Ordinal b"
    using assms(1) by (simp_all add: RuntimeBinding_Validate_def check_simps not_less)
  have i: "strings_LastIndexByte ?s CHR ''@'' = int (length ?n)" using Itoa_at_free by (rule LastIndexByte_append)
  have "?o \<noteq> []" by (rule Itoa_first)
  moreover have "?n \<noteq> []" using v(1) by (rule name_nonempty)
  moreover have "strconv_Atoi ?o = Some (rtb_Ordinal b)" using v(2) assms(2) by (intro Atoi_Itoa) auto
  moreover have "CHR ''@'' \<in> set ?s" "CHR ''@'' \<notin> set StandardRuntimeName" by simp_all
  then have "?s \<noteq> StandardRuntimeName" by metis
  ultimately have "ParseRuntimeSelection ?s = Inr (?n, rtb_Ordinal b)"
    using v by (simp add: ParseRuntimeSelection_def i Let_def guarded_def wrap_def)
  then show ?thesis using assms(1) by (simp add: Selection_def guarded_def and_then_def)
qed

theorem runtime_selection_roundtrip_witness:
  "\<exists>s. Selection \<lparr> rtb_RuntimeID = ''builtin/standard'', rtb_Name = ''standard'', rtb_Revision = ''sha256:'' @ replicate 64 CHR ''a'',
      rtb_Ordinal = 1, rtb_Image = ''localhost:5000/tobari/runtime:1'' \<rparr> = Inr s \<and> ParseRuntimeSelection s = Inr (''standard'', 1)"
proof -
  let ?b = "\<lparr> rtb_RuntimeID = ''builtin/standard'', rtb_Name = ''standard'', rtb_Revision = ''sha256:'' @ replicate 64 CHR ''a'',
      rtb_Ordinal = 1, rtb_Image = ''localhost:5000/tobari/runtime:1'' \<rparr>"
  have "RuntimeBinding_Validate ?b = None" by code_simp
  from runtime_selection_roundtrip[OF this] show ?thesis by simp
qed

end
