(* ===== verification/Template_Bootstrap.thy ===== *)
theory Template_Bootstrap
  imports Template_Settings
begin

text \<open>
  The bootstrap snapshots of \<open>internal/domain/tobari/bootstrap.go\<close>: the closed, secret-free subset of an AWS profile
  and an EKS target that a new Workspace home is created from, with candidates, discovery results, reports and the
  preview of a change. Whether certificate bytes hold a PEM certificate is decided by \<open>crypto/x509\<close>, a parameter
  of the definitions (\<open>pem\<close>). The semantic revision of a snapshot binds its whole content up to a collision
  of SHA-256, and the preview of a change reports exactly the fields that differ.
\<close>

section \<open>Patterns\<close>

definition is_alnum :: "char \<Rightarrow> bool" where "is_alnum c = (is_lower c \<or> is_upper c \<or> is_digit c)"
definition is_lower_digit :: "char \<Rightarrow> bool" where "is_lower_digit c = (is_lower c \<or> is_digit c)"

text \<open>\<open>^[cls]{lo,hi}$\<close>, \<open>^[edge]([cls]{0,n})$\<close> and \<open>^[edge]([cls]{0,n}[edge])?$\<close>.\<close>

definition run_pattern :: "(char \<Rightarrow> bool) \<Rightarrow> nat \<Rightarrow> nat \<Rightarrow> string \<Rightarrow> bool" where
  "run_pattern cls lo hi s = (lo \<le> length s \<and> length s \<le> hi \<and> list_all cls s)"

definition headed_pattern :: "(char \<Rightarrow> bool) \<Rightarrow> (char \<Rightarrow> bool) \<Rightarrow> nat \<Rightarrow> string \<Rightarrow> bool" where
  "headed_pattern edge cls n s = (s \<noteq> [] \<and> edge (hd s) \<and> length (tl s) \<le> n \<and> list_all cls (tl s))"

definition edged_pattern :: "(char \<Rightarrow> bool) \<Rightarrow> (char \<Rightarrow> bool) \<Rightarrow> nat \<Rightarrow> string \<Rightarrow> bool" where
  "edged_pattern edge cls n s =
     (s \<noteq> [] \<and> edge (hd s) \<and> edge (last s) \<and> length s \<le> n + 2 \<and> list_all cls (butlast (tl s)))"

definition awsBootstrapNamePattern :: "string \<Rightarrow> bool" where
  "awsBootstrapNamePattern = run_pattern (\<lambda>c. is_alnum c \<or> c \<in> set ''_-'') 1 64"
definition awsBootstrapAccountPattern :: "string \<Rightarrow> bool" where
  "awsBootstrapAccountPattern = run_pattern is_digit 12 12"
definition awsBootstrapRolePattern :: "string \<Rightarrow> bool" where
  "awsBootstrapRolePattern = run_pattern (\<lambda>c. is_alnum c \<or> c \<in> set ''+=,.@_-'') 1 64"
definition awsBootstrapRegionPattern :: "string \<Rightarrow> bool" where
  "awsBootstrapRegionPattern s = (2 \<le> length s \<and> edged_pattern is_lower_digit (\<lambda>c. is_lower_digit c \<or> c = CHR ''-'') 62 s)"
definition awsBootstrapOutputPattern :: "string \<Rightarrow> bool" where
  "awsBootstrapOutputPattern = run_pattern (\<lambda>c. is_alnum c \<or> c \<in> set ''_-'') 1 32"
definition awsBootstrapScopePattern :: "string \<Rightarrow> bool" where
  "awsBootstrapScopePattern =
     run_pattern (\<lambda>c. byte c = 0x21 \<or> 0x23 \<le> byte c \<and> byte c \<le> 0x5B \<or> 0x5D \<le> byte c \<and> byte c \<le> 0x7E) 1 128"
definition awsBootstrapStartURLPattern :: "string \<Rightarrow> bool" where
  "awsBootstrapStartURLPattern s =
     (let body = strings_TrimSuffix s ''/''
      in strings_HasPrefix body ''https://'' \<and> strings_HasSuffix body ''.awsapps.com/start''
         \<and> length ''https://'' + length ''.awsapps.com/start'' \<le> length body
         \<and> edged_pattern is_alnum (\<lambda>c. is_alnum c \<or> c \<in> set ''.-'') 251
             (strings_TrimSuffix (strings_TrimPrefix body ''https://'') ''.awsapps.com/start''))"
definition eksBootstrapNamePattern :: "string \<Rightarrow> bool" where
  "eksBootstrapNamePattern = headed_pattern is_alnum (\<lambda>c. is_alnum c \<or> c \<in> set ''._:@/-'') 252"
definition eksBootstrapClusterPattern :: "string \<Rightarrow> bool" where
  "eksBootstrapClusterPattern = headed_pattern is_alnum (\<lambda>c. is_alnum c \<or> c \<in> set ''_-'') 99"
definition eksBootstrapNamespacePattern :: "string \<Rightarrow> bool" where
  "eksBootstrapNamespacePattern = edged_pattern is_lower_digit (\<lambda>c. is_lower_digit c \<or> c \<in> set ''.-'') 61"
definition eksBootstrapEndpointPattern :: "string \<Rightarrow> bool" where
  "eksBootstrapEndpointPattern = edged_pattern is_lower_digit (\<lambda>c. is_lower_digit c \<or> c \<in> set ''.-'') 250"

section \<open>Standard base64\<close>

definition b64_char :: "nat \<Rightarrow> char" where
  "b64_char n = (if n < 26 then char_of (65 + n) else if n < 52 then char_of (71 + n) else if n < 62 then char_of (n - 4)
                 else if n = 62 then CHR ''+'' else CHR ''/'')"

definition b64_value :: "char \<Rightarrow> nat option" where
  "b64_value c =
     (if is_upper c then Some (byte c - 65) else if is_lower c then Some (byte c - 71) else if is_digit c then Some (byte c + 4)
      else if c = CHR ''+'' then Some 62 else if c = CHR ''/'' then Some 63 else None)"

fun base64_EncodeToString :: "nat list \<Rightarrow> string" where
  "base64_EncodeToString [] = []"
| "base64_EncodeToString [a] = [b64_char (a div 4), b64_char (a mod 4 * 16), CHR ''='', CHR ''='']"
| "base64_EncodeToString [a, b] = [b64_char (a div 4), b64_char (a mod 4 * 16 + b div 16), b64_char (b mod 16 * 4), CHR ''='']"
| "base64_EncodeToString (a # b # c # r) =
     b64_char (a div 4) # b64_char (a mod 4 * 16 + b div 16) # b64_char (b mod 16 * 4 + c div 64) # b64_char (c mod 64)
     # base64_EncodeToString r"

text \<open>\<open>StdEncoding.DecodeString\<close> skips line breaks, and does not look at the unused bits of the last quantum.\<close>

fun b64_quanta :: "string \<Rightarrow> nat list option" where
  "b64_quanta [] = Some []"
| "b64_quanta (a # b # c # d # r) =
     (case (b64_value a, b64_value b) of
        (Some x, Some y) \<Rightarrow>
          (if c = CHR ''='' then (if d = CHR ''='' \<and> r = [] then Some [x * 4 + y div 16] else None)
           else (case b64_value c of
                   None \<Rightarrow> None
                 | Some z \<Rightarrow>
                     if d = CHR ''='' then (if r = [] then Some [x * 4 + y div 16, y mod 16 * 16 + z div 4] else None)
                     else (case (b64_value d, b64_quanta r) of
                             (Some w, Some rest) \<Rightarrow> Some ([x * 4 + y div 16, y mod 16 * 16 + z div 4, z mod 4 * 64 + w] @ rest)
                           | _ \<Rightarrow> None)))
      | _ \<Rightarrow> None)"
| "b64_quanta _ = None"

definition base64_DecodeString :: "string \<Rightarrow> nat list option" where
  "base64_DecodeString s = b64_quanta (filter (\<lambda>c. byte c \<noteq> 10 \<and> byte c \<noteq> 13) s)"

section \<open>Snapshots\<close>

record ManifestAWSBootstrap =
  aws_Profile :: string
  aws_SSOSession :: string
  aws_SSOStartURL :: string
  aws_SSORegion :: string
  aws_SSORegistrationScopes :: "string list option"
  aws_AccountID :: string
  aws_RoleName :: string
  aws_Region :: string
  aws_Output :: string

definition ValidateContextAWSBootstrapProfileName :: "string \<Rightarrow> check" where
  "ValidateContextAWSBootstrapProfileName v = reject (\<not> awsBootstrapNamePattern v) ''AWS bootstrap profile name is invalid''"

text \<open>The loop over the scopes: pattern, duplicate, then the comparison with the previous scope.\<close>

fun scope_rows :: "string list \<Rightarrow> string list \<Rightarrow> check" where
  "scope_rows seen [] = None"
| "scope_rows seen (s # rest) =
     first_error
       [reject (\<not> awsBootstrapScopePattern s) ''AWS bootstrap registration scope is invalid'',
        reject (s \<in> set seen) ''AWS bootstrap registration scopes must be unique'',
        reject (seen \<noteq> [] \<and> s \<le> hd seen) ''AWS bootstrap registration scopes must be sorted'',
        scope_rows (s # seen) rest]"

definition ManifestAWSBootstrap_Validate :: "ManifestAWSBootstrap \<Rightarrow> check" where
  "ManifestAWSBootstrap_Validate a =
     first_error
       [ValidateContextAWSBootstrapProfileName (aws_Profile a),
        reject (\<not> awsBootstrapNamePattern (aws_SSOSession a)) ''AWS bootstrap SSO session name is invalid'',
        reject (\<not> awsBootstrapStartURLPattern (aws_SSOStartURL a) \<or> strings_Contains (aws_SSOStartURL a) ''..'')
          ''AWS bootstrap SSO start URL must be an exact AWS access-portal HTTPS start URL'',
        reject (2048 < length (aws_SSOStartURL a)) ''AWS bootstrap SSO start URL is too long'',
        reject (\<not> awsBootstrapRegionPattern (aws_SSORegion a)) ''AWS bootstrap SSO region is invalid'',
        reject (\<not> awsBootstrapAccountPattern (aws_AccountID a)) ''AWS bootstrap account ID is invalid'',
        reject (\<not> awsBootstrapRolePattern (aws_RoleName a)) ''AWS bootstrap role name is invalid'',
        reject (aws_Region a \<noteq> [] \<and> \<not> awsBootstrapRegionPattern (aws_Region a)) ''AWS bootstrap region is invalid'',
        reject (aws_Output a \<noteq> [] \<and> \<not> awsBootstrapOutputPattern (aws_Output a)) ''AWS bootstrap output is invalid'',
        (case aws_SSORegistrationScopes a of
           None \<Rightarrow> Some ''AWS bootstrap registration scopes must be explicit''
         | Some scopes \<Rightarrow>
             first_error [reject (16 < length scopes) ''AWS bootstrap has too many registration scopes'', scope_rows [] scopes])]"

definition ManifestAWSBootstrap_Clone :: "ManifestAWSBootstrap \<Rightarrow> ManifestAWSBootstrap" where
  "ManifestAWSBootstrap_Clone a = a\<lparr> aws_SSORegistrationScopes := Some (elems (aws_SSORegistrationScopes a)) \<rparr>"

record ManifestEKSBootstrap =
  eks_WorkspaceManifestName :: string
  eks_ClusterName :: string
  eks_Region :: string
  eks_Server :: string
  eks_CertificateAuthorityData :: string
  eks_Namespace :: string

definition ManifestEKSBootstrap_Validate :: "(nat list \<Rightarrow> bool) \<Rightarrow> ManifestEKSBootstrap \<Rightarrow> check" where
  "ManifestEKSBootstrap_Validate pem e =
     first_error
       [reject (\<not> eksBootstrapNamePattern (eks_WorkspaceManifestName e) \<or> strings_Contains (eks_WorkspaceManifestName e) ''..'')
          ''EKS bootstrap context name is invalid'',
        reject (\<not> eksBootstrapClusterPattern (eks_ClusterName e)) ''EKS bootstrap cluster name is invalid'',
        reject (\<not> awsBootstrapRegionPattern (eks_Region e)) ''EKS bootstrap region is invalid'',
        reject (eks_Namespace e \<noteq> [] \<and> \<not> eksBootstrapNamespacePattern (eks_Namespace e)) ''EKS bootstrap namespace is invalid'',
        reject (eks_Server e = [] \<or> 2048 < length (eks_Server e)) ''EKS bootstrap server is invalid'',
        reject (\<not> strings_HasPrefix (eks_Server e) ''https://''
                \<or> strings_ContainsAny (strings_TrimPrefix (eks_Server e) ''https://'') ''/@:?#'')
          ''EKS bootstrap server must be an exact HTTPS origin'',
        (let host = strings_TrimPrefix (eks_Server e) ''https://'';
             suffix = ''.'' @ eks_Region e @ ''.eks.amazonaws.com'';
             prefix = strings_TrimSuffix host suffix
         in reject (host = [] \<or> host \<noteq> strings_ToLower host \<or> \<not> strings_HasSuffix host suffix
                    \<or> \<not> eksBootstrapEndpointPattern prefix \<or> strings_Contains prefix ''..'')
              ''EKS bootstrap server is not a canonical commercial EKS endpoint''),
        reject (eks_CertificateAuthorityData e = [] \<or> 128 * 1024 < length (eks_CertificateAuthorityData e))
          ''EKS bootstrap certificate authority data is invalid'',
        (case base64_DecodeString (eks_CertificateAuthorityData e) of
           None \<Rightarrow> Some ''EKS bootstrap certificate authority data is not canonical base64''
         | Some certificate \<Rightarrow>
             first_error
               [reject (certificate = [] \<or> base64_EncodeToString certificate \<noteq> eks_CertificateAuthorityData e)
                  ''EKS bootstrap certificate authority data is not canonical base64'',
                reject (\<not> pem certificate) ''EKS bootstrap certificate authority data contains no certificate''])]"

record ManifestBootstrapSnapshot =
  bss_SchemaVersion :: int
  bss_Generation :: "64 word"
  bss_Revision :: string
  bss_AWS :: ManifestAWSBootstrap
  bss_EKS :: "ManifestEKSBootstrap option"

definition eks_fields :: "ManifestEKSBootstrap \<Rightarrow> string list" where
  "eks_fields e =
     [''adapter=kubernetes_eks'', ''eks.manifest_name='' @ eks_WorkspaceManifestName e, ''eks.cluster_name='' @ eks_ClusterName e,
      ''eks.region='' @ eks_Region e, ''eks.server='' @ eks_Server e,
      ''eks.certificate_authority_data='' @ eks_CertificateAuthorityData e, ''eks.namespace='' @ eks_Namespace e]"

definition aws_fields :: "ManifestBootstrapSnapshot \<Rightarrow> string list" where
  "aws_fields s =
     [''schema='' @ strconv_Itoa (bss_SchemaVersion s), ''adapter=aws_iam_identity_center'',
      ''profile='' @ aws_Profile (bss_AWS s), ''sso_session='' @ aws_SSOSession (bss_AWS s),
      ''sso_start_url='' @ aws_SSOStartURL (bss_AWS s), ''sso_region='' @ aws_SSORegion (bss_AWS s),
      ''sso_registration_scopes='' @ strings_Join (elems (aws_SSORegistrationScopes (bss_AWS s))) '' '',
      ''sso_account_id='' @ aws_AccountID (bss_AWS s), ''sso_role_name='' @ aws_RoleName (bss_AWS s),
      ''region='' @ aws_Region (bss_AWS s), ''output='' @ aws_Output (bss_AWS s)]"

definition snapshot_fields :: "ManifestBootstrapSnapshot \<Rightarrow> string list" where
  "snapshot_fields s = aws_fields s @ (case bss_EKS s of None \<Rightarrow> [] | Some e \<Rightarrow> eks_fields e)"

definition semanticRevision :: "ManifestBootstrapSnapshot \<Rightarrow> string" where
  "semanticRevision s = ''sha256:'' @ hex_EncodeToString (sha256_Sum256 (strings_Join (snapshot_fields s) [NUL]))"

definition newContextBootstrapSnapshot ::
  "(nat list \<Rightarrow> bool) \<Rightarrow> 64 word \<Rightarrow> ManifestAWSBootstrap \<Rightarrow> ManifestEKSBootstrap option \<Rightarrow> ManifestBootstrapSnapshot result" where
  "newContextBootstrapSnapshot pem generation a eks =
     (let a = a\<lparr> aws_SSORegistrationScopes := Some (sort (elems (aws_SSORegistrationScopes a))) \<rparr>
      in guarded
           (first_error
              [reject (generation = 0) ''Workspace Manifest bootstrap generation must be positive'',
               ManifestAWSBootstrap_Validate a,
               (case eks of None \<Rightarrow> None | Some e \<Rightarrow> ManifestEKSBootstrap_Validate pem e)])
           (let s = \<lparr> bss_SchemaVersion = 1, bss_Generation = generation, bss_Revision = [], bss_AWS = a, bss_EKS = eks \<rparr>
            in Inr (s\<lparr> bss_Revision := semanticRevision s \<rparr>)))"

definition NewContextBootstrapSnapshot ::
  "(nat list \<Rightarrow> bool) \<Rightarrow> 64 word \<Rightarrow> ManifestAWSBootstrap \<Rightarrow> ManifestBootstrapSnapshot result" where
  "NewContextBootstrapSnapshot pem generation a = newContextBootstrapSnapshot pem generation a None"

definition NewContextBootstrapSnapshotWithEKS ::
  "(nat list \<Rightarrow> bool) \<Rightarrow> 64 word \<Rightarrow> ManifestAWSBootstrap \<Rightarrow> ManifestEKSBootstrap \<Rightarrow> ManifestBootstrapSnapshot result" where
  "NewContextBootstrapSnapshotWithEKS pem generation a eks = newContextBootstrapSnapshot pem generation a (Some eks)"

definition ManifestBootstrapSnapshot_Validate :: "(nat list \<Rightarrow> bool) \<Rightarrow> ManifestBootstrapSnapshot \<Rightarrow> check" where
  "ManifestBootstrapSnapshot_Validate pem s =
     first_error
       [reject (bss_SchemaVersion s \<noteq> 1 \<or> bss_Generation s = 0) ''Workspace Manifest bootstrap snapshot version or generation is invalid'',
        ManifestAWSBootstrap_Validate (bss_AWS s),
        (case bss_EKS s of None \<Rightarrow> None | Some e \<Rightarrow> ManifestEKSBootstrap_Validate pem e),
        reject (bss_Revision s \<noteq> semanticRevision s) ''Workspace Manifest bootstrap revision does not match its semantic snapshot'']"

definition ManifestBootstrapSnapshot_Clone :: "ManifestBootstrapSnapshot \<Rightarrow> ManifestBootstrapSnapshot" where
  "ManifestBootstrapSnapshot_Clone s = s\<lparr> bss_AWS := ManifestAWSBootstrap_Clone (bss_AWS s) \<rparr>"

section \<open>Candidates and discovery\<close>

definition validBootstrapDiscoveryReason :: "string \<Rightarrow> bool" where
  "validBootstrapDiscoveryReason v =
     (v \<noteq> [] \<and> length v \<le> 512 \<and> utf8_ValidString v \<and> \<not> strings_ContainsByte v NUL \<and> \<not> has_control v)"

definition validBootstrapCandidateLabel :: "string \<Rightarrow> nat \<Rightarrow> bool" where
  "validBootstrapCandidateLabel v maxBytes = (v \<noteq> [] \<and> length v \<le> maxBytes \<and> utf8_ValidString v \<and> \<not> strings_ContainsByte v NUL)"

record bootstrap_candidate =
  bc_Label :: string
  bc_State :: string
  bc_Reason :: string
  bc_Snapshot :: "ManifestBootstrapSnapshot option"

text \<open>\<open>ManifestAWSBootstrapCandidate\<close> and \<open>ManifestEKSBootstrapCandidate\<close> have the same fields; the label is the profile of the
  one and the kubeconfig context of the other.\<close>

type_synonym ManifestAWSBootstrapCandidate = bootstrap_candidate
type_synonym ManifestEKSBootstrapCandidate = bootstrap_candidate

definition ManifestAWSBootstrapCandidate_Validate :: "(nat list \<Rightarrow> bool) \<Rightarrow> ManifestAWSBootstrapCandidate \<Rightarrow> check" where
  "ManifestAWSBootstrapCandidate_Validate pem c =
     first_error
       [reject (\<not> validBootstrapCandidateLabel (bc_Label c) 64) ''AWS bootstrap candidate profile is invalid'',
        (if bc_State c = ''available'' then
           first_error
             [instead ''available AWS bootstrap candidate profile is invalid'' (ValidateContextAWSBootstrapProfileName (bc_Label c)),
              (case bc_Snapshot c of
                 None \<Rightarrow> Some ''available AWS bootstrap candidate is incomplete''
               | Some s \<Rightarrow>
                   first_error
                     [reject (bc_Reason c \<noteq> [] \<or> bss_EKS s \<noteq> None \<or> aws_Profile (bss_AWS s) \<noteq> bc_Label c)
                        ''available AWS bootstrap candidate is incomplete'',
                      ManifestBootstrapSnapshot_Validate pem s])]
         else if bc_State c = ''unavailable'' then
           reject (bc_Snapshot c \<noteq> None \<or> \<not> validBootstrapDiscoveryReason (bc_Reason c)) ''unavailable AWS bootstrap candidate is invalid''
         else Some ''AWS bootstrap candidate state is invalid'')]"

definition ManifestEKSBootstrapCandidate_Validate :: "(nat list \<Rightarrow> bool) \<Rightarrow> ManifestEKSBootstrapCandidate \<Rightarrow> string \<Rightarrow> check" where
  "ManifestEKSBootstrapCandidate_Validate pem c awsRevision =
     first_error
       [reject (\<not> validBootstrapCandidateLabel (bc_Label c) 253) ''EKS bootstrap candidate context is invalid'',
        (if bc_State c = ''available'' then
           first_error
             [reject (\<not> eksBootstrapNamePattern (bc_Label c) \<or> strings_Contains (bc_Label c) ''..'')
                ''available EKS bootstrap candidate context is invalid'',
              (case bc_Snapshot c of
                 None \<Rightarrow> Some ''available EKS bootstrap candidate is incomplete''
               | Some s \<Rightarrow>
                   first_error
                     [reject (bc_Reason c \<noteq> [] \<or> map_option eks_WorkspaceManifestName (bss_EKS s) \<noteq> Some (bc_Label c))
                        ''available EKS bootstrap candidate is incomplete'',
                      ManifestBootstrapSnapshot_Validate pem s,
                      (case NewContextBootstrapSnapshot pem (bss_Generation s) (bss_AWS s) of
                         Inl _ \<Rightarrow> Some ''EKS bootstrap candidate does not bind the selected AWS semantic revision''
                       | Inr base \<Rightarrow> reject (bss_Revision base \<noteq> awsRevision)
                             ''EKS bootstrap candidate does not bind the selected AWS semantic revision'')])]
         else if bc_State c = ''unavailable'' then
           reject (bc_Snapshot c \<noteq> None \<or> \<not> validBootstrapDiscoveryReason (bc_Reason c)) ''unavailable EKS bootstrap candidate is invalid''
         else Some ''EKS bootstrap candidate state is invalid'')]"

record ManifestAWSBootstrapDiscovery =
  bd_State :: string
  bd_Reason :: string
  bd_Candidates :: "bootstrap_candidate list option"

record ManifestEKSBootstrapDiscovery = ManifestAWSBootstrapDiscovery +
  bd_AWSRevision :: string

definition discovery_rows ::
  "(bootstrap_candidate \<Rightarrow> check) \<Rightarrow> string \<Rightarrow> 'a ManifestAWSBootstrapDiscovery_scheme \<Rightarrow> check" where
  "discovery_rows validate kind d =
     (if bd_State d \<noteq> ''available'' then
        reject ((bd_State d \<noteq> ''missing'' \<and> bd_State d \<noteq> ''rejected'') \<or> elems (bd_Candidates d) \<noteq> []
                \<or> \<not> validBootstrapDiscoveryReason (bd_Reason d)) (kind @ '' bootstrap discovery failure is invalid'')
      else
        first_error
          [reject (bd_Reason d \<noteq> []) (''available '' @ kind @ '' bootstrap discovery contains a failure reason''),
           check_items validate bc_Label (kind @ '' bootstrap candidate is duplicated'') [] (elems (bd_Candidates d))])"

definition ManifestAWSBootstrapDiscovery_Validate :: "(nat list \<Rightarrow> bool) \<Rightarrow> ManifestAWSBootstrapDiscovery \<Rightarrow> check" where
  "ManifestAWSBootstrapDiscovery_Validate pem d =
     first_error
       [reject (bd_Candidates d = None) ''AWS bootstrap candidate collection is absent'',
        discovery_rows (ManifestAWSBootstrapCandidate_Validate pem) ''AWS'' d]"

definition ManifestEKSBootstrapDiscovery_Validate :: "(nat list \<Rightarrow> bool) \<Rightarrow> ManifestEKSBootstrapDiscovery \<Rightarrow> check" where
  "ManifestEKSBootstrapDiscovery_Validate pem d =
     first_error
       [reject (bd_Candidates d = None \<or> ValidateDigest (bd_AWSRevision d) \<noteq> None) ''EKS bootstrap discovery scope is invalid'',
        discovery_rows (\<lambda>c. ManifestEKSBootstrapCandidate_Validate pem c (bd_AWSRevision d)) ''EKS'' d]"

section \<open>Reports and previews\<close>

record ManifestBootstrapReport =
  bsr_State :: string
  bsr_Generation :: "64 word"
  bsr_Revision :: string
  bsr_Adapters :: "string list option"
  bsr_AWSProfile :: string
  bsr_EKSContext :: string

definition ManifestBootstrapReportFrom :: "ManifestBootstrapSnapshot option \<Rightarrow> ManifestBootstrapReport" where
  "ManifestBootstrapReportFrom snapshot =
     (case snapshot of
        None \<Rightarrow> \<lparr> bsr_State = ''not_configured'', bsr_Generation = 0, bsr_Revision = [], bsr_Adapters = Some [], bsr_AWSProfile = [], bsr_EKSContext = [] \<rparr>
      | Some s \<Rightarrow>
          \<lparr> bsr_State = ''configured'', bsr_Generation = bss_Generation s, bsr_Revision = bss_Revision s,
            bsr_Adapters = Some (''aws_iam_identity_center'' # (case bss_EKS s of None \<Rightarrow> [] | Some _ \<Rightarrow> [''kubernetes_eks''])),
            bsr_AWSProfile = aws_Profile (bss_AWS s),
            bsr_EKSContext = (case bss_EKS s of None \<Rightarrow> [] | Some e \<Rightarrow> eks_WorkspaceManifestName e) \<rparr>)"

definition ManifestBootstrapReport_Validate :: "ManifestBootstrapReport \<Rightarrow> check" where
  "ManifestBootstrapReport_Validate r =
     (if bsr_State r = [] \<and> bsr_Generation r = 0 \<and> bsr_Revision r = [] \<and> bsr_AWSProfile r = [] \<and> bsr_EKSContext r = []
         \<and> bsr_Adapters r = None then None
      else (case bsr_Adapters r of
              None \<Rightarrow> Some ''Workspace Manifest bootstrap adapter collection must be explicit''
            | Some adapters \<Rightarrow>
                if bsr_State r = ''not_configured'' then
                  reject (bsr_Generation r \<noteq> 0 \<or> bsr_Revision r \<noteq> [] \<or> bsr_AWSProfile r \<noteq> [] \<or> bsr_EKSContext r \<noteq> [] \<or> adapters \<noteq> [])
                    ''unconfigured Workspace Manifest bootstrap contains configured metadata''
                else if bsr_State r = ''configured'' then
                  first_error
                    [reject (bsr_Generation r = 0 \<or> ValidateDigest (bsr_Revision r) \<noteq> None \<or> bsr_AWSProfile r = [] \<or> length adapters < 1
                             \<or> 2 < length adapters \<or> adapters ! 0 \<noteq> ''aws_iam_identity_center'')
                       ''configured Workspace Manifest bootstrap metadata is invalid'',
                     reject (length adapters = 1 \<and> bsr_EKSContext r \<noteq> []) ''configured Workspace Manifest bootstrap EKS metadata is inconsistent'',
                     reject (length adapters = 2 \<and> (adapters ! 1 \<noteq> ''kubernetes_eks'' \<or> bsr_EKSContext r = []))
                       ''configured Workspace Manifest bootstrap EKS metadata is invalid'']
                else Some ''Workspace Manifest bootstrap state is invalid''))"

definition ManifestBootstrapReport_Resolved :: "ManifestBootstrapReport \<Rightarrow> ManifestBootstrapReport" where
  "ManifestBootstrapReport_Resolved r = (if bsr_State r = [] then ManifestBootstrapReportFrom None else r)"

definition diff_rows :: "(string \<times> bool) list \<Rightarrow> string list" where
  "diff_rows rows = map fst (filter snd rows)"

definition aws_diff :: "ManifestAWSBootstrap \<Rightarrow> ManifestAWSBootstrap \<Rightarrow> (string \<times> bool) list" where
  "aws_diff a b =
     [(''aws.profile'', aws_Profile a \<noteq> aws_Profile b), (''aws.region'', aws_Region a \<noteq> aws_Region b),
      (''aws.output'', aws_Output a \<noteq> aws_Output b), (''aws.sso_account_id'', aws_AccountID a \<noteq> aws_AccountID b),
      (''aws.sso_region'', aws_SSORegion a \<noteq> aws_SSORegion b),
      (''aws.sso_registration_scopes'',
        strings_Join (elems (aws_SSORegistrationScopes a)) [NUL] \<noteq> strings_Join (elems (aws_SSORegistrationScopes b)) [NUL]),
      (''aws.sso_role_name'', aws_RoleName a \<noteq> aws_RoleName b), (''aws.sso_session'', aws_SSOSession a \<noteq> aws_SSOSession b),
      (''aws.sso_start_url'', aws_SSOStartURL a \<noteq> aws_SSOStartURL b)]"

definition eks_diff :: "ManifestEKSBootstrap option \<Rightarrow> ManifestEKSBootstrap option \<Rightarrow> (string \<times> bool) list" where
  "eks_diff x y =
     (case (x, y) of
        (None, None) \<Rightarrow> []
      | (Some a, Some b) \<Rightarrow>
          [(''kubernetes_eks.manifest_name'', eks_WorkspaceManifestName a \<noteq> eks_WorkspaceManifestName b),
           (''kubernetes_eks.cluster_name'', eks_ClusterName a \<noteq> eks_ClusterName b),
           (''kubernetes_eks.region'', eks_Region a \<noteq> eks_Region b), (''kubernetes_eks.server'', eks_Server a \<noteq> eks_Server b),
           (''kubernetes_eks.certificate_authority_data'', eks_CertificateAuthorityData a \<noteq> eks_CertificateAuthorityData b),
           (''kubernetes_eks.namespace'', eks_Namespace a \<noteq> eks_Namespace b)]
      | _ \<Rightarrow> [(''kubernetes_eks'', True)])"

definition diffContextAWSBootstrap :: "ManifestBootstrapSnapshot option \<Rightarrow> ManifestBootstrapSnapshot \<Rightarrow> string list" where
  "diffContextAWSBootstrap current candidate =
     (case current of
        None \<Rightarrow> [''aws'']
      | Some c \<Rightarrow> sort (diff_rows (aws_diff (bss_AWS c) (bss_AWS candidate) @ eks_diff (bss_EKS c) (bss_EKS candidate))))"

record ManifestBootstrapPreview =
  bsp_WorkspaceManifestName :: string
  bsp_Current :: ManifestBootstrapReport
  bsp_Candidate :: ManifestBootstrapReport
  bsp_Changes :: "string list option"

fun ascending_rows :: "error \<Rightarrow> string list \<Rightarrow> check" where
  "ascending_rows e [] = None"
| "ascending_rows e [x] = reject (x = []) e"
| "ascending_rows e (x # y # r) = first_error [reject (x = []) e, reject (y = [] \<or> y \<le> x) e, ascending_rows e (y # r)]"

definition ManifestBootstrapPreview_Validate :: "ManifestBootstrapPreview \<Rightarrow> check" where
  "ManifestBootstrapPreview_Validate p =
     first_error
       [ValidateName (bsp_WorkspaceManifestName p),
        ManifestBootstrapReport_Validate (bsp_Current p),
        ManifestBootstrapReport_Validate (bsp_Candidate p),
        reject (bsr_State (ManifestBootstrapReport_Resolved (bsp_Candidate p)) \<noteq> ''configured'' \<or> bsp_Changes p = None)
          ''Workspace Manifest bootstrap preview is incomplete'',
        ascending_rows ''Workspace Manifest bootstrap preview changes are invalid'' (elems (bsp_Changes p)),
        reject (elems (bsp_Changes p) = [] \<and> bsr_Revision (ManifestBootstrapReport_Resolved (bsp_Current p)) \<noteq> bsr_Revision (bsp_Candidate p))
          ''Workspace Manifest bootstrap preview misses a semantic change'']"

definition NewContextBootstrapPreview ::
  "(nat list \<Rightarrow> bool) \<Rightarrow> string \<Rightarrow> ManifestBootstrapSnapshot option \<Rightarrow> ManifestBootstrapSnapshot \<Rightarrow> ManifestBootstrapPreview result" where
  "NewContextBootstrapPreview pem contextName current candidate =
     guarded (first_error [ValidateName contextName, ManifestBootstrapSnapshot_Validate pem candidate])
       (let result = \<lparr> bsp_WorkspaceManifestName = contextName, bsp_Current = ManifestBootstrapReportFrom current,
                       bsp_Candidate = ManifestBootstrapReportFrom (Some candidate),
                       bsp_Changes = Some (diffContextAWSBootstrap current candidate) \<rparr>
        in checked (ManifestBootstrapPreview_Validate result) result)"

record WorkspaceBootstrapReport =
  wbr_State :: string
  wbr_AppliedRevision :: string
  wbr_CurrentRevision :: string

definition ResolveWorkspaceBootstrapReport ::
  "(nat list \<Rightarrow> bool) \<Rightarrow> string \<Rightarrow> ManifestBootstrapSnapshot option \<Rightarrow> WorkspaceBootstrapReport result" where
  "ResolveWorkspaceBootstrapReport pem applied current =
     guarded (reject (applied \<noteq> [] \<and> ValidateDigest applied \<noteq> None) ''applied Workspace bootstrap revision is invalid'')
       (case current of
          None \<Rightarrow>
            Inr (if applied = [] then \<lparr> wbr_State = ''not_configured'', wbr_AppliedRevision = [], wbr_CurrentRevision = [] \<rparr>
                 else \<lparr> wbr_State = ''older'', wbr_AppliedRevision = applied, wbr_CurrentRevision = [] \<rparr>)
        | Some c \<Rightarrow>
            guarded (ManifestBootstrapSnapshot_Validate pem c)
              (Inr (if applied = [] then \<lparr> wbr_State = ''not_applied'', wbr_AppliedRevision = [], wbr_CurrentRevision = bss_Revision c \<rparr>
                    else \<lparr> wbr_State = (if applied = bss_Revision c then ''current'' else ''older''), wbr_AppliedRevision = applied,
                           wbr_CurrentRevision = bss_Revision c \<rparr>)))"

definition WorkspaceBootstrapReport_Validate :: "WorkspaceBootstrapReport \<Rightarrow> check" where
  "WorkspaceBootstrapReport_Validate r =
     (if r = \<lparr> wbr_State = [], wbr_AppliedRevision = [], wbr_CurrentRevision = [] \<rparr> then None
      else if wbr_State r = ''not_configured'' then
        reject (wbr_AppliedRevision r \<noteq> [] \<or> wbr_CurrentRevision r \<noteq> []) ''unconfigured Workspace bootstrap has revisions''
      else if wbr_State r = ''not_applied'' then
        reject (wbr_AppliedRevision r \<noteq> [] \<or> ValidateDigest (wbr_CurrentRevision r) \<noteq> None) ''not-applied Workspace bootstrap is invalid''
      else if wbr_State r = ''current'' then
        reject (ValidateDigest (wbr_AppliedRevision r) \<noteq> None \<or> wbr_AppliedRevision r \<noteq> wbr_CurrentRevision r)
          ''current Workspace bootstrap is invalid''
      else if wbr_State r = ''older'' then
        reject (ValidateDigest (wbr_AppliedRevision r) \<noteq> None
                \<or> (wbr_CurrentRevision r \<noteq> [] \<and> ValidateDigest (wbr_CurrentRevision r) \<noteq> None)
                \<or> wbr_AppliedRevision r = wbr_CurrentRevision r) ''older Workspace bootstrap is invalid''
      else Some ''Workspace bootstrap state is invalid'')"

definition WorkspaceBootstrapReport_Resolved :: "WorkspaceBootstrapReport \<Rightarrow> WorkspaceBootstrapReport" where
  "WorkspaceBootstrapReport_Resolved r =
     (if wbr_State r = [] then \<lparr> wbr_State = ''not_configured'', wbr_AppliedRevision = [], wbr_CurrentRevision = [] \<rparr> else r)"

section \<open>Validated content holds no NUL\<close>

abbreviation nul_free :: "string \<Rightarrow> bool" where "nul_free s \<equiv> NUL \<notin> set s"

lemma NUL_class [simp]: "\<not> is_alnum NUL" "\<not> is_lower_digit NUL" "\<not> is_digit NUL" "\<not> is_lower NUL" "\<not> is_upper NUL"
  by (simp_all add: is_alnum_def is_lower_digit_def is_lower_def is_upper_def is_digit_def byte_def)

lemma run_nul_free: "run_pattern cls lo hi s \<Longrightarrow> \<not> cls NUL \<Longrightarrow> nul_free s"
  by (auto simp: run_pattern_def list_all_iff)

lemma headed_nul_free: "headed_pattern edge cls n s \<Longrightarrow> \<not> edge NUL \<Longrightarrow> \<not> cls NUL \<Longrightarrow> nul_free s"
  by (cases s) (auto simp: headed_pattern_def list_all_iff)

lemma edged_nul_free:
  assumes "edged_pattern edge cls n s" "\<not> edge NUL" "\<not> cls NUL"
  shows "nul_free s"
proof -
  have "set s \<subseteq> {hd s, last s} \<union> set (butlast (tl s))" if "s \<noteq> []"
  proof (cases "tl s = []")
    case True
    then show ?thesis using that by (cases s) auto
  next
    case False
    then have "s = hd s # butlast (tl s) @ [last s]" using that by (cases s) simp_all
    then have "set s = set (hd s # butlast (tl s) @ [last s])" by simp
    then show ?thesis by auto
  qed
  then show ?thesis using assms by (auto simp: edged_pattern_def list_all_iff)
qed

lemma region_nul_free: "awsBootstrapRegionPattern s \<Longrightarrow> nul_free s"
  unfolding awsBootstrapRegionPattern_def by (erule conjE, erule edged_nul_free) simp_all

lemma eks_pattern_nul_free:
  "eksBootstrapNamePattern s \<Longrightarrow> nul_free s" "eksBootstrapClusterPattern s \<Longrightarrow> nul_free s"
  "eksBootstrapNamespacePattern s \<Longrightarrow> nul_free s" "eksBootstrapEndpointPattern s \<Longrightarrow> nul_free s"
  unfolding eksBootstrapNamePattern_def eksBootstrapClusterPattern_def eksBootstrapNamespacePattern_def eksBootstrapEndpointPattern_def
  by (erule headed_nul_free edged_nul_free; simp)+

lemma aws_pattern_nul_free:
  "awsBootstrapNamePattern s \<Longrightarrow> nul_free s" "awsBootstrapAccountPattern s \<Longrightarrow> nul_free s"
  "awsBootstrapRolePattern s \<Longrightarrow> nul_free s" "awsBootstrapOutputPattern s \<Longrightarrow> nul_free s"
  unfolding awsBootstrapNamePattern_def awsBootstrapAccountPattern_def awsBootstrapRolePattern_def awsBootstrapOutputPattern_def
  by (erule run_nul_free; simp)+

lemma trimmed_subset:
  "set x \<subseteq> set (strings_TrimPrefix x p) \<union> set p" "set x \<subseteq> set (strings_TrimSuffix x p) \<union> set p"
proof -
  show "set x \<subseteq> set (strings_TrimPrefix x p) \<union> set p"
    by (cases "strings_HasPrefix x p") (auto simp: HasPrefix_iff strings_TrimPrefix_def)
  show "set x \<subseteq> set (strings_TrimSuffix x p) \<union> set p"
    by (cases "strings_HasSuffix x p") (auto simp: HasSuffix_iff strings_TrimSuffix_def)
qed

lemma start_url_nul_free: "awsBootstrapStartURLPattern u \<Longrightarrow> nul_free u"
proof -
  let ?b = "strings_TrimSuffix u ''/''"
  let ?m = "strings_TrimSuffix (strings_TrimPrefix ?b ''https://'') ''.awsapps.com/start''"
  assume "awsBootstrapStartURLPattern u"
  then have "edged_pattern is_alnum (\<lambda>c. is_alnum c \<or> c \<in> set ''.-'') 251 ?m"
    by (simp only: awsBootstrapStartURLPattern_def Let_def)
  then have "nul_free ?m" by (rule edged_nul_free) simp_all
  moreover have "set u \<subseteq> set ?m \<union> set ''.awsapps.com/start'' \<union> set ''https://'' \<union> set ''/''"
    using trimmed_subset(2)[of u "''/''"] trimmed_subset(1)[of ?b "''https://''"]
      trimmed_subset(2)[of "strings_TrimPrefix ?b ''https://''" "''.awsapps.com/start''"] by blast
  moreover have "NUL \<notin> set ''.awsapps.com/start'' \<union> set ''https://'' \<union> set ''/''" by simp
  ultimately show "nul_free u" by blast
qed

lemma aws_valid:
  assumes "ManifestAWSBootstrap_Validate a = None"
  shows "nul_free (aws_Profile a) \<and> nul_free (aws_SSOSession a) \<and> nul_free (aws_SSOStartURL a) \<and> nul_free (aws_SSORegion a)
      \<and> nul_free (aws_AccountID a) \<and> nul_free (aws_RoleName a) \<and> nul_free (aws_Region a) \<and> nul_free (aws_Output a)"
    and "\<exists>scopes. aws_SSORegistrationScopes a = Some scopes \<and> length scopes \<le> 16 \<and> scope_rows [] scopes = None"
proof -
  note v = assms[unfolded ManifestAWSBootstrap_Validate_def ValidateContextAWSBootstrapProfileName_def check_simps first_error.simps(1)]
  show "nul_free (aws_Profile a) \<and> nul_free (aws_SSOSession a) \<and> nul_free (aws_SSOStartURL a) \<and> nul_free (aws_SSORegion a)
      \<and> nul_free (aws_AccountID a) \<and> nul_free (aws_RoleName a) \<and> nul_free (aws_Region a) \<and> nul_free (aws_Output a)"
    using v by (auto dest: aws_pattern_nul_free region_nul_free start_url_nul_free)
  show "\<exists>scopes. aws_SSORegistrationScopes a = Some scopes \<and> length scopes \<le> 16 \<and> scope_rows [] scopes = None"
    using v by (auto simp: check_simps split: option.splits)
qed

lemma b64_nul_free: "nul_free (base64_EncodeToString bs)"
proof -
  have c: "b64_char n \<noteq> NUL" for n
  proof
    assume "b64_char n = NUL"
    then have "byte (b64_char n) = 0" by (simp add: byte_def)
    then show False by (auto simp: b64_char_def byte_def split: if_splits)
  qed
  show ?thesis by (induction bs rule: base64_EncodeToString.induct) (simp_all add: c c[THEN not_sym])
qed

lemma eks_valid:
  assumes "ManifestEKSBootstrap_Validate pem e = None"
  shows "nul_free (eks_WorkspaceManifestName e) \<and> nul_free (eks_ClusterName e) \<and> nul_free (eks_Region e) \<and> nul_free (eks_Server e)
      \<and> nul_free (eks_CertificateAuthorityData e) \<and> nul_free (eks_Namespace e)"
proof -
  let ?h = "strings_TrimPrefix (eks_Server e) ''https://''" and ?x = "''.'' @ eks_Region e @ ''.eks.amazonaws.com''"
  note v = assms[unfolded ManifestEKSBootstrap_Validate_def check_simps first_error.simps(1) Let_def]
  have r: "nul_free (eks_Region e)" "eksBootstrapEndpointPattern (strings_TrimSuffix ?h ?x)"
    using v by (auto dest: region_nul_free)
  have "set (eks_Server e) \<subseteq> set (strings_TrimSuffix ?h ?x) \<union> set ?x \<union> set ''https://''"
    using trimmed_subset(1)[of "eks_Server e" "''https://''"] trimmed_subset(2)[of ?h ?x] by blast
  moreover have "NUL \<notin> set ?x \<union> set ''https://''" using r(1) by simp
  ultimately have "nul_free (eks_Server e)" using eks_pattern_nul_free(4)[OF r(2)] by blast
  moreover have "\<exists>bs. eks_CertificateAuthorityData e = base64_EncodeToString bs"
    using v by (auto simp: check_simps split: option.splits) (metis)+
  then have "nul_free (eks_CertificateAuthorityData e)" using b64_nul_free by metis
  moreover have "nul_free (eks_WorkspaceManifestName e)" "nul_free (eks_ClusterName e)" "nul_free (eks_Namespace e)"
    using v by (auto dest: eks_pattern_nul_free)
  ultimately show ?thesis using r(1) by simp
qed

lemma scopes_valid:
  "scope_rows seen xs = None \<Longrightarrow> \<forall>x \<in> set xs. x \<noteq> [] \<and> nul_free x \<and> CHR '' '' \<notin> set x"
proof (induction xs arbitrary: seen)
  case (Cons x xs)
  then have p: "awsBootstrapScopePattern x" "scope_rows (x # seen) xs = None" by (simp_all add: check_simps)
  then have "x \<noteq> []" by (auto simp: awsBootstrapScopePattern_def run_pattern_def)
  moreover have "nul_free x \<and> CHR '' '' \<notin> set x"
    using p(1) by (auto simp: awsBootstrapScopePattern_def run_pattern_def list_all_iff byte_def)
  ultimately show ?case using Cons.IH[OF p(2)] by simp
qed simp

lemma scopes_join_inject:
  assumes "scope_rows seen xs = None" "scope_rows seen' ys = None" "c = CHR '' '' \<or> c = NUL"
    and "strings_Join xs [c] = strings_Join ys [c]"
  shows "xs = ys"
proof -
  have e: "zs = []" if "scope_rows s zs = None" "strings_Join zs [c] = []" for s zs
    using scopes_valid[OF that(1)] that(2) by (cases zs) (auto simp: Join_concat)
  show ?thesis
  proof (cases "xs = [] \<or> ys = []")
    case True
    then show ?thesis using e[OF assms(1)] e[OF assms(2)] assms(4) by auto
  next
    case False
    then show ?thesis
      using Join_inject[OF assms(4)] scopes_valid[OF assms(1)] scopes_valid[OF assms(2)] assms(3) by auto
  qed
qed

lemma snapshot_fields_nul_free:
  assumes "ManifestBootstrapSnapshot_Validate pem s = None"
  shows "\<forall>f \<in> set (snapshot_fields s). nul_free f"
proof -
  note v = assms[unfolded ManifestBootstrapSnapshot_Validate_def check_simps first_error.simps(1)]
  obtain scopes where sc: "aws_SSORegistrationScopes (bss_AWS s) = Some scopes" "scope_rows [] scopes = None"
    using aws_valid(2)[of "bss_AWS s"] v by auto
  have "nul_free (strings_Join scopes '' '')"
    using scopes_valid[OF sc(2)] set_Join[of scopes "'' ''"] by auto
  moreover have "nul_free (strconv_Itoa (bss_SchemaVersion s))"
    using Itoa_printable[of "bss_SchemaVersion s"] by (auto simp: list_all_iff printable_def byte_def)
  ultimately show ?thesis
    using aws_valid(1)[of "bss_AWS s"] eks_valid[of pem] v sc(1)
    by (auto simp: snapshot_fields_def aws_fields_def eks_fields_def split: option.splits)
qed

lemma snapshot_fields_inject:
  assumes "snapshot_fields s = snapshot_fields t"
  shows "aws_Profile (bss_AWS s) = aws_Profile (bss_AWS t)" "aws_SSOSession (bss_AWS s) = aws_SSOSession (bss_AWS t)"
    "aws_SSOStartURL (bss_AWS s) = aws_SSOStartURL (bss_AWS t)" "aws_SSORegion (bss_AWS s) = aws_SSORegion (bss_AWS t)"
    "strings_Join (elems (aws_SSORegistrationScopes (bss_AWS s))) '' '' = strings_Join (elems (aws_SSORegistrationScopes (bss_AWS t))) '' ''"
    "aws_AccountID (bss_AWS s) = aws_AccountID (bss_AWS t)" "aws_RoleName (bss_AWS s) = aws_RoleName (bss_AWS t)"
    "aws_Region (bss_AWS s) = aws_Region (bss_AWS t)" "aws_Output (bss_AWS s) = aws_Output (bss_AWS t)" "bss_EKS s = bss_EKS t"
proof -
  have "length (aws_fields s) = length (aws_fields t)" by (simp add: aws_fields_def)
  then have parts: "aws_fields s = aws_fields t"
    and e: "(case bss_EKS s of None \<Rightarrow> [] | Some e \<Rightarrow> eks_fields e) = (case bss_EKS t of None \<Rightarrow> [] | Some e \<Rightarrow> eks_fields e)"
    using assms unfolding snapshot_fields_def by simp_all
  note eq = parts[unfolded aws_fields_def list.inject same_append_eq]
  show "aws_Profile (bss_AWS s) = aws_Profile (bss_AWS t)" "aws_SSOSession (bss_AWS s) = aws_SSOSession (bss_AWS t)"
    "aws_SSOStartURL (bss_AWS s) = aws_SSOStartURL (bss_AWS t)" "aws_SSORegion (bss_AWS s) = aws_SSORegion (bss_AWS t)"
    "strings_Join (elems (aws_SSORegistrationScopes (bss_AWS s))) '' '' = strings_Join (elems (aws_SSORegistrationScopes (bss_AWS t))) '' ''"
    "aws_AccountID (bss_AWS s) = aws_AccountID (bss_AWS t)" "aws_RoleName (bss_AWS s) = aws_RoleName (bss_AWS t)"
    "aws_Region (bss_AWS s) = aws_Region (bss_AWS t)" "aws_Output (bss_AWS s) = aws_Output (bss_AWS t)"
    by (insert eq) (elim conjE, assumption)+
  have ne: "eks_fields x \<noteq> []" for x by (simp add: eks_fields_def)
  have inj: "x = y" if "eks_fields x = eks_fields y" for x y
    using that unfolding eks_fields_def list.inject same_append_eq
    by (intro ManifestEKSBootstrap.equality) simp_all
  show "bss_EKS s = bss_EKS t"
    using e ne ne[symmetric] inj by (auto split: option.splits)
qed

text \<open>Two snapshots whose hashed materials do not collide.\<close>

definition bootstrap_no_collision :: "ManifestBootstrapSnapshot \<Rightarrow> ManifestBootstrapSnapshot \<Rightarrow> bool" where
  "bootstrap_no_collision s t =
     (sha256_Sum256 (strings_Join (snapshot_fields s) [NUL]) = sha256_Sum256 (strings_Join (snapshot_fields t) [NUL]) \<longrightarrow>
      strings_Join (snapshot_fields s) [NUL] = strings_Join (snapshot_fields t) [NUL])"

lemma semanticRevision_content:
  "bss_SchemaVersion s = bss_SchemaVersion t \<Longrightarrow> bss_AWS s = bss_AWS t \<Longrightarrow> bss_EKS s = bss_EKS t \<Longrightarrow> semanticRevision s = semanticRevision t"
  by (simp add: semanticRevision_def snapshot_fields_def aws_fields_def)

lemma snapshot_valid:
  assumes "ManifestBootstrapSnapshot_Validate pem s = None"
  shows "bss_SchemaVersion s = 1" "bss_Generation s \<noteq> 0" "ManifestAWSBootstrap_Validate (bss_AWS s) = None"
    "bss_EKS s = Some e \<Longrightarrow> ManifestEKSBootstrap_Validate pem e = None" "bss_Revision s = semanticRevision s"
  using assms by (auto simp: ManifestBootstrapSnapshot_Validate_def check_simps)

lemma aws_record_eq:
  assumes "ManifestAWSBootstrap_Validate a = None" "ManifestAWSBootstrap_Validate b = None"
    and "aws_Profile a = aws_Profile b" "aws_SSOSession a = aws_SSOSession b" "aws_SSOStartURL a = aws_SSOStartURL b"
      "aws_SSORegion a = aws_SSORegion b" "aws_AccountID a = aws_AccountID b" "aws_RoleName a = aws_RoleName b"
      "aws_Region a = aws_Region b" "aws_Output a = aws_Output b" "c = CHR '' '' \<or> c = NUL"
      "strings_Join (elems (aws_SSORegistrationScopes a)) [c] = strings_Join (elems (aws_SSORegistrationScopes b)) [c]"
  shows "a = b"
proof -
  obtain xs ys where "aws_SSORegistrationScopes a = Some xs" "scope_rows [] xs = None" "aws_SSORegistrationScopes b = Some ys" "scope_rows [] ys = None"
    using aws_valid(2)[OF assms(1)] aws_valid(2)[OF assms(2)] by auto
  then have "aws_SSORegistrationScopes a = aws_SSORegistrationScopes b"
    using scopes_join_inject[of "[]" xs "[]" ys c] assms(11,12) by simp
  then show ?thesis using assms by (intro ManifestAWSBootstrap.equality) simp_all
qed

section \<open>Properties\<close>

text \<open>The semantic revision of a validated bootstrap snapshot binds its complete content and nothing else: two snapshots whose
  hashed materials do not collide have the same revision exactly when their AWS and EKS parts are equal, whatever their generations.\<close>

theorem bootstrap_revision_binds_content:
  assumes "ManifestBootstrapSnapshot_Validate pem s = None" "ManifestBootstrapSnapshot_Validate pem t = None" "bootstrap_no_collision s t"
  shows "bss_Revision s = bss_Revision t \<longleftrightarrow> bss_AWS s = bss_AWS t \<and> bss_EKS s = bss_EKS t"
proof
  assume "bss_Revision s = bss_Revision t"
  then have "hex_EncodeToString (sha256_Sum256 (strings_Join (snapshot_fields s) [NUL])) =
      hex_EncodeToString (sha256_Sum256 (strings_Join (snapshot_fields t) [NUL]))"
    using snapshot_valid(5)[OF assms(1)] snapshot_valid(5)[OF assms(2)] by (simp add: semanticRevision_def)
  then have "sha256_Sum256 (strings_Join (snapshot_fields s) [NUL]) = sha256_Sum256 (strings_Join (snapshot_fields t) [NUL])"
    by (intro hex_EncodeToString_inject) (auto dest: Sum256_bytes)
  then have j: "strings_Join (snapshot_fields s) [NUL] = strings_Join (snapshot_fields t) [NUL]"
    using assms(3) by (simp add: bootstrap_no_collision_def)
  have "snapshot_fields s \<noteq> []" "snapshot_fields t \<noteq> []" by (simp_all add: snapshot_fields_def aws_fields_def)
  then have "snapshot_fields s = snapshot_fields t"
    by (rule Join_inject[OF j snapshot_fields_nul_free[OF assms(1)] snapshot_fields_nul_free[OF assms(2)]])
  note eq = snapshot_fields_inject[OF this]
  show "bss_AWS s = bss_AWS t \<and> bss_EKS s = bss_EKS t"
    using aws_record_eq[OF snapshot_valid(3)[OF assms(1)] snapshot_valid(3)[OF assms(2)] eq(1-4,6-9) _ eq(5)] eq(10) by simp
next
  assume "bss_AWS s = bss_AWS t \<and> bss_EKS s = bss_EKS t"
  then show "bss_Revision s = bss_Revision t"
    using snapshot_valid[OF assms(1)] snapshot_valid[OF assms(2)] semanticRevision_content[of s t] by simp
qed

definition example_aws_bootstrap :: ManifestAWSBootstrap where
  "example_aws_bootstrap =
     \<lparr> aws_Profile = ''dev'', aws_SSOSession = ''corp'', aws_SSOStartURL = ''https://d-1.awsapps.com/start'', aws_SSORegion = ''eu-west-1'',
       aws_SSORegistrationScopes = Some [''sso:account:access''], aws_AccountID = ''123456789012'', aws_RoleName = ''Developer'',
       aws_Region = [], aws_Output = [] \<rparr>"

definition example_bootstrap :: "64 word \<Rightarrow> ManifestBootstrapSnapshot" where
  "example_bootstrap g =
     (let s = \<lparr> bss_SchemaVersion = 1, bss_Generation = g, bss_Revision = [], bss_AWS = example_aws_bootstrap, bss_EKS = None \<rparr>
      in s\<lparr> bss_Revision := semanticRevision s \<rparr>)"

lemma example_aws_valid: "ManifestAWSBootstrap_Validate example_aws_bootstrap = None"
  by code_simp

lemma example_bootstrap_valid: "g \<noteq> 0 \<Longrightarrow> ManifestBootstrapSnapshot_Validate pem (example_bootstrap g) = None"
  by (simp add: ManifestBootstrapSnapshot_Validate_def example_bootstrap_def Let_def check_simps example_aws_valid
      semanticRevision_def snapshot_fields_def aws_fields_def)

lemma example_bootstrap_parts: "bss_AWS (example_bootstrap g) = example_aws_bootstrap" "bss_EKS (example_bootstrap g) = None"
  by (simp_all add: example_bootstrap_def Let_def)

theorem bootstrap_revision_binds_content_witness:
  "bss_Revision (example_bootstrap 1) = bss_Revision (example_bootstrap 2)"
proof -
  have "snapshot_fields (example_bootstrap 1) = snapshot_fields (example_bootstrap 2)"
    by (simp add: snapshot_fields_def aws_fields_def example_bootstrap_def Let_def)
  then have "bootstrap_no_collision (example_bootstrap 1) (example_bootstrap 2)" by (simp add: bootstrap_no_collision_def)
  from bootstrap_revision_binds_content[OF example_bootstrap_valid example_bootstrap_valid this]
  show ?thesis by (simp add: example_bootstrap_parts)
qed

lemma report_valid:
  assumes "ManifestBootstrapSnapshot_Validate pem s = None"
  shows "ManifestBootstrapReport_Validate (ManifestBootstrapReportFrom (Some s)) = None"
proof -
  note v = snapshot_valid[OF assms]
  have "prefixed_hex ''sha256:'' 64 (semanticRevision s)"
    unfolding semanticRevision_def prefixed_hex_append
    using hex_EncodeToString_hex[of "sha256_Sum256 (strings_Join (snapshot_fields s) [NUL])"] Sum256_bytes by (simp add: length_Sum256)
  then have "ValidateDigest (bss_Revision s) = None" by (simp add: v(5) ValidateDigest_def digestPattern_def reject_def)
  moreover have "aws_Profile (bss_AWS s) \<noteq> []"
    using v(3) by (auto simp: ManifestAWSBootstrap_Validate_def ValidateContextAWSBootstrapProfileName_def
        awsBootstrapNamePattern_def run_pattern_def check_simps)
  moreover have "eks_WorkspaceManifestName e \<noteq> []" if "bss_EKS s = Some e" for e
    using v(4)[OF that] by (auto simp: ManifestEKSBootstrap_Validate_def eksBootstrapNamePattern_def headed_pattern_def check_simps)
  ultimately show ?thesis
    using v(2) by (auto simp: ManifestBootstrapReport_Validate_def ManifestBootstrapReportFrom_def check_simps split: option.splits)
qed

lemma ascending_rows_sorted: "sorted xs \<Longrightarrow> distinct xs \<Longrightarrow> [] \<notin> set xs \<Longrightarrow> ascending_rows e xs = None"
  by (induction e xs rule: ascending_rows.induct) (auto simp: check_simps)

lemma diff_rows_names:
  "set (diff_rows rows) \<subseteq> set (map fst rows)" "distinct (map fst rows) \<Longrightarrow> distinct (diff_rows rows)"
  by (auto simp: diff_rows_def distinct_map_filter)

lemma diff_rows_empty: "sort (diff_rows rows) = [] \<longleftrightarrow> (\<forall>r \<in> set rows. \<not> snd r)"
proof -
  have "sort xs = [] \<longleftrightarrow> xs = []" for xs :: "string list" by (metis length_0_conv length_sort)
  then show ?thesis by (simp add: diff_rows_def filter_empty_conv)
qed

lemma aws_diff_names:
  "map fst (aws_diff a b) = [''aws.profile'', ''aws.region'', ''aws.output'', ''aws.sso_account_id'', ''aws.sso_region'',
     ''aws.sso_registration_scopes'', ''aws.sso_role_name'', ''aws.sso_session'', ''aws.sso_start_url'']"
  by (simp only: aws_diff_def list.map fst_conv)

lemma eks_diff_names:
  "map fst (eks_diff x y) \<in> {[], [''kubernetes_eks''],
     [''kubernetes_eks.manifest_name'', ''kubernetes_eks.cluster_name'', ''kubernetes_eks.region'', ''kubernetes_eks.server'',
      ''kubernetes_eks.certificate_authority_data'', ''kubernetes_eks.namespace'']}"
  by (cases x; cases y) (simp_all only: eks_diff_def case_prod_conv option.case list.map fst_conv insert_iff simp_thms)

lemma diff_names:
  "distinct (map fst (aws_diff a b @ eks_diff x y)) \<and> [] \<notin> set (map fst (aws_diff a b @ eks_diff x y))"
proof -
  have "\<forall>e \<in> {[], [''kubernetes_eks''],
     [''kubernetes_eks.manifest_name'', ''kubernetes_eks.cluster_name'', ''kubernetes_eks.region'', ''kubernetes_eks.server'',
      ''kubernetes_eks.certificate_authority_data'', ''kubernetes_eks.namespace'']}.
    distinct ([''aws.profile'', ''aws.region'', ''aws.output'', ''aws.sso_account_id'', ''aws.sso_region'',
     ''aws.sso_registration_scopes'', ''aws.sso_role_name'', ''aws.sso_session'', ''aws.sso_start_url''] @ e) \<and>
    [] \<notin> set ([''aws.profile'', ''aws.region'', ''aws.output'', ''aws.sso_account_id'', ''aws.sso_region'',
     ''aws.sso_registration_scopes'', ''aws.sso_role_name'', ''aws.sso_session'', ''aws.sso_start_url''] @ e)"
    by code_simp
  from bspec[OF this eks_diff_names[of x y]] show ?thesis unfolding map_append aws_diff_names .
qed

text \<open>For a validated candidate and a validated or missing current snapshot the preview of a bootstrap change always exists and is
  valid, and it reports no change exactly when the candidate has the content of the current snapshot.\<close>

theorem bootstrap_preview_is_exact:
  assumes "ValidateName name = None" "ManifestBootstrapSnapshot_Validate pem candidate = None"
    and "\<forall>c. current = Some c \<longrightarrow> ManifestBootstrapSnapshot_Validate pem c = None"
  shows "\<exists>p. NewContextBootstrapPreview pem name current candidate = Inr p \<and>
    (bsp_Changes p = Some [] \<longleftrightarrow> (\<exists>c. current = Some c \<and> bss_AWS c = bss_AWS candidate \<and> bss_EKS c = bss_EKS candidate))"
proof -
  let ?d = "diffContextAWSBootstrap current candidate"
  have asc: "ascending_rows e ?d = None" for e
  proof (cases current)
    case None
    then show ?thesis by (simp add: diffContextAWSBootstrap_def check_simps)
  next
    case (Some c)
    let ?rows = "aws_diff (bss_AWS c) (bss_AWS candidate) @ eks_diff (bss_EKS c) (bss_EKS candidate)"
    have "[] \<notin> set (diff_rows ?rows)" "distinct (diff_rows ?rows)"
      using diff_names diff_rows_names by blast+
    then show ?thesis using Some by (simp add: diffContextAWSBootstrap_def ascending_rows_sorted)
  qed
  have same: "?d = [] \<longleftrightarrow> (\<exists>c. current = Some c \<and> bss_AWS c = bss_AWS candidate \<and> bss_EKS c = bss_EKS candidate)"
  proof (cases current)
    case (Some c)
    let ?a = "bss_AWS c" and ?b = "bss_AWS candidate"
    have vc: "ManifestBootstrapSnapshot_Validate pem c = None" using assms(3) Some by simp
    have "?d = [] \<longleftrightarrow> (\<forall>r \<in> set (aws_diff ?a ?b). \<not> snd r) \<and> (\<forall>r \<in> set (eks_diff (bss_EKS c) (bss_EKS candidate)). \<not> snd r)"
      unfolding Some diffContextAWSBootstrap_def option.case diff_rows_empty by (simp only: set_append ball_Un)
    moreover have "(\<forall>r \<in> set (aws_diff ?a ?b). \<not> snd r) \<longleftrightarrow> ?a = ?b"
    proof
      assume "\<forall>r \<in> set (aws_diff ?a ?b). \<not> snd r"
      note eq = this[unfolded aws_diff_def list.set ball_simps snd_conv simp_thms]
      show "?a = ?b"
        by (rule aws_record_eq[OF snapshot_valid(3)[OF vc] snapshot_valid(3)[OF assms(2)], where c = NUL]) (use eq in simp_all)
    qed (simp add: aws_diff_def)
    moreover have "(\<forall>r \<in> set (eks_diff x y). \<not> snd r) \<longleftrightarrow> x = y" for x y
      unfolding eks_diff_def
      by (cases x; cases y) (auto intro!: ManifestEKSBootstrap.equality)
    ultimately show ?thesis using Some by simp
  qed (simp add: diffContextAWSBootstrap_def)
  have revision: "bss_Revision c = bss_Revision candidate" if "current = Some c" "?d = []" for c
    using that same assms snapshot_valid semanticRevision_content[of c candidate] by (metis option.inject)
  have report: "ManifestBootstrapReport_Validate (ManifestBootstrapReportFrom current) = None"
    using assms(3) report_valid
    by (cases current) (auto simp: ManifestBootstrapReport_Validate_def ManifestBootstrapReportFrom_def check_simps)
  let ?p = "\<lparr> bsp_WorkspaceManifestName = name, bsp_Current = ManifestBootstrapReportFrom current,
       bsp_Candidate = ManifestBootstrapReportFrom (Some candidate), bsp_Changes = Some ?d \<rparr>"
  have missed: "?d = [] \<Longrightarrow> bsr_Revision (ManifestBootstrapReport_Resolved (ManifestBootstrapReportFrom current)) = bss_Revision candidate"
    using same revision by (auto simp: ManifestBootstrapReport_Resolved_def ManifestBootstrapReportFrom_def)
  have "ManifestBootstrapPreview_Validate ?p = None"
    using assms(1) report report_valid[OF assms(2)] asc missed
    by (simp add: ManifestBootstrapPreview_Validate_def check_simps ManifestBootstrapReport_Resolved_def) 
      (simp add: ManifestBootstrapReportFrom_def)
  then have "NewContextBootstrapPreview pem name current candidate = Inr ?p"
    using assms(1,2) by (simp add: NewContextBootstrapPreview_def check_simps Let_def)
  with same show ?thesis by (intro exI[of _ ?p]) simp
qed

theorem bootstrap_preview_is_exact_witness:
  "\<exists>p. NewContextBootstrapPreview (\<lambda>_. True) ''dev'' (Some (example_bootstrap 1)) (example_bootstrap 2) = Inr p \<and> bsp_Changes p = Some []"
proof -
  have "ValidateName ''dev'' = None" by code_simp
  from bootstrap_preview_is_exact[OF this example_bootstrap_valid, of 2 "Some (example_bootstrap 1)"]
  show ?thesis by (auto simp: example_bootstrap_valid example_bootstrap_parts)
qed

end
