(* ===== verification/Template_JSON.thy ===== *)
theory Template_JSON
  imports Template_Bootstrap Manifest_Policy Semantic_Policy
begin

text \<open>
  The JSON encoding of the parts of a Workspace Template, from the \<open>json\<close> tags of their structs in
  \<open>context_policy.go\<close>, \<open>context.go\<close>, \<open>runtime_library.go\<close>, \<open>bootstrap.go\<close> and \<open>semantic_*.go\<close>. An
  embedded struct contributes its fields first. On validated values the encoding loses nothing, so a
  semantic digest of a part identifies the part.
\<close>

section \<open>Manifest policy\<close>

definition ManifestPolicyAuthority_fields :: "'a ManifestPolicyAuthority_scheme \<Rightarrow> (string \<times> json option) list" where
  "ManifestPolicyAuthority_fields a =
     [(''scheme'', Some (JString (mpa_Scheme a))), (''host'', Some (JString (mpa_Host a))), (''port'', Some (JNumber (mpa_Port a)))]"

definition ManifestPolicyAuthority_json :: "ManifestPolicyAuthority \<Rightarrow> json" where
  "ManifestPolicyAuthority_json a = json_struct (ManifestPolicyAuthority_fields a)"

definition manifest_rule_fields :: "'a manifest_rule_scheme \<Rightarrow> (string \<times> json option) list" where
  "manifest_rule_fields r =
     ManifestPolicyAuthority_fields r @ [(''method'', Some (JString (mr_Method r))), (''path'', Some (JString (mr_Path r)))]"

definition ManifestPolicyExactRule_json :: "ManifestPolicyExactRule \<Rightarrow> json" where
  "ManifestPolicyExactRule_json r =
     json_struct (manifest_rule_fields r @
       [(''protocol'', json_omitempty (mer_Protocol r)), (''graphql_operation_type'', json_omitempty (mer_GraphQLOperationType r)),
        (''graphql_root_field'', json_omitempty (mer_GraphQLRootField r))])"

text \<open>The segments of a validated template are never empty, so a \<open>nil\<close> slice is not encoded.\<close>

definition ManifestPolicyPathTemplateRule_json :: "ManifestPolicyPathTemplateRule \<Rightarrow> json" where
  "ManifestPolicyPathTemplateRule_json r =
     json_struct (manifest_rule_fields r @ [(''segments'', Some (JArray (map JString (mtr_Segments r))))])"

definition ManifestPolicyMCPRule_json :: "ManifestPolicyMCPRule \<Rightarrow> json" where
  "ManifestPolicyMCPRule_json r =
     json_struct (manifest_rule_fields r @
       [(''mcp_method'', Some (JString (mmr_MCPMethod r))), (''mcp_tool_name'', json_omitempty (mmr_MCPToolName r))])"

definition ManifestMethodOverride_json :: "ManifestMethodOverride \<Rightarrow> json" where
  "ManifestMethodOverride_json x =
     json_struct [(''method'', Some (JString (mmo_Method x))), (''decision'', Some (JString (mmo_Decision x)))]"

definition ManifestMethodPolicy_json :: "ManifestMethodPolicy \<Rightarrow> json" where
  "ManifestMethodPolicy_json p =
     json_struct [(''default'', Some (JString (mmp_Default p))),
                  (''overrides'', Some (json_slice ManifestMethodOverride_json (mmp_Overrides p)))]"

definition ManifestPolicyDestinationCeiling_json :: "ManifestPolicyDestinationCeiling \<Rightarrow> json" where
  "ManifestPolicyDestinationCeiling_json c =
     json_struct [(''mode'', Some (JString (mdc_Mode c))),
                  (''authorities'', Some (json_slice ManifestPolicyAuthority_json (mdc_Authorities c)))]"

section \<open>Semantic rules\<close>

definition SemanticRuleAuthority_fields :: "'a SemanticRuleAuthority_scheme \<Rightarrow> (string \<times> json option) list" where
  "SemanticRuleAuthority_fields a =
     [(''scheme'', Some (JString (auth_Scheme a))), (''host'', json_omitempty (auth_Host a)),
      (''hosts'', json_slice_omitempty JString (auth_Hosts a)), (''port'', Some (JNumber (auth_Port a)))]"

definition SemanticHTTPEndpoint_json :: "SemanticHTTPEndpoint \<Rightarrow> json" where
  "SemanticHTTPEndpoint_json e = json_struct (SemanticRuleAuthority_fields e @ [(''path'', Some (JString (ep_Path e)))])"

definition SemanticHTTPRule_json :: "SemanticHTTPRule \<Rightarrow> json" where
  "SemanticHTTPRule_json r =
     json_struct (SemanticRuleAuthority_fields r @
       [(''method'', Some (JString (http_Method r))), (''path'', Some (JString (http_Path r)))])"

definition SemanticGraphQLRule_json :: "SemanticGraphQLRule \<Rightarrow> json" where
  "SemanticGraphQLRule_json r =
     json_struct (SemanticRuleAuthority_fields r @
       [(''path'', Some (JString (gql_Path r))), (''operation_type'', Some (JString (gql_OperationType r))),
        (''root_field'', Some (JString (gql_RootField r)))])"

definition SemanticMCPRule_json :: "SemanticMCPRule \<Rightarrow> json" where
  "SemanticMCPRule_json r =
     json_struct (SemanticRuleAuthority_fields r @
       [(''path'', Some (JString (mcp_Path r))), (''method'', Some (JString (mcp_Method r))),
        (''tool_name'', json_omitempty (mcp_ToolName r))])"

definition SemanticGitRule_json :: "SemanticGitRule \<Rightarrow> json" where
  "SemanticGitRule_json r =
     json_struct (SemanticRuleAuthority_fields r @
       [(''service'', Some (JString (git_Service r))), (''repository'', Some (JString (git_Repository r)))])"

definition SemanticOCIRule_json :: "SemanticOCIRule \<Rightarrow> json" where
  "SemanticOCIRule_json r =
     json_struct (SemanticRuleAuthority_fields r @
       [(''action'', Some (JString (oci_Action r))), (''repository'', Some (JString (oci_Repository r))),
        (''object'', Some (JString (oci_Object r)))])"

definition SemanticAWSRule_json :: "SemanticAWSRule \<Rightarrow> json" where
  "SemanticAWSRule_json r =
     json_struct (SemanticRuleAuthority_fields r @
       [(''wire_protocol'', Some (JString (aws_WireProtocol r))), (''service'', json_omitempty (aws_Service r)),
        (''services'', json_slice_omitempty JString (aws_Services r)), (''protocol_version'', json_omitempty (aws_ProtocolVersion r)),
        (''target_namespace'', json_omitempty (aws_TargetNamespace r)), (''operation'', Some (JString (aws_Operation r)))])"

definition SemanticKubernetesResourceRule_json :: "SemanticKubernetesResourceRule \<Rightarrow> json" where
  "SemanticKubernetesResourceRule_json r =
     json_struct
       [(''group'', Some (JString (res_Group r))), (''version'', Some (JString (res_Version r))),
        (''resource'', Some (JString (res_Resource r))), (''namespace'', json_omitempty (res_Namespace r)),
        (''name'', json_omitempty (res_Name r)), (''subresource'', json_omitempty (res_Subresource r)),
        (''verb'', Some (JString (res_Verb r))), (''dry_run'', Some (JString (res_DryRun r)))]"

definition SemanticKubernetesNonResourceRule_json :: "SemanticKubernetesNonResourceRule \<Rightarrow> json" where
  "SemanticKubernetesNonResourceRule_json r =
     json_struct [(''path'', Some (JString (nonres_Path r))), (''verb'', Some (JString (nonres_Verb r)))]"

definition SemanticKubernetesRule_json :: "SemanticKubernetesRule \<Rightarrow> json" where
  "SemanticKubernetesRule_json r =
     json_struct (SemanticRuleAuthority_fields r @
       [(''resource'', map_option SemanticKubernetesResourceRule_json (k8s_Resource r)),
        (''non_resource'', map_option SemanticKubernetesNonResourceRule_json (k8s_NonResource r))])"

definition SemanticRuleSet_json :: "('r \<Rightarrow> json) \<Rightarrow> 'r SemanticRuleSet \<Rightarrow> json" where
  "SemanticRuleSet_json rule s = json_struct [(''rules'', Some (json_slice rule (Rules s)))]"

definition SemanticPolicy_json :: "('r \<Rightarrow> json) \<Rightarrow> 'r SemanticPolicy \<Rightarrow> json" where
  "SemanticPolicy_json rule p =
     json_struct [(''allow'', Some (SemanticRuleSet_json rule (Allow p))), (''deny'', Some (SemanticRuleSet_json rule (Deny p)))]"

definition SemanticEndpointPolicy_json :: "('r \<Rightarrow> json) \<Rightarrow> 'r SemanticEndpointPolicy \<Rightarrow> json" where
  "SemanticEndpointPolicy_json rule p =
     json_struct
       [(''endpoints'', Some (json_slice SemanticHTTPEndpoint_json (Endpoints p))),
        (''allow'', Some (SemanticRuleSet_json rule (Allow p))), (''deny'', Some (SemanticRuleSet_json rule (Deny p)))]"

definition WorkspaceTemplateSemanticHTTP_json :: "WorkspaceTemplateSemanticHTTP \<Rightarrow> json" where
  "WorkspaceTemplateSemanticHTTP_json h =
     json_struct
       [(''generic'', Some (SemanticPolicy_json SemanticHTTPRule_json (Generic h))),
        (''graphql'', Some (SemanticEndpointPolicy_json SemanticGraphQLRule_json (GraphQL h))),
        (''mcp'', Some (SemanticEndpointPolicy_json SemanticMCPRule_json (MCP h))),
        (''git'', Some (SemanticPolicy_json SemanticGitRule_json (Git h))),
        (''oci'', Some (SemanticPolicy_json SemanticOCIRule_json (OCI h)))]"

definition WorkspaceTemplateSemanticProtocols_json :: "WorkspaceTemplateSemanticProtocols \<Rightarrow> json" where
  "WorkspaceTemplateSemanticProtocols_json p = json_struct [(''http'', Some (WorkspaceTemplateSemanticHTTP_json (HTTP p)))]"

definition WorkspaceTemplateSemanticProviders_json :: "WorkspaceTemplateSemanticProviders \<Rightarrow> json" where
  "WorkspaceTemplateSemanticProviders_json p =
     json_struct [(''aws'', Some (SemanticPolicy_json SemanticAWSRule_json (AWS p))),
                  (''kubernetes'', Some (SemanticPolicy_json SemanticKubernetesRule_json (Kubernetes p)))]"

definition WorkspaceTemplateSemanticModules_json :: "WorkspaceTemplateSemanticModules \<Rightarrow> json" where
  "WorkspaceTemplateSemanticModules_json m =
     json_struct [(''protocols'', Some (WorkspaceTemplateSemanticProtocols_json (Protocols m))),
                  (''providers'', Some (WorkspaceTemplateSemanticProviders_json (Providers m)))]"

section \<open>Settings, Runtime and bootstrap\<close>

definition ManifestShellEnvironmentSetting_json :: "ManifestShellEnvironmentSetting \<Rightarrow> json" where
  "ManifestShellEnvironmentSetting_json s =
     json_struct [(''variable'', Some (JString (ses_Variable s))), (''source'', Some (JString (ses_Source s))),
                  (''value'', map_option JString (ses_Value s))]"

definition json_pointer :: "string option \<Rightarrow> json" where
  "json_pointer p = (case p of None \<Rightarrow> JNull | Some s \<Rightarrow> JString s)"

definition ManifestGitIdentitySetting_json :: "ManifestGitIdentitySetting \<Rightarrow> json" where
  "ManifestGitIdentitySetting_json s =
     json_struct [(''source'', Some (JString (gis_Source s))), (''name'', Some (json_pointer (gis_Name s))),
                  (''email'', Some (json_pointer (gis_Email s)))]"

definition RuntimeBinding_json :: "RuntimeBinding \<Rightarrow> json" where
  "RuntimeBinding_json b =
     json_struct [(''runtime_id'', Some (JString (rtb_RuntimeID b))), (''name'', Some (JString (rtb_Name b))),
                  (''revision'', Some (JString (rtb_Revision b))), (''ordinal'', Some (JNumber (rtb_Ordinal b))),
                  (''image'', Some (JString (rtb_Image b)))]"

definition ManifestAWSBootstrap_json :: "ManifestAWSBootstrap \<Rightarrow> json" where
  "ManifestAWSBootstrap_json a =
     json_struct
       [(''profile'', Some (JString (aws_Profile a))), (''sso_session'', Some (JString (aws_SSOSession a))),
        (''sso_start_url'', Some (JString (aws_SSOStartURL a))), (''sso_region'', Some (JString (aws_SSORegion a))),
        (''sso_registration_scopes'', Some (json_slice JString (aws_SSORegistrationScopes a))),
        (''sso_account_id'', Some (JString (aws_AccountID a))), (''sso_role_name'', Some (JString (aws_RoleName a))),
        (''region'', json_omitempty (aws_Region a)), (''output'', json_omitempty (aws_Output a))]"

definition ManifestEKSBootstrap_json :: "ManifestEKSBootstrap \<Rightarrow> json" where
  "ManifestEKSBootstrap_json e =
     json_struct
       [(''manifest_name'', Some (JString (eks_WorkspaceManifestName e))), (''cluster_name'', Some (JString (eks_ClusterName e))),
        (''region'', Some (JString (eks_Region e))), (''server'', Some (JString (eks_Server e))),
        (''certificate_authority_data'', Some (JString (eks_CertificateAuthorityData e))),
        (''namespace'', json_omitempty (eks_Namespace e))]"

definition ManifestBootstrapSnapshot_json :: "ManifestBootstrapSnapshot \<Rightarrow> json" where
  "ManifestBootstrapSnapshot_json s =
     json_struct
       [(''schema_version'', Some (JNumber (bss_SchemaVersion s))), (''generation'', Some (JNumber (uint (bss_Generation s)))),
        (''revision'', Some (JString (bss_Revision s))), (''aws'', Some (ManifestAWSBootstrap_json (bss_AWS s))),
        (''kubernetes_eks'', map_option ManifestEKSBootstrap_json (bss_EKS s))]"

section \<open>The encodings are injective\<close>

text \<open>Structs with the same keys are equal when their fields are.\<close>

lemma struct_Cons:
  assumes "k \<notin> set (map fst fs)" "k \<notin> set (map fst gs)"
  shows "json_struct ((k, v) # fs) = json_struct ((k, w) # gs) \<longleftrightarrow> v = w \<and> json_struct fs = json_struct gs"
proof -
  let ?c = "\<lambda>fs :: (string \<times> json option) list. concat (map (\<lambda>(k, v). case v of None \<Rightarrow> [] | Some j \<Rightarrow> [(k, j)]) fs)"
  have out: "(k, j) \<notin> set (?c xs)" if "k \<notin> set (map fst xs)" for xs j
    using that by (induction xs) (auto split: option.splits)
  have off: "?c fs \<noteq> (k, j) # x" "?c gs \<noteq> (k, j) # x" for j x
    using out[of fs j] out[of gs j] assms by (metis list.set_intros(1))+
  show ?thesis using off off[symmetric] by (cases v; cases w) (simp_all add: json_struct_def)
qed

lemma json_omitempty_eq [simp]: "json_omitempty s = json_omitempty t \<longleftrightarrow> s = t"
  by (auto simp: json_omitempty_def)

lemma json_pointer_eq [simp]: "json_pointer s = json_pointer t \<longleftrightarrow> s = t"
  by (auto simp: json_pointer_def split: option.splits)

lemma map_JString [simp]: "map JString xs = map JString ys \<longleftrightarrow> xs = ys"
  by (simp add: inj_on_def)

lemma json_slice_eq:
  assumes "\<And>x y. x \<in> set (elems xs) \<Longrightarrow> y \<in> set (elems ys) \<Longrightarrow> f x = f y \<Longrightarrow> x = y"
  shows "json_slice f xs = json_slice f ys \<longleftrightarrow> xs = ys"
  using assms by (cases xs; cases ys) (auto simp: json_slice_def elems_def intro: list.inj_map_strong)

lemma json_slice_inj:
  "(\<And>x y. f x = f y \<longleftrightarrow> x = y) \<Longrightarrow> json_slice f xs = json_slice f ys \<longleftrightarrow> xs = ys"
  by (rule json_slice_eq) blast

lemma json_slice_omitempty_eq:
  "xs \<noteq> Some [] \<Longrightarrow> ys \<noteq> Some [] \<Longrightarrow> json_slice_omitempty JString xs = json_slice_omitempty JString ys \<longleftrightarrow> xs = ys"
  by (cases xs; cases ys) (auto simp: json_slice_omitempty_def)

lemma map_option_eq:
  "(\<And>x y. f x = f y \<longleftrightarrow> x = y) \<Longrightarrow> map_option f a = map_option f b \<longleftrightarrow> a = b"
  by (cases a; cases b) auto

subsection \<open>Manifest policy\<close>

lemma ManifestPolicyAuthority_json_eq [simp]: "ManifestPolicyAuthority_json a = ManifestPolicyAuthority_json b \<longleftrightarrow> a = b"
  by (cases a; cases b) (simp add: ManifestPolicyAuthority_json_def ManifestPolicyAuthority_fields_def struct_Cons)

lemmas rule_fields = manifest_rule_fields_def ManifestPolicyAuthority_fields_def

lemma ManifestPolicyExactRule_json_eq [simp]: "ManifestPolicyExactRule_json a = ManifestPolicyExactRule_json b \<longleftrightarrow> a = b"
  by (cases a; cases b) (simp add: ManifestPolicyExactRule_json_def rule_fields struct_Cons)

lemma ManifestPolicyPathTemplateRule_json_eq [simp]:
  "ManifestPolicyPathTemplateRule_json a = ManifestPolicyPathTemplateRule_json b \<longleftrightarrow> a = b"
  by (cases a; cases b) (simp add: ManifestPolicyPathTemplateRule_json_def rule_fields struct_Cons)

lemma ManifestPolicyMCPRule_json_eq [simp]: "ManifestPolicyMCPRule_json a = ManifestPolicyMCPRule_json b \<longleftrightarrow> a = b"
  by (cases a; cases b) (simp add: ManifestPolicyMCPRule_json_def rule_fields struct_Cons)

lemma ManifestMethodOverride_json_eq [simp]: "ManifestMethodOverride_json a = ManifestMethodOverride_json b \<longleftrightarrow> a = b"
  by (cases a; cases b) (simp add: ManifestMethodOverride_json_def struct_Cons)

lemma ManifestMethodPolicy_json_eq [simp]: "ManifestMethodPolicy_json a = ManifestMethodPolicy_json b \<longleftrightarrow> a = b"
  by (cases a; cases b) (simp add: ManifestMethodPolicy_json_def struct_Cons json_slice_inj)

lemma ManifestPolicyDestinationCeiling_json_eq [simp]:
  "ManifestPolicyDestinationCeiling_json a = ManifestPolicyDestinationCeiling_json b \<longleftrightarrow> a = b"
  by (cases a; cases b) (simp add: ManifestPolicyDestinationCeiling_json_def struct_Cons json_slice_inj)

subsection \<open>Settings, Runtime and bootstrap\<close>

lemma ManifestShellEnvironmentSetting_json_eq [simp]:
  "ManifestShellEnvironmentSetting_json a = ManifestShellEnvironmentSetting_json b \<longleftrightarrow> a = b"
  by (cases a; cases b) (simp add: ManifestShellEnvironmentSetting_json_def struct_Cons map_option_eq)

lemma ManifestGitIdentitySetting_json_eq [simp]: "ManifestGitIdentitySetting_json a = ManifestGitIdentitySetting_json b \<longleftrightarrow> a = b"
  by (cases a; cases b) (simp add: ManifestGitIdentitySetting_json_def struct_Cons)

lemma RuntimeBinding_json_eq [simp]: "RuntimeBinding_json a = RuntimeBinding_json b \<longleftrightarrow> a = b"
  by (cases a; cases b) (simp add: RuntimeBinding_json_def struct_Cons)

lemma ManifestAWSBootstrap_json_eq [simp]: "ManifestAWSBootstrap_json a = ManifestAWSBootstrap_json b \<longleftrightarrow> a = b"
  by (cases a; cases b) (simp add: ManifestAWSBootstrap_json_def struct_Cons json_slice_inj)

lemma ManifestEKSBootstrap_json_eq [simp]: "ManifestEKSBootstrap_json a = ManifestEKSBootstrap_json b \<longleftrightarrow> a = b"
  by (cases a; cases b) (simp add: ManifestEKSBootstrap_json_def struct_Cons)

lemma ManifestBootstrapSnapshot_json_eq [simp]: "ManifestBootstrapSnapshot_json a = ManifestBootstrapSnapshot_json b \<longleftrightarrow> a = b"
  by (cases a; cases b) (simp add: ManifestBootstrapSnapshot_json_def struct_Cons map_option_eq word_uint_eq_iff)

subsection \<open>Semantic modules\<close>

lemma valid_hosts: "SemanticRuleAuthority_Validate a = None \<Longrightarrow> auth_Hosts a \<noteq> Some []"
  by (cases "auth_Hosts a") (auto simp: SemanticRuleAuthority_Validate_def check_simps Let_def split: if_splits)

lemma valid_services: "SemanticAWSRule_Validate r = None \<Longrightarrow> SemanticRuleAuthority_Validate r = None \<and> aws_Services r \<noteq> Some []"
  by (cases "aws_Services r") (auto simp: SemanticAWSRule_Validate_def aws_services_def check_simps Let_def split: if_splits)

lemmas authority_json = SemanticRuleAuthority_fields_def struct_Cons json_slice_omitempty_eq

lemma SemanticHTTPEndpoint_json_eq:
  "SemanticRuleAuthority_Validate a = None \<Longrightarrow> SemanticRuleAuthority_Validate b = None \<Longrightarrow> SemanticHTTPEndpoint_json a = SemanticHTTPEndpoint_json b \<longleftrightarrow> a = b"
  using valid_hosts[of a] valid_hosts[of b] by (cases a; cases b) (simp add: SemanticHTTPEndpoint_json_def authority_json)

lemma SemanticHTTPRule_json_eq:
  "SemanticRuleAuthority_Validate a = None \<Longrightarrow> SemanticRuleAuthority_Validate b = None \<Longrightarrow> SemanticHTTPRule_json a = SemanticHTTPRule_json b \<longleftrightarrow> a = b"
  using valid_hosts[of a] valid_hosts[of b] by (cases a; cases b) (simp add: SemanticHTTPRule_json_def authority_json)

lemma SemanticGraphQLRule_json_eq:
  "SemanticRuleAuthority_Validate a = None \<Longrightarrow> SemanticRuleAuthority_Validate b = None \<Longrightarrow> SemanticGraphQLRule_json a = SemanticGraphQLRule_json b \<longleftrightarrow> a = b"
  using valid_hosts[of a] valid_hosts[of b] by (cases a; cases b) (simp add: SemanticGraphQLRule_json_def authority_json)

lemma SemanticMCPRule_json_eq:
  "SemanticRuleAuthority_Validate a = None \<Longrightarrow> SemanticRuleAuthority_Validate b = None \<Longrightarrow> SemanticMCPRule_json a = SemanticMCPRule_json b \<longleftrightarrow> a = b"
  using valid_hosts[of a] valid_hosts[of b] by (cases a; cases b) (simp add: SemanticMCPRule_json_def authority_json)

lemma SemanticGitRule_json_eq:
  "SemanticRuleAuthority_Validate a = None \<Longrightarrow> SemanticRuleAuthority_Validate b = None \<Longrightarrow> SemanticGitRule_json a = SemanticGitRule_json b \<longleftrightarrow> a = b"
  using valid_hosts[of a] valid_hosts[of b] by (cases a; cases b) (simp add: SemanticGitRule_json_def authority_json)

lemma SemanticOCIRule_json_eq:
  "SemanticRuleAuthority_Validate a = None \<Longrightarrow> SemanticRuleAuthority_Validate b = None \<Longrightarrow> SemanticOCIRule_json a = SemanticOCIRule_json b \<longleftrightarrow> a = b"
  using valid_hosts[of a] valid_hosts[of b] by (cases a; cases b) (simp add: SemanticOCIRule_json_def authority_json)

lemma SemanticAWSRule_json_eq:
  "SemanticAWSRule_Validate a = None \<Longrightarrow> SemanticAWSRule_Validate b = None \<Longrightarrow> SemanticAWSRule_json a = SemanticAWSRule_json b \<longleftrightarrow> a = b"
  using valid_hosts[of a] valid_hosts[of b] valid_services[of a] valid_services[of b] by (cases a; cases b) (simp add: SemanticAWSRule_json_def authority_json)

lemma SemanticKubernetesResourceRule_json_eq [simp]:
  "SemanticKubernetesResourceRule_json a = SemanticKubernetesResourceRule_json b \<longleftrightarrow> a = b"
  by (cases a; cases b) (simp add: SemanticKubernetesResourceRule_json_def struct_Cons)

lemma SemanticKubernetesNonResourceRule_json_eq [simp]:
  "SemanticKubernetesNonResourceRule_json a = SemanticKubernetesNonResourceRule_json b \<longleftrightarrow> a = b"
  by (cases a; cases b) (simp add: SemanticKubernetesNonResourceRule_json_def struct_Cons)

lemma SemanticKubernetesRule_json_eq:
  "SemanticRuleAuthority_Validate a = None \<Longrightarrow> SemanticRuleAuthority_Validate b = None \<Longrightarrow> SemanticKubernetesRule_json a = SemanticKubernetesRule_json b \<longleftrightarrow> a = b"
  using valid_hosts[of a] valid_hosts[of b] by (cases a; cases b) (simp add: SemanticKubernetesRule_json_def authority_json map_option_eq)

lemma SemanticRuleSet_json_eq:
  assumes "\<And>x y. v x = None \<Longrightarrow> v y = None \<Longrightarrow> rule x = rule y \<longleftrightarrow> x = y"
    and "ruleset_validate v k kind s = None" "ruleset_validate v k kind t = None"
  shows "SemanticRuleSet_json rule s = SemanticRuleSet_json rule t \<longleftrightarrow> s = t"
proof -
  have "\<forall>x \<in> set (elems (Rules s)) \<union> set (elems (Rules t)). v x = None"
    using assms(2,3) by (auto simp: ruleset_validate_def check_simps split: option.splits)
  then have "json_slice rule (Rules s) = json_slice rule (Rules t) \<longleftrightarrow> Rules s = Rules t"
    using assms(1) by (intro json_slice_eq) auto
  then show ?thesis by (cases s; cases t) (simp add: SemanticRuleSet_json_def struct_Cons)
qed

lemma SemanticPolicy_json_eq:
  assumes "\<And>x y. v x = None \<Longrightarrow> v y = None \<Longrightarrow> rule x = rule y \<longleftrightarrow> x = y"
    and "ruleset_validate v k kind (Allow p) = None" "ruleset_validate v k kind (Deny p) = None"
    and "ruleset_validate v k kind (Allow q) = None" "ruleset_validate v k kind (Deny q) = None"
  shows "SemanticPolicy_json rule p = SemanticPolicy_json rule q \<longleftrightarrow> p = q"
proof -
  have "p = q \<longleftrightarrow> Allow p = Allow q \<and> Deny p = Deny q" by (cases p; cases q) simp
  then show ?thesis
    by (simp add: SemanticPolicy_json_def struct_Cons SemanticRuleSet_json_eq[OF assms(1) assms(2,4)]
        SemanticRuleSet_json_eq[OF assms(1) assms(3,5)])
qed

lemma SemanticEndpointPolicy_json_eq:
  assumes "\<And>x y. v x = None \<Longrightarrow> v y = None \<Longrightarrow> rule x = rule y \<longleftrightarrow> x = y"
    and "ruleset_validate v k kind (Allow p) = None" "ruleset_validate v k kind (Deny p) = None"
    and "ruleset_validate v k kind (Allow q) = None" "ruleset_validate v k kind (Deny q) = None"
    and "endpoints_validate e (Endpoints p) = None" "endpoints_validate e (Endpoints q) = None"
  shows "SemanticEndpointPolicy_json rule p = SemanticEndpointPolicy_json rule q \<longleftrightarrow> p = q"
proof -
  have "\<forall>x \<in> set (elems (Endpoints p)) \<union> set (elems (Endpoints q)). SemanticRuleAuthority_Validate x = None"
    using assms(6,7) by (auto simp: endpoints_validate_def SemanticHTTPEndpoint_Validate_def check_simps split: option.splits)
  then have "json_slice SemanticHTTPEndpoint_json (Endpoints p) = json_slice SemanticHTTPEndpoint_json (Endpoints q)
      \<longleftrightarrow> Endpoints p = Endpoints q"
    by (intro json_slice_eq) (auto simp: SemanticHTTPEndpoint_json_eq)
  moreover have "p = q \<longleftrightarrow> Endpoints p = Endpoints q \<and> Allow p = Allow q \<and> Deny p = Deny q" by (cases p; cases q) auto
  ultimately show ?thesis
    by (simp add: SemanticEndpointPolicy_json_def struct_Cons SemanticRuleSet_json_eq[OF assms(1) assms(2,4)]
        SemanticRuleSet_json_eq[OF assms(1) assms(3,5)])
qed

text \<open>The rules of validated policies encode injectively; the two sides may differ in the denied methods.\<close>

lemma SemanticHTTPPolicy_json_eq:
  "SemanticHTTPPolicy_Validate p = None \<Longrightarrow> SemanticHTTPPolicy_Validate q = None \<Longrightarrow>
     SemanticPolicy_json SemanticHTTPRule_json p = SemanticPolicy_json SemanticHTTPRule_json q \<longleftrightarrow> p = q"
  unfolding SemanticHTTPPolicy_Validate_def SemanticHTTPRuleSet_Validate_def
  by (rule SemanticPolicy_json_eq[where v = SemanticHTTPRule_Validate and k = SemanticHTTPRule_canonicalKey and kind = "''HTTP''"])
    (simp_all add: check_simps SemanticHTTPRule_json_eq SemanticHTTPRule_Validate_def)

lemma SemanticGraphQLPolicy_json_eq:
  "SemanticGraphQLPolicy_Validate p = None \<Longrightarrow> SemanticGraphQLPolicy_Validate q = None \<Longrightarrow>
     SemanticEndpointPolicy_json SemanticGraphQLRule_json p = SemanticEndpointPolicy_json SemanticGraphQLRule_json q \<longleftrightarrow> p = q"
  unfolding SemanticGraphQLPolicy_Validate_def SemanticGraphQLRuleSet_Validate_def
  by (rule SemanticEndpointPolicy_json_eq[where v = SemanticGraphQLRule_Validate and k = SemanticGraphQLRule_canonicalKey and kind = "''GraphQL''" and e = "''GraphQL''"])
    (simp_all add: check_simps SemanticGraphQLRule_json_eq SemanticGraphQLRule_Validate_def)

lemma SemanticMCPPolicy_json_eq:
  "SemanticMCPPolicy_Validate p = None \<Longrightarrow> SemanticMCPPolicy_Validate q = None \<Longrightarrow>
     SemanticEndpointPolicy_json SemanticMCPRule_json p = SemanticEndpointPolicy_json SemanticMCPRule_json q \<longleftrightarrow> p = q"
  unfolding SemanticMCPPolicy_Validate_def SemanticMCPRuleSet_Validate_def
  by (rule SemanticEndpointPolicy_json_eq[where v = SemanticMCPRule_Validate and k = SemanticMCPRule_canonicalKey and kind = "''MCP''" and e = "''MCP''"])
    (simp_all add: check_simps SemanticMCPRule_json_eq SemanticMCPRule_Validate_def)

lemma SemanticGitPolicy_json_eq:
  "SemanticGitPolicy_Validate p = None \<Longrightarrow> SemanticGitPolicy_Validate q = None \<Longrightarrow>
     SemanticPolicy_json SemanticGitRule_json p = SemanticPolicy_json SemanticGitRule_json q \<longleftrightarrow> p = q"
  unfolding SemanticGitPolicy_Validate_def SemanticGitRuleSet_Validate_def
  by (rule SemanticPolicy_json_eq[where v = SemanticGitRule_Validate and k = SemanticGitRule_canonicalKey and kind = "''Git''"])
    (simp_all add: check_simps SemanticGitRule_json_eq SemanticGitRule_Validate_def)

lemma SemanticOCIPolicy_json_eq:
  "SemanticOCIPolicy_Validate p = None \<Longrightarrow> SemanticOCIPolicy_Validate q = None \<Longrightarrow>
     SemanticPolicy_json SemanticOCIRule_json p = SemanticPolicy_json SemanticOCIRule_json q \<longleftrightarrow> p = q"
  unfolding SemanticOCIPolicy_Validate_def SemanticOCIRuleSet_Validate_def
  by (rule SemanticPolicy_json_eq[where v = SemanticOCIRule_Validate and k = SemanticOCIRule_canonicalKey and kind = "''OCI''"])
    (simp_all add: check_simps SemanticOCIRule_json_eq SemanticOCIRule_Validate_def)

lemma SemanticAWSPolicy_json_eq:
  "SemanticAWSPolicy_Validate p = None \<Longrightarrow> SemanticAWSPolicy_Validate q = None \<Longrightarrow>
     SemanticPolicy_json SemanticAWSRule_json p = SemanticPolicy_json SemanticAWSRule_json q \<longleftrightarrow> p = q"
  unfolding SemanticAWSPolicy_Validate_def SemanticAWSRuleSet_Validate_def
  by (rule SemanticPolicy_json_eq[where v = SemanticAWSRule_Validate and k = SemanticAWSRule_canonicalKey and kind = "''AWS''"])
    (simp_all add: check_simps SemanticAWSRule_json_eq)

lemma SemanticKubernetesPolicy_json_eq:
  "SemanticKubernetesPolicy_Validate p = None \<Longrightarrow> SemanticKubernetesPolicy_Validate q = None \<Longrightarrow>
     SemanticPolicy_json SemanticKubernetesRule_json p = SemanticPolicy_json SemanticKubernetesRule_json q \<longleftrightarrow> p = q"
  unfolding SemanticKubernetesPolicy_Validate_def SemanticKubernetesRuleSet_Validate_def
  by (rule SemanticPolicy_json_eq[where v = SemanticKubernetesRule_Validate and k = SemanticKubernetesRule_canonicalKey and kind = "''Kubernetes''"])
    (simp_all add: check_simps SemanticKubernetesRule_json_eq SemanticKubernetesRule_Validate_def)

lemma WorkspaceTemplateSemanticModules_json_eq:
  assumes "WorkspaceTemplateSemanticModules_Validate m d = None" "WorkspaceTemplateSemanticModules_Validate n e = None"
  shows "WorkspaceTemplateSemanticModules_json m = WorkspaceTemplateSemanticModules_json n \<longleftrightarrow> m = n"
proof -
  note v = assms[unfolded WorkspaceTemplateSemanticModules_Validate_def check_simps]
  have "m = n \<longleftrightarrow> generic_of m = generic_of n \<and> graphql_of m = graphql_of n \<and> mcp_of m = mcp_of n \<and> git_of m = git_of n
      \<and> oci_of m = oci_of n \<and> aws_of m = aws_of n \<and> kubernetes_of m = kubernetes_of n"
    by (cases m; cases n; cases "Protocols m"; cases "Protocols n"; cases "Providers m"; cases "Providers n";
        cases "HTTP (Protocols m)"; cases "HTTP (Protocols n)") auto
  then show ?thesis
    using v
    by (simp add: WorkspaceTemplateSemanticModules_json_def WorkspaceTemplateSemanticProtocols_json_def
        WorkspaceTemplateSemanticProviders_json_def WorkspaceTemplateSemanticHTTP_json_def struct_Cons
        SemanticHTTPPolicy_json_eq SemanticGraphQLPolicy_json_eq SemanticMCPPolicy_json_eq SemanticGitPolicy_json_eq
        SemanticOCIPolicy_json_eq SemanticAWSPolicy_json_eq SemanticKubernetesPolicy_json_eq)
qed

end
