(* ===== verification/Template_Body.thy ===== *)
theory Template_Body
  imports Template_JSON
begin

text \<open>
  The complete static definition of a Workspace Template, from
  \<open>internal/domain/tobari/workspace_authority.go\<close>: the immutable boundary, the policy body, the
  entry, session and creation defaults, their validation, their deep copies, and the digests of the
  independently activated slices. The lemmas show that a copy of a validated body is the body, and
  that each digest identifies the part it is computed from.
\<close>

section \<open>Boundary\<close>

record WorkspaceTemplateBoundary =
  bnd_SourceAccess :: string
  bnd_DestinationCeiling :: ManifestPolicyDestinationCeiling
  bnd_MethodPolicy :: ManifestMethodPolicy

definition WorkspaceTemplateBoundary_Validate :: "WorkspaceTemplateBoundary \<Rightarrow> check" where
  "WorkspaceTemplateBoundary_Validate b =
     first_error
       [ManifestSourceAccess_Validate (bnd_SourceAccess b),
        ManifestPolicy_Validate
          \<lparr> mp_SchemaVersion = 1, mp_Name = ''workspace-template-boundary'',
            mp_DestinationCeiling = bnd_DestinationCeiling b, mp_MethodPolicy = bnd_MethodPolicy b,
            mp_BaselineGrants = Some [], mp_BaselineTemplates = Some [], mp_MCPBaselineGrants = Some [],
            mp_BaselineDenies = Some [], mp_GraphQLEndpoints = Some [], mp_MCPEndpoints = Some [] \<rparr>]"

definition WorkspaceTemplateBoundary_Clone :: "WorkspaceTemplateBoundary \<Rightarrow> WorkspaceTemplateBoundary" where
  "WorkspaceTemplateBoundary_Clone b =
     b\<lparr> bnd_DestinationCeiling := (bnd_DestinationCeiling b)\<lparr> mdc_Authorities := Some (elems (mdc_Authorities (bnd_DestinationCeiling b))) \<rparr>,
        bnd_MethodPolicy := ManifestMethodPolicy_Clone (bnd_MethodPolicy b) \<rparr>"

section \<open>Policy body\<close>

record WorkspaceTemplatePolicyBody =
  pol_AgentProfile :: string
  pol_NativeReadiness :: string
  pol_SemanticModules :: "WorkspaceTemplateSemanticModules option"
  pol_BaselineGrants :: "ManifestPolicyExactRule list option"
  pol_BaselineTemplates :: "ManifestPolicyPathTemplateRule list option"
  pol_MCPBaselineGrants :: "ManifestPolicyMCPRule list option"
  pol_BaselineDenies :: "ManifestPolicyExactRule list option"
  pol_GraphQLEndpoints :: "ManifestPolicyExactRule list option"
  pol_MCPEndpoints :: "ManifestPolicyExactRule list option"

definition deniedMethods :: "ManifestMethodPolicy \<Rightarrow> string list" where
  "deniedMethods p = map mmo_Method (filter (\<lambda>x. mmo_Decision x = ''deny'') (elems (mmp_Overrides p)))"

definition template_policy :: "WorkspaceTemplatePolicyBody \<Rightarrow> WorkspaceTemplateBoundary \<Rightarrow> ManifestPolicy" where
  "template_policy p boundary =
     \<lparr> mp_SchemaVersion = 1, mp_Name = ''workspace-template'',
       mp_DestinationCeiling = bnd_DestinationCeiling boundary, mp_MethodPolicy = bnd_MethodPolicy boundary,
       mp_BaselineGrants = pol_BaselineGrants p, mp_BaselineTemplates = pol_BaselineTemplates p,
       mp_MCPBaselineGrants = pol_MCPBaselineGrants p, mp_BaselineDenies = pol_BaselineDenies p,
       mp_GraphQLEndpoints = pol_GraphQLEndpoints p, mp_MCPEndpoints = pol_MCPEndpoints p \<rparr>"

definition WorkspaceTemplatePolicyBody_Validate :: "WorkspaceTemplatePolicyBody \<Rightarrow> WorkspaceTemplateBoundary \<Rightarrow> check" where
  "WorkspaceTemplatePolicyBody_Validate p boundary =
     first_error
       [WorkspaceTemplateBoundary_Validate boundary,
        wrap ''Template agent profile'' (ValidateName (pol_AgentProfile p)),
        ManifestNativeReadiness_Validate (pol_NativeReadiness p),
        (case pol_SemanticModules p of
           None \<Rightarrow> None
         | Some modules \<Rightarrow>
             first_error
               [reject (elems (pol_BaselineGrants p) \<noteq> [] \<or> elems (pol_BaselineTemplates p) \<noteq> []
                        \<or> elems (pol_MCPBaselineGrants p) \<noteq> [] \<or> elems (pol_BaselineDenies p) \<noteq> []
                        \<or> elems (pol_GraphQLEndpoints p) \<noteq> [] \<or> elems (pol_MCPEndpoints p) \<noteq> [])
                  ''Template policy cannot mix final semantic modules with predecessor static fields'',
                WorkspaceTemplateSemanticModules_Validate modules (deniedMethods (bnd_MethodPolicy boundary))]),
        ManifestPolicy_Validate (template_policy p boundary)]"

definition WorkspaceTemplatePolicyBody_Clone :: "WorkspaceTemplatePolicyBody \<Rightarrow> WorkspaceTemplatePolicyBody" where
  "WorkspaceTemplatePolicyBody_Clone p =
     p\<lparr> pol_SemanticModules := map_option Clone (pol_SemanticModules p),
        pol_BaselineGrants := Some (elems (pol_BaselineGrants p)), pol_BaselineTemplates := Some (elems (pol_BaselineTemplates p)),
        pol_MCPBaselineGrants := Some (elems (pol_MCPBaselineGrants p)), pol_BaselineDenies := Some (elems (pol_BaselineDenies p)),
        pol_GraphQLEndpoints := Some (elems (pol_GraphQLEndpoints p)), pol_MCPEndpoints := Some (elems (pol_MCPEndpoints p)) \<rparr>"

section \<open>Defaults\<close>

record WorkspaceTemplateEntryDefaults =
  ent_Runtime :: RuntimeBinding

definition WorkspaceTemplateEntryDefaults_Validate :: "WorkspaceTemplateEntryDefaults \<Rightarrow> check" where
  "WorkspaceTemplateEntryDefaults_Validate e = RuntimeBinding_Validate (ent_Runtime e)"

record WorkspaceTemplateSessionDefaults =
  sd_ShellEnvironment :: "ManifestShellEnvironmentSetting list option"
  sd_GitIdentity :: "ManifestGitIdentitySetting option"

definition WorkspaceTemplateSessionDefaults_Validate :: "WorkspaceTemplateSessionDefaults \<Rightarrow> check" where
  "WorkspaceTemplateSessionDefaults_Validate s =
     first_error
       [reject (sd_ShellEnvironment s = None) ''Template shell environment collection is unknown'',
        validateContextShellEnvironment (elems (sd_ShellEnvironment s)) False,
        (case sd_GitIdentity s of None \<Rightarrow> None | Some g \<Rightarrow> ManifestGitIdentitySetting_Validate g False)]"

text \<open>The copied strings of a Git identity are equal to the originals.\<close>

definition cloneContextGitIdentitySetting :: "ManifestGitIdentitySetting \<Rightarrow> ManifestGitIdentitySetting" where
  "cloneContextGitIdentitySetting g = \<lparr> gis_Source = gis_Source g, gis_Name = gis_Name g, gis_Email = gis_Email g \<rparr>"

definition WorkspaceTemplateSessionDefaults_Clone :: "WorkspaceTemplateSessionDefaults \<Rightarrow> WorkspaceTemplateSessionDefaults" where
  "WorkspaceTemplateSessionDefaults_Clone s =
     s\<lparr> sd_ShellEnvironment := cloneContextShellEnvironment (sd_ShellEnvironment s),
        sd_GitIdentity := map_option cloneContextGitIdentitySetting (sd_GitIdentity s) \<rparr>"

record WorkspaceTemplateCreationDefaults =
  cd_Bootstrap :: "ManifestBootstrapSnapshot option"

definition WorkspaceTemplateCreationDefaults_Validate :: "(nat list \<Rightarrow> bool) \<Rightarrow> WorkspaceTemplateCreationDefaults \<Rightarrow> check" where
  "WorkspaceTemplateCreationDefaults_Validate pem c =
     (case cd_Bootstrap c of None \<Rightarrow> None | Some s \<Rightarrow> ManifestBootstrapSnapshot_Validate pem s)"

definition WorkspaceTemplateCreationDefaults_Clone :: "WorkspaceTemplateCreationDefaults \<Rightarrow> WorkspaceTemplateCreationDefaults" where
  "WorkspaceTemplateCreationDefaults_Clone c = c\<lparr> cd_Bootstrap := map_option ManifestBootstrapSnapshot_Clone (cd_Bootstrap c) \<rparr>"

section \<open>The body\<close>

record WorkspaceTemplateBody =
  tb_Boundary :: WorkspaceTemplateBoundary
  tb_Policy :: WorkspaceTemplatePolicyBody
  tb_EntryDefaults :: WorkspaceTemplateEntryDefaults
  tb_SessionDefaults :: WorkspaceTemplateSessionDefaults
  tb_CreationDefaults :: WorkspaceTemplateCreationDefaults

definition WorkspaceTemplateBody_Validate :: "(nat list \<Rightarrow> bool) \<Rightarrow> WorkspaceTemplateBody \<Rightarrow> check" where
  "WorkspaceTemplateBody_Validate pem b =
     first_error
       [WorkspaceTemplateBoundary_Validate (tb_Boundary b),
        WorkspaceTemplatePolicyBody_Validate (tb_Policy b) (tb_Boundary b),
        WorkspaceTemplateEntryDefaults_Validate (tb_EntryDefaults b),
        WorkspaceTemplateSessionDefaults_Validate (tb_SessionDefaults b),
        WorkspaceTemplateCreationDefaults_Validate pem (tb_CreationDefaults b)]"

definition WorkspaceTemplateBody_Clone :: "WorkspaceTemplateBody \<Rightarrow> WorkspaceTemplateBody" where
  "WorkspaceTemplateBody_Clone b =
     \<lparr> tb_Boundary = WorkspaceTemplateBoundary_Clone (tb_Boundary b), tb_Policy = WorkspaceTemplatePolicyBody_Clone (tb_Policy b),
       tb_EntryDefaults = tb_EntryDefaults b, tb_SessionDefaults = WorkspaceTemplateSessionDefaults_Clone (tb_SessionDefaults b),
       tb_CreationDefaults = WorkspaceTemplateCreationDefaults_Clone (tb_CreationDefaults b) \<rparr>"

section \<open>Slices\<close>

definition WorkspaceTemplateBoundary_json :: "WorkspaceTemplateBoundary \<Rightarrow> json" where
  "WorkspaceTemplateBoundary_json b =
     json_struct
       [(''source_access'', Some (JString (bnd_SourceAccess b))),
        (''destination_ceiling'', Some (ManifestPolicyDestinationCeiling_json (bnd_DestinationCeiling b))),
        (''method_policy'', Some (ManifestMethodPolicy_json (bnd_MethodPolicy b)))]"

definition WorkspaceTemplatePolicyBody_json :: "WorkspaceTemplatePolicyBody \<Rightarrow> json" where
  "WorkspaceTemplatePolicyBody_json p =
     json_struct
       [(''agent_profile'', Some (JString (pol_AgentProfile p))), (''native_readiness'', Some (JString (pol_NativeReadiness p))),
        (''semantic_modules'', map_option WorkspaceTemplateSemanticModules_json (pol_SemanticModules p)),
        (''baseline_grants'', Some (json_slice ManifestPolicyExactRule_json (pol_BaselineGrants p))),
        (''baseline_templates'', Some (json_slice ManifestPolicyPathTemplateRule_json (pol_BaselineTemplates p))),
        (''mcp_baseline_grants'', Some (json_slice ManifestPolicyMCPRule_json (pol_MCPBaselineGrants p))),
        (''baseline_denies'', Some (json_slice ManifestPolicyExactRule_json (pol_BaselineDenies p))),
        (''graphql_endpoints'', Some (json_slice ManifestPolicyExactRule_json (pol_GraphQLEndpoints p))),
        (''mcp_endpoints'', Some (json_slice ManifestPolicyExactRule_json (pol_MCPEndpoints p)))]"

definition WorkspaceTemplateEntryDefaults_json :: "WorkspaceTemplateEntryDefaults \<Rightarrow> json" where
  "WorkspaceTemplateEntryDefaults_json e = json_struct [(''runtime'', Some (RuntimeBinding_json (ent_Runtime e)))]"

definition WorkspaceTemplateSessionDefaults_json :: "WorkspaceTemplateSessionDefaults \<Rightarrow> json" where
  "WorkspaceTemplateSessionDefaults_json s =
     json_struct
       [(''shell_environment'', Some (json_slice ManifestShellEnvironmentSetting_json (sd_ShellEnvironment s))),
        (''git_identity'', map_option ManifestGitIdentitySetting_json (sd_GitIdentity s))]"

definition WorkspaceTemplateCreationDefaults_json :: "WorkspaceTemplateCreationDefaults \<Rightarrow> json" where
  "WorkspaceTemplateCreationDefaults_json c =
     json_struct [(''bootstrap'', map_option ManifestBootstrapSnapshot_json (cd_Bootstrap c))]"

definition WorkspaceTemplateBody_json :: "WorkspaceTemplateBody \<Rightarrow> json" where
  "WorkspaceTemplateBody_json b =
     json_struct
       [(''boundary'', Some (WorkspaceTemplateBoundary_json (tb_Boundary b))),
        (''policy'', Some (WorkspaceTemplatePolicyBody_json (tb_Policy b))),
        (''entry_defaults'', Some (WorkspaceTemplateEntryDefaults_json (tb_EntryDefaults b))),
        (''session_defaults'', Some (WorkspaceTemplateSessionDefaults_json (tb_SessionDefaults b))),
        (''creation_defaults'', Some (WorkspaceTemplateCreationDefaults_json (tb_CreationDefaults b)))]"

definition policy_slice_json :: "SemanticDigest \<Rightarrow> WorkspaceTemplatePolicyBody \<Rightarrow> json" where
  "policy_slice_json boundary p =
     json_struct [(''Boundary'', Some (JString boundary)), (''Body'', Some (WorkspaceTemplatePolicyBody_json p))]"

record WorkspaceTemplateSlices =
  sl_BoundaryFingerprint :: SemanticDigest
  sl_PolicySliceDigest :: SemanticDigest
  sl_EntrySliceDigest :: SemanticDigest
  sl_SessionDefaultsDigest :: SemanticDigest
  sl_CreationDefaultsDigest :: SemanticDigest
  sl_RuntimeID :: string
  sl_RuntimeRevision :: SemanticDigest

definition body_slices :: "WorkspaceTemplateBody \<Rightarrow> WorkspaceTemplateSlices" where
  "body_slices b =
     (let boundary = semanticDigest (WorkspaceTemplateBoundary_json (tb_Boundary b))
      in \<lparr> sl_BoundaryFingerprint = boundary,
           sl_PolicySliceDigest = semanticDigest (policy_slice_json boundary (tb_Policy b)),
           sl_EntrySliceDigest = semanticDigest (WorkspaceTemplateEntryDefaults_json (tb_EntryDefaults b)),
           sl_SessionDefaultsDigest = semanticDigest (WorkspaceTemplateSessionDefaults_json (tb_SessionDefaults b)),
           sl_CreationDefaultsDigest = semanticDigest (WorkspaceTemplateCreationDefaults_json (tb_CreationDefaults b)),
           sl_RuntimeID = rtb_RuntimeID (ent_Runtime (tb_EntryDefaults b)),
           sl_RuntimeRevision = rtb_Revision (ent_Runtime (tb_EntryDefaults b)) \<rparr>)"

definition slices :: "(nat list \<Rightarrow> bool) \<Rightarrow> WorkspaceTemplateBody \<Rightarrow> WorkspaceTemplateSlices result" where
  "slices pem b = guarded (WorkspaceTemplateBody_Validate pem b) (Inr (body_slices b))"

text \<open>The code checks the digests in the order of a map, given here as the list of their positions.\<close>

definition slice_digests :: "WorkspaceTemplateSlices \<Rightarrow> (string \<times> SemanticDigest) list" where
  "slice_digests s =
     [(''Boundary fingerprint'', sl_BoundaryFingerprint s), (''policy slice'', sl_PolicySliceDigest s),
      (''entry slice'', sl_EntrySliceDigest s), (''session defaults'', sl_SessionDefaultsDigest s),
      (''creation defaults'', sl_CreationDefaultsDigest s), (''Runtime revision'', sl_RuntimeRevision s)]"

definition WorkspaceTemplateSlices_Validate :: "nat list \<Rightarrow> WorkspaceTemplateSlices \<Rightarrow> check" where
  "WorkspaceTemplateSlices_Validate order s =
     first_error
       [check_each (\<lambda>i. case slice_digests s ! i of (name, digest) \<Rightarrow> wrap name (SemanticDigest_Validate digest)) order,
        (if sl_RuntimeID s \<noteq> StandardRuntimeID then wrap ''Template Runtime ID'' (ValidateRuntimeID (sl_RuntimeID s)) else None)]"


section \<open>Copies\<close>

text \<open>A copy makes every collection explicit; a validated value has explicit collections already.\<close>

lemma clone_authority_id: "cloneAuthority False a = a"
  by (simp add: cloneAuthority_def option.map_ident)

lemma clone_rules_id: "(\<And>r. norm r = r) \<Longrightarrow> clone_rules norm key False (Some rs) = Some rs"
  by (simp add: clone_rules_def map_idI)

lemma clone_aws_rule_id: "cloneAWSRule False r = r"
  by (simp add: cloneAWSRule_def clone_authority_id option.map_ident)

lemma clone_policy_id:
  assumes "\<And>rs. cl (Some rs) = Some rs" "ruleset_validate v k kind (Allow p) = None" "ruleset_validate v k kind (Deny p) = None"
  shows "clone_policy cl p = p"
proof -
  obtain a d where "Rules (Allow p) = Some a" "Rules (Deny p) = Some d"
    using assms(2,3) by (auto simp: ruleset_validate_def split: option.splits)
  then have "\<lparr> Rules = cl (Rules (Allow p)) \<rparr> = Allow p" "\<lparr> Rules = cl (Rules (Deny p)) \<rparr> = Deny p"
    using assms(1) by (cases "Allow p"; cases "Deny p"; simp)+
  then show ?thesis by (simp add: clone_policy_def)
qed

lemma clone_endpoints_id: "endpoints_validate kind eps = None \<Longrightarrow> cloneEndpoints False eps = eps"
  by (cases eps) (simp_all add: endpoints_validate_def cloneEndpoints_def clone_rules_id clone_authority_id)

lemmas clone_rule_defs = cloneHTTPRules_def cloneGraphQLRules_def cloneMCPRules_def cloneGitRules_def cloneOCIRules_def
  cloneAWSRules_def cloneKubernetesRules_def
lemmas policy_validate_defs = SemanticHTTPPolicy_Validate_def SemanticGraphQLPolicy_Validate_def SemanticMCPPolicy_Validate_def
  SemanticGitPolicy_Validate_def SemanticOCIPolicy_Validate_def SemanticAWSPolicy_Validate_def SemanticKubernetesPolicy_Validate_def
lemmas ruleset_validate_defs = SemanticHTTPRuleSet_Validate_def SemanticGraphQLRuleSet_Validate_def SemanticMCPRuleSet_Validate_def
  SemanticGitRuleSet_Validate_def SemanticOCIRuleSet_Validate_def SemanticAWSRuleSet_Validate_def SemanticKubernetesRuleSet_Validate_def

lemma modules_Clone_id:
  assumes "WorkspaceTemplateSemanticModules_Validate m d = None"
  shows "Clone m = m"
proof -
  have id: "cloneHTTPRules False (Some a) = Some a" "cloneGraphQLRules False (Some b) = Some b" "cloneMCPRules False (Some c) = Some c"
    "cloneGitRules False (Some e) = Some e" "cloneOCIRules False (Some f) = Some f" "cloneAWSRules False (Some g) = Some g"
    "cloneKubernetesRules False (Some h) = Some h" for a b c e f g h
    by (simp_all add: clone_rule_defs clone_rules_id clone_authority_id clone_aws_rule_id)
  note v = assms[unfolded WorkspaceTemplateSemanticModules_Validate_def policy_validate_defs ruleset_validate_defs check_simps]
  have "clone_policy (cloneHTTPRules False) (generic_of m) = generic_of m"
    "clone_policy (cloneGraphQLRules False) (graphql_of m) = graphql_of m"
    "clone_policy (cloneMCPRules False) (mcp_of m) = mcp_of m" "clone_policy (cloneGitRules False) (git_of m) = git_of m"
    "clone_policy (cloneOCIRules False) (oci_of m) = oci_of m" "clone_policy (cloneAWSRules False) (aws_of m) = aws_of m"
    "clone_policy (cloneKubernetesRules False) (kubernetes_of m) = kubernetes_of m"
    using v id by (blast intro: clone_policy_id)+
  moreover have "cloneEndpoints False (Endpoints (graphql_of m)) = Endpoints (graphql_of m)"
    "cloneEndpoints False (Endpoints (mcp_of m)) = Endpoints (mcp_of m)"
    using v by (blast intro: clone_endpoints_id)+
  ultimately show ?thesis by (simp add: Clone_def normalized_def)
qed


lemma explicit_elems: "xs \<noteq> None \<Longrightarrow> Some (elems xs) = xs"
  by auto

lemma method_Clone_id: "mmp_Overrides p \<noteq> None \<Longrightarrow> ManifestMethodPolicy_Clone p = p"
  by (cases p) (auto simp: ManifestMethodPolicy_Clone_def)

lemma policy_explicit:
  assumes "ManifestPolicy_Validate p = None"
  shows "mdc_Authorities (mp_DestinationCeiling p) \<noteq> None" "mmp_Overrides (mp_MethodPolicy p) \<noteq> None"
    "mp_BaselineGrants p \<noteq> None" "mp_BaselineTemplates p \<noteq> None" "mp_MCPBaselineGrants p \<noteq> None"
    "mp_BaselineDenies p \<noteq> None" "mp_GraphQLEndpoints p \<noteq> None" "mp_MCPEndpoints p \<noteq> None"
  using assms by (simp_all add: ManifestPolicy_Validate_def Let_def check_simps)

lemma boundary_Clone_id:
  assumes "WorkspaceTemplateBoundary_Validate b = None"
  shows "WorkspaceTemplateBoundary_Clone b = b"
proof -
  note v = assms[unfolded WorkspaceTemplateBoundary_Validate_def check_simps, THEN conjunct2, THEN conjunct1]
  show ?thesis
    using policy_explicit(1,2)[OF v]
    by (simp add: WorkspaceTemplateBoundary_Clone_def method_Clone_id explicit_elems del: not_None_eq)
qed

lemma policy_Clone_id:
  assumes "WorkspaceTemplatePolicyBody_Validate p b = None"
  shows "WorkspaceTemplatePolicyBody_Clone p = p"
proof -
  have v: "ManifestPolicy_Validate (template_policy p b) = None"
    "\<And>m. pol_SemanticModules p = Some m \<Longrightarrow> WorkspaceTemplateSemanticModules_Validate m (deniedMethods (bnd_MethodPolicy b)) = None"
    using assms by (simp_all add: WorkspaceTemplatePolicyBody_Validate_def check_simps)
  then have "map_option Clone (pol_SemanticModules p) = pol_SemanticModules p"
    using modules_Clone_id by (cases "pol_SemanticModules p") auto
  with policy_explicit(3-8)[OF v(1)] show ?thesis
    by (simp add: WorkspaceTemplatePolicyBody_Clone_def explicit_elems template_policy_def del: not_None_eq)
qed

lemma session_Clone_id:
  "WorkspaceTemplateSessionDefaults_Validate s = None \<Longrightarrow> WorkspaceTemplateSessionDefaults_Clone s = s"
  by (cases s; cases "sd_GitIdentity s")
    (auto simp: WorkspaceTemplateSessionDefaults_Validate_def WorkspaceTemplateSessionDefaults_Clone_def check_simps
      cloneContextShellEnvironment_def cloneContextGitIdentitySetting_def)

lemma aws_Clone_id: "ManifestAWSBootstrap_Validate a = None \<Longrightarrow> ManifestAWSBootstrap_Clone a = a"
  by (cases "aws_SSORegistrationScopes a")
    (simp_all add: ManifestAWSBootstrap_Validate_def ManifestAWSBootstrap_Clone_def check_simps)

lemma snapshot_Clone_id: "ManifestBootstrapSnapshot_Validate pem s = None \<Longrightarrow> ManifestBootstrapSnapshot_Clone s = s"
  by (cases s; cases "bss_EKS s")
    (auto simp: ManifestBootstrapSnapshot_Validate_def ManifestBootstrapSnapshot_Clone_def check_simps aws_Clone_id)

lemma creation_Clone_id:
  "WorkspaceTemplateCreationDefaults_Validate pem c = None \<Longrightarrow> WorkspaceTemplateCreationDefaults_Clone c = c"
  by (cases c; cases "cd_Bootstrap c")
    (auto simp: WorkspaceTemplateCreationDefaults_Validate_def WorkspaceTemplateCreationDefaults_Clone_def snapshot_Clone_id)

lemma body_valid:
  "WorkspaceTemplateBody_Validate pem b = None \<longleftrightarrow>
     WorkspaceTemplateBoundary_Validate (tb_Boundary b) = None \<and> WorkspaceTemplatePolicyBody_Validate (tb_Policy b) (tb_Boundary b) = None
     \<and> WorkspaceTemplateEntryDefaults_Validate (tb_EntryDefaults b) = None
     \<and> WorkspaceTemplateSessionDefaults_Validate (tb_SessionDefaults b) = None
     \<and> WorkspaceTemplateCreationDefaults_Validate pem (tb_CreationDefaults b) = None"
  by (simp add: WorkspaceTemplateBody_Validate_def check_simps)

lemma body_Clone_id: "WorkspaceTemplateBody_Validate pem b = None \<Longrightarrow> WorkspaceTemplateBody_Clone b = b"
  by (simp add: body_valid WorkspaceTemplateBody_Clone_def boundary_Clone_id session_Clone_id
      policy_Clone_id[of _ "tb_Boundary b"] creation_Clone_id[of pem])

section \<open>Encodings\<close>

lemma boundary_json_eq [simp]: "WorkspaceTemplateBoundary_json a = WorkspaceTemplateBoundary_json b \<longleftrightarrow> a = b"
  by (cases a; cases b) (simp add: WorkspaceTemplateBoundary_json_def struct_Cons)

lemma entry_json_eq [simp]: "WorkspaceTemplateEntryDefaults_json a = WorkspaceTemplateEntryDefaults_json b \<longleftrightarrow> a = b"
  by (cases a; cases b) (simp add: WorkspaceTemplateEntryDefaults_json_def struct_Cons)

lemma session_json_eq [simp]: "WorkspaceTemplateSessionDefaults_json a = WorkspaceTemplateSessionDefaults_json b \<longleftrightarrow> a = b"
  by (cases a; cases b) (simp add: WorkspaceTemplateSessionDefaults_json_def struct_Cons json_slice_inj map_option_eq)

lemma creation_json_eq [simp]: "WorkspaceTemplateCreationDefaults_json a = WorkspaceTemplateCreationDefaults_json b \<longleftrightarrow> a = b"
  by (cases a; cases b) (simp add: WorkspaceTemplateCreationDefaults_json_def struct_Cons map_option_eq)

lemma policy_json_eq:
  assumes "WorkspaceTemplatePolicyBody_Validate p b = None" "WorkspaceTemplatePolicyBody_Validate q c = None"
  shows "WorkspaceTemplatePolicyBody_json p = WorkspaceTemplatePolicyBody_json q \<longleftrightarrow> p = q"
proof -
  have "WorkspaceTemplateSemanticModules_Validate m (deniedMethods (bnd_MethodPolicy b)) = None" if "pol_SemanticModules p = Some m" for m
    using assms(1) that by (simp add: WorkspaceTemplatePolicyBody_Validate_def check_simps)
  moreover have "WorkspaceTemplateSemanticModules_Validate m (deniedMethods (bnd_MethodPolicy c)) = None" if "pol_SemanticModules q = Some m" for m
    using assms(2) that by (simp add: WorkspaceTemplatePolicyBody_Validate_def check_simps)
  ultimately have "map_option WorkspaceTemplateSemanticModules_json (pol_SemanticModules p)
      = map_option WorkspaceTemplateSemanticModules_json (pol_SemanticModules q) \<longleftrightarrow> pol_SemanticModules p = pol_SemanticModules q"
    using WorkspaceTemplateSemanticModules_json_eq by (cases "pol_SemanticModules p"; cases "pol_SemanticModules q") auto
  then show ?thesis
    by (cases p; cases q) (simp add: WorkspaceTemplatePolicyBody_json_def struct_Cons json_slice_inj)
qed

lemma body_json_eq:
  assumes "WorkspaceTemplateBody_Validate pem a = None" "WorkspaceTemplateBody_Validate pem' b = None"
  shows "WorkspaceTemplateBody_json a = WorkspaceTemplateBody_json b \<longleftrightarrow> a = b"
proof -
  have "WorkspaceTemplatePolicyBody_json (tb_Policy a) = WorkspaceTemplatePolicyBody_json (tb_Policy b) \<longleftrightarrow> tb_Policy a = tb_Policy b"
    using assms by (intro policy_json_eq[of _ "tb_Boundary a" _ "tb_Boundary b"]) (simp_all add: body_valid)
  then show ?thesis by (cases a; cases b) (simp add: WorkspaceTemplateBody_json_def struct_Cons)
qed


lemma json_valid_struct:
  "json_valid (json_struct fs) \<longleftrightarrow> (\<forall>(k, v) \<in> set fs. \<forall>j. v = Some j \<longrightarrow> utf8_ValidString k \<and> json_valid j)"
  by (induction fs) (auto simp: json_struct_def split: option.splits)

lemma ascii_utf8: "list_all (\<lambda>c. byte c < 128) s \<Longrightarrow> utf8_ValidString s"
  by (induction s) (simp_all add: utf8_ValidString_def utf8_next_ascii)

lemma digest_utf8: "utf8_ValidString (semanticDigest j)"
proof (rule ascii_utf8)
  have "hex_string 64 (drop 7 (semanticDigest j))"
    using semanticDigest_pattern[of j] by (simp add: prefixed_hex_def numeral_eq_Suc)
  then have "list_all (\<lambda>c. byte c < 128) (drop 7 (semanticDigest j))"
    by (auto simp: hex_string_def list_all_iff is_hex_def is_digit_def)
  moreover have "list_all (\<lambda>c. byte c < 128) ''sha256:''" by code_simp
  ultimately show "list_all (\<lambda>c. byte c < 128) (semanticDigest j)" by (simp add: semanticDigest_def)
qed

text \<open>The strings of a body are valid UTF-8, as those of a decoded body are.\<close>

definition encodable :: "WorkspaceTemplateBody \<Rightarrow> bool" where
  "encodable b = json_valid (WorkspaceTemplateBody_json b)"

text \<open>\<open>SHA-256\<close> does not collide on the encodings of the parts of two bodies.\<close>

definition bodies_collision_free :: "WorkspaceTemplateBody \<Rightarrow> WorkspaceTemplateBody \<Rightarrow> bool" where
  "bodies_collision_free a b =
     (no_collision (WorkspaceTemplateBody_json a) (WorkspaceTemplateBody_json b)
      \<and> no_collision (WorkspaceTemplateBoundary_json (tb_Boundary a)) (WorkspaceTemplateBoundary_json (tb_Boundary b))
      \<and> no_collision (policy_slice_json (sl_BoundaryFingerprint (body_slices a)) (tb_Policy a))
          (policy_slice_json (sl_BoundaryFingerprint (body_slices b)) (tb_Policy b))
      \<and> no_collision (WorkspaceTemplateEntryDefaults_json (tb_EntryDefaults a)) (WorkspaceTemplateEntryDefaults_json (tb_EntryDefaults b))
      \<and> no_collision (WorkspaceTemplateSessionDefaults_json (tb_SessionDefaults a)) (WorkspaceTemplateSessionDefaults_json (tb_SessionDefaults b))
      \<and> no_collision (WorkspaceTemplateCreationDefaults_json (tb_CreationDefaults a))
          (WorkspaceTemplateCreationDefaults_json (tb_CreationDefaults b)))"

lemma encodable_parts:
  assumes "encodable b"
  shows "json_valid (WorkspaceTemplateBoundary_json (tb_Boundary b))"
    "json_valid (policy_slice_json (semanticDigest j) (tb_Policy b))"
    "json_valid (WorkspaceTemplateEntryDefaults_json (tb_EntryDefaults b))"
    "json_valid (WorkspaceTemplateSessionDefaults_json (tb_SessionDefaults b))"
    "json_valid (WorkspaceTemplateCreationDefaults_json (tb_CreationDefaults b))"
proof -
  have "utf8_ValidString ''Boundary''" "utf8_ValidString ''Body''" by code_simp+
  with assms show "json_valid (WorkspaceTemplateBoundary_json (tb_Boundary b))"
    "json_valid (policy_slice_json (semanticDigest j) (tb_Policy b))"
    "json_valid (WorkspaceTemplateEntryDefaults_json (tb_EntryDefaults b))"
    "json_valid (WorkspaceTemplateSessionDefaults_json (tb_SessionDefaults b))"
    "json_valid (WorkspaceTemplateCreationDefaults_json (tb_CreationDefaults b))"
    unfolding encodable_def WorkspaceTemplateBody_json_def policy_slice_json_def json_valid_struct
    by (simp_all add: digest_utf8)
qed

lemma body_digest_binds:
  assumes "WorkspaceTemplateBody_Validate pem a = None" "WorkspaceTemplateBody_Validate pem' b = None"
    and "encodable a" "encodable b" "bodies_collision_free a b"
  shows "semanticDigest (WorkspaceTemplateBody_json a) = semanticDigest (WorkspaceTemplateBody_json b) \<longleftrightarrow> a = b"
  using assms semanticDigest_binds body_json_eq by (simp add: encodable_def bodies_collision_free_def)

lemma slices_bind:
  assumes v: "WorkspaceTemplateBody_Validate pem a = None" "WorkspaceTemplateBody_Validate pem' b = None"
    and e: "encodable a" "encodable b" and c: "bodies_collision_free a b"
  shows "sl_BoundaryFingerprint (body_slices a) = sl_BoundaryFingerprint (body_slices b) \<longleftrightarrow> tb_Boundary a = tb_Boundary b"
    "sl_PolicySliceDigest (body_slices a) = sl_PolicySliceDigest (body_slices b)
      \<longleftrightarrow> tb_Boundary a = tb_Boundary b \<and> tb_Policy a = tb_Policy b"
    "sl_EntrySliceDigest (body_slices a) = sl_EntrySliceDigest (body_slices b) \<longleftrightarrow> tb_EntryDefaults a = tb_EntryDefaults b"
    "sl_SessionDefaultsDigest (body_slices a) = sl_SessionDefaultsDigest (body_slices b)
      \<longleftrightarrow> tb_SessionDefaults a = tb_SessionDefaults b"
    "sl_CreationDefaultsDigest (body_slices a) = sl_CreationDefaultsDigest (body_slices b)
      \<longleftrightarrow> tb_CreationDefaults a = tb_CreationDefaults b"
proof -
  note parts = encodable_parts[OF e(1)] encodable_parts[OF e(2)]
  note c' = c[unfolded bodies_collision_free_def]
  have p: "WorkspaceTemplatePolicyBody_json (tb_Policy a) = WorkspaceTemplatePolicyBody_json (tb_Policy b) \<longleftrightarrow> tb_Policy a = tb_Policy b"
    using v by (intro policy_json_eq[of _ "tb_Boundary a" _ "tb_Boundary b"]) (simp_all add: body_valid)
  show bnd: "sl_BoundaryFingerprint (body_slices a) = sl_BoundaryFingerprint (body_slices b) \<longleftrightarrow> tb_Boundary a = tb_Boundary b"
    using semanticDigest_binds[OF parts(1,6)] c' by (simp add: body_slices_def Let_def)
  show "sl_PolicySliceDigest (body_slices a) = sl_PolicySliceDigest (body_slices b)
      \<longleftrightarrow> tb_Boundary a = tb_Boundary b \<and> tb_Policy a = tb_Policy b"
    using semanticDigest_binds[OF parts(2,7)] c' bnd p
    by (simp add: body_slices_def Let_def policy_slice_json_def struct_Cons)
  show "sl_EntrySliceDigest (body_slices a) = sl_EntrySliceDigest (body_slices b) \<longleftrightarrow> tb_EntryDefaults a = tb_EntryDefaults b"
    using semanticDigest_binds[OF parts(3,8)] c' by (simp add: body_slices_def Let_def)
  show "sl_SessionDefaultsDigest (body_slices a) = sl_SessionDefaultsDigest (body_slices b)
      \<longleftrightarrow> tb_SessionDefaults a = tb_SessionDefaults b"
    using semanticDigest_binds[OF parts(4,9)] c' by (simp add: body_slices_def Let_def)
  show "sl_CreationDefaultsDigest (body_slices a) = sl_CreationDefaultsDigest (body_slices b)
      \<longleftrightarrow> tb_CreationDefaults a = tb_CreationDefaults b"
    using semanticDigest_binds[OF parts(5,10)] c' by (simp add: body_slices_def Let_def)
qed

end
