(* ===== verification/Template_Revisions.thy ===== *)
theory Template_Revisions
  imports Template_Body
begin

text \<open>
  Immutable Template revisions and their histories, from
  \<open>internal/domain/tobari/workspace_authority.go\<close>: construction, validation and advance of a
  revision, metadata revisions, the Template with its retained revisions, copies, the exhaustive
  check of a collection of Templates, and the entry authority derived from a revision. Generations
  are \<open>uint64\<close>. The parameter \<open>pem\<close> stands for the certificate check of \<open>crypto/x509\<close>.
\<close>

section \<open>Revisions\<close>

record WorkspaceTemplateRevision =
  rev_SchemaVersion :: int
  rev_TemplateID :: WorkspaceTemplateID
  rev_Generation :: "64 word"
  rev_Revision :: SemanticDigest
  rev_Body :: WorkspaceTemplateBody
  rev_Slices :: WorkspaceTemplateSlices

definition WorkspaceTemplateRevision_Validate :: "(nat list \<Rightarrow> bool) \<Rightarrow> WorkspaceTemplateRevision \<Rightarrow> check" where
  "WorkspaceTemplateRevision_Validate pem r =
     first_error
       [reject (rev_SchemaVersion r \<noteq> 2) ''Template revision schema version must be 2'',
        WorkspaceTemplateID_Validate (rev_TemplateID r),
        reject (rev_Generation r = 0) ''Template generation must be positive'',
        WorkspaceTemplateBody_Validate pem (rev_Body r),
        (case slices pem (rev_Body r) of
           Inl e \<Rightarrow> Some e
         | Inr want \<Rightarrow> reject (rev_Slices r \<noteq> want) ''Template slices do not match the complete canonical body''),
        reject (rev_Revision r \<noteq> semanticDigest (WorkspaceTemplateBody_json (rev_Body r)))
          ''Template revision does not match its complete canonical body'']"

definition NewWorkspaceTemplateRevision ::
  "(nat list \<Rightarrow> bool) \<Rightarrow> WorkspaceTemplateID \<Rightarrow> 64 word \<Rightarrow> WorkspaceTemplateBody \<Rightarrow> WorkspaceTemplateRevision result" where
  "NewWorkspaceTemplateRevision pem i generation body =
     (let body = WorkspaceTemplateBody_Clone body
      in guarded
           (first_error
              [WorkspaceTemplateID_Validate i, reject (generation = 0) ''Template generation must be positive''])
           (and_then (slices pem body)
              (\<lambda>s. let revision = \<lparr> rev_SchemaVersion = 2, rev_TemplateID = i, rev_Generation = generation,
                                     rev_Revision = semanticDigest (WorkspaceTemplateBody_json body), rev_Body = body, rev_Slices = s \<rparr>
                    in checked (WorkspaceTemplateRevision_Validate pem revision) revision)))"

definition WorkspaceTemplateRevision_Clone :: "WorkspaceTemplateRevision \<Rightarrow> WorkspaceTemplateRevision" where
  "WorkspaceTemplateRevision_Clone r = r\<lparr> rev_Body := WorkspaceTemplateBody_Clone (rev_Body r) \<rparr>"

definition AdvanceWorkspaceTemplateRevision ::
  "(nat list \<Rightarrow> bool) \<Rightarrow> WorkspaceTemplateRevision \<Rightarrow> WorkspaceTemplateBody \<Rightarrow> (WorkspaceTemplateRevision \<times> bool) result" where
  "AdvanceWorkspaceTemplateRevision pem previous body =
     guarded (WorkspaceTemplateRevision_Validate pem previous)
       (and_then (NewWorkspaceTemplateRevision pem (rev_TemplateID previous) (rev_Generation previous + 1) body)
          (\<lambda>next. if rev_Revision next = rev_Revision previous then Inr (previous, False) else Inr (next, True)))"

fun history_rows :: "(nat list \<Rightarrow> bool) \<Rightarrow> WorkspaceTemplateRevision option \<Rightarrow> WorkspaceTemplateRevision list \<Rightarrow> check" where
  "history_rows pem previous [] = None"
| "history_rows pem previous (r # rest) =
     first_error
       [WorkspaceTemplateRevision_Validate pem r,
        (case previous of
           None \<Rightarrow> None
         | Some p \<Rightarrow>
             first_error
               [reject (rev_TemplateID r \<noteq> rev_TemplateID p) ''Template history crosses identity'',
                reject (rev_Generation r \<le> rev_Generation p) ''Template history generations must increase'',
                reject (rev_Revision r = rev_Revision p) ''Template history contains a semantic no-op publication'']),
        history_rows pem (Some r) rest]"

definition ValidateWorkspaceTemplateHistory :: "(nat list \<Rightarrow> bool) \<Rightarrow> WorkspaceTemplateRevision list \<Rightarrow> check" where
  "ValidateWorkspaceTemplateHistory pem revisions =
     first_error [reject (revisions = []) ''Template revision history is empty'', history_rows pem None revisions]"

section \<open>Metadata revisions\<close>

record WorkspaceTemplateMetadataRevision =
  meta_Generation :: "64 word"
  meta_Name :: string
  meta_Revision :: SemanticDigest

definition name_json :: "string \<Rightarrow> json" where
  "name_json name = json_struct [(''Name'', Some (JString name))]"

definition NewWorkspaceTemplateMetadataRevision :: "64 word \<Rightarrow> string \<Rightarrow> WorkspaceTemplateMetadataRevision result" where
  "NewWorkspaceTemplateMetadataRevision generation name =
     guarded
       (first_error [reject (generation = 0) ''Template metadata generation must be positive'', ValidateName name])
       (Inr \<lparr> meta_Generation = generation, meta_Name = name, meta_Revision = semanticDigest (name_json name) \<rparr>)"

definition WorkspaceTemplateMetadataRevision_Validate :: "WorkspaceTemplateMetadataRevision \<Rightarrow> check" where
  "WorkspaceTemplateMetadataRevision_Validate r =
     (case NewWorkspaceTemplateMetadataRevision (meta_Generation r) (meta_Name r) of
        Inl _ \<Rightarrow> Some ''Template metadata revision is invalid''
      | Inr want \<Rightarrow> reject (meta_Revision r \<noteq> meta_Revision want) ''Template metadata revision is invalid'')"

section \<open>Templates\<close>

text \<open>
  A \<open>nil\<close> and an empty list of retained revisions are refused alike and never encoded, so
  \<open>Retained\<close> is a list.
\<close>

record WorkspaceTemplate =
  tpl_SchemaVersion :: int
  tpl_ID :: WorkspaceTemplateID
  tpl_Name :: string
  tpl_Metadata :: "WorkspaceTemplateMetadataRevision option"
  tpl_RetainedMetadata :: "WorkspaceTemplateMetadataRevision list option"
  tpl_Current :: WorkspaceTemplateRevision
  tpl_Retained :: "WorkspaceTemplateRevision list"

fun metadata_rows :: "WorkspaceTemplateMetadataRevision option \<Rightarrow> WorkspaceTemplateMetadataRevision list \<Rightarrow> check" where
  "metadata_rows previous [] = None"
| "metadata_rows previous (r # rest) =
     first_error
       [WorkspaceTemplateMetadataRevision_Validate r,
        (case previous of
           None \<Rightarrow> None
         | Some p \<Rightarrow> reject (meta_Generation r \<le> meta_Generation p \<or> meta_Revision r = meta_Revision p)
                       ''Template metadata history is invalid''),
        metadata_rows (Some r) rest]"

definition template_metadata_check :: "WorkspaceTemplate \<Rightarrow> check" where
  "template_metadata_check t =
     (if tpl_Metadata t = None \<and> tpl_RetainedMetadata t = None then None
      else case (tpl_Metadata t, elems (tpl_RetainedMetadata t)) of
             (Some m, r # rest) \<Rightarrow>
               first_error
                 [metadata_rows None (r # rest),
                  reject (m \<noteq> last (r # rest) \<or> meta_Name (last (r # rest)) \<noteq> tpl_Name t)
                    ''Template current metadata is not retained exactly'']
           | _ \<Rightarrow> Some ''Template metadata history is incomplete'')"

definition WorkspaceTemplate_Validate :: "(nat list \<Rightarrow> bool) \<Rightarrow> WorkspaceTemplate \<Rightarrow> check" where
  "WorkspaceTemplate_Validate pem t =
     (let current = tpl_Current t; latest = last (tpl_Retained t)
      in first_error
       [reject (tpl_SchemaVersion t \<noteq> 2 \<or> WorkspaceTemplateID_Validate (tpl_ID t) \<noteq> None \<or> ValidateName (tpl_Name t) \<noteq> None)
          ''Workspace Template identity is invalid'',
        ValidateWorkspaceTemplateHistory pem (tpl_Retained t),
        template_metadata_check t,
        check_each (\<lambda>r. reject (rev_TemplateID r \<noteq> tpl_ID t) ''Template retained revision owner is inconsistent'') (tpl_Retained t),
        reject (\<not> list_ex (\<lambda>r. rev_Generation r = rev_Generation current \<and> rev_Revision r = rev_Revision current) (tpl_Retained t))
          ''Template current revision is not retained exactly'',
        reject (rev_TemplateID current \<noteq> rev_TemplateID latest \<or> rev_Generation current \<noteq> rev_Generation latest
                \<or> rev_Revision current \<noteq> rev_Revision latest)
          ''Template current revision is not the latest retained generation'',
        WorkspaceTemplateRevision_Validate pem current])"

definition WorkspaceTemplate_Clone :: "WorkspaceTemplate \<Rightarrow> WorkspaceTemplate" where
  "WorkspaceTemplate_Clone t =
     t\<lparr> tpl_Current := WorkspaceTemplateRevision_Clone (tpl_Current t),
        tpl_Retained := map WorkspaceTemplateRevision_Clone (tpl_Retained t) \<rparr>"

text \<open>The Template is passed by pointer: the new Template is returned beside the result.\<close>

definition AdvanceWorkspaceTemplateMetadata :: "WorkspaceTemplate option \<Rightarrow> string \<Rightarrow> WorkspaceTemplate option \<times> bool result" where
  "AdvanceWorkspaceTemplateMetadata template name =
     (case template of
        None \<Rightarrow> (None, Inl ''Template metadata change is invalid'')
      | Some t \<Rightarrow>
          if ValidateName name \<noteq> None then (Some t, Inl ''Template metadata change is invalid'')
          else if tpl_Name t = name then (Some t, Inr False)
          else
            (case (case tpl_Metadata t of
                     Some m \<Rightarrow> Inr (m, t)
                   | None \<Rightarrow>
                       and_then (NewWorkspaceTemplateMetadataRevision 1 (tpl_Name t))
                         (\<lambda>baseline. Inr (baseline, t\<lparr> tpl_Metadata := Some baseline, tpl_RetainedMetadata := Some [baseline] \<rparr>))) of
               Inl e \<Rightarrow> (Some t, Inl e)
             | Inr (m, t) \<Rightarrow>
                 (case NewWorkspaceTemplateMetadataRevision (meta_Generation m + 1) name of
                    Inl e \<Rightarrow> (Some t, Inl e)
                  | Inr next \<Rightarrow>
                      (Some (t\<lparr> tpl_Name := name, tpl_Metadata := Some next,
                               tpl_RetainedMetadata := Some (elems (tpl_RetainedMetadata t) @ [next]) \<rparr>), Inr True))))"

definition InitializeWorkspaceTemplateMetadata ::
  "(nat list \<Rightarrow> bool) \<Rightarrow> WorkspaceTemplate option \<Rightarrow> WorkspaceTemplate option \<times> check" where
  "InitializeWorkspaceTemplateMetadata pem template =
     (case template of
        None \<Rightarrow> (None, Some ''Template metadata owner is unavailable'')
      | Some t \<Rightarrow>
          if tpl_Metadata t \<noteq> None \<or> tpl_RetainedMetadata t \<noteq> None then (Some t, WorkspaceTemplate_Validate pem t)
          else
            (case NewWorkspaceTemplateMetadataRevision 1 (tpl_Name t) of
               Inl e \<Rightarrow> (Some t, Some e)
             | Inr m \<Rightarrow> (Some (t\<lparr> tpl_Metadata := Some m, tpl_RetainedMetadata := Some [m] \<rparr>), None)))"

definition CopyWorkspaceTemplateRevision ::
  "(nat list \<Rightarrow> bool) \<Rightarrow> WorkspaceTemplateID \<Rightarrow> string \<Rightarrow> WorkspaceTemplateRevision \<Rightarrow> WorkspaceTemplate result" where
  "CopyWorkspaceTemplateRevision pem i name source =
     guarded
       (first_error
          [WorkspaceTemplateRevision_Validate pem source,
           reject (rev_TemplateID source = i) ''Template copy requires a fresh Template ID'',
           ValidateName name])
       (and_then (NewWorkspaceTemplateRevision pem i 1 (rev_Body source))
          (\<lambda>revision.
             let result = \<lparr> tpl_SchemaVersion = 2, tpl_ID = i, tpl_Name = name, tpl_Metadata = None, tpl_RetainedMetadata = None,
                            tpl_Current = revision, tpl_Retained = [WorkspaceTemplateRevision_Clone revision] \<rparr>
             in case InitializeWorkspaceTemplateMetadata pem (Some result) of
                  (_, Some e) \<Rightarrow> Inl e
                | (None, None) \<Rightarrow> Inl ''Template metadata owner is unavailable''
                | (Some t, None) \<Rightarrow> checked (WorkspaceTemplate_Validate pem t) t))"


section \<open>Collections of Templates\<close>

definition WorkspaceTemplateSlices_json :: "WorkspaceTemplateSlices \<Rightarrow> json" where
  "WorkspaceTemplateSlices_json s =
     json_struct
       [(''boundary_fingerprint'', Some (JString (sl_BoundaryFingerprint s))), (''policy_slice_digest'', Some (JString (sl_PolicySliceDigest s))),
        (''entry_slice_digest'', Some (JString (sl_EntrySliceDigest s))), (''session_defaults_digest'', Some (JString (sl_SessionDefaultsDigest s))),
        (''creation_defaults_digest'', Some (JString (sl_CreationDefaultsDigest s))), (''runtime_id'', Some (JString (sl_RuntimeID s))),
        (''runtime_revision'', Some (JString (sl_RuntimeRevision s)))]"

definition WorkspaceTemplateRevision_json :: "WorkspaceTemplateRevision \<Rightarrow> json" where
  "WorkspaceTemplateRevision_json r =
     json_struct
       [(''schema_version'', Some (JNumber (rev_SchemaVersion r))), (''workspace_template_id'', Some (JString (rev_TemplateID r))),
        (''generation'', Some (JNumber (uint (rev_Generation r)))), (''revision'', Some (JString (rev_Revision r))),
        (''body'', Some (WorkspaceTemplateBody_json (rev_Body r))), (''slices'', Some (WorkspaceTemplateSlices_json (rev_Slices r)))]"

definition WorkspaceTemplateMetadataRevision_json :: "WorkspaceTemplateMetadataRevision \<Rightarrow> json" where
  "WorkspaceTemplateMetadataRevision_json m =
     json_struct [(''generation'', Some (JNumber (uint (meta_Generation m)))), (''name'', Some (JString (meta_Name m))),
                  (''revision'', Some (JString (meta_Revision m)))]"

definition WorkspaceTemplate_json :: "WorkspaceTemplate \<Rightarrow> json" where
  "WorkspaceTemplate_json t =
     json_struct
       [(''schema_version'', Some (JNumber (tpl_SchemaVersion t))), (''workspace_template_id'', Some (JString (tpl_ID t))),
        (''name'', Some (JString (tpl_Name t))), (''metadata_revision'', map_option WorkspaceTemplateMetadataRevision_json (tpl_Metadata t)),
        (''retained_metadata_revisions'', json_slice_omitempty WorkspaceTemplateMetadataRevision_json (tpl_RetainedMetadata t)),
        (''current'', Some (WorkspaceTemplateRevision_json (tpl_Current t))),
        (''retained'', Some (JArray (map WorkspaceTemplateRevision_json (tpl_Retained t))))]"

text \<open>The maps \<open>byID\<close> and \<open>byName\<close> of the loop.\<close>

fun authority_rows ::
  "(nat list \<Rightarrow> bool) \<Rightarrow> (WorkspaceTemplateID \<Rightarrow> SemanticDigest option) \<Rightarrow> (string \<Rightarrow> WorkspaceTemplateID option)
   \<Rightarrow> WorkspaceTemplate list \<Rightarrow> check" where
  "authority_rows pem byID byName [] = None"
| "authority_rows pem byID byName (t # rest) =
     (let digest = semanticDigest (WorkspaceTemplate_json t)
      in first_error
           [WorkspaceTemplate_Validate pem t,
            (case byID (tpl_ID t) of
               Some previous \<Rightarrow> reject (previous \<noteq> digest) ''one Workspace Template ID has contradictory authority''
             | None \<Rightarrow> None),
            (case byName (tpl_Name t) of
               Some previous \<Rightarrow> reject (previous \<noteq> tpl_ID t) ''one Workspace Template name identifies multiple Templates''
             | None \<Rightarrow> None),
            authority_rows pem (byID(tpl_ID t \<mapsto> digest)) (byName(tpl_Name t \<mapsto> tpl_ID t)) rest])"

definition ValidateWorkspaceTemplateAuthorities :: "(nat list \<Rightarrow> bool) \<Rightarrow> WorkspaceTemplate list option \<Rightarrow> check" where
  "ValidateWorkspaceTemplateAuthorities pem templates =
     (case templates of
        None \<Rightarrow> Some ''Workspace Template authority collection is unknown''
      | Some ts \<Rightarrow> authority_rows pem Map.empty Map.empty ts)"

section \<open>Entry authority\<close>

record WorkspaceTemplateEntryAuthority =
  ea_TemplateID :: WorkspaceTemplateID
  ea_TemplateRevision :: SemanticDigest
  ea_EntrySliceDigest :: SemanticDigest
  ea_SourceAccess :: string
  ea_AgentProfile :: string
  ea_Runtime :: RuntimeBinding
  ea_SessionDefaults :: WorkspaceTemplateSessionDefaults
  ea_CreationDefaults :: WorkspaceTemplateCreationDefaults

definition WorkspaceTemplateEntryAuthority_ValidateFor ::
  "(nat list \<Rightarrow> bool) \<Rightarrow> WorkspaceTemplateEntryAuthority \<Rightarrow> WorkspaceTemplateRevision \<Rightarrow> check" where
  "WorkspaceTemplateEntryAuthority_ValidateFor pem a r =
     first_error
       [WorkspaceTemplateRevision_Validate pem r,
        reject (ea_TemplateID a \<noteq> rev_TemplateID r \<or> ea_TemplateRevision a \<noteq> rev_Revision r
                \<or> ea_EntrySliceDigest a \<noteq> sl_EntrySliceDigest (rev_Slices r)
                \<or> ea_SourceAccess a \<noteq> bnd_SourceAccess (tb_Boundary (rev_Body r))
                \<or> ea_AgentProfile a \<noteq> pol_AgentProfile (tb_Policy (rev_Body r))
                \<or> ea_Runtime a \<noteq> ent_Runtime (tb_EntryDefaults (rev_Body r)))
          ''Template entry authority does not bind its exact revision'',
        ManifestSourceAccess_Validate (ea_SourceAccess a),
        wrap ''Template entry authority agent profile'' (ValidateName (ea_AgentProfile a)),
        WorkspaceTemplateSessionDefaults_Validate (ea_SessionDefaults a),
        WorkspaceTemplateCreationDefaults_Validate pem (ea_CreationDefaults a),
        reject (semanticDigest (WorkspaceTemplateSessionDefaults_json (ea_SessionDefaults a)) \<noteq> sl_SessionDefaultsDigest (rev_Slices r))
          ''Template entry authority session defaults are inconsistent'',
        reject (semanticDigest (WorkspaceTemplateCreationDefaults_json (ea_CreationDefaults a)) \<noteq> sl_CreationDefaultsDigest (rev_Slices r))
          ''Template entry authority creation defaults are inconsistent'']"

definition entry_authority_of :: "WorkspaceTemplateRevision \<Rightarrow> WorkspaceTemplateEntryAuthority" where
  "entry_authority_of r =
     \<lparr> ea_TemplateID = rev_TemplateID r, ea_TemplateRevision = rev_Revision r,
       ea_EntrySliceDigest = sl_EntrySliceDigest (rev_Slices r), ea_SourceAccess = bnd_SourceAccess (tb_Boundary (rev_Body r)),
       ea_AgentProfile = pol_AgentProfile (tb_Policy (rev_Body r)), ea_Runtime = ent_Runtime (tb_EntryDefaults (rev_Body r)),
       ea_SessionDefaults = WorkspaceTemplateSessionDefaults_Clone (tb_SessionDefaults (rev_Body r)),
       ea_CreationDefaults = WorkspaceTemplateCreationDefaults_Clone (tb_CreationDefaults (rev_Body r)) \<rparr>"

definition DeriveWorkspaceTemplateEntryAuthority ::
  "(nat list \<Rightarrow> bool) \<Rightarrow> WorkspaceTemplateRevision \<Rightarrow> WorkspaceTemplateEntryAuthority result" where
  "DeriveWorkspaceTemplateEntryAuthority pem r =
     guarded (WorkspaceTemplateRevision_Validate pem r)
       (checked (WorkspaceTemplateEntryAuthority_ValidateFor pem (entry_authority_of r) r) (entry_authority_of r))"

section \<open>Contexts\<close>

record ContextBinding =
  cb_SchemaVersion :: int
  cb_ID :: ContextID
  cb_TemplateID :: WorkspaceTemplateID

definition ContextBinding_Validate :: "ContextBinding \<Rightarrow> check" where
  "ContextBinding_Validate c =
     first_error
       [reject (cb_SchemaVersion c \<noteq> 2) ''Context schema version must be 2'',
        ContextID_Validate (cb_ID c),
        WorkspaceTemplateID_Validate (cb_TemplateID c)]"

definition ValidateContextBindings :: "ContextBinding list option \<Rightarrow> check" where
  "ValidateContextBindings bindings =
     (case bindings of
        None \<Rightarrow> Some ''Context collection is unknown''
      | Some bs \<Rightarrow> check_items ContextBinding_Validate cb_ID ''Context IDs must be unique'' [] bs)"

section \<open>What a valid revision is\<close>

lemma revision_valid:
  "WorkspaceTemplateRevision_Validate pem r = None \<longleftrightarrow>
     rev_SchemaVersion r = 2 \<and> WorkspaceTemplateID_Validate (rev_TemplateID r) = None \<and> rev_Generation r \<noteq> 0
     \<and> WorkspaceTemplateBody_Validate pem (rev_Body r) = None \<and> rev_Slices r = body_slices (rev_Body r)
     \<and> rev_Revision r = semanticDigest (WorkspaceTemplateBody_json (rev_Body r))"
  by (auto simp: WorkspaceTemplateRevision_Validate_def check_simps slices_def guarded_def)

definition revision_of :: "WorkspaceTemplateID \<Rightarrow> 64 word \<Rightarrow> WorkspaceTemplateBody \<Rightarrow> WorkspaceTemplateRevision" where
  "revision_of i g b =
     \<lparr> rev_SchemaVersion = 2, rev_TemplateID = i, rev_Generation = g, rev_Revision = semanticDigest (WorkspaceTemplateBody_json b),
       rev_Body = b, rev_Slices = body_slices b \<rparr>"

lemma revision_valid_eq:
  "WorkspaceTemplateRevision_Validate pem r = None \<longleftrightarrow>
     WorkspaceTemplateID_Validate (rev_TemplateID r) = None \<and> rev_Generation r \<noteq> 0
     \<and> WorkspaceTemplateBody_Validate pem (rev_Body r) = None \<and> r = revision_of (rev_TemplateID r) (rev_Generation r) (rev_Body r)"
  by (cases r) (auto simp: revision_valid revision_of_def)

lemma new_revision:
  "NewWorkspaceTemplateRevision pem i g b = Inr r \<longleftrightarrow>
     WorkspaceTemplateID_Validate i = None \<and> g \<noteq> 0 \<and> WorkspaceTemplateBody_Validate pem (WorkspaceTemplateBody_Clone b) = None
     \<and> r = revision_of i g (WorkspaceTemplateBody_Clone b)"
  by (auto simp: NewWorkspaceTemplateRevision_def Let_def check_simps slices_def revision_valid revision_of_def)

lemma revision_Clone_id: "WorkspaceTemplateRevision_Validate pem r = None \<Longrightarrow> WorkspaceTemplateRevision_Clone r = r"
  by (cases r) (simp add: WorkspaceTemplateRevision_Clone_def revision_valid body_Clone_id[of pem])


section \<open>Advance\<close>

lemma next_generation: "(g :: 64 word) + 1 \<noteq> 0 \<Longrightarrow> unat (g + 1) = unat g + 1 \<and> g < g + 1"
  using unatSuc[of g] by (simp add: word_less_nat_alt add.commute)

lemma generation_wraps: "(g :: 64 word) + 1 = 0 \<longleftrightarrow> g = - 1"
  by (metis add.right_inverse add_left_cancel add.commute)

lemma new_revision_error:
  assumes "WorkspaceTemplateID_Validate i = None" "g \<noteq> 0" "WorkspaceTemplateBody_Validate pem (WorkspaceTemplateBody_Clone b) = Some e"
  shows "NewWorkspaceTemplateRevision pem i g b = Inl e"
  using assms by (simp add: NewWorkspaceTemplateRevision_def Let_def slices_def guarded_def and_then_def first_error.simps reject_def)

lemma new_revision_zero:
  "WorkspaceTemplateID_Validate i = None \<Longrightarrow> NewWorkspaceTemplateRevision pem i 0 b = Inl ''Template generation must be positive''"
  by (simp add: NewWorkspaceTemplateRevision_def Let_def guarded_def first_error.simps reject_def)

lemma advance_exact:
  assumes "WorkspaceTemplateRevision_Validate pem p = None"
  shows "AdvanceWorkspaceTemplateRevision pem p b =
      (if rev_Generation p = - 1 then Inl ''Template generation must be positive''
       else case WorkspaceTemplateBody_Validate pem (WorkspaceTemplateBody_Clone b) of
              Some e \<Rightarrow> Inl e
            | None \<Rightarrow>
                if semanticDigest (WorkspaceTemplateBody_json (WorkspaceTemplateBody_Clone b)) = rev_Revision p then Inr (p, False)
                else Inr (revision_of (rev_TemplateID p) (rev_Generation p + 1) (WorkspaceTemplateBody_Clone b), True))"
proof -
  let ?b = "WorkspaceTemplateBody_Clone b" and ?g = "rev_Generation p + 1"
  let ?new = "NewWorkspaceTemplateRevision pem (rev_TemplateID p) ?g b"
  have i: "WorkspaceTemplateID_Validate (rev_TemplateID p) = None" using assms by (simp add: revision_valid)
  have adv: "AdvanceWorkspaceTemplateRevision pem p b =
      and_then ?new (\<lambda>next. if rev_Revision next = rev_Revision p then Inr (p, False) else Inr (next, True))"
    by (simp add: AdvanceWorkspaceTemplateRevision_def assms guarded_def)
  have ok: "?new = Inr (revision_of (rev_TemplateID p) ?g ?b)" if "?g \<noteq> 0" "WorkspaceTemplateBody_Validate pem ?b = None"
    using that i by (simp add: new_revision)
  show ?thesis
    using ok new_revision_error[OF i, of ?g pem b] new_revision_zero[OF i, of pem b]
    by (auto simp: adv and_then_def generation_wraps[symmetric] revision_of_def split: option.splits)
qed

lemma advanced_revision:
  assumes p: "WorkspaceTemplateRevision_Validate pem p = None" and "AdvanceWorkspaceTemplateRevision pem p b = Inr (r, True)"
  shows "WorkspaceTemplateRevision_Validate pem r = None \<and> rev_TemplateID r = rev_TemplateID p
    \<and> unat (rev_Generation r) = unat (rev_Generation p) + 1 \<and> unat (rev_Generation r) < 2 ^ 64 \<and> rev_Revision r \<noteq> rev_Revision p"
proof -
  let ?b = "WorkspaceTemplateBody_Clone b" and ?g = "rev_Generation p + 1"
  have r: "?g \<noteq> 0" "WorkspaceTemplateBody_Validate pem ?b = None" "r = revision_of (rev_TemplateID p) ?g ?b"
    "semanticDigest (WorkspaceTemplateBody_json ?b) \<noteq> rev_Revision p"
    using assms(2) by (auto simp: advance_exact[OF p] generation_wraps split: if_splits option.splits)
  then show ?thesis
    using p next_generation[OF r(1)] unsigned_less[of ?g, where 'a = nat] by (simp add: revision_valid revision_of_def)
qed

text \<open>C20: Advancing a valid revision is exact at every generation: at the largest 64-bit generation it
  is refused, because the next generation would wrap to zero; an invalid body is refused with its
  error; a body with the digest of the current one leaves the revision as it is; any other body is
  published under the same Template with the next generation, and the result is valid. The body may
  have another Boundary than the current one, as the test of a reviewable same-Template Boundary change
  has it; the comment at \<open>WorkspaceTemplateBoundary\<close>, that no revision under the same ID can change
  the Boundary, does not hold of the code.\<close>
theorem advance_revision_is_exact:
  assumes "WorkspaceTemplateRevision_Validate pem p = None"
  shows "AdvanceWorkspaceTemplateRevision pem p b =
      (if rev_Generation p = - 1 then Inl ''Template generation must be positive''
       else case WorkspaceTemplateBody_Validate pem (WorkspaceTemplateBody_Clone b) of
              Some e \<Rightarrow> Inl e
            | None \<Rightarrow>
                if semanticDigest (WorkspaceTemplateBody_json (WorkspaceTemplateBody_Clone b)) = rev_Revision p then Inr (p, False)
                else Inr (revision_of (rev_TemplateID p) (rev_Generation p + 1) (WorkspaceTemplateBody_Clone b), True))
    \<and> (\<forall>r. AdvanceWorkspaceTemplateRevision pem p b = Inr (r, True) \<longrightarrow>
         WorkspaceTemplateRevision_Validate pem r = None \<and> rev_TemplateID r = rev_TemplateID p
         \<and> unat (rev_Generation r) = unat (rev_Generation p) + 1 \<and> unat (rev_Generation r) < 2 ^ 64 \<and> rev_Revision r \<noteq> rev_Revision p)"
  using advance_exact[OF assms] advanced_revision[OF assms] by blast

text \<open>A Template that permits any public destination and asks for every method.\<close>

definition example_body :: WorkspaceTemplateBody where
  "example_body =
     \<lparr> tb_Boundary =
         \<lparr> bnd_SourceAccess = ''read-write'',
           bnd_DestinationCeiling = \<lparr> mdc_Mode = ''public_https'', mdc_Authorities = Some [] \<rparr>,
           bnd_MethodPolicy = \<lparr> mmp_Default = ''exact_review'', mmp_Overrides = Some [] \<rparr> \<rparr>,
       tb_Policy =
         \<lparr> pol_AgentProfile = ''default'', pol_NativeReadiness = ''enabled'', pol_SemanticModules = None,
           pol_BaselineGrants = Some [], pol_BaselineTemplates = Some [], pol_MCPBaselineGrants = Some [],
           pol_BaselineDenies = Some [], pol_GraphQLEndpoints = Some [], pol_MCPEndpoints = Some [] \<rparr>,
       tb_EntryDefaults =
         \<lparr> ent_Runtime = \<lparr> rtb_RuntimeID = StandardRuntimeID, rtb_Name = ''standard'',
             rtb_Revision = ''sha256:00000000000000000000000000000000000000000000000000000000000000aa'', rtb_Ordinal = 1,
             rtb_Image = ''example/runtime:1'' \<rparr> \<rparr>,
       tb_SessionDefaults = \<lparr> sd_ShellEnvironment = Some [], sd_GitIdentity = None \<rparr>,
       tb_CreationDefaults = \<lparr> cd_Bootstrap = None \<rparr> \<rparr>"

definition example_template_id :: string where
  "example_template_id = ''01890000-0000-7000-8000-000000000001''"

lemma example_body_valid: "WorkspaceTemplateBody_Validate (\<lambda>_. True) example_body = None"
  by code_simp

lemma example_body_encodable: "encodable example_body"
  by code_simp


lemma example_revision_valid: "g \<noteq> 0 \<Longrightarrow> WorkspaceTemplateRevision_Validate (\<lambda>_. True) (revision_of example_template_id g example_body) = None"
  using example_body_valid by (simp add: revision_valid revision_of_def example_template_id_def) code_simp

theorem advance_revision_is_exact_witness:
  "AdvanceWorkspaceTemplateRevision (\<lambda>_. True) (revision_of example_template_id (- 1) example_body) example_body
     = Inl ''Template generation must be positive''
   \<and> AdvanceWorkspaceTemplateRevision (\<lambda>_. True) (revision_of example_template_id 1 example_body) example_body
     = Inr (revision_of example_template_id 1 example_body, False)"
  using advance_revision_is_exact[OF example_revision_valid[of "- 1"], of example_body, THEN conjunct1]
    advance_revision_is_exact[OF example_revision_valid[of 1], of example_body, THEN conjunct1]
    example_body_valid body_Clone_id[OF example_body_valid]
  by (simp add: revision_of_def)

section \<open>Digests identify revisions\<close>

text \<open>C23: A revision digest identifies the body of a Template, and each slice digest identifies the part
  it is activated for: two valid revisions have the same digest exactly when their bodies are equal,
  and the same boundary fingerprint, policy, entry, session or creation digest exactly when that part
  is equal (the policy digest also covers the boundary), unless SHA-256 collides.\<close>
theorem revision_digests_identify_content:
  assumes "WorkspaceTemplateRevision_Validate pem r = None" "WorkspaceTemplateRevision_Validate pem s = None"
    and "encodable (rev_Body r)" "encodable (rev_Body s)" "bodies_collision_free (rev_Body r) (rev_Body s)"
  shows "(rev_Revision r = rev_Revision s \<longleftrightarrow> rev_Body r = rev_Body s)
    \<and> (sl_BoundaryFingerprint (rev_Slices r) = sl_BoundaryFingerprint (rev_Slices s) \<longleftrightarrow> tb_Boundary (rev_Body r) = tb_Boundary (rev_Body s))
    \<and> (sl_PolicySliceDigest (rev_Slices r) = sl_PolicySliceDigest (rev_Slices s)
        \<longleftrightarrow> tb_Boundary (rev_Body r) = tb_Boundary (rev_Body s) \<and> tb_Policy (rev_Body r) = tb_Policy (rev_Body s))
    \<and> (sl_EntrySliceDigest (rev_Slices r) = sl_EntrySliceDigest (rev_Slices s)
        \<longleftrightarrow> tb_EntryDefaults (rev_Body r) = tb_EntryDefaults (rev_Body s))
    \<and> (sl_SessionDefaultsDigest (rev_Slices r) = sl_SessionDefaultsDigest (rev_Slices s)
        \<longleftrightarrow> tb_SessionDefaults (rev_Body r) = tb_SessionDefaults (rev_Body s))
    \<and> (sl_CreationDefaultsDigest (rev_Slices r) = sl_CreationDefaultsDigest (rev_Slices s)
        \<longleftrightarrow> tb_CreationDefaults (rev_Body r) = tb_CreationDefaults (rev_Body s))"
proof -
  have v: "WorkspaceTemplateBody_Validate pem (rev_Body r) = None" "WorkspaceTemplateBody_Validate pem (rev_Body s) = None"
    using assms(1,2) by (simp_all add: revision_valid)
  show ?thesis
    using assms(1,2) body_digest_binds[OF v assms(3-5)] slices_bind[OF v assms(3-5)] by (simp add: revision_valid)
qed

theorem revision_digests_identify_content_witness:
  "rev_Revision (revision_of example_template_id 1 example_body) = rev_Revision (revision_of example_template_id 2 example_body)
   \<and> sl_PolicySliceDigest (rev_Slices (revision_of example_template_id 1 example_body))
       = sl_PolicySliceDigest (rev_Slices (revision_of example_template_id 2 example_body))"
  using revision_digests_identify_content[OF example_revision_valid[of 1] example_revision_valid[of 2]] example_body_encodable
  by (simp add: revision_of_def bodies_collision_free_def no_collision_def)

section \<open>Entry authority\<close>

text \<open>The defaults of two revisions encode without a collision of SHA-256.\<close>

definition entry_collision_free :: "WorkspaceTemplateEntryAuthority \<Rightarrow> WorkspaceTemplateRevision \<Rightarrow> bool" where
  "entry_collision_free a r =
     (no_collision (WorkspaceTemplateSessionDefaults_json (ea_SessionDefaults a))
        (WorkspaceTemplateSessionDefaults_json (tb_SessionDefaults (rev_Body r)))
      \<and> no_collision (WorkspaceTemplateCreationDefaults_json (ea_CreationDefaults a))
          (WorkspaceTemplateCreationDefaults_json (tb_CreationDefaults (rev_Body r)))
      \<and> json_valid (WorkspaceTemplateSessionDefaults_json (ea_SessionDefaults a))
      \<and> json_valid (WorkspaceTemplateCreationDefaults_json (ea_CreationDefaults a)))"

lemma entry_authority_derived:
  assumes "WorkspaceTemplateRevision_Validate pem r = None"
  shows "ea_SessionDefaults (entry_authority_of r) = tb_SessionDefaults (rev_Body r)"
    "ea_CreationDefaults (entry_authority_of r) = tb_CreationDefaults (rev_Body r)"
    "sl_SessionDefaultsDigest (rev_Slices r) = semanticDigest (WorkspaceTemplateSessionDefaults_json (tb_SessionDefaults (rev_Body r)))"
    "sl_CreationDefaultsDigest (rev_Slices r) = semanticDigest (WorkspaceTemplateCreationDefaults_json (tb_CreationDefaults (rev_Body r)))"
    "WorkspaceTemplateEntryAuthority_ValidateFor pem (entry_authority_of r) r = None"
proof -
  let ?b = "rev_Body r"
  have v: "WorkspaceTemplateBody_Validate pem ?b = None" "rev_Slices r = body_slices ?b" using assms by (simp_all add: revision_valid)
  have parts: "ManifestSourceAccess_Validate (bnd_SourceAccess (tb_Boundary ?b)) = None" "ValidateName (pol_AgentProfile (tb_Policy ?b)) = None"
    "WorkspaceTemplateSessionDefaults_Validate (tb_SessionDefaults ?b) = None"
    "WorkspaceTemplateCreationDefaults_Validate pem (tb_CreationDefaults ?b) = None"
    using v(1) by (simp_all add: body_valid WorkspaceTemplateBoundary_Validate_def WorkspaceTemplatePolicyBody_Validate_def check_simps)
  show d: "ea_SessionDefaults (entry_authority_of r) = tb_SessionDefaults ?b"
    "ea_CreationDefaults (entry_authority_of r) = tb_CreationDefaults ?b"
    using parts(3,4) by (simp_all add: entry_authority_of_def session_Clone_id creation_Clone_id[of pem])
  show same: "sl_SessionDefaultsDigest (rev_Slices r) = semanticDigest (WorkspaceTemplateSessionDefaults_json (tb_SessionDefaults ?b))"
    "sl_CreationDefaultsDigest (rev_Slices r) = semanticDigest (WorkspaceTemplateCreationDefaults_json (tb_CreationDefaults ?b))"
    by (simp_all add: v(2) body_slices_def Let_def)
  show "WorkspaceTemplateEntryAuthority_ValidateFor pem (entry_authority_of r) r = None"
    using assms parts d same
    by (simp add: WorkspaceTemplateEntryAuthority_ValidateFor_def check_simps) (simp add: entry_authority_of_def)
qed

text \<open>A valid revision has exactly one entry authority: it is derived without an error, it holds the
  defaults of the revision unchanged, and the validation for the revision accepts no other authority,
  unless SHA-256 collides.\<close>
theorem entry_authority_is_unique:
  assumes "WorkspaceTemplateRevision_Validate pem r = None" "encodable (rev_Body r)" "entry_collision_free a r"
  shows "DeriveWorkspaceTemplateEntryAuthority pem r = Inr (entry_authority_of r)
    \<and> ea_SessionDefaults (entry_authority_of r) = tb_SessionDefaults (rev_Body r)
    \<and> ea_CreationDefaults (entry_authority_of r) = tb_CreationDefaults (rev_Body r)
    \<and> (WorkspaceTemplateEntryAuthority_ValidateFor pem a r = None \<longleftrightarrow> a = entry_authority_of r)"
proof -
  let ?b = "rev_Body r"
  note derived = entry_authority_derived[OF assms(1)]
  have "a = entry_authority_of r" if a: "WorkspaceTemplateEntryAuthority_ValidateFor pem a r = None"
  proof -
    note a' = a[unfolded WorkspaceTemplateEntryAuthority_ValidateFor_def check_simps derived(3,4)]
    have "ea_SessionDefaults a = tb_SessionDefaults ?b" "ea_CreationDefaults a = tb_CreationDefaults ?b"
      using a' assms(3) semanticDigest_binds[OF _ encodable_parts(4)[OF assms(2)]] semanticDigest_binds[OF _ encodable_parts(5)[OF assms(2)]]
      by (simp_all add: entry_collision_free_def)
    with a' derived(1,2) show ?thesis by (cases a) (simp add: entry_authority_of_def)
  qed
  with derived assms(1) show ?thesis
    by (auto simp: DeriveWorkspaceTemplateEntryAuthority_def guarded_def checked_def)
qed


theorem entry_authority_is_unique_witness:
  "DeriveWorkspaceTemplateEntryAuthority (\<lambda>_. True) (revision_of example_template_id 1 example_body)
     = Inr (entry_authority_of (revision_of example_template_id 1 example_body))
   \<and> WorkspaceTemplateEntryAuthority_ValidateFor (\<lambda>_. True) (entry_authority_of (revision_of example_template_id 1 example_body))
       (revision_of example_template_id 1 example_body) = None"
proof -
  let ?r = "revision_of example_template_id 1 example_body"
  have "WorkspaceTemplateSessionDefaults_Clone (tb_SessionDefaults example_body) = tb_SessionDefaults example_body"
    "WorkspaceTemplateCreationDefaults_Clone (tb_CreationDefaults example_body) = tb_CreationDefaults example_body"
    using example_body_valid by (simp_all add: body_valid session_Clone_id creation_Clone_id[of "\<lambda>_. True"])
  then have "entry_collision_free (entry_authority_of ?r) ?r" "encodable (rev_Body ?r)"
    using example_body_encodable encodable_parts(4,5)[OF example_body_encodable]
    by (simp_all add: entry_collision_free_def entry_authority_of_def revision_of_def no_collision_def)
  from entry_authority_is_unique[OF example_revision_valid[of 1] this(2,1)] show ?thesis by simp
qed

section \<open>The history of a Template\<close>

lemma history_rows_valid:
  "history_rows pem p rs = None \<longleftrightarrow>
     (\<forall>r \<in> set rs. WorkspaceTemplateRevision_Validate pem r = None)
     \<and> successively (\<lambda>a b. rev_TemplateID b = rev_TemplateID a \<and> rev_Generation a < rev_Generation b \<and> rev_Revision b \<noteq> rev_Revision a)
         ((case p of None \<Rightarrow> [] | Some a \<Rightarrow> [a]) @ rs)"
proof (induction rs arbitrary: p)
  case (Cons r rs)
  show ?case using Cons.IH[of "Some r"] by (cases p) (auto simp: check_simps not_le)
qed (simp split: option.splits)

lemma metadata_rows_valid:
  "metadata_rows p rs = None \<longleftrightarrow>
     (\<forall>r \<in> set rs. WorkspaceTemplateMetadataRevision_Validate r = None)
     \<and> successively (\<lambda>a b. meta_Generation a < meta_Generation b \<and> meta_Revision b \<noteq> meta_Revision a)
         ((case p of None \<Rightarrow> [] | Some a \<Rightarrow> [a]) @ rs)"
proof (induction rs arbitrary: p)
  case (Cons r rs)
  show ?case using Cons.IH[of "Some r"] by (cases p) (auto simp: check_simps not_le)
qed (simp split: option.splits)

lemma metadata_valid:
  "WorkspaceTemplateMetadataRevision_Validate m = None \<longleftrightarrow>
     meta_Generation m \<noteq> 0 \<and> ValidateName (meta_Name m) = None \<and> meta_Revision m = semanticDigest (name_json (meta_Name m))"
  by (auto simp: WorkspaceTemplateMetadataRevision_Validate_def NewWorkspaceTemplateMetadataRevision_def guarded_def first_error.simps
      reject_def split: option.splits)

text \<open>The revision and metadata histories of a Template, apart from its identity.\<close>

definition retained_ok :: "(nat list \<Rightarrow> bool) \<Rightarrow> WorkspaceTemplate \<Rightarrow> bool" where
  "retained_ok pem t =
     (tpl_Retained t \<noteq> [] \<and> tpl_Current t = last (tpl_Retained t)
      \<and> (\<forall>r \<in> set (tpl_Retained t). WorkspaceTemplateRevision_Validate pem r = None \<and> rev_TemplateID r = tpl_ID t)
      \<and> successively (\<lambda>a b. rev_Generation a < rev_Generation b \<and> rev_Revision b \<noteq> rev_Revision a) (tpl_Retained t))"

definition metadata_ok :: "WorkspaceTemplate \<Rightarrow> bool" where
  "metadata_ok t =
     (case (tpl_Metadata t, tpl_RetainedMetadata t) of
        (None, None) \<Rightarrow> True
      | (Some m, Some rs) \<Rightarrow>
          rs \<noteq> [] \<and> m = last rs \<and> meta_Name m = tpl_Name t \<and> (\<forall>r \<in> set rs. WorkspaceTemplateMetadataRevision_Validate r = None)
          \<and> successively (\<lambda>a b. meta_Generation a < meta_Generation b \<and> meta_Revision b \<noteq> meta_Revision a) rs
      | _ \<Rightarrow> False)"

lemma metadata_ok_frame: "metadata_ok (t\<lparr> tpl_Current := r, tpl_Retained := rs \<rparr>) = metadata_ok t"
  by (auto simp: metadata_ok_def split: option.splits)

lemma template_metadata_iff: "template_metadata_check t = None \<longleftrightarrow> metadata_ok t"
proof (cases "tpl_RetainedMetadata t")
  case None
  then show ?thesis by (cases "tpl_Metadata t") (simp_all add: template_metadata_check_def metadata_ok_def)
next
  case (Some rs)
  then show ?thesis
    by (cases "tpl_Metadata t"; cases rs)
      (auto simp: template_metadata_check_def metadata_ok_def check_simps metadata_rows_valid simp del: last.simps)
qed

lemma successively_and:
  "successively (\<lambda>a b. P a b \<and> Q a b) xs \<longleftrightarrow> successively P xs \<and> successively Q xs"
  by (induction xs rule: induct_list012) auto

lemma same_owner: "\<forall>r \<in> set rs. f r = i \<Longrightarrow> successively (\<lambda>a b. f b = f a) rs"
  by (induction rs rule: induct_list012) auto

lemma template_valid:
  "WorkspaceTemplate_Validate pem t = None \<longleftrightarrow>
     tpl_SchemaVersion t = 2 \<and> WorkspaceTemplateID_Validate (tpl_ID t) = None \<and> ValidateName (tpl_Name t) = None
     \<and> retained_ok pem (t\<lparr> tpl_Current := last (tpl_Retained t) \<rparr>) \<and> metadata_ok t
     \<and> rev_Generation (tpl_Current t) = rev_Generation (last (tpl_Retained t))
     \<and> rev_Revision (tpl_Current t) = rev_Revision (last (tpl_Retained t))
     \<and> rev_TemplateID (tpl_Current t) = tpl_ID t
     \<and> WorkspaceTemplateRevision_Validate pem (tpl_Current t) = None"
proof -
  have "WorkspaceTemplate_Validate pem t = None \<longleftrightarrow>
     tpl_SchemaVersion t = 2 \<and> WorkspaceTemplateID_Validate (tpl_ID t) = None \<and> ValidateName (tpl_Name t) = None
     \<and> ValidateWorkspaceTemplateHistory pem (tpl_Retained t) = None \<and> metadata_ok t
     \<and> (\<forall>r \<in> set (tpl_Retained t). rev_TemplateID r = tpl_ID t)
     \<and> list_ex (\<lambda>r. rev_Generation r = rev_Generation (tpl_Current t) \<and> rev_Revision r = rev_Revision (tpl_Current t)) (tpl_Retained t)
     \<and> rev_TemplateID (tpl_Current t) = rev_TemplateID (last (tpl_Retained t))
     \<and> rev_Generation (tpl_Current t) = rev_Generation (last (tpl_Retained t))
     \<and> rev_Revision (tpl_Current t) = rev_Revision (last (tpl_Retained t))
     \<and> WorkspaceTemplateRevision_Validate pem (tpl_Current t) = None"
    unfolding WorkspaceTemplate_Validate_def Let_def first_error_None reject_None check_each_None template_metadata_iff first_error.simps(1)
    by auto
  moreover have "list_ex (\<lambda>r. rev_Generation r = rev_Generation (last rs) \<and> rev_Revision r = rev_Revision (last rs)) rs" if "rs \<noteq> []" for rs
    using that by (auto simp: list_ex_iff intro!: bexI[of _ "last rs"])
  ultimately show ?thesis
    by (auto simp: ValidateWorkspaceTemplateHistory_def check_simps history_rows_valid retained_ok_def successively_and intro: same_owner)
qed


lemma name_utf8: "ValidateName n = None \<Longrightarrow> json_valid (name_json n)"
proof -
  assume "ValidateName n = None"
  then have "list_all (\<lambda>c. byte c < 128) n"
    by (cases n) (auto simp: ValidateName_def check_simps namePattern_def list_all_iff is_lower_def is_digit_def byte_def)
  then have "utf8_ValidString n" by (rule ascii_utf8)
  moreover have "utf8_ValidString ''Name''" by code_simp
  ultimately show ?thesis by (simp add: name_json_def json_valid_struct)
qed

lemma name_digest:
  assumes "ValidateName a = None" "ValidateName b = None" "no_collision (name_json a) (name_json b)" "a \<noteq> b"
  shows "semanticDigest (name_json a) \<noteq> semanticDigest (name_json b)"
  using semanticDigest_binds[OF name_utf8[OF assms(1)] name_utf8[OF assms(2)] assms(3)] assms(4)
  by (simp add: name_json_def struct_Cons)

text \<open>
  The two ways the store changes a Template: it publishes an advanced revision and retains it, or it
  renames the Template. A name whose digest collides with the current one is left out.
\<close>

inductive template_step :: "(nat list \<Rightarrow> bool) \<Rightarrow> WorkspaceTemplate \<Rightarrow> WorkspaceTemplate \<Rightarrow> bool" for pem where
  publish: "AdvanceWorkspaceTemplateRevision pem (tpl_Current t) body = Inr (r, True) \<Longrightarrow>
    template_step pem t (t\<lparr> tpl_Current := WorkspaceTemplateRevision_Clone r,
                             tpl_Retained := tpl_Retained t @ [WorkspaceTemplateRevision_Clone r] \<rparr>)"
| rename: "AdvanceWorkspaceTemplateMetadata (Some t) name = (Some t', Inr True) \<Longrightarrow>
    no_collision (name_json (tpl_Name t)) (name_json name) \<Longrightarrow> template_step pem t t'"

inductive_cases template_stepE: "template_step pem t t'"

text \<open>A rename changes the metadata only.\<close>

lemma rename_frame:
  assumes "AdvanceWorkspaceTemplateMetadata (Some t) name = (Some t', Inr True)"
  shows "tpl_SchemaVersion t' = tpl_SchemaVersion t" "tpl_ID t' = tpl_ID t" "tpl_Current t' = tpl_Current t"
    "tpl_Retained t' = tpl_Retained t" "tpl_Name t' = name" "ValidateName name = None" "tpl_Name t \<noteq> name"
  using assms by (auto simp: AdvanceWorkspaceTemplateMetadata_def and_then_def split: if_splits option.splits sum.splits prod.splits)

lemma rename_metadata_ok:
  assumes adv: "AdvanceWorkspaceTemplateMetadata (Some t) name = (Some t', Inr True)"
    and nc: "no_collision (name_json (tpl_Name t)) (name_json name)"
    and name: "ValidateName (tpl_Name t) = None" and ok: "metadata_ok t"
  shows "metadata_ok t'"
proof -
  note frame = rename_frame[OF adv]
  have fresh: "semanticDigest (name_json (tpl_Name t)) \<noteq> semanticDigest (name_json name)"
    using name_digest[OF name frame(6) nc frame(7)] .
  obtain m rs where rs: "rs \<noteq> []" "m = last rs" "meta_Name m = tpl_Name t" "\<forall>r \<in> set rs. WorkspaceTemplateMetadataRevision_Validate r = None"
      "successively (\<lambda>a b. meta_Generation a < meta_Generation b \<and> meta_Revision b \<noteq> meta_Revision a) rs"
    and t': "meta_Generation m + 1 \<noteq> 0" "tpl_Metadata t' = Some \<lparr> meta_Generation = meta_Generation m + 1, meta_Name = name,
        meta_Revision = semanticDigest (name_json name) \<rparr>"
      "tpl_RetainedMetadata t' = Some (rs @ [\<lparr> meta_Generation = meta_Generation m + 1, meta_Name = name,
        meta_Revision = semanticDigest (name_json name) \<rparr>])"
  proof (cases "tpl_Metadata t")
    case None
    let ?m = "\<lparr> meta_Generation = 1, meta_Name = tpl_Name t, meta_Revision = semanticDigest (name_json (tpl_Name t)) \<rparr>"
    show thesis
      by (rule that[of "[?m]" ?m])
        (use adv None name in \<open>auto simp: metadata_valid AdvanceWorkspaceTemplateMetadata_def NewWorkspaceTemplateMetadataRevision_def
           and_then_def guarded_def first_error.simps reject_def split: if_splits option.splits\<close>)
  next
    case (Some m)
    with ok obtain rs where "tpl_RetainedMetadata t = Some rs" "rs \<noteq> []" "m = last rs" "meta_Name m = tpl_Name t"
      "\<forall>r \<in> set rs. WorkspaceTemplateMetadataRevision_Validate r = None"
      "successively (\<lambda>a b. meta_Generation a < meta_Generation b \<and> meta_Revision b \<noteq> meta_Revision a) rs"
      by (auto simp: metadata_ok_def split: option.splits)
    with adv Some that[of rs m] show thesis
      by (auto simp: AdvanceWorkspaceTemplateMetadata_def NewWorkspaceTemplateMetadataRevision_def
           guarded_def first_error.simps reject_def split: if_splits option.splits)
  qed
  have last: "meta_Revision m = semanticDigest (name_json (tpl_Name t))" using rs by (metis last_in_set metadata_valid)
  show ?thesis
    using rs t' last fresh next_generation[OF t'(1)] frame(5,6)
    by (auto simp: metadata_ok_def metadata_valid successively_append_iff)
qed


text \<open>The generations of a Template count its retained revisions.\<close>

definition counted :: "WorkspaceTemplate \<Rightarrow> bool" where
  "counted t = (\<forall>k < length (tpl_Retained t). unat (rev_Generation (tpl_Retained t ! k)) = k + 1)"

lemma step_preserves:
  assumes step: "template_step pem t t'" and v: "WorkspaceTemplate_Validate pem t = None" and n: "counted t"
  shows "WorkspaceTemplate_Validate pem t' = None \<and> tpl_ID t' = tpl_ID t \<and> counted t'
    \<and> (\<exists>rs. tpl_Retained t' = tpl_Retained t @ rs)"
proof -
  from step consider (publish) body r where
      "t' = t\<lparr> tpl_Current := WorkspaceTemplateRevision_Clone r, tpl_Retained := tpl_Retained t @ [WorkspaceTemplateRevision_Clone r] \<rparr>"
      "AdvanceWorkspaceTemplateRevision pem (tpl_Current t) body = Inr (r, True)"
    | (rename) name where "AdvanceWorkspaceTemplateMetadata (Some t) name = (Some t', Inr True)"
      "no_collision (name_json (tpl_Name t)) (name_json name)"
    by (elim template_stepE) blast+
  then show ?thesis
  proof cases
    case 1: publish
    note v' = v[unfolded template_valid]
    have p: "WorkspaceTemplateRevision_Validate pem (tpl_Current t) = None" using v' by blast
    have r: "WorkspaceTemplateRevision_Validate pem r = None" "rev_TemplateID r = rev_TemplateID (tpl_Current t)"
      "rev_Revision r \<noteq> rev_Revision (tpl_Current t)" "unat (rev_Generation r) = unat (rev_Generation (tpl_Current t)) + 1"
      using advanced_revision[OF p 1(2)] by blast+
    have c: "WorkspaceTemplateRevision_Clone r = r" using revision_Clone_id[OF r(1)] .
    have ret: "tpl_Retained t \<noteq> []" using v' by (simp add: retained_ok_def)
    have "counted t'"
      using n r(4) v' ret by (auto simp: counted_def 1 c nth_append last_conv_nth less_Suc_eq)
    moreover have "WorkspaceTemplate_Validate pem t' = None"
      using v' r ret unfolding template_valid
      by (auto simp: 1 c retained_ok_def metadata_ok_frame successively_append_iff word_less_nat_alt)
    ultimately show ?thesis by (simp add: 1)
  next
    case 2: rename
    note frame = rename_frame[OF 2(1)]
    have "metadata_ok t'" using rename_metadata_ok[OF 2] v by (simp add: template_valid)
    with v frame n show ?thesis by (simp add: template_valid retained_ok_def counted_def)
  qed
qed


lemma copy_exact:
  assumes "WorkspaceTemplateRevision_Validate pem source = None" "WorkspaceTemplateID_Validate i = None"
    and "rev_TemplateID source \<noteq> i" "ValidateName name = None"
  defines "m \<equiv> \<lparr> meta_Generation = 1, meta_Name = name, meta_Revision = semanticDigest (name_json name) \<rparr>"
    and "r \<equiv> revision_of i 1 (rev_Body source)"
  defines "t \<equiv> \<lparr> tpl_SchemaVersion = 2, tpl_ID = i, tpl_Name = name, tpl_Metadata = Some m, tpl_RetainedMetadata = Some [m],
    tpl_Current = r, tpl_Retained = [r] \<rparr>"
  shows "CopyWorkspaceTemplateRevision pem i name source = Inr t \<and> WorkspaceTemplate_Validate pem t = None"
proof -
  have body: "WorkspaceTemplateBody_Validate pem (rev_Body source) = None" using assms(1) by (simp add: revision_valid)
  have r: "WorkspaceTemplateRevision_Validate pem r = None" "NewWorkspaceTemplateRevision pem i 1 (rev_Body source) = Inr r"
    using body assms(2) body_Clone_id[OF body] by (simp_all add: revision_valid new_revision r_def revision_of_def)
  have m: "NewWorkspaceTemplateMetadataRevision 1 name = Inr m" "WorkspaceTemplateMetadataRevision_Validate m = None"
    using assms(4) by (simp_all add: NewWorkspaceTemplateMetadataRevision_def metadata_valid m_def check_simps)
  have t: "WorkspaceTemplate_Validate pem t = None"
    using r m assms(2,4) by (simp add: template_valid t_def retained_ok_def metadata_ok_def) (simp add: r_def m_def revision_of_def)
  show ?thesis
    using assms(1,3,4) r m t revision_Clone_id[OF r(1)]
    by (simp add: CopyWorkspaceTemplateRevision_def InitializeWorkspaceTemplateMetadata_def guarded_def and_then_def checked_def
        first_error.simps reject_def) (simp add: t_def)
qed

text \<open>C6: A copy of a valid revision under a fresh identity starts a Template of its own at generation
  one with the same body, and whatever revisions are then published and names given, the Template
  stays valid: it keeps its identity and every revision it published, its current revision is the
  last one, and the generations count the retained revisions from one, without a gap or a wrap.\<close>
theorem template_history_invariant:
  assumes "WorkspaceTemplateRevision_Validate pem source = None" "WorkspaceTemplateID_Validate i = None"
    and "rev_TemplateID source \<noteq> i" "ValidateName name = None"
  shows "\<exists>t0. CopyWorkspaceTemplateRevision pem i name source = Inr t0 \<and> rev_Body (tpl_Current t0) = rev_Body source
    \<and> rev_Revision (tpl_Current t0) = rev_Revision source
    \<and> (\<forall>t. (template_step pem)\<^sup>*\<^sup>* t0 t \<longrightarrow>
         WorkspaceTemplate_Validate pem t = None \<and> tpl_ID t = i \<and> hd (tpl_Retained t) = tpl_Current t0
         \<and> (\<forall>k < length (tpl_Retained t). unat (rev_Generation (tpl_Retained t ! k)) = k + 1)
         \<and> unat (rev_Generation (tpl_Current t)) = length (tpl_Retained t))"
proof -
  obtain t0 where t0: "CopyWorkspaceTemplateRevision pem i name source = Inr t0" "WorkspaceTemplate_Validate pem t0 = None"
    "tpl_ID t0 = i" "tpl_Retained t0 = [revision_of i 1 (rev_Body source)]" "tpl_Current t0 = revision_of i 1 (rev_Body source)"
    using copy_exact[OF assms] by fastforce
  have "WorkspaceTemplate_Validate pem t = None \<and> tpl_ID t = i \<and> counted t \<and> (\<exists>rs. tpl_Retained t = tpl_Retained t0 @ rs)"
    if "(template_step pem)\<^sup>*\<^sup>* t0 t" for t
    using that
  proof (induction rule: rtranclp_induct)
    case base
    then show ?case using t0 by (simp add: counted_def revision_of_def)
  next
    case (step t t')
    then show ?case using step_preserves[OF step.hyps(2)] t0(3) by auto
  qed
  moreover have "unat (rev_Generation (tpl_Current t)) = length (tpl_Retained t)"
    if "WorkspaceTemplate_Validate pem t = None" "counted t" for t
  proof -
    have ne: "tpl_Retained t \<noteq> []" and g: "rev_Generation (tpl_Current t) = rev_Generation (last (tpl_Retained t))"
      using that(1) by (simp_all add: template_valid retained_ok_def)
    then show ?thesis using that(2) by (cases "length (tpl_Retained t)") (auto simp: counted_def last_conv_nth)
  qed
  moreover have "rev_Revision source = semanticDigest (WorkspaceTemplateBody_json (rev_Body source))"
    using assms(1) by (simp add: revision_valid)
  moreover have "hd (tpl_Retained t) = tpl_Current t0" if "\<exists>rs. tpl_Retained t = tpl_Retained t0 @ rs" for t
    using that t0(4,5) by auto
  moreover have "rev_Body (tpl_Current t0) = rev_Body source" "rev_Revision (tpl_Current t0) = semanticDigest (WorkspaceTemplateBody_json (rev_Body source))"
    by (simp_all add: t0(5) revision_of_def)
  ultimately show ?thesis using t0(1) unfolding counted_def by (intro exI[of _ t0]) (simp, blast)
qed

definition example_copy_id :: string where
  "example_copy_id = ''01890000-0000-7000-8000-000000000002''"

theorem template_history_invariant_witness:
  "\<exists>t. CopyWorkspaceTemplateRevision (\<lambda>_. True) example_copy_id ''copy'' (revision_of example_template_id 1 example_body) = Inr t
     \<and> WorkspaceTemplate_Validate (\<lambda>_. True) t = None \<and> rev_Body (tpl_Current t) = example_body"
proof -
  have "WorkspaceTemplateID_Validate example_copy_id = None" "ValidateName ''copy'' = None" by code_simp+
  moreover have "rev_TemplateID (revision_of example_template_id 1 example_body) \<noteq> example_copy_id"
    by (simp add: revision_of_def example_template_id_def example_copy_id_def)
  ultimately obtain t where t: "CopyWorkspaceTemplateRevision (\<lambda>_. True) example_copy_id ''copy'' (revision_of example_template_id 1 example_body) = Inr t"
    "rev_Body (tpl_Current t) = rev_Body (revision_of example_template_id 1 example_body)"
    "(template_step (\<lambda>_. True))\<^sup>*\<^sup>* t t \<longrightarrow> WorkspaceTemplate_Validate (\<lambda>_. True) t = None"
    using template_history_invariant[OF example_revision_valid[of 1], of example_copy_id "''copy''"] by auto
  then show ?thesis by (auto simp: revision_of_def)
qed

section \<open>Collections of Templates\<close>

lemma lookup_check: "(case m k of Some p \<Rightarrow> reject (p \<noteq> d) e | None \<Rightarrow> None) = None \<longleftrightarrow> (\<forall>p. m k = Some p \<longrightarrow> p = d)"
  by (auto simp: check_simps split: option.splits)

text \<open>Registering the keys of a row in a map and checking the later rows against it.\<close>

lemma registered:
  "(\<forall>p. m (k t) = Some p \<longrightarrow> p = d t) \<and> (\<forall>u \<in> U. \<forall>p. (m(k t \<mapsto> d t)) (k u) = Some p \<longrightarrow> p = d u)
   \<longleftrightarrow> (\<forall>u \<in> insert t U. \<forall>p. m (k u) = Some p \<longrightarrow> p = d u) \<and> (\<forall>u \<in> U. k t = k u \<longrightarrow> d t = d u)"
  by (auto split: if_splits)

lemma pairwise_insert:
  "(\<And>a b. P a b \<Longrightarrow> P b a) \<Longrightarrow> (\<And>a. P a a) \<Longrightarrow>
     (\<forall>a \<in> insert t U. \<forall>b \<in> insert t U. P a b) \<longleftrightarrow> (\<forall>a \<in> U. \<forall>b \<in> U. P a b) \<and> (\<forall>u \<in> U. P t u)"
  by blast

definition consistent :: "WorkspaceTemplate list \<Rightarrow> bool" where
  "consistent ts =
     (\<forall>t \<in> set ts. \<forall>u \<in> set ts.
        (tpl_ID t = tpl_ID u \<longrightarrow> semanticDigest (WorkspaceTemplate_json t) = semanticDigest (WorkspaceTemplate_json u))
        \<and> (tpl_Name t = tpl_Name u \<longrightarrow> tpl_ID t = tpl_ID u))"

lemma consistent_Cons:
  "consistent (t # ts) \<longleftrightarrow> consistent ts
     \<and> (\<forall>u \<in> set ts. tpl_ID t = tpl_ID u \<longrightarrow> semanticDigest (WorkspaceTemplate_json t) = semanticDigest (WorkspaceTemplate_json u))
     \<and> (\<forall>u \<in> set ts. tpl_Name t = tpl_Name u \<longrightarrow> tpl_ID t = tpl_ID u)"
proof -
  let ?P = "\<lambda>t u. (tpl_ID t = tpl_ID u \<longrightarrow> semanticDigest (WorkspaceTemplate_json t) = semanticDigest (WorkspaceTemplate_json u))
    \<and> (tpl_Name t = tpl_Name u \<longrightarrow> tpl_ID t = tpl_ID u)"
  have "consistent (t # ts) \<longleftrightarrow> consistent ts \<and> (\<forall>u \<in> set ts. ?P t u)"
    unfolding consistent_def list.set(2) by (rule pairwise_insert[of ?P]) auto
  then show ?thesis by (simp only: ball_conj_distrib)
qed

lemma authority_rows_valid:
  "authority_rows pem byID byName ts = None \<longleftrightarrow>
     (\<forall>t \<in> set ts. WorkspaceTemplate_Validate pem t = None)
     \<and> (\<forall>t \<in> set ts. \<forall>d. byID (tpl_ID t) = Some d \<longrightarrow> d = semanticDigest (WorkspaceTemplate_json t))
     \<and> (\<forall>t \<in> set ts. \<forall>i. byName (tpl_Name t) = Some i \<longrightarrow> i = tpl_ID t)
     \<and> consistent ts"
proof (induction ts arbitrary: byID byName)
  case (Cons t ts)
  note ids = registered[of byID tpl_ID t "\<lambda>t. semanticDigest (WorkspaceTemplate_json t)" "set ts"]
  note names = registered[of byName tpl_Name t tpl_ID "set ts"]
  show ?case
    unfolding authority_rows.simps Let_def first_error_None first_error.simps(1) Cons.IH lookup_check consistent_Cons list.set(2)
    using ids names by (simp only: ball_simps simp_thms) satx
qed (simp add: consistent_def)

lemma template_Clone_id: "WorkspaceTemplate_Validate pem t = None \<Longrightarrow> WorkspaceTemplate_Clone t = t"
proof -
  assume "WorkspaceTemplate_Validate pem t = None"
  then have v: "WorkspaceTemplateRevision_Validate pem (tpl_Current t) = None" "\<forall>r \<in> set (tpl_Retained t). WorkspaceTemplateRevision_Validate pem r = None"
    by (simp_all add: template_valid retained_ok_def)
  then have "map WorkspaceTemplateRevision_Clone (tpl_Retained t) = tpl_Retained t"
    using revision_Clone_id by (intro map_idI) blast
  with revision_Clone_id[OF v(1)] show ?thesis by (simp add: WorkspaceTemplate_Clone_def)
qed

end
