(* ===== verification/Template_Changes.thy ===== *)
theory Template_Changes
  imports Template_Revisions
begin

text \<open>
  Reviewed changes of a Workspace Template, from \<open>workspace_template_change.go\<close>,
  \<open>workspace_template_bootstrap_change.go\<close>, the Runtime revision references of
  \<open>runtime_library.go\<close>, the publication record of \<open>workspace_authority.go\<close> and the update of the
  Template collection in \<open>internal/infra/workspaceauthoritystore/mutator.go\<close>. A change touches one
  dimension of the body, applying it again changes nothing, and the published record of an update
  always passes its own validation.
\<close>

section \<open>Runtime revision references\<close>

definition RuntimeRef :: "string \<Rightarrow> string" where "RuntimeRef runtimeID = runtimeID"

definition ValidateRuntimeRef :: "string \<Rightarrow> check" where
  "ValidateRuntimeRef reference = (if reference = StandardRuntimeID then None else ValidateRuntimeID reference)"

definition RuntimeRevisionRef :: "string \<Rightarrow> string \<Rightarrow> string" where
  "RuntimeRevisionRef runtimeID revision = runtimeID @ ''/'' @ revision"

definition ParseRuntimeRevisionRef :: "string \<Rightarrow> (string \<times> string) result" where
  "ParseRuntimeRevisionRef reference =
     (let separator = strings_LastIndexByte reference CHR ''/''
      in if separator \<le> 0 \<or> separator = int (length reference) - 1 then Inl ''Runtime revision reference is invalid''
         else
           let runtimeID = take (nat separator) reference; revision = drop (nat separator + 1) reference
           in if ValidateRuntimeRef runtimeID \<noteq> None \<or> ValidateDigest revision \<noteq> None
                 \<or> reference \<noteq> RuntimeRevisionRef runtimeID revision
              then Inl ''Runtime revision reference is invalid''
              else Inr (runtimeID, revision))"

section \<open>Changes\<close>

record WorkspaceTemplateChange =
  chg_Kind :: string
  chg_Shell :: "ManifestShellEnvironmentSetting list"
  chg_Git :: "ManifestGitIdentitySetting option"
  chg_AWS :: "ManifestAWSBootstrap option"
  chg_EKS :: "ManifestEKSBootstrap option"
  chg_RuntimeRevisionRef :: string

definition result_check :: "'a result \<Rightarrow> check" where
  "result_check r = (case r of Inl e \<Rightarrow> Some e | Inr _ \<Rightarrow> None)"

definition WorkspaceTemplateChange_Validate :: "(nat list \<Rightarrow> bool) \<Rightarrow> WorkspaceTemplateChange \<Rightarrow> check" where
  "WorkspaceTemplateChange_Validate pem c =
     (if chg_Kind c = ''shell'' then
        first_error
          [reject (chg_Shell c = [] \<or> chg_Git c \<noteq> None \<or> chg_AWS c \<noteq> None \<or> chg_EKS c \<noteq> None \<or> chg_RuntimeRevisionRef c \<noteq> [])
             ''Template shell change dimensions are invalid'',
           result_check (ApplyContextShellEnvironmentSettings [] (chg_Shell c))]
      else if chg_Kind c = ''git'' then
        first_error
          [reject (chg_Git c = None \<or> chg_Shell c \<noteq> [] \<or> chg_AWS c \<noteq> None \<or> chg_EKS c \<noteq> None \<or> chg_RuntimeRevisionRef c \<noteq> [])
             ''Template Git change dimensions are invalid'',
           (case chg_Git c of None \<Rightarrow> None | Some g \<Rightarrow> ManifestGitIdentitySetting_Validate g True)]
      else if chg_Kind c = ''bootstrap_aws'' then
        first_error
          [reject (chg_Shell c \<noteq> [] \<or> chg_Git c \<noteq> None \<or> chg_EKS c \<noteq> None \<or> chg_RuntimeRevisionRef c \<noteq> [])
             ''Template AWS bootstrap change dimensions are invalid'',
           (case chg_AWS c of None \<Rightarrow> None | Some a \<Rightarrow> ManifestAWSBootstrap_Validate a)]
      else if chg_Kind c = ''bootstrap_eks'' then
        first_error
          [reject (chg_Shell c \<noteq> [] \<or> chg_Git c \<noteq> None \<or> chg_AWS c \<noteq> None \<or> chg_RuntimeRevisionRef c \<noteq> [])
             ''Template EKS bootstrap change dimensions are invalid'',
           (case chg_EKS c of None \<Rightarrow> None | Some e \<Rightarrow> ManifestEKSBootstrap_Validate pem e)]
      else if chg_Kind c = ''runtime'' then
        first_error
          [reject (chg_Shell c \<noteq> [] \<or> chg_Git c \<noteq> None \<or> chg_AWS c \<noteq> None \<or> chg_EKS c \<noteq> None)
             ''Template Runtime change dimensions are invalid'',
           result_check (ParseRuntimeRevisionRef (chg_RuntimeRevisionRef c))]
      else Some ''Template change kind is invalid'')"

text \<open>Copied strings are equal to the originals.\<close>

definition cloneShellSettings :: "ManifestShellEnvironmentSetting list \<Rightarrow> ManifestShellEnvironmentSetting list" where
  "cloneShellSettings values = map (\<lambda>s. \<lparr> ses_Variable = ses_Variable s, ses_Source = ses_Source s, ses_Value = ses_Value s \<rparr>) values"

definition cloneGitIdentity :: "ManifestGitIdentitySetting \<Rightarrow> ManifestGitIdentitySetting" where
  "cloneGitIdentity g = \<lparr> gis_Source = gis_Source g, gis_Name = gis_Name g, gis_Email = gis_Email g \<rparr>"

definition WorkspaceTemplateChange_Clone :: "WorkspaceTemplateChange \<Rightarrow> WorkspaceTemplateChange" where
  "WorkspaceTemplateChange_Clone c =
     c\<lparr> chg_Shell := cloneShellSettings (chg_Shell c), chg_Git := map_option cloneGitIdentity (chg_Git c),
        chg_AWS := map_option ManifestAWSBootstrap_Clone (chg_AWS c) \<rparr>"

definition new_snapshot ::
  "(nat list \<Rightarrow> bool) \<Rightarrow> 64 word \<Rightarrow> ManifestAWSBootstrap \<Rightarrow> ManifestEKSBootstrap option \<Rightarrow> ManifestBootstrapSnapshot result" where
  "new_snapshot pem generation a eks =
     (case eks of
        None \<Rightarrow> NewContextBootstrapSnapshot pem generation (ManifestAWSBootstrap_Clone a)
      | Some e \<Rightarrow> NewContextBootstrapSnapshotWithEKS pem generation (ManifestAWSBootstrap_Clone a) e)"

text \<open>A snapshot with the revision of the current one leaves the current one and its generation.\<close>

definition keep_current :: "ManifestBootstrapSnapshot option \<Rightarrow> ManifestBootstrapSnapshot \<Rightarrow> ManifestBootstrapSnapshot" where
  "keep_current current s =
     (case current of
        Some x \<Rightarrow> if bss_Revision x = bss_Revision s then ManifestBootstrapSnapshot_Clone x else s
      | None \<Rightarrow> s)"

definition change_aws ::
  "(nat list \<Rightarrow> bool) \<Rightarrow> ManifestBootstrapSnapshot option \<Rightarrow> ManifestAWSBootstrap option \<Rightarrow> ManifestBootstrapSnapshot option result" where
  "change_aws pem current change =
     (case change of
        None \<Rightarrow>
          if current \<noteq> None \<and> bss_EKS (the current) \<noteq> None then Inl ''AWS bootstrap cannot be removed while EKS bootstrap exists''
          else Inr None
      | Some a \<Rightarrow>
          let generation = (case current of None \<Rightarrow> 1 | Some x \<Rightarrow> bss_Generation x + 1);
              eks = (case current of None \<Rightarrow> None | Some x \<Rightarrow> bss_EKS x)
          in and_then (new_snapshot pem generation a eks) (\<lambda>s. Inr (Some (keep_current current s))))"

definition change_eks ::
  "(nat list \<Rightarrow> bool) \<Rightarrow> ManifestBootstrapSnapshot option \<Rightarrow> ManifestEKSBootstrap option \<Rightarrow> ManifestBootstrapSnapshot option result" where
  "change_eks pem current change =
     (case current of
        None \<Rightarrow> if change = None then Inr None else Inl ''EKS bootstrap requires AWS bootstrap''
      | Some x \<Rightarrow> and_then (new_snapshot pem (bss_Generation x + 1) (bss_AWS x) change) (\<lambda>s. Inr (Some (keep_current current s))))"

definition change_runtime :: "RuntimeBinding option \<Rightarrow> string \<Rightarrow> RuntimeBinding result" where
  "change_runtime resolved reference =
     (case resolved of
        None \<Rightarrow> Inl ''Template Runtime change requires exact resolved revision authority''
      | Some b \<Rightarrow>
          guarded (RuntimeBinding_Validate b)
            (case ParseRuntimeRevisionRef reference of
               Inl _ \<Rightarrow> Inl ''resolved Runtime does not match the unchanged revision reference''
             | Inr (runtimeID, revision) \<Rightarrow>
                 if rtb_RuntimeID b \<noteq> runtimeID \<or> rtb_Revision b \<noteq> revision
                 then Inl ''resolved Runtime does not match the unchanged revision reference'' else Inr b))"

definition set_creation :: "WorkspaceTemplateBody \<Rightarrow> ManifestBootstrapSnapshot option \<Rightarrow> WorkspaceTemplateBody" where
  "set_creation b s = b\<lparr> tb_CreationDefaults := (tb_CreationDefaults b)\<lparr> cd_Bootstrap := s \<rparr> \<rparr>"

definition changed_body ::
  "(nat list \<Rightarrow> bool) \<Rightarrow> WorkspaceTemplateBody \<Rightarrow> WorkspaceTemplateChange \<Rightarrow> RuntimeBinding option \<Rightarrow> WorkspaceTemplateBody result" where
  "changed_body pem next c resolved =
     (let session = tb_SessionDefaults next; bootstrap = cd_Bootstrap (tb_CreationDefaults next)
      in if chg_Kind c = ''shell'' then
           and_then (ApplyContextShellEnvironmentSettings (elems (sd_ShellEnvironment session)) (chg_Shell c))
             (\<lambda>settings. Inr (next\<lparr> tb_SessionDefaults := session\<lparr> sd_ShellEnvironment := Some settings \<rparr> \<rparr>))
         else if chg_Kind c = ''git'' then
           Inr (next\<lparr> tb_SessionDefaults := session\<lparr> sd_GitIdentity :=
                  (case chg_Git c of None \<Rightarrow> None
                   | Some g \<Rightarrow> if gis_Source g = ''default'' then None else Some (cloneGitIdentity g)) \<rparr> \<rparr>)
         else if chg_Kind c = ''bootstrap_aws'' then
           and_then (change_aws pem bootstrap (chg_AWS c)) (\<lambda>s. Inr (set_creation next s))
         else if chg_Kind c = ''bootstrap_eks'' then
           and_then (change_eks pem bootstrap (chg_EKS c)) (\<lambda>s. Inr (set_creation next s))
         else if chg_Kind c = ''runtime'' then
           and_then (change_runtime resolved (chg_RuntimeRevisionRef c))
             (\<lambda>b. Inr (next\<lparr> tb_EntryDefaults := (tb_EntryDefaults next)\<lparr> ent_Runtime := b \<rparr> \<rparr>))
         else Inr next)"

definition ApplyWorkspaceTemplateChange ::
  "(nat list \<Rightarrow> bool) \<Rightarrow> WorkspaceTemplateBody \<Rightarrow> WorkspaceTemplateChange \<Rightarrow> RuntimeBinding option \<Rightarrow> WorkspaceTemplateBody result" where
  "ApplyWorkspaceTemplateChange pem current c resolved =
     guarded (first_error [WorkspaceTemplateBody_Validate pem current, WorkspaceTemplateChange_Validate pem c])
       (and_then (changed_body pem (WorkspaceTemplateBody_Clone current) c resolved)
          (\<lambda>next. checked (WorkspaceTemplateBody_Validate pem next) next))"

section \<open>Bootstrap requests\<close>

record WorkspaceTemplateBootstrapRequest =
  wbr_Kind :: string
  wbr_Action :: string
  wbr_Selector :: string

definition ValidateContextEKSBootstrapName :: "string \<Rightarrow> check" where
  "ValidateContextEKSBootstrapName v =
     reject (\<not> eksBootstrapNamePattern v \<or> strings_Contains v ''..'') ''EKS bootstrap context name is invalid''"

definition WorkspaceTemplateBootstrapRequest_Validate :: "WorkspaceTemplateBootstrapRequest \<Rightarrow> check" where
  "WorkspaceTemplateBootstrapRequest_Validate r =
     first_error
       [reject (wbr_Kind r \<noteq> ''bootstrap_aws'' \<and> wbr_Kind r \<noteq> ''bootstrap_eks'') ''Template bootstrap request kind is invalid'',
        (if wbr_Action r = ''configure'' then
           (if wbr_Kind r = ''bootstrap_aws'' then ValidateContextAWSBootstrapProfileName (wbr_Selector r)
            else ValidateContextEKSBootstrapName (wbr_Selector r))
         else if wbr_Action r = ''refresh'' \<or> wbr_Action r = ''remove'' then
           reject (wbr_Selector r \<noteq> []) ''Template bootstrap refresh/remove cannot carry a selector''
         else Some ''Template bootstrap action is invalid'')]"

section \<open>Publication\<close>

record WorkspaceTemplateRevisionPublication =
  pub_Template :: WorkspaceTemplate
  pub_Previous :: WorkspaceTemplateRevision
  pub_Current :: WorkspaceTemplateRevision
  pub_ResolvedRuntime :: "RuntimeBinding option"
  pub_Changed :: bool

definition same_revision :: "WorkspaceTemplateRevision \<Rightarrow> WorkspaceTemplateRevision \<Rightarrow> bool" where
  "same_revision a b = (rev_Generation a = rev_Generation b \<and> rev_Revision a = rev_Revision b)"

definition WorkspaceTemplateRevisionPublication_ValidateFor ::
  "(nat list \<Rightarrow> bool) \<Rightarrow> WorkspaceTemplateRevisionPublication \<Rightarrow> string \<Rightarrow> WorkspaceTemplateChange \<Rightarrow> check" where
  "WorkspaceTemplateRevisionPublication_ValidateFor pem p templateRef c =
     (case ParseWorkspaceTemplateRef templateRef of
        Inl e \<Rightarrow> Some e
      | Inr i \<Rightarrow>
          first_error
            [WorkspaceTemplateChange_Validate pem c,
             (if chg_Kind c = ''runtime'' then
                reject (pub_ResolvedRuntime p = None) ''Template Runtime publication lacks exact resolved revision authority''
              else reject (pub_ResolvedRuntime p \<noteq> None) ''non-Runtime Template publication contains Runtime revision authority''),
             WorkspaceTemplate_Validate pem (pub_Template p),
             WorkspaceTemplateRevision_Validate pem (pub_Previous p),
             WorkspaceTemplateRevision_Validate pem (pub_Current p),
             reject (tpl_ID (pub_Template p) \<noteq> i \<or> rev_TemplateID (pub_Previous p) \<noteq> i \<or> rev_TemplateID (pub_Current p) \<noteq> i
                     \<or> rev_Generation (tpl_Current (pub_Template p)) \<noteq> rev_Generation (pub_Current p)
                     \<or> rev_Revision (tpl_Current (pub_Template p)) \<noteq> rev_Revision (pub_Current p))
               ''Template revision publication crosses its exact target'',
             (case and_then (ApplyWorkspaceTemplateChange pem (rev_Body (pub_Previous p)) c (pub_ResolvedRuntime p))
                     (AdvanceWorkspaceTemplateRevision pem (pub_Previous p)) of
                Inl e \<Rightarrow> Some e
              | Inr (expected, expectedChanged) \<Rightarrow>
                  reject (semanticDigest (WorkspaceTemplateRevision_json (pub_Current p))
                            \<noteq> semanticDigest (WorkspaceTemplateRevision_json expected) \<or> pub_Changed p \<noteq> expectedChanged)
                    ''Template revision publication does not bind the exact reviewed delta transition''),
             check_each (\<lambda>retained. reject (same_revision retained (pub_Previous p)
                 \<and> semanticDigest (WorkspaceTemplateRevision_json retained) \<noteq> semanticDigest (WorkspaceTemplateRevision_json (pub_Previous p)))
                 ''Template predecessor revision authority differs from retained history'') (tpl_Retained (pub_Template p)),
             reject (\<not> list_ex (\<lambda>r. same_revision r (pub_Previous p)) (tpl_Retained (pub_Template p))
                     \<or> \<not> list_ex (\<lambda>r. same_revision r (pub_Current p)) (tpl_Retained (pub_Template p)))
               ''Template revision publication is not retained completely'',
             (if pub_Changed p then
                reject (rev_Generation (pub_Current p) \<noteq> rev_Generation (pub_Previous p) + 1
                        \<or> rev_Revision (pub_Current p) = rev_Revision (pub_Previous p))
                  ''changed Template publication has an invalid revision transition''
              else
                reject (rev_Generation (pub_Current p) \<noteq> rev_Generation (pub_Previous p)
                        \<or> rev_Revision (pub_Current p) \<noteq> rev_Revision (pub_Previous p))
                  ''no-op Template publication changed revision authority'')])"

section \<open>The update of the store\<close>

text \<open>
  The mutation that \<open>updateWorkspaceTemplateByReference\<close> runs under the lock, up to the publication
  of the collection: \<open>resolve\<close> yields the change and the resolved Runtime. A result without a new
  list of Templates is not published.
\<close>

definition update_one ::
  "(nat list \<Rightarrow> bool) \<Rightarrow> (WorkspaceTemplateBody \<Rightarrow> (WorkspaceTemplateChange \<times> RuntimeBinding option) result) \<Rightarrow> WorkspaceTemplate
   \<Rightarrow> (WorkspaceTemplate \<times> WorkspaceTemplateRevisionPublication \<times> WorkspaceTemplateChange) result" where
  "update_one pem resolve t =
     (let previous = WorkspaceTemplateRevision_Clone (tpl_Current t)
      in and_then (resolve (WorkspaceTemplateBody_Clone (rev_Body previous)))
           (\<lambda>(c, resolved).
              guarded (WorkspaceTemplateChange_Validate pem c)
                (and_then (ApplyWorkspaceTemplateChange pem (rev_Body previous) c resolved)
                   (\<lambda>nextBody. and_then (AdvanceWorkspaceTemplateRevision pem previous nextBody)
                      (\<lambda>(nextRevision, changed).
                         let t = (if changed then t\<lparr> tpl_Current := WorkspaceTemplateRevision_Clone nextRevision,
                                                    tpl_Retained := tpl_Retained t @ [WorkspaceTemplateRevision_Clone nextRevision] \<rparr> else t)
                         in Inr (t, \<lparr> pub_Template = WorkspaceTemplate_Clone t, pub_Previous = previous,
                                      pub_Current = WorkspaceTemplateRevision_Clone nextRevision, pub_ResolvedRuntime = resolved,
                                      pub_Changed = changed \<rparr>, WorkspaceTemplateChange_Clone c))))))"

fun update_templates ::
  "(nat list \<Rightarrow> bool) \<Rightarrow> (WorkspaceTemplateBody \<Rightarrow> (WorkspaceTemplateChange \<times> RuntimeBinding option) result) \<Rightarrow> WorkspaceTemplateID
   \<Rightarrow> WorkspaceTemplate list \<Rightarrow> (WorkspaceTemplate list \<times> WorkspaceTemplateRevisionPublication \<times> WorkspaceTemplateChange) result" where
  "update_templates pem resolve i [] = Inl ''Workspace Template does not exist''"
| "update_templates pem resolve i (t # rest) =
     (if tpl_ID t \<noteq> i then and_then (update_templates pem resolve i rest) (\<lambda>(ts, p, c). Inr (t # ts, p, c))
      else and_then (update_one pem resolve t) (\<lambda>(t', p, c). Inr (t' # rest, p, c)))"

definition updateWorkspaceTemplateByReference ::
  "(nat list \<Rightarrow> bool) \<Rightarrow> (WorkspaceTemplateBody \<Rightarrow> (WorkspaceTemplateChange \<times> RuntimeBinding option) result)
   \<Rightarrow> WorkspaceTemplate list \<Rightarrow> string
   \<Rightarrow> (WorkspaceTemplate list option \<times> WorkspaceTemplateRevisionPublication \<times> WorkspaceTemplateChange) result" where
  "updateWorkspaceTemplateByReference pem resolve templates templateRef =
     and_then (ParseWorkspaceTemplateRef templateRef)
       (\<lambda>i. and_then (update_templates pem resolve i (map WorkspaceTemplate_Clone templates))
          (\<lambda>(ts, p, c). guarded (WorkspaceTemplateRevisionPublication_ValidateFor pem p templateRef c)
             (Inr (if pub_Changed p then Some ts else None, p, c))))"


section \<open>A change touches one dimension\<close>

lemma apply_iff:
  "ApplyWorkspaceTemplateChange pem b c rt = Inr n \<longleftrightarrow>
     WorkspaceTemplateBody_Validate pem b = None \<and> WorkspaceTemplateChange_Validate pem c = None
     \<and> changed_body pem b c rt = Inr n \<and> WorkspaceTemplateBody_Validate pem n = None"
  using body_Clone_id[of pem b] by (auto simp: ApplyWorkspaceTemplateChange_def check_simps)

lemma changed_body_frame:
  assumes "changed_body pem b c rt = Inr n"
  shows "tb_Boundary n = tb_Boundary b" "tb_Policy n = tb_Policy b"
    "chg_Kind c \<noteq> ''runtime'' \<Longrightarrow> tb_EntryDefaults n = tb_EntryDefaults b"
    "chg_Kind c \<noteq> ''shell'' \<Longrightarrow> chg_Kind c \<noteq> ''git'' \<Longrightarrow> tb_SessionDefaults n = tb_SessionDefaults b"
    "chg_Kind c \<noteq> ''shell'' \<Longrightarrow> sd_ShellEnvironment (tb_SessionDefaults n) = sd_ShellEnvironment (tb_SessionDefaults b)"
    "chg_Kind c \<noteq> ''git'' \<Longrightarrow> sd_GitIdentity (tb_SessionDefaults n) = sd_GitIdentity (tb_SessionDefaults b)"
    "chg_Kind c \<noteq> ''bootstrap_aws'' \<Longrightarrow> chg_Kind c \<noteq> ''bootstrap_eks'' \<Longrightarrow> tb_CreationDefaults n = tb_CreationDefaults b"
  using assms unfolding changed_body_def Let_def
  by (auto simp: and_then_Inr set_creation_def split: if_splits)

lemma scopes_sorted: "scope_rows seen xs = None \<Longrightarrow> sorted xs \<and> (\<forall>x \<in> set xs. seen \<noteq> [] \<longrightarrow> hd seen \<le> x)"
proof (induction xs arbitrary: seen)
  case (Cons x xs)
  then have p: "seen \<noteq> [] \<longrightarrow> \<not> x \<le> hd seen" "scope_rows (x # seen) xs = None" by (auto simp: check_simps)
  with Cons.IH[OF p(2)] show ?case by (auto simp: not_le)
qed simp

lemma aws_sorted:
  assumes "ManifestAWSBootstrap_Validate a = None"
  shows "a\<lparr> aws_SSORegistrationScopes := Some (sort (elems (aws_SSORegistrationScopes a))) \<rparr> = a"
proof -
  obtain xs where "aws_SSORegistrationScopes a = Some xs" "scope_rows [] xs = None" using aws_valid(2)[OF assms] by auto
  with scopes_sorted[of "[]" xs] show ?thesis by (simp add: sorted_sort_id)
qed

definition snapshot_of :: "64 word \<Rightarrow> ManifestAWSBootstrap \<Rightarrow> ManifestEKSBootstrap option \<Rightarrow> ManifestBootstrapSnapshot" where
  "snapshot_of g a e =
     (let s = \<lparr> bss_SchemaVersion = 1, bss_Generation = g, bss_Revision = [], bss_AWS = a, bss_EKS = e \<rparr>
      in s\<lparr> bss_Revision := semanticRevision s \<rparr>)"

lemma snapshot_of_parts [simp]:
  "bss_Generation (snapshot_of g a e) = g" "bss_AWS (snapshot_of g a e) = a" "bss_EKS (snapshot_of g a e) = e"
  by (simp_all add: snapshot_of_def Let_def)

lemma snapshot_of_revision: "bss_Revision (snapshot_of g a e) = bss_Revision (snapshot_of h a e)"
  by (auto simp: snapshot_of_def Let_def intro: semanticRevision_content)

lemma new_snapshot_iff:
  assumes "ManifestAWSBootstrap_Validate a = None"
  shows "new_snapshot pem g a e = Inr s \<longleftrightarrow>
    g \<noteq> 0 \<and> (\<forall>x. e = Some x \<longrightarrow> ManifestEKSBootstrap_Validate pem x = None) \<and> s = snapshot_of g a e"
  by (cases e)
    (auto simp: new_snapshot_def NewContextBootstrapSnapshot_def NewContextBootstrapSnapshotWithEKS_def newContextBootstrapSnapshot_def Let_def
      check_simps aws_Clone_id[OF assms] aws_sorted[OF assms] assms snapshot_of_def)

lemma new_snapshot_valid:
  "new_snapshot pem g a e = Inr s \<Longrightarrow> ManifestAWSBootstrap_Validate a = None \<Longrightarrow> ManifestBootstrapSnapshot_Validate pem s = None"
  by (auto simp: new_snapshot_iff ManifestBootstrapSnapshot_Validate_def check_simps snapshot_of_def Let_def
      intro: semanticRevision_content split: option.splits)

lemma keep_current_cases:
  assumes "\<forall>x. cur = Some x \<longrightarrow> ManifestBootstrapSnapshot_Validate pem x = None" "ManifestBootstrapSnapshot_Validate pem s = None"
  shows "(keep_current cur s = s \<or> cur = Some (keep_current cur s)) \<and> bss_Revision (keep_current cur s) = bss_Revision s
    \<and> ManifestBootstrapSnapshot_Clone (keep_current cur s) = keep_current cur s"
  using assms snapshot_Clone_id by (cases cur) (auto simp: keep_current_def)

text \<open>Repeating a bootstrap change finds the snapshot it made, unless the generation cannot grow.\<close>

lemma change_aws_again:
  assumes "change_aws pem cur c = Inr r" and "\<And>a. c = Some a \<Longrightarrow> ManifestAWSBootstrap_Validate a = None"
    and cur: "\<And>x. cur = Some x \<Longrightarrow> ManifestBootstrapSnapshot_Validate pem x = None" and "\<And>s. r = Some s \<Longrightarrow> bss_Generation s \<noteq> - 1"
  shows "change_aws pem r c = Inr r"
proof (cases c)
  case None
  then show ?thesis using assms(1) by (auto simp: change_aws_def split: if_splits)
next
  case (Some a)
  let ?g = "case cur of None \<Rightarrow> 1 | Some x \<Rightarrow> bss_Generation x + 1" and ?e = "case cur of None \<Rightarrow> None | Some x \<Rightarrow> bss_EKS x"
  let ?s = "snapshot_of ?g a ?e"
  have a: "ManifestAWSBootstrap_Validate a = None" using assms(2) Some by simp
  have s: "?g \<noteq> 0" "\<forall>x. ?e = Some x \<longrightarrow> ManifestEKSBootstrap_Validate pem x = None" "r = Some (keep_current cur ?s)"
    using assms(1) by (auto simp: Some change_aws_def Let_def and_then_Inr new_snapshot_iff[OF a])
  define t where "t = keep_current cur ?s"
  have "ManifestBootstrapSnapshot_Validate pem ?s = None"
    using s a by (intro new_snapshot_valid[of pem ?g a ?e]) (simp_all add: new_snapshot_iff)
  from keep_current_cases[OF _ this, of cur, folded t_def] have kept: "(t = ?s \<or> cur = Some t) \<and> bss_Revision t = bss_Revision ?s \<and> ManifestBootstrapSnapshot_Clone t = t"
    using cur by blast
  have eks: "bss_EKS t = ?e" using kept[THEN conjunct1] by (elim disjE) simp_all
  note t = s(3)[folded t_def] eks kept[THEN conjunct2, THEN conjunct1] kept[THEN conjunct2, THEN conjunct2]
  have "bss_Generation t + 1 \<noteq> 0" using assms(4)[OF t(1)] by (simp add: generation_wraps)
  then have "new_snapshot pem (bss_Generation t + 1) a (bss_EKS t) = Inr (snapshot_of (bss_Generation t + 1) a ?e)"
    using s(2) t(2) by (simp add: new_snapshot_iff[OF a])
  then show ?thesis
    using t snapshot_of_revision[of "bss_Generation t + 1" a ?e ?g] by (simp add: Some change_aws_def and_then_def keep_current_def)
qed

lemma change_eks_again:
  assumes "change_eks pem cur c = Inr r" and "\<And>a. c = Some a \<Longrightarrow> ManifestEKSBootstrap_Validate pem a = None"
    and cur: "\<And>x. cur = Some x \<Longrightarrow> ManifestBootstrapSnapshot_Validate pem x = None" and "\<And>s. r = Some s \<Longrightarrow> bss_Generation s \<noteq> - 1"
  shows "change_eks pem r c = Inr r"
proof (cases cur)
  case None
  then show ?thesis using assms(1) by (auto simp: change_eks_def split: if_splits)
next
  case (Some x)
  let ?s = "snapshot_of (bss_Generation x + 1) (bss_AWS x) c"
  have a: "ManifestAWSBootstrap_Validate (bss_AWS x) = None" using snapshot_valid(3)[OF cur[OF Some]] .
  have s: "bss_Generation x + 1 \<noteq> 0" "r = Some (keep_current cur ?s)"
    using assms(1) by (auto simp: Some change_eks_def and_then_Inr new_snapshot_iff[OF a])
  define t where "t = keep_current cur ?s"
  have "ManifestBootstrapSnapshot_Validate pem ?s = None"
    using s a assms(2) by (intro new_snapshot_valid[of pem "bss_Generation x + 1" "bss_AWS x" c]) (simp_all add: new_snapshot_iff)
  from keep_current_cases[OF _ this, of cur, folded t_def] have kept: "(t = ?s \<or> cur = Some t) \<and> bss_Revision t = bss_Revision ?s \<and> ManifestBootstrapSnapshot_Clone t = t"
    using cur by blast
  have aws: "bss_AWS t = bss_AWS x" using kept[THEN conjunct1] by (elim disjE) (simp_all add: Some)
  note t = s(2)[folded t_def] aws kept[THEN conjunct2, THEN conjunct1] kept[THEN conjunct2, THEN conjunct2]
  have "bss_Generation t + 1 \<noteq> 0" using assms(4)[OF t(1)] by (simp add: generation_wraps)
  then have "new_snapshot pem (bss_Generation t + 1) (bss_AWS t) c = Inr (snapshot_of (bss_Generation t + 1) (bss_AWS x) c)"
    using assms(2) t(2) by (simp add: new_snapshot_iff[OF a])
  then show ?thesis
    using t snapshot_of_revision[of "bss_Generation t + 1" "bss_AWS x" c "bss_Generation x + 1"]
    by (simp add: change_eks_def and_then_def keep_current_def)
qed

lemma shell_again:
  assumes "ApplyContextShellEnvironmentSettings old cs = Inr new"
  shows "ApplyContextShellEnvironmentSettings new cs = Inr new"
proof -
  let ?m = "foldl apply_change (by_name old) cs"
  have v: "validateContextShellEnvironment old False = None" "cs \<noteq> []" "\<forall>c \<in> set cs. ManifestShellEnvironmentSetting_Validate c True = None"
    "distinct (map ses_Variable cs)" and new: "new = List.map_filter ?m contextShellEnvironmentVariables"
    using assms by (simp_all add: ApplyContextShellEnvironmentSettings_def check_simps Let_def)
  have m: "setting_map ?m" using v by (simp add: apply_changes_setting_map by_name_setting_map)
  note facts = map_filter_setting_map[OF m variables_distinct setting_map_dom[OF m], folded new]
  show ?thesis
    using v facts(2) by (simp add: ApplyContextShellEnvironmentSettings_def check_simps Let_def facts(1) apply_changes_idem[OF v(4)])
      (simp add: new)
qed

text \<open>The generation of the bootstrap snapshot of a body.\<close>

definition bootstrap_generation :: "WorkspaceTemplateBody \<Rightarrow> 64 word" where
  "bootstrap_generation b = (case cd_Bootstrap (tb_CreationDefaults b) of None \<Rightarrow> 0 | Some s \<Rightarrow> bss_Generation s)"

lemma changed_body_again:
  assumes c: "changed_body pem b c rt = Inr n" and v: "WorkspaceTemplateBody_Validate pem b = None" "WorkspaceTemplateChange_Validate pem c = None"
    and g: "bootstrap_generation n \<noteq> - 1"
  shows "changed_body pem n c rt = Inr n"
proof -
  have cur: "ManifestBootstrapSnapshot_Validate pem x = None" if "cd_Bootstrap (tb_CreationDefaults b) = Some x" for x
    using v(1) that by (simp add: body_valid WorkspaceTemplateCreationDefaults_Validate_def)
  have top: "bss_Generation s \<noteq> - 1" if "cd_Bootstrap (tb_CreationDefaults n) = Some s" for s
    using g that by (simp add: bootstrap_generation_def)
  consider "chg_Kind c = ''shell''" | "chg_Kind c = ''git''" | "chg_Kind c = ''bootstrap_aws''" | "chg_Kind c = ''bootstrap_eks''"
    | "chg_Kind c = ''runtime''"
    using v(2) by (auto simp: WorkspaceTemplateChange_Validate_def split: if_splits)
  then show ?thesis
  proof cases
    case 1
    then show ?thesis using c shell_again by (auto simp: changed_body_def Let_def and_then_Inr)
  next
    case 2
    then show ?thesis using c by (auto simp: changed_body_def Let_def)
  next
    case 3
    then obtain s where s: "change_aws pem (cd_Bootstrap (tb_CreationDefaults b)) (chg_AWS c) = Inr s" "n = set_creation b s"
      using c by (auto simp: changed_body_def Let_def and_then_Inr)
    moreover have "ManifestAWSBootstrap_Validate a = None" if "chg_AWS c = Some a" for a
      using v(2) that 3 by (simp add: WorkspaceTemplateChange_Validate_def check_simps)
    ultimately have "change_aws pem s (chg_AWS c) = Inr s" using cur top by (intro change_aws_again) (auto simp: set_creation_def)
    then show ?thesis using s 3 by (simp add: changed_body_def Let_def and_then_def set_creation_def)
  next
    case 4
    then obtain s where s: "change_eks pem (cd_Bootstrap (tb_CreationDefaults b)) (chg_EKS c) = Inr s" "n = set_creation b s"
      using c by (auto simp: changed_body_def Let_def and_then_Inr)
    moreover have "ManifestEKSBootstrap_Validate pem e = None" if "chg_EKS c = Some e" for e
      using v(2) that 4 by (simp add: WorkspaceTemplateChange_Validate_def check_simps)
    ultimately have "change_eks pem s (chg_EKS c) = Inr s" using cur top by (intro change_eks_again) (auto simp: set_creation_def)
    then show ?thesis using s 4 by (simp add: changed_body_def Let_def and_then_def set_creation_def)
  next
    case 5
    then show ?thesis using c by (auto simp: changed_body_def Let_def and_then_Inr)
  qed
qed


text \<open>C27: An accepted Template change touches one dimension of the body and is idempotent: the boundary and
  the policy, and so their digests, are unchanged; only a Runtime change touches the entry defaults,
  only a shell or Git change its own session default, only a bootstrap change the creation defaults;
  the result is valid, and applying the change again gives the same body and no new generation, unless
  the bootstrap generation has reached its last value.\<close>
theorem template_change_is_framed_and_idempotent:
  assumes "ApplyWorkspaceTemplateChange pem b c rt = Inr n"
  shows "WorkspaceTemplateBody_Validate pem n = None \<and> tb_Boundary n = tb_Boundary b \<and> tb_Policy n = tb_Policy b
    \<and> sl_BoundaryFingerprint (body_slices n) = sl_BoundaryFingerprint (body_slices b)
    \<and> sl_PolicySliceDigest (body_slices n) = sl_PolicySliceDigest (body_slices b)
    \<and> (chg_Kind c \<noteq> ''runtime'' \<longrightarrow> tb_EntryDefaults n = tb_EntryDefaults b)
    \<and> (chg_Kind c \<noteq> ''shell'' \<longrightarrow> sd_ShellEnvironment (tb_SessionDefaults n) = sd_ShellEnvironment (tb_SessionDefaults b))
    \<and> (chg_Kind c \<noteq> ''git'' \<longrightarrow> sd_GitIdentity (tb_SessionDefaults n) = sd_GitIdentity (tb_SessionDefaults b))
    \<and> (chg_Kind c \<noteq> ''bootstrap_aws'' \<and> chg_Kind c \<noteq> ''bootstrap_eks'' \<longrightarrow> tb_CreationDefaults n = tb_CreationDefaults b)
    \<and> (bootstrap_generation n \<noteq> - 1 \<longrightarrow> ApplyWorkspaceTemplateChange pem n c rt = Inr n)"
proof -
  have v: "WorkspaceTemplateBody_Validate pem b = None" "WorkspaceTemplateChange_Validate pem c = None" "changed_body pem b c rt = Inr n"
    "WorkspaceTemplateBody_Validate pem n = None"
    using assms by (simp_all add: apply_iff)
  note frame = changed_body_frame[OF v(3)]
  have "ApplyWorkspaceTemplateChange pem n c rt = Inr n" if "bootstrap_generation n \<noteq> - 1"
    using v changed_body_again[OF v(3,1,2) that] by (simp add: apply_iff)
  then show ?thesis using v(4) frame by (simp add: body_slices_def Let_def)
qed

definition example_change :: WorkspaceTemplateChange where
  "example_change =
     \<lparr> chg_Kind = ''shell'', chg_Shell = [\<lparr> ses_Variable = ''TERM'', ses_Source = ''inherit'', ses_Value = None \<rparr>],
       chg_Git = None, chg_AWS = None, chg_EKS = None, chg_RuntimeRevisionRef = [] \<rparr>"

definition example_changed_body :: WorkspaceTemplateBody where
  "example_changed_body =
     example_body\<lparr> tb_SessionDefaults := \<lparr> sd_ShellEnvironment = Some (chg_Shell example_change), sd_GitIdentity = None \<rparr> \<rparr>"

lemma example_applied: "ApplyWorkspaceTemplateChange (\<lambda>_. True) example_body example_change None = Inr example_changed_body"
  by code_simp

theorem template_change_is_framed_and_idempotent_witness:
  "ApplyWorkspaceTemplateChange (\<lambda>_. True) example_changed_body example_change None = Inr example_changed_body
   \<and> tb_Policy example_changed_body = tb_Policy example_body"
  using template_change_is_framed_and_idempotent[OF example_applied]
  by (simp add: bootstrap_generation_def example_changed_body_def example_body_def)

section \<open>The published record of an update\<close>

lemma change_Clone_id: "WorkspaceTemplateChange_Validate pem c = None \<Longrightarrow> WorkspaceTemplateChange_Clone c = c"
proof -
  assume v: "WorkspaceTemplateChange_Validate pem c = None"
  have "cloneShellSettings xs = xs" for xs by (simp add: cloneShellSettings_def map_idI)
  moreover have "map_option cloneGitIdentity g = g" for g by (cases g) (simp_all add: cloneGitIdentity_def)
  moreover have "map_option ManifestAWSBootstrap_Clone (chg_AWS c) = chg_AWS c"
    using v by (cases "chg_AWS c") (auto simp: WorkspaceTemplateChange_Validate_def check_simps aws_Clone_id split: if_splits)
  ultimately show ?thesis by (simp add: WorkspaceTemplateChange_Clone_def)
qed

text \<open>Generations grow along a history, so a generation names one retained revision.\<close>

lemma retained_distinct:
  assumes "retained_ok pem t" "r \<in> set (tpl_Retained t)" "s \<in> set (tpl_Retained t)" "rev_Generation r = rev_Generation s"
  shows "r = s"
proof -
  have "successively (\<lambda>a b. rev_Generation a < rev_Generation b) (tpl_Retained t)"
    using assms(1) by (simp add: retained_ok_def successively_and)
  then have "sorted_wrt (<) (map rev_Generation (tpl_Retained t))"
    by (simp add: successively_map[symmetric] successively_conv_sorted_wrt)
  then have "distinct (map rev_Generation (tpl_Retained t))" using strict_sorted_iff by blast
  with assms(2-4) show ?thesis by (auto simp: distinct_map dest: inj_onD)
qed


text \<open>A validated Template whose current revision is the retained one itself, as the store keeps it.\<close>

definition template_ok :: "(nat list \<Rightarrow> bool) \<Rightarrow> WorkspaceTemplate \<Rightarrow> bool" where
  "template_ok pem t = (WorkspaceTemplate_Validate pem t = None \<and> tpl_Current t = last (tpl_Retained t))"

lemma template_ok_retained: "template_ok pem t \<Longrightarrow> retained_ok pem t"
proof -
  assume t: "template_ok pem t"
  then have "t\<lparr> tpl_Current := last (tpl_Retained t) \<rparr> = t" by (simp add: template_ok_def)
  with t show ?thesis by (simp add: template_ok_def template_valid)
qed

lemma template_ok_current: "template_ok pem t \<Longrightarrow> WorkspaceTemplateRevision_Validate pem (tpl_Current t) = None"
  unfolding template_ok_def template_valid by blast

lemma template_ok_publish:
  assumes t: "template_ok pem t" and adv: "AdvanceWorkspaceTemplateRevision pem (tpl_Current t) b = Inr (r, True)"
  shows "template_ok pem (t\<lparr> tpl_Current := r, tpl_Retained := tpl_Retained t @ [r] \<rparr>)"
proof -
  note v = template_ok_current[OF t]
  note r = advanced_revision[OF v adv]
  have c: "WorkspaceTemplateRevision_Clone r = r" using r revision_Clone_id by blast
  show ?thesis
    using t r unfolding template_ok_def template_valid
    by (auto simp: retained_ok_def metadata_ok_frame successively_append_iff word_less_nat_alt)
qed

lemma update_one_iff:
  assumes t: "template_ok pem t"
  shows "update_one pem resolve t = Inr (t', p, c) \<longleftrightarrow>
    (\<exists>rt n r changed. resolve (rev_Body (tpl_Current t)) = Inr (c, rt) \<and> WorkspaceTemplateChange_Validate pem c = None
       \<and> ApplyWorkspaceTemplateChange pem (rev_Body (tpl_Current t)) c rt = Inr n
       \<and> AdvanceWorkspaceTemplateRevision pem (tpl_Current t) n = Inr (r, changed)
       \<and> t' = (if changed then t\<lparr> tpl_Current := r, tpl_Retained := tpl_Retained t @ [r] \<rparr> else t)
       \<and> p = \<lparr> pub_Template = t', pub_Previous = tpl_Current t, pub_Current = r, pub_ResolvedRuntime = rt, pub_Changed = changed \<rparr>)"
proof -
  note v = template_ok_current[OF t]
  have ids: "WorkspaceTemplateRevision_Clone (tpl_Current t) = tpl_Current t"
    "WorkspaceTemplateBody_Clone (rev_Body (tpl_Current t)) = rev_Body (tpl_Current t)"
    using v revision_Clone_id body_Clone_id by (auto simp: revision_valid)
  have r: "WorkspaceTemplateRevision_Clone r = r
      \<and> WorkspaceTemplate_Clone (if changed then t\<lparr> tpl_Current := r, tpl_Retained := tpl_Retained t @ [r] \<rparr> else t)
        = (if changed then t\<lparr> tpl_Current := r, tpl_Retained := tpl_Retained t @ [r] \<rparr> else t)"
    if "AdvanceWorkspaceTemplateRevision pem (tpl_Current t) n = Inr (r, changed)" for n r changed
  proof (cases changed)
    case True
    then have adv: "AdvanceWorkspaceTemplateRevision pem (tpl_Current t) n = Inr (r, True)" using that by simp
    then show ?thesis
      using advanced_revision[OF v adv] revision_Clone_id template_ok_publish[OF t adv] template_Clone_id True by (auto simp: template_ok_def)
  next
    case False
    then have "r = tpl_Current t" using that by (auto simp: advance_exact[OF v] split: if_splits option.splits)
    then show ?thesis using False ids t template_Clone_id by (auto simp: template_ok_def)
  qed
  show ?thesis
    unfolding update_one_def Let_def ids
    using r change_Clone_id[of pem]
    by (fastforce simp: and_then_Inr guarded_Inr split: prod.splits)
qed

lemma update_one_valid:
  assumes t: "template_ok pem t" and u: "update_one pem resolve t = Inr (t', p, c)"
    and i: "ParseWorkspaceTemplateRef ref = Inr (tpl_ID t)"
    and rt: "\<forall>b c rt. resolve b = Inr (c, rt) \<longrightarrow> (rt \<noteq> None \<longleftrightarrow> chg_Kind c = ''runtime'')"
  shows "template_ok pem t' \<and> WorkspaceTemplateRevisionPublication_ValidateFor pem p ref c = None"
proof -
  from u obtain rt n r changed where res: "resolve (rev_Body (tpl_Current t)) = Inr (c, rt)" and c: "WorkspaceTemplateChange_Validate pem c = None"
    and n: "ApplyWorkspaceTemplateChange pem (rev_Body (tpl_Current t)) c rt = Inr n"
    and adv: "AdvanceWorkspaceTemplateRevision pem (tpl_Current t) n = Inr (r, changed)"
    and t': "t' = (if changed then t\<lparr> tpl_Current := r, tpl_Retained := tpl_Retained t @ [r] \<rparr> else t)"
    and p: "p = \<lparr> pub_Template = t', pub_Previous = tpl_Current t, pub_Current = r, pub_ResolvedRuntime = rt, pub_Changed = changed \<rparr>"
    unfolding update_one_iff[OF t] by blast
  note v = template_ok_current[OF t]
  have r: "WorkspaceTemplateRevision_Validate pem r = None \<and> rev_TemplateID r = rev_TemplateID (tpl_Current t)
      \<and> (if changed then rev_Generation r = rev_Generation (tpl_Current t) + 1 \<and> rev_Revision r \<noteq> rev_Revision (tpl_Current t)
           \<and> rev_Generation r \<noteq> rev_Generation (tpl_Current t)
         else r = tpl_Current t)"
    using adv v advanced_revision[OF v, of n r]
    by (auto simp: advance_exact[OF v] revision_of_def split: if_splits option.splits)
  have ok': "template_ok pem t'" using t template_ok_publish[OF t] adv t' by (cases changed) auto
  have last: "tpl_Current t \<in> set (tpl_Retained t)" using template_ok_retained[OF t] by (auto simp: retained_ok_def)
  have one: "x = tpl_Current t" if "x \<in> set (tpl_Retained t)" "same_revision x (tpl_Current t)" for x
    using retained_distinct[OF template_ok_retained[OF t] that(1) last] that(2) by (simp add: same_revision_def)
  have digests: "\<forall>x \<in> set (tpl_Retained t'). same_revision x (tpl_Current t) \<longrightarrow> x = tpl_Current t"
    using one r t' by (auto simp: same_revision_def split: if_splits)
  have found: "list_ex (\<lambda>x. same_revision x (tpl_Current t)) (tpl_Retained t')" "list_ex (\<lambda>x. same_revision x r) (tpl_Retained t')"
    using last r t' by (auto simp: list_ex_iff same_revision_def split: if_splits)
  have ids: "tpl_ID t' = tpl_ID t" "rev_TemplateID (tpl_Current t) = tpl_ID t" "tpl_Current t' = r"
    using t t' r by (auto simp: template_ok_def template_valid)
  have "WorkspaceTemplateRevisionPublication_ValidateFor pem p ref c = None"
    using c n adv v r ok' digests found ids rt res
    by (auto simp: WorkspaceTemplateRevisionPublication_ValidateFor_def i p check_simps and_then_def template_ok_def)
  with ok' show ?thesis by blast
qed


lemma update_templates_valid:
  assumes "\<forall>t \<in> set ts. template_ok pem t" "update_templates pem resolve i ts = Inr (ts', p, c)"
    and "ParseWorkspaceTemplateRef ref = Inr i"
    and "\<forall>b c rt. resolve b = Inr (c, rt) \<longrightarrow> (rt \<noteq> None \<longleftrightarrow> chg_Kind c = ''runtime'')"
  shows "WorkspaceTemplateRevisionPublication_ValidateFor pem p ref c = None \<and> (\<forall>t \<in> set ts'. template_ok pem t)
    \<and> list_all2 (\<lambda>t t'. tpl_ID t' = tpl_ID t \<and> (tpl_ID t \<noteq> i \<longrightarrow> t' = t)) ts ts'"
  using assms(1,2)
proof (induction ts arbitrary: ts')
  case (Cons t ts)
  show ?case
  proof (cases "tpl_ID t = i")
    case True
    then obtain t' where t': "update_one pem resolve t = Inr (t', p, c)" "ts' = t' # ts"
      using Cons.prems(2) by (auto simp: and_then_Inr)
    have ok: "template_ok pem t" using Cons.prems(1) by simp
    have "tpl_ID t' = tpl_ID t" using t'(1) unfolding update_one_iff[OF ok] by auto
    moreover have "template_ok pem t' \<and> WorkspaceTemplateRevisionPublication_ValidateFor pem p ref c = None"
      using update_one_valid[OF ok t'(1)] True assms(3,4) by simp
    ultimately show ?thesis using t' Cons.prems(1) True by (auto simp: list_all2_same)
  next
    case False
    then obtain us where "update_templates pem resolve i ts = Inr (us, p, c)" "ts' = t # us"
      using Cons.prems(2) by (auto simp: and_then_Inr)
    with Cons.IH[of us] Cons.prems(1) show ?thesis by auto
  qed
qed simp

text \<open>The published record of a Template update always passes its own validation: on Templates as the
  store keeps them, whatever change and Runtime are resolved (a Runtime exactly for a Runtime change),
  an update fails only where the change, the new body or the Template is refused; otherwise the final
  check accepts the record, every Template stays valid, every other Template is untouched, and nothing
  is published when the revision did not change.\<close>
theorem template_update_publishes_a_valid_record:
  assumes "\<forall>t \<in> set ts. template_ok pem t" "ParseWorkspaceTemplateRef ref = Inr i"
    and "\<forall>b c rt. resolve b = Inr (c, rt) \<longrightarrow> (rt \<noteq> None \<longleftrightarrow> chg_Kind c = ''runtime'')"
  shows "case update_templates pem resolve i ts of
      Inl e \<Rightarrow> updateWorkspaceTemplateByReference pem resolve ts ref = Inl e
    | Inr (ts', p, c) \<Rightarrow>
        updateWorkspaceTemplateByReference pem resolve ts ref = Inr (if pub_Changed p then Some ts' else None, p, c)
        \<and> WorkspaceTemplateRevisionPublication_ValidateFor pem p ref c = None \<and> (\<forall>t \<in> set ts'. template_ok pem t)
        \<and> list_all2 (\<lambda>t t'. tpl_ID t' = tpl_ID t \<and> (tpl_ID t \<noteq> i \<longrightarrow> t' = t)) ts ts'"
proof -
  have "map WorkspaceTemplate_Clone ts = ts"
    using assms(1) template_Clone_id by (intro map_idI) (auto simp: template_ok_def)
  then show ?thesis
    using update_templates_valid[OF assms(1) _ assms(2,3)]
    by (auto simp: updateWorkspaceTemplateByReference_def assms(2) and_then_def guarded_def split: sum.splits prod.splits)
qed

lemma example_templates:
  "\<exists>t. template_ok (\<lambda>_. True) t \<and> tpl_ID t = example_copy_id \<and> rev_Body (tpl_Current t) = example_body \<and> rev_Generation (tpl_Current t) = 1"
proof -
  have v: "WorkspaceTemplateID_Validate example_copy_id = None" "ValidateName ''copy'' = None" by code_simp+
  have "rev_TemplateID (revision_of example_template_id 1 example_body) \<noteq> example_copy_id"
    by (simp add: revision_of_def example_template_id_def example_copy_id_def)
  from copy_exact[OF example_revision_valid[of 1] v(1) this v(2)] show ?thesis
    by (auto simp: template_ok_def revision_of_def)
qed

theorem template_update_publishes_a_valid_record_witness:
  "\<exists>t x. template_ok (\<lambda>_. True) t
     \<and> updateWorkspaceTemplateByReference (\<lambda>_. True) (\<lambda>_. Inr (example_change, None)) [t] (workspaceTemplateRefPrefix @ example_copy_id) = Inr x"
proof -
  obtain t where t: "template_ok (\<lambda>_. True) t" "tpl_ID t = example_copy_id" "rev_Body (tpl_Current t) = example_body"
    "rev_Generation (tpl_Current t) = 1" using example_templates by blast
  have ref: "ParseWorkspaceTemplateRef (workspaceTemplateRefPrefix @ example_copy_id) = Inr example_copy_id" by code_simp
  have n: "WorkspaceTemplateBody_Validate (\<lambda>_. True) example_changed_body = None" by code_simp
  obtain r changed where "AdvanceWorkspaceTemplateRevision (\<lambda>_. True) (tpl_Current t) example_changed_body = Inr (r, changed)"
    using advance_exact[OF template_ok_current[OF t(1)], of example_changed_body] t(4) body_Clone_id[OF n] n by (auto split: if_splits)
  moreover have "WorkspaceTemplateChange_Validate (\<lambda>_. True) example_change = None" by code_simp
  ultimately obtain t' p where "update_one (\<lambda>_. True) (\<lambda>_. Inr (example_change, None)) t = Inr (t', p, example_change)"
    using update_one_iff[OF t(1), of "\<lambda>_. Inr (example_change, None)"] example_applied t(3) by auto
  then have u: "update_templates (\<lambda>_. True) (\<lambda>_. Inr (example_change, None)) example_copy_id [t] = Inr ([t'], p, example_change)"
    using t(2) by (simp add: and_then_def)
  have "chg_Kind example_change \<noteq> ''runtime''" by (simp add: example_change_def)
  then show ?thesis
    using template_update_publishes_a_valid_record[of "[t]" "\<lambda>_. True" "workspaceTemplateRefPrefix @ example_copy_id" example_copy_id
        "\<lambda>_. Inr (example_change, None)"] t(1) ref u by auto
qed

end
