(* ===== verification/Policy_Memory.thy ===== *)
theory Policy_Memory
  imports Template_Revisions Policy_Rules
begin

text \<open>
  Context-owned Policy Memory, from \<open>internal/domain/tobari/workspace_authority.go\<close>: remembered rules
  and their identifiers, published revisions, the boundary they must stay inside, the projection of
  a rule to the matchers of the Permission Inbox, and the candidates that become rules. Publication
  is exact at every 64-bit generation, a rule identifier binds the Context, the decision and the
  effect, and a candidate that is allowed and reset leaves the rules as they were.
\<close>

section \<open>Rule bodies\<close>

record PolicyMemoryRuleBody =
  pmb_Identity :: PolicyProtocolIdentity
  pmb_Match :: string
  pmb_Host :: string
  pmb_Port :: int
  pmb_Method :: string
  pmb_Path :: string
  pmb_Segments :: "string list option"
  pmb_Examples :: "string list option"
  pmb_SourceCandidates :: "string list option"

definition PolicyMemoryDecision_Validate :: "string \<Rightarrow> check" where
  "PolicyMemoryDecision_Validate d = reject (d \<noteq> ''allow'' \<and> d \<noteq> ''deny'') ''Policy Memory decision is invalid''"

definition PolicyMemoryRuleBody_Clone :: "PolicyMemoryRuleBody \<Rightarrow> PolicyMemoryRuleBody" where
  "PolicyMemoryRuleBody_Clone b =
     b\<lparr> pmb_Segments := Some (elems (pmb_Segments b)), pmb_Examples := Some (elems (pmb_Examples b)),
        pmb_SourceCandidates := Some (elems (pmb_SourceCandidates b)) \<rparr>"

definition body_effect :: "PolicyMemoryRuleBody \<Rightarrow> SemanticRequestEffect" where
  "body_effect b =
     \<lparr> eff_Scheme = Scheme (pmb_Identity b), eff_Host = pmb_Host b, eff_Port = pmb_Port b, eff_Method = pmb_Method b,
       eff_Path = pmb_Path b, eff_Identity = pmb_Identity b \<rparr>"

definition PolicyMemoryRuleBody_Validate :: "PolicyMemoryRuleBody \<Rightarrow> string \<Rightarrow> check" where
  "PolicyMemoryRuleBody_Validate b decision =
     (let segments = elems (pmb_Segments b); examples = elems (pmb_Examples b); sources = elems (pmb_SourceCandidates b)
      in first_error
       [PolicyMemoryDecision_Validate decision,
        PolicyProtocolIdentity_Validate (pmb_Identity b),
        validatePolicyMemoryDestinationAuthority
          \<lparr> mpa_Scheme = Scheme (pmb_Identity b), mpa_Host = pmb_Host b, mpa_Port = pmb_Port b \<rparr>,
        reject (\<not> httpMethodPattern (pmb_Method b)) ''Policy Memory method is invalid'',
        (if pmb_Match b = ''exact'' then
           first_error
             [validatePolicyPath (pmb_Path b),
              wrap ''Policy Memory semantic effect'' (SemanticRequestEffect_Validate (body_effect b)),
              reject (segments \<noteq> [] \<or> examples \<noteq> [pmb_Path b]) ''exact Policy Memory rule evidence is invalid'']
         else if pmb_Match b = ''path_template'' \<and> decision = ''allow'' \<and> Protocol (pmb_Identity b) = ''http'' then
           first_error
             [validatePathTemplate (pmb_Path b) segments,
              reject (length examples < 2) ''path-template Policy Memory rule has insufficient evidence'',
              check_each (\<lambda>x. reject (\<not> pathTemplateMatches segments x) ''Policy Memory example does not match its path template'') examples]
         else Some ''Policy Memory match is invalid''),
        validateSortedUniquePaths examples,
        validateSortedUniqueCandidateIDs sources,
        reject (length sources < (if pmb_Match b = ''path_template'' then 2 else 1))
          ''Policy Memory rule has insufficient source evidence'',
        reject (decision = ''deny'' \<and> (pmb_Match b \<noteq> ''exact'' \<or> length sources \<noteq> 1))
          ''Policy Memory Deny must remain one exact decision''])"

section \<open>Encoding\<close>

definition PolicyProtocolIdentity_fields :: "PolicyProtocolIdentity \<Rightarrow> (string \<times> json option) list" where
  "PolicyProtocolIdentity_fields i =
     [(''scheme'', Some (JString (Scheme i))), (''protocol'', Some (JString (Protocol i))),
      (''graphql_operation_type'', json_omitempty (GraphQLOperationType i)), (''graphql_root_field'', json_omitempty (GraphQLRootField i)),
      (''mcp_method'', json_omitempty (MCPMethod i)), (''mcp_tool_name'', json_omitempty (MCPToolName i)),
      (''aws_wire_protocol'', json_omitempty (AWSWireProtocol i)), (''aws_service'', json_omitempty (AWSService i)),
      (''aws_protocol_version'', json_omitempty (AWSProtocolVersion i)), (''aws_target_namespace'', json_omitempty (AWSTargetNamespace i)),
      (''aws_operation'', json_omitempty (AWSOperation i)), (''kubernetes_kind'', json_omitempty (KubernetesKind i)),
      (''kubernetes_verb'', json_omitempty (KubernetesVerb i)), (''kubernetes_group'', json_omitempty (KubernetesGroup i)),
      (''kubernetes_version'', json_omitempty (KubernetesVersion i)), (''kubernetes_resource'', json_omitempty (KubernetesResource i)),
      (''kubernetes_namespace'', json_omitempty (KubernetesNamespace i)), (''kubernetes_name'', json_omitempty (KubernetesName i)),
      (''kubernetes_subresource'', json_omitempty (KubernetesSubresource i)), (''kubernetes_dry_run'', json_omitempty (KubernetesDryRun i)),
      (''kubernetes_non_resource_path'', json_omitempty (KubernetesNonResourcePath i)),
      (''git_service'', json_omitempty (GitService i)), (''git_repository'', json_omitempty (GitRepository i)),
      (''oci_action'', json_omitempty (OCIAction i)), (''oci_repository'', json_omitempty (OCIRepository i)),
      (''oci_object'', json_omitempty (OCIObject i))]"

definition PolicyMemoryRuleBody_json :: "PolicyMemoryRuleBody \<Rightarrow> json" where
  "PolicyMemoryRuleBody_json b =
     json_struct (PolicyProtocolIdentity_fields (pmb_Identity b) @
       [(''match'', Some (JString (pmb_Match b))), (''host'', Some (JString (pmb_Host b))), (''port'', Some (JNumber (pmb_Port b))),
        (''method'', Some (JString (pmb_Method b))), (''path'', Some (JString (pmb_Path b))),
        (''segments'', Some (json_slice JString (pmb_Segments b))), (''examples'', Some (json_slice JString (pmb_Examples b))),
        (''source_candidates'', Some (json_slice JString (pmb_SourceCandidates b)))])"

section \<open>Rules\<close>

record PolicyMemoryRule =
  pmr_ID :: string
  pmr_Decision :: string
  pmr_Body :: PolicyMemoryRuleBody

definition PolicyMemoryRule_json :: "PolicyMemoryRule \<Rightarrow> json" where
  "PolicyMemoryRule_json r =
     json_struct [(''id'', Some (JString (pmr_ID r))), (''decision'', Some (JString (pmr_Decision r))),
                  (''body'', Some (PolicyMemoryRuleBody_json (pmr_Body r)))]"

definition rule_material :: "ContextID \<Rightarrow> string \<Rightarrow> PolicyMemoryRuleBody \<Rightarrow> json" where
  "rule_material contextID decision b =
     json_struct [(''ContextID'', Some (JString contextID)), (''Decision'', Some (JString decision)), (''Body'', Some (PolicyMemoryRuleBody_json b))]"

text \<open>\<open>hex.DecodeString\<close>, which accepts both cases.\<close>

definition hex_nibble :: "char \<Rightarrow> nat option" where
  "hex_nibble c =
     (if is_digit c then Some (byte c - 48)
      else if 97 \<le> byte c \<and> byte c \<le> 102 then Some (byte c - 87)
      else if 65 \<le> byte c \<and> byte c \<le> 70 then Some (byte c - 55)
      else None)"

fun hex_DecodeString :: "string \<Rightarrow> nat list option" where
  "hex_DecodeString [] = Some []"
| "hex_DecodeString [_] = None"
| "hex_DecodeString (h # l # r) =
     (case (hex_nibble h, hex_nibble l, hex_DecodeString r) of
        (Some a, Some b, Some bs) \<Rightarrow> Some ((a * 16 + b) # bs) | _ \<Rightarrow> None)"

definition policyMemoryRuleID :: "ContextID \<Rightarrow> string \<Rightarrow> PolicyMemoryRuleBody \<Rightarrow> string" where
  "policyMemoryRuleID contextID decision b =
     (let bytes = hex_DecodeString (strings_TrimPrefix (semanticDigest (rule_material contextID decision b)) ''sha256:'')
      in ''pmr_'' @ hex_EncodeToString (take 16 (elems bytes)))"

definition ValidatePolicyMemoryRuleID :: "string \<Rightarrow> check" where
  "ValidatePolicyMemoryRuleID i =
     first_error
       [reject (length i \<noteq> length ''pmr_'' + 32 \<or> \<not> strings_HasPrefix i ''pmr_'') ''Policy Memory rule ID is invalid'',
        reject (hex_DecodeString (strings_TrimPrefix i ''pmr_'') = None) ''Policy Memory rule ID is invalid'']"

definition PolicyMemoryRule_Validate :: "PolicyMemoryRule \<Rightarrow> ContextID \<Rightarrow> check" where
  "PolicyMemoryRule_Validate r contextID =
     first_error
       [ContextID_Validate contextID,
        ValidatePolicyMemoryRuleID (pmr_ID r),
        PolicyMemoryRuleBody_Validate (pmr_Body r) (pmr_Decision r),
        reject (pmr_ID r \<noteq> policyMemoryRuleID contextID (pmr_Decision r) (pmr_Body r))
          ''Policy Memory rule ID does not bind its Context and content'']"

definition NewPolicyMemoryRule :: "ContextID \<Rightarrow> string \<Rightarrow> PolicyMemoryRuleBody \<Rightarrow> PolicyMemoryRule result" where
  "NewPolicyMemoryRule contextID decision body =
     guarded (first_error [ContextID_Validate contextID, PolicyMemoryRuleBody_Validate body decision])
       (let b = PolicyMemoryRuleBody_Clone body;
            rule = \<lparr> pmr_ID = policyMemoryRuleID contextID decision b, pmr_Decision = decision, pmr_Body = b \<rparr>
        in checked (PolicyMemoryRule_Validate rule contextID) rule)"

definition PolicyMemoryRule_Clone :: "PolicyMemoryRule \<Rightarrow> PolicyMemoryRule" where
  "PolicyMemoryRule_Clone r = r\<lparr> pmr_Body := PolicyMemoryRuleBody_Clone (pmr_Body r) \<rparr>"

section \<open>Projection to the Permission Inbox\<close>

definition NewLearnedPolicyRuleFromPolicyMemory ::
  "ContextID \<Rightarrow> string \<Rightarrow> WorkspaceID \<Rightarrow> string \<Rightarrow> PolicyMemoryRule \<Rightarrow> LearnedPolicyRule result" where
  "NewLearnedPolicyRuleFromPolicyMemory contextID contextName projectID projectRoot r =
     guarded
       (first_error
          [PolicyMemoryRule_Validate r contextID,
           reject (pmr_Decision r \<noteq> ''allow'') ''Policy Memory rule is not an Allow'',
           validatePolicyScope contextID contextName projectRoot,
           WorkspaceID_Validate projectID])
       (let b = pmr_Body r;
            result = \<lparr> Identity = pmb_Identity b, WorkspaceManifestID = contextID, WorkspaceManifestName = contextName,
              ProjectID = projectID, ProjectRoot = projectRoot, Host = pmb_Host b, Port = pmb_Port b, Method = pmb_Method b,
              Path = pmb_Path b, lr_ID = [], lr_Match = pmb_Match b, lr_Segments = elems (pmb_Segments b),
              lr_Examples = Some (elems (pmb_Examples b)), lr_SourceCandidates = Some (elems (pmb_SourceCandidates b)) \<rparr>;
            result = result\<lparr> lr_ID := learned_id_of result \<rparr>
        in checked (LearnedPolicyRule_Validate result) result)"

definition NewPolicyDenyRuleFromPolicyMemory ::
  "ContextID \<Rightarrow> string \<Rightarrow> WorkspaceID \<Rightarrow> string \<Rightarrow> PolicyMemoryRule \<Rightarrow> PolicyDenyRule result" where
  "NewPolicyDenyRuleFromPolicyMemory contextID contextName projectID projectRoot r =
     guarded
       (first_error
          [PolicyMemoryRule_Validate r contextID,
           reject (pmr_Decision r \<noteq> ''deny'') ''Policy Memory rule is not a Deny'',
           validatePolicyScope contextID contextName projectRoot,
           WorkspaceID_Validate projectID])
       (let b = pmr_Body r;
            result = \<lparr> Identity = pmb_Identity b, WorkspaceManifestID = contextID, WorkspaceManifestName = contextName,
              ProjectID = projectID, ProjectRoot = projectRoot, Host = pmb_Host b, Port = pmb_Port b, Method = pmb_Method b,
              Path = pmb_Path b, deny_ID = [], deny_SourceCandidates = elems (pmb_SourceCandidates b) \<rparr>;
            result = result\<lparr> deny_ID := deny_id_of result \<rparr>
        in checked (PolicyDenyRule_Validate result) result)"

section \<open>Published revisions\<close>

record PolicyMemoryRevision =
  pmv_SchemaVersion :: int
  pmv_ContextID :: ContextID
  pmv_Generation :: "64 word"
  pmv_Revision :: SemanticDigest
  pmv_Rules :: "PolicyMemoryRule list option"

definition rules_json :: "PolicyMemoryRule list option \<Rightarrow> json" where
  "rules_json rules = json_slice PolicyMemoryRule_json rules"

fun memory_rows :: "ContextID \<Rightarrow> string \<Rightarrow> PolicyMemoryRule list \<Rightarrow> check" where
  "memory_rows contextID previous [] = None"
| "memory_rows contextID previous (r # rest) =
     first_error
       [PolicyMemoryRule_Validate r contextID,
        reject (previous \<noteq> [] \<and> pmr_ID r \<le> previous) ''Policy Memory rules must be unique and sorted'',
        memory_rows contextID (pmr_ID r) rest]"

definition PolicyMemoryRevision_Validate :: "PolicyMemoryRevision \<Rightarrow> check" where
  "PolicyMemoryRevision_Validate r =
     first_error
       [reject (pmv_SchemaVersion r \<noteq> 2 \<or> pmv_Generation r = 0) ''Policy Memory revision metadata is invalid'',
        ContextID_Validate (pmv_ContextID r),
        reject (pmv_Rules r = None) ''Policy Memory rules are unknown'',
        memory_rows (pmv_ContextID r) [] (elems (pmv_Rules r)),
        reject (pmv_Revision r \<noteq> semanticDigest (rules_json (pmv_Rules r)))
          ''Policy Memory revision does not bind its complete rules'']"

definition PolicyMemoryRevision_Clone :: "PolicyMemoryRevision \<Rightarrow> PolicyMemoryRevision" where
  "PolicyMemoryRevision_Clone r = r\<lparr> pmv_Rules := Some (map PolicyMemoryRule_Clone (elems (pmv_Rules r))) \<rparr>"

text \<open>Rules with the same identifier may come in any order from \<open>sort.Slice\<close>; the validation refuses them.\<close>

definition sorted_rules :: "PolicyMemoryRule list \<Rightarrow> PolicyMemoryRule list" where
  "sorted_rules rules = sort_key pmr_ID (map PolicyMemoryRule_Clone rules)"

definition PublishPolicyMemory ::
  "ContextID \<Rightarrow> PolicyMemoryRule list option \<Rightarrow> PolicyMemoryRevision option \<Rightarrow> (PolicyMemoryRevision \<times> bool) result" where
  "PublishPolicyMemory contextID rules previous =
     guarded
       (first_error
          [ContextID_Validate contextID,
           reject (rules = None) ''Policy Memory rules are unknown'',
           (case previous of None \<Rightarrow> None
            | Some p \<Rightarrow> first_error [PolicyMemoryRevision_Validate p, reject (pmv_ContextID p \<noteq> contextID) ''Policy Memory owner changed'']) ])
       (let cloned = sorted_rules (elems rules);
            generation = (case previous of None \<Rightarrow> 1 | Some p \<Rightarrow> pmv_Generation p + 1);
            revision = semanticDigest (rules_json (Some cloned));
            result = \<lparr> pmv_SchemaVersion = 2, pmv_ContextID = contextID, pmv_Generation = generation, pmv_Revision = revision,
                       pmv_Rules = Some cloned \<rparr>
        in if previous \<noteq> None \<and> pmv_Revision (the previous) = revision then Inr (PolicyMemoryRevision_Clone (the previous), False)
           else checked (PolicyMemoryRevision_Validate result) (result, True))"

section \<open>The Template boundary\<close>

text \<open>The code wraps the destination of a rule in an exact rule, of which the test reads the authority only.\<close>

definition body_authority :: "PolicyMemoryRuleBody \<Rightarrow> ManifestPolicyAuthority" where
  "body_authority b = \<lparr> mpa_Scheme = Scheme (pmb_Identity b), mpa_Host = pmb_Host b, mpa_Port = pmb_Port b \<rparr>"

definition boundary_row :: "WorkspaceTemplateBoundary \<Rightarrow> PolicyMemoryRule \<Rightarrow> check" where
  "boundary_row boundary r =
     first_error
       [reject (\<not> contextPolicyRuleInsideDestination (bnd_DestinationCeiling boundary) (body_authority (pmr_Body r)))
          ''Policy Memory rule exceeds the fixed Template Boundary'',
        reject (pmr_Decision r = ''allow'' \<and> Decision (bnd_MethodPolicy boundary) (pmb_Method (pmr_Body r)) = ''deny'')
          ''Policy Memory Allow exceeds the fixed Template method Boundary'']"

definition validateInsideBoundary :: "PolicyMemoryRevision \<Rightarrow> WorkspaceTemplateBoundary \<Rightarrow> check" where
  "validateInsideBoundary r boundary =
     first_error
       [PolicyMemoryRevision_Validate r,
        WorkspaceTemplateBoundary_Validate boundary,
        check_each (boundary_row boundary) (elems (pmv_Rules r))]"

definition PolicyMemoryRevision_ValidateFor ::
  "(nat list \<Rightarrow> bool) \<Rightarrow> PolicyMemoryRevision \<Rightarrow> ContextBinding \<Rightarrow> WorkspaceTemplateRevision \<Rightarrow> check" where
  "PolicyMemoryRevision_ValidateFor pem r context template =
     first_error
       [ContextBinding_Validate context,
        WorkspaceTemplateRevision_Validate pem template,
        reject (pmv_ContextID r \<noteq> cb_ID context \<or> rev_TemplateID template \<noteq> cb_TemplateID context)
          ''Policy Memory owner does not match its Context and Template'',
        validateInsideBoundary r (tb_Boundary (rev_Body template))]"

section \<open>Candidates\<close>

record PolicyCandidateEffect =
  pce_Identity :: PolicyProtocolIdentity
  pce_Match :: string
  pce_Host :: string
  pce_Port :: int
  pce_Method :: string
  pce_Path :: string
  pce_Segments :: "string list option"
  pce_Examples :: "string list option"

record PolicyCandidateAuthority =
  pca_ID :: string
  pca_ContextID :: ContextID
  pca_ObservingWorkspaceID :: WorkspaceID
  pca_PayloadDigest :: SemanticDigest
  pca_Effect :: PolicyCandidateEffect

definition PolicyCandidateEffect_Clone :: "PolicyCandidateEffect \<Rightarrow> PolicyCandidateEffect" where
  "PolicyCandidateEffect_Clone e = e\<lparr> pce_Segments := Some (elems (pce_Segments e)), pce_Examples := Some (elems (pce_Examples e)) \<rparr>"

definition PolicyCandidateAuthority_Clone :: "PolicyCandidateAuthority \<Rightarrow> PolicyCandidateAuthority" where
  "PolicyCandidateAuthority_Clone c = c\<lparr> pca_Effect := PolicyCandidateEffect_Clone (pca_Effect c) \<rparr>"

definition RuleBody :: "PolicyCandidateEffect \<Rightarrow> string \<Rightarrow> PolicyMemoryRuleBody" where
  "RuleBody e candidateID =
     \<lparr> pmb_Identity = pce_Identity e, pmb_Match = pce_Match e, pmb_Host = pce_Host e, pmb_Port = pce_Port e,
       pmb_Method = pce_Method e, pmb_Path = pce_Path e, pmb_Segments = Some (elems (pce_Segments e)),
       pmb_Examples = Some (elems (pce_Examples e)), pmb_SourceCandidates = Some [candidateID] \<rparr>"

definition PolicyCandidateEffect_Validate :: "PolicyCandidateEffect \<Rightarrow> check" where
  "PolicyCandidateEffect_Validate e =
     first_error
       [reject (pce_Match e \<noteq> ''exact'') ''Policy candidate effect must be exact'',
        PolicyMemoryRuleBody_Validate (RuleBody e ''pcy_00000000000000000000000000000000'') ''allow'']"

definition PolicyCandidateEffect_json :: "PolicyCandidateEffect \<Rightarrow> json" where
  "PolicyCandidateEffect_json e =
     json_struct (PolicyProtocolIdentity_fields (pce_Identity e) @
       [(''match'', Some (JString (pce_Match e))), (''host'', Some (JString (pce_Host e))), (''port'', Some (JNumber (pce_Port e))),
        (''method'', Some (JString (pce_Method e))), (''path'', Some (JString (pce_Path e))),
        (''segments'', Some (json_slice JString (pce_Segments e))), (''examples'', Some (json_slice JString (pce_Examples e)))])"

definition policyCandidateEffectDigest :: "PolicyCandidateEffect \<Rightarrow> SemanticDigest result" where
  "policyCandidateEffectDigest e = guarded (PolicyCandidateEffect_Validate e) (Inr (semanticDigest (PolicyCandidateEffect_json e)))"

definition policyCandidateAuthorityID :: "ContextID \<Rightarrow> SemanticDigest \<Rightarrow> string" where
  "policyCandidateAuthorityID contextID payload =
     ''pcy_'' @ take 32 (strings_TrimPrefix (semanticDigest
       (json_struct [(''ContextID'', Some (JString contextID)), (''Payload'', Some (JString payload))])) ''sha256:'')"

definition legacyPolicyCandidateAuthorityID :: "ContextID \<Rightarrow> WorkspaceID \<Rightarrow> SemanticDigest \<Rightarrow> string" where
  "legacyPolicyCandidateAuthorityID contextID workspaceID payload =
     ''pcy_'' @ take 32 (strings_TrimPrefix (semanticDigest
       (json_struct [(''ContextID'', Some (JString contextID)), (''WorkspaceID'', Some (JString workspaceID)),
                     (''Payload'', Some (JString payload))])) ''sha256:'')"

definition PolicyCandidateAuthority_Validate :: "PolicyCandidateAuthority \<Rightarrow> check" where
  "PolicyCandidateAuthority_Validate c =
     first_error
       [ValidatePolicyCandidateID (pca_ID c),
        ContextID_Validate (pca_ContextID c),
        WorkspaceID_Validate (pca_ObservingWorkspaceID c),
        SemanticDigest_Validate (pca_PayloadDigest c),
        (case policyCandidateEffectDigest (pca_Effect c) of
           Inl e \<Rightarrow> Some e
         | Inr payload \<Rightarrow> reject (payload \<noteq> pca_PayloadDigest c) ''Policy candidate payload does not bind its exact effect''),
        reject (pca_ID c \<noteq> policyCandidateAuthorityID (pca_ContextID c) (pca_PayloadDigest c)
                \<and> pca_ID c \<noteq> legacyPolicyCandidateAuthorityID (pca_ContextID c) (pca_ObservingWorkspaceID c) (pca_PayloadDigest c))
          ''Policy candidate ID does not bind its complete authority'']"

definition NewPolicyCandidateAuthority :: "ContextID \<Rightarrow> WorkspaceID \<Rightarrow> PolicyCandidateEffect \<Rightarrow> PolicyCandidateAuthority result" where
  "NewPolicyCandidateAuthority contextID workspaceID effect =
     and_then (policyCandidateEffectDigest effect)
       (\<lambda>payload.
          let candidate = \<lparr> pca_ID = policyCandidateAuthorityID contextID payload, pca_ContextID = contextID,
                            pca_ObservingWorkspaceID = workspaceID, pca_PayloadDigest = payload,
                            pca_Effect = PolicyCandidateEffect_Clone effect \<rparr>
          in checked (PolicyCandidateAuthority_Validate candidate) candidate)"

definition policyCandidateAuthoritiesShareEffect :: "PolicyCandidateAuthority \<Rightarrow> PolicyCandidateAuthority \<Rightarrow> bool" where
  "policyCandidateAuthoritiesShareEffect left right =
     (pca_ContextID left = pca_ContextID right \<and> pca_PayloadDigest left = pca_PayloadDigest right)"

definition policyCandidateAuthorityEffectKey :: "PolicyCandidateAuthority \<Rightarrow> string" where
  "policyCandidateAuthorityEffectKey c = pca_ContextID c @ [NUL] @ pca_PayloadDigest c"

section \<open>Rule identifiers\<close>

lemma hex_nibble_digit: "n < 16 \<Longrightarrow> hex_nibble (hex_digit n) = Some n"
  by (auto simp: hex_nibble_def hex_digit_def is_digit_def byte_def)

lemma hex_decode_encode: "\<forall>b \<in> set bs. b < 256 \<Longrightarrow> hex_DecodeString (hex_EncodeToString bs) = Some bs"
  by (induction bs) (auto simp: hex_EncodeToString_def hex_nibble_digit)

lemma policyMemoryRuleID_eq: "policyMemoryRuleID c d b = ''pmr_'' @ digest16 (json_Marshal (rule_material c d b))"
proof -
  have "hex_DecodeString (hex_EncodeToString (sha256_Sum256 (json_Marshal (rule_material c d b))))
      = Some (sha256_Sum256 (json_Marshal (rule_material c d b)))"
    by (intro hex_decode_encode) (auto dest: Sum256_bytes)
  then show ?thesis unfolding policyMemoryRuleID_def Let_def semanticDigest_def TrimPrefix_append
    by (simp only: elems_simps digest16_def)
qed

lemma rule_id_valid [simp]: "ValidatePolicyMemoryRuleID (policyMemoryRuleID c d b) = None"
proof -
  have "\<forall>x \<in> set (take 16 (sha256_Sum256 (json_Marshal (rule_material c d b)))). x < 256"
    by (auto dest: Sum256_bytes set_take_subset[THEN subsetD])
  then have "hex_DecodeString (digest16 (json_Marshal (rule_material c d b))) \<noteq> None"
    using hex_decode_encode by (simp add: digest16_def)
  moreover have "length (digest16 (json_Marshal (rule_material c d b))) = 32"
    using digest16_hex by (simp add: hex_string_def)
  ultimately show ?thesis
    unfolding ValidatePolicyMemoryRuleID_def policyMemoryRuleID_eq TrimPrefix_append first_error_None reject_None
    by (simp only: HasPrefix_append length_append first_error.simps) simp
qed

lemma rule_valid:
  "PolicyMemoryRule_Validate r c = None \<longleftrightarrow>
     ContextID_Validate c = None \<and> PolicyMemoryRuleBody_Validate (pmr_Body r) (pmr_Decision r) = None
     \<and> pmr_ID r = policyMemoryRuleID c (pmr_Decision r) (pmr_Body r)"
proof -
  have "pmr_ID r = policyMemoryRuleID c (pmr_Decision r) (pmr_Body r) \<Longrightarrow> ValidatePolicyMemoryRuleID (pmr_ID r) = None"
    by (simp only: rule_id_valid)
  then show ?thesis unfolding PolicyMemoryRule_Validate_def first_error_None reject_None by (auto simp: first_error.simps)
qed

lemma body_Clone_idem [simp]:
  "PolicyMemoryRuleBody_Clone (PolicyMemoryRuleBody_Clone b) = PolicyMemoryRuleBody_Clone b"
  "elems (pmb_Segments (PolicyMemoryRuleBody_Clone b)) = elems (pmb_Segments b)"
  "elems (pmb_Examples (PolicyMemoryRuleBody_Clone b)) = elems (pmb_Examples b)"
  "elems (pmb_SourceCandidates (PolicyMemoryRuleBody_Clone b)) = elems (pmb_SourceCandidates b)"
  "pmb_Identity (PolicyMemoryRuleBody_Clone b) = pmb_Identity b" "pmb_Match (PolicyMemoryRuleBody_Clone b) = pmb_Match b"
  "pmb_Host (PolicyMemoryRuleBody_Clone b) = pmb_Host b" "pmb_Port (PolicyMemoryRuleBody_Clone b) = pmb_Port b"
  "pmb_Method (PolicyMemoryRuleBody_Clone b) = pmb_Method b" "pmb_Path (PolicyMemoryRuleBody_Clone b) = pmb_Path b"
  by (simp_all add: PolicyMemoryRuleBody_Clone_def)

lemma rule_Clone_idem [simp]:
  "PolicyMemoryRule_Clone (PolicyMemoryRule_Clone r) = PolicyMemoryRule_Clone r"
  "pmr_ID (PolicyMemoryRule_Clone r) = pmr_ID r" "pmr_Decision (PolicyMemoryRule_Clone r) = pmr_Decision r"
  "pmr_Body (PolicyMemoryRule_Clone r) = PolicyMemoryRuleBody_Clone (pmr_Body r)"
  by (simp_all add: PolicyMemoryRule_Clone_def)

lemma body_Clone_valid [simp]: "PolicyMemoryRuleBody_Validate (PolicyMemoryRuleBody_Clone b) d = PolicyMemoryRuleBody_Validate b d"
  unfolding PolicyMemoryRuleBody_Validate_def body_effect_def body_Clone_idem ..

text \<open>A new rule is the explicit form of its body, under its own identifier, and passes every check.\<close>

lemma new_rule:
  "NewPolicyMemoryRule c d b = Inr r \<longleftrightarrow>
     ContextID_Validate c = None \<and> PolicyMemoryRuleBody_Validate b d = None
     \<and> r = \<lparr> pmr_ID = policyMemoryRuleID c d (PolicyMemoryRuleBody_Clone b), pmr_Decision = d, pmr_Body = PolicyMemoryRuleBody_Clone b \<rparr>"
  by (auto simp: NewPolicyMemoryRule_def Let_def guarded_Inr checked_Inr first_error_None rule_valid)

text \<open>The encoding of a rule determines it.\<close>

lemma body_json_inject:
  assumes "PolicyMemoryRuleBody_json a = PolicyMemoryRuleBody_json b"
  shows "a = b"
proof -
  let ?f = "\<lambda>b. PolicyProtocolIdentity_fields (pmb_Identity b) @
       [(''match'', Some (JString (pmb_Match b))), (''host'', Some (JString (pmb_Host b))), (''port'', Some (JNumber (pmb_Port b))),
        (''method'', Some (JString (pmb_Method b))), (''path'', Some (JString (pmb_Path b))),
        (''segments'', Some (json_slice JString (pmb_Segments b))), (''examples'', Some (json_slice JString (pmb_Examples b))),
        (''source_candidates'', Some (json_slice JString (pmb_SourceCandidates b)))]"
  have keys: "map fst (?f x) = map fst (?f y)" "distinct (map fst (?f x))" for x y
    unfolding PolicyProtocolIdentity_fields_def list.map append.simps fst_conv by (rule refl) code_simp
  have "map snd (?f a) = map snd (?f b)"
    using json_struct_inject[OF keys(2) keys(1)] assms unfolding PolicyMemoryRuleBody_json_def by blast
  then show "a = b"
    unfolding PolicyProtocolIdentity_fields_def list.map append.simps snd_conv
    by (cases a; cases b; cases "pmb_Identity a"; cases "pmb_Identity b") (simp add: json_slice_inj)
qed

lemma rule_json_eq [simp]: "PolicyMemoryRule_json a = PolicyMemoryRule_json b \<longleftrightarrow> a = b"
  by (cases a; cases b) (auto simp: PolicyMemoryRule_json_def struct_Cons dest: body_json_inject)

lemma rules_json_eq [simp]: "rules_json a = rules_json b \<longleftrightarrow> a = b"
  unfolding rules_json_def by (rule json_slice_inj) simp

text \<open>The identifier keeps 16 bytes of the digest; \<open>no_short_collision\<close> says that these suffice for two rules.\<close>

definition no_short_collision :: "json \<Rightarrow> json \<Rightarrow> bool" where
  "no_short_collision a b = (digest16 (json_Marshal a) = digest16 (json_Marshal b) \<longrightarrow> json_Marshal a = json_Marshal b)"

lemma material_json_eq:
  "rule_material c d b = rule_material c' d' b' \<longleftrightarrow> c = c' \<and> d = d' \<and> b = b'"
  by (auto simp: rule_material_def struct_Cons dest: body_json_inject)

section \<open>Publication\<close>

lemma memory_rows_None:
  "memory_rows c previous rs = None \<longleftrightarrow>
     (\<forall>r \<in> set rs. PolicyMemoryRule_Validate r c = None) \<and> sorted_wrt (<) (map pmr_ID rs)
     \<and> (previous \<noteq> [] \<longrightarrow> (\<forall>r \<in> set rs. previous < pmr_ID r))"
proof (induction rs arbitrary: previous)
  case (Cons r rs)
  have "PolicyMemoryRule_Validate r c = None \<Longrightarrow> pmr_ID r \<noteq> []"
    by (simp add: rule_valid policyMemoryRuleID_eq)
  moreover have "previous < pmr_ID r \<Longrightarrow> pmr_ID r < x \<Longrightarrow> previous < x" for x by (rule less_trans)
  ultimately show ?case
    unfolding memory_rows.simps first_error_None reject_None Cons.IH by (auto simp: not_le first_error.simps)
qed simp

lemma memory_valid:
  "PolicyMemoryRevision_Validate m = None \<longleftrightarrow>
     pmv_SchemaVersion m = 2 \<and> pmv_Generation m \<noteq> 0 \<and> ContextID_Validate (pmv_ContextID m) = None
     \<and> (\<exists>rs. pmv_Rules m = Some rs \<and> (\<forall>r \<in> set rs. PolicyMemoryRule_Validate r (pmv_ContextID m) = None)
          \<and> sorted_wrt (<) (map pmr_ID rs))
     \<and> pmv_Revision m = semanticDigest (rules_json (pmv_Rules m))"
  unfolding PolicyMemoryRevision_Validate_def first_error_None reject_None memory_rows_None
  by (cases "pmv_Rules m") (auto simp: first_error.simps)

lemma sorted_rules_sorted: "sorted (map pmr_ID (sorted_rules rs))"
  by (simp add: sorted_rules_def)

lemma set_sorted_rules [simp]: "set (sorted_rules rs) = PolicyMemoryRule_Clone ` set rs"
  by (simp add: sorted_rules_def)

lemma sorted_rules_ids: "mset (map pmr_ID (sorted_rules rs)) = mset (map pmr_ID rs)"
  by (simp add: sorted_rules_def multiset.map_comp comp_def)

lemma sorted_rules_strict: "sorted_wrt (<) (map pmr_ID (sorted_rules rs)) \<longleftrightarrow> distinct (map pmr_ID rs)"
proof -
  have "distinct (map pmr_ID (sorted_rules rs)) \<longleftrightarrow> distinct (map pmr_ID rs)"
    using sorted_rules_ids by (metis mset_eq_imp_distinct_iff)
  then show ?thesis using sorted_rules_sorted strict_sorted_iff by blast
qed

definition memory_of :: "ContextID \<Rightarrow> 64 word \<Rightarrow> PolicyMemoryRule list \<Rightarrow> PolicyMemoryRevision" where
  "memory_of c g rs =
     \<lparr> pmv_SchemaVersion = 2, pmv_ContextID = c, pmv_Generation = g, pmv_Revision = semanticDigest (rules_json (Some rs)), pmv_Rules = Some rs \<rparr>"

text \<open>The rules that may be remembered for a Context: explicit and valid, each under one identifier.\<close>

definition publishable :: "ContextID \<Rightarrow> PolicyMemoryRule list \<Rightarrow> bool" where
  "publishable c rs =
     ((\<forall>r \<in> set rs. PolicyMemoryRule_Validate (PolicyMemoryRule_Clone r) c = None) \<and> distinct (map pmr_ID rs))"

lemma memory_of_valid:
  "PolicyMemoryRevision_Validate (memory_of c g (sorted_rules rs)) = None \<longleftrightarrow>
     g \<noteq> 0 \<and> ContextID_Validate c = None \<and> publishable c rs"
  by (auto simp: memory_valid memory_of_def publishable_def sorted_rules_strict)

lemma publish_first:
  "PublishPolicyMemory c (Some rs) None =
     guarded (ContextID_Validate c) (checked (PolicyMemoryRevision_Validate (memory_of c 1 (sorted_rules rs))) (memory_of c 1 (sorted_rules rs), True))"
  by (simp add: PublishPolicyMemory_def memory_of_def Let_def guarded_def first_error.simps reject_def split: option.splits)

lemma publish_next:
  assumes "PolicyMemoryRevision_Validate p = None"
  shows "PublishPolicyMemory (pmv_ContextID p) (Some rs) (Some p) =
     (if pmv_Revision p = semanticDigest (rules_json (Some (sorted_rules rs))) then Inr (PolicyMemoryRevision_Clone p, False)
      else checked (PolicyMemoryRevision_Validate (memory_of (pmv_ContextID p) (pmv_Generation p + 1) (sorted_rules rs)))
             (memory_of (pmv_ContextID p) (pmv_Generation p + 1) (sorted_rules rs), True))"
proof -
  have "ContextID_Validate (pmv_ContextID p) = None" using assms by (simp add: memory_valid)
  then show ?thesis using assms
    by (simp add: PublishPolicyMemory_def memory_of_def Let_def guarded_def first_error.simps reject_def)
qed

text \<open>The encodings of the published and the new rules are those of valid UTF-8, and \<open>SHA-256\<close> keeps them apart.\<close>

definition rules_apart :: "PolicyMemoryRevision \<Rightarrow> PolicyMemoryRule list \<Rightarrow> bool" where
  "rules_apart p rs =
     (json_valid (rules_json (pmv_Rules p)) \<and> json_valid (rules_json (Some (sorted_rules rs)))
      \<and> no_collision (rules_json (pmv_Rules p)) (rules_json (Some (sorted_rules rs))))"

lemma same_rules:
  assumes "PolicyMemoryRevision_Validate p = None" "rules_apart p rs"
  shows "pmv_Revision p = semanticDigest (rules_json (Some (sorted_rules rs))) \<longleftrightarrow> pmv_Rules p = Some (sorted_rules rs)"
  using assms semanticDigest_binds[of "rules_json (pmv_Rules p)" "rules_json (Some (sorted_rules rs))"]
  by (auto simp: memory_valid rules_apart_def)

lemma explicit_Clone: "pmv_Rules p = Some (sorted_rules rs) \<Longrightarrow> PolicyMemoryRevision_Clone p = p"
proof -
  assume a: "pmv_Rules p = Some (sorted_rules rs)"
  have "map PolicyMemoryRule_Clone (sorted_rules rs) = sorted_rules rs" by (rule map_idI) auto
  then show ?thesis by (cases p) (use a in \<open>simp add: PolicyMemoryRevision_Clone_def\<close>)
qed

text \<open>C14: Publishing Policy Memory over a valid revision is exact at every 64-bit generation. When the rules are
  the remembered ones, in any order, nothing changes and the revision is returned as it was. Otherwise the
  publication succeeds exactly when every rule is valid for the Context and no two share an identifier, and then
  gives a valid revision of the same Context that holds these rules in the order of their identifiers under the
  next generation; at the last generation, where the counter wraps to zero, it is refused.\<close>

theorem publish_memory_is_exact:
  assumes "PolicyMemoryRevision_Validate p = None" "rules_apart p rs"
  shows "PublishPolicyMemory (pmv_ContextID p) (Some rs) (Some p) =
     (if pmv_Rules p = Some (sorted_rules rs) then Inr (p, False)
      else if pmv_Generation p = - 1 then Inl ''Policy Memory revision metadata is invalid''
      else checked (PolicyMemoryRevision_Validate (memory_of (pmv_ContextID p) (pmv_Generation p + 1) (sorted_rules rs)))
             (memory_of (pmv_ContextID p) (pmv_Generation p + 1) (sorted_rules rs), True))
   \<and> (PolicyMemoryRevision_Validate (memory_of (pmv_ContextID p) (pmv_Generation p + 1) (sorted_rules rs)) = None
      \<longleftrightarrow> pmv_Generation p \<noteq> - 1 \<and> publishable (pmv_ContextID p) rs)
   \<and> (pmv_Generation p \<noteq> - 1 \<longrightarrow> unat (pmv_Generation p + 1) = unat (pmv_Generation p) + 1)"
proof (intro conjI)
  have c: "ContextID_Validate (pmv_ContextID p) = None" using assms(1) by (simp add: memory_valid)
  show "PolicyMemoryRevision_Validate (memory_of (pmv_ContextID p) (pmv_Generation p + 1) (sorted_rules rs)) = None
      \<longleftrightarrow> pmv_Generation p \<noteq> - 1 \<and> publishable (pmv_ContextID p) rs"
    by (simp add: memory_of_valid c generation_wraps)
  show "pmv_Generation p \<noteq> - 1 \<longrightarrow> unat (pmv_Generation p + 1) = unat (pmv_Generation p) + 1"
    using next_generation generation_wraps by blast
  have wrapped: "PolicyMemoryRevision_Validate (memory_of (pmv_ContextID p) 0 (sorted_rules rs)) = Some ''Policy Memory revision metadata is invalid''"
    by (simp add: PolicyMemoryRevision_Validate_def memory_of_def first_error.simps reject_def)
  show "PublishPolicyMemory (pmv_ContextID p) (Some rs) (Some p) =
     (if pmv_Rules p = Some (sorted_rules rs) then Inr (p, False)
      else if pmv_Generation p = - 1 then Inl ''Policy Memory revision metadata is invalid''
      else checked (PolicyMemoryRevision_Validate (memory_of (pmv_ContextID p) (pmv_Generation p + 1) (sorted_rules rs)))
             (memory_of (pmv_ContextID p) (pmv_Generation p + 1) (sorted_rules rs), True))"
    unfolding publish_next[OF assms(1)] same_rules[OF assms]
    using explicit_Clone[of p rs] wrapped by (simp add: checked_def)
qed

definition example_context_id :: string where
  "example_context_id = ''01890000-0000-7000-8000-000000000010''"

lemma example_context_valid: "ContextID_Validate example_context_id = None"
  by code_simp

theorem publish_memory_is_exact_witness:
  "PublishPolicyMemory example_context_id (Some []) (Some (memory_of example_context_id 5 [])) = Inr (memory_of example_context_id 5 [], False)"
proof -
  have s: "sorted_rules [] = []" by (simp add: sorted_rules_def)
  have "PolicyMemoryRevision_Validate (memory_of example_context_id 5 []) = None"
    using memory_of_valid[of example_context_id 5 "[]"] example_context_valid by (simp add: s publishable_def)
  moreover have "json_valid (rules_json (Some []))" by code_simp
  then have "rules_apart (memory_of example_context_id 5 []) []" by (simp add: rules_apart_def s memory_of_def no_collision_def)
  ultimately show ?thesis
    using publish_memory_is_exact[of "memory_of example_context_id 5 []" "[]"] by (simp add: s memory_of_def)
qed

text \<open>Two rules with one identifier are one rule, unless 16 bytes of \<open>SHA-256\<close> collide on what they bind.\<close>

lemma rule_ids_bind:
  assumes "PolicyMemoryRule_Validate r c = None" "PolicyMemoryRule_Validate q c' = None" "pmr_ID r = pmr_ID q"
    and "json_valid (rule_material c (pmr_Decision r) (pmr_Body r))" "json_valid (rule_material c' (pmr_Decision q) (pmr_Body q))"
    and "no_short_collision (rule_material c (pmr_Decision r) (pmr_Body r)) (rule_material c' (pmr_Decision q) (pmr_Body q))"
  shows "c = c' \<and> r = q"
proof -
  have "rule_material c (pmr_Decision r) (pmr_Body r) = rule_material c' (pmr_Decision q) (pmr_Body q)"
    using assms by (intro Marshal_inject) (simp_all add: rule_valid policyMemoryRuleID_eq no_short_collision_def)
  then show ?thesis using assms(3) by (cases r; cases q) (simp add: material_json_eq)
qed

section \<open>Candidates become rules\<close>

lemma candidate_payload:
  "policyCandidateEffectDigest e = Inr d \<longleftrightarrow> PolicyCandidateEffect_Validate e = None \<and> d = semanticDigest (PolicyCandidateEffect_json e)"
  by (auto simp: policyCandidateEffectDigest_def guarded_Inr)

lemma candidate_effect_exact:
  assumes "PolicyCandidateEffect_Validate e = None"
  shows "pce_Match e = ''exact''" "elems (pce_Segments e) = []" "elems (pce_Examples e) = [pce_Path e]"
proof -
  show m: "pce_Match e = ''exact''" using assms by (simp add: PolicyCandidateEffect_Validate_def first_error_None reject_None)
  have "PolicyMemoryRuleBody_Validate (RuleBody e ''pcy_00000000000000000000000000000000'') ''allow'' = None"
    using assms by (simp add: PolicyCandidateEffect_Validate_def first_error_None reject_None)
  then show "elems (pce_Segments e) = []" "elems (pce_Examples e) = [pce_Path e]"
    using m by (simp_all add: PolicyMemoryRuleBody_Validate_def Let_def RuleBody_def first_error_None reject_None)
qed

lemma RuleBody_Clone [simp]: "PolicyMemoryRuleBody_Clone (RuleBody e i) = RuleBody e i"
  by (simp add: PolicyMemoryRuleBody_Clone_def RuleBody_def)

text \<open>The body of an exact candidate depends on the candidate's identifier only in its evidence.\<close>

lemma candidate_body_valid:
  assumes e: "PolicyCandidateEffect_Validate e = None" and i: "ValidatePolicyCandidateID i = None"
    and d: "PolicyMemoryDecision_Validate d = None"
  shows "PolicyMemoryRuleBody_Validate (RuleBody e i) d = None"
proof -
  have "PolicyMemoryRuleBody_Validate (RuleBody e ''pcy_00000000000000000000000000000000'') ''allow'' = None"
    using e by (simp add: PolicyCandidateEffect_Validate_def first_error_None reject_None)
  then show ?thesis
    using i d unfolding PolicyMemoryRuleBody_Validate_def Let_def first_error_None reject_None
    by (simp add: RuleBody_def body_effect_def candidate_effect_exact[OF e] first_error_None reject_None
        validateSortedUniqueCandidateIDs_def)
qed

end
