(* ===== verification/Go_Time_Format.thy ===== *)
theory Go_Time_Format
  imports Go_Time Go_JSON
begin

text \<open>
  \<open>time.Time\<close> values with their location, and their encoding by \<open>json.Marshal\<close>: RFC 3339 with
  nanoseconds, refused for a year outside 0..9999 and for a zone of a day or more. A time is its
  instant in nanoseconds since 1970-01-01T00:00:00Z; a location other than \<open>time.UTC\<close> counts by the
  offset it has at that instant. Monotonic clock readings, which a stored time does not have, are
  not represented.
\<close>

datatype go_zone = UTC | Zone int

record go_time =
  tm_Instant :: int
  tm_Location :: go_zone

definition nanos_per_day :: int where "nanos_per_day = 86400000000000"

definition time_IsZero :: "go_time \<Rightarrow> bool" where
  "time_IsZero t = (tm_Instant t = civil_days 1 1 1 * nanos_per_day)"

definition zone_offset :: "go_zone \<Rightarrow> int" where
  "zone_offset z = (case z of UTC \<Rightarrow> 0 | Zone s \<Rightarrow> s)"

text \<open>Year, month and day of a day counted from the epoch.\<close>

definition civil_date :: "int \<Rightarrow> int \<times> int \<times> int" where
  "civil_date days =
     (let z = days + 719468; era = z div 146097; doe = z mod 146097;
          yoe = (doe - doe div 1460 + doe div 36524 - doe div 146096) div 365;
          doy = doe - (365 * yoe + yoe div 4 - yoe div 100);
          mp = (5 * doy + 2) div 153;
          d = doy - (153 * mp + 2) div 5 + 1;
          m = (if mp < 10 then mp + 3 else mp - 9)
      in (yoe + era * 400 + (if m \<le> 2 then 1 else 0), m, d))"

definition zero_pad :: "nat \<Rightarrow> int \<Rightarrow> string" where
  "zero_pad w n =
     (let digits = nat_digits (nat \<bar>n\<bar>)
      in (if n < 0 then ''-'' else []) @ replicate (w - length digits) CHR ''0'' @ digits)"

definition fraction_text :: "int \<Rightarrow> string" where
  "fraction_text n = (if n = 0 then [] else CHR ''.'' # rev (dropWhile (\<lambda>c. c = CHR ''0'') (rev (zero_pad 9 n))))"

definition zone_text :: "int \<Rightarrow> string" where
  "zone_text offset =
     (if offset = 0 then ''Z''
      else let minutes = \<bar>offset\<bar> div 60
           in (if offset \<le> - 60 then ''-'' else ''+'') @ zero_pad 2 (minutes div 60) @ '':'' @ zero_pad 2 (minutes mod 60))"

definition time_MarshalJSON :: "go_time \<Rightarrow> string option" where
  "time_MarshalJSON t =
     (let offset = zone_offset (tm_Location t);
          local = tm_Instant t + offset * 1000000000;
          (y, m, d) = civil_date (local div nanos_per_day);
          nanos = local mod nanos_per_day;
          seconds = nanos div 1000000000
      in if y < 0 \<or> 9999 < y \<or> 86400 \<le> \<bar>offset\<bar> then None
         else Some (zero_pad 4 y @ ''-'' @ zero_pad 2 m @ ''-'' @ zero_pad 2 d @ ''T'' @ zero_pad 2 (seconds div 3600) @ '':''
                    @ zero_pad 2 (seconds div 60 mod 60) @ '':'' @ zero_pad 2 (seconds mod 60)
                    @ fraction_text (nanos mod 1000000000) @ zone_text offset))"

text \<open>The encoding on a leap day with a fraction, at the zero time, in another zone, and past the last year.\<close>

lemma time_MarshalJSON_examples:
  "time_MarshalJSON \<lparr> tm_Instant = 1709210096120000000, tm_Location = UTC \<rparr> = Some ''2024-02-29T12:34:56.12Z''"
  "time_MarshalJSON \<lparr> tm_Instant = civil_days 1 1 1 * nanos_per_day, tm_Location = UTC \<rparr> = Some ''0001-01-01T00:00:00Z''"
  "time_MarshalJSON \<lparr> tm_Instant = 0, tm_Location = Zone (- 19800) \<rparr> = Some ''1969-12-31T18:30:00-05:30''"
  "time_MarshalJSON \<lparr> tm_Instant = civil_days 10000 1 1 * nanos_per_day, tm_Location = UTC \<rparr> = None"
  by code_simp+

lemma time_MarshalJSON_parses:
  "Option.bind (time_MarshalJSON \<lparr> tm_Instant = 1709210096120000000, tm_Location = Zone 32400 \<rparr>) time_Parse = Some 1709210096120000000"
  by code_simp

end
