(* ===== verification/Authority_Snapshot.thy ===== *)
theory Authority_Snapshot
  imports Policy_Memory Go_Time_Format
begin

text \<open>
  One coherent read of Workspace Authority, from \<open>internal/domain/tobari/workspace_authority.go\<close>:
  applied entries, Workspace bindings, activation receipts, the Context snapshot with its
  selections, the entry reconciliation plan and its receipt, and the session identity and binding.
  The parameter \<open>pem\<close> stands for the certificate check of \<open>crypto/x509\<close>.
\<close>

section \<open>Applied entries\<close>

record WorkspaceAppliedEntry =
  ae_ContextID :: ContextID
  ae_TemplateID :: WorkspaceTemplateID
  ae_TemplateRevision :: SemanticDigest
  ae_EntrySliceDigest :: SemanticDigest
  ae_RuntimeID :: string
  ae_RuntimeRevision :: SemanticDigest
  ae_ResolvedSpec :: SemanticDigest
  ae_ReconciledAt :: go_time

text \<open>The code ranges over a map of the four digests; the refusal has one text whichever digest it meets first.\<close>

definition WorkspaceAppliedEntry_Validate :: "WorkspaceAppliedEntry \<Rightarrow> check" where
  "WorkspaceAppliedEntry_Validate a =
     first_error
       [ContextID_Validate (ae_ContextID a),
        WorkspaceTemplateID_Validate (ae_TemplateID a),
        check_each (\<lambda>d. wrap ''AppliedEntry '' (SemanticDigest_Validate d))
          [ae_TemplateRevision a, ae_EntrySliceDigest a, ae_RuntimeRevision a, ae_ResolvedSpec a],
        (if ae_RuntimeID a \<noteq> StandardRuntimeID then ValidateRuntimeID (ae_RuntimeID a) else None),
        reject (time_IsZero (ae_ReconciledAt a) \<or> tm_Location (ae_ReconciledAt a) \<noteq> UTC)
          ''AppliedEntry reconciliation time must be non-zero UTC'']"

definition WorkspaceAppliedEntry_ValidateFor :: "WorkspaceAppliedEntry \<Rightarrow> ContextBinding \<Rightarrow> check" where
  "WorkspaceAppliedEntry_ValidateFor a context =
     first_error
       [ContextBinding_Validate context,
        WorkspaceAppliedEntry_Validate a,
        reject (ae_ContextID a \<noteq> cb_ID context \<or> ae_TemplateID a \<noteq> cb_TemplateID context)
          ''AppliedEntry does not belong to its Context'']"

definition WorkspaceAppliedEntry_ValidateForRevision ::
  "(nat list \<Rightarrow> bool) \<Rightarrow> WorkspaceAppliedEntry \<Rightarrow> ContextBinding \<Rightarrow> WorkspaceTemplateRevision \<Rightarrow> check" where
  "WorkspaceAppliedEntry_ValidateForRevision pem a context revision =
     first_error
       [WorkspaceAppliedEntry_ValidateFor a context,
        WorkspaceTemplateRevision_Validate pem revision,
        reject (rev_TemplateID revision \<noteq> cb_TemplateID context \<or> ae_TemplateRevision a \<noteq> rev_Revision revision
                \<or> ae_EntrySliceDigest a \<noteq> sl_EntrySliceDigest (rev_Slices revision)
                \<or> ae_RuntimeID a \<noteq> sl_RuntimeID (rev_Slices revision)
                \<or> ae_RuntimeRevision a \<noteq> sl_RuntimeRevision (rev_Slices revision))
          ''AppliedEntry does not bind the exact Template entry slice and Runtime'']"

section \<open>Workspace bindings and receipts\<close>

record WorkspaceBinding =
  wb_SchemaVersion :: int
  wb_ID :: WorkspaceID
  wb_ContextID :: ContextID
  wb_ProjectRoot :: string
  wb_Home :: string
  wb_CreationDefaults :: SemanticDigest
  wb_LastSuccessfulEntry :: "WorkspaceAppliedEntry option"

definition WorkspaceBinding_ValidateFor :: "WorkspaceBinding \<Rightarrow> ContextBinding \<Rightarrow> check" where
  "WorkspaceBinding_ValidateFor w context =
     first_error
       [reject (wb_SchemaVersion w \<noteq> 3) ''Workspace binding schema version must be 3'',
        WorkspaceID_Validate (wb_ID w),
        ContextBinding_Validate context,
        reject (wb_ContextID w \<noteq> cb_ID context) ''Workspace binding does not belong to its Context'',
        ValidateCanonicalRoot (wb_ProjectRoot w),
        reject (wb_Home w = [] \<or> \<not> filepath_IsAbs (wb_Home w) \<or> filepath_Clean (wb_Home w) \<noteq> wb_Home w) ''Workspace home is invalid'',
        SemanticDigest_Validate (wb_CreationDefaults w),
        (case wb_LastSuccessfulEntry w of None \<Rightarrow> None | Some e \<Rightarrow> WorkspaceAppliedEntry_ValidateFor e context)]"

record TemplatePolicyActivationReceipt =
  tpr_ContextID :: ContextID
  tpr_TemplateID :: WorkspaceTemplateID
  tpr_PolicySliceDigest :: SemanticDigest

definition TemplatePolicyActivationReceipt_ValidateFor ::
  "(nat list \<Rightarrow> bool) \<Rightarrow> TemplatePolicyActivationReceipt \<Rightarrow> ContextBinding \<Rightarrow> WorkspaceTemplateRevision \<Rightarrow> check" where
  "TemplatePolicyActivationReceipt_ValidateFor pem r context revision =
     first_error
       [ContextBinding_Validate context,
        WorkspaceTemplateRevision_Validate pem revision,
        reject (tpr_ContextID r \<noteq> cb_ID context \<or> tpr_TemplateID r \<noteq> cb_TemplateID context
                \<or> tpr_TemplateID r \<noteq> rev_TemplateID revision \<or> tpr_PolicySliceDigest r \<noteq> sl_PolicySliceDigest (rev_Slices revision))
          ''Template policy activation receipt is inconsistent'']"

record PolicyMemoryActivationReceipt =
  pmar_ContextID :: ContextID
  pmar_Revision :: SemanticDigest

definition PolicyMemoryActivationReceipt_ValidateFor ::
  "PolicyMemoryActivationReceipt \<Rightarrow> ContextBinding \<Rightarrow> PolicyMemoryRevision \<Rightarrow> check" where
  "PolicyMemoryActivationReceipt_ValidateFor r context memory =
     first_error
       [ContextBinding_Validate context,
        PolicyMemoryRevision_Validate memory,
        reject (pmar_ContextID r \<noteq> cb_ID context \<or> pmar_ContextID r \<noteq> pmv_ContextID memory \<or> pmar_Revision r \<noteq> pmv_Revision memory)
          ''Policy Memory activation receipt is inconsistent'']"

section \<open>Context snapshots\<close>

record ContextAuthoritySnapshot =
  cas_Context :: ContextBinding
  cas_Template :: WorkspaceTemplate
  cas_ContextHome :: string
  cas_ContextCreationDefaults :: SemanticDigest
  cas_PolicyMemory :: PolicyMemoryRevision
  cas_ActiveTemplatePolicy :: "TemplatePolicyActivationReceipt option"
  cas_ActivePolicyMemory :: "PolicyMemoryRevision option"
  cas_ActivePolicyMemoryRef :: "PolicyMemoryActivationReceipt option"
  cas_Workspaces :: "WorkspaceBinding list option"
  cas_Workspace :: "WorkspaceBinding option"

text \<open>The Workspaces the checks read: the owned set, or the selected Workspace when the set is empty.\<close>

definition snapshot_workspaces :: "ContextAuthoritySnapshot \<Rightarrow> WorkspaceBinding list" where
  "snapshot_workspaces s =
     (if elems (cas_Workspaces s) = [] then (case cas_Workspace s of None \<Rightarrow> [] | Some w \<Rightarrow> [w]) else elems (cas_Workspaces s))"

definition creation_retained :: "WorkspaceTemplate \<Rightarrow> SemanticDigest \<Rightarrow> bool" where
  "creation_retained t d = list_ex (\<lambda>r. sl_CreationDefaultsDigest (rev_Slices r) = d) (tpl_Retained t)"

fun snapshot_rows ::
  "(nat list \<Rightarrow> bool) \<Rightarrow> ContextAuthoritySnapshot \<Rightarrow> WorkspaceID \<Rightarrow> (string \<Rightarrow> WorkspaceID option) \<Rightarrow> WorkspaceBinding list \<Rightarrow> check" where
  "snapshot_rows pem s previous roots [] = None"
| "snapshot_rows pem s previous roots (w # ws) =
     first_error
       [reject (previous \<noteq> [] \<and> wb_ID w \<le> previous) ''Context snapshot Workspaces must be unique and sorted'',
        WorkspaceBinding_ValidateFor w (cas_Context s),
        reject (cas_ContextHome s \<noteq> [] \<and> (wb_Home w \<noteq> cas_ContextHome s \<or> wb_CreationDefaults w \<noteq> cas_ContextCreationDefaults s))
          ''Workspace does not match Context snapshot Home authority'',
        (case roots (wb_ProjectRoot w) of
           Some owner \<Rightarrow> reject (owner \<noteq> wb_ID w) ''Context snapshot has multiple Workspaces at one Project root''
         | None \<Rightarrow> None),
        (case wb_LastSuccessfulEntry w of
           None \<Rightarrow> None
         | Some e \<Rightarrow> reject (\<not> list_ex (\<lambda>r. WorkspaceAppliedEntry_ValidateForRevision pem e (cas_Context s) r = None) (tpl_Retained (cas_Template s)))
             ''Workspace AppliedEntry has no exact retained Template revision''),
        snapshot_rows pem s (wb_ID w) (roots(wb_ProjectRoot w \<mapsto> wb_ID w)) ws]"

definition selected_check :: "ContextAuthoritySnapshot \<Rightarrow> WorkspaceBinding list \<Rightarrow> WorkspaceBinding \<Rightarrow> check" where
  "selected_check s ws w =
     first_error
       [WorkspaceBinding_ValidateFor w (cas_Context s),
        check_each
          (\<lambda>x. first_error
             [reject (wb_ProjectRoot x = wb_ProjectRoot w \<and> wb_ID x \<noteq> wb_ID w) ''selected Workspace root belongs to another Workspace'',
              reject (wb_ID x = wb_ID w \<and> x \<noteq> w) ''selected Workspace changed retained identity'']) ws,
        reject (ws \<noteq> [] \<and> \<not> list_ex (\<lambda>x. wb_ID x = wb_ID w) ws
                \<and> cas_ContextHome s \<noteq> [] \<and> (wb_Home w \<noteq> cas_ContextHome s \<or> wb_CreationDefaults w \<noteq> cas_ContextCreationDefaults s))
          ''selected Workspace changed Context Home authority'']"

definition ContextAuthoritySnapshot_Validate :: "(nat list \<Rightarrow> bool) \<Rightarrow> ContextAuthoritySnapshot \<Rightarrow> check" where
  "ContextAuthoritySnapshot_Validate pem s =
     (let template = cas_Template s; ws = snapshot_workspaces s
      in first_error
       [ContextBinding_Validate (cas_Context s),
        WorkspaceTemplate_Validate pem template,
        reject (cb_TemplateID (cas_Context s) \<noteq> tpl_ID template) ''Context snapshot crosses Template authority'',
        PolicyMemoryRevision_ValidateFor pem (cas_PolicyMemory s) (cas_Context s) (tpl_Current template),
        (case cas_ActiveTemplatePolicy s of
           None \<Rightarrow> None
         | Some receipt \<Rightarrow> reject (\<not> list_ex (\<lambda>r. TemplatePolicyActivationReceipt_ValidateFor pem receipt (cas_Context s) r = None) (tpl_Retained template))
             ''active Template policy has no exact retained revision''),
        reject ((cas_ActivePolicyMemory s = None) \<noteq> (cas_ActivePolicyMemoryRef s = None))
          ''active Policy Memory revision and receipt must be present together'',
        (case (cas_ActivePolicyMemory s, cas_ActivePolicyMemoryRef s) of
           (Some memory, Some receipt) \<Rightarrow>
             first_error
               [PolicyMemoryRevision_ValidateFor pem memory (cas_Context s) (tpl_Current template),
                PolicyMemoryActivationReceipt_ValidateFor receipt (cas_Context s) memory]
         | _ \<Rightarrow> None),
        reject ((cas_ContextHome s = []) \<noteq> (cas_ContextCreationDefaults s = [])) ''Context snapshot Home authority is incomplete'',
        (if cas_ContextHome s \<noteq> [] then
           first_error
             [reject (\<not> filepath_IsAbs (cas_ContextHome s) \<or> filepath_Clean (cas_ContextHome s) \<noteq> cas_ContextHome s)
                ''Context snapshot Home authority is invalid'',
              wrap ''Context snapshot Home creation authority is invalid'' (SemanticDigest_Validate (cas_ContextCreationDefaults s)),
              reject (\<not> creation_retained template (cas_ContextCreationDefaults s))
                ''Context snapshot Home creation authority has no retained Template revision'']
         else reject (ws \<noteq> []) ''Context snapshot Workspaces require Context Home authority''),
        snapshot_rows pem s [] Map.empty ws,
        (case cas_Workspace s of None \<Rightarrow> None | Some w \<Rightarrow> selected_check s ws w)])"

definition ContextAuthoritySnapshot_Clone :: "ContextAuthoritySnapshot \<Rightarrow> ContextAuthoritySnapshot" where
  "ContextAuthoritySnapshot_Clone s =
     s\<lparr> cas_Template := WorkspaceTemplate_Clone (cas_Template s),
        cas_PolicyMemory := PolicyMemoryRevision_Clone (cas_PolicyMemory s),
        cas_ActivePolicyMemory := map_option PolicyMemoryRevision_Clone (cas_ActivePolicyMemory s),
        cas_Workspaces := Some (snapshot_workspaces s) \<rparr>"

definition SelectWorkspace :: "(nat list \<Rightarrow> bool) \<Rightarrow> ContextAuthoritySnapshot \<Rightarrow> WorkspaceID \<Rightarrow> ContextAuthoritySnapshot result" where
  "SelectWorkspace pem s i =
     guarded (ContextAuthoritySnapshot_Validate pem s)
       (let copy = (ContextAuthoritySnapshot_Clone s)\<lparr> cas_Workspace := None \<rparr>
        in case List.find (\<lambda>w. wb_ID w = i) (elems (cas_Workspaces copy)) of
             None \<Rightarrow> Inl ''Workspace does not exist''
           | Some w \<Rightarrow> let r = copy\<lparr> cas_Workspace := Some w \<rparr> in checked (ContextAuthoritySnapshot_Validate pem r) r)"

definition SelectWorkspaceAtRoot :: "(nat list \<Rightarrow> bool) \<Rightarrow> ContextAuthoritySnapshot \<Rightarrow> string \<Rightarrow> ContextAuthoritySnapshot result" where
  "SelectWorkspaceAtRoot pem s projectRoot =
     guarded (first_error [ValidateCanonicalRoot projectRoot, ContextAuthoritySnapshot_Validate pem s])
       (let copy = (ContextAuthoritySnapshot_Clone s)\<lparr> cas_Workspace := None \<rparr>;
            here = filter (\<lambda>w. wb_ProjectRoot w = projectRoot) (elems (cas_Workspaces copy))
        in if 1 < length here then Inl ''Context has multiple Workspaces at one Project root''
           else let r = copy\<lparr> cas_Workspace := (case here of [] \<Rightarrow> None | w # _ \<Rightarrow> Some w) \<rparr>
                in checked (ContextAuthoritySnapshot_Validate pem r) r)"

section \<open>Entry reconciliation\<close>

record WorkspaceEntryReconciliationPlan =
  erp_Workspace :: WorkspaceBinding
  erp_Applied :: WorkspaceAppliedEntry
  erp_Authority :: WorkspaceTemplateEntryAuthority
  erp_CreationDefaults :: WorkspaceTemplateCreationDefaults
  erp_InitializeContextHome :: bool
  erp_RecoverContextHome :: bool
  erp_Network :: WorkspaceRuntimeNetworkAuthority

definition reflectWorkspaceTemplateCreationDefaults ::
  "WorkspaceTemplateCreationDefaults \<Rightarrow> WorkspaceTemplateCreationDefaults \<Rightarrow> bool" where
  "reflectWorkspaceTemplateCreationDefaults left right =
     (semanticDigest (WorkspaceTemplateCreationDefaults_json left) = semanticDigest (WorkspaceTemplateCreationDefaults_json right))"

text \<open>A retained revision that carries the creation defaults the plan binds.\<close>

definition plan_retains :: "(nat list \<Rightarrow> bool) \<Rightarrow> WorkspaceEntryReconciliationPlan \<Rightarrow> WorkspaceTemplateRevision \<Rightarrow> bool" where
  "plan_retains pem p r =
     (sl_CreationDefaultsDigest (rev_Slices r) = wb_CreationDefaults (erp_Workspace p)
      \<and> WorkspaceTemplateCreationDefaults_Validate pem (tb_CreationDefaults (rev_Body r)) = None)"

definition plan_retained_check :: "(nat list \<Rightarrow> bool) \<Rightarrow> WorkspaceEntryReconciliationPlan \<Rightarrow> ContextAuthoritySnapshot \<Rightarrow> check" where
  "plan_retained_check pem p s =
     (let rs = filter (plan_retains pem p) (tpl_Retained (cas_Template s))
      in first_error
           [check_each (\<lambda>r. reject (\<not> reflectWorkspaceTemplateCreationDefaults (tb_CreationDefaults (rev_Body r)) (erp_CreationDefaults p))
                              ''Workspace entry retained creation authority is ambiguous'') rs,
            reject (rs = []) ''Workspace entry retained creation authority is unavailable''])"

definition plan_first_publication :: "WorkspaceEntryReconciliationPlan \<Rightarrow> ContextAuthoritySnapshot \<Rightarrow> bool" where
  "plan_first_publication p s =
     (cas_ContextHome s = wb_Home (erp_Workspace p) \<and> cas_ContextCreationDefaults s = wb_CreationDefaults (erp_Workspace p)
      \<and> length (elems (cas_Workspaces s)) = 1
      \<and> (case cas_Workspace s of
             None \<Rightarrow> False
           | Some w \<Rightarrow> wb_ID w = wb_ID (erp_Workspace p) \<and> wb_LastSuccessfulEntry w = Some (erp_Applied p)))"

definition plan_home_check :: "WorkspaceEntryReconciliationPlan \<Rightarrow> ContextAuthoritySnapshot \<Rightarrow> check" where
  "plan_home_check p s =
     (if cas_ContextHome s = [] \<and> elems (cas_Workspaces s) = [] \<and> cas_Workspace s = None then
        reject (\<not> erp_InitializeContextHome p \<and> \<not> erp_RecoverContextHome p)
          ''first Workspace entry plan must initialize or recover Context Home''
      else if erp_InitializeContextHome p \<or> erp_RecoverContextHome p then
        reject (\<not> plan_first_publication p s) ''Workspace entry plan Context Home transition fact is inconsistent''
      else None)"

definition plan_creation_check :: "WorkspaceEntryReconciliationPlan \<Rightarrow> ContextAuthoritySnapshot \<Rightarrow> check" where
  "plan_creation_check p s =
     (let w = erp_Workspace p
      in case cas_Workspace s of
           Some v \<Rightarrow>
             reject (wb_ID w \<noteq> wb_ID v \<or> wb_ContextID w \<noteq> wb_ContextID v \<or> wb_ProjectRoot w \<noteq> wb_ProjectRoot v
                     \<or> wb_Home w \<noteq> wb_Home v \<or> wb_CreationDefaults w \<noteq> wb_CreationDefaults v)
               ''Workspace entry plan changed create-once Workspace authority''
         | None \<Rightarrow>
             if cas_ContextHome s \<noteq> [] then
               reject (wb_Home w \<noteq> cas_ContextHome s \<or> wb_CreationDefaults w \<noteq> cas_ContextCreationDefaults s)
                 ''new Workspace entry plan changed Context Home creation authority''
             else (case elems (cas_Workspaces s) of
                     owner # _ \<Rightarrow> reject (wb_Home w \<noteq> wb_Home owner \<or> wb_CreationDefaults w \<noteq> wb_CreationDefaults owner)
                       ''new sibling Workspace entry plan changed Context Home creation authority''
                   | [] \<Rightarrow> reject (erp_InitializeContextHome p
                                   \<and> wb_CreationDefaults w \<noteq> sl_CreationDefaultsDigest (rev_Slices (tpl_Current (cas_Template s))))
                       ''first Workspace entry plan does not bind current creation defaults''))"

definition WorkspaceEntryReconciliationPlan_ValidateFor ::
  "(nat list \<Rightarrow> bool) \<Rightarrow> WorkspaceEntryReconciliationPlan \<Rightarrow> ContextAuthoritySnapshot \<Rightarrow> check" where
  "WorkspaceEntryReconciliationPlan_ValidateFor pem p s =
     (let current = tpl_Current (cas_Template s)
      in first_error
       [ContextAuthoritySnapshot_Validate pem s,
        WorkspaceBinding_ValidateFor (erp_Workspace p) (cas_Context s),
        WorkspaceAppliedEntry_ValidateForRevision pem (erp_Applied p) (cas_Context s) current,
        wrap ''Workspace entry plan authority'' (WorkspaceTemplateEntryAuthority_ValidateFor pem (erp_Authority p) current),
        wrap ''Workspace entry retained creation authority'' (WorkspaceTemplateCreationDefaults_Validate pem (erp_CreationDefaults p)),
        reject (semanticDigest (WorkspaceTemplateCreationDefaults_json (erp_CreationDefaults p)) \<noteq> wb_CreationDefaults (erp_Workspace p))
          ''Workspace entry retained creation authority is inconsistent'',
        plan_retained_check pem p s,
        WorkspaceRuntimeNetworkAuthority_ValidateFor (erp_Network p) (wb_ID (erp_Workspace p)),
        reject (wb_LastSuccessfulEntry (erp_Workspace p) \<noteq> Some (erp_Applied p))
          ''Workspace entry plan does not publish its exact AppliedEntry'',
        reject (erp_InitializeContextHome p \<and> erp_RecoverContextHome p)
          ''Workspace entry plan cannot initialize and recover Context Home'',
        plan_home_check p s,
        plan_creation_check p s])"

definition WorkspaceEntryReconciliationPlan_Clone :: "WorkspaceEntryReconciliationPlan \<Rightarrow> WorkspaceEntryReconciliationPlan" where
  "WorkspaceEntryReconciliationPlan_Clone p =
     p\<lparr> erp_Authority := (erp_Authority p)\<lparr> ea_SessionDefaults := WorkspaceTemplateSessionDefaults_Clone (ea_SessionDefaults (erp_Authority p)),
                                            ea_CreationDefaults := WorkspaceTemplateCreationDefaults_Clone (ea_CreationDefaults (erp_Authority p)) \<rparr>,
        erp_CreationDefaults := WorkspaceTemplateCreationDefaults_Clone (erp_CreationDefaults p) \<rparr>"

record WorkspaceEntryReconciliationReceipt =
  err_WorkspaceID :: WorkspaceID
  err_ContextID :: ContextID
  err_Applied :: WorkspaceAppliedEntry
  err_ContainerID :: string

definition validateWorkspaceContainerID :: "string \<Rightarrow> check" where
  "validateWorkspaceContainerID v =
     first_error
       [reject (length v \<noteq> 64) ''Workspace entry container observation is invalid'',
        check_each (\<lambda>c. reject (\<not> (97 \<le> c \<and> c \<le> 102 \<or> 48 \<le> c \<and> c \<le> 57)) ''Workspace entry container observation is invalid'') (runes v)]"

definition WorkspaceEntryReconciliationReceipt_ValidateFor ::
  "WorkspaceEntryReconciliationReceipt \<Rightarrow> WorkspaceEntryReconciliationPlan \<Rightarrow> check" where
  "WorkspaceEntryReconciliationReceipt_ValidateFor r p =
     first_error
       [WorkspaceID_Validate (wb_ID (erp_Workspace p)),
        reject (err_WorkspaceID r \<noteq> wb_ID (erp_Workspace p) \<or> err_ContextID r \<noteq> wb_ContextID (erp_Workspace p) \<or> err_Applied r \<noteq> erp_Applied p)
          ''Workspace entry receipt does not confirm its exact plan'',
        validateWorkspaceContainerID (err_ContainerID r)]"

section \<open>Sessions\<close>

record WorkspaceSessionIdentity =
  wsi_AuthorityDigest :: SemanticDigest
  wsi_ContextID :: ContextID
  wsi_WorkspaceID :: WorkspaceID
  wsi_TemplateID :: WorkspaceTemplateID
  wsi_ContextPresentation :: string
  wsi_ProjectRoot :: string

definition workspaceSessionIdentityDigest :: "WorkspaceSessionIdentity \<Rightarrow> SemanticDigest" where
  "workspaceSessionIdentityDigest i =
     semanticDigest (json_struct
       [(''ContextID'', Some (JString (wsi_ContextID i))), (''WorkspaceID'', Some (JString (wsi_WorkspaceID i))),
        (''TemplateID'', Some (JString (wsi_TemplateID i))), (''ContextPresentation'', Some (JString (wsi_ContextPresentation i))),
        (''ProjectRoot'', Some (JString (wsi_ProjectRoot i)))])"

definition WorkspaceSessionIdentity_Validate :: "WorkspaceSessionIdentity \<Rightarrow> check" where
  "WorkspaceSessionIdentity_Validate i =
     first_error
       [SemanticDigest_Validate (wsi_AuthorityDigest i),
        ContextID_Validate (wsi_ContextID i),
        WorkspaceID_Validate (wsi_WorkspaceID i),
        WorkspaceTemplateID_Validate (wsi_TemplateID i),
        wrap ''Workspace session Context presentation is invalid'' (ValidateName (wsi_ContextPresentation i)),
        ValidateCanonicalRoot (wsi_ProjectRoot i),
        reject (workspaceSessionIdentityDigest i \<noteq> wsi_AuthorityDigest i)
          ''Workspace session identity does not match its complete authority digest'']"

definition sealed_identity :: "ContextID \<Rightarrow> WorkspaceID \<Rightarrow> WorkspaceTemplateID \<Rightarrow> string \<Rightarrow> string \<Rightarrow> WorkspaceSessionIdentity" where
  "sealed_identity c w t name root =
     (let i = \<lparr> wsi_AuthorityDigest = [], wsi_ContextID = c, wsi_WorkspaceID = w, wsi_TemplateID = t,
                wsi_ContextPresentation = name, wsi_ProjectRoot = root \<rparr>
      in i\<lparr> wsi_AuthorityDigest := workspaceSessionIdentityDigest i \<rparr>)"

definition NewWorkspaceSessionIdentity :: "(nat list \<Rightarrow> bool) \<Rightarrow> ContextAuthoritySnapshot \<Rightarrow> WorkspaceSessionIdentity result" where
  "NewWorkspaceSessionIdentity pem s =
     guarded (ContextAuthoritySnapshot_Validate pem s)
       (case cas_Workspace s of
          None \<Rightarrow> Inl ''Workspace session identity requires one Workspace''
        | Some w \<Rightarrow>
            let i = sealed_identity (cb_ID (cas_Context s)) (wb_ID w) (tpl_ID (cas_Template s)) (tpl_Name (cas_Template s)) (wb_ProjectRoot w)
            in checked (WorkspaceSessionIdentity_Validate i) i)"

record WorkspaceSessionBinding =
  wsb_AuthorityDigest :: SemanticDigest
  wsb_ContextID :: ContextID
  wsb_WorkspaceID :: WorkspaceID
  wsb_TemplateID :: WorkspaceTemplateID
  wsb_TemplateRevision :: SemanticDigest
  wsb_ProjectRoot :: string
  wsb_WorkspaceHome :: string
  wsb_ContextPresentation :: string
  wsb_AppliedEntry :: WorkspaceAppliedEntry
  wsb_SessionDefaults :: WorkspaceTemplateSessionDefaults
  wsb_SessionDefaultsDigest :: SemanticDigest
  wsb_ContainerID :: string

text \<open>The encoding of an applied entry; there is none when its time has none.\<close>

definition WorkspaceAppliedEntry_json :: "WorkspaceAppliedEntry \<Rightarrow> json option" where
  "WorkspaceAppliedEntry_json a =
     map_option
       (\<lambda>at. json_struct
          [(''context_id'', Some (JString (ae_ContextID a))), (''workspace_template_id'', Some (JString (ae_TemplateID a))),
           (''workspace_template_revision'', Some (JString (ae_TemplateRevision a))), (''entry_slice_digest'', Some (JString (ae_EntrySliceDigest a))),
           (''runtime_id'', Some (JString (ae_RuntimeID a))), (''runtime_revision'', Some (JString (ae_RuntimeRevision a))),
           (''resolved_spec_revision'', Some (JString (ae_ResolvedSpec a))), (''reconciled_at'', Some (JString at))])
       (time_MarshalJSON (ae_ReconciledAt a))"

definition workspaceSessionBindingDigest :: "WorkspaceSessionBinding \<Rightarrow> SemanticDigest option" where
  "workspaceSessionBindingDigest b =
     map_option
       (\<lambda>entry. semanticDigest (json_struct
          [(''ContextID'', Some (JString (wsb_ContextID b))), (''WorkspaceID'', Some (JString (wsb_WorkspaceID b))),
           (''TemplateID'', Some (JString (wsb_TemplateID b))), (''TemplateRevision'', Some (JString (wsb_TemplateRevision b))),
           (''ProjectRoot'', Some (JString (wsb_ProjectRoot b))), (''WorkspaceHome'', Some (JString (wsb_WorkspaceHome b))),
           (''ContextPresentation'', Some (JString (wsb_ContextPresentation b))), (''AppliedEntry'', Some entry),
           (''SessionDefaults'', Some (WorkspaceTemplateSessionDefaults_json (WorkspaceTemplateSessionDefaults_Clone (wsb_SessionDefaults b)))),
           (''SessionDefaultsDigest'', Some (JString (wsb_SessionDefaultsDigest b))), (''ContainerID'', Some (JString (wsb_ContainerID b)))]))
       (WorkspaceAppliedEntry_json (wsb_AppliedEntry b))"

definition WorkspaceSessionBinding_Validate :: "WorkspaceSessionBinding \<Rightarrow> check" where
  "WorkspaceSessionBinding_Validate b =
     first_error
       [SemanticDigest_Validate (wsb_AuthorityDigest b),
        ContextID_Validate (wsb_ContextID b),
        WorkspaceID_Validate (wsb_WorkspaceID b),
        WorkspaceTemplateID_Validate (wsb_TemplateID b),
        SemanticDigest_Validate (wsb_TemplateRevision b),
        ValidateCanonicalRoot (wsb_ProjectRoot b),
        reject (wsb_WorkspaceHome b = [] \<or> \<not> filepath_IsAbs (wsb_WorkspaceHome b) \<or> filepath_Clean (wsb_WorkspaceHome b) \<noteq> wsb_WorkspaceHome b)
          ''Workspace session home is invalid'',
        wrap ''Workspace session Context presentation is invalid'' (ValidateName (wsb_ContextPresentation b)),
        WorkspaceAppliedEntry_Validate (wsb_AppliedEntry b),
        reject (ae_ContextID (wsb_AppliedEntry b) \<noteq> wsb_ContextID b \<or> ae_TemplateID (wsb_AppliedEntry b) \<noteq> wsb_TemplateID b
                \<or> ae_TemplateRevision (wsb_AppliedEntry b) \<noteq> wsb_TemplateRevision b)
          ''Workspace session AppliedEntry crosses final identity'',
        WorkspaceTemplateSessionDefaults_Validate (wsb_SessionDefaults b),
        reject (semanticDigest (WorkspaceTemplateSessionDefaults_json (wsb_SessionDefaults b)) \<noteq> wsb_SessionDefaultsDigest b)
          ''Workspace session defaults do not match their exact Template slice'',
        validateWorkspaceContainerID (wsb_ContainerID b),
        reject (workspaceSessionBindingDigest b \<noteq> Some (wsb_AuthorityDigest b))
          ''Workspace session binding does not match its complete authority digest'']"

definition NewWorkspaceSessionBinding ::
  "(nat list \<Rightarrow> bool) \<Rightarrow> ContextAuthoritySnapshot \<Rightarrow> WorkspaceEntryReconciliationReceipt \<Rightarrow> WorkspaceSessionBinding result" where
  "NewWorkspaceSessionBinding pem s receipt =
     guarded (ContextAuthoritySnapshot_Validate pem s)
       (case Option.bind (cas_Workspace s) (\<lambda>w. map_option (Pair w) (wb_LastSuccessfulEntry w)) of
          None \<Rightarrow> Inl ''Workspace session requires one last-successful AppliedEntry''
        | Some (w, entry) \<Rightarrow>
            let current = tpl_Current (cas_Template s);
                b = \<lparr> wsb_AuthorityDigest = [], wsb_ContextID = cb_ID (cas_Context s), wsb_WorkspaceID = wb_ID w,
                      wsb_TemplateID = tpl_ID (cas_Template s), wsb_TemplateRevision = rev_Revision current,
                      wsb_ProjectRoot = wb_ProjectRoot w, wsb_WorkspaceHome = wb_Home w,
                      wsb_ContextPresentation = tpl_Name (cas_Template s), wsb_AppliedEntry = entry,
                      wsb_SessionDefaults = WorkspaceTemplateSessionDefaults_Clone (tb_SessionDefaults (rev_Body current)),
                      wsb_SessionDefaultsDigest = sl_SessionDefaultsDigest (rev_Slices current), wsb_ContainerID = err_ContainerID receipt \<rparr>
            in guarded
                 (first_error
                    [wrap ''Workspace session requires the current Template entry authority''
                       (WorkspaceAppliedEntry_ValidateForRevision pem entry (cas_Context s) current),
                     reject (err_WorkspaceID receipt \<noteq> wb_ID w \<or> err_ContextID receipt \<noteq> cb_ID (cas_Context s) \<or> err_Applied receipt \<noteq> entry)
                       ''Workspace session receipt does not belong to the final authority snapshot'',
                     validateWorkspaceContainerID (err_ContainerID receipt)])
                 (case workspaceSessionBindingDigest b of
                    None \<Rightarrow> Inl ''Time.MarshalJSON: year outside of range [0,9999]''
                  | Some digest \<Rightarrow> let r = b\<lparr> wsb_AuthorityDigest := digest \<rparr> in checked (WorkspaceSessionBinding_Validate r) r))"

definition WorkspaceSessionBinding_Clone :: "WorkspaceSessionBinding \<Rightarrow> WorkspaceSessionBinding" where
  "WorkspaceSessionBinding_Clone b = b\<lparr> wsb_SessionDefaults := WorkspaceTemplateSessionDefaults_Clone (wsb_SessionDefaults b) \<rparr>"

definition WorkspaceSessionBinding_Identity :: "WorkspaceSessionBinding \<Rightarrow> WorkspaceSessionIdentity result" where
  "WorkspaceSessionBinding_Identity b =
     guarded (WorkspaceSessionBinding_Validate b)
       (let i = sealed_identity (wsb_ContextID b) (wsb_WorkspaceID b) (wsb_TemplateID b) (wsb_ContextPresentation b) (wsb_ProjectRoot b)
        in checked (WorkspaceSessionIdentity_Validate i) i)"

section \<open>Selections\<close>

lemma snapshot_rows_frame:
  assumes "cas_Context s = cas_Context t" "cas_ContextHome s = cas_ContextHome t"
    "cas_ContextCreationDefaults s = cas_ContextCreationDefaults t" "cas_Template s = cas_Template t"
  shows "snapshot_rows pem s previous roots ws = snapshot_rows pem t previous roots ws"
  using assms by (induction ws arbitrary: previous roots) (simp_all cong: option.case_cong)

text \<open>What each Workspace of a snapshot satisfies.\<close>

definition row_ok :: "(nat list \<Rightarrow> bool) \<Rightarrow> ContextAuthoritySnapshot \<Rightarrow> WorkspaceBinding \<Rightarrow> bool" where
  "row_ok pem s w =
     (WorkspaceBinding_ValidateFor w (cas_Context s) = None
      \<and> (cas_ContextHome s \<noteq> [] \<longrightarrow> wb_Home w = cas_ContextHome s \<and> wb_CreationDefaults w = cas_ContextCreationDefaults s)
      \<and> (\<forall>e. wb_LastSuccessfulEntry w = Some e \<longrightarrow>
           (\<exists>r \<in> set (tpl_Retained (cas_Template s)). WorkspaceAppliedEntry_ValidateForRevision pem e (cas_Context s) r = None)))"

definition one_per_root :: "WorkspaceBinding list \<Rightarrow> bool" where
  "one_per_root ws = (\<forall>w \<in> set ws. \<forall>v \<in> set ws. wb_ProjectRoot w = wb_ProjectRoot v \<longrightarrow> wb_ID w = wb_ID v)"

lemma one_per_root_Cons:
  "one_per_root (w # ws) \<longleftrightarrow> one_per_root ws \<and> (\<forall>v \<in> set ws. wb_ProjectRoot w = wb_ProjectRoot v \<longrightarrow> wb_ID w = wb_ID v)"
  unfolding one_per_root_def list.set(2)
  by (rule pairwise_insert[of "\<lambda>w v. wb_ProjectRoot w = wb_ProjectRoot v \<longrightarrow> wb_ID w = wb_ID v"]) auto

lemma binding_id_nonempty: "WorkspaceBinding_ValidateFor w c = None \<Longrightarrow> wb_ID w \<noteq> []"
proof
  assume v: "WorkspaceBinding_ValidateFor w c = None" "wb_ID w = []"
  have "WorkspaceID_Validate [] \<noteq> None" by code_simp
  then show False using v by (simp add: WorkspaceBinding_ValidateFor_def first_error_None)
qed

lemma snapshot_rows_valid:
  "snapshot_rows pem s previous roots ws = None \<longleftrightarrow>
     (\<forall>w \<in> set ws. row_ok pem s w) \<and> sorted_wrt (<) (map wb_ID ws)
     \<and> (previous \<noteq> [] \<longrightarrow> (\<forall>w \<in> set ws. previous < wb_ID w))
     \<and> (\<forall>w \<in> set ws. \<forall>i. roots (wb_ProjectRoot w) = Some i \<longrightarrow> i = wb_ID w) \<and> one_per_root ws"
proof (induction ws arbitrary: previous roots)
  case (Cons w ws)
  note roots = registered[of roots wb_ProjectRoot w wb_ID "set ws"]
  have row: "first_error [WorkspaceBinding_ValidateFor w (cas_Context s),
        reject (cas_ContextHome s \<noteq> [] \<and> (wb_Home w \<noteq> cas_ContextHome s \<or> wb_CreationDefaults w \<noteq> cas_ContextCreationDefaults s))
          ''Workspace does not match Context snapshot Home authority'',
        (case wb_LastSuccessfulEntry w of
           None \<Rightarrow> None
         | Some e \<Rightarrow> reject (\<not> list_ex (\<lambda>r. WorkspaceAppliedEntry_ValidateForRevision pem e (cas_Context s) r = None) (tpl_Retained (cas_Template s)))
             ''Workspace AppliedEntry has no exact retained Template revision'')] = None \<longleftrightarrow> row_ok pem s w"
    unfolding first_error_None reject_None first_error.simps(1) row_ok_def
    by (cases "wb_LastSuccessfulEntry w") (auto simp add: reject_None list_ex_iff)
  have order: "row_ok pem s w \<Longrightarrow>
      (\<not> (previous \<noteq> [] \<and> wb_ID w \<le> previous)) \<and> (wb_ID w \<noteq> [] \<longrightarrow> (\<forall>v \<in> set ws. wb_ID w < wb_ID v))
      \<longleftrightarrow> (previous \<noteq> [] \<longrightarrow> (\<forall>v \<in> insert w (set ws). previous < wb_ID v)) \<and> (\<forall>v \<in> set ws. wb_ID w < wb_ID v)"
    using binding_id_nonempty by (auto simp: row_ok_def not_le intro: less_trans)
  have sorted: "sorted_wrt (<) (map wb_ID (w # ws)) \<longleftrightarrow> sorted_wrt (<) (map wb_ID ws) \<and> (\<forall>v \<in> set ws. wb_ID w < wb_ID v)" by auto
  have all: "(\<forall>v \<in> set (w # ws). row_ok pem s v) \<longleftrightarrow> row_ok pem s w \<and> (\<forall>v \<in> set ws. row_ok pem s v)" by simp
  show ?case
    unfolding all sorted one_per_root_Cons snapshot_rows.simps first_error_None first_error.simps(1) Cons.IH lookup_check
    using roots order row unfolding reject_None first_error_None first_error.simps(1) list.set(2)
    by satx
qed (simp add: one_per_root_def)

lemma sorted_same_id:
  fixes f :: "'a \<Rightarrow> string"
  assumes "sorted_wrt (<) (map f xs)" "x \<in> set xs" "y \<in> set xs" "f x = f y"
  shows "x = y"
  using assms strict_sorted_iff[of "map f xs"] by (simp add: distinct_map inj_on_def)

lemma snapshot_rows_facts:
  assumes "snapshot_rows pem s previous roots ws = None"
  shows "\<And>w. w \<in> set ws \<Longrightarrow> row_ok pem s w" "sorted_wrt (<) (map wb_ID ws)"
    "\<And>w v. w \<in> set ws \<Longrightarrow> v \<in> set ws \<Longrightarrow> wb_ProjectRoot w = wb_ProjectRoot v \<Longrightarrow> w = v"
proof -
  note r = assms[unfolded snapshot_rows_valid]
  show "\<And>w. w \<in> set ws \<Longrightarrow> row_ok pem s w" "sorted_wrt (<) (map wb_ID ws)" using r by blast+
  show "w = v" if "w \<in> set ws" "v \<in> set ws" "wb_ProjectRoot w = wb_ProjectRoot v" for w v
  proof -
    have "wb_ID w = wb_ID v" using r that unfolding one_per_root_def by blast
    then show ?thesis using r that sorted_same_id[of wb_ID ws w v] by blast
  qed
qed

text \<open>The stored rules of a snapshot have no \<open>nil\<close> slice, as decoded and published ones have none.\<close>

definition explicit_memory :: "ContextAuthoritySnapshot \<Rightarrow> bool" where
  "explicit_memory s =
     (PolicyMemoryRevision_Clone (cas_PolicyMemory s) = cas_PolicyMemory s
      \<and> (\<forall>m. cas_ActivePolicyMemory s = Some m \<longrightarrow> PolicyMemoryRevision_Clone m = m))"

lemma snapshot_parts:
  assumes "ContextAuthoritySnapshot_Validate pem s = None"
  shows "ContextBinding_Validate (cas_Context s) = None" "WorkspaceTemplate_Validate pem (cas_Template s) = None"
    "cb_TemplateID (cas_Context s) = tpl_ID (cas_Template s)"
    "snapshot_rows pem s [] Map.empty (snapshot_workspaces s) = None"
    "cas_ContextHome s = [] \<Longrightarrow> snapshot_workspaces s = []"
    "\<And>w. cas_Workspace s = Some w \<Longrightarrow> selected_check s (snapshot_workspaces s) w = None"
proof -
  note v = assms[unfolded ContextAuthoritySnapshot_Validate_def Let_def first_error_None reject_None]
  show "ContextBinding_Validate (cas_Context s) = None" using v by (rule conjunct1)
  show "WorkspaceTemplate_Validate pem (cas_Template s) = None" using v by (elim conjE)
  show "cb_TemplateID (cas_Context s) = tpl_ID (cas_Template s)" using v by (elim conjE) (erule notnotD)
  show "snapshot_rows pem s [] Map.empty (snapshot_workspaces s) = None" using v by (elim conjE)
  show "cas_ContextHome s = [] \<Longrightarrow> snapshot_workspaces s = []" using v by (simp add: reject_None)
  show "selected_check s (snapshot_workspaces s) w = None" if "cas_Workspace s = Some w" for w using v that by simp
qed

lemma context_snapshot_Clone_id:
  assumes "ContextAuthoritySnapshot_Validate pem s = None" "explicit_memory s"
  shows "ContextAuthoritySnapshot_Clone s = s\<lparr> cas_Workspaces := Some (snapshot_workspaces s) \<rparr>"
proof -
  have "map_option PolicyMemoryRevision_Clone (cas_ActivePolicyMemory s) = cas_ActivePolicyMemory s"
    using assms(2) by (cases "cas_ActivePolicyMemory s") (simp_all add: explicit_memory_def)
  then show ?thesis
    using assms(2) template_Clone_id[OF snapshot_parts(2)[OF assms(1)]]
    by (simp add: ContextAuthoritySnapshot_Clone_def explicit_memory_def)
qed

lemma snapshot_select:
  assumes v: "ContextAuthoritySnapshot_Validate pem s = None"
    and w: "\<And>x. w = Some x \<Longrightarrow> x \<in> set (snapshot_workspaces s)"
  shows "ContextAuthoritySnapshot_Validate pem (s\<lparr> cas_Workspaces := Some (snapshot_workspaces s), cas_Workspace := w \<rparr>) = None"
proof -
  let ?r = "s\<lparr> cas_Workspaces := Some (snapshot_workspaces s), cas_Workspace := w \<rparr>"
  have ws: "snapshot_workspaces ?r = snapshot_workspaces s"
    using w by (cases w) (auto simp: snapshot_workspaces_def split: option.splits)
  have rows: "snapshot_rows pem ?r [] Map.empty (snapshot_workspaces s) = None"
    using snapshot_rows_frame[of ?r s] snapshot_parts(4)[OF v] by simp
  have sel: "selected_check ?r (snapshot_workspaces s) x = None" if "w = Some x" for x
  proof -
    note r = snapshot_rows_facts[OF snapshot_parts(4)[OF v]]
    have x: "x \<in> set (snapshot_workspaces s)" using w that by blast
    then have b: "WorkspaceBinding_ValidateFor x (cas_Context s) = None" using r(1) by (simp add: row_ok_def)
    have same: "\<forall>y \<in> set (snapshot_workspaces s). \<not> (wb_ProjectRoot y = wb_ProjectRoot x \<and> wb_ID y \<noteq> wb_ID x)"
      using r(3)[OF _ x] by blast
    have kept: "\<forall>y \<in> set (snapshot_workspaces s). \<not> (wb_ID y = wb_ID x \<and> y \<noteq> x)"
      using sorted_same_id[OF r(2) _ x] by blast
    have own: "\<exists>y \<in> set (snapshot_workspaces s). wb_ID y = wb_ID x" using x by blast
    show ?thesis using b same kept own
      unfolding selected_check_def first_error_None reject_None check_each_None list_ex_iff first_error.simps(1) by simp
  qed
  note u = v[unfolded ContextAuthoritySnapshot_Validate_def Let_def first_error_None]
  have f: "cas_Context ?r = cas_Context s" "cas_Template ?r = cas_Template s" "cas_ContextHome ?r = cas_ContextHome s"
    "cas_ContextCreationDefaults ?r = cas_ContextCreationDefaults s" "cas_PolicyMemory ?r = cas_PolicyMemory s"
    "cas_ActiveTemplatePolicy ?r = cas_ActiveTemplatePolicy s" "cas_ActivePolicyMemory ?r = cas_ActivePolicyMemory s"
    "cas_ActivePolicyMemoryRef ?r = cas_ActivePolicyMemoryRef s" "cas_Workspace ?r = w"
    by simp_all
  have last: "(case w of None \<Rightarrow> None | Some x \<Rightarrow> selected_check ?r (snapshot_workspaces s) x) = None"
    using sel by (cases w) simp_all
  show ?thesis
    unfolding ContextAuthoritySnapshot_Validate_def Let_def first_error_None ws f
    using u rows last by satx
qed

text \<open>C16: Selecting a Workspace of a coherent snapshot is exact. By Project root, the selection always succeeds:
  it gives the one Workspace of the Context at that root, or none when there is none, and changes nothing else but
  making the owned set explicit. By identifier it succeeds exactly when the Context owns the Workspace, and selects it.
  The selected snapshot is coherent again, so every later check of it passes.\<close>

theorem selection_is_exact:
  assumes "ContextAuthoritySnapshot_Validate pem s = None" "explicit_memory s"
  shows "ValidateCanonicalRoot root = None \<Longrightarrow>
     (\<exists>w. SelectWorkspaceAtRoot pem s root = Inr (s\<lparr> cas_Workspaces := Some (snapshot_workspaces s), cas_Workspace := w \<rparr>)
        \<and> (\<forall>v. w = Some v \<longleftrightarrow> v \<in> set (snapshot_workspaces s) \<and> wb_ProjectRoot v = root))
   \<and> (\<forall>r. SelectWorkspaceAtRoot pem s root = Inr r \<longrightarrow> ContextAuthoritySnapshot_Validate pem r = None)
   \<and> SelectWorkspace pem s i =
       (case List.find (\<lambda>v. wb_ID v = i) (snapshot_workspaces s) of
          None \<Rightarrow> Inl ''Workspace does not exist''
        | Some v \<Rightarrow> Inr (s\<lparr> cas_Workspaces := Some (snapshot_workspaces s), cas_Workspace := Some v \<rparr>))"
proof (intro conjI)
  assume root: "ValidateCanonicalRoot root = None"
  let ?ws = "snapshot_workspaces s"
  define here where "here = filter (\<lambda>v. wb_ProjectRoot v = root) ?ws"
  note r = snapshot_rows_facts[OF snapshot_parts(4)[OF assms(1)]]
  have in_here: "v \<in> set here \<longleftrightarrow> v \<in> set ?ws \<and> wb_ProjectRoot v = root" for v by (auto simp: here_def)
  have "distinct ?ws" using r(2) strict_sorted_iff[of "map wb_ID ?ws"] by (simp add: distinct_map)
  then have d: "distinct here" by (simp add: here_def)
  have few: "here = [] \<or> (\<exists>v. here = [v])"
  proof (cases here)
    case (Cons v vs)
    have "x = v" if "x \<in> set vs" for x
      using in_here[of x] in_here[of v] that by (intro r(3)) (simp_all add: Cons)
    then have "vs = []" using d by (cases vs) (auto simp: Cons)
    then show ?thesis using Cons by simp
  qed simp
  define w where "w = (case here of [] \<Rightarrow> None | v # _ \<Rightarrow> Some v)"
  have "w = Some v \<longleftrightarrow> v \<in> set here" for v using few by (auto simp: w_def)
  then have sel: "w = Some v \<longleftrightarrow> v \<in> set ?ws \<and> wb_ProjectRoot v = root" for v by (simp only: in_here)
  have valid: "ContextAuthoritySnapshot_Validate pem (s\<lparr> cas_Workspaces := Some ?ws, cas_Workspace := w \<rparr>) = None"
    using sel by (intro snapshot_select[OF assms(1)]) blast
  have "SelectWorkspaceAtRoot pem s root = Inr (s\<lparr> cas_Workspaces := Some ?ws, cas_Workspace := w \<rparr>)"
    using valid few assms(1) root
    by (auto simp: SelectWorkspaceAtRoot_def context_snapshot_Clone_id[OF assms] guarded_def first_error.simps checked_def w_def here_def Let_def)
  with sel valid show "\<exists>w. SelectWorkspaceAtRoot pem s root = Inr (s\<lparr> cas_Workspaces := Some ?ws, cas_Workspace := w \<rparr>)
        \<and> (\<forall>v. w = Some v \<longleftrightarrow> v \<in> set ?ws \<and> wb_ProjectRoot v = root)"
    "\<forall>r. SelectWorkspaceAtRoot pem s root = Inr r \<longrightarrow> ContextAuthoritySnapshot_Validate pem r = None"
    by auto
next
  show "SelectWorkspace pem s i =
       (case List.find (\<lambda>v. wb_ID v = i) (snapshot_workspaces s) of
          None \<Rightarrow> Inl ''Workspace does not exist''
        | Some v \<Rightarrow> Inr (s\<lparr> cas_Workspaces := Some (snapshot_workspaces s), cas_Workspace := Some v \<rparr>))"
  proof (cases "List.find (\<lambda>v. wb_ID v = i) (snapshot_workspaces s)")
    case None
    then show ?thesis using assms(1) by (simp add: SelectWorkspace_def context_snapshot_Clone_id[OF assms] guarded_def Let_def)
  next
    case (Some v)
    then have "v \<in> set (snapshot_workspaces s)" by (auto simp: find_Some_iff)
    then show ?thesis using snapshot_select[OF assms(1), of "Some v"] assms(1) Some
      by (simp add: SelectWorkspace_def context_snapshot_Clone_id[OF assms] guarded_def Let_def checked_def)
  qed
qed

section \<open>An example\<close>

text \<open>One Context of the example Template with one Workspace that was entered once.\<close>

definition example_revision :: WorkspaceTemplateRevision where
  "example_revision = revision_of example_template_id 1 example_body"

definition example_template :: WorkspaceTemplate where
  "example_template =
     \<lparr> tpl_SchemaVersion = 2, tpl_ID = example_template_id, tpl_Name = ''base'', tpl_Metadata = None, tpl_RetainedMetadata = None,
       tpl_Current = example_revision, tpl_Retained = [example_revision] \<rparr>"

definition example_context :: ContextBinding where
  "example_context = \<lparr> cb_SchemaVersion = 2, cb_ID = example_context_id, cb_TemplateID = example_template_id \<rparr>"

definition example_entry :: WorkspaceAppliedEntry where
  "example_entry =
     \<lparr> ae_ContextID = example_context_id, ae_TemplateID = example_template_id, ae_TemplateRevision = rev_Revision example_revision,
       ae_EntrySliceDigest = sl_EntrySliceDigest (rev_Slices example_revision), ae_RuntimeID = StandardRuntimeID,
       ae_RuntimeRevision = ''sha256:00000000000000000000000000000000000000000000000000000000000000aa'',
       ae_ResolvedSpec = ''sha256:00000000000000000000000000000000000000000000000000000000000000bb'',
       ae_ReconciledAt = \<lparr> tm_Instant = 1709210096120000000, tm_Location = UTC \<rparr> \<rparr>"

definition example_binding :: WorkspaceBinding where
  "example_binding =
     \<lparr> wb_SchemaVersion = 3, wb_ID = ''01890000-0000-7000-8000-000000000020'', wb_ContextID = example_context_id,
       wb_ProjectRoot = ''/work/app'', wb_Home = ''/var/home'', wb_CreationDefaults = sl_CreationDefaultsDigest (rev_Slices example_revision),
       wb_LastSuccessfulEntry = Some example_entry \<rparr>"

definition example_authority :: ContextAuthoritySnapshot where
  "example_authority =
     \<lparr> cas_Context = example_context, cas_Template = example_template, cas_ContextHome = ''/var/home'',
       cas_ContextCreationDefaults = sl_CreationDefaultsDigest (rev_Slices example_revision),
       cas_PolicyMemory = memory_of example_context_id 1 [], cas_ActiveTemplatePolicy = None, cas_ActivePolicyMemory = None,
       cas_ActivePolicyMemoryRef = None, cas_Workspaces = Some [example_binding], cas_Workspace = Some example_binding \<rparr>"

lemma digest_valid: "SemanticDigest_Validate (semanticDigest j) = None"
  using semanticDigest_pattern unfolding SemanticDigest_Validate_def ValidateDigest_def reject_None digestPattern_def by blast

lemma example_revision_slices:
  "WorkspaceTemplateRevision_Validate (\<lambda>_. True) example_revision = None" "rev_TemplateID example_revision = example_template_id"
  "rev_Body example_revision = example_body" "sl_RuntimeID (rev_Slices example_revision) = StandardRuntimeID"
  "sl_RuntimeRevision (rev_Slices example_revision) = ''sha256:00000000000000000000000000000000000000000000000000000000000000aa''"
  "SemanticDigest_Validate (rev_Revision example_revision) = None"
  "SemanticDigest_Validate (sl_EntrySliceDigest (rev_Slices example_revision)) = None"
  "SemanticDigest_Validate (sl_CreationDefaultsDigest (rev_Slices example_revision)) = None"
  "sl_CreationDefaultsDigest (rev_Slices example_revision) \<noteq> []"
  using example_revision_valid[of 1]
  by (simp_all add: example_revision_def revision_of_def body_slices_def Let_def digest_valid) (simp_all add: example_body_def semanticDigest_def)

lemma example_template_valid: "WorkspaceTemplate_Validate (\<lambda>_. True) example_template = None"
proof -
  have "WorkspaceTemplateID_Validate example_template_id = None" "ValidateName ''base'' = None" by code_simp+
  then show ?thesis
    unfolding template_valid example_template_def using example_revision_slices by (simp add: retained_ok_def metadata_ok_def)
qed

lemma example_context_binding: "ContextBinding_Validate example_context = None"
  by code_simp

lemma example_entry_valid: "WorkspaceAppliedEntry_ValidateForRevision (\<lambda>_. True) example_entry example_context example_revision = None"
proof -
  have "SemanticDigest_Validate ''sha256:00000000000000000000000000000000000000000000000000000000000000aa'' = None"
    "SemanticDigest_Validate ''sha256:00000000000000000000000000000000000000000000000000000000000000bb'' = None"
    "WorkspaceTemplateID_Validate example_template_id = None" "\<not> time_IsZero \<lparr> tm_Instant = 1709210096120000000, tm_Location = UTC \<rparr>"
    by code_simp+
  then have "WorkspaceAppliedEntry_Validate example_entry = None"
    using example_revision_slices example_context_valid
    unfolding WorkspaceAppliedEntry_Validate_def first_error_None wrap_None reject_None check_each_None
    by (simp add: example_entry_def wrap_None first_error.simps)
  then show ?thesis
    using example_context_binding example_revision_slices
    unfolding WorkspaceAppliedEntry_ValidateForRevision_def WorkspaceAppliedEntry_ValidateFor_def first_error_None reject_None
    by (simp add: example_entry_def example_context_def)
qed

lemma example_binding_valid: "WorkspaceBinding_ValidateFor example_binding example_context = None"
proof -
  have "WorkspaceID_Validate ''01890000-0000-7000-8000-000000000020'' = None" "ValidateCanonicalRoot ''/work/app'' = None"
    "filepath_IsAbs ''/var/home''" "filepath_Clean ''/var/home'' = ''/var/home''"
    by code_simp+
  moreover have "WorkspaceAppliedEntry_ValidateFor example_entry example_context = None"
    using example_entry_valid by (simp add: WorkspaceAppliedEntry_ValidateForRevision_def first_error_None)
  ultimately show ?thesis
    using example_context_binding example_revision_slices
    unfolding WorkspaceBinding_ValidateFor_def first_error_None reject_None
    by (simp add: example_binding_def example_context_def)
qed

lemma empty_memory_valid:
  "ContextID_Validate c = None \<Longrightarrow> g \<noteq> 0 \<Longrightarrow> PolicyMemoryRevision_Validate (memory_of c g []) = None"
  by (simp add: memory_valid memory_of_def)

lemma example_memory_valid:
  "PolicyMemoryRevision_ValidateFor (\<lambda>_. True) (memory_of example_context_id 1 []) example_context example_revision = None"
proof -
  have "WorkspaceTemplateBoundary_Validate (tb_Boundary example_body) = None" by code_simp
  then show ?thesis
    using example_context_binding example_revision_slices empty_memory_valid[OF example_context_valid, of 1]
    unfolding PolicyMemoryRevision_ValidateFor_def validateInsideBoundary_def first_error_None reject_None check_each_None
    by (simp add: memory_of_def example_context_def)
qed

lemma example_authority_workspaces: "snapshot_workspaces example_authority = [example_binding]"
  by (simp add: snapshot_workspaces_def example_authority_def)

lemma example_authority_valid: "ContextAuthoritySnapshot_Validate (\<lambda>_. True) example_authority = None"
proof -
  have row: "row_ok (\<lambda>_. True) example_authority example_binding"
    using example_binding_valid example_entry_valid
    by (simp add: row_ok_def example_authority_def example_template_def) (simp add: example_binding_def)
  then have rows: "snapshot_rows (\<lambda>_. True) example_authority [] Map.empty [example_binding] = None"
    unfolding snapshot_rows_valid by (simp add: one_per_root_def)
  have sel: "selected_check example_authority [example_binding] example_binding = None"
    using row by (simp add: row_ok_def selected_check_def first_error_None reject_None check_each_None)
  have home: "filepath_IsAbs ''/var/home''" "filepath_Clean ''/var/home'' = ''/var/home''" by code_simp+
  show ?thesis
    unfolding ContextAuthoritySnapshot_Validate_def Let_def first_error_None example_authority_workspaces
    using rows sel example_context_binding example_template_valid example_memory_valid home example_revision_slices
    by (simp add: example_authority_def reject_None wrap_None creation_retained_def first_error_None example_template_def example_context_def)
qed

theorem selection_is_exact_witness:
  "SelectWorkspaceAtRoot (\<lambda>_. True) example_authority ''/work/app'' = Inr example_authority
   \<and> SelectWorkspace (\<lambda>_. True) example_authority example_context_id = Inl ''Workspace does not exist''"
proof -
  have "explicit_memory example_authority"
    by (simp add: explicit_memory_def example_authority_def PolicyMemoryRevision_Clone_def memory_of_def)
  moreover have root: "ValidateCanonicalRoot ''/work/app'' = None" "''01890000-0000-7000-8000-000000000020'' \<noteq> example_context_id"
    by code_simp+
  moreover have "wb_ProjectRoot example_binding = ''/work/app''" "wb_ID example_binding \<noteq> example_context_id"
    using root(2) by (simp_all add: example_binding_def)
  ultimately obtain w where w: "SelectWorkspaceAtRoot (\<lambda>_. True) example_authority ''/work/app''
        = Inr (example_authority\<lparr> cas_Workspaces := Some [example_binding], cas_Workspace := w \<rparr>)"
      "w = Some example_binding" "SelectWorkspace (\<lambda>_. True) example_authority example_context_id = Inl ''Workspace does not exist''"
    using selection_is_exact[OF example_authority_valid _ root(1), of example_context_id]
    by (auto simp: example_authority_workspaces)
  have "example_authority\<lparr> cas_Workspaces := Some [example_binding], cas_Workspace := Some example_binding \<rparr> = example_authority"
    by (simp add: example_authority_def)
  with w show ?thesis by (simp only: simp_thms)
qed

section \<open>Session identities\<close>

lemma binding_parts:
  assumes "WorkspaceBinding_ValidateFor w c = None"
  shows "WorkspaceID_Validate (wb_ID w) = None" "wb_ContextID w = cb_ID c" "ValidateCanonicalRoot (wb_ProjectRoot w) = None"
    "\<not> (wb_Home w = [] \<or> \<not> filepath_IsAbs (wb_Home w) \<or> filepath_Clean (wb_Home w) \<noteq> wb_Home w)"
  using assms unfolding WorkspaceBinding_ValidateFor_def first_error_None reject_None by blast+

lemma context_parts:
  assumes "ContextBinding_Validate c = None"
  shows "ContextID_Validate (cb_ID c) = None" "WorkspaceTemplateID_Validate (cb_TemplateID c) = None"
  using assms unfolding ContextBinding_Validate_def first_error_None by blast+

lemma sealed_identity_valid:
  assumes "ContextID_Validate c = None" "WorkspaceID_Validate w = None" "WorkspaceTemplateID_Validate t = None"
    "ValidateName n = None" "ValidateCanonicalRoot r = None"
  shows "WorkspaceSessionIdentity_Validate (sealed_identity c w t n r) = None"
  using assms digest_valid
  unfolding WorkspaceSessionIdentity_Validate_def sealed_identity_def Let_def workspaceSessionIdentityDigest_def first_error_None wrap_None reject_None
  by simp

lemma snapshot_names:
  assumes "ContextAuthoritySnapshot_Validate pem s = None" "cas_Workspace s = Some w"
  shows "ContextID_Validate (cb_ID (cas_Context s)) = None" "WorkspaceID_Validate (wb_ID w) = None"
    "WorkspaceTemplateID_Validate (tpl_ID (cas_Template s)) = None" "ValidateName (tpl_Name (cas_Template s)) = None"
    "ValidateCanonicalRoot (wb_ProjectRoot w) = None" "WorkspaceBinding_ValidateFor w (cas_Context s) = None"
proof -
  have w: "WorkspaceBinding_ValidateFor w (cas_Context s) = None"
    using snapshot_parts(6)[OF assms] unfolding selected_check_def first_error_None by blast
  have t: "WorkspaceTemplate_Validate pem (cas_Template s) = None" by (rule snapshot_parts(2)[OF assms(1)])
  show "ContextID_Validate (cb_ID (cas_Context s)) = None" "WorkspaceID_Validate (wb_ID w) = None"
    "ValidateCanonicalRoot (wb_ProjectRoot w) = None" "WorkspaceBinding_ValidateFor w (cas_Context s) = None"
    using context_parts(1)[OF snapshot_parts(1)[OF assms(1)]] binding_parts[OF w] w by blast+
  show "WorkspaceTemplateID_Validate (tpl_ID (cas_Template s)) = None" "ValidateName (tpl_Name (cas_Template s)) = None"
    using t[unfolded template_valid] by blast+
qed

lemma new_session_identity:
  assumes "ContextAuthoritySnapshot_Validate pem s = None" "cas_Workspace s = Some w"
  shows "NewWorkspaceSessionIdentity pem s =
     Inr (sealed_identity (cb_ID (cas_Context s)) (wb_ID w) (tpl_ID (cas_Template s)) (tpl_Name (cas_Template s)) (wb_ProjectRoot w))"
  using assms(1) sealed_identity_valid[OF snapshot_names(1-5)[OF assms]]
  by (simp add: NewWorkspaceSessionIdentity_def guarded_def checked_def assms(2) Let_def)

text \<open>What a receipt must confirm for a session to be bound, and the binding that results.\<close>

definition session_ready :: "(nat list \<Rightarrow> bool) \<Rightarrow> ContextAuthoritySnapshot \<Rightarrow> WorkspaceEntryReconciliationReceipt \<Rightarrow> WorkspaceBinding \<Rightarrow> WorkspaceAppliedEntry \<Rightarrow> bool" where
  "session_ready pem s receipt w e =
     (cas_Workspace s = Some w \<and> wb_LastSuccessfulEntry w = Some e
      \<and> WorkspaceAppliedEntry_ValidateForRevision pem e (cas_Context s) (tpl_Current (cas_Template s)) = None
      \<and> err_WorkspaceID receipt = wb_ID w \<and> err_ContextID receipt = cb_ID (cas_Context s) \<and> err_Applied receipt = e
      \<and> validateWorkspaceContainerID (err_ContainerID receipt) = None \<and> time_MarshalJSON (ae_ReconciledAt e) \<noteq> None)"

definition session_of :: "ContextAuthoritySnapshot \<Rightarrow> WorkspaceEntryReconciliationReceipt \<Rightarrow> WorkspaceBinding \<Rightarrow> WorkspaceAppliedEntry \<Rightarrow> WorkspaceSessionBinding" where
  "session_of s receipt w e =
     (let current = tpl_Current (cas_Template s);
          b = \<lparr> wsb_AuthorityDigest = [], wsb_ContextID = cb_ID (cas_Context s), wsb_WorkspaceID = wb_ID w,
                wsb_TemplateID = tpl_ID (cas_Template s), wsb_TemplateRevision = rev_Revision current,
                wsb_ProjectRoot = wb_ProjectRoot w, wsb_WorkspaceHome = wb_Home w,
                wsb_ContextPresentation = tpl_Name (cas_Template s), wsb_AppliedEntry = e,
                wsb_SessionDefaults = tb_SessionDefaults (rev_Body current),
                wsb_SessionDefaultsDigest = sl_SessionDefaultsDigest (rev_Slices current), wsb_ContainerID = err_ContainerID receipt \<rparr>
      in b\<lparr> wsb_AuthorityDigest := the (workspaceSessionBindingDigest b) \<rparr>)"

lemma session_of_valid:
  assumes v: "ContextAuthoritySnapshot_Validate pem s = None" and r: "session_ready pem s receipt w e"
  shows "WorkspaceSessionBinding_Validate (session_of s receipt w e) = None"
proof -
  let ?c = "tpl_Current (cas_Template s)"
  note n = snapshot_names[OF v, of w]
  have rw: "cas_Workspace s = Some w" using r by (simp add: session_ready_def)
  have c: "WorkspaceTemplateRevision_Validate pem ?c = None" using snapshot_parts(2)[OF v] by (simp add: template_valid)
  have cv: "WorkspaceTemplateBody_Validate pem (rev_Body ?c) = None" "?c = revision_of (rev_TemplateID ?c) (rev_Generation ?c) (rev_Body ?c)"
    using c[unfolded revision_valid_eq] by blast+
  have digests: "rev_Revision ?c = semanticDigest (WorkspaceTemplateBody_json (rev_Body ?c))"
    "sl_SessionDefaultsDigest (rev_Slices ?c) = semanticDigest (WorkspaceTemplateSessionDefaults_json (tb_SessionDefaults (rev_Body ?c)))"
    by (subst cv(2), simp add: revision_of_def body_slices_def Let_def)+
  have sd: "WorkspaceTemplateSessionDefaults_Validate (tb_SessionDefaults (rev_Body ?c)) = None" using cv(1) by (simp add: body_valid)
  have e: "WorkspaceAppliedEntry_ValidateForRevision pem e (cas_Context s) ?c = None" using r by (simp add: session_ready_def)
  then have ev: "WorkspaceAppliedEntry_Validate e = None" "ae_ContextID e = cb_ID (cas_Context s)" "ae_TemplateID e = cb_TemplateID (cas_Context s)"
    "ae_TemplateRevision e = rev_Revision ?c"
    unfolding WorkspaceAppliedEntry_ValidateForRevision_def WorkspaceAppliedEntry_ValidateFor_def first_error_None reject_None by blast+
  obtain t where t: "time_MarshalJSON (ae_ReconciledAt e) = Some t" using r by (auto simp: session_ready_def)
  have digest: "\<exists>d. workspaceSessionBindingDigest b = Some d \<and> SemanticDigest_Validate d = None" if "wsb_AppliedEntry b = e" for b
    using t digest_valid by (simp add: workspaceSessionBindingDigest_def WorkspaceAppliedEntry_json_def that)
  have frame: "workspaceSessionBindingDigest (b\<lparr> wsb_AuthorityDigest := d \<rparr>) = workspaceSessionBindingDigest b" for b d
    by (simp add: workspaceSessionBindingDigest_def)
  show ?thesis
    using n[OF rw] binding_parts(4)[OF n(6)[OF rw]] digests sd ev snapshot_parts(3)[OF v] r digest
    unfolding WorkspaceSessionBinding_Validate_def first_error_None reject_None wrap_None session_of_def Let_def frame
    by (simp add: session_ready_def digest_valid) (metis option.sel WorkspaceSessionBinding.select_convs(9))
qed

lemma new_session_binding:
  assumes v: "ContextAuthoritySnapshot_Validate pem s = None"
  shows "NewWorkspaceSessionBinding pem s receipt = Inr b \<longleftrightarrow> (\<exists>w e. session_ready pem s receipt w e \<and> b = session_of s receipt w e)"
proof (cases "Option.bind (cas_Workspace s) (\<lambda>w. map_option (Pair w) (wb_LastSuccessfulEntry w))")
  case None
  have "\<not> session_ready pem s receipt w e" for w e using None by (auto simp: session_ready_def)
  then show ?thesis unfolding NewWorkspaceSessionBinding_def guarded_Inr None by simp
next
  case (Some we)
  then obtain w e where we: "we = (w, e)" "cas_Workspace s = Some w" "wb_LastSuccessfulEntry w = Some e"
    by (auto simp: bind_eq_Some_conv)
  have sd: "WorkspaceTemplateSessionDefaults_Clone (tb_SessionDefaults (rev_Body (tpl_Current (cas_Template s))))
      = tb_SessionDefaults (rev_Body (tpl_Current (cas_Template s)))"
  proof (rule session_Clone_id)
    have "WorkspaceTemplateRevision_Validate pem (tpl_Current (cas_Template s)) = None" using snapshot_parts(2)[OF v] by (simp add: template_valid)
    then have "WorkspaceTemplateBody_Validate pem (rev_Body (tpl_Current (cas_Template s))) = None" unfolding revision_valid_eq by blast
    then show "WorkspaceTemplateSessionDefaults_Validate (tb_SessionDefaults (rev_Body (tpl_Current (cas_Template s)))) = None" by (simp add: body_valid)
  qed
  let ?b = "\<lparr> wsb_AuthorityDigest = [], wsb_ContextID = cb_ID (cas_Context s), wsb_WorkspaceID = wb_ID w,
      wsb_TemplateID = tpl_ID (cas_Template s), wsb_TemplateRevision = rev_Revision (tpl_Current (cas_Template s)),
      wsb_ProjectRoot = wb_ProjectRoot w, wsb_WorkspaceHome = wb_Home w, wsb_ContextPresentation = tpl_Name (cas_Template s),
      wsb_AppliedEntry = e, wsb_SessionDefaults = tb_SessionDefaults (rev_Body (tpl_Current (cas_Template s))),
      wsb_SessionDefaultsDigest = sl_SessionDefaultsDigest (rev_Slices (tpl_Current (cas_Template s))),
      wsb_ContainerID = err_ContainerID receipt \<rparr>"
  have d: "workspaceSessionBindingDigest ?b = None \<longleftrightarrow> time_MarshalJSON (ae_ReconciledAt e) = None"
    by (simp add: workspaceSessionBindingDigest_def WorkspaceAppliedEntry_json_def)
  have "NewWorkspaceSessionBinding pem s receipt = Inr b \<longleftrightarrow>
      session_ready pem s receipt w e \<and> WorkspaceSessionBinding_Validate (session_of s receipt w e) = None \<and> b = session_of s receipt w e"
    unfolding NewWorkspaceSessionBinding_def guarded_Inr Some we(1) option.case prod.case Let_def first_error_None wrap_None reject_None sd
      session_ready_def session_of_def
    using v we(2,3) d by (cases "workspaceSessionBindingDigest ?b") (auto simp: checked_Inr)
  also have "\<dots> \<longleftrightarrow> session_ready pem s receipt w e \<and> b = session_of s receipt w e"
    using session_of_valid[OF v] by blast
  also have "\<dots> \<longleftrightarrow> (\<exists>w e. session_ready pem s receipt w e \<and> b = session_of s receipt w e)"
    using we(2,3) by (auto simp: session_ready_def)
  finally show ?thesis .
qed

text \<open>C26: The two ways to name a session agree. From a coherent snapshot with a selected Workspace, the session
  identity always exists and passes its checks. A session binding exists exactly when the receipt confirms the
  Workspace, the Context and the applied entry of the snapshot, that entry is still the one of the current Template
  revision, the container identifier is well formed, and the time of the entry has an encoding; the binding then
  passes its checks and names the same identity as the snapshot it came from.\<close>

theorem session_binding_names_the_snapshot:
  assumes "ContextAuthoritySnapshot_Validate pem s = None" "cas_Workspace s = Some w"
  shows "(\<exists>i. NewWorkspaceSessionIdentity pem s = Inr i \<and> WorkspaceSessionIdentity_Validate i = None
       \<and> wsi_WorkspaceID i = wb_ID w \<and> wsi_ContextID i = cb_ID (cas_Context s))
   \<and> ((\<exists>b. NewWorkspaceSessionBinding pem s receipt = Inr b) \<longleftrightarrow> (\<exists>e. session_ready pem s receipt w e))
   \<and> (\<forall>b. NewWorkspaceSessionBinding pem s receipt = Inr b \<longrightarrow>
        WorkspaceSessionBinding_Validate b = None \<and> WorkspaceSessionBinding_Identity b = NewWorkspaceSessionIdentity pem s)"
proof (intro conjI allI impI)
  have i: "WorkspaceSessionIdentity_Validate
      (sealed_identity (cb_ID (cas_Context s)) (wb_ID w) (tpl_ID (cas_Template s)) (tpl_Name (cas_Template s)) (wb_ProjectRoot w)) = None"
    by (rule sealed_identity_valid[OF snapshot_names(1-5)[OF assms]])
  then show "\<exists>i. NewWorkspaceSessionIdentity pem s = Inr i \<and> WorkspaceSessionIdentity_Validate i = None
       \<and> wsi_WorkspaceID i = wb_ID w \<and> wsi_ContextID i = cb_ID (cas_Context s)"
    unfolding new_session_identity[OF assms] by (auto simp: sealed_identity_def Let_def)
  have one: "session_ready pem s receipt w' e \<Longrightarrow> w' = w" for w' e using assms(2) by (simp add: session_ready_def)
  show "(\<exists>b. NewWorkspaceSessionBinding pem s receipt = Inr b) \<longleftrightarrow> (\<exists>e. session_ready pem s receipt w e)"
    unfolding new_session_binding[OF assms(1)] using one by blast
  fix b assume "NewWorkspaceSessionBinding pem s receipt = Inr b"
  then obtain e where e: "session_ready pem s receipt w e" "b = session_of s receipt w e"
    unfolding new_session_binding[OF assms(1)] using one by blast
  show b: "WorkspaceSessionBinding_Validate b = None" unfolding e(2) by (rule session_of_valid[OF assms(1) e(1)])
  have "sealed_identity (wsb_ContextID b) (wsb_WorkspaceID b) (wsb_TemplateID b) (wsb_ContextPresentation b) (wsb_ProjectRoot b)
      = sealed_identity (cb_ID (cas_Context s)) (wb_ID w) (tpl_ID (cas_Template s)) (tpl_Name (cas_Template s)) (wb_ProjectRoot w)"
    by (simp add: e(2) session_of_def Let_def)
  then show "WorkspaceSessionBinding_Identity b = NewWorkspaceSessionIdentity pem s"
    using i b unfolding new_session_identity[OF assms] by (simp add: WorkspaceSessionBinding_Identity_def guarded_def checked_def)
qed

definition example_receipt :: WorkspaceEntryReconciliationReceipt where
  "example_receipt =
     \<lparr> err_WorkspaceID = wb_ID example_binding, err_ContextID = example_context_id, err_Applied = example_entry,
       err_ContainerID = ''00000000000000000000000000000000000000000000000000000000000000cc'' \<rparr>"

theorem session_binding_names_the_snapshot_witness:
  "\<exists>b. NewWorkspaceSessionBinding (\<lambda>_. True) example_authority example_receipt = Inr b
     \<and> WorkspaceSessionBinding_Identity b = NewWorkspaceSessionIdentity (\<lambda>_. True) example_authority"
proof -
  have w: "cas_Workspace example_authority = Some example_binding" by (simp add: example_authority_def)
  have "validateWorkspaceContainerID ''00000000000000000000000000000000000000000000000000000000000000cc'' = None"
    "time_MarshalJSON \<lparr> tm_Instant = 1709210096120000000, tm_Location = UTC \<rparr> \<noteq> None" by code_simp+
  then have "validateWorkspaceContainerID (err_ContainerID example_receipt) = None" "time_MarshalJSON (ae_ReconciledAt example_entry) \<noteq> None"
    by (simp_all add: example_receipt_def example_entry_def)
  moreover have "WorkspaceAppliedEntry_ValidateForRevision (\<lambda>_. True) example_entry (cas_Context example_authority) (tpl_Current (cas_Template example_authority)) = None"
    using example_entry_valid by (simp add: example_authority_def example_template_def)
  ultimately have "session_ready (\<lambda>_. True) example_authority example_receipt example_binding example_entry"
    using w by (simp add: session_ready_def) (simp add: example_receipt_def example_authority_def example_context_def example_binding_def)
  then show ?thesis using session_binding_names_the_snapshot[OF example_authority_valid w, of example_receipt] by blast
qed

section \<open>Entry plans\<close>

text \<open>The Workspace a valid snapshot selects has the Home of the Context.\<close>

lemma selected_home:
  assumes v: "ContextAuthoritySnapshot_Validate pem s = None" and w: "cas_Workspace s = Some w"
  shows "cas_ContextHome s \<noteq> [] \<and> wb_Home w = cas_ContextHome s \<and> wb_CreationDefaults w = cas_ContextCreationDefaults s"
proof -
  have ws: "snapshot_workspaces s \<noteq> []" by (simp add: snapshot_workspaces_def w)
  then have h: "cas_ContextHome s \<noteq> []" using snapshot_parts(5)[OF v] by blast
  have c: "\<forall>x \<in> set (snapshot_workspaces s). \<not> (wb_ID x = wb_ID w \<and> x \<noteq> w)"
    "\<not> (snapshot_workspaces s \<noteq> [] \<and> \<not> (\<exists>x \<in> set (snapshot_workspaces s). wb_ID x = wb_ID w)
        \<and> cas_ContextHome s \<noteq> [] \<and> (wb_Home w \<noteq> cas_ContextHome s \<or> wb_CreationDefaults w \<noteq> cas_ContextCreationDefaults s))"
    using snapshot_parts(6)[OF v w] unfolding selected_check_def first_error_None check_each_None reject_None list_ex_iff by blast+
  show ?thesis
  proof (cases "\<exists>x \<in> set (snapshot_workspaces s). wb_ID x = wb_ID w")
    case True
    then have "w \<in> set (snapshot_workspaces s)" using c(1) by blast
    then have "row_ok pem s w" by (rule snapshot_rows_facts(1)[OF snapshot_parts(4)[OF v]])
    then show ?thesis using h by (simp add: row_ok_def)
  qed (use c(2) ws h in blast)
qed

text \<open>C22: An accepted entry plan keeps what a Context fixes once. When the Context has a Home, the plan's Workspace
  uses that Home and the creation defaults it was made with, and a selected Workspace keeps its identity and Project
  root; the Home is initialised or recovered only for a Context that has none, or again by the very entry that
  published it, and an initialisation takes the current creation defaults. The plan's entry is bound to the current Template revision, and its
  receipt can confirm no other Workspace, Context or entry.\<close>

theorem entry_plan_keeps_home_authority:
  assumes "WorkspaceEntryReconciliationPlan_ValidateFor pem p s = None"
  shows "wb_ContextID (erp_Workspace p) = cb_ID (cas_Context s)
   \<and> (cas_ContextHome s \<noteq> [] \<longrightarrow>
        wb_Home (erp_Workspace p) = cas_ContextHome s \<and> wb_CreationDefaults (erp_Workspace p) = cas_ContextCreationDefaults s)
   \<and> (\<forall>v. cas_Workspace s = Some v \<longrightarrow> wb_ID (erp_Workspace p) = wb_ID v \<and> wb_ProjectRoot (erp_Workspace p) = wb_ProjectRoot v)
   \<and> (erp_InitializeContextHome p \<or> erp_RecoverContextHome p \<longrightarrow>
        cas_ContextHome s = [] \<or> (\<exists>v. cas_Workspace s = Some v \<and> wb_LastSuccessfulEntry v = Some (erp_Applied p)))
   \<and> (cas_ContextHome s = [] \<longrightarrow> erp_InitializeContextHome p \<noteq> erp_RecoverContextHome p)
   \<and> (cas_ContextHome s = [] \<and> erp_InitializeContextHome p \<longrightarrow>
        wb_CreationDefaults (erp_Workspace p) = sl_CreationDefaultsDigest (rev_Slices (tpl_Current (cas_Template s))))
   \<and> ae_TemplateRevision (erp_Applied p) = rev_Revision (tpl_Current (cas_Template s))
   \<and> (\<forall>r. WorkspaceEntryReconciliationReceipt_ValidateFor r p = None \<longrightarrow>
        err_WorkspaceID r = wb_ID (erp_Workspace p) \<and> err_ContextID r = cb_ID (cas_Context s) \<and> err_Applied r = erp_Applied p)"
proof -
  note c = assms[unfolded WorkspaceEntryReconciliationPlan_ValidateFor_def Let_def first_error_None wrap_None]
  have v: "ContextAuthoritySnapshot_Validate pem s = None" and b: "WorkspaceBinding_ValidateFor (erp_Workspace p) (cas_Context s) = None"
    and e: "WorkspaceAppliedEntry_ValidateForRevision pem (erp_Applied p) (cas_Context s) (tpl_Current (cas_Template s)) = None"
    and both: "reject (erp_InitializeContextHome p \<and> erp_RecoverContextHome p)
          ''Workspace entry plan cannot initialize and recover Context Home'' = None"
    and home: "plan_home_check p s = None" and creation: "plan_creation_check p s = None"
    using c by blast+
  have empty: "cas_ContextHome s = [] \<Longrightarrow> elems (cas_Workspaces s) = [] \<and> cas_Workspace s = None"
    using snapshot_parts(5)[OF v] by (auto simp: snapshot_workspaces_def split: if_splits option.splits)
  have cid: "wb_ContextID (erp_Workspace p) = cb_ID (cas_Context s)" by (rule binding_parts(2)[OF b])
  have sel: "wb_ID (erp_Workspace p) = wb_ID v \<and> wb_ProjectRoot (erp_Workspace p) = wb_ProjectRoot v
      \<and> wb_Home (erp_Workspace p) = wb_Home v \<and> wb_CreationDefaults (erp_Workspace p) = wb_CreationDefaults v" if "cas_Workspace s = Some v" for v
    using creation that by (simp add: plan_creation_check_def Let_def reject_None)
  have h: "wb_Home (erp_Workspace p) = cas_ContextHome s \<and> wb_CreationDefaults (erp_Workspace p) = cas_ContextCreationDefaults s"
    if "cas_ContextHome s \<noteq> []"
  proof (cases "cas_Workspace s")
    case None
    then show ?thesis using creation that by (simp add: plan_creation_check_def Let_def reject_None)
  next
    case (Some v)
    then show ?thesis using sel[OF Some] selected_home[OF v Some] by simp
  qed
  have first: "cas_ContextHome s = [] \<or> (\<exists>v. cas_Workspace s = Some v \<and> wb_LastSuccessfulEntry v = Some (erp_Applied p))"
    if "erp_InitializeContextHome p \<or> erp_RecoverContextHome p"
    using home that by (auto simp: plan_home_check_def plan_first_publication_def reject_None split: if_splits option.splits)
  have xor: "erp_InitializeContextHome p \<noteq> erp_RecoverContextHome p" if "cas_ContextHome s = []"
    using home both empty[OF that] that by (auto simp: plan_home_check_def reject_None)
  have now: "wb_CreationDefaults (erp_Workspace p) = sl_CreationDefaultsDigest (rev_Slices (tpl_Current (cas_Template s)))"
    if "cas_ContextHome s = []" "erp_InitializeContextHome p"
    using creation empty[OF that(1)] that by (simp add: plan_creation_check_def Let_def reject_None)
  have rev: "ae_TemplateRevision (erp_Applied p) = rev_Revision (tpl_Current (cas_Template s))"
    using e unfolding WorkspaceAppliedEntry_ValidateForRevision_def first_error_None reject_None by blast
  have receipt: "err_WorkspaceID r = wb_ID (erp_Workspace p) \<and> err_ContextID r = cb_ID (cas_Context s) \<and> err_Applied r = erp_Applied p"
    if "WorkspaceEntryReconciliationReceipt_ValidateFor r p = None" for r
    using that cid unfolding WorkspaceEntryReconciliationReceipt_ValidateFor_def first_error_None reject_None by simp
  show ?thesis using cid h sel first xor now rev receipt by blast
qed

definition example_plan :: WorkspaceEntryReconciliationPlan where
  "example_plan =
     \<lparr> erp_Workspace = example_binding, erp_Applied = example_entry, erp_Authority = entry_authority_of example_revision,
       erp_CreationDefaults = tb_CreationDefaults example_body, erp_InitializeContextHome = False, erp_RecoverContextHome = False,
       erp_Network = \<lparr> wna_Network = ''tobari-018900000000-net'', wna_Subnet = ''10.64.5.0/24'', wna_DockerGateway = ''10.64.5.1'',
         wna_GatewayIP = ''10.64.5.2'', wna_WorkspaceIP = ''10.64.5.3'' \<rparr> \<rparr>"

lemma example_plan_valid: "WorkspaceEntryReconciliationPlan_ValidateFor (\<lambda>_. True) example_plan example_authority = None"
proof -
  have n: "WorkspaceRuntimeNetworkAuthority_ValidateFor
      \<lparr> wna_Network = ''tobari-018900000000-net'', wna_Subnet = ''10.64.5.0/24'', wna_DockerGateway = ''10.64.5.1'',
        wna_GatewayIP = ''10.64.5.2'', wna_WorkspaceIP = ''10.64.5.3'' \<rparr> ''01890000-0000-7000-8000-000000000020'' = None"
    "WorkspaceTemplateCreationDefaults_Validate (\<lambda>_. True) (tb_CreationDefaults example_body) = None"
    by code_simp+
  note derived = entry_authority_derived[OF example_revision_slices(1)]
  have f: "cas_Template example_authority = example_template" "cas_Context example_authority = example_context"
    "tpl_Current example_template = example_revision" "tpl_Retained example_template = [example_revision]"
    "cas_Workspace example_authority = Some example_binding" "cas_ContextHome example_authority \<noteq> []"
    "wb_ID example_binding = ''01890000-0000-7000-8000-000000000020''" "wb_LastSuccessfulEntry example_binding = Some example_entry"
    "wb_CreationDefaults example_binding = sl_CreationDefaultsDigest (rev_Slices example_revision)"
    by (simp_all add: example_authority_def example_template_def example_binding_def)
  have g: "erp_Workspace example_plan = example_binding" "erp_Applied example_plan = example_entry"
    "erp_Authority example_plan = entry_authority_of example_revision" "erp_CreationDefaults example_plan = tb_CreationDefaults example_body"
    "\<not> erp_InitializeContextHome example_plan" "\<not> erp_RecoverContextHome example_plan"
    "erp_Network example_plan = \<lparr> wna_Network = ''tobari-018900000000-net'', wna_Subnet = ''10.64.5.0/24'', wna_DockerGateway = ''10.64.5.1'',
        wna_GatewayIP = ''10.64.5.2'', wna_WorkspaceIP = ''10.64.5.3'' \<rparr>"
    by (simp_all add: example_plan_def)
  have "plan_retained_check (\<lambda>_. True) example_plan example_authority = None"
    using n(2) by (simp add: plan_retained_check_def plan_retains_def f g example_revision_slices(3) reflectWorkspaceTemplateCreationDefaults_def
        first_error_None reject_None check_each_None)
  moreover have "plan_home_check example_plan example_authority = None" "plan_creation_check example_plan example_authority = None"
    by (simp_all add: plan_home_check_def plan_creation_check_def f g reject_None)
  ultimately show ?thesis
    unfolding WorkspaceEntryReconciliationPlan_ValidateFor_def Let_def first_error_None wrap_None reject_None f g
    using n derived(4,5) example_authority_valid example_binding_valid example_entry_valid by (simp add: f g example_revision_slices(3))
qed

theorem entry_plan_keeps_home_authority_witness:
  "wb_Home (erp_Workspace example_plan) = cas_ContextHome example_authority
   \<and> ae_TemplateRevision (erp_Applied example_plan) = rev_Revision (tpl_Current (cas_Template example_authority))"
  using entry_plan_keeps_home_authority[OF example_plan_valid] by (simp add: example_authority_def)

end
