(* ===== verification/Authority_Records.thy ===== *)
theory Authority_Records
  imports Authority_Snapshot
begin

text \<open>
  The Context-owned records of Workspace Authority, from
  \<open>internal/domain/tobari/workspace_authority_collection.go\<close>: a Context with its Policy Memory, its
  activation receipts and its superseded decisions, and the two transitions that a narrower Template
  Boundary makes: remembered Allows outside the Boundary are superseded, and so are pending
  candidates.
\<close>

section \<open>Records\<close>

record PolicyMemoryAllowSupersession =
  pas_SchemaVersion :: int
  pas_ContextID :: ContextID
  pas_Rule :: PolicyMemoryRule
  pas_SourceMemoryRevision :: SemanticDigest
  pas_TemplateID :: WorkspaceTemplateID
  pas_TemplateRevision :: SemanticDigest

record PolicyCandidateSupersession =
  pcs_SchemaVersion :: int
  pcs_ContextID :: ContextID
  pcs_Candidate :: PolicyCandidateAuthority
  pcs_TemplateID :: WorkspaceTemplateID
  pcs_TemplateRevision :: SemanticDigest

definition PolicyCandidateSupersession_Validate :: "PolicyCandidateSupersession \<Rightarrow> check" where
  "PolicyCandidateSupersession_Validate s =
     reject (pcs_SchemaVersion s \<noteq> 1 \<or> ContextID_Validate (pcs_ContextID s) \<noteq> None
             \<or> PolicyCandidateAuthority_Validate (pcs_Candidate s) \<noteq> None \<or> pca_ContextID (pcs_Candidate s) \<noteq> pcs_ContextID s
             \<or> WorkspaceTemplateID_Validate (pcs_TemplateID s) \<noteq> None \<or> SemanticDigest_Validate (pcs_TemplateRevision s) \<noteq> None)
       ''Policy candidate supersession is invalid''"

definition PolicyMemoryAllowSupersession_Validate :: "PolicyMemoryAllowSupersession \<Rightarrow> check" where
  "PolicyMemoryAllowSupersession_Validate s =
     reject (pas_SchemaVersion s \<noteq> 1 \<or> ContextID_Validate (pas_ContextID s) \<noteq> None \<or> pmr_Decision (pas_Rule s) \<noteq> ''allow''
             \<or> PolicyMemoryRule_Validate (pas_Rule s) (pas_ContextID s) \<noteq> None \<or> SemanticDigest_Validate (pas_SourceMemoryRevision s) \<noteq> None
             \<or> WorkspaceTemplateID_Validate (pas_TemplateID s) \<noteq> None \<or> SemanticDigest_Validate (pas_TemplateRevision s) \<noteq> None)
       ''Policy Memory Allow supersession is invalid''"

record WorkspaceAuthorityContextRecord =
  acr_Context :: ContextBinding
  acr_ContextHome :: string
  acr_CreationDefaults :: SemanticDigest
  acr_PolicyMemory :: PolicyMemoryRevision
  acr_ActiveTemplatePolicy :: "TemplatePolicyActivationReceipt option"
  acr_ActivePolicyMemory :: "PolicyMemoryRevision option"
  acr_ActivePolicyMemoryRef :: "PolicyMemoryActivationReceipt option"
  acr_SupersededAllows :: "PolicyMemoryAllowSupersession list option"
  acr_SupersededCandidates :: "PolicyCandidateSupersession list option"

definition WorkspaceAuthorityContextRecord_Clone :: "WorkspaceAuthorityContextRecord \<Rightarrow> WorkspaceAuthorityContextRecord" where
  "WorkspaceAuthorityContextRecord_Clone r =
     r\<lparr> acr_PolicyMemory := PolicyMemoryRevision_Clone (acr_PolicyMemory r),
        acr_ActivePolicyMemory := map_option PolicyMemoryRevision_Clone (acr_ActivePolicyMemory r),
        acr_SupersededAllows := map_option (map (\<lambda>s. s\<lparr> pas_Rule := PolicyMemoryRule_Clone (pas_Rule s) \<rparr>)) (acr_SupersededAllows r),
        acr_SupersededCandidates :=
          map_option (map (\<lambda>s. s\<lparr> pcs_Candidate := PolicyCandidateAuthority_Clone (pcs_Candidate s) \<rparr>)) (acr_SupersededCandidates r) \<rparr>"

definition cloneWorkspaceAuthorityContextRecords :: "WorkspaceAuthorityContextRecord list \<Rightarrow> WorkspaceAuthorityContextRecord list" where
  "cloneWorkspaceAuthorityContextRecords rs = map WorkspaceAuthorityContextRecord_Clone rs"

definition clonePolicyCandidateAuthorities :: "PolicyCandidateAuthority list \<Rightarrow> PolicyCandidateAuthority list" where
  "clonePolicyCandidateAuthorities cs = map PolicyCandidateAuthority_Clone cs"

section \<open>Superseding remembered Allows\<close>

text \<open>The trial of one Allow: it is published alone and checked against the Context and the new revision.\<close>

definition allow_trial ::
  "(nat list \<Rightarrow> bool) \<Rightarrow> ContextBinding \<Rightarrow> WorkspaceTemplateRevision \<Rightarrow> PolicyMemoryRule \<Rightarrow> bool result" where
  "allow_trial pem context template r =
     and_then (PublishPolicyMemory (cb_ID context) (Some [PolicyMemoryRule_Clone r]) None)
       (\<lambda>(trial, _). Inr (PolicyMemoryRevision_ValidateFor pem trial context template = None))"

fun supersede_rows ::
  "(nat list \<Rightarrow> bool) \<Rightarrow> ContextBinding \<Rightarrow> WorkspaceTemplateRevision \<Rightarrow> PolicyMemoryRule list
   \<Rightarrow> (PolicyMemoryRule list \<times> PolicyMemoryRule list) result" where
  "supersede_rows pem context template [] = Inr ([], [])"
| "supersede_rows pem context template (r # rs) =
     and_then (if pmr_Decision r \<noteq> ''allow'' then Inr True else allow_trial pem context template r)
       (\<lambda>keep. and_then (supersede_rows pem context template rs)
          (\<lambda>(remaining, removed).
             Inr (if keep then (PolicyMemoryRule_Clone r # remaining, removed) else (remaining, PolicyMemoryRule_Clone r # removed))))"

definition allow_supersession :: "WorkspaceAuthorityContextRecord \<Rightarrow> WorkspaceTemplateRevision \<Rightarrow> PolicyMemoryRule \<Rightarrow> PolicyMemoryAllowSupersession" where
  "allow_supersession owner template r =
     \<lparr> pas_SchemaVersion = 1, pas_ContextID = cb_ID (acr_Context owner), pas_Rule = PolicyMemoryRule_Clone r,
       pas_SourceMemoryRevision = pmv_Revision (acr_PolicyMemory owner), pas_TemplateID = rev_TemplateID template,
       pas_TemplateRevision = rev_Revision template \<rparr>"

definition SupersedePolicyMemoryAllowsOutsideBoundary ::
  "(nat list \<Rightarrow> bool) \<Rightarrow> WorkspaceAuthorityContextRecord \<Rightarrow> WorkspaceTemplateRevision \<Rightarrow> (WorkspaceAuthorityContextRecord \<times> nat) result" where
  "SupersedePolicyMemoryAllowsOutsideBoundary pem owner template =
     guarded
       (reject (ContextBinding_Validate (acr_Context owner) \<noteq> None \<or> WorkspaceTemplateRevision_Validate pem template \<noteq> None
                \<or> cb_TemplateID (acr_Context owner) \<noteq> rev_TemplateID template) ''Policy Memory supersession target is invalid'')
       (let result = WorkspaceAuthorityContextRecord_Clone owner
        in and_then (supersede_rows pem (acr_Context owner) template (elems (pmv_Rules (acr_PolicyMemory owner))))
             (\<lambda>(remaining, removed).
                if removed = [] then Inr (result, 0)
                else case PublishPolicyMemory (cb_ID (acr_Context owner)) (Some remaining) (Some (acr_PolicyMemory owner)) of
                       Inl e \<Rightarrow> Inl (''Policy Memory supersession publication failed: '' @ e)
                     | Inr (memory, changed) \<Rightarrow>
                         if \<not> changed then Inl ''Policy Memory supersession publication failed: ''
                         else Inr (result\<lparr> acr_PolicyMemory := memory,
                                 acr_SupersededAllows := Some (elems (acr_SupersededAllows result) @ map (allow_supersession owner template) removed),
                                 acr_ActivePolicyMemory := None, acr_ActivePolicyMemoryRef := None \<rparr>, length removed)))"

section \<open>Superseding pending candidates\<close>

text \<open>The position of a Context among the records; the last one when an identifier is repeated.\<close>

definition context_index :: "WorkspaceAuthorityContextRecord list \<Rightarrow> ContextID \<Rightarrow> nat option" where
  "context_index rs c = List.find (\<lambda>i. cb_ID (acr_Context (rs ! i)) = c) (rev [0..<length rs])"

definition candidate_supersession :: "WorkspaceTemplateRevision \<Rightarrow> PolicyCandidateAuthority \<Rightarrow> PolicyCandidateSupersession" where
  "candidate_supersession template c =
     \<lparr> pcs_SchemaVersion = 1, pcs_ContextID = pca_ContextID c, pcs_Candidate = PolicyCandidateAuthority_Clone c,
       pcs_TemplateID = rev_TemplateID template, pcs_TemplateRevision = rev_Revision template \<rparr>"

definition candidate_trial ::
  "(nat list \<Rightarrow> bool) \<Rightarrow> ContextBinding \<Rightarrow> WorkspaceTemplateRevision \<Rightarrow> PolicyCandidateAuthority \<Rightarrow> bool result" where
  "candidate_trial pem context template c =
     and_then (NewPolicyMemoryRule (pca_ContextID c) ''allow'' (RuleBody (pca_Effect c) (pca_ID c)))
       (\<lambda>rule. and_then (PublishPolicyMemory (pca_ContextID c) (Some [rule]) None)
          (\<lambda>(trial, _). Inr (PolicyMemoryRevision_ValidateFor pem trial context template = None)))"

definition supersede_candidate ::
  "(nat list \<Rightarrow> bool) \<Rightarrow> WorkspaceTemplateRevision \<Rightarrow> WorkspaceAuthorityContextRecord list \<Rightarrow> PolicyCandidateAuthority
   \<Rightarrow> (WorkspaceAuthorityContextRecord list \<times> PolicyCandidateAuthority list \<times> nat) result" where
  "supersede_candidate pem template rs c =
     (case context_index rs (pca_ContextID c) of
        None \<Rightarrow> Inr (rs, [PolicyCandidateAuthority_Clone c], 0)
      | Some i \<Rightarrow>
          if cb_TemplateID (acr_Context (rs ! i)) \<noteq> rev_TemplateID template then Inr (rs, [PolicyCandidateAuthority_Clone c], 0)
          else and_then (candidate_trial pem (acr_Context (rs ! i)) template c)
                 (\<lambda>inside.
                    if inside then Inr (rs, [PolicyCandidateAuthority_Clone c], 0)
                    else Inr (rs[i := (rs ! i)\<lparr> acr_SupersededCandidates :=
                                Some (elems (acr_SupersededCandidates (rs ! i)) @ [candidate_supersession template c]) \<rparr>], [], 1)))"

fun supersede_candidates ::
  "(nat list \<Rightarrow> bool) \<Rightarrow> WorkspaceTemplateRevision \<Rightarrow> WorkspaceAuthorityContextRecord list \<Rightarrow> PolicyCandidateAuthority list
   \<Rightarrow> (WorkspaceAuthorityContextRecord list \<times> PolicyCandidateAuthority list \<times> nat) result" where
  "supersede_candidates pem template rs [] = Inr (rs, [], 0)"
| "supersede_candidates pem template rs (c # cs) =
     and_then (supersede_candidate pem template rs c)
       (\<lambda>(rs', kept, n). and_then (supersede_candidates pem template rs' cs)
          (\<lambda>(rs'', kept', n'). Inr (rs'', kept @ kept', n + n')))"

definition SupersedePolicyCandidatesOutsideBoundary ::
  "(nat list \<Rightarrow> bool) \<Rightarrow> WorkspaceAuthorityContextRecord list option \<Rightarrow> PolicyCandidateAuthority list option \<Rightarrow> WorkspaceTemplateRevision
   \<Rightarrow> (WorkspaceAuthorityContextRecord list \<times> PolicyCandidateAuthority list \<times> nat) result" where
  "SupersedePolicyCandidatesOutsideBoundary pem records candidates template =
     guarded
       (reject (WorkspaceTemplateRevision_Validate pem template \<noteq> None \<or> records = None \<or> candidates = None)
          ''Policy candidate supersession input is invalid'')
       (supersede_candidates pem template (cloneWorkspaceAuthorityContextRecords (elems records)) (elems candidates))"

section \<open>What superseding Allows leaves\<close>

lemma validate_for:
  "PolicyMemoryRevision_ValidateFor pem m context template = None \<longleftrightarrow>
     ContextBinding_Validate context = None \<and> WorkspaceTemplateRevision_Validate pem template = None
     \<and> pmv_ContextID m = cb_ID context \<and> rev_TemplateID template = cb_TemplateID context \<and> PolicyMemoryRevision_Validate m = None
     \<and> (\<forall>r \<in> set (elems (pmv_Rules m)). boundary_row (tb_Boundary (rev_Body template)) r = None)"
proof -
  have "WorkspaceTemplateRevision_Validate pem template = None \<Longrightarrow> WorkspaceTemplateBoundary_Validate (tb_Boundary (rev_Body template)) = None"
    by (simp add: revision_valid body_valid)
  then show ?thesis
    unfolding PolicyMemoryRevision_ValidateFor_def validateInsideBoundary_def first_error_None check_each_None reject_None first_error.simps(1)
    by auto
qed

text \<open>The rules a Boundary leaves: every Deny, and each Allow inside it.\<close>

definition kept_by :: "WorkspaceTemplateBoundary \<Rightarrow> PolicyMemoryRule \<Rightarrow> bool" where
  "kept_by boundary r = (pmr_Decision r \<noteq> ''allow'' \<or> boundary_row boundary r = None)"

text \<open>Rules as they are stored: valid for their Context, and without \<open>nil\<close> slices.\<close>

definition stored_rule :: "ContextID \<Rightarrow> PolicyMemoryRule \<Rightarrow> bool" where
  "stored_rule c r = (PolicyMemoryRule_Validate r c = None \<and> PolicyMemoryRule_Clone r = r)"

lemma boundary_row_Clone [simp]: "boundary_row b (PolicyMemoryRule_Clone r) = boundary_row b r"
  by (simp add: boundary_row_def body_authority_def)

lemma sorted_rules_id:
  assumes "sorted_wrt (<) (map pmr_ID rs)" "\<forall>r \<in> set rs. PolicyMemoryRule_Clone r = r"
  shows "sorted_rules rs = rs"
proof -
  have "map PolicyMemoryRule_Clone rs = rs" using assms(2) by (intro map_idI) blast
  moreover have "sorted (map pmr_ID rs)" using assms(1) strict_sorted_imp_sorted by blast
  ultimately show ?thesis by (simp add: sorted_rules_def sort_key_id)
qed

lemma allow_trial_exact:
  assumes "ContextBinding_Validate context = None" "WorkspaceTemplateRevision_Validate pem template = None"
    and "cb_TemplateID context = rev_TemplateID template" "stored_rule (cb_ID context) r"
  shows "allow_trial pem context template r = Inr (boundary_row (tb_Boundary (rev_Body template)) r = None)"
proof -
  let ?c = "cb_ID context"
  have r: "PolicyMemoryRule_Clone r = r" "PolicyMemoryRule_Validate r ?c = None" using assms(4) by (simp_all add: stored_rule_def)
  have s: "sorted_rules [r] = [r]" by (rule sorted_rules_id) (simp_all add: r)
  have c: "ContextID_Validate ?c = None" by (rule context_parts(1)[OF assms(1)])
  have m: "PolicyMemoryRevision_Validate (memory_of ?c 1 [r]) = None"
    using memory_of_valid[of ?c 1 "[r]"] r c by (simp add: s publishable_def)
  have "PublishPolicyMemory ?c (Some [PolicyMemoryRule_Clone r]) None = Inr (memory_of ?c 1 [r], True)"
    using m c by (simp add: publish_first r s guarded_def checked_def)
  then show ?thesis
    using assms(1-3) m by (simp add: allow_trial_def and_then_def validate_for) (simp add: memory_of_def)
qed

lemma supersede_rows_exact:
  assumes "ContextBinding_Validate context = None" "WorkspaceTemplateRevision_Validate pem template = None"
    and "cb_TemplateID context = rev_TemplateID template" "\<forall>r \<in> set rs. stored_rule (cb_ID context) r"
  shows "supersede_rows pem context template rs =
     Inr (filter (kept_by (tb_Boundary (rev_Body template))) rs, filter (\<lambda>r. \<not> kept_by (tb_Boundary (rev_Body template)) r) rs)"
  using assms(4)
proof (induction rs)
  case (Cons r rs)
  have "PolicyMemoryRule_Clone r = r" using Cons.prems by (simp add: stored_rule_def)
  then show ?case
    using Cons allow_trial_exact[OF assms(1-3), of r] by (simp add: and_then_def kept_by_def)
qed simp

text \<open>A Context record whose memory is its own, as the collection keeps it.\<close>

definition record_ok :: "WorkspaceAuthorityContextRecord \<Rightarrow> bool" where
  "record_ok owner =
     (ContextBinding_Validate (acr_Context owner) = None \<and> PolicyMemoryRevision_Validate (acr_PolicyMemory owner) = None
      \<and> pmv_ContextID (acr_PolicyMemory owner) = cb_ID (acr_Context owner)
      \<and> PolicyMemoryRevision_Clone (acr_PolicyMemory owner) = acr_PolicyMemory owner)"

abbreviation remembered :: "WorkspaceAuthorityContextRecord \<Rightarrow> PolicyMemoryRule list" where
  "remembered owner \<equiv> elems (pmv_Rules (acr_PolicyMemory owner))"

lemma record_rules:
  assumes "record_ok owner"
  shows "pmv_Rules (acr_PolicyMemory owner) = Some (remembered owner)" "sorted_wrt (<) (map pmr_ID (remembered owner))"
    "\<forall>r \<in> set (remembered owner). stored_rule (cb_ID (acr_Context owner)) r"
proof -
  let ?m = "acr_PolicyMemory owner"
  obtain rs where rs: "pmv_Rules ?m = Some rs" "\<forall>r \<in> set rs. PolicyMemoryRule_Validate r (cb_ID (acr_Context owner)) = None"
      "sorted_wrt (<) (map pmr_ID rs)"
    using assms by (auto simp: record_ok_def memory_valid)
  have "pmv_Rules (PolicyMemoryRevision_Clone ?m) = pmv_Rules ?m" using assms by (simp add: record_ok_def)
  then have "map PolicyMemoryRule_Clone rs = rs" by (simp add: PolicyMemoryRevision_Clone_def rs)
  then have "\<forall>r \<in> set rs. PolicyMemoryRule_Clone r = r" by (simp add: map_eq_conv[where g = "\<lambda>x. x", simplified])
  then show "pmv_Rules ?m = Some (remembered owner)" "sorted_wrt (<) (map pmr_ID (remembered owner))"
    "\<forall>r \<in> set (remembered owner). stored_rule (cb_ID (acr_Context owner)) r"
    using rs by (simp_all add: stored_rule_def)
qed

lemma filtered_memory:
  assumes "record_ok owner"
  shows "sorted_rules (filter P (remembered owner)) = filter P (remembered owner)" "publishable (cb_ID (acr_Context owner)) (filter P (remembered owner))"
proof -
  note r = record_rules[OF assms]
  have "sorted_wrt (<) (map pmr_ID (filter P (remembered owner)))"
    using r(2) unfolding sorted_wrt_map by (rule sorted_wrt_filter)
  moreover from this have "distinct (map pmr_ID (filter P (remembered owner)))" using strict_sorted_iff by blast
  ultimately show "sorted_rules (filter P (remembered owner)) = filter P (remembered owner)"
    "publishable (cb_ID (acr_Context owner)) (filter P (remembered owner))"
    using r(3) by (auto simp: publishable_def stored_rule_def intro!: sorted_rules_id)
qed

text \<open>The record after superseding: the kept rules under the next generation, the removed ones as evidence.\<close>

definition narrowed :: "WorkspaceAuthorityContextRecord \<Rightarrow> WorkspaceTemplateRevision \<Rightarrow> WorkspaceAuthorityContextRecord" where
  "narrowed owner template =
     (let keep = kept_by (tb_Boundary (rev_Body template)); result = WorkspaceAuthorityContextRecord_Clone owner
      in result\<lparr> acr_PolicyMemory := memory_of (cb_ID (acr_Context owner)) (pmv_Generation (acr_PolicyMemory owner) + 1) (filter keep (remembered owner)),
           acr_SupersededAllows := Some (elems (acr_SupersededAllows result)
             @ map (allow_supersession owner template) (filter (\<lambda>r. \<not> keep r) (remembered owner))),
           acr_ActivePolicyMemory := None, acr_ActivePolicyMemoryRef := None \<rparr>)"

lemma supersede_exact:
  assumes ok: "record_ok owner" and t: "WorkspaceTemplateRevision_Validate pem template = None" "cb_TemplateID (acr_Context owner) = rev_TemplateID template"
    and apart: "rules_apart (acr_PolicyMemory owner) (filter (kept_by (tb_Boundary (rev_Body template))) (remembered owner))"
  shows "SupersedePolicyMemoryAllowsOutsideBoundary pem owner template =
     (let n = length (filter (\<lambda>r. \<not> kept_by (tb_Boundary (rev_Body template)) r) (remembered owner))
      in if n = 0 then Inr (WorkspaceAuthorityContextRecord_Clone owner, 0)
         else if pmv_Generation (acr_PolicyMemory owner) = - 1
           then Inl ''Policy Memory supersession publication failed: Policy Memory revision metadata is invalid''
         else Inr (narrowed owner template, n))"
proof -
  let ?m = "acr_PolicyMemory owner" and ?c = "cb_ID (acr_Context owner)"
  let ?keep = "kept_by (tb_Boundary (rev_Body template))"
  let ?rest = "filter ?keep (remembered owner)" and ?gone = "filter (\<lambda>r. \<not> ?keep r) (remembered owner)"
  have m: "PolicyMemoryRevision_Validate ?m = None" "pmv_ContextID ?m = ?c" "ContextBinding_Validate (acr_Context owner) = None"
    using ok by (simp_all add: record_ok_def)
  note f = filtered_memory[OF ok, of ?keep]
  have rows: "supersede_rows pem (acr_Context owner) template (remembered owner) = Inr (?rest, ?gone)"
    by (rule supersede_rows_exact[OF m(3) t record_rules(3)[OF ok]])
  have same: "pmv_Revision ?m = semanticDigest (rules_json (Some (sorted_rules ?rest))) \<longleftrightarrow> ?gone = []"
  proof -
    have "pmv_Rules ?m = Some ?rest \<longleftrightarrow> ?gone = []"
      using record_rules(1)[OF ok] by (auto simp: filter_empty_conv filter_id_conv) (metis filter_id_conv option.inject)
    then show ?thesis using same_rules[OF m(1) apart] by (simp only: f(1))
  qed
  have wrapped: "PolicyMemoryRevision_Validate (memory_of ?c 0 ?rest) = Some ''Policy Memory revision metadata is invalid''"
    by (simp add: PolicyMemoryRevision_Validate_def memory_of_def first_error.simps reject_def)
  have valid: "pmv_Generation ?m \<noteq> - 1 \<Longrightarrow> PolicyMemoryRevision_Validate (memory_of ?c (pmv_Generation ?m + 1) ?rest) = None"
    using memory_of_valid[of ?c "pmv_Generation ?m + 1" ?rest] f context_parts(1)[OF m(3)] generation_wraps[of "pmv_Generation ?m"] by simp
  have publish: "?gone \<noteq> [] \<Longrightarrow> PublishPolicyMemory ?c (Some ?rest) (Some ?m) =
      (if pmv_Generation ?m = - 1 then Inl ''Policy Memory revision metadata is invalid''
       else Inr (memory_of ?c (pmv_Generation ?m + 1) ?rest, True))"
    using publish_next[OF m(1), of ?rest] same valid wrapped by (simp add: m(2) f(1) checked_def)
  have start: "guarded (reject (ContextBinding_Validate (acr_Context owner) \<noteq> None \<or> WorkspaceTemplateRevision_Validate pem template \<noteq> None
      \<or> cb_TemplateID (acr_Context owner) \<noteq> rev_TemplateID template) e) x = x" for e and x :: "'x result"
    using m(3) t by (simp add: guarded_def reject_def)
  show ?thesis
  proof (cases "?gone = []")
    case True
    then show ?thesis unfolding SupersedePolicyMemoryAllowsOutsideBoundary_def start Let_def rows by (simp add: and_then_def)
  next
    case False
    then show ?thesis unfolding SupersedePolicyMemoryAllowsOutsideBoundary_def start Let_def rows
      using publish[OF False] by (simp add: and_then_def narrowed_def Let_def)
  qed
qed

text \<open>C9: When a Template Boundary becomes narrower, superseding removes exactly the remembered Allows that the new
  Boundary no longer admits: the others and every Deny stay, in their order, each removed Allow is kept as evidence
  bound to the memory and the Template revision it fell to, the memory moves to the next generation and loses its
  activation, and without such an Allow nothing changes. The new memory passes the check against the new revision
  exactly when every remembered Deny has its destination inside the new ceiling: a Deny outside it is neither
  removed here nor accepted there.\<close>

theorem narrowing_supersedes_exact_allows:
  assumes "record_ok owner" "WorkspaceTemplateRevision_Validate pem template = None" "cb_TemplateID (acr_Context owner) = rev_TemplateID template"
    and "rules_apart (acr_PolicyMemory owner) (filter (kept_by (tb_Boundary (rev_Body template))) (remembered owner))"
    and "pmv_Generation (acr_PolicyMemory owner) \<noteq> - 1"
  shows "\<exists>after n. SupersedePolicyMemoryAllowsOutsideBoundary pem owner template = Inr (after, n)
     \<and> n = length (filter (\<lambda>r. \<not> kept_by (tb_Boundary (rev_Body template)) r) (remembered owner))
     \<and> remembered after = filter (kept_by (tb_Boundary (rev_Body template))) (remembered owner)
     \<and> PolicyMemoryRevision_Validate (acr_PolicyMemory after) = None
     \<and> unat (pmv_Generation (acr_PolicyMemory after)) = unat (pmv_Generation (acr_PolicyMemory owner)) + (if n = 0 then 0 else 1)
     \<and> (n \<noteq> 0 \<longrightarrow> acr_ActivePolicyMemory after = None \<and> acr_ActivePolicyMemoryRef after = None)
     \<and> elems (acr_SupersededAllows after) = elems (acr_SupersededAllows (WorkspaceAuthorityContextRecord_Clone owner))
          @ map (allow_supersession owner template) (filter (\<lambda>r. \<not> kept_by (tb_Boundary (rev_Body template)) r) (remembered owner))
     \<and> (PolicyMemoryRevision_ValidateFor pem (acr_PolicyMemory after) (acr_Context owner) template = None \<longleftrightarrow>
          (\<forall>r \<in> set (remembered owner). pmr_Decision r = ''deny'' \<longrightarrow>
             contextPolicyRuleInsideDestination (bnd_DestinationCeiling (tb_Boundary (rev_Body template))) (body_authority (pmr_Body r))))"
proof -
  let ?m = "acr_PolicyMemory owner" and ?c = "cb_ID (acr_Context owner)" and ?b = "tb_Boundary (rev_Body template)"
  let ?n = "length (filter (\<lambda>r. \<not> kept_by ?b r) (remembered owner))"
  define after where "after = (if ?n = 0 then WorkspaceAuthorityContextRecord_Clone owner else narrowed owner template)"
  have m: "PolicyMemoryRevision_Validate ?m = None" "pmv_ContextID ?m = ?c" "ContextBinding_Validate (acr_Context owner) = None"
    "PolicyMemoryRevision_Clone ?m = ?m" using assms(1) by (simp_all add: record_ok_def)
  note r = record_rules[OF assms(1)] and f = filtered_memory[OF assms(1), of "kept_by ?b"]
  have all: "?n = 0 \<Longrightarrow> filter (kept_by ?b) (remembered owner) = remembered owner" by (simp add: filter_empty_conv filter_id_conv)
  have sup: "SupersedePolicyMemoryAllowsOutsideBoundary pem owner template = Inr (after, ?n)"
    unfolding supersede_exact[OF assms(1-4)] using assms(5) by (simp add: after_def Let_def)
  have rules: "remembered after = filter (kept_by ?b) (remembered owner)"
    using all m(4) by (simp add: after_def narrowed_def Let_def WorkspaceAuthorityContextRecord_Clone_def memory_of_def)
  have wrap: "pmv_Generation ?m + 1 \<noteq> 0" using assms(5) generation_wraps by blast
  have valid: "PolicyMemoryRevision_Validate (acr_PolicyMemory after) = None"
    using m memory_of_valid[of ?c "pmv_Generation ?m + 1" "filter (kept_by ?b) (remembered owner)"] f context_parts(1)[OF m(3)] wrap
    by (simp add: after_def narrowed_def Let_def WorkspaceAuthorityContextRecord_Clone_def)
  have gen: "unat (pmv_Generation (acr_PolicyMemory after)) = unat (pmv_Generation ?m) + (if ?n = 0 then 0 else 1)"
    using m(4) next_generation[OF wrap] by (simp add: after_def narrowed_def Let_def WorkspaceAuthorityContextRecord_Clone_def memory_of_def)
  have off: "?n \<noteq> 0 \<longrightarrow> acr_ActivePolicyMemory after = None \<and> acr_ActivePolicyMemoryRef after = None"
    by (simp add: after_def narrowed_def Let_def)
  have ev: "elems (acr_SupersededAllows after) = elems (acr_SupersededAllows (WorkspaceAuthorityContextRecord_Clone owner))
      @ map (allow_supersession owner template) (filter (\<lambda>r. \<not> kept_by ?b r) (remembered owner))"
    by (simp add: after_def narrowed_def Let_def)
  have own: "pmv_ContextID (acr_PolicyMemory after) = ?c"
    using m by (simp add: after_def narrowed_def Let_def WorkspaceAuthorityContextRecord_Clone_def memory_of_def)
  have d: "pmr_Decision r = ''allow'' \<or> pmr_Decision r = ''deny''" if "r \<in> set (remembered owner)" for r
    using r(3) that unfolding stored_rule_def rule_valid PolicyMemoryRuleBody_Validate_def Let_def first_error_None PolicyMemoryDecision_Validate_def reject_None
    by blast
  have row: "kept_by ?b r \<and> boundary_row ?b r \<noteq> None \<longleftrightarrow>
      pmr_Decision r = ''deny'' \<and> \<not> contextPolicyRuleInsideDestination (bnd_DestinationCeiling ?b) (body_authority (pmr_Body r))"
    if "r \<in> set (remembered owner)" for r
    using d[OF that] by (auto simp: kept_by_def boundary_row_def first_error_None reject_None simp del: not_None_eq)
  have "PolicyMemoryRevision_ValidateFor pem (acr_PolicyMemory after) (acr_Context owner) template = None \<longleftrightarrow>
      (\<forall>r \<in> set (remembered owner). \<not> (kept_by ?b r \<and> boundary_row ?b r \<noteq> None))"
    unfolding validate_for using m(3) assms(2,3) valid own rules by (auto simp del: not_None_eq)
  then have check: "PolicyMemoryRevision_ValidateFor pem (acr_PolicyMemory after) (acr_Context owner) template = None \<longleftrightarrow>
      (\<forall>r \<in> set (remembered owner). pmr_Decision r = ''deny'' \<longrightarrow>
         contextPolicyRuleInsideDestination (bnd_DestinationCeiling ?b) (body_authority (pmr_Body r)))"
    using row by blast
  show ?thesis
    by (intro exI[of _ after] exI[of _ ?n] conjI refl sup rules valid gen off ev check)
qed

section \<open>An example narrowing\<close>

text \<open>The example Template, narrowed to one destination, and a Deny of another.\<close>

definition narrow_body :: WorkspaceTemplateBody where
  "narrow_body =
     example_body\<lparr> tb_Boundary := (tb_Boundary example_body)\<lparr> bnd_DestinationCeiling :=
       \<lparr> mdc_Mode = ''exact'', mdc_Authorities = Some [\<lparr> mpa_Scheme = ''https'', mpa_Host = ''api.tobari.dev'', mpa_Port = 443 \<rparr>] \<rparr> \<rparr> \<rparr>"

definition narrow_revision :: WorkspaceTemplateRevision where
  "narrow_revision = revision_of example_template_id 2 narrow_body"

definition example_effect :: "string \<Rightarrow> PolicyCandidateEffect" where
  "example_effect host =
     \<lparr> pce_Identity = base_identity ''https'' ''http'', pce_Match = ''exact'', pce_Host = host, pce_Port = 443, pce_Method = ''GET'',
       pce_Path = ''/v1'', pce_Segments = Some [], pce_Examples = Some [''/v1''] \<rparr>"

definition example_memory_rule :: "string \<Rightarrow> string \<Rightarrow> PolicyMemoryRule" where
  "example_memory_rule decision host =
     (let b = RuleBody (example_effect host) ''pcy_00000000000000000000000000000001''
      in \<lparr> pmr_ID = policyMemoryRuleID example_context_id decision b, pmr_Decision = decision, pmr_Body = b \<rparr>)"

definition owner_record :: "PolicyMemoryRule list \<Rightarrow> WorkspaceAuthorityContextRecord" where
  "owner_record rules =
     \<lparr> acr_Context = example_context, acr_ContextHome = [], acr_CreationDefaults = [],
       acr_PolicyMemory = memory_of example_context_id 1 rules, acr_ActiveTemplatePolicy = None, acr_ActivePolicyMemory = None,
       acr_ActivePolicyMemoryRef = None, acr_SupersededAllows = None, acr_SupersededCandidates = None \<rparr>"

lemma narrow_revision_valid: "WorkspaceTemplateRevision_Validate (\<lambda>_. True) narrow_revision = None"
proof -
  have "WorkspaceTemplateBody_Validate (\<lambda>_. True) narrow_body = None" "WorkspaceTemplateID_Validate example_template_id = None" by code_simp+
  then show ?thesis by (simp add: revision_valid narrow_revision_def revision_of_def)
qed

lemma example_effects_valid:
  "PolicyCandidateEffect_Validate (example_effect ''other.tobari.dev'') = None"
  "PolicyCandidateEffect_Validate (example_effect ''api.tobari.dev'') = None"
  by code_simp+

lemma memory_rule_stored:
  assumes "PolicyCandidateEffect_Validate (example_effect host) = None" "PolicyMemoryDecision_Validate d = None"
  shows "stored_rule example_context_id (example_memory_rule d host)"
proof -
  have "ValidatePolicyCandidateID ''pcy_00000000000000000000000000000001'' = None" by code_simp
  then have "PolicyMemoryRuleBody_Validate (RuleBody (example_effect host) ''pcy_00000000000000000000000000000001'') d = None"
    by (rule candidate_body_valid[OF assms(1) _ assms(2)])
  then show ?thesis using example_context_valid by (simp add: stored_rule_def rule_valid example_memory_rule_def Let_def PolicyMemoryRule_Clone_def)
qed

lemma example_boundary_rows: "boundary_row (tb_Boundary example_body) (example_memory_rule d ''other.tobari.dev'') = None"
proof -
  have r: "body_authority (pmr_Body (example_memory_rule d ''other.tobari.dev'')) = \<lparr> mpa_Scheme = ''https'', mpa_Host = ''other.tobari.dev'', mpa_Port = 443 \<rparr>"
    "pmb_Method (pmr_Body (example_memory_rule d ''other.tobari.dev'')) = ''GET''"
    by (simp_all add: body_authority_def example_memory_rule_def Let_def RuleBody_def example_effect_def base_identity_def)
  have e: "contextPolicyRuleInsideDestination (bnd_DestinationCeiling (tb_Boundary example_body)) \<lparr> mpa_Scheme = ''https'', mpa_Host = ''other.tobari.dev'', mpa_Port = 443 \<rparr>"
    "Decision (bnd_MethodPolicy (tb_Boundary example_body)) ''GET'' \<noteq> ''deny''"
    by code_simp+
  show "boundary_row (tb_Boundary example_body) (example_memory_rule d ''other.tobari.dev'') = None"
    unfolding boundary_row_def r first_error_None reject_None using e by (simp only: first_error.simps simp_thms)
qed

theorem narrowing_supersedes_exact_allows_witness:
  "\<exists>after. SupersedePolicyMemoryAllowsOutsideBoundary (\<lambda>_. True) (owner_record []) narrow_revision = Inr (after, 0)
     \<and> remembered after = [] \<and> PolicyMemoryRevision_ValidateFor (\<lambda>_. True) (acr_PolicyMemory after) example_context narrow_revision = None"
proof -
  have m: "PolicyMemoryRevision_Validate (memory_of example_context_id 1 []) = None"
    using empty_memory_valid[OF example_context_valid, of 1] by simp
  have "record_ok (owner_record [])"
    using m example_context_binding
    by (simp add: record_ok_def owner_record_def PolicyMemoryRevision_Clone_def memory_of_def example_context_def)
  moreover have "cb_TemplateID (acr_Context (owner_record [])) = rev_TemplateID narrow_revision"
    by (simp add: owner_record_def example_context_def narrow_revision_def revision_of_def)
  moreover have "json_valid (rules_json (Some []))" by code_simp
  then have "rules_apart (acr_PolicyMemory (owner_record [])) (filter (kept_by (tb_Boundary (rev_Body narrow_revision))) (remembered (owner_record [])))"
    by (simp add: rules_apart_def owner_record_def memory_of_def no_collision_def sorted_rules_def)
  moreover have "pmv_Generation (acr_PolicyMemory (owner_record [])) \<noteq> - 1" by (simp add: owner_record_def memory_of_def)
  ultimately show ?thesis
    using narrowing_supersedes_exact_allows[OF _ narrow_revision_valid, of "owner_record []"] by (auto simp: owner_record_def memory_of_def)
qed

end
