(* ===== verification/Authority_Collection.thy ===== *)
theory Authority_Collection
  imports Authority_Records Template_Changes
begin

text \<open>
  The installation-wide Workspace Authority, from
  \<open>internal/domain/tobari/workspace_authority_collection.go\<close>: the collection of Templates, Contexts,
  Workspaces and pending candidates, its check, its revision and its publication. A value of the
  model encodes unless one of its times does not, which makes the revision an option. A Go map that a
  loop fills is a lookup of the last entry with a key.
\<close>

section \<open>The collection\<close>

record WorkspaceAuthorityCollection =
  wac_SchemaVersion :: int
  wac_Generation :: "64 word"
  wac_Revision :: SemanticDigest
  wac_Templates :: "WorkspaceTemplate list option"
  wac_Contexts :: "WorkspaceAuthorityContextRecord list option"
  wac_Workspaces :: "WorkspaceBinding list option"
  wac_PendingCandidates :: "PolicyCandidateAuthority list option"
  wac_DefaultTemplateID :: "WorkspaceTemplateID option"
  wac_CurrentContextID :: "ContextID option"

definition cloneWorkspaceTemplates :: "WorkspaceTemplate list \<Rightarrow> WorkspaceTemplate list" where
  "cloneWorkspaceTemplates ts = map WorkspaceTemplate_Clone ts"

text \<open>A Workspace binding is copied with its last entry, which changes nothing of the value.\<close>

definition cloneWorkspaceBindings :: "WorkspaceBinding list \<Rightarrow> WorkspaceBinding list" where
  "cloneWorkspaceBindings ws = map (\<lambda>w. w\<lparr> wb_LastSuccessfulEntry := map_option (\<lambda>e. e) (wb_LastSuccessfulEntry w) \<rparr>) ws"

definition WorkspaceAuthorityCollection_Clone :: "WorkspaceAuthorityCollection \<Rightarrow> WorkspaceAuthorityCollection" where
  "WorkspaceAuthorityCollection_Clone c =
     c\<lparr> wac_Templates := Some (cloneWorkspaceTemplates (elems (wac_Templates c))),
        wac_Contexts := Some (cloneWorkspaceAuthorityContextRecords (elems (wac_Contexts c))),
        wac_Workspaces := Some (cloneWorkspaceBindings (elems (wac_Workspaces c))),
        wac_PendingCandidates := Some (clonePolicyCandidateAuthorities (elems (wac_PendingCandidates c))) \<rparr>"

section \<open>Encoding\<close>

definition ContextBinding_json :: "ContextBinding \<Rightarrow> json" where
  "ContextBinding_json c =
     json_struct [(''schema_version'', Some (JNumber (cb_SchemaVersion c))), (''context_id'', Some (JString (cb_ID c))),
                  (''workspace_template_id'', Some (JString (cb_TemplateID c)))]"

definition PolicyMemoryRevision_json :: "PolicyMemoryRevision \<Rightarrow> json" where
  "PolicyMemoryRevision_json m =
     json_struct [(''schema_version'', Some (JNumber (pmv_SchemaVersion m))), (''context_id'', Some (JString (pmv_ContextID m))),
                  (''generation'', Some (JNumber (uint (pmv_Generation m)))), (''revision'', Some (JString (pmv_Revision m))),
                  (''rules'', Some (rules_json (pmv_Rules m)))]"

definition TemplatePolicyActivationReceipt_json :: "TemplatePolicyActivationReceipt \<Rightarrow> json" where
  "TemplatePolicyActivationReceipt_json r =
     json_struct [(''context_id'', Some (JString (tpr_ContextID r))), (''workspace_template_id'', Some (JString (tpr_TemplateID r))),
                  (''policy_slice_digest'', Some (JString (tpr_PolicySliceDigest r)))]"

definition PolicyMemoryActivationReceipt_json :: "PolicyMemoryActivationReceipt \<Rightarrow> json" where
  "PolicyMemoryActivationReceipt_json r =
     json_struct [(''context_id'', Some (JString (pmar_ContextID r))), (''policy_memory_revision'', Some (JString (pmar_Revision r)))]"

definition PolicyCandidateAuthority_json :: "PolicyCandidateAuthority \<Rightarrow> json" where
  "PolicyCandidateAuthority_json c =
     json_struct [(''id'', Some (JString (pca_ID c))), (''context_id'', Some (JString (pca_ContextID c))),
                  (''observing_workspace_id'', Some (JString (pca_ObservingWorkspaceID c))),
                  (''payload_digest'', Some (JString (pca_PayloadDigest c))), (''effect'', Some (PolicyCandidateEffect_json (pca_Effect c)))]"

definition PolicyMemoryAllowSupersession_json :: "PolicyMemoryAllowSupersession \<Rightarrow> json" where
  "PolicyMemoryAllowSupersession_json s =
     json_struct [(''schema_version'', Some (JNumber (pas_SchemaVersion s))), (''context_id'', Some (JString (pas_ContextID s))),
                  (''rule'', Some (PolicyMemoryRule_json (pas_Rule s))), (''source_policy_memory_revision'', Some (JString (pas_SourceMemoryRevision s))),
                  (''workspace_template_id'', Some (JString (pas_TemplateID s))), (''workspace_template_revision'', Some (JString (pas_TemplateRevision s)))]"

definition PolicyCandidateSupersession_json :: "PolicyCandidateSupersession \<Rightarrow> json" where
  "PolicyCandidateSupersession_json s =
     json_struct [(''schema_version'', Some (JNumber (pcs_SchemaVersion s))), (''context_id'', Some (JString (pcs_ContextID s))),
                  (''candidate'', Some (PolicyCandidateAuthority_json (pcs_Candidate s))),
                  (''workspace_template_id'', Some (JString (pcs_TemplateID s))), (''workspace_template_revision'', Some (JString (pcs_TemplateRevision s)))]"

definition WorkspaceAuthorityContextRecord_json :: "WorkspaceAuthorityContextRecord \<Rightarrow> json" where
  "WorkspaceAuthorityContextRecord_json r =
     json_struct
       [(''context'', Some (ContextBinding_json (acr_Context r))), (''context_home'', json_omitempty (acr_ContextHome r)),
        (''creation_defaults_digest'', json_omitempty (acr_CreationDefaults r)), (''policy_memory'', Some (PolicyMemoryRevision_json (acr_PolicyMemory r))),
        (''active_template_policy'', map_option TemplatePolicyActivationReceipt_json (acr_ActiveTemplatePolicy r)),
        (''active_policy_memory'', map_option PolicyMemoryRevision_json (acr_ActivePolicyMemory r)),
        (''active_policy_memory_receipt'', map_option PolicyMemoryActivationReceipt_json (acr_ActivePolicyMemoryRef r)),
        (''superseded_policy_memory_allows'', json_slice_omitempty PolicyMemoryAllowSupersession_json (acr_SupersededAllows r)),
        (''superseded_policy_candidates'', json_slice_omitempty PolicyCandidateSupersession_json (acr_SupersededCandidates r))]"

definition WorkspaceBinding_json :: "WorkspaceBinding \<Rightarrow> json option" where
  "WorkspaceBinding_json w =
     map_option
       (\<lambda>entry. json_struct
          [(''schema_version'', Some (JNumber (wb_SchemaVersion w))), (''workspace_id'', Some (JString (wb_ID w))),
           (''context_id'', Some (JString (wb_ContextID w))), (''project_root'', Some (JString (wb_ProjectRoot w))),
           (''home'', Some (JString (wb_Home w))), (''creation_defaults_digest'', Some (JString (wb_CreationDefaults w))),
           (''last_successful_entry'', entry)])
       (case wb_LastSuccessfulEntry w of None \<Rightarrow> Some None | Some e \<Rightarrow> map_option Some (WorkspaceAppliedEntry_json e))"

text \<open>The Home of a Context is left out of the revision while a Workspace of the Context carries it.\<close>

definition revision_contexts :: "WorkspaceAuthorityCollection \<Rightarrow> WorkspaceAuthorityContextRecord list" where
  "revision_contexts c =
     map (\<lambda>r. if cb_ID (acr_Context r) \<in> wb_ContextID ` set (elems (wac_Workspaces c))
              then r\<lparr> acr_ContextHome := [], acr_CreationDefaults := [] \<rparr> else r)
       (cloneWorkspaceAuthorityContextRecords (elems (wac_Contexts c)))"

definition collection_content_json :: "WorkspaceAuthorityCollection \<Rightarrow> json option" where
  "collection_content_json c =
     map_option
       (\<lambda>workspaces. json_struct
          [(''Templates'', Some (json_slice WorkspaceTemplate_json (wac_Templates c))),
           (''Contexts'', Some (JArray (map WorkspaceAuthorityContextRecord_json (revision_contexts c)))),
           (''Workspaces'', Some workspaces),
           (''PendingCandidates'', Some (json_slice PolicyCandidateAuthority_json (wac_PendingCandidates c))),
           (''DefaultTemplateID'', Some (json_pointer (wac_DefaultTemplateID c))), (''CurrentContextID'', Some (json_pointer (wac_CurrentContextID c)))])
       (case wac_Workspaces c of None \<Rightarrow> Some JNull | Some ws \<Rightarrow> map_option JArray (those (map WorkspaceBinding_json ws)))"

definition workspaceAuthorityCollectionRevision :: "WorkspaceAuthorityCollection \<Rightarrow> SemanticDigest option" where
  "workspaceAuthorityCollectionRevision c = map_option semanticDigest (collection_content_json c)"

section \<open>The check of a collection\<close>

text \<open>The value a map holds for a key after a loop has stored the elements in order.\<close>

definition stored :: "('a \<Rightarrow> string) \<Rightarrow> 'a list \<Rightarrow> string \<Rightarrow> 'a option" where
  "stored key xs k = List.find (\<lambda>x. key x = k) (rev xs)"

fun templates_ascend :: "WorkspaceTemplateID \<Rightarrow> WorkspaceTemplate list \<Rightarrow> check" where
  "templates_ascend previous [] = None"
| "templates_ascend previous (t # ts) =
     first_error
       [reject (previous \<noteq> [] \<and> tpl_ID t \<le> previous) ''Workspace Templates must be unique and sorted'',
        templates_ascend (tpl_ID t) ts]"

fun context_rows :: "WorkspaceTemplate list \<Rightarrow> ContextID \<Rightarrow> WorkspaceAuthorityContextRecord list \<Rightarrow> check" where
  "context_rows templates previous [] = None"
| "context_rows templates previous (r # rs) =
     first_error
       [reject (previous \<noteq> [] \<and> cb_ID (acr_Context r) \<le> previous) ''Contexts must be unique and sorted'',
        reject (stored tpl_ID templates (cb_TemplateID (acr_Context r)) = None) ''Context refers to an unavailable Workspace Template'',
        reject ((acr_ContextHome r = []) \<noteq> (acr_CreationDefaults r = [])) ''Context Home authority is incomplete'',
        (if acr_ContextHome r \<noteq> [] then
           first_error
             [reject (\<not> filepath_IsAbs (acr_ContextHome r) \<or> filepath_Clean (acr_ContextHome r) \<noteq> acr_ContextHome r)
                ''Context Home authority is invalid'',
              wrap ''Context Home creation authority is invalid'' (SemanticDigest_Validate (acr_CreationDefaults r))]
         else None),
        context_rows templates (cb_ID (acr_Context r)) rs]"

text \<open>The owners of the Homes: the loop over the Contexts fills the map that the loop over the Workspaces goes on with.\<close>

fun home_rows :: "(string \<Rightarrow> ContextID option) \<Rightarrow> WorkspaceAuthorityContextRecord list \<Rightarrow> (string \<Rightarrow> ContextID option) result" where
  "home_rows homes [] = Inr homes"
| "home_rows homes (r # rs) =
     (if acr_ContextHome r = [] then home_rows homes rs
      else guarded
        (case homes (acr_ContextHome r) of
           Some owner \<Rightarrow> reject (owner \<noteq> cb_ID (acr_Context r)) ''one Context Home may belong to only one Context''
         | None \<Rightarrow> None)
        (home_rows (homes(acr_ContextHome r \<mapsto> cb_ID (acr_Context r))) rs))"

definition context_root :: "WorkspaceBinding \<Rightarrow> string" where
  "context_root w = wb_ContextID w @ [NUL] @ wb_ProjectRoot w"

fun workspace_rows ::
  "WorkspaceAuthorityContextRecord list \<Rightarrow> (string \<Rightarrow> ContextID option) \<Rightarrow> (string \<Rightarrow> WorkspaceID option) \<Rightarrow> WorkspaceID
   \<Rightarrow> WorkspaceBinding list \<Rightarrow> check" where
  "workspace_rows contexts homes roots previous [] = None"
| "workspace_rows contexts homes roots previous (w # ws) =
     first_error
       [reject (previous \<noteq> [] \<and> wb_ID w \<le> previous) ''Workspaces must be unique and sorted'',
        (case stored (\<lambda>r. cb_ID (acr_Context r)) contexts (wb_ContextID w) of
           None \<Rightarrow> Some ''Workspace refers to an unavailable Context''
         | Some r \<Rightarrow>
             first_error
               [WorkspaceBinding_ValidateFor w (acr_Context r),
                reject (acr_ContextHome r = [] \<or> acr_CreationDefaults r = [] \<or> wb_Home w \<noteq> acr_ContextHome r
                        \<or> wb_CreationDefaults w \<noteq> acr_CreationDefaults r)
                  ''Workspace does not match its Context Home creation authority'']),
        (case roots (context_root w) of
           Some owner \<Rightarrow> reject (owner \<noteq> wb_ID w) ''one Context may have at most one Workspace at one Project root''
         | None \<Rightarrow> None),
        (case homes (wb_Home w) of
           Some owner \<Rightarrow> reject (owner \<noteq> wb_ContextID w) ''one Context Home may belong to only one Context''
         | None \<Rightarrow> None),
        workspace_rows contexts (homes(wb_Home w \<mapsto> wb_ContextID w)) (roots(context_root w \<mapsto> wb_ID w)) (wb_ID w) ws]"

definition workspaces_of :: "WorkspaceAuthorityCollection \<Rightarrow> ContextID \<Rightarrow> WorkspaceBinding list" where
  "workspaces_of c i = filter (\<lambda>w. wb_ContextID w = i) (elems (wac_Workspaces c))"

text \<open>The snapshot of one Context, as the check and the projection build it.\<close>

definition context_snapshot ::
  "WorkspaceTemplate \<Rightarrow> WorkspaceAuthorityContextRecord \<Rightarrow> WorkspaceBinding list \<Rightarrow> ContextAuthoritySnapshot" where
  "context_snapshot template r ws =
     \<lparr> cas_Context = acr_Context r, cas_Template = template, cas_ContextHome = acr_ContextHome r,
       cas_ContextCreationDefaults = acr_CreationDefaults r, cas_PolicyMemory = acr_PolicyMemory r,
       cas_ActiveTemplatePolicy = acr_ActiveTemplatePolicy r, cas_ActivePolicyMemory = acr_ActivePolicyMemory r,
       cas_ActivePolicyMemoryRef = acr_ActivePolicyMemoryRef r, cas_Workspaces = Some (cloneWorkspaceBindings ws), cas_Workspace = None \<rparr>"

definition context_check :: "(nat list \<Rightarrow> bool) \<Rightarrow> WorkspaceAuthorityCollection \<Rightarrow> WorkspaceTemplate \<Rightarrow> WorkspaceAuthorityContextRecord \<Rightarrow> check" where
  "context_check pem c template r =
     (let ws = workspaces_of c (cb_ID (acr_Context r))
      in first_error
       [reject (acr_CreationDefaults r \<noteq> [] \<and> \<not> creation_retained template (acr_CreationDefaults r))
          ''Context Home creation defaults have no retained Template revision'',
        check_each
          (\<lambda>s. first_error
             [reject (PolicyMemoryAllowSupersession_Validate s \<noteq> None \<or> pas_ContextID s \<noteq> cb_ID (acr_Context r) \<or> pas_TemplateID s \<noteq> tpl_ID template)
                ''Policy Memory Allow supersession crosses authority'',
              reject (list_ex (\<lambda>x. pmr_ID x = pmr_ID (pas_Rule s)) (elems (pmv_Rules (acr_PolicyMemory r))))
                ''superseded Policy Memory Allow remains current'']) (elems (acr_SupersededAllows r)),
        check_each
          (\<lambda>s. first_error
             [reject (PolicyCandidateSupersession_Validate s \<noteq> None \<or> pcs_ContextID s \<noteq> cb_ID (acr_Context r) \<or> pcs_TemplateID s \<noteq> tpl_ID template)
                ''Policy candidate supersession crosses authority'',
              reject (list_ex (\<lambda>p. pca_ID p = pca_ID (pcs_Candidate s)) (elems (wac_PendingCandidates c)))
                ''superseded Policy candidate remains pending'']) (elems (acr_SupersededCandidates r)),
        check_each
          (\<lambda>w. reject (\<not> creation_retained template (wb_CreationDefaults w))
             ''Workspace creation defaults have no retained Template revision'') ws,
        (case ws of
           first # others \<Rightarrow>
             check_each
               (\<lambda>w. first_error
                  [reject (wb_Home w \<noteq> wb_Home first) ''Workspaces owned by one Context must share one Context Home'',
                   reject (wb_CreationDefaults w \<noteq> wb_CreationDefaults first)
                     ''Workspaces owned by one Context must share create-once Home defaults'']) others
         | [] \<Rightarrow> None),
        ContextAuthoritySnapshot_Validate pem (context_snapshot template r ws)])"

text \<open>The loop of \<open>sort.Search\<close>: while the interval from \<open>i\<close> to \<open>j\<close> is not empty, its body tests the middle and keeps one half.\<close>

definition search_step :: "(nat \<Rightarrow> bool) \<Rightarrow> nat \<times> nat \<Rightarrow> nat \<times> nat" where
  "search_step f s = (let h = (fst s + snd s) div 2 in if \<not> f h then (h + 1, snd s) else (fst s, h))"

function sort_Search :: "(nat \<Rightarrow> bool) \<Rightarrow> nat \<times> nat \<Rightarrow> nat" where
  "sort_Search f s = (if fst s < snd s then sort_Search f (search_step f s) else fst s)"
  by pat_completeness auto
termination by (relation "measure (\<lambda>(f, s). snd s - fst s)") (auto simp: search_step_def Let_def)

declare sort_Search.simps [simp del]

definition sort_SearchStrings :: "string list \<Rightarrow> string \<Rightarrow> nat" where
  "sort_SearchStrings xs x = sort_Search (\<lambda>i. x \<le> xs ! i) (0, length xs)"

definition consumed_by :: "PolicyCandidateAuthority \<Rightarrow> PolicyMemoryRule \<Rightarrow> bool" where
  "consumed_by c rule =
     (let sources = elems (pmb_SourceCandidates (pmr_Body rule)); index = sort_SearchStrings sources (pca_ID c)
      in index < length sources \<and> sources ! index = pca_ID c)"

definition candidate_check ::
  "(nat list \<Rightarrow> bool) \<Rightarrow> WorkspaceAuthorityCollection \<Rightarrow> PolicyCandidateAuthority \<Rightarrow> check" where
  "candidate_check pem c candidate =
     (case (stored (\<lambda>r. cb_ID (acr_Context r)) (elems (wac_Contexts c)) (pca_ContextID candidate),
            stored wb_ID (elems (wac_Workspaces c)) (pca_ObservingWorkspaceID candidate)) of
        (Some r, Some w) \<Rightarrow>
          first_error
            [reject (wb_ContextID w \<noteq> pca_ContextID candidate) ''Policy candidate crosses Context or observing Workspace authority'',
             reject (list_ex (consumed_by candidate) (elems (pmv_Rules (acr_PolicyMemory r))))
               ''pending Policy candidate was already consumed by current Policy Memory'',
             (case NewPolicyMemoryRule (pca_ContextID candidate) ''allow'' (RuleBody (pca_Effect candidate) (pca_ID candidate)) of
                Inl e \<Rightarrow> Some e
              | Inr rule \<Rightarrow>
                  (case PublishPolicyMemory (pca_ContextID candidate) (Some [rule]) None of
                     Inl e \<Rightarrow> Some e
                   | Inr (memory, _) \<Rightarrow>
                       (case stored tpl_ID (elems (wac_Templates c)) (cb_TemplateID (acr_Context r)) of
                          None \<Rightarrow> None
                        | Some t \<Rightarrow> wrap ''Policy candidate exceeds its Context Template Boundary''
                                      (PolicyMemoryRevision_ValidateFor pem memory (acr_Context r) (tpl_Current t)))))]
      | _ \<Rightarrow> Some ''Policy candidate crosses Context or observing Workspace authority'')"

fun candidate_rows :: "(nat list \<Rightarrow> bool) \<Rightarrow> WorkspaceAuthorityCollection \<Rightarrow> string \<Rightarrow> PolicyCandidateAuthority list \<Rightarrow> check" where
  "candidate_rows pem c previous [] = None"
| "candidate_rows pem c previous (candidate # rest) =
     first_error
       [reject (previous \<noteq> [] \<and> pca_ID candidate \<le> previous) ''Policy candidates must be unique and sorted'',
        PolicyCandidateAuthority_Validate candidate,
        candidate_check pem c candidate,
        candidate_rows pem c (pca_ID candidate) rest]"

text \<open>
  A Context of the collection has a stored Template when the loops over the Contexts are reached, so
  the remaining case of the lookup does not arise.
\<close>

definition WorkspaceAuthorityCollection_Validate :: "(nat list \<Rightarrow> bool) \<Rightarrow> WorkspaceAuthorityCollection \<Rightarrow> check" where
  "WorkspaceAuthorityCollection_Validate pem c =
     (let templates = elems (wac_Templates c); contexts = elems (wac_Contexts c); workspaces = elems (wac_Workspaces c)
      in first_error
       [reject (wac_SchemaVersion c \<noteq> 2 \<or> wac_Generation c = 0) ''Workspace authority collection metadata is invalid'',
        reject (wac_Templates c = None \<or> wac_Contexts c = None \<or> wac_Workspaces c = None \<or> wac_PendingCandidates c = None)
          ''Workspace authority collection is incomplete'',
        ValidateWorkspaceTemplateAuthorities pem (wac_Templates c),
        templates_ascend [] templates,
        context_rows templates [] contexts,
        ValidateContextBindings (Some (map acr_Context contexts)),
        (case home_rows Map.empty contexts of
           Inl e \<Rightarrow> Some e
         | Inr homes \<Rightarrow> workspace_rows contexts homes Map.empty [] workspaces),
        check_each
          (\<lambda>r. case stored tpl_ID templates (cb_TemplateID (acr_Context r)) of
                  None \<Rightarrow> None
                | Some t \<Rightarrow> context_check pem c t r) contexts,
        candidate_rows pem c [] (elems (wac_PendingCandidates c)),
        (case wac_DefaultTemplateID c of
           None \<Rightarrow> None
         | Some i \<Rightarrow> first_error [WorkspaceTemplateID_Validate i,
             reject (stored tpl_ID templates i = None) ''default Workspace Template is unavailable'']),
        (case wac_CurrentContextID c of
           None \<Rightarrow> None
         | Some i \<Rightarrow> first_error [ContextID_Validate i,
             reject (stored (\<lambda>r. cb_ID (acr_Context r)) contexts i = None) ''current Context is unavailable'']),
        (case workspaceAuthorityCollectionRevision c of
           None \<Rightarrow> Some ''Time.MarshalJSON: year outside of range [0,9999]''
         | Some want \<Rightarrow> reject (wac_Revision c \<noteq> want)
             ''Workspace authority collection revision does not bind its complete content'')])"

section \<open>Publication\<close>

definition bind_home :: "WorkspaceAuthorityContextRecord list \<Rightarrow> WorkspaceBinding \<Rightarrow> WorkspaceAuthorityContextRecord list" where
  "bind_home contexts w =
     (case context_index contexts (wb_ContextID w) of
        None \<Rightarrow> contexts
      | Some i \<Rightarrow>
          if acr_ContextHome (contexts ! i) \<noteq> [] \<or> acr_CreationDefaults (contexts ! i) \<noteq> [] then contexts
          else contexts[i := (contexts ! i)\<lparr> acr_ContextHome := wb_Home w, acr_CreationDefaults := wb_CreationDefaults w \<rparr>])"

definition bindContextHomeAuthority ::
  "WorkspaceAuthorityContextRecord list \<Rightarrow> WorkspaceBinding list \<Rightarrow> WorkspaceAuthorityContextRecord list" where
  "bindContextHomeAuthority contexts workspaces = foldl bind_home contexts workspaces"

text \<open>The Home of a retained Context: fixed once it is known, and first known from an entry only.\<close>

definition home_transition :: "bool \<Rightarrow> WorkspaceAuthorityContextRecord list \<Rightarrow> WorkspaceAuthorityContextRecord \<Rightarrow> check" where
  "home_transition initialization contexts before =
     (case stored (\<lambda>r. cb_ID (acr_Context r)) contexts (cb_ID (acr_Context before)) of
        None \<Rightarrow> None
      | Some after \<Rightarrow>
          if acr_ContextHome before = [] then
            reject (acr_ContextHome after \<noteq> [] \<and> \<not> initialization) ''Context Home initialization requires an exact Workspace entry plan''
          else
            reject (acr_ContextHome after \<noteq> acr_ContextHome before \<or> acr_CreationDefaults after \<noteq> acr_CreationDefaults before)
              ''Context Home creation authority cannot change'')"

text \<open>The next value: copies, with the Homes bound and every collection in the order of its identifiers. The collections
  it accepts have unique identifiers, so the stable sort gives the order of \<open>sort.Slice\<close>.\<close>

definition collection_of ::
  "64 word \<Rightarrow> WorkspaceTemplate list \<Rightarrow> WorkspaceAuthorityContextRecord list \<Rightarrow> WorkspaceBinding list \<Rightarrow> PolicyCandidateAuthority list
   \<Rightarrow> WorkspaceTemplateID option \<Rightarrow> ContextID option \<Rightarrow> WorkspaceAuthorityCollection" where
  "collection_of generation templates contexts workspaces candidates defaultTemplateID currentContextID =
     (let workspaces = cloneWorkspaceBindings workspaces
      in \<lparr> wac_SchemaVersion = 2, wac_Generation = generation, wac_Revision = [],
           wac_Templates = Some (sort_key tpl_ID (cloneWorkspaceTemplates templates)),
           wac_Contexts = Some (sort_key (\<lambda>r. cb_ID (acr_Context r))
             (bindContextHomeAuthority (cloneWorkspaceAuthorityContextRecords contexts) workspaces)),
           wac_Workspaces = Some (sort_key wb_ID workspaces),
           wac_PendingCandidates = Some (sort_key pca_ID (clonePolicyCandidateAuthorities candidates)),
           wac_DefaultTemplateID = defaultTemplateID, wac_CurrentContextID = currentContextID \<rparr>)"

definition publishWorkspaceAuthorityCollection ::
  "(nat list \<Rightarrow> bool) \<Rightarrow> WorkspaceTemplate list option \<Rightarrow> WorkspaceAuthorityContextRecord list option \<Rightarrow> WorkspaceBinding list option
   \<Rightarrow> PolicyCandidateAuthority list option \<Rightarrow> WorkspaceTemplateID option \<Rightarrow> ContextID option \<Rightarrow> WorkspaceAuthorityCollection option \<Rightarrow> bool
   \<Rightarrow> (WorkspaceAuthorityCollection \<times> bool) result" where
  "publishWorkspaceAuthorityCollection pem templates contexts workspaces candidates defaultTemplateID currentContextID previous initialization =
     guarded
       (reject (templates = None \<or> contexts = None \<or> workspaces = None \<or> candidates = None) ''Workspace authority collections must be explicit'')
       (let generation = (case previous of None \<Rightarrow> 1 | Some p \<Rightarrow> wac_Generation p + 1);
            result = collection_of generation (elems templates) (elems contexts) (elems workspaces) (elems candidates)
                       defaultTemplateID currentContextID
        in guarded
             (case previous of
                None \<Rightarrow> None
              | Some p \<Rightarrow> first_error [WorkspaceAuthorityCollection_Validate pem p,
                  check_each (home_transition initialization (elems (wac_Contexts result))) (elems (wac_Contexts p))])
             (case workspaceAuthorityCollectionRevision result of
                None \<Rightarrow> Inl ''Time.MarshalJSON: year outside of range [0,9999]''
              | Some revision \<Rightarrow>
                  (case previous of
                     Some p \<Rightarrow>
                       if wac_Revision p = revision then Inr (WorkspaceAuthorityCollection_Clone p, False)
                       else let r = result\<lparr> wac_Revision := revision \<rparr> in checked (WorkspaceAuthorityCollection_Validate pem r) (r, True)
                   | None \<Rightarrow> let r = result\<lparr> wac_Revision := revision \<rparr> in checked (WorkspaceAuthorityCollection_Validate pem r) (r, True))))"

definition PublishWorkspaceAuthorityCollection ::
  "(nat list \<Rightarrow> bool) \<Rightarrow> WorkspaceTemplate list option \<Rightarrow> WorkspaceAuthorityContextRecord list option \<Rightarrow> WorkspaceBinding list option
   \<Rightarrow> PolicyCandidateAuthority list option \<Rightarrow> WorkspaceTemplateID option \<Rightarrow> WorkspaceAuthorityCollection option
   \<Rightarrow> (WorkspaceAuthorityCollection \<times> bool) result" where
  "PublishWorkspaceAuthorityCollection pem templates contexts workspaces candidates defaultTemplateID previous =
     (let current = Option.bind previous wac_CurrentContextID
      in guarded
           (case current of
              None \<Rightarrow> None
            | Some i \<Rightarrow> reject (\<not> list_ex (\<lambda>r. cb_ID (acr_Context r) = i) (elems contexts)) ''current Context selection cannot be removed implicitly'')
           (publishWorkspaceAuthorityCollection pem templates contexts workspaces candidates defaultTemplateID current previous False))"

definition PublishWorkspaceAuthorityCollectionWithCurrentContext ::
  "(nat list \<Rightarrow> bool) \<Rightarrow> WorkspaceTemplate list option \<Rightarrow> WorkspaceAuthorityContextRecord list option \<Rightarrow> WorkspaceBinding list option
   \<Rightarrow> PolicyCandidateAuthority list option \<Rightarrow> WorkspaceTemplateID option \<Rightarrow> ContextID option \<Rightarrow> WorkspaceAuthorityCollection option
   \<Rightarrow> (WorkspaceAuthorityCollection \<times> bool) result" where
  "PublishWorkspaceAuthorityCollectionWithCurrentContext pem templates contexts workspaces candidates defaultTemplateID currentContextID previous =
     publishWorkspaceAuthorityCollection pem templates contexts workspaces candidates defaultTemplateID currentContextID previous False"

definition publishWorkspaceAuthorityCollectionForEntry ::
  "(nat list \<Rightarrow> bool) \<Rightarrow> WorkspaceTemplate list option \<Rightarrow> WorkspaceAuthorityContextRecord list option \<Rightarrow> WorkspaceBinding list option
   \<Rightarrow> PolicyCandidateAuthority list option \<Rightarrow> WorkspaceTemplateID option \<Rightarrow> WorkspaceAuthorityCollection option
   \<Rightarrow> (WorkspaceAuthorityCollection \<times> bool) result" where
  "publishWorkspaceAuthorityCollectionForEntry pem templates contexts workspaces candidates defaultTemplateID previous =
     publishWorkspaceAuthorityCollection pem templates contexts workspaces candidates defaultTemplateID
       (Option.bind previous wac_CurrentContextID) previous True"

section \<open>Snapshots of the Contexts\<close>

definition ContextSnapshots :: "(nat list \<Rightarrow> bool) \<Rightarrow> WorkspaceAuthorityCollection \<Rightarrow> ContextAuthoritySnapshot list result" where
  "ContextSnapshots pem c =
     guarded (WorkspaceAuthorityCollection_Validate pem c)
       (Inr (concat (map
          (\<lambda>r. case stored tpl_ID (elems (wac_Templates c)) (cb_TemplateID (acr_Context r)) of
                  None \<Rightarrow> []
                | Some t \<Rightarrow>
                    let s = context_snapshot (WorkspaceTemplate_Clone t) (r\<lparr> acr_PolicyMemory := PolicyMemoryRevision_Clone (acr_PolicyMemory r) \<rparr>)
                              (workspaces_of c (cb_ID (acr_Context r)))
                    in [ContextAuthoritySnapshot_Clone
                          (case cas_Workspaces s of Some [w] \<Rightarrow> s\<lparr> cas_Workspace := Some w \<rparr> | _ \<Rightarrow> s)])
          (elems (wac_Contexts c)))))"

section \<open>Binary search\<close>

lemma sort_Search_step:
  "\<not> i < j \<Longrightarrow> sort_Search f (i, j) = i"
  "i < j \<Longrightarrow> \<not> f ((i + j) div 2) \<Longrightarrow> sort_Search f (i, j) = sort_Search f ((i + j) div 2 + 1, j)"
  "i < j \<Longrightarrow> f ((i + j) div 2) \<Longrightarrow> sort_Search f (i, j) = sort_Search f (i, (i + j) div 2)"
  by (subst sort_Search.simps, simp add: search_step_def Let_def)+

text \<open>The invariant of the search: the test fails below \<open>i\<close> and holds from \<open>j\<close> on.\<close>

definition bracketed :: "(nat \<Rightarrow> bool) \<Rightarrow> nat \<Rightarrow> nat \<Rightarrow> nat \<Rightarrow> bool" where
  "bracketed f n i j = (i \<le> j \<and> j \<le> n \<and> (\<forall>k < i. \<not> f k) \<and> (\<forall>k. j \<le> k \<and> k < n \<longrightarrow> f k))"

lemma sort_Search_first:
  assumes mono: "\<forall>a b. a \<le> b \<and> b < n \<and> f a \<longrightarrow> f b" and "bracketed f n i j"
  shows "bracketed f n (sort_Search f (i, j)) (sort_Search f (i, j))"
  using assms(2)
proof (induction "j - i" arbitrary: i j rule: less_induct)
  case less
  let ?h = "(i + j) div 2"
  have ij: "i \<le> j" "j \<le> n" using less.prems by (simp_all add: bracketed_def)
  consider "\<not> i < j" | "i < j" "\<not> f ?h" | "i < j" "f ?h" by blast
  then show ?case
  proof cases
    case 1
    then have "i = j" using ij by simp
    then show ?thesis using less.prems unfolding sort_Search_step(1)[OF 1] by simp
  next
    case 2
    then have h: "?h + 1 \<le> j" "?h < n" "j - (?h + 1) < j - i" using ij by auto
    have "\<not> f k" if "k < ?h + 1" for k using mono 2(2) h(2) that less_Suc_eq_le by auto
    then have "bracketed f n (?h + 1) j" using less.prems h(1) unfolding bracketed_def by blast
    then show ?thesis unfolding sort_Search_step(2)[where f = f, OF 2] by (rule less.hyps[OF h(3)])
  next
    case 3
    then have h: "i \<le> ?h" "?h \<le> n" "?h - i < j - i" using ij by auto
    have "f k" if "?h \<le> k \<and> k < n" for k using mono 3(2) that by blast
    then have "bracketed f n i ?h" using less.prems h(1,2) unfolding bracketed_def by blast
    then show ?thesis unfolding sort_Search_step(3)[where f = f, OF 3] by (rule less.hyps[OF h(3)])
  qed
qed

text \<open>The body halves the interval, so it is empty after \<open>n\<close> rounds when it was shorter than \<open>2 ^ n\<close>.\<close>

lemma search_halves:
  assumes "i < j" "j - i < 2 ^ Suc n" "search_step f (i, j) = (i', j')"
  shows "i \<le> i'" "i' \<le> j'" "j' \<le> j" "j' - i' < 2 ^ n"
  using assms by (auto simp: search_step_def Let_def split: if_splits)

lemma search_ends:
  "i \<le> j \<Longrightarrow> j - i < 2 ^ n \<Longrightarrow> \<exists>k \<le> n. (search_step f ^^ k) (i, j) = (sort_Search f (i, j), sort_Search f (i, j))"
proof (induction n arbitrary: i j)
  case (Suc n)
  obtain i' j' where s: "search_step f (i, j) = (i', j')" by (cases "search_step f (i, j)")
  show ?case
  proof (cases "i < j")
    case True
    note h = search_halves[OF True Suc.prems(2) s]
    obtain k where k: "k \<le> n" "(search_step f ^^ k) (i', j') = (sort_Search f (i', j'), sort_Search f (i', j'))"
      using Suc.IH[OF h(2,4)] by blast
    have "sort_Search f (i, j) = sort_Search f (i', j')" using True s by (subst sort_Search.simps) simp
    moreover have "(search_step f ^^ Suc k) (i, j) = (search_step f ^^ k) (i', j')" by (simp only: funpow_Suc_right comp_apply s)
    ultimately show ?thesis using k by (intro exI[of _ "Suc k"]) simp
  next
    case False
    then show ?thesis using Suc.prems(1) sort_Search_step(1)[OF False] by (intro exI[of _ 0]) simp
  qed
qed (auto simp: sort_Search_step(1) intro: exI[of _ 0])

text \<open>The result of a search depends on at most \<open>n\<close> tests: a test with the same answers there has the same result.\<close>

lemma search_reads:
  "i \<le> j \<Longrightarrow> j - i < 2 ^ n \<Longrightarrow>
    \<exists>P. P \<subseteq> {i..<j} \<and> card P \<le> n \<and> (\<forall>g. (\<forall>k \<in> P. g k = f k) \<longrightarrow> sort_Search g (i, j) = sort_Search f (i, j))"
proof (induction n arbitrary: i j)
  case 0
  then have "\<not> i < j" by simp
  then show ?case by (intro exI[of _ "{}"]) (simp add: sort_Search_step(1))
next
  case (Suc n)
  let ?h = "(i + j) div 2"
  obtain i' j' where s: "search_step f (i, j) = (i', j')" by (cases "search_step f (i, j)")
  show ?case
  proof (cases "i < j")
    case True
    note h = search_halves[OF True Suc.prems(2) s]
    obtain P where P: "P \<subseteq> {i'..<j'}" "card P \<le> n" "\<And>g. \<forall>k \<in> P. g k = f k \<Longrightarrow> sort_Search g (i', j') = sort_Search f (i', j')"
      using Suc.IH[OF h(2,4)] by blast
    have same: "sort_Search g (i, j) = sort_Search f (i, j)" if "\<forall>k \<in> insert ?h P. g k = f k" for g
    proof -
      have "search_step g (i, j) = (i', j')" using s that by (simp add: search_step_def)
      then show ?thesis using True s P(3)[of g] that by (subst (1 2) sort_Search.simps) simp
    qed
    have "card (insert ?h P) \<le> Suc n" using P(2) card_insert_le_m1[of "Suc n" P ?h] by simp
    moreover have "insert ?h P \<subseteq> {i..<j}" using P(1) h(1,3) True by auto
    ultimately show ?thesis using same by blast
  next
    case False
    then show ?thesis by (intro exI[of _ "{}"]) (simp add: sort_Search_step(1))
  qed
qed

lemma SearchStrings_member:
  assumes "sorted xs"
  shows "sort_SearchStrings xs x < length xs \<and> xs ! sort_SearchStrings xs x = x \<longleftrightarrow> x \<in> set xs"
proof
  assume "x \<in> set xs"
  then obtain k where k: "k < length xs" "xs ! k = x" by (auto simp: in_set_conv_nth)
  let ?i = "sort_SearchStrings xs x"
  have "x \<le> xs ! b" if "a \<le> b" "b < length xs" "x \<le> xs ! a" for a b
    using sorted_nth_mono[OF assms that(1,2)] that(3) by (rule order_trans[rotated])
  then have mono: "\<forall>a b. a \<le> b \<and> b < length xs \<and> x \<le> xs ! a \<longrightarrow> x \<le> xs ! b" by blast
  have "bracketed (\<lambda>i. x \<le> xs ! i) (length xs) 0 (length xs)" unfolding bracketed_def by (auto simp: not_le[symmetric])
  from sort_Search_first[OF mono this]
  have i: "\<forall>k < ?i. \<not> x \<le> xs ! k" "\<forall>k. ?i \<le> k \<and> k < length xs \<longrightarrow> x \<le> xs ! k"
    unfolding sort_SearchStrings_def bracketed_def by blast+
  have le: "?i \<le> k"
  proof (rule ccontr)
    assume "\<not> ?i \<le> k"
    then have "\<not> x \<le> xs ! k" using i(1) by simp
    then show False using k(2) by simp
  qed
  then have "?i < length xs" using k(1) by simp
  moreover have "xs ! ?i \<le> x" using sorted_nth_mono[OF assms le k(1)] k(2) by simp
  moreover have "x \<le> xs ! ?i" using i(2) \<open>?i < length xs\<close> by blast
  ultimately show "?i < length xs \<and> xs ! ?i = x" using order_antisym by blast
qed (metis nth_mem)

lemma consumed_by_iff:
  assumes "PolicyMemoryRule_Validate rule i = None"
  shows "consumed_by c rule \<longleftrightarrow> pca_ID c \<in> set (elems (pmb_SourceCandidates (pmr_Body rule)))"
proof -
  have "validateSortedUniqueCandidateIDs (elems (pmb_SourceCandidates (pmr_Body rule))) = None"
    using assms unfolding PolicyMemoryRule_Validate_def PolicyMemoryRuleBody_Validate_def Let_def first_error_None by (elim conjE)
  then have "sorted (elems (pmb_SourceCandidates (pmr_Body rule)))"
    using strict_sorted_imp_sorted unfolding validateSortedUniqueCandidateIDs_def sorted_unique_None by blast
  from SearchStrings_member[OF this] show ?thesis by (simp add: consumed_by_def Let_def)
qed

text \<open>Deciding consumption reads at most one source more than the search does.\<close>

lemma consumed_by_reads:
  fixes c rule
  defines "sources \<equiv> elems (pmb_SourceCandidates (pmr_Body rule))"
  assumes "length sources < 2 ^ n"
  shows "\<exists>P. P \<subseteq> {..<length sources} \<and> card P \<le> n + 1 \<and>
    (\<forall>other. length (elems (pmb_SourceCandidates (pmr_Body other))) = length sources
       \<and> (\<forall>k \<in> P. elems (pmb_SourceCandidates (pmr_Body other)) ! k = sources ! k) \<longrightarrow> consumed_by c other = consumed_by c rule)"
proof -
  let ?f = "\<lambda>k. pca_ID c \<le> sources ! k" and ?p = "sort_SearchStrings sources (pca_ID c)"
  obtain P where P: "P \<subseteq> {0..<length sources}" "card P \<le> n"
    "\<And>g. \<forall>k \<in> P. g k = ?f k \<Longrightarrow> sort_Search g (0, length sources) = ?p"
    using search_reads[of 0 "length sources" n ?f] assms(2) unfolding sort_SearchStrings_def by auto
  let ?P = "P \<union> ({?p} \<inter> {..<length sources})"
  have "card ?P \<le> card P + card ({?p} \<inter> {..<length sources})" by (rule card_Un_le)
  also have "\<dots> \<le> n + 1" using P(2) card_mono[of "{?p}" "{?p} \<inter> {..<length sources}"] by simp
  finally have "card ?P \<le> n + 1" .
  moreover have "?P \<subseteq> {..<length sources}" using P(1) by auto
  moreover have "consumed_by c other = consumed_by c rule"
    if o: "length (elems (pmb_SourceCandidates (pmr_Body other))) = length sources"
      "\<forall>k \<in> ?P. elems (pmb_SourceCandidates (pmr_Body other)) ! k = sources ! k" for other
  proof -
    have "sort_SearchStrings (elems (pmb_SourceCandidates (pmr_Body other))) (pca_ID c) = ?p"
      unfolding sort_SearchStrings_def[of "elems (pmb_SourceCandidates (pmr_Body other))"] o(1) by (rule P(3)) (use o(2) in auto)
    then show ?thesis using o unfolding consumed_by_def Let_def sources_def[symmetric] by auto
  qed
  ultimately show ?thesis by blast
qed

text \<open>C34: Whether a remembered rule has consumed a candidate is decided by bisection of the sources of the rule. For a
  valid rule with fewer than \<open>2 ^ n\<close> sources, the loop of the search ends after at most \<open>n\<close> rounds, the candidate is found
  consumed exactly when the source at the end of the loop is the candidate, which is the case exactly when it is any
  of the sources, and the answer depends on at most \<open>n + 1\<close> of the sources: every rule with as many sources that agrees on
  those gets the same answer.\<close>

theorem consumption_is_found_by_bisection:
  fixes c rule
  defines "sources \<equiv> elems (pmb_SourceCandidates (pmr_Body rule))"
  assumes "PolicyMemoryRule_Validate rule i = None" "length sources < 2 ^ n"
  shows "(consumed_by c rule \<longleftrightarrow> pca_ID c \<in> set sources)
    \<and> (\<exists>k \<le> n. \<exists>p. (search_step (\<lambda>k. pca_ID c \<le> sources ! k) ^^ k) (0, length sources) = (p, p)
         \<and> (consumed_by c rule \<longleftrightarrow> p < length sources \<and> sources ! p = pca_ID c))
    \<and> (\<exists>P. P \<subseteq> {..<length sources} \<and> card P \<le> n + 1 \<and>
         (\<forall>other. length (elems (pmb_SourceCandidates (pmr_Body other))) = length sources
            \<and> (\<forall>k \<in> P. elems (pmb_SourceCandidates (pmr_Body other)) ! k = sources ! k) \<longrightarrow> consumed_by c other = consumed_by c rule))"
proof (intro conjI)
  show "consumed_by c rule \<longleftrightarrow> pca_ID c \<in> set sources" unfolding sources_def by (rule consumed_by_iff[OF assms(2)])
  show "\<exists>k \<le> n. \<exists>p. (search_step (\<lambda>k. pca_ID c \<le> sources ! k) ^^ k) (0, length sources) = (p, p)
         \<and> (consumed_by c rule \<longleftrightarrow> p < length sources \<and> sources ! p = pca_ID c)"
    using search_ends[of 0 "length sources" n "\<lambda>k. pca_ID c \<le> sources ! k"] assms(3)
    by (auto simp: consumed_by_def sort_SearchStrings_def Let_def sources_def)
  show "\<exists>P. P \<subseteq> {..<length sources} \<and> card P \<le> n + 1 \<and>
         (\<forall>other. length (elems (pmb_SourceCandidates (pmr_Body other))) = length sources
            \<and> (\<forall>k \<in> P. elems (pmb_SourceCandidates (pmr_Body other)) ! k = sources ! k) \<longrightarrow> consumed_by c other = consumed_by c rule)"
    using consumed_by_reads assms(3) unfolding sources_def by blast
qed

section \<open>What a valid collection is\<close>

lemma stored_Some:
  assumes "stored key xs k = Some x"
  shows "x \<in> set xs" "key x = k"
proof -
  obtain i where "i < length (rev xs)" "key (rev xs ! i) = k" "x = rev xs ! i"
    using assms unfolding stored_def find_Some_iff by blast
  then show "x \<in> set xs" "key x = k" using nth_mem[of i "rev xs"] by (simp_all only: set_rev)
qed

lemma stored_None: "stored key xs k = None \<longleftrightarrow> k \<notin> key ` set xs"
  by (auto simp: stored_def find_None_iff)

lemma stored_unique:
  assumes "sorted_wrt (<) (map key xs)" "x \<in> set xs"
  shows "stored key xs (key x) = Some x"
proof (cases "stored key xs (key x)")
  case None
  then show ?thesis using assms(2) by (simp add: stored_None)
next
  case (Some y)
  then show ?thesis using sorted_same_id[OF assms(1) stored_Some(1)[OF Some] assms(2) stored_Some(2)[OF Some]] by simp
qed

lemma context_id_nonempty: "ContextBinding_Validate b = None \<Longrightarrow> cb_ID b \<noteq> []"
proof
  assume v: "ContextBinding_Validate b = None" "cb_ID b = []"
  have "ContextID_Validate [] \<noteq> None" by code_simp
  then show False using v by (simp add: ContextBinding_Validate_def first_error_None)
qed

lemma template_id_nonempty: "WorkspaceTemplate_Validate pem t = None \<Longrightarrow> tpl_ID t \<noteq> []"
proof
  assume v: "WorkspaceTemplate_Validate pem t = None" "tpl_ID t = []"
  have "WorkspaceTemplateID_Validate [] \<noteq> None" by code_simp
  then show False using v by (simp add: template_valid)
qed

lemma candidate_id_nonempty: "PolicyCandidateAuthority_Validate c = None \<Longrightarrow> pca_ID c \<noteq> []"
proof
  assume v: "PolicyCandidateAuthority_Validate c = None" "pca_ID c = []"
  have "ValidatePolicyCandidateID [] \<noteq> None" by code_simp
  then show False using v by (simp add: PolicyCandidateAuthority_Validate_def first_error_None)
qed

text \<open>The check of an ascending loop, for keys that are not empty.\<close>

lemma ascending_step:
  fixes k :: "'a \<Rightarrow> string"
  assumes "k x \<noteq> []"
  shows "\<not> (previous \<noteq> [] \<and> k x \<le> previous) \<and> sorted_wrt (<) (map k xs) \<and> (k x \<noteq> [] \<longrightarrow> (\<forall>y \<in> set xs. k x < k y))
    \<longleftrightarrow> sorted_wrt (<) (map k (x # xs)) \<and> (previous \<noteq> [] \<longrightarrow> (\<forall>y \<in> set (x # xs). previous < k y))"
  using assms by (auto simp: not_le intro: less_trans)

lemma templates_ascend_valid:
  "\<forall>t \<in> set ts. tpl_ID t \<noteq> [] \<Longrightarrow>
   templates_ascend previous ts = None \<longleftrightarrow> sorted_wrt (<) (map tpl_ID ts) \<and> (previous \<noteq> [] \<longrightarrow> (\<forall>t \<in> set ts. previous < tpl_ID t))"
proof (induction ts arbitrary: previous)
  case (Cons t ts)
  then have "tpl_ID t \<noteq> []" "\<forall>t \<in> set ts. tpl_ID t \<noteq> []" by simp_all
  then show ?case
    using Cons.IH[of "tpl_ID t"] ascending_step[of tpl_ID t previous ts]
    unfolding templates_ascend.simps first_error_None reject_None first_error.simps(1) simp_thms(6) by satx
qed simp

text \<open>What the loop over the Contexts checks of one of them.\<close>

definition home_ok :: "WorkspaceAuthorityContextRecord \<Rightarrow> bool" where
  "home_ok r =
     ((acr_ContextHome r = [] \<longleftrightarrow> acr_CreationDefaults r = [])
      \<and> (acr_ContextHome r \<noteq> [] \<longrightarrow> filepath_IsAbs (acr_ContextHome r) \<and> filepath_Clean (acr_ContextHome r) = acr_ContextHome r
           \<and> SemanticDigest_Validate (acr_CreationDefaults r) = None))"

abbreviation context_id :: "WorkspaceAuthorityContextRecord \<Rightarrow> ContextID" where
  "context_id r \<equiv> cb_ID (acr_Context r)"

lemma context_rows_valid:
  "\<forall>r \<in> set rs. context_id r \<noteq> [] \<Longrightarrow>
   context_rows templates previous rs = None \<longleftrightarrow>
     sorted_wrt (<) (map context_id rs) \<and> (previous \<noteq> [] \<longrightarrow> (\<forall>r \<in> set rs. previous < context_id r))
     \<and> (\<forall>r \<in> set rs. cb_TemplateID (acr_Context r) \<in> tpl_ID ` set templates \<and> home_ok r)"
proof (induction rs arbitrary: previous)
  case (Cons r rs)
  then have r: "context_id r \<noteq> []" "\<forall>r \<in> set rs. context_id r \<noteq> []" by simp_all
  have home: "first_error
      [reject ((acr_ContextHome r = []) \<noteq> (acr_CreationDefaults r = [])) ''Context Home authority is incomplete'',
        (if acr_ContextHome r \<noteq> [] then
           first_error
             [reject (\<not> filepath_IsAbs (acr_ContextHome r) \<or> filepath_Clean (acr_ContextHome r) \<noteq> acr_ContextHome r)
                ''Context Home authority is invalid'',
              wrap ''Context Home creation authority is invalid'' (SemanticDigest_Validate (acr_CreationDefaults r))]
         else None)] = None \<longleftrightarrow> home_ok r"
    unfolding first_error_None reject_None first_error.simps(1) home_ok_def
    by (cases "acr_ContextHome r = []") (simp_all add: first_error_None reject_None wrap_None)
  have all: "(\<forall>x \<in> set (r # rs). cb_TemplateID (acr_Context x) \<in> tpl_ID ` set templates \<and> home_ok x)
    \<longleftrightarrow> (cb_TemplateID (acr_Context r) \<in> tpl_ID ` set templates \<and> home_ok r)
       \<and> (\<forall>x \<in> set rs. cb_TemplateID (acr_Context x) \<in> tpl_ID ` set templates \<and> home_ok x)" by simp
  show ?case
    unfolding all context_rows.simps first_error_None reject_None first_error.simps(1) Cons.IH[OF r(2)] stored_None simp_thms(6)
    using home[unfolded first_error_None reject_None first_error.simps(1) simp_thms(6)] r(1) ascending_step[of context_id r previous rs, OF r(1)] by satx
qed simp

lemma home_rows_valid:
  assumes "home_rows homes rs = Inr homes'"
  shows "(\<forall>h i. homes h = Some i \<longrightarrow> homes' h = Some i)
    \<and> (\<forall>r \<in> set rs. acr_ContextHome r \<noteq> [] \<longrightarrow> homes' (acr_ContextHome r) = Some (context_id r))"
  using assms
proof (induction rs arbitrary: homes)
  case (Cons r rs)
  show ?case
  proof (cases "acr_ContextHome r = []")
    case True
    then show ?thesis using Cons by simp
  next
    case False
    let ?homes = "homes(acr_ContextHome r \<mapsto> context_id r)"
    have "home_rows ?homes rs = Inr homes'" and own: "\<forall>i. homes (acr_ContextHome r) = Some i \<longrightarrow> i = context_id r"
      using Cons.prems False by (simp_all add: guarded_Inr lookup_check)
    from Cons.IH[OF this(1)] have "\<forall>h i. ?homes h = Some i \<longrightarrow> homes' h = Some i"
      and rest: "\<forall>r \<in> set rs. acr_ContextHome r \<noteq> [] \<longrightarrow> homes' (acr_ContextHome r) = Some (context_id r)" by blast+
    then have kept: "homes' (acr_ContextHome r) = Some (context_id r)" "h \<noteq> acr_ContextHome r \<Longrightarrow> homes h = Some i \<Longrightarrow> homes' h = Some i" for h i
      by simp_all
    have "homes' h = Some i" if "homes h = Some i" for h i
      using kept own that by (cases "h = acr_ContextHome r") auto
    then show ?thesis using rest kept(1) by simp
  qed
qed simp

text \<open>What the loop over the Workspaces checks of one of them.\<close>

definition owned_by :: "WorkspaceAuthorityContextRecord list \<Rightarrow> WorkspaceBinding \<Rightarrow> bool" where
  "owned_by contexts w =
     (\<exists>r. stored context_id contexts (wb_ContextID w) = Some r \<and> WorkspaceBinding_ValidateFor w (acr_Context r) = None
        \<and> acr_ContextHome r \<noteq> [] \<and> acr_CreationDefaults r \<noteq> [] \<and> wb_Home w = acr_ContextHome r \<and> wb_CreationDefaults w = acr_CreationDefaults r)"

definition one_per_context_root :: "WorkspaceBinding list \<Rightarrow> bool" where
  "one_per_context_root ws = (\<forall>w \<in> set ws. \<forall>v \<in> set ws. context_root w = context_root v \<longrightarrow> wb_ID w = wb_ID v)"

definition one_context_per_home :: "WorkspaceBinding list \<Rightarrow> bool" where
  "one_context_per_home ws = (\<forall>w \<in> set ws. \<forall>v \<in> set ws. wb_Home w = wb_Home v \<longrightarrow> wb_ContextID w = wb_ContextID v)"

lemma one_per_context_root_Cons:
  "one_per_context_root (w # ws) \<longleftrightarrow> one_per_context_root ws \<and> (\<forall>v \<in> set ws. context_root w = context_root v \<longrightarrow> wb_ID w = wb_ID v)"
  unfolding one_per_context_root_def list.set(2)
  by (rule pairwise_insert[of "\<lambda>w v. context_root w = context_root v \<longrightarrow> wb_ID w = wb_ID v"]) auto

lemma one_context_per_home_Cons:
  "one_context_per_home (w # ws) \<longleftrightarrow> one_context_per_home ws \<and> (\<forall>v \<in> set ws. wb_Home w = wb_Home v \<longrightarrow> wb_ContextID w = wb_ContextID v)"
  unfolding one_context_per_home_def list.set(2)
  by (rule pairwise_insert[of "\<lambda>w v. wb_Home w = wb_Home v \<longrightarrow> wb_ContextID w = wb_ContextID v"]) auto

lemma workspace_rows_valid:
  "workspace_rows contexts homes roots previous ws = None \<longleftrightarrow>
     (\<forall>w \<in> set ws. owned_by contexts w) \<and> sorted_wrt (<) (map wb_ID ws) \<and> (previous \<noteq> [] \<longrightarrow> (\<forall>w \<in> set ws. previous < wb_ID w))
     \<and> (\<forall>w \<in> set ws. \<forall>i. roots (context_root w) = Some i \<longrightarrow> i = wb_ID w) \<and> one_per_context_root ws
     \<and> (\<forall>w \<in> set ws. \<forall>i. homes (wb_Home w) = Some i \<longrightarrow> i = wb_ContextID w) \<and> one_context_per_home ws"
proof (induction ws arbitrary: homes roots previous)
  case (Cons w ws)
  note roots = registered[of roots context_root w wb_ID "set ws"]
  note homes = registered[of homes wb_Home w wb_ContextID "set ws"]
  have row: "(case stored context_id contexts (wb_ContextID w) of
           None \<Rightarrow> Some ''Workspace refers to an unavailable Context''
         | Some r \<Rightarrow>
             first_error
               [WorkspaceBinding_ValidateFor w (acr_Context r),
                reject (acr_ContextHome r = [] \<or> acr_CreationDefaults r = [] \<or> wb_Home w \<noteq> acr_ContextHome r
                        \<or> wb_CreationDefaults w \<noteq> acr_CreationDefaults r)
                  ''Workspace does not match its Context Home creation authority'']) = None \<longleftrightarrow> owned_by contexts w"
    by (cases "stored context_id contexts (wb_ContextID w)") (auto simp add: owned_by_def first_error_None reject_None)
  have nonempty: "owned_by contexts w \<Longrightarrow> wb_ID w \<noteq> []" using binding_id_nonempty by (auto simp: owned_by_def)
  note order = ascending_step[of wb_ID w previous ws]
  have all: "(\<forall>v \<in> set (w # ws). owned_by contexts v) \<longleftrightarrow> owned_by contexts w \<and> (\<forall>v \<in> set ws. owned_by contexts v)" by simp
  show ?case
    unfolding all one_per_context_root_Cons one_context_per_home_Cons workspace_rows.simps first_error_None first_error.simps(1)
      Cons.IH lookup_check row reject_None simp_thms(6)
    using roots homes order nonempty unfolding list.set(2) by satx
qed (simp add: one_per_context_root_def one_context_per_home_def)

lemma candidate_rows_valid:
  "candidate_rows pem c previous ps = None \<longleftrightarrow>
     (\<forall>p \<in> set ps. PolicyCandidateAuthority_Validate p = None \<and> candidate_check pem c p = None)
     \<and> sorted_wrt (<) (map pca_ID ps) \<and> (previous \<noteq> [] \<longrightarrow> (\<forall>p \<in> set ps. previous < pca_ID p))"
proof (induction ps arbitrary: previous)
  case (Cons p ps)
  have all: "(\<forall>x \<in> set (p # ps). PolicyCandidateAuthority_Validate x = None \<and> candidate_check pem c x = None) \<longleftrightarrow>
      (PolicyCandidateAuthority_Validate p = None \<and> candidate_check pem c p = None)
      \<and> (\<forall>x \<in> set ps. PolicyCandidateAuthority_Validate x = None \<and> candidate_check pem c x = None)" by simp
  show ?case
    unfolding all candidate_rows.simps first_error_None first_error.simps(1) Cons.IH reject_None simp_thms(6)
    using ascending_step[of pca_ID p previous ps] candidate_id_nonempty[of p] by satx
qed simp

text \<open>The admission of a pending candidate.\<close>

definition admissible :: "(nat list \<Rightarrow> bool) \<Rightarrow> WorkspaceAuthorityContextRecord \<Rightarrow> WorkspaceTemplate \<Rightarrow> PolicyCandidateAuthority \<Rightarrow> bool" where
  "admissible pem r t p =
     (\<exists>rule memory changed. NewPolicyMemoryRule (pca_ContextID p) ''allow'' (RuleBody (pca_Effect p) (pca_ID p)) = Inr rule
        \<and> PublishPolicyMemory (pca_ContextID p) (Some [rule]) None = Inr (memory, changed)
        \<and> PolicyMemoryRevision_ValidateFor pem memory (acr_Context r) (tpl_Current t) = None)"

lemma candidate_check_valid:
  "candidate_check pem c p = None \<longleftrightarrow>
     (\<exists>r w. stored context_id (elems (wac_Contexts c)) (pca_ContextID p) = Some r
        \<and> stored wb_ID (elems (wac_Workspaces c)) (pca_ObservingWorkspaceID p) = Some w
        \<and> wb_ContextID w = pca_ContextID p \<and> (\<forall>x \<in> set (elems (pmv_Rules (acr_PolicyMemory r))). \<not> consumed_by p x)
        \<and> (case stored tpl_ID (elems (wac_Templates c)) (cb_TemplateID (acr_Context r)) of
             Some t \<Rightarrow> admissible pem r t p
           | None \<Rightarrow> \<exists>rule memory. NewPolicyMemoryRule (pca_ContextID p) ''allow'' (RuleBody (pca_Effect p) (pca_ID p)) = Inr rule
                \<and> PublishPolicyMemory (pca_ContextID p) (Some [rule]) None = Inr memory))"
proof (cases "stored context_id (elems (wac_Contexts c)) (pca_ContextID p)")
  case (Some r)
  show ?thesis
  proof (cases "stored wb_ID (elems (wac_Workspaces c)) (pca_ObservingWorkspaceID p)")
    case w: (Some w)
    show ?thesis
      unfolding candidate_check_def Some w prod.case option.case first_error_None reject_None first_error.simps(1) list_ex_iff admissible_def
      by (auto simp: wrap_None split: sum.splits option.splits)
  qed (simp add: candidate_check_def Some)
qed (simp add: candidate_check_def)

lemma collection_parts:
  assumes "WorkspaceAuthorityCollection_Validate pem c = None"
  shows "wac_Generation c \<noteq> 0"
    "\<And>t. t \<in> set (elems (wac_Templates c)) \<Longrightarrow> WorkspaceTemplate_Validate pem t = None"
    "sorted_wrt (<) (map tpl_ID (elems (wac_Templates c)))"
    "\<And>r. r \<in> set (elems (wac_Contexts c)) \<Longrightarrow> ContextBinding_Validate (acr_Context r) = None"
    "sorted_wrt (<) (map context_id (elems (wac_Contexts c)))"
    "\<And>r. r \<in> set (elems (wac_Contexts c)) \<Longrightarrow> home_ok r"
    "\<exists>homes. \<forall>r \<in> set (elems (wac_Contexts c)). acr_ContextHome r \<noteq> [] \<longrightarrow> homes (acr_ContextHome r) = Some (context_id r)"
    "\<And>w. w \<in> set (elems (wac_Workspaces c)) \<Longrightarrow> owned_by (elems (wac_Contexts c)) w"
    "sorted_wrt (<) (map wb_ID (elems (wac_Workspaces c)))"
    "one_per_context_root (elems (wac_Workspaces c))"
    "one_context_per_home (elems (wac_Workspaces c))"
    "\<And>r. r \<in> set (elems (wac_Contexts c)) \<Longrightarrow>
       \<exists>t. stored tpl_ID (elems (wac_Templates c)) (cb_TemplateID (acr_Context r)) = Some t \<and> context_check pem c t r = None"
    "\<And>p. p \<in> set (elems (wac_PendingCandidates c)) \<Longrightarrow> PolicyCandidateAuthority_Validate p = None \<and> candidate_check pem c p = None"
    "sorted_wrt (<) (map pca_ID (elems (wac_PendingCandidates c)))"
proof -
  note v = assms[unfolded WorkspaceAuthorityCollection_Validate_def Let_def first_error_None]
  show "wac_Generation c \<noteq> 0" using v unfolding reject_None by blast
  have "authority_rows pem Map.empty Map.empty (elems (wac_Templates c)) = None"
    using v by (cases "wac_Templates c") (simp_all add: ValidateWorkspaceTemplateAuthorities_def)
  then show t: "\<And>t. t \<in> set (elems (wac_Templates c)) \<Longrightarrow> WorkspaceTemplate_Validate pem t = None"
    unfolding authority_rows_valid by blast
  show "sorted_wrt (<) (map tpl_ID (elems (wac_Templates c)))"
    using v templates_ascend_valid[of "elems (wac_Templates c)" "[]"] t template_id_nonempty by blast
  show b: "\<And>r. r \<in> set (elems (wac_Contexts c)) \<Longrightarrow> ContextBinding_Validate (acr_Context r) = None"
    using v unfolding ValidateContextBindings_def by (auto simp: check_simps)
  then have rows: "sorted_wrt (<) (map context_id (elems (wac_Contexts c)))
      \<and> (\<forall>r \<in> set (elems (wac_Contexts c)). cb_TemplateID (acr_Context r) \<in> tpl_ID ` set (elems (wac_Templates c)) \<and> home_ok r)"
    using v context_rows_valid[of "elems (wac_Contexts c)" "elems (wac_Templates c)" "[]"] context_id_nonempty by blast
  then show "sorted_wrt (<) (map context_id (elems (wac_Contexts c)))" "\<And>r. r \<in> set (elems (wac_Contexts c)) \<Longrightarrow> home_ok r" by blast+
  obtain homes where h: "home_rows Map.empty (elems (wac_Contexts c)) = Inr homes"
    "workspace_rows (elems (wac_Contexts c)) homes Map.empty [] (elems (wac_Workspaces c)) = None"
    using v by (cases "home_rows Map.empty (elems (wac_Contexts c))") simp_all
  show "\<exists>homes. \<forall>r \<in> set (elems (wac_Contexts c)). acr_ContextHome r \<noteq> [] \<longrightarrow> homes (acr_ContextHome r) = Some (context_id r)"
    using home_rows_valid[OF h(1)] by blast
  show "\<And>w. w \<in> set (elems (wac_Workspaces c)) \<Longrightarrow> owned_by (elems (wac_Contexts c)) w"
    "sorted_wrt (<) (map wb_ID (elems (wac_Workspaces c)))" "one_per_context_root (elems (wac_Workspaces c))"
    "one_context_per_home (elems (wac_Workspaces c))"
    using h(2) unfolding workspace_rows_valid by blast+
  show "\<exists>t. stored tpl_ID (elems (wac_Templates c)) (cb_TemplateID (acr_Context r)) = Some t \<and> context_check pem c t r = None"
    if r: "r \<in> set (elems (wac_Contexts c))" for r
  proof -
    obtain t where t: "stored tpl_ID (elems (wac_Templates c)) (cb_TemplateID (acr_Context r)) = Some t"
      using rows r stored_None[of tpl_ID "elems (wac_Templates c)"] by blast
    have "(case stored tpl_ID (elems (wac_Templates c)) (cb_TemplateID (acr_Context r)) of
          None \<Rightarrow> None | Some t \<Rightarrow> context_check pem c t r) = None"
      using v r unfolding check_each_None by blast
    then show ?thesis using t by simp
  qed
  show "PolicyCandidateAuthority_Validate p = None \<and> candidate_check pem c p = None" if "p \<in> set (elems (wac_PendingCandidates c))" for p
    using v that unfolding candidate_rows_valid by blast
  show "sorted_wrt (<) (map pca_ID (elems (wac_PendingCandidates c)))" using v unfolding candidate_rows_valid by blast
qed

lemma context_check_parts:
  assumes "context_check pem c t r = None"
  shows "ContextAuthoritySnapshot_Validate pem (context_snapshot t r (workspaces_of c (context_id r))) = None"
    "\<And>s p. s \<in> set (elems (acr_SupersededCandidates r)) \<Longrightarrow> p \<in> set (elems (wac_PendingCandidates c)) \<Longrightarrow> pca_ID p \<noteq> pca_ID (pcs_Candidate s)"
    "\<And>s x. s \<in> set (elems (acr_SupersededAllows r)) \<Longrightarrow> x \<in> set (elems (pmv_Rules (acr_PolicyMemory r))) \<Longrightarrow> pmr_ID x \<noteq> pmr_ID (pas_Rule s)"
proof -
  note v = assms[unfolded context_check_def Let_def first_error_None check_each_None reject_None list_ex_iff]
  show "ContextAuthoritySnapshot_Validate pem (context_snapshot t r (workspaces_of c (context_id r))) = None" using v by (elim conjE)
  show "pca_ID p \<noteq> pca_ID (pcs_Candidate s)"
    if "s \<in> set (elems (acr_SupersededCandidates r))" "p \<in> set (elems (wac_PendingCandidates c))" for s p
    using v that by blast
  show "pmr_ID x \<noteq> pmr_ID (pas_Rule s)"
    if "s \<in> set (elems (acr_SupersededAllows r))" "x \<in> set (elems (pmv_Rules (acr_PolicyMemory r)))" for s x
    using v that by blast
qed

lemma snapshot_memory:
  assumes "ContextAuthoritySnapshot_Validate pem s = None"
  shows "PolicyMemoryRevision_ValidateFor pem (cas_PolicyMemory s) (cas_Context s) (tpl_Current (cas_Template s)) = None"
  using assms unfolding ContextAuthoritySnapshot_Validate_def Let_def first_error_None by (elim conjE)

lemma context_rules_valid:
  assumes "context_check pem c t r = None" "x \<in> set (elems (pmv_Rules (acr_PolicyMemory r)))"
  shows "PolicyMemoryRule_Validate x (context_id r) = None"
proof -
  have v: "PolicyMemoryRevision_ValidateFor pem (acr_PolicyMemory r) (acr_Context r) (tpl_Current t) = None"
    using snapshot_memory[OF context_check_parts(1)[OF assms(1)]] by (simp add: context_snapshot_def)
  then have "PolicyMemoryRevision_Validate (acr_PolicyMemory r) = None" "pmv_ContextID (acr_PolicyMemory r) = context_id r"
    unfolding validate_for by blast+
  then show ?thesis using assms(2) unfolding memory_valid by auto
qed

text \<open>An admissible candidate would become an Allow inside the Boundary.\<close>

lemma admissible_inside:
  assumes "admissible pem r t p"
  shows "\<exists>rule. NewPolicyMemoryRule (pca_ContextID p) ''allow'' (RuleBody (pca_Effect p) (pca_ID p)) = Inr rule
    \<and> boundary_row (tb_Boundary (rev_Body (tpl_Current t))) rule = None"
proof -
  obtain rule memory changed where r: "NewPolicyMemoryRule (pca_ContextID p) ''allow'' (RuleBody (pca_Effect p) (pca_ID p)) = Inr rule"
    "PublishPolicyMemory (pca_ContextID p) (Some [rule]) None = Inr (memory, changed)"
    "PolicyMemoryRevision_ValidateFor pem memory (acr_Context r) (tpl_Current t) = None"
    using assms unfolding admissible_def by blast
  have "memory = memory_of (pca_ContextID p) 1 (sorted_rules [rule])" using r(2) by (simp add: publish_first check_simps)
  then have "elems (pmv_Rules memory) = [PolicyMemoryRule_Clone rule]" by (simp add: memory_of_def sorted_rules_def)
  then have "boundary_row (tb_Boundary (rev_Body (tpl_Current t))) rule = None" using r(3) unfolding validate_for by simp
  then show ?thesis using r(1) by blast
qed

lemma home_owner:
  assumes "WorkspaceAuthorityCollection_Validate pem c = None" "r \<in> set (elems (wac_Contexts c))" "s \<in> set (elems (wac_Contexts c))"
    and "acr_ContextHome r = acr_ContextHome s" "acr_ContextHome r \<noteq> []"
  shows "r = s"
proof -
  obtain homes where "\<forall>r \<in> set (elems (wac_Contexts c)). acr_ContextHome r \<noteq> [] \<longrightarrow> homes (acr_ContextHome r) = Some (context_id r)"
    using collection_parts(7)[OF assms(1)] by blast
  then have "Some (context_id r) = Some (context_id s)" using assms(2-5) by metis
  then show ?thesis using sorted_same_id[OF collection_parts(5)[OF assms(1)] assms(2,3)] by simp
qed

lemma workspace_owner:
  assumes "WorkspaceAuthorityCollection_Validate pem c = None" "w \<in> set (elems (wac_Workspaces c))"
  obtains r where "r \<in> set (elems (wac_Contexts c))" "context_id r = wb_ContextID w" "wb_Home w = acr_ContextHome r" "wb_Home w \<noteq> []"
    "wb_CreationDefaults w = acr_CreationDefaults r"
proof -
  obtain r where r: "stored context_id (elems (wac_Contexts c)) (wb_ContextID w) = Some r"
    "acr_ContextHome r \<noteq> []" "wb_Home w = acr_ContextHome r" "wb_CreationDefaults w = acr_CreationDefaults r"
    using collection_parts(8)[OF assms] unfolding owned_by_def by blast
  then show ?thesis using that stored_Some[OF r(1)] by simp
qed

lemma pending_owner:
  assumes v: "WorkspaceAuthorityCollection_Validate pem c = None" and p: "p \<in> set (elems (wac_PendingCandidates c))"
  shows "\<exists>r \<in> set (elems (wac_Contexts c)). \<exists>w \<in> set (elems (wac_Workspaces c)). \<exists>t \<in> set (elems (wac_Templates c)). \<exists>rule.
     context_id r = pca_ContextID p \<and> wb_ID w = pca_ObservingWorkspaceID p \<and> wb_ContextID w = pca_ContextID p \<and> tpl_ID t = cb_TemplateID (acr_Context r)
     \<and> (\<forall>x \<in> set (elems (pmv_Rules (acr_PolicyMemory r))). pca_ID p \<notin> set (elems (pmb_SourceCandidates (pmr_Body x))))
     \<and> NewPolicyMemoryRule (pca_ContextID p) ''allow'' (RuleBody (pca_Effect p) (pca_ID p)) = Inr rule
     \<and> boundary_row (tb_Boundary (rev_Body (tpl_Current t))) rule = None"
proof -
  obtain r w where r: "stored context_id (elems (wac_Contexts c)) (pca_ContextID p) = Some r"
    and w: "stored wb_ID (elems (wac_Workspaces c)) (pca_ObservingWorkspaceID p) = Some w" "wb_ContextID w = pca_ContextID p"
    and x: "\<forall>x \<in> set (elems (pmv_Rules (acr_PolicyMemory r))). \<not> consumed_by p x"
    and a: "case stored tpl_ID (elems (wac_Templates c)) (cb_TemplateID (acr_Context r)) of
             Some t \<Rightarrow> admissible pem r t p
           | None \<Rightarrow> \<exists>rule memory. NewPolicyMemoryRule (pca_ContextID p) ''allow'' (RuleBody (pca_Effect p) (pca_ID p)) = Inr rule
                \<and> PublishPolicyMemory (pca_ContextID p) (Some [rule]) None = Inr memory"
    using conjunct2[OF collection_parts(13)[OF v p]] unfolding candidate_check_valid by blast
  note rs = stored_Some[OF r] and ws = stored_Some[OF w(1)]
  obtain t where t: "stored tpl_ID (elems (wac_Templates c)) (cb_TemplateID (acr_Context r)) = Some t" "context_check pem c t r = None"
    using collection_parts(12)[OF v rs(1)] by blast
  have "\<forall>x \<in> set (elems (pmv_Rules (acr_PolicyMemory r))). pca_ID p \<notin> set (elems (pmb_SourceCandidates (pmr_Body x)))"
    using x consumed_by_iff[OF context_rules_valid[OF t(2)]] by blast
  moreover obtain rule where "NewPolicyMemoryRule (pca_ContextID p) ''allow'' (RuleBody (pca_Effect p) (pca_ID p)) = Inr rule"
    "boundary_row (tb_Boundary (rev_Body (tpl_Current t))) rule = None"
    using admissible_inside[of pem r t p] a t(1) by auto
  ultimately show ?thesis using rs ws w(2) stored_Some[OF t(1)] by blast
qed

text \<open>C7: A valid collection isolates its authorities. Templates, Contexts, Workspaces and pending candidates have unique
  identifiers and are sorted by them; a Home belongs to one Context; each Workspace belongs to a Context and uses its
  Home and creation defaults, two Workspaces share a Home exactly when they share the Context, and a Context has at
  most one Workspace at a Project root; a pending candidate was observed by a Workspace of its own Context, has not
  been consumed by a remembered rule of that Context nor superseded in any, and would give an Allow inside the Boundary
  of the Context's Template.\<close>

theorem collection_isolates_authorities:
  assumes "WorkspaceAuthorityCollection_Validate pem c = None"
  shows "sorted_wrt (<) (map tpl_ID (elems (wac_Templates c))) \<and> sorted_wrt (<) (map context_id (elems (wac_Contexts c)))
   \<and> sorted_wrt (<) (map wb_ID (elems (wac_Workspaces c))) \<and> sorted_wrt (<) (map pca_ID (elems (wac_PendingCandidates c)))
   \<and> (\<forall>r \<in> set (elems (wac_Contexts c)). \<forall>s \<in> set (elems (wac_Contexts c)).
        acr_ContextHome r = acr_ContextHome s \<and> acr_ContextHome r \<noteq> [] \<longrightarrow> r = s)
   \<and> (\<forall>w \<in> set (elems (wac_Workspaces c)). \<exists>r \<in> set (elems (wac_Contexts c)).
        context_id r = wb_ContextID w \<and> wb_Home w = acr_ContextHome r \<and> wb_Home w \<noteq> [] \<and> wb_CreationDefaults w = acr_CreationDefaults r)
   \<and> (\<forall>w \<in> set (elems (wac_Workspaces c)). \<forall>v \<in> set (elems (wac_Workspaces c)).
        (wb_Home w = wb_Home v \<longleftrightarrow> wb_ContextID w = wb_ContextID v)
        \<and> (wb_ContextID w = wb_ContextID v \<and> wb_ProjectRoot w = wb_ProjectRoot v \<longrightarrow> w = v))
   \<and> (\<forall>p \<in> set (elems (wac_PendingCandidates c)).
        (\<forall>r \<in> set (elems (wac_Contexts c)). \<forall>s \<in> set (elems (acr_SupersededCandidates r)). pca_ID p \<noteq> pca_ID (pcs_Candidate s))
        \<and> (\<exists>r \<in> set (elems (wac_Contexts c)). \<exists>w \<in> set (elems (wac_Workspaces c)). \<exists>t \<in> set (elems (wac_Templates c)). \<exists>rule.
             context_id r = pca_ContextID p \<and> wb_ID w = pca_ObservingWorkspaceID p \<and> wb_ContextID w = pca_ContextID p
             \<and> tpl_ID t = cb_TemplateID (acr_Context r)
             \<and> (\<forall>x \<in> set (elems (pmv_Rules (acr_PolicyMemory r))). pca_ID p \<notin> set (elems (pmb_SourceCandidates (pmr_Body x))))
             \<and> NewPolicyMemoryRule (pca_ContextID p) ''allow'' (RuleBody (pca_Effect p) (pca_ID p)) = Inr rule
             \<and> boundary_row (tb_Boundary (rev_Body (tpl_Current t))) rule = None))"
proof -
  note c = collection_parts[OF assms]
  have shared: "wb_Home w = wb_Home v" if "w \<in> set (elems (wac_Workspaces c))" "v \<in> set (elems (wac_Workspaces c))" "wb_ContextID w = wb_ContextID v" for w v
    using c(8)[OF that(1)] c(8)[OF that(2)] that(3) unfolding owned_by_def by auto
  have root: "w = v" if "w \<in> set (elems (wac_Workspaces c))" "v \<in> set (elems (wac_Workspaces c))" "wb_ContextID w = wb_ContextID v"
    "wb_ProjectRoot w = wb_ProjectRoot v" for w v
  proof (rule sorted_same_id[OF c(9) that(1,2)])
    have "context_root w = context_root v" using that(3,4) by (simp add: context_root_def)
    then show "wb_ID w = wb_ID v" using c(10) that(1,2) unfolding one_per_context_root_def by blast
  qed
  have homes: "wb_ContextID w = wb_ContextID v" if "w \<in> set (elems (wac_Workspaces c))" "v \<in> set (elems (wac_Workspaces c))" "wb_Home w = wb_Home v" for w v
    using c(11) that unfolding one_context_per_home_def by blast
  have superseded: "pca_ID p \<noteq> pca_ID (pcs_Candidate s)"
    if "p \<in> set (elems (wac_PendingCandidates c))" "r \<in> set (elems (wac_Contexts c))" "s \<in> set (elems (acr_SupersededCandidates r))" for p r s
  proof -
    note prs = that
    obtain t where "context_check pem c t r = None" using c(12)[OF prs(2)] by blast
    then show ?thesis using context_check_parts(2) prs(1,3) by blast
  qed
  show ?thesis
  proof (intro conjI c(3,5,9,14))
    show "\<forall>r \<in> set (elems (wac_Contexts c)). \<forall>s \<in> set (elems (wac_Contexts c)).
        acr_ContextHome r = acr_ContextHome s \<and> acr_ContextHome r \<noteq> [] \<longrightarrow> r = s"
      using home_owner[OF assms] by blast
    show "\<forall>w \<in> set (elems (wac_Workspaces c)). \<exists>r \<in> set (elems (wac_Contexts c)).
        context_id r = wb_ContextID w \<and> wb_Home w = acr_ContextHome r \<and> wb_Home w \<noteq> [] \<and> wb_CreationDefaults w = acr_CreationDefaults r"
    proof
      fix w assume "w \<in> set (elems (wac_Workspaces c))"
      from workspace_owner[OF assms this] show "\<exists>r \<in> set (elems (wac_Contexts c)).
        context_id r = wb_ContextID w \<and> wb_Home w = acr_ContextHome r \<and> wb_Home w \<noteq> [] \<and> wb_CreationDefaults w = acr_CreationDefaults r" by metis
    qed
  qed (use shared root homes superseded pending_owner[OF assms] in \<open>blast+\<close>)
qed

section \<open>Publications\<close>

lemma cloneWorkspaceBindings_id [simp]: "cloneWorkspaceBindings ws = ws"
  by (simp add: cloneWorkspaceBindings_def option.map_ident)

lemma candidate_Clone_idem [simp]: "PolicyCandidateAuthority_Clone (PolicyCandidateAuthority_Clone c) = PolicyCandidateAuthority_Clone c"
  by (simp add: PolicyCandidateAuthority_Clone_def PolicyCandidateEffect_Clone_def)

lemma memory_Clone_idem [simp]: "PolicyMemoryRevision_Clone (PolicyMemoryRevision_Clone m) = PolicyMemoryRevision_Clone m"
  by (simp add: PolicyMemoryRevision_Clone_def)

lemma record_Clone_idem [simp]:
  "WorkspaceAuthorityContextRecord_Clone (WorkspaceAuthorityContextRecord_Clone r) = WorkspaceAuthorityContextRecord_Clone r"
  by (simp add: WorkspaceAuthorityContextRecord_Clone_def option.map_comp comp_def)

lemma record_Clone_fields [simp]:
  "acr_Context (WorkspaceAuthorityContextRecord_Clone r) = acr_Context r"
  "acr_ContextHome (WorkspaceAuthorityContextRecord_Clone r) = acr_ContextHome r"
  "acr_CreationDefaults (WorkspaceAuthorityContextRecord_Clone r) = acr_CreationDefaults r"
  by (simp_all add: WorkspaceAuthorityContextRecord_Clone_def)

text \<open>A record in explicit form: copying it changes nothing.\<close>

abbreviation explicit_record :: "WorkspaceAuthorityContextRecord \<Rightarrow> bool" where
  "explicit_record r \<equiv> WorkspaceAuthorityContextRecord_Clone r = r"

lemma explicit_home:
  "explicit_record r \<Longrightarrow> explicit_record (r\<lparr> acr_ContextHome := h, acr_CreationDefaults := d \<rparr>)"
  by (cases r) (simp add: WorkspaceAuthorityContextRecord_Clone_def)

lemma bind_home_explicit:
  assumes "\<forall>r \<in> set rs. explicit_record r"
  shows "\<forall>r \<in> set (bind_home rs w). explicit_record r"
proof (cases "context_index rs (wb_ContextID w)")
  case None
  then show ?thesis using assms by (simp add: bind_home_def)
next
  case (Some i)
  then have "i < length rs" by (auto simp: context_index_def find_Some_iff rev_nth)
  then have "explicit_record (rs ! i)" using assms by simp
  then have new: "explicit_record ((rs ! i)\<lparr> acr_ContextHome := wb_Home w, acr_CreationDefaults := wb_CreationDefaults w \<rparr>)" by (rule explicit_home)
  have "explicit_record r" if "r \<in> set (bind_home rs w)" for r
  proof -
    have "r = (rs ! i)\<lparr> acr_ContextHome := wb_Home w, acr_CreationDefaults := wb_CreationDefaults w \<rparr> \<or> r \<in> set rs"
      using that set_update_subset_insert[of rs i] Some by (auto simp: bind_home_def split: if_splits)
    then show ?thesis using new assms by (elim disjE) (simp only:, blast)
  qed
  then show ?thesis by blast
qed

lemma bindContextHomeAuthority_explicit:
  "\<forall>r \<in> set rs. explicit_record r \<Longrightarrow> \<forall>r \<in> set (bindContextHomeAuthority rs ws). explicit_record r"
proof (induction ws arbitrary: rs)
  case (Cons w ws)
  show ?case using Cons.IH[OF bind_home_explicit[OF Cons.prems]] unfolding bindContextHomeAuthority_def foldl.simps .
qed (simp add: bindContextHomeAuthority_def)

lemma collection_of_explicit:
  assumes "WorkspaceAuthorityCollection_Validate pem ((collection_of g ts cs ws ps d i)\<lparr> wac_Revision := v \<rparr>) = None"
  shows "WorkspaceAuthorityCollection_Clone ((collection_of g ts cs ws ps d i)\<lparr> wac_Revision := v \<rparr>) = (collection_of g ts cs ws ps d i)\<lparr> wac_Revision := v \<rparr>"
proof -
  let ?c = "(collection_of g ts cs ws ps d i)\<lparr> wac_Revision := v \<rparr>"
  have "map WorkspaceTemplate_Clone (elems (wac_Templates ?c)) = elems (wac_Templates ?c)"
    using collection_parts(2)[OF assms] template_Clone_id by (intro map_idI) blast
  moreover have "\<forall>r \<in> set (elems (wac_Contexts ?c)). explicit_record r"
    using bindContextHomeAuthority_explicit[of "cloneWorkspaceAuthorityContextRecords cs" ws]
    by (simp add: collection_of_def cloneWorkspaceAuthorityContextRecords_def)
  then have "map WorkspaceAuthorityContextRecord_Clone (elems (wac_Contexts ?c)) = elems (wac_Contexts ?c)" by (intro map_idI) blast
  moreover have "map PolicyCandidateAuthority_Clone (elems (wac_PendingCandidates ?c)) = elems (wac_PendingCandidates ?c)"
    by (rule map_idI) (auto simp: collection_of_def clonePolicyCandidateAuthorities_def)
  ultimately show ?thesis
    by (simp add: WorkspaceAuthorityCollection_Clone_def cloneWorkspaceTemplates_def cloneWorkspaceAuthorityContextRecords_def
        clonePolicyCandidateAuthorities_def) (simp add: collection_of_def)
qed

text \<open>The kept Home of a Context between two collections.\<close>

definition homes_kept :: "bool \<Rightarrow> WorkspaceAuthorityCollection \<Rightarrow> WorkspaceAuthorityCollection \<Rightarrow> bool" where
  "homes_kept entry p n =
     (\<forall>before \<in> set (elems (wac_Contexts p)). \<forall>after \<in> set (elems (wac_Contexts n)). context_id before = context_id after \<longrightarrow>
        (if acr_ContextHome before = [] then entry \<or> acr_ContextHome after = []
         else acr_ContextHome after = acr_ContextHome before \<and> acr_CreationDefaults after = acr_CreationDefaults before))"

lemma homes_kept_refl: "WorkspaceAuthorityCollection_Validate pem c = None \<Longrightarrow> homes_kept entry c c"
  using sorted_same_id[OF collection_parts(5)] unfolding homes_kept_def by (metis (no_types, lifting))

lemma home_transition_kept:
  assumes "WorkspaceAuthorityCollection_Validate pem n = None"
    and "check_each (home_transition entry (elems (wac_Contexts n))) (elems (wac_Contexts p)) = None"
  shows "homes_kept entry p n"
  unfolding homes_kept_def
proof (intro ballI impI)
  fix before after
  assume b: "before \<in> set (elems (wac_Contexts p))" and a: "after \<in> set (elems (wac_Contexts n))" and i: "context_id before = context_id after"
  have "stored context_id (elems (wac_Contexts n)) (context_id before) = Some after"
    using stored_unique[OF collection_parts(5)[OF assms(1)] a] i by simp
  moreover have "home_transition entry (elems (wac_Contexts n)) before = None" using assms(2) b by (simp add: check_each_None)
  ultimately show "if acr_ContextHome before = [] then entry \<or> acr_ContextHome after = []
      else acr_ContextHome after = acr_ContextHome before \<and> acr_CreationDefaults after = acr_CreationDefaults before"
    by (auto simp: home_transition_def reject_None split: if_splits)
qed

lemma publication_step:
  assumes "publishWorkspaceAuthorityCollection pem ts cs ws ps d i (Some p) entry = Inr (n, changed)"
  shows "WorkspaceAuthorityCollection_Validate pem p = None"
    "\<not> changed \<Longrightarrow> n = WorkspaceAuthorityCollection_Clone p"
    "changed \<Longrightarrow> WorkspaceAuthorityCollection_Validate pem n = None \<and> WorkspaceAuthorityCollection_Clone n = n
       \<and> wac_Generation n = wac_Generation p + 1 \<and> wac_Revision n \<noteq> wac_Revision p \<and> homes_kept entry p n"
proof -
  let ?c = "collection_of (wac_Generation p + 1) (elems ts) (elems cs) (elems ws) (elems ps) d i"
  note g = assms[unfolded publishWorkspaceAuthorityCollection_def Let_def option.case guarded_Inr first_error_None]
  have p: "WorkspaceAuthorityCollection_Validate pem p = None"
    and h: "check_each (home_transition entry (elems (wac_Contexts ?c))) (elems (wac_Contexts p)) = None" using g by blast+
  obtain v where n: "if wac_Revision p = v then (n, changed) = (WorkspaceAuthorityCollection_Clone p, False)
      else WorkspaceAuthorityCollection_Validate pem (?c\<lparr> wac_Revision := v \<rparr>) = None \<and> (n, changed) = (?c\<lparr> wac_Revision := v \<rparr>, True)"
  proof (cases "workspaceAuthorityCollectionRevision ?c")
    case (Some v)
    show ?thesis by (rule that[of v]) (use g Some in \<open>auto simp: checked_Inr split: if_splits\<close>)
  qed (use g in simp)
  show "WorkspaceAuthorityCollection_Validate pem p = None" by (rule p)
  show "\<not> changed \<Longrightarrow> n = WorkspaceAuthorityCollection_Clone p" using n by (simp split: if_splits)
  assume changed
  then have c: "wac_Revision p \<noteq> v" "WorkspaceAuthorityCollection_Validate pem (?c\<lparr> wac_Revision := v \<rparr>) = None" "n = ?c\<lparr> wac_Revision := v \<rparr>"
    using n by (simp_all split: if_splits)
  have "homes_kept entry p (?c\<lparr> wac_Revision := v \<rparr>)" by (rule home_transition_kept[OF c(2)]) (simp add: h)
  then show "WorkspaceAuthorityCollection_Validate pem n = None \<and> WorkspaceAuthorityCollection_Clone n = n
       \<and> wac_Generation n = wac_Generation p + 1 \<and> wac_Revision n \<noteq> wac_Revision p \<and> homes_kept entry p n"
    using c collection_of_explicit[OF c(2)] by (simp add: collection_of_def Let_def)
qed

lemma first_publication:
  assumes "publishWorkspaceAuthorityCollection pem ts cs ws ps d i None entry = Inr (n, changed)"
  shows "WorkspaceAuthorityCollection_Validate pem n = None \<and> WorkspaceAuthorityCollection_Clone n = n \<and> wac_Generation n = 1"
proof -
  let ?c = "collection_of 1 (elems ts) (elems cs) (elems ws) (elems ps) d i"
  obtain v where n: "WorkspaceAuthorityCollection_Validate pem (?c\<lparr> wac_Revision := v \<rparr>) = None" "n = ?c\<lparr> wac_Revision := v \<rparr>"
    using assms unfolding publishWorkspaceAuthorityCollection_def Let_def option.case guarded_Inr
    by (auto simp: checked_Inr split: option.splits)
  then show ?thesis using collection_of_explicit[OF n(1)] by (simp add: collection_of_def Let_def)
qed

section \<open>Reachable collections\<close>

text \<open>The publications of an installation: the flag says that a Workspace is entered.\<close>

inductive authority_step :: "(nat list \<Rightarrow> bool) \<Rightarrow> bool \<Rightarrow> WorkspaceAuthorityCollection option \<Rightarrow> WorkspaceAuthorityCollection \<Rightarrow> bool" for pem where
  publish: "PublishWorkspaceAuthorityCollection pem ts cs ws ps d previous = Inr (n, changed) \<Longrightarrow> authority_step pem False previous n"
| select: "PublishWorkspaceAuthorityCollectionWithCurrentContext pem ts cs ws ps d i previous = Inr (n, changed) \<Longrightarrow> authority_step pem False previous n"
| enter: "publishWorkspaceAuthorityCollectionForEntry pem ts cs ws ps d previous = Inr (n, changed) \<Longrightarrow> authority_step pem True previous n"

inductive authority_reachable :: "(nat list \<Rightarrow> bool) \<Rightarrow> WorkspaceAuthorityCollection \<Rightarrow> bool" for pem where
  initial: "authority_step pem entry None c \<Longrightarrow> authority_reachable pem c"
| later: "authority_reachable pem c \<Longrightarrow> authority_step pem entry (Some c) n \<Longrightarrow> authority_reachable pem n"

lemma step_publishes:
  assumes "authority_step pem entry previous n"
  obtains ts cs ws ps d i changed where
    "publishWorkspaceAuthorityCollection pem ts cs ws ps d i previous entry = Inr (n, changed)"
  using assms
  by (cases rule: authority_step.cases)
    (auto simp: PublishWorkspaceAuthorityCollection_def PublishWorkspaceAuthorityCollectionWithCurrentContext_def
      publishWorkspaceAuthorityCollectionForEntry_def Let_def guarded_Inr)

lemma reachable_settled:
  "authority_reachable pem c \<Longrightarrow> WorkspaceAuthorityCollection_Validate pem c = None \<and> WorkspaceAuthorityCollection_Clone c = c"
proof (induction rule: authority_reachable.induct)
  case (initial entry c)
  then show ?case by (rule step_publishes) (use first_publication in blast)
next
  case (later c entry n)
  from later.hyps(2) show ?case
  proof (rule step_publishes)
    fix ts cs ws ps d i changed
    assume p: "publishWorkspaceAuthorityCollection pem ts cs ws ps d i (Some c) entry = Inr (n, changed)"
    show ?thesis using publication_step(2,3)[OF p] later.IH by (cases changed) simp_all
  qed
qed

lemma reachable_next:
  assumes "authority_reachable pem c" "authority_step pem entry (Some c) n"
  shows "homes_kept entry c n" "n = c \<or> wac_Revision n \<noteq> wac_Revision c \<and> unat (wac_Generation n) = unat (wac_Generation c) + 1"
proof -
  have v: "WorkspaceAuthorityCollection_Validate pem c = None" and e: "WorkspaceAuthorityCollection_Clone c = c"
    using reachable_settled[OF assms(1)] by blast+
  obtain ts cs ws ps d i changed where p: "publishWorkspaceAuthorityCollection pem ts cs ws ps d i (Some c) entry = Inr (n, changed)"
    using assms(2) by (rule step_publishes)
  show "homes_kept entry c n" using publication_step(2,3)[OF p] e homes_kept_refl[OF v] by (cases changed) simp_all
  show "n = c \<or> wac_Revision n \<noteq> wac_Revision c \<and> unat (wac_Generation n) = unat (wac_Generation c) + 1"
  proof (cases changed)
    case True
    then have n: "WorkspaceAuthorityCollection_Validate pem n = None" "wac_Generation n = wac_Generation c + 1" "wac_Revision n \<noteq> wac_Revision c"
      using publication_step(3)[OF p] by blast+
    have "wac_Generation n \<noteq> 0" by (rule collection_parts(1)[OF n(1)])
    then show ?thesis using n unatSuc[of "wac_Generation c"] by (simp add: add.commute)
  qed (use publication_step(2)[OF p] e in simp)
qed

text \<open>C13: Whatever is published, an installation holds a valid collection in explicit form, and the Home of a Context is
  created once. A publication either leaves the collection as it was or moves it to the next 64-bit generation, which
  never wraps, with another revision; a Context that stays keeps its Home and its creation defaults for good once it
  has them, and gets them only when a Workspace is entered.\<close>

theorem context_homes_are_create_once:
  assumes "authority_reachable pem c"
  shows "WorkspaceAuthorityCollection_Validate pem c = None \<and> WorkspaceAuthorityCollection_Clone c = c
    \<and> (\<forall>entry n. authority_step pem entry (Some c) n \<longrightarrow>
         homes_kept entry c n \<and> (n = c \<or> wac_Revision n \<noteq> wac_Revision c \<and> unat (wac_Generation n) = unat (wac_Generation c) + 1))"
  using reachable_settled[OF assms] reachable_next[OF assms] by blast

text \<open>What a store of the collection promises to its clients: each mutation publishes, or leaves the collection as it was. Its
  reachable collections then are published ones, and keep every Home.\<close>

locale publishing_store =
  fixes pem :: "nat list \<Rightarrow> bool" and mutation :: "WorkspaceAuthorityCollection \<Rightarrow> WorkspaceAuthorityCollection \<Rightarrow> bool"
  assumes mutation_publishes: "mutation c n \<Longrightarrow> n = c \<or> authority_step pem False (Some c) n"
begin

lemma mutations_reachable:
  assumes "authority_reachable pem c" "mutation\<^sup>*\<^sup>* c n"
  shows "authority_reachable pem n"
  using assms(2,1) by (induction rule: rtranclp_induct) (use mutation_publishes authority_reachable.later in blast)+

lemma mutations_keep:
  assumes "authority_reachable pem c" "mutation\<^sup>*\<^sup>* c n"
  shows "WorkspaceAuthorityCollection_Validate pem n = None \<and> WorkspaceAuthorityCollection_Clone n = n
    \<and> (\<forall>m. mutation n m \<longrightarrow> homes_kept False n m
        \<and> (m = n \<or> wac_Revision m \<noteq> wac_Revision n \<and> unat (wac_Generation m) = unat (wac_Generation n) + 1))"
proof -
  note n = mutations_reachable[OF assms]
  show ?thesis
    using reachable_settled[OF n] reachable_next[OF n] homes_kept_refl[of pem n False] mutation_publishes[of n] by blast
qed

end

section \<open>Projections\<close>

lemma snapshot_of_context:
  assumes v: "WorkspaceAuthorityCollection_Validate pem c = None" and r: "r \<in> set (elems (wac_Contexts c))" and e: "explicit_record r"
    and t: "stored tpl_ID (elems (wac_Templates c)) (cb_TemplateID (acr_Context r)) = Some t"
  defines "ws \<equiv> workspaces_of c (context_id r)"
  defines "s \<equiv> (context_snapshot t r ws)\<lparr> cas_Workspace := (case ws of [w] \<Rightarrow> Some w | _ \<Rightarrow> None) \<rparr>"
  shows "ContextAuthoritySnapshot_Validate pem s = None" "ContextAuthoritySnapshot_Clone s = s"
proof -
  have c: "ContextAuthoritySnapshot_Validate pem (context_snapshot t r ws) = None"
    using collection_parts(12)[OF v r] t context_check_parts(1) unfolding ws_def by fastforce
  have w: "snapshot_workspaces (context_snapshot t r ws) = ws" by (simp add: snapshot_workspaces_def context_snapshot_def)
  have "s = (context_snapshot t r ws)\<lparr> cas_Workspaces := Some (snapshot_workspaces (context_snapshot t r ws)),
      cas_Workspace := (case ws of [w] \<Rightarrow> Some w | _ \<Rightarrow> None) \<rparr>"
    unfolding w by (simp add: s_def context_snapshot_def)
  then show valid: "ContextAuthoritySnapshot_Validate pem s = None"
    using snapshot_select[OF c, of "case ws of [w] \<Rightarrow> Some w | _ \<Rightarrow> None"] w by (simp split: list.splits)
  have "PolicyMemoryRevision_Clone (acr_PolicyMemory r) = acr_PolicyMemory r" "map_option PolicyMemoryRevision_Clone (acr_ActivePolicyMemory r) = acr_ActivePolicyMemory r"
    using arg_cong[OF e, of acr_PolicyMemory] arg_cong[OF e, of acr_ActivePolicyMemory] by (simp_all add: WorkspaceAuthorityContextRecord_Clone_def)
  then have "explicit_memory s" by (auto simp: explicit_memory_def s_def context_snapshot_def)
  moreover have "snapshot_workspaces s = ws" by (simp add: s_def snapshot_workspaces_def context_snapshot_def split: list.splits)
  ultimately show "ContextAuthoritySnapshot_Clone s = s"
    using context_snapshot_Clone_id[OF valid] by (simp add: s_def context_snapshot_def)
qed

lemma explicit_collection:
  assumes "WorkspaceAuthorityCollection_Clone c = c"
  shows "\<forall>r \<in> set (elems (wac_Contexts c)). explicit_record r"
proof -
  have "map WorkspaceAuthorityContextRecord_Clone (elems (wac_Contexts c)) = elems (wac_Contexts c)"
    using arg_cong[OF assms, of "\<lambda>c. elems (wac_Contexts c)"]
    by (simp add: WorkspaceAuthorityCollection_Clone_def cloneWorkspaceAuthorityContextRecords_def)
  then show ?thesis using map_eq_conv[of WorkspaceAuthorityContextRecord_Clone "elems (wac_Contexts c)" "\<lambda>r. r"] by simp
qed

text \<open>The snapshot of a Context in a collection.\<close>

definition context_template :: "WorkspaceAuthorityCollection \<Rightarrow> WorkspaceAuthorityContextRecord \<Rightarrow> WorkspaceTemplate" where
  "context_template c r = the (stored tpl_ID (elems (wac_Templates c)) (cb_TemplateID (acr_Context r)))"

definition context_view :: "WorkspaceAuthorityCollection \<Rightarrow> WorkspaceAuthorityContextRecord \<Rightarrow> ContextAuthoritySnapshot" where
  "context_view c r =
     (let ws = workspaces_of c (context_id r)
      in (context_snapshot (context_template c r) r ws)\<lparr> cas_Workspace := (case ws of [w] \<Rightarrow> Some w | _ \<Rightarrow> None) \<rparr>)"

lemma context_view_fields [simp]:
  "cas_Context (context_view c r) = acr_Context r" "cas_PolicyMemory (context_view c r) = acr_PolicyMemory r"
  "cas_ContextHome (context_view c r) = acr_ContextHome r" "cas_Template (context_view c r) = context_template c r"
  "cas_Workspaces (context_view c r) = Some (workspaces_of c (context_id r))"
  "cas_Workspace (context_view c r) = (case workspaces_of c (context_id r) of [w] \<Rightarrow> Some w | _ \<Rightarrow> None)"
  "cas_ActivePolicyMemory (context_view c r) = acr_ActivePolicyMemory r" "cas_ActivePolicyMemoryRef (context_view c r) = acr_ActivePolicyMemoryRef r"
  by (simp_all add: context_view_def Let_def context_snapshot_def)

lemma context_template_stored:
  assumes "WorkspaceAuthorityCollection_Validate pem c = None" "r \<in> set (elems (wac_Contexts c))"
  shows "stored tpl_ID (elems (wac_Templates c)) (cb_TemplateID (acr_Context r)) = Some (context_template c r)"
  using collection_parts(12)[OF assms] unfolding context_template_def by auto

lemma context_view_valid:
  assumes "WorkspaceAuthorityCollection_Validate pem c = None" "r \<in> set (elems (wac_Contexts c))" "explicit_record r"
  shows "ContextAuthoritySnapshot_Validate pem (context_view c r) = None" "ContextAuthoritySnapshot_Clone (context_view c r) = context_view c r"
  using snapshot_of_context[OF assms context_template_stored[OF assms(1,2)]] unfolding context_view_def Let_def by blast+

lemma ContextSnapshots_exact:
  assumes v: "WorkspaceAuthorityCollection_Validate pem c = None" and e: "WorkspaceAuthorityCollection_Clone c = c"
  shows "ContextSnapshots pem c = Inr (map (context_view c) (elems (wac_Contexts c)))"
proof -
  have "(case stored tpl_ID (elems (wac_Templates c)) (cb_TemplateID (acr_Context r)) of
        None \<Rightarrow> []
      | Some t \<Rightarrow>
          let s = context_snapshot (WorkspaceTemplate_Clone t) (r\<lparr> acr_PolicyMemory := PolicyMemoryRevision_Clone (acr_PolicyMemory r) \<rparr>)
                    (workspaces_of c (context_id r))
          in [ContextAuthoritySnapshot_Clone (case cas_Workspaces s of Some [w] \<Rightarrow> s\<lparr> cas_Workspace := Some w \<rparr> | _ \<Rightarrow> s)]) = [context_view c r]"
    if r: "r \<in> set (elems (wac_Contexts c))" for r
  proof -
    have x: "explicit_record r" using explicit_collection[OF e] r by blast
    note t = context_template_stored[OF v r]
    have "WorkspaceTemplate_Clone (context_template c r) = context_template c r"
      using template_Clone_id collection_parts(2)[OF v] stored_Some(1)[OF t] by blast
    moreover have "r\<lparr> acr_PolicyMemory := PolicyMemoryRevision_Clone (acr_PolicyMemory r) \<rparr> = r"
      using arg_cong[OF x, of acr_PolicyMemory] by (simp add: WorkspaceAuthorityContextRecord_Clone_def)
    ultimately show ?thesis using context_view_valid(2)[OF v r x] unfolding t
      by (simp add: context_view_def Let_def context_snapshot_def split: list.splits)
  qed
  then show ?thesis using v by (simp add: ContextSnapshots_def guarded_def cong: map_cong)
qed

text \<open>C15: The snapshots of a published collection are its projection. There is one for each Context, in order; each is
  coherent, holds the Context, its Policy Memory and Home, the Template the Context is bound to, and exactly the
  Workspaces of the Context, and selects the Workspace when there is only one. So every later selection, entry plan and
  session starts from a snapshot that passes its checks.\<close>

theorem context_snapshots_project_the_collection:
  assumes "authority_reachable pem c"
  shows "\<exists>ss. ContextSnapshots pem c = Inr ss \<and> map cas_Context ss = map acr_Context (elems (wac_Contexts c))
    \<and> map cas_PolicyMemory ss = map acr_PolicyMemory (elems (wac_Contexts c))
    \<and> map cas_ContextHome ss = map acr_ContextHome (elems (wac_Contexts c))
    \<and> (\<forall>s \<in> set ss. ContextAuthoritySnapshot_Validate pem s = None
        \<and> cas_Template s \<in> set (elems (wac_Templates c)) \<and> tpl_ID (cas_Template s) = cb_TemplateID (cas_Context s)
        \<and> cas_Workspaces s = Some (filter (\<lambda>w. wb_ContextID w = cb_ID (cas_Context s)) (elems (wac_Workspaces c)))
        \<and> cas_Workspace s = (case elems (cas_Workspaces s) of [w] \<Rightarrow> Some w | _ \<Rightarrow> None))"
proof -
  have v: "WorkspaceAuthorityCollection_Validate pem c = None" and e: "WorkspaceAuthorityCollection_Clone c = c"
    using reachable_settled[OF assms] by blast+
  have "ContextAuthoritySnapshot_Validate pem (context_view c r) = None \<and> context_template c r \<in> set (elems (wac_Templates c))
      \<and> tpl_ID (context_template c r) = cb_TemplateID (acr_Context r)" if "r \<in> set (elems (wac_Contexts c))" for r
    using context_view_valid(1)[OF v that] explicit_collection[OF e] that stored_Some[OF context_template_stored[OF v that]] by blast
  then show ?thesis
    by (intro exI[of _ "map (context_view c) (elems (wac_Contexts c))"]) (simp add: ContextSnapshots_exact[OF v e] comp_def workspaces_of_def)
qed

section \<open>An example\<close>

text \<open>The first publication: one Template, one Context and one entered Workspace, whose Home the Context takes.\<close>

definition example_owner :: WorkspaceAuthorityContextRecord where
  "example_owner = (owner_record [])\<lparr> acr_ContextHome := wb_Home example_binding, acr_CreationDefaults := wb_CreationDefaults example_binding \<rparr>"

definition example_content :: WorkspaceAuthorityCollection where
  "example_content = collection_of 1 [example_template] [owner_record []] [example_binding] [] None None"

definition example_collection :: WorkspaceAuthorityCollection where
  "example_collection = example_content\<lparr> wac_Revision := the (workspaceAuthorityCollectionRevision example_content) \<rparr>"

lemma example_content_parts:
  "wac_Templates example_content = Some [example_template]" "wac_Contexts example_content = Some [example_owner]"
  "wac_Workspaces example_content = Some [example_binding]" "wac_PendingCandidates example_content = Some []"
  "wac_SchemaVersion example_content = 2" "wac_Generation example_content = 1"
  "wac_DefaultTemplateID example_content = None" "wac_CurrentContextID example_content = None"
proof -
  have r: "WorkspaceAuthorityContextRecord_Clone (owner_record []) = owner_record []"
    by (simp add: owner_record_def WorkspaceAuthorityContextRecord_Clone_def PolicyMemoryRevision_Clone_def memory_of_def)
  have "context_index [owner_record []] (wb_ContextID example_binding) = Some 0"
    by (simp add: context_index_def owner_record_def example_binding_def example_context_def)
  then have "bind_home [owner_record []] example_binding = [example_owner]"
    by (simp add: bind_home_def example_owner_def) (simp add: owner_record_def)
  then show "wac_Contexts example_content = Some [example_owner]"
    by (simp add: example_content_def collection_of_def bindContextHomeAuthority_def cloneWorkspaceAuthorityContextRecords_def r)
qed (simp_all add: example_content_def collection_of_def Let_def cloneWorkspaceTemplates_def clonePolicyCandidateAuthorities_def
      template_Clone_id[OF example_template_valid])

lemma example_content_revision: "workspaceAuthorityCollectionRevision example_content \<noteq> None"
proof -
  have "time_MarshalJSON \<lparr> tm_Instant = 1709210096120000000, tm_Location = UTC \<rparr> \<noteq> None" by code_simp
  then obtain j where "WorkspaceAppliedEntry_json example_entry = Some j" by (auto simp: WorkspaceAppliedEntry_json_def example_entry_def)
  moreover have "wb_LastSuccessfulEntry example_binding = Some example_entry" by (simp add: example_binding_def)
  ultimately obtain k where "WorkspaceBinding_json example_binding = Some k" by (simp add: WorkspaceBinding_json_def)
  then show ?thesis using example_content_parts(3) by (simp add: workspaceAuthorityCollectionRevision_def collection_content_json_def)
qed

lemma example_snapshot:
  "ContextAuthoritySnapshot_Validate (\<lambda>_. True) (context_snapshot example_template example_owner [example_binding]) = None"
proof -
  have "context_snapshot example_template example_owner [example_binding] =
      example_authority\<lparr> cas_Workspaces := Some (snapshot_workspaces example_authority), cas_Workspace := None \<rparr>"
    unfolding example_authority_workspaces
    by (simp add: context_snapshot_def example_owner_def owner_record_def example_authority_def example_binding_def)
  then show ?thesis using snapshot_select[OF example_authority_valid, of None] by simp
qed

text \<open>Neither the revision nor the generation plays a part in the checks of the content.\<close>

lemma context_check_frame:
  assumes "wac_Workspaces c = wac_Workspaces d" "wac_PendingCandidates c = wac_PendingCandidates d"
  shows "context_check pem c t r = context_check pem d t r"
  using assms by (simp add: context_check_def workspaces_of_def)

lemma revision_frame: "workspaceAuthorityCollectionRevision (c\<lparr> wac_Revision := v \<rparr>) = workspaceAuthorityCollectionRevision c"
  by (simp add: workspaceAuthorityCollectionRevision_def collection_content_json_def revision_contexts_def)

lemma example_collection_parts:
  "wac_Templates example_collection = wac_Templates example_content" "wac_Contexts example_collection = wac_Contexts example_content"
  "wac_Workspaces example_collection = wac_Workspaces example_content" "wac_PendingCandidates example_collection = wac_PendingCandidates example_content"
  "wac_SchemaVersion example_collection = wac_SchemaVersion example_content" "wac_Generation example_collection = wac_Generation example_content"
  "wac_DefaultTemplateID example_collection = wac_DefaultTemplateID example_content"
  "wac_CurrentContextID example_collection = wac_CurrentContextID example_content"
  "workspaceAuthorityCollectionRevision example_collection = Some (wac_Revision example_collection)"
  using example_content_revision by (auto simp: example_collection_def revision_frame)

lemma example_ids: "cb_ID example_context = example_context_id" "cb_TemplateID example_context = tpl_ID example_template"
  "wb_ContextID example_binding = example_context_id" "acr_Context example_owner = example_context"
  "acr_ContextHome example_owner = wb_Home example_binding" "acr_CreationDefaults example_owner = wb_CreationDefaults example_binding"
  "acr_SupersededAllows example_owner = None" "acr_SupersededCandidates example_owner = None"
  by (simp_all add: example_owner_def owner_record_def example_context_def example_template_def example_binding_def)

lemma example_context_check: "context_check (\<lambda>_. True) example_collection example_template example_owner = None"
proof -
  have ws: "workspaces_of example_collection example_context_id = [example_binding]"
    by (simp add: workspaces_of_def example_collection_parts example_content_parts example_ids)
  have "creation_retained example_template (wb_CreationDefaults example_binding)"
    by (simp add: creation_retained_def example_template_def example_binding_def)
  then show ?thesis
    unfolding context_check_def Let_def first_error_None reject_None check_each_None first_error.simps(1) example_ids ws
    using example_snapshot by (simp add: check_each_None)
qed

lemma example_homes:
  "home_rows Map.empty [example_owner] = Inr [wb_Home example_binding \<mapsto> example_context_id]" "home_ok example_owner"
  "wb_Home example_binding \<noteq> []" "wb_CreationDefaults example_binding \<noteq> []"
proof -
  have h: "wb_Home example_binding \<noteq> []" "filepath_IsAbs (wb_Home example_binding)" "filepath_Clean (wb_Home example_binding) = wb_Home example_binding"
    "SemanticDigest_Validate (wb_CreationDefaults example_binding) = None"
    using example_binding_valid unfolding WorkspaceBinding_ValidateFor_def first_error_None reject_None by blast+
  have d: "wb_CreationDefaults example_binding \<noteq> []" using example_revision_slices(9) by (simp add: example_binding_def)
  show "home_rows Map.empty [example_owner] = Inr [wb_Home example_binding \<mapsto> example_context_id]" using h by (simp add: example_ids guarded_def)
  show "home_ok example_owner" using h d by (simp add: home_ok_def example_ids)
  show "wb_Home example_binding \<noteq> []" "wb_CreationDefaults example_binding \<noteq> []" by (fact h(1) d)+
qed

lemma example_collection_valid: "WorkspaceAuthorityCollection_Validate (\<lambda>_. True) example_collection = None"
proof -
  have stored: "stored tpl_ID [example_template] (tpl_ID example_template) = Some example_template"
    "stored context_id [example_owner] example_context_id = Some example_owner"
    by (simp_all add: stored_def example_ids)
  have t: "authority_rows (\<lambda>_. True) Map.empty Map.empty [example_template] = None"
    using example_template_valid by (simp add: first_error_None)
  have r: "context_rows [example_template] [] [example_owner] = None"
    using context_rows_valid[of "[example_owner]" "[example_template]" "[]"] example_homes(2) context_id_nonempty[OF example_context_binding]
    by (simp add: example_ids)
  have b: "ValidateContextBindings (Some [example_context]) = None"
    using example_context_binding by (simp add: ValidateContextBindings_def check_simps)
  have w: "workspace_rows [example_owner] [wb_Home example_binding \<mapsto> example_context_id] Map.empty [] [example_binding] = None"
    unfolding workspace_rows_valid using stored(2) example_homes(3,4) example_binding_valid binding_id_nonempty[OF example_binding_valid]
    by (simp add: owned_by_def example_ids one_per_context_root_def one_context_per_home_def)
  show ?thesis
    unfolding WorkspaceAuthorityCollection_Validate_def Let_def first_error_None reject_None ValidateWorkspaceTemplateAuthorities_def
      example_collection_parts example_content_parts check_each_None elems_simps option.case example_homes(1) sum.case first_error.simps(1)
    using t r b w stored example_context_check by (simp add: example_ids first_error_None reject_None del: context_rows.simps workspace_rows.simps authority_rows.simps)
qed

lemma example_publication:
  "PublishWorkspaceAuthorityCollection (\<lambda>_. True) (Some [example_template]) (Some [owner_record []]) (Some [example_binding]) (Some []) None None
     = Inr (example_collection, True)"
proof -
  obtain v where v: "workspaceAuthorityCollectionRevision example_content = Some v" using example_content_revision by auto
  then have "example_content\<lparr> wac_Revision := v \<rparr> = example_collection" by (simp add: example_collection_def)
  then show ?thesis
    using v example_collection_valid
    by (simp add: PublishWorkspaceAuthorityCollection_def publishWorkspaceAuthorityCollection_def guarded_def reject_def
        example_content_def[symmetric] checked_def)
qed

lemma example_collection_reachable: "authority_reachable (\<lambda>_. True) example_collection"
  by (rule authority_reachable.initial[OF authority_step.publish[OF example_publication]])

theorem collection_isolates_authorities_witness:
  "\<exists>r \<in> set (elems (wac_Contexts example_collection)). context_id r = wb_ContextID example_binding \<and> wb_Home example_binding = acr_ContextHome r"
  using collection_isolates_authorities[OF example_collection_valid] example_collection_parts(3) example_content_parts(3) by auto

lemma example_republication:
  "PublishWorkspaceAuthorityCollection (\<lambda>_. True) (Some [example_template]) (Some [owner_record []]) (Some [example_binding]) (Some []) None
     (Some example_collection) = Inr (example_collection, False)"
proof -
  let ?c = "collection_of 2 [example_template] [owner_record []] [example_binding] [] None None"
  have c: "?c = example_content\<lparr> wac_Generation := 2 \<rparr>" by (simp add: example_content_def collection_of_def Let_def)
  have "workspaceAuthorityCollectionRevision ?c = workspaceAuthorityCollectionRevision example_content"
    unfolding c by (simp add: workspaceAuthorityCollectionRevision_def collection_content_json_def revision_contexts_def)
  then have r: "workspaceAuthorityCollectionRevision ?c = Some (wac_Revision example_collection)"
    using example_content_revision by (auto simp: example_collection_def)
  have "check_each (home_transition False (elems (wac_Contexts ?c))) (elems (wac_Contexts example_collection)) = None"
    unfolding c check_each_None
    by (simp add: example_collection_parts example_content_parts home_transition_def stored_def reject_def)
  then have g: "first_error [WorkspaceAuthorityCollection_Validate (\<lambda>_. True) example_collection,
      check_each (home_transition False (elems (wac_Contexts ?c))) (elems (wac_Contexts example_collection))] = None"
    using example_collection_valid by (simp add: first_error_None)
  have "wac_Generation example_collection + 1 = 2" by (simp add: example_collection_parts example_content_parts)
  moreover have "WorkspaceAuthorityCollection_Clone example_collection = example_collection"
    using reachable_settled[OF example_collection_reachable] by blast
  ultimately show ?thesis
    using r g
    by (simp add: PublishWorkspaceAuthorityCollection_def publishWorkspaceAuthorityCollection_def example_collection_parts(8) example_content_parts(8)
        guarded_def reject_def)
qed

theorem context_homes_are_create_once_witness:
  "WorkspaceAuthorityCollection_Clone example_collection = example_collection
   \<and> authority_step (\<lambda>_. True) False (Some example_collection) example_collection \<and> homes_kept False example_collection example_collection
   \<and> map acr_ContextHome (elems (wac_Contexts example_collection)) = [wb_Home example_binding]"
  using context_homes_are_create_once[OF example_collection_reachable] authority_step.publish[OF example_republication]
  by (simp add: example_collection_parts example_content_parts example_ids)

theorem context_snapshots_project_the_collection_witness:
  "\<exists>s. ContextSnapshots (\<lambda>_. True) example_collection = Inr [s] \<and> cas_Workspace s = Some example_binding
     \<and> ContextAuthoritySnapshot_Validate (\<lambda>_. True) s = None"
proof -
  obtain ss where ss: "ContextSnapshots (\<lambda>_. True) example_collection = Inr ss"
    "map cas_Context ss = [example_context]"
    "\<forall>s \<in> set ss. ContextAuthoritySnapshot_Validate (\<lambda>_. True) s = None
      \<and> cas_Workspaces s = Some (filter (\<lambda>w. wb_ContextID w = cb_ID (cas_Context s)) [example_binding])
      \<and> cas_Workspace s = (case elems (cas_Workspaces s) of [w] \<Rightarrow> Some w | _ \<Rightarrow> None)"
    using context_snapshots_project_the_collection[OF example_collection_reachable] by (auto simp: example_collection_parts example_content_parts example_ids)
  then obtain s where "ss = [s]" "cas_Context s = example_context" by (cases ss) auto
  then show ?thesis using ss(1,3) by (simp add: example_ids)
qed

text \<open>The one source of the remembered Deny.\<close>

definition example_source :: PolicyCandidateAuthority where
  "example_source =
     \<lparr> pca_ID = ''pcy_00000000000000000000000000000001'', pca_ContextID = example_context_id, pca_ObservingWorkspaceID = wb_ID example_binding,
       pca_PayloadDigest = [], pca_Effect = example_effect ''other.tobari.dev'' \<rparr>"

theorem consumption_is_found_by_bisection_witness:
  "consumed_by example_source (example_memory_rule ''deny'' ''other.tobari.dev'')"
proof -
  have "PolicyMemoryRule_Validate (example_memory_rule ''deny'' ''other.tobari.dev'') example_context_id = None"
    using memory_rule_stored[OF example_effects_valid(1), of "''deny''"] by (simp add: stored_rule_def PolicyMemoryDecision_Validate_def reject_None)
  from consumption_is_found_by_bisection[OF this, of 1 example_source] show ?thesis
    by (simp add: example_memory_rule_def Let_def RuleBody_def example_source_def)
qed

end
