(* ===== verification/Authority_Store.thy ===== *)
theory Authority_Store
  imports Authority_Collection Host_Loopback
begin

text \<open>
  The mutations of the stored Workspace Authority, from
  \<open>internal/infra/workspaceauthoritystore/mutator.go\<close>, and the publication records they return, from
  \<open>internal/domain/tobari/workspace_authority.go\<close>. A mutation is the function that the mutator runs
  under the installation lock on the collection it has read; reading, writing and settling the result
  with the containers are outside. The authorities that the mutator asks (whether credentials are
  absent, whether a Workspace may be retired, which candidates are observed) are parameters.
\<close>

section \<open>Publication records\<close>

record PolicyMemoryPublication =
  pmp_Snapshot :: ContextAuthoritySnapshot
  pmp_PreviousRevision :: SemanticDigest
  pmp_Changed :: bool

definition PolicyMemoryPublication_Validate :: "(nat list \<Rightarrow> bool) \<Rightarrow> PolicyMemoryPublication \<Rightarrow> check" where
  "PolicyMemoryPublication_Validate pem p =
     (let s = pmp_Snapshot p
      in first_error
       [ContextAuthoritySnapshot_Validate pem s,
        SemanticDigest_Validate (pmp_PreviousRevision p),
        (case (cas_ActivePolicyMemory s, cas_ActivePolicyMemoryRef s) of
           (Some active, Some _) \<Rightarrow> reject (pmv_Revision active \<noteq> pmv_Revision (cas_PolicyMemory s)) ''Policy Memory publication is not actively committed''
         | _ \<Rightarrow> Some ''Policy Memory publication is not actively committed''),
        reject (pmp_Changed p = (pmp_PreviousRevision p = pmv_Revision (cas_PolicyMemory s)))
          ''Policy Memory publication change state is inconsistent''])"

record PolicyCandidatePublication =
  pcp_Candidate :: PolicyCandidateAuthority
  pcp_RuleID :: string
  pcp_Previous :: PolicyMemoryRevision
  pcp_Memory :: PolicyMemoryPublication

definition observing_workspace :: "ContextAuthoritySnapshot \<Rightarrow> PolicyCandidateAuthority \<Rightarrow> bool" where
  "observing_workspace s c =
     (let observes = (\<lambda>w. wb_ID w = pca_ObservingWorkspaceID c \<and> wb_ContextID w = pca_ContextID c)
      in list_ex observes (elems (cas_Workspaces s)) \<or> (case cas_Workspace s of None \<Rightarrow> False | Some w \<Rightarrow> observes w))"

definition resulting_rule ::
  "PolicyCandidateAuthority \<Rightarrow> string \<Rightarrow> string \<Rightarrow> string \<Rightarrow> PolicyMemoryRule list \<Rightarrow> PolicyMemoryRule result" where
  "resulting_rule candidate candidateID ruleID decision rules =
     (case List.find (\<lambda>r. pmr_ID r = ruleID) rules of
        None \<Rightarrow> Inl ''Policy candidate publication has no resulting Policy Memory rule''
      | Some r \<Rightarrow>
          guarded
            (first_error
               [reject (pmr_Decision r \<noteq> decision) ''Policy candidate publication has the wrong decision'',
                reject (semanticDigest (PolicyMemoryRuleBody_json (pmr_Body r))
                        \<noteq> semanticDigest (PolicyMemoryRuleBody_json (RuleBody (pca_Effect candidate) candidateID)))
                  ''Policy candidate publication rule does not match the requested exact effect''])
            (Inr r))"

text \<open>What a publication must be: the previous memory with the given rules, and nothing else.\<close>

definition exact_transition :: "PolicyMemoryRevision \<Rightarrow> PolicyMemoryRule list \<Rightarrow> PolicyMemoryRevision \<Rightarrow> error \<Rightarrow> check" where
  "exact_transition previous rules memory e =
     (case PublishPolicyMemory (pmv_ContextID previous) (Some rules) (Some previous) of
        Inl e \<Rightarrow> Some e
      | Inr (want, changed) \<Rightarrow>
          reject (\<not> changed \<or> pmv_Revision want \<noteq> pmv_Revision memory \<or> pmv_Generation want \<noteq> pmv_Generation memory) e)"

definition PolicyCandidatePublication_ValidateFor ::
  "(nat list \<Rightarrow> bool) \<Rightarrow> PolicyCandidatePublication \<Rightarrow> string \<Rightarrow> string \<Rightarrow> check" where
  "PolicyCandidatePublication_ValidateFor pem p candidateID decision =
     (let candidate = pcp_Candidate p; previous = pcp_Previous p; s = pmp_Snapshot (pcp_Memory p)
      in first_error
       [ValidatePolicyCandidateID candidateID,
        PolicyMemoryDecision_Validate decision,
        PolicyCandidateAuthority_Validate candidate,
        reject (pca_ID candidate \<noteq> candidateID) ''Policy candidate reference was not consumed unchanged'',
        ValidatePolicyMemoryRuleID (pcp_RuleID p),
        PolicyMemoryPublication_Validate pem (pcp_Memory p),
        reject (\<not> pmp_Changed (pcp_Memory p)) ''Policy candidate publication did not change authority'',
        reject (cb_ID (cas_Context s) \<noteq> pca_ContextID candidate \<or> \<not> observing_workspace s candidate)
          ''Policy candidate publication crosses its Context or loses observing Workspace provenance'',
        PolicyMemoryRevision_ValidateFor pem previous (cas_Context s) (tpl_Current (cas_Template s)),
        reject (pmv_Revision previous \<noteq> pmp_PreviousRevision (pcp_Memory p) \<or> pmv_ContextID previous \<noteq> pca_ContextID candidate
                \<or> pmv_Generation (cas_PolicyMemory s) \<noteq> pmv_Generation previous + 1)
          ''Policy candidate publication does not bind its exact previous revision'',
        reject (list_ex (\<lambda>r. candidateID \<in> set (elems (pmb_SourceCandidates (pmr_Body r)))) (elems (pmv_Rules previous)))
          ''Policy candidate was already present in previous authority'',
        (case resulting_rule candidate candidateID (pcp_RuleID p) decision (elems (pmv_Rules (cas_PolicyMemory s))) of
           Inl e \<Rightarrow> Some e
         | Inr rule \<Rightarrow>
             exact_transition previous (map PolicyMemoryRule_Clone (elems (pmv_Rules previous)) @ [PolicyMemoryRule_Clone rule]) (cas_PolicyMemory s)
               ''Policy candidate publication changed authority beyond the exact requested rule'')])"

text \<open>The result of a decision: Policy Memory for a persistent candidate, a grant for an attachment.\<close>

record PolicyCandidateDecisionPublication =
  pcd_Persistent :: "PolicyCandidatePublication option"
  pcd_Attachment :: "AttachmentGrantPublication option"

definition NewPersistentPolicyCandidateDecisionPublication :: "PolicyCandidatePublication \<Rightarrow> PolicyCandidateDecisionPublication" where
  "NewPersistentPolicyCandidateDecisionPublication value = \<lparr> pcd_Persistent = Some value, pcd_Attachment = None \<rparr>"

definition NewAttachmentPolicyCandidateDecisionPublication :: "AttachmentGrantPublication \<Rightarrow> PolicyCandidateDecisionPublication" where
  "NewAttachmentPolicyCandidateDecisionPublication value = \<lparr> pcd_Persistent = None, pcd_Attachment = Some value \<rparr>"

definition PolicyCandidateDecisionPublication_ValidateFor ::
  "(nat list \<Rightarrow> bool) \<Rightarrow> PolicyCandidateDecisionPublication \<Rightarrow> string \<Rightarrow> string \<Rightarrow> check" where
  "PolicyCandidateDecisionPublication_ValidateFor pem p candidateID decision =
     (case (pcd_Persistent p, pcd_Attachment p) of
        (Some persistent, None) \<Rightarrow> PolicyCandidatePublication_ValidateFor pem persistent candidateID decision
      | (None, Some attachment) \<Rightarrow> AttachmentGrantPublication_ValidateFor attachment candidateID decision
      | _ \<Rightarrow> Some ''policy candidate decision must change exactly one authority branch'')"

record PolicyRuleResetPublication =
  prr_RuleID :: string
  prr_RemovedFrom :: PolicyMemoryRevision
  prr_Memory :: PolicyMemoryPublication

definition PolicyRuleResetPublication_ValidateFor ::
  "(nat list \<Rightarrow> bool) \<Rightarrow> PolicyRuleResetPublication \<Rightarrow> string \<Rightarrow> check" where
  "PolicyRuleResetPublication_ValidateFor pem p ruleID =
     (let removed = prr_RemovedFrom p; s = pmp_Snapshot (prr_Memory p)
      in first_error
       [ValidatePolicyMemoryRuleID ruleID,
        reject (prr_RuleID p \<noteq> ruleID) ''Policy Memory rule reference was not consumed unchanged'',
        PolicyMemoryPublication_Validate pem (prr_Memory p),
        reject (\<not> pmp_Changed (prr_Memory p)) ''Policy Memory reset did not change authority'',
        PolicyMemoryRevision_ValidateFor pem removed (cas_Context s) (tpl_Current (cas_Template s)),
        reject (pmv_Revision removed \<noteq> pmp_PreviousRevision (prr_Memory p) \<or> pmv_Generation (cas_PolicyMemory s) \<noteq> pmv_Generation removed + 1)
          ''Policy Memory reset does not bind its exact previous revision'',
        reject (\<not> list_ex (\<lambda>r. pmr_ID r = ruleID) (elems (pmv_Rules removed))) ''reset Policy Memory rule was absent from previous authority'',
        reject (list_ex (\<lambda>r. pmr_ID r = ruleID) (elems (pmv_Rules (cas_PolicyMemory s)))) ''reset Policy Memory rule remains active'',
        exact_transition removed (map PolicyMemoryRule_Clone (filter (\<lambda>r. pmr_ID r \<noteq> ruleID) (elems (pmv_Rules removed)))) (cas_PolicyMemory s)
          ''Policy Memory reset changed authority beyond the exact requested rule''])"

section \<open>Helpers\<close>

definition templateExists :: "WorkspaceAuthorityCollection \<Rightarrow> WorkspaceTemplateID \<Rightarrow> bool" where
  "templateExists c i = list_ex (\<lambda>t. tpl_ID t = i) (elems (wac_Templates c))"

text \<open>The first position, where the code returns \<open>-1\<close> for none.\<close>

definition contextRecordIndex :: "WorkspaceAuthorityCollection \<Rightarrow> ContextID \<Rightarrow> nat option" where
  "contextRecordIndex c i = List.find (\<lambda>k. cb_ID (acr_Context (elems (wac_Contexts c) ! k)) = i) [0..<length (elems (wac_Contexts c))]"

definition snapshotForContext :: "(nat list \<Rightarrow> bool) \<Rightarrow> WorkspaceAuthorityCollection \<Rightarrow> ContextID \<Rightarrow> ContextAuthoritySnapshot result" where
  "snapshotForContext pem c i =
     and_then (ContextSnapshots pem c)
       (\<lambda>ss. case List.find (\<lambda>s. cb_ID (cas_Context s) = i) ss of
               None \<Rightarrow> Inl ''Context does not exist''
             | Some s \<Rightarrow> Inr (ContextAuthoritySnapshot_Clone s))"

definition preparePolicyMemoryActivation :: "bool \<Rightarrow> WorkspaceAuthorityContextRecord \<Rightarrow> WorkspaceAuthorityContextRecord result" where
  "preparePolicyMemoryActivation activation r =
     (if \<not> activation then Inl ''Policy Memory activation authority is unavailable''
      else Inr (r\<lparr> acr_ActivePolicyMemory := Some (PolicyMemoryRevision_Clone (acr_PolicyMemory r)),
                   acr_ActivePolicyMemoryRef := Some \<lparr> pmar_ContextID = cb_ID (acr_Context r), pmar_Revision = pmv_Revision (acr_PolicyMemory r) \<rparr> \<rparr>))"

definition publishCollection ::
  "(nat list \<Rightarrow> bool) \<Rightarrow> WorkspaceAuthorityCollection \<Rightarrow> bool \<Rightarrow> WorkspaceTemplate list option \<Rightarrow> WorkspaceAuthorityContextRecord list option
   \<Rightarrow> WorkspaceBinding list option \<Rightarrow> PolicyCandidateAuthority list option \<Rightarrow> WorkspaceTemplateID option
   \<Rightarrow> (WorkspaceAuthorityCollection \<times> bool) result" where
  "publishCollection pem current present templates contexts workspaces candidates defaultID =
     PublishWorkspaceAuthorityCollection pem templates contexts workspaces candidates defaultID (if present then Some current else None)"

section \<open>Decisions on candidates\<close>

text \<open>What the observation authority reports: the collection it read and the observed candidates, each with its identifier
  and whether it belongs to an attachment.\<close>

record candidate_observation =
  obs_CollectionPresent :: bool
  obs_CollectionGeneration :: "64 word"
  obs_CollectionRevision :: SemanticDigest
  obs_Items :: "(string \<times> bool \<times> PolicyCandidateAuthority) list"

definition candidate_target ::
  "candidate_observation result option \<Rightarrow> WorkspaceAuthorityCollection \<Rightarrow> string
   \<Rightarrow> (PolicyCandidateAuthority \<times> PolicyCandidateAuthority list) result" where
  "candidate_target candidateRead current ref =
     (let pending = clonePolicyCandidateAuthorities (elems (wac_PendingCandidates current))
      in case List.find (\<lambda>p. pca_ID p = ref) pending of
           Some p \<Rightarrow> Inr (p, pending)
         | None \<Rightarrow>
             (case candidateRead of
                None \<Rightarrow> Inl ''Policy Memory target does not exist''
              | Some reading \<Rightarrow>
                  and_then reading
                    (\<lambda>observed.
                       if \<not> obs_CollectionPresent observed \<or> obs_CollectionGeneration observed \<noteq> wac_Generation current
                          \<or> obs_CollectionRevision observed \<noteq> wac_Revision current
                       then Inl ''observed Policy candidate authority changed before mutation''
                       else case List.find (\<lambda>(i, attachment, _). i = ref \<and> \<not> attachment) (obs_Items observed) of
                              None \<Rightarrow> Inl ''Policy Memory target does not exist''
                            | Some (_, _, a) \<Rightarrow> Inr (PolicyCandidateAuthority_Clone a, pending @ [PolicyCandidateAuthority_Clone a]))))"

definition candidate_publication ::
  "(nat list \<Rightarrow> bool) \<Rightarrow> WorkspaceAuthorityCollection \<Rightarrow> PolicyCandidateAuthority \<Rightarrow> PolicyMemoryRule \<Rightarrow> PolicyMemoryRevision
   \<Rightarrow> PolicyCandidatePublication result" where
  "candidate_publication pem collection candidate rule previous =
     and_then (snapshotForContext pem collection (pca_ContextID candidate))
       (\<lambda>s. Inr \<lparr> pcp_Candidate = candidate, pcp_RuleID = pmr_ID rule, pcp_Previous = previous,
                    pcp_Memory = \<lparr> pmp_Snapshot = s, pmp_PreviousRevision = pmv_Revision previous, pmp_Changed = True \<rparr> \<rparr>)"

text \<open>
  The mutation of \<open>policy allow\<close> and \<open>policy deny\<close>: the rule of the candidate joins the Policy Memory of its
  Context, which becomes the active memory, and every pending candidate with the same effect is consumed.
\<close>

definition applyPolicyCandidate ::
  "(nat list \<Rightarrow> bool) \<Rightarrow> bool \<Rightarrow> candidate_observation result option \<Rightarrow> WorkspaceAuthorityCollection \<Rightarrow> string \<Rightarrow> string
   \<Rightarrow> (WorkspaceAuthorityCollection \<times> PolicyCandidatePublication) result" where
  "applyPolicyCandidate pem activation candidateRead current ref decision =
     guarded (ValidatePolicyCandidateID ref)
      (and_then (candidate_target candidateRead current ref)
        (\<lambda>(target, pending).
           let candidate = PolicyCandidateAuthority_Clone target; contexts = elems (wac_Contexts current)
           in case contextRecordIndex current (pca_ContextID candidate) of
                None \<Rightarrow> Inl ''Policy candidate Context is unavailable''
              | Some i \<Rightarrow>
                  (let previous = PolicyMemoryRevision_Clone (acr_PolicyMemory (contexts ! i))
                   in and_then (NewPolicyMemoryRule (pca_ContextID candidate) decision (RuleBody (pca_Effect candidate) (pca_ID candidate)))
                       (\<lambda>rule.
                          and_then (PublishPolicyMemory (pca_ContextID candidate) (Some (elems (pmv_Rules previous) @ [rule])) (Some previous))
                            (\<lambda>(memory, changed).
                               if \<not> changed then Inl ''Policy candidate did not change authority''
                               else
                                 (let copies = cloneWorkspaceAuthorityContextRecords contexts
                                  in and_then (preparePolicyMemoryActivation activation ((copies ! i)\<lparr> acr_PolicyMemory := memory \<rparr>))
                                      (\<lambda>r.
                                         and_then
                                           (publishCollection pem current True (wac_Templates current) (Some (copies[i := r])) (wac_Workspaces current)
                                              (Some (clonePolicyCandidateAuthorities
                                                (filter (\<lambda>p. \<not> policyCandidateAuthoritiesShareEffect p candidate) pending)))
                                              (wac_DefaultTemplateID current))
                                           (\<lambda>(n, collectionChanged).
                                              and_then (candidate_publication pem n candidate rule previous)
                                                (\<lambda>p. guarded
                                                   (first_error
                                                      [PolicyCandidatePublication_ValidateFor pem p ref decision,
                                                       reject (\<not> collectionChanged) ''Policy candidate did not change final authority''])
                                                   (Inr (n, p)))))))))))"

section \<open>Reset of a rule\<close>

text \<open>Where a rule identifier occurs: positions of the Context and of the rule in its memory.\<close>

definition rule_positions :: "WorkspaceAuthorityContextRecord list \<Rightarrow> string \<Rightarrow> (nat \<times> nat) list" where
  "rule_positions contexts ref =
     concat (map (\<lambda>k. map (Pair k) (filter (\<lambda>j. pmr_ID (elems (pmv_Rules (acr_PolicyMemory (contexts ! k))) ! j) = ref)
                  [0..<length (elems (pmv_Rules (acr_PolicyMemory (contexts ! k))))])) [0..<length contexts])"

definition ResetPolicyMemoryRuleByReference ::
  "(nat list \<Rightarrow> bool) \<Rightarrow> bool \<Rightarrow> WorkspaceAuthorityCollection \<Rightarrow> string \<Rightarrow> (WorkspaceAuthorityCollection \<times> PolicyRuleResetPublication) result" where
  "ResetPolicyMemoryRuleByReference pem activation current ref =
     guarded (ValidatePolicyMemoryRuleID ref)
      (let contexts = elems (wac_Contexts current)
       in case rule_positions contexts ref of
            [] \<Rightarrow> Inl ''Policy Memory target does not exist''
          | [(i, j)] \<Rightarrow>
              (let previous = PolicyMemoryRevision_Clone (acr_PolicyMemory (contexts ! i)); rules = elems (pmv_Rules previous)
               in and_then (PublishPolicyMemory (pmv_ContextID previous) (Some (take j rules @ drop (j + 1) rules)) (Some previous))
                    (\<lambda>(memory, changed).
                       if \<not> changed then Inl ''Policy Memory reset did not change authority''
                       else
                         (let copies = cloneWorkspaceAuthorityContextRecords contexts
                          in and_then (preparePolicyMemoryActivation activation ((copies ! i)\<lparr> acr_PolicyMemory := memory \<rparr>))
                              (\<lambda>r.
                                 and_then
                                   (publishCollection pem current True (wac_Templates current) (Some (copies[i := r])) (wac_Workspaces current)
                                      (wac_PendingCandidates current) (wac_DefaultTemplateID current))
                                   (\<lambda>(n, collectionChanged).
                                      and_then (snapshotForContext pem n (pmv_ContextID previous))
                                        (\<lambda>s.
                                           let p = \<lparr> prr_RuleID = ref, prr_RemovedFrom = previous,
                                                     prr_Memory = \<lparr> pmp_Snapshot = s, pmp_PreviousRevision = pmv_Revision previous, pmp_Changed = True \<rparr> \<rparr>
                                           in guarded
                                                (first_error
                                                   [PolicyRuleResetPublication_ValidateFor pem p ref,
                                                    reject (\<not> collectionChanged) ''Policy reset did not change final authority''])
                                                (Inr (n, p))))))))
          | _ \<Rightarrow> Inl ''Policy Memory rule authority is ambiguous'')"

section \<open>Selections and deletions\<close>

definition SetDefaultWorkspaceTemplateByReference ::
  "(nat list \<Rightarrow> bool) \<Rightarrow> WorkspaceAuthorityCollection \<Rightarrow> bool \<Rightarrow> string \<Rightarrow> (WorkspaceAuthorityCollection \<times> bool) result" where
  "SetDefaultWorkspaceTemplateByReference pem current present ref =
     and_then (ParseWorkspaceTemplateRef ref)
       (\<lambda>i. if \<not> templateExists current i then Inl ''Workspace Template does not exist''
            else publishCollection pem current present (wac_Templates current) (wac_Contexts current) (wac_Workspaces current)
                   (wac_PendingCandidates current) (Some i))"

definition SetCurrentContextByReference ::
  "(nat list \<Rightarrow> bool) \<Rightarrow> WorkspaceAuthorityCollection \<Rightarrow> bool \<Rightarrow> string \<Rightarrow> (WorkspaceAuthorityCollection \<times> bool) result" where
  "SetCurrentContextByReference pem current present ref =
     and_then (ParseContextRef ref)
       (\<lambda>i. if \<not> present \<or> contextRecordIndex current i = None then Inl ''Context does not exist''
            else PublishWorkspaceAuthorityCollectionWithCurrentContext pem (wac_Templates current) (wac_Contexts current) (wac_Workspaces current)
                   (wac_PendingCandidates current) (wac_DefaultTemplateID current) (Some i) (Some current))"

definition DeleteWorkspaceTemplateByReference ::
  "(nat list \<Rightarrow> bool) \<Rightarrow> WorkspaceAuthorityCollection \<Rightarrow> bool \<Rightarrow> string \<Rightarrow> (WorkspaceAuthorityCollection \<times> bool) result" where
  "DeleteWorkspaceTemplateByReference pem current present ref =
     and_then (ParseWorkspaceTemplateRef ref)
       (\<lambda>i. if \<not> templateExists current i then Inl ''Workspace Template does not exist''
            else if wac_DefaultTemplateID current = Some i then Inl ''Workspace Template is still referenced''
            else if list_ex (\<lambda>r. cb_TemplateID (acr_Context r) = i) (elems (wac_Contexts current)) then Inl ''Workspace Template is still referenced''
            else publishCollection pem current present
                   (Some (map WorkspaceTemplate_Clone (filter (\<lambda>t. tpl_ID t \<noteq> i) (elems (wac_Templates current)))))
                   (wac_Contexts current) (wac_Workspaces current) (wac_PendingCandidates current) (wac_DefaultTemplateID current))"

text \<open>The publication without a Context and its candidates: a current Context is deselected explicitly.\<close>

definition publish_without_context ::
  "(nat list \<Rightarrow> bool) \<Rightarrow> WorkspaceAuthorityCollection \<Rightarrow> nat \<Rightarrow> ContextID \<Rightarrow> (WorkspaceAuthorityCollection \<times> bool) result" where
  "publish_without_context pem current k i =
     (let contexts = elems (wac_Contexts current);
          remaining = Some (cloneWorkspaceAuthorityContextRecords (take k contexts) @ cloneWorkspaceAuthorityContextRecords (drop (k + 1) contexts));
          candidates = Some (clonePolicyCandidateAuthorities (filter (\<lambda>p. pca_ContextID p \<noteq> i) (elems (wac_PendingCandidates current))))
      in if wac_CurrentContextID current = Some i
         then PublishWorkspaceAuthorityCollectionWithCurrentContext pem (wac_Templates current) remaining (wac_Workspaces current)
                candidates (wac_DefaultTemplateID current) None (Some current)
         else publishCollection pem current True (wac_Templates current) remaining (wac_Workspaces current)
                candidates (wac_DefaultTemplateID current))"

text \<open>The credential and readiness checks are asked of other authorities; no readiness is asked when a deletion is recovered.\<close>

definition DeleteContextByReference ::
  "(nat list \<Rightarrow> bool) \<Rightarrow> (ContextID \<Rightarrow> check) option \<Rightarrow> check \<Rightarrow> WorkspaceAuthorityCollection \<Rightarrow> string \<Rightarrow> WorkspaceAuthorityCollection result" where
  "DeleteContextByReference pem credentialAbsence readiness current ref =
     and_then (ParseContextRef ref)
       (\<lambda>i. case contextRecordIndex current i of
              None \<Rightarrow> Inl ''Context does not exist''
            | Some k \<Rightarrow>
                if list_ex (\<lambda>w. wb_ContextID w = i) (elems (wac_Workspaces current)) then Inl ''Context still owns live authority''
                else case credentialAbsence of
                       None \<Rightarrow> Inl ''Context credential deletion authority is unavailable''
                     | Some absent \<Rightarrow>
                         guarded (first_error [absent i, readiness])
                           (and_then (publish_without_context pem current k i)
                              (\<lambda>(n, changed). if \<not> changed then Inl ''Context deletion did not change authority'' else Inr n)))"

definition DeleteWorkspaceByReference ::
  "(nat list \<Rightarrow> bool) \<Rightarrow> (WorkspaceBinding \<Rightarrow> check) option \<Rightarrow> WorkspaceAuthorityCollection \<Rightarrow> string \<Rightarrow> WorkspaceAuthorityCollection result" where
  "DeleteWorkspaceByReference pem retirement current ref =
     and_then (ParseWorkspaceRef ref)
       (\<lambda>i. let workspaces = elems (wac_Workspaces current)
            in case List.find (\<lambda>k. wb_ID (workspaces ! k) = i) [0..<length workspaces] of
                 None \<Rightarrow> Inl ''Workspace does not exist''
               | Some k \<Rightarrow>
                   (case retirement of
                      None \<Rightarrow> Inl ''Workspace retirement authority is unavailable''
                    | Some allowed \<Rightarrow>
                        guarded (allowed (workspaces ! k))
                          (and_then
                             (publishCollection pem current True (wac_Templates current) (wac_Contexts current)
                                (Some (cloneWorkspaceBindings (take k workspaces) @ cloneWorkspaceBindings (drop (k + 1) workspaces)))
                                (Some (clonePolicyCandidateAuthorities
                                  (filter (\<lambda>p. pca_ObservingWorkspaceID p \<noteq> i) (elems (wac_PendingCandidates current)))))
                                (wac_DefaultTemplateID current))
                             (\<lambda>(n, changed). if \<not> changed then Inl ''Workspace deletion did not change authority'' else Inr n))))"

section \<open>Template publications\<close>

text \<open>The Contexts of a Template under its next revision: remembered Allows outside a changed Boundary are superseded.\<close>

fun supersede_contexts ::
  "(nat list \<Rightarrow> bool) \<Rightarrow> WorkspaceTemplateID \<Rightarrow> WorkspaceTemplateRevision \<Rightarrow> WorkspaceAuthorityContextRecord list
   \<Rightarrow> WorkspaceAuthorityContextRecord list result" where
  "supersede_contexts pem i revision [] = Inr []"
| "supersede_contexts pem i revision (r # rs) =
     and_then
       (if cb_TemplateID (acr_Context r) \<noteq> i then Inr r
        else and_then (SupersedePolicyMemoryAllowsOutsideBoundary pem r revision) (\<lambda>(updated, _). Inr updated))
       (\<lambda>r'. and_then (supersede_contexts pem i revision rs) (\<lambda>rs'. Inr (r' # rs')))"

definition supersede_authority ::
  "(nat list \<Rightarrow> bool) \<Rightarrow> WorkspaceTemplateID \<Rightarrow> WorkspaceTemplateRevision \<Rightarrow> WorkspaceTemplateRevision
   \<Rightarrow> WorkspaceAuthorityContextRecord list \<Rightarrow> PolicyCandidateAuthority list
   \<Rightarrow> (WorkspaceAuthorityContextRecord list \<times> PolicyCandidateAuthority list) result" where
  "supersede_authority pem i previous revision contexts candidates =
     (if sl_BoundaryFingerprint (rev_Slices previous) = sl_BoundaryFingerprint (rev_Slices revision) then Inr (contexts, candidates)
      else and_then (supersede_contexts pem i revision contexts)
             (\<lambda>records. and_then (SupersedePolicyCandidatesOutsideBoundary pem (Some records) (Some candidates) revision)
                (\<lambda>(records, remaining, _). Inr (records, remaining))))"

text \<open>
  The publication of a Template source under the lock, after the plan has been confirmed. Of the source,
  the check against the stored Template, the name, whether it has a base revision, and the body it
  resolves to are parameters. A Template that does not exist yet is created.
\<close>

definition publish_revision ::
  "(nat list \<Rightarrow> bool) \<Rightarrow> WorkspaceAuthorityCollection \<Rightarrow> WorkspaceTemplate list \<Rightarrow> nat \<Rightarrow> string \<Rightarrow> WorkspaceTemplateRevision \<Rightarrow> bool
   \<Rightarrow> (WorkspaceAuthorityCollection \<times> bool) result" where
  "publish_revision pem current templates k name revision changed =
     (let t = templates ! k; contexts = cloneWorkspaceAuthorityContextRecords (elems (wac_Contexts current));
          candidates = clonePolicyCandidateAuthorities (elems (wac_PendingCandidates current))
      in case AdvanceWorkspaceTemplateMetadata (Some t) name of
           (Some renamed, Inr _) \<Rightarrow>
             (let published = (if changed then renamed\<lparr> tpl_Current := WorkspaceTemplateRevision_Clone revision,
                                 tpl_Retained := tpl_Retained renamed @ [WorkspaceTemplateRevision_Clone revision] \<rparr> else renamed)
              in if \<not> changed \<and> tpl_Name t = name then Inr (current, False)
                 else and_then (if changed then supersede_authority pem (tpl_ID t) (tpl_Current t) revision contexts candidates
                                else Inr (contexts, candidates))
                        (\<lambda>(contexts, candidates).
                           publishCollection pem current True (Some (templates[k := published])) (Some contexts)
                             (wac_Workspaces current) (Some candidates) (wac_DefaultTemplateID current)))
         | (_, Inl e) \<Rightarrow> Inl e
         | (None, Inr _) \<Rightarrow> Inl ''Template metadata change is invalid'')"

definition publish_existing ::
  "(nat list \<Rightarrow> bool) \<Rightarrow> WorkspaceAuthorityCollection \<Rightarrow> nat \<Rightarrow> string \<Rightarrow> (WorkspaceTemplate \<Rightarrow> check) \<Rightarrow> WorkspaceTemplateBody result
   \<Rightarrow> (WorkspaceAuthorityCollection \<times> bool) result" where
  "publish_existing pem current k name sourceCheck body =
     (let templates = cloneWorkspaceTemplates (elems (wac_Templates current)); t = templates ! k
      in guarded
           (first_error
              [sourceCheck t,
               reject (list_ex (\<lambda>j. j \<noteq> k \<and> tpl_Name (templates ! j) = name) [0..<length templates]) ''Workspace Template already exists''])
           (and_then body
              (\<lambda>b. and_then (AdvanceWorkspaceTemplateRevision pem (WorkspaceTemplateRevision_Clone (tpl_Current t)) b)
                 (\<lambda>(revision, changed). publish_revision pem current templates k name revision changed))))"

definition publish_created ::
  "(nat list \<Rightarrow> bool) \<Rightarrow> WorkspaceAuthorityCollection \<Rightarrow> bool \<Rightarrow> WorkspaceTemplateID \<Rightarrow> string \<Rightarrow> WorkspaceTemplateBody result
   \<Rightarrow> (WorkspaceAuthorityCollection \<times> bool) result" where
  "publish_created pem current present i name body =
     and_then body
       (\<lambda>b. and_then (NewWorkspaceTemplateRevision pem i 1 b)
          (\<lambda>revision.
             let created = \<lparr> tpl_SchemaVersion = 2, tpl_ID = i, tpl_Name = name, tpl_Metadata = None, tpl_RetainedMetadata = None,
                             tpl_Current = revision, tpl_Retained = [WorkspaceTemplateRevision_Clone revision] \<rparr>
             in case InitializeWorkspaceTemplateMetadata pem (Some created) of
                  (Some initialized, None) \<Rightarrow>
                    publishCollection pem current present
                      (Some (cloneWorkspaceTemplates (elems (wac_Templates current)) @ [WorkspaceTemplate_Clone initialized]))
                      (wac_Contexts current) (wac_Workspaces current) (wac_PendingCandidates current) (wac_DefaultTemplateID current)
                | (_, Some e) \<Rightarrow> Inl e
                | (None, None) \<Rightarrow> Inl ''Template metadata owner is unavailable''))"

definition ApplyWorkspaceTemplateSourceByReference ::
  "(nat list \<Rightarrow> bool) \<Rightarrow> WorkspaceAuthorityCollection \<Rightarrow> bool \<Rightarrow> WorkspaceTemplateID \<Rightarrow> string \<Rightarrow> bool \<Rightarrow> (WorkspaceTemplate \<Rightarrow> check)
   \<Rightarrow> WorkspaceTemplateBody result \<Rightarrow> (WorkspaceAuthorityCollection \<times> bool) result" where
  "ApplyWorkspaceTemplateSourceByReference pem current present i name based sourceCheck body =
     (case List.find (\<lambda>k. tpl_ID (elems (wac_Templates current) ! k) = i) [0..<length (elems (wac_Templates current))] of
        Some k \<Rightarrow> publish_existing pem current k name sourceCheck body
      | None \<Rightarrow> if based then Inl ''Workspace Template does not exist'' else publish_created pem current present i name body)"

section \<open>Every mutation is a publication\<close>

lemma publishCollection_step:
  "publishCollection pem current present ts cs ws ps d = Inr (n, changed) \<Longrightarrow> authority_step pem False (if present then Some current else None) n"
  unfolding publishCollection_def by (rule authority_step.publish)

text \<open>The mutations of a stored collection: from the collection that was read to the one that is written.\<close>

inductive store_step :: "(nat list \<Rightarrow> bool) \<Rightarrow> WorkspaceAuthorityCollection \<Rightarrow> WorkspaceAuthorityCollection \<Rightarrow> bool" for pem c where
  decide: "applyPolicyCandidate pem activation candidateRead c ref decision = Inr (n, p) \<Longrightarrow> store_step pem c n"
| reset: "ResetPolicyMemoryRuleByReference pem activation c ref = Inr (n, q) \<Longrightarrow> store_step pem c n"
| set_default: "SetDefaultWorkspaceTemplateByReference pem c True ref = Inr (n, changed) \<Longrightarrow> store_step pem c n"
| set_current: "SetCurrentContextByReference pem c True ref = Inr (n, changed) \<Longrightarrow> store_step pem c n"
| delete_template: "DeleteWorkspaceTemplateByReference pem c True ref = Inr (n, changed) \<Longrightarrow> store_step pem c n"
| delete_context: "DeleteContextByReference pem absence readiness c ref = Inr n \<Longrightarrow> store_step pem c n"
| delete_workspace: "DeleteWorkspaceByReference pem retirement c ref = Inr n \<Longrightarrow> store_step pem c n"
| apply_source: "ApplyWorkspaceTemplateSourceByReference pem c True i name based sourceCheck body = Inr (n, changed) \<Longrightarrow> store_step pem c n"

inductive_cases store_stepE: "store_step pem c n"

lemma publish_without_context_step: "publish_without_context pem c k i = Inr (n, changed) \<Longrightarrow> authority_step pem False (Some c) n"
  by (auto simp: publish_without_context_def Let_def split: if_splits dest!: publishCollection_step intro: authority_step.select)

lemma publish_created_step:
  assumes "publish_created pem c True i name body = Inr (n, changed)"
  shows "authority_step pem False (Some c) n"
proof -
  obtain created where "(case InitializeWorkspaceTemplateMetadata pem (Some created) of
      (Some initialized, None) \<Rightarrow>
        publishCollection pem c True (Some (cloneWorkspaceTemplates (elems (wac_Templates c)) @ [WorkspaceTemplate_Clone initialized]))
          (wac_Contexts c) (wac_Workspaces c) (wac_PendingCandidates c) (wac_DefaultTemplateID c)
    | (_, Some e) \<Rightarrow> Inl e
    | (None, None) \<Rightarrow> Inl ''Template metadata owner is unavailable'') = Inr (n, changed)"
    using assms unfolding publish_created_def Let_def and_then_Inr by blast
  then show ?thesis by (auto split: prod.splits option.splits dest!: publishCollection_step)
qed

lemma publish_revision_step:
  assumes "publish_revision pem c ts k name revision different = Inr (n, changed)"
  shows "n = c \<or> authority_step pem False (Some c) n"
proof (cases "AdvanceWorkspaceTemplateMetadata (Some (ts ! k)) name")
  case (Pair renamed outcome)
  show ?thesis
  proof (cases outcome)
    case (Inl e)
    then show ?thesis using assms Pair by (cases renamed) (simp_all add: publish_revision_def)
  next
    case (Inr x)
    then show ?thesis
      using assms Pair
      by (cases renamed) (auto simp: publish_revision_def Let_def and_then_Inr split: if_splits dest!: publishCollection_step)
  qed
qed

lemma publish_existing_step:
  "publish_existing pem c k name sourceCheck body = Inr (n, changed) \<Longrightarrow> n = c \<or> authority_step pem False (Some c) n"
  by (auto simp: publish_existing_def Let_def check_simps dest!: publish_revision_step)

lemma store_step_publishes: "store_step pem c n \<Longrightarrow> n = c \<or> authority_step pem False (Some c) n"
proof (induction rule: store_step.induct)
  case (decide activation candidateRead ref decision n p)
  then show ?case
    by (auto simp: applyPolicyCandidate_def check_simps Let_def split: option.splits if_splits dest!: publishCollection_step)
next
  case (reset activation ref n q)
  then show ?case
    by (auto simp: ResetPolicyMemoryRuleByReference_def check_simps Let_def split: list.splits prod.splits if_splits dest!: publishCollection_step)
next
  case (set_default ref n changed)
  then show ?case
    by (auto simp: SetDefaultWorkspaceTemplateByReference_def check_simps split: if_splits dest!: publishCollection_step)
next
  case (set_current ref n changed)
  then show ?case by (auto simp: SetCurrentContextByReference_def check_simps split: if_splits intro: authority_step.select)
next
  case (delete_template ref n changed)
  then show ?case
    by (auto simp: DeleteWorkspaceTemplateByReference_def check_simps split: if_splits dest!: publishCollection_step)
next
  case (delete_context absence readiness ref n)
  then show ?case
    by (auto simp: DeleteContextByReference_def check_simps split: option.splits if_splits dest!: publish_without_context_step)
next
  case (delete_workspace retirement ref n)
  then show ?case
    by (cases retirement)
      (auto simp: DeleteWorkspaceByReference_def check_simps Let_def split: option.splits if_splits dest!: publishCollection_step)
next
  case (apply_source i name based sourceCheck body n changed)
  then show ?case
    by (auto simp: ApplyWorkspaceTemplateSourceByReference_def split: option.splits if_splits dest!: publish_existing_step publish_created_step)
qed

interpretation authority_store: publishing_store pem "store_step pem"
  for pem by unfold_locales (rule store_step_publishes)

section \<open>Changing one Context\<close>

text \<open>Records with the same Context and the same Home authority.\<close>

definition same_base :: "WorkspaceAuthorityContextRecord \<Rightarrow> WorkspaceAuthorityContextRecord \<Rightarrow> bool" where
  "same_base r s = (acr_Context r = acr_Context s \<and> acr_ContextHome r = acr_ContextHome s \<and> acr_CreationDefaults r = acr_CreationDefaults s)"

lemma context_rows_frame: "list_all2 same_base rs ss \<Longrightarrow> context_rows ts p rs = context_rows ts p ss"
  by (induction rs ss arbitrary: p rule: list_all2_induct) (simp_all add: same_base_def)

lemma home_rows_frame: "list_all2 same_base rs ss \<Longrightarrow> home_rows homes rs = home_rows homes ss"
  by (induction rs ss arbitrary: homes rule: list_all2_induct) (simp_all add: same_base_def cong: option.case_cong)

lemma find_frame:
  assumes "list_all2 same_base rs ss"
  shows "rel_option same_base (List.find (\<lambda>r. context_id r = i) rs) (List.find (\<lambda>r. context_id r = i) ss)"
  using assms by (induction rs ss rule: list_all2_induct) (simp_all add: same_base_def)

lemma stored_frame:
  assumes "list_all2 same_base rs ss"
  shows "rel_option same_base (stored context_id rs i) (stored context_id ss i)"
  unfolding stored_def using find_frame[of "rev rs" "rev ss"] assms by simp

lemma owned_by_frame:
  assumes "list_all2 same_base rs ss"
  shows "owned_by rs w \<longleftrightarrow> owned_by ss w"
  using stored_frame[OF assms, of "wb_ContextID w"]
  by (cases "stored context_id rs (wb_ContextID w)"; cases "stored context_id ss (wb_ContextID w)") (simp_all add: owned_by_def same_base_def)

lemma workspace_rows_frame: "list_all2 same_base rs ss \<Longrightarrow> workspace_rows rs homes roots p ws = None \<longleftrightarrow> workspace_rows ss homes roots p ws = None"
  unfolding workspace_rows_valid by (simp add: owned_by_frame)

lemma admissible_frame: "acr_Context r = acr_Context s \<Longrightarrow> admissible pem r t p = admissible pem s t p"
  by (simp add: admissible_def)

text \<open>A collection with one record replaced and some candidates removed, one generation later.\<close>

definition with_record ::
  "WorkspaceAuthorityCollection \<Rightarrow> nat \<Rightarrow> WorkspaceAuthorityContextRecord \<Rightarrow> (PolicyCandidateAuthority \<Rightarrow> bool) \<Rightarrow> WorkspaceAuthorityCollection" where
  "with_record c i r keep =
     c\<lparr> wac_Generation := wac_Generation c + 1, wac_Contexts := Some ((elems (wac_Contexts c))[i := r]),
        wac_PendingCandidates := Some (filter keep (elems (wac_PendingCandidates c))) \<rparr>"

lemma bind_home_id:
  assumes "\<And>r. r \<in> set rs \<Longrightarrow> context_id r = wb_ContextID w \<Longrightarrow> acr_ContextHome r \<noteq> []"
  shows "bind_home rs w = rs"
proof (cases "context_index rs (wb_ContextID w)")
  case (Some k)
  then have k: "k < length rs" "context_id (rs ! k) = wb_ContextID w" by (auto simp: context_index_def find_Some_iff rev_nth)
  then have "acr_ContextHome (rs ! k) \<noteq> []" using assms by simp
  then show ?thesis using Some by (simp add: bind_home_def)
qed (simp add: bind_home_def)

lemma bindContextHomeAuthority_id:
  assumes "\<And>r w. r \<in> set rs \<Longrightarrow> w \<in> set ws \<Longrightarrow> context_id r = wb_ContextID w \<Longrightarrow> acr_ContextHome r \<noteq> []"
  shows "bindContextHomeAuthority rs ws = rs"
  using assms
proof (induction ws)
  case (Cons w ws)
  have "bind_home rs w = rs" by (rule bind_home_id) (use Cons.prems in auto)
  moreover have "bindContextHomeAuthority rs ws = rs" by (rule Cons.IH) (use Cons.prems in auto)
  ultimately show ?case by (simp add: bindContextHomeAuthority_def)
qed (simp add: bindContextHomeAuthority_def)

lemma sorted_filter_key: "sorted_wrt (<) (map f xs) \<Longrightarrow> sorted_wrt (<) (map f (filter P xs))"
  for f :: "'a \<Rightarrow> string" by (simp add: sorted_wrt_map sorted_wrt_filter)

lemma strict_sort_id: "sorted_wrt (<) (map f xs) \<Longrightarrow> sort_key f xs = xs"
  for f :: "'a \<Rightarrow> string" by (rule sort_key_id) (rule strict_sorted_imp_sorted)

lemma sorted_update:
  "i < length xs \<Longrightarrow> f y = f (xs ! i) \<Longrightarrow> map f (xs[i := y]) = map f xs"
  by (simp add: map_update list_update_same_conv)

lemma with_record_content:
  assumes v: "WorkspaceAuthorityCollection_Validate pem c = None" and e: "WorkspaceAuthorityCollection_Clone c = c"
    and i: "i < length (elems (wac_Contexts c))" and r: "same_base (elems (wac_Contexts c) ! i) r" "explicit_record r"
  shows "collection_of (wac_Generation c + 1) (elems (wac_Templates c)) ((elems (wac_Contexts c))[i := r]) (elems (wac_Workspaces c))
      (filter keep (elems (wac_PendingCandidates c))) (wac_DefaultTemplateID c) (wac_CurrentContextID c)
    = (with_record c i r keep)\<lparr> wac_Revision := [] \<rparr>"
proof -
  note p = collection_parts[OF v]
  let ?cs = "(elems (wac_Contexts c))[i := r]"
  have ids: "map context_id ?cs = map context_id (elems (wac_Contexts c))"
    by (rule sorted_update[OF i]) (use r(1) in \<open>simp add: same_base_def\<close>)
  have "map WorkspaceTemplate_Clone (elems (wac_Templates c)) = elems (wac_Templates c)"
    using p(2) template_Clone_id by (intro map_idI) blast
  then have t: "sort_key tpl_ID (cloneWorkspaceTemplates (elems (wac_Templates c))) = elems (wac_Templates c)"
    using strict_sort_id[OF p(3)] by (simp add: cloneWorkspaceTemplates_def)
  have ex: "\<forall>s \<in> set ?cs. explicit_record s"
    using explicit_collection[OF e] r(2) set_update_subset_insert[of "elems (wac_Contexts c)" i r] by blast
  then have cl: "cloneWorkspaceAuthorityContextRecords ?cs = ?cs" unfolding cloneWorkspaceAuthorityContextRecords_def by (intro map_idI) blast
  have home: "acr_ContextHome s \<noteq> []" if "s \<in> set ?cs" "w \<in> set (elems (wac_Workspaces c))" "context_id s = wb_ContextID w" for s w
  proof -
    obtain k where k: "k < length (elems (wac_Contexts c))" "s = ?cs ! k" using \<open>s \<in> set ?cs\<close> by (auto simp: in_set_conv_nth)
    have b: "same_base (elems (wac_Contexts c) ! k) s" using k r(1) i by (cases "k = i") (simp_all add: same_base_def)
    obtain o' where o': "o' \<in> set (elems (wac_Contexts c))" "context_id o' = wb_ContextID w" "acr_ContextHome o' \<noteq> []"
      using workspace_owner[OF v \<open>w \<in> set (elems (wac_Workspaces c))\<close>] by metis
    have "o' = elems (wac_Contexts c) ! k"
      using sorted_same_id[OF p(5) o'(1) nth_mem[OF k(1)]] o'(2) \<open>context_id s = wb_ContextID w\<close> b by (simp add: same_base_def)
    then show ?thesis using o'(3) b by (simp add: same_base_def)
  qed
  have cs: "sort_key context_id (bindContextHomeAuthority (cloneWorkspaceAuthorityContextRecords ?cs) (elems (wac_Workspaces c))) = ?cs"
    unfolding cl using bindContextHomeAuthority_id[OF home] strict_sort_id[of context_id ?cs] p(5) ids by simp
  have "map PolicyCandidateAuthority_Clone (elems (wac_PendingCandidates c)) = elems (wac_PendingCandidates c)"
    using arg_cong[OF e, of "\<lambda>c. elems (wac_PendingCandidates c)"] by (simp add: WorkspaceAuthorityCollection_Clone_def clonePolicyCandidateAuthorities_def)
  then have "\<forall>q \<in> set (elems (wac_PendingCandidates c)). PolicyCandidateAuthority_Clone q = q"
    using map_eq_conv[of PolicyCandidateAuthority_Clone "elems (wac_PendingCandidates c)" "\<lambda>q. q"] by simp
  then have "clonePolicyCandidateAuthorities (filter keep (elems (wac_PendingCandidates c))) = filter keep (elems (wac_PendingCandidates c))"
    unfolding clonePolicyCandidateAuthorities_def by (intro map_idI) auto
  then have ps: "sort_key pca_ID (clonePolicyCandidateAuthorities (filter keep (elems (wac_PendingCandidates c)))) = filter keep (elems (wac_PendingCandidates c))"
    using strict_sort_id[OF sorted_filter_key[OF p(14)]] by simp
  have ws: "sort_key wb_ID (elems (wac_Workspaces c)) = elems (wac_Workspaces c)" by (rule strict_sort_id[OF p(9)])
  have "wac_SchemaVersion c = 2" "wac_Templates c = Some (elems (wac_Templates c))" "wac_Workspaces c = Some (elems (wac_Workspaces c))"
    using v by (auto simp: WorkspaceAuthorityCollection_Validate_def Let_def first_error_None reject_None)
  then show ?thesis
    unfolding collection_of_def Let_def cloneWorkspaceBindings_id t cs ps ws with_record_def by (cases c) simp
qed

lemma with_record_fields [simp]:
  "wac_Templates (with_record c i r keep) = wac_Templates c" "wac_Workspaces (with_record c i r keep) = wac_Workspaces c"
  "wac_Contexts (with_record c i r keep) = Some ((elems (wac_Contexts c))[i := r])"
  "wac_PendingCandidates (with_record c i r keep) = Some (filter keep (elems (wac_PendingCandidates c)))"
  "wac_Generation (with_record c i r keep) = wac_Generation c + 1" "wac_SchemaVersion (with_record c i r keep) = wac_SchemaVersion c"
  "wac_DefaultTemplateID (with_record c i r keep) = wac_DefaultTemplateID c" "wac_CurrentContextID (with_record c i r keep) = wac_CurrentContextID c"
  "wac_Revision (with_record c i r keep) = wac_Revision c"
  by (simp_all add: with_record_def)

lemma with_record_base:
  assumes "i < length (elems (wac_Contexts c))" "same_base (elems (wac_Contexts c) ! i) r"
  shows "list_all2 same_base (elems (wac_Contexts c)) ((elems (wac_Contexts c))[i := r])"
  using assms by (auto simp: list_all2_conv_all_nth nth_list_update same_base_def)

lemma context_check_fewer:
  assumes "context_check pem c t s = None" "wac_Workspaces d = wac_Workspaces c"
    and "set (elems (wac_PendingCandidates d)) \<subseteq> set (elems (wac_PendingCandidates c))"
  shows "context_check pem d t s = None"
proof -
  have w: "workspaces_of d = workspaces_of c" using assms(2) by (simp add: workspaces_of_def fun_eq_iff)
  show ?thesis
    using assms(1,3) unfolding context_check_def Let_def w first_error_None check_each_None reject_None list_ex_iff first_error.simps(1) by blast
qed

lemma candidate_check_kept:
  assumes "candidate_check pem c p = None" and b: "list_all2 same_base (elems (wac_Contexts c)) (elems (wac_Contexts d))"
    and same: "wac_Templates d = wac_Templates c" "wac_Workspaces d = wac_Workspaces c"
    and fresh: "\<And>s x. s \<in> set (elems (wac_Contexts d)) \<Longrightarrow> x \<in> set (elems (pmv_Rules (acr_PolicyMemory s))) \<Longrightarrow> context_id s = pca_ContextID p \<Longrightarrow> \<not> consumed_by p x"
  shows "candidate_check pem d p = None"
proof -
  obtain r w where r: "stored context_id (elems (wac_Contexts c)) (pca_ContextID p) = Some r"
    and w: "stored wb_ID (elems (wac_Workspaces c)) (pca_ObservingWorkspaceID p) = Some w" "wb_ContextID w = pca_ContextID p"
    and a: "case stored tpl_ID (elems (wac_Templates c)) (cb_TemplateID (acr_Context r)) of
             Some t \<Rightarrow> admissible pem r t p
           | None \<Rightarrow> \<exists>rule memory. NewPolicyMemoryRule (pca_ContextID p) ''allow'' (RuleBody (pca_Effect p) (pca_ID p)) = Inr rule
                \<and> PublishPolicyMemory (pca_ContextID p) (Some [rule]) None = Inr memory"
    using assms(1) unfolding candidate_check_valid by blast
  obtain s where s: "stored context_id (elems (wac_Contexts d)) (pca_ContextID p) = Some s" "same_base r s"
    using stored_frame[OF b, of "pca_ContextID p"] r by (cases "stored context_id (elems (wac_Contexts d)) (pca_ContextID p)") simp_all
  have "\<forall>x \<in> set (elems (pmv_Rules (acr_PolicyMemory s))). \<not> consumed_by p x"
    using fresh stored_Some[OF s(1)] by blast
  moreover have "acr_Context r = acr_Context s" using s(2) by (simp add: same_base_def)
  ultimately show ?thesis
    unfolding candidate_check_valid same using s(1) w a by (auto simp: admissible_frame[of r s] split: option.splits)
qed

text \<open>The checks of the Contexts and of the candidates after one record was replaced.\<close>

lemma with_record_checks:
  assumes v: "WorkspaceAuthorityCollection_Validate pem c = None"
    and t: "stored tpl_ID (elems (wac_Templates c)) (cb_TemplateID (acr_Context r)) = Some t" "context_check pem (with_record c i r keep) t r = None"
    and s: "s \<in> set ((elems (wac_Contexts c))[i := r])"
  shows "(case stored tpl_ID (elems (wac_Templates c)) (cb_TemplateID (acr_Context s)) of
      None \<Rightarrow> None | Some t \<Rightarrow> context_check pem ((with_record c i r keep)\<lparr> wac_Revision := w \<rparr>) t s) = None"
proof (cases "s = r")
  case True
  then show ?thesis using t context_check_fewer[of pem "with_record c i r keep" t r "(with_record c i r keep)\<lparr> wac_Revision := w \<rparr>"] by simp
next
  case False
  then have "s \<in> set (elems (wac_Contexts c))" using s set_update_subset_insert[of "elems (wac_Contexts c)" i r] by blast
  then obtain t' where t': "stored tpl_ID (elems (wac_Templates c)) (cb_TemplateID (acr_Context s)) = Some t'" "context_check pem c t' s = None"
    using collection_parts(12)[OF v] by blast
  have "context_check pem ((with_record c i r keep)\<lparr> wac_Revision := w \<rparr>) t' s = None" by (rule context_check_fewer[OF t'(2)]) auto
  then show ?thesis using t'(1) by simp
qed

lemma with_record_candidates:
  assumes v: "WorkspaceAuthorityCollection_Validate pem c = None" and i: "i < length (elems (wac_Contexts c))"
    and r: "same_base (elems (wac_Contexts c) ! i) r"
    and fresh: "\<And>p x. p \<in> set (elems (wac_PendingCandidates c)) \<Longrightarrow> keep p \<Longrightarrow> pca_ContextID p = context_id r
        \<Longrightarrow> x \<in> set (elems (pmv_Rules (acr_PolicyMemory r))) \<Longrightarrow> \<not> consumed_by p x"
  shows "candidate_rows pem ((with_record c i r keep)\<lparr> wac_Revision := w \<rparr>) [] (filter keep (elems (wac_PendingCandidates c))) = None"
proof -
  let ?cs = "(elems (wac_Contexts c))[i := r]" and ?d = "(with_record c i r keep)\<lparr> wac_Revision := w \<rparr>"
  note p = collection_parts[OF v]
  note b = with_record_base[OF i r]
  have unconsumed: "\<not> consumed_by q x"
    if q: "q \<in> set (elems (wac_PendingCandidates c))" "keep q" and s: "s \<in> set ?cs" "x \<in> set (elems (pmv_Rules (acr_PolicyMemory s)))" "context_id s = pca_ContextID q" for q s x
  proof (cases "s = r")
    case True
    then show ?thesis using fresh[of q x] q s by simp
  next
    case False
    then have "s \<in> set (elems (wac_Contexts c))" using s(1) set_update_subset_insert[of "elems (wac_Contexts c)" i r] by blast
    then have "stored context_id (elems (wac_Contexts c)) (pca_ContextID q) = Some s" using stored_unique[OF p(5)] s(3) by metis
    then show ?thesis using p(13)[OF q(1)] s(2) unfolding candidate_check_valid by auto
  qed
  show ?thesis
    unfolding candidate_rows_valid
  proof (intro conjI)
    show "\<forall>q \<in> set (filter keep (elems (wac_PendingCandidates c))). PolicyCandidateAuthority_Validate q = None \<and> candidate_check pem ?d q = None"
    proof
      fix q assume "q \<in> set (filter keep (elems (wac_PendingCandidates c)))"
      then have q: "q \<in> set (elems (wac_PendingCandidates c))" "keep q" by simp_all
      have "candidate_check pem ?d q = None"
        by (rule candidate_check_kept[of pem c]) (use p(13)[OF q(1)] b unconsumed[OF q] in simp_all)
      then show "PolicyCandidateAuthority_Validate q = None \<and> candidate_check pem ?d q = None" using p(13)[OF q(1)] by simp
    qed
  qed (simp_all add: sorted_filter_key[OF p(14)])
qed

lemma with_record_valid:
  assumes v: "WorkspaceAuthorityCollection_Validate pem c = None" and i: "i < length (elems (wac_Contexts c))"
    and r: "same_base (elems (wac_Contexts c) ! i) r" and g: "wac_Generation c \<noteq> - 1"
    and t: "stored tpl_ID (elems (wac_Templates c)) (cb_TemplateID (acr_Context r)) = Some t" "context_check pem (with_record c i r keep) t r = None"
    and fresh: "\<And>p x. p \<in> set (elems (wac_PendingCandidates c)) \<Longrightarrow> keep p \<Longrightarrow> pca_ContextID p = context_id r
        \<Longrightarrow> x \<in> set (elems (pmv_Rules (acr_PolicyMemory r))) \<Longrightarrow> \<not> consumed_by p x"
    and rev: "workspaceAuthorityCollectionRevision (with_record c i r keep) = Some w"
  shows "WorkspaceAuthorityCollection_Validate pem ((with_record c i r keep)\<lparr> wac_Revision := w \<rparr>) = None"
proof -
  let ?cs = "(elems (wac_Contexts c))[i := r]" and ?d = "(with_record c i r keep)\<lparr> wac_Revision := w \<rparr>"
  note p = collection_parts[OF v]
  note b = with_record_base[OF i r]
  have generation: "wac_Generation c + 1 \<noteq> 0" using g by (metis add_eq_0_iff2 add.commute eq_neg_iff_add_eq_0)
  note u = v[unfolded WorkspaceAuthorityCollection_Validate_def Let_def first_error_None reject_None]
  have checks: "\<forall>s \<in> set ?cs. (case stored tpl_ID (elems (wac_Templates c)) (cb_TemplateID (acr_Context s)) of
      None \<Rightarrow> None | Some t \<Rightarrow> context_check pem ?d t s) = None"
    using with_record_checks[OF v t] by blast
  have candidates: "candidate_rows pem ?d [] (filter keep (elems (wac_PendingCandidates c))) = None"
    by (rule with_record_candidates[OF v i r fresh])
  have contexts: "context_rows (elems (wac_Templates c)) [] ?cs = None" "map acr_Context ?cs = map acr_Context (elems (wac_Contexts c))"
    "home_rows Map.empty ?cs = home_rows Map.empty (elems (wac_Contexts c))"
    using u context_rows_frame[OF b] home_rows_frame[OF b] r i by (simp_all add: map_update list_update_same_conv same_base_def)
  have workspaces: "(case home_rows Map.empty (elems (wac_Contexts c)) of Inl e \<Rightarrow> Some e
      | Inr homes \<Rightarrow> workspace_rows ?cs homes Map.empty [] (elems (wac_Workspaces c))) = None"
    using u workspace_rows_frame[OF b] by (simp split: sum.splits)
  have current: "stored context_id ?cs j = None \<longleftrightarrow> stored context_id (elems (wac_Contexts c)) j = None" for j
    using stored_frame[OF b, of j] by (cases "stored context_id ?cs j"; cases "stored context_id (elems (wac_Contexts c)) j") simp_all
  have selected: "(case wac_CurrentContextID c of None \<Rightarrow> None | Some j \<Rightarrow> first_error [ContextID_Validate j,
      reject (stored context_id ?cs j = None) ''current Context is unavailable'']) = None"
    using u unfolding current by blast
  have revision: "workspaceAuthorityCollectionRevision ?d = Some w" using rev by (simp add: revision_frame)
  have f: "wac_Templates ?d = wac_Templates c" "wac_Contexts ?d = Some ?cs" "wac_Workspaces ?d = wac_Workspaces c"
    "wac_PendingCandidates ?d = Some (filter keep (elems (wac_PendingCandidates c)))" "wac_Generation ?d = wac_Generation c + 1"
    "wac_SchemaVersion ?d = wac_SchemaVersion c" "wac_DefaultTemplateID ?d = wac_DefaultTemplateID c"
    "wac_CurrentContextID ?d = wac_CurrentContextID c" "wac_Revision ?d = w" by simp_all
  show ?thesis
    unfolding WorkspaceAuthorityCollection_Validate_def Let_def first_error_None reject_None revision f elems_simps option.case contexts(2,3)
      check_each_None first_error.simps(1)
    using u generation checks candidates contexts(1) workspaces selected by (intro conjI) (elim conjE, simp)+
qed

lemma with_record_revision:
  assumes v: "WorkspaceAuthorityCollection_Validate pem c = None"
  shows "\<exists>w. workspaceAuthorityCollectionRevision (with_record c i r keep) = Some w"
proof -
  have "workspaceAuthorityCollectionRevision c \<noteq> None"
    using v unfolding WorkspaceAuthorityCollection_Validate_def Let_def first_error_None
    by (cases "workspaceAuthorityCollectionRevision c") auto
  then show ?thesis by (auto simp: workspaceAuthorityCollectionRevision_def collection_content_json_def)
qed

lemma publish_with_record:
  assumes v: "WorkspaceAuthorityCollection_Validate pem c = None" and e: "WorkspaceAuthorityCollection_Clone c = c"
    and i: "i < length (elems (wac_Contexts c))" and r: "same_base (elems (wac_Contexts c) ! i) r" "explicit_record r"
    and g: "wac_Generation c \<noteq> - 1"
    and t: "stored tpl_ID (elems (wac_Templates c)) (cb_TemplateID (acr_Context r)) = Some t" "context_check pem (with_record c i r keep) t r = None"
    and fresh: "\<And>p x. p \<in> set (elems (wac_PendingCandidates c)) \<Longrightarrow> keep p \<Longrightarrow> pca_ContextID p = context_id r
        \<Longrightarrow> x \<in> set (elems (pmv_Rules (acr_PolicyMemory r))) \<Longrightarrow> \<not> consumed_by p x"
    and w: "workspaceAuthorityCollectionRevision (with_record c i r keep) = Some w"
  shows "publishCollection pem c True (wac_Templates c) (Some ((elems (wac_Contexts c))[i := r])) (wac_Workspaces c)
      (Some (filter keep (elems (wac_PendingCandidates c)))) (wac_DefaultTemplateID c)
    = (if wac_Revision c = w then Inr (c, False) else Inr ((with_record c i r keep)\<lparr> wac_Revision := w \<rparr>, True))"
proof -
  let ?cs = "(elems (wac_Contexts c))[i := r]" and ?n = "with_record c i r keep"
  note content = with_record_content[OF v e i r, of keep]
  note b = with_record_base[OF i r(1)]
  have ids: "map context_id ?cs = map context_id (elems (wac_Contexts c))"
    by (rule sorted_update[OF i]) (use r(1) in \<open>simp add: same_base_def\<close>)
  have kept: "(case wac_CurrentContextID c of None \<Rightarrow> None
      | Some j \<Rightarrow> reject (\<not> list_ex (\<lambda>r. context_id r = j) ?cs) ''current Context selection cannot be removed implicitly'') = None"
  proof (cases "wac_CurrentContextID c")
    case (Some j)
    then have "stored context_id (elems (wac_Contexts c)) j \<noteq> None"
      using v unfolding WorkspaceAuthorityCollection_Validate_def Let_def first_error_None by (simp add: first_error_None reject_None)
    then have "j \<in> set (map context_id ?cs)" unfolding ids using stored_None[of context_id "elems (wac_Contexts c)"] by auto
    then show ?thesis using Some by (auto simp: reject_None list_ex_iff)
  qed simp
  have homes: "check_each (home_transition False ?cs) (elems (wac_Contexts c)) = None"
    unfolding check_each_None
  proof
    fix s assume s: "s \<in> set (elems (wac_Contexts c))"
    obtain s' where "stored context_id ?cs (context_id s) = Some s'" "same_base s s'"
      using stored_frame[OF b, of "context_id s"] stored_unique[OF collection_parts(5)[OF v] s]
      by (cases "stored context_id ?cs (context_id s)") simp_all
    then show "home_transition False ?cs s = None" by (simp add: home_transition_def same_base_def reject_None)
  qed
  have some: "wac_Templates c = Some (elems (wac_Templates c))" "wac_Workspaces c = Some (elems (wac_Workspaces c))"
    using v by (auto simp: WorkspaceAuthorityCollection_Validate_def Let_def first_error_None reject_None)
  have rev: "workspaceAuthorityCollectionRevision (?n\<lparr> wac_Revision := [] \<rparr>) = Some w" using w by (simp add: revision_frame)
  have valid: "WorkspaceAuthorityCollection_Validate pem (?n\<lparr> wac_Revision := w \<rparr>) = None"
    by (rule with_record_valid[OF v i r(1) g t fresh w])
  have start: "publishCollection pem c True (wac_Templates c) (Some ?cs) (wac_Workspaces c) (Some (filter keep (elems (wac_PendingCandidates c))))
      (wac_DefaultTemplateID c)
    = publishWorkspaceAuthorityCollection pem (wac_Templates c) (Some ?cs) (wac_Workspaces c) (Some (filter keep (elems (wac_PendingCandidates c))))
        (wac_DefaultTemplateID c) (wac_CurrentContextID c) (Some c) False"
    unfolding publishCollection_def PublishWorkspaceAuthorityCollection_def Let_def if_True Option.bind.bind_lunit elems_simps kept guarded_def
      option.case ..
  have checks: "first_error [WorkspaceAuthorityCollection_Validate pem c, check_each (home_transition False ?cs) (elems (wac_Contexts c))] = None"
    using v homes by (simp add: first_error_None)
  have explicit: "wac_Templates c \<noteq> None" "wac_Workspaces c \<noteq> None" using some by (metis option.distinct(1))+
  show ?thesis
    unfolding start publishWorkspaceAuthorityCollection_def Let_def option.case elems_simps content rev
    using explicit checks valid e by (simp add: guarded_def reject_def checked_def)
qed

text \<open>The record of a Context with a new Policy Memory, which is active at once.\<close>

definition with_memory :: "WorkspaceAuthorityContextRecord \<Rightarrow> PolicyMemoryRevision \<Rightarrow> WorkspaceAuthorityContextRecord" where
  "with_memory r m = r\<lparr> acr_PolicyMemory := m, acr_ActivePolicyMemory := Some m,
     acr_ActivePolicyMemoryRef := Some \<lparr> pmar_ContextID = context_id r, pmar_Revision = pmv_Revision m \<rparr> \<rparr>"

lemma with_memory_base: "same_base r (with_memory r m)" by (simp add: same_base_def with_memory_def)

lemma with_memory_explicit: "explicit_record r \<Longrightarrow> PolicyMemoryRevision_Clone m = m \<Longrightarrow> explicit_record (with_memory r m)"
  by (cases r) (simp add: with_memory_def WorkspaceAuthorityContextRecord_Clone_def)

lemma with_memory_check:
  assumes c: "context_check pem c t r = None" and m: "PolicyMemoryRevision_ValidateFor pem m (acr_Context r) (tpl_Current t) = None"
    and s: "\<And>s x. s \<in> set (elems (acr_SupersededAllows r)) \<Longrightarrow> x \<in> set (elems (pmv_Rules m)) \<Longrightarrow> pmr_ID x \<noteq> pmr_ID (pas_Rule s)"
    and d: "wac_Workspaces d = wac_Workspaces c" "set (elems (wac_PendingCandidates d)) \<subseteq> set (elems (wac_PendingCandidates c))"
  shows "context_check pem d t (with_memory r m) = None"
proof -
  let ?r = "with_memory r m" and ?ws = "workspaces_of c (context_id r)"
  have f: "acr_Context ?r = acr_Context r" "acr_CreationDefaults ?r = acr_CreationDefaults r" "acr_SupersededAllows ?r = acr_SupersededAllows r"
    "acr_SupersededCandidates ?r = acr_SupersededCandidates r" "acr_PolicyMemory ?r = m" by (simp_all add: with_memory_def)
  have w: "workspaces_of d (context_id r) = ?ws" using d(1) by (simp add: workspaces_of_def)
  let ?s = "context_snapshot t r ?ws" and ?n = "context_snapshot t ?r ?ws"
  have v: "ContextAuthoritySnapshot_Validate pem ?s = None" by (rule context_check_parts(1)[OF c])
  have n: "snapshot_workspaces ?n = snapshot_workspaces ?s" "cas_Context ?n = cas_Context ?s" "cas_Template ?n = cas_Template ?s"
    "cas_ContextHome ?n = cas_ContextHome ?s" "cas_ContextCreationDefaults ?n = cas_ContextCreationDefaults ?s"
    "cas_ActiveTemplatePolicy ?n = cas_ActiveTemplatePolicy ?s" "cas_Workspace ?n = cas_Workspace ?s"
    "cas_PolicyMemory ?n = m" "cas_ActivePolicyMemory ?n = Some m"
    "cas_ActivePolicyMemoryRef ?n = Some \<lparr> pmar_ContextID = context_id r, pmar_Revision = pmv_Revision m \<rparr>"
    by (simp_all add: context_snapshot_def with_memory_def snapshot_workspaces_def)
  have rows: "snapshot_rows pem ?n [] Map.empty (snapshot_workspaces ?s) = snapshot_rows pem ?s [] Map.empty (snapshot_workspaces ?s)"
    by (rule snapshot_rows_frame) (simp_all add: n)
  have m': "PolicyMemoryRevision_ValidateFor pem m (cas_Context ?s) (tpl_Current (cas_Template ?s)) = None"
    using m by (simp add: context_snapshot_def)
  have receipt: "PolicyMemoryActivationReceipt_ValidateFor \<lparr> pmar_ContextID = context_id r, pmar_Revision = pmv_Revision m \<rparr> (cas_Context ?s) m = None"
    using m unfolding validate_for PolicyMemoryActivationReceipt_ValidateFor_def first_error_None reject_None first_error.simps(1)
    by (simp add: context_snapshot_def)
  note u = v[unfolded ContextAuthoritySnapshot_Validate_def Let_def first_error_None reject_None]
  have none: "cas_Workspace ?s = None" by (simp add: context_snapshot_def)
  have snapshot: "ContextAuthoritySnapshot_Validate pem ?n = None"
    unfolding ContextAuthoritySnapshot_Validate_def Let_def first_error_None reject_None n rows prod.case option.case none
    using u m' receipt by (intro conjI) (elim conjE, (assumption | simp))+
  note q = c[unfolded context_check_def Let_def first_error_None check_each_None reject_None list_ex_iff first_error.simps(1)]
  show ?thesis
    unfolding context_check_def Let_def f w first_error_None check_each_None reject_None list_ex_iff first_error.simps(1)
    using q d(2) s snapshot by (intro conjI) (elim conjE, blast)+
qed

end
