(* ===== verification/Authority_Decisions.thy ===== *)
theory Authority_Decisions
  imports Authority_Store
begin

text \<open>
  What the decisions on policy candidates and the resets of remembered rules do to the stored collection
  (\<open>applyPolicyCandidate\<close> and \<open>ResetPolicyMemoryRuleByReference\<close> of
  \<open>internal/infra/workspaceauthoritystore/mutator.go\<close>): each changes the Policy Memory of one Context by one rule and
  nothing else, and the report it returns passes its own check. The records a mutation should give are written
  down as specifications; the digests of the new content stay symbolic.
\<close>

section \<open>Remembering in one Context\<close>

text \<open>The collection in which the Context at a position has another Policy Memory, active at once, and some candidates are
  consumed: one generation later, under its own revision.\<close>

definition remember ::
  "WorkspaceAuthorityCollection \<Rightarrow> nat \<Rightarrow> PolicyMemoryRevision \<Rightarrow> (PolicyCandidateAuthority \<Rightarrow> bool) \<Rightarrow> WorkspaceAuthorityCollection" where
  "remember c i m keep =
     (let n = with_record c i (with_memory (elems (wac_Contexts c) ! i) m) keep
      in n\<lparr> wac_Revision := the (workspaceAuthorityCollectionRevision n) \<rparr>)"

lemma memory_change:
  fixes c i m keep
  defines "r \<equiv> elems (wac_Contexts c) ! i" and "n \<equiv> remember c i m keep"
  assumes v: "WorkspaceAuthorityCollection_Validate pem c = None" and e: "WorkspaceAuthorityCollection_Clone c = c"
    and i: "i < length (elems (wac_Contexts c))" and g: "wac_Generation c \<noteq> - 1"
    and m: "PolicyMemoryRevision_ValidateFor pem m (acr_Context r) (tpl_Current (context_template c r)) = None" "PolicyMemoryRevision_Clone m = m"
    and s: "\<And>s x. s \<in> set (elems (acr_SupersededAllows r)) \<Longrightarrow> x \<in> set (elems (pmv_Rules m)) \<Longrightarrow> pmr_ID x \<noteq> pmr_ID (pas_Rule s)"
    and fresh: "\<And>p x. p \<in> set (elems (wac_PendingCandidates c)) \<Longrightarrow> keep p \<Longrightarrow> pca_ContextID p = context_id r
        \<Longrightarrow> x \<in> set (elems (pmv_Rules m)) \<Longrightarrow> \<not> consumed_by p x"
  shows "publishCollection pem c True (wac_Templates c) (Some ((elems (wac_Contexts c))[i := with_memory r m])) (wac_Workspaces c)
      (Some (filter keep (elems (wac_PendingCandidates c)))) (wac_DefaultTemplateID c)
    = (if wac_Revision n = wac_Revision c then Inr (c, False) else Inr (n, True))"
    "WorkspaceAuthorityCollection_Validate pem n = None" "WorkspaceAuthorityCollection_Clone n = n"
proof -
  let ?r = "with_memory r m"
  have r: "r \<in> set (elems (wac_Contexts c))" using i by (simp add: r_def)
  have x: "explicit_record r" using explicit_collection[OF e] r by blast
  have base: "same_base (elems (wac_Contexts c) ! i) ?r" "explicit_record ?r"
    using with_memory_base[of r m] with_memory_explicit[OF x m(2)] by (simp_all add: r_def)
  have c: "acr_Context ?r = acr_Context r" "acr_PolicyMemory ?r = m" by (simp_all add: with_memory_def)
  have t: "stored tpl_ID (elems (wac_Templates c)) (cb_TemplateID (acr_Context ?r)) = Some (context_template c r)"
    using context_template_stored[OF v r] by (simp add: c)
  have check: "context_check pem c (context_template c r) r = None" using collection_parts(12)[OF v r] context_template_stored[OF v r] by auto
  have after: "context_check pem (with_record c i ?r keep) (context_template c r) ?r = None"
    by (rule with_memory_check[OF check m(1) s]) auto
  have fresh': "p \<in> set (elems (wac_PendingCandidates c)) \<Longrightarrow> keep p \<Longrightarrow> pca_ContextID p = context_id ?r
      \<Longrightarrow> x \<in> set (elems (pmv_Rules (acr_PolicyMemory ?r))) \<Longrightarrow> \<not> consumed_by p x" for p x
    using fresh[of p x] by (simp add: c)
  obtain w where w: "workspaceAuthorityCollectionRevision (with_record c i ?r keep) = Some w" using with_record_revision[OF v] by blast
  then have n: "n = (with_record c i ?r keep)\<lparr> wac_Revision := w \<rparr>" by (simp add: n_def remember_def r_def)
  then have revision: "wac_Revision n = w" by simp
  show "publishCollection pem c True (wac_Templates c) (Some ((elems (wac_Contexts c))[i := ?r])) (wac_Workspaces c)
      (Some (filter keep (elems (wac_PendingCandidates c)))) (wac_DefaultTemplateID c)
    = (if wac_Revision n = wac_Revision c then Inr (c, False) else Inr (n, True))"
    using publish_with_record[OF v e i base g t after fresh' w] unfolding n[symmetric] revision by (simp only: eq_commute[of w])
  show valid: "WorkspaceAuthorityCollection_Validate pem n = None"
    unfolding n by (rule with_record_valid[OF v i base(1) g t after fresh' w])
  have "n = (collection_of (wac_Generation c + 1) (elems (wac_Templates c)) ((elems (wac_Contexts c))[i := ?r]) (elems (wac_Workspaces c))
      (filter keep (elems (wac_PendingCandidates c))) (wac_DefaultTemplateID c) (wac_CurrentContextID c))\<lparr> wac_Revision := w \<rparr>"
    unfolding with_record_content[OF v e i base] n by simp
  then show "WorkspaceAuthorityCollection_Clone n = n" using collection_of_explicit valid by metis
qed

lemma remember_fields [simp]:
  "wac_Templates (remember c i m keep) = wac_Templates c" "wac_Workspaces (remember c i m keep) = wac_Workspaces c"
  "wac_Contexts (remember c i m keep) = Some ((elems (wac_Contexts c))[i := with_memory (elems (wac_Contexts c) ! i) m])"
  "wac_PendingCandidates (remember c i m keep) = Some (filter keep (elems (wac_PendingCandidates c)))"
  "wac_Generation (remember c i m keep) = wac_Generation c + 1"
  by (simp_all add: remember_def Let_def)

lemma with_memory_fields [simp]:
  "acr_Context (with_memory r m) = acr_Context r" "acr_PolicyMemory (with_memory r m) = m" "acr_ActivePolicyMemory (with_memory r m) = Some m"
  "acr_ActivePolicyMemoryRef (with_memory r m) = Some \<lparr> pmar_ContextID = context_id r, pmar_Revision = pmv_Revision m \<rparr>"
  by (simp_all add: with_memory_def)

lemma activated:
  "explicit_record r \<Longrightarrow> PolicyMemoryRevision_Clone m = m \<Longrightarrow> preparePolicyMemoryActivation True (r\<lparr> acr_PolicyMemory := m \<rparr>) = Inr (with_memory r m)"
  by (simp add: preparePolicyMemoryActivation_def with_memory_def)

lemma cloned_contexts:
  "WorkspaceAuthorityCollection_Clone c = c \<Longrightarrow> cloneWorkspaceAuthorityContextRecords (elems (wac_Contexts c)) = elems (wac_Contexts c)"
  using explicit_collection unfolding cloneWorkspaceAuthorityContextRecords_def by (intro map_idI) blast

lemma find_sorted:
  fixes key :: "'a \<Rightarrow> string"
  assumes "sorted_wrt (<) (map key xs)" "x \<in> set xs"
  shows "List.find (\<lambda>y. key y = key x) xs = Some x"
  using assms
proof (induction xs)
  case (Cons y ys)
  then show ?case by (cases "y = x") auto
qed simp

lemma snapshot_after:
  assumes v: "WorkspaceAuthorityCollection_Validate pem n = None" and e: "WorkspaceAuthorityCollection_Clone n = n"
    and r: "r \<in> set (elems (wac_Contexts n))"
  shows "snapshotForContext pem n (context_id r) = Inr (context_view n r)" "ContextAuthoritySnapshot_Validate pem (context_view n r) = None"
proof -
  have x: "explicit_record r" using explicit_collection[OF e] r by blast
  have "List.find (\<lambda>s. cb_ID (cas_Context s) = context_id r) (map (context_view n) rs)
      = map_option (context_view n) (List.find (\<lambda>s. context_id s = context_id r) rs)" for rs by (induction rs) simp_all
  then show "snapshotForContext pem n (context_id r) = Inr (context_view n r)"
    using find_sorted[OF collection_parts(5)[OF v] r] context_view_valid(2)[OF v r x]
    by (simp add: snapshotForContext_def ContextSnapshots_exact[OF v e] and_then_def)
  show "ContextAuthoritySnapshot_Validate pem (context_view n r) = None" by (rule context_view_valid(1)[OF v r x])
qed

text \<open>What is known of the memory that a collection holds.\<close>

lemma held_memory:
  assumes v: "WorkspaceAuthorityCollection_Validate pem c = None" and e: "WorkspaceAuthorityCollection_Clone c = c"
    and r: "r \<in> set (elems (wac_Contexts c))"
  shows "PolicyMemoryRevision_ValidateFor pem (acr_PolicyMemory r) (acr_Context r) (tpl_Current (context_template c r)) = None"
    "record_ok r" "context_check pem c (context_template c r) r = None"
proof -
  show k: "context_check pem c (context_template c r) r = None" using collection_parts(12)[OF v r] context_template_stored[OF v r] by auto
  show m: "PolicyMemoryRevision_ValidateFor pem (acr_PolicyMemory r) (acr_Context r) (tpl_Current (context_template c r)) = None"
    using snapshot_memory[OF context_check_parts(1)[OF k]] by (simp add: context_snapshot_def)
  have "explicit_record r" using explicit_collection[OF e] r by blast
  from arg_cong[OF this, of acr_PolicyMemory] have "PolicyMemoryRevision_Clone (acr_PolicyMemory r) = acr_PolicyMemory r"
    by (simp add: WorkspaceAuthorityContextRecord_Clone_def)
  then show "record_ok r" using m by (simp add: validate_for record_ok_def)
qed

text \<open>A changed memory is the active one of the snapshot of its Context.\<close>

lemma publication_valid:
  assumes v: "WorkspaceAuthorityCollection_Validate pem n = None" and e: "WorkspaceAuthorityCollection_Clone n = n"
    and r: "with_memory r m \<in> set (elems (wac_Contexts n))" and p: "pmv_Revision previous \<noteq> pmv_Revision m" "PolicyMemoryRevision_Validate previous = None"
  shows "PolicyMemoryPublication_Validate pem
    \<lparr> pmp_Snapshot = context_view n (with_memory r m), pmp_PreviousRevision = pmv_Revision previous, pmp_Changed = True \<rparr> = None"
proof -
  have "SemanticDigest_Validate (pmv_Revision previous) = None" using p(2) digest_valid by (simp add: memory_valid)
  then show ?thesis
    using snapshot_after(2)[OF v e r] p(1) by (simp add: PolicyMemoryPublication_Validate_def first_error_None reject_None)
qed

section \<open>A reset forgets one rule\<close>

lemma always_refused: "\<exists>e. and_then x (\<lambda>s. guarded (first_error [f s, reject True m]) (g s)) = Inl e"
  by (cases x) (auto simp: and_then_def guarded_def reject_def first_error.simps split: option.splits)

lemma filter_nth:
  fixes key :: "'a \<Rightarrow> string"
  assumes "sorted_wrt (<) (map key xs)" "j < length xs"
  shows "take j xs @ drop (j + 1) xs = filter (\<lambda>x. key x \<noteq> key (xs ! j)) xs"
proof -
  have x: "xs = take j xs @ xs ! j # drop (Suc j) xs" by (rule id_take_nth_drop[OF assms(2)])
  have "distinct (map key (take j xs @ xs ! j # drop (Suc j) xs))" using assms(1) unfolding x[symmetric] strict_sorted_iff by blast
  then have "filter (\<lambda>x. key x \<noteq> key (xs ! j)) (take j xs) = take j xs" "filter (\<lambda>x. key x \<noteq> key (xs ! j)) (drop (Suc j) xs) = drop (Suc j) xs"
    unfolding filter_id_conv by (auto simp: image_iff)
  then have "filter (\<lambda>x. key x \<noteq> key (xs ! j)) (take j xs @ xs ! j # drop (Suc j) xs) = take j xs @ drop (j + 1) xs" by simp
  then show ?thesis unfolding x[symmetric] by simp
qed

lemma rule_positions_one:
  assumes "rule_positions cs ref = [(i, j)]"
  shows "i < length cs" "j < length (remembered (cs ! i))" "pmr_ID (remembered (cs ! i) ! j) = ref"
proof -
  have "(i, j) \<in> set (rule_positions cs ref)" by (simp add: assms)
  then show "i < length cs" "j < length (remembered (cs ! i))" "pmr_ID (remembered (cs ! i) ! j) = ref"
    by (auto simp: rule_positions_def)
qed

lemma and_then_pair: "and_then (Inr (a, b)) (\<lambda>(x, y). f x y) = f a b" by (simp add: and_then_def)

text \<open>The next memory of a Context with given rules, and the one without a rule.\<close>

definition next_memory :: "WorkspaceAuthorityContextRecord \<Rightarrow> PolicyMemoryRule list \<Rightarrow> PolicyMemoryRevision" where
  "next_memory r rs = memory_of (context_id r) (pmv_Generation (acr_PolicyMemory r) + 1) (sorted_rules rs)"

lemma next_memory_fields [simp]:
  "pmv_ContextID (next_memory r rs) = context_id r" "pmv_Generation (next_memory r rs) = pmv_Generation (acr_PolicyMemory r) + 1"
  "pmv_Rules (next_memory r rs) = Some (sorted_rules rs)" "pmv_Revision (next_memory r rs) = semanticDigest (rules_json (Some (sorted_rules rs)))"
  by (simp_all add: next_memory_def memory_of_def)

lemma next_memory_published:
  assumes ok: "record_ok r" and g: "pmv_Generation (acr_PolicyMemory r) \<noteq> - 1" and rs: "publishable (context_id r) rs"
  shows "PublishPolicyMemory (context_id r) (Some rs) (Some (acr_PolicyMemory r))
    = (if pmv_Revision (next_memory r rs) = pmv_Revision (acr_PolicyMemory r) then Inr (acr_PolicyMemory r, False) else Inr (next_memory r rs, True))"
    "PolicyMemoryRevision_Validate (next_memory r rs) = None" "PolicyMemoryRevision_Clone (next_memory r rs) = next_memory r rs"
proof -
  have c: "pmv_ContextID (acr_PolicyMemory r) = context_id r" "PolicyMemoryRevision_Validate (acr_PolicyMemory r) = None"
    "PolicyMemoryRevision_Clone (acr_PolicyMemory r) = acr_PolicyMemory r" using ok by (simp_all add: record_ok_def)
  have i: "ContextID_Validate (context_id r) = None" using c by (auto simp: memory_valid)
  show m: "PolicyMemoryRevision_Validate (next_memory r rs) = None"
    unfolding next_memory_def memory_of_valid using rs i g by (simp add: generation_wraps)
  show "PolicyMemoryRevision_Clone (next_memory r rs) = next_memory r rs" by (rule explicit_Clone[of _ rs]) simp
  show "PublishPolicyMemory (context_id r) (Some rs) (Some (acr_PolicyMemory r))
    = (if pmv_Revision (next_memory r rs) = pmv_Revision (acr_PolicyMemory r) then Inr (acr_PolicyMemory r, False) else Inr (next_memory r rs, True))"
    using publish_next[OF c(2), of rs] m unfolding c(1,3) next_memory_def[symmetric] next_memory_fields checked_def by auto
qed

lemma next_memory_transition:
  assumes "record_ok r" "pmv_Generation (acr_PolicyMemory r) \<noteq> - 1" "publishable (context_id r) rs"
    and "pmv_Revision (next_memory r rs) \<noteq> pmv_Revision (acr_PolicyMemory r)"
  shows "exact_transition (acr_PolicyMemory r) rs (next_memory r rs) e = None"
proof -
  have "PublishPolicyMemory (context_id r) (Some rs) (Some (acr_PolicyMemory r)) = Inr (next_memory r rs, True)"
    using next_memory_published(1)[OF assms(1-3)] assms(4) by (simp only: if_False)
  moreover have "pmv_ContextID (acr_PolicyMemory r) = context_id r" using assms(1) by (simp add: record_ok_def)
  ultimately show ?thesis by (simp add: exact_transition_def reject_None)
qed

definition forgotten :: "WorkspaceAuthorityContextRecord \<Rightarrow> string \<Rightarrow> PolicyMemoryRevision" where
  "forgotten r ref = next_memory r (filter (\<lambda>x. pmr_ID x \<noteq> ref) (remembered r))"

lemma forgotten_rules: "record_ok r \<Longrightarrow> pmv_Rules (forgotten r ref) = Some (filter (\<lambda>x. pmr_ID x \<noteq> ref) (remembered r))"
  by (simp add: forgotten_def filtered_memory)

lemma forgotten_published:
  assumes "record_ok r" "pmv_Generation (acr_PolicyMemory r) \<noteq> - 1"
  shows "PublishPolicyMemory (context_id r) (Some (filter (\<lambda>x. pmr_ID x \<noteq> ref) (remembered r))) (Some (acr_PolicyMemory r))
    = (if pmv_Revision (forgotten r ref) = pmv_Revision (acr_PolicyMemory r) then Inr (acr_PolicyMemory r, False) else Inr (forgotten r ref, True))"
    "PolicyMemoryRevision_Validate (forgotten r ref) = None" "PolicyMemoryRevision_Clone (forgotten r ref) = forgotten r ref"
  unfolding forgotten_def using next_memory_published[OF assms filtered_memory(2)[OF assms(1)]] by blast+

definition reset_publication :: "WorkspaceAuthorityCollection \<Rightarrow> WorkspaceAuthorityContextRecord \<Rightarrow> string \<Rightarrow> PolicyRuleResetPublication" where
  "reset_publication n r ref =
     \<lparr> prr_RuleID = ref, prr_RemovedFrom = acr_PolicyMemory r,
       prr_Memory = \<lparr> pmp_Snapshot = context_view n (with_memory r (forgotten r ref)), pmp_PreviousRevision = pmv_Revision (acr_PolicyMemory r),
                     pmp_Changed = True \<rparr> \<rparr>"

lemma reset_publication_valid:
  assumes v: "WorkspaceAuthorityCollection_Validate pem n = None" and e: "WorkspaceAuthorityCollection_Clone n = n"
    and r: "with_memory r (forgotten r ref) \<in> set (elems (wac_Contexts n))" and ok: "record_ok r" and g: "pmv_Generation (acr_PolicyMemory r) \<noteq> - 1"
    and x: "x \<in> set (remembered r)" "pmr_ID x = ref" and d: "pmv_Revision (forgotten r ref) \<noteq> pmv_Revision (acr_PolicyMemory r)"
    and before: "PolicyMemoryRevision_ValidateFor pem (acr_PolicyMemory r) (acr_Context r)
        (tpl_Current (context_template n (with_memory r (forgotten r ref)))) = None"
  shows "PolicyRuleResetPublication_ValidateFor pem (reset_publication n r ref) ref = None"
proof -
  let ?m = "forgotten r ref"
  have c: "pmv_ContextID (acr_PolicyMemory r) = context_id r" "PolicyMemoryRevision_Validate (acr_PolicyMemory r) = None" using ok by (simp_all add: record_ok_def)
  have id: "ValidatePolicyMemoryRuleID ref = None"
    using record_rules(3)[OF ok] x rule_id_valid by (auto simp: stored_rule_def rule_valid)
  have pub: "PolicyMemoryPublication_Validate pem (prr_Memory (reset_publication n r ref)) = None"
    using publication_valid[OF v e r d[symmetric] c(2)] by (simp add: reset_publication_def)
  have m: "pmv_Generation ?m = pmv_Generation (acr_PolicyMemory r) + 1" by (simp add: forgotten_def)
  have "map PolicyMemoryRule_Clone (filter (\<lambda>x. pmr_ID x \<noteq> ref) (remembered r)) = filter (\<lambda>x. pmr_ID x \<noteq> ref) (remembered r)"
    using record_rules(3)[OF ok] by (intro map_idI) (auto simp: stored_rule_def)
  then have t: "exact_transition (acr_PolicyMemory r) (map PolicyMemoryRule_Clone (filter (\<lambda>x. pmr_ID x \<noteq> ref) (remembered r))) ?m e = None" for e
    using next_memory_transition[OF ok g filtered_memory(2)[OF ok]] d by (simp add: forgotten_def)
  have ex: "list_ex (\<lambda>y. pmr_ID y = ref) (remembered r)" using x by (auto simp: list_ex_iff)
  show ?thesis
    unfolding PolicyRuleResetPublication_ValidateFor_def Let_def first_error_None reject_None first_error.simps(1)
    using id pub before t ex by (intro conjI) (simp_all add: reset_publication_def m forgotten_rules[OF ok] list_ex_iff)
qed

text \<open>What a reset publishes, and its course.\<close>

lemma forgotten_change:
  fixes c i ref
  defines "r \<equiv> elems (wac_Contexts c) ! i"
  defines "n \<equiv> remember c i (forgotten r ref) (\<lambda>_. True)"
  assumes v: "WorkspaceAuthorityCollection_Validate pem c = None" and e: "WorkspaceAuthorityCollection_Clone c = c"
    and i: "i < length (elems (wac_Contexts c))" and g: "wac_Generation c \<noteq> - 1" and h: "pmv_Generation (acr_PolicyMemory r) \<noteq> - 1"
  shows "publishCollection pem c True (wac_Templates c) (Some ((elems (wac_Contexts c))[i := with_memory r (forgotten r ref)])) (wac_Workspaces c)
      (wac_PendingCandidates c) (wac_DefaultTemplateID c) = (if wac_Revision n = wac_Revision c then Inr (c, False) else Inr (n, True))"
    "WorkspaceAuthorityCollection_Validate pem n = None" "WorkspaceAuthorityCollection_Clone n = n"
proof -
  let ?m = "forgotten r ref"
  have r: "r \<in> set (elems (wac_Contexts c))" using i by (simp add: r_def)
  note held = held_memory[OF v e r]
  note f = forgotten_published[OF held(2) h, of ref]
  have rows: "\<forall>y \<in> set (elems (pmv_Rules ?m)). y \<in> set (remembered r)" by (simp add: forgotten_rules[OF held(2)])
  have owned: "pmv_ContextID ?m = context_id r" by (simp add: forgotten_def)
  have m: "PolicyMemoryRevision_ValidateFor pem ?m (acr_Context r) (tpl_Current (context_template c r)) = None"
    using held(1) f(2) rows owned unfolding validate_for by (elim conjE, intro conjI) (assumption | blast)+
  have fresh: "\<not> consumed_by q y" if "q \<in> set (elems (wac_PendingCandidates c))" "pca_ContextID q = context_id r" "y \<in> set (elems (pmv_Rules ?m))" for q y
  proof -
    have "stored context_id (elems (wac_Contexts c)) (pca_ContextID q) = Some r"
      using stored_unique[OF collection_parts(5)[OF v] r] that(2) by simp
    then show ?thesis using conjunct2[OF collection_parts(13)[OF v that(1)]] rows that(3) unfolding candidate_check_valid by auto
  qed
  have superseded: "pmr_ID y \<noteq> pmr_ID (pas_Rule s)" if "s \<in> set (elems (acr_SupersededAllows r))" "y \<in> set (elems (pmv_Rules ?m))" for s y
    using context_check_parts(3)[OF held(3) that(1)] rows that(2) by blast
  note change = memory_change[OF v e i g, of ?m "\<lambda>_. True", folded r_def, OF m f(3) superseded fresh, folded n_def]
  have pending: "wac_PendingCandidates c = Some (filter (\<lambda>_. True) (elems (wac_PendingCandidates c)))"
    using v unfolding WorkspaceAuthorityCollection_Validate_def Let_def first_error_None reject_None by (cases "wac_PendingCandidates c") simp_all
  show "publishCollection pem c True (wac_Templates c) (Some ((elems (wac_Contexts c))[i := with_memory r ?m])) (wac_Workspaces c)
      (wac_PendingCandidates c) (wac_DefaultTemplateID c) = (if wac_Revision n = wac_Revision c then Inr (c, False) else Inr (n, True))"
    using change(1)[folded pending] .
  show "WorkspaceAuthorityCollection_Validate pem n = None" by (rule change(2))
  show "WorkspaceAuthorityCollection_Clone n = n" by (rule change(3))
qed

lemma reset_steps:
  assumes v: "WorkspaceAuthorityCollection_Validate pem c = None" and e: "WorkspaceAuthorityCollection_Clone c = c"
    and p: "rule_positions (elems (wac_Contexts c)) ref = [(i, j)]" and r: "r = elems (wac_Contexts c) ! i"
    and h: "pmv_Generation (acr_PolicyMemory r) \<noteq> - 1"
  shows "ResetPolicyMemoryRuleByReference pem True c ref =
     (if pmv_Revision (forgotten r ref) = pmv_Revision (acr_PolicyMemory r) then Inl ''Policy Memory reset did not change authority''
      else and_then
             (publishCollection pem c True (wac_Templates c) (Some ((elems (wac_Contexts c))[i := with_memory r (forgotten r ref)]))
                (wac_Workspaces c) (wac_PendingCandidates c) (wac_DefaultTemplateID c))
             (\<lambda>(n, collectionChanged).
                and_then (snapshotForContext pem n (context_id r))
                  (\<lambda>s. let p = \<lparr> prr_RuleID = ref, prr_RemovedFrom = acr_PolicyMemory r,
                         prr_Memory = \<lparr> pmp_Snapshot = s, pmp_PreviousRevision = pmv_Revision (acr_PolicyMemory r), pmp_Changed = True \<rparr> \<rparr>
                       in guarded (first_error [PolicyRuleResetPublication_ValidateFor pem p ref,
                            reject (\<not> collectionChanged) ''Policy reset did not change final authority'']) (Inr (n, p)))))"
proof -
  note i = rule_positions_one[OF p, folded r]
  have r': "r \<in> set (elems (wac_Contexts c))" using i(1) by (simp add: r)
  note held = held_memory[OF v e r']
  note f = forgotten_published[OF held(2) h, of ref]
  have x: "remembered r ! j \<in> set (remembered r)" using i(2) by simp
  have id: "ValidatePolicyMemoryRuleID ref = None"
    using record_rules(3)[OF held(2)] x i(3) by (auto simp: stored_rule_def rule_valid dest!: bspec)
  have owner: "PolicyMemoryRevision_Clone (acr_PolicyMemory r) = acr_PolicyMemory r" "pmv_ContextID (acr_PolicyMemory r) = context_id r"
    using held(2) by (simp_all add: record_ok_def)
  have rest: "take j (remembered r) @ drop (j + 1) (remembered r) = filter (\<lambda>x. pmr_ID x \<noteq> ref) (remembered r)"
    using filter_nth[OF record_rules(2)[OF held(2)] i(2)] i(3) by simp
  have explicit: "explicit_record r" using explicit_collection[OF e] r' by blast
  show ?thesis
    unfolding ResetPolicyMemoryRuleByReference_def Let_def p id guarded_def option.case list.case prod.case cloned_contexts[OF e]
      r[symmetric] owner rest f(1) by (simp add: and_then_def activated[OF explicit f(3)])
qed

text \<open>C8: Resetting a remembered rule is exact. In a valid collection in explicit form, a rule that occurs once is removed from the Policy Memory of its
  Context under the next generation, the new memory becomes the active one, and every other part of the collection stays; the result
  is valid, in explicit form, and the publication that reports it passes its own check. The reset is refused when a digest does not
  change.\<close>

theorem reset_forgets_exactly_one_rule:
  assumes v: "WorkspaceAuthorityCollection_Validate pem c = None" and e: "WorkspaceAuthorityCollection_Clone c = c"
    and g: "wac_Generation c \<noteq> - 1" and p: "rule_positions (elems (wac_Contexts c)) ref = [(i, j)]"
    and h: "pmv_Generation (acr_PolicyMemory (elems (wac_Contexts c) ! i)) \<noteq> - 1"
  defines "r \<equiv> elems (wac_Contexts c) ! i"
  defines "n \<equiv> remember c i (forgotten r ref) (\<lambda>_. True)"
  shows "WorkspaceAuthorityCollection_Validate pem n = None \<and> WorkspaceAuthorityCollection_Clone n = n
    \<and> (if pmv_Revision (forgotten r ref) = pmv_Revision (acr_PolicyMemory r) \<or> wac_Revision n = wac_Revision c
       then \<exists>e. ResetPolicyMemoryRuleByReference pem True c ref = Inl e
       else ResetPolicyMemoryRuleByReference pem True c ref = Inr (n, reset_publication n r ref))"
proof -
  let ?m = "forgotten r ref"
  note i = rule_positions_one[OF p, folded r_def]
  have r: "r \<in> set (elems (wac_Contexts c))" using i(1) by (simp add: r_def)
  note held = held_memory[OF v e r]
  note change = forgotten_change[OF v e i(1) g h, of ref, folded r_def, folded n_def]
  note step = reset_steps[OF v e p r_def[THEN meta_eq_to_obj_eq] h[folded r_def]]
  have after: "with_memory r ?m \<in> set (elems (wac_Contexts n))" using i(1) by (simp add: n_def r_def set_update_memI)
  have template: "context_template n (with_memory r ?m) = context_template c r" by (simp add: context_template_def n_def)
  show ?thesis
  proof (intro conjI change(2,3))
    show "if pmv_Revision ?m = pmv_Revision (acr_PolicyMemory r) \<or> wac_Revision n = wac_Revision c
       then \<exists>e. ResetPolicyMemoryRuleByReference pem True c ref = Inl e
       else ResetPolicyMemoryRuleByReference pem True c ref = Inr (n, reset_publication n r ref)"
    proof (cases "pmv_Revision ?m = pmv_Revision (acr_PolicyMemory r) \<or> wac_Revision n = wac_Revision c")
      case True
      then show ?thesis unfolding step change(1) Let_def using always_refused by (auto simp: and_then_pair)
    next
      case False
      have "remembered r ! j \<in> set (remembered r)" using i(2) by simp
      then have "PolicyRuleResetPublication_ValidateFor pem (reset_publication n r ref) ref = None"
        by (rule reset_publication_valid[OF change(2,3) after held(2) h[folded r_def] _ i(3)]) (use False held(1) template in simp_all)
      moreover have "snapshotForContext pem n (context_id r) = Inr (context_view n (with_memory r ?m))"
        using snapshot_after(1)[OF change(2,3) after] unfolding with_memory_fields .
      ultimately show ?thesis unfolding step change(1) using False
        by (simp add: and_then_pair) (simp add: and_then_def guarded_def reject_def first_error.simps reset_publication_def)
    qed
  qed
qed

section \<open>A decision remembers one rule\<close>

text \<open>The rule that a decision on a candidate gives, and the memory with it.\<close>

definition decided_rule :: "PolicyCandidateAuthority \<Rightarrow> string \<Rightarrow> PolicyMemoryRule" where
  "decided_rule q decision =
     (let b = RuleBody (pca_Effect q) (pca_ID q)
      in \<lparr> pmr_ID = policyMemoryRuleID (pca_ContextID q) decision b, pmr_Decision = decision, pmr_Body = b \<rparr>)"

definition decided :: "WorkspaceAuthorityContextRecord \<Rightarrow> PolicyCandidateAuthority \<Rightarrow> string \<Rightarrow> PolicyMemoryRevision" where
  "decided r q decision = next_memory r (remembered r @ [decided_rule q decision])"

lemma decided_rule_fields [simp]:
  "pmr_Decision (decided_rule q d) = d" "pmr_Body (decided_rule q d) = RuleBody (pca_Effect q) (pca_ID q)"
  "PolicyMemoryRule_Clone (decided_rule q d) = decided_rule q d"
  by (simp_all add: decided_rule_def Let_def PolicyMemoryRule_Clone_def)

lemma decided_rule_new:
  assumes "PolicyCandidateAuthority_Validate q = None" "PolicyMemoryDecision_Validate d = None"
  shows "NewPolicyMemoryRule (pca_ContextID q) d (RuleBody (pca_Effect q) (pca_ID q)) = Inr (decided_rule q d)"
    "PolicyMemoryRule_Validate (decided_rule q d) (pca_ContextID q) = None"
proof -
  have q: "ValidatePolicyCandidateID (pca_ID q) = None" "ContextID_Validate (pca_ContextID q) = None" "PolicyCandidateEffect_Validate (pca_Effect q) = None"
    using assms(1) unfolding PolicyCandidateAuthority_Validate_def first_error_None
    by (auto simp: policyCandidateEffectDigest_def guarded_def split: option.splits sum.splits)
  have b: "PolicyMemoryRuleBody_Validate (RuleBody (pca_Effect q) (pca_ID q)) d = None" by (rule candidate_body_valid[OF q(3,1) assms(2)])
  show "NewPolicyMemoryRule (pca_ContextID q) d (RuleBody (pca_Effect q) (pca_ID q)) = Inr (decided_rule q d)"
    unfolding new_rule using q(2) b by (simp add: decided_rule_def Let_def)
  show "PolicyMemoryRule_Validate (decided_rule q d) (pca_ContextID q) = None"
    unfolding rule_valid using q(2) b by (simp add: decided_rule_def Let_def)
qed

lemma candidate_Clone_rule: "decided_rule (PolicyCandidateAuthority_Clone q) d = decided_rule q d"
  by (simp add: decided_rule_def Let_def PolicyCandidateAuthority_Clone_def RuleBody_def PolicyCandidateEffect_Clone_def)

text \<open>The candidate that is decided on: a pending one, or an observed one that is not pending.\<close>

lemma explicit_candidates:
  assumes "WorkspaceAuthorityCollection_Clone c = c"
  shows "\<forall>q \<in> set (elems (wac_PendingCandidates c)). PolicyCandidateAuthority_Clone q = q"
proof -
  have "map PolicyCandidateAuthority_Clone (elems (wac_PendingCandidates c)) = elems (wac_PendingCandidates c)"
    using arg_cong[OF assms, of "\<lambda>c. elems (wac_PendingCandidates c)"] by (simp add: WorkspaceAuthorityCollection_Clone_def clonePolicyCandidateAuthorities_def)
  then show ?thesis using map_eq_conv[of PolicyCandidateAuthority_Clone "elems (wac_PendingCandidates c)" "\<lambda>q. q"] by simp
qed

lemma cloned_candidates:
  assumes "WorkspaceAuthorityCollection_Clone c = c"
  shows "clonePolicyCandidateAuthorities (filter P (elems (wac_PendingCandidates c))) = filter P (elems (wac_PendingCandidates c))"
  unfolding clonePolicyCandidateAuthorities_def using explicit_candidates[OF assms] by (intro map_idI) simp

lemma target_cases:
  assumes e: "WorkspaceAuthorityCollection_Clone c = c" and t: "candidate_target candidateRead c ref = Inr (q, pending)"
  shows "PolicyCandidateAuthority_Clone q = q"
    "(q \<in> set (elems (wac_PendingCandidates c)) \<and> pca_ID q = ref \<and> pending = elems (wac_PendingCandidates c))
     \<or> ((\<forall>p \<in> set (elems (wac_PendingCandidates c)). pca_ID p \<noteq> ref) \<and> pending = elems (wac_PendingCandidates c) @ [q])"
proof -
  have pending: "clonePolicyCandidateAuthorities (elems (wac_PendingCandidates c)) = elems (wac_PendingCandidates c)"
    using cloned_candidates[OF e, of "\<lambda>_. True"] by simp
  have "PolicyCandidateAuthority_Clone q = q \<and>
    ((q \<in> set (elems (wac_PendingCandidates c)) \<and> pca_ID q = ref \<and> pending = elems (wac_PendingCandidates c))
     \<or> ((\<forall>p \<in> set (elems (wac_PendingCandidates c)). pca_ID p \<noteq> ref) \<and> pending = elems (wac_PendingCandidates c) @ [q]))"
  proof (cases "List.find (\<lambda>p. pca_ID p = ref) (elems (wac_PendingCandidates c))")
    case (Some p)
    then have "p \<in> set (elems (wac_PendingCandidates c))" "pca_ID p = ref" by (auto simp: find_Some_iff)
    then show ?thesis using t explicit_candidates[OF e] by (simp add: candidate_target_def pending Some)
  next
    case None
    then obtain reading where reading: "candidateRead = Some reading" using t by (cases candidateRead) (simp_all add: candidate_target_def pending)
    obtain observed :: candidate_observation where "(if \<not> obs_CollectionPresent observed \<or> obs_CollectionGeneration observed \<noteq> wac_Generation c
          \<or> obs_CollectionRevision observed \<noteq> wac_Revision c then Inl ''observed Policy candidate authority changed before mutation''
        else case List.find (\<lambda>(i, attachment, _). i = ref \<and> \<not> attachment) (obs_Items observed) of
               None \<Rightarrow> Inl ''Policy Memory target does not exist''
             | Some (_, _, a) \<Rightarrow> Inr (PolicyCandidateAuthority_Clone a, elems (wac_PendingCandidates c) @ [PolicyCandidateAuthority_Clone a])) = Inr (q, pending)"
      using t unfolding candidate_target_def pending None reading Let_def option.case and_then_Inr by blast
    then obtain a where "q = PolicyCandidateAuthority_Clone a" "pending = elems (wac_PendingCandidates c) @ [q]"
      by (cases "List.find (\<lambda>(i, attachment, _). i = ref \<and> \<not> attachment) (obs_Items observed)") (auto split: if_splits)
    then show ?thesis using None by (auto simp: find_None_iff)
  qed
  then show "PolicyCandidateAuthority_Clone q = q"
    "(q \<in> set (elems (wac_PendingCandidates c)) \<and> pca_ID q = ref \<and> pending = elems (wac_PendingCandidates c))
     \<or> ((\<forall>p \<in> set (elems (wac_PendingCandidates c)). pca_ID p \<noteq> ref) \<and> pending = elems (wac_PendingCandidates c) @ [q])"
    by blast+
qed

definition other_effect :: "PolicyCandidateAuthority \<Rightarrow> PolicyCandidateAuthority \<Rightarrow> bool" where
  "other_effect q p = (\<not> policyCandidateAuthoritiesShareEffect p q)"

lemma target_pending:
  assumes e: "WorkspaceAuthorityCollection_Clone c = c" and t: "candidate_target candidateRead c ref = Inr (q, pending)"
  shows "clonePolicyCandidateAuthorities (filter (\<lambda>p. \<not> policyCandidateAuthoritiesShareEffect p q) pending)
    = filter (other_effect q) (elems (wac_PendingCandidates c))"
proof -
  have "filter (\<lambda>p. \<not> policyCandidateAuthoritiesShareEffect p q) pending = filter (other_effect q) (elems (wac_PendingCandidates c))"
    using target_cases(2)[OF assms] by (auto simp: other_effect_def[abs_def] policyCandidateAuthoritiesShareEffect_def)
  then show ?thesis using cloned_candidates[OF e, of "other_effect q"] by (simp add: other_effect_def)
qed

lemma contextRecordIndex_Some:
  assumes "contextRecordIndex c j = Some i"
  shows "i < length (elems (wac_Contexts c))" "context_id (elems (wac_Contexts c) ! i) = j"
  using assms by (auto simp: contextRecordIndex_def find_Some_iff)

lemma candidate_publication_at:
  "snapshotForContext pem n (pca_ContextID q) = Inr s \<Longrightarrow> candidate_publication pem n q rule previous
    = Inr \<lparr> pcp_Candidate = q, pcp_RuleID = pmr_ID rule, pcp_Previous = previous,
            pcp_Memory = \<lparr> pmp_Snapshot = s, pmp_PreviousRevision = pmv_Revision previous, pmp_Changed = True \<rparr> \<rparr>"
  by (simp add: candidate_publication_def and_then_def)

text \<open>The rules of a Context with the decided one, as they are published.\<close>

lemma decided_publishable:
  assumes "record_ok r" "PolicyCandidateAuthority_Validate q = None" "PolicyMemoryDecision_Validate d = None" "pca_ContextID q = context_id r"
    and "pmr_ID (decided_rule q d) \<notin> pmr_ID ` set (remembered r)"
  shows "publishable (context_id r) (remembered r @ [decided_rule q d])"
    "elems (pmv_Rules (decided r q d)) = sorted_rules (remembered r @ [decided_rule q d])"
    "set (elems (pmv_Rules (decided r q d))) = insert (decided_rule q d) (set (remembered r))"
proof -
  note r = record_rules[OF assms(1)]
  have "distinct (map pmr_ID (remembered r))" using r(2) strict_sorted_iff by blast
  then show "publishable (context_id r) (remembered r @ [decided_rule q d])"
    using r(3) decided_rule_new(2)[OF assms(2,3)] assms(4,5) by (auto simp: publishable_def stored_rule_def)
  show "elems (pmv_Rules (decided r q d)) = sorted_rules (remembered r @ [decided_rule q d])" by (simp add: decided_def)
  have "PolicyMemoryRule_Clone ` set (remembered r) = set (remembered r)" using r(3) by (force simp: stored_rule_def)
  then show "set (elems (pmv_Rules (decided r q d))) = insert (decided_rule q d) (set (remembered r))" by (simp add: decided_def)
qed

text \<open>A candidate that may be decided on: it has the given reference, is valid, and passes the check of a pending candidate.\<close>

definition decidable ::
  "(nat list \<Rightarrow> bool) \<Rightarrow> candidate_observation result option \<Rightarrow> WorkspaceAuthorityCollection \<Rightarrow> string \<Rightarrow> PolicyCandidateAuthority \<Rightarrow> bool" where
  "decidable pem candidateRead c ref q =
     ((\<exists>pending. candidate_target candidateRead c ref = Inr (q, pending)) \<and> pca_ID q = ref
      \<and> PolicyCandidateAuthority_Validate q = None \<and> candidate_check pem c q = None)"

lemma pending_decidable:
  assumes v: "WorkspaceAuthorityCollection_Validate pem c = None" and e: "WorkspaceAuthorityCollection_Clone c = c"
    and q: "q \<in> set (elems (wac_PendingCandidates c))"
  shows "decidable pem candidateRead c (pca_ID q) q"
proof -
  have "clonePolicyCandidateAuthorities (elems (wac_PendingCandidates c)) = elems (wac_PendingCandidates c)"
    using cloned_candidates[OF e, of "\<lambda>_. True"] by simp
  then have "candidate_target candidateRead c (pca_ID q) = Inr (q, elems (wac_PendingCandidates c))"
    using find_sorted[OF collection_parts(14)[OF v] q] by (simp add: candidate_target_def)
  then show ?thesis using collection_parts(13)[OF v q] by (simp add: decidable_def)
qed

lemma decidable_context:
  assumes v: "WorkspaceAuthorityCollection_Validate pem c = None" and q: "decidable pem candidateRead c ref q"
    and r: "r \<in> set (elems (wac_Contexts c))" "context_id r = pca_ContextID q"
  shows "\<forall>x \<in> set (remembered r). \<not> consumed_by q x" "admissible pem r (context_template c r) q"
    "\<exists>w \<in> set (elems (wac_Workspaces c)). wb_ID w = pca_ObservingWorkspaceID q \<and> wb_ContextID w = pca_ContextID q"
proof -
  have s: "stored context_id (elems (wac_Contexts c)) (pca_ContextID q) = Some r"
    using stored_unique[OF collection_parts(5)[OF v] r(1)] r(2) by simp
  have k: "candidate_check pem c q = None" using q by (simp add: decidable_def)
  show "\<forall>x \<in> set (remembered r). \<not> consumed_by q x" "admissible pem r (context_template c r) q"
    using k context_template_stored[OF v r(1)] unfolding candidate_check_valid s by auto
  show "\<exists>w \<in> set (elems (wac_Workspaces c)). wb_ID w = pca_ObservingWorkspaceID q \<and> wb_ContextID w = pca_ContextID q"
    using k stored_Some[of wb_ID "elems (wac_Workspaces c)" "pca_ObservingWorkspaceID q"] unfolding candidate_check_valid by blast
qed

lemma decided_inside:
  assumes "admissible pem r t q" "PolicyCandidateAuthority_Validate q = None" "d = ''allow'' \<or> d = ''deny''"
  shows "boundary_row (tb_Boundary (rev_Body (tpl_Current t))) (decided_rule q d) = None"
proof -
  have d: "PolicyMemoryDecision_Validate ''allow'' = None" by code_simp
  have "boundary_row (tb_Boundary (rev_Body (tpl_Current t))) (decided_rule q ''allow'') = None"
    using admissible_inside[OF assms(1)] decided_rule_new(1)[OF assms(2) d] by auto
  then show ?thesis using assms(3) by (auto simp: boundary_row_def first_error_None reject_None)
qed

lemma decided_memory_valid:
  assumes v: "WorkspaceAuthorityCollection_Validate pem c = None" and e: "WorkspaceAuthorityCollection_Clone c = c"
    and q: "decidable pem candidateRead c ref q" and r: "r \<in> set (elems (wac_Contexts c))" "context_id r = pca_ContextID q"
    and d: "d = ''allow'' \<or> d = ''deny''" and g: "pmv_Generation (acr_PolicyMemory r) \<noteq> - 1"
    and new: "pmr_ID (decided_rule q d) \<notin> pmr_ID ` set (remembered r)"
  shows "PolicyMemoryRevision_ValidateFor pem (decided r q d) (acr_Context r) (tpl_Current (context_template c r)) = None"
    "publishable (context_id r) (remembered r @ [decided_rule q d])"
    "set (elems (pmv_Rules (decided r q d))) = insert (decided_rule q d) (set (remembered r))"
proof -
  note held = held_memory[OF v e r(1)]
  have qv: "PolicyCandidateAuthority_Validate q = None" using q by (simp add: decidable_def)
  have dv: "PolicyMemoryDecision_Validate d = None" using d by (auto simp: PolicyMemoryDecision_Validate_def reject_None)
  note p = decided_publishable[OF held(2) qv dv r(2)[symmetric] new]
  show "publishable (context_id r) (remembered r @ [decided_rule q d])"
    "set (elems (pmv_Rules (decided r q d))) = insert (decided_rule q d) (set (remembered r))" by (fact p(1) p(3))+
  have m: "PolicyMemoryRevision_Validate (decided r q d) = None" "pmv_ContextID (decided r q d) = context_id r"
    unfolding decided_def using next_memory_published(2)[OF held(2) g p(1)] by simp_all
  have rows: "\<forall>x \<in> set (elems (pmv_Rules (decided r q d))). boundary_row (tb_Boundary (rev_Body (tpl_Current (context_template c r)))) x = None"
    unfolding p(3) using held(1) decided_inside[OF decidable_context(2)[OF v q r] qv d] unfolding validate_for by blast
  show "PolicyMemoryRevision_ValidateFor pem (decided r q d) (acr_Context r) (tpl_Current (context_template c r)) = None"
    using held(1) m rows unfolding validate_for by (elim conjE, intro conjI) (assumption | blast)+
qed

lemma decided_fresh:
  assumes v: "WorkspaceAuthorityCollection_Validate pem c = None" and e: "WorkspaceAuthorityCollection_Clone c = c"
    and q: "decidable pem candidateRead c ref q" and r: "r \<in> set (elems (wac_Contexts c))" "context_id r = pca_ContextID q"
    and d: "d = ''allow'' \<or> d = ''deny''"
    and p: "p \<in> set (elems (wac_PendingCandidates c))" "other_effect q p" "pca_ContextID p = context_id r"
    and x: "x \<in> insert (decided_rule q d) (set (remembered r))"
  shows "\<not> consumed_by p x"
proof (cases "x = decided_rule q d")
  case True
  have dv: "PolicyMemoryDecision_Validate d = None" using d by (auto simp: PolicyMemoryDecision_Validate_def reject_None)
  have qv: "PolicyCandidateAuthority_Validate q = None" "pca_ID q = ref" using q by (simp_all add: decidable_def)
  obtain pending where t: "candidate_target candidateRead c ref = Inr (q, pending)" using q by (auto simp: decidable_def)
  have "pca_ID p \<noteq> pca_ID q"
  proof
    assume same: "pca_ID p = pca_ID q"
    then have "q \<in> set (elems (wac_PendingCandidates c))" using target_cases(2)[OF e t] p(1) qv(2) by auto
    then have "p = q" by (rule sorted_same_id[OF collection_parts(14)[OF v] p(1) _ same])
    then show False using p(2) by (simp add: other_effect_def policyCandidateAuthoritiesShareEffect_def)
  qed
  then show ?thesis
    unfolding True consumed_by_iff[OF decided_rule_new(2)[OF qv(1) dv]] by (simp add: RuleBody_def)
next
  case False
  then have "x \<in> set (remembered r)" using x by blast
  moreover have "stored context_id (elems (wac_Contexts c)) (pca_ContextID p) = Some r"
    using stored_unique[OF collection_parts(5)[OF v] r(1)] p(3) by simp
  ultimately show ?thesis using conjunct2[OF collection_parts(13)[OF v p(1)]] unfolding candidate_check_valid by auto
qed

text \<open>The report of a decision.\<close>

definition decision_publication ::
  "WorkspaceAuthorityCollection \<Rightarrow> WorkspaceAuthorityContextRecord \<Rightarrow> PolicyCandidateAuthority \<Rightarrow> string \<Rightarrow> PolicyCandidatePublication" where
  "decision_publication n r q d =
     \<lparr> pcp_Candidate = q, pcp_RuleID = pmr_ID (decided_rule q d), pcp_Previous = acr_PolicyMemory r,
       pcp_Memory = \<lparr> pmp_Snapshot = context_view n (with_memory r (decided r q d)), pmp_PreviousRevision = pmv_Revision (acr_PolicyMemory r),
                     pmp_Changed = True \<rparr> \<rparr>"

lemma decision_publication_valid:
  assumes v: "WorkspaceAuthorityCollection_Validate pem c = None" and e: "WorkspaceAuthorityCollection_Clone c = c"
    and q: "decidable pem candidateRead c ref q" and r: "r \<in> set (elems (wac_Contexts c))" "context_id r = pca_ContextID q"
    and d: "d = ''allow'' \<or> d = ''deny''" and g: "pmv_Generation (acr_PolicyMemory r) \<noteq> - 1"
    and new: "pmr_ID (decided_rule q d) \<notin> pmr_ID ` set (remembered r)" "pmv_Revision (decided r q d) \<noteq> pmv_Revision (acr_PolicyMemory r)"
    and n: "WorkspaceAuthorityCollection_Validate pem n = None" "WorkspaceAuthorityCollection_Clone n = n"
      "with_memory r (decided r q d) \<in> set (elems (wac_Contexts n))" "wac_Templates n = wac_Templates c" "wac_Workspaces n = wac_Workspaces c"
  shows "PolicyCandidatePublication_ValidateFor pem (decision_publication n r q d) ref d = None"
proof -
  let ?m = "decided r q d" and ?rule = "decided_rule q d"
  note held = held_memory[OF v e r(1)]
  have qv: "PolicyCandidateAuthority_Validate q = None" "pca_ID q = ref" using q by (simp_all add: decidable_def)
  have dv: "PolicyMemoryDecision_Validate d = None" using d by (auto simp: PolicyMemoryDecision_Validate_def reject_None)
  note p = decided_publishable[OF held(2) qv(1) dv r(2)[symmetric] new(1)]
  have owner: "pmv_ContextID (acr_PolicyMemory r) = pca_ContextID q" "PolicyMemoryRevision_Validate (acr_PolicyMemory r) = None"
    using held(2) r(2) by (simp_all add: record_ok_def)
  have id: "ValidatePolicyCandidateID ref = None" using qv by (auto simp: PolicyCandidateAuthority_Validate_def first_error_None)
  have rule: "PolicyMemoryRule_Validate ?rule (pca_ContextID q) = None" by (rule decided_rule_new(2)[OF qv(1) dv])
  have ruleID: "ValidatePolicyMemoryRuleID (pmr_ID ?rule) = None" using rule by (simp add: rule_valid)
  have memory: "PolicyMemoryPublication_Validate pem (pcp_Memory (decision_publication n r q d)) = None"
    using publication_valid[OF n(1-3) new(2)[symmetric] owner(2)] by (simp add: decision_publication_def)
  have observing: "observing_workspace (context_view n (with_memory r ?m)) q"
    using decidable_context(3)[OF v q r] r(2) n(5) by (auto simp: observing_workspace_def list_ex_iff workspaces_of_def)
  have template: "context_template n (with_memory r ?m) = context_template c r" by (simp add: context_template_def n(4))
  have unused: "\<forall>x \<in> set (remembered r). ref \<notin> set (elems (pmb_SourceCandidates (pmr_Body x)))"
    using decidable_context(1)[OF v q r] consumed_by_iff[OF context_rules_valid[OF held(3)]] qv(2) by blast
  have "sorted_wrt (<) (map pmr_ID (elems (pmv_Rules ?m)))" using p(1) unfolding p(2) sorted_rules_strict by (simp add: publishable_def)
  then have "List.find (\<lambda>y. pmr_ID y = pmr_ID ?rule) (elems (pmv_Rules ?m)) = Some ?rule" by (rule find_sorted) (simp add: p(3))
  then have result: "resulting_rule q ref (pmr_ID ?rule) d (elems (pmv_Rules ?m)) = Inr ?rule"
    by (simp add: resulting_rule_def guarded_def reject_def first_error.simps qv(2)[symmetric])
  have cl: "map PolicyMemoryRule_Clone (remembered r) = remembered r"
    using record_rules(3)[OF held(2)] by (intro map_idI) (auto simp: stored_rule_def)
  have t: "exact_transition (acr_PolicyMemory r) (remembered r @ [?rule]) ?m e = None" for e
    unfolding decided_def by (rule next_memory_transition[OF held(2) g p(1)]) (use new(2) in \<open>simp add: decided_def\<close>)
  have gen: "pmv_Generation ?m = pmv_Generation (acr_PolicyMemory r) + 1" by (simp add: decided_def)
  have f: "pcp_Candidate (decision_publication n r q d) = q" "pcp_RuleID (decision_publication n r q d) = pmr_ID ?rule"
    "pcp_Previous (decision_publication n r q d) = acr_PolicyMemory r" "pmp_Changed (pcp_Memory (decision_publication n r q d))"
    "pmp_PreviousRevision (pcp_Memory (decision_publication n r q d)) = pmv_Revision (acr_PolicyMemory r)"
    "pmp_Snapshot (pcp_Memory (decision_publication n r q d)) = context_view n (with_memory r ?m)" by (simp_all add: decision_publication_def)
  show ?thesis
    unfolding PolicyCandidatePublication_ValidateFor_def Let_def f context_view_fields with_memory_fields first_error_None reject_None first_error.simps(1)
      template gen owner(1) result sum.case cl decided_rule_fields list_ex_iff
    using id dv qv ruleID memory r(2) observing held(1) unused t by (intro conjI) (simp_all add: f)
qed

lemma guarded_pass: "guarded None x = x" by (simp add: guarded_def)

lemma and_then_Inr_eq: "and_then (Inr x) f = f x" by (simp add: and_then_def)

text \<open>The course of a decision up to the publication of the collection.\<close>

lemma decision_steps:
  assumes v: "WorkspaceAuthorityCollection_Validate pem c = None" and e: "WorkspaceAuthorityCollection_Clone c = c"
    and t: "candidate_target candidateRead c ref = Inr (q, pending)" and qv: "PolicyCandidateAuthority_Validate q = None" "pca_ID q = ref"
    and i: "contextRecordIndex c (pca_ContextID q) = Some i" and r: "r = elems (wac_Contexts c) ! i"
    and d: "PolicyMemoryDecision_Validate d = None" and g: "pmv_Generation (acr_PolicyMemory r) \<noteq> - 1"
    and new: "pmr_ID (decided_rule q d) \<notin> pmr_ID ` set (remembered r)"
  shows "applyPolicyCandidate pem True candidateRead c ref d =
     (if pmv_Revision (decided r q d) = pmv_Revision (acr_PolicyMemory r) then Inl ''Policy candidate did not change authority''
      else and_then
             (publishCollection pem c True (wac_Templates c) (Some ((elems (wac_Contexts c))[i := with_memory r (decided r q d)]))
                (wac_Workspaces c) (Some (filter (other_effect q) (elems (wac_PendingCandidates c)))) (wac_DefaultTemplateID c))
             (\<lambda>(n, collectionChanged).
                and_then (candidate_publication pem n q (decided_rule q d) (acr_PolicyMemory r))
                  (\<lambda>p. guarded (first_error [PolicyCandidatePublication_ValidateFor pem p ref d,
                      reject (\<not> collectionChanged) ''Policy candidate did not change final authority'']) (Inr (n, p)))))"
proof -
  note ix = contextRecordIndex_Some[OF i, folded r]
  have r': "r \<in> set (elems (wac_Contexts c))" using ix(1) by (simp add: r)
  note held = held_memory[OF v e r']
  have explicit: "explicit_record r" using explicit_collection[OF e] r' by blast
  have cl: "PolicyMemoryRevision_Clone (acr_PolicyMemory r) = acr_PolicyMemory r" using held(2) by (simp add: record_ok_def)
  have id: "ValidatePolicyCandidateID ref = None" using qv by (auto simp: PolicyCandidateAuthority_Validate_def first_error_None)
  note p = decided_publishable[OF held(2) qv(1) d ix(2)[symmetric] new]
  note m = next_memory_published[OF held(2) g p(1), folded decided_def]
  show ?thesis
    unfolding applyPolicyCandidate_def id t guarded_pass and_then_pair
    unfolding Let_def target_cases(1)[OF e t] i option.case cl cloned_contexts[OF e] r[symmetric] decided_rule_new(1)[OF qv(1) d] target_pending[OF e t]
    using m(1) by (simp add: and_then_Inr_eq ix(2) activated[OF explicit m(3)])
qed

lemma decided_change:
  fixes c i q d
  defines "r \<equiv> elems (wac_Contexts c) ! i"
  defines "n \<equiv> remember c i (decided r q d) (other_effect q)"
  assumes v: "WorkspaceAuthorityCollection_Validate pem c = None" and e: "WorkspaceAuthorityCollection_Clone c = c"
    and g: "wac_Generation c \<noteq> - 1" and q: "decidable pem candidateRead c ref q" and i: "contextRecordIndex c (pca_ContextID q) = Some i"
    and d: "d = ''allow'' \<or> d = ''deny''" and h: "pmv_Generation (acr_PolicyMemory r) \<noteq> - 1"
    and new: "pmr_ID (decided_rule q d) \<notin> pmr_ID ` set (remembered r)"
    and s: "\<forall>s \<in> set (elems (acr_SupersededAllows r)). pmr_ID (pas_Rule s) \<noteq> pmr_ID (decided_rule q d)"
  shows "publishCollection pem c True (wac_Templates c) (Some ((elems (wac_Contexts c))[i := with_memory r (decided r q d)]))
      (wac_Workspaces c) (Some (filter (other_effect q) (elems (wac_PendingCandidates c)))) (wac_DefaultTemplateID c)
    = (if wac_Revision n = wac_Revision c then Inr (c, False) else Inr (n, True))"
    "WorkspaceAuthorityCollection_Validate pem n = None" "WorkspaceAuthorityCollection_Clone n = n"
proof -
  let ?m = "decided r q d"
  note ix = contextRecordIndex_Some[OF i, folded r_def]
  have r: "r \<in> set (elems (wac_Contexts c))" using ix(1) by (simp add: r_def)
  note held = held_memory[OF v e r]
  note m = decided_memory_valid[OF v e q r ix(2) d h new]
  note k = next_memory_published(3)[OF held(2) h m(2), folded decided_def]
  have superseded: "pmr_ID x \<noteq> pmr_ID (pas_Rule z)" if "z \<in> set (elems (acr_SupersededAllows r))" "x \<in> set (elems (pmv_Rules ?m))" for z x
    using context_check_parts(3)[OF held(3) that(1)] s that unfolding m(3) by auto
  have fresh: "p \<in> set (elems (wac_PendingCandidates c)) \<Longrightarrow> other_effect q p \<Longrightarrow> pca_ContextID p = context_id r
      \<Longrightarrow> x \<in> set (elems (pmv_Rules ?m)) \<Longrightarrow> \<not> consumed_by p x" for p x
    using decided_fresh[OF v e q r ix(2) d] unfolding m(3) by blast
  note change = memory_change[OF v e ix(1) g, of ?m "other_effect q", folded r_def, OF m(1) k superseded fresh, folded n_def]
  show "publishCollection pem c True (wac_Templates c) (Some ((elems (wac_Contexts c))[i := with_memory r ?m]))
      (wac_Workspaces c) (Some (filter (other_effect q) (elems (wac_PendingCandidates c)))) (wac_DefaultTemplateID c)
    = (if wac_Revision n = wac_Revision c then Inr (c, False) else Inr (n, True))" by (rule change(1))
  show "WorkspaceAuthorityCollection_Validate pem n = None" by (rule change(2))
  show "WorkspaceAuthorityCollection_Clone n = n" by (rule change(3))
qed

text \<open>C3: Deciding on a candidate is exact. In a valid collection in explicit form, an Allow or a Deny of a pending candidate, or of an observed
  one that could be pending, adds its rule to the Policy Memory of the candidate's Context under the next generation, makes this
  memory the active one and consumes every pending candidate with the same effect; every other part of the collection stays. The
  result is valid, in explicit form, and the publication that reports it passes its own check. The decision is refused
  when a digest does not change. It is required that the rule is neither remembered nor superseded.\<close>

theorem decision_remembers_exactly_one_rule:
  assumes v: "WorkspaceAuthorityCollection_Validate pem c = None" and e: "WorkspaceAuthorityCollection_Clone c = c"
    and g: "wac_Generation c \<noteq> - 1" and q: "decidable pem candidateRead c ref q" and i: "contextRecordIndex c (pca_ContextID q) = Some i"
    and d: "d = ''allow'' \<or> d = ''deny''" and h: "pmv_Generation (acr_PolicyMemory (elems (wac_Contexts c) ! i)) \<noteq> - 1"
    and new: "pmr_ID (decided_rule q d) \<notin> pmr_ID ` set (remembered (elems (wac_Contexts c) ! i))"
    and s: "\<forall>s \<in> set (elems (acr_SupersededAllows (elems (wac_Contexts c) ! i))). pmr_ID (pas_Rule s) \<noteq> pmr_ID (decided_rule q d)"
  defines "r \<equiv> elems (wac_Contexts c) ! i"
  defines "n \<equiv> remember c i (decided r q d) (other_effect q)"
  shows "WorkspaceAuthorityCollection_Validate pem n = None \<and> WorkspaceAuthorityCollection_Clone n = n
    \<and> (if pmv_Revision (decided r q d) = pmv_Revision (acr_PolicyMemory r) \<or> wac_Revision n = wac_Revision c
       then \<exists>e. applyPolicyCandidate pem True candidateRead c ref d = Inl e
       else applyPolicyCandidate pem True candidateRead c ref d = Inr (n, decision_publication n r q d))"
proof -
  let ?m = "decided r q d"
  note ix = contextRecordIndex_Some[OF i, folded r_def]
  have r: "r \<in> set (elems (wac_Contexts c))" using ix(1) by (simp add: r_def)
  have qv: "PolicyCandidateAuthority_Validate q = None" "pca_ID q = ref" using q by (simp_all add: decidable_def)
  obtain pending where t: "candidate_target candidateRead c ref = Inr (q, pending)" using q by (auto simp: decidable_def)
  have dv: "PolicyMemoryDecision_Validate d = None" using d by (auto simp: PolicyMemoryDecision_Validate_def reject_None)
  note change = decided_change[OF v e g q i d h new s, folded r_def, folded n_def]
  note step = decision_steps[OF v e t qv i r_def[THEN meta_eq_to_obj_eq] dv h[folded r_def] new[folded r_def]]
  have after: "with_memory r ?m \<in> set (elems (wac_Contexts n))" using ix(1) by (simp add: n_def r_def set_update_memI)
  show ?thesis
  proof (intro conjI change(2,3))
    show "if pmv_Revision ?m = pmv_Revision (acr_PolicyMemory r) \<or> wac_Revision n = wac_Revision c
       then \<exists>e. applyPolicyCandidate pem True candidateRead c ref d = Inl e
       else applyPolicyCandidate pem True candidateRead c ref d = Inr (n, decision_publication n r q d)"
    proof (cases "pmv_Revision ?m = pmv_Revision (acr_PolicyMemory r) \<or> wac_Revision n = wac_Revision c")
      case True
      then show ?thesis unfolding step change(1) using always_refused by (auto simp: and_then_pair)
    next
      case False
      have "PolicyCandidatePublication_ValidateFor pem (decision_publication n r q d) ref d = None"
        by (rule decision_publication_valid[OF v e q r ix(2) d h[folded r_def] new[folded r_def] _ change(2,3) after]) (use False in \<open>simp_all add: n_def\<close>)
      moreover have "candidate_publication pem n q (decided_rule q d) (acr_PolicyMemory r) = Inr (decision_publication n r q d)"
        unfolding decision_publication_def
        by (rule candidate_publication_at) (use snapshot_after(1)[OF change(2,3) after] ix(2) in \<open>simp only: with_memory_fields\<close>)
      ultimately show ?thesis unfolding step change(1) using False
        by (simp add: and_then_pair) (simp add: and_then_def guarded_def reject_def first_error.simps)
    qed
  qed
qed

section \<open>Superseded Allows\<close>

lemma publication_content:
  assumes "publishCollection pem c True ts cs ws ps d = Inr (n, True)"
  shows "\<exists>v. n = (collection_of (wac_Generation c + 1) (elems ts) (elems cs) (elems ws) (elems ps) d (wac_CurrentContextID c))\<lparr> wac_Revision := v \<rparr>"
  using assms unfolding publishCollection_def PublishWorkspaceAuthorityCollection_def publishWorkspaceAuthorityCollection_def Let_def if_True
    option.case Option.bind.bind_lunit guarded_Inr
  by (auto simp: checked_Inr split: option.splits if_splits)

lemma published_record:
  assumes v: "WorkspaceAuthorityCollection_Validate pem c = None" and e: "WorkspaceAuthorityCollection_Clone c = c"
    and i: "i < length (elems (wac_Contexts c))" and r: "same_base (elems (wac_Contexts c) ! i) r" "explicit_record r"
    and p: "publishCollection pem c True (wac_Templates c) (Some ((elems (wac_Contexts c))[i := r])) (wac_Workspaces c)
      (Some (filter keep (elems (wac_PendingCandidates c)))) (wac_DefaultTemplateID c) = Inr (n, True)"
  shows "WorkspaceAuthorityCollection_Validate pem n = None" "r \<in> set (elems (wac_Contexts n))"
proof -
  obtain v where "n = ((with_record c i r keep)\<lparr> wac_Revision := [] \<rparr>)\<lparr> wac_Revision := v \<rparr>"
    using publication_content[OF p] unfolding elems_simps with_record_content[OF v e i r] by blast
  then show "r \<in> set (elems (wac_Contexts n))" using i by (simp add: set_update_memI)
  obtain ts cs ws ps d j changed where q: "publishWorkspaceAuthorityCollection pem ts cs ws ps d j (Some c) False = Inr (n, True)"
    using p unfolding publishCollection_def PublishWorkspaceAuthorityCollection_def Let_def if_True guarded_Inr by blast
  show "WorkspaceAuthorityCollection_Validate pem n = None" using publication_step(3)[OF q] by blast
qed

lemma published_memory:
  assumes "PublishPolicyMemory i (Some rs) (Some p) = Inr (m, True)"
  shows "elems (pmv_Rules m) = sorted_rules rs" "PolicyMemoryRevision_Clone m = m"
proof -
  have m: "pmv_Rules m = Some (sorted_rules rs)"
    using assms unfolding PublishPolicyMemory_def guarded_Inr Let_def by (auto simp: checked_Inr split: if_splits)
  show "elems (pmv_Rules m) = sorted_rules rs" by (simp add: m)
  show "PolicyMemoryRevision_Clone m = m" by (rule explicit_Clone[OF m])
qed

text \<open>What a decision that succeeds has done.\<close>

lemma decision_done:
  assumes v: "WorkspaceAuthorityCollection_Validate pem c = None" and e: "WorkspaceAuthorityCollection_Clone c = c"
    and t: "candidate_target candidateRead c ref = Inr (q, pending)"
    and a: "applyPolicyCandidate pem activation candidateRead c ref d = Inr (n, p)"
  obtains i m where "i < length (elems (wac_Contexts c))" "context_id (elems (wac_Contexts c) ! i) = pca_ContextID q"
    "WorkspaceAuthorityCollection_Validate pem n = None" "with_memory (elems (wac_Contexts c) ! i) m \<in> set (elems (wac_Contexts n))"
    "decided_rule q d \<in> set (elems (pmv_Rules m))"
proof -
  note a' = a[unfolded applyPolicyCandidate_def guarded_Inr t and_then_pair, THEN conjunct2]
  obtain i where i: "contextRecordIndex c (pca_ContextID q) = Some i"
    using a' unfolding Let_def target_cases(1)[OF e t] by (cases "contextRecordIndex c (pca_ContextID q)") simp_all
  note ix = contextRecordIndex_Some[OF i]
  let ?r = "elems (wac_Contexts c) ! i"
  have r: "?r \<in> set (elems (wac_Contexts c))" using ix(1) by simp
  have explicit: "explicit_record ?r" using explicit_collection[OF e] r by blast
  have cl: "PolicyMemoryRevision_Clone (acr_PolicyMemory ?r) = acr_PolicyMemory ?r"
    using held_memory(2)[OF v e r] by (simp add: record_ok_def)
  note a'' = a'[unfolded Let_def target_cases(1)[OF e t] i option.case cl cloned_contexts[OF e] target_pending[OF e t] and_then_Inr]
  obtain rule where rule: "NewPolicyMemoryRule (pca_ContextID q) d (RuleBody (pca_Effect q) (pca_ID q)) = Inr rule"
    and rest: "\<exists>m. PublishPolicyMemory (pca_ContextID q) (Some (remembered ?r @ [rule])) (Some (acr_PolicyMemory ?r)) = Inr (m, True)
      \<and> (\<exists>r. preparePolicyMemoryActivation activation (?r\<lparr> acr_PolicyMemory := m \<rparr>) = Inr r
          \<and> publishCollection pem c True (wac_Templates c) (Some ((elems (wac_Contexts c))[i := r])) (wac_Workspaces c)
              (Some (filter (other_effect q) (elems (wac_PendingCandidates c)))) (wac_DefaultTemplateID c) = Inr (n, True))"
    using a'' by (auto simp: check_simps split: if_splits)
  obtain m r' where m: "PublishPolicyMemory (pca_ContextID q) (Some (remembered ?r @ [rule])) (Some (acr_PolicyMemory ?r)) = Inr (m, True)"
    and r': "preparePolicyMemoryActivation activation (?r\<lparr> acr_PolicyMemory := m \<rparr>) = Inr r'"
    and n: "publishCollection pem c True (wac_Templates c) (Some ((elems (wac_Contexts c))[i := r'])) (wac_Workspaces c)
              (Some (filter (other_effect q) (elems (wac_PendingCandidates c)))) (wac_DefaultTemplateID c) = Inr (n, True)"
    using rest by blast
  note pm = published_memory[OF m]
  have w: "r' = with_memory ?r m"
    using r' activated[OF explicit pm(2)] by (cases activation) (simp_all add: preparePolicyMemoryActivation_def)
  have "rule = decided_rule q d" using rule unfolding new_rule by (simp add: decided_rule_def Let_def)
  then have "decided_rule q d \<in> set (elems (pmv_Rules m))" unfolding pm(1) by simp
  moreover note published_record[OF v e ix(1) with_memory_base with_memory_explicit[OF explicit pm(2)] n[unfolded w]]
  ultimately show ?thesis using that ix by blast
qed

text \<open>C36: A superseded Allow is never remembered again. Once a Boundary has superseded an Allow of a Context, every decision that
  would remember the same rule is refused, also when a later revision of the Template admits the destination again: the identifier
  of the rule is determined by the Context, the decision and the candidate, the record of superseded Allows is never shortened, and
  the check of the collection refuses a remembered rule that is recorded as superseded.\<close>

theorem superseded_allow_is_never_remembered:
  assumes v: "WorkspaceAuthorityCollection_Validate pem c = None" and e: "WorkspaceAuthorityCollection_Clone c = c"
    and t: "candidate_target candidateRead c ref = Inr (q, pending)"
    and r: "r \<in> set (elems (wac_Contexts c))" "context_id r = pca_ContextID q"
    and s: "s \<in> set (elems (acr_SupersededAllows r))" "pmr_ID (pas_Rule s) = pmr_ID (decided_rule q d)"
  shows "\<exists>e. applyPolicyCandidate pem activation candidateRead c ref d = Inl e"
proof (cases "applyPolicyCandidate pem activation candidateRead c ref d")
  case (Inr outcome)
  then obtain n p where a: "applyPolicyCandidate pem activation candidateRead c ref d = Inr (n, p)" by (cases outcome) simp
  from decision_done[OF v e t a] obtain i m where i: "i < length (elems (wac_Contexts c))" "context_id (elems (wac_Contexts c) ! i) = pca_ContextID q"
    and n: "WorkspaceAuthorityCollection_Validate pem n = None" "with_memory (elems (wac_Contexts c) ! i) m \<in> set (elems (wac_Contexts n))"
    and x: "decided_rule q d \<in> set (elems (pmv_Rules m))" .
  have same: "elems (wac_Contexts c) ! i = r" using sorted_same_id[OF collection_parts(5)[OF v] nth_mem[OF i(1)] r(1)] i(2) r(2) by simp
  obtain t where k: "context_check pem n t (with_memory r m) = None" using collection_parts(12)[OF n(1)] n(2) same by blast
  have "s \<in> set (elems (acr_SupersededAllows (with_memory r m)))" using s(1) by (simp add: with_memory_def)
  from context_check_parts(3)[OF k this, of "decided_rule q d"] x s(2) show ?thesis by simp
qed blast

section \<open>Reachable stores\<close>

text \<open>C5: The mutations of the store keep its authority. From a published collection, any sequence of decisions, resets, selections, deletions
  and Template publications gives a published collection, valid and in explicit form; none of them creates or changes the Home of a Context, and
  each either leaves the collection as it was or moves it to the next 64-bit generation under another revision.\<close>

theorem store_mutations_keep_authority:
  assumes "authority_reachable pem c" "(store_step pem)\<^sup>*\<^sup>* c n"
  shows "authority_reachable pem n \<and> WorkspaceAuthorityCollection_Validate pem n = None \<and> WorkspaceAuthorityCollection_Clone n = n
    \<and> (\<forall>m. store_step pem n m \<longrightarrow> homes_kept False n m
        \<and> (m = n \<or> wac_Revision m \<noteq> wac_Revision n \<and> unat (wac_Generation m) = unat (wac_Generation n) + 1))"
  using authority_store.mutations_reachable[OF assms] authority_store.mutations_keep[OF assms] by blast

section \<open>An example\<close>

text \<open>A candidate that the Workspace of the example has been observed to need, and its observation on a collection.\<close>

definition example_observed :: PolicyCandidateAuthority where
  "example_observed =
     (let payload = semanticDigest (PolicyCandidateEffect_json (example_effect ''other.tobari.dev''))
      in \<lparr> pca_ID = policyCandidateAuthorityID example_context_id payload, pca_ContextID = example_context_id,
           pca_ObservingWorkspaceID = wb_ID example_binding, pca_PayloadDigest = payload, pca_Effect = example_effect ''other.tobari.dev'' \<rparr>)"

definition example_observation :: "WorkspaceAuthorityCollection \<Rightarrow> candidate_observation result option" where
  "example_observation c =
     Some (Inr \<lparr> obs_CollectionPresent = True, obs_CollectionGeneration = wac_Generation c, obs_CollectionRevision = wac_Revision c,
                 obs_Items = [(pca_ID example_observed, False, example_observed)] \<rparr>)"

lemma authority_id_valid: "ValidatePolicyCandidateID (policyCandidateAuthorityID i payload) = None"
proof -
  have "take 32 (hex_EncodeToString bs) = hex_EncodeToString (take 16 bs)" for bs :: "nat list"
  proof -
    have "take (2 * k) (hex_EncodeToString bs) = hex_EncodeToString (take k bs)" for k
    proof (induction bs arbitrary: k)
      case (Cons b bs)
      then show ?case by (cases k) (simp_all add: hex_EncodeToString_def)
    qed (simp add: hex_EncodeToString_def)
    from this[of 16] show ?thesis by simp
  qed
  then show ?thesis
    unfolding policyCandidateAuthorityID_def semanticDigest_def TrimPrefix_append by (simp only: digest16_def[symmetric] candidate_id_valid)
qed

lemma example_observed_fields:
  "pca_ContextID example_observed = example_context_id" "pca_ObservingWorkspaceID example_observed = wb_ID example_binding"
  "pca_Effect example_observed = example_effect ''other.tobari.dev''" "PolicyCandidateAuthority_Clone example_observed = example_observed"
  by (simp_all add: example_observed_def Let_def PolicyCandidateAuthority_Clone_def PolicyCandidateEffect_Clone_def example_effect_def)

lemma example_observed_valid: "PolicyCandidateAuthority_Validate example_observed = None"
proof -
  have "WorkspaceID_Validate (wb_ID example_binding) = None"
    using example_binding_valid unfolding WorkspaceBinding_ValidateFor_def first_error_None by blast
  then show ?thesis
    unfolding PolicyCandidateAuthority_Validate_def first_error_None reject_None first_error.simps(1) example_observed_fields
    using example_context_valid example_effects_valid(1) authority_id_valid digest_valid
    by (intro conjI) (simp_all add: example_observed_def Let_def policyCandidateEffectDigest_def guarded_def reject_def)
qed

lemma example_admissible: "admissible (\<lambda>_. True) example_owner example_template example_observed"
proof -
  have d: "PolicyMemoryDecision_Validate ''allow'' = None" by code_simp
  let ?rule = "decided_rule example_observed ''allow''"
  note rule = decided_rule_new[OF example_observed_valid d, unfolded example_observed_fields(1)]
  have s: "sorted_rules [?rule] = [?rule]" by (rule sorted_rules_id) simp_all
  have m: "PolicyMemoryRevision_Validate (memory_of example_context_id 1 [?rule]) = None"
    using memory_of_valid[of example_context_id 1 "[?rule]"] rule(2) example_context_valid by (simp add: s publishable_def)
  have p: "PublishPolicyMemory example_context_id (Some [?rule]) None = Inr (memory_of example_context_id 1 [?rule], True)"
    using m example_context_valid by (simp add: publish_first s guarded_def checked_def)
  have "body_authority (pmr_Body ?rule) = body_authority (pmr_Body (example_memory_rule ''allow'' ''other.tobari.dev''))"
    "pmb_Method (pmr_Body ?rule) = pmb_Method (pmr_Body (example_memory_rule ''allow'' ''other.tobari.dev''))"
    "pmr_Decision ?rule = pmr_Decision (example_memory_rule ''allow'' ''other.tobari.dev'')"
    by (simp_all add: example_observed_fields example_memory_rule_def Let_def body_authority_def RuleBody_def)
  then have "boundary_row (tb_Boundary example_body) ?rule = None"
    using example_boundary_rows(1)[of "''allow''"] by (simp only: boundary_row_def)
  moreover have "PolicyMemoryRevision_ValidateFor (\<lambda>_. True) (acr_PolicyMemory example_owner) example_context (tpl_Current example_template) = None"
    using snapshot_memory[OF example_snapshot] by (simp add: context_snapshot_def example_ids)
  ultimately have "PolicyMemoryRevision_ValidateFor (\<lambda>_. True) (memory_of example_context_id 1 [?rule]) example_context (tpl_Current example_template) = None"
    using m unfolding validate_for by (simp add: memory_of_def example_ids) (simp add: example_template_def example_revision_def revision_of_def)
  then show ?thesis unfolding admissible_def example_observed_fields(1) example_ids using rule(1) p by blast
qed

lemma example_target:
  assumes "wac_PendingCandidates c = Some []"
  shows "candidate_target (example_observation c) c (pca_ID example_observed) = Inr (example_observed, [example_observed])"
  using assms by (simp add: candidate_target_def example_observation_def and_then_def clonePolicyCandidateAuthorities_def example_observed_fields)

lemma example_parts:
  "elems (wac_Contexts example_collection) = [example_owner]" "elems (wac_Workspaces example_collection) = [example_binding]"
  "elems (wac_Templates example_collection) = [example_template]" "wac_PendingCandidates example_collection = Some []"
  "wac_Generation example_collection = 1" "remembered example_owner = []" "pmv_Generation (acr_PolicyMemory example_owner) = 1"
  by (simp_all add: example_collection_parts example_content_parts example_owner_def owner_record_def memory_of_def)

lemma example_settled: "WorkspaceAuthorityCollection_Clone example_collection = example_collection"
  using reachable_settled[OF example_collection_reachable] by blast

text \<open>The candidate may be decided on in every collection with the Template and the Workspace of the example and a Context that has
  remembered nothing.\<close>

lemma example_decidable:
  assumes c: "elems (wac_Contexts c) = [r]" "elems (wac_Workspaces c) = [example_binding]" "elems (wac_Templates c) = [example_template]"
    "wac_PendingCandidates c = Some []" and r: "acr_Context r = example_context" "remembered r = []"
  shows "decidable (\<lambda>_. True) (example_observation c) c (pca_ID example_observed) example_observed"
    "contextRecordIndex c (pca_ContextID example_observed) = Some 0"
proof -
  have s: "stored context_id [r] example_context_id = Some r" "stored wb_ID [example_binding] (wb_ID example_binding) = Some example_binding"
    "stored tpl_ID [example_template] (cb_TemplateID example_context) = Some example_template"
    by (simp_all add: stored_def r example_ids)
  have "admissible (\<lambda>_. True) r example_template example_observed"
    using example_admissible by (simp add: admissible_def r example_ids)
  then have "candidate_check (\<lambda>_. True) c example_observed = None"
    unfolding candidate_check_valid c example_observed_fields using s r by (simp add: example_ids)
  then show "decidable (\<lambda>_. True) (example_observation c) c (pca_ID example_observed) example_observed"
    using example_target[OF c(4)] example_observed_valid by (simp add: decidable_def)
  show "contextRecordIndex c (pca_ContextID example_observed) = Some 0"
    by (simp add: contextRecordIndex_def c r example_ids example_observed_fields)
qed

abbreviation example_decided :: WorkspaceAuthorityCollection where
  "example_decided \<equiv> remember example_collection 0 (decided example_owner example_observed ''allow'') (other_effect example_observed)"

lemma example_decided_rules: "elems (pmv_Rules (decided example_owner example_observed ''allow'')) = [decided_rule example_observed ''allow'']"
  by (simp add: decided_def example_parts sorted_rules_id)

theorem decision_remembers_exactly_one_rule_witness:
  "\<exists>n. WorkspaceAuthorityCollection_Validate (\<lambda>_. True) n = None
     \<and> map remembered (elems (wac_Contexts n)) = [[decided_rule example_observed ''allow'']] \<and> wac_Generation n = 2"
proof -
  have "WorkspaceAuthorityCollection_Validate (\<lambda>_. True) example_decided = None"
    using decision_remembers_exactly_one_rule[OF example_collection_valid example_settled _
        example_decidable[OF example_parts(1-4) example_ids(4) example_parts(6)], of "''allow''"]
    by (simp add: example_parts example_ids)
  then show ?thesis by (intro exI[of _ example_decided]) (simp add: example_parts example_decided_rules)
qed

lemma example_decided_settled:
  "WorkspaceAuthorityCollection_Validate (\<lambda>_. True) example_decided = None" "WorkspaceAuthorityCollection_Clone example_decided = example_decided"
  using decided_change(2,3)[OF example_collection_valid example_settled _
        example_decidable[OF example_parts(1-4) example_ids(4) example_parts(6)], of "''allow''"]
  by (simp_all add: example_parts example_ids)

theorem reset_forgets_exactly_one_rule_witness:
  "\<exists>n. WorkspaceAuthorityCollection_Validate (\<lambda>_. True) n = None \<and> map remembered (elems (wac_Contexts n)) = [[]] \<and> wac_Generation n = 3"
proof -
  let ?r = "with_memory example_owner (decided example_owner example_observed ''allow'')" and ?ref = "pmr_ID (decided_rule example_observed ''allow'')"
  have c: "elems (wac_Contexts example_decided) = [?r]" by (simp add: example_parts)
  have p: "rule_positions (elems (wac_Contexts example_decided)) ?ref = [(0, 0)]"
    unfolding c rule_positions_def by (simp add: example_decided_rules)
  have g: "wac_Generation example_decided \<noteq> - 1" "pmv_Generation (acr_PolicyMemory (elems (wac_Contexts example_decided) ! 0)) \<noteq> - 1"
    unfolding c by (simp_all add: example_parts decided_def)
  have f: "elems (pmv_Rules (forgotten ?r ?ref)) = []" by (simp add: forgotten_def example_decided_rules sorted_rules_def)
  let ?n = "remember example_decided 0 (forgotten ?r ?ref) (\<lambda>_. True)"
  have v: "WorkspaceAuthorityCollection_Validate (\<lambda>_. True) ?n = None"
    using reset_forgets_exactly_one_rule[OF example_decided_settled g(1) p g(2)] unfolding c by simp
  have m: "map remembered (elems (wac_Contexts ?n)) = [[]]" by (simp add: example_parts f)
  have "wac_Generation ?n = 3" by (simp add: example_parts)
  with v m show ?thesis by (intro exI[of _ ?n] conjI)
qed

text \<open>The example after an Allow of the candidate has been superseded: nothing is remembered and nothing is pending.\<close>

definition example_superseding :: WorkspaceAuthorityContextRecord where
  "example_superseding = example_owner\<lparr> acr_SupersededAllows := Some [allow_supersession example_owner example_revision (decided_rule example_observed ''allow'')] \<rparr>"

definition example_superseded :: WorkspaceAuthorityCollection where
  "example_superseded =
     (let n = with_record example_collection 0 example_superseding (\<lambda>_. True)
      in n\<lparr> wac_Revision := the (workspaceAuthorityCollectionRevision n) \<rparr>)"

lemma example_supersession_valid:
  "PolicyMemoryAllowSupersession_Validate (allow_supersession example_owner example_revision (decided_rule example_observed ''allow'')) = None"
proof -
  have d: "PolicyMemoryDecision_Validate ''allow'' = None" by code_simp
  have "PolicyMemoryRevision_Validate (acr_PolicyMemory example_owner) = None" "WorkspaceTemplateRevision_Validate (\<lambda>_. True) example_revision = None"
    using snapshot_memory[OF example_snapshot] unfolding validate_for by (simp_all add: context_snapshot_def example_template_def)
  then have "SemanticDigest_Validate (pmv_Revision (acr_PolicyMemory example_owner)) = None" "SemanticDigest_Validate (rev_Revision example_revision) = None"
    "WorkspaceTemplateID_Validate (rev_TemplateID example_revision) = None"
    using digest_valid by (auto simp: memory_valid revision_valid)
  then show ?thesis
    using example_context_valid decided_rule_new(2)[OF example_observed_valid d]
    by (simp add: PolicyMemoryAllowSupersession_Validate_def reject_None allow_supersession_def example_ids example_observed_fields)
qed

lemma explicit_superseding:
  "explicit_record r \<Longrightarrow> PolicyMemoryRule_Clone (pas_Rule s) = pas_Rule s \<Longrightarrow> explicit_record (r\<lparr> acr_SupersededAllows := Some [s] \<rparr>)"
  by (cases r; cases s) (simp add: WorkspaceAuthorityContextRecord_Clone_def)

lemma example_superseding_fields:
  "acr_Context example_superseding = example_context" "remembered example_superseding = []" "same_base example_owner example_superseding"
  "explicit_record example_superseding" "acr_SupersededCandidates example_superseding = None"
  "acr_CreationDefaults example_superseding = acr_CreationDefaults example_owner"
proof -
  have "explicit_record example_owner" using explicit_collection[OF example_settled] by (simp add: example_parts)
  then show "explicit_record example_superseding"
    unfolding example_superseding_def by (rule explicit_superseding) (simp add: allow_supersession_def)
qed (simp_all add: example_superseding_def example_ids example_parts same_base_def)

lemma example_superseding_check:
  "context_check (\<lambda>_. True) (with_record example_collection 0 example_superseding (\<lambda>_. True)) example_template example_superseding = None"
proof -
  have w: "workspaces_of (with_record example_collection 0 example_superseding (\<lambda>_. True)) example_context_id = [example_binding]"
    by (simp add: workspaces_of_def example_parts example_ids)
  have "context_snapshot example_template example_superseding [example_binding] = context_snapshot example_template example_owner [example_binding]"
    by (simp add: context_snapshot_def example_superseding_def)
  moreover have "creation_retained example_template (wb_CreationDefaults example_binding)"
    by (simp add: creation_retained_def example_template_def example_binding_def)
  moreover have "PolicyMemoryAllowSupersession_Validate s = None \<and> pas_ContextID s = example_context_id \<and> pas_TemplateID s = tpl_ID example_template"
    if "s \<in> set (elems (acr_SupersededAllows example_superseding))" for s
    using that example_supersession_valid
    by (auto simp: example_superseding_def) (simp_all add: allow_supersession_def example_ids example_template_def example_revision_def revision_of_def)
  ultimately show ?thesis
    unfolding context_check_def Let_def first_error_None reject_None check_each_None first_error.simps(1) example_superseding_fields example_ids w
    using example_snapshot by (simp add: check_each_None)
qed

lemma example_superseded_settled:
  "WorkspaceAuthorityCollection_Validate (\<lambda>_. True) example_superseded = None" "WorkspaceAuthorityCollection_Clone example_superseded = example_superseded"
  "elems (wac_Contexts example_superseded) = [example_superseding]"
proof -
  let ?n = "with_record example_collection 0 example_superseding (\<lambda>_. True)"
  have i: "0 < length (elems (wac_Contexts example_collection))" by (simp add: example_parts)
  have b: "same_base (elems (wac_Contexts example_collection) ! 0) example_superseding" by (simp add: example_parts example_superseding_fields)
  have t: "stored tpl_ID (elems (wac_Templates example_collection)) (cb_TemplateID (acr_Context example_superseding)) = Some example_template"
    by (simp add: example_parts example_superseding_fields stored_def example_ids)
  obtain w where w: "workspaceAuthorityCollectionRevision ?n = Some w" using with_record_revision[OF example_collection_valid] by blast
  have n: "example_superseded = ?n\<lparr> wac_Revision := w \<rparr>" by (simp add: example_superseded_def w)
  show v: "WorkspaceAuthorityCollection_Validate (\<lambda>_. True) example_superseded = None"
    unfolding n by (rule with_record_valid[OF example_collection_valid i b _ t example_superseding_check _ w]) (simp_all add: example_parts example_superseding_fields)
  show "elems (wac_Contexts example_superseded) = [example_superseding]" by (simp add: n example_parts)
  have "example_superseded = (collection_of (wac_Generation example_collection + 1) (elems (wac_Templates example_collection))
      ((elems (wac_Contexts example_collection))[0 := example_superseding]) (elems (wac_Workspaces example_collection))
      (filter (\<lambda>_. True) (elems (wac_PendingCandidates example_collection))) (wac_DefaultTemplateID example_collection)
      (wac_CurrentContextID example_collection))\<lparr> wac_Revision := w \<rparr>"
    unfolding with_record_content[OF example_collection_valid example_settled i b example_superseding_fields(4)] n by simp
  then show "WorkspaceAuthorityCollection_Clone example_superseded = example_superseded" using collection_of_explicit v by metis
qed

theorem superseded_allow_is_never_remembered_witness:
  "decidable (\<lambda>_. True) (example_observation example_superseded) example_superseded (pca_ID example_observed) example_observed
   \<and> map remembered (elems (wac_Contexts example_superseded)) = [[]]
   \<and> (\<exists>e. applyPolicyCandidate (\<lambda>_. True) True (example_observation example_superseded) example_superseded (pca_ID example_observed) ''allow'' = Inl e)"
proof (intro conjI)
  have c: "elems (wac_Workspaces example_superseded) = [example_binding]" "elems (wac_Templates example_superseded) = [example_template]"
    "wac_PendingCandidates example_superseded = Some []" by (simp_all add: example_superseded_def Let_def example_parts)
  show "decidable (\<lambda>_. True) (example_observation example_superseded) example_superseded (pca_ID example_observed) example_observed"
    by (rule example_decidable(1)[OF example_superseded_settled(3) c example_superseding_fields(1,2)])
  show "map remembered (elems (wac_Contexts example_superseded)) = [[]]" by (simp add: example_superseded_settled example_superseding_fields)
  show "\<exists>e. applyPolicyCandidate (\<lambda>_. True) True (example_observation example_superseded) example_superseded (pca_ID example_observed) ''allow'' = Inl e"
    by (rule superseded_allow_is_never_remembered[OF example_superseded_settled(1,2) example_target[OF c(3)], of example_superseding
          "allow_supersession example_owner example_revision (decided_rule example_observed ''allow'')"])
      (simp_all add: example_superseded_settled(3) example_superseding_fields example_observed_fields example_ids,
       simp_all add: example_superseding_def allow_supersession_def)
qed

theorem store_mutations_keep_authority_witness:
  "WorkspaceAuthorityCollection_Validate (\<lambda>_. True) example_collection = None \<and> WorkspaceAuthorityCollection_Clone example_collection = example_collection"
  using store_mutations_keep_authority[OF example_collection_reachable rtranclp.rtrancl_refl] by simp

end
