(* ===== verification/Authority_Narrowing.thy ===== *)
theory Authority_Narrowing
  imports Authority_Decisions
begin

text \<open>
  What the publication of a Template source does to the remembered Denies of the Contexts
  (\<open>ApplyWorkspaceTemplateSourceByReference\<close> of \<open>internal/infra/workspaceauthoritystore/mutator.go\<close> with the superseding of
  \<open>internal/domain/tobari/workspace_authority_collection.go\<close>): every Deny is retained, and the check of the next collection
  then refuses a Boundary whose destination ceiling leaves a retained Deny outside.
\<close>

section \<open>Retained Denies\<close>

text \<open>The rules of a record that are not Allows, in explicit form, and the records that keep them for the same Context.\<close>

definition denies :: "WorkspaceAuthorityContextRecord \<Rightarrow> PolicyMemoryRule set" where
  "denies r = PolicyMemoryRule_Clone ` {x \<in> set (remembered r). pmr_Decision x \<noteq> ''allow''}"

definition retains :: "WorkspaceAuthorityContextRecord \<Rightarrow> WorkspaceAuthorityContextRecord \<Rightarrow> bool" where
  "retains r r' = (acr_Context r' = acr_Context r \<and> denies r \<subseteq> denies r')"

lemma retains_refl: "retains r r" by (simp add: retains_def)

lemma retains_trans: "retains r s \<Longrightarrow> retains s t \<Longrightarrow> retains r t" by (auto simp: retains_def)

lemma retained_lists:
  "list_all2 retains rs rs" "list_all2 retains rs ss \<Longrightarrow> list_all2 retains ss ts \<Longrightarrow> list_all2 retains rs ts"
  "list_all2 retains rs ss \<Longrightarrow> r \<in> set rs \<Longrightarrow> \<exists>s \<in> set ss. retains r s"
proof -
  show "list_all2 retains rs rs" by (rule list.rel_refl) (rule retains_refl)
  show "list_all2 retains rs ts" if "list_all2 retains rs ss" "list_all2 retains ss ts"
    by (rule list_all2_trans[OF _ that]) (rule retains_trans)
  show "\<exists>s \<in> set ss. retains r s" if "list_all2 retains rs ss" "r \<in> set rs"
    using that by (induction rs ss rule: list_all2_induct) auto
qed

lemma retained_update: "retains (rs ! i) r \<Longrightarrow> list_all2 retains rs (rs[i := r])"
  by (cases "i < length rs") (auto simp: list_all2_conv_all_nth nth_list_update retains_refl)

lemma Clone_retains: "retains r (WorkspaceAuthorityContextRecord_Clone r)"
proof -
  have "remembered (WorkspaceAuthorityContextRecord_Clone r) = map PolicyMemoryRule_Clone (remembered r)"
    by (simp add: WorkspaceAuthorityContextRecord_Clone_def PolicyMemoryRevision_Clone_def)
  moreover have "pmr_Decision (PolicyMemoryRule_Clone x) = pmr_Decision x" for x by (simp add: PolicyMemoryRule_Clone_def)
  ultimately have "denies r \<subseteq> denies (WorkspaceAuthorityContextRecord_Clone r)"
    by (force simp: denies_def rule_Clone_idem intro: rev_image_eqI)
  then show ?thesis by (simp add: retains_def WorkspaceAuthorityContextRecord_Clone_def)
qed

lemma Clones_retain: "list_all2 retains rs (cloneWorkspaceAuthorityContextRecords rs)"
  by (simp add: cloneWorkspaceAuthorityContextRecords_def list_all2_map2 list_all2_refl Clone_retains)

section \<open>Superseding retains\<close>

lemma supersede_rows_retain:
  "supersede_rows pem context template rs = Inr (remaining, removed) \<Longrightarrow> x \<in> set rs \<Longrightarrow> pmr_Decision x \<noteq> ''allow''
    \<Longrightarrow> PolicyMemoryRule_Clone x \<in> set remaining"
  by (induction rs arbitrary: remaining removed) (auto simp: check_simps split: if_splits)

lemma superseding_retains:
  assumes "SupersedePolicyMemoryAllowsOutsideBoundary pem r template = Inr (r', k)"
  shows "retains r r'"
proof -
  obtain remaining removed where rows: "supersede_rows pem (acr_Context r) template (remembered r) = Inr (remaining, removed)"
    and rest: "(if removed = [] then Inr (WorkspaceAuthorityContextRecord_Clone r, 0)
      else case PublishPolicyMemory (cb_ID (acr_Context r)) (Some remaining) (Some (acr_PolicyMemory r)) of
             Inl e \<Rightarrow> Inl (''Policy Memory supersession publication failed: '' @ e)
           | Inr (memory, changed) \<Rightarrow>
               if \<not> changed then Inl ''Policy Memory supersession publication failed: ''
               else Inr ((WorkspaceAuthorityContextRecord_Clone r)\<lparr> acr_PolicyMemory := memory,
                       acr_SupersededAllows := Some (elems (acr_SupersededAllows (WorkspaceAuthorityContextRecord_Clone r))
                         @ map (allow_supersession r template) removed),
                       acr_ActivePolicyMemory := None, acr_ActivePolicyMemoryRef := None \<rparr>, length removed)) = Inr (r', k)"
    using assms unfolding SupersedePolicyMemoryAllowsOutsideBoundary_def Let_def guarded_Inr and_then_Inr by auto
  show ?thesis
  proof (cases "removed = []")
    case True
    then show ?thesis using rest Clone_retains[of r] by auto
  next
    case False
    then obtain memory where m: "PublishPolicyMemory (cb_ID (acr_Context r)) (Some remaining) (Some (acr_PolicyMemory r)) = Inr (memory, True)"
      and r': "acr_Context r' = acr_Context r" "acr_PolicyMemory r' = memory"
      using rest by (auto split: sum.splits prod.splits if_splits)
    have "denies r \<subseteq> denies r'"
    proof
      fix y
      assume "y \<in> denies r"
      then obtain x where x: "y = PolicyMemoryRule_Clone x" "x \<in> set (remembered r)" "pmr_Decision x \<noteq> ''allow''" by (auto simp: denies_def)
      then have "y \<in> set (remembered r')"
        using supersede_rows_retain[OF rows x(2,3)] by (simp add: r'(2) published_memory(1)[OF m] sorted_rules_def image_iff) (metis rule_Clone_idem(1))
      moreover have "pmr_Decision y \<noteq> ''allow''" "y = PolicyMemoryRule_Clone y" using x by simp_all
      ultimately show "y \<in> denies r'" unfolding denies_def by blast
    qed
    then show ?thesis using r'(1) by (simp add: retains_def)
  qed
qed

lemma supersede_contexts_retain: "supersede_contexts pem i revision rs = Inr rs' \<Longrightarrow> list_all2 retains rs rs'"
  by (induction rs arbitrary: rs') (auto simp: check_simps retains_refl superseding_retains split: if_splits)

lemma supersede_candidate_retains:
  assumes "supersede_candidate pem template rs q = Inr (rs', kept, k)"
  shows "list_all2 retains rs rs'"
proof -
  have "retains r (r\<lparr> acr_SupersededCandidates := s \<rparr>)" for r s by (simp add: retains_def denies_def)
  then show ?thesis
    using assms unfolding supersede_candidate_def
    by (auto simp: check_simps retained_lists(1) retained_update split: option.splits if_splits)
qed

lemma supersede_candidates_retain: "supersede_candidates pem template rs qs = Inr (rs', kept, k) \<Longrightarrow> list_all2 retains rs rs'"
proof (induction qs arbitrary: rs kept k)
  case (Cons q qs)
  then obtain s kept' k' where "supersede_candidate pem template rs q = Inr (s, kept', k')"
    "\<exists>kept k. supersede_candidates pem template s qs = Inr (rs', kept, k)" by (auto simp: check_simps)
  then show ?case using supersede_candidate_retains Cons.IH retained_lists(2) by blast
qed (simp add: retained_lists(1))

lemma supersede_authority_retains:
  assumes "supersede_authority pem i previous revision rs qs = Inr (rs', qs')"
  shows "list_all2 retains rs rs'"
proof (cases "sl_BoundaryFingerprint (rev_Slices previous) = sl_BoundaryFingerprint (rev_Slices revision)")
  case True
  then show ?thesis using assms by (simp add: supersede_authority_def retained_lists(1))
next
  case False
  then obtain records k where r: "supersede_contexts pem i revision rs = Inr records"
    "supersede_candidates pem revision (cloneWorkspaceAuthorityContextRecords records) qs = Inr (rs', qs', k)"
    using assms by (auto simp: supersede_authority_def SupersedePolicyCandidatesOutsideBoundary_def check_simps)
  from supersede_contexts_retain[OF r(1)] Clones_retain supersede_candidates_retain[OF r(2)] show ?thesis
    using retained_lists(2) by blast
qed

section \<open>Publication retains\<close>

lemma bound_homes_retain: "list_all2 retains rs (bindContextHomeAuthority rs ws)"
proof (induction ws arbitrary: rs)
  case (Cons w ws)
  have "retains r (r\<lparr> acr_ContextHome := h, acr_CreationDefaults := d \<rparr>)" for r h d by (simp add: retains_def denies_def)
  then have "list_all2 retains rs (bind_home rs w)"
    by (auto simp: bind_home_def retained_lists(1) retained_update split: option.splits)
  then show ?case using Cons.IH[of "bind_home rs w"] retained_lists(2) by (simp add: bindContextHomeAuthority_def)
qed (simp add: bindContextHomeAuthority_def retained_lists(1))

lemma publication_retains:
  assumes e: "WorkspaceAuthorityCollection_Clone c = c" and p: "publishCollection pem c True ts cs ws qs d = Inr (n, changed)"
    and k: "list_all2 retains (elems (wac_Contexts c)) (elems cs)" and r: "r \<in> set (elems (wac_Contexts c))"
  shows "\<exists>r' \<in> set (elems (wac_Contexts n)). retains r r'"
proof (cases changed)
  case True
  let ?rs = "bindContextHomeAuthority (cloneWorkspaceAuthorityContextRecords (elems cs)) (elems ws)"
  have c: "publishCollection pem c True ts cs ws qs d = Inr (n, True)" using p True by simp
  have "set (elems (wac_Contexts n)) = set ?rs" using publication_content[OF c] by (auto simp: collection_of_def Let_def)
  moreover have "list_all2 retains (elems (wac_Contexts c)) ?rs" 
    by (rule retained_lists(2)[OF retained_lists(2)[OF k Clones_retain] bound_homes_retain])
  ultimately show ?thesis using retained_lists(3)[OF _ r] by simp
next
  case False
  obtain j where "publishWorkspaceAuthorityCollection pem ts cs ws qs d j (Some c) False = Inr (n, changed)"
    using p unfolding publishCollection_def PublishWorkspaceAuthorityCollection_def Let_def if_True guarded_Inr by blast
  from publication_step(2)[OF this False] show ?thesis using e r retains_refl by auto
qed

lemma publish_revision_retains:
  assumes e: "WorkspaceAuthorityCollection_Clone c = c" and p: "publish_revision pem c ts k name revision different = Inr (n, changed)"
    and r: "r \<in> set (elems (wac_Contexts c))"
  shows "\<exists>r' \<in> set (elems (wac_Contexts n)). retains r r'"
proof -
  have copies: "list_all2 retains (elems (wac_Contexts c)) (cloneWorkspaceAuthorityContextRecords (elems (wac_Contexts c)))" by (rule Clones_retain)
  have "n = c \<or> (\<exists>ts cs qs. list_all2 retains (elems (wac_Contexts c)) cs
      \<and> publishCollection pem c True ts (Some cs) (wac_Workspaces c) qs (wac_DefaultTemplateID c) = Inr (n, changed))"
  proof -
    obtain renamed t where m: "AdvanceWorkspaceTemplateMetadata (Some (ts ! k)) name = (Some renamed, Inr t)"
      using p by (auto simp: publish_revision_def Let_def split: prod.splits option.splits sum.splits)
    show ?thesis
    proof (cases "\<not> different \<and> tpl_Name (ts ! k) = name")
      case True
      then show ?thesis using p by (simp add: publish_revision_def Let_def m)
    next
      case False
      then obtain cs qs ts' where s: "(if different then supersede_authority pem (tpl_ID (ts ! k)) (tpl_Current (ts ! k)) revision
            (cloneWorkspaceAuthorityContextRecords (elems (wac_Contexts c))) (clonePolicyCandidateAuthorities (elems (wac_PendingCandidates c)))
          else Inr (cloneWorkspaceAuthorityContextRecords (elems (wac_Contexts c)), clonePolicyCandidateAuthorities (elems (wac_PendingCandidates c)))) = Inr (cs, qs)"
        and q: "publishCollection pem c True ts' (Some cs) (wac_Workspaces c) (Some qs) (wac_DefaultTemplateID c) = Inr (n, changed)"
        using p unfolding publish_revision_def Let_def m by (auto simp: and_then_Inr)
      have "list_all2 retains (elems (wac_Contexts c)) cs"
        using s copies supersede_authority_retains retained_lists(2)[OF copies] by (auto split: if_splits)
      then show ?thesis using q by blast
    qed
  qed
  then consider "n = c" | ts cs qs where "list_all2 retains (elems (wac_Contexts c)) (elems (Some cs))"
    "publishCollection pem c True ts (Some cs) (wac_Workspaces c) qs (wac_DefaultTemplateID c) = Inr (n, changed)" by auto
  then show ?thesis
  proof cases
    case 1
    then show ?thesis using r retains_refl by blast
  next
    case 2
    from publication_retains[OF e 2(2,1) r] show ?thesis .
  qed
qed

lemma source_retains:
  assumes e: "WorkspaceAuthorityCollection_Clone c = c" and r: "r \<in> set (elems (wac_Contexts c))"
    and a: "ApplyWorkspaceTemplateSourceByReference pem c True i name based sourceCheck body = Inr (n, changed)"
  shows "\<exists>r' \<in> set (elems (wac_Contexts n)). retains r r'"
proof (cases "List.find (\<lambda>k. tpl_ID (elems (wac_Templates c) ! k) = i) [0..<length (elems (wac_Templates c))]")
  case None
  then have "publish_created pem c True i name body = Inr (n, changed)"
    using a by (auto simp: ApplyWorkspaceTemplateSourceByReference_def split: if_splits)
  then obtain created where "(case InitializeWorkspaceTemplateMetadata pem (Some created) of
      (Some initialized, None) \<Rightarrow>
        publishCollection pem c True (Some (cloneWorkspaceTemplates (elems (wac_Templates c)) @ [WorkspaceTemplate_Clone initialized]))
          (wac_Contexts c) (wac_Workspaces c) (wac_PendingCandidates c) (wac_DefaultTemplateID c)
    | (_, Some e) \<Rightarrow> Inl e
    | (None, None) \<Rightarrow> Inl ''Template metadata owner is unavailable'') = Inr (n, changed)"
    unfolding publish_created_def Let_def and_then_Inr by blast
  then obtain ts where "publishCollection pem c True ts (wac_Contexts c) (wac_Workspaces c) (wac_PendingCandidates c) (wac_DefaultTemplateID c) = Inr (n, changed)"
    by (auto split: prod.splits option.splits)
  from publication_retains[OF e this retained_lists(1) r] show ?thesis .
next
  case (Some k)
  then obtain ts revision different where "publish_revision pem c ts k name revision different = Inr (n, changed)"
    using a by (auto simp: ApplyWorkspaceTemplateSourceByReference_def publish_existing_def Let_def check_simps)
  from publish_revision_retains[OF e this r] show ?thesis .
qed

lemma store_step_settled:
  assumes "store_step pem c n" "WorkspaceAuthorityCollection_Validate pem c = None" "WorkspaceAuthorityCollection_Clone c = c"
  shows "WorkspaceAuthorityCollection_Validate pem n = None" "WorkspaceAuthorityCollection_Clone n = n"
proof -
  have "WorkspaceAuthorityCollection_Validate pem n = None \<and> WorkspaceAuthorityCollection_Clone n = n"
    using store_step_publishes[OF assms(1)]
  proof
    assume "authority_step pem False (Some c) n"
    then obtain ts cs ws ps d i changed where "publishWorkspaceAuthorityCollection pem ts cs ws ps d i (Some c) False = Inr (n, changed)"
      by (rule step_publishes)
    from publication_step(2,3)[OF this] show ?thesis using assms(2,3) by (cases changed) simp_all
  qed (use assms(2,3) in simp)
  then show "WorkspaceAuthorityCollection_Validate pem n = None" "WorkspaceAuthorityCollection_Clone n = n" by simp_all
qed

section \<open>Denies outside a ceiling\<close>

text \<open>In an explicit collection every remembered rule is explicit, so a retained Deny is the remembered one.\<close>

lemma explicit_rule:
  assumes "WorkspaceAuthorityCollection_Clone c = c" "r \<in> set (elems (wac_Contexts c))" "x \<in> set (remembered r)"
  shows "PolicyMemoryRule_Clone x = x"
proof -
  have "WorkspaceAuthorityContextRecord_Clone r = r"
    using assms(1,2) by (cases "wac_Contexts c")
      (auto simp: WorkspaceAuthorityCollection_Clone_def cloneWorkspaceAuthorityContextRecords_def map_idI
        dest!: arg_cong[of _ _ wac_Contexts] map_eq_conv[THEN iffD1, of _ _ id, simplified])
  from arg_cong[OF this, of remembered] have "map PolicyMemoryRule_Clone (remembered r) = remembered r"
    by (simp add: WorkspaceAuthorityContextRecord_Clone_def PolicyMemoryRevision_Clone_def)
  then show ?thesis using assms(3) by (metis in_set_conv_nth nth_map length_map)
qed

lemma retained_deny:
  assumes "WorkspaceAuthorityCollection_Clone c = c" "r \<in> set (elems (wac_Contexts c))" "x \<in> set (remembered r)" "pmr_Decision x \<noteq> ''allow''"
    and "WorkspaceAuthorityCollection_Clone n = n" "r' \<in> set (elems (wac_Contexts n))" "retains r r'"
  shows "x \<in> set (remembered r')"
proof -
  have "x \<in> denies r" using assms(3,4) explicit_rule[OF assms(1-3)] unfolding denies_def by force
  then obtain y where "y \<in> set (remembered r')" "x = PolicyMemoryRule_Clone y" using assms(7) by (auto simp: retains_def denies_def)
  then show ?thesis using explicit_rule[OF assms(5,6)] by simp
qed

text \<open>Every rule of a valid collection is inside the ceiling of the Template that its Context selects.\<close>

lemma remembered_inside:
  assumes v: "WorkspaceAuthorityCollection_Validate pem c = None" and r: "r \<in> set (elems (wac_Contexts c))" "x \<in> set (remembered r)"
    and t: "t \<in> set (elems (wac_Templates c))" "tpl_ID t = cb_TemplateID (acr_Context r)"
  shows "contextPolicyRuleInsideDestination (bnd_DestinationCeiling (tb_Boundary (rev_Body (tpl_Current t)))) (body_authority (pmr_Body x))"
proof -
  obtain u where u: "stored tpl_ID (elems (wac_Templates c)) (cb_TemplateID (acr_Context r)) = Some u" "context_check pem c u r = None"
    using collection_parts(12)[OF v r(1)] by blast
  have "u = t" using stored_unique[OF collection_parts(3)[OF v] t(1)] u(1) t(2) by simp
  then have "boundary_row (tb_Boundary (rev_Body (tpl_Current t))) x = None"
    using snapshot_memory[OF context_check_parts(1)[OF u(2)]] r(2) unfolding validate_for by (simp add: context_snapshot_def)
  then show ?thesis unfolding boundary_row_def first_error_None reject_None by blast
qed

text \<open>C38: A remembered Deny blocks the narrowing that should retain it. In a stored collection let a Context of a Template remember a
  Deny of any destination. Every publication of a source for any Template that succeeds keeps the Deny: its Context stays and still
  remembers it. And no publication for the Context's own Template, under any name, source check and source, succeeds with a body
  whose destination ceiling leaves the denied destination outside: superseding drops Allows only, and the check of the next
  collection refuses the Deny under the narrower Boundary.\<close>

theorem remembered_deny_blocks_narrowing:
  assumes v: "WorkspaceAuthorityCollection_Validate pem c = None" and e: "WorkspaceAuthorityCollection_Clone c = c"
    and r: "r \<in> set (elems (wac_Contexts c))" and x: "x \<in> set (remembered r)" "pmr_Decision x = ''deny''"
    and out: "\<not> contextPolicyRuleInsideDestination (bnd_DestinationCeiling (tb_Boundary b)) (body_authority (pmr_Body x))"
  shows "(\<forall>i name based sourceCheck body n changed.
        ApplyWorkspaceTemplateSourceByReference pem c True i name based sourceCheck body = Inr (n, changed)
        \<longrightarrow> (\<exists>r' \<in> set (elems (wac_Contexts n)). acr_Context r' = acr_Context r \<and> x \<in> set (remembered r')))
    \<and> \<not> (\<exists>name based sourceCheck body n changed t.
        ApplyWorkspaceTemplateSourceByReference pem c True (cb_TemplateID (acr_Context r)) name based sourceCheck body = Inr (n, changed)
        \<and> t \<in> set (elems (wac_Templates n)) \<and> tpl_ID t = cb_TemplateID (acr_Context r) \<and> rev_Body (tpl_Current t) = b)"
proof -
  have kept: "WorkspaceAuthorityCollection_Validate pem n = None
      \<and> (\<exists>r' \<in> set (elems (wac_Contexts n)). acr_Context r' = acr_Context r \<and> x \<in> set (remembered r'))"
    if a: "ApplyWorkspaceTemplateSourceByReference pem c True i name based sourceCheck body = Inr (n, changed)"
    for i name based sourceCheck body n changed
  proof -
    note s = store_step_settled[OF store_step.apply_source[OF a] v e]
    obtain r' where r': "r' \<in> set (elems (wac_Contexts n))" "retains r r'" using source_retains[OF e r a] by blast
    have "x \<in> set (remembered r')" using retained_deny[OF e r x(1) _ s(2) r'] x(2) by simp
    then show ?thesis using s(1) r' unfolding retains_def by blast
  qed
  moreover have False
    if a: "ApplyWorkspaceTemplateSourceByReference pem c True (cb_TemplateID (acr_Context r)) name based sourceCheck body = Inr (n, changed)"
      and t: "t \<in> set (elems (wac_Templates n))" "tpl_ID t = cb_TemplateID (acr_Context r)" "rev_Body (tpl_Current t) = b"
    for name based sourceCheck body n changed t
  proof -
    obtain r' where r': "r' \<in> set (elems (wac_Contexts n))" "acr_Context r' = acr_Context r" "x \<in> set (remembered r')"
      and n: "WorkspaceAuthorityCollection_Validate pem n = None" using kept[OF a] by blast
    from remembered_inside[OF n r'(1,3) t(1)] show False using r'(2) t(2,3) out by simp
  qed
  ultimately show ?thesis by blast
qed

text \<open>The example collection after a Deny of the candidate, whose destination the narrow body leaves outside.\<close>

theorem remembered_deny_blocks_narrowing_witness:
  "\<exists>c. WorkspaceAuthorityCollection_Validate (\<lambda>_. True) c = None
     \<and> map remembered (elems (wac_Contexts c)) = [[decided_rule example_observed ''deny'']]
     \<and> \<not> (\<exists>name based sourceCheck body n changed t.
          ApplyWorkspaceTemplateSourceByReference (\<lambda>_. True) c True (cb_TemplateID example_context) name based sourceCheck body = Inr (n, changed)
          \<and> t \<in> set (elems (wac_Templates n)) \<and> tpl_ID t = cb_TemplateID example_context \<and> rev_Body (tpl_Current t) = narrow_body)"
proof -
  let ?c = "remember example_collection 0 (decided example_owner example_observed ''deny'') (other_effect example_observed)"
  let ?r = "with_memory example_owner (decided example_owner example_observed ''deny'')" and ?x = "decided_rule example_observed ''deny''"
  have s: "WorkspaceAuthorityCollection_Validate (\<lambda>_. True) ?c = None" "WorkspaceAuthorityCollection_Clone ?c = ?c"
    using decided_change(2,3)[OF example_collection_valid example_settled _
        example_decidable[OF example_parts(1-4) example_ids(4) example_parts(6)], of "''deny''"]
    by (simp_all add: example_parts example_ids)
  have c: "elems (wac_Contexts ?c) = [?r]" by (simp add: example_parts)
  have m: "remembered ?r = [?x]" by (simp add: decided_def example_parts sorted_rules_id)
  have i: "acr_Context ?r = example_context" by (simp add: example_ids)
  have "body_authority (pmr_Body ?x) = \<lparr> mpa_Scheme = ''https'', mpa_Host = ''other.tobari.dev'', mpa_Port = 443 \<rparr>"
    by (simp add: body_authority_def example_observed_fields RuleBody_def example_effect_def base_identity_def)
  moreover have "\<not> contextPolicyRuleInsideDestination (bnd_DestinationCeiling (tb_Boundary narrow_body)) \<lparr> mpa_Scheme = ''https'', mpa_Host = ''other.tobari.dev'', mpa_Port = 443 \<rparr>"
    by code_simp
  ultimately have out: "\<not> contextPolicyRuleInsideDestination (bnd_DestinationCeiling (tb_Boundary narrow_body)) (body_authority (pmr_Body ?x))" by simp
  have "?r \<in> set (elems (wac_Contexts ?c))" "?x \<in> set (remembered ?r)" "pmr_Decision ?x = ''deny''" unfolding c m by simp_all
  note blocked = remembered_deny_blocks_narrowing[OF s this out, THEN conjunct2, unfolded i]
  have "map remembered (elems (wac_Contexts ?c)) = [[?x]]" unfolding c using m by simp
  from s(1) this blocked show ?thesis by (intro exI[of _ ?c] conjI)
qed

end
