(* ===== verification/Spec2Isabelle.thy ===== *)
theory Spec2Isabelle
  imports Template_Policy Semantic_Properties Review_Decisions Wait_Registry Service_Exposure Manifest_Policy
    Template_Changes Authority_Narrowing
begin

text \<open>
  A verification library for the policy core of Tobari (Go, \<open>src/internal/domain/tobari\<close>, the permission wait
  registry of \<open>src/internal/infra/dockerruntime\<close> and the mutations of \<open>src/internal/infra/workspaceauthoritystore\<close>).

  Tobari runs agent workspaces behind an egress gateway. The gateway denies every request that the operator has not
  admitted. What is admitted is data: the Template semantic policy (declared Allow and Deny rules of seven protocol
  modules) and Policy Memory (rules learned from reviewed denials, exact or with a one-placeholder path template, and
  exact Deny rules). A denial becomes a pending candidate of the Permission Inbox, the Inbox groups candidates into
  review items, and a confirmed review adds a rule, or, for a Host Loopback destination, a grant that lives as
  long as one attachment. The code modelled here decides which of these values are valid, which request a rule
  matches, which denials are still pending, and what a review produces. Most of it is pure code: the state is the
  rule and candidate collections, which the operations take and return. A process inside the workspace can wait for the
  decision on a denied request; the registry of these waits is shared by concurrent calls, and its interleavings are
  a step relation. Around this core stand the Workspace Manifest policy, which bounds destinations and methods,
  and the exposure of Workspace services to the host. Above it stands the Workspace Authority: a Template is a history of
  revisions, each with a body (boundary, policy, entry, session and creation defaults) and the digests of its parts; a
  Context binds a Template and owns Policy Memory and Workspaces; a snapshot of a Context is what a Workspace is entered
  from, and entering it binds a session to exactly that snapshot. All Templates, Contexts, Workspaces and pending candidates of
  an installation are one collection, which every mutation of the store replaces as a whole.

  \<^bold>\<open>Conventions.\<close> A Go struct is a record (the fields of two structs that clash carry a prefix), a defined string
  type is a \<open>string\<close> of bytes, a \<open>nil\<close> slice that the code tells apart from the empty one is an option, an
  \<open>error\<close> is an \<open>error option\<close> (type \<open>check\<close>) and a pair of value and error is a sum. A sequence of early
  returns is \<open>first_error\<close> of the list of its checks, in the order of the source. The text of an error is kept
  where the code has a literal; the argument of a format verb is dropped. Go \<open>int\<close> values are HOL integers: the
  modelled code only compares them, counts elements and counts observations, far below the word size. Regular
  expressions are boolean functions that say what the expression says, character by character. Ranging over a Go
  map is a parameter (a permutation of the entries) wherever the result might depend on it. SHA-256 is
  computed (\<open>Go_Crypto\<close>); no theorem assumes it is injective: claims about references are claims about the hashed
  string, or have the hypothesis that the finitely many strings the claim compares do not collide. Generations of the
  Workspace Authority are 64-bit words, and their increment wraps.

  \<^bold>\<open>Theories.\<close>
  \<^item> \<open>Go_Prelude\<close>: errors as values, the combinators for early returns, and the parts of the packages
    \<open>strings\<close>, \<open>strconv\<close>, \<open>unicode\<close> and \<open>net\<close> that the code uses, with their laws. \<open>Go_Crypto\<close>: SHA-256 on
    32-bit words and the truncated hexadecimal digest. \<open>Go_Time\<close>: parsing of RFC 3339 times with nanoseconds.
  \<^item> \<open>Policy_Identity\<close> (\<open>policy.go\<close>, \<open>tobari.go\<close>, \<open>context.go\<close>): patterns, closed vocabularies, hosts, paths,
    scopes and the protocol identity.
  \<^item> \<open>Path_Template\<close> (\<open>policy_template.go\<close>): raw path segments, inference and matching of templates. An inferred
    template matches both examples; its only possible defect is an overlong literal.
  \<^item> \<open>Semantic_Module\<close>, \<open>Identity_Material\<close>, \<open>Semantic_Properties\<close> (\<open>semantic_module.go\<close>): the module table,
    validation of identities and effects for each module, the hashed identity material, the registry check and the
    selection of the most specific module. The material determines the identity, an identity sets only the fields of
    its module, a malformed claim never falls back, OCI tokens round-trip.
  \<^item> \<open>Semantic_Authority\<close>, \<open>Semantic_Rules\<close> (\<open>semantic_http.go\<close>, \<open>semantic_graphql.go\<close>, \<open>semantic_mcp.go\<close>,
    \<open>semantic_git.go\<close>, \<open>semantic_oci.go\<close>, \<open>semantic_aws.go\<close>, \<open>semantic_kubernetes.go\<close>): authorities, endpoints
    and the rules of the seven modules with validation, matching, coverage and canonical keys.
  \<^item> \<open>Rule_Coverage\<close>: the locales \<open>covering_rules\<close>, \<open>host_rule\<close> and \<open>exact_rules\<close> state what the shadow check
    of a policy needs of a rule type; every module interprets them.
  \<^item> \<open>Semantic_Policy\<close>, \<open>Policy_Normal_Form\<close>, \<open>Template_Policy\<close> (\<open>semantic_policy.go\<close>): the collection of module
    policies, endpoint expansion, the Method Boundary check and the normal form. The locales \<open>canonical_rules\<close> and
    \<open>normal_policy\<close> state what normalization needs of a rule type. Every declared Allow rule of a validated
    policy is live where coverage is exact; a refused one is dead; the normal form is canonical, idempotent,
    keeps validity and keeps the meaning.
  \<^item> \<open>Policy_Rules\<close> (\<open>policy.go\<close>): denials, candidates, learned rules, Deny rules and the projection identity.
  \<^item> \<open>Policy_Candidates\<close>, \<open>Policy_Learning\<close> (\<open>policy.go\<close>): the aggregation of denials into the Inbox. It refines a
    declarative definition over the denial list, loses no uncovered denial, and an exact decision covers exactly
    the denials of its effect and Workspace.
  \<^item> \<open>Policy_Inventory\<close> (\<open>policy.go\<close>): the common view of current rules and the removal of one.
  \<^item> \<open>Host_Loopback\<close> (\<open>host_loopback.go\<close>): routes, capabilities, attachment grants and their publication receipts.
  \<^item> \<open>Policy_Review\<close>, \<open>Review_Items\<close>, \<open>Review_Decisions\<close> (\<open>policy_template.go\<close>, \<open>policy.go\<close>): template proposals,
    review items, decisions, receipts and result records. Every pending candidate is shown once, a reviewed template has exactly its
    scope, and the Workspace that a proposal is bound to depends on the iteration order of a Go map.
  \<^item> \<open>Permission_Wait\<close> (\<open>permission_wait.go\<close>): owner sessions with renewable leases, the access state of a wait and
    wait records. Renewals keep the owner and advance the lease; path segments round-trip through their encoding.
  \<^item> \<open>Wait_Registry\<close> (\<open>internal/infra/dockerruntime/permission_wait_registry.go\<close>): the registry with its operations
    under the mutex, the rounds of one wait, and the interleavings of all calls. The invariant bounds records and
    attempts in every reachable state, a wait returns within 184 rounds, and its result is fenced.
  \<^item> \<open>Service_Exposure\<close> (\<open>service_exposure.go\<close>): requests, exposures, snapshots and summaries. The access URL
    and its parser are inverse, and the summary of a valid snapshot is exact.
  \<^item> \<open>Manifest_Policy\<close> (\<open>context_policy.go\<close>): the Manifest policy, its validation and normal form, and the
    composition with a method policy, which succeeds exactly when no exact Deny has a denied method and never
    adds authority.
  \<^item> \<open>Go_JSON\<close>, \<open>Go_Time_Format\<close>: the encoding of \<open>encoding/json\<close> for the types that are hashed, as a function of a
    JSON tree, with the proof that it can be read back (so equal encodings have equal trees), and the printing of times.
  \<^item> \<open>Authority_Identity\<close> (\<open>workspace_authority.go\<close>, \<open>project.go\<close>): UUIDv7 identifiers and their references, digests,
    resource names and the network authority of a Workspace, with their bounds.
  \<^item> \<open>Template_Settings\<close>, \<open>Template_Bootstrap\<close>, \<open>Template_Body\<close>, \<open>Template_JSON\<close> (\<open>context.go\<close>, \<open>runtime_library.go\<close>,
    \<open>bootstrap.go\<close>, \<open>workspace_authority.go\<close>): the parts of a Template body, their validation, clones, encodings and
    digests. Shell changes refine a map update; a bootstrap revision binds its content.
  \<^item> \<open>Template_Revisions\<close>, \<open>Template_Changes\<close> (\<open>workspace_authority.go\<close>, \<open>workspace_template_change.go\<close>): revisions, their
    history, names, copies, the authorities derived from them, and the typed changes. Every reachable Template is
    valid and counts its generations; a change touches one dimension and is idempotent; digests identify content.
  \<^item> \<open>Policy_Memory\<close> (\<open>workspace_authority.go\<close>): remembered rules, their identifiers, publication under the next
    generation and the check against a Template boundary.
  \<^item> \<open>Authority_Snapshot\<close> (\<open>workspace_authority.go\<close>): Workspace bindings, applied entries, activation receipts, the
    snapshot of a Context, selection, entry plans and receipts, session identities and bindings.
  \<^item> \<open>Authority_Records\<close> (\<open>workspace_authority_collection.go\<close>): the stored record of a Context and the superseding of
    remembered Allows and pending candidates when a Template boundary becomes narrower.
  \<^item> \<open>Authority_Collection\<close> (\<open>workspace_authority_collection.go\<close>): the collection, its revision, its check, its
    publication and its snapshots. A valid collection isolates its authorities; publications are a step relation, under
    which Homes are created once and generations never wrap; the snapshots are a projection. The locale \<open>publishing_store\<close>
    says what a store of the collection promises.
  \<^item> \<open>Authority_Store\<close> (\<open>internal/infra/workspaceauthoritystore/mutator.go\<close>, \<open>workspace_authority.go\<close>): the mutations that decide
    on a candidate, reset a rule, select, delete and publish a Template source, as functions of the collection that was read, and the
    reports they return. They interpret \<open>publishing_store\<close>.
  \<^item> \<open>Authority_Decisions\<close>: a decision adds exactly one rule to the memory of one Context, a reset removes exactly one, and
    their reports pass their own checks; a superseded Allow cannot be remembered again.
  \<^item> \<open>Authority_Narrowing\<close>: every publication of a Template source keeps the remembered Denies, and none can succeed with a destination
    ceiling that leaves a remembered Deny of the Template's Contexts outside.

  \<^bold>\<open>Bounds.\<close> Every definition is a total function; recursion is structural, or has a termination measure, so there
  is no fuel. The bisection of \<open>sort.Search\<close> ends because its interval shrinks, after at most \<open>n\<close> tests for fewer than \<open>2 ^ n\<close>
  elements. The loop of a wait reads its environment (clock, owner state, observer, timer) from a list of rounds and is
  undecided when the list ends; 184 rounds are enough: the delays of 1, 2, 4 and then 5 seconds add up to more than
  the longest lease of fifteen minutes plus the accepted clock skew of five seconds. Lengths and counts are those of the source (4096-byte paths, 253-byte hosts, 128 decisions and so on).

  \<^bold>\<open>Not modelled.\<close> YAML and the decoding of JSON, files, locks, containers, the command line and the terminal
  interface (\<open>internal/infra\<close>, \<open>internal/cli\<close>, \<open>cmd\<close>): they are I/O around the values above. The Rego policy
  and the Python gateway are other languages. The copies of the sources under \<open>runtimeassets/_helper-source\<close> are
  generated. Of the Workspace Authority, the creation of Contexts and the entry of Workspaces in the store, the journal and the settlement around a
  mutation, the reviewed sets, the cluster records and the migration are left out, and so are the Context and Runtime catalogues, the configurator
  plans, the built-in baseline of the Manifest policy and its native readiness overlay. The encoder that the Manifest
  revision hashes, the parsing of certificates (\<open>pem\<close>, the package \<open>crypto/x509\<close>), the entropy source, the clock, the
  timers, the disposition observer, the observation of candidates, and the confirmations that a mutation asks for are parameters.
\<close>

end
